(* ===== verification/Prelude.thy ===== *)
theory Prelude
  imports Main "HOL-Library.Word"
begin

text \<open>
  Shared vocabulary of the development: the machine integer types of
  \<^verbatim>\<open>common/Pcsx2Types.h\<close>, bit extensionality for the widths the program uses,
  the little-endian byte view of a word, byte-addressed memory with block reads and writes,
  the ordered associative container that stands for \<^verbatim>\<open>std::map\<close>, and the
  interface of a transition system with an invariant.
\<close>

unbundle bit_operations_syntax

subsection \<open>Machine integers\<close>

type_synonym u8 = "8 word"
type_synonym u16 = "16 word"
type_synonym u32 = "32 word"
type_synonym u64 = "64 word"
type_synonym u128 = "128 word"

text \<open>\<^verbatim>\<open>size_t\<close> and \<^verbatim>\<open>uptr\<close> are 32 bits wide on the
  Cortex-A9 target; a null pointer is address 0.\<close>

type_synonym size_t = "32 word"
type_synonym uptr = "32 word"

named_theorems encoder_defs "definitions of the A32 instruction encoders"
named_theorems emitter_defs "definitions of the code buffer emitters"
named_theorems iop_defs "definitions of the IOP operations"
named_theorems ee_defs "definitions of the EE operations and of their helpers"

subsection \<open>Bit extensionality by enumeration of the bit positions\<close>

lemma word_bits_iff:
  "(x::'a::len word) = y \<longleftrightarrow> list_all (\<lambda>n. bit x n = bit y n) [0..<LENGTH('a)]"
  by (auto simp: list_all_iff intro: bit_word_eqI)

lemma upt_8: "[0..<8] = [0, 1, 2, 3, 4, 5, 6, 7::nat]"
  by (simp add: upt_rec)

lemma upt_16: "[0..<16] = [0, 1, 2, 3, 4, 5, 6, 7, 8, 9, 10, 11, 12, 13, 14, 15::nat]"
  by (simp add: upt_rec)

lemma upt_32: "[0..<32] = [0, 1, 2, 3, 4, 5, 6, 7, 8, 9, 10, 11, 12, 13, 14, 15,
   16, 17, 18, 19, 20, 21, 22, 23, 24, 25, 26, 27, 28, 29, 30, 31::nat]"
  by (simp add: upt_rec)

lemma upt_64: "[0..<64] = [0, 1, 2, 3, 4, 5, 6, 7, 8, 9, 10, 11, 12, 13, 14, 15,
   16, 17, 18, 19, 20, 21, 22, 23, 24, 25, 26, 27, 28, 29, 30, 31,
   32, 33, 34, 35, 36, 37, 38, 39, 40, 41, 42, 43, 44, 45, 46, 47,
   48, 49, 50, 51, 52, 53, 54, 55, 56, 57, 58, 59, 60, 61, 62, 63::nat]"
  by (simp add: upt_rec)

lemma word8_eq_iff: "(x::u8) = y \<longleftrightarrow> list_all (\<lambda>n. bit x n = bit y n) [0..<8]"
  using word_bits_iff [of x y] by simp

lemma word16_eq_iff: "(x::u16) = y \<longleftrightarrow> list_all (\<lambda>n. bit x n = bit y n) [0..<16]"
  using word_bits_iff [of x y] by simp

lemma word32_eq_iff: "(x::u32) = y \<longleftrightarrow> list_all (\<lambda>n. bit x n = bit y n) [0..<32]"
  using word_bits_iff [of x y] by simp

lemma word64_eq_iff: "(x::u64) = y \<longleftrightarrow> list_all (\<lambda>n. bit x n = bit y n) [0..<64]"
  using word_bits_iff [of x y] by simp

text \<open>Rewriting a word equation with one of these collections and \<open>bit_simps\<close>
  evaluates it bit by bit.\<close>

lemmas word8_bitwise = word8_eq_iff upt_8
lemmas word16_bitwise = word16_eq_iff upt_16
lemmas word32_bitwise = word32_eq_iff upt_32
lemmas word64_bitwise = word64_eq_iff upt_64

lemma word_less_exp_bits:
  "(x::'a::len word) < 2 ^ n \<Longrightarrow> n \<le> i \<Longrightarrow> \<not> bit x i"
  by (drule less_mask_eq) (metis bit_and_iff bit_mask_iff not_less)

lemma word_less_16_bits: "(x::u32) < 16 \<Longrightarrow> 4 \<le> i \<Longrightarrow> \<not> bit x i"
  using word_less_exp_bits [of x 4] by simp

lemma word_less_32_bits: "(x::u32) < 32 \<Longrightarrow> 5 \<le> i \<Longrightarrow> \<not> bit x i"
  using word_less_exp_bits [of x 5] by simp

lemma word_and_15_id: "(x::u32) < 16 \<Longrightarrow> x AND 15 = x"
  using less_mask_eq [of x 4] by (simp add: mask_eq_exp_minus_1)

lemma word_and_15_less: "(x::u32) AND 15 < 16"
  using word_and_le1 [of x 15] by (rule order.strict_trans1) simp

lemma word_and_3_iff: "(x::u32) AND 3 = 0 \<longleftrightarrow> unat x mod 4 = 0"
proof -
  have "x AND 3 = take_bit 2 x" by (simp add: take_bit_eq_mask mask_eq_exp_minus_1)
  moreover have "unat (take_bit 2 x) = unat x mod 4"
    by (simp add: take_bit_eq_mod unat_mod)
  ultimately show ?thesis by (metis unat_eq_zero)
qed

lemma word_and_31_id: "(x::u32) < 32 \<Longrightarrow> x AND 31 = x"
  using less_mask_eq [of x 5] by (simp add: mask_eq_exp_minus_1)

lemma bit_u8_beyond [simp]: "8 \<le> n \<Longrightarrow> \<not> bit (x::u8) n"
  by (auto dest: bit_imp_le_length)

lemma bit_u16_beyond [simp]: "16 \<le> n \<Longrightarrow> \<not> bit (x::u16) n"
  by (auto dest: bit_imp_le_length)

lemma bit_u32_beyond [simp]: "32 \<le> n \<Longrightarrow> \<not> bit (x::u32) n"
  by (auto dest: bit_imp_le_length)

lemma bit_u64_beyond [simp]: "64 \<le> n \<Longrightarrow> \<not> bit (x::u64) n"
  by (auto dest: bit_imp_le_length)

subsection \<open>Little-endian bytes of a word\<close>

definition u32_bytes :: "u32 \<Rightarrow> u8 list" where
  "u32_bytes w = [ucast w, ucast (drop_bit 8 w), ucast (drop_bit 16 w), ucast (drop_bit 24 w)]"

definition bytes_u32 :: "u8 list \<Rightarrow> u32" where
  "bytes_u32 bs = (case bs of
     [a, b, c, d] \<Rightarrow> ucast a OR push_bit 8 (ucast b) OR push_bit 16 (ucast c) OR push_bit 24 (ucast d)
   | _ \<Rightarrow> 0)"

lemma length_u32_bytes [simp]: "length (u32_bytes w) = 4"
  by (simp add: u32_bytes_def)

lemma bytes_u32_u32_bytes [simp]: "bytes_u32 (u32_bytes w) = w"
  by (simp add: u32_bytes_def bytes_u32_def word32_bitwise bit_simps)

lemma u32_bytes_bytes_u32:
  assumes "length bs = 4"
  shows "u32_bytes (bytes_u32 bs) = bs"
proof -
  from assms obtain a b c d where "bs = [a, b, c, d]"
    by (auto simp: length_Suc_conv numeral_eq_Suc)
  then show ?thesis
    by (simp add: u32_bytes_def bytes_u32_def word8_bitwise bit_simps)
qed

lemma u32_bytes_inject [simp]: "u32_bytes v = u32_bytes w \<longleftrightarrow> v = w"
  by (metis bytes_u32_u32_bytes)

subsection \<open>Byte-addressed memory\<close>

type_synonym memory = "uptr \<Rightarrow> u8"

text \<open>\<open>mem_write\<close> is \<^verbatim>\<open>memcpy\<close> into memory and \<open>mem_read\<close> is
  \<^verbatim>\<open>memcpy\<close> out of it; addresses wrap at 32 bits.\<close>

definition mem_write :: "memory \<Rightarrow> uptr \<Rightarrow> u8 list \<Rightarrow> memory" where
  "mem_write m a bs = (\<lambda>p. if unat (p - a) < length bs then bs ! unat (p - a) else m p)"

definition mem_read :: "memory \<Rightarrow> uptr \<Rightarrow> nat \<Rightarrow> u8 list" where
  "mem_read m a n = map (\<lambda>i. m (a + of_nat i)) [0..<n]"

lemma length_mem_read [simp]: "length (mem_read m a n) = n"
  by (simp add: mem_read_def)

lemma nth_mem_read [simp]: "i < n \<Longrightarrow> mem_read m a n ! i = m (a + of_nat i)"
  by (simp add: mem_read_def)

lemma mem_read_0 [simp]: "mem_read m a 0 = []"
  by (simp add: mem_read_def)

lemma mem_write_Nil [simp]: "mem_write m a [] = m"
  by (simp add: mem_write_def)

lemma unat_of_nat_u32: "n < 2 ^ 32 \<Longrightarrow> unat (of_nat n :: u32) = n"
  by (simp add: unat_of_nat take_bit_nat_eq_self)

lemma unat_u32_less: "unat (n::u32) < 2 ^ 32"
  using unsigned_less [where 'a = nat, of n] by simp

lemma mem_write_inside:
  assumes "i < length bs" and "length bs \<le> 2 ^ 32"
  shows "mem_write m a bs (a + of_nat i) = bs ! i"
  using assms by (simp add: mem_write_def unat_of_nat_u32)

lemma mem_write_outside: "length bs \<le> unat (p - a) \<Longrightarrow> mem_write m a bs p = m p"
  by (simp add: mem_write_def)

lemma mem_read_write:
  "length bs \<le> 2 ^ 32 \<Longrightarrow> mem_read (mem_write m a bs) a (length bs) = bs"
  by (rule nth_equalityI) (simp_all add: mem_write_inside)

lemma mem_read_cong:
  "(\<And>i. i < n \<Longrightarrow> m (a + of_nat i) = m' (a + of_nat i)) \<Longrightarrow> mem_read m a n = mem_read m' a n"
  by (simp add: mem_read_def)

lemma unat_plus_small:
  fixes d :: u32
  assumes "k < 2 ^ 32"
  shows "unat (d + of_nat k) = (if unat d + k < 2 ^ 32 then unat d + k else unat d + k - 2 ^ 32)"
  using assms unat_u32_less [of d] by (simp add: unat_word_ariths unat_of_nat_u32 mod_if)

text \<open>Two adjacent block writes are one.\<close>

lemma mem_write_extend:
  assumes "length xs + length ys < 2 ^ 32"
  shows "mem_write (mem_write m a xs) (a + of_nat (length xs)) ys = mem_write m a (xs @ ys)"
proof
  fix q
  let ?d = "q - a"
  have d: "q - (a + of_nat (length xs)) = ?d - of_nat (length xs)" by simp
  have l: "unat (of_nat (length xs) :: u32) = length xs" using assms by (intro unat_of_nat_u32) simp
  show "mem_write (mem_write m a xs) (a + of_nat (length xs)) ys q = mem_write m a (xs @ ys) q"
  proof (cases "length xs \<le> unat ?d")
    case True
    then have "unat (?d - of_nat (length xs)) = unat ?d - length xs"
      using l by (simp add: unat_sub word_le_nat_alt)
    then show ?thesis using True by (auto simp: mem_write_def d nth_append)
  next
    case False
    have e: "?d = (?d - of_nat (length xs)) + of_nat (length xs)" by simp
    have "unat ?d = (if unat (?d - of_nat (length xs)) + length xs < 2 ^ 32
        then unat (?d - of_nat (length xs)) + length xs else unat (?d - of_nat (length xs)) + length xs - 2 ^ 32)"
      using unat_plus_small [of "length xs" "?d - of_nat (length xs)"] assms by simp
    then have "\<not> unat (?d - of_nat (length xs)) < length ys" using False assms by (auto split: if_splits)
    then show ?thesis using False by (auto simp: mem_write_def d nth_append)
  qed
qed

lemma mem_read_append: "mem_read m a n @ mem_read m (a + of_nat n) k = mem_read m a (n + k)"
  by (rule nth_equalityI) (auto simp: nth_append)

text \<open>A block write inside a larger block replaces the bytes in place.\<close>

lemma mem_read_write_sub:
  assumes "k + length bs \<le> n" and "n < 2 ^ 32"
  shows "mem_read (mem_write m (a + of_nat k) bs) a n =
    take k (mem_read m a n) @ bs @ drop (k + length bs) (mem_read m a n)"
proof (rule nth_equalityI)
  show "length (mem_read (mem_write m (a + of_nat k) bs) a n) =
      length (take k (mem_read m a n) @ bs @ drop (k + length bs) (mem_read m a n))"
    using assms by simp
next
  fix i assume "i < length (mem_read (mem_write m (a + of_nat k) bs) a n)"
  then have i: "i < n" by simp
  have diff: "unat (a + of_nat i - (a + of_nat k) :: u32) =
      (if k \<le> i then i - k else 2 ^ 32 + i - k)"
  proof (cases "k \<le> i")
    case True
    then have "(a + of_nat i - (a + of_nat k) :: u32) = of_nat (i - k)"
      by (simp add: of_nat_diff)
    moreover have "unat (of_nat (i - k) :: u32) = i - k"
      using i assms by (intro unat_of_nat_u32) simp
    ultimately show ?thesis using True by simp
  next
    case False
    have "unat (of_nat i - of_nat k :: u32) = 2 ^ 32 + i - k"
      using False i assms by (simp add: unat_sub_if' unat_of_nat_u32)
    with False show ?thesis by simp
  qed
  show "mem_read (mem_write m (a + of_nat k) bs) a n ! i =
      (take k (mem_read m a n) @ bs @ drop (k + length bs) (mem_read m a n)) ! i"
    using i assms diff by (auto simp: mem_write_def nth_append)
qed

subsection \<open>Ordered maps keyed by addresses\<close>

text \<open>
  \<^verbatim>\<open>std::map<uptr, T>\<close> as an association list in ascending key order:
  \<open>omap_emplace\<close> keeps an existing entry and says whether it inserted,
  \<open>omap_floor\<close> is \<^verbatim>\<open>upper_bound\<close> followed by a decrement, the entry with the
  greatest key not above the argument (\<open>None\<close> where \<^verbatim>\<open>upper_bound\<close> is
  \<^verbatim>\<open>begin()\<close>).
\<close>

type_synonym 'v omap = "(uptr \<times> 'v) list"

fun omap_emplace :: "uptr \<Rightarrow> 'v \<Rightarrow> 'v omap \<Rightarrow> bool \<times> 'v omap" where
  "omap_emplace k v [] = (True, [(k, v)])"
| "omap_emplace k v ((k', v') # m) =
     (if k < k' then (True, (k, v) # (k', v') # m)
      else if k = k' then (False, (k', v') # m)
      else (case omap_emplace k v m of (b, m') \<Rightarrow> (b, (k', v') # m')))"

definition omap_find :: "uptr \<Rightarrow> 'v omap \<Rightarrow> 'v option" where
  "omap_find k m = map_of m k"

definition omap_erase :: "uptr \<Rightarrow> 'v omap \<Rightarrow> 'v omap" where
  "omap_erase k m = filter (\<lambda>e. fst e \<noteq> k) m"

fun omap_floor :: "uptr \<Rightarrow> 'v omap \<Rightarrow> (uptr \<times> 'v) option" where
  "omap_floor k [] = None"
| "omap_floor k ((k', v') # m) =
     (if k < k' then None
      else (case omap_floor k m of None \<Rightarrow> Some (k', v') | Some e \<Rightarrow> Some e))"

definition omap_sorted :: "'v omap \<Rightarrow> bool" where
  "omap_sorted m = sorted_wrt (<) (map fst m)"

lemma omap_sorted_Nil [simp]: "omap_sorted []"
  by (simp add: omap_sorted_def)

lemma omap_sorted_Cons [simp]:
  "omap_sorted (e # m) \<longleftrightarrow> (\<forall>e' \<in> set m. fst e < fst e') \<and> omap_sorted m"
  by (simp add: omap_sorted_def)

lemma set_omap_emplace:
  "omap_emplace k v m = (True, m') \<Longrightarrow> set m' = insert (k, v) (set m)"
  by (induction k v m arbitrary: m' rule: omap_emplace.induct) (auto split: if_splits prod.splits)

lemma omap_emplace_fresh:
  "k \<notin> fst ` set m \<Longrightarrow> \<exists>m'. omap_emplace k v m = (True, m')"
  by (induction k v m rule: omap_emplace.induct) (auto split: prod.splits)

lemma omap_emplace_present:
  "omap_sorted m \<Longrightarrow> omap_emplace k v m = (False, m') \<Longrightarrow> m' = m \<and> k \<in> fst ` set m"
  by (induction k v m arbitrary: m' rule: omap_emplace.induct) (auto split: if_splits prod.splits)

lemma omap_sorted_emplace:
  "omap_sorted m \<Longrightarrow> omap_emplace k v m = (b, m') \<Longrightarrow> omap_sorted m'"
proof (induction k v m arbitrary: b m' rule: omap_emplace.induct)
  case (1 k v)
  then show ?case by auto
next
  case (2 k v k' v' m)
  obtain b2 m2 where m2: "omap_emplace k v m = (b2, m2)" by fastforce
  have sub: "set m2 \<subseteq> insert (k, v) (set m)"
    using set_omap_emplace [of k v m m2] omap_emplace_present [of m k v m2] m2 "2.prems"
    by (cases b2) auto
  have above: "\<forall>e \<in> set m. k' < fst e" using "2.prems" by simp
  show ?case
  proof (cases "k < k'")
    case True
    with above have "\<forall>e \<in> set m. k < fst e" by force
    with True "2.prems" show ?thesis by auto
  next
    case False
    then have "k \<noteq> k' \<Longrightarrow> \<forall>e \<in> set m2. k' < fst e"
      using sub above by (metis (no_types, lifting) fst_conv insertE linorder_neqE subsetD)
    with False 2 m2 show ?thesis by (auto split: if_splits)
  qed
qed

lemma omap_floor_Some:
  "omap_floor a m = Some (k, v) \<Longrightarrow> (k, v) \<in> set m \<and> k \<le> a"
  by (induction a m rule: omap_floor.induct) (auto split: if_splits option.splits)

lemma omap_floor_None:
  "omap_sorted m \<Longrightarrow> omap_floor a m = None \<longleftrightarrow> (\<forall>e \<in> set m. a < fst e)"
  by (induction a m rule: omap_floor.induct) (auto split: option.splits)

lemma omap_floor_greatest:
  "omap_sorted m \<Longrightarrow> omap_floor a m = Some (k, v) \<Longrightarrow> (k', v') \<in> set m \<Longrightarrow> k' \<le> a \<Longrightarrow> k' \<le> k"
proof (induction a m rule: omap_floor.induct)
  case (1 a)
  then show ?case by simp
next
  case (2 a k0 v0 m)
  show ?case
  proof (cases "omap_floor a m")
    case None
    with 2 have "\<forall>e \<in> set m. a < fst e" by (simp add: omap_floor_None)
    with 2 None show ?thesis by (force split: if_splits)
  next
    case (Some e)
    with 2 have e: "omap_floor a m = Some (k, v)" by (simp split: if_splits)
    from omap_floor_Some [OF e] "2.prems"(1) have "k0 < k" by force
    with 2 e show ?thesis by (auto split: if_splits)
  qed
qed

lemma omap_find_eq: "omap_sorted m \<Longrightarrow> omap_find k m = Some v \<longleftrightarrow> (k, v) \<in> set m"
  unfolding omap_find_def omap_sorted_def
  by (subst map_of_eq_Some_iff) (auto simp: strict_sorted_iff)

lemma set_omap_erase: "set (omap_erase k m) = {e \<in> set m. fst e \<noteq> k}"
  by (simp add: omap_erase_def)

lemma omap_sorted_erase: "omap_sorted m \<Longrightarrow> omap_sorted (omap_erase k m)"
  unfolding omap_sorted_def omap_erase_def
  by (induction m) (auto simp: image_iff)

lemma omap_sorted_set_unique:
  "omap_sorted m \<Longrightarrow> omap_sorted m' \<Longrightarrow> set m = set m' \<Longrightarrow> m = m'"
proof (induction m arbitrary: m')
  case Nil
  then show ?case by simp
next
  case (Cons e m)
  then obtain e' n where m': "m' = e' # n" by (cases m') auto
  have "e \<in> set m'" "e' \<in> set (e # m)" using Cons.prems(3) unfolding m' by (metis list.set_intros(1))+
  then have "e = e'" using Cons.prems(1,2) unfolding m' by (auto dest: less_asym)
  moreover have "e \<notin> set m" "e' \<notin> set n" using Cons.prems m' by auto
  ultimately have "set m = set n" using Cons.prems(3) m' by (simp add: insert_ident)
  with Cons.IH [of n] Cons.prems m' \<open>e = e'\<close> show ?case by simp
qed

subsection \<open>Reachable states\<close>

inductive reach :: "('s \<Rightarrow> bool) \<Rightarrow> ('s \<Rightarrow> 's \<Rightarrow> bool) \<Rightarrow> 's \<Rightarrow> bool"
  for init :: "'s \<Rightarrow> bool" and step :: "'s \<Rightarrow> 's \<Rightarrow> bool" where
  reach_init: "init s \<Longrightarrow> reach init step s"
| reach_step: "reach init step s \<Longrightarrow> step s s' \<Longrightarrow> reach init step s'"

text \<open>A component that keeps an invariant: the initial states have it and every step
  preserves it.\<close>

locale invariant_system =
  fixes init :: "'s \<Rightarrow> bool" and step :: "'s \<Rightarrow> 's \<Rightarrow> bool" and inv :: "'s \<Rightarrow> bool"
  assumes init_inv: "init s \<Longrightarrow> inv s"
    and step_inv: "inv s \<Longrightarrow> step s s' \<Longrightarrow> inv s'"
begin

lemma reach_inv: "reach init step s \<Longrightarrow> inv s"
  by (induction rule: reach.induct) (auto intro: init_inv step_inv)

lemma steps_inv: "step\<^sup>*\<^sup>* s s' \<Longrightarrow> inv s \<Longrightarrow> inv s'"
  by (induction rule: rtranclp_induct) (auto intro: step_inv)

end

end
