(* ===== verification/VitaVM.thy ===== *)
theory VitaVM
  imports Prelude
begin

text \<open>
  The executable-memory manager \<^verbatim>\<open>VitaVM\<close> of
  \<^verbatim>\<open>common/Vita/VitaHostSys.cpp\<close>: one process-lifetime arena cut into 1 MiB
  slots, the ownership tables of blocks and slices, and the write domain that serialises the
  EE, IOP and VU code writers and publishes what they wrote. The Sony kernel and kuBridge
  calls are fields of the record \<open>sce\<close>, the result the call has during the operation.
  A call returns, waits for \<^verbatim>\<open>s_write_mutex\<close>, aborts the process
  (\<^verbatim>\<open>pxFailRel\<close>, \<^verbatim>\<open>pxAssertRel\<close>), or would never leave a loop.
\<close>

subsection \<open>Outcomes of a call\<close>

datatype 'a call = Returns 'a | Waits | Aborts | Diverges

fun call_bind :: "'a call \<Rightarrow> ('a \<Rightarrow> 'b call) \<Rightarrow> 'b call" where
  "call_bind (Returns x) f = f x"
| "call_bind Waits f = Waits"
| "call_bind Aborts f = Aborts"
| "call_bind Diverges f = Diverges"

lemma call_bind_Returns:
  "call_bind c f = Returns y \<longleftrightarrow> (\<exists>x. c = Returns x \<and> f x = Returns y)"
  by (cases c) auto

subsection \<open>State\<close>

datatype BlockBackend = OfficialVmDomain | KuBridgeRxStaging | KuBridgeDirectRwx

datatype JitMemoryBackend = JitUninitialized | JitOfficialVmDomain | JitKuBridgeRxStaging
  | JitKuBridgeDirectRwx

record JitMemoryDiagnostics =
  diag_backend :: JitMemoryBackend
  kubridge_attempted :: bool
  protect_import_resolved :: bool
  kubridge_module_result :: int
  kubridge_allocation_result :: int
  kubridge_base_result :: int
  kubridge_protect_result :: int
  diag_arena_size :: size_t

record Block =
  blk_uid :: int
  blk_size :: size_t
  blk_backend :: BlockBackend

record Allocation =
  al_size :: size_t
  al_backend :: BlockBackend

record vm_state =
  vm_mem :: memory
  s_blocks :: "Block omap"
  s_allocations :: "Allocation omap"
  s_arena_uid :: int
  s_arena_base :: uptr
  s_arena_size :: size_t
  s_arena_backend :: BlockBackend
  s_diagnostics :: JitMemoryDiagnostics
  s_arena_slots :: u32
  s_write_mutex :: "int option"
  s_write_active :: bool
  s_write_owner :: int
  s_write_vm_domain_open :: bool
  s_write_backend :: BlockBackend
  s_write_target_base :: uptr
  s_write_target_capacity :: size_t
  s_write_staging :: "u8 list option"
  s_write_staging_capacity :: size_t

text \<open>The kernel and kuBridge calls, and \<^verbatim>\<open>operator new\<close>.\<close>

record sce =
  sceKernelGetThreadId :: int
  vshKernelSearchModuleByName :: int
  kuKernelAllocMemBlock :: int
  sceKernelGetMemBlockBase :: "int \<Rightarrow> int \<times> uptr"
  kuKernelMemProtect_import :: "(u32 \<times> u32) option"
  kuKernelMemProtect :: "uptr \<Rightarrow> size_t \<Rightarrow> int"
  sceKernelAllocMemBlockForVM :: int
  sceKernelOpenVMDomain :: int
  sceKernelCloseVMDomain :: int
  sceKernelSyncVMDomain :: "int \<Rightarrow> uptr \<Rightarrow> size_t \<Rightarrow> int"
  kuKernelCpuUnrestrictedMemcpy :: "memory \<Rightarrow> uptr \<Rightarrow> u8 list \<Rightarrow> int \<times> memory"
  new_u8_array :: "nat \<Rightarrow> u8 list option"

text \<open>A write address handed to a code writer: the executable range itself, or the
  process-global staging array.\<close>

datatype wptr = WNull | WAt uptr | WStaging

subsection \<open>Constants\<close>

definition KUBRIDGE_JIT_ARENA_SIZE :: size_t where
  "KUBRIDGE_JIT_ARENA_SIZE = 22 * 1024 * 1024"
definition OFFICIAL_JIT_ARENA_SIZE :: size_t where
  "OFFICIAL_JIT_ARENA_SIZE = 16 * 1024 * 1024"
definition JIT_ALLOCATION_GRANULARITY :: size_t where
  "JIT_ALLOCATION_GRANULARITY = 1024 * 1024"
definition KUBRIDGE_ALLOCATION_GRANULARITY :: size_t where
  "KUBRIDGE_ALLOCATION_GRANULARITY = 4 * 1024"
definition KUBRIDGE_INITIAL_STAGING_SIZE :: size_t where
  "KUBRIDGE_INITIAL_STAGING_SIZE = 4 * 1024"
definition UNRESOLVED_IMPORT_STUB_INSTRUCTION_0 :: u32 where
  "UNRESOLVED_IMPORT_STUB_INSTRUCTION_0 = 0xe24fc008"
definition UNRESOLVED_IMPORT_STUB_INSTRUCTION_1 :: u32 where
  "UNRESOLVED_IMPORT_STUB_INSTRUCTION_1 = 0xe12fff1e"

lemmas vm_consts = KUBRIDGE_JIT_ARENA_SIZE_def OFFICIAL_JIT_ARENA_SIZE_def
  JIT_ALLOCATION_GRANULARITY_def KUBRIDGE_ALLOCATION_GRANULARITY_def
  KUBRIDGE_INITIAL_STAGING_SIZE_def

subsection \<open>Helpers\<close>

fun IsKuBridgeBackend :: "BlockBackend \<Rightarrow> bool" where
  "IsKuBridgeBackend backend = (backend = KuBridgeRxStaging \<or> backend = KuBridgeDirectRwx)"

fun ToPublicBackend :: "BlockBackend \<Rightarrow> JitMemoryBackend" where
  "ToPublicBackend OfficialVmDomain = JitOfficialVmDomain"
| "ToPublicBackend KuBridgeRxStaging = JitKuBridgeRxStaging"
| "ToPublicBackend KuBridgeDirectRwx = JitKuBridgeDirectRwx"

definition IsWeakImportResolved :: "(u32 \<times> u32) option \<Rightarrow> bool" where
  "IsWeakImportResolved function = (case function of
     None \<Rightarrow> False
   | Some (instruction0, instruction1) \<Rightarrow>
       instruction0 \<noteq> UNRESOLVED_IMPORT_STUB_INSTRUCTION_0 \<or>
       instruction1 \<noteq> UNRESOLVED_IMPORT_STUB_INSTRUCTION_1)"

definition FindAllocationBackendLocked :: "vm_state \<Rightarrow> uptr \<Rightarrow> size_t \<Rightarrow> BlockBackend option" where
  "FindAllocationBackendLocked vm address capacity =
     (if address = 0 \<or> capacity = 0 then None
      else let end_addr = address + capacity in
        if end_addr < address then None
        else (case omap_floor address (s_allocations vm) of
          None \<Rightarrow> None
        | Some (base, allocation) \<Rightarrow>
            let allocation_end = base + al_size allocation in
              if allocation_end < base \<or> address < base \<or> end_addr > allocation_end then None
              else Some (al_backend allocation)))"

text \<open>The flush and the cache synchronisation change no state the program reads; the
  result says whether the range was synchronised.\<close>

definition SyncJitMemoryLocked :: "sce \<Rightarrow> vm_state \<Rightarrow> uptr \<Rightarrow> size_t \<Rightarrow> bool" where
  "SyncJitMemoryLocked env vm address sz =
     (if address = 0 \<or> sz = 0 then False
      else let end_addr = address + sz in
        if end_addr < address then False
        else (case omap_floor address (s_allocations vm) of
          None \<Rightarrow> False
        | Some (abase, allocation) \<Rightarrow>
            let allocation_end = abase + al_size allocation in
              if allocation_end < abase \<or> address < abase \<or> end_addr > allocation_end then False
              else (case omap_floor address (s_blocks vm) of
                None \<Rightarrow> False
              | Some (bbase, block) \<Rightarrow>
                  let block_end = bbase + blk_size block in
                    if address < bbase \<or> end_addr > block_end \<or>
                       al_backend allocation \<noteq> blk_backend block then False
                    else if IsKuBridgeBackend (blk_backend block) then True
                    else \<not> sceKernelSyncVMDomain env (blk_uid block) address sz < 0)))"

definition FinishJitWrite :: "vm_state \<Rightarrow> vm_state" where
  "FinishJitWrite vm = vm
     \<lparr> s_write_active := False, s_write_vm_domain_open := False,
       s_write_backend := OfficialVmDomain, s_write_target_base := 0,
       s_write_target_capacity := 0, s_write_owner := -1, s_write_mutex := None \<rparr>"

subsection \<open>The arena\<close>

definition RegisterArenaLocked ::
  "int \<Rightarrow> uptr \<Rightarrow> size_t \<Rightarrow> BlockBackend \<Rightarrow> vm_state \<Rightarrow> bool \<times> vm_state" where
  "RegisterArenaLocked uid base sz backend vm =
     (case omap_emplace base \<lparr> blk_uid = uid, blk_size = sz, blk_backend = backend \<rparr> (s_blocks vm) of
        (False, _) \<Rightarrow> (False, vm)
      | (True, blocks) \<Rightarrow> (True, vm
          \<lparr> s_blocks := blocks, s_arena_uid := uid, s_arena_base := base, s_arena_size := sz,
            s_arena_backend := backend, s_arena_slots := 0,
            s_diagnostics := (s_diagnostics vm)
              \<lparr> diag_backend := ToPublicBackend backend, diag_arena_size := sz \<rparr> \<rparr>))"

definition TryInitializeKuBridgeArenaLocked :: "sce \<Rightarrow> vm_state \<Rightarrow> bool \<times> vm_state" where
  "TryInitializeKuBridgeArenaLocked env vm =
     (let module_uid = vshKernelSearchModuleByName env;
          d1 = (s_diagnostics vm)\<lparr> kubridge_attempted := True, kubridge_module_result := module_uid \<rparr>
      in if module_uid < 0 then (False, vm\<lparr> s_diagnostics := d1 \<rparr>)
      else let uid = kuKernelAllocMemBlock env;
               d2 = d1\<lparr> kubridge_allocation_result := uid \<rparr>
      in if uid < 0 then (False, vm\<lparr> s_diagnostics := d2 \<rparr>)
      else case sceKernelGetMemBlockBase env uid of (base_result, base) \<Rightarrow>
        let d3 = d2\<lparr> kubridge_base_result := base_result \<rparr>
      in if base_result < 0 \<or> base = 0 then (False, vm\<lparr> s_diagnostics := d3 \<rparr>)
      else if base AND (KUBRIDGE_ALLOCATION_GRANULARITY - 1) \<noteq> 0
        then (False, vm\<lparr> s_diagnostics := d3 \<rparr>)
      else let resolved = IsWeakImportResolved (kuKernelMemProtect_import env);
               protect_result = (if resolved then kuKernelMemProtect env base KUBRIDGE_JIT_ARENA_SIZE else 0);
               backend = (if resolved \<and> protect_result = 0 then KuBridgeDirectRwx else KuBridgeRxStaging);
               d4 = d3\<lparr> protect_import_resolved := resolved, kubridge_protect_result := protect_result \<rparr>
      in RegisterArenaLocked uid base KUBRIDGE_JIT_ARENA_SIZE backend (vm\<lparr> s_diagnostics := d4 \<rparr>))"

definition InitializeOfficialArenaLocked :: "sce \<Rightarrow> vm_state \<Rightarrow> bool \<times> vm_state" where
  "InitializeOfficialArenaLocked env vm =
     (let uid = sceKernelAllocMemBlockForVM env
      in if uid < 0 then (False, vm)
      else case sceKernelGetMemBlockBase env uid of (base_result, base) \<Rightarrow>
        if base_result < 0 \<or> base = 0 then (False, vm)
        else RegisterArenaLocked uid base OFFICIAL_JIT_ARENA_SIZE OfficialVmDomain vm)"

definition EnsureJitArenaLocked :: "sce \<Rightarrow> vm_state \<Rightarrow> bool \<times> vm_state" where
  "EnsureJitArenaLocked env vm =
     (if s_arena_base vm \<noteq> 0 then (True, vm)
      else case TryInitializeKuBridgeArenaLocked env vm of (ok, vm') \<Rightarrow>
        if ok then (True, vm') else InitializeOfficialArenaLocked env vm')"

text \<open>The slot search of \<^verbatim>\<open>AllocateArenaSliceLocked\<close>. The slot counts are
  below \<open>2 ^ 12\<close>, so the index never wraps.\<close>

definition slot_mask :: "nat \<Rightarrow> nat \<Rightarrow> u32" where
  "slot_mask count first = push_bit first (push_bit count 1 - 1)"

function find_slots :: "u32 \<Rightarrow> nat \<Rightarrow> nat \<Rightarrow> nat \<Rightarrow> nat option" where
  "find_slots slots requested count first =
     (if first + requested \<le> count
      then if slots AND slot_mask requested first \<noteq> 0
           then find_slots slots requested count (Suc first)
           else Some first
      else None)"
  by pat_completeness auto
termination
  by (relation "measure (\<lambda>(slots, requested, count, first). Suc count - first)") auto

declare find_slots.simps [simp del]

definition AllocateArenaSliceLocked ::
  "size_t \<Rightarrow> vm_state \<Rightarrow> (uptr \<times> int) option \<times> vm_state" where
  "AllocateArenaSliceLocked sz vm =
     (if sz = 0 \<or> sz > s_arena_size vm then (None, vm)
      else let aligned_size = (sz + JIT_ALLOCATION_GRANULARITY - 1) AND
                 NOT (JIT_ALLOCATION_GRANULARITY - 1);
               requested_slots = unat (aligned_size div JIT_ALLOCATION_GRANULARITY);
               arena_slot_count = unat (s_arena_size vm div JIT_ALLOCATION_GRANULARITY)
      in case find_slots (s_arena_slots vm) requested_slots arena_slot_count 0 of
           None \<Rightarrow> (None, vm)
         | Some first_slot \<Rightarrow>
             let allocation = s_arena_base vm + of_nat first_slot * JIT_ALLOCATION_GRANULARITY
             in (Some (allocation, s_arena_uid vm), vm
                  \<lparr> s_arena_slots := s_arena_slots vm OR slot_mask requested_slots first_slot,
                    s_allocations := snd (omap_emplace allocation
                      \<lparr> al_size = aligned_size, al_backend = s_arena_backend vm \<rparr>
                      (s_allocations vm)) \<rparr>))"

definition ReserveJitMemory :: "sce \<Rightarrow> vm_state \<Rightarrow> bool \<times> vm_state" where
  "ReserveJitMemory env vm = EnsureJitArenaLocked env vm"

definition AllocJitMemory :: "sce \<Rightarrow> size_t \<Rightarrow> vm_state \<Rightarrow> (uptr \<times> int) option \<times> vm_state" where
  "AllocJitMemory env sz vm =
     (if sz = 0 \<or> sz > KUBRIDGE_JIT_ARENA_SIZE then (None, vm)
      else case EnsureJitArenaLocked env vm of (ok, vm') \<Rightarrow>
        if \<not> ok then (None, vm') else AllocateArenaSliceLocked sz vm')"

definition AllocLargeJitMemory :: "sce \<Rightarrow> size_t \<Rightarrow> vm_state \<Rightarrow> (uptr \<times> int) option \<times> vm_state" where
  "AllocLargeJitMemory env sz vm =
     (if sz = 0 \<or> sz > KUBRIDGE_JIT_ARENA_SIZE then (None, vm)
      else case EnsureJitArenaLocked env vm of (ok, vm') \<Rightarrow>
        if \<not> ok \<or> \<not> IsKuBridgeBackend (s_arena_backend vm') then (None, vm')
        else AllocateArenaSliceLocked sz vm')"

definition FreeJitMemory :: "sce \<Rightarrow> uptr \<Rightarrow> vm_state \<Rightarrow> vm_state call" where
  "FreeJitMemory env ptr vm =
     (if s_write_owner vm = sceKernelGetThreadId env then Aborts
      else if s_write_mutex vm \<noteq> None then Waits
      else if s_write_active vm \<or> s_write_owner vm \<noteq> -1 then Aborts
      else case omap_find ptr (s_allocations vm) of
        None \<Rightarrow> Aborts
      | Some allocation \<Rightarrow>
          if s_arena_base vm = 0 \<or> al_backend allocation \<noteq> s_arena_backend vm then Aborts
          else let offset = ptr - s_arena_base vm;
                   first_slot = unat (offset div JIT_ALLOCATION_GRANULARITY);
                   slot_count = unat (al_size allocation div JIT_ALLOCATION_GRANULARITY)
               in Returns (vm
                    \<lparr> s_arena_slots := s_arena_slots vm AND NOT (slot_mask slot_count first_slot),
                      s_allocations := omap_erase ptr (s_allocations vm) \<rparr>))"

subsection \<open>The write domain\<close>

text \<open>The doubling loop of \<^verbatim>\<open>GrowStagingLocked\<close>: \<open>None\<close> is a loop that never
  ends, \<open>Some None\<close> the overflow return.\<close>

partial_function (option) grow_capacity :: "size_t \<Rightarrow> size_t \<Rightarrow> size_t \<Rightarrow> size_t option option" where
  "grow_capacity maximum_capacity minimum_capacity new_capacity =
     (if new_capacity < minimum_capacity
      then let doubled = new_capacity * 2
           in if doubled < new_capacity then Some None
              else grow_capacity maximum_capacity minimum_capacity (min maximum_capacity doubled)
      else Some (Some new_capacity))"

definition GrowStagingLocked ::
  "sce \<Rightarrow> size_t \<Rightarrow> size_t \<Rightarrow> size_t \<Rightarrow> vm_state \<Rightarrow> (bool \<times> vm_state) call" where
  "GrowStagingLocked env preserve_size minimum_capacity maximum_capacity vm =
     (if preserve_size > s_write_staging_capacity vm \<or> minimum_capacity > maximum_capacity
      then Returns (False, vm)
      else if minimum_capacity \<le> s_write_staging_capacity vm then Returns (True, vm)
      else case grow_capacity maximum_capacity minimum_capacity
             (min maximum_capacity (max KUBRIDGE_INITIAL_STAGING_SIZE (s_write_staging_capacity vm))) of
        None \<Rightarrow> Diverges
      | Some None \<Rightarrow> Returns (False, vm)
      | Some (Some new_capacity) \<Rightarrow>
          (case new_u8_array env (unat new_capacity) of
             None \<Rightarrow> Returns (False, vm)
           | Some replacement \<Rightarrow>
               let kept = (case s_write_staging vm of
                     Some old \<Rightarrow> if preserve_size \<noteq> 0 then take (unat preserve_size) old else []
                   | None \<Rightarrow> [])
               in Returns (True, vm
                    \<lparr> s_write_staging := Some (kept @ drop (length kept) replacement),
                      s_write_staging_capacity := new_capacity \<rparr>)))"

definition BeginJitWriteForAddress ::
  "sce \<Rightarrow> uptr \<Rightarrow> size_t \<Rightarrow> size_t \<Rightarrow> vm_state \<Rightarrow> ((wptr \<times> size_t) option \<times> vm_state) call" where
  "BeginJitWriteForAddress env address existing_size capacity vm =
     (if address = 0 \<or> existing_size > capacity then Returns (None, vm)
      else let owner = sceKernelGetThreadId env in
      if s_write_owner vm = owner then Returns (None, vm)
      else if s_write_mutex vm \<noteq> None then Waits
      else if s_write_active vm then Returns (None, vm)
      else case FindAllocationBackendLocked vm address capacity of
        None \<Rightarrow> Returns (None, vm)
      | Some backend \<Rightarrow>
          let opened = (\<lambda>vm' vm_domain_open waddr wcap. Returns (Some (waddr, wcap), vm'
                \<lparr> s_write_active := True, s_write_vm_domain_open := vm_domain_open,
                  s_write_backend := backend, s_write_target_base := address,
                  s_write_target_capacity := capacity, s_write_owner := owner,
                  s_write_mutex := Some owner \<rparr>))
          in if backend = OfficialVmDomain then
               if sceKernelOpenVMDomain env < 0 then Returns (None, vm)
               else opened vm True (WAt address) capacity
             else if backend = KuBridgeRxStaging then
               let initial_capacity = min capacity (max existing_size KUBRIDGE_INITIAL_STAGING_SIZE)
               in call_bind (GrowStagingLocked env 0 initial_capacity capacity vm) (\<lambda>(ok, vm1).
                    if \<not> ok then Returns (None, vm1)
                    else let existing = mem_read (vm_mem vm1) address (unat existing_size);
                             vm2 = (case s_write_staging vm1 of
                                 None \<Rightarrow> vm1
                               | Some st \<Rightarrow> vm1\<lparr> s_write_staging := Some (existing @ drop (length existing) st) \<rparr>)
                         in opened vm2 False WStaging (min (s_write_staging_capacity vm2) capacity))
             else opened vm False (WAt address) capacity)"

text \<open>The overload without arguments, and the one the code buffers call.\<close>

definition BeginJitWrite0 :: "sce \<Rightarrow> vm_state \<Rightarrow> (bool \<times> vm_state) call" where
  "BeginJitWrite0 env vm =
     (let owner = sceKernelGetThreadId env in
      if s_write_owner vm = owner then Returns (False, vm)
      else if s_write_mutex vm \<noteq> None then Waits
      else if s_write_active vm then Returns (False, vm)
      else if sceKernelOpenVMDomain env < 0 then Returns (False, vm)
      else Returns (True, vm
        \<lparr> s_write_active := True, s_write_vm_domain_open := True,
          s_write_backend := OfficialVmDomain, s_write_owner := owner,
          s_write_mutex := Some owner \<rparr>))"

definition BeginJitWrite ::
  "sce \<Rightarrow> uptr \<Rightarrow> size_t \<Rightarrow> size_t \<Rightarrow> vm_state \<Rightarrow> ((wptr \<times> size_t) option \<times> vm_state) call" where
  "BeginJitWrite env address existing_size capacity vm =
     BeginJitWriteForAddress env address existing_size capacity vm"

definition ExpandJitWrite ::
  "sce \<Rightarrow> size_t \<Rightarrow> size_t \<Rightarrow> wptr \<times> size_t \<Rightarrow> vm_state \<Rightarrow> ((bool \<times> wptr \<times> size_t) \<times> vm_state) call" where
  "ExpandJitWrite env preserve_size minimum_capacity w vm =
     (case w of (write_address, write_capacity) \<Rightarrow>
      if s_write_owner vm \<noteq> sceKernelGetThreadId env \<or> \<not> s_write_active vm
      then Returns ((False, w), vm)
      else if s_write_backend vm \<noteq> KuBridgeRxStaging
      then Returns ((minimum_capacity \<le> write_capacity, w), vm)
      else call_bind (GrowStagingLocked env preserve_size minimum_capacity (s_write_target_capacity vm) vm)
        (\<lambda>(ok, vm'). if \<not> ok then Returns ((False, w), vm')
           else Returns ((True, WStaging, min (s_write_staging_capacity vm') (s_write_target_capacity vm')), vm')))"

definition EndJitWrite :: "sce \<Rightarrow> vm_state \<Rightarrow> (bool \<times> vm_state) call" where
  "EndJitWrite env vm =
     (let owner = s_write_owner vm in
      if owner < 0 then Returns (False, vm)
      else if owner \<noteq> sceKernelGetThreadId env then Returns (False, vm)
      else if \<not> s_write_active vm then Aborts
      else let result = (if s_write_vm_domain_open vm then sceKernelCloseVMDomain env else 0)
           in Returns (\<not> result < 0, FinishJitWrite vm))"

definition EndJitWriteAndSync :: "sce \<Rightarrow> uptr \<Rightarrow> size_t \<Rightarrow> vm_state \<Rightarrow> (bool \<times> vm_state) call" where
  "EndJitWriteAndSync env address sz vm =
     (let owner = s_write_owner vm in
      if owner < 0 then Returns (False, vm)
      else if owner \<noteq> sceKernelGetThreadId env then Returns (False, vm)
      else if \<not> s_write_active vm then Aborts
      else let close_result = (if s_write_vm_domain_open vm then sceKernelCloseVMDomain env else 0);
               published =
                 (if close_result < 0 then (False, vm)
                  else if s_write_backend vm = KuBridgeRxStaging then
                    let target = address; write_base = s_write_target_base vm;
                        write_end = write_base + s_write_target_capacity vm;
                        target_end = target + sz
                    in if write_end \<ge> write_base \<and> target_end \<ge> target \<and>
                          target \<ge> write_base \<and> target_end \<le> write_end then
                         let offset = target - write_base
                         in if offset \<le> s_write_staging_capacity vm \<and>
                               sz \<le> s_write_staging_capacity vm - offset then
                              let bytes = (case s_write_staging vm of None \<Rightarrow> []
                                    | Some st \<Rightarrow> take (unat sz) (drop (unat offset) st))
                              in case kuKernelCpuUnrestrictedMemcpy env (vm_mem vm) address bytes of
                                   (copy_result, mem') \<Rightarrow>
                                     let vm' = vm\<lparr> vm_mem := mem' \<rparr>
                                     in if copy_result < 0 then (False, vm')
                                        else (SyncJitMemoryLocked env vm' address sz, vm')
                            else (False, vm)
                       else (False, vm)
                  else (SyncJitMemoryLocked env vm address sz, vm))
           in case published of (sync_result, vm') \<Rightarrow>
                Returns (\<not> close_result < 0 \<and> sync_result, FinishJitWrite vm'))"

definition SyncJitMemory :: "sce \<Rightarrow> uptr \<Rightarrow> size_t \<Rightarrow> vm_state \<Rightarrow> bool call" where
  "SyncJitMemory env address sz vm =
     (if s_write_mutex vm \<noteq> None then Waits
      else if s_write_active vm \<or> s_write_owner vm \<noteq> -1 then Returns False
      else Returns (SyncJitMemoryLocked env vm address sz))"

definition GetJitMemoryDiagnostics :: "vm_state \<Rightarrow> JitMemoryDiagnostics" where
  "GetJitMemoryDiagnostics vm = s_diagnostics vm"

subsection \<open>Stores and loads through a write address\<close>

text \<open>
  What a code writer does with the address it was given: \<^verbatim>\<open>memcpy\<close> to or from
  \<open>w + offset\<close>. A null address, and a block that is not inside the staging array, are
  undefined behaviour in C++; the outcome is \<open>Aborts\<close>. \<open>A32_Sink\<close> says exactly when
  a code buffer reaches it.
\<close>

definition wptr_store :: "wptr \<Rightarrow> size_t \<Rightarrow> u8 list \<Rightarrow> vm_state \<Rightarrow> vm_state call" where
  "wptr_store w offset bytes vm = (case w of
     WNull \<Rightarrow> Aborts
   | WAt a \<Rightarrow> Returns (vm\<lparr> vm_mem := mem_write (vm_mem vm) (a + offset) bytes \<rparr>)
   | WStaging \<Rightarrow> (case s_write_staging vm of
       None \<Rightarrow> Aborts
     | Some st \<Rightarrow>
         if unat offset + length bytes \<le> length st
         then Returns (vm\<lparr> s_write_staging := Some (take (unat offset) st @ bytes @
                drop (unat offset + length bytes) st) \<rparr>)
         else Aborts))"

definition wptr_load :: "wptr \<Rightarrow> size_t \<Rightarrow> nat \<Rightarrow> vm_state \<Rightarrow> u8 list call" where
  "wptr_load w offset n vm = (case w of
     WNull \<Rightarrow> Aborts
   | WAt a \<Rightarrow> Returns (mem_read (vm_mem vm) (a + offset) n)
   | WStaging \<Rightarrow> (case s_write_staging vm of
       None \<Rightarrow> Aborts
     | Some st \<Rightarrow> if unat offset + n \<le> length st then Returns (take n (drop (unat offset) st))
                  else Aborts))"

end
