(* ===== verification/VitaVM_Arena.thy ===== *)
theory VitaVM_Arena
  imports VitaVM
begin

text \<open>
  The slot allocator of the executable arena: the slot search is first fit and complete, every
  live allocation is a slice of whole slots of the arena, the slot bitmap is exactly the
  union of the slices, no two slices share an address, and the lookup of the allocation that
  contains a range is exact. Allocation and release preserve all of it.
\<close>

subsection \<open>Slot masks\<close>

lemma bit_slot_mask:
  "bit (slot_mask count first) i \<longleftrightarrow> first \<le> i \<and> i < first + count \<and> i < 32" 
proof -
  have "slot_mask count first = push_bit first (mask count)"
    by (simp add: slot_mask_def mask_eq_exp_minus_1 push_bit_of_1)
  then show ?thesis by (auto simp: bit_simps)
qed

lemma slots_free_iff:
  "slots AND slot_mask count first = 0 \<longleftrightarrow> (\<forall>i. first \<le> i \<and> i < first + count \<longrightarrow> \<not> bit slots i)"
proof -
  have "bit slots i \<Longrightarrow> i < 32" for i
    using bit_imp_le_length [of slots i] by simp
  then show ?thesis
    by (auto simp: bit_eq_iff [where 'a = u32] bit_slot_mask bit_and_iff)
qed

definition free_run :: "u32 \<Rightarrow> nat \<Rightarrow> nat \<Rightarrow> bool" where
  "free_run slots count first = (\<forall>i \<in> {first..<first + count}. \<not> bit slots i)"

lemma find_slots_Some:
  "find_slots slots requested count first = Some k \<Longrightarrow>
   first \<le> k \<and> k + requested \<le> count \<and> free_run slots requested k \<and>
   (\<forall>j. first \<le> j \<and> j < k \<longrightarrow> \<not> free_run slots requested j)"
proof (induction slots requested count first rule: find_slots.induct)
  case (1 slots requested count first)
  show ?case
  proof (cases "first + requested \<le> count \<and> slots AND slot_mask requested first \<noteq> 0")
    case True
    with "1.prems" have rest: "find_slots slots requested count (Suc first) = Some k"
      by (subst (asm) find_slots.simps) simp
    have busy: "\<not> free_run slots requested first"
      using True by (auto simp: slots_free_iff free_run_def)
    from "1.IH" True rest have "Suc first \<le> k \<and> k + requested \<le> count \<and> free_run slots requested k \<and>
        (\<forall>j. Suc first \<le> j \<and> j < k \<longrightarrow> \<not> free_run slots requested j)" by blast
    with busy show ?thesis by (metis Suc_leD Suc_leI le_neq_implies_less)
  next
    case False
    with "1.prems" have "first + requested \<le> count" "slots AND slot_mask requested first = 0" "k = first"
      by (subst (asm) find_slots.simps; simp split: if_splits)+
    then show ?thesis by (auto simp: slots_free_iff free_run_def)
  qed
qed

lemma find_slots_None:
  "find_slots slots requested count first = None \<Longrightarrow> first \<le> k \<Longrightarrow> k + requested \<le> count \<Longrightarrow>
   \<not> free_run slots requested k"
proof (induction slots requested count first rule: find_slots.induct)
  case (1 slots requested count first)
  from "1.prems" have le: "first + requested \<le> count" by simp
  with "1.prems" have busy: "slots AND slot_mask requested first \<noteq> 0"
    by (subst (asm) find_slots.simps) (simp split: if_splits)
  with le "1.prems" have rest: "find_slots slots requested count (Suc first) = None"
    by (subst (asm) find_slots.simps) simp
  show ?case
  proof (cases "k = first")
    case True
    with busy show ?thesis by (auto simp: slots_free_iff free_run_def)
  next
    case False
    with "1.IH" [OF le busy rest] "1.prems" show ?thesis by simp
  qed
qed

subsection \<open>The arena invariant\<close>

text \<open>The slots an allocation covers, and what a slice of the arena looks like.\<close>

definition al_slots :: "uptr \<Rightarrow> uptr \<times> Allocation \<Rightarrow> nat set" where
  "al_slots base e =
     {unat ((fst e - base) div JIT_ALLOCATION_GRANULARITY) ..<
      unat ((fst e - base) div JIT_ALLOCATION_GRANULARITY) +
      unat (al_size (snd e) div JIT_ALLOCATION_GRANULARITY)}"

definition slice_at :: "uptr \<Rightarrow> nat \<Rightarrow> nat \<Rightarrow> BlockBackend \<Rightarrow> uptr \<times> Allocation" where
  "slice_at base first count backend =
     (base + of_nat first * JIT_ALLOCATION_GRANULARITY,
      \<lparr> al_size = of_nat count * JIT_ALLOCATION_GRANULARITY, al_backend = backend \<rparr>)"

definition arena_slot_count :: "vm_state \<Rightarrow> nat" where
  "arena_slot_count vm = unat (s_arena_size vm div JIT_ALLOCATION_GRANULARITY)"

definition slices_ok :: "vm_state \<Rightarrow> bool" where
  "slices_ok vm = (\<forall>e \<in> set (s_allocations vm). \<exists>first count. 0 < count \<and>
     first + count \<le> arena_slot_count vm \<and>
     e = slice_at (s_arena_base vm) first count (s_arena_backend vm))"

definition arena_shape :: "vm_state \<Rightarrow> bool" where
  "arena_shape vm =
     (if s_arena_base vm = 0 then s_arena_size vm = 0 \<and> s_arena_slots vm = 0 \<and> s_allocations vm = []
      else s_arena_size vm \<in> {KUBRIDGE_JIT_ARENA_SIZE, OFFICIAL_JIT_ARENA_SIZE} \<and>
           unat (s_arena_base vm) + unat (s_arena_size vm) < 2 ^ 32)"

definition arena_inv :: "vm_state \<Rightarrow> bool" where
  "arena_inv vm \<longleftrightarrow> arena_shape vm \<and> omap_sorted (s_allocations vm) \<and> slices_ok vm \<and>
     (\<forall>i. bit (s_arena_slots vm) i \<longleftrightarrow> (\<exists>e \<in> set (s_allocations vm). i \<in> al_slots (s_arena_base vm) e)) \<and>
     (\<forall>e \<in> set (s_allocations vm). \<forall>e' \<in> set (s_allocations vm).
        e \<noteq> e' \<longrightarrow> al_slots (s_arena_base vm) e \<inter> al_slots (s_arena_base vm) e' = {})"

lemma granularity_exp: "JIT_ALLOCATION_GRANULARITY = 2 ^ 20"
  by (simp add: JIT_ALLOCATION_GRANULARITY_def)

lemma unat_times_granularity:
  "n < 2 ^ 12 \<Longrightarrow> unat (of_nat n * JIT_ALLOCATION_GRANULARITY) = n * 2 ^ 20"
  by (simp add: granularity_exp unat_word_ariths unat_of_nat_u32)

lemma unat_div_granularity: "unat (x div JIT_ALLOCATION_GRANULARITY) = unat x div 2 ^ 20"
  by (simp add: granularity_exp unat_div)

lemma al_slots_slice_at:
  assumes "first < 2 ^ 12" "count < 2 ^ 12"
  shows "al_slots base (slice_at base first count backend) = {first ..< first + count}"
  using assms by (simp add: al_slots_def slice_at_def unat_div_granularity unat_times_granularity)

lemma arena_slot_count_bound: "arena_shape vm \<Longrightarrow> arena_slot_count vm \<le> 22"
  by (auto simp: arena_shape_def arena_slot_count_def vm_consts unat_div_granularity split: if_splits)

lemma slice_at_eq_iff:
  assumes "first < 2 ^ 12" "first' < 2 ^ 12"
  shows "fst (slice_at base first count be) = fst (slice_at base first' count' be') \<longleftrightarrow> first = first'"
proof
  assume "fst (slice_at base first count be) = fst (slice_at base first' count' be')"
  then have "unat (of_nat first * JIT_ALLOCATION_GRANULARITY) = unat (of_nat first' * JIT_ALLOCATION_GRANULARITY)"
    by (simp add: slice_at_def)
  with assms show "first = first'" by (simp add: unat_times_granularity)
qed (simp add: slice_at_def)

lemma aligned_size_slots:
  fixes x :: size_t
  defines "a \<equiv> (x + JIT_ALLOCATION_GRANULARITY - 1) AND NOT (JIT_ALLOCATION_GRANULARITY - 1)"
  assumes "x \<noteq> 0" "unat x \<le> 2 ^ 31"
  shows "unat (a div JIT_ALLOCATION_GRANULARITY) = (unat x + 2 ^ 20 - 1) div 2 ^ 20"
    and "of_nat (unat (a div JIT_ALLOCATION_GRANULARITY)) * JIT_ALLOCATION_GRANULARITY = a"
    and "unat x \<le> unat a"
proof -
  have m: "JIT_ALLOCATION_GRANULARITY - 1 = (mask 20 :: u32)"
    by (simp add: JIT_ALLOCATION_GRANULARITY_def mask_eq_exp_minus_1)
  have a: "a = push_bit 20 (drop_bit 20 (x + JIT_ALLOCATION_GRANULARITY - 1))"
    unfolding a_def m by (rule bit_word_eqI) (auto simp: bit_simps)
  have da: "a div JIT_ALLOCATION_GRANULARITY = drop_bit 20 (x + JIT_ALLOCATION_GRANULARITY - 1)"
    unfolding granularity_exp drop_bit_eq_div [symmetric] a
    by (rule bit_word_eqI) (auto simp: bit_simps granularity_exp dest: bit_imp_le_length)
  have sum: "unat (x + JIT_ALLOCATION_GRANULARITY - 1) = unat x + 2 ^ 20 - 1"
    using assms(2,3) by (simp add: JIT_ALLOCATION_GRANULARITY_def unat_word_ariths)
  show u: "unat (a div JIT_ALLOCATION_GRANULARITY) = (unat x + 2 ^ 20 - 1) div 2 ^ 20"
    unfolding da by (simp only: drop_bit_eq_div unat_div sum flip: granularity_exp) (simp add: JIT_ALLOCATION_GRANULARITY_def)
  show o: "of_nat (unat (a div JIT_ALLOCATION_GRANULARITY)) * JIT_ALLOCATION_GRANULARITY = a"
    unfolding da by (simp add: a push_bit_eq_mult granularity_exp)
  have "(unat x + 2 ^ 20 - 1) div 2 ^ 20 < 2 ^ 12" using assms(3) by simp
  with u o have "unat a = (unat x + 2 ^ 20 - 1) div 2 ^ 20 * 2 ^ 20"
    by (metis unat_times_granularity)
  moreover have "unat x \<le> (unat x + 2 ^ 20 - 1) div 2 ^ 20 * 2 ^ 20" by simp
  ultimately show "unat x \<le> unat a" by simp
qed

lemma AllocateArenaSliceLocked_cases:
  assumes inv: "arena_inv vm" and alloc: "AllocateArenaSliceLocked sz vm = (Some (p, uid), vm')"
  obtains first count where
    "0 < count" "first + count \<le> arena_slot_count vm" "count = (unat sz + 2 ^ 20 - 1) div 2 ^ 20"
    "free_run (s_arena_slots vm) count first"
    "\<forall>j < first. \<not> free_run (s_arena_slots vm) count j"
    "(p, \<lparr> al_size = of_nat count * JIT_ALLOCATION_GRANULARITY, al_backend = s_arena_backend vm \<rparr>) =
       slice_at (s_arena_base vm) first count (s_arena_backend vm)"
    "unat sz \<le> count * 2 ^ 20" "sz \<noteq> 0" "sz \<le> s_arena_size vm" "uid = s_arena_uid vm"
    "vm' = vm \<lparr> s_arena_slots := s_arena_slots vm OR slot_mask count first,
       s_allocations := snd (omap_emplace p \<lparr> al_size = of_nat count * JIT_ALLOCATION_GRANULARITY,
         al_backend = s_arena_backend vm \<rparr> (s_allocations vm)) \<rparr>"
proof -
  from alloc have nz: "sz \<noteq> 0" and le: "sz \<le> s_arena_size vm"
    by (auto simp: AllocateArenaSliceLocked_def not_less split: if_splits)
  from inv have shape: "arena_shape vm" by (simp add: arena_inv_def)
  have "unat (s_arena_size vm) \<le> 2 ^ 31"
    using shape by (auto simp: arena_shape_def vm_consts split: if_splits)
  with le have small: "unat sz \<le> 2 ^ 31" by (meson order_trans word_le_nat_alt)
  define a where "a = (sz + JIT_ALLOCATION_GRANULARITY - 1) AND NOT (JIT_ALLOCATION_GRANULARITY - 1)"
  define count where "count = unat (a div JIT_ALLOCATION_GRANULARITY)"
  note al = aligned_size_slots [OF nz small, folded a_def]
  have cnt: "count = (unat sz + 2 ^ 20 - 1) div 2 ^ 20" using al(1) by (simp add: count_def)
  have sza: "a = of_nat count * JIT_ALLOCATION_GRANULARITY" using al(2) by (simp add: count_def)
  from alloc nz le obtain first where
    find: "find_slots (s_arena_slots vm) count (arena_slot_count vm) 0 = Some first"
    and p: "p = s_arena_base vm + of_nat first * JIT_ALLOCATION_GRANULARITY" "uid = s_arena_uid vm"
    and vm': "vm' = vm \<lparr> s_arena_slots := s_arena_slots vm OR slot_mask count first,
       s_allocations := snd (omap_emplace p \<lparr> al_size = a, al_backend = s_arena_backend vm \<rparr>
         (s_allocations vm)) \<rparr>"
    by (auto simp: AllocateArenaSliceLocked_def Let_def count_def a_def arena_slot_count_def not_less
        split: if_splits option.splits)
  have "0 < unat sz" using nz by (simp add: unat_gt_0)
  with cnt have "0 < count" by (simp add: div_greater_zero_iff)
  moreover have "unat sz \<le> count * 2 ^ 20" using cnt by simp
  ultimately show ?thesis
    using that [of count first] find_slots_Some [OF find] p vm' nz le cnt unfolding sza
    by (simp add: slice_at_def)
qed

text \<open>The addresses of a slice, and that no two slices share one.\<close>

definition al_range :: "uptr \<times> Allocation \<Rightarrow> nat set" where
  "al_range e = {unat (fst e) ..< unat (fst e) + unat (al_size (snd e))}"

lemma slices_okE:
  assumes "slices_ok vm" "e \<in> set (s_allocations vm)"
  obtains first count where "0 < count" "first + count \<le> arena_slot_count vm"
    "e = slice_at (s_arena_base vm) first count (s_arena_backend vm)"
  using assms unfolding slices_ok_def by blast

lemma arena_slots_size:
  "arena_shape vm \<Longrightarrow> arena_slot_count vm * 2 ^ 20 = unat (s_arena_size vm)"
  by (auto simp: arena_shape_def arena_slot_count_def vm_consts unat_div_granularity split: if_splits)

lemma slice_at_bounds:
  assumes "arena_shape vm" "0 < count" "first + count \<le> arena_slot_count vm"
  shows "unat (fst (slice_at (s_arena_base vm) first count be)) = unat (s_arena_base vm) + first * 2 ^ 20"
    and "unat (al_size (snd (slice_at (s_arena_base vm) first count be))) = count * 2 ^ 20"
    and "unat (s_arena_base vm) + (first + count) * 2 ^ 20 < 2 ^ 32"
    and "al_slots (s_arena_base vm) (slice_at (s_arena_base vm) first count be) = {first ..< first + count}"
    and "s_arena_base vm \<noteq> 0"
proof -
  note b = arena_slot_count_bound [OF assms(1)]
  show nz: "s_arena_base vm \<noteq> 0"
    using assms arena_slots_size [OF assms(1)] by (auto simp: arena_shape_def)
  with assms(1) have "unat (s_arena_base vm) + unat (s_arena_size vm) < 2 ^ 32"
    by (simp add: arena_shape_def)
  then show bound: "unat (s_arena_base vm) + (first + count) * 2 ^ 20 < 2 ^ 32"
    using arena_slots_size [OF assms(1)] mult_le_mono1 [OF assms(3), of "2 ^ 20"] by linarith
  have f: "unat (of_nat first * JIT_ALLOCATION_GRANULARITY) = first * 2 ^ 20"
    using b assms by (intro unat_times_granularity) simp
  have "unat (s_arena_base vm + of_nat first * JIT_ALLOCATION_GRANULARITY) =
      unat (s_arena_base vm) + unat (of_nat first * JIT_ALLOCATION_GRANULARITY)"
    using bound f by (intro unat_add_lem [THEN iffD1]) simp
  with f show "unat (fst (slice_at (s_arena_base vm) first count be)) = unat (s_arena_base vm) + first * 2 ^ 20"
    by (simp add: slice_at_def)
  show "unat (al_size (snd (slice_at (s_arena_base vm) first count be))) = count * 2 ^ 20"
    using b assms by (simp add: slice_at_def unat_times_granularity)
  show "al_slots (s_arena_base vm) (slice_at (s_arena_base vm) first count be) = {first ..< first + count}"
    using b assms by (intro al_slots_slice_at) simp_all
qed

lemma interval_disjoint:
  "(0::nat) < c \<Longrightarrow> 0 < c' \<Longrightarrow> {f ..< f + c} \<inter> {f' ..< f' + c'} = {} \<longleftrightarrow> f + c \<le> f' \<or> f' + c' \<le> f"
  by (auto simp: disjoint_iff not_le not_less)

lemma slice_ranges_disjoint:
  assumes "arena_inv vm" "e \<in> set (s_allocations vm)" "e' \<in> set (s_allocations vm)" "e \<noteq> e'"
  shows "al_range e \<inter> al_range e' = {}"
proof -
  from assms(1) have shape: "arena_shape vm" and sl: "slices_ok vm" by (simp_all add: arena_inv_def)
  from slices_okE [OF sl assms(2)] obtain f c where
    e: "0 < c" "f + c \<le> arena_slot_count vm" "e = slice_at (s_arena_base vm) f c (s_arena_backend vm)" .
  from slices_okE [OF sl assms(3)] obtain f' c' where
    e': "0 < c'" "f' + c' \<le> arena_slot_count vm" "e' = slice_at (s_arena_base vm) f' c' (s_arena_backend vm)" .
  have "al_slots (s_arena_base vm) e \<inter> al_slots (s_arena_base vm) e' = {}"
    using assms by (simp add: arena_inv_def)
  then have "f + c \<le> f' \<or> f' + c' \<le> f"
    using e e' slice_at_bounds(4) [OF shape] by (auto simp: interval_disjoint)
  then have "(f + c) * 2 ^ 20 \<le> f' * 2 ^ 20 \<or> (f' + c') * 2 ^ 20 \<le> f * 2 ^ 20"
    by (meson mult_le_mono1)
  then show ?thesis
    unfolding al_range_def e(3) e'(3) slice_at_bounds(1,2) [OF shape e(1,2)]
      slice_at_bounds(1,2) [OF shape e'(1,2)]
    by (auto simp: algebra_simps)
qed

text \<open>The lookup of the containing allocation is exact.\<close>

lemma slice_end:
  assumes "arena_inv vm" "e \<in> set (s_allocations vm)"
  shows "unat (fst e + al_size (snd e)) = unat (fst e) + unat (al_size (snd e))"
    and "unat (fst e) + unat (al_size (snd e)) < 2 ^ 32"
proof -
  from assms have shape: "arena_shape vm" and sl: "slices_ok vm" by (simp_all add: arena_inv_def)
  from slices_okE [OF sl assms(2)] obtain f c where
    e: "0 < c" "f + c \<le> arena_slot_count vm" "e = slice_at (s_arena_base vm) f c (s_arena_backend vm)" .
  show lt: "unat (fst e) + unat (al_size (snd e)) < 2 ^ 32"
    unfolding e(3) slice_at_bounds(1,2) [OF shape e(1,2)]
    using slice_at_bounds(3) [OF shape e(1,2)] by (simp add: algebra_simps)
  then show "unat (fst e + al_size (snd e)) = unat (fst e) + unat (al_size (snd e))"
    by (intro unat_add_lem [THEN iffD1]) simp
qed

lemma slice_in_arena:
  assumes "arena_inv vm" "e \<in> set (s_allocations vm)"
  shows "al_range e \<subseteq> {unat (s_arena_base vm) ..< unat (s_arena_base vm) + unat (s_arena_size vm)}"
proof -
  from assms have shape: "arena_shape vm" and sl: "slices_ok vm" by (simp_all add: arena_inv_def)
  from slices_okE [OF sl assms(2)] obtain f c where
    e: "0 < c" "f + c \<le> arena_slot_count vm" "e = slice_at (s_arena_base vm) f c (s_arena_backend vm)" .
  have "(f + c) * 2 ^ 20 \<le> unat (s_arena_size vm)"
    using arena_slots_size [OF shape] mult_le_mono1 [OF e(2), of "2 ^ 20"] by simp
  then show ?thesis
    unfolding al_range_def e(3) slice_at_bounds(1,2) [OF shape e(1,2)] by (auto simp: algebra_simps)
qed

lemma FindAllocationBackendLocked_iff:
  assumes inv: "arena_inv vm"
  shows "FindAllocationBackendLocked vm address capacity = Some backend \<longleftrightarrow>
    address \<noteq> 0 \<and> capacity \<noteq> 0 \<and> (\<exists>e \<in> set (s_allocations vm). al_backend (snd e) = backend \<and>
      {unat address ..< unat address + unat capacity} \<subseteq> al_range e)"
    (is "?lhs \<longleftrightarrow> ?rhs")
proof
  assume ?lhs
  then obtain base al where *: "address \<noteq> 0" "capacity \<noteq> 0" "\<not> address + capacity < address"
    "omap_floor address (s_allocations vm) = Some (base, al)" "\<not> base + al_size al < base"
    "\<not> address + capacity > base + al_size al" "backend = al_backend al"
    by (auto simp: FindAllocationBackendLocked_def Let_def split: if_splits option.splits prod.splits)
  from omap_floor_Some [OF *(4)] have mem: "(base, al) \<in> set (s_allocations vm)" "base \<le> address" by auto
  have "unat (address + capacity) = unat address + unat capacity"
    using *(3) no_olen_add_nat [of address capacity] unat_add_lem [of address capacity]
    by (simp add: not_less)
  with * mem slice_end [OF inv mem(1)] show ?rhs
    by (intro conjI bexI [OF _ mem(1)]) (auto simp: al_range_def word_le_nat_alt not_less)
next
  assume ?rhs
  then obtain e where *: "address \<noteq> 0" "capacity \<noteq> 0" "e \<in> set (s_allocations vm)"
    "al_backend (snd e) = backend" "{unat address ..< unat address + unat capacity} \<subseteq> al_range e" by blast
  have cap: "0 < unat capacity" using *(2) by (simp add: unat_gt_0)
  with *(5) have le: "unat (fst e) \<le> unat address"
    "unat address + unat capacity \<le> unat (fst e) + unat (al_size (snd e))"
    by (auto simp: al_range_def)
  note se = slice_end [OF inv *(3)]
  have sum: "unat (address + capacity) = unat address + unat capacity"
    using le se by (intro unat_add_lem [THEN iffD1]) simp
  from inv have sorted: "omap_sorted (s_allocations vm)" by (simp add: arena_inv_def)
  obtain k v where fl: "omap_floor address (s_allocations vm) = Some (k, v)"
    using omap_floor_None [OF sorted, of address] le *(3)
    by (cases "omap_floor address (s_allocations vm)") (auto simp: word_less_nat_alt not_less)
  have kv: "(k, v) \<in> set (s_allocations vm)" "k \<le> address" using omap_floor_Some [OF fl] by auto
  have "fst e \<le> k" using omap_floor_greatest [OF sorted fl, of "fst e" "snd e"] *(3) le
    by (simp add: word_le_nat_alt)
  have "(k, v) = e"
  proof (rule ccontr)
    assume "(k, v) \<noteq> e"
    with slice_ranges_disjoint [OF inv kv(1) *(3)] have "al_range (k, v) \<inter> al_range e = {}" by blast
    moreover have "unat k \<in> al_range e"
      using \<open>fst e \<le> k\<close> kv(2) le cap by (simp add: al_range_def word_le_nat_alt)
    moreover have "0 < unat (al_size v)"
    proof -
      from inv have shape: "arena_shape vm" and sl: "slices_ok vm" by (simp_all add: arena_inv_def)
      from slices_okE [OF sl kv(1)] obtain f c where
        e: "0 < c" "f + c \<le> arena_slot_count vm" "(k, v) = slice_at (s_arena_base vm) f c (s_arena_backend vm)" .
      from slice_at_bounds(2) [OF shape e(1,2), of "s_arena_backend vm", folded e(3)] e(1) show ?thesis by simp
    qed
    ultimately show False by (auto simp: al_range_def disjoint_iff)
  qed
  with fl *(1,2,4) le sum se cap show ?lhs
    by (auto simp: FindAllocationBackendLocked_def Let_def word_less_nat_alt word_le_nat_alt)
qed

subsection \<open>The operations keep the arena invariant\<close>

lemma bit_or_slot_mask:
  "first + count \<le> 32 \<Longrightarrow> bit (slots OR slot_mask count first) i \<longleftrightarrow> bit slots i \<or> i \<in> {first ..< first + count}"
  by (auto simp: bit_or_iff bit_slot_mask)

lemma bit_andnot_slot_mask:
  "first + count \<le> 32 \<Longrightarrow>
   bit (slots AND NOT (slot_mask count first)) i \<longleftrightarrow> bit slots i \<and> i \<notin> {first ..< first + count}"
  by (cases "i < 32") (auto simp: bit_and_iff bit_not_iff bit_slot_mask)

lemma arena_inv_insert:
  assumes inv: "arena_inv vm" and c: "0 < count" "first + count \<le> arena_slot_count vm"
    and free: "free_run (s_arena_slots vm) count first"
    and e: "e = slice_at (s_arena_base vm) first count (s_arena_backend vm)"
  defines "vm' \<equiv> vm \<lparr> s_arena_slots := s_arena_slots vm OR slot_mask count first,
     s_allocations := snd (omap_emplace (fst e) (snd e) (s_allocations vm)) \<rparr>"
  shows "arena_inv vm' \<and> set (s_allocations vm') = insert e (set (s_allocations vm)) \<and>
    e \<notin> set (s_allocations vm)"
proof -
  from inv have shape: "arena_shape vm" and sl: "slices_ok vm" and sorted: "omap_sorted (s_allocations vm)"
    and bits: "\<And>i. bit (s_arena_slots vm) i \<longleftrightarrow> (\<exists>e \<in> set (s_allocations vm). i \<in> al_slots (s_arena_base vm) e)"
    by (simp_all add: arena_inv_def)
  have le32: "first + count \<le> 32" using arena_slot_count_bound [OF shape] c by simp
  have es: "al_slots (s_arena_base vm) e = {first ..< first + count}"
    unfolding e by (rule slice_at_bounds(4) [OF shape c])
  have apart: "al_slots (s_arena_base vm) e \<inter> al_slots (s_arena_base vm) e' = {}"
    if "e' \<in> set (s_allocations vm)" for e'
    using that bits free unfolding es free_run_def by blast
  have fresh: "fst e \<notin> fst ` set (s_allocations vm)"
  proof
    assume "fst e \<in> fst ` set (s_allocations vm)"
    then obtain e' where e': "e' \<in> set (s_allocations vm)" "fst e = fst e'" by auto
    from slices_okE [OF sl e'(1)] obtain f' c' where
      *: "0 < c'" "f' + c' \<le> arena_slot_count vm" "e' = slice_at (s_arena_base vm) f' c' (s_arena_backend vm)" .
    have "first = f'"
      using e'(2) slice_at_eq_iff [of first f' "s_arena_base vm" count "s_arena_backend vm" c' "s_arena_backend vm"]
        c *(1,2) arena_slot_count_bound [OF shape] unfolding e *(3) by simp
    with apart [OF e'(1)] c show False
      unfolding es *(3) slice_at_bounds(4) [OF shape *(1,2)] using *(1) by (simp add: interval_disjoint)
  qed
  from omap_emplace_fresh [OF fresh, of "snd e"]
  obtain m where m: "omap_emplace (fst e) (snd e) (s_allocations vm) = (True, m)" by (elim exE)
  have set: "set (s_allocations vm') = insert e (set (s_allocations vm))"
    using set_omap_emplace [OF m] m by (simp add: vm'_def)
  have nz: "s_arena_base vm \<noteq> 0" by (rule slice_at_bounds(5) [OF shape c])
  have "slices_ok vm'"
    using sl c e unfolding slices_ok_def set
    by (auto simp: vm'_def arena_slot_count_def)
  moreover have "arena_shape vm'" using shape nz by (simp add: arena_shape_def vm'_def)
  moreover have "omap_sorted (s_allocations vm')"
    using omap_sorted_emplace [OF sorted m] m by (simp add: vm'_def)
  moreover have "\<forall>i. bit (s_arena_slots vm') i \<longleftrightarrow>
      (\<exists>e \<in> set (s_allocations vm'). i \<in> al_slots (s_arena_base vm') e)"
    unfolding set using bits es by (auto simp: vm'_def bit_or_slot_mask [OF le32])
  moreover have "\<forall>e \<in> set (s_allocations vm'). \<forall>e' \<in> set (s_allocations vm'). e \<noteq> e' \<longrightarrow>
      al_slots (s_arena_base vm') e \<inter> al_slots (s_arena_base vm') e' = {}"
    unfolding set using inv apart by (auto simp: arena_inv_def vm'_def; blast)
  ultimately show ?thesis using set fresh by (auto simp: arena_inv_def image_iff)
qed

lemma arena_inv_erase:
  assumes inv: "arena_inv vm" and e: "(ptr, al) \<in> set (s_allocations vm)"
  defines "vm' \<equiv> vm \<lparr> s_arena_slots := s_arena_slots vm AND
       NOT (slot_mask (unat (al_size al div JIT_ALLOCATION_GRANULARITY))
              (unat ((ptr - s_arena_base vm) div JIT_ALLOCATION_GRANULARITY))),
     s_allocations := omap_erase ptr (s_allocations vm) \<rparr>"
  shows "arena_inv vm' \<and> set (s_allocations vm') = set (s_allocations vm) - {(ptr, al)}"
proof -
  from inv have shape: "arena_shape vm" and sl: "slices_ok vm" and sorted: "omap_sorted (s_allocations vm)"
    and bits: "\<And>i. bit (s_arena_slots vm) i \<longleftrightarrow> (\<exists>e \<in> set (s_allocations vm). i \<in> al_slots (s_arena_base vm) e)"
    and apart: "\<And>e e'. e \<in> set (s_allocations vm) \<Longrightarrow> e' \<in> set (s_allocations vm) \<Longrightarrow> e \<noteq> e' \<Longrightarrow>
        al_slots (s_arena_base vm) e \<inter> al_slots (s_arena_base vm) e' = {}"
    by (simp_all add: arena_inv_def)
  define first where "first = unat ((ptr - s_arena_base vm) div JIT_ALLOCATION_GRANULARITY)"
  define count where "count = unat (al_size al div JIT_ALLOCATION_GRANULARITY)"
  have es: "al_slots (s_arena_base vm) (ptr, al) = {first ..< first + count}"
    by (simp add: al_slots_def first_def count_def)
  from slices_okE [OF sl e] obtain f c where
    *: "0 < c" "f + c \<le> arena_slot_count vm" "(ptr, al) = slice_at (s_arena_base vm) f c (s_arena_backend vm)" .
  then have "first = f" "count = c"
    using arena_slot_count_bound [OF shape]
    by (simp_all add: first_def count_def slice_at_def unat_div_granularity unat_times_granularity)
  then have le32: "first + count \<le> 32" using * arena_slot_count_bound [OF shape] by simp
  have unique: "b = al" if "(ptr, b) \<in> set (s_allocations vm)" for b
    using omap_find_eq [OF sorted, of ptr al] omap_find_eq [OF sorted, of ptr b] e that by simp
  have set: "set (s_allocations vm') = set (s_allocations vm) - {(ptr, al)}"
  proof (rule set_eqI)
    fix x show "x \<in> set (s_allocations vm') \<longleftrightarrow> x \<in> set (s_allocations vm) - {(ptr, al)}"
    proof (cases x)
      case (Pair k b)
      show ?thesis unfolding Pair vm'_def using unique [of b]
        by (cases "k = ptr") (simp_all add: set_omap_erase)
    qed
  qed
  have "bit (s_arena_slots vm') i \<longleftrightarrow> (\<exists>e \<in> set (s_allocations vm'). i \<in> al_slots (s_arena_base vm') e)" for i
  proof -
    have "bit (s_arena_slots vm') i \<longleftrightarrow> bit (s_arena_slots vm) i \<and> i \<notin> al_slots (s_arena_base vm) (ptr, al)"
      unfolding es by (simp add: vm'_def bit_andnot_slot_mask [OF le32] flip: first_def count_def)
    also have "\<dots> \<longleftrightarrow> (\<exists>e \<in> set (s_allocations vm) - {(ptr, al)}. i \<in> al_slots (s_arena_base vm) e)"
      unfolding bits using apart [OF e] by blast
    finally show ?thesis unfolding set by (simp add: vm'_def)
  qed
  moreover have "slices_ok vm'" "arena_shape vm'"
    using sl shape e unfolding slices_ok_def arena_shape_def set
    by (auto simp: vm'_def arena_slot_count_def omap_erase_def)
  moreover have "omap_sorted (s_allocations vm')"
    using sorted by (simp add: vm'_def omap_sorted_erase)
  ultimately show ?thesis using set apart by (auto simp: arena_inv_def vm'_def; blast)
qed

lemma AllocateArenaSliceLocked_inv:
  assumes "arena_inv vm" "AllocateArenaSliceLocked sz vm = (Some (p, uid), vm')"
  shows "arena_inv vm'"
    and "\<exists>al. unat sz \<le> unat (al_size al) \<and> al_backend al = s_arena_backend vm \<and>
      (p, al) \<notin> set (s_allocations vm) \<and> set (s_allocations vm') = insert (p, al) (set (s_allocations vm))"
proof -
  from AllocateArenaSliceLocked_cases [OF assms] obtain first count where
    *: "0 < count" "first + count \<le> arena_slot_count vm" "free_run (s_arena_slots vm) count first"
    "(p, \<lparr> al_size = of_nat count * JIT_ALLOCATION_GRANULARITY, al_backend = s_arena_backend vm \<rparr>) =
       slice_at (s_arena_base vm) first count (s_arena_backend vm)"
    "unat sz \<le> count * 2 ^ 20"
    "vm' = vm \<lparr> s_arena_slots := s_arena_slots vm OR slot_mask count first,
       s_allocations := snd (omap_emplace p \<lparr> al_size = of_nat count * JIT_ALLOCATION_GRANULARITY,
         al_backend = s_arena_backend vm \<rparr> (s_allocations vm)) \<rparr>" by metis
  note ins = arena_inv_insert [OF assms(1) *(1-4)]
  from assms(1) have shape: "arena_shape vm" by (simp add: arena_inv_def)
  have "unat (of_nat count * JIT_ALLOCATION_GRANULARITY) = count * 2 ^ 20"
    using *(1,2) arena_slot_count_bound [OF shape] by (intro unat_times_granularity) simp
  with *(5,6) ins show "arena_inv vm'"
    "\<exists>al. unat sz \<le> unat (al_size al) \<and> al_backend al = s_arena_backend vm \<and>
      (p, al) \<notin> set (s_allocations vm) \<and> set (s_allocations vm') = insert (p, al) (set (s_allocations vm))"
    by (auto intro!: exI [of _ "\<lparr> al_size = of_nat count * JIT_ALLOCATION_GRANULARITY, al_backend = s_arena_backend vm \<rparr>"])
qed

lemma AllocateArenaSliceLocked_None:
  assumes "arena_inv vm" "AllocateArenaSliceLocked sz vm = (None, vm')"
  shows "vm' = vm"
    and "sz \<noteq> 0 \<Longrightarrow> sz \<le> s_arena_size vm \<Longrightarrow>
      k + (unat sz + 2 ^ 20 - 1) div 2 ^ 20 \<le> arena_slot_count vm \<Longrightarrow>
      \<not> free_run (s_arena_slots vm) ((unat sz + 2 ^ 20 - 1) div 2 ^ 20) k"
proof -
  show "vm' = vm" using assms(2)
    by (auto simp: AllocateArenaSliceLocked_def Let_def split: if_splits option.splits)
  assume sz: "sz \<noteq> 0" "sz \<le> s_arena_size vm"
    and k: "k + (unat sz + 2 ^ 20 - 1) div 2 ^ 20 \<le> arena_slot_count vm"
  from assms(1) have "unat (s_arena_size vm) \<le> 2 ^ 31"
    by (auto simp: arena_inv_def arena_shape_def vm_consts split: if_splits)
  with sz have small: "unat sz \<le> 2 ^ 31" by (meson order_trans word_le_nat_alt)
  from assms(2) sz have "find_slots (s_arena_slots vm) ((unat sz + 2 ^ 20 - 1) div 2 ^ 20) (arena_slot_count vm) 0 = None"
    unfolding AllocateArenaSliceLocked_def Let_def aligned_size_slots(1) [OF sz(1) small] arena_slot_count_def
    by (auto simp: not_less split: option.splits if_splits)
  from find_slots_None [OF this _ k]
  show "\<not> free_run (s_arena_slots vm) ((unat sz + 2 ^ 20 - 1) div 2 ^ 20) k" by simp
qed
end
