(* ===== verification/VitaVM_Inv.thy ===== *)
theory VitaVM_Inv
  imports VitaVM_Arena
begin

text \<open>
  The invariant of the executable-memory manager and what it promises its clients. The state
  is always well formed: the arena tables are consistent, one block is registered, the staging
  array has its recorded capacity, and the write mutex, the owner and the active flag agree;
  the range a writer holds open stays inside a live allocation. Every operation is a
  step of a transition system, which interprets the interface \<open>invariant_system\<close>. On
  top of it: mutual exclusion of the writers, the growth loop ends, allocation and release are
  inverse, and a successful publication makes the executable range equal to what was written.
\<close>
text \<open>What the manager relies on in the kernel, kuBridge and \<^verbatim>\<open>operator new\<close>: thread
  ids are not negative, a memory block does not reach the end of the address space, the
  unrestricted copy that reports success has copied, and an array has the length asked for.\<close>

definition thread_ids_ok :: "sce \<Rightarrow> bool" where
  "thread_ids_ok env \<longleftrightarrow> 0 \<le> sceKernelGetThreadId env"

definition blocks_in_range :: "sce \<Rightarrow> bool" where
  "blocks_in_range env \<longleftrightarrow> (\<forall>uid. case sceKernelGetMemBlockBase env uid of (res, base) \<Rightarrow>
     0 \<le> res \<longrightarrow> unat base + unat KUBRIDGE_JIT_ARENA_SIZE < 2 ^ 32)"

definition copies_ok :: "sce \<Rightarrow> bool" where
  "copies_ok env \<longleftrightarrow> (\<forall>m a bs. case kuKernelCpuUnrestrictedMemcpy env m a bs of (res, m') \<Rightarrow>
     0 \<le> res \<longrightarrow> m' = mem_write m a bs)"

definition arrays_ok :: "sce \<Rightarrow> bool" where
  "arrays_ok env \<longleftrightarrow> (\<forall>n a. new_u8_array env n = Some a \<longrightarrow> length a = n)"

definition sane_env :: "sce \<Rightarrow> bool" where
  "sane_env env \<longleftrightarrow> thread_ids_ok env \<and> blocks_in_range env \<and> copies_ok env \<and> arrays_ok env"

subsection \<open>The invariant\<close>

definition blocks_inv :: "vm_state \<Rightarrow> bool" where
  "blocks_inv vm \<longleftrightarrow> s_blocks vm = (if s_arena_base vm = 0 then [] else
     [(s_arena_base vm, \<lparr> blk_uid = s_arena_uid vm, blk_size = s_arena_size vm,
        blk_backend = s_arena_backend vm \<rparr>)])"

definition staging_inv :: "vm_state \<Rightarrow> bool" where
  "staging_inv vm \<longleftrightarrow> (case s_write_staging vm of
     None \<Rightarrow> s_write_staging_capacity vm = 0
   | Some st \<Rightarrow> length st = unat (s_write_staging_capacity vm))"

definition writer_inv :: "vm_state \<Rightarrow> bool" where
  "writer_inv vm \<longleftrightarrow> (case s_write_mutex vm of
     None \<Rightarrow> \<not> s_write_active vm \<and> s_write_owner vm = -1 \<and> \<not> s_write_vm_domain_open vm \<and>
       s_write_target_base vm = 0 \<and> s_write_target_capacity vm = 0
   | Some t \<Rightarrow> s_write_active vm \<and> s_write_owner vm = t \<and> 0 \<le> t)"

text \<open>The range a writer opened stays inside one live allocation of the backend it was opened
  for, and a staged write has its staging array.\<close>

definition target_inv :: "vm_state \<Rightarrow> bool" where
  "target_inv vm \<longleftrightarrow>
     (s_write_target_base vm \<noteq> 0 \<longrightarrow>
        FindAllocationBackendLocked vm (s_write_target_base vm) (s_write_target_capacity vm) =
          Some (s_write_backend vm)) \<and>
     (s_write_active vm \<and> s_write_backend vm = KuBridgeRxStaging \<longrightarrow>
        s_write_target_base vm \<noteq> 0 \<and> s_write_staging vm \<noteq> None)"

definition vm_inv :: "vm_state \<Rightarrow> bool" where
  "vm_inv vm \<longleftrightarrow> arena_inv vm \<and> blocks_inv vm \<and> staging_inv vm \<and> writer_inv vm \<and> target_inv vm"

text \<open>The fields the arena part reads, and those it does not.\<close>

lemma arena_inv_cong:
  assumes "s_allocations vm' = s_allocations vm" "s_arena_base vm' = s_arena_base vm"
    "s_arena_size vm' = s_arena_size vm" "s_arena_slots vm' = s_arena_slots vm"
    "s_arena_backend vm' = s_arena_backend vm"
  shows "arena_inv vm' = arena_inv vm"
  using assms by (simp add: arena_inv_def arena_shape_def slices_ok_def arena_slot_count_def)

lemma FindAllocationBackendLocked_cong:
  "s_allocations vm' = s_allocations vm \<Longrightarrow>
   FindAllocationBackendLocked vm' a c = FindAllocationBackendLocked vm a c"
  by (simp add: FindAllocationBackendLocked_def Let_def)

definition same_arena :: "vm_state \<Rightarrow> vm_state \<Rightarrow> bool" where
  "same_arena vm vm' \<longleftrightarrow> s_allocations vm' = s_allocations vm \<and> s_arena_base vm' = s_arena_base vm \<and>
     s_arena_size vm' = s_arena_size vm \<and> s_arena_slots vm' = s_arena_slots vm \<and>
     s_arena_backend vm' = s_arena_backend vm \<and> s_arena_uid vm' = s_arena_uid vm \<and>
     s_blocks vm' = s_blocks vm"

lemma same_arena_inv:
  assumes "same_arena vm vm'"
  shows "arena_inv vm' = arena_inv vm" "blocks_inv vm' = blocks_inv vm"
    "FindAllocationBackendLocked vm' a c = FindAllocationBackendLocked vm a c"
  using assms by (simp_all add: same_arena_def blocks_inv_def
      cong: arena_inv_cong FindAllocationBackendLocked_cong)

definition same_writer :: "vm_state \<Rightarrow> vm_state \<Rightarrow> bool" where
  "same_writer vm vm' \<longleftrightarrow> s_write_mutex vm' = s_write_mutex vm \<and> s_write_active vm' = s_write_active vm \<and>
     s_write_owner vm' = s_write_owner vm \<and> s_write_vm_domain_open vm' = s_write_vm_domain_open vm \<and>
     s_write_backend vm' = s_write_backend vm \<and> s_write_target_base vm' = s_write_target_base vm \<and>
     s_write_target_capacity vm' = s_write_target_capacity vm"

definition same_staging :: "vm_state \<Rightarrow> vm_state \<Rightarrow> bool" where
  "same_staging vm vm' \<longleftrightarrow> s_write_staging vm' = s_write_staging vm \<and>
     s_write_staging_capacity vm' = s_write_staging_capacity vm"

lemma same_writer_inv: "same_writer vm vm' \<Longrightarrow> writer_inv vm' = writer_inv vm"
  by (simp add: same_writer_def writer_inv_def split: option.split)

lemma same_staging_inv: "same_staging vm vm' \<Longrightarrow> staging_inv vm' = staging_inv vm"
  by (simp add: same_staging_def staging_inv_def split: option.split)

subsection \<open>The arena operations\<close>

lemma RegisterArenaLocked_frame:
  "same_writer vm (snd (RegisterArenaLocked uid base sz backend (vm\<lparr>s_diagnostics := d\<rparr>))) \<and>
   same_staging vm (snd (RegisterArenaLocked uid base sz backend (vm\<lparr>s_diagnostics := d\<rparr>)))"
  by (simp add: RegisterArenaLocked_def same_writer_def same_staging_def split: prod.split bool.split)

lemma TryInitializeKuBridgeArenaLocked_frame:
  "same_writer vm (snd (TryInitializeKuBridgeArenaLocked env vm)) \<and>
   same_staging vm (snd (TryInitializeKuBridgeArenaLocked env vm))"
  unfolding TryInitializeKuBridgeArenaLocked_def Let_def
  by (simp add: RegisterArenaLocked_frame split: prod.split) (simp add: same_writer_def same_staging_def)

lemma InitializeOfficialArenaLocked_frame:
  "same_writer vm (snd (InitializeOfficialArenaLocked env vm)) \<and>
   same_staging vm (snd (InitializeOfficialArenaLocked env vm))"
  using RegisterArenaLocked_frame [of vm _ _ _ _ "s_diagnostics vm"]
  unfolding InitializeOfficialArenaLocked_def Let_def
  by (simp split: prod.split) (simp add: same_writer_def same_staging_def)

lemma EnsureJitArenaLocked_frame:
  "same_writer vm (snd (EnsureJitArenaLocked env vm)) \<and> same_staging vm (snd (EnsureJitArenaLocked env vm))"
proof -
  obtain ok vm1 where t: "TryInitializeKuBridgeArenaLocked env vm = (ok, vm1)" by fastforce
  show ?thesis
    using TryInitializeKuBridgeArenaLocked_frame [of vm env] InitializeOfficialArenaLocked_frame [of vm1 env] t
    by (simp add: EnsureJitArenaLocked_def same_writer_def same_staging_def)
qed

lemma RegisterArenaLocked_inv:
  assumes "arena_inv vm" "blocks_inv vm" "s_arena_base vm = 0" "base \<noteq> 0"
    "sz = KUBRIDGE_JIT_ARENA_SIZE \<or> sz = OFFICIAL_JIT_ARENA_SIZE"
    "unat base + unat KUBRIDGE_JIT_ARENA_SIZE < 2 ^ 32"
    "RegisterArenaLocked uid base sz backend vm = (ok, vm')"
  shows "ok \<and> arena_inv vm' \<and> blocks_inv vm' \<and> s_arena_base vm' \<noteq> 0 \<and> s_allocations vm' = []"
  using assms
  by (auto simp: RegisterArenaLocked_def blocks_inv_def arena_inv_def arena_shape_def slices_ok_def
      vm_consts)

lemma EnsureJitArenaLocked_inv:
  assumes "sane_env env" "arena_inv vm" "blocks_inv vm" "EnsureJitArenaLocked env vm = (ok, vm')"
  shows "arena_inv vm' \<and> blocks_inv vm' \<and> s_allocations vm' = s_allocations vm \<and>
    (ok \<longrightarrow> s_arena_base vm' \<noteq> 0)"
proof (cases "s_arena_base vm = 0")
  case True
  then have none: "s_allocations vm = []" using assms(2) by (simp add: arena_inv_def arena_shape_def)
  obtain ok1 vm1 where t: "TryInitializeKuBridgeArenaLocked env vm = (ok1, vm1)" by fastforce
  have range: "unat base + unat KUBRIDGE_JIT_ARENA_SIZE < 2 ^ 32"
    if "sceKernelGetMemBlockBase env uid = (res, base)" "\<not> res < 0" for uid res base
  proof -
    from assms(1) have "case sceKernelGetMemBlockBase env uid of (res, base) \<Rightarrow>
        0 \<le> res \<longrightarrow> unat base + unat KUBRIDGE_JIT_ARENA_SIZE < 2 ^ 32"
      unfolding sane_env_def blocks_in_range_def by (elim conjE allE)
    with that show ?thesis by simp
  qed
  have diag: "arena_inv (vm\<lparr>s_diagnostics := d\<rparr>) = arena_inv vm" "blocks_inv (vm\<lparr>s_diagnostics := d\<rparr>) = blocks_inv vm" for d
    using same_arena_inv [of vm "vm\<lparr>s_diagnostics := d\<rparr>"] by (simp_all add: same_arena_def)
  have one: "(if ok1 then arena_inv vm1 \<and> blocks_inv vm1 \<and> s_arena_base vm1 \<noteq> 0 \<and> s_allocations vm1 = []
      else arena_inv vm1 \<and> blocks_inv vm1 \<and> s_arena_base vm1 = 0 \<and> s_allocations vm1 = [])"
    using t True none assms(2,3)
    unfolding TryInitializeKuBridgeArenaLocked_def Let_def
    by (auto simp: diag split: if_splits prod.splits dest!: RegisterArenaLocked_inv [rotated -1] range)
  show ?thesis
  proof (cases ok1)
    case True
    with t one assms(4) none show ?thesis
      by (auto simp: EnsureJitArenaLocked_def \<open>s_arena_base vm = 0\<close>)
  next
    case False
    with t one assms(4) none show ?thesis
      by (auto simp: EnsureJitArenaLocked_def \<open>s_arena_base vm = 0\<close> InitializeOfficialArenaLocked_def Let_def
          split: if_splits prod.splits dest!: RegisterArenaLocked_inv [rotated -1] range)
  qed
next
  case False
  with assms show ?thesis by (simp add: EnsureJitArenaLocked_def)
qed

lemma vm_inv_arena_change:
  assumes "vm_inv vm" "arena_inv vm'" "blocks_inv vm'" "same_writer vm vm'" "same_staging vm vm'"
    and keep: "s_write_mutex vm = None \<or> set (s_allocations vm) \<subseteq> set (s_allocations vm')"
  shows "vm_inv vm'"
proof -
  have "target_inv vm'"
  proof (cases "s_write_mutex vm")
    case None
    with assms show ?thesis
      by (simp add: vm_inv_def target_inv_def same_writer_def writer_inv_def)
  next
    case (Some t)
    with keep have sub: "set (s_allocations vm) \<subseteq> set (s_allocations vm')" by simp
    have "FindAllocationBackendLocked vm' a c = Some b"
      if "FindAllocationBackendLocked vm a c = Some b" for a c b
      using that FindAllocationBackendLocked_iff [of vm a c b] FindAllocationBackendLocked_iff [of vm' a c b]
        assms(1,2) sub by (simp add: vm_inv_def) blast
    with assms show ?thesis
      by (simp add: vm_inv_def target_inv_def same_writer_def same_staging_def)
  qed
  with assms show ?thesis
    by (simp add: vm_inv_def same_writer_inv same_staging_inv)
qed

lemma AllocateArenaSliceLocked_frame:
  "same_writer vm (snd (AllocateArenaSliceLocked sz vm)) \<and> same_staging vm (snd (AllocateArenaSliceLocked sz vm)) \<and>
   s_blocks (snd (AllocateArenaSliceLocked sz vm)) = s_blocks vm \<and>
   s_arena_base (snd (AllocateArenaSliceLocked sz vm)) = s_arena_base vm \<and>
   s_arena_size (snd (AllocateArenaSliceLocked sz vm)) = s_arena_size vm \<and>
   s_arena_backend (snd (AllocateArenaSliceLocked sz vm)) = s_arena_backend vm \<and>
   s_arena_uid (snd (AllocateArenaSliceLocked sz vm)) = s_arena_uid vm"
  by (simp add: AllocateArenaSliceLocked_def same_writer_def same_staging_def Let_def split: option.split)

lemma AllocateArenaSliceLocked_vm_inv:
  assumes "vm_inv vm" "AllocateArenaSliceLocked sz vm = (r, vm')"
  shows "vm_inv vm'"
proof (cases r)
  case None
  with assms AllocateArenaSliceLocked_None(1) [of vm sz vm'] show ?thesis by (simp add: vm_inv_def)
next
  case (Some pu)
  obtain p uid where r: "r = Some (p, uid)" using Some by (cases pu) simp
  from assms have ai: "arena_inv vm" by (simp add: vm_inv_def)
  note a = AllocateArenaSliceLocked_inv [OF ai assms(2) [unfolded r]]
  note f = AllocateArenaSliceLocked_frame [of vm sz, unfolded assms(2), simplified]
  have "blocks_inv vm'" using assms(1) f by (simp add: vm_inv_def blocks_inv_def)
  with vm_inv_arena_change [OF assms(1) a(1)] a(2) f show ?thesis by blast
qed

lemma EnsureJitArenaLocked_vm_inv:
  assumes "sane_env env" "vm_inv vm" "EnsureJitArenaLocked env vm = (ok, vm')"
  shows "vm_inv vm'" "s_allocations vm' = s_allocations vm" "ok \<Longrightarrow> s_arena_base vm' \<noteq> 0"
proof -
  from assms have inv: "arena_inv vm" "blocks_inv vm" by (simp_all add: vm_inv_def)
  note e = EnsureJitArenaLocked_inv [OF assms(1) inv assms(3)]
  from e show "s_allocations vm' = s_allocations vm" "ok \<Longrightarrow> s_arena_base vm' \<noteq> 0" by simp_all
  from e EnsureJitArenaLocked_frame [of vm env] assms(3) show "vm_inv vm'"
    using vm_inv_arena_change [OF assms(2), of vm'] by simp
qed

lemma AllocJitMemory_vm_inv:
  assumes "sane_env env" "vm_inv vm"
  shows "vm_inv (snd (AllocJitMemory env sz vm))"
proof -
  obtain ok vm1 where e: "EnsureJitArenaLocked env vm = (ok, vm1)" by fastforce
  obtain r vm2 where a: "AllocateArenaSliceLocked sz vm1 = (r, vm2)" by fastforce
  from EnsureJitArenaLocked_vm_inv [OF assms e] AllocateArenaSliceLocked_vm_inv [OF _ a] assms(2) e a
  show ?thesis by (simp add: AllocJitMemory_def)
qed

lemma AllocLargeJitMemory_vm_inv:
  assumes "sane_env env" "vm_inv vm"
  shows "vm_inv (snd (AllocLargeJitMemory env sz vm))"
proof -
  obtain ok vm1 where e: "EnsureJitArenaLocked env vm = (ok, vm1)" by fastforce
  obtain r vm2 where a: "AllocateArenaSliceLocked sz vm1 = (r, vm2)" by fastforce
  from EnsureJitArenaLocked_vm_inv [OF assms e] AllocateArenaSliceLocked_vm_inv [OF _ a] assms(2) e a
  show ?thesis by (simp add: AllocLargeJitMemory_def)
qed

lemma FreeJitMemory_cases:
  assumes "vm_inv vm" "FreeJitMemory env ptr vm = Returns vm'"
  obtains al where "(ptr, al) \<in> set (s_allocations vm)" "s_write_mutex vm = None"
    "vm' = vm \<lparr> s_arena_slots := s_arena_slots vm AND
       NOT (slot_mask (unat (al_size al div JIT_ALLOCATION_GRANULARITY))
              (unat ((ptr - s_arena_base vm) div JIT_ALLOCATION_GRANULARITY))),
     s_allocations := omap_erase ptr (s_allocations vm) \<rparr>"
proof -
  from assms(2) obtain al where "omap_find ptr (s_allocations vm) = Some al" "s_write_mutex vm = None"
    "vm' = vm \<lparr> s_arena_slots := s_arena_slots vm AND
       NOT (slot_mask (unat (al_size al div JIT_ALLOCATION_GRANULARITY))
              (unat ((ptr - s_arena_base vm) div JIT_ALLOCATION_GRANULARITY))),
     s_allocations := omap_erase ptr (s_allocations vm) \<rparr>"
    unfolding FreeJitMemory_def Let_def by (auto split: if_splits option.splits)
  with that assms(1) show ?thesis
    by (simp add: vm_inv_def arena_inv_def omap_find_eq)
qed

lemma FreeJitMemory_vm_inv:
  assumes "vm_inv vm" "FreeJitMemory env ptr vm = Returns vm'"
  shows "vm_inv vm'"
  using assms
proof (rule FreeJitMemory_cases)
  fix al assume *: "(ptr, al) \<in> set (s_allocations vm)" "s_write_mutex vm = None"
    "vm' = vm \<lparr> s_arena_slots := s_arena_slots vm AND
       NOT (slot_mask (unat (al_size al div JIT_ALLOCATION_GRANULARITY))
              (unat ((ptr - s_arena_base vm) div JIT_ALLOCATION_GRANULARITY))),
     s_allocations := omap_erase ptr (s_allocations vm) \<rparr>"
  from assms(1) have "arena_inv vm" by (simp add: vm_inv_def)
  from arena_inv_erase [OF this *(1)] *(3) have "arena_inv vm'" by simp
  moreover have "blocks_inv vm'" "same_writer vm vm'" "same_staging vm vm'"
    using assms(1) by (simp_all add: vm_inv_def *(3) blocks_inv_def same_writer_def same_staging_def)
  ultimately show ?thesis using vm_inv_arena_change [OF assms(1)] *(2) by blast
qed

subsection \<open>Growing the staging array\<close>

lemma double_word:
  fixes n :: size_t
  shows "n * 2 < n \<longleftrightarrow> 2 ^ 31 \<le> unat n" and "unat n < 2 ^ 31 \<Longrightarrow> unat (n * 2) = 2 * unat n"
proof -
  have u: "unat (n * 2) = (2 * unat n) mod 2 ^ 32"
    by (simp add: unat_word_ariths mult.commute)
  then show d: "unat n < 2 ^ 31 \<Longrightarrow> unat (n * 2) = 2 * unat n" by simp
  have "unat (n * 2) < unat n" if "2 ^ 31 \<le> unat n"
  proof -
    have "2 * unat n - 2 ^ 32 < 2 ^ 32" using unat_u32_less [of n] by simp
    moreover have "2 * unat n mod 2 ^ 32 = 2 * unat n - 2 ^ 32"
      using that calculation by (subst mod_if) (simp add: le_mod_geq)
    ultimately show ?thesis using u that unat_u32_less [of n] by simp
  qed
  then show "n * 2 < n \<longleftrightarrow> 2 ^ 31 \<le> unat n"
    using d by (cases "2 ^ 31 \<le> unat n") (auto simp: word_less_nat_alt)
qed

lemma grow_capacity_returns:
  assumes "0 < n" "n \<le> maximum" "minimum \<le> maximum"
  shows "grow_capacity maximum minimum n = Some None \<and> 2 ^ 31 < unat maximum \<or>
    (\<exists>c. grow_capacity maximum minimum n = Some (Some c) \<and> minimum \<le> c \<and> n \<le> c \<and> c \<le> maximum)"
  using assms(1,2)
proof (induction "2 ^ 32 - unat n" arbitrary: n rule: less_induct)
  case less
  show ?case
  proof (cases "n < minimum")
    case False
    with less.prems show ?thesis
      by (subst (1 2) grow_capacity.simps) (auto simp: not_less)
  next
    case True
    show ?thesis
    proof (cases "n * 2 < n")
      case True
      then have "2 ^ 31 \<le> unat n" by (simp add: double_word)
      moreover have "unat n < unat maximum"
        using \<open>n < minimum\<close> assms(3) by (simp add: word_less_nat_alt word_le_nat_alt)
      ultimately show ?thesis
        using True \<open>n < minimum\<close> by (subst (1) grow_capacity.simps) (simp add: Let_def)
    next
      case False
      then have small: "unat n < 2 ^ 31" by (simp add: double_word)
      define m where "m = min maximum (n * 2)"
      have "n < n * 2" using double_word(2) [OF small] less.prems(1) by (simp add: word_less_nat_alt)
      moreover have "n < maximum" using \<open>n < minimum\<close> assms(3) by simp
      ultimately have m: "n < m" "m \<le> maximum" "0 < m" using less.prems(1) by (auto simp: m_def)
      have "2 ^ 32 - unat m < 2 ^ 32 - unat n"
        using m(1) unat_u32_less [of n] by (simp add: word_less_nat_alt)
      from less.hyps [OF this m(3,2)] m(1)
      show ?thesis
        using False \<open>n < minimum\<close> by (subst (1 2) grow_capacity.simps) (auto simp: Let_def m_def)
    qed
  qed
qed

lemma GrowStagingLocked_cases:
  assumes "arrays_ok env" "staging_inv vm"
  obtains "GrowStagingLocked env preserve minimum maximum vm = Returns (False, vm)"
  | vm' where "GrowStagingLocked env preserve minimum maximum vm = Returns (True, vm')"
      "preserve \<le> s_write_staging_capacity vm" "minimum \<le> maximum"
      "minimum \<le> s_write_staging_capacity vm'" "s_write_staging_capacity vm \<le> s_write_staging_capacity vm'"
      "s_write_staging_capacity vm' \<le> max maximum (s_write_staging_capacity vm)"
      "staging_inv vm'" "same_writer vm vm'" "same_arena vm vm'" "vm_mem vm' = vm_mem vm"
      "\<forall>st. s_write_staging vm = Some st \<longrightarrow> (\<exists>st'. s_write_staging vm' = Some st' \<and>
         take (unat preserve) st' = take (unat preserve) st)"
proof (cases "preserve > s_write_staging_capacity vm \<or> minimum > maximum")
  case True
  then show ?thesis by (intro that(1)) (auto simp: GrowStagingLocked_def)
next
  case ok: False
  show ?thesis
  proof (cases "minimum \<le> s_write_staging_capacity vm")
    case True
    with ok show ?thesis using assms(2)
      by (intro that(2) [of vm]) (auto simp: GrowStagingLocked_def same_writer_def same_arena_def not_less le_max_iff_disj)
  next
    case False
    define n where "n = min maximum (max KUBRIDGE_INITIAL_STAGING_SIZE (s_write_staging_capacity vm))"
    from False ok have "s_write_staging_capacity vm < maximum" by auto
    then have n: "0 < n" "n \<le> maximum" "s_write_staging_capacity vm \<le> n"
      by (auto simp: n_def min_def max_def vm_consts word_gt_0)
    from ok have mm: "minimum \<le> maximum" by (simp add: not_less)
    note G = GrowStagingLocked_def n_def [symmetric]
    from grow_capacity_returns [OF n(1,2) mm] show ?thesis
    proof (elim disjE conjE exE)
      assume "grow_capacity maximum minimum n = Some None"
      with ok False show ?thesis by (intro that(1)) (simp add: G)
    next
      fix c assume c: "grow_capacity maximum minimum n = Some (Some c)" "minimum \<le> c" "n \<le> c" "c \<le> maximum"
      show ?thesis
      proof (cases "new_u8_array env (unat c)")
        case None
        with ok False c(1) show ?thesis by (intro that(1)) (simp add: G)
      next
        case (Some a)
        then have len: "length a = unat c" using assms(1) by (simp add: arrays_ok_def)
        define kept where "kept = (case s_write_staging vm of
            Some old \<Rightarrow> if preserve \<noteq> 0 then take (unat preserve) old else [] | None \<Rightarrow> [])"
        define vm' where "vm' = vm \<lparr> s_write_staging := Some (kept @ drop (length kept) a),
            s_write_staging_capacity := c \<rparr>"
        have pc: "unat preserve \<le> unat (s_write_staging_capacity vm)" "s_write_staging_capacity vm \<le> c"
          using ok n(3) c(3) by (auto simp: word_le_nat_alt not_less)
        have kl: "length kept \<le> unat c"
          using pc assms(2) by (auto simp: kept_def staging_inv_def word_le_nat_alt split: option.splits)
        have "GrowStagingLocked env preserve minimum maximum vm = Returns (True, vm')"
          using ok False c(1) Some by (simp add: G vm'_def kept_def Let_def)
        moreover have "staging_inv vm'" using kl len by (simp add: staging_inv_def vm'_def)
        moreover have "\<forall>st. s_write_staging vm = Some st \<longrightarrow> (\<exists>st'. s_write_staging vm' = Some st' \<and>
            take (unat preserve) st' = take (unat preserve) st)"
          using pc assms(2) by (auto simp: vm'_def kept_def staging_inv_def)
        ultimately show ?thesis using ok mm c pc
          by (intro that(2) [of vm'])
             (auto simp: vm'_def same_writer_def same_arena_def le_max_iff_disj)
      qed
    qed
  qed
qed

lemma FinishJitWrite_vm_inv: "vm_inv vm \<Longrightarrow> vm_inv (FinishJitWrite vm)"
proof -
  have "same_arena vm (FinishJitWrite vm)" "same_staging vm (FinishJitWrite vm)"
    by (simp_all add: same_arena_def same_staging_def FinishJitWrite_def)
  from same_arena_inv [OF this(1)] same_staging_inv [OF this(2)] show "vm_inv vm \<Longrightarrow> vm_inv (FinishJitWrite vm)"
    by (simp add: vm_inv_def) (simp add: target_inv_def writer_inv_def FinishJitWrite_def)
qed

subsection \<open>Opening, growing, publishing\<close>

text \<open>What a thread holds once \<^verbatim>\<open>BeginJitWrite\<close> has succeeded.\<close>

definition write_open ::
  "int \<Rightarrow> uptr \<Rightarrow> size_t \<Rightarrow> wptr \<Rightarrow> size_t \<Rightarrow> vm_state \<Rightarrow> bool" where
  "write_open tid address capacity w wcap vm \<longleftrightarrow>
     s_write_mutex vm = Some tid \<and> s_write_target_base vm = address \<and> address \<noteq> 0 \<and>
     s_write_target_capacity vm = capacity \<and>
     (if s_write_backend vm = KuBridgeRxStaging
      then w = WStaging \<and> wcap = min (s_write_staging_capacity vm) capacity
      else w = WAt address \<and> wcap = capacity)"

lemma staging_replace_inv:
  assumes "staging_inv vm" "s_write_staging vm = Some st" "length st' = length st"
  shows "staging_inv (vm\<lparr> s_write_staging := Some st' \<rparr>)"
  using assms by (simp add: staging_inv_def)

lemma BeginJitWriteForAddress_None:
  assumes env: "sane_env env" and inv: "vm_inv vm"
    and r: "BeginJitWriteForAddress env address existing capacity vm = Returns (None, vm')"
  shows "vm' = vm"
proof -
  have "arrays_ok env" "staging_inv vm" using env inv by (simp_all add: sane_env_def vm_inv_def)
  from GrowStagingLocked_cases [OF this, of 0 "min capacity (max existing KUBRIDGE_INITIAL_STAGING_SIZE)" capacity]
  show ?thesis
    by cases (use r in \<open>simp_all add: BeginJitWriteForAddress_def Let_def split: if_splits option.splits\<close>)
qed

lemma BeginJitWriteForAddress_Some:
  assumes env: "sane_env env" and inv: "vm_inv vm"
    and r: "BeginJitWriteForAddress env address existing capacity vm = Returns (Some (w, wcap), vm')"
  shows "vm_inv vm'" "write_open (sceKernelGetThreadId env) address capacity w wcap vm'"
    "s_write_mutex vm = None" "existing \<le> wcap" "wcap \<le> capacity" "same_arena vm vm'" "vm_mem vm' = vm_mem vm"
    "wptr_load w 0 (unat existing) vm' = Returns (mem_read (vm_mem vm) address (unat existing))"
    "FindAllocationBackendLocked vm address capacity = Some (s_write_backend vm')"
proof -
  have tid: "0 \<le> sceKernelGetThreadId env" using env by (simp add: sane_env_def thread_ids_ok_def)
  from inv have parts: "arena_inv vm" "blocks_inv vm" "staging_inv vm" "writer_inv vm" by (simp_all add: vm_inv_def)
  have arrays: "arrays_ok env" using env by (simp add: sane_env_def)
  define opn where "opn = (\<lambda>(vm1 :: vm_state) dom be. vm1 \<lparr> s_write_active := True, s_write_vm_domain_open := dom,
      s_write_backend := be, s_write_target_base := address,
      s_write_target_capacity := capacity, s_write_owner := sceKernelGetThreadId env,
      s_write_mutex := Some (sceKernelGetThreadId env) \<rparr>)"
  have opn: "vm_inv (opn vm1 dom be)"
    if "same_arena vm vm1" "staging_inv vm1" "FindAllocationBackendLocked vm address capacity = Some be"
      "be = KuBridgeRxStaging \<Longrightarrow> s_write_staging vm1 \<noteq> None" for vm1 dom be
  proof -
    have sa: "same_arena vm (opn vm1 dom be)" and ss: "same_staging vm1 (opn vm1 dom be)"
      using that by (simp_all add: same_arena_def same_staging_def opn_def)
    have "address \<noteq> 0" using that(3) by (auto simp: FindAllocationBackendLocked_def split: if_splits)
    then show ?thesis
      using parts that(2-4) tid unfolding vm_inv_def same_arena_inv [OF sa] same_staging_inv [OF ss]
      by (simp add: target_inv_def same_arena_inv [OF sa]) (simp add: opn_def writer_inv_def)
  qed
  from r have free: "s_write_mutex vm = None" and le: "\<not> existing > capacity" "address \<noteq> 0"
    by (auto simp: BeginJitWriteForAddress_def Let_def split: if_splits)
  from r obtain be where be: "FindAllocationBackendLocked vm address capacity = Some be"
    by (auto simp: BeginJitWriteForAddress_def Let_def split: if_splits option.splits)
  then have cap0: "capacity \<noteq> 0" by (auto simp: FindAllocationBackendLocked_def)
  have "vm_inv vm' \<and> write_open (sceKernelGetThreadId env) address capacity w wcap vm' \<and> existing \<le> wcap \<and>
      wcap \<le> capacity \<and> same_arena vm vm' \<and> vm_mem vm' = vm_mem vm \<and> s_write_backend vm' = be \<and>
      wptr_load w 0 (unat existing) vm' = Returns (mem_read (vm_mem vm) address (unat existing))"
  proof (cases "be = KuBridgeRxStaging")
    case False
    with r be have "w = WAt address" "wcap = capacity" "\<exists>dom. vm' = opn vm dom be"
      by (cases be; auto simp: BeginJitWriteForAddress_def Let_def opn_def split: if_splits)+
    with False opn [OF _ parts(3) be] le show ?thesis
      by (auto simp: write_open_def same_arena_def opn_def wptr_load_def not_less)
  next
    case True
    define ic where "ic = min capacity (max existing KUBRIDGE_INITIAL_STAGING_SIZE)"
    have ic: "existing \<le> ic" "0 < ic" "ic \<le> capacity"
      using le cap0 by (auto simp: ic_def min_def max_def not_less vm_consts word_gt_0)
    from r be True have g: "call_bind (GrowStagingLocked env 0 ic capacity vm) (\<lambda>(ok, vm1).
          if \<not> ok then Returns (None, vm1)
          else let existing = mem_read (vm_mem vm1) address (unat existing);
                   vm2 = (case s_write_staging vm1 of None \<Rightarrow> vm1
                     | Some st \<Rightarrow> vm1\<lparr> s_write_staging := Some (existing @ drop (length existing) st) \<rparr>)
               in Returns (Some (WStaging, min (s_write_staging_capacity vm2) capacity), opn vm2 False KuBridgeRxStaging)) =
        Returns (Some (w, wcap), vm')"
      unfolding BeginJitWriteForAddress_def Let_def opn_def ic_def by (simp split: if_splits)
    from GrowStagingLocked_cases [OF arrays parts(3), of 0 ic capacity]
    show ?thesis
    proof cases
      case 1
      with g show ?thesis by simp
    next
      case (2 vm1)
      then obtain st where st: "s_write_staging vm1 = Some st"
        using ic(2) by (auto simp: staging_inv_def split: option.splits)
      then have len: "length st = unat (s_write_staging_capacity vm1)" using 2 by (simp add: staging_inv_def)
      define ex where "ex = mem_read (vm_mem vm) address (unat existing)"
      define st2 where "st2 = ex @ drop (length ex) st"
      have fits: "unat existing \<le> length st"
        using ic(1) 2(4) len by (simp add: word_le_nat_alt)
      then have l2: "length st2 = length st" by (simp add: st2_def ex_def)
      have vm': "w = WStaging" "wcap = min (s_write_staging_capacity vm1) capacity"
        "vm' = opn (vm1\<lparr> s_write_staging := Some st2 \<rparr>) False be"
        using g 2 st by (simp_all add: Let_def st2_def ex_def True)
      have "same_arena vm (vm1\<lparr> s_write_staging := Some st2 \<rparr>)" using 2 by (simp add: same_arena_def)
      from opn [OF this staging_replace_inv [OF 2(7) st l2] be] have "vm_inv vm'" by (simp add: vm')
      moreover have "existing \<le> wcap" using ic 2(4) by (auto simp: vm'(2))
      ultimately show ?thesis
        using True 2 fits l2 unfolding vm'
        by (simp add: write_open_def same_arena_def opn_def wptr_load_def st2_def ex_def le(2))
    qed
  qed
  with be free show "vm_inv vm'" "write_open (sceKernelGetThreadId env) address capacity w wcap vm'"
    "s_write_mutex vm = None" "existing \<le> wcap" "wcap \<le> capacity" "same_arena vm vm'" "vm_mem vm' = vm_mem vm"
    "wptr_load w 0 (unat existing) vm' = Returns (mem_read (vm_mem vm) address (unat existing))"
    "FindAllocationBackendLocked vm address capacity = Some (s_write_backend vm')"
    by simp_all
qed

lemma BeginJitWrite0_vm_inv:
  assumes "sane_env env" "vm_inv vm" "BeginJitWrite0 env vm = Returns (ok, vm')"
  shows "vm_inv vm'" "same_arena vm vm'"
proof -
  have tid: "0 \<le> sceKernelGetThreadId env" using assms(1) by (simp add: sane_env_def thread_ids_ok_def)
  have "vm' = vm \<or> s_write_mutex vm = None \<and> vm' = vm
        \<lparr> s_write_active := True, s_write_vm_domain_open := True,
          s_write_backend := OfficialVmDomain, s_write_owner := sceKernelGetThreadId env,
          s_write_mutex := Some (sceKernelGetThreadId env) \<rparr>"
    using assms(3) unfolding BeginJitWrite0_def Let_def by (simp split: if_splits)
  then have "vm_inv vm' \<and> same_arena vm vm'"
  proof (elim disjE conjE)
    assume "vm' = vm"
    with assms show ?thesis by (simp add: same_arena_def)
  next
    assume 2: "s_write_mutex vm = None" "vm' = vm
        \<lparr> s_write_active := True, s_write_vm_domain_open := True,
          s_write_backend := OfficialVmDomain, s_write_owner := sceKernelGetThreadId env,
          s_write_mutex := Some (sceKernelGetThreadId env) \<rparr>"
    then have sa: "same_arena vm vm'" and ss: "same_staging vm vm'"
      by (simp_all add: same_arena_def same_staging_def)
    from assms(2) 2(1) tid show ?thesis
      unfolding vm_inv_def same_arena_inv [OF sa] same_staging_inv [OF ss]
      by (simp add: sa target_inv_def) (simp add: 2(2) writer_inv_def)
  qed
  then show "vm_inv vm'" "same_arena vm vm'" by simp_all
qed

lemma same_writer_target:
  assumes "same_writer vm vm'" "same_arena vm vm'" "staging_inv vm'"
    "s_write_staging vm \<noteq> None \<Longrightarrow> s_write_staging vm' \<noteq> None" "vm_inv vm"
  shows "vm_inv vm'"
  using assms(3-5) unfolding vm_inv_def same_arena_inv [OF assms(2)] same_writer_inv [OF assms(1)]
  by (simp add: target_inv_def same_arena_inv [OF assms(2)]) (use assms(1) in \<open>simp add: same_writer_def\<close>)

lemma ExpandJitWrite_cases:
  assumes env: "sane_env env" and inv: "vm_inv vm"
    and r: "ExpandJitWrite env preserve minimum (w, wcap) vm = Returns ((ok, w', wcap'), vm')"
  shows "vm_inv vm'" "same_arena vm vm'" "same_writer vm vm'" "vm_mem vm' = vm_mem vm"
    "\<not> ok \<Longrightarrow> vm' = vm \<and> w' = w \<and> wcap' = wcap"
    "ok \<Longrightarrow> write_open (sceKernelGetThreadId env) address capacity w wcap vm \<Longrightarrow>
       write_open (sceKernelGetThreadId env) address capacity w' wcap' vm' \<and> minimum \<le> wcap' \<and> wcap \<le> wcap' \<and>
       wptr_load w' 0 (unat preserve) vm' = wptr_load w 0 (unat preserve) vm"
proof -
  have parts: "arrays_ok env" "staging_inv vm" using env inv by (simp_all add: sane_env_def vm_inv_def)
  have "vm_inv vm' \<and> same_arena vm vm' \<and> same_writer vm vm' \<and> vm_mem vm' = vm_mem vm \<and>
    (\<not> ok \<longrightarrow> vm' = vm \<and> w' = w \<and> wcap' = wcap) \<and>
    (ok \<longrightarrow> write_open (sceKernelGetThreadId env) address capacity w wcap vm \<longrightarrow>
       write_open (sceKernelGetThreadId env) address capacity w' wcap' vm' \<and> minimum \<le> wcap' \<and> wcap \<le> wcap' \<and>
       wptr_load w' 0 (unat preserve) vm' = wptr_load w 0 (unat preserve) vm)"
  proof (cases "s_write_owner vm \<noteq> sceKernelGetThreadId env \<or> \<not> s_write_active vm \<or>
      s_write_backend vm \<noteq> KuBridgeRxStaging")
    case True
    with r have "vm' = vm \<and> w' = w \<and> wcap' = wcap \<and> (ok \<longrightarrow> minimum \<le> wcap)"
      by (auto simp: ExpandJitWrite_def split: if_splits)
    with inv show ?thesis by (simp add: same_arena_def same_writer_def)
  next
    case stg: False
    from GrowStagingLocked_cases [OF parts, of preserve minimum "s_write_target_capacity vm"] show ?thesis
    proof cases
      case 1
      with r stg inv show ?thesis by (simp add: ExpandJitWrite_def same_arena_def same_writer_def)
    next
      case (2 vm1)
      with r stg have e: "ok" "w' = WStaging" "vm' = vm1"
        "wcap' = min (s_write_staging_capacity vm1) (s_write_target_capacity vm1)"
        by (auto simp: ExpandJitWrite_def)
      have tc: "s_write_target_capacity vm1 = s_write_target_capacity vm"
        "s_write_backend vm1 = s_write_backend vm" using 2 by (simp_all add: same_writer_def)
      have st: "s_write_staging vm \<noteq> None" using inv stg by (simp add: vm_inv_def target_inv_def)
      then obtain st st' where s: "s_write_staging vm = Some st" "s_write_staging vm1 = Some st'"
          "take (unat preserve) st' = take (unat preserve) st" using 2 by auto
      have lens: "length st = unat (s_write_staging_capacity vm)" "length st' = unat (s_write_staging_capacity vm1)"
        using parts(2) 2(7) s by (simp_all add: staging_inv_def)
      have "vm_inv vm1" using same_writer_target [of vm vm1] 2 inv s by auto
      moreover have "unat preserve \<le> length st" "unat preserve \<le> length st'"
        using 2 lens by (auto simp: word_le_nat_alt)
      ultimately show ?thesis using 2 s stg tc
        by (auto simp: e write_open_def same_writer_def wptr_load_def min_le_iff_disj)
    qed
  qed
  then show "vm_inv vm'" "same_arena vm vm'" "same_writer vm vm'" "vm_mem vm' = vm_mem vm"
    "\<not> ok \<Longrightarrow> vm' = vm \<and> w' = w \<and> wcap' = wcap"
    "ok \<Longrightarrow> write_open (sceKernelGetThreadId env) address capacity w wcap vm \<Longrightarrow>
       write_open (sceKernelGetThreadId env) address capacity w' wcap' vm' \<and> minimum \<le> wcap' \<and> wcap \<le> wcap' \<and>
       wptr_load w' 0 (unat preserve) vm' = wptr_load w 0 (unat preserve) vm"
    by simp_all
qed

lemma vm_inv_mem [simp]: "vm_inv (vm\<lparr>vm_mem := m\<rparr>) = vm_inv vm"
proof -
  have a: "same_arena vm (vm\<lparr>vm_mem := m\<rparr>)" "same_writer vm (vm\<lparr>vm_mem := m\<rparr>)" "same_staging vm (vm\<lparr>vm_mem := m\<rparr>)"
    by (simp_all add: same_arena_def same_writer_def same_staging_def)
  show ?thesis
    unfolding vm_inv_def same_arena_inv [OF a(1)] same_writer_inv [OF a(2)] same_staging_inv [OF a(3)]
    by (simp add: target_inv_def same_arena_inv [OF a(1)])
qed

lemma EndJitWrite_vm_inv:
  assumes "vm_inv vm" "EndJitWrite env vm = Returns (ok, vm')"
  shows "vm_inv vm'"
  using assms by (auto simp: EndJitWrite_def Let_def FinishJitWrite_vm_inv split: if_splits)

lemma EndJitWriteAndSync_state:
  assumes "EndJitWriteAndSync env a sz vm = Returns (ok, vm')"
  shows "vm' = vm \<or> vm' = (FinishJitWrite vm)\<lparr>vm_mem := vm_mem vm'\<rparr>"
  using assms unfolding EndJitWriteAndSync_def Let_def
  by (auto simp: FinishJitWrite_def split: if_splits prod.splits)

lemma EndJitWriteAndSync_vm_inv:
  assumes "vm_inv vm" "EndJitWriteAndSync env a sz vm = Returns (ok, vm')"
  shows "vm_inv vm'"
  using EndJitWriteAndSync_state [OF assms(2)] FinishJitWrite_vm_inv [OF assms(1)] assms(1)
  by (metis vm_inv_mem)

lemma wptr_store_vm_inv:
  assumes "vm_inv vm" "wptr_store w off bs vm = Returns vm'"
  shows "vm_inv vm'" "same_arena vm vm'" "same_writer vm vm'"
proof -
  have "vm_inv vm' \<and> same_arena vm vm' \<and> same_writer vm vm'"
  proof (cases w)
    case WStaging
    with assms(2) obtain st where st: "s_write_staging vm = Some st" "unat off + length bs \<le> length st"
      "vm' = vm\<lparr> s_write_staging := Some (take (unat off) st @ bs @ drop (unat off + length bs) st) \<rparr>"
      by (auto simp: wptr_store_def split: option.splits if_splits)
    have "staging_inv vm" using assms(1) by (simp add: vm_inv_def)
    from staging_replace_inv [OF this st(1)] st(2) have "staging_inv vm'" by (simp add: st(3))
    moreover have "same_arena vm vm'" "same_writer vm vm'" by (simp_all add: st(3) same_arena_def same_writer_def)
    ultimately show ?thesis using same_writer_target [of vm vm'] assms(1) by (simp add: st(3))
  qed (use assms in \<open>auto simp: wptr_store_def same_arena_def same_writer_def\<close>)
  then show "vm_inv vm'" "same_arena vm vm'" "same_writer vm vm'" by simp_all
qed

subsection \<open>All operations as steps\<close>

datatype vm_op = OpReserve | OpAlloc size_t | OpAllocLarge size_t | OpFree uptr
  | OpBegin0 | OpBegin uptr size_t size_t | OpExpand size_t size_t "wptr \<times> size_t"
  | OpStore wptr size_t "u8 list" | OpEnd | OpEndAndSync uptr size_t | OpSync uptr size_t

fun call_map :: "('a \<Rightarrow> 'b) \<Rightarrow> 'a call \<Rightarrow> 'b call" where
  "call_map f c = call_bind c (\<lambda>x. Returns (f x))"

lemma call_map_Returns: "call_map f c = Returns y \<longleftrightarrow> (\<exists>x. c = Returns x \<and> y = f x)"
  by (auto simp: call_bind_Returns)

fun vm_exec :: "sce \<Rightarrow> vm_op \<Rightarrow> vm_state \<Rightarrow> vm_state call" where
  "vm_exec env OpReserve vm = Returns (snd (ReserveJitMemory env vm))"
| "vm_exec env (OpAlloc sz) vm = Returns (snd (AllocJitMemory env sz vm))"
| "vm_exec env (OpAllocLarge sz) vm = Returns (snd (AllocLargeJitMemory env sz vm))"
| "vm_exec env (OpFree ptr) vm = FreeJitMemory env ptr vm"
| "vm_exec env OpBegin0 vm = call_map snd (BeginJitWrite0 env vm)"
| "vm_exec env (OpBegin a existing capacity) vm = call_map snd (BeginJitWrite env a existing capacity vm)"
| "vm_exec env (OpExpand preserve minimum w) vm = call_map snd (ExpandJitWrite env preserve minimum w vm)"
| "vm_exec env (OpStore w off bs) vm = wptr_store w off bs vm"
| "vm_exec env OpEnd vm = call_map snd (EndJitWrite env vm)"
| "vm_exec env (OpEndAndSync a sz) vm = call_map snd (EndJitWriteAndSync env a sz vm)"
| "vm_exec env (OpSync a sz) vm = call_map (\<lambda>_. vm) (SyncJitMemory env a sz vm)"

declare call_map.simps [simp del]

inductive vm_step :: "vm_state \<Rightarrow> vm_state \<Rightarrow> bool" where
  vm_step_op: "sane_env env \<Longrightarrow> vm_exec env op vm = Returns vm' \<Longrightarrow> vm_step vm vm'"

inductive_cases vm_stepE: "vm_step vm vm'"

text \<open>The static initialisers.\<close>

definition vm_initial :: "vm_state \<Rightarrow> bool" where
  "vm_initial vm \<longleftrightarrow> s_blocks vm = [] \<and> s_allocations vm = [] \<and> s_arena_uid vm = -1 \<and>
     s_arena_base vm = 0 \<and> s_arena_size vm = 0 \<and> s_arena_backend vm = OfficialVmDomain \<and>
     s_arena_slots vm = 0 \<and> s_write_mutex vm = None \<and> \<not> s_write_active vm \<and> s_write_owner vm = -1 \<and>
     \<not> s_write_vm_domain_open vm \<and> s_write_backend vm = OfficialVmDomain \<and>
     s_write_target_base vm = 0 \<and> s_write_target_capacity vm = 0 \<and> s_write_staging vm = None \<and>
     s_write_staging_capacity vm = 0"

lemma vm_initial_inv: "vm_initial vm \<Longrightarrow> vm_inv vm"
  by (simp add: vm_initial_def vm_inv_def arena_inv_def arena_shape_def slices_ok_def blocks_inv_def
      staging_inv_def writer_inv_def target_inv_def)

lemma vm_exec_inv:
  assumes "sane_env env" "vm_inv vm" "vm_exec env op vm = Returns vm'"
  shows "vm_inv vm'"
proof (cases op)
  case OpReserve
  with assms EnsureJitArenaLocked_vm_inv(1) [OF assms(1,2)] show ?thesis
    by (cases "EnsureJitArenaLocked env vm") (simp add: ReserveJitMemory_def)
next
  case (OpFree ptr)
  with assms FreeJitMemory_vm_inv show ?thesis by simp
next
  case OpBegin0
  with assms BeginJitWrite0_vm_inv(1) show ?thesis by (auto simp: call_map_Returns)
next
  case (OpBegin a e c)
  then obtain r where r: "BeginJitWriteForAddress env a e c vm = Returns (r, vm')"
    using assms(3) by (auto simp: call_map_Returns BeginJitWrite_def)
  show ?thesis
  proof (cases r)
    case None
    with BeginJitWriteForAddress_None [OF assms(1,2), of a e c vm'] r assms(2) show ?thesis by simp
  next
    case (Some wc)
    with BeginJitWriteForAddress_Some(1) [OF assms(1,2)] r show ?thesis by (cases wc) simp
  qed
next
  case (OpExpand p m w)
  with assms obtain r where "ExpandJitWrite env p m w vm = Returns (r, vm')" by (auto simp: call_map_Returns)
  then show ?thesis
    using ExpandJitWrite_cases(1) [OF assms(1,2)] by (cases r; cases w) auto
next
  case OpEnd
  with assms EndJitWrite_vm_inv show ?thesis by (auto simp: call_map_Returns)
next
  case (OpEndAndSync a sz)
  with assms EndJitWriteAndSync_vm_inv show ?thesis by (auto simp: call_map_Returns)
qed (use assms AllocJitMemory_vm_inv AllocLargeJitMemory_vm_inv wptr_store_vm_inv(1) in
    \<open>auto simp: call_map_Returns\<close>)

interpretation vm: invariant_system vm_initial vm_step vm_inv
  by unfold_locales (auto intro: vm_initial_inv vm_exec_inv elim!: vm_stepE)

subsection \<open>What the manager promises\<close>

lemma GrowStagingLocked_total:
  "GrowStagingLocked env preserve minimum maximum vm \<noteq> Diverges"
proof (cases "minimum \<le> s_write_staging_capacity vm \<or> maximum < minimum \<or> s_write_staging_capacity vm < preserve")
  case True
  then show ?thesis by (auto simp: GrowStagingLocked_def)
next
  case False
  then have "s_write_staging_capacity vm < maximum" "minimum \<le> maximum" by (auto simp: not_le not_less)
  then have "0 < min maximum (max KUBRIDGE_INITIAL_STAGING_SIZE (s_write_staging_capacity vm))"
    by (auto simp: min_def max_def vm_consts word_gt_0)
  from grow_capacity_returns [OF this _ \<open>minimum \<le> maximum\<close>] show ?thesis
    by (auto simp: GrowStagingLocked_def Let_def split: option.split)
qed

lemma alloc_free_inverse:
  assumes inv: "vm_inv vm" and free: "s_write_mutex vm = None" and tid: "0 \<le> sceKernelGetThreadId env"
    and alloc: "AllocateArenaSliceLocked sz vm = (Some (p, uid), vm1)"
  shows "\<exists>vm2. FreeJitMemory env p vm1 = Returns vm2 \<and> s_allocations vm2 = s_allocations vm \<and>
    s_arena_slots vm2 = s_arena_slots vm"
proof -
  from inv have ai: "arena_inv vm" by (simp add: vm_inv_def)
  note a = AllocateArenaSliceLocked_inv [OF ai alloc]
  from a(2) obtain al where al: "al_backend al = s_arena_backend vm" "(p, al) \<notin> set (s_allocations vm)"
    "set (s_allocations vm1) = insert (p, al) (set (s_allocations vm))" by blast
  note f = AllocateArenaSliceLocked_frame [of vm sz, unfolded alloc, simplified]
  have sorted1: "omap_sorted (s_allocations vm1)" using a(1) by (simp add: arena_inv_def)
  have found: "omap_find p (s_allocations vm1) = Some al" using al(3) by (simp add: omap_find_eq [OF sorted1])
  have idle: "s_write_mutex vm1 = None" "s_write_owner vm1 = -1" "\<not> s_write_active vm1"
    using f free inv by (auto simp: same_writer_def vm_inv_def writer_inv_def)
  have base: "s_arena_base vm1 \<noteq> 0"
    using a(1) al(3) by (auto simp: arena_inv_def arena_shape_def split: if_splits)
  define vm2 where "vm2 = vm1 \<lparr> s_arena_slots := s_arena_slots vm1 AND
       NOT (slot_mask (unat (al_size al div JIT_ALLOCATION_GRANULARITY))
              (unat ((p - s_arena_base vm1) div JIT_ALLOCATION_GRANULARITY))),
     s_allocations := omap_erase p (s_allocations vm1) \<rparr>"
  have r: "FreeJitMemory env p vm1 = Returns vm2"
    using idle found base tid al(1) f by (simp add: FreeJitMemory_def Let_def vm2_def)
  have mem: "(p, al) \<in> set (s_allocations vm1)" using al(3) by simp
  note e = arena_inv_erase [OF a(1) mem, folded vm2_def]
  have set2: "set (s_allocations vm2) = set (s_allocations vm)" using e al by simp
  have "s_allocations vm2 = s_allocations vm"
    using set2 e ai omap_sorted_set_unique by (auto simp: arena_inv_def)
  moreover have "bit (s_arena_slots vm2) i = bit (s_arena_slots vm) i" for i
    using e ai set2 f by (simp add: arena_inv_def) (simp add: vm2_def)
  ultimately show ?thesis using r by (auto intro: bit_word_eqI)
qed

lemma EndJitWriteAndSync_True:
  assumes "EndJitWriteAndSync env a sz vm = Returns (True, vm')"
  shows "s_write_owner vm = sceKernelGetThreadId env" "s_write_active vm" "s_write_mutex vm' = None"
    "s_write_backend vm \<noteq> KuBridgeRxStaging \<Longrightarrow> vm' = FinishJitWrite vm"
    "s_write_backend vm = KuBridgeRxStaging \<Longrightarrow>
       (let offset = a - s_write_target_base vm;
            bytes = (case s_write_staging vm of None \<Rightarrow> [] | Some st \<Rightarrow> take (unat sz) (drop (unat offset) st))
        in offset \<le> s_write_staging_capacity vm \<and> sz \<le> s_write_staging_capacity vm - offset \<and>
          (case kuKernelCpuUnrestrictedMemcpy env (vm_mem vm) a bytes of (res, m) \<Rightarrow>
             \<not> res < 0 \<and> vm' = FinishJitWrite (vm\<lparr>vm_mem := m\<rparr>)))"
    "sz \<noteq> 0"
  using assms
  by (auto simp: EndJitWriteAndSync_def Let_def FinishJitWrite_def SyncJitMemoryLocked_def
      split: if_splits prod.splits)

text \<open>A successful publication: the bytes the writer sees through its write address are the
  bytes of the executable range, and nothing outside the range changed.\<close>

lemma EndJitWriteAndSync_publishes:
  assumes copies: "copies_ok env" and inv: "vm_inv vm"
    and wo: "write_open tid base capacity w wcap vm"
    and r: "EndJitWriteAndSync env (base + offset) sz vm = Returns (True, vm')"
  shows "wptr_load w offset (unat sz) vm = Returns (mem_read (vm_mem vm') (base + offset) (unat sz))"
    and "unat sz \<le> unat (p - (base + offset)) \<Longrightarrow> vm_mem vm' p = vm_mem vm p"
proof -
  note e = EndJitWriteAndSync_True [OF r]
  have "wptr_load w offset (unat sz) vm = Returns (mem_read (vm_mem vm') (base + offset) (unat sz)) \<and>
      (unat sz \<le> unat (p - (base + offset)) \<longrightarrow> vm_mem vm' p = vm_mem vm p)"
  proof (cases "s_write_backend vm = KuBridgeRxStaging")
    case False
    then have "w = WAt base" "vm' = FinishJitWrite vm"
      using wo e(4) by (simp_all add: write_open_def)
    then show ?thesis by (simp add: wptr_load_def FinishJitWrite_def)
  next
    case True
    have w: "w = WStaging" and base: "s_write_target_base vm = base"
      using wo True by (simp_all add: write_open_def)
    obtain st where st: "s_write_staging vm = Some st"
      using inv True e(2) by (auto simp: vm_inv_def target_inv_def)
    have len: "length st = unat (s_write_staging_capacity vm)"
      using inv st by (simp add: vm_inv_def staging_inv_def)
    obtain res m where m: "kuKernelCpuUnrestrictedMemcpy env (vm_mem vm) (base + offset)
        (take (unat sz) (drop (unat offset) st)) = (res, m)" by fastforce
    have *: "offset \<le> s_write_staging_capacity vm" "sz \<le> s_write_staging_capacity vm - offset" "0 \<le> res"
        "vm' = FinishJitWrite (vm\<lparr>vm_mem := m\<rparr>)"
      using e(5) [OF True] m st by (simp_all add: Let_def base)
    have "unat (s_write_staging_capacity vm - offset) = unat (s_write_staging_capacity vm) - unat offset"
      using *(1) by (simp add: unat_sub)
    with *(1,2) len have fits: "unat offset + unat sz \<le> length st" by (simp add: word_le_nat_alt)
    define bs where "bs = take (unat sz) (drop (unat offset) st)"
    have lb: "length bs = unat sz" using fits by (simp add: bs_def)
    have "case kuKernelCpuUnrestrictedMemcpy env (vm_mem vm) (base + offset) bs of (res, m') \<Rightarrow>
        0 \<le> res \<longrightarrow> m' = mem_write (vm_mem vm) (base + offset) bs"
      using copies unfolding copies_ok_def by (elim allE)
    then have "m = mem_write (vm_mem vm) (base + offset) bs" using m *(3) by (simp add: bs_def)
    then have vm': "vm_mem vm' = mem_write (vm_mem vm) (base + offset) bs"
      by (simp add: *(4) FinishJitWrite_def)
    have "mem_read (vm_mem vm') (base + offset) (unat sz) = bs"
      unfolding vm' lb [symmetric] by (rule mem_read_write) (use lb unat_u32_less [of sz] in simp)
    then show ?thesis using w st fits vm' lb
      by (simp add: wptr_load_def bs_def mem_write_outside)
  qed
  then show "wptr_load w offset (unat sz) vm = Returns (mem_read (vm_mem vm') (base + offset) (unat sz))"
    "unat sz \<le> unat (p - (base + offset)) \<Longrightarrow> vm_mem vm' p = vm_mem vm p" by simp_all
qed

lemma other_thread_excluded:
  assumes inv: "vm_inv vm" and m: "s_write_mutex vm = Some t" and other: "sceKernelGetThreadId env \<noteq> t"
  shows "address \<noteq> 0 \<Longrightarrow> existing \<le> capacity \<Longrightarrow> BeginJitWrite env address existing capacity vm = Waits"
    and "BeginJitWrite0 env vm = Waits" and "FreeJitMemory env ptr vm = Waits" 
    and "SyncJitMemory env address sz vm = Waits"
    and "EndJitWrite env vm = Returns (False, vm)"
    and "EndJitWriteAndSync env address sz vm = Returns (False, vm)"
    and "ExpandJitWrite env preserve minimum w vm = Returns ((False, w), vm)"
proof -
  have o: "s_write_owner vm = t" "0 \<le> t" using inv m by (simp_all add: vm_inv_def writer_inv_def)
  with m other show "BeginJitWrite0 env vm = Waits" "FreeJitMemory env ptr vm = Waits"
    "SyncJitMemory env address sz vm = Waits" "EndJitWrite env vm = Returns (False, vm)"
    "EndJitWriteAndSync env address sz vm = Returns (False, vm)"
    "ExpandJitWrite env preserve minimum w vm = Returns ((False, w), vm)"
    by (auto simp: BeginJitWrite0_def FreeJitMemory_def SyncJitMemory_def EndJitWrite_def
        EndJitWriteAndSync_def ExpandJitWrite_def Let_def split: prod.split)
  show "address \<noteq> 0 \<Longrightarrow> existing \<le> capacity \<Longrightarrow> BeginJitWrite env address existing capacity vm = Waits"
    using m other o by (auto simp: BeginJitWrite_def BeginJitWriteForAddress_def Let_def)
qed

subsection \<open>Properties\<close>

text \<open>A concrete kernel and the initial state, for the witnesses.\<close>

definition demo_env :: sce where
  "demo_env = \<lparr> sceKernelGetThreadId = 7, vshKernelSearchModuleByName = 1, kuKernelAllocMemBlock = 3,
     sceKernelGetMemBlockBase = (\<lambda>uid. (0, 0x81000000)), kuKernelMemProtect_import = None,
     kuKernelMemProtect = (\<lambda>_ _. 0), sceKernelAllocMemBlockForVM = 4, sceKernelOpenVMDomain = 0,
     sceKernelCloseVMDomain = 0, sceKernelSyncVMDomain = (\<lambda>_ _ _. 0),
     kuKernelCpuUnrestrictedMemcpy = (\<lambda>m a bs. (0, mem_write m a bs)),
     new_u8_array = (\<lambda>n. Some (replicate n 0)) \<rparr>"

definition demo_vm :: vm_state where
  "demo_vm = \<lparr> vm_mem = (\<lambda>_. 0), s_blocks = [], s_allocations = [], s_arena_uid = -1, s_arena_base = 0,
     s_arena_size = 0, s_arena_backend = OfficialVmDomain,
     s_diagnostics = \<lparr> diag_backend = JitUninitialized, kubridge_attempted = False,
       protect_import_resolved = False, kubridge_module_result = 0, kubridge_allocation_result = 0,
       kubridge_base_result = 0, kubridge_protect_result = 0, diag_arena_size = 0 \<rparr>,
     s_arena_slots = 0, s_write_mutex = None, s_write_active = False, s_write_owner = -1,
     s_write_vm_domain_open = False, s_write_backend = OfficialVmDomain, s_write_target_base = 0,
     s_write_target_capacity = 0, s_write_staging = None, s_write_staging_capacity = 0 \<rparr>"

lemma demo_env_sane: "sane_env demo_env"
  by (simp add: sane_env_def thread_ids_ok_def blocks_in_range_def copies_ok_def arrays_ok_def
      demo_env_def vm_consts)

lemma demo_vm_initial: "vm_initial demo_vm"
  by (simp add: vm_initial_def demo_vm_def)

text \<open>The demonstration state after two allocations, the second of two slots.\<close>

definition demo_vm2 :: vm_state where
  "demo_vm2 = snd (AllocJitMemory demo_env 0x100001 (snd (AllocJitMemory demo_env 5 demo_vm)))"

lemma demo_vm2_reach: "reach vm_initial vm_step demo_vm2"
proof -
  have step: "vm_step vm (snd (AllocJitMemory demo_env sz vm))" for vm sz
    by (rule vm_step_op [OF demo_env_sane, of "OpAlloc sz"]) simp
  show ?thesis
    unfolding demo_vm2_def by (rule reach_step [OF reach_step [OF reach_init]]) (rule demo_vm_initial step)+
qed

lemmas demo_simps = demo_env_def demo_vm_def AllocJitMemory_def EnsureJitArenaLocked_def
  TryInitializeKuBridgeArenaLocked_def RegisterArenaLocked_def AllocateArenaSliceLocked_def
  IsWeakImportResolved_def vm_consts slot_mask_def find_slots.simps Let_def

lemma demo_vm2_allocations:
  "s_allocations demo_vm2 =
     [(0x81000000, \<lparr> al_size = 0x100000, al_backend = KuBridgeRxStaging \<rparr>),
      (0x81100000, \<lparr> al_size = 0x200000, al_backend = KuBridgeRxStaging \<rparr>)]"
  by (simp add: demo_vm2_def demo_simps)

text \<open>C5: in every reachable state of the memory manager, whatever the kernel answers, the arena
  tables, the registered block, the staging array, the write mutex with its owner, and the
  open write range are consistent.\<close>

theorem vm_reachable_inv: "reach vm_initial vm_step vm \<Longrightarrow> vm_inv vm"
  by (rule vm.reach_inv)

theorem vm_reachable_inv_witness: "vm_inv demo_vm2"
  by (rule vm_reachable_inv [OF demo_vm2_reach])

text \<open>C4: two live executable allocations never share an address, and every one lies
  inside the arena.\<close>

theorem vm_allocations_disjoint:
  assumes "reach vm_initial vm_step vm" "e \<in> set (s_allocations vm)"
  shows "al_range e \<subseteq> {unat (s_arena_base vm) ..< unat (s_arena_base vm) + unat (s_arena_size vm)} \<and>
    (\<forall>e' \<in> set (s_allocations vm). e \<noteq> e' \<longrightarrow> al_range e \<inter> al_range e' = {})"
proof -
  from vm.reach_inv [OF assms(1)] have inv: "arena_inv vm" by (simp add: vm_inv_def)
  with slice_ranges_disjoint [OF inv assms(2)] slice_in_arena [OF inv assms(2)] show ?thesis by blast
qed

theorem vm_allocations_disjoint_witness:
  "al_range (0x81000000, \<lparr> al_size = 0x100000, al_backend = KuBridgeRxStaging \<rparr>) \<inter>
   al_range (0x81100000, \<lparr> al_size = 0x200000, al_backend = KuBridgeRxStaging \<rparr>) = {}"
  using vm_allocations_disjoint [OF demo_vm2_reach,
      of "(0x81000000, \<lparr> al_size = 0x100000, al_backend = KuBridgeRxStaging \<rparr>)"]
  by (simp add: demo_vm2_allocations)

text \<open>The slot search is first fit and complete: a request that fits the arena
  gets the lowest free run of whole slots, and is refused, with no state change, only when no
  run is free.\<close>

theorem alloc_first_fit:
  assumes "vm_inv vm" "sz \<noteq> 0" "sz \<le> s_arena_size vm"
  defines "need \<equiv> (unat sz + 2 ^ 20 - 1) div 2 ^ 20"
  shows "case AllocateArenaSliceLocked sz vm of
     (Some (p, uid), vm') \<Rightarrow> (\<exists>first. first + need \<le> arena_slot_count vm \<and>
        free_run (s_arena_slots vm) need first \<and> (\<forall>j < first. \<not> free_run (s_arena_slots vm) need j) \<and>
        p = s_arena_base vm + of_nat first * JIT_ALLOCATION_GRANULARITY)
   | (None, vm') \<Rightarrow> vm' = vm \<and>
        (\<forall>k. k + need \<le> arena_slot_count vm \<longrightarrow> \<not> free_run (s_arena_slots vm) need k)"
proof -
  from assms(1) have inv: "arena_inv vm" by (simp add: vm_inv_def)
  obtain r vm' where r: "AllocateArenaSliceLocked sz vm = (r, vm')" by fastforce
  show ?thesis
  proof (cases r)
    case None
    with AllocateArenaSliceLocked_None [OF inv] assms(2,3) r show ?thesis by (simp add: need_def)
  next
    case (Some pu)
    obtain p uid where pu: "pu = (p, uid)" by fastforce
    from AllocateArenaSliceLocked_cases [OF inv r [unfolded Some pu]] r Some pu show ?thesis
      by (auto simp: need_def slice_at_def)
  qed
qed

theorem alloc_first_fit_witness:
  "case AllocateArenaSliceLocked 0x300000 demo_vm2 of (Some (p, uid), vm') \<Rightarrow> p = 0x81300000 | _ \<Rightarrow> False"
  using alloc_first_fit [where vm = demo_vm2 and sz = "0x300000"] vm.reach_inv [OF demo_vm2_reach]
  by (simp add: demo_vm2_def demo_simps)

text \<open>releasing a slice that was just allocated restores the ownership table and the
  slot bitmap exactly.\<close>

theorem vm_alloc_free:
  assumes "reach vm_initial vm_step vm" "s_write_mutex vm = None" "0 \<le> sceKernelGetThreadId env"
    "AllocateArenaSliceLocked sz vm = (Some (p, uid), vm1)"
  shows "\<exists>vm2. FreeJitMemory env p vm1 = Returns vm2 \<and> s_allocations vm2 = s_allocations vm \<and>
    s_arena_slots vm2 = s_arena_slots vm"
  by (rule alloc_free_inverse [OF vm.reach_inv [OF assms(1)] assms(2-4)])

theorem vm_alloc_free_witness:
  "\<exists>vm2. FreeJitMemory demo_env 0x81300000 (snd (AllocateArenaSliceLocked 9 demo_vm2)) = Returns vm2 \<and>
     s_allocations vm2 = s_allocations demo_vm2 \<and> s_arena_slots vm2 = s_arena_slots demo_vm2"
proof -
  have "AllocateArenaSliceLocked 9 demo_vm2 = (Some (0x81300000, 3), snd (AllocateArenaSliceLocked 9 demo_vm2))"
    "s_write_mutex demo_vm2 = None" "0 \<le> sceKernelGetThreadId demo_env"
    by (simp_all add: demo_vm2_def demo_simps)
  from vm_alloc_free [OF demo_vm2_reach this(2,3,1)] show ?thesis .
qed

text \<open>while a thread holds the code-write domain, every other thread that opens a
  write, releases an allocation or synchronises waits, and its attempts to grow or
  close the write change nothing.\<close>

theorem writers_exclusive:
  assumes "reach vm_initial vm_step vm" "s_write_mutex vm = Some t" "sceKernelGetThreadId env \<noteq> t"
    "address \<noteq> 0" "existing \<le> capacity"
  shows "BeginJitWrite env address existing capacity vm = Waits \<and> BeginJitWrite0 env vm = Waits \<and>
    FreeJitMemory env ptr vm = Waits \<and> SyncJitMemory env address sz vm = Waits \<and>
    EndJitWrite env vm = Returns (False, vm) \<and> EndJitWriteAndSync env address sz vm = Returns (False, vm) \<and>
    ExpandJitWrite env preserve minimum w vm = Returns ((False, w), vm)"
  using other_thread_excluded [OF vm.reach_inv [OF assms(1)] assms(2,3)] assms(4,5) by simp

definition demo_vm3 :: vm_state where
  "demo_vm3 = (case BeginJitWrite demo_env 0x81000000 0 0x100000 demo_vm2 of
     Returns (_, vm) \<Rightarrow> vm | _ \<Rightarrow> demo_vm2)"

lemma demo_vm2_inv: "vm_inv demo_vm2"
  by (rule vm.reach_inv [OF demo_vm2_reach])

lemma demo_begin:
  "BeginJitWrite demo_env 0x81000000 0 0x100000 demo_vm2 =
     Returns (Some (WStaging, 0x1000), demo_vm3) \<and> s_write_mutex demo_vm3 = Some 7"
  by (simp add: demo_vm3_def demo_vm2_def demo_simps BeginJitWrite_def BeginJitWriteForAddress_def
      FindAllocationBackendLocked_def GrowStagingLocked_def grow_capacity.simps)

lemma demo_vm3_reach: "reach vm_initial vm_step demo_vm3"
  by (rule reach_step [OF demo_vm2_reach],
      rule vm_step_op [OF demo_env_sane, of "OpBegin 0x81000000 0 0x100000"])
     (simp add: demo_begin call_map.simps)

theorem writers_exclusive_witness:
  "BeginJitWrite (demo_env\<lparr> sceKernelGetThreadId := 8 \<rparr>) 0x81100000 0 0x1000 demo_vm3 = Waits"
  by (rule writers_exclusive [OF demo_vm3_reach conjunct2 [OF demo_begin], THEN conjunct1]) simp_all

text \<open>the loop that doubles the staging capacity always ends.\<close>

theorem staging_growth_ends: "GrowStagingLocked env preserve minimum maximum vm \<noteq> Diverges"
  by (rule GrowStagingLocked_total)

text \<open>C6: when the publication of a write reports success, the bytes the writer saw through
  its write address are the bytes of the executable range, whichever backend is in use, and no
  other byte of memory has changed.\<close>

theorem publication_correct:
  assumes "copies_ok env" "reach vm_initial vm_step vm" "write_open tid base capacity w wcap vm"
    "EndJitWriteAndSync env (base + offset) sz vm = Returns (True, vm')"
  shows "wptr_load w offset (unat sz) vm = Returns (mem_read (vm_mem vm') (base + offset) (unat sz)) \<and>
    (\<forall>p. unat sz \<le> unat (p - (base + offset)) \<longrightarrow> vm_mem vm' p = vm_mem vm p)"
  using EndJitWriteAndSync_publishes [OF assms(1) vm.reach_inv [OF assms(2)] assms(3,4)] by blast

theorem publication_correct_witness:
  "\<exists>vm'. EndJitWriteAndSync demo_env 0x81000000 4 demo_vm3 = Returns (True, vm') \<and>
     mem_read (vm_mem vm') 0x81000000 4 = replicate 4 0"
proof -
  have wo: "write_open 7 0x81000000 0x100000 WStaging 0x1000 demo_vm3"
    and e: "\<exists>vm'. EndJitWriteAndSync demo_env (0x81000000 + 0) 4 demo_vm3 = Returns (True, vm')"
    and l: "wptr_load WStaging 0 (unat (4::size_t)) demo_vm3 = Returns (replicate 4 0)"
    by (simp_all add: demo_vm3_def demo_vm2_def demo_simps BeginJitWrite_def BeginJitWriteForAddress_def
      FindAllocationBackendLocked_def GrowStagingLocked_def grow_capacity.simps write_open_def
      EndJitWriteAndSync_def SyncJitMemoryLocked_def wptr_load_def)
  have "copies_ok demo_env" using demo_env_sane by (simp add: sane_env_def)
  with e publication_correct [OF _ demo_vm3_reach wo, of demo_env 0 4] l show ?thesis by auto
qed
end
