(* ===== verification/A32_Encode.thy ===== *)
theory A32_Encode
  imports Prelude
begin

text \<open>
  The A32 instruction encoders of \<^verbatim>\<open>pcsx2/vita/A32Emitter.cpp\<close>: the opcode
  constants, the condition and shift fields, the modified-immediate encoder, and one
  definition per \<^verbatim>\<open>Encode\<close> function of the integer instruction set, on 32-bit words.
  \<^verbatim>\<open>unsigned\<close> is 32 bits wide; the narrow arguments keep their width and are
  widened by \<open>ucast\<close> where C++ promotes them. The \<^verbatim>\<open>pxAssert\<close> lines are empty in a
  release build, including the calls inside them.
\<close>

subsection \<open>Conditions and shift types\<close>

datatype Condition = EQ | NE | CS | CC | MI | PL | VS | VC | HI | LS | GE | LT | GT | LE | AL

datatype ShiftType = LSL | LSR | ASR | ROR

primrec ConditionVal :: "Condition \<Rightarrow> u32" where
  "ConditionVal EQ = 0x0" | "ConditionVal NE = 0x1" | "ConditionVal CS = 0x2" | "ConditionVal CC = 0x3"
| "ConditionVal MI = 0x4" | "ConditionVal PL = 0x5" | "ConditionVal VS = 0x6" | "ConditionVal VC = 0x7"
| "ConditionVal HI = 0x8" | "ConditionVal LS = 0x9" | "ConditionVal GE = 0xa" | "ConditionVal LT = 0xb"
| "ConditionVal GT = 0xc" | "ConditionVal LE = 0xd" | "ConditionVal AL = 0xe"

primrec ShiftTypeVal :: "ShiftType \<Rightarrow> u32" where
  "ShiftTypeVal LSL = 0" | "ShiftTypeVal LSR = 1" | "ShiftTypeVal ASR = 2" | "ShiftTypeVal ROR = 3"

subsection \<open>Opcode constants\<close>

definition DATA_PROCESSING_IMM :: u32 where [encoder_defs]: "DATA_PROCESSING_IMM = 0x02000000"
definition OPCODE_AND :: u32 where [encoder_defs]: "OPCODE_AND = 0x00000000"
definition OPCODE_EOR :: u32 where [encoder_defs]: "OPCODE_EOR = 0x00200000"
definition OPCODE_ADD :: u32 where [encoder_defs]: "OPCODE_ADD = 0x00800000"
definition OPCODE_ADC :: u32 where [encoder_defs]: "OPCODE_ADC = 0x00a00000"
definition OPCODE_TST :: u32 where [encoder_defs]: "OPCODE_TST = 0x01000000"
definition OPCODE_CMP :: u32 where [encoder_defs]: "OPCODE_CMP = 0x01400000"
definition OPCODE_CMN :: u32 where [encoder_defs]: "OPCODE_CMN = 0x01600000"
definition OPCODE_MOV :: u32 where [encoder_defs]: "OPCODE_MOV = 0x01a00000"
definition OPCODE_MVN :: u32 where [encoder_defs]: "OPCODE_MVN = 0x01e00000"
definition OPCODE_ORR :: u32 where [encoder_defs]: "OPCODE_ORR = 0x01800000"
definition OPCODE_RSB :: u32 where [encoder_defs]: "OPCODE_RSB = 0x00600000"
definition OPCODE_RSC :: u32 where [encoder_defs]: "OPCODE_RSC = 0x00e00000"
definition OPCODE_SUB :: u32 where [encoder_defs]: "OPCODE_SUB = 0x00400000"
definition OPCODE_SBC :: u32 where [encoder_defs]: "OPCODE_SBC = 0x00c00000"
definition OPCODE_BIC :: u32 where [encoder_defs]: "OPCODE_BIC = 0x01c00000"
definition SET_FLAGS :: u32 where [encoder_defs]: "SET_FLAGS = 0x00100000"
definition MOVW :: u32 where [encoder_defs]: "MOVW = 0x03000000"
definition MOVT :: u32 where [encoder_defs]: "MOVT = 0x03400000"
definition LDR_IMM :: u32 where [encoder_defs]: "LDR_IMM = 0x05900000"
definition LDR_IMM_POST_INDEX :: u32 where [encoder_defs]: "LDR_IMM_POST_INDEX = 0x04900000"
definition LDR_REG :: u32 where [encoder_defs]: "LDR_REG = 0x07900000"
definition STR_IMM :: u32 where [encoder_defs]: "STR_IMM = 0x05800000"
definition STR_REG :: u32 where [encoder_defs]: "STR_REG = 0x07800000"
definition LDRD_IMM :: u32 where [encoder_defs]: "LDRD_IMM = 0x01c000d0"
definition STRD_IMM :: u32 where [encoder_defs]: "STRD_IMM = 0x01c000f0"
definition LDRB_IMM :: u32 where [encoder_defs]: "LDRB_IMM = 0x05d00000"
definition LDRB_IMM_POST_INDEX :: u32 where [encoder_defs]: "LDRB_IMM_POST_INDEX = 0x04d00000"
definition LDRB_REG :: u32 where [encoder_defs]: "LDRB_REG = 0x07d00000"
definition STRB_IMM :: u32 where [encoder_defs]: "STRB_IMM = 0x05c00000"
definition STRB_IMM_POST_INDEX :: u32 where [encoder_defs]: "STRB_IMM_POST_INDEX = 0x04c00000"
definition STRB_REG :: u32 where [encoder_defs]: "STRB_REG = 0x07c00000"
definition LDRH_IMM :: u32 where [encoder_defs]: "LDRH_IMM = 0x01d000b0"
definition LDRH_REG :: u32 where [encoder_defs]: "LDRH_REG = 0x019000b0"
definition STRH_IMM :: u32 where [encoder_defs]: "STRH_IMM = 0x01c000b0"
definition STRH_REG :: u32 where [encoder_defs]: "STRH_REG = 0x018000b0"
definition LDRSB_IMM :: u32 where [encoder_defs]: "LDRSB_IMM = 0x01d000d0"
definition LDRSB_IMM_POST_INDEX :: u32 where [encoder_defs]: "LDRSB_IMM_POST_INDEX = 0x00d000d0"
definition LDRSB_REG :: u32 where [encoder_defs]: "LDRSB_REG = 0x019000d0"
definition LDRSH_IMM :: u32 where [encoder_defs]: "LDRSH_IMM = 0x01d000f0"
definition LDRSH_REG :: u32 where [encoder_defs]: "LDRSH_REG = 0x019000f0"
definition PKHBT :: u32 where [encoder_defs]: "PKHBT = 0x06800010"
definition CLZ :: u32 where [encoder_defs]: "CLZ = 0x016f0f10"
definition SSAT :: u32 where [encoder_defs]: "SSAT = 0x06a00010"
definition BFI :: u32 where [encoder_defs]: "BFI = 0x07c00010"
definition UBFX :: u32 where [encoder_defs]: "UBFX = 0x07e00050"
definition SXTB :: u32 where [encoder_defs]: "SXTB = 0x06af0070"
definition SXTH :: u32 where [encoder_defs]: "SXTH = 0x06bf0070"
definition UXTH :: u32 where [encoder_defs]: "UXTH = 0x06ff0070"
definition UMULL :: u32 where [encoder_defs]: "UMULL = 0x00800090"
definition SMULL :: u32 where [encoder_defs]: "SMULL = 0x00c00090"
definition BRANCH :: u32 where [encoder_defs]: "BRANCH = 0x0a000000"
definition NOP :: u32 where [encoder_defs]: "NOP = 0x0320f000"
definition PUSH :: u32 where [encoder_defs]: "PUSH = 0x092d0000"
definition POP :: u32 where [encoder_defs]: "POP = 0x08bd0000"
definition STMIA :: u32 where [encoder_defs]: "STMIA = 0x08800000"
definition LDMIA :: u32 where [encoder_defs]: "LDMIA = 0x08900000"
definition BX :: u32 where [encoder_defs]: "BX = 0x012fff10"
definition BLX :: u32 where [encoder_defs]: "BLX = 0x012fff30"

subsection \<open>Register classes and fields\<close>

definition IsRegister :: "u32 \<Rightarrow> bool" where "IsRegister reg \<longleftrightarrow> reg < 16"

definition IsLowRegister :: "u32 \<Rightarrow> bool" where "IsLowRegister reg \<longleftrightarrow> reg < 15"

definition IsGeneralRegister :: "u32 \<Rightarrow> bool" where "IsGeneralRegister reg \<longleftrightarrow> reg < 15"

definition CanElideSameRegisterWrite :: "u32 \<Rightarrow> u32 \<Rightarrow> bool" where
  "CanElideSameRegisterWrite rd rn \<longleftrightarrow> rd = rn \<and> IsGeneralRegister rd"

definition IsQRegister :: "u32 \<Rightarrow> bool" where "IsQRegister reg \<longleftrightarrow> reg < 16"

definition IsDRegister :: "u32 \<Rightarrow> bool" where "IsDRegister reg \<longleftrightarrow> reg < 32"

definition IsSRegister :: "u32 \<Rightarrow> bool" where "IsSRegister reg \<longleftrightarrow> reg < 32"

definition IsLowEvenRegisterPair :: "u32 \<Rightarrow> u32 \<Rightarrow> bool" where
  "IsLowEvenRegisterPair rdlo rdhi \<longleftrightarrow> rdlo < 14 \<and> rdhi = rdlo + 1 \<and> rdlo AND 1 = 0"

definition CondBits :: "Condition \<Rightarrow> u32" where [encoder_defs]:
  "CondBits condition = push_bit 28 (ConditionVal condition)"

subsection \<open>Modified immediates\<close>

definition RotateRight :: "u32 \<Rightarrow> u32 \<Rightarrow> u32" where
  "RotateRight v amount =
     (let amount = amount AND 31 in
      if amount = 0 then v else drop_bit (unat amount) v OR push_bit (unat (32 - amount)) v)"

definition RotateLeft :: "u32 \<Rightarrow> u32 \<Rightarrow> u32" where
  "RotateLeft v amount =
     (let amount = amount AND 31 in
      if amount = 0 then v else push_bit (unat amount) v OR drop_bit (unat (32 - amount)) v)"

text \<open>The loop over the sixteen rotations; \<open>None\<close> is the result \<^verbatim>\<open>false\<close>, which leaves
  the output word as it was.\<close>

function emi_loop :: "u32 \<Rightarrow> u32 \<Rightarrow> u32 option" where
  "emi_loop v rot =
     (if rot < 16 then
        let amount = rot * 2; imm8 = RotateLeft v amount
        in if imm8 AND NOT 0xff = 0 \<and> RotateRight imm8 amount = v
           then Some (push_bit 8 rot OR imm8)
           else emi_loop v (rot + 1)
      else None)"
  by pat_completeness auto
termination
proof (relation "measure (\<lambda>(v, rot). 16 - unat rot)", simp)
  fix v rot amount imm8 :: u32
  assume "rot < 16"
  then have "unat rot < 16" by (simp add: word_less_nat_alt)
  moreover from this have "unat (rot + 1) = unat rot + 1" by (simp add: unat_word_ariths)
  ultimately show "((v, rot + 1), (v, rot)) \<in> measure (\<lambda>(v, rot). 16 - unat rot)" by simp
qed

declare emi_loop.simps [simp del]

definition EncodeModifiedImmediate :: "u32 \<Rightarrow> u32 option" where
  "EncodeModifiedImmediate v = emi_loop v 0"

subsection \<open>Integer instructions\<close>

definition EncodeDataProcessingRegShiftImm :: "u32 \<Rightarrow> u32 \<Rightarrow> u32 \<Rightarrow> u32 \<Rightarrow> ShiftType \<Rightarrow> u8 \<Rightarrow> bool \<Rightarrow> Condition \<Rightarrow> u32" where [encoder_defs]:
  "EncodeDataProcessingRegShiftImm opcode rd rn rm shift amount set_flags condition = CondBits condition
     OR opcode OR (if set_flags then SET_FLAGS else 0) OR push_bit 16 (rn AND 0xf) OR
     push_bit 12 (rd AND 0xf) OR push_bit 7 (ucast amount AND 0x1f) OR
     push_bit 5 (ShiftTypeVal shift AND 0x3) OR (rm AND 0xf)"

definition EncodeDataProcessingRegShiftReg :: "u32 \<Rightarrow> u32 \<Rightarrow> u32 \<Rightarrow> u32 \<Rightarrow> ShiftType \<Rightarrow> u32 \<Rightarrow> bool \<Rightarrow> u32" where [encoder_defs]:
  "EncodeDataProcessingRegShiftReg opcode rd rn rm shift rs set_flags = CondBits AL OR opcode OR
     (if set_flags then SET_FLAGS else 0) OR push_bit 16 (rn AND 0xf) OR push_bit 12 (rd AND 0xf)
     OR push_bit 8 (rs AND 0xf) OR push_bit 5 (ShiftTypeVal shift AND 0x3) OR 0x10 OR (rm AND 0xf)"

definition EncodeMovImm8 :: "u32 \<Rightarrow> u8 \<Rightarrow> Condition \<Rightarrow> u32" where [encoder_defs]:
  "EncodeMovImm8 rd value condition = CondBits condition OR DATA_PROCESSING_IMM OR OPCODE_MOV OR
     push_bit 12 (rd AND 0xf) OR ucast value"

definition EncodeMovw :: "u32 \<Rightarrow> u16 \<Rightarrow> Condition \<Rightarrow> u32" where [encoder_defs]:
  "EncodeMovw rd value condition = CondBits condition OR MOVW OR
     push_bit 4 (ucast value AND 0xf000) OR push_bit 12 (rd AND 0xf) OR (ucast value AND 0x0fff)"

definition EncodeMovt :: "u32 \<Rightarrow> u16 \<Rightarrow> Condition \<Rightarrow> u32" where [encoder_defs]:
  "EncodeMovt rd value condition = CondBits condition OR MOVT OR
     push_bit 4 (ucast value AND 0xf000) OR push_bit 12 (rd AND 0xf) OR (ucast value AND 0x0fff)"

definition EncodeAddImm8 :: "u32 \<Rightarrow> u32 \<Rightarrow> u8 \<Rightarrow> bool \<Rightarrow> Condition \<Rightarrow> u32" where [encoder_defs]:
  "EncodeAddImm8 rd rn value set_flags condition = CondBits condition OR DATA_PROCESSING_IMM OR
     OPCODE_ADD OR (if set_flags then SET_FLAGS else 0) OR push_bit 16 (rn AND 0xf) OR
     push_bit 12 (rd AND 0xf) OR ucast value"

definition EncodeSubImm8 :: "u32 \<Rightarrow> u32 \<Rightarrow> u8 \<Rightarrow> bool \<Rightarrow> Condition \<Rightarrow> u32" where [encoder_defs]:
  "EncodeSubImm8 rd rn value set_flags condition = CondBits condition OR DATA_PROCESSING_IMM OR
     OPCODE_SUB OR (if set_flags then SET_FLAGS else 0) OR push_bit 16 (rn AND 0xf) OR
     push_bit 12 (rd AND 0xf) OR ucast value"

definition EncodeAndImm8 :: "u32 \<Rightarrow> u32 \<Rightarrow> u8 \<Rightarrow> bool \<Rightarrow> u32" where [encoder_defs]:
  "EncodeAndImm8 rd rn value set_flags = CondBits AL OR DATA_PROCESSING_IMM OR OPCODE_AND OR
     (if set_flags then SET_FLAGS else 0) OR push_bit 16 (rn AND 0xf) OR push_bit 12 (rd AND 0xf)
     OR ucast value"

definition EncodeAndImm32 :: "u32 \<Rightarrow> u32 \<Rightarrow> u32 \<Rightarrow> bool \<Rightarrow> u32" where [encoder_defs]:
  "EncodeAndImm32 rd rn value set_flags = (let encoded = 0 :: u32 in CondBits AL OR
     DATA_PROCESSING_IMM OR OPCODE_AND OR (if set_flags then SET_FLAGS else 0) OR
     push_bit 16 (rn AND 0xf) OR push_bit 12 (rd AND 0xf) OR encoded)"

definition EncodeBicImm32 :: "u32 \<Rightarrow> u32 \<Rightarrow> u32 \<Rightarrow> bool \<Rightarrow> u32" where [encoder_defs]:
  "EncodeBicImm32 rd rn value set_flags = (let encoded = 0 :: u32 in CondBits AL OR
     DATA_PROCESSING_IMM OR OPCODE_BIC OR (if set_flags then SET_FLAGS else 0) OR
     push_bit 16 (rn AND 0xf) OR push_bit 12 (rd AND 0xf) OR encoded)"

definition EncodeEorImm8 :: "u32 \<Rightarrow> u32 \<Rightarrow> u8 \<Rightarrow> bool \<Rightarrow> u32" where [encoder_defs]:
  "EncodeEorImm8 rd rn value set_flags = CondBits AL OR DATA_PROCESSING_IMM OR OPCODE_EOR OR
     (if set_flags then SET_FLAGS else 0) OR push_bit 16 (rn AND 0xf) OR push_bit 12 (rd AND 0xf)
     OR ucast value"

definition EncodeEorImm32 :: "u32 \<Rightarrow> u32 \<Rightarrow> u32 \<Rightarrow> bool \<Rightarrow> u32" where [encoder_defs]:
  "EncodeEorImm32 rd rn value set_flags = (let encoded = 0 :: u32 in CondBits AL OR
     DATA_PROCESSING_IMM OR OPCODE_EOR OR (if set_flags then SET_FLAGS else 0) OR
     push_bit 16 (rn AND 0xf) OR push_bit 12 (rd AND 0xf) OR encoded)"

definition EncodeOrrImm8 :: "u32 \<Rightarrow> u32 \<Rightarrow> u8 \<Rightarrow> bool \<Rightarrow> u32" where [encoder_defs]:
  "EncodeOrrImm8 rd rn value set_flags = CondBits AL OR DATA_PROCESSING_IMM OR OPCODE_ORR OR
     (if set_flags then SET_FLAGS else 0) OR push_bit 16 (rn AND 0xf) OR push_bit 12 (rd AND 0xf)
     OR ucast value"

definition EncodeOrrImm32 :: "u32 \<Rightarrow> u32 \<Rightarrow> u32 \<Rightarrow> bool \<Rightarrow> u32" where [encoder_defs]:
  "EncodeOrrImm32 rd rn value set_flags = (let encoded = 0 :: u32 in CondBits AL OR
     DATA_PROCESSING_IMM OR OPCODE_ORR OR (if set_flags then SET_FLAGS else 0) OR
     push_bit 16 (rn AND 0xf) OR push_bit 12 (rd AND 0xf) OR encoded)"

definition EncodeAdcImm8 :: "u32 \<Rightarrow> u32 \<Rightarrow> u8 \<Rightarrow> bool \<Rightarrow> u32" where [encoder_defs]:
  "EncodeAdcImm8 rd rn value set_flags = CondBits AL OR DATA_PROCESSING_IMM OR OPCODE_ADC OR
     (if set_flags then SET_FLAGS else 0) OR push_bit 16 (rn AND 0xf) OR push_bit 12 (rd AND 0xf)
     OR ucast value"

definition EncodeSbcImm8 :: "u32 \<Rightarrow> u32 \<Rightarrow> u8 \<Rightarrow> bool \<Rightarrow> u32" where [encoder_defs]:
  "EncodeSbcImm8 rd rn value set_flags = CondBits AL OR DATA_PROCESSING_IMM OR OPCODE_SBC OR
     (if set_flags then SET_FLAGS else 0) OR push_bit 16 (rn AND 0xf) OR push_bit 12 (rd AND 0xf)
     OR ucast value"

definition EncodeMovRegShiftImm :: "u32 \<Rightarrow> u32 \<Rightarrow> ShiftType \<Rightarrow> u8 \<Rightarrow> bool \<Rightarrow> Condition \<Rightarrow> u32" where [encoder_defs]:
  "EncodeMovRegShiftImm rd rm shift amount set_flags condition = CondBits condition OR
     OPCODE_MOV OR (if set_flags then SET_FLAGS else 0) OR push_bit 12 (rd AND 0xf) OR
     push_bit 7 (ucast amount AND 0x1f) OR push_bit 5 (ShiftTypeVal shift AND 0x3) OR (rm AND 0xf)"

definition EncodeMovRegShiftReg :: "u32 \<Rightarrow> u32 \<Rightarrow> ShiftType \<Rightarrow> u32 \<Rightarrow> bool \<Rightarrow> u32" where [encoder_defs]:
  "EncodeMovRegShiftReg rd rm shift rs set_flags = CondBits AL OR OPCODE_MOV OR (if set_flags
     then SET_FLAGS else 0) OR push_bit 8 (rs AND 0xf) OR push_bit 12 (rd AND 0xf) OR
     push_bit 5 (ShiftTypeVal shift AND 0x3) OR 0x10 OR (rm AND 0xf)"

definition EncodeAddReg :: "u32 \<Rightarrow> u32 \<Rightarrow> u32 \<Rightarrow> bool \<Rightarrow> u32" where [encoder_defs]:
  "EncodeAddReg rd rn rm set_flags = CondBits AL OR OPCODE_ADD OR (if set_flags then SET_FLAGS
     else 0) OR push_bit 16 (rn AND 0xf) OR push_bit 12 (rd AND 0xf) OR (rm AND 0xf)"

definition EncodeAddRegShiftImm :: "u32 \<Rightarrow> u32 \<Rightarrow> u32 \<Rightarrow> ShiftType \<Rightarrow> u8 \<Rightarrow> bool \<Rightarrow> u32" where [encoder_defs]:
  "EncodeAddRegShiftImm rd rn rm shift amount set_flags = EncodeDataProcessingRegShiftImm OPCODE_ADD rd rn rm shift amount set_flags AL"

definition EncodeAddRegShiftReg :: "u32 \<Rightarrow> u32 \<Rightarrow> u32 \<Rightarrow> ShiftType \<Rightarrow> u32 \<Rightarrow> bool \<Rightarrow> u32" where [encoder_defs]:
  "EncodeAddRegShiftReg rd rn rm shift rs set_flags = EncodeDataProcessingRegShiftReg OPCODE_ADD rd rn rm shift rs set_flags"

definition EncodeAdcReg :: "u32 \<Rightarrow> u32 \<Rightarrow> u32 \<Rightarrow> bool \<Rightarrow> u32" where [encoder_defs]:
  "EncodeAdcReg rd rn rm set_flags = CondBits AL OR OPCODE_ADC OR (if set_flags then SET_FLAGS
     else 0) OR push_bit 16 (rn AND 0xf) OR push_bit 12 (rd AND 0xf) OR (rm AND 0xf)"

definition EncodeAndReg :: "u32 \<Rightarrow> u32 \<Rightarrow> u32 \<Rightarrow> bool \<Rightarrow> u32" where [encoder_defs]:
  "EncodeAndReg rd rn rm set_flags = CondBits AL OR OPCODE_AND OR (if set_flags then SET_FLAGS
     else 0) OR push_bit 16 (rn AND 0xf) OR push_bit 12 (rd AND 0xf) OR (rm AND 0xf)"

definition EncodeAndRegShiftImm :: "u32 \<Rightarrow> u32 \<Rightarrow> u32 \<Rightarrow> ShiftType \<Rightarrow> u8 \<Rightarrow> bool \<Rightarrow> Condition \<Rightarrow> u32" where [encoder_defs]:
  "EncodeAndRegShiftImm rd rn rm shift amount set_flags condition = EncodeDataProcessingRegShiftImm OPCODE_AND rd rn rm shift amount set_flags condition"

definition EncodeAndRegShiftReg :: "u32 \<Rightarrow> u32 \<Rightarrow> u32 \<Rightarrow> ShiftType \<Rightarrow> u32 \<Rightarrow> bool \<Rightarrow> u32" where [encoder_defs]:
  "EncodeAndRegShiftReg rd rn rm shift rs set_flags = EncodeDataProcessingRegShiftReg OPCODE_AND rd rn rm shift rs set_flags"

definition EncodeBicRegShiftImm :: "u32 \<Rightarrow> u32 \<Rightarrow> u32 \<Rightarrow> ShiftType \<Rightarrow> u8 \<Rightarrow> bool \<Rightarrow> Condition \<Rightarrow> u32" where [encoder_defs]:
  "EncodeBicRegShiftImm rd rn rm shift amount set_flags condition = EncodeDataProcessingRegShiftImm OPCODE_BIC rd rn rm shift amount set_flags condition"

definition EncodeBicRegShiftReg :: "u32 \<Rightarrow> u32 \<Rightarrow> u32 \<Rightarrow> ShiftType \<Rightarrow> u32 \<Rightarrow> bool \<Rightarrow> u32" where [encoder_defs]:
  "EncodeBicRegShiftReg rd rn rm shift rs set_flags = EncodeDataProcessingRegShiftReg OPCODE_BIC rd rn rm shift rs set_flags"

definition EncodeEorReg :: "u32 \<Rightarrow> u32 \<Rightarrow> u32 \<Rightarrow> bool \<Rightarrow> u32" where [encoder_defs]:
  "EncodeEorReg rd rn rm set_flags = CondBits AL OR OPCODE_EOR OR (if set_flags then SET_FLAGS
     else 0) OR push_bit 16 (rn AND 0xf) OR push_bit 12 (rd AND 0xf) OR (rm AND 0xf)"

definition EncodeEorRegShiftImm :: "u32 \<Rightarrow> u32 \<Rightarrow> u32 \<Rightarrow> ShiftType \<Rightarrow> u8 \<Rightarrow> bool \<Rightarrow> u32" where [encoder_defs]:
  "EncodeEorRegShiftImm rd rn rm shift amount set_flags = EncodeDataProcessingRegShiftImm OPCODE_EOR rd rn rm shift amount set_flags AL"

definition EncodeEorRegShiftReg :: "u32 \<Rightarrow> u32 \<Rightarrow> u32 \<Rightarrow> ShiftType \<Rightarrow> u32 \<Rightarrow> bool \<Rightarrow> u32" where [encoder_defs]:
  "EncodeEorRegShiftReg rd rn rm shift rs set_flags = EncodeDataProcessingRegShiftReg OPCODE_EOR rd rn rm shift rs set_flags"

definition EncodeOrrReg :: "u32 \<Rightarrow> u32 \<Rightarrow> u32 \<Rightarrow> bool \<Rightarrow> u32" where [encoder_defs]:
  "EncodeOrrReg rd rn rm set_flags = CondBits AL OR OPCODE_ORR OR (if set_flags then SET_FLAGS
     else 0) OR push_bit 16 (rn AND 0xf) OR push_bit 12 (rd AND 0xf) OR (rm AND 0xf)"

definition EncodeOrrRegShiftImm :: "u32 \<Rightarrow> u32 \<Rightarrow> u32 \<Rightarrow> ShiftType \<Rightarrow> u8 \<Rightarrow> bool \<Rightarrow> u32" where [encoder_defs]:
  "EncodeOrrRegShiftImm rd rn rm shift amount set_flags = EncodeDataProcessingRegShiftImm OPCODE_ORR rd rn rm shift amount set_flags AL"

definition EncodeOrrRegShiftReg :: "u32 \<Rightarrow> u32 \<Rightarrow> u32 \<Rightarrow> ShiftType \<Rightarrow> u32 \<Rightarrow> bool \<Rightarrow> u32" where [encoder_defs]:
  "EncodeOrrRegShiftReg rd rn rm shift rs set_flags = EncodeDataProcessingRegShiftReg OPCODE_ORR rd rn rm shift rs set_flags"

definition EncodeMvnReg :: "u32 \<Rightarrow> u32 \<Rightarrow> bool \<Rightarrow> u32" where [encoder_defs]:
  "EncodeMvnReg rd rm set_flags = CondBits AL OR OPCODE_MVN OR (if set_flags then SET_FLAGS
     else 0) OR push_bit 12 (rd AND 0xf) OR (rm AND 0xf)"

definition EncodeClz :: "u32 \<Rightarrow> u32 \<Rightarrow> u32" where [encoder_defs]:
  "EncodeClz rd rm = CondBits AL OR CLZ OR push_bit 12 (rd AND 0xf) OR (rm AND 0xf)"

definition EncodeSsat :: "u32 \<Rightarrow> u8 \<Rightarrow> u32 \<Rightarrow> u32" where [encoder_defs]:
  "EncodeSsat rd bits rm = CondBits AL OR SSAT OR push_bit 16 ((ucast bits - 1) AND 0x1f) OR
     push_bit 12 (rd AND 0xf) OR (rm AND 0xf)"

definition EncodeBfi :: "u32 \<Rightarrow> u32 \<Rightarrow> u8 \<Rightarrow> u8 \<Rightarrow> u32" where [encoder_defs]:
  "EncodeBfi rd rn lsb width = (let msb = (ucast lsb + ucast width) - 1 in CondBits AL OR BFI OR
     push_bit 16 (msb AND 0x1f) OR push_bit 12 (rd AND 0xf) OR push_bit 7 (ucast lsb AND 0x1f) OR
     (rn AND 0xf))"

definition EncodeUbfx :: "u32 \<Rightarrow> u32 \<Rightarrow> u8 \<Rightarrow> u8 \<Rightarrow> u32" where [encoder_defs]:
  "EncodeUbfx rd rn lsb width = CondBits AL OR UBFX OR push_bit 16 ((ucast width - 1) AND 0x1f)
     OR push_bit 12 (rd AND 0xf) OR push_bit 7 (ucast lsb AND 0x1f) OR (rn AND 0xf)"

definition EncodeSxtb :: "u32 \<Rightarrow> u32 \<Rightarrow> u32" where [encoder_defs]:
  "EncodeSxtb rd rm = CondBits AL OR SXTB OR push_bit 12 (rd AND 0xf) OR (rm AND 0xf)"

definition EncodeSxth :: "u32 \<Rightarrow> u32 \<Rightarrow> u32" where [encoder_defs]:
  "EncodeSxth rd rm = CondBits AL OR SXTH OR push_bit 12 (rd AND 0xf) OR (rm AND 0xf)"

definition EncodeUxth :: "u32 \<Rightarrow> u32 \<Rightarrow> u32" where [encoder_defs]:
  "EncodeUxth rd rm = CondBits AL OR UXTH OR push_bit 12 (rd AND 0xf) OR (rm AND 0xf)"

definition EncodeSubReg :: "u32 \<Rightarrow> u32 \<Rightarrow> u32 \<Rightarrow> bool \<Rightarrow> u32" where [encoder_defs]:
  "EncodeSubReg rd rn rm set_flags = CondBits AL OR OPCODE_SUB OR (if set_flags then SET_FLAGS
     else 0) OR push_bit 16 (rn AND 0xf) OR push_bit 12 (rd AND 0xf) OR (rm AND 0xf)"

definition EncodeSubRegShiftImm :: "u32 \<Rightarrow> u32 \<Rightarrow> u32 \<Rightarrow> ShiftType \<Rightarrow> u8 \<Rightarrow> bool \<Rightarrow> u32" where [encoder_defs]:
  "EncodeSubRegShiftImm rd rn rm shift amount set_flags = EncodeDataProcessingRegShiftImm OPCODE_SUB rd rn rm shift amount set_flags AL"

definition EncodeSubRegShiftReg :: "u32 \<Rightarrow> u32 \<Rightarrow> u32 \<Rightarrow> ShiftType \<Rightarrow> u32 \<Rightarrow> bool \<Rightarrow> u32" where [encoder_defs]:
  "EncodeSubRegShiftReg rd rn rm shift rs set_flags = EncodeDataProcessingRegShiftReg OPCODE_SUB rd rn rm shift rs set_flags"

definition EncodeSbcReg :: "u32 \<Rightarrow> u32 \<Rightarrow> u32 \<Rightarrow> bool \<Rightarrow> u32" where [encoder_defs]:
  "EncodeSbcReg rd rn rm set_flags = CondBits AL OR OPCODE_SBC OR (if set_flags then SET_FLAGS
     else 0) OR push_bit 16 (rn AND 0xf) OR push_bit 12 (rd AND 0xf) OR (rm AND 0xf)"

definition EncodePkhbt :: "u32 \<Rightarrow> u32 \<Rightarrow> u32 \<Rightarrow> u8 \<Rightarrow> u32" where [encoder_defs]:
  "EncodePkhbt rd rn rm lsl_amount = CondBits AL OR PKHBT OR push_bit 16 (rn AND 0xf) OR
     push_bit 12 (rd AND 0xf) OR push_bit 7 (ucast lsl_amount AND 0x1f) OR (rm AND 0xf)"

definition EncodeUmull :: "u32 \<Rightarrow> u32 \<Rightarrow> u32 \<Rightarrow> u32 \<Rightarrow> bool \<Rightarrow> u32" where [encoder_defs]:
  "EncodeUmull rdlo rdhi rn rm set_flags = CondBits AL OR UMULL OR (if set_flags then SET_FLAGS
     else 0) OR push_bit 16 (rdhi AND 0xf) OR push_bit 12 (rdlo AND 0xf) OR
     push_bit 8 (rm AND 0xf) OR (rn AND 0xf)"

definition EncodeSmull :: "u32 \<Rightarrow> u32 \<Rightarrow> u32 \<Rightarrow> u32 \<Rightarrow> bool \<Rightarrow> u32" where [encoder_defs]:
  "EncodeSmull rdlo rdhi rn rm set_flags = CondBits AL OR SMULL OR (if set_flags then SET_FLAGS
     else 0) OR push_bit 16 (rdhi AND 0xf) OR push_bit 12 (rdlo AND 0xf) OR
     push_bit 8 (rm AND 0xf) OR (rn AND 0xf)"

definition EncodeCmpReg :: "u32 \<Rightarrow> u32 \<Rightarrow> Condition \<Rightarrow> u32" where [encoder_defs]:
  "EncodeCmpReg rn rm condition = CondBits condition OR OPCODE_CMP OR SET_FLAGS OR
     push_bit 16 (rn AND 0xf) OR (rm AND 0xf)"

definition EncodeLdrImm12 :: "u32 \<Rightarrow> u32 \<Rightarrow> u16 \<Rightarrow> Condition \<Rightarrow> u32" where [encoder_defs]:
  "EncodeLdrImm12 rd rn offset condition = CondBits condition OR LDR_IMM OR
     push_bit 16 (rn AND 0xf) OR push_bit 12 (rd AND 0xf) OR ucast offset"

definition EncodeLdrImm12PostIndex :: "u32 \<Rightarrow> u32 \<Rightarrow> u16 \<Rightarrow> u32" where [encoder_defs]:
  "EncodeLdrImm12PostIndex rd rn offset = CondBits AL OR LDR_IMM_POST_INDEX OR
     push_bit 16 (rn AND 0xf) OR push_bit 12 (rd AND 0xf) OR ucast offset"

definition EncodeLdrRegShift :: "u32 \<Rightarrow> u32 \<Rightarrow> u32 \<Rightarrow> ShiftType \<Rightarrow> u8 \<Rightarrow> u32" where [encoder_defs]:
  "EncodeLdrRegShift rd rn rm shift amount = CondBits AL OR LDR_REG OR push_bit 16 (rn AND 0xf)
     OR push_bit 12 (rd AND 0xf) OR push_bit 7 (ucast amount AND 0x1f) OR
     push_bit 5 (ShiftTypeVal shift AND 0x3) OR (rm AND 0xf)"

definition EncodeStrImm12 :: "u32 \<Rightarrow> u32 \<Rightarrow> u16 \<Rightarrow> Condition \<Rightarrow> u32" where [encoder_defs]:
  "EncodeStrImm12 rd rn offset condition = CondBits condition OR STR_IMM OR
     push_bit 16 (rn AND 0xf) OR push_bit 12 (rd AND 0xf) OR ucast offset"

definition EncodeStrRegShift :: "u32 \<Rightarrow> u32 \<Rightarrow> u32 \<Rightarrow> ShiftType \<Rightarrow> u8 \<Rightarrow> u32" where [encoder_defs]:
  "EncodeStrRegShift rd rn rm shift amount = CondBits AL OR STR_REG OR push_bit 16 (rn AND 0xf)
     OR push_bit 12 (rd AND 0xf) OR push_bit 7 (ucast amount AND 0x1f) OR
     push_bit 5 (ShiftTypeVal shift AND 0x3) OR (rm AND 0xf)"

definition EncodeLdrdImm8 :: "u32 \<Rightarrow> u32 \<Rightarrow> u32 \<Rightarrow> u8 \<Rightarrow> Condition \<Rightarrow> u32" where [encoder_defs]:
  "EncodeLdrdImm8 rdlo rdhi rn offset condition = CondBits condition OR LDRD_IMM OR
     push_bit 16 (rn AND 0xf) OR push_bit 12 (rdlo AND 0xf) OR push_bit 4 (ucast offset AND 0xf0)
     OR (ucast offset AND 0x0f)"

definition EncodeStrdImm8 :: "u32 \<Rightarrow> u32 \<Rightarrow> u32 \<Rightarrow> u8 \<Rightarrow> Condition \<Rightarrow> u32" where [encoder_defs]:
  "EncodeStrdImm8 rdlo rdhi rn offset condition = CondBits condition OR STRD_IMM OR
     push_bit 16 (rn AND 0xf) OR push_bit 12 (rdlo AND 0xf) OR push_bit 4 (ucast offset AND 0xf0)
     OR (ucast offset AND 0x0f)"

definition EncodeLdrbImm12 :: "u32 \<Rightarrow> u32 \<Rightarrow> u16 \<Rightarrow> u32" where [encoder_defs]:
  "EncodeLdrbImm12 rd rn offset = CondBits AL OR LDRB_IMM OR push_bit 16 (rn AND 0xf) OR
     push_bit 12 (rd AND 0xf) OR ucast offset"

definition EncodeLdrbImm12PostIndex :: "u32 \<Rightarrow> u32 \<Rightarrow> u16 \<Rightarrow> u32" where [encoder_defs]:
  "EncodeLdrbImm12PostIndex rd rn offset = CondBits AL OR LDRB_IMM_POST_INDEX OR
     push_bit 16 (rn AND 0xf) OR push_bit 12 (rd AND 0xf) OR ucast offset"

definition EncodeLdrbRegShift :: "u32 \<Rightarrow> u32 \<Rightarrow> u32 \<Rightarrow> ShiftType \<Rightarrow> u8 \<Rightarrow> u32" where [encoder_defs]:
  "EncodeLdrbRegShift rd rn rm shift amount = CondBits AL OR LDRB_REG OR
     push_bit 16 (rn AND 0xf) OR push_bit 12 (rd AND 0xf) OR push_bit 7 (ucast amount AND 0x1f) OR
     push_bit 5 (ShiftTypeVal shift AND 0x3) OR (rm AND 0xf)"

definition EncodeStrbImm12 :: "u32 \<Rightarrow> u32 \<Rightarrow> u16 \<Rightarrow> u32" where [encoder_defs]:
  "EncodeStrbImm12 rd rn offset = CondBits AL OR STRB_IMM OR push_bit 16 (rn AND 0xf) OR
     push_bit 12 (rd AND 0xf) OR ucast offset"

definition EncodeStrbImm12PostIndex :: "u32 \<Rightarrow> u32 \<Rightarrow> u16 \<Rightarrow> u32" where [encoder_defs]:
  "EncodeStrbImm12PostIndex rd rn offset = CondBits AL OR STRB_IMM_POST_INDEX OR
     push_bit 16 (rn AND 0xf) OR push_bit 12 (rd AND 0xf) OR ucast offset"

definition EncodeStrbRegShift :: "u32 \<Rightarrow> u32 \<Rightarrow> u32 \<Rightarrow> ShiftType \<Rightarrow> u8 \<Rightarrow> u32" where [encoder_defs]:
  "EncodeStrbRegShift rd rn rm shift amount = CondBits AL OR STRB_REG OR
     push_bit 16 (rn AND 0xf) OR push_bit 12 (rd AND 0xf) OR push_bit 7 (ucast amount AND 0x1f) OR
     push_bit 5 (ShiftTypeVal shift AND 0x3) OR (rm AND 0xf)"

definition EncodeLdrhImm8 :: "u32 \<Rightarrow> u32 \<Rightarrow> u8 \<Rightarrow> u32" where [encoder_defs]:
  "EncodeLdrhImm8 rd rn offset = CondBits AL OR LDRH_IMM OR push_bit 16 (rn AND 0xf) OR
     push_bit 12 (rd AND 0xf) OR push_bit 4 (ucast offset AND 0xf0) OR (ucast offset AND 0x0f)"

definition EncodeLdrhReg :: "u32 \<Rightarrow> u32 \<Rightarrow> u32 \<Rightarrow> u32" where [encoder_defs]:
  "EncodeLdrhReg rd rn rm = CondBits AL OR LDRH_REG OR push_bit 16 (rn AND 0xf) OR
     push_bit 12 (rd AND 0xf) OR (rm AND 0xf)"

definition EncodeStrhImm8 :: "u32 \<Rightarrow> u32 \<Rightarrow> u8 \<Rightarrow> u32" where [encoder_defs]:
  "EncodeStrhImm8 rd rn offset = CondBits AL OR STRH_IMM OR push_bit 16 (rn AND 0xf) OR
     push_bit 12 (rd AND 0xf) OR push_bit 4 (ucast offset AND 0xf0) OR (ucast offset AND 0x0f)"

definition EncodeStrhReg :: "u32 \<Rightarrow> u32 \<Rightarrow> u32 \<Rightarrow> u32" where [encoder_defs]:
  "EncodeStrhReg rd rn rm = CondBits AL OR STRH_REG OR push_bit 16 (rn AND 0xf) OR
     push_bit 12 (rd AND 0xf) OR (rm AND 0xf)"

definition EncodeLdrsbImm8 :: "u32 \<Rightarrow> u32 \<Rightarrow> u8 \<Rightarrow> u32" where [encoder_defs]:
  "EncodeLdrsbImm8 rd rn offset = CondBits AL OR LDRSB_IMM OR push_bit 16 (rn AND 0xf) OR
     push_bit 12 (rd AND 0xf) OR push_bit 4 (ucast offset AND 0xf0) OR (ucast offset AND 0x0f)"

definition EncodeLdrsbImm8PostIndex :: "u32 \<Rightarrow> u32 \<Rightarrow> u8 \<Rightarrow> u32" where [encoder_defs]:
  "EncodeLdrsbImm8PostIndex rd rn offset = CondBits AL OR LDRSB_IMM_POST_INDEX OR
     push_bit 16 (rn AND 0xf) OR push_bit 12 (rd AND 0xf) OR push_bit 4 (ucast offset AND 0xf0) OR
     (ucast offset AND 0x0f)"

definition EncodeLdrsbReg :: "u32 \<Rightarrow> u32 \<Rightarrow> u32 \<Rightarrow> u32" where [encoder_defs]:
  "EncodeLdrsbReg rd rn rm = CondBits AL OR LDRSB_REG OR push_bit 16 (rn AND 0xf) OR
     push_bit 12 (rd AND 0xf) OR (rm AND 0xf)"

definition EncodeLdrshImm8 :: "u32 \<Rightarrow> u32 \<Rightarrow> u8 \<Rightarrow> u32" where [encoder_defs]:
  "EncodeLdrshImm8 rd rn offset = CondBits AL OR LDRSH_IMM OR push_bit 16 (rn AND 0xf) OR
     push_bit 12 (rd AND 0xf) OR push_bit 4 (ucast offset AND 0xf0) OR (ucast offset AND 0x0f)"

definition EncodeLdrshReg :: "u32 \<Rightarrow> u32 \<Rightarrow> u32 \<Rightarrow> u32" where [encoder_defs]:
  "EncodeLdrshReg rd rn rm = CondBits AL OR LDRSH_REG OR push_bit 16 (rn AND 0xf) OR
     push_bit 12 (rd AND 0xf) OR (rm AND 0xf)"

definition EncodePush :: "u16 \<Rightarrow> u32" where [encoder_defs]:
  "EncodePush register_list = CondBits AL OR PUSH OR ucast register_list"

definition EncodePop :: "u16 \<Rightarrow> u32" where [encoder_defs]:
  "EncodePop register_list = CondBits AL OR POP OR ucast register_list"

definition EncodeBx :: "u32 \<Rightarrow> u32" where [encoder_defs]:
  "EncodeBx rm = CondBits AL OR BX OR (rm AND 0xf)"

definition EncodeBlx :: "u32 \<Rightarrow> u32" where [encoder_defs]:
  "EncodeBlx rm = CondBits AL OR BLX OR (rm AND 0xf)"

subsection \<open>Branches\<close>

definition EncodeBranch :: "uptr \<Rightarrow> uptr \<Rightarrow> Condition \<Rightarrow> u32 option" where
  "EncodeBranch instruction target condition =
     (if instruction = 0 \<or> target = 0 then None
      else let delta = target - (instruction + 8) in
        if delta AND 3 \<noteq> 0 then None
        else let words = signed_drop_bit 2 delta in
          if sint words < - 0x800000 \<or> sint words > 0x7fffff then None
          else Some (CondBits condition OR BRANCH OR (words AND 0x00ffffff)))"

end
