(* ===== verification/A32_Buffer.thy ===== *)
theory A32_Buffer
  imports VitaVM A32_Encode
begin

text \<open>
  The code buffer of \<^verbatim>\<open>pcsx2/vita/A32Emitter.cpp\<close>: where the instructions of
  \<open>A32_Encode\<close> are written. A buffer owns (or is attached to) a range of the executable
  arena; it opens the write domain of \<open>VitaVM\<close> on the first store, appends or patches
  words through the write address it was given, keeps the interval of dirty bytes, and
  publishes it with \<^verbatim>\<open>Flush\<close>. The state \<open>jit\<close> joins the buffer, the memory
  manager and the kernel: call number \<open>n\<close> to the memory manager runs in the
  environment \<open>jit_env n\<close>, so that two calls of one operation may be answered
  differently. Assertions of the kind \<^verbatim>\<open>pxAssert\<close> are not in a release build;
  \<^verbatim>\<open>pxAssertRel\<close> aborts.
\<close>

subsection \<open>State\<close>

record CodeBuffer =
  m_base :: uptr
  m_write_base :: wptr
  m_capacity :: size_t
  m_write_capacity :: size_t
  m_offset :: size_t
  m_dirty_begin :: size_t
  m_dirty_end :: size_t
  m_owns_memory :: bool
  m_out_of_space :: bool
  m_write_domain_open :: bool
  m_neon_logical_first_q :: u8
  m_neon_physical_first_q :: u8
  m_neon_mapped_q_count :: u8

definition CodeBuffer_default :: CodeBuffer where
  "CodeBuffer_default = \<lparr> m_base = 0, m_write_base = WNull, m_capacity = 0, m_write_capacity = 0,
     m_offset = 0, m_dirty_begin = 0, m_dirty_end = 0, m_owns_memory = False, m_out_of_space = False,
     m_write_domain_open = False, m_neon_logical_first_q = 0, m_neon_physical_first_q = 0,
     m_neon_mapped_q_count = 0 \<rparr>"

record jit =
  jit_cb :: CodeBuffer
  jit_vm :: vm_state
  jit_env :: "nat \<Rightarrow> sce"
  jit_calls :: nat

type_synonym 'a jitm = "jit \<Rightarrow> ('a \<times> jit) call"

definition jret :: "'a \<Rightarrow> 'a jitm" where
  "jret x j = Returns (x, j)"

definition jbind :: "'a jitm \<Rightarrow> ('a \<Rightarrow> 'b jitm) \<Rightarrow> 'b jitm" where
  "jbind m f j = call_bind (m j) (\<lambda>(x, j'). f x j')"

text \<open>The short-circuit conjunction of two calls.\<close>

definition jand :: "bool jitm \<Rightarrow> bool jitm \<Rightarrow> bool jitm" where
  "jand m m' = jbind m (\<lambda>b. if b then m' else jret False)"

definition vm_call :: "(sce \<Rightarrow> vm_state \<Rightarrow> ('a \<times> vm_state) call) \<Rightarrow> 'a jitm" where
  "vm_call f j = call_bind (f (jit_env j (jit_calls j)) (jit_vm j))
     (\<lambda>(x, vm'). Returns (x, j\<lparr> jit_vm := vm', jit_calls := Suc (jit_calls j) \<rparr>))"

definition upd_cb :: "(CodeBuffer \<Rightarrow> CodeBuffer) \<Rightarrow> jit \<Rightarrow> jit" where
  "upd_cb f j = j\<lparr> jit_cb := f (jit_cb j) \<rparr>"

text \<open>\<^verbatim>\<open>memcpy(m_write_base + offset, ...)\<close> of one instruction.\<close>

definition store_code :: "size_t \<Rightarrow> u32 \<Rightarrow> unit jitm" where
  "store_code offset instruction j =
     call_bind (wptr_store (m_write_base (jit_cb j)) offset (u32_bytes instruction) (jit_vm j))
       (\<lambda>vm'. Returns ((), j\<lparr> jit_vm := vm' \<rparr>))"

subsection \<open>The write domain\<close>

definition ReadBase :: "CodeBuffer \<Rightarrow> wptr" where
  "ReadBase cb = (if m_write_domain_open cb then m_write_base cb
     else if m_base cb = 0 then WNull else WAt (m_base cb))"

definition HasSpace :: "CodeBuffer \<Rightarrow> size_t \<Rightarrow> bool" where
  "HasSpace cb bytes \<longleftrightarrow> m_base cb \<noteq> 0 \<and> bytes \<le> m_capacity cb - m_offset cb"

definition MarkDirty :: "size_t \<Rightarrow> size_t \<Rightarrow> CodeBuffer \<Rightarrow> CodeBuffer" where
  "MarkDirty offset sz cb =
     (let end_offset = offset + sz in
      if m_dirty_begin cb = m_dirty_end cb
      then cb\<lparr> m_dirty_begin := offset, m_dirty_end := end_offset \<rparr>
      else cb\<lparr> m_dirty_begin := min (m_dirty_begin cb) offset,
               m_dirty_end := max (m_dirty_end cb) end_offset \<rparr>)"

definition CloseWriteDomain :: "bool jitm" where
  "CloseWriteDomain j =
     (if \<not> m_write_domain_open (jit_cb j) then jret True j
      else jbind (vm_call EndJitWrite) (\<lambda>ended j'. jret ended (upd_cb (\<lambda>cb. cb
             \<lparr> m_write_base := WNull, m_write_capacity := 0 \<rparr>) j'))
           (upd_cb (\<lambda>cb. cb\<lparr> m_write_domain_open := False \<rparr>) j))"

definition EnsureWritable :: "size_t \<Rightarrow> bool jitm" where
  "EnsureWritable required_capacity j =
     (let cb = jit_cb j in
      if m_write_domain_open cb then
        if required_capacity \<le> m_write_capacity cb then jret True j
        else jbind (vm_call (\<lambda>env. ExpandJitWrite env (m_offset cb) required_capacity
                      (m_write_base cb, m_write_capacity cb)))
               (\<lambda>(ok, write_base, write_capacity) j'.
                  if \<not> ok then jret False (upd_cb (\<lambda>cb. cb\<lparr> m_write_capacity := write_capacity \<rparr>) j')
                  else jret True (upd_cb (\<lambda>cb. cb
                         \<lparr> m_write_base := write_base, m_write_capacity := write_capacity \<rparr>) j')) j
      else if m_base cb = 0 \<or> required_capacity > m_capacity cb then jret False j
      else jbind (vm_call (\<lambda>env. BeginJitWrite env (m_base cb) (m_offset cb) (m_capacity cb)))
             (\<lambda>r j'. case r of
                None \<Rightarrow> jret False (upd_cb (\<lambda>cb. cb
                          \<lparr> m_write_domain_open := False, m_write_base := WNull \<rparr>) j')
              | Some (write_base, write_capacity) \<Rightarrow> jret True (upd_cb (\<lambda>cb. cb
                          \<lparr> m_write_domain_open := True, m_write_base := write_base,
                            m_write_capacity := write_capacity \<rparr>) j')) j)"

definition Flush :: "bool jitm" where
  "Flush j =
     (let cb = jit_cb j in
      if m_base cb = 0 \<or> m_offset cb = 0 then jret False j
      else if m_dirty_begin cb = m_dirty_end cb then CloseWriteDomain j
      else if \<not> m_write_domain_open cb then jret False j
      else jbind (vm_call (\<lambda>env. EndJitWriteAndSync env (m_base cb + m_dirty_begin cb)
                      (m_dirty_end cb - m_dirty_begin cb)))
             (\<lambda>published j'.
                let j'' = upd_cb (\<lambda>cb. cb\<lparr> m_write_base := WNull, m_write_capacity := 0 \<rparr>) j'
                in if \<not> published then jret False j''
                   else jret True (upd_cb (\<lambda>cb. cb\<lparr> m_dirty_begin := 0, m_dirty_end := 0 \<rparr>) j''))
             (upd_cb (\<lambda>cb. cb\<lparr> m_write_domain_open := False \<rparr>) j))"

subsection \<open>Life cycle\<close>

definition Release :: "unit jitm" where
  "Release j =
     jbind CloseWriteDomain (\<lambda>closed j1.
       if \<not> closed then Aborts
       else let cb = jit_cb j1 in
         jbind (if m_base cb \<noteq> 0 \<and> m_owns_memory cb
                then vm_call (\<lambda>env vm. call_bind (FreeJitMemory env (m_base cb) vm) (\<lambda>vm'. Returns ((), vm')))
                else jret ())
           (\<lambda>_ j2. jret () (upd_cb (\<lambda>_. CodeBuffer_default) j2)) j1) j"

definition Allocate :: "size_t \<Rightarrow> bool jitm" where
  "Allocate capacity j =
     jbind Release (\<lambda>_.
       jbind (vm_call (\<lambda>env vm. Returns (AllocJitMemory env capacity vm))) (\<lambda>r j'.
         let base = (case r of None \<Rightarrow> 0 | Some (p, _) \<Rightarrow> p)
         in jret (base \<noteq> 0) (upd_cb (\<lambda>cb. cb
              \<lparr> m_base := base, m_write_base := WNull, m_capacity := (if base \<noteq> 0 then capacity else 0),
                m_write_capacity := 0, m_offset := 0, m_dirty_begin := 0, m_dirty_end := 0,
                m_owns_memory := (base \<noteq> 0), m_out_of_space := False,
                m_write_domain_open := False \<rparr>) j'))) j"

definition Attach :: "uptr \<Rightarrow> size_t \<Rightarrow> bool jitm" where
  "Attach data capacity j =
     jbind Release (\<lambda>_ j'.
       if data = 0 \<or> capacity = 0 then jret False j'
       else jret True (upd_cb (\<lambda>cb. cb
              \<lparr> m_base := data, m_write_base := WNull, m_capacity := capacity, m_write_capacity := 0,
                m_offset := 0, m_dirty_begin := 0, m_dirty_end := 0, m_owns_memory := False,
                m_out_of_space := False, m_write_domain_open := False \<rparr>) j')) j"

definition Reset :: "unit jitm" where
  "Reset j =
     jbind CloseWriteDomain (\<lambda>closed j'.
       if \<not> closed then Aborts
       else jret () (upd_cb (\<lambda>cb. cb
              \<lparr> m_offset := 0, m_dirty_begin := 0, m_dirty_end := 0, m_out_of_space := False \<rparr>) j')) j"

text \<open>The move constructor: the new buffer, and the one moved from.\<close>

definition CodeBuffer_move :: "CodeBuffer \<Rightarrow> CodeBuffer \<times> CodeBuffer" where
  "CodeBuffer_move other = (other, CodeBuffer_default)"

text \<open>The move assignment, between two different buffers: the result is the buffer moved from.\<close>

definition CodeBuffer_move_assign :: "CodeBuffer \<Rightarrow> CodeBuffer jitm" where
  "CodeBuffer_move_assign other j =
     jbind Release (\<lambda>_ j'. jret CodeBuffer_default (upd_cb (\<lambda>_. other) j')) j"

subsection \<open>The NEON register bank mapping\<close>

definition SetNeonQRegisterBankMapping :: "u32 \<Rightarrow> u32 \<Rightarrow> u32 \<Rightarrow> CodeBuffer \<Rightarrow> CodeBuffer" where
  "SetNeonQRegisterBankMapping logical_first_q physical_first_q q_count cb = cb
     \<lparr> m_neon_logical_first_q := ucast logical_first_q,
       m_neon_physical_first_q := ucast physical_first_q,
       m_neon_mapped_q_count := ucast q_count \<rparr>"

definition MapNeonQRegister :: "CodeBuffer \<Rightarrow> u32 \<Rightarrow> u32" where
  "MapNeonQRegister cb qreg =
     (if qreg \<ge> ucast (m_neon_logical_first_q cb) \<and>
         qreg - ucast (m_neon_logical_first_q cb) < ucast (m_neon_mapped_q_count cb)
      then ucast (m_neon_physical_first_q cb) + (qreg - ucast (m_neon_logical_first_q cb))
      else qreg)"

definition MapNeonDRegister :: "CodeBuffer \<Rightarrow> u32 \<Rightarrow> u32" where
  "MapNeonDRegister cb dreg =
     (let logical_first_d = ucast (m_neon_logical_first_q cb) * 2;
          mapped_d_count = ucast (m_neon_mapped_q_count cb) * 2
      in if dreg \<ge> logical_first_d \<and> dreg - logical_first_d < mapped_d_count
         then ucast (m_neon_physical_first_q cb) * 2 + (dreg - logical_first_d)
         else dreg)"

subsection \<open>Appending and patching words\<close>

definition EmitU32 :: "u32 \<Rightarrow> bool jitm" where
  "EmitU32 instruction j =
     (if \<not> HasSpace (jit_cb j) 4 then jret False (upd_cb (\<lambda>cb. cb\<lparr> m_out_of_space := True \<rparr>) j)
      else jbind (EnsureWritable (m_offset (jit_cb j) + 4)) (\<lambda>ok j1.
        if \<not> ok then jret False j1
        else let instruction_offset = m_offset (jit_cb j1) in
          jbind (store_code instruction_offset instruction) (\<lambda>_ j2.
            jret True (upd_cb (\<lambda>cb. MarkDirty instruction_offset 4
              (cb\<lparr> m_offset := m_offset cb + 4 \<rparr>)) j2)) j1) j)"

text \<open>The guard of the patching functions, and the store they share.\<close>

definition patch_guard :: "CodeBuffer \<Rightarrow> size_t \<Rightarrow> bool" where
  "patch_guard cb instruction_offset \<longleftrightarrow>
     \<not> (m_base cb = 0 \<or> instruction_offset + 4 > m_offset cb \<or> instruction_offset AND 3 \<noteq> 0)"

definition patch_store :: "size_t \<Rightarrow> u32 \<Rightarrow> bool jitm" where
  "patch_store instruction_offset instruction j =
     jbind (EnsureWritable (m_offset (jit_cb j))) (\<lambda>ok j1.
       if \<not> ok then jret False j1
       else jbind (store_code instruction_offset instruction) (\<lambda>_ j2.
         jret True (upd_cb (MarkDirty instruction_offset 4) j2)) j1) j"

definition PatchInstruction :: "size_t \<Rightarrow> u32 \<Rightarrow> bool jitm" where
  "PatchInstruction instruction_offset instruction j =
     (if \<not> patch_guard (jit_cb j) instruction_offset then jret False j
      else patch_store instruction_offset instruction j)"

definition PatchNop :: "size_t \<Rightarrow> bool jitm" where
  "PatchNop instruction_offset j =
     (if \<not> patch_guard (jit_cb j) instruction_offset then jret False j
      else patch_store instruction_offset (CondBits AL OR NOP) j)"

definition PatchBranch :: "size_t \<Rightarrow> size_t \<Rightarrow> Condition \<Rightarrow> bool jitm" where
  "PatchBranch instruction_offset target_offset condition j =
     (let cb = jit_cb j in
      if \<not> patch_guard cb instruction_offset \<or> target_offset > m_offset cb \<or> target_offset AND 3 \<noteq> 0
      then jret False j
      else case EncodeBranch (m_base cb + instruction_offset) (m_base cb + target_offset) condition of
        None \<Rightarrow> jret False j
      | Some instruction \<Rightarrow> patch_store instruction_offset instruction j)"

definition PatchBranchLink :: "size_t \<Rightarrow> size_t \<Rightarrow> Condition \<Rightarrow> bool jitm" where
  "PatchBranchLink instruction_offset target_offset condition j =
     (let cb = jit_cb j in
      if \<not> patch_guard cb instruction_offset \<or> target_offset > m_offset cb \<or> target_offset AND 3 \<noteq> 0
      then jret False j
      else case EncodeBranch (m_base cb + instruction_offset) (m_base cb + target_offset) condition of
        None \<Rightarrow> jret False j
      | Some instruction \<Rightarrow> patch_store instruction_offset (instruction OR push_bit 24 1) j)"

definition PatchBranchToAddress :: "size_t \<Rightarrow> uptr \<Rightarrow> Condition \<Rightarrow> bool jitm" where
  "PatchBranchToAddress instruction_offset target condition j =
     (let cb = jit_cb j in
      if target = 0 \<or> \<not> patch_guard cb instruction_offset then jret False j
      else case EncodeBranch (m_base cb + instruction_offset) target condition of
        None \<Rightarrow> jret False j
      | Some instruction \<Rightarrow> patch_store instruction_offset instruction j)"

definition load_code :: "size_t \<Rightarrow> u32 jitm" where
  "load_code offset j =
     call_bind (wptr_load (ReadBase (jit_cb j)) offset 4 (jit_vm j))
       (\<lambda>bs. Returns (bytes_u32 bs, j))"

definition ReadInstruction :: "size_t \<Rightarrow> u32 option jitm" where
  "ReadInstruction instruction_offset j =
     (if \<not> patch_guard (jit_cb j) instruction_offset then jret None j
      else jbind (load_code instruction_offset) (\<lambda>instruction. jret (Some instruction)) j)"

definition PatchLdrLiteral :: "size_t \<Rightarrow> size_t \<Rightarrow> Condition \<Rightarrow> bool jitm" where
  "PatchLdrLiteral instruction_offset literal_offset condition j =
     (if \<not> patch_guard (jit_cb j) instruction_offset \<or> literal_offset + 4 > m_offset (jit_cb j) \<or>
         literal_offset AND 3 \<noteq> 0
      then jret False j
      else jbind (load_code instruction_offset) (\<lambda>placeholder j1.
        if placeholder AND 0x0f7f0000 \<noteq> 0x051f0000 then jret False j1
        else let rd = drop_bit 12 placeholder AND 0xf in
          if \<not> IsLowRegister rd then jret False j1
          else let displacement = sint literal_offset - sint (instruction_offset + 8) in
            if displacement < -4095 \<or> displacement > 4095 then jret False j1
            else let magnitude = word_of_int \<bar>displacement\<bar>;
                     add = (if displacement \<ge> 0 then push_bit 23 1 else 0);
                     instruction = CondBits condition OR 0x051f0000 OR add OR push_bit 12 rd OR magnitude
                 in patch_store instruction_offset instruction j1) j)"

definition PatchMovImm32 :: "size_t \<Rightarrow> u32 \<Rightarrow> u32 \<Rightarrow> bool jitm" where
  "PatchMovImm32 instruction_offset rd v j =
     (if m_base (jit_cb j) = 0 \<or> \<not> IsRegister rd \<or> instruction_offset + 4 * 2 > m_offset (jit_cb j) \<or>
         instruction_offset AND 3 \<noteq> 0
      then jret False j
      else let movw = EncodeMovw rd (ucast v) AL; movt = EncodeMovt rd (ucast (drop_bit 16 v)) AL
        in jbind (EnsureWritable (m_offset (jit_cb j))) (\<lambda>ok j1.
             if \<not> ok then jret False j1
             else jbind (store_code instruction_offset movw) (\<lambda>_.
               jbind (store_code (instruction_offset + 4) movt) (\<lambda>_ j2.
                 jret True (upd_cb (MarkDirty instruction_offset 8) j2))) j1) j)"

subsection \<open>Placeholders\<close>

definition EmitLdrLiteralPlaceholder :: "u32 \<Rightarrow> Condition \<Rightarrow> size_t jitm" where
  "EmitLdrLiteralPlaceholder rd condition j =
     (if \<not> IsLowRegister rd then jret (-1) j
      else let offset = m_offset (jit_cb j) in
        jbind (EmitU32 (CondBits condition OR 0x051f0000 OR push_bit 12 rd))
          (\<lambda>ok. jret (if ok then offset else -1)) j)"

definition EmitBranchPlaceholder :: "Condition \<Rightarrow> size_t jitm" where
  "EmitBranchPlaceholder condition j =
     (let offset = m_offset (jit_cb j) in
      jbind (EmitU32 (CondBits condition OR BRANCH)) (\<lambda>ok. jret (if ok then offset else -1)) j)"

definition EmitBranchLinkPlaceholder :: "Condition \<Rightarrow> size_t jitm" where
  "EmitBranchLinkPlaceholder condition j =
     (let offset = m_offset (jit_cb j) in
      jbind (EmitU32 (CondBits condition OR BRANCH OR push_bit 24 1))
        (\<lambda>ok. jret (if ok then offset else -1)) j)"

subsection \<open>Statistics of the generated code\<close>

record GeneratedCodeStats =
  host_instructions :: u64
  host_load_instructions :: u64
  host_store_instructions :: u64
  helper_call_instructions :: u64
  state_load_instructions :: u64
  state_store_instructions :: u64
  stack_load_instructions :: u64
  stack_store_instructions :: u64

definition GeneratedCodeStats_default :: GeneratedCodeStats where
  "GeneratedCodeStats_default = \<lparr> host_instructions = 0, host_load_instructions = 0,
     host_store_instructions = 0, helper_call_instructions = 0, state_load_instructions = 0,
     state_store_instructions = 0, stack_load_instructions = 0, stack_store_instructions = 0 \<rparr>"

definition is_helper_call :: "u32 \<Rightarrow> bool" where
  "is_helper_call instruction \<longleftrightarrow>
     instruction AND 0x0f000000 = 0x0b000000 \<or>
     instruction AND 0xfe000000 = 0xfa000000 \<or>
     instruction AND 0x0ffffff0 = 0x012fff30"

text \<open>\<open>None\<close> is \<^verbatim>\<open>memory == false\<close>, \<open>Some load\<close> otherwise.\<close>

definition memory_access :: "u32 \<Rightarrow> bool option" where
  "memory_access instruction =
     (if instruction AND 0xfe000000 = 0xf4000000 then Some (instruction AND push_bit 21 1 \<noteq> 0)
      else if instruction AND 0x0c000000 = 0x04000000 \<or> instruction AND 0x0e000000 = 0x08000000
      then Some (instruction AND push_bit 20 1 \<noteq> 0)
      else if instruction AND 0x0e000090 = 0x00000090 \<and> instruction AND 0x00000060 \<noteq> 0
      then Some (instruction AND push_bit 20 1 \<noteq> 0 \<or> instruction AND 0x00000060 = 0x00000040)
      else if instruction AND 0x0e000a00 = 0x0c000a00 then Some (instruction AND push_bit 20 1 \<noteq> 0)
      else None)"

definition count_instruction :: "u32 \<Rightarrow> u32 \<Rightarrow> GeneratedCodeStats \<Rightarrow> GeneratedCodeStats" where
  "count_instruction architectural_state_base instruction st =
     (let st1 = (if is_helper_call instruction
                 then st\<lparr> helper_call_instructions := helper_call_instructions st + 1 \<rparr> else st)
      in case memory_access instruction of
           None \<Rightarrow> st1
         | Some load \<Rightarrow>
             let base = drop_bit 16 instruction AND 0xf;
                 architectural_state = (base = architectural_state_base);
                 stack = (base = 13)
             in if load then
                  let st2 = st1\<lparr> host_load_instructions := host_load_instructions st1 + 1 \<rparr>;
                      st3 = (if architectural_state
                             then st2\<lparr> state_load_instructions := state_load_instructions st2 + 1 \<rparr> else st2)
                  in (if stack then st3\<lparr> stack_load_instructions := stack_load_instructions st3 + 1 \<rparr> else st3)
                else
                  let st2 = st1\<lparr> host_store_instructions := host_store_instructions st1 + 1 \<rparr>;
                      st3 = (if architectural_state
                             then st2\<lparr> state_store_instructions := state_store_instructions st2 + 1 \<rparr> else st2)
                  in (if stack then st3\<lparr> stack_store_instructions := stack_store_instructions st3 + 1 \<rparr> else st3))"

text \<open>The scan: \<open>n\<close> words from \<open>offset\<close>; the bounds of the range are checked before
  it starts, so the loop variable does not wrap and the number of iterations is the number of
  words.\<close>

fun analyze_words :: "u32 \<Rightarrow> nat \<Rightarrow> size_t \<Rightarrow> GeneratedCodeStats \<Rightarrow> GeneratedCodeStats jitm" where
  "analyze_words architectural_state_base 0 offset st = jret st"
| "analyze_words architectural_state_base (Suc n) offset st =
     jbind (load_code offset) (\<lambda>instruction.
       analyze_words architectural_state_base n (offset + 4)
         (count_instruction architectural_state_base instruction st))"

definition AnalyzeGeneratedCodeRange :: "size_t \<Rightarrow> size_t \<Rightarrow> u32 \<Rightarrow> GeneratedCodeStats jitm" where
  "AnalyzeGeneratedCodeRange range_begin bytes architectural_state_base j =
     (let cb = jit_cb j in
      if m_base cb = 0 \<or> range_begin AND 3 \<noteq> 0 \<or> bytes AND 3 \<noteq> 0 \<or> range_begin > m_offset cb \<or>
         bytes > m_offset cb - range_begin
      then jret GeneratedCodeStats_default j
      else analyze_words architectural_state_base (unat (bytes div 4)) range_begin
             (GeneratedCodeStats_default\<lparr> host_instructions := ucast (bytes div 4) \<rparr>) j)"

definition AnalyzeGeneratedCode :: "u32 \<Rightarrow> GeneratedCodeStats jitm" where
  "AnalyzeGeneratedCode architectural_state_base j =
     AnalyzeGeneratedCodeRange 0 (m_offset (jit_cb j)) architectural_state_base j"

end
