(* ===== verification/A32_Buffer_Inv.thy ===== *)
theory A32_Buffer_Inv
  imports VitaVM_Inv A32_Buffer
begin

text \<open>
  The invariant of a code buffer, and what its operations do to its contents. The contents are
  the bytes below \<^verbatim>\<open>m_offset\<close> seen through the read base: staged bytes while the write
  domain is open, executable memory when it is closed. Appending and patching change exactly
  the bytes they name; outside the dirty interval the contents are already in executable
  memory; a successful flush makes all of executable memory below \<^verbatim>\<open>m_offset\<close> equal to them.
\<close>

text \<open>Equations of the monad.\<close>

lemma jbind_Returns:
  "jbind m f j = Returns y \<longleftrightarrow> (\<exists>x j1. m j = Returns (x, j1) \<and> f x j1 = Returns y)"
  by (auto simp: jbind_def call_bind_Returns)

lemma jret_apply [simp]: "jret x j = Returns (x, j)"
  by (simp add: jret_def)

lemma jbind_step [simp]: "m j = Returns (x, j1) \<Longrightarrow> jbind m f j = f x j1"
  by (simp add: jbind_def)

lemma vm_call_Returns:
  "vm_call f j = Returns (x, j') \<longleftrightarrow> (\<exists>vm'. f (jit_env j (jit_calls j)) (jit_vm j) = Returns (x, vm') \<and>
     j' = j\<lparr> jit_vm := vm', jit_calls := Suc (jit_calls j) \<rparr>)"
  by (auto simp: vm_call_def call_bind_Returns split: prod.splits)

lemma upd_cb_simps [simp]:
  "jit_cb (upd_cb f j) = f (jit_cb j)" "jit_vm (upd_cb f j) = jit_vm j"
  "jit_env (upd_cb f j) = jit_env j" "jit_calls (upd_cb f j) = jit_calls j"
  by (simp_all add: upd_cb_def)

subsection \<open>Stores and loads through an open write\<close>

lemma write_open_room:
  assumes "vm_inv vm" "write_open tid base cap w wcap vm" "n \<le> unat wcap"
  shows "\<exists>bs. wptr_load w 0 n vm = Returns bs \<and> length bs = n"
proof (cases "s_write_backend vm = KuBridgeRxStaging")
  case True
  with assms have w: "w = WStaging" "wcap = min (s_write_staging_capacity vm) cap" by (simp_all add: write_open_def)
  have "s_write_active vm" using assms by (simp add: write_open_def vm_inv_def writer_inv_def)
  then obtain st where st: "s_write_staging vm = Some st" using assms(1) True by (auto simp: vm_inv_def target_inv_def)
  have "length st = unat (s_write_staging_capacity vm)" using assms(1) st by (simp add: vm_inv_def staging_inv_def)
  moreover have "unat wcap \<le> unat (s_write_staging_capacity vm)" using w(2) by (simp add: word_le_nat_alt min_def)
  ultimately show ?thesis using assms(3) w st by (simp add: wptr_load_def)
next
  case False
  with assms show ?thesis by (simp add: write_open_def wptr_load_def)
qed

lemma wptr_store_load:
  assumes "wptr_load w 0 n vm = Returns bs" "unat off + length ws \<le> n" "n < 2 ^ 32"
  shows "\<exists>vm'. wptr_store w off ws vm = Returns vm' \<and>
    wptr_load w 0 n vm' = Returns (take (unat off) bs @ ws @ drop (unat off + length ws) bs)"
proof (cases w)
  case WNull
  with assms show ?thesis by (simp add: wptr_load_def)
next
  case (WAt a)
  then have bs: "bs = mem_read (vm_mem vm) a n" using assms(1) by (simp add: wptr_load_def)
  have "mem_read (mem_write (vm_mem vm) (a + of_nat (unat off)) ws) a n =
      take (unat off) bs @ ws @ drop (unat off + length ws) bs"
    unfolding bs by (rule mem_read_write_sub [OF assms(2,3)])
  then show ?thesis using WAt by (simp add: wptr_store_def wptr_load_def)
next
  case WStaging
  then obtain st where st: "s_write_staging vm = Some st" "n \<le> length st" "bs = take n st"
    using assms(1) by (auto simp: wptr_load_def split: option.splits if_splits)
  moreover have "unat off \<le> n" "length ws \<le> n - unat off" "unat off \<le> length st" using assms(2) st(2) by simp_all
  ultimately show ?thesis using WStaging assms(2)
    by (simp add: wptr_store_def wptr_load_def min_absorb1 min_absorb2 drop_take)
qed

lemma wptr_store_keeps:
  assumes "wptr_store w off ws vm = Returns vm'"
  shows "same_arena vm vm'" "same_writer vm vm'" "s_write_staging_capacity vm' = s_write_staging_capacity vm"
    "w = WStaging \<Longrightarrow> vm_mem vm' = vm_mem vm"
  using assms by (auto simp: wptr_store_def same_arena_def same_writer_def split: wptr.splits option.splits if_splits)

lemma write_open_keep:
  assumes "write_open tid base cap w wcap vm" "same_writer vm vm'"
    "s_write_staging_capacity vm' = s_write_staging_capacity vm"
  shows "write_open tid base cap w wcap vm'"
  using assms by (simp add: write_open_def same_writer_def)

subsection \<open>The invariant of a code buffer\<close>

definition envs_ok :: "int \<Rightarrow> jit \<Rightarrow> bool" where
  "envs_ok tid j \<longleftrightarrow> (\<forall>n. sane_env (jit_env j n) \<and> sceKernelGetThreadId (jit_env j n) = tid)"

definition buf_bytes :: "jit \<Rightarrow> u8 list" where
  "buf_bytes j = (case wptr_load (ReadBase (jit_cb j)) 0 (unat (m_offset (jit_cb j))) (jit_vm j) of
     Returns bs \<Rightarrow> bs | _ \<Rightarrow> [])"

definition range_inv :: "jit \<Rightarrow> bool" where
  "range_inv j \<longleftrightarrow> (let cb = jit_cb j in
     if m_base cb = 0 then m_capacity cb = 0 \<and> m_offset cb = 0 \<and> \<not> m_write_domain_open cb
     else FindAllocationBackendLocked (jit_vm j) (m_base cb) (m_capacity cb) \<noteq> None \<and>
       m_offset cb \<le> m_capacity cb \<and> unat (m_offset cb) mod 4 = 0)"

definition domain_inv :: "int \<Rightarrow> jit \<Rightarrow> bool" where
  "domain_inv tid j \<longleftrightarrow> (let cb = jit_cb j in
     if m_write_domain_open cb
     then write_open tid (m_base cb) (m_capacity cb) (m_write_base cb) (m_write_capacity cb) (jit_vm j) \<and>
       m_offset cb \<le> m_write_capacity cb \<and> m_write_capacity cb \<le> m_capacity cb
     else s_write_mutex (jit_vm j) \<noteq> Some tid)"

definition dirty_inv :: "jit \<Rightarrow> bool" where
  "dirty_inv j \<longleftrightarrow> (let cb = jit_cb j in
     m_dirty_begin cb \<le> m_dirty_end cb \<and> m_dirty_end cb \<le> m_offset cb \<and>
     (\<forall>i < unat (m_offset cb). i < unat (m_dirty_begin cb) \<or> unat (m_dirty_end cb) \<le> i \<longrightarrow>
        buf_bytes j ! i = vm_mem (jit_vm j) (m_base cb + of_nat i)))"

definition cb_inv :: "int \<Rightarrow> jit \<Rightarrow> bool" where
  "cb_inv tid j \<longleftrightarrow> envs_ok tid j \<and> vm_inv (jit_vm j) \<and> range_inv j \<and> domain_inv tid j \<and> dirty_inv j"

lemma cb_inv_parts:
  assumes "cb_inv tid j"
  shows "sane_env (jit_env j n)" "sceKernelGetThreadId (jit_env j n) = tid" "vm_inv (jit_vm j)" "0 \<le> tid"
proof -
  from assms have e: "\<And>n. sane_env (jit_env j n) \<and> sceKernelGetThreadId (jit_env j n) = tid"
    by (simp add: cb_inv_def envs_ok_def)
  then show "sane_env (jit_env j n)" "sceKernelGetThreadId (jit_env j n) = tid" by auto
  show "vm_inv (jit_vm j)" using assms by (simp add: cb_inv_def)
  show "0 \<le> tid" using e [of 0] by (auto simp: sane_env_def thread_ids_ok_def)
qed

lemma range_base: "FindAllocationBackendLocked vm a c \<noteq> None \<Longrightarrow> a \<noteq> 0 \<and> c \<noteq> 0"
  by (auto simp: FindAllocationBackendLocked_def split: if_splits)

lemma buf_bytes_load:
  assumes "cb_inv tid j" "m_base (jit_cb j) \<noteq> 0"
  shows "wptr_load (ReadBase (jit_cb j)) 0 (unat (m_offset (jit_cb j))) (jit_vm j) = Returns (buf_bytes j)"
    and "length (buf_bytes j) = unat (m_offset (jit_cb j))"
proof -
  have "\<exists>bs. wptr_load (ReadBase (jit_cb j)) 0 (unat (m_offset (jit_cb j))) (jit_vm j) = Returns bs \<and>
      length bs = unat (m_offset (jit_cb j))"
  proof (cases "m_write_domain_open (jit_cb j)")
    case True
    with assms have "write_open tid (m_base (jit_cb j)) (m_capacity (jit_cb j)) (m_write_base (jit_cb j))
        (m_write_capacity (jit_cb j)) (jit_vm j)" "unat (m_offset (jit_cb j)) \<le> unat (m_write_capacity (jit_cb j))"
      by (simp_all add: cb_inv_def domain_inv_def Let_def word_le_nat_alt)
    from write_open_room [OF cb_inv_parts(3) [OF assms(1)] this] True show ?thesis by (simp add: ReadBase_def)
  next
    case False
    with assms show ?thesis by (simp add: ReadBase_def wptr_load_def)
  qed
  then show "wptr_load (ReadBase (jit_cb j)) 0 (unat (m_offset (jit_cb j))) (jit_vm j) = Returns (buf_bytes j)"
    "length (buf_bytes j) = unat (m_offset (jit_cb j))" by (auto simp: buf_bytes_def)
qed

lemma dirty_inv_clean:
  assumes "cb_inv tid j" "i < unat (m_offset (jit_cb j))"
    "i < unat (m_dirty_begin (jit_cb j)) \<or> unat (m_dirty_end (jit_cb j)) \<le> i"
  shows "buf_bytes j ! i = vm_mem (jit_vm j) (m_base (jit_cb j) + of_nat i)"
  using assms unfolding cb_inv_def dirty_inv_def Let_def by blast

lemma buf_bytes_unbased: "cb_inv tid j \<Longrightarrow> m_base (jit_cb j) = 0 \<Longrightarrow> buf_bytes j = []"
  by (simp add: cb_inv_def range_inv_def Let_def buf_bytes_def ReadBase_def wptr_load_def)

text \<open>What an operation that does not touch the contents keeps.\<close>

definition same_contents :: "jit \<Rightarrow> jit \<Rightarrow> bool" where
  "same_contents j j' \<longleftrightarrow> buf_bytes j' = buf_bytes j \<and> vm_mem (jit_vm j') = vm_mem (jit_vm j) \<and>
     m_base (jit_cb j') = m_base (jit_cb j) \<and> m_capacity (jit_cb j') = m_capacity (jit_cb j) \<and>
     m_offset (jit_cb j') = m_offset (jit_cb j) \<and> m_dirty_begin (jit_cb j') = m_dirty_begin (jit_cb j) \<and>
     m_dirty_end (jit_cb j') = m_dirty_end (jit_cb j) \<and> jit_env j' = jit_env j"

lemma same_contents_refl [simp]: "same_contents j j"
  by (simp add: same_contents_def)

lemma same_contents_cb_inv:
  assumes "cb_inv tid j" "same_contents j j'" "same_arena (jit_vm j) (jit_vm j')" "vm_inv (jit_vm j')"
    "domain_inv tid j'" "m_base (jit_cb j) = 0 \<Longrightarrow> \<not> m_write_domain_open (jit_cb j')"
  shows "cb_inv tid j'"
  using assms same_arena_inv(3) [OF assms(3)]
  by (simp add: cb_inv_def same_contents_def envs_ok_def range_inv_def dirty_inv_def Let_def)

lemma EnsureWritable_open:
  assumes inv: "cb_inv tid j" and opened: "m_write_domain_open (jit_cb j)"
    and r: "EnsureWritable req j = Returns (ok, j')"
  shows "cb_inv tid j' \<and> same_contents j j' \<and> m_write_domain_open (jit_cb j') \<and>
    (ok \<longrightarrow> req \<le> m_write_capacity (jit_cb j'))"
proof (cases "req \<le> m_write_capacity (jit_cb j)")
  case True
  with inv opened r show ?thesis by (simp add: EnsureWritable_def)
next
  case False
  let ?cb = "jit_cb j"
  from inv opened have wo: "write_open tid (m_base ?cb) (m_capacity ?cb) (m_write_base ?cb) (m_write_capacity ?cb) (jit_vm j)"
    and le: "m_offset ?cb \<le> m_write_capacity ?cb" and lc: "m_write_capacity ?cb \<le> m_capacity ?cb"
    by (simp_all add: cb_inv_def domain_inv_def Let_def)
  note p = cb_inv_parts [OF inv]
  from r opened False obtain ok1 wb wc vm' where
    e: "ExpandJitWrite (jit_env j (jit_calls j)) (m_offset ?cb) req (m_write_base ?cb, m_write_capacity ?cb) (jit_vm j) =
        Returns ((ok1, wb, wc), vm')"
    and j': "ok = ok1" "j' = upd_cb (\<lambda>cb. if ok1 then cb\<lparr> m_write_base := wb, m_write_capacity := wc \<rparr>
        else cb\<lparr> m_write_capacity := wc \<rparr>) (j\<lparr> jit_vm := vm', jit_calls := Suc (jit_calls j) \<rparr>)"
    by (auto simp: EnsureWritable_def Let_def jbind_Returns vm_call_Returns split: if_splits)
  note ex = ExpandJitWrite_cases [OF p(1,3) e, unfolded p(2)]
  from inv opened have nz: "m_base ?cb \<noteq> 0" by (auto simp: cb_inv_def range_inv_def Let_def)
  show ?thesis
  proof (cases ok1)
    case True
    note ex6 = ex(6) [OF True wo]
    have "wc \<le> m_capacity ?cb" using ex6 by (auto simp: write_open_def split: if_splits)
    have "buf_bytes j' = buf_bytes j"
      using ex6 opened by (simp add: buf_bytes_def j' True ReadBase_def)
    then have sc: "same_contents j j'" using True ex(4) by (simp add: same_contents_def j')
    have "m_offset ?cb \<le> wc" using le ex6 order_trans by blast
    then have "domain_inv tid j'" using True ex6 opened \<open>wc \<le> m_capacity ?cb\<close>
      by (simp add: domain_inv_def j' Let_def)
    with same_contents_cb_inv [OF inv sc] ex(1,2) nz sc opened ex6 show ?thesis by (simp add: j' True)
  next
    case False
    from ex(5) [OF False] have v: "vm' = jit_vm j" "wc = m_write_capacity ?cb" by auto
    have "buf_bytes j' = buf_bytes j"
      by (simp add: buf_bytes_def j' False v ReadBase_def)
    then have sc: "same_contents j j'" using False v by (simp add: same_contents_def j')
    have "domain_inv tid j'" using inv False opened v
      by (simp add: cb_inv_def domain_inv_def j' Let_def)
    with same_contents_cb_inv [OF inv sc] v nz sc opened p(3) show ?thesis by (simp add: j' False same_arena_def)
  qed
qed

lemma EnsureWritable_closed:
  assumes inv: "cb_inv tid j" and closed: "\<not> m_write_domain_open (jit_cb j)"
    and r: "EnsureWritable req j = Returns (ok, j')"
  shows "cb_inv tid j' \<and> same_contents j j' \<and> (m_write_domain_open (jit_cb j') \<longleftrightarrow> ok)"
proof (cases "m_base (jit_cb j) = 0 \<or> req > m_capacity (jit_cb j)")
  case True
  with inv closed r show ?thesis by (auto simp: EnsureWritable_def)
next
  case False
  let ?cb = "jit_cb j" and ?env = "jit_env j (jit_calls j)"
  note p = cb_inv_parts [OF inv]
  from r closed False obtain res vm' where
    b: "BeginJitWriteForAddress ?env (m_base ?cb) (m_offset ?cb) (m_capacity ?cb) (jit_vm j) = Returns (res, vm')"
    and j': "ok \<longleftrightarrow> res \<noteq> None" "j' = upd_cb (\<lambda>cb. case res of
          None \<Rightarrow> cb\<lparr> m_write_domain_open := False, m_write_base := WNull \<rparr>
        | Some (wb, wc) \<Rightarrow> cb\<lparr> m_write_domain_open := True, m_write_base := wb, m_write_capacity := wc \<rparr>)
        (j\<lparr> jit_vm := vm', jit_calls := Suc (jit_calls j) \<rparr>)"
    by (auto simp: EnsureWritable_def Let_def jbind_Returns vm_call_Returns BeginJitWrite_def split: if_splits option.splits)
  show ?thesis
  proof (cases res)
    case None
    with BeginJitWriteForAddress_None [OF p(1,3)] b have v: "vm' = jit_vm j" by blast
    have "buf_bytes j' = buf_bytes j" using closed by (simp add: buf_bytes_def j' None v ReadBase_def)
    then have sc: "same_contents j j'" using v by (simp add: same_contents_def j' None)
    have "domain_inv tid j'" using inv closed v by (simp add: cb_inv_def domain_inv_def j' None Let_def)
    with same_contents_cb_inv [OF inv sc] v sc p(3) show ?thesis by (simp add: j' None same_arena_def)
  next
    case (Some w2)
    obtain wb wc where w2: "w2 = (wb, wc)" by fastforce
    note bs = BeginJitWriteForAddress_Some [OF p(1,3) b [unfolded Some w2], unfolded p(2)]
    have "buf_bytes j' = buf_bytes j"
      using bs(8) closed False by (simp add: buf_bytes_def j' Some w2 ReadBase_def wptr_load_def)
    then have sc: "same_contents j j'" using bs(7) by (simp add: same_contents_def j' Some w2)
    have "domain_inv tid j'" using bs(2,4,5) by (simp add: domain_inv_def j' Some w2 Let_def)
    with same_contents_cb_inv [OF inv sc] bs(1,6) sc False show ?thesis by (simp add: j' Some w2)
  qed
qed

lemma EnsureWritable_spec:
  assumes "cb_inv tid j" "EnsureWritable req j = Returns (ok, j')"
  shows "cb_inv tid j'" "same_contents j j'" "ok \<Longrightarrow> m_write_domain_open (jit_cb j')"
  using EnsureWritable_open [OF assms(1) _ assms(2)] EnsureWritable_closed [OF assms(1) _ assms(2)] by blast+

subsection \<open>Stores into the buffer\<close>

text \<open>A store at \<open>off\<close> inside the first \<open>n\<close> bytes of an open write, with the buffer fields
  updated to \<open>cb'\<close>.\<close>

lemma open_store:
  assumes inv: "cb_inv tid j" and opened: "m_write_domain_open (jit_cb j)"
    and st: "wptr_store (m_write_base (jit_cb j)) off ws (jit_vm j) = Returns vm'"
    and n: "unat off + length ws \<le> n" "n \<le> unat (m_write_capacity (jit_cb j))"
  shows "vm_inv vm'" "same_arena (jit_vm j) vm'" "same_writer (jit_vm j) vm'"
    "write_open tid (m_base (jit_cb j)) (m_capacity (jit_cb j)) (m_write_base (jit_cb j)) (m_write_capacity (jit_cb j)) vm'"
    "\<exists>bs. wptr_load (m_write_base (jit_cb j)) 0 n (jit_vm j) = Returns bs \<and> length bs = n \<and>
       wptr_load (m_write_base (jit_cb j)) 0 n vm' =
         Returns (take (unat off) bs @ ws @ drop (unat off + length ws) bs)"
proof -
  from inv opened have wo: "write_open tid (m_base (jit_cb j)) (m_capacity (jit_cb j)) (m_write_base (jit_cb j))
      (m_write_capacity (jit_cb j)) (jit_vm j)" by (simp add: cb_inv_def domain_inv_def Let_def)
  note p = cb_inv_parts [OF inv]
  show "vm_inv vm'" "same_arena (jit_vm j) vm'" "same_writer (jit_vm j) vm'"
    using wptr_store_vm_inv [OF p(3) st] by simp_all
  show "write_open tid (m_base (jit_cb j)) (m_capacity (jit_cb j)) (m_write_base (jit_cb j)) (m_write_capacity (jit_cb j)) vm'"
    using write_open_keep [OF wo] wptr_store_keeps(2,3) [OF st] by blast
  from write_open_room [OF p(3) wo n(2)] obtain bs where
    bs: "wptr_load (m_write_base (jit_cb j)) 0 n (jit_vm j) = Returns bs" "length bs = n" by blast
  have "n < 2 ^ 32" using n(2) unat_u32_less [of "m_write_capacity (jit_cb j)"] by simp
  from wptr_store_load [OF bs(1) n(1) this] st bs
  show "\<exists>bs. wptr_load (m_write_base (jit_cb j)) 0 n (jit_vm j) = Returns bs \<and> length bs = n \<and>
       wptr_load (m_write_base (jit_cb j)) 0 n vm' =
         Returns (take (unat off) bs @ ws @ drop (unat off + length ws) bs)" by auto
qed

lemma wptr_load_prefix:
  "wptr_load w 0 n vm = Returns bs \<Longrightarrow> k \<le> n \<Longrightarrow> wptr_load w 0 k vm = Returns (take k bs)"
proof (cases w)
  case (WAt a)
  assume "wptr_load w 0 n vm = Returns bs" "k \<le> n"
  moreover from this have "mem_read m a k = take k (mem_read m a n)" for m
    by (intro nth_equalityI) simp_all
  ultimately show ?thesis using WAt by (simp add: wptr_load_def)
qed (auto simp: wptr_load_def min_def split: option.splits if_splits)

text \<open>The stores leave the bytes outside the stored block as they were in memory.\<close>

lemma wptr_store_mem:
  assumes "wptr_store w off ws vm = Returns vm'" "write_open tid base cap w wcap vm" "length ws \<le> unat (p - (base + off))"
  shows "vm_mem vm' p = vm_mem vm p"
  using assms by (auto simp: wptr_store_def write_open_def mem_write_outside split: wptr.splits option.splits if_splits)

lemma offset_distance:
  fixes base off :: u32
  assumes "i < 2 ^ 32" "unat off + k < 2 ^ 32" "i < unat off \<or> unat off + k \<le> i"
  shows "k \<le> unat (base + of_nat i - (base + off))"
proof -
  have "unat (of_nat i :: u32) = i" using assms by (simp add: unat_of_nat_u32)
  then show ?thesis using assms by (auto simp: unat_sub_if')
qed

lemma MarkDirty_fields [simp]:
  "m_base (MarkDirty off sz cb) = m_base cb" "m_capacity (MarkDirty off sz cb) = m_capacity cb"
  "m_offset (MarkDirty off sz cb) = m_offset cb" "m_write_base (MarkDirty off sz cb) = m_write_base cb"
  "m_write_capacity (MarkDirty off sz cb) = m_write_capacity cb"
  "m_write_domain_open (MarkDirty off sz cb) = m_write_domain_open cb"
  "m_out_of_space (MarkDirty off sz cb) = m_out_of_space cb"
  "m_owns_memory (MarkDirty off sz cb) = m_owns_memory cb"
  by (simp_all add: MarkDirty_def Let_def)

lemma MarkDirty_interval:
  assumes "m_dirty_begin cb \<le> m_dirty_end cb" "unat off + unat sz < 2 ^ 32" "0 < sz"
  shows "unat (m_dirty_begin (MarkDirty off sz cb)) \<le> unat off"
    "unat off + unat sz \<le> unat (m_dirty_end (MarkDirty off sz cb))"
    "m_dirty_begin cb < m_dirty_end cb \<Longrightarrow> m_dirty_begin (MarkDirty off sz cb) \<le> m_dirty_begin cb"
    "m_dirty_begin cb < m_dirty_end cb \<Longrightarrow> m_dirty_end cb \<le> m_dirty_end (MarkDirty off sz cb)"
    "m_dirty_end cb \<le> lim \<Longrightarrow> off + sz \<le> lim \<Longrightarrow> m_dirty_end (MarkDirty off sz cb) \<le> lim"
    "m_dirty_begin (MarkDirty off sz cb) < m_dirty_end (MarkDirty off sz cb)"
proof -
  have e: "unat (off + sz) = unat off + unat sz" using assms(2) by (intro unat_add_lem [THEN iffD1]) simp
  have lt: "off < off + sz" using e assms(3) by (simp add: word_less_nat_alt)
  show "unat (m_dirty_begin (MarkDirty off sz cb)) \<le> unat off"
    by (simp add: MarkDirty_def Let_def min_def word_le_nat_alt)
  show "unat off + unat sz \<le> unat (m_dirty_end (MarkDirty off sz cb))"
    using e by (simp add: MarkDirty_def Let_def max_def word_le_nat_alt)
  show "m_dirty_begin cb < m_dirty_end cb \<Longrightarrow> m_dirty_begin (MarkDirty off sz cb) \<le> m_dirty_begin cb"
    "m_dirty_begin cb < m_dirty_end cb \<Longrightarrow> m_dirty_end cb \<le> m_dirty_end (MarkDirty off sz cb)"
    "m_dirty_end cb \<le> lim \<Longrightarrow> off + sz \<le> lim \<Longrightarrow> m_dirty_end (MarkDirty off sz cb) \<le> lim"
    by (auto simp: MarkDirty_def Let_def)
  show "m_dirty_begin (MarkDirty off sz cb) < m_dirty_end (MarkDirty off sz cb)"
    using lt by (auto simp: MarkDirty_def Let_def min_def max_def)
qed

lemma stored_cb_inv:
  assumes inv: "cb_inv tid j" and opened: "m_write_domain_open (jit_cb j)"
    and st: "wptr_store (m_write_base (jit_cb j)) off ws (jit_vm j) = Returns vm'"
    and lw: "length ws = unat k" "0 < k" and off: "off \<le> m_offset (jit_cb j)"
    and new: "unat new = max (unat (m_offset (jit_cb j))) (unat off + unat k)"
      "new \<le> m_write_capacity (jit_cb j)" "unat new mod 4 = 0"
  defines "j' \<equiv> upd_cb (\<lambda>cb. MarkDirty off k (cb\<lparr> m_offset := new \<rparr>)) (j\<lparr> jit_vm := vm' \<rparr>)"
  shows "cb_inv tid j'"
    and "buf_bytes j' = take (unat off) (buf_bytes j) @ ws @ drop (unat off + length ws) (buf_bytes j)"
proof -
  let ?cb = "jit_cb j"
  from inv opened have nz: "m_base ?cb \<noteq> 0" by (auto simp: cb_inv_def range_inv_def Let_def)
  have n: "unat off + length ws \<le> unat new" "unat new \<le> unat (m_write_capacity ?cb)"
    using lw new by (simp_all add: word_le_nat_alt)
  note os = open_store [OF inv opened st n]
  note p = cb_inv_parts [OF inv]
  from os(5) obtain bs where bs: "wptr_load (m_write_base ?cb) 0 (unat new) (jit_vm j) = Returns bs"
    "length bs = unat new" "wptr_load (m_write_base ?cb) 0 (unat new) vm' =
       Returns (take (unat off) bs @ ws @ drop (unat off + length ws) bs)" by blast
  note ob = buf_bytes_load [OF inv nz]
  have mo: "unat (m_offset ?cb) \<le> unat new" using new by simp
  have old: "buf_bytes j = take (unat (m_offset ?cb)) bs"
    using wptr_load_prefix [OF bs(1) mo] ob(1) opened by (simp add: ReadBase_def)
  have uo: "unat off \<le> unat (m_offset ?cb)" using off by (simp add: word_le_nat_alt)
  have "take (unat off) (buf_bytes j) = take (unat off) bs" using uo by (simp add: old min_absorb1)
  moreover have "drop (unat off + length ws) (buf_bytes j) = drop (unat off + length ws) bs"
    using new(1) bs(2) lw(1) by (auto simp: old max_def split: if_splits)
  moreover have "buf_bytes j' = take (unat off) bs @ ws @ drop (unat off + length ws) bs"
    using bs(3) opened by (simp add: buf_bytes_def j'_def ReadBase_def)
  ultimately show eq: "buf_bytes j' = take (unat off) (buf_bytes j) @ ws @ drop (unat off + length ws) (buf_bytes j)"
    by simp
  from inv have d: "m_dirty_begin ?cb \<le> m_dirty_end ?cb" "m_dirty_end ?cb \<le> m_offset ?cb"
    unfolding cb_inv_def dirty_inv_def Let_def by blast+
  have small: "unat off + unat k < 2 ^ 32" using n(1) lw(1) unat_u32_less [of new] by simp
  let ?cb1 = "?cb\<lparr> m_offset := new \<rparr>"
  note md = MarkDirty_interval [of ?cb1 off k, simplified, OF d(1) small [simplified] lw(2)]
  have "m_offset ?cb \<le> new" using mo by (simp add: word_le_nat_alt)
  moreover have "off + k \<le> new"
  proof -
    have "unat (off + k) = unat off + unat k" using small by (intro unat_add_lem [THEN iffD1]) simp
    then show ?thesis using n(1) lw(1) by (simp add: word_le_nat_alt)
  qed
  ultimately have top: "m_dirty_end (MarkDirty off k ?cb1) \<le> new" using md(5) [of new] d(2) by simp
  have "buf_bytes j' ! i = vm_mem vm' (m_base ?cb + of_nat i)"
    if i: "i < unat new" "i < unat (m_dirty_begin (MarkDirty off k ?cb1)) \<or> unat (m_dirty_end (MarkDirty off k ?cb1)) \<le> i" for i
  proof -
    have out: "i < unat off \<or> unat off + unat k \<le> i" using i(2) md(1,2) by auto
    then have io: "i < unat (m_offset ?cb)" using i(1) new(1) uo by (auto simp: max_def split: if_splits)
    have "i < unat (m_dirty_begin ?cb) \<or> unat (m_dirty_end ?cb) \<le> i"
      using i(2) md(3,4) d(1) by (cases "m_dirty_begin ?cb < m_dirty_end ?cb") (auto simp: word_le_nat_alt not_less)
    from dirty_inv_clean [OF inv io this] have "buf_bytes j ! i = vm_mem (jit_vm j) (m_base ?cb + of_nat i)" .
    moreover have "vm_mem vm' (m_base ?cb + of_nat i) = vm_mem (jit_vm j) (m_base ?cb + of_nat i)"
    proof (rule wptr_store_mem [OF st])
      show "write_open tid (m_base ?cb) (m_capacity ?cb) (m_write_base ?cb) (m_write_capacity ?cb) (jit_vm j)"
        using inv opened by (simp add: cb_inv_def domain_inv_def Let_def)
      show "length ws \<le> unat (m_base ?cb + of_nat i - (m_base ?cb + off))"
        unfolding lw(1) using out small i(1) unat_u32_less [of new] by (intro offset_distance) simp_all
    qed
    moreover have "buf_bytes j' ! i = buf_bytes j ! i"
      unfolding eq using out uo io ob(2) lw(1) by (auto simp: nth_append)
    ultimately show ?thesis by simp
  qed
  then have "dirty_inv j'" using md(6) top by (simp add: dirty_inv_def j'_def Let_def)
  moreover have "range_inv j'"
    using inv nz new os(2) same_arena_inv(3) [OF os(2)]
    by (auto simp: cb_inv_def range_inv_def domain_inv_def j'_def Let_def opened)
  moreover have "domain_inv tid j'"
    using inv os(4) opened new(2) by (simp add: cb_inv_def domain_inv_def j'_def Let_def)
  ultimately show "cb_inv tid j'"
    using inv os(1) by (simp add: cb_inv_def envs_ok_def j'_def)
qed

text \<open>A store that did not go out of bounds is inside the write capacity.\<close>

lemma stored_within:
  assumes inv: "cb_inv tid j" and opened: "m_write_domain_open (jit_cb j)"
    and st: "wptr_store (m_write_base (jit_cb j)) off ws (jit_vm j) = Returns vm'"
    and off: "unat off + length ws = unat new" "new \<le> m_capacity (jit_cb j)"
  shows "new \<le> m_write_capacity (jit_cb j)"
proof -
  let ?cb = "jit_cb j"
  from inv opened have wo: "write_open tid (m_base ?cb) (m_capacity ?cb) (m_write_base ?cb) (m_write_capacity ?cb) (jit_vm j)"
    by (simp add: cb_inv_def domain_inv_def Let_def)
  show ?thesis
  proof (cases "s_write_backend (jit_vm j) = KuBridgeRxStaging")
    case False
    with wo off show ?thesis by (simp add: write_open_def)
  next
    case True
    with wo have w: "m_write_base ?cb = WStaging" "m_write_capacity ?cb = min (s_write_staging_capacity (jit_vm j)) (m_capacity ?cb)"
      by (simp_all add: write_open_def)
    from st w obtain s where s: "s_write_staging (jit_vm j) = Some s" "unat off + length ws \<le> length s"
      by (auto simp: wptr_store_def split: option.splits if_splits)
    have "length s = unat (s_write_staging_capacity (jit_vm j))"
      using cb_inv_parts(3) [OF inv] s(1) by (simp add: vm_inv_def staging_inv_def)
    with s(2) off have "new \<le> s_write_staging_capacity (jit_vm j)" by (simp add: word_le_nat_alt)
    with off w(2) show ?thesis by simp
  qed
qed

subsection \<open>Appending a word\<close>

lemma HasSpace_room:
  assumes "cb_inv tid j" "HasSpace (jit_cb j) 4"
  shows "m_base (jit_cb j) \<noteq> 0" "unat (m_offset (jit_cb j) + 4) = unat (m_offset (jit_cb j)) + 4"
    "m_offset (jit_cb j) + 4 \<le> m_capacity (jit_cb j)"
proof -
  let ?cb = "jit_cb j"
  show nz: "m_base ?cb \<noteq> 0" using assms(2) by (simp add: HasSpace_def)
  with assms(1) have le: "m_offset ?cb \<le> m_capacity ?cb" by (simp add: cb_inv_def range_inv_def Let_def)
  with assms(2) have room: "4 \<le> unat (m_capacity ?cb) - unat (m_offset ?cb)"
    by (simp add: HasSpace_def word_le_nat_alt unat_sub)
  then have "unat (m_offset ?cb) + 4 < 2 ^ 32" using unat_u32_less [of "m_capacity ?cb"] by simp
  then show u: "unat (m_offset ?cb + 4) = unat (m_offset ?cb) + 4"
    using unat_add_lem [of "m_offset ?cb" 4] by simp
  then show "m_offset ?cb + 4 \<le> m_capacity ?cb" using room le by (simp add: word_le_nat_alt)
qed

lemma EmitU32_spec:
  assumes inv: "cb_inv tid j" and r: "EmitU32 w j = Returns (ok, j')"
  shows "cb_inv tid j'" "ok \<Longrightarrow> buf_bytes j' = buf_bytes j @ u32_bytes w"
    "\<not> ok \<Longrightarrow> buf_bytes j' = buf_bytes j" "ok \<Longrightarrow> m_offset (jit_cb j') = m_offset (jit_cb j) + 4"
    "m_base (jit_cb j') = m_base (jit_cb j)" "m_capacity (jit_cb j') = m_capacity (jit_cb j)"
proof -
  let ?cb = "jit_cb j"
  have "cb_inv tid j' \<and> (ok \<longrightarrow> buf_bytes j' = buf_bytes j @ u32_bytes w) \<and> (\<not> ok \<longrightarrow> buf_bytes j' = buf_bytes j) \<and>
    (ok \<longrightarrow> m_offset (jit_cb j') = m_offset ?cb + 4) \<and> m_base (jit_cb j') = m_base ?cb \<and>
    m_capacity (jit_cb j') = m_capacity ?cb"
  proof (cases "HasSpace ?cb 4")
    case False
    with r have j': "\<not> ok" "j' = upd_cb (\<lambda>cb. cb\<lparr> m_out_of_space := True \<rparr>) j" by (simp_all add: EmitU32_def)
    have "buf_bytes j' = buf_bytes j" by (simp add: j' buf_bytes_def ReadBase_def)
    with inv show ?thesis
      by (simp add: j' cb_inv_def envs_ok_def range_inv_def domain_inv_def dirty_inv_def Let_def)
  next
    case True
    note room = HasSpace_room [OF inv True]
    from r True obtain ok1 j1 where e: "EnsureWritable (m_offset ?cb + 4) j = Returns (ok1, j1)"
      and rest: "(if \<not> ok1 then jret False j1
        else let instruction_offset = m_offset (jit_cb j1) in
          jbind (store_code instruction_offset w) (\<lambda>_ j2.
            jret True (upd_cb (\<lambda>cb. MarkDirty instruction_offset 4
              (cb\<lparr> m_offset := m_offset cb + 4 \<rparr>)) j2)) j1) = Returns (ok, j')"
      unfolding EmitU32_def by (auto simp: jbind_Returns)
    note ew = EnsureWritable_spec [OF inv e]
    have same: "buf_bytes j1 = buf_bytes j" "m_base (jit_cb j1) = m_base ?cb" "m_offset (jit_cb j1) = m_offset ?cb"
      "m_capacity (jit_cb j1) = m_capacity ?cb" using ew(2) by (simp_all add: same_contents_def)
    show ?thesis
    proof (cases ok1)
      case False
      with rest ew(1) same show ?thesis by simp
    next
      case True
      from rest True obtain vm' where st: "wptr_store (m_write_base (jit_cb j1)) (m_offset ?cb) (u32_bytes w) (jit_vm j1) = Returns vm'"
        and j': "ok" "j' = upd_cb (\<lambda>cb. MarkDirty (m_offset ?cb) 4 (cb\<lparr> m_offset := m_offset ?cb + 4 \<rparr>)) (j1\<lparr> jit_vm := vm' \<rparr>)"
        by (auto simp: Let_def jbind_Returns store_code_def call_bind_Returns same upd_cb_def)
      have cap: "m_offset ?cb + 4 \<le> m_write_capacity (jit_cb j1)"
        by (rule stored_within [OF ew(1) ew(3) [OF True] st]) (simp_all add: room same)
      have al: "unat (m_offset ?cb) mod 4 = 0"
        using inv room(1) by (simp add: cb_inv_def range_inv_def Let_def)
      note sc = stored_cb_inv [OF ew(1) ew(3) [OF True] st, of 4 "m_offset ?cb + 4", folded j'(2)]
      have "cb_inv tid j'" by (rule sc(1)) (use room al cap same in \<open>simp_all add: mod_simps\<close>)
      moreover have "buf_bytes j' = take (unat (m_offset ?cb)) (buf_bytes j1) @ u32_bytes w @
          drop (unat (m_offset ?cb) + length (u32_bytes w)) (buf_bytes j1)"
        by (rule sc(2)) (use room al cap same in \<open>simp_all add: mod_simps\<close>)
      moreover have "length (buf_bytes j1) = unat (m_offset ?cb)"
        using buf_bytes_load(2) [OF ew(1)] room(1) same by simp
      ultimately show ?thesis using j' same by simp
    qed
  qed
  then show "cb_inv tid j'" "ok \<Longrightarrow> buf_bytes j' = buf_bytes j @ u32_bytes w"
    "\<not> ok \<Longrightarrow> buf_bytes j' = buf_bytes j" "ok \<Longrightarrow> m_offset (jit_cb j') = m_offset (jit_cb j) + 4"
    "m_base (jit_cb j') = m_base (jit_cb j)" "m_capacity (jit_cb j') = m_capacity (jit_cb j)" by simp_all
qed

subsection \<open>Patching\<close>

text \<open>The bytes of the buffer with the word at \<open>off\<close> replaced.\<close>

definition patched :: "u8 list \<Rightarrow> size_t \<Rightarrow> u32 \<Rightarrow> u8 list" where
  "patched bs off w = take (unat off) bs @ u32_bytes w @ drop (unat off + 4) bs"

lemma patch_store_spec:
  assumes inv: "cb_inv tid j" and fits: "unat off + 4 \<le> unat (m_offset (jit_cb j))"
    and r: "patch_store off w j = Returns (ok, j')"
  shows "cb_inv tid j'" "buf_bytes j' = (if ok then patched (buf_bytes j) off w else buf_bytes j)"
    "m_offset (jit_cb j') = m_offset (jit_cb j)"
proof -
  let ?cb = "jit_cb j"
  from r obtain ok1 j1 where e: "EnsureWritable (m_offset ?cb) j = Returns (ok1, j1)"
    and rest: "(if \<not> ok1 then jret False j1 else jbind (store_code off w)
        (\<lambda>_ j2. jret True (upd_cb (MarkDirty off 4) j2)) j1) = Returns (ok, j')"
    unfolding patch_store_def by (auto simp: jbind_Returns)
  note ew = EnsureWritable_spec [OF inv e]
  have same: "buf_bytes j1 = buf_bytes j" "m_offset (jit_cb j1) = m_offset ?cb"
    using ew(2) by (simp_all add: same_contents_def)
  have "cb_inv tid j' \<and> buf_bytes j' = (if ok then patched (buf_bytes j) off w else buf_bytes j) \<and>
    m_offset (jit_cb j') = m_offset ?cb"
  proof (cases ok1)
    case False
    with rest ew(1) same show ?thesis by simp
  next
    case True
    have upd: "upd_cb (MarkDirty off 4) (j1\<lparr> jit_vm := vm' \<rparr>) =
        upd_cb (\<lambda>cb. MarkDirty off 4 (cb\<lparr> m_offset := m_offset ?cb \<rparr>)) (j1\<lparr> jit_vm := vm' \<rparr>)" for vm'
      by (simp add: upd_cb_def same flip: same(2))
    from rest True obtain vm' where st: "wptr_store (m_write_base (jit_cb j1)) off (u32_bytes w) (jit_vm j1) = Returns vm'"
      and j': "ok" "j' = upd_cb (\<lambda>cb. MarkDirty off 4 (cb\<lparr> m_offset := m_offset ?cb \<rparr>)) (j1\<lparr> jit_vm := vm' \<rparr>)"
      by (auto simp: jbind_Returns store_code_def call_bind_Returns upd)
    have facts: "off \<le> m_offset (jit_cb j1)" "m_offset ?cb \<le> m_write_capacity (jit_cb j1)" "unat (m_offset ?cb) mod 4 = 0"
      using fits ew(1) ew(3) [OF True] same
      by (auto simp: cb_inv_def domain_inv_def range_inv_def Let_def word_le_nat_alt split: if_splits)
    note sc = stored_cb_inv [OF ew(1) ew(3) [OF True] st, of 4 "m_offset ?cb", folded j'(2)]
    have "cb_inv tid j'" by (rule sc(1)) (use facts fits same in simp_all)
    moreover have "buf_bytes j' = patched (buf_bytes j) off w"
      unfolding patched_def same(1) [symmetric]
      by (rule sc(2) [simplified]) (use facts fits same in simp_all)
    ultimately show ?thesis using j' same by simp
  qed
  then show "cb_inv tid j'" "buf_bytes j' = (if ok then patched (buf_bytes j) off w else buf_bytes j)"
    "m_offset (jit_cb j') = m_offset (jit_cb j)" by simp_all
qed

lemma patch_guard_fits:
  assumes "patch_guard cb off" "off \<noteq> 0xfffffffc"
  shows "m_base cb \<noteq> 0 \<and> unat off + 4 \<le> unat (m_offset cb) \<and> unat off mod 4 = 0"
proof -
  have al: "off AND 3 = 0" and le: "off + 4 \<le> m_offset cb" and nz: "m_base cb \<noteq> 0"
    using assms(1) by (auto simp: patch_guard_def not_less)
  have m: "unat off mod 4 = 0" using al by (simp add: word_and_3_iff)
  have "unat off \<noteq> 4294967292" using assms(2) by (auto simp: word_unat_eq_iff)
  moreover have "unat off < 4294967296" using unat_u32_less [of off] by simp
  ultimately have "unat off + 4 < 4294967296" using m by presburger
  then have "unat (off + 4) = unat off + 4" using unat_add_lem [of off 4] by simp
  with le nz m show ?thesis by (simp add: word_le_nat_alt)
qed

subsection \<open>Closing and publishing\<close>

text \<open>A closed buffer shows memory itself.\<close>

lemma closed_buf_bytes:
  assumes "\<not> m_write_domain_open (jit_cb j)" "m_base (jit_cb j) \<noteq> 0"
  shows "buf_bytes j = mem_read (vm_mem (jit_vm j)) (m_base (jit_cb j)) (unat (m_offset (jit_cb j)))"
  using assms by (simp add: buf_bytes_def ReadBase_def wptr_load_def)

lemma closed_cb_inv:
  assumes inv: "cb_inv tid j" and env: "jit_env j' = jit_env j" and vm: "vm_inv (jit_vm j')"
    and arena: "same_arena (jit_vm j) (jit_vm j')" and mutex: "s_write_mutex (jit_vm j') \<noteq> Some tid"
    and cb: "\<not> m_write_domain_open (jit_cb j')" "m_base (jit_cb j') = m_base (jit_cb j)"
      "m_capacity (jit_cb j') = m_capacity (jit_cb j)" "m_offset (jit_cb j') = m_offset (jit_cb j)"
      "m_dirty_begin (jit_cb j') \<le> m_dirty_end (jit_cb j')" "m_dirty_end (jit_cb j') \<le> m_offset (jit_cb j')"
  shows "cb_inv tid j'"
proof -
  have "range_inv j'"
    using inv cb same_arena_inv(3) [OF arena] by (simp add: cb_inv_def range_inv_def Let_def)
  moreover have "dirty_inv j'"
  proof (cases "m_base (jit_cb j') = 0")
    case True
    with inv cb show ?thesis by (simp add: cb_inv_def range_inv_def dirty_inv_def Let_def)
  next
    case False
    with cb show ?thesis by (simp add: dirty_inv_def Let_def closed_buf_bytes)
  qed
  ultimately show ?thesis
    using inv env vm mutex cb(1) by (simp add: cb_inv_def envs_ok_def domain_inv_def Let_def)
qed

lemma clean_buf_bytes:
  assumes "cb_inv tid j" "m_dirty_begin (jit_cb j) = m_dirty_end (jit_cb j)" "m_base (jit_cb j) \<noteq> 0"
  shows "buf_bytes j = mem_read (vm_mem (jit_vm j)) (m_base (jit_cb j)) (unat (m_offset (jit_cb j)))"
proof (rule nth_equalityI)
  show l: "length (buf_bytes j) = length (mem_read (vm_mem (jit_vm j)) (m_base (jit_cb j)) (unat (m_offset (jit_cb j))))"
    using buf_bytes_load(2) [OF assms(1,3)] by simp
  fix i assume "i < length (buf_bytes j)"
  then have "i < unat (m_offset (jit_cb j))" using l by simp
  moreover have "i < unat (m_dirty_begin (jit_cb j)) \<or> unat (m_dirty_end (jit_cb j)) \<le> i" using assms(2) by auto
  ultimately show "buf_bytes j ! i = mem_read (vm_mem (jit_vm j)) (m_base (jit_cb j)) (unat (m_offset (jit_cb j))) ! i"
    using dirty_inv_clean [OF assms(1)] by simp
qed

lemma FinishJitWrite_keeps:
  "same_arena vm (FinishJitWrite vm)" "s_write_mutex (FinishJitWrite vm) = None" "vm_mem (FinishJitWrite vm) = vm_mem vm"
  by (simp_all add: FinishJitWrite_def same_arena_def)

lemma CloseWriteDomain_spec:
  assumes inv: "cb_inv tid j" and r: "CloseWriteDomain j = Returns (ok, j')"
  shows "cb_inv tid j'" "\<not> m_write_domain_open (jit_cb j')" "same_arena (jit_vm j) (jit_vm j')"
    "vm_mem (jit_vm j') = vm_mem (jit_vm j)"
    "m_base (jit_cb j') = m_base (jit_cb j)" "m_capacity (jit_cb j') = m_capacity (jit_cb j)"
    "m_offset (jit_cb j') = m_offset (jit_cb j)" "m_dirty_begin (jit_cb j') = m_dirty_begin (jit_cb j)"
    "m_dirty_end (jit_cb j') = m_dirty_end (jit_cb j)" "m_owns_memory (jit_cb j') = m_owns_memory (jit_cb j)"
proof -
  let ?cb = "jit_cb j"
  have "cb_inv tid j' \<and> \<not> m_write_domain_open (jit_cb j') \<and> same_arena (jit_vm j) (jit_vm j') \<and>
    vm_mem (jit_vm j') = vm_mem (jit_vm j) \<and> m_base (jit_cb j') = m_base ?cb \<and> m_capacity (jit_cb j') = m_capacity ?cb \<and>
    m_offset (jit_cb j') = m_offset ?cb \<and> m_dirty_begin (jit_cb j') = m_dirty_begin ?cb \<and>
    m_dirty_end (jit_cb j') = m_dirty_end ?cb \<and> m_owns_memory (jit_cb j') = m_owns_memory ?cb"
  proof (cases "m_write_domain_open ?cb")
    case False
    with inv r show ?thesis by (simp add: CloseWriteDomain_def same_arena_def)
  next
    case True
    note p = cb_inv_parts [OF inv]
    from inv True have own: "s_write_owner (jit_vm j) = tid"
      by (auto simp: cb_inv_def domain_inv_def Let_def write_open_def vm_inv_def writer_inv_def)
    from r True obtain vm' where e: "EndJitWrite (jit_env j (jit_calls j)) (jit_vm j) = Returns (ok, vm')"
      and j': "j' = upd_cb (\<lambda>cb. cb\<lparr> m_write_domain_open := False, m_write_base := WNull, m_write_capacity := 0 \<rparr>)
          (j\<lparr> jit_vm := vm', jit_calls := Suc (jit_calls j) \<rparr>)"
      by (auto simp: CloseWriteDomain_def jbind_Returns vm_call_Returns upd_cb_def)
    from e own p(2,4) have vm': "vm' = FinishJitWrite (jit_vm j)"
      by (auto simp: EndJitWrite_def Let_def split: if_splits)
    from inv have d: "m_dirty_begin ?cb \<le> m_dirty_end ?cb" "m_dirty_end ?cb \<le> m_offset ?cb"
      by (simp_all add: cb_inv_def dirty_inv_def Let_def)
    have "cb_inv tid j'"
      by (rule closed_cb_inv [OF inv])
         (use FinishJitWrite_keeps [of "jit_vm j"] FinishJitWrite_vm_inv [OF p(3)] d in \<open>simp_all add: j' vm'\<close>)
    then show ?thesis using FinishJitWrite_keeps [of "jit_vm j"] by (simp add: j' vm')
  qed
  then show "cb_inv tid j'" "\<not> m_write_domain_open (jit_cb j')" "same_arena (jit_vm j) (jit_vm j')"
    "vm_mem (jit_vm j') = vm_mem (jit_vm j)"
    "m_base (jit_cb j') = m_base (jit_cb j)" "m_capacity (jit_cb j') = m_capacity (jit_cb j)"
    "m_offset (jit_cb j') = m_offset (jit_cb j)" "m_dirty_begin (jit_cb j') = m_dirty_begin (jit_cb j)"
    "m_dirty_end (jit_cb j') = m_dirty_end (jit_cb j)" "m_owns_memory (jit_cb j') = m_owns_memory (jit_cb j)"
    by blast+
qed

lemma wptr_load_nth:
  assumes "wptr_load w 0 n vm = Returns bs" "wptr_load w off k vm = Returns cs" "unat off + k \<le> n" "i < k"
  shows "cs ! i = bs ! (unat off + i)"
proof (cases w)
  case (WAt a)
  have "a + off + of_nat i = a + of_nat (unat off + i)" by simp
  with WAt assms show ?thesis by (auto simp: wptr_load_def add.assoc)
qed (use assms in \<open>auto simp: wptr_load_def split: option.splits if_splits\<close>)

lemma published_bytes:
  assumes inv: "cb_inv tid j" and opened: "m_write_domain_open (jit_cb j)"
    and e: "EndJitWriteAndSync (jit_env j (jit_calls j)) (m_base (jit_cb j) + m_dirty_begin (jit_cb j))
      (m_dirty_end (jit_cb j) - m_dirty_begin (jit_cb j)) (jit_vm j) = Returns (True, vm')"
  shows "mem_read (vm_mem vm') (m_base (jit_cb j)) (unat (m_offset (jit_cb j))) = buf_bytes j"
proof (rule nth_equalityI)
  let ?cb = "jit_cb j"
  let ?b = "unat (m_dirty_begin ?cb)" and ?e = "unat (m_dirty_end ?cb)"
  note p = cb_inv_parts [OF inv]
  from inv opened have nz: "m_base ?cb \<noteq> 0" by (auto simp: cb_inv_def range_inv_def Let_def)
  from inv opened have wo: "write_open tid (m_base ?cb) (m_capacity ?cb) (m_write_base ?cb) (m_write_capacity ?cb) (jit_vm j)"
    by (simp add: cb_inv_def domain_inv_def Let_def)
  have copies: "copies_ok (jit_env j (jit_calls j))" using p(1) by (simp add: sane_env_def)
  have d: "m_dirty_begin ?cb \<le> m_dirty_end ?cb" "m_dirty_end ?cb \<le> m_offset ?cb"
    using inv by (simp_all add: cb_inv_def dirty_inv_def Let_def)
  then have sz: "unat (m_dirty_end ?cb - m_dirty_begin ?cb) = ?e - ?b" "?b \<le> ?e" "?e \<le> unat (m_offset ?cb)"
    by (simp_all add: unat_sub word_le_nat_alt)
  note pub = EndJitWriteAndSync_publishes [OF copies p(3) wo e, unfolded sz(1)]
  note ob = buf_bytes_load [OF inv nz]
  show "length (mem_read (vm_mem vm') (m_base ?cb) (unat (m_offset ?cb))) = length (buf_bytes j)"
    using ob(2) by simp
  fix i assume "i < length (mem_read (vm_mem vm') (m_base ?cb) (unat (m_offset ?cb)))"
  then have i: "i < unat (m_offset ?cb)" by simp
  have "vm_mem vm' (m_base ?cb + of_nat i) = buf_bytes j ! i"
  proof (cases "?b \<le> i \<and> i < ?e")
    case True
    have "mem_read (vm_mem vm') (m_base ?cb + m_dirty_begin ?cb) (?e - ?b) ! (i - ?b) = buf_bytes j ! (?b + (i - ?b))"
      using ob(1) pub(1) opened True sz by (intro wptr_load_nth) (auto simp: ReadBase_def)
    moreover have "m_base ?cb + m_dirty_begin ?cb + of_nat (i - ?b) = m_base ?cb + of_nat i"
      using True by (simp add: of_nat_diff)
    moreover have "i - ?b < ?e - ?b" using True by (simp add: diff_less_mono)
    ultimately show ?thesis using True by simp
  next
    case False
    have "vm_mem vm' (m_base ?cb + of_nat i) = vm_mem (jit_vm j) (m_base ?cb + of_nat i)"
      using False sz i unat_u32_less [of "m_offset ?cb"] by (intro pub(2) offset_distance) auto
    then show ?thesis using dirty_inv_clean [OF inv i] False by auto
  qed
  then show "mem_read (vm_mem vm') (m_base ?cb) (unat (m_offset ?cb)) ! i = buf_bytes j ! i" using i by simp
qed

lemma Flush_spec:
  assumes inv: "cb_inv tid j" and r: "Flush j = Returns (ok, j')"
  shows "cb_inv tid j'"
    "ok \<Longrightarrow> buf_bytes j' = buf_bytes j \<and> \<not> m_write_domain_open (jit_cb j') \<and>
       mem_read (vm_mem (jit_vm j')) (m_base (jit_cb j)) (unat (m_offset (jit_cb j))) = buf_bytes j"
proof -
  let ?cb = "jit_cb j"
  note p = cb_inv_parts [OF inv]
  have "cb_inv tid j' \<and> (ok \<longrightarrow> buf_bytes j' = buf_bytes j \<and> \<not> m_write_domain_open (jit_cb j') \<and>
      mem_read (vm_mem (jit_vm j')) (m_base ?cb) (unat (m_offset ?cb)) = buf_bytes j)"
  proof (cases "m_base ?cb = 0 \<or> m_offset ?cb = 0 \<or> (m_dirty_begin ?cb \<noteq> m_dirty_end ?cb \<and> \<not> m_write_domain_open ?cb)")
    case True
    with r inv show ?thesis by (auto simp: Flush_def Let_def split: if_splits)
  next
    case F: False
    then have nz: "m_base ?cb \<noteq> 0" by simp
    show ?thesis
    proof (cases "m_dirty_begin ?cb = m_dirty_end ?cb")
      case True
      with F r have "CloseWriteDomain j = Returns (ok, j')" by (simp add: Flush_def Let_def)
      note c = CloseWriteDomain_spec [OF inv this]
      have "buf_bytes j' = mem_read (vm_mem (jit_vm j')) (m_base ?cb) (unat (m_offset ?cb))"
        using closed_buf_bytes [OF c(2)] c nz by simp
      then show ?thesis using c clean_buf_bytes [OF inv True nz] by simp
    next
      case False
      with F have opened: "m_write_domain_open ?cb" by simp
      let ?a = "m_base ?cb + m_dirty_begin ?cb" and ?sz = "m_dirty_end ?cb - m_dirty_begin ?cb"
      from r F False obtain published vm' where
        e: "EndJitWriteAndSync (jit_env j (jit_calls j)) ?a ?sz (jit_vm j) = Returns (published, vm')"
        and j': "ok = published" "j' = upd_cb (\<lambda>cb. if published
          then cb\<lparr> m_write_domain_open := False, m_write_base := WNull, m_write_capacity := 0, m_dirty_begin := 0, m_dirty_end := 0 \<rparr>
          else cb\<lparr> m_write_domain_open := False, m_write_base := WNull, m_write_capacity := 0 \<rparr>)
          (j\<lparr> jit_vm := vm', jit_calls := Suc (jit_calls j) \<rparr>)"
        by (auto simp: Flush_def Let_def jbind_Returns vm_call_Returns upd_cb_def split: if_splits)
      from inv opened have wo: "write_open tid (m_base ?cb) (m_capacity ?cb) (m_write_base ?cb) (m_write_capacity ?cb) (jit_vm j)"
        by (simp add: cb_inv_def domain_inv_def Let_def)
      then have own: "s_write_owner (jit_vm j) = tid" "s_write_active (jit_vm j)"
        using p(3) by (auto simp: write_open_def vm_inv_def writer_inv_def)
      have fin: "vm' = (FinishJitWrite (jit_vm j))\<lparr> vm_mem := vm_mem vm' \<rparr>"
        using e own p(2,4) unfolding EndJitWriteAndSync_def Let_def
        by (auto simp: FinishJitWrite_def split: if_splits prod.splits)
      have d: "m_dirty_begin ?cb \<le> m_dirty_end ?cb" "m_dirty_end ?cb \<le> m_offset ?cb"
        using inv by (simp_all add: cb_inv_def dirty_inv_def Let_def)
      have ar: "same_arena (jit_vm j) vm'" "s_write_mutex vm' = None"
        by (subst fin, simp add: FinishJitWrite_def same_arena_def)+
      have iv: "vm_inv vm'" using EndJitWriteAndSync_vm_inv [OF p(3) e] .
      have "cb_inv tid j'"
        by (rule closed_cb_inv [OF inv]) (use ar iv d in \<open>simp_all add: j'\<close>)
      moreover have "mem_read (vm_mem vm') (m_base ?cb) (unat (m_offset ?cb)) = buf_bytes j" if published
        using published_bytes [OF inv opened] e that by simp
      moreover have "buf_bytes j' = mem_read (vm_mem vm') (m_base ?cb) (unat (m_offset ?cb))"
        using closed_buf_bytes [of j'] nz by (simp add: j')
      moreover have "\<not> m_write_domain_open (jit_cb j')" "jit_vm j' = vm'" by (simp_all add: j'(2))
      ultimately show ?thesis by (simp add: j'(1))
    qed
  qed
  then show "cb_inv tid j'" "ok \<Longrightarrow> buf_bytes j' = buf_bytes j \<and> \<not> m_write_domain_open (jit_cb j') \<and>
       mem_read (vm_mem (jit_vm j')) (m_base (jit_cb j)) (unat (m_offset (jit_cb j))) = buf_bytes j" by simp_all
qed
end
