(* ===== verification/A32_Emit.thy ===== *)
theory A32_Emit
  imports A32_Buffer
begin

text \<open>
  The integer emitters of \<^verbatim>\<open>CodeBuffer\<close> (\<^verbatim>\<open>pcsx2/vita/A32Emitter.cpp\<close>): each checks
  its operands, drops a write that would not change the register, selects an encoding and
  appends it. The immediate forms choose between an opcode and its complement by what the
  modified-immediate encoder accepts.
\<close>

subsection \<open>Data processing with an immediate\<close>

text \<open>The word the immediate emitters build: condition, opcode, flag bit, registers and the
  encoded immediate.\<close>

definition dp_imm :: "Condition \<Rightarrow> u32 \<Rightarrow> bool \<Rightarrow> u32 \<Rightarrow> u32 \<Rightarrow> u32 \<Rightarrow> u32" where [encoder_defs]:
  "dp_imm condition opcode set_flags rn rd encoded =
     CondBits condition OR DATA_PROCESSING_IMM OR opcode OR (if set_flags then SET_FLAGS else 0) OR
     push_bit 16 (rn AND 0xf) OR push_bit 12 (rd AND 0xf) OR encoded"

definition EmitMovImm32Patchable :: "u32 \<Rightarrow> u32 \<Rightarrow> bool jitm" where [emitter_defs]:
  "EmitMovImm32Patchable rd v j =
     (if \<not> IsRegister rd then jret False j
      else jand (EmitU32 (EncodeMovw rd (ucast v) AL))
                (EmitU32 (EncodeMovt rd (ucast (drop_bit 16 v)) AL)) j)"

definition EmitMovImm32 :: "u32 \<Rightarrow> u32 \<Rightarrow> Condition \<Rightarrow> bool jitm" where [emitter_defs]:
  "EmitMovImm32 rd v condition j =
     (if \<not> IsRegister rd then jret False j
      else case EncodeModifiedImmediate v of
        Some encoded \<Rightarrow> EmitU32 (CondBits condition OR DATA_PROCESSING_IMM OR OPCODE_MOV OR
          push_bit 12 (rd AND 0xf) OR encoded) j
      | None \<Rightarrow> (case EncodeModifiedImmediate (NOT v) of
          Some encoded \<Rightarrow> EmitU32 (CondBits condition OR DATA_PROCESSING_IMM OR OPCODE_MVN OR
            push_bit 12 (rd AND 0xf) OR encoded) j
        | None \<Rightarrow>
            if drop_bit 16 v = 0 then EmitU32 (EncodeMovw rd (ucast v) condition) j
            else if condition \<noteq> AL
            then jand (EmitU32 (EncodeMovw rd (ucast v) condition))
                      (EmitU32 (EncodeMovt rd (ucast (drop_bit 16 v)) condition)) j
            else EmitMovImm32Patchable rd v j))"

definition EmitAddImm32 :: "u32 \<Rightarrow> u32 \<Rightarrow> u32 \<Rightarrow> bool \<Rightarrow> bool jitm" where [emitter_defs]:
  "EmitAddImm32 rd rn v set_flags j =
     (if \<not> IsRegister rd \<or> \<not> IsRegister rn then jret False j
      else if \<not> set_flags \<and> v = 0 \<and> CanElideSameRegisterWrite rd rn then jret True j
      else case EncodeModifiedImmediate v of
        None \<Rightarrow> (case EncodeModifiedImmediate (0 - v) of
            None \<Rightarrow> jret False j
          | Some encoded \<Rightarrow> EmitU32 (dp_imm AL OPCODE_SUB set_flags rn rd encoded) j)
      | Some encoded \<Rightarrow> EmitU32 (dp_imm AL OPCODE_ADD set_flags rn rd encoded) j)"

definition EmitSubImm32 :: "u32 \<Rightarrow> u32 \<Rightarrow> u32 \<Rightarrow> bool \<Rightarrow> bool jitm" where [emitter_defs]:
  "EmitSubImm32 rd rn v set_flags j =
     (if \<not> IsRegister rd \<or> \<not> IsRegister rn then jret False j
      else if \<not> set_flags \<and> v = 0 \<and> CanElideSameRegisterWrite rd rn then jret True j
      else case EncodeModifiedImmediate v of
        None \<Rightarrow> (case EncodeModifiedImmediate (0 - v) of
            None \<Rightarrow> jret False j
          | Some encoded \<Rightarrow> EmitU32 (dp_imm AL OPCODE_ADD set_flags rn rd encoded) j)
      | Some encoded \<Rightarrow> EmitU32 (dp_imm AL OPCODE_SUB set_flags rn rd encoded) j)"

definition EmitRsbImm32 :: "u32 \<Rightarrow> u32 \<Rightarrow> u32 \<Rightarrow> bool \<Rightarrow> bool jitm" where [emitter_defs]:
  "EmitRsbImm32 rd rn v set_flags j =
     (if \<not> IsRegister rd \<or> \<not> IsRegister rn then jret False j
      else case EncodeModifiedImmediate v of
        None \<Rightarrow> jret False j
      | Some encoded \<Rightarrow> EmitU32 (dp_imm AL OPCODE_RSB set_flags rn rd encoded) j)"

definition EmitRscImm32 :: "u32 \<Rightarrow> u32 \<Rightarrow> u32 \<Rightarrow> bool \<Rightarrow> bool jitm" where [emitter_defs]:
  "EmitRscImm32 rd rn v set_flags j =
     (if \<not> IsRegister rd \<or> \<not> IsRegister rn then jret False j
      else case EncodeModifiedImmediate v of
        None \<Rightarrow> jret False j
      | Some encoded \<Rightarrow> EmitU32 (dp_imm AL OPCODE_RSC set_flags rn rd encoded) j)"

definition EmitAndImm32 :: "u32 \<Rightarrow> u32 \<Rightarrow> u32 \<Rightarrow> bool \<Rightarrow> bool jitm" where [emitter_defs]:
  "EmitAndImm32 rd rn v set_flags j =
     (if \<not> IsRegister rd \<or> \<not> IsRegister rn then jret False j
      else if \<not> set_flags \<and> v = 0xffffffff \<and> CanElideSameRegisterWrite rd rn then jret True j
      else case EncodeModifiedImmediate v of
        Some encoded \<Rightarrow> EmitU32 (dp_imm AL OPCODE_AND set_flags rn rd encoded) j
      | None \<Rightarrow> (case (if set_flags then None else EncodeModifiedImmediate (NOT v)) of
            None \<Rightarrow> jret False j
          | Some encoded \<Rightarrow> EmitU32 (dp_imm AL OPCODE_BIC False rn rd encoded) j))"

definition EmitBicImm32 :: "u32 \<Rightarrow> u32 \<Rightarrow> u32 \<Rightarrow> bool \<Rightarrow> Condition \<Rightarrow> bool jitm" where [emitter_defs]:
  "EmitBicImm32 rd rn v set_flags condition j =
     (if \<not> IsRegister rd \<or> \<not> IsRegister rn then jret False j
      else if \<not> set_flags \<and> v = 0 \<and> CanElideSameRegisterWrite rd rn then jret True j
      else case EncodeModifiedImmediate v of
        Some encoded \<Rightarrow> EmitU32 (dp_imm condition OPCODE_BIC set_flags rn rd encoded) j
      | None \<Rightarrow> (case (if set_flags then None else EncodeModifiedImmediate (NOT v)) of
            None \<Rightarrow> jret False j
          | Some encoded \<Rightarrow> EmitU32 (dp_imm condition OPCODE_AND False rn rd encoded) j))"

definition EmitOrrImm32 :: "u32 \<Rightarrow> u32 \<Rightarrow> u32 \<Rightarrow> bool \<Rightarrow> Condition \<Rightarrow> bool jitm" where [emitter_defs]:
  "EmitOrrImm32 rd rn v set_flags condition j =
     (if \<not> IsRegister rd \<or> \<not> IsRegister rn then jret False j
      else if \<not> set_flags \<and> v = 0 \<and> CanElideSameRegisterWrite rd rn then jret True j
      else case EncodeModifiedImmediate v of
        None \<Rightarrow> jret False j
      | Some encoded \<Rightarrow> EmitU32 (dp_imm condition OPCODE_ORR set_flags rn rd encoded) j)"

definition EmitAdcImm32 :: "u32 \<Rightarrow> u32 \<Rightarrow> u32 \<Rightarrow> bool \<Rightarrow> bool jitm" where [emitter_defs]:
  "EmitAdcImm32 rd rn v set_flags j =
     (if \<not> IsRegister rd \<or> \<not> IsRegister rn then jret False j
      else case EncodeModifiedImmediate v of
        None \<Rightarrow> (case EncodeModifiedImmediate (NOT v) of
            None \<Rightarrow> jret False j
          | Some encoded \<Rightarrow> EmitU32 (dp_imm AL OPCODE_SBC set_flags rn rd encoded) j)
      | Some encoded \<Rightarrow> EmitU32 (dp_imm AL OPCODE_ADC set_flags rn rd encoded) j)"

definition EmitSbcImm32 :: "u32 \<Rightarrow> u32 \<Rightarrow> u32 \<Rightarrow> bool \<Rightarrow> bool jitm" where [emitter_defs]:
  "EmitSbcImm32 rd rn v set_flags j =
     (if \<not> IsRegister rd \<or> \<not> IsRegister rn then jret False j
      else case EncodeModifiedImmediate v of
        None \<Rightarrow> (case EncodeModifiedImmediate (NOT v) of
            None \<Rightarrow> jret False j
          | Some encoded \<Rightarrow> EmitU32 (dp_imm AL OPCODE_ADC set_flags rn rd encoded) j)
      | Some encoded \<Rightarrow> EmitU32 (dp_imm AL OPCODE_SBC set_flags rn rd encoded) j)"

definition EmitCmpImm32 :: "u32 \<Rightarrow> u32 \<Rightarrow> Condition \<Rightarrow> bool jitm" where [emitter_defs]:
  "EmitCmpImm32 rn v condition j =
     (if \<not> IsRegister rn then jret False j
      else case EncodeModifiedImmediate v of
        Some encoded \<Rightarrow> EmitU32 (CondBits condition OR DATA_PROCESSING_IMM OR OPCODE_CMP OR SET_FLAGS OR
          push_bit 16 (rn AND 0xf) OR encoded) j
      | None \<Rightarrow> (case EncodeModifiedImmediate (0 - v) of
            None \<Rightarrow> jret False j
          | Some encoded \<Rightarrow> EmitU32 (CondBits condition OR DATA_PROCESSING_IMM OR OPCODE_CMN OR SET_FLAGS OR
              push_bit 16 (rn AND 0xf) OR encoded) j))"

definition EmitTstImm32 :: "u32 \<Rightarrow> u32 \<Rightarrow> Condition \<Rightarrow> bool jitm" where [emitter_defs]:
  "EmitTstImm32 rn v condition j =
     (if \<not> IsRegister rn then jret False j
      else case EncodeModifiedImmediate v of
        None \<Rightarrow> jret False j
      | Some encoded \<Rightarrow> EmitU32 (CondBits condition OR DATA_PROCESSING_IMM OR OPCODE_TST OR SET_FLAGS OR
          push_bit 16 (rn AND 0xf) OR encoded) j)"

subsection \<open>Register and memory forms\<close>


definition EmitMovImm8 :: "u32 \<Rightarrow> u8 \<Rightarrow> Condition \<Rightarrow> bool jitm" where [emitter_defs]:
  "EmitMovImm8 rd value condition j = (if \<not> IsRegister rd then jret False j
     else EmitU32 (EncodeMovImm8 rd value condition) j)"

definition EmitMovw :: "u32 \<Rightarrow> u16 \<Rightarrow> Condition \<Rightarrow> bool jitm" where [emitter_defs]:
  "EmitMovw rd value condition j = (if \<not> IsRegister rd then jret False j
     else EmitU32 (EncodeMovw rd value condition) j)"

definition EmitMovt :: "u32 \<Rightarrow> u16 \<Rightarrow> Condition \<Rightarrow> bool jitm" where [emitter_defs]:
  "EmitMovt rd value condition j = (if \<not> IsRegister rd then jret False j
     else EmitU32 (EncodeMovt rd value condition) j)"

definition EmitAddImm8 :: "u32 \<Rightarrow> u32 \<Rightarrow> u8 \<Rightarrow> bool \<Rightarrow> Condition \<Rightarrow> bool jitm" where [emitter_defs]:
  "EmitAddImm8 rd rn value set_flags condition j = (if \<not> IsRegister rd \<or>
     \<not> IsRegister rn then jret False j
     else if \<not> set_flags \<and> condition = AL \<and> value = 0 \<and> CanElideSameRegisterWrite rd rn
     then jret True j else EmitU32 (EncodeAddImm8 rd rn value set_flags condition) j)"

definition EmitSubImm8 :: "u32 \<Rightarrow> u32 \<Rightarrow> u8 \<Rightarrow> bool \<Rightarrow> Condition \<Rightarrow> bool jitm" where [emitter_defs]:
  "EmitSubImm8 rd rn value set_flags condition j = (if \<not> IsRegister rd \<or>
     \<not> IsRegister rn then jret False j
     else if \<not> set_flags \<and> value = 0 \<and> CanElideSameRegisterWrite rd rn
     then jret True j else EmitU32 (EncodeSubImm8 rd rn value set_flags condition) j)"

definition EmitAndImm8 :: "u32 \<Rightarrow> u32 \<Rightarrow> u8 \<Rightarrow> bool \<Rightarrow> bool jitm" where [emitter_defs]:
  "EmitAndImm8 rd rn value set_flags j = (if \<not> IsRegister rd \<or> \<not> IsRegister rn
     then jret False j else EmitU32 (EncodeAndImm8 rd rn value set_flags) j)"

definition EmitEorImm8 :: "u32 \<Rightarrow> u32 \<Rightarrow> u8 \<Rightarrow> bool \<Rightarrow> bool jitm" where [emitter_defs]:
  "EmitEorImm8 rd rn value set_flags j = (if \<not> IsRegister rd \<or> \<not> IsRegister rn
     then jret False j
     else if \<not> set_flags \<and> value = 0 \<and> CanElideSameRegisterWrite rd rn
     then jret True j else EmitU32 (EncodeEorImm8 rd rn value set_flags) j)"

definition EmitOrrImm8 :: "u32 \<Rightarrow> u32 \<Rightarrow> u8 \<Rightarrow> bool \<Rightarrow> bool jitm" where [emitter_defs]:
  "EmitOrrImm8 rd rn value set_flags j = (if \<not> IsRegister rd \<or> \<not> IsRegister rn
     then jret False j
     else if \<not> set_flags \<and> value = 0 \<and> CanElideSameRegisterWrite rd rn
     then jret True j else EmitU32 (EncodeOrrImm8 rd rn value set_flags) j)"

definition EmitAdcImm8 :: "u32 \<Rightarrow> u32 \<Rightarrow> u8 \<Rightarrow> bool \<Rightarrow> bool jitm" where [emitter_defs]:
  "EmitAdcImm8 rd rn value set_flags j = (if \<not> IsRegister rd \<or> \<not> IsRegister rn
     then jret False j else EmitU32 (EncodeAdcImm8 rd rn value set_flags) j)"

definition EmitSbcImm8 :: "u32 \<Rightarrow> u32 \<Rightarrow> u8 \<Rightarrow> bool \<Rightarrow> bool jitm" where [emitter_defs]:
  "EmitSbcImm8 rd rn value set_flags j = (if \<not> IsRegister rd \<or> \<not> IsRegister rn
     then jret False j else EmitU32 (EncodeSbcImm8 rd rn value set_flags) j)"

definition EmitMovRegShiftImm :: "u32 \<Rightarrow> u32 \<Rightarrow> ShiftType \<Rightarrow> u8 \<Rightarrow> bool \<Rightarrow> Condition \<Rightarrow> bool jitm" where [emitter_defs]:
  "EmitMovRegShiftImm rd rm shift amount set_flags condition j = (if \<not> IsRegister rd \<or>
     \<not> IsRegister rm \<or> amount > 31 then jret False j
     else if \<not> set_flags \<and> shift = LSL \<and> amount = 0 \<and> CanElideSameRegisterWrite rd rm
     then jret True j
     else EmitU32 (EncodeMovRegShiftImm rd rm shift amount set_flags condition) j)"

definition EmitMovRegShiftReg :: "u32 \<Rightarrow> u32 \<Rightarrow> ShiftType \<Rightarrow> u32 \<Rightarrow> bool \<Rightarrow> bool jitm" where [emitter_defs]:
  "EmitMovRegShiftReg rd rm shift rs set_flags j = (if \<not> IsRegister rd \<or>
     \<not> IsRegister rm \<or> \<not> IsRegister rs then jret False j
     else EmitU32 (EncodeMovRegShiftReg rd rm shift rs set_flags) j)"

definition EmitAddReg :: "u32 \<Rightarrow> u32 \<Rightarrow> u32 \<Rightarrow> bool \<Rightarrow> bool jitm" where [emitter_defs]:
  "EmitAddReg rd rn rm set_flags j = (if \<not> IsRegister rd \<or> \<not> IsRegister rn \<or>
     \<not> IsRegister rm then jret False j else EmitU32 (EncodeAddReg rd rn rm set_flags) j)"

definition EmitAddRegShiftImm :: "u32 \<Rightarrow> u32 \<Rightarrow> u32 \<Rightarrow> ShiftType \<Rightarrow> u8 \<Rightarrow> bool \<Rightarrow> bool jitm" where [emitter_defs]:
  "EmitAddRegShiftImm rd rn rm shift amount set_flags j = (if \<not> IsRegister rd \<or>
     \<not> IsRegister rn \<or> \<not> IsRegister rm \<or> amount > 31 then jret False j
     else EmitU32 (EncodeAddRegShiftImm rd rn rm shift amount set_flags) j)"

definition EmitAddRegShiftReg :: "u32 \<Rightarrow> u32 \<Rightarrow> u32 \<Rightarrow> ShiftType \<Rightarrow> u32 \<Rightarrow> bool \<Rightarrow> bool jitm" where [emitter_defs]:
  "EmitAddRegShiftReg rd rn rm shift rs set_flags j = (if \<not> IsRegister rd \<or>
     \<not> IsRegister rn \<or> \<not> IsRegister rm \<or> \<not> IsRegister rs then jret False j
     else EmitU32 (EncodeAddRegShiftReg rd rn rm shift rs set_flags) j)"

definition EmitAdcReg :: "u32 \<Rightarrow> u32 \<Rightarrow> u32 \<Rightarrow> bool \<Rightarrow> bool jitm" where [emitter_defs]:
  "EmitAdcReg rd rn rm set_flags j = (if \<not> IsRegister rd \<or> \<not> IsRegister rn \<or>
     \<not> IsRegister rm then jret False j else EmitU32 (EncodeAdcReg rd rn rm set_flags) j)"

definition EmitAndReg :: "u32 \<Rightarrow> u32 \<Rightarrow> u32 \<Rightarrow> bool \<Rightarrow> bool jitm" where [emitter_defs]:
  "EmitAndReg rd rn rm set_flags j = (if \<not> IsRegister rd \<or> \<not> IsRegister rn \<or>
     \<not> IsRegister rm then jret False j
     else if \<not> set_flags \<and> rd = rn \<and> rn = rm \<and> IsGeneralRegister rd
     then jret True j else EmitU32 (EncodeAndReg rd rn rm set_flags) j)"

definition EmitAndRegShiftImm :: "u32 \<Rightarrow> u32 \<Rightarrow> u32 \<Rightarrow> ShiftType \<Rightarrow> u8 \<Rightarrow> bool \<Rightarrow> Condition \<Rightarrow> bool jitm" where [emitter_defs]:
  "EmitAndRegShiftImm rd rn rm shift amount set_flags condition j = (if \<not> IsRegister rd \<or>
     \<not> IsRegister rn \<or> \<not> IsRegister rm \<or> amount > 31 then jret False j
     else if \<not> set_flags \<and> rd = rn \<and> rn = rm \<and> shift = LSL \<and> amount = 0 \<and> IsGeneralRegister rd
     then jret True j
     else EmitU32 (EncodeAndRegShiftImm rd rn rm shift amount set_flags condition) j)"

definition EmitAndRegShiftReg :: "u32 \<Rightarrow> u32 \<Rightarrow> u32 \<Rightarrow> ShiftType \<Rightarrow> u32 \<Rightarrow> bool \<Rightarrow> bool jitm" where [emitter_defs]:
  "EmitAndRegShiftReg rd rn rm shift rs set_flags j = (if \<not> IsRegister rd \<or>
     \<not> IsRegister rn \<or> \<not> IsRegister rm \<or> \<not> IsRegister rs then jret False j
     else EmitU32 (EncodeAndRegShiftReg rd rn rm shift rs set_flags) j)"

definition EmitBicRegShiftImm :: "u32 \<Rightarrow> u32 \<Rightarrow> u32 \<Rightarrow> ShiftType \<Rightarrow> u8 \<Rightarrow> bool \<Rightarrow> Condition \<Rightarrow> bool jitm" where [emitter_defs]:
  "EmitBicRegShiftImm rd rn rm shift amount set_flags condition j = (if \<not> IsRegister rd \<or>
     \<not> IsRegister rn \<or> \<not> IsRegister rm \<or> amount > 31 then jret False j
     else EmitU32 (EncodeBicRegShiftImm rd rn rm shift amount set_flags condition) j)"

definition EmitBicRegShiftReg :: "u32 \<Rightarrow> u32 \<Rightarrow> u32 \<Rightarrow> ShiftType \<Rightarrow> u32 \<Rightarrow> bool \<Rightarrow> bool jitm" where [emitter_defs]:
  "EmitBicRegShiftReg rd rn rm shift rs set_flags j = (if \<not> IsRegister rd \<or>
     \<not> IsRegister rn \<or> \<not> IsRegister rm \<or> \<not> IsRegister rs then jret False j
     else EmitU32 (EncodeBicRegShiftReg rd rn rm shift rs set_flags) j)"

definition EmitEorReg :: "u32 \<Rightarrow> u32 \<Rightarrow> u32 \<Rightarrow> bool \<Rightarrow> bool jitm" where [emitter_defs]:
  "EmitEorReg rd rn rm set_flags j = (if \<not> IsRegister rd \<or> \<not> IsRegister rn \<or>
     \<not> IsRegister rm then jret False j else EmitU32 (EncodeEorReg rd rn rm set_flags) j)"

definition EmitEorRegShiftImm :: "u32 \<Rightarrow> u32 \<Rightarrow> u32 \<Rightarrow> ShiftType \<Rightarrow> u8 \<Rightarrow> bool \<Rightarrow> bool jitm" where [emitter_defs]:
  "EmitEorRegShiftImm rd rn rm shift amount set_flags j = (if \<not> IsRegister rd \<or>
     \<not> IsRegister rn \<or> \<not> IsRegister rm \<or> amount > 31 then jret False j
     else EmitU32 (EncodeEorRegShiftImm rd rn rm shift amount set_flags) j)"

definition EmitEorRegShiftReg :: "u32 \<Rightarrow> u32 \<Rightarrow> u32 \<Rightarrow> ShiftType \<Rightarrow> u32 \<Rightarrow> bool \<Rightarrow> bool jitm" where [emitter_defs]:
  "EmitEorRegShiftReg rd rn rm shift rs set_flags j = (if \<not> IsRegister rd \<or>
     \<not> IsRegister rn \<or> \<not> IsRegister rm \<or> \<not> IsRegister rs then jret False j
     else EmitU32 (EncodeEorRegShiftReg rd rn rm shift rs set_flags) j)"

definition EmitOrrReg :: "u32 \<Rightarrow> u32 \<Rightarrow> u32 \<Rightarrow> bool \<Rightarrow> bool jitm" where [emitter_defs]:
  "EmitOrrReg rd rn rm set_flags j = (if \<not> IsRegister rd \<or> \<not> IsRegister rn \<or>
     \<not> IsRegister rm then jret False j
     else if \<not> set_flags \<and> rd = rn \<and> rn = rm \<and> IsGeneralRegister rd
     then jret True j else EmitU32 (EncodeOrrReg rd rn rm set_flags) j)"

definition EmitOrrRegShiftImm :: "u32 \<Rightarrow> u32 \<Rightarrow> u32 \<Rightarrow> ShiftType \<Rightarrow> u8 \<Rightarrow> bool \<Rightarrow> bool jitm" where [emitter_defs]:
  "EmitOrrRegShiftImm rd rn rm shift amount set_flags j = (if \<not> IsRegister rd \<or>
     \<not> IsRegister rn \<or> \<not> IsRegister rm \<or> amount > 31 then jret False j
     else if \<not> set_flags \<and> rd = rn \<and> rn = rm \<and> shift = LSL \<and> amount = 0 \<and> IsGeneralRegister rd
     then jret True j else EmitU32 (EncodeOrrRegShiftImm rd rn rm shift amount set_flags) j)"

definition EmitOrrRegShiftReg :: "u32 \<Rightarrow> u32 \<Rightarrow> u32 \<Rightarrow> ShiftType \<Rightarrow> u32 \<Rightarrow> bool \<Rightarrow> bool jitm" where [emitter_defs]:
  "EmitOrrRegShiftReg rd rn rm shift rs set_flags j = (if \<not> IsRegister rd \<or>
     \<not> IsRegister rn \<or> \<not> IsRegister rm \<or> \<not> IsRegister rs then jret False j
     else EmitU32 (EncodeOrrRegShiftReg rd rn rm shift rs set_flags) j)"

definition EmitMvnReg :: "u32 \<Rightarrow> u32 \<Rightarrow> bool \<Rightarrow> bool jitm" where [emitter_defs]:
  "EmitMvnReg rd rm set_flags j = (if \<not> IsRegister rd \<or> \<not> IsRegister rm
     then jret False j else EmitU32 (EncodeMvnReg rd rm set_flags) j)"

definition EmitClz :: "u32 \<Rightarrow> u32 \<Rightarrow> bool jitm" where [emitter_defs]:
  "EmitClz rd rm j = (if \<not> IsLowRegister rd \<or> \<not> IsLowRegister rm then jret False j
     else EmitU32 (EncodeClz rd rm) j)"

definition EmitSsat :: "u32 \<Rightarrow> u8 \<Rightarrow> u32 \<Rightarrow> bool jitm" where [emitter_defs]:
  "EmitSsat rd bits rm j = (if \<not> IsLowRegister rd \<or> \<not> IsLowRegister rm \<or>
     bits = 0 \<or> bits > 32 then jret False j else EmitU32 (EncodeSsat rd bits rm) j)"

definition EmitBfi :: "u32 \<Rightarrow> u32 \<Rightarrow> u8 \<Rightarrow> u8 \<Rightarrow> bool jitm" where [emitter_defs]:
  "EmitBfi rd rn lsb width j = (if \<not> IsLowRegister rd \<or> \<not> IsLowRegister rn \<or>
     lsb \<ge> 32 \<or> width = 0 \<or> (ucast width :: u32) > (32 - ucast lsb) then jret False j
     else EmitU32 (EncodeBfi rd rn lsb width) j)"

definition EmitUbfx :: "u32 \<Rightarrow> u32 \<Rightarrow> u8 \<Rightarrow> u8 \<Rightarrow> bool jitm" where [emitter_defs]:
  "EmitUbfx rd rn lsb width j = (if \<not> IsLowRegister rd \<or> \<not> IsLowRegister rn \<or>
     lsb \<ge> 32 \<or> width = 0 \<or> (ucast width :: u32) > (32 - ucast lsb) then jret False j
     else EmitU32 (EncodeUbfx rd rn lsb width) j)"

definition EmitSxtb :: "u32 \<Rightarrow> u32 \<Rightarrow> bool jitm" where [emitter_defs]:
  "EmitSxtb rd rm j = (if \<not> IsLowRegister rd \<or> \<not> IsLowRegister rm
     then jret False j else EmitU32 (EncodeSxtb rd rm) j)"

definition EmitSxth :: "u32 \<Rightarrow> u32 \<Rightarrow> bool jitm" where [emitter_defs]:
  "EmitSxth rd rm j = (if \<not> IsLowRegister rd \<or> \<not> IsLowRegister rm
     then jret False j else EmitU32 (EncodeSxth rd rm) j)"

definition EmitUxth :: "u32 \<Rightarrow> u32 \<Rightarrow> bool jitm" where [emitter_defs]:
  "EmitUxth rd rm j = (if \<not> IsLowRegister rd \<or> \<not> IsLowRegister rm
     then jret False j else EmitU32 (EncodeUxth rd rm) j)"

definition EmitSubReg :: "u32 \<Rightarrow> u32 \<Rightarrow> u32 \<Rightarrow> bool \<Rightarrow> bool jitm" where [emitter_defs]:
  "EmitSubReg rd rn rm set_flags j = (if \<not> IsRegister rd \<or> \<not> IsRegister rn \<or>
     \<not> IsRegister rm then jret False j else EmitU32 (EncodeSubReg rd rn rm set_flags) j)"

definition EmitSubRegShiftImm :: "u32 \<Rightarrow> u32 \<Rightarrow> u32 \<Rightarrow> ShiftType \<Rightarrow> u8 \<Rightarrow> bool \<Rightarrow> bool jitm" where [emitter_defs]:
  "EmitSubRegShiftImm rd rn rm shift amount set_flags j = (if \<not> IsRegister rd \<or>
     \<not> IsRegister rn \<or> \<not> IsRegister rm \<or> amount > 31 then jret False j
     else EmitU32 (EncodeSubRegShiftImm rd rn rm shift amount set_flags) j)"

definition EmitSubRegShiftReg :: "u32 \<Rightarrow> u32 \<Rightarrow> u32 \<Rightarrow> ShiftType \<Rightarrow> u32 \<Rightarrow> bool \<Rightarrow> bool jitm" where [emitter_defs]:
  "EmitSubRegShiftReg rd rn rm shift rs set_flags j = (if \<not> IsRegister rd \<or>
     \<not> IsRegister rn \<or> \<not> IsRegister rm \<or> \<not> IsRegister rs then jret False j
     else EmitU32 (EncodeSubRegShiftReg rd rn rm shift rs set_flags) j)"

definition EmitSbcReg :: "u32 \<Rightarrow> u32 \<Rightarrow> u32 \<Rightarrow> bool \<Rightarrow> bool jitm" where [emitter_defs]:
  "EmitSbcReg rd rn rm set_flags j = (if \<not> IsRegister rd \<or> \<not> IsRegister rn \<or>
     \<not> IsRegister rm then jret False j else EmitU32 (EncodeSbcReg rd rn rm set_flags) j)"

definition EmitPkhbt :: "u32 \<Rightarrow> u32 \<Rightarrow> u32 \<Rightarrow> u8 \<Rightarrow> bool jitm" where [emitter_defs]:
  "EmitPkhbt rd rn rm lsl_amount j = (if \<not> IsLowRegister rd \<or>
     \<not> IsLowRegister rn \<or> \<not> IsLowRegister rm \<or> lsl_amount > 31 then jret False j
     else EmitU32 (EncodePkhbt rd rn rm lsl_amount) j)"

definition EmitUmull :: "u32 \<Rightarrow> u32 \<Rightarrow> u32 \<Rightarrow> u32 \<Rightarrow> bool \<Rightarrow> bool jitm" where [emitter_defs]:
  "EmitUmull rdlo rdhi rn rm set_flags j = (if \<not> IsLowRegister rdlo \<or>
     \<not> IsLowRegister rdhi \<or> \<not> IsLowRegister rn \<or> \<not> IsLowRegister rm \<or>
     rdlo = rdhi then jret False j else EmitU32 (EncodeUmull rdlo rdhi rn rm set_flags) j)"

definition EmitSmull :: "u32 \<Rightarrow> u32 \<Rightarrow> u32 \<Rightarrow> u32 \<Rightarrow> bool \<Rightarrow> bool jitm" where [emitter_defs]:
  "EmitSmull rdlo rdhi rn rm set_flags j = (if \<not> IsLowRegister rdlo \<or>
     \<not> IsLowRegister rdhi \<or> \<not> IsLowRegister rn \<or> \<not> IsLowRegister rm \<or>
     rdlo = rdhi then jret False j else EmitU32 (EncodeSmull rdlo rdhi rn rm set_flags) j)"

definition EmitCmpReg :: "u32 \<Rightarrow> u32 \<Rightarrow> Condition \<Rightarrow> bool jitm" where [emitter_defs]:
  "EmitCmpReg rn rm condition j = (if \<not> IsRegister rn \<or> \<not> IsRegister rm
     then jret False j else EmitU32 (EncodeCmpReg rn rm condition) j)"

definition EmitLdrImm12 :: "u32 \<Rightarrow> u32 \<Rightarrow> u16 \<Rightarrow> Condition \<Rightarrow> bool jitm" where [emitter_defs]:
  "EmitLdrImm12 rd rn offset condition j = (if \<not> IsLowRegister rd \<or>
     \<not> IsLowRegister rn \<or> offset > 0x0fff then jret False j
     else EmitU32 (EncodeLdrImm12 rd rn offset condition) j)"

definition EmitLdrImm12PostIndex :: "u32 \<Rightarrow> u32 \<Rightarrow> u16 \<Rightarrow> bool jitm" where [emitter_defs]:
  "EmitLdrImm12PostIndex rd rn offset j = (if \<not> IsLowRegister rd \<or>
     \<not> IsLowRegister rn \<or> rd = rn \<or> offset > 0x0fff then jret False j
     else EmitU32 (EncodeLdrImm12PostIndex rd rn offset) j)"

definition EmitLdrRegShift :: "u32 \<Rightarrow> u32 \<Rightarrow> u32 \<Rightarrow> ShiftType \<Rightarrow> u8 \<Rightarrow> bool jitm" where [emitter_defs]:
  "EmitLdrRegShift rd rn rm shift amount j = (if \<not> IsLowRegister rd \<or>
     \<not> IsLowRegister rn \<or> \<not> IsLowRegister rm \<or> amount > 31 then jret False j
     else EmitU32 (EncodeLdrRegShift rd rn rm shift amount) j)"

definition EmitStrImm12 :: "u32 \<Rightarrow> u32 \<Rightarrow> u16 \<Rightarrow> Condition \<Rightarrow> bool jitm" where [emitter_defs]:
  "EmitStrImm12 rd rn offset condition j = (if \<not> IsLowRegister rd \<or>
     \<not> IsLowRegister rn \<or> offset > 0x0fff then jret False j
     else EmitU32 (EncodeStrImm12 rd rn offset condition) j)"

definition EmitStrRegShift :: "u32 \<Rightarrow> u32 \<Rightarrow> u32 \<Rightarrow> ShiftType \<Rightarrow> u8 \<Rightarrow> bool jitm" where [emitter_defs]:
  "EmitStrRegShift rd rn rm shift amount j = (if \<not> IsLowRegister rd \<or>
     \<not> IsLowRegister rn \<or> \<not> IsLowRegister rm \<or> amount > 31 then jret False j
     else EmitU32 (EncodeStrRegShift rd rn rm shift amount) j)"

definition EmitLdrdImm8 :: "u32 \<Rightarrow> u32 \<Rightarrow> u32 \<Rightarrow> u8 \<Rightarrow> Condition \<Rightarrow> bool jitm" where [emitter_defs]:
  "EmitLdrdImm8 rdlo rdhi rn offset condition j = (if \<not> IsLowEvenRegisterPair rdlo rdhi \<or>
     \<not> IsLowRegister rn then jret False j
     else EmitU32 (EncodeLdrdImm8 rdlo rdhi rn offset condition) j)"

definition EmitStrdImm8 :: "u32 \<Rightarrow> u32 \<Rightarrow> u32 \<Rightarrow> u8 \<Rightarrow> Condition \<Rightarrow> bool jitm" where [emitter_defs]:
  "EmitStrdImm8 rdlo rdhi rn offset condition j = (if \<not> IsLowEvenRegisterPair rdlo rdhi \<or>
     \<not> IsLowRegister rn then jret False j
     else EmitU32 (EncodeStrdImm8 rdlo rdhi rn offset condition) j)"

definition EmitLdrbImm12 :: "u32 \<Rightarrow> u32 \<Rightarrow> u16 \<Rightarrow> bool jitm" where [emitter_defs]:
  "EmitLdrbImm12 rd rn offset j = (if \<not> IsLowRegister rd \<or>
     \<not> IsLowRegister rn \<or> offset > 0x0fff then jret False j
     else EmitU32 (EncodeLdrbImm12 rd rn offset) j)"

definition EmitLdrbImm12PostIndex :: "u32 \<Rightarrow> u32 \<Rightarrow> u16 \<Rightarrow> bool jitm" where [emitter_defs]:
  "EmitLdrbImm12PostIndex rd rn offset j = (if \<not> IsLowRegister rd \<or>
     \<not> IsLowRegister rn \<or> rd = rn \<or> offset > 0x0fff then jret False j
     else EmitU32 (EncodeLdrbImm12PostIndex rd rn offset) j)"

definition EmitLdrbRegShift :: "u32 \<Rightarrow> u32 \<Rightarrow> u32 \<Rightarrow> ShiftType \<Rightarrow> u8 \<Rightarrow> bool jitm" where [emitter_defs]:
  "EmitLdrbRegShift rd rn rm shift amount j = (if \<not> IsLowRegister rd \<or>
     \<not> IsLowRegister rn \<or> \<not> IsLowRegister rm \<or> amount > 31 then jret False j
     else EmitU32 (EncodeLdrbRegShift rd rn rm shift amount) j)"

definition EmitStrbImm12 :: "u32 \<Rightarrow> u32 \<Rightarrow> u16 \<Rightarrow> bool jitm" where [emitter_defs]:
  "EmitStrbImm12 rd rn offset j = (if \<not> IsLowRegister rd \<or>
     \<not> IsLowRegister rn \<or> offset > 0x0fff then jret False j
     else EmitU32 (EncodeStrbImm12 rd rn offset) j)"

definition EmitStrbImm12PostIndex :: "u32 \<Rightarrow> u32 \<Rightarrow> u16 \<Rightarrow> bool jitm" where [emitter_defs]:
  "EmitStrbImm12PostIndex rd rn offset j = (if \<not> IsLowRegister rd \<or>
     \<not> IsLowRegister rn \<or> rd = rn \<or> offset > 0x0fff then jret False j
     else EmitU32 (EncodeStrbImm12PostIndex rd rn offset) j)"

definition EmitStrbRegShift :: "u32 \<Rightarrow> u32 \<Rightarrow> u32 \<Rightarrow> ShiftType \<Rightarrow> u8 \<Rightarrow> bool jitm" where [emitter_defs]:
  "EmitStrbRegShift rd rn rm shift amount j = (if \<not> IsLowRegister rd \<or>
     \<not> IsLowRegister rn \<or> \<not> IsLowRegister rm \<or> amount > 31 then jret False j
     else EmitU32 (EncodeStrbRegShift rd rn rm shift amount) j)"

definition EmitLdrhImm8 :: "u32 \<Rightarrow> u32 \<Rightarrow> u8 \<Rightarrow> bool jitm" where [emitter_defs]:
  "EmitLdrhImm8 rd rn offset j = (if \<not> IsLowRegister rd \<or> \<not> IsLowRegister rn
     then jret False j else EmitU32 (EncodeLdrhImm8 rd rn offset) j)"

definition EmitLdrhReg :: "u32 \<Rightarrow> u32 \<Rightarrow> u32 \<Rightarrow> bool jitm" where [emitter_defs]:
  "EmitLdrhReg rd rn rm j = (if \<not> IsLowRegister rd \<or> \<not> IsLowRegister rn \<or>
     \<not> IsLowRegister rm then jret False j else EmitU32 (EncodeLdrhReg rd rn rm) j)"

definition EmitStrhImm8 :: "u32 \<Rightarrow> u32 \<Rightarrow> u8 \<Rightarrow> bool jitm" where [emitter_defs]:
  "EmitStrhImm8 rd rn offset j = (if \<not> IsLowRegister rd \<or> \<not> IsLowRegister rn
     then jret False j else EmitU32 (EncodeStrhImm8 rd rn offset) j)"

definition EmitStrhReg :: "u32 \<Rightarrow> u32 \<Rightarrow> u32 \<Rightarrow> bool jitm" where [emitter_defs]:
  "EmitStrhReg rd rn rm j = (if \<not> IsLowRegister rd \<or> \<not> IsLowRegister rn \<or>
     \<not> IsLowRegister rm then jret False j else EmitU32 (EncodeStrhReg rd rn rm) j)"

definition EmitLdrsbImm8 :: "u32 \<Rightarrow> u32 \<Rightarrow> u8 \<Rightarrow> bool jitm" where [emitter_defs]:
  "EmitLdrsbImm8 rd rn offset j = (if \<not> IsLowRegister rd \<or> \<not> IsLowRegister rn
     then jret False j else EmitU32 (EncodeLdrsbImm8 rd rn offset) j)"

definition EmitLdrsbImm8PostIndex :: "u32 \<Rightarrow> u32 \<Rightarrow> u8 \<Rightarrow> bool jitm" where [emitter_defs]:
  "EmitLdrsbImm8PostIndex rd rn offset j = (if \<not> IsLowRegister rd \<or>
     \<not> IsLowRegister rn \<or> rd = rn then jret False j
     else EmitU32 (EncodeLdrsbImm8PostIndex rd rn offset) j)"

definition EmitLdrsbReg :: "u32 \<Rightarrow> u32 \<Rightarrow> u32 \<Rightarrow> bool jitm" where [emitter_defs]:
  "EmitLdrsbReg rd rn rm j = (if \<not> IsLowRegister rd \<or> \<not> IsLowRegister rn \<or>
     \<not> IsLowRegister rm then jret False j else EmitU32 (EncodeLdrsbReg rd rn rm) j)"

definition EmitLdrshImm8 :: "u32 \<Rightarrow> u32 \<Rightarrow> u8 \<Rightarrow> bool jitm" where [emitter_defs]:
  "EmitLdrshImm8 rd rn offset j = (if \<not> IsLowRegister rd \<or> \<not> IsLowRegister rn
     then jret False j else EmitU32 (EncodeLdrshImm8 rd rn offset) j)"

definition EmitLdrshReg :: "u32 \<Rightarrow> u32 \<Rightarrow> u32 \<Rightarrow> bool jitm" where [emitter_defs]:
  "EmitLdrshReg rd rn rm j = (if \<not> IsLowRegister rd \<or> \<not> IsLowRegister rn \<or>
     \<not> IsLowRegister rm then jret False j else EmitU32 (EncodeLdrshReg rd rn rm) j)"

definition EmitPush :: "u16 \<Rightarrow> bool jitm" where [emitter_defs]:
  "EmitPush register_list j = (if register_list = 0 then jret False j
     else EmitU32 (EncodePush register_list) j)"

definition EmitStmIa :: "u32 \<Rightarrow> u16 \<Rightarrow> bool \<Rightarrow> bool jitm" where [emitter_defs]:
  "EmitStmIa rn register_list writeback j = (if \<not> IsGeneralRegister rn \<or>
     register_list = 0 \<or> (ucast register_list AND (push_bit (unat rn) 1 OR
     push_bit 15 1) :: u32) \<noteq> 0 then jret False j else EmitU32 (CondBits AL OR STMIA OR
     push_bit 21 (of_bool writeback) OR push_bit 16 (rn AND 0xf) OR ucast register_list) j)"

definition EmitLdmIa :: "u32 \<Rightarrow> u16 \<Rightarrow> bool \<Rightarrow> bool jitm" where [emitter_defs]:
  "EmitLdmIa rn register_list writeback j = (if \<not> IsGeneralRegister rn \<or>
     register_list = 0 \<or> (ucast register_list AND (push_bit (unat rn) 1 OR
     push_bit 15 1) :: u32) \<noteq> 0 then jret False j else EmitU32 (CondBits AL OR LDMIA OR
     push_bit 21 (of_bool writeback) OR push_bit 16 (rn AND 0xf) OR ucast register_list) j)"

definition EmitPop :: "u16 \<Rightarrow> bool jitm" where [emitter_defs]:
  "EmitPop register_list j = (if register_list = 0 then jret False j
     else EmitU32 (EncodePop register_list) j)"

definition EmitBx :: "u32 \<Rightarrow> bool jitm" where [emitter_defs]:
  "EmitBx rm j = (if \<not> IsRegister rm then jret False j else EmitU32 (EncodeBx rm) j)"

definition EmitBlx :: "u32 \<Rightarrow> bool jitm" where [emitter_defs]:
  "EmitBlx rm j = (if \<not> IsRegister rm then jret False j else EmitU32 (EncodeBlx rm) j)"

subsection \<open>Composite emitters\<close>

definition EmitEorImm32 :: "u32 \<Rightarrow> u32 \<Rightarrow> u32 \<Rightarrow> bool \<Rightarrow> bool jitm" where [emitter_defs]:
  "EmitEorImm32 rd rn v set_flags j =
     (if \<not> IsRegister rd \<or> \<not> IsRegister rn then jret False j
      else if \<not> set_flags \<and> v = 0 \<and> CanElideSameRegisterWrite rd rn then jret True j
      else if \<not> set_flags \<and> v = 0xffffffff then EmitMvnReg rd rn False j
      else case EncodeModifiedImmediate v of
        None \<Rightarrow> jret False j
      | Some encoded \<Rightarrow> EmitU32 (dp_imm AL OPCODE_EOR set_flags rn rd encoded) j)"

definition EmitCallAbsolute :: "uptr \<Rightarrow> u32 \<Rightarrow> bool jitm" where [emitter_defs]:
  "EmitCallAbsolute function scratch_reg j =
     (if function = 0 \<or> \<not> IsRegister scratch_reg \<or> scratch_reg = 13 \<or> scratch_reg = 14 \<or> scratch_reg = 15
      then jret False j
      else jand (EmitMovImm32 scratch_reg function AL) (EmitBlx scratch_reg) j)"


end
