(* ===== verification/A32_Sink.thy ===== *)
theory A32_Sink
  imports A32_Buffer_Inv A32_Emit
begin

text \<open>
  The buffer as a sink of instruction words. The locale \<open>word_sink\<close> is the interface the
  emitters rely on: a successful emission appends its word, a failed one appends nothing. It is
  interpreted on \<^verbatim>\<open>EmitU32\<close>. The second half says exactly when an append is
  defined: always in an open write domain, and when a domain is opened for it as long as the
  staging array of the memory manager has room, which opening it does not check.
\<close>

subsection \<open>Words of a byte list\<close>

fun words_of :: "u8 list \<Rightarrow> u32 list" where
  "words_of (a # b # c # d # r) = bytes_u32 [a, b, c, d] # words_of r"
| "words_of _ = []"

lemma words_of_append: "length xs mod 4 = 0 \<Longrightarrow> words_of (xs @ ys) = words_of xs @ words_of ys"
proof (induction xs rule: words_of.induct)
  case (1 a b c d r)
  then show ?case by simp
qed simp_all

lemma words_of_u32_bytes [simp]: "words_of (u32_bytes w) = [w]"
proof -
  have "words_of (u32_bytes w) = [bytes_u32 (u32_bytes w)]" by (simp add: u32_bytes_def)
  then show ?thesis by simp
qed

definition buf_words :: "jit \<Rightarrow> u32 list" where
  "buf_words j = words_of (buf_bytes j)"

lemma buf_bytes_aligned: "cb_inv tid j \<Longrightarrow> length (buf_bytes j) mod 4 = 0"
proof (cases "m_base (jit_cb j) = 0")
  case True
  assume "cb_inv tid j"
  with True show ?thesis by (simp add: buf_bytes_unbased)
next
  case False
  assume "cb_inv tid j"
  with False buf_bytes_load(2) [of tid j] show ?thesis by (simp add: cb_inv_def range_inv_def Let_def)
qed

subsection \<open>Emitting a list of words\<close>

fun emit_all :: "('w \<Rightarrow> 's \<Rightarrow> (bool \<times> 's) call) \<Rightarrow> 'w list \<Rightarrow> 's \<Rightarrow> (bool \<times> 's) call" where
  "emit_all emit [] s = Returns (True, s)"
| "emit_all emit (w # ws) s = call_bind (emit w s) (\<lambda>(ok, s'). if ok then emit_all emit ws s' else Returns (False, s'))"

text \<open>The interface of a sink of words: the client of an encoder only relies on these laws.\<close>

locale word_sink =
  fixes inv :: "'s \<Rightarrow> bool" and out :: "'s \<Rightarrow> 'w list" and emit :: "'w \<Rightarrow> 's \<Rightarrow> (bool \<times> 's) call"
  assumes emit_inv: "inv s \<Longrightarrow> emit w s = Returns (ok, s') \<Longrightarrow> inv s'"
    and emit_out: "inv s \<Longrightarrow> emit w s = Returns (ok, s') \<Longrightarrow> out s' = (if ok then out s @ [w] else out s)"
begin

lemma emit_all_spec:
  "inv s \<Longrightarrow> emit_all emit ws s = Returns (ok, s') \<Longrightarrow>
   inv s' \<and> (if ok then out s' = out s @ ws else \<exists>k < length ws. out s' = out s @ take k ws)"
proof (induction ws arbitrary: s)
  case Nil
  then show ?case by simp
next
  case (Cons w ws)
  from Cons.prems(2) obtain ok1 s1 where e: "emit w s = Returns (ok1, s1)"
    and rest: "(if ok1 then emit_all emit ws s1 else Returns (False, s1)) = Returns (ok, s')"
    by (auto simp: call_bind_Returns)
  note i1 = emit_inv [OF Cons.prems(1) e] and o1 = emit_out [OF Cons.prems(1) e]
  show ?case
  proof (cases ok1)
    case False
    with rest i1 o1 show ?thesis by auto
  next
    case True
    with rest have "emit_all emit ws s1 = Returns (ok, s')" by simp
    from Cons.IH [OF i1 this] o1 True show ?thesis
      by (auto split: if_splits intro: exI [of _ "Suc _"])
  qed
qed

lemma emit_all_ok: "inv s \<Longrightarrow> emit_all emit ws s = Returns (True, s') \<Longrightarrow> inv s' \<and> out s' = out s @ ws"
  using emit_all_spec by force

end

interpretation cb: word_sink "cb_inv tid" buf_words EmitU32
proof
  fix s w ok s' assume *: "cb_inv tid s" "EmitU32 w s = Returns (ok, s')"
  note e = EmitU32_spec [OF *]
  show "cb_inv tid s'" by (rule e(1))
  show "buf_words s' = (if ok then buf_words s @ [w] else buf_words s)"
    using e(2,3) buf_bytes_aligned [OF *(1)] by (simp add: buf_words_def words_of_append)
qed

lemma emit_all_1: "emit_all EmitU32 [w] j = EmitU32 w j"
  by (cases "EmitU32 w j") (auto split: prod.splits)

lemma jand_emit: "jand (EmitU32 a) (EmitU32 b) j = emit_all EmitU32 [a, b] j"
  unfolding emit_all.simps jand_def jbind_def
  by (rule arg_cong [where f = "call_bind (EmitU32 a j)"])
     (auto simp: fun_eq_iff emit_all_1 [unfolded emit_all.simps] split: prod.splits)

subsection \<open>Where an append is defined\<close>

definition staged_target :: "jit \<Rightarrow> bool" where
  "staged_target j \<longleftrightarrow> FindAllocationBackendLocked (jit_vm j) (m_base (jit_cb j)) (m_capacity (jit_cb j)) =
     Some KuBridgeRxStaging"

lemma GrowStagingLocked_noop:
  "preserve \<le> s_write_staging_capacity vm \<Longrightarrow> minimum \<le> s_write_staging_capacity vm \<Longrightarrow> minimum \<le> maximum \<Longrightarrow>
   GrowStagingLocked env preserve minimum maximum vm = Returns (True, vm)"
  by (auto simp: GrowStagingLocked_def not_less)

lemma emit_overflows:
  assumes inv: "cb_inv tid j" and closed: "\<not> m_write_domain_open (jit_cb j)" "s_write_mutex (jit_vm j) = None"
    and staged: "staged_target j"
    and full: "m_offset (jit_cb j) = s_write_staging_capacity (jit_vm j)" "0x1000 \<le> m_offset (jit_cb j)"
    and space: "HasSpace (jit_cb j) 4"
  shows "EmitU32 w j = Aborts"
proof -
  let ?cb = "jit_cb j" and ?vm = "jit_vm j" and ?env = "jit_env j (jit_calls j)"
  note p = cb_inv_parts [OF inv] and room = HasSpace_room [OF inv space]
  have le: "m_offset ?cb \<le> m_capacity ?cb" using inv room(1) by (simp add: cb_inv_def range_inv_def Let_def)
  have idle: "\<not> s_write_active ?vm" "s_write_owner ?vm \<noteq> tid"
    using p(3,4) closed(2) by (auto simp: vm_inv_def writer_inv_def)
  obtain st where st: "s_write_staging ?vm = Some st" "length st = unat (m_offset ?cb)"
    using p(3) full by (auto simp: vm_inv_def staging_inv_def split: option.splits)
  have ic: "min (m_capacity ?cb) (max (m_offset ?cb) KUBRIDGE_INITIAL_STAGING_SIZE) = m_offset ?cb"
    using full(2) le by (simp add: vm_consts max_def min_def)
  have g: "GrowStagingLocked ?env 0 (m_offset ?cb) (m_capacity ?cb) ?vm = Returns (True, ?vm)"
    using le full(1) by (intro GrowStagingLocked_noop) simp_all
  have sm: "min (s_write_staging_capacity ?vm) (m_capacity ?cb) = m_offset ?cb" using le by (simp add: full(1) [symmetric])
  define st2 where "st2 = mem_read (vm_mem ?vm) (m_base ?cb) (unat (m_offset ?cb)) @ drop (unat (m_offset ?cb)) st"
  have b: "\<exists>vm'. BeginJitWrite ?env (m_base ?cb) (m_offset ?cb) (m_capacity ?cb) ?vm =
      Returns (Some (WStaging, m_offset ?cb), vm') \<and> s_write_staging vm' = Some st2"
    using staged closed(2) idle le room(1) p(2) st(1) sm
    unfolding BeginJitWrite_def BeginJitWriteForAddress_def Let_def ic g
    by (simp add: staged_target_def st2_def not_less)
  then obtain vm' where b: "BeginJitWrite ?env (m_base ?cb) (m_offset ?cb) (m_capacity ?cb) ?vm =
      Returns (Some (WStaging, m_offset ?cb), vm')" "s_write_staging vm' = Some st2" by blast
  have len: "length st2 = unat (m_offset ?cb)" using st(2) by (simp add: st2_def)
  have "\<exists>j1. EnsureWritable (m_offset ?cb + 4) j = Returns (True, j1) \<and> jit_vm j1 = vm' \<and>
      m_write_base (jit_cb j1) = WStaging \<and> m_offset (jit_cb j1) = m_offset ?cb"
    using closed(1) room b(1) by (simp add: EnsureWritable_def Let_def not_less jbind_def vm_call_def)
  then obtain j1 where e: "EnsureWritable (m_offset ?cb + 4) j = Returns (True, j1)" "jit_vm j1 = vm'"
      "m_write_base (jit_cb j1) = WStaging" "m_offset (jit_cb j1) = m_offset ?cb" by blast
  have "wptr_store WStaging (m_offset ?cb) (u32_bytes w) vm' = Aborts"
    using b(2) len by (simp add: wptr_store_def)
  then have "store_code (m_offset (jit_cb j1)) w j1 = Aborts" using e by (simp add: store_code_def)
  then show ?thesis using space e(1) by (simp add: EmitU32_def Let_def jbind_def)
qed

lemma Begin_staging_capacity:
  assumes env: "sane_env env" and inv: "vm_inv vm"
    and be: "FindAllocationBackendLocked vm address capacity = Some KuBridgeRxStaging"
    and r: "BeginJitWriteForAddress env address existing capacity vm = Returns (Some (w, wcap), vm')"
  shows "s_write_staging_capacity vm \<le> s_write_staging_capacity vm'"
    "min capacity (max existing KUBRIDGE_INITIAL_STAGING_SIZE) \<le> s_write_staging_capacity vm'"
    "wcap = min (s_write_staging_capacity vm') capacity"
proof -
  have parts: "arrays_ok env" "staging_inv vm" using env inv by (simp_all add: sane_env_def vm_inv_def)
  have "s_write_staging_capacity vm \<le> s_write_staging_capacity vm' \<and>
    min capacity (max existing KUBRIDGE_INITIAL_STAGING_SIZE) \<le> s_write_staging_capacity vm' \<and>
    wcap = min (s_write_staging_capacity vm') capacity"
    using GrowStagingLocked_cases [OF parts, of 0 "min capacity (max existing KUBRIDGE_INITIAL_STAGING_SIZE)" capacity]
  proof cases
    case 1
    with r be show ?thesis unfolding BeginJitWriteForAddress_def Let_def by (simp split: if_splits)
  next
    case (2 vm1)
    with r be show ?thesis unfolding BeginJitWriteForAddress_def Let_def
      by (auto split: if_splits option.splits)
  qed
  then show "s_write_staging_capacity vm \<le> s_write_staging_capacity vm'"
    "min capacity (max existing KUBRIDGE_INITIAL_STAGING_SIZE) \<le> s_write_staging_capacity vm'"
    "wcap = min (s_write_staging_capacity vm') capacity" by simp_all
qed

definition append_room :: "jit \<Rightarrow> bool" where
  "append_room j \<longleftrightarrow> m_write_domain_open (jit_cb j) \<or>
     s_write_mutex (jit_vm j) = None \<and>
     (\<not> staged_target j \<or>
      unat (m_offset (jit_cb j)) + 4 \<le> max 0x1000 (unat (s_write_staging_capacity (jit_vm j))))"

lemma BeginJitWrite_returns:
  assumes env: "sane_env env" and inv: "vm_inv vm" and idle: "s_write_mutex vm = None"
  shows "\<exists>r. BeginJitWrite env address existing capacity vm = Returns r"
proof -
  have parts: "arrays_ok env" "staging_inv vm" using env inv by (simp_all add: sane_env_def vm_inv_def)
  have own: "s_write_owner vm \<noteq> sceKernelGetThreadId env" "\<not> s_write_active vm"
    using env inv idle by (auto simp: sane_env_def thread_ids_ok_def vm_inv_def writer_inv_def)
  from GrowStagingLocked_cases [OF parts, of 0 "min capacity (max existing KUBRIDGE_INITIAL_STAGING_SIZE)" capacity]
  show ?thesis unfolding BeginJitWrite_def BeginJitWriteForAddress_def Let_def
    by cases (use own idle in \<open>simp_all split: option.split\<close>)
qed

lemma ExpandJitWrite_returns:
  assumes env: "sane_env env" and inv: "vm_inv vm"
  shows "\<exists>r. ExpandJitWrite env preserve minimum w vm = Returns r"
proof -
  have parts: "arrays_ok env" "staging_inv vm" using env inv by (simp_all add: sane_env_def vm_inv_def)
  obtain a c where w: "w = (a, c)" by fastforce
  obtain ok vm' where "GrowStagingLocked env preserve minimum (s_write_target_capacity vm) vm = Returns (ok, vm')"
    using GrowStagingLocked_cases [OF parts, of preserve minimum "s_write_target_capacity vm"] by metis
  then show ?thesis by (simp add: ExpandJitWrite_def w ex_bool_eq)
qed

lemma EnsureWritable_returns:
  assumes inv: "cb_inv tid j" and free: "m_write_domain_open (jit_cb j) \<or> s_write_mutex (jit_vm j) = None"
  shows "\<exists>r. EnsureWritable req j = Returns r"
proof (cases "m_write_domain_open (jit_cb j)")
  case True
  obtain ok wb wc vm' where "ExpandJitWrite (jit_env j (jit_calls j)) (m_offset (jit_cb j)) req
      (m_write_base (jit_cb j), m_write_capacity (jit_cb j)) (jit_vm j) = Returns ((ok, wb, wc), vm')"
    using ExpandJitWrite_returns [OF cb_inv_parts(1,3) [OF inv]] by (metis prod.collapse)
  with True show ?thesis by (simp add: EnsureWritable_def Let_def jbind_def vm_call_def ex_bool_eq)
next
  case False
  with free have "s_write_mutex (jit_vm j) = None" by simp
  then obtain r vm' where "BeginJitWrite (jit_env j (jit_calls j)) (m_base (jit_cb j)) (m_offset (jit_cb j))
      (m_capacity (jit_cb j)) (jit_vm j) = Returns (r, vm')"
    using BeginJitWrite_returns [OF cb_inv_parts(1,3) [OF inv]] by (metis prod.collapse)
  with False show ?thesis
    by (auto simp: EnsureWritable_def Let_def jbind_def vm_call_def split: option.split prod.split)
qed

lemma EnsureWritable_append_room:
  assumes inv: "cb_inv tid j" and room: "append_room j" and sp: "HasSpace (jit_cb j) 4"
    and r: "EnsureWritable (m_offset (jit_cb j) + 4) j = Returns (True, j1)"
  shows "m_offset (jit_cb j) + 4 \<le> m_write_capacity (jit_cb j1)"
proof (cases "m_write_domain_open (jit_cb j)")
  case True
  with EnsureWritable_open [OF inv True r] show ?thesis by simp
next
  case closed: False
  let ?cb = "jit_cb j"
  note hs = HasSpace_room [OF inv sp] and p = cb_inv_parts [OF inv]
  have nle: "\<not> m_offset ?cb + 4 > m_capacity ?cb" using hs(3) by (simp add: not_less)
  from r closed hs(1) nle obtain wb wc vm' where
    b: "BeginJitWriteForAddress (jit_env j (jit_calls j)) (m_base ?cb) (m_offset ?cb) (m_capacity ?cb) (jit_vm j) =
        Returns (Some (wb, wc), vm')" and j1: "m_write_capacity (jit_cb j1) = wc"
    by (auto simp: EnsureWritable_def Let_def jbind_Returns vm_call_Returns BeginJitWrite_def split: option.splits)
  note bs = BeginJitWriteForAddress_Some [OF p(1,3) b]
  show ?thesis
  proof (cases "staged_target j")
    case False
    then have "s_write_backend vm' \<noteq> KuBridgeRxStaging" using bs(9) by (simp add: staged_target_def)
    then have "wc = m_capacity ?cb" using bs(2) by (simp add: write_open_def)
    then show ?thesis using hs(3) j1 by simp
  next
    case True
    note sc = Begin_staging_capacity [OF p(1,3) True [unfolded staged_target_def] b]
    from room closed True have "unat (m_offset ?cb) + 4 \<le> max 0x1000 (unat (s_write_staging_capacity (jit_vm j)))"
      by (simp add: append_room_def)
    then have "m_offset ?cb + 4 \<le> s_write_staging_capacity vm'"
    proof (cases "unat (m_offset ?cb) + 4 \<le> 0x1000")
      case True
      then have "m_offset ?cb + 4 \<le> KUBRIDGE_INITIAL_STAGING_SIZE" using hs(2) by (simp add: word_le_nat_alt vm_consts)
      then have "m_offset ?cb + 4 \<le> min (m_capacity ?cb) (max (m_offset ?cb) KUBRIDGE_INITIAL_STAGING_SIZE)"
        using hs(3) by (simp add: le_max_iff_disj)
      then show ?thesis using sc(2) by (rule order_trans)
    next
      case False
      assume "unat (m_offset ?cb) + 4 \<le> max 0x1000 (unat (s_write_staging_capacity (jit_vm j)))"
      with False have "m_offset ?cb + 4 \<le> s_write_staging_capacity (jit_vm j)"
        using hs(2) by (simp add: word_le_nat_alt max_def split: if_splits)
      then show ?thesis using sc(1) by (rule order_trans)
    qed
    then show ?thesis using hs(3) sc(3) j1 by simp
  qed
qed

lemma EmitU32_returns:
  assumes inv: "cb_inv tid j" and room: "append_room j"
  shows "\<exists>ok j'. EmitU32 w j = Returns (ok, j')"
proof (cases "HasSpace (jit_cb j) 4")
  case False
  then show ?thesis by (simp add: EmitU32_def ex_bool_eq)
next
  case True
  from room have "m_write_domain_open (jit_cb j) \<or> s_write_mutex (jit_vm j) = None" by (auto simp: append_room_def)
  then obtain ok j1 where e: "EnsureWritable (m_offset (jit_cb j) + 4) j = Returns (ok, j1)"
    using EnsureWritable_returns [OF inv] by (metis prod.collapse)
  note ew = EnsureWritable_spec [OF inv e]
  show ?thesis
  proof (cases ok)
    case False
    with True e show ?thesis by (simp add: EmitU32_def ex_bool_eq)
  next
    case ok: True
    have cap: "m_offset (jit_cb j) + 4 \<le> m_write_capacity (jit_cb j1)"
      using EnsureWritable_append_room [OF inv room True] e ok by simp
    have wo: "write_open tid (m_base (jit_cb j1)) (m_capacity (jit_cb j1)) (m_write_base (jit_cb j1))
        (m_write_capacity (jit_cb j1)) (jit_vm j1)"
      using ew(1) ew(3) [OF ok] by (simp add: cb_inv_def domain_inv_def Let_def)
    have n: "unat (m_offset (jit_cb j)) + 4 \<le> unat (m_write_capacity (jit_cb j1))"
      using cap HasSpace_room(2) [OF inv True] by (simp add: word_le_nat_alt)
    from write_open_room [OF cb_inv_parts(3) [OF ew(1)] wo n] obtain bs where
      "wptr_load (m_write_base (jit_cb j1)) 0 (unat (m_offset (jit_cb j)) + 4) (jit_vm j1) = Returns bs" by blast
    from wptr_store_load [OF this, of "m_offset (jit_cb j)" "u32_bytes w"] n unat_u32_less [of "m_write_capacity (jit_cb j1)"]
    obtain vm' where "wptr_store (m_write_base (jit_cb j1)) (m_offset (jit_cb j)) (u32_bytes w) (jit_vm j1) = Returns vm'"
      by auto
    moreover have "m_offset (jit_cb j1) = m_offset (jit_cb j)" using ew(2) by (simp add: same_contents_def)
    ultimately show ?thesis using True e ok by (simp add: EmitU32_def Let_def store_code_def jbind_def ex_bool_eq)
  qed
qed

end
