(* ===== verification/A32_Buffer_Ops.thy ===== *)
theory A32_Buffer_Ops
  imports A32_Sink
begin

text \<open>
  The life cycle of a code buffer and its patching operations: each keeps the invariant of
  \<open>A32_Buffer_Inv\<close>, and all of them together are a transition system whose reachable
  states satisfy it. Patches replace one word in place; reading returns the word at an index.
\<close>

subsection \<open>Life cycle\<close>

lemma AllocJitMemory_found:
  assumes "sane_env env" "vm_inv vm" "AllocJitMemory env sz vm = (Some (p, uid), vm')"
  shows "FindAllocationBackendLocked vm' p sz \<noteq> None" "same_writer vm vm'"
proof -
  from assms(3) obtain vm1 where e: "EnsureJitArenaLocked env vm = (True, vm1)"
    and a: "AllocateArenaSliceLocked sz vm1 = (Some (p, uid), vm')"
    by (auto simp: AllocJitMemory_def split: if_splits prod.splits)
  note v = EnsureJitArenaLocked_vm_inv [OF assms(1,2) e]
  from v(1) have ai: "arena_inv vm1" by (simp add: vm_inv_def)
  note i = AllocateArenaSliceLocked_inv [OF ai a]
  from i(2) obtain al where al: "unat sz \<le> unat (al_size al)" "al_backend al = s_arena_backend vm1"
    "set (s_allocations vm') = insert (p, al) (set (s_allocations vm1))" by blast
  have nz: "sz \<noteq> 0" using a by (auto simp: AllocateArenaSliceLocked_def)
  have f: "same_writer vm vm1" using EnsureJitArenaLocked_frame [of vm env] e by simp
  moreover have "same_writer vm1 vm'" using AllocateArenaSliceLocked_frame [of vm1 sz] a by simp
  ultimately show "same_writer vm vm'" by (simp add: same_writer_def)
  have mem: "(p, al) \<in> set (s_allocations vm')" using al by simp
  have base: "s_arena_base vm' \<noteq> 0" using i(1) mem by (auto simp: arena_inv_def arena_shape_def split: if_splits)
  have "p \<noteq> 0"
  proof
    assume "p = 0"
    have "al_range (p, al) \<subseteq> {unat (s_arena_base vm') ..< unat (s_arena_base vm') + unat (s_arena_size vm')}"
      by (rule slice_in_arena [OF i(1) mem])
    moreover have "unat p \<in> al_range (p, al)" using al(1) nz by (auto simp: al_range_def word_unat_eq_iff)
    ultimately show False using base \<open>p = 0\<close> by (auto simp: word_unat_eq_iff)
  qed
  moreover have "{unat p ..< unat p + unat sz} \<subseteq> al_range (p, al)" using al(1) by (auto simp: al_range_def)
  ultimately have "FindAllocationBackendLocked vm' p sz = Some (al_backend al)"
    unfolding FindAllocationBackendLocked_iff [OF i(1)] using nz mem by force
  then show "FindAllocationBackendLocked vm' p sz \<noteq> None" by simp
qed

lemma AllocJitMemory_writer:
  "same_writer vm (snd (AllocJitMemory env sz vm))"
proof -
  obtain ok vm1 where e: "EnsureJitArenaLocked env vm = (ok, vm1)" by fastforce
  have "same_writer vm vm1" using EnsureJitArenaLocked_frame [of vm env] e by simp
  then show ?thesis using AllocateArenaSliceLocked_frame [of vm1 sz]
    by (simp add: AllocJitMemory_def e) (auto simp: same_writer_def)
qed

lemma default_cb_inv:
  assumes "envs_ok tid j" "vm_inv (jit_vm j)" "s_write_mutex (jit_vm j) \<noteq> Some tid" "jit_cb j = CodeBuffer_default"
  shows "cb_inv tid j"
  using assms by (simp add: cb_inv_def range_inv_def domain_inv_def dirty_inv_def CodeBuffer_default_def)

lemma fresh_cb_inv:
  assumes "envs_ok tid j" "vm_inv (jit_vm j)" "s_write_mutex (jit_vm j) \<noteq> Some tid"
    "FindAllocationBackendLocked (jit_vm j) (m_base (jit_cb j)) (m_capacity (jit_cb j)) \<noteq> None"
    "m_offset (jit_cb j) = 0" "m_dirty_begin (jit_cb j) = 0" "m_dirty_end (jit_cb j) = 0"
    "\<not> m_write_domain_open (jit_cb j)"
  shows "cb_inv tid j"
  using assms range_base [OF assms(4)] by (simp add: cb_inv_def range_inv_def domain_inv_def dirty_inv_def)

lemma Release_spec:
  assumes inv: "cb_inv tid j" and r: "Release j = Returns (u, j')"
  shows "cb_inv tid j'" "jit_cb j' = CodeBuffer_default" "jit_env j' = jit_env j"
    "\<not> m_owns_memory (jit_cb j) \<Longrightarrow> s_allocations (jit_vm j') = s_allocations (jit_vm j)"
    "m_owns_memory (jit_cb j) \<Longrightarrow> m_base (jit_cb j) \<noteq> 0 \<Longrightarrow> \<exists>al. (m_base (jit_cb j), al) \<in> set (s_allocations (jit_vm j)) \<and>
       s_allocations (jit_vm j') = omap_erase (m_base (jit_cb j)) (s_allocations (jit_vm j))"
proof -
  from r obtain j1 where c: "CloseWriteDomain j = Returns (True, j1)"
    and rest: "jbind (if m_base (jit_cb j1) \<noteq> 0 \<and> m_owns_memory (jit_cb j1)
                then vm_call (\<lambda>env vm. call_bind (FreeJitMemory env (m_base (jit_cb j1)) vm) (\<lambda>vm'. Returns ((), vm')))
                else jret ())
           (\<lambda>_ j2. jret () (upd_cb (\<lambda>_. CodeBuffer_default) j2)) j1 = Returns (u, j')"
    unfolding Release_def Let_def by (auto simp: jbind_Returns split: if_splits)
  note cs = CloseWriteDomain_spec [OF inv c]
  have ej: "jit_env j1 = jit_env j" using c
    by (auto simp: CloseWriteDomain_def jbind_Returns vm_call_Returns split: if_splits)
  have mx: "s_write_mutex (jit_vm j1) \<noteq> Some tid" using cs(1,2) by (simp add: cb_inv_def domain_inv_def Let_def)
  have al1: "s_allocations (jit_vm j1) = s_allocations (jit_vm j)" using cs(3) by (simp add: same_arena_def)
  have "cb_inv tid j' \<and> jit_cb j' = CodeBuffer_default \<and> jit_env j' = jit_env j \<and>
    (\<not> m_owns_memory (jit_cb j) \<longrightarrow> s_allocations (jit_vm j') = s_allocations (jit_vm j)) \<and>
    (m_owns_memory (jit_cb j) \<longrightarrow> m_base (jit_cb j) \<noteq> 0 \<longrightarrow> (\<exists>al. (m_base (jit_cb j), al) \<in> set (s_allocations (jit_vm j)) \<and>
       s_allocations (jit_vm j') = omap_erase (m_base (jit_cb j)) (s_allocations (jit_vm j))))"
  proof (cases "m_base (jit_cb j1) \<noteq> 0 \<and> m_owns_memory (jit_cb j1)")
    case False
    with rest have j': "j' = upd_cb (\<lambda>_. CodeBuffer_default) j1" by (auto simp: jbind_Returns)
    have "cb_inv tid j'"
      by (rule default_cb_inv) (use cs(1) mx in \<open>simp_all add: j' cb_inv_def envs_ok_def\<close>)
    with False cs(5,10) ej al1 show ?thesis by (auto simp: j')
  next
    case True
    with rest obtain vm' where f: "FreeJitMemory (jit_env j1 (jit_calls j1)) (m_base (jit_cb j1)) (jit_vm j1) = Returns vm'"
      and j': "j' = upd_cb (\<lambda>_. CodeBuffer_default) (j1\<lparr> jit_vm := vm', jit_calls := Suc (jit_calls j1) \<rparr>)"
      by (auto simp: jbind_Returns vm_call_Returns call_bind_Returns)
    note v = cb_inv_parts(3) [OF cs(1)]
    obtain al where al: "(m_base (jit_cb j1), al) \<in> set (s_allocations (jit_vm j1))"
        "s_write_mutex vm' = None" "s_allocations vm' = omap_erase (m_base (jit_cb j1)) (s_allocations (jit_vm j1))"
      using v f by (rule FreeJitMemory_cases) simp
    have "cb_inv tid j'"
      by (rule default_cb_inv)
         (use cs(1) al FreeJitMemory_vm_inv [OF v f] in \<open>simp_all add: j' cb_inv_def envs_ok_def\<close>)
    with True cs(5,10) ej al al1 show ?thesis by (auto simp: j')
  qed
  then show "cb_inv tid j'" "jit_cb j' = CodeBuffer_default" "jit_env j' = jit_env j"
    "\<not> m_owns_memory (jit_cb j) \<Longrightarrow> s_allocations (jit_vm j') = s_allocations (jit_vm j)"
    "m_owns_memory (jit_cb j) \<Longrightarrow> m_base (jit_cb j) \<noteq> 0 \<Longrightarrow> \<exists>al. (m_base (jit_cb j), al) \<in> set (s_allocations (jit_vm j)) \<and>
       s_allocations (jit_vm j') = omap_erase (m_base (jit_cb j)) (s_allocations (jit_vm j))" by blast+
qed

lemma Allocate_spec:
  assumes inv: "cb_inv tid j" and r: "Allocate capacity j = Returns (ok, j')"
  shows "cb_inv tid j'" "buf_bytes j' = []" "ok \<longleftrightarrow> m_base (jit_cb j') \<noteq> 0"
    "m_capacity (jit_cb j') = (if ok then capacity else 0)"
proof -
  from r obtain u j1 where rel: "Release j = Returns (u, j1)" and
    rest: "ok \<longleftrightarrow> m_base (jit_cb j') \<noteq> 0" "\<exists>res vm'. AllocJitMemory (jit_env j1 (jit_calls j1)) capacity (jit_vm j1) = (res, vm') \<and>
      (let base = (case res of None \<Rightarrow> 0 | Some (p, _) \<Rightarrow> p) in
       j' = upd_cb (\<lambda>cb. cb
              \<lparr> m_base := base, m_write_base := WNull, m_capacity := (if base \<noteq> 0 then capacity else 0),
                m_write_capacity := 0, m_offset := 0, m_dirty_begin := 0, m_dirty_end := 0,
                m_owns_memory := (base \<noteq> 0), m_out_of_space := False,
                m_write_domain_open := False \<rparr>) (j1\<lparr> jit_vm := vm', jit_calls := Suc (jit_calls j1) \<rparr>))"
    unfolding Allocate_def by (auto simp: jbind_Returns vm_call_Returns Let_def)
  note rs = Release_spec [OF inv rel]
  note p = cb_inv_parts [OF rs(1)]
  from rest(2) obtain res vm' where a: "AllocJitMemory (jit_env j1 (jit_calls j1)) capacity (jit_vm j1) = (res, vm')"
    and j': "j' = upd_cb (\<lambda>cb. let base = (case res of None \<Rightarrow> 0 | Some (p, _) \<Rightarrow> p) in cb
              \<lparr> m_base := base, m_write_base := WNull, m_capacity := (if base \<noteq> 0 then capacity else 0),
                m_write_capacity := 0, m_offset := 0, m_dirty_begin := 0, m_dirty_end := 0,
                m_owns_memory := (base \<noteq> 0), m_out_of_space := False,
                m_write_domain_open := False \<rparr>) (j1\<lparr> jit_vm := vm', jit_calls := Suc (jit_calls j1) \<rparr>)"
    by (auto simp: Let_def)
  have vi: "vm_inv vm'" using AllocJitMemory_vm_inv [OF p(1,3), of "jit_calls j1" capacity] a by simp
  have "same_writer (jit_vm j1) vm'" using AllocJitMemory_writer [of "jit_vm j1"] a by (metis snd_conv)
  moreover have "s_write_mutex (jit_vm j1) \<noteq> Some tid"
    using rs(1,2) by (simp add: cb_inv_def domain_inv_def CodeBuffer_default_def Let_def)
  ultimately have mx: "s_write_mutex vm' \<noteq> Some tid" by (simp add: same_writer_def)
  have env: "envs_ok tid j'" using rs(1) by (simp add: cb_inv_def envs_ok_def j')
  show b: "ok \<longleftrightarrow> m_base (jit_cb j') \<noteq> 0" by (rule rest(1))
  show "m_capacity (jit_cb j') = (if ok then capacity else 0)" unfolding b by (simp add: j' Let_def)
  show "buf_bytes j' = []"
    by (simp add: buf_bytes_def j' ReadBase_def wptr_load_def Let_def)
  show "cb_inv tid j'"
  proof (cases "m_base (jit_cb j') = 0")
    case True
    then show ?thesis using env vi mx
      by (simp add: cb_inv_def range_inv_def domain_inv_def dirty_inv_def j' Let_def)
  next
    case False
    then obtain q uid where res: "res = Some (q, uid)" by (cases res) (auto simp: j' Let_def)
    have "FindAllocationBackendLocked vm' q capacity \<noteq> None"
      by (rule AllocJitMemory_found(1) [OF p(1,3) a [unfolded res]])
    with range_base [OF this] show ?thesis using env vi mx
      by (intro fresh_cb_inv) (simp_all add: j' res Let_def)
  qed
qed

lemma Attach_spec:
  assumes inv: "cb_inv tid j" and r: "Attach data capacity j = Returns (ok, j')"
    and own: "\<not> m_owns_memory (jit_cb j)"
      "FindAllocationBackendLocked (jit_vm j) data capacity \<noteq> None \<or> data = 0 \<or> capacity = 0"
  shows "cb_inv tid j'" "buf_bytes j' = []"
proof -
  from r obtain u j1 where rel: "Release j = Returns (u, j1)" and
    rest: "(if data = 0 \<or> capacity = 0 then jret False j1
       else jret True (upd_cb (\<lambda>cb. cb
              \<lparr> m_base := data, m_write_base := WNull, m_capacity := capacity, m_write_capacity := 0,
                m_offset := 0, m_dirty_begin := 0, m_dirty_end := 0, m_owns_memory := False,
                m_out_of_space := False, m_write_domain_open := False \<rparr>) j1)) = Returns (ok, j')"
    unfolding Attach_def by (auto simp: jbind_Returns)
  note rs = Release_spec [OF inv rel]
  have "s_write_mutex (jit_vm j1) \<noteq> Some tid"
    using rs(1,2) by (simp add: cb_inv_def domain_inv_def CodeBuffer_default_def Let_def)
  moreover have "FindAllocationBackendLocked (jit_vm j1) data capacity = FindAllocationBackendLocked (jit_vm j) data capacity"
    using rs(4) [OF own(1)] by (rule FindAllocationBackendLocked_cong)
  moreover have "envs_ok tid j1" "vm_inv (jit_vm j1)" using rs(1) by (simp_all add: cb_inv_def)
  ultimately show "cb_inv tid j'" using rest rs(1) own(2)
    by (cases "data = 0 \<or> capacity = 0") (auto simp: envs_ok_def intro!: fresh_cb_inv)
  show "buf_bytes j' = []"
    using rest rs(2) by (auto simp: buf_bytes_def ReadBase_def wptr_load_def CodeBuffer_default_def split: if_splits)
qed

lemma Reset_spec:
  assumes inv: "cb_inv tid j" and r: "Reset j = Returns (u, j')"
  shows "cb_inv tid j'" "buf_bytes j' = []" "m_base (jit_cb j') = m_base (jit_cb j)"
    "m_capacity (jit_cb j') = m_capacity (jit_cb j)"
proof -
  from r obtain j1 where c: "CloseWriteDomain j = Returns (True, j1)" and
    j': "j' = upd_cb (\<lambda>cb. cb\<lparr> m_offset := 0, m_dirty_begin := 0, m_dirty_end := 0, m_out_of_space := False \<rparr>) j1"
    unfolding Reset_def by (auto simp: jbind_Returns split: if_splits)
  note cs = CloseWriteDomain_spec [OF inv c]
  show "buf_bytes j' = []" "m_base (jit_cb j') = m_base (jit_cb j)" "m_capacity (jit_cb j') = m_capacity (jit_cb j)"
    using cs by (simp_all add: j' buf_bytes_def ReadBase_def wptr_load_def)
  show "cb_inv tid j'" using cs(1,2)
    by (auto simp: j' cb_inv_def envs_ok_def range_inv_def domain_inv_def dirty_inv_def Let_def split: if_splits)
qed

subsection \<open>The patching operations\<close>

text \<open>Every patching operation either refuses and changes nothing, or is one guarded store
  of a word it computes.\<close>

definition patches :: "size_t \<Rightarrow> u32 \<Rightarrow> jit \<Rightarrow> bool \<Rightarrow> jit \<Rightarrow> bool" where
  "patches off w j ok j' \<longleftrightarrow> (\<not> ok \<and> j' = j) \<or>
     (patch_guard (jit_cb j) off \<and> patch_store off w j = Returns (ok, j'))"

lemma load_code_state: "load_code off j = Returns (w, j') \<Longrightarrow> j' = j"
  by (auto simp: load_code_def call_bind_Returns)

lemma Patch_cases:
  "PatchInstruction off w j = Returns (ok, j') \<Longrightarrow> patches off w j ok j'"
  "PatchNop off j = Returns (ok, j') \<Longrightarrow> patches off (CondBits AL OR NOP) j ok j'"
  "PatchBranch off target cond j = Returns (ok, j') \<Longrightarrow>
     patches off (the (EncodeBranch (m_base (jit_cb j) + off) (m_base (jit_cb j) + target) cond)) j ok j'"
  "PatchBranchLink off target cond j = Returns (ok, j') \<Longrightarrow>
     patches off (the (EncodeBranch (m_base (jit_cb j) + off) (m_base (jit_cb j) + target) cond) OR push_bit 24 1) j ok j'"
  "PatchBranchToAddress off address cond j = Returns (ok, j') \<Longrightarrow>
     patches off (the (EncodeBranch (m_base (jit_cb j) + off) address cond)) j ok j'"
  unfolding patches_def PatchInstruction_def PatchNop_def PatchBranch_def PatchBranchLink_def PatchBranchToAddress_def Let_def
  by (auto split: if_splits option.splits)

lemma PatchLdrLiteral_cases:
  assumes "PatchLdrLiteral off lit cond j = Returns (ok, j')"
  shows "\<exists>w. patches off w j ok j'"
  using assms unfolding patches_def PatchLdrLiteral_def Let_def
  by (auto simp: jbind_Returns dest!: load_code_state split: if_splits)

lemma patches_spec:
  assumes inv: "cb_inv tid j" and r: "patches off w j ok j'" and off: "off \<noteq> 0xfffffffc"
  shows "cb_inv tid j'" "buf_bytes j' = (if ok then patched (buf_bytes j) off w else buf_bytes j)"
    "m_offset (jit_cb j') = m_offset (jit_cb j)"
proof -
  have "cb_inv tid j' \<and> buf_bytes j' = (if ok then patched (buf_bytes j) off w else buf_bytes j) \<and>
    m_offset (jit_cb j') = m_offset (jit_cb j)"
  proof (cases "\<not> ok \<and> j' = j")
    case True
    with inv show ?thesis by simp
  next
    case False
    with r have g: "patch_guard (jit_cb j) off" and st: "patch_store off w j = Returns (ok, j')"
      by (auto simp: patches_def)
    from patch_guard_fits [OF g off] patch_store_spec [OF inv _ st] show ?thesis by blast
  qed
  then show "cb_inv tid j'" "buf_bytes j' = (if ok then patched (buf_bytes j) off w else buf_bytes j)"
    "m_offset (jit_cb j') = m_offset (jit_cb j)" by blast+
qed

lemma aligned_index:
  fixes a n :: nat
  shows "a mod 4 = 0 \<Longrightarrow> a + 4 \<le> n \<Longrightarrow> a div 4 < n div 4"
    and "a mod 4 = 0 \<Longrightarrow> n mod 4 = 0 \<Longrightarrow> a div 4 < n div 4 \<Longrightarrow> a + 4 \<le> n"
  by presburger+

text \<open>A word patched at an aligned offset is the word of the list at that index.\<close>

lemma words_of_patched:
  "k < length (words_of bs) \<Longrightarrow> words_of (take (4 * k) bs @ u32_bytes w @ drop (4 * k + 4) bs) = (words_of bs)[k := w]"
proof (induction bs arbitrary: k rule: words_of.induct)
  case (1 a b c d r)
  show ?case
  proof (cases k)
    case 0
    have "words_of (u32_bytes w @ r) = words_of (u32_bytes w) @ words_of r" by (rule words_of_append) simp
    then show ?thesis using 0 by simp
  next
    case (Suc m)
    have "take (4 * k) (a # b # c # d # r) = a # b # c # d # take (4 * m) r"
      "drop (4 * k + 4) (a # b # c # d # r) = drop (4 * m + 4) r"
      using Suc by (simp_all add: numeral_eq_Suc)
    then show ?thesis using 1 Suc by simp
  qed
qed simp_all

lemma length_words_of: "length (words_of bs) = length bs div 4"
  by (induction bs rule: words_of.induct) simp_all

lemma patched_words:
  assumes "unat off mod 4 = 0" "unat off + 4 \<le> length bs"
  shows "words_of (patched bs off w) = (words_of bs)[unat off div 4 := w]"
proof -
  have "4 * (unat off div 4) = unat off" using assms(1) by (metis mult_div_mod_eq add.right_neutral)
  moreover have "unat off div 4 < length (words_of bs)" using assms aligned_index(1) by (simp add: length_words_of)
  ultimately show ?thesis using words_of_patched [of "unat off div 4" bs w] by (simp add: patched_def)
qed

lemma patches_words:
  assumes inv: "cb_inv tid j" and r: "patches off w j True j'" and off: "off \<noteq> 0xfffffffc"
  shows "buf_words j' = (buf_words j)[unat off div 4 := w]" "unat off div 4 < length (buf_words j)"
proof -
  from r have g: "patch_guard (jit_cb j) off" by (auto simp: patches_def)
  note f = patch_guard_fits [OF g off]
  have len: "length (buf_bytes j) = unat (m_offset (jit_cb j))" using buf_bytes_load(2) [OF inv] f by blast
  then show "buf_words j' = (buf_words j)[unat off div 4 := w]"
    using f patches_spec(2) [OF inv r off] by (simp add: buf_words_def patched_words)
  show "unat off div 4 < length (buf_words j)" using f len aligned_index(1) by (simp add: buf_words_def length_words_of)
qed

text \<open>Reading an instruction back.\<close>

lemma words_of_nth:
  "k < length (words_of bs) \<Longrightarrow> words_of bs ! k = bytes_u32 (take 4 (drop (4 * k) bs))"
proof (induction bs arbitrary: k rule: words_of.induct)
  case (1 a b c d r)
  show ?case
  proof (cases k)
    case (Suc m)
    have k4: "4 * k = Suc (Suc (Suc (Suc (4 * m))))" using Suc by simp
    show ?thesis using 1 Suc unfolding k4 by simp
  qed simp
qed simp_all

lemma wptr_load_sub:
  assumes "wptr_load w 0 n vm = Returns bs" "unat off + k \<le> n"
  shows "wptr_load w off k vm = Returns (take k (drop (unat off) bs))"
proof (cases w)
  case (WAt a)
  then have "bs = mem_read (vm_mem vm) a n" using assms(1) by (simp add: wptr_load_def)
  then have "mem_read (vm_mem vm) (a + off) k = take k (drop (unat off) bs)"
    using assms(2) by (intro nth_equalityI) (simp_all add: add.assoc)
  with WAt show ?thesis by (simp add: wptr_load_def)
qed (use assms in \<open>auto simp: wptr_load_def take_drop add.commute min_absorb1 split: option.splits if_splits\<close>)

lemma ReadInstruction_words:
  assumes inv: "cb_inv tid j" and off: "off \<noteq> 0xfffffffc"
  shows "ReadInstruction off j = Returns (if unat off mod 4 = 0 \<and> unat off div 4 < length (buf_words j)
     then Some (buf_words j ! (unat off div 4)) else None, j)"
proof (cases "patch_guard (jit_cb j) off")
  case True
  note f = patch_guard_fits [OF True off]
  then have nz: "m_base (jit_cb j) \<noteq> 0" by simp
  note b = buf_bytes_load [OF inv nz]
  have "wptr_load (ReadBase (jit_cb j)) off 4 (jit_vm j) = Returns (take 4 (drop (unat off) (buf_bytes j)))"
    using wptr_load_sub [OF b(1)] f by blast
  moreover have k: "unat off div 4 < length (buf_words j)" using f b(2) aligned_index(1) by (simp add: buf_words_def length_words_of)
  moreover have "4 * (unat off div 4) = unat off" using f by (metis mult_div_mod_eq add.right_neutral)
  ultimately show ?thesis using True f words_of_nth [of "unat off div 4" "buf_bytes j"]
    by (simp add: ReadInstruction_def jbind_def load_code_def buf_words_def)
next
  case False
  have "\<not> (unat off mod 4 = 0 \<and> unat off div 4 < length (buf_words j))"
  proof
    assume *: "unat off mod 4 = 0 \<and> unat off div 4 < length (buf_words j)"
    then have nz: "m_base (jit_cb j) \<noteq> 0" using buf_bytes_unbased [OF inv] by (auto simp: buf_words_def)
    have "unat off + 4 \<le> unat (m_offset (jit_cb j))"
      using * buf_bytes_load(2) [OF inv nz] buf_bytes_aligned [OF inv] aligned_index(2)
      by (simp add: buf_words_def length_words_of)
    moreover from this have "unat (off + 4) = unat off + 4"
      using unat_add_lem [of off 4] unat_u32_less [of "m_offset (jit_cb j)"] by simp
    ultimately have "patch_guard (jit_cb j) off"
      using * nz by (simp add: patch_guard_def word_and_3_iff not_less word_le_nat_alt)
    with False show False by simp
  qed
  with False show ?thesis by (auto simp: ReadInstruction_def)
qed
subsection \<open>Two stores in a row\<close>

lemma mem_write_append:
  assumes "length bs + length cs < 2 ^ 32"
  shows "mem_write (mem_write m a bs) (a + of_nat (length bs)) cs = mem_write m a (bs @ cs)"
proof
  fix p
  have e: "p - (a + of_nat (length bs)) = (p - a) - of_nat (length bs)" by simp
  have l: "unat (of_nat (length bs) :: u32) = length bs" using assms by (simp add: unat_of_nat_u32)
  show "mem_write (mem_write m a bs) (a + of_nat (length bs)) cs p = mem_write m a (bs @ cs) p"
  proof (cases "unat (p - a) < length bs")
    case True
    then have "unat ((p - a) - of_nat (length bs)) = 2 ^ 32 + unat (p - a) - length bs"
      using l by (simp add: unat_sub_if')
    then have "\<not> unat ((p - a) - of_nat (length bs)) < length cs" using assms True by linarith
    with True show ?thesis unfolding mem_write_def e by (simp add: nth_append)
  next
    case False
    then have "unat ((p - a) - of_nat (length bs)) = unat (p - a) - length bs"
      using l by (simp add: unat_sub_if')
    with False show ?thesis by (simp add: mem_write_def e nth_append) (auto simp: less_diff_conv2)
  qed
qed

lemma wptr_store_append:
  assumes "wptr_store w off bs vm = Returns vm1" "wptr_store w (off + of_nat (length bs)) cs vm1 = Returns vm2"
    "unat off + length bs + length cs < 2 ^ 32"
  shows "wptr_store w off (bs @ cs) vm = Returns vm2"
proof (cases w)
  case (WAt a)
  have "mem_write (mem_write m (a + off) bs) (a + (off + of_nat (length bs))) cs = mem_write m (a + off) (bs @ cs)" for m
    using mem_write_append [of bs cs m "a + off"] assms(3) by (simp add: add.assoc)
  with WAt assms show ?thesis by (auto simp: wptr_store_def)
next
  case WStaging
  have u: "unat (off + of_nat (length bs)) = unat off + length bs"
    using assms(3) by (simp add: unat_word_ariths unat_of_nat_u32)
  from assms(1) WStaging obtain st where st: "s_write_staging vm = Some st" "unat off + length bs \<le> length st"
    and vm1: "vm1 = vm\<lparr> s_write_staging := Some (take (unat off) st @ bs @ drop (unat off + length bs) st) \<rparr>"
    by (auto simp: wptr_store_def split: option.splits if_splits)
  have "unat off + length bs + length cs \<le> length st"
    using assms(2) st(2) WStaging by (simp add: wptr_store_def vm1 u split: if_splits)
  with assms(2) st WStaging show ?thesis by (simp add: wptr_store_def vm1 u ac_simps)
qed (use assms in \<open>simp add: wptr_store_def\<close>)

lemma mov_patch_fits:
  assumes "\<not> off + 4 * 2 > m_offset cb" "off AND 3 = 0" "off \<noteq> 0xfffffffc" "off \<noteq> 0xfffffff8"
  shows "unat off + 8 \<le> unat (m_offset cb) \<and> unat off mod 4 = 0 \<and> unat off + 8 < 2 ^ 32"
proof -
  have m: "unat off mod 4 = 0" using assms(2) by (simp add: word_and_3_iff)
  have "unat off \<noteq> 4294967292" "unat off \<noteq> 4294967288" using assms(3,4) by (auto simp: word_unat_eq_iff)
  moreover have "unat off < 4294967296" using unat_u32_less [of off] by simp
  ultimately have l: "unat off + 8 < 4294967296" using m by presburger
  then have "unat (off + 8) = unat off + 8" using unat_add_lem [of off 8] by simp
  with assms(1) m l show ?thesis by (simp add: not_less word_le_nat_alt)
qed

lemma PatchMovImm32_spec:
  assumes inv: "cb_inv tid j" and r: "PatchMovImm32 off rd v j = Returns (ok, j')"
    and off: "off \<noteq> 0xfffffffc" "off \<noteq> 0xfffffff8"
  shows "cb_inv tid j'"
    "buf_bytes j' = (if ok then take (unat off) (buf_bytes j) @ u32_bytes (EncodeMovw rd (ucast v) AL) @
       u32_bytes (EncodeMovt rd (ucast (drop_bit 16 v)) AL) @ drop (unat off + 8) (buf_bytes j) else buf_bytes j)"
    "m_offset (jit_cb j') = m_offset (jit_cb j)"
proof -
  let ?cb = "jit_cb j" and ?w = "EncodeMovw rd (ucast v) AL" and ?t = "EncodeMovt rd (ucast (drop_bit 16 v)) AL"
  let ?G = "m_base ?cb = 0 \<or> \<not> IsRegister rd \<or> off + 4 * 2 > m_offset ?cb \<or> off AND 3 \<noteq> 0"
  have "cb_inv tid j' \<and> buf_bytes j' = (if ok then take (unat off) (buf_bytes j) @ u32_bytes ?w @
       u32_bytes ?t @ drop (unat off + 8) (buf_bytes j) else buf_bytes j) \<and> m_offset (jit_cb j') = m_offset ?cb"
  proof (cases ?G)
    case True
    with r inv show ?thesis unfolding PatchMovImm32_def by auto
  next
    case G: False
    then have fit: "unat off + 8 \<le> unat (m_offset ?cb) \<and> unat off mod 4 = 0 \<and> unat off + 8 < 2 ^ 32"
      using mov_patch_fits off by blast
    from r G obtain ok1 j1 where e: "EnsureWritable (m_offset ?cb) j = Returns (ok1, j1)"
      and rest: "(if \<not> ok1 then jret False j1 else jbind (store_code off ?w) (\<lambda>_. jbind (store_code (off + 4) ?t)
          (\<lambda>_ j2. jret True (upd_cb (MarkDirty off 8) j2))) j1) = Returns (ok, j')"
      unfolding PatchMovImm32_def Let_def by (auto simp: jbind_Returns)
    note ew = EnsureWritable_spec [OF inv e]
    have same: "buf_bytes j1 = buf_bytes j" "m_offset (jit_cb j1) = m_offset ?cb"
      using ew(2) by (simp_all add: same_contents_def)
    show ?thesis
    proof (cases ok1)
      case False
      with rest ew(1) same show ?thesis by simp
    next
      case True
      have upd: "upd_cb (MarkDirty off 8) (j1\<lparr> jit_vm := vm' \<rparr>) =
          upd_cb (\<lambda>cb. MarkDirty off 8 (cb\<lparr> m_offset := m_offset ?cb \<rparr>)) (j1\<lparr> jit_vm := vm' \<rparr>)" for vm'
        by (simp add: upd_cb_def same flip: same(2))
      from rest True obtain vm1 vm' where
        st: "wptr_store (m_write_base (jit_cb j1)) off (u32_bytes ?w) (jit_vm j1) = Returns vm1"
          "wptr_store (m_write_base (jit_cb j1)) (off + of_nat (length (u32_bytes ?w))) (u32_bytes ?t) vm1 = Returns vm'"
        and j': "ok" "j' = upd_cb (\<lambda>cb. MarkDirty off 8 (cb\<lparr> m_offset := m_offset ?cb \<rparr>)) (j1\<lparr> jit_vm := vm' \<rparr>)"
        by (auto simp: jbind_Returns store_code_def call_bind_Returns upd)
      note st2 = wptr_store_append [OF st]
      have s8: "wptr_store (m_write_base (jit_cb j1)) off (u32_bytes ?w @ u32_bytes ?t) (jit_vm j1) = Returns vm'"
        by (rule st2) (use fit in simp)
      have facts: "off \<le> m_offset (jit_cb j1)" "m_offset ?cb \<le> m_write_capacity (jit_cb j1)" "unat (m_offset ?cb) mod 4 = 0"
        using fit ew(1) ew(3) [OF True] same
        by (auto simp: cb_inv_def domain_inv_def range_inv_def Let_def word_le_nat_alt split: if_splits)
      note sc = stored_cb_inv [OF ew(1) ew(3) [OF True] s8, of 8 "m_offset ?cb", folded j'(2)]
      have "cb_inv tid j'" by (rule sc(1)) (use facts fit same in simp_all)
      moreover have "buf_bytes j' = take (unat off) (buf_bytes j) @ (u32_bytes ?w @ u32_bytes ?t) @
          drop (unat off + length (u32_bytes ?w @ u32_bytes ?t)) (buf_bytes j)"
        unfolding same(1) [symmetric] by (rule sc(2)) (use facts fit same in simp_all)
      ultimately show ?thesis using j' same by simp
    qed
  qed
  then show "cb_inv tid j'"
    "buf_bytes j' = (if ok then take (unat off) (buf_bytes j) @ u32_bytes ?w @
       u32_bytes ?t @ drop (unat off + 8) (buf_bytes j) else buf_bytes j)"
    "m_offset (jit_cb j') = m_offset ?cb" by blast+
qed

subsection \<open>All operations as steps\<close>

datatype cb_op = OpEmit u32 | OpPatch size_t u32 | OpPatchNop size_t
  | OpPatchBranch size_t size_t Condition | OpPatchBranchLink size_t size_t Condition
  | OpPatchBranchTo size_t uptr Condition | OpPatchLiteral size_t size_t Condition
  | OpPatchMov size_t u32 u32 | OpRead size_t | OpFlush | OpReset | OpAllocate size_t | OpAttach uptr size_t
  | OpRelease | OpNeonMap u32 u32 u32

fun cb_exec :: "cb_op \<Rightarrow> jit \<Rightarrow> jit call" where
  "cb_exec (OpEmit w) j = call_map snd (EmitU32 w j)"
| "cb_exec (OpPatch off w) j = call_map snd (PatchInstruction off w j)"
| "cb_exec (OpPatchNop off) j = call_map snd (PatchNop off j)"
| "cb_exec (OpPatchBranch off target c) j = call_map snd (PatchBranch off target c j)"
| "cb_exec (OpPatchBranchLink off target c) j = call_map snd (PatchBranchLink off target c j)"
| "cb_exec (OpPatchBranchTo off a c) j = call_map snd (PatchBranchToAddress off a c j)"
| "cb_exec (OpPatchLiteral off lit c) j = call_map snd (PatchLdrLiteral off lit c j)"
| "cb_exec (OpPatchMov off rd v) j = call_map snd (PatchMovImm32 off rd v j)"
| "cb_exec (OpRead off) j = call_map snd (ReadInstruction off j)"
| "cb_exec OpFlush j = call_map snd (Flush j)"
| "cb_exec OpReset j = call_map snd (Reset j)"
| "cb_exec (OpAllocate capacity) j = call_map snd (Allocate capacity j)"
| "cb_exec (OpAttach data capacity) j = call_map snd (Attach data capacity j)"
| "cb_exec OpRelease j = call_map snd (Release j)"
| "cb_exec (OpNeonMap l p n) j = Returns (upd_cb (SetNeonQRegisterBankMapping l p n) j)"

text \<open>What a caller must respect: a patch offset lies where the guard does not wrap around, and a
  buffer is attached to live executable memory.\<close>

fun cb_allowed :: "cb_op \<Rightarrow> jit \<Rightarrow> bool" where
  "cb_allowed (OpPatch off _) j \<longleftrightarrow> off \<noteq> 0xfffffffc"
| "cb_allowed (OpPatchNop off) j \<longleftrightarrow> off \<noteq> 0xfffffffc"
| "cb_allowed (OpPatchBranch off _ _) j \<longleftrightarrow> off \<noteq> 0xfffffffc"
| "cb_allowed (OpPatchBranchLink off _ _) j \<longleftrightarrow> off \<noteq> 0xfffffffc"
| "cb_allowed (OpPatchBranchTo off _ _) j \<longleftrightarrow> off \<noteq> 0xfffffffc"
| "cb_allowed (OpPatchLiteral off _ _) j \<longleftrightarrow> off \<noteq> 0xfffffffc"
| "cb_allowed (OpPatchMov off _ _) j \<longleftrightarrow> off \<noteq> 0xfffffffc \<and> off \<noteq> 0xfffffff8"
| "cb_allowed (OpAttach data capacity) j \<longleftrightarrow> \<not> m_owns_memory (jit_cb j) \<and>
     (FindAllocationBackendLocked (jit_vm j) data capacity \<noteq> None \<or> data = 0 \<or> capacity = 0)"
| "cb_allowed _ j \<longleftrightarrow> True"

inductive cb_step :: "jit \<Rightarrow> jit \<Rightarrow> bool" where
  cb_step_op: "cb_allowed op j \<Longrightarrow> cb_exec op j = Returns j' \<Longrightarrow> cb_step j j'"

inductive_cases cb_stepE: "cb_step j j'"

definition cb_initial :: "int \<Rightarrow> jit \<Rightarrow> bool" where
  "cb_initial tid j \<longleftrightarrow> envs_ok tid j \<and> reach vm_initial vm_step (jit_vm j) \<and>
     s_write_mutex (jit_vm j) \<noteq> Some tid \<and> jit_cb j = CodeBuffer_default"

lemma patches_cb_inv: "cb_inv tid j \<Longrightarrow> off \<noteq> 0xfffffffc \<Longrightarrow> patches off w j ok j' \<Longrightarrow> cb_inv tid j'"
  by (rule patches_spec(1))

lemma neon_map_cb_inv:
  assumes "cb_inv tid j"
  shows "cb_inv tid (upd_cb (SetNeonQRegisterBankMapping l p n) j)"
proof (rule same_contents_cb_inv [OF assms])
  show "same_contents j (upd_cb (SetNeonQRegisterBankMapping l p n) j)"
    by (simp add: same_contents_def buf_bytes_def ReadBase_def SetNeonQRegisterBankMapping_def)
qed (use assms in \<open>auto simp: cb_inv_def range_inv_def domain_inv_def same_arena_def SetNeonQRegisterBankMapping_def Let_def\<close>)

lemma ReadInstruction_state: "ReadInstruction off j = Returns (r, j') \<Longrightarrow> j' = j"
  by (auto simp: ReadInstruction_def jbind_Returns dest: load_code_state split: if_splits)

lemma call_map_sndE: "call_map snd c = Returns y \<Longrightarrow> (\<And>x. c = Returns (x, y) \<Longrightarrow> P) \<Longrightarrow> P"
  by (auto simp: call_map_Returns)

lemma cb_exec_inv:
  assumes inv: "cb_inv tid j" and ok: "cb_allowed op j" and ex: "cb_exec op j = Returns j'"
  shows "cb_inv tid j'"
proof (cases op)
  case (OpPatchLiteral off lit c)
  with ex obtain r where "PatchLdrLiteral off lit c j = Returns (r, j')" by (auto elim!: call_map_sndE)
  with PatchLdrLiteral_cases obtain w where "patches off w j r j'" by blast
  with ok OpPatchLiteral patches_cb_inv [OF inv] show ?thesis by simp
next
  case (OpRead off)
  with ex inv ReadInstruction_state show ?thesis by (auto elim!: call_map_sndE)
next
  case (OpNeonMap l p n)
  with ex neon_map_cb_inv [OF inv] show ?thesis by auto
next
  case (OpEmit w)
  with ok ex show ?thesis by (auto elim!: call_map_sndE intro: EmitU32_spec(1) [OF inv])
next
  case (OpPatch off w)
  with ok ex show ?thesis by (auto elim!: call_map_sndE intro: patches_cb_inv [OF inv _ Patch_cases(1)])
next
  case (OpPatchNop off)
  with ok ex show ?thesis by (auto elim!: call_map_sndE intro: patches_cb_inv [OF inv _ Patch_cases(2)])
next
  case (OpPatchBranch off t c)
  with ok ex show ?thesis by (auto elim!: call_map_sndE intro: patches_cb_inv [OF inv _ Patch_cases(3)])
next
  case (OpPatchBranchLink off t c)
  with ok ex show ?thesis by (auto elim!: call_map_sndE intro: patches_cb_inv [OF inv _ Patch_cases(4)])
next
  case (OpPatchBranchTo off t c)
  with ok ex show ?thesis by (auto elim!: call_map_sndE intro: patches_cb_inv [OF inv _ Patch_cases(5)])
next
  case (OpPatchMov off rd v)
  with ok ex show ?thesis by (auto elim!: call_map_sndE intro: PatchMovImm32_spec(1) [OF inv])
next
  case OpFlush
  with ok ex show ?thesis by (auto elim!: call_map_sndE intro: Flush_spec(1) [OF inv])
next
  case OpReset
  with ok ex show ?thesis by (auto elim!: call_map_sndE intro: Reset_spec(1) [OF inv])
next
  case (OpAllocate c)
  with ok ex show ?thesis by (auto elim!: call_map_sndE intro: Allocate_spec(1) [OF inv])
next
  case (OpAttach d c)
  with ok ex show ?thesis by (auto elim!: call_map_sndE intro: Attach_spec(1) [OF inv])
next
  case OpRelease
  with ok ex show ?thesis by (auto elim!: call_map_sndE intro: Release_spec(1) [OF inv])
qed

lemma cb_initial_inv: "cb_initial tid j \<Longrightarrow> cb_inv tid j"
  using default_cb_inv vm.reach_inv by (simp add: cb_initial_def)

interpretation buffer: invariant_system "cb_initial tid" cb_step "cb_inv tid"
  by unfold_locales (auto intro: cb_initial_inv cb_exec_inv elim!: cb_stepE)

end
