(* ===== verification/A32_Buffer_Props.thy ===== *)
theory A32_Buffer_Props
  imports A32_Buffer_Ops
begin

text \<open>
  The properties of a code buffer over all its reachable states, with the concrete runs that
  witness them: a one-slot buffer of the demonstration arena, and the run that fills the
  staging array, publishes it and appends again.
\<close>

subsection \<open>Filling a buffer\<close>

text \<open>In an open write domain with room, an append succeeds without a call to the memory
  manager.\<close>

definition same_writing :: "jit \<Rightarrow> jit \<Rightarrow> bool" where
  "same_writing j j' \<longleftrightarrow> m_write_domain_open (jit_cb j') \<and> m_base (jit_cb j') = m_base (jit_cb j) \<and>
     m_capacity (jit_cb j') = m_capacity (jit_cb j) \<and> m_write_capacity (jit_cb j') = m_write_capacity (jit_cb j) \<and>
     m_dirty_begin (jit_cb j') = m_dirty_begin (jit_cb j) \<and>
     jit_env j' = jit_env j \<and> same_arena (jit_vm j) (jit_vm j') \<and> same_writer (jit_vm j) (jit_vm j') \<and>
     s_write_staging_capacity (jit_vm j') = s_write_staging_capacity (jit_vm j)"

lemma EmitU32_open_ok:
  assumes inv: "cb_inv tid j" and opened: "m_write_domain_open (jit_cb j)"
    and room: "unat (m_offset (jit_cb j)) + 4 \<le> unat (m_write_capacity (jit_cb j))"
    and dirty: "m_dirty_begin (jit_cb j) < m_dirty_end (jit_cb j)"
  shows "\<exists>j'. EmitU32 w j = Returns (True, j') \<and> cb_inv tid j' \<and> same_writing j j' \<and>
    m_offset (jit_cb j') = m_offset (jit_cb j) + 4 \<and> m_dirty_begin (jit_cb j') < m_dirty_end (jit_cb j') \<and>
    m_dirty_end (jit_cb j') = m_offset (jit_cb j) + 4"
proof -
  let ?cb = "jit_cb j"
  from inv opened have wo: "write_open tid (m_base ?cb) (m_capacity ?cb) (m_write_base ?cb) (m_write_capacity ?cb) (jit_vm j)"
    and le: "m_write_capacity ?cb \<le> m_capacity ?cb" and nz: "m_base ?cb \<noteq> 0"
    by (auto simp: cb_inv_def domain_inv_def range_inv_def Let_def)
  have u: "unat (m_offset ?cb + 4) = unat (m_offset ?cb) + 4"
    using unat_add_lem [of "m_offset ?cb" 4] room unat_u32_less [of "m_write_capacity ?cb"] by simp
  have req: "m_offset ?cb + 4 \<le> m_write_capacity ?cb" using u room by (simp add: word_le_nat_alt)
  have "unat (m_offset ?cb) + 4 \<le> unat (m_capacity ?cb)" using room le by (simp add: word_le_nat_alt)
  then have sp: "HasSpace ?cb 4" using nz
    by (simp add: HasSpace_def word_le_nat_alt unat_sub_if')
  from write_open_room [OF cb_inv_parts(3) [OF inv] wo room] obtain bs where
    "wptr_load (m_write_base ?cb) 0 (unat (m_offset ?cb) + 4) (jit_vm j) = Returns bs" by blast
  from wptr_store_load [OF this, of "m_offset ?cb" "u32_bytes w"] room unat_u32_less [of "m_write_capacity ?cb"]
  obtain vm' where st: "wptr_store (m_write_base ?cb) (m_offset ?cb) (u32_bytes w) (jit_vm j) = Returns vm'" by auto
  define j' where "j' = upd_cb (\<lambda>cb. MarkDirty (m_offset ?cb) 4 (cb\<lparr> m_offset := m_offset cb + 4 \<rparr>)) (j\<lparr> jit_vm := vm' \<rparr>)"
  have e: "EmitU32 w j = Returns (True, j')"
    using sp req opened st by (simp add: EmitU32_def EnsureWritable_def Let_def store_code_def jbind_def j'_def)
  note ks = wptr_store_keeps(1-3) [OF st]
  have d: "m_dirty_end ?cb \<le> m_offset ?cb" using inv by (simp add: cb_inv_def dirty_inv_def Let_def)
  then have "m_dirty_begin ?cb \<le> m_offset ?cb" "m_dirty_end ?cb \<le> m_offset ?cb + 4" "m_dirty_begin ?cb < m_offset ?cb + 4"
    using dirty u by (auto simp: word_le_nat_alt word_less_nat_alt)
  moreover have "m_dirty_begin ?cb \<noteq> m_dirty_end ?cb" using dirty by simp
  ultimately show ?thesis using e EmitU32_spec(1) [OF inv e] ks opened
    by (simp add: same_writing_def j'_def MarkDirty_def Let_def)
qed

lemma fill_buffer:
  assumes "cb_inv tid j" "m_write_domain_open (jit_cb j)" "m_dirty_begin (jit_cb j) < m_dirty_end (jit_cb j)"
    "unat (m_offset (jit_cb j)) + 4 * n \<le> unat (m_write_capacity (jit_cb j))"
    "m_dirty_end (jit_cb j) = m_offset (jit_cb j)"
  shows "\<exists>j'. cb_step\<^sup>*\<^sup>* j j' \<and> cb_inv tid j' \<and> same_writing j j' \<and>
    unat (m_offset (jit_cb j')) = unat (m_offset (jit_cb j)) + 4 * n \<and> m_dirty_begin (jit_cb j') < m_dirty_end (jit_cb j') \<and>
    m_dirty_end (jit_cb j') = m_offset (jit_cb j')"
  using assms
proof (induction n arbitrary: j)
  case 0
  then show ?case by (auto simp: same_writing_def same_arena_def same_writer_def)
next
  case (Suc n)
  let ?cb = "jit_cb j"
  have room: "unat (m_offset ?cb) + 4 \<le> unat (m_write_capacity ?cb)" using Suc.prems(4) by simp
  from EmitU32_open_ok [OF Suc.prems(1,2) room Suc.prems(3), of 0] obtain j1 where
    j1: "EmitU32 0 j = Returns (True, j1)" "cb_inv tid j1" "same_writing j j1"
      "m_offset (jit_cb j1) = m_offset ?cb + 4" "m_dirty_begin (jit_cb j1) < m_dirty_end (jit_cb j1)"
      "m_dirty_end (jit_cb j1) = m_offset (jit_cb j1)" by auto
  have u: "unat (m_offset (jit_cb j1)) = unat (m_offset ?cb) + 4"
    unfolding j1(4) using unat_add_lem [of "m_offset ?cb" 4] room unat_u32_less [of "m_write_capacity ?cb"] by simp
  have st: "cb_step j j1" by (rule cb_step_op [of "OpEmit 0"]) (simp_all add: j1 call_map.simps)
  have pre: "m_write_domain_open (jit_cb j1)" "unat (m_offset (jit_cb j1)) + 4 * n \<le> unat (m_write_capacity (jit_cb j1))"
    using j1(3) u Suc.prems(4) by (simp_all add: same_writing_def)
  from Suc.IH [OF j1(2) pre(1) j1(5) pre(2) j1(6)] obtain j2 where
    j2: "cb_step\<^sup>*\<^sup>* j1 j2" "cb_inv tid j2" "same_writing j1 j2" "unat (m_offset (jit_cb j2)) = unat (m_offset (jit_cb j1)) + 4 * n"
      "m_dirty_begin (jit_cb j2) < m_dirty_end (jit_cb j2)" "m_dirty_end (jit_cb j2) = m_offset (jit_cb j2)" by blast
  have "same_writing j j2" using j1(3) j2(3) by (simp add: same_writing_def same_arena_def same_writer_def)
  moreover have "cb_step\<^sup>*\<^sup>* j j2" using st j2(1) by (rule converse_rtranclp_into_rtranclp)
  ultimately show ?case using j2 u by auto
qed

text \<open>A buffer of one slot in the demonstration arena, its first word, and the state after the
  staging array is full and published.\<close>

definition demo_jit0 :: jit where
  "demo_jit0 = \<lparr> jit_cb = CodeBuffer_default, jit_vm = demo_vm, jit_env = (\<lambda>_. demo_env), jit_calls = 0 \<rparr>"

fun run :: "cb_op list \<Rightarrow> jit \<Rightarrow> jit" where
  "run [] j = j"
| "run (op # ops) j = (case cb_exec op j of Returns j' \<Rightarrow> run ops j' | _ \<Rightarrow> j)"

definition demo_jit1 :: jit where
  "demo_jit1 = run [OpAllocate 0x100000, OpEmit 0xe3a00001] demo_jit0"

lemma run_reach:
  "reach init cb_step j \<Longrightarrow> list_all (\<lambda>op. cb_allowed op = (\<lambda>_. True)) ops \<Longrightarrow> reach init cb_step (run ops j)"
proof (induction ops arbitrary: j)
  case (Cons op ops)
  show ?case
  proof (cases "cb_exec op j")
    case (Returns j')
    with Cons.prems have "cb_step j j'" by (intro cb_step_op [of op]) auto
    with Cons Returns show ?thesis by (auto intro: reach_step)
  qed (use Cons.prems in simp_all)
qed simp

lemma demo_jit0_initial: "cb_initial 7 demo_jit0"
  using demo_env_sane demo_vm_initial reach_init
  by (auto simp: cb_initial_def demo_jit0_def envs_ok_def) (simp_all add: demo_env_def demo_vm_def)

lemma demo_jit1_reach: "reach (cb_initial 7) cb_step demo_jit1"
  unfolding demo_jit1_def by (rule run_reach, rule reach_init, rule demo_jit0_initial) (auto simp: fun_eq_iff)

lemmas jit_simps = demo_jit0_def demo_jit1_def call_map.simps Allocate_def Release_def CloseWriteDomain_def
  EmitU32_def HasSpace_def EnsureWritable_def store_code_def jbind_def vm_call_def upd_cb_def MarkDirty_def
  CodeBuffer_default_def BeginJitWrite_def BeginJitWriteForAddress_def FindAllocationBackendLocked_def
  GrowStagingLocked_def grow_capacity.simps wptr_store_def

lemma demo_jit1_state:
  "m_base (jit_cb demo_jit1) = 0x81000000" "m_capacity (jit_cb demo_jit1) = 0x100000"
  "m_offset (jit_cb demo_jit1) = 4" "m_write_domain_open (jit_cb demo_jit1)"
  "m_write_capacity (jit_cb demo_jit1) = 0x1000" "m_dirty_begin (jit_cb demo_jit1) = 0"
  "m_dirty_end (jit_cb demo_jit1) = 4" "jit_env demo_jit1 = (\<lambda>_. demo_env)"
  "s_write_staging_capacity (jit_vm demo_jit1) = 0x1000" "s_write_backend (jit_vm demo_jit1) = KuBridgeRxStaging"
  "s_write_vm_domain_open (jit_vm demo_jit1) = False"
  "FindAllocationBackendLocked (jit_vm demo_jit1) 0x81000000 0x100000 = Some KuBridgeRxStaging"
  "s_allocations (jit_vm demo_jit1) = [(0x81000000, \<lparr> al_size = 0x100000, al_backend = KuBridgeRxStaging \<rparr>)]"
  "s_blocks (jit_vm demo_jit1) = [(0x81000000, \<lparr> blk_uid = 3, blk_size = KUBRIDGE_JIT_ARENA_SIZE, blk_backend = KuBridgeRxStaging \<rparr>)]"
  by (simp_all add: demo_simps jit_simps)

lemma demo_publish:
  assumes "vm_inv vm" "write_open 7 0x81000000 0x100000 WStaging 0x1000 vm" "s_write_staging_capacity vm = 0x1000"
    "s_write_backend vm = KuBridgeRxStaging" "\<not> s_write_vm_domain_open vm"
    "s_allocations vm = [(0x81000000, \<lparr> al_size = 0x100000, al_backend = KuBridgeRxStaging \<rparr>)]"
    "s_blocks vm = [(0x81000000, \<lparr> blk_uid = 3, blk_size = KUBRIDGE_JIT_ARENA_SIZE, blk_backend = KuBridgeRxStaging \<rparr>)]"
  shows "\<exists>vm'. EndJitWriteAndSync demo_env 0x81000000 0x1000 vm = Returns (True, vm') \<and>
    s_write_mutex vm' = None \<and> s_write_staging_capacity vm' = 0x1000 \<and> s_allocations vm' = s_allocations vm"
proof -
  have o: "s_write_owner vm = 7" "s_write_active vm" "s_write_target_base vm = 0x81000000" "s_write_target_capacity vm = 0x100000"
    using assms(1,2) by (auto simp: write_open_def vm_inv_def writer_inv_def)
  show ?thesis using assms(3-7) o unfolding EndJitWriteAndSync_def Let_def
    by (simp add: demo_env_def SyncJitMemoryLocked_def FinishJitWrite_def vm_consts Let_def)
qed

lemma same_arena_find:
  "same_arena vm vm' \<Longrightarrow> FindAllocationBackendLocked vm' a c = FindAllocationBackendLocked vm a c"
  by (rule FindAllocationBackendLocked_cong) (simp add: same_arena_def)

text \<open>The state in which an append overflows: the staging array filled, published, and the
  buffer not full.\<close>

lemma full_staging_reachable:
  "\<exists>j. reach (cb_initial 7) cb_step j \<and> \<not> m_write_domain_open (jit_cb j) \<and> s_write_mutex (jit_vm j) = None \<and>
     staged_target j \<and> m_offset (jit_cb j) = s_write_staging_capacity (jit_vm j) \<and> m_offset (jit_cb j) = 0x1000 \<and>
     m_base (jit_cb j) = 0x81000000 \<and> m_capacity (jit_cb j) = 0x100000"
proof -
  note d = demo_jit1_state
  have i1: "cb_inv 7 demo_jit1" by (rule buffer.reach_inv [OF demo_jit1_reach])
  from fill_buffer [OF i1 d(4), of 1023] d obtain j2 where
    j2: "cb_step\<^sup>*\<^sup>* demo_jit1 j2" "cb_inv 7 j2" "same_writing demo_jit1 j2" "unat (m_offset (jit_cb j2)) = 0x1000"
      "m_dirty_end (jit_cb j2) = m_offset (jit_cb j2)" by auto
  have off: "m_offset (jit_cb j2) = 0x1000" using j2(4) by (simp add: word_unat_eq_iff)
  have w: "m_write_domain_open (jit_cb j2)" "m_base (jit_cb j2) = 0x81000000" "m_capacity (jit_cb j2) = 0x100000"
    "m_write_capacity (jit_cb j2) = 0x1000" "m_dirty_begin (jit_cb j2) = 0" "jit_env j2 = (\<lambda>_. demo_env)"
    "s_write_staging_capacity (jit_vm j2) = 0x1000" "s_write_backend (jit_vm j2) = KuBridgeRxStaging"
    "\<not> s_write_vm_domain_open (jit_vm j2)" "same_arena (jit_vm demo_jit1) (jit_vm j2)"
    using j2(3) d by (simp_all add: same_writing_def same_writer_def)
  have wo: "write_open 7 0x81000000 0x100000 WStaging 0x1000 (jit_vm j2)"
    using j2(2) w by (simp add: cb_inv_def domain_inv_def Let_def) (simp add: write_open_def)
  have vi: "vm_inv (jit_vm j2)" by (rule cb_inv_parts(3) [OF j2(2)])
  have fb: "FindAllocationBackendLocked (jit_vm j2) 0x81000000 0x100000 = Some KuBridgeRxStaging"
    using same_arena_find [OF w(10)] d(12) by simp
  have tables: "s_allocations (jit_vm j2) = [(0x81000000, \<lparr> al_size = 0x100000, al_backend = KuBridgeRxStaging \<rparr>)]"
    "s_blocks (jit_vm j2) = [(0x81000000, \<lparr> blk_uid = 3, blk_size = KUBRIDGE_JIT_ARENA_SIZE, blk_backend = KuBridgeRxStaging \<rparr>)]"
    using w(10) d(13,14) by (simp_all add: same_arena_def)
  from demo_publish [OF vi wo w(7-9) tables] obtain vm' where
    e: "EndJitWriteAndSync demo_env 0x81000000 0x1000 (jit_vm j2) = Returns (True, vm')" "s_write_mutex vm' = None"
      "s_write_staging_capacity vm' = 0x1000" "s_allocations vm' = s_allocations (jit_vm j2)" by blast
  define j3 where "j3 = upd_cb (\<lambda>cb. cb\<lparr> m_write_domain_open := False, m_write_base := WNull, m_write_capacity := 0,
      m_dirty_begin := 0, m_dirty_end := 0 \<rparr>) (j2\<lparr> jit_vm := vm', jit_calls := Suc (jit_calls j2) \<rparr>)"
  have fl: "Flush j2 = Returns (True, j3)"
    using w off j2(5) e(1) by (simp add: Flush_def Let_def jbind_def vm_call_def upd_cb_def j3_def)
  have "cb_step j2 j3" by (rule cb_step_op [of OpFlush]) (simp_all add: fl call_map.simps)
  with j2(1) have st: "cb_step\<^sup>*\<^sup>* demo_jit1 j3" by simp
  have "reach (cb_initial 7) cb_step j3"
    using st by (induction rule: rtranclp_induct) (auto intro: demo_jit1_reach reach_step)
  moreover have "staged_target j3"
    using fb FindAllocationBackendLocked_cong [OF e(4)] w by (simp add: staged_target_def j3_def)
  ultimately show ?thesis using e w off by (auto simp: j3_def)
qed

subsection \<open>Properties\<close>

text \<open>C1: in every state a code buffer reaches, through any sequence of its operations on a
  consistent memory manager, its fields, its open write domain and its dirty interval are
  consistent, and every byte outside the dirty interval already is in executable memory.\<close>

theorem code_buffer_inv: "reach (cb_initial tid) cb_step j \<Longrightarrow> cb_inv tid j"
  by (rule buffer.reach_inv)

theorem code_buffer_inv_witness: "cb_inv 7 demo_jit1"
  by (rule code_buffer_inv [OF demo_jit1_reach])

text \<open>appending a word to a reachable buffer either succeeds, and the contents are the
  old words followed by the new one, or fails, and the contents are unchanged; it fails for want
  of space exactly when fewer than four bytes are left, and then records it.\<close>

theorem emit_appends:
  assumes "reach (cb_initial tid) cb_step j" "EmitU32 w j = Returns (ok, j')"
  shows "buf_words j' = (if ok then buf_words j @ [w] else buf_words j) \<and>
    (ok \<longrightarrow> m_offset (jit_cb j') = m_offset (jit_cb j) + 4) \<and>
    (\<not> HasSpace (jit_cb j) 4 \<longrightarrow> \<not> ok \<and> m_out_of_space (jit_cb j'))"
proof -
  note i = buffer.reach_inv [OF assms(1)]
  have "\<not> HasSpace (jit_cb j) 4 \<Longrightarrow> \<not> ok \<and> m_out_of_space (jit_cb j')"
    using assms(2) by (auto simp: EmitU32_def)
  then show ?thesis using cb.emit_out [OF i assms(2)] EmitU32_spec(4) [OF i assms(2)] by blast
qed

lemma demo_jit1_room: "append_room demo_jit1"
  by (simp add: append_room_def demo_jit1_state)

lemma demo_emit2: "\<exists>j'. EmitU32 0xe12fff1e demo_jit1 = Returns (True, j')"
  using EmitU32_open_ok [OF buffer.reach_inv [OF demo_jit1_reach], of "0xe12fff1e"] by (auto simp: demo_jit1_state)

theorem emit_appends_witness:
  "\<exists>j'. EmitU32 0xe12fff1e demo_jit1 = Returns (True, j') \<and> buf_words j' = [0xe3a00001, 0xe12fff1e]"
proof -
  from demo_emit2 obtain j' where e: "EmitU32 0xe12fff1e demo_jit1 = Returns (True, j')" by blast
  have "buf_words demo_jit1 = [0xe3a00001]"
    by (simp add: buf_words_def buf_bytes_def ReadBase_def wptr_load_def demo_simps jit_simps u32_bytes_def bytes_u32_def)
  with emit_appends [OF demo_jit1_reach e] e show ?thesis by simp
qed

text \<open>an append never leaves the buffer or the staging array as long as the write domain
  is open, or the memory behind the buffer is not staged, or the staging array has room for the
  word once the domain is opened.\<close>

theorem emit_defined:
  assumes "reach (cb_initial tid) cb_step j" "append_room j"
  shows "\<exists>ok j'. EmitU32 w j = Returns (ok, j')"
  by (rule EmitU32_returns [OF buffer.reach_inv [OF assms(1)] assms(2)])

theorem emit_defined_witness: "\<exists>ok j'. EmitU32 0xe12fff1e demo_jit1 = Returns (ok, j')"
  by (rule emit_defined [OF demo_jit1_reach demo_jit1_room])

text \<open>C37: when the domain of a staged buffer is opened again with the staging array exactly
  full, the capacity that opening returns is not compared with the one required, and the
  append writes past the end of the staging array, although the buffer has space.\<close>

theorem emit_overflows_staging:
  assumes "reach (cb_initial tid) cb_step j" "\<not> m_write_domain_open (jit_cb j)" "s_write_mutex (jit_vm j) = None"
    "staged_target j" "m_offset (jit_cb j) = s_write_staging_capacity (jit_vm j)" "0x1000 \<le> m_offset (jit_cb j)"
    "HasSpace (jit_cb j) 4"
  shows "EmitU32 w j = Aborts"
  by (rule emit_overflows [OF buffer.reach_inv [OF assms(1)] assms(2-7)])

theorem emit_overflows_staging_witness:
  "\<exists>j. reach (cb_initial 7) cb_step j \<and> HasSpace (jit_cb j) 4 \<and> EmitU32 0xe12fff1e j = Aborts"
proof -
  from full_staging_reachable obtain j where
    j: "reach (cb_initial 7) cb_step j" "\<not> m_write_domain_open (jit_cb j)" "s_write_mutex (jit_vm j) = None"
      "staged_target j" "m_offset (jit_cb j) = s_write_staging_capacity (jit_vm j)" "m_offset (jit_cb j) = 0x1000"
      "m_base (jit_cb j) = 0x81000000" "m_capacity (jit_cb j) = 0x100000" by blast
  then have sp: "HasSpace (jit_cb j) 4" by (simp add: HasSpace_def)
  with emit_overflows_staging [OF j(1-5) _ sp] j show ?thesis by auto
qed

text \<open>a patch that succeeds replaces exactly the word at its index and reading that
  offset returns it; a patch that is refused changes nothing.\<close>

theorem patch_in_place:
  assumes "reach (cb_initial tid) cb_step j" "off \<noteq> 0xfffffffc" "PatchInstruction off w j = Returns (ok, j')"
  shows "if ok then buf_words j' = (buf_words j)[unat off div 4 := w] \<and> ReadInstruction off j' = Returns (Some w, j')
    else buf_words j' = buf_words j"
proof -
  note i = buffer.reach_inv [OF assms(1)] and p = Patch_cases(1) [OF assms(3)]
  note s = patches_spec [OF i p assms(2)]
  show ?thesis
  proof (cases ok)
    case True
    have pt: "patches off w j True j'" using p True by simp
    note w = patches_words [OF i pt assms(2)]
    have "unat off mod 4 = 0" using p True patch_guard_fits assms(2) by (auto simp: patches_def)
    then show ?thesis using True w ReadInstruction_words [OF s(1) assms(2)] by simp
  next
    case False
    with s show ?thesis by (simp add: buf_words_def)
  qed
qed

theorem patch_in_place_witness:
  "\<exists>j'. PatchInstruction 0 0xe3a00002 demo_jit1 = Returns (True, j') \<and> ReadInstruction 0 j' = Returns (Some 0xe3a00002, j')"
proof -
  have "\<exists>j'. PatchInstruction 0 0xe3a00002 demo_jit1 = Returns (True, j')"
    by (simp add: PatchInstruction_def patch_guard_def patch_store_def demo_simps jit_simps)
  then obtain j' where e: "PatchInstruction 0 0xe3a00002 demo_jit1 = Returns (True, j')" by blast
  from patch_in_place [OF demo_jit1_reach _ e] e show ?thesis by simp
qed

text \<open>C2: when a flush reports success, the executable memory of the buffer holds exactly its
  words, and the write domain is closed.\<close>

theorem flush_publishes:
  assumes "reach (cb_initial tid) cb_step j" "Flush j = Returns (True, j')"
  shows "words_of (mem_read (vm_mem (jit_vm j')) (m_base (jit_cb j)) (unat (m_offset (jit_cb j)))) = buf_words j \<and>
    buf_words j' = buf_words j \<and> \<not> m_write_domain_open (jit_cb j')"
  using Flush_spec(2) [OF buffer.reach_inv [OF assms(1)] assms(2)] by (simp add: buf_words_def)

theorem flush_publishes_witness:
  "\<exists>j'. Flush demo_jit1 = Returns (True, j') \<and> words_of (mem_read (vm_mem (jit_vm j')) 0x81000000 4) = buf_words demo_jit1"
proof -
  have "\<exists>j'. Flush demo_jit1 = Returns (True, j')"
    by (simp add: Flush_def EndJitWriteAndSync_def SyncJitMemoryLocked_def demo_simps jit_simps)
  then obtain j' where e: "Flush demo_jit1 = Returns (True, j')" by blast
  from flush_publishes [OF demo_jit1_reach e] e show ?thesis by (simp add: demo_jit1_state)
qed

text \<open>The offset \<^verbatim>\<open>static_cast<size_t>(-1)\<close> that a placeholder returns when it could
  not be emitted is refused by every patching operation, which changes nothing.\<close>

theorem failed_placeholder_refused:
  "PatchInstruction (-1) w j = Returns (False, j) \<and> PatchNop (-1) j = Returns (False, j) \<and>
   PatchBranch (-1) target c j = Returns (False, j) \<and> PatchBranchLink (-1) target c j = Returns (False, j) \<and>
   PatchBranchToAddress (-1) a c j = Returns (False, j) \<and> PatchLdrLiteral (-1) target c j = Returns (False, j) \<and>
   PatchMovImm32 (-1) rd v j = Returns (False, j) \<and> ReadInstruction (-1) j = Returns (None, j)"
proof -
  have g: "\<not> patch_guard cb (-1)" for cb by (simp add: patch_guard_def)
  show ?thesis
    unfolding PatchInstruction_def PatchNop_def PatchBranch_def PatchBranchLink_def PatchBranchToAddress_def
      PatchLdrLiteral_def PatchMovImm32_def ReadInstruction_def Let_def using g by simp
qed
end
