(* ===== verification/A32_Machine.thy ===== *)
theory A32_Machine
  imports A32_Encode
begin

text \<open>
  The part of the A32 instruction set that the integer encoders use, as the architecture
  defines it: condition codes, the shifter operand, addition with carry, data processing,
  wide moves, long multiplies, bit-field and extension instructions, and branches to a
  register. It is the specification the emitters are proved against: \<open>a32_exec\<close> decodes an
  instruction word by its bit fields and executes it; \<open>None\<close> is an instruction outside this
  part, or one the architecture leaves unpredictable or that names the program counter as an
  operand.
\<close>

subsection \<open>Bit fields of an instruction\<close>

definition fld :: "nat \<Rightarrow> nat \<Rightarrow> u32 \<Rightarrow> u32" where
  "fld k m w = take_bit m (drop_bit k w)"

lemma fld_or: "fld k m (a OR b) = fld k m a OR fld k m b"
  by (simp add: fld_def)

lemma fld_push_above: "k + m \<le> j \<Longrightarrow> fld k m (push_bit j x) = 0"
  by (rule bit_word_eqI) (auto simp: fld_def bit_simps)

lemma fld_push_below:
  assumes "take_bit n x = x" "j + n \<le> k"
  shows "fld k m (push_bit j x) = 0"
proof (rule bit_word_eqI)
  fix i assume "i < LENGTH(32)"
  have "\<not> bit x (i + k - j)"
    by (subst assms(1) [symmetric]) (use assms(2) in \<open>simp add: bit_simps\<close>)
  then show "bit (fld k m (push_bit j x)) i = bit 0 i" by (auto simp: fld_def bit_simps add.commute)
qed

lemma fld_push_at:
  assumes "take_bit n x = x" "n \<le> m" "k + n \<le> 32"
  shows "fld k m (push_bit k x) = x"
proof (rule bit_word_eqI)
  fix i assume "i < LENGTH(32)"
  have "bit x i = (i < n \<and> bit x i)" by (subst assms(1) [symmetric]) (simp add: bit_simps)
  then show "bit (fld k m (push_bit k x)) i = bit x i" using assms by (auto simp: fld_def bit_simps)
qed

lemma take_bit_masks [simp]:
  "take_bit 2 (x AND 3) = x AND (3 :: u32)" "take_bit 4 (x AND 15) = x AND (15 :: u32)"
  "take_bit 5 (x AND 31) = x AND (31 :: u32)"
  using take_bit_eq_mask [of 2 "x AND 3"] take_bit_eq_mask [of 4 "x AND 15"] take_bit_eq_mask [of 5 "x AND 31"]
  by (simp_all add: mask_eq_exp_minus_1 and.assoc)

lemma take_bit_cond [simp]: "take_bit 4 (ConditionVal c) = ConditionVal c"
  by (cases c) simp_all

lemma take_bit_byte [simp]: "take_bit 8 (ucast (x :: u8) :: u32) = ucast x"
  by (rule bit_word_eqI) (auto simp: bit_simps dest: bit_imp_le_length)

lemma take_bit_12: "e < 4096 \<Longrightarrow> take_bit 12 e = (e :: u32)"
  using less_mask_eq [of e 12] by (simp add: take_bit_eq_mask)

lemmas fld_masked =
  fld_push_below [OF take_bit_masks(1)] fld_push_below [OF take_bit_masks(2)] fld_push_below [OF take_bit_masks(3)]
  fld_push_at [OF take_bit_masks(1)] fld_push_at [OF take_bit_masks(2)] fld_push_at [OF take_bit_masks(3)]
  fld_push_at [OF take_bit_cond]

lemma fld_0: "fld k m x = fld k m (push_bit 0 x)" by simp

lemmas fld_plain =
  fld_push_below [OF take_bit_masks(2), of 0, unfolded push_bit_0_id id_apply]
  fld_push_at [OF take_bit_masks(2), where k = 0, unfolded push_bit_0_id id_apply]
  fld_push_below [OF take_bit_byte, of 0, unfolded push_bit_0_id id_apply]
  fld_push_at [OF take_bit_byte, where k = 0, unfolded push_bit_0_id id_apply]
  fld_push_below [OF take_bit_12, of _ 0, unfolded push_bit_0_id id_apply]
  fld_push_at [OF take_bit_12, where k = 0, unfolded push_bit_0_id id_apply]

lemma fld_numeral: "fld k m (numeral n) = take_bit m (drop_bit k (numeral n))" "fld k m 0 = 0"
  by (simp_all add: fld_def)

lemmas fld_simps = fld_or fld_push_above fld_masked fld_plain fld_numeral

subsection \<open>Modified immediates\<close>

definition ARMExpandImm :: "u32 \<Rightarrow> u32" where
  "ARMExpandImm imm12 = word_rotr (2 * unat (drop_bit 8 imm12 AND 0xf)) (imm12 AND 0xff)"

lemma add_mod_32: "(n::nat) < 32 \<Longrightarrow> i < 32 \<Longrightarrow> (i + n) mod 32 = (if i + n < 32 then i + n else i + n - 32)"
  by (simp add: mod_if)

lemma RotateRight_rotr:
  assumes "(a::u32) < 32"
  shows "RotateRight v a = word_rotr (unat a) v"
proof (cases "a = 0")
  case True
  then show ?thesis by (auto simp: RotateRight_def bit_word_rotr_iff intro: bit_word_eqI)
next
  case False
  then have n: "0 < unat a" "unat a < 32" using assms by (simp_all add: unat_gt_0 word_less_nat_alt)
  have "unat (32 - a) = 32 - unat a" using assms by (simp add: unat_sub word_le_nat_alt word_less_nat_alt)
  then have "RotateRight v a = drop_bit (unat a) v OR push_bit (32 - unat a) v"
    using False assms by (simp add: RotateRight_def word_and_31_id)
  also have "\<dots> = word_rotr (unat a) v"
    by (rule bit_word_eqI) (use n in \<open>auto simp: bit_simps bit_word_rotr_iff add_mod_32 add.commute\<close>)
  finally show ?thesis .
qed

lemma RotateLeft_rotl:
  assumes "(a::u32) < 32"
  shows "RotateLeft v a = word_rotl (unat a) v"
proof (cases "a = 0")
  case True
  then show ?thesis by (auto simp: RotateLeft_def bit_word_rotl_iff intro: bit_word_eqI)
next
  case False
  then have n: "0 < unat a" "unat a < 32" using assms by (simp_all add: unat_gt_0 word_less_nat_alt)
  have "unat (32 - a) = 32 - unat a" using assms by (simp add: unat_sub word_le_nat_alt word_less_nat_alt)
  then have "RotateLeft v a = push_bit (unat a) v OR drop_bit (32 - unat a) v"
    using False assms by (simp add: RotateLeft_def word_and_31_id)
  also have "\<dots> = word_rotl (unat a) v"
  proof (rule bit_word_eqI)
    fix i assume "i < LENGTH(32)"
    then have "(i + (32 - unat a mod 32)) mod 32 = (if unat a \<le> i then i - unat a else 32 - unat a + i)"
      using n by (simp add: mod_if; linarith)
    then show "bit (push_bit (unat a) v OR drop_bit (32 - unat a) v) i = bit (word_rotl (unat a) v) i"
      using \<open>i < LENGTH(32)\<close> n by (auto simp: bit_simps bit_word_rotl_iff)
  qed
  finally show ?thesis .
qed

lemma double_rotation:
  assumes "(k::u32) < 16"
  shows "k * 2 < 32" "unat (k * 2) = 2 * unat k"
proof -
  have "unat k < 16" using assms by (simp add: word_less_nat_alt)
  then show u: "unat (k * 2) = 2 * unat k" by (simp add: unat_word_ariths)
  then show "k * 2 < 32" using \<open>unat k < 16\<close> by (simp add: word_less_nat_alt)
qed

lemma word_and_not_255: "(x::u32) AND NOT 0xff = 0 \<longleftrightarrow> x < 256"
proof
  assume "x AND NOT 0xff = 0"
  then have "x AND mask 8 = x" by (simp add: word32_bitwise bit_simps)
  then show "x < 256" using and_mask_less' [of 8 x] by simp
next
  assume "x < 256"
  then have "x AND mask 8 = x" using less_mask_eq [of x 8] by simp
  then show "x AND NOT 0xff = 0" by (simp add: word32_bitwise bit_simps)
qed

text \<open>The loop finds the first rotation that leaves eight bits, if there is one.\<close>

lemma emi_loop_unfold:
  "emi_loop v rot = (if rot < 16 then
     if word_rotl (2 * unat rot) v < 256 then Some (push_bit 8 rot OR word_rotl (2 * unat rot) v)
     else emi_loop v (rot + 1) else None)"
proof (cases "rot < 16")
  case True
  note d = double_rotation [OF True]
  have l: "RotateLeft v (rot * 2) = word_rotl (2 * unat rot) v" using d by (simp add: RotateLeft_rotl)
  have r: "RotateRight (word_rotl (2 * unat rot) v) (rot * 2) = v" using d by (simp add: RotateRight_rotr word_rot_rl)
  show ?thesis
    by (subst emi_loop.simps) (simp only: Let_def True l r word_and_not_255 if_True simp_thms)
next
  case False
  then show ?thesis by (subst emi_loop.simps) simp
qed

lemma emi_loop_Some:
  "emi_loop v rot = Some e \<Longrightarrow>
   \<exists>k. k < 16 \<and> word_rotl (2 * unat k) v < 256 \<and> e = push_bit 8 k OR word_rotl (2 * unat k) v"
proof (induction "16 - unat rot" arbitrary: rot)
  case 0
  then have "\<not> rot < 16" by (simp add: word_less_nat_alt)
  with 0 show ?case by (subst (asm) emi_loop_unfold) simp
next
  case (Suc n)
  from Suc.hyps(2) have "unat rot < 16" by simp
  then have "n = 16 - unat (rot + 1)" "rot < 16" using Suc.hyps(2) by (simp_all add: unat_word_ariths word_less_nat_alt)
  with Suc show ?case by (subst (asm) (2) emi_loop_unfold) (auto split: if_splits)
qed

lemma emi_loop_None:
  "emi_loop v rot = None \<Longrightarrow> rot \<le> k \<Longrightarrow> k < 16 \<Longrightarrow> \<not> word_rotl (2 * unat k) v < 256"
proof (induction "16 - unat rot" arbitrary: rot)
  case 0
  then show ?case by (simp add: word_less_nat_alt word_le_nat_alt)
next
  case (Suc n)
  from Suc.hyps(2) have "unat rot < 16" by simp
  then have n: "n = 16 - unat (rot + 1)" "rot < 16" using Suc.hyps(2) by (simp_all add: unat_word_ariths word_less_nat_alt)
  with Suc.prems(1) have "\<not> word_rotl (2 * unat rot) v < 256" "emi_loop v (rot + 1) = None"
    by (subst (asm) emi_loop_unfold, simp split: if_splits)+
  with Suc.hyps(1) [OF n(1)] Suc.prems show ?case
    by (cases "k = rot") (auto simp: inc_le)
qed

lemma expand_pieces:
  assumes "k < 16" "(b::u32) < 256"
  shows "push_bit 8 k OR b < 4096" "drop_bit 8 (push_bit 8 k OR b) AND 0xf = k" "(push_bit 8 k OR b) AND 0xff = b"
proof -
  have kb: "\<And>i. 4 \<le> i \<Longrightarrow> \<not> bit k i" and bb: "\<And>i. 8 \<le> i \<Longrightarrow> \<not> bit b i"
    using word_less_exp_bits [of k 4] word_less_exp_bits [of b 8] assms by simp_all
  then have "(push_bit 8 k OR b) AND mask 12 = push_bit 8 k OR b"
    by (simp add: word32_bitwise bit_simps)
  then show "push_bit 8 k OR b < 4096" using and_mask_less' [of 12 "push_bit 8 k OR b"] by simp
  show "drop_bit 8 (push_bit 8 k OR b) AND 0xf = k" "(push_bit 8 k OR b) AND 0xff = b"
    using kb bb by (simp_all add: word32_bitwise bit_simps)
qed

lemma EncodeModifiedImmediate_sound:
  assumes "EncodeModifiedImmediate v = Some e"
  shows "e < 4096" "ARMExpandImm e = v"
proof -
  from emi_loop_Some [OF assms [unfolded EncodeModifiedImmediate_def]]
  obtain k where k: "k < 16" "word_rotl (2 * unat k) v < 256" "e = push_bit 8 k OR word_rotl (2 * unat k) v" by blast
  from expand_pieces [OF k(1,2)] show "e < 4096" "ARMExpandImm e = v"
    by (simp_all add: ARMExpandImm_def k(3) word_rot_rl)
qed

lemma EncodeModifiedImmediate_complete:
  assumes "EncodeModifiedImmediate v = None"
  shows "ARMExpandImm e \<noteq> v"
proof
  assume v: "ARMExpandImm e = v"
  define k where "k = drop_bit 8 e AND 0xf"
  have "k < 16" unfolding k_def by (rule word_and_15_less)
  with emi_loop_None [OF assms [unfolded EncodeModifiedImmediate_def], of k]
  have "\<not> word_rotl (2 * unat k) v < 256" by simp
  moreover have "word_rotl (2 * unat k) v = e AND 0xff"
    using v by (simp add: ARMExpandImm_def k_def word_rot_lr flip: v)
  moreover have "e AND 0xff < 256" using and_mask_less' [of 8 e] by (simp add: mask_eq_exp_minus_1)
  ultimately show False by simp
qed

subsection \<open>Machine state\<close>

record a32 =
  a32_reg :: "u32 \<Rightarrow> u32"
  a32_N :: bool
  a32_Z :: bool
  a32_C :: bool
  a32_V :: bool
  a32_pc :: u32
  a32_thumb :: bool

definition set_reg :: "u32 \<Rightarrow> u32 \<Rightarrow> a32 \<Rightarrow> a32" where
  "set_reg r v s = s\<lparr> a32_reg := (a32_reg s)(r := v) \<rparr>"

definition advance :: "a32 \<Rightarrow> a32" where
  "advance s = s\<lparr> a32_pc := a32_pc s + 4 \<rparr>"

definition cond_passed :: "u32 \<Rightarrow> a32 \<Rightarrow> bool" where
  "cond_passed c s =
     (let k = drop_bit 1 c;
          base = (if k = 0 then a32_Z s else if k = 1 then a32_C s else if k = 2 then a32_N s
            else if k = 3 then a32_V s else if k = 4 then a32_C s \<and> \<not> a32_Z s
            else if k = 5 then a32_N s = a32_V s else if k = 6 then a32_N s = a32_V s \<and> \<not> a32_Z s
            else True)
      in if c AND 1 = 1 \<and> c \<noteq> 15 then \<not> base else base)"

text \<open>The conditions by name.\<close>

primrec holds :: "Condition \<Rightarrow> a32 \<Rightarrow> bool" where
  "holds EQ s = a32_Z s" | "holds NE s = (\<not> a32_Z s)"
| "holds CS s = a32_C s" | "holds CC s = (\<not> a32_C s)"
| "holds MI s = a32_N s" | "holds PL s = (\<not> a32_N s)"
| "holds VS s = a32_V s" | "holds VC s = (\<not> a32_V s)"
| "holds HI s = (a32_C s \<and> \<not> a32_Z s)" | "holds LS s = (\<not> a32_C s \<or> a32_Z s)"
| "holds GE s = (a32_N s = a32_V s)" | "holds LT s = (a32_N s \<noteq> a32_V s)"
| "holds GT s = (\<not> a32_Z s \<and> a32_N s = a32_V s)" | "holds LE s = (a32_Z s \<or> a32_N s \<noteq> a32_V s)"
| "holds AL s = True"

lemma cond_passed_ConditionVal [simp]: "cond_passed (ConditionVal c) s = holds c s"
  by (cases c) (auto simp: cond_passed_def)

lemma cond_passed_14 [simp]: "cond_passed 14 s"
  by (simp add: cond_passed_def)

lemma ConditionVal_not_15 [simp]: "ConditionVal c \<noteq> 15"
  by (cases c) simp_all

subsection \<open>The operand and the arithmetic\<close>

definition AddWithCarry :: "u32 \<Rightarrow> u32 \<Rightarrow> bool \<Rightarrow> u32 \<times> bool \<times> bool" where
  "AddWithCarry x y c =
     (let res = x + y + of_bool c
      in (res, unat x + unat y + of_bool c \<ge> 2 ^ 32, sint res \<noteq> sint x + sint y + of_bool c))"

definition ImmCarry :: "u32 \<Rightarrow> bool \<Rightarrow> bool" where
  "ImmCarry imm12 c = (if fld 8 4 imm12 = 0 then c else bit (ARMExpandImm imm12) 31)"

text \<open>\<open>Shift_C\<close> with the shift type as a number, and an amount of at least one except for
  a left shift; zero stands for 32, or for a rotation through the carry.\<close>

definition Shift_C :: "u32 \<Rightarrow> nat \<Rightarrow> u32 \<Rightarrow> bool \<Rightarrow> u32 \<times> bool" where
  "Shift_C ty n x c =
     (if n = 0 then (x, c)
      else if ty = 0 then (push_bit n x, n \<le> 32 \<and> bit x (32 - n))
      else if ty = 1 then (drop_bit n x, bit x (n - 1))
      else if ty = 2 then (signed_drop_bit n x, bit x (if n \<le> 32 then n - 1 else 31))
      else (word_rotr n x, bit (word_rotr n x) 31))"

definition ImmShift :: "u32 \<Rightarrow> u32 \<Rightarrow> u32 \<Rightarrow> bool \<Rightarrow> u32 \<times> bool" where
  "ImmShift ty imm5 x c =
     (if ty = 3 \<and> imm5 = 0 then (push_bit 31 (of_bool c) OR drop_bit 1 x, bit x 0)
      else Shift_C ty (if ty \<noteq> 0 \<and> imm5 = 0 then 32 else unat imm5) x c)"

definition alu :: "u32 \<Rightarrow> u32 \<Rightarrow> u32 \<Rightarrow> bool \<Rightarrow> a32 \<Rightarrow> u32 \<times> bool \<times> bool" where
  "alu op a b sc s =
     (if op = 0 \<or> op = 8 then (a AND b, sc, a32_V s)
      else if op = 1 \<or> op = 9 then (a XOR b, sc, a32_V s)
      else if op = 2 \<or> op = 10 then AddWithCarry a (NOT b) True
      else if op = 3 then AddWithCarry (NOT a) b True
      else if op = 4 \<or> op = 11 then AddWithCarry a b False
      else if op = 5 then AddWithCarry a b (a32_C s)
      else if op = 6 then AddWithCarry a (NOT b) (a32_C s)
      else if op = 7 then AddWithCarry (NOT a) b (a32_C s)
      else if op = 12 then (a OR b, sc, a32_V s)
      else if op = 13 then (b, sc, a32_V s)
      else if op = 14 then (a AND NOT b, sc, a32_V s)
      else (NOT b, sc, a32_V s))"

definition is_test :: "u32 \<Rightarrow> bool" where
  "is_test op \<longleftrightarrow> op = 8 \<or> op = 9 \<or> op = 10 \<or> op = 11"

definition dp_effect :: "u32 \<Rightarrow> bool \<Rightarrow> u32 \<Rightarrow> u32 \<Rightarrow> u32 \<Rightarrow> bool \<Rightarrow> a32 \<Rightarrow> a32" where
  "dp_effect op S rd rn b sc s =
     (case alu op (a32_reg s rn) b sc s of (res, c, v) \<Rightarrow>
        let s1 = (if is_test op then s else set_reg rd res s)
        in if S then s1\<lparr> a32_N := bit res 31, a32_Z := (res = 0), a32_C := c, a32_V := v \<rparr> else s1)"

definition dp :: "u32 \<Rightarrow> bool \<Rightarrow> u32 \<Rightarrow> u32 \<Rightarrow> u32 \<Rightarrow> bool \<Rightarrow> a32 \<Rightarrow> a32 option" where
  "dp op S rd rn b sc s =
     (if op \<noteq> 13 \<and> op \<noteq> 15 \<and> rn = 15 \<or> \<not> is_test op \<and> rd = 15 then None
      else Some (advance (dp_effect op S rd rn b sc s)))"

subsection \<open>Decoding and execution\<close>

definition count_leading_zeros :: "u32 \<Rightarrow> u32" where
  "count_leading_zeros x = of_nat (length (takeWhile (\<lambda>i. \<not> bit x i) (rev [0 ..< 32])))"

definition exec_misc :: "u32 \<Rightarrow> a32 \<Rightarrow> a32 option" where
  "exec_misc w s =
     (let rd = fld 12 4 w; rm = fld 0 4 w; x = a32_reg s rm in
      if rm = 15 then None
      else if fld 20 8 w = 0x16 \<and> fld 4 4 w = 1 then
        (if rd = 15 then None else Some (advance (set_reg rd (count_leading_zeros x) s)))
      else if fld 20 8 w = 0x12 \<and> fld 4 4 w = 1 then
        Some (s\<lparr> a32_pc := x AND NOT 1, a32_thumb := bit x 0 \<rparr>)
      else if fld 20 8 w = 0x12 \<and> fld 4 4 w = 3 then
        Some ((set_reg 14 (a32_pc s + 4) s)\<lparr> a32_pc := x AND NOT 1, a32_thumb := bit x 0 \<rparr>)
      else None)"

definition exec_mull :: "u32 \<Rightarrow> a32 \<Rightarrow> a32 option" where
  "exec_mull w s =
     (let rdhi = fld 16 4 w; rdlo = fld 12 4 w; rm = fld 8 4 w; rn = fld 0 4 w;
          a = a32_reg s rn; b = a32_reg s rm;
          p = (if fld 22 1 w = 1 then word_of_int (sint a * sint b)
               else word_of_int (uint a * uint b)) :: u64;
          s1 = set_reg rdlo (ucast p) (set_reg rdhi (ucast (drop_bit 32 p)) s)
      in if rdhi = 15 \<or> rdlo = 15 \<or> rm = 15 \<or> rn = 15 \<or> rdhi = rdlo then None
         else Some (advance (if fld 20 1 w = 1
                then s1\<lparr> a32_N := bit p 63, a32_Z := (p = 0) \<rparr> else s1)))"

definition exec_media :: "u32 \<Rightarrow> a32 \<Rightarrow> a32 option" where
  "exec_media w s =
     (let rd = fld 12 4 w; rn = fld 16 4 w; rm = fld 0 4 w; x = a32_reg s rm;
          lsb = unat (fld 7 5 w); hi5 = unat (fld 16 5 w) in
      if rd = 15 \<or> rm = 15 then None
      else if fld 20 8 w = 0x6a \<and> fld 4 6 w = 0x07 \<and> rn = 15 then Some (advance (set_reg rd (scast (ucast x :: 8 word)) s))
      else if fld 20 8 w = 0x6b \<and> fld 4 6 w = 0x07 \<and> rn = 15 then Some (advance (set_reg rd (scast (ucast x :: 16 word)) s))
      else if fld 20 8 w = 0x6f \<and> fld 4 6 w = 0x07 \<and> rn = 15 then Some (advance (set_reg rd (ucast (ucast x :: 16 word)) s))
      else if fld 20 8 w = 0x68 \<and> fld 4 3 w = 1 then
        (if rn = 15 then None
         else Some (advance (set_reg rd ((a32_reg s rn AND 0xffff) OR (push_bit lsb x AND 0xffff0000)) s)))
      else if fld 21 7 w = 0x3e \<and> fld 4 3 w = 1 then
        (if hi5 < lsb then None
         else Some (advance (set_reg rd ((a32_reg s rd AND NOT (push_bit lsb (mask (hi5 - lsb + 1)))) OR
                (push_bit lsb (take_bit (hi5 - lsb + 1) x))) s)))
      else if fld 21 7 w = 0x3f \<and> fld 4 3 w = 5 then
        (if 31 < lsb + hi5 then None else Some (advance (set_reg rd (take_bit (hi5 + 1) (drop_bit lsb x)) s)))
      else None)"

definition a32_body :: "u32 \<Rightarrow> a32 \<Rightarrow> a32 option" where
  "a32_body w s =
     (let op = fld 21 4 w; S = (fld 20 1 w = 1); rd = fld 12 4 w; rn = fld 16 4 w; rm = fld 0 4 w;
          imm16 = push_bit 12 (fld 16 4 w) OR fld 0 12 w in
      if fld 25 3 w = 1 then
        (if fld 20 5 w = 0x10 then (if rd = 15 then None else Some (advance (set_reg rd imm16 s)))
         else if fld 20 5 w = 0x14
         then (if rd = 15 then None
               else Some (advance (set_reg rd (push_bit 16 imm16 OR (a32_reg s rd AND 0xffff)) s)))
         else if fld 23 2 w = 2 \<and> \<not> S then None
         else dp op S rd rn (ARMExpandImm (fld 0 12 w)) (ImmCarry (fld 0 12 w) (a32_C s)) s)
      else if fld 25 3 w = 0 then
        (if fld 4 1 w = 1 \<and> fld 7 1 w = 1
         then (if fld 4 4 w = 9 \<and> (fld 21 7 w = 4 \<or> fld 21 7 w = 6) then exec_mull w s else None)
         else if fld 23 2 w = 2 \<and> \<not> S then exec_misc w s
         else if rm = 15 then None
         else if fld 4 1 w = 0
         then (case ImmShift (fld 5 2 w) (fld 7 5 w) (a32_reg s rm) (a32_C s) of (b, sc) \<Rightarrow> dp op S rd rn b sc s)
         else if fld 8 4 w = 15 then None
         else (case Shift_C (fld 5 2 w) (unat (a32_reg s (fld 8 4 w) AND 0xff)) (a32_reg s rm) (a32_C s) of
                 (b, sc) \<Rightarrow> dp op S rd rn b sc s))
      else if fld 25 3 w = 3 \<and> fld 4 1 w = 1 then exec_media w s
      else None)"

definition a32_exec :: "u32 \<Rightarrow> a32 \<Rightarrow> a32 option" where
  "a32_exec w s =
     (if fld 28 4 w = 15 then None
      else if cond_passed (fld 28 4 w) s then a32_body w s
      else Some (advance s))"

fun exec_all :: "u32 list \<Rightarrow> a32 \<Rightarrow> a32 option" where
  "exec_all [] s = Some s"
| "exec_all (w # ws) s = (case a32_exec w s of None \<Rightarrow> None | Some s' \<Rightarrow> exec_all ws s')"

lemma exec_all_1 [simp]: "exec_all [w] s = a32_exec w s"
  by (simp split: option.split)

end
