(* ===== verification/A32_Correct.thy ===== *)
theory A32_Correct
  imports A32_Machine A32_Sink
begin

text \<open>
  The integer emitters against the machine of \<open>A32_Machine\<close>. First the words the encoders
  build are decoded and executed; then each emitter that reports success is shown to have
  appended a sequence whose execution has exactly the intended effect (\<open>compiled\<close>), whichever
  of its encodings it chose: the complemented opcode of an immediate that is not encodable, a
  wide move, or nothing at all for a write that changes nothing.
\<close>

subsection \<open>Decoding the data-processing words\<close>

definition dp_opcodes :: "(u32 \<times> u32) list" where
  "dp_opcodes = [(OPCODE_AND, 0), (OPCODE_EOR, 1), (OPCODE_SUB, 2), (OPCODE_RSB, 3), (OPCODE_ADD, 4),
     (OPCODE_ADC, 5), (OPCODE_SBC, 6), (OPCODE_RSC, 7), (OPCODE_TST, 8), (OPCODE_CMP, 10), (OPCODE_CMN, 11),
     (OPCODE_ORR, 12), (OPCODE_MOV, 13), (OPCODE_BIC, 14), (OPCODE_MVN, 15)]"

lemmas opcode_defs = OPCODE_AND_def OPCODE_EOR_def OPCODE_SUB_def OPCODE_RSB_def OPCODE_ADD_def OPCODE_ADC_def
  OPCODE_SBC_def OPCODE_RSC_def OPCODE_TST_def OPCODE_CMP_def OPCODE_CMN_def OPCODE_ORR_def OPCODE_MOV_def
  OPCODE_BIC_def OPCODE_MVN_def

lemma dp_opcode_fields:
  assumes "(opcode, op) \<in> set dp_opcodes"
  shows "fld 28 4 opcode = 0" "fld 25 3 opcode = 0" "fld 21 4 opcode = op" "fld 20 1 opcode = 0"
    "fld 12 4 opcode = 0" "fld 16 4 opcode = 0" "fld 0 12 opcode = 0" "fld 20 5 opcode = push_bit 1 op"
    "fld 23 2 opcode = 2 \<longleftrightarrow> is_test op" "fld 0 4 opcode = 0" "fld 4 1 opcode = 0" "fld 5 2 opcode = 0"
    "fld 7 5 opcode = 0" "fld 7 1 opcode = 0" "fld 8 4 opcode = 0" "op < 16"
  using assms unfolding dp_opcodes_def
  by (auto simp: opcode_defs fld_numeral is_test_def)

lemma dp_opcode_wide:
  assumes "(opcode, op) \<in> set dp_opcodes" "is_test op \<longrightarrow> S"
  shows "push_bit 1 op OR (if S then 1 else 0) \<noteq> (16 :: u32)" "push_bit 1 op OR (if S then 1 else 0) \<noteq> (20 :: u32)"
  using assms unfolding dp_opcodes_def by (auto simp: is_test_def)

lemmas dp_fields = fld_simps dp_imm_def CondBits_def DATA_PROCESSING_IMM_def SET_FLAGS_def

lemma exec_dp_imm:
  assumes "(opcode, op) \<in> set dp_opcodes" "is_test op \<longrightarrow> S" "e < 4096" "rd < 16" "rn < 16"
  shows "a32_exec (dp_imm c opcode S rn rd e) s =
    (if holds c s then dp op S rd rn (ARMExpandImm e) (ImmCarry e (a32_C s)) s else Some (advance s))"
proof -
  let ?w = "dp_imm c opcode S rn rd e"
  note o = dp_opcode_fields [OF assms(1)] and o2 = dp_opcode_wide [OF assms(1,2)]
  have f: "fld 28 4 ?w = ConditionVal c" "fld 25 3 ?w = 1" "fld 21 4 ?w = op" "(fld 20 1 ?w = 1) = S"
    "fld 12 4 ?w = rd AND 15" "fld 16 4 ?w = rn AND 15" "fld 0 12 ?w = e"
    "fld 20 5 ?w = push_bit 1 op OR (if S then 1 else 0)" "fld 23 2 ?w = fld 23 2 opcode"
    using assms(3) by (simp_all add: o o [unfolded One_nat_def] dp_fields del: push_bit_and)
  show ?thesis unfolding a32_exec_def a32_body_def Let_def f using o2 assms(2,4,5) o(9) by (auto simp: word_and_15_id)
qed

subsection \<open>The complement of an immediate\<close>

lemma AddWithCarry_complement:
  assumes "v \<noteq> 0" "v \<noteq> 0x80000000"
  shows "AddWithCarry x (NOT (- v)) True = AddWithCarry x v False"
proof -
  have n: "NOT (- v) = v - 1" by (simp add: not_eq_complement)
  have "unat (v - 1) = unat v - 1" using assms(1) by (simp add: unat_minus_one)
  moreover have "0 < unat v" using assms(1) by (simp add: unat_gt_0)
  ultimately have u: "unat (v - 1) + 1 = unat v" by simp
  have r: "- (2 ^ 31) \<le> sint v" "sint v < 2 ^ 31" using sint_ge [of v] sint_lt [of v] by simp_all
  have "sint v \<noteq> - (2 ^ 31)"
  proof
    assume "sint v = - (2 ^ 31)"
    then have "word_of_int (sint v) = (word_of_int (- (2 ^ 31)) :: u32)" by simp
    with assms(2) show False by simp
  qed
  then have s: "sint (v - 1) + 1 = sint v"
    using r by (simp add: sint_word_ariths signed_take_bit_int_eq_self)
  have "unat x + unat (v - 1) + 1 = unat x + unat v" "sint x + sint (v - 1) + 1 = sint x + sint v"
    using u s by simp_all
  then show ?thesis unfolding AddWithCarry_def n Let_def by (simp add: add.assoc; linarith)
qed

lemma not_encodable:
  assumes "EncodeModifiedImmediate v = None"
  shows "v \<noteq> 0" "v \<noteq> 0x80000000"
proof -
  have "ARMExpandImm 0 = 0" "ARMExpandImm 0x102 = 0x80000000"
    by (simp_all add: ARMExpandImm_def word32_bitwise bit_word_rotr_iff)
  with EncodeModifiedImmediate_complete [OF assms] show "v \<noteq> 0" "v \<noteq> 0x80000000" by metis+
qed

lemma neg_ne: "v \<noteq> 0 \<Longrightarrow> - v \<noteq> (0 :: u32)" "v \<noteq> 0x80000000 \<Longrightarrow> - v \<noteq> (0x80000000 :: u32)"
proof -
  show "- v \<noteq> 0x80000000" if "v \<noteq> 0x80000000"
  proof
    assume "- v = 0x80000000"
    then have "v = - 0x80000000" by (metis add.inverse_inverse)
    with that show False by simp
  qed
qed simp

lemma AddWithCarry_NOT:
  assumes "v \<noteq> 0" "v \<noteq> 0x80000000"
  shows "AddWithCarry x (- v) False = AddWithCarry x (NOT v) True"
  using AddWithCarry_complement [OF neg_ne(1) [OF assms(1)] neg_ne(2) [OF assms(2)], of x] by simp

subsection \<open>What an emitted sequence does\<close>

definition executes :: "u32 list \<Rightarrow> (a32 \<Rightarrow> a32) \<Rightarrow> bool" where
  "executes ws f \<longleftrightarrow> (\<forall>s. exec_all ws s = Some ((advance ^^ length ws) (f s)))"

lemma executes_Nil: "executes [] f \<longleftrightarrow> (\<forall>s. f s = s)"
  by (auto simp: executes_def)

lemma executes_1: "executes [w] f \<longleftrightarrow> (\<forall>s. a32_exec w s = Some (advance (f s)))"
  by (simp add: executes_def del: exec_all.simps)

lemma emitted_1:
  assumes "cb_inv tid j" "EmitU32 w j = Returns (True, j')"
  shows "buf_words j' = buf_words j @ [w]"
  using cb.emit_out [OF assms] by simp

lemma dp_imm_executes:
  assumes "EncodeModifiedImmediate v = Some e" "(opcode, op) \<in> set dp_opcodes" "is_test op \<longrightarrow> S" "rd < 15" "rn < 15"
  shows "\<exists>sc. executes [dp_imm c opcode S rn rd e] (\<lambda>s. if holds c s then dp_effect op S rd rn v (sc s) s else s)"
proof -
  have "rd < 16" "rn < 16" "rd \<noteq> 15" "rn \<noteq> 15" using assms(4,5) by (auto intro: order.strict_trans)
  with exec_dp_imm [OF assms(2,3) EncodeModifiedImmediate_sound(1) [OF assms(1)]] EncodeModifiedImmediate_sound(2) [OF assms(1)]
  have "executes [dp_imm c opcode S rn rd e] (\<lambda>s. if holds c s then dp_effect op S rd rn v (ImmCarry e (a32_C s)) s else s)"
    by (simp add: executes_1 dp_def)
  then show ?thesis by (rule exI [where x = "\<lambda>s. ImmCarry e (a32_C s)"])
qed

lemma arith_carry_irrelevant:
  "op \<in> {2, 3, 4, 5, 6, 7, 10, 11} \<Longrightarrow> dp_effect op S rd rn v sc s = dp_effect op S rd rn v sc' s"
  by (elim insertE emptyE) (simp_all add: dp_effect_def alu_def)

lemma dp_imm_arith:
  assumes "EncodeModifiedImmediate v = Some e" "(opcode, op) \<in> set dp_opcodes" "is_test op \<longrightarrow> S" "rd < 15" "rn < 15"
    "op \<in> {2, 3, 4, 5, 6, 7, 10, 11}"
  shows "executes [dp_imm c opcode S rn rd e] (\<lambda>s. if holds c s then dp_effect op S rd rn v sc s else s)"
proof -
  obtain sc' where *: "executes [dp_imm c opcode S rn rd e] (\<lambda>s. if holds c s then dp_effect op S rd rn v (sc' s) s else s)"
    using dp_imm_executes [OF assms(1-5)] by blast
  have "dp_effect op S rd rn v (sc' s) s = dp_effect op S rd rn v sc s" for s
    by (rule arith_carry_irrelevant [OF assms(6)])
  with * show ?thesis by (simp only:)
qed

subsection \<open>Arithmetic with a 32-bit immediate\<close>

definition arith_imm_emitters :: "(u32 \<times> (u32 \<Rightarrow> u32 \<Rightarrow> u32 \<Rightarrow> bool \<Rightarrow> bool jitm)) list" where
  "arith_imm_emitters = [(4, EmitAddImm32), (2, EmitSubImm32), (3, EmitRsbImm32), (7, EmitRscImm32),
     (5, EmitAdcImm32), (6, EmitSbcImm32)]"

lemma dp_effect_same_alu:
  "alu op a b sc s = alu op' a b' sc' s \<Longrightarrow> a = a32_reg s rn \<Longrightarrow> is_test op = is_test op' \<Longrightarrow>
   dp_effect op S rd rn b sc s = dp_effect op' S rd rn b' sc' s"
  by (simp add: dp_effect_def)

lemma add_sub_effect:
  assumes "EncodeModifiedImmediate v = None"
  shows "dp_effect 2 S rd rn (- v) sc s = dp_effect 4 S rd rn v sc s"
    "dp_effect 4 S rd rn (- v) sc s = dp_effect 2 S rd rn v sc s"
    "dp_effect 11 S rd rn (- v) sc s = dp_effect 10 S rd rn v sc s"
  using AddWithCarry_complement [OF not_encodable [OF assms]] AddWithCarry_NOT [OF not_encodable [OF assms]]
  by (simp_all add: dp_effect_def alu_def is_test_def)

lemma adc_sbc_effect:
  "dp_effect 6 S rd rn (NOT v) sc s = dp_effect 5 S rd rn v sc s"
  "dp_effect 5 S rd rn (NOT v) sc s = dp_effect 6 S rd rn v sc s"
  by (simp_all add: dp_effect_def alu_def is_test_def)

lemma zero_effect:
  "dp_effect 4 False rd rd 0 sc s = s" "dp_effect 2 False rd rd 0 sc s = s"
  by (simp_all add: dp_effect_def alu_def is_test_def AddWithCarry_def set_reg_def Let_def)

lemma opcode_members [simp]:
  "(OPCODE_AND, 0) \<in> set dp_opcodes" "(OPCODE_EOR, 1) \<in> set dp_opcodes" "(OPCODE_SUB, 2) \<in> set dp_opcodes"
  "(OPCODE_RSB, 3) \<in> set dp_opcodes" "(OPCODE_ADD, 4) \<in> set dp_opcodes" "(OPCODE_ADC, 5) \<in> set dp_opcodes"
  "(OPCODE_SBC, 6) \<in> set dp_opcodes" "(OPCODE_RSC, 7) \<in> set dp_opcodes" "(OPCODE_TST, 8) \<in> set dp_opcodes"
  "(OPCODE_CMP, 10) \<in> set dp_opcodes" "(OPCODE_CMN, 11) \<in> set dp_opcodes" "(OPCODE_ORR, 12) \<in> set dp_opcodes"
  "(OPCODE_MOV, 13) \<in> set dp_opcodes" "(OPCODE_BIC, 14) \<in> set dp_opcodes" "(OPCODE_MVN, 15) \<in> set dp_opcodes"
  by (simp_all add: dp_opcodes_def)

definition compiled :: "jit \<Rightarrow> jit \<Rightarrow> (a32 \<Rightarrow> a32) \<Rightarrow> bool" where
  "compiled j j' f \<longleftrightarrow> (\<exists>ws. buf_words j' = buf_words j @ ws \<and> executes ws f)"

lemma compiled_refl: "(\<And>s. f s = s) \<Longrightarrow> compiled j j f"
  by (auto simp: compiled_def executes_Nil)

lemma compiled_1:
  assumes "cb_inv tid j" "EmitU32 w j = Returns (True, j')" "executes [w] f" "\<And>s. f s = g s"
  shows "compiled j j' g"
  using emitted_1 [OF assms(1,2)] assms(3,4) by (auto simp: compiled_def executes_def)

text \<open>The choice the immediate emitters make: the opcode with the immediate if it is
  encodable, else the complementary opcode with the complemented immediate.\<close>

lemma select_imm:
  assumes inv: "cb_inv tid j" and r: "rd < 15" "rn < 15"
    and e: "(case EncodeModifiedImmediate v of
        None \<Rightarrow> (case alt of None \<Rightarrow> jret False j | Some e \<Rightarrow> EmitU32 (dp_imm c opc' S rn rd e) j)
      | Some e \<Rightarrow> EmitU32 (dp_imm c opc S rn rd e) j) = Returns (True, j')"
    and alt: "alt = None \<or> alt = EncodeModifiedImmediate u"
    and ops: "(opc, op) \<in> set dp_opcodes" "(opc', op') \<in> set dp_opcodes" "is_test op \<longrightarrow> S" "is_test op' \<longrightarrow> S"
    and same: "\<And>sc s. EncodeModifiedImmediate v = None \<Longrightarrow> alt \<noteq> None \<Longrightarrow>
      dp_effect op' S rd rn u sc s = dp_effect op S rd rn v sc s"
  shows "\<exists>sc. compiled j j' (\<lambda>s. if holds c s then dp_effect op S rd rn v (sc s) s else s)"
proof (cases "EncodeModifiedImmediate v")
  case (Some e1)
  with e have "EmitU32 (dp_imm c opc S rn rd e1) j = Returns (True, j')" by simp
  note em = this
  obtain sc where "executes [dp_imm c opc S rn rd e1] (\<lambda>s. if holds c s then dp_effect op S rd rn v (sc s) s else s)"
    using dp_imm_executes [OF Some ops(1,3) r] by blast
  from compiled_1 [OF inv em this] show ?thesis by (intro exI [of _ sc]) simp
next
  case None
  with e alt obtain e2 where e2: "alt = Some e2" "EncodeModifiedImmediate u = Some e2"
    "EmitU32 (dp_imm c opc' S rn rd e2) j = Returns (True, j')" by (cases alt) auto
  obtain sc where "executes [dp_imm c opc' S rn rd e2] (\<lambda>s. if holds c s then dp_effect op' S rd rn u (sc s) s else s)"
    using dp_imm_executes [OF e2(2) ops(2,4) r] by blast
  from compiled_1 [OF inv e2(3) this, of "\<lambda>s. if holds c s then dp_effect op S rd rn v (sc s) s else s"]
    same [OF None] e2(1) show ?thesis by auto
qed

lemma compiled_arith:
  assumes "\<exists>sc. compiled j j' (\<lambda>s. if holds c s then dp_effect op S rd rn v (sc s) s else s)"
    "op \<in> {2, 3, 4, 5, 6, 7, 10, 11}"
  shows "compiled j j' (\<lambda>s. if holds c s then dp_effect op S rd rn v False s else s)"
proof -
  from assms(1) obtain sc where *: "compiled j j' (\<lambda>s. if holds c s then dp_effect op S rd rn v (sc s) s else s)" ..
  have "dp_effect op S rd rn v (sc s) s = dp_effect op S rd rn v False s" for s
    by (rule arith_carry_irrelevant [OF assms(2)])
  with * show ?thesis by (simp only:)
qed

lemma arith_imm32:
  assumes inv: "cb_inv tid j" and em: "(op, emit) \<in> set arith_imm_emitters" and r: "rd < 15" "rn < 15"
    and e: "emit rd rn v S j = Returns (True, j')"
  shows "compiled j j' (dp_effect op S rd rn v False)"
proof -
  note sel = select_imm [where c = AL, OF inv r]
  have fin: "op \<in> {2, 3, 4, 5, 6, 7, 10, 11} \<Longrightarrow>
      \<exists>sc. compiled j j' (\<lambda>s. if holds AL s then dp_effect op S rd rn v (sc s) s else s) \<Longrightarrow> ?thesis"
    using compiled_arith [where c = AL] by simp
  from em consider (add) "op = 4" "emit = EmitAddImm32" | (sub) "op = 2" "emit = EmitSubImm32"
    | (rsb) "op = 3" "emit = EmitRsbImm32" | (rsc) "op = 7" "emit = EmitRscImm32"
    | (adc) "op = 5" "emit = EmitAdcImm32" | (sbc) "op = 6" "emit = EmitSbcImm32"
    by (auto simp: arith_imm_emitters_def)
  then show ?thesis
  proof cases
    case add
    show ?thesis
    proof (cases "\<not> S \<and> v = 0 \<and> CanElideSameRegisterWrite rd rn")
      case True
      with e add show ?thesis
        by (auto simp: EmitAddImm32_def CanElideSameRegisterWrite_def zero_effect intro!: compiled_refl split: if_splits)
    next
      case False
      show ?thesis
        by (rule fin, simp add: add, rule sel [where opc = OPCODE_ADD and opc' = OPCODE_SUB and alt = "EncodeModifiedImmediate (0 - v)" and u = "- v" and op' = 2])
           (use e add False add_sub_effect(1) in \<open>auto simp: EmitAddImm32_def is_test_def split: if_splits\<close>)
    qed
  next
    case sub
    show ?thesis
    proof (cases "\<not> S \<and> v = 0 \<and> CanElideSameRegisterWrite rd rn")
      case True
      with e sub show ?thesis
        by (auto simp: EmitSubImm32_def CanElideSameRegisterWrite_def zero_effect intro!: compiled_refl split: if_splits)
    next
      case False
      show ?thesis
        by (rule fin, simp add: sub, rule sel [where opc = OPCODE_SUB and opc' = OPCODE_ADD and alt = "EncodeModifiedImmediate (0 - v)" and u = "- v" and op' = 4])
           (use e sub False add_sub_effect(2) in \<open>auto simp: EmitSubImm32_def is_test_def split: if_splits\<close>)
    qed
  next
    case rsb
    show ?thesis
      by (rule fin, simp add: rsb, rule sel [where opc = OPCODE_RSB and opc' = OPCODE_RSB and alt = None and u = v and op' = 3])
         (use e rsb in \<open>auto simp: EmitRsbImm32_def is_test_def split: if_splits option.splits\<close>)
  next
    case rsc
    show ?thesis
      by (rule fin, simp add: rsc, rule sel [where opc = OPCODE_RSC and opc' = OPCODE_RSC and alt = None and u = v and op' = 7])
         (use e rsc in \<open>auto simp: EmitRscImm32_def is_test_def split: if_splits option.splits\<close>)
  next
    case adc
    show ?thesis
      by (rule fin, simp add: adc, rule sel [where opc = OPCODE_ADC and opc' = OPCODE_SBC and alt = "EncodeModifiedImmediate (NOT v)" and u = "NOT v" and op' = 6])
         (use e adc adc_sbc_effect in \<open>auto simp: EmitAdcImm32_def is_test_def split: if_splits\<close>)
  next
    case sbc
    show ?thesis
      by (rule fin, simp add: sbc, rule sel [where opc = OPCODE_SBC and opc' = OPCODE_ADC and alt = "EncodeModifiedImmediate (NOT v)" and u = "NOT v" and op' = 5])
         (use e sbc adc_sbc_effect in \<open>auto simp: EmitSbcImm32_def is_test_def split: if_splits\<close>)
  qed
qed


subsection \<open>Logic, comparison and moves with a 32-bit immediate\<close>

definition logic_imm_emitters :: "(u32 \<times> Condition \<times> (u32 \<Rightarrow> u32 \<Rightarrow> u32 \<Rightarrow> bool \<Rightarrow> bool jitm)) list" where
  "logic_imm_emitters = [(0, AL, EmitAndImm32), (1, AL, EmitEorImm32)] @
     map (\<lambda>c. (14, c, \<lambda>rd rn v S. EmitBicImm32 rd rn v S c)) [EQ, NE, CS, CC, MI, PL, VS, VC, HI, LS, GE, LT, GT, LE, AL] @
     map (\<lambda>c. (12, c, \<lambda>rd rn v S. EmitOrrImm32 rd rn v S c)) [EQ, NE, CS, CC, MI, PL, VS, VC, HI, LS, GE, LT, GT, LE, AL]"

lemma all_ones [simp]: "x AND 0xffffffff = (x :: u32)" "x XOR 0xffffffff = NOT (x :: u32)"
  by (simp_all add: word32_bitwise bit_simps)

lemma logic_effects:
  "dp_effect 14 False rd rn (NOT v) sc s = dp_effect 0 False rd rn v sc s"
  "dp_effect 0 False rd rn (NOT v) sc s = dp_effect 14 False rd rn v sc s"
  "dp_effect 0 False rd rd 0xffffffff sc s = s" "dp_effect 14 False rd rd 0 sc s = s"
  "dp_effect 12 False rd rd 0 sc s = s" "dp_effect 1 False rd rd 0 sc s = s"
  "dp_effect 15 False rd rn' (a32_reg s rn) sc s = dp_effect 1 False rd rn 0xffffffff sc s"
  "dp_effect 13 False rd rn v sc s = set_reg rd v s" "dp_effect 15 False rd rn (NOT v) sc s = set_reg rd v s"
  by (simp_all add: dp_effect_def alu_def is_test_def set_reg_def Let_def)

lemma exec_dp_reg:
  assumes "(opcode, op) \<in> set dp_opcodes" "is_test op \<longrightarrow> S" "rd < 16" "rn < 16" "rm < 15"
  shows "a32_exec (EncodeDataProcessingRegShiftImm opcode rd rn rm shift amount S c) s =
    (if holds c s then case ImmShift (ShiftTypeVal shift) (ucast amount AND 31) (a32_reg s rm) (a32_C s) of
       (b, sc) \<Rightarrow> dp op S rd rn b sc s else Some (advance s))"
proof -
  let ?w = "EncodeDataProcessingRegShiftImm opcode rd rn rm shift amount S c"
  note o = dp_opcode_fields [OF assms(1)]
  have sh: "ShiftTypeVal shift AND 3 = ShiftTypeVal shift" by (cases shift) simp_all
  have f: "fld 28 4 ?w = ConditionVal c" "fld 25 3 ?w = 0" "fld 21 4 ?w = op" "(fld 20 1 ?w = 1) = S"
    "fld 12 4 ?w = rd AND 15" "fld 16 4 ?w = rn AND 15" "fld 0 4 ?w = rm AND 15"
    "fld 5 2 ?w = ShiftTypeVal shift AND 3" "fld 7 5 ?w = ucast amount AND 31" "fld 4 1 ?w = 0" "fld 23 2 ?w = fld 23 2 opcode"
    by (simp_all add: o o [unfolded One_nat_def] fld_simps EncodeDataProcessingRegShiftImm_def CondBits_def SET_FLAGS_def
        del: push_bit_and)
  have rm: "rm < 16" "rm \<noteq> 15" using assms(5) by (auto intro: order.strict_trans)
  show ?thesis unfolding a32_exec_def a32_body_def Let_def f using assms(2-4) rm o(9) by (auto simp: word_and_15_id sh)
qed

text \<open>The register forms are the shifted forms with a left shift by nothing.\<close>

lemma EncodeReg_shift:
  "EncodeAddReg rd rn rm S = EncodeDataProcessingRegShiftImm OPCODE_ADD rd rn rm LSL 0 S AL"
  "EncodeAdcReg rd rn rm S = EncodeDataProcessingRegShiftImm OPCODE_ADC rd rn rm LSL 0 S AL"
  "EncodeAndReg rd rn rm S = EncodeDataProcessingRegShiftImm OPCODE_AND rd rn rm LSL 0 S AL"
  "EncodeEorReg rd rn rm S = EncodeDataProcessingRegShiftImm OPCODE_EOR rd rn rm LSL 0 S AL"
  "EncodeOrrReg rd rn rm S = EncodeDataProcessingRegShiftImm OPCODE_ORR rd rn rm LSL 0 S AL"
  "EncodeSubReg rd rn rm S = EncodeDataProcessingRegShiftImm OPCODE_SUB rd rn rm LSL 0 S AL"
  "EncodeSbcReg rd rn rm S = EncodeDataProcessingRegShiftImm OPCODE_SBC rd rn rm LSL 0 S AL"
  "EncodeMvnReg rd rm S = EncodeDataProcessingRegShiftImm OPCODE_MVN rd 0 rm LSL 0 S AL"
  "EncodeCmpReg rn rm c = EncodeDataProcessingRegShiftImm OPCODE_CMP 0 rn rm LSL 0 True c"
  "EncodeMovRegShiftImm rd rm shift amount S c = EncodeDataProcessingRegShiftImm OPCODE_MOV rd 0 rm shift amount S c"
  unfolding EncodeAddReg_def EncodeAdcReg_def EncodeAndReg_def EncodeEorReg_def EncodeOrrReg_def EncodeSubReg_def
    EncodeSbcReg_def EncodeMvnReg_def EncodeCmpReg_def EncodeMovRegShiftImm_def EncodeDataProcessingRegShiftImm_def
  by (simp_all add: or.assoc)

lemma ImmShift_LSL_0 [simp]: "ImmShift 0 0 x c = (x, c)"
  by (simp add: ImmShift_def Shift_C_def)

lemma dp_reg_executes:
  assumes "(opcode, op) \<in> set dp_opcodes" "is_test op \<longrightarrow> S" "rd < 15" "rn < 15" "rm < 15" "amount \<le> 31"
  shows "executes [EncodeDataProcessingRegShiftImm opcode rd rn rm shift amount S c]
    (\<lambda>s. if holds c s then case ImmShift (ShiftTypeVal shift) (ucast amount) (a32_reg s rm) (a32_C s) of
       (b, sc) \<Rightarrow> dp_effect op S rd rn b sc s else s)"
proof -
  have "rd < 16" "rn < 16" "rd \<noteq> 15" "rn \<noteq> 15" using assms(3,4) by (auto intro: order.strict_trans)
  moreover have "unat amount < 256" using unsigned_less [of amount] by simp
  then have "unat (ucast amount :: u32) = unat amount" by (simp add: unsigned_ucast_eq take_bit_nat_eq_self)
  then have "(ucast amount :: u32) < 32" using assms(6) by (simp add: word_less_nat_alt word_le_nat_alt)
  then have "ucast amount AND 31 = (ucast amount :: u32)" by (rule word_and_31_id)
  ultimately show ?thesis using exec_dp_reg [OF assms(1,2) _ _ assms(5)]
    by (simp add: executes_1 dp_def split: prod.split)
qed

lemma EmitU32_dp_reg:
  assumes "cb_inv tid j" "EmitU32 (EncodeDataProcessingRegShiftImm opcode rd rn rm shift amount S c) j = Returns (True, j')"
    "(opcode, op) \<in> set dp_opcodes" "is_test op \<longrightarrow> S" "rd < 15" "rn < 15" "rm < 15" "amount \<le> 31"
  shows "compiled j j' (\<lambda>s. if holds c s then case ImmShift (ShiftTypeVal shift) (ucast amount) (a32_reg s rm) (a32_C s) of
       (b, sc) \<Rightarrow> dp_effect op S rd rn b sc s else s)"
  by (rule compiled_1 [OF assms(1,2) dp_reg_executes [OF assms(3-8)]]) simp

text \<open>Logic with an immediate.\<close>

lemma logic_imm32:
  assumes inv: "cb_inv tid j" and em: "(op, c, emit) \<in> set logic_imm_emitters" and r: "rd < 15" "rn < 15"
    and e: "emit rd rn v S j = Returns (True, j')"
  shows "\<exists>sc. compiled j j' (\<lambda>s. if holds c s then dp_effect op S rd rn v (sc s) s else s)"
proof -
  note sel = select_imm [where c = c, OF inv r]
  have noop: "\<exists>sc. compiled j j (\<lambda>s. if holds c s then dp_effect op S rd rn v (sc s) s else s)"
    if "\<And>sc s. dp_effect op S rd rn v sc s = s" using that by (auto intro!: compiled_refl)
  from em consider (a) "op = 0" "c = AL" "emit = EmitAndImm32" | (x) "op = 1" "c = AL" "emit = EmitEorImm32"
    | (b) "op = 14" "emit = (\<lambda>rd rn v S. EmitBicImm32 rd rn v S c)" | (r) "op = 12" "emit = (\<lambda>rd rn v S. EmitOrrImm32 rd rn v S c)"
    by (auto simp: logic_imm_emitters_def)
  then show ?thesis
  proof cases
    case a
    show ?thesis
    proof (cases "\<not> S \<and> v = 0xffffffff \<and> CanElideSameRegisterWrite rd rn")
      case True
      with e a have "j' = j" by (auto simp: EmitAndImm32_def split: if_splits)
      with True noop show ?thesis by (simp add: a logic_effects CanElideSameRegisterWrite_def)
    next
      case False
      with e a have e': "(case EncodeModifiedImmediate v of
          None \<Rightarrow> (case (if S then None else EncodeModifiedImmediate (NOT v)) of None \<Rightarrow> jret False j
            | Some e \<Rightarrow> EmitU32 (dp_imm c OPCODE_BIC S rn rd e) j)
        | Some e \<Rightarrow> EmitU32 (dp_imm c OPCODE_AND S rn rd e) j) = Returns (True, j')"
        by (auto simp: EmitAndImm32_def split: if_splits option.splits)
      show ?thesis
        by (rule sel [OF e', where u = "NOT v" and op' = 14]) (simp_all add: a is_test_def logic_effects split: if_splits)
    qed
  next
    case b
    show ?thesis
    proof (cases "\<not> S \<and> v = 0 \<and> CanElideSameRegisterWrite rd rn")
      case True
      with e b have "j' = j" by (auto simp: EmitBicImm32_def split: if_splits)
      with True noop show ?thesis by (simp add: b logic_effects CanElideSameRegisterWrite_def)
    next
      case False
      with e b have e': "(case EncodeModifiedImmediate v of
          None \<Rightarrow> (case (if S then None else EncodeModifiedImmediate (NOT v)) of None \<Rightarrow> jret False j
            | Some e \<Rightarrow> EmitU32 (dp_imm c OPCODE_AND S rn rd e) j)
        | Some e \<Rightarrow> EmitU32 (dp_imm c OPCODE_BIC S rn rd e) j) = Returns (True, j')"
        by (auto simp: EmitBicImm32_def split: if_splits option.splits)
      show ?thesis
        by (rule sel [OF e', where u = "NOT v" and op' = 0]) (simp_all add: b is_test_def logic_effects split: if_splits)
    qed
  next
    case r
    show ?thesis
    proof (cases "\<not> S \<and> v = 0 \<and> CanElideSameRegisterWrite rd rn")
      case True
      with e r have "j' = j" by (auto simp: EmitOrrImm32_def split: if_splits)
      with True noop show ?thesis by (simp add: r logic_effects CanElideSameRegisterWrite_def)
    next
      case False
      with e r have e': "(case EncodeModifiedImmediate v of
          None \<Rightarrow> (case None of None \<Rightarrow> jret False j | Some e \<Rightarrow> EmitU32 (dp_imm c OPCODE_ORR S rn rd e) j)
        | Some e \<Rightarrow> EmitU32 (dp_imm c OPCODE_ORR S rn rd e) j) = Returns (True, j')"
        by (auto simp: EmitOrrImm32_def split: if_splits option.splits)
      show ?thesis
        by (rule sel [OF e', where u = v and op' = 12]) (simp_all add: r is_test_def)
    qed
  next
    case x
    consider (elide) "\<not> S \<and> v = 0 \<and> CanElideSameRegisterWrite rd rn" | (mvn) "\<not> S \<and> v = 0xffffffff"
      | (imm) "\<not> (\<not> S \<and> v = 0 \<and> CanElideSameRegisterWrite rd rn)" "\<not> (\<not> S \<and> v = 0xffffffff)" by blast
    then show ?thesis
    proof cases
      case elide
      with e x have "j' = j" by (auto simp: EmitEorImm32_def split: if_splits)
      with elide noop show ?thesis by (simp add: x logic_effects CanElideSameRegisterWrite_def)
    next
      case mvn
      with e x have "EmitU32 (EncodeDataProcessingRegShiftImm OPCODE_MVN rd 0 rn LSL 0 False AL) j = Returns (True, j')"
        by (auto simp: EmitEorImm32_def EmitMvnReg_def EncodeReg_shift split: if_splits)
      from EmitU32_dp_reg [OF inv this, of 15] r mvn x show ?thesis
        by (auto simp: is_test_def logic_effects)
    next
      case imm
      with e x have e': "(case EncodeModifiedImmediate v of
          None \<Rightarrow> (case None of None \<Rightarrow> jret False j | Some e \<Rightarrow> EmitU32 (dp_imm c OPCODE_EOR S rn rd e) j)
        | Some e \<Rightarrow> EmitU32 (dp_imm c OPCODE_EOR S rn rd e) j) = Returns (True, j')"
        by (auto simp: EmitEorImm32_def split: if_splits option.splits)
      show ?thesis
        by (rule sel [OF e', where u = v and op' = 1]) (simp_all add: x is_test_def)
    qed
  qed
qed

subsection \<open>Moves\<close>

lemma wide_fields:
  fixes opcode :: u32 and v :: u16 and c :: Condition
  assumes "opcode \<in> {MOVW, MOVT}" "rd < 16"
  defines "w \<equiv> CondBits c OR opcode OR push_bit 4 (ucast v AND 0xf000) OR push_bit 12 (rd AND 0xf) OR (ucast v AND 0x0fff)"
  shows "fld 28 4 w = ConditionVal c" "fld 25 3 w = 1" "fld 12 4 w = rd" "fld 20 5 w = fld 20 5 opcode"
    "push_bit 12 (fld 16 4 w) OR fld 0 12 w = ucast v"
proof -
  have b: "\<And>i. 4 \<le> i \<Longrightarrow> \<not> bit rd i" using word_less_16_bits assms(2) by blast
  have "ConditionVal c < 16" by (cases c) simp_all
  then have cb: "\<And>i. 4 \<le> i \<Longrightarrow> \<not> bit (ConditionVal c) i" using word_less_16_bits by blast
  from assms(1) consider "opcode = 0x03000000" | "opcode = 0x03400000" by (auto simp: MOVW_def MOVT_def)
  then show "fld 28 4 w = ConditionVal c" "fld 25 3 w = 1" "fld 12 4 w = rd" "fld 20 5 w = fld 20 5 opcode"
    "push_bit 12 (fld 16 4 w) OR fld 0 12 w = ucast v"
    using b cb unfolding w_def by (cases; simp add: word32_bitwise fld_def CondBits_def bit_simps)+
qed

lemma exec_movw:
  assumes "rd < 15"
  shows "a32_exec (EncodeMovw rd v c) s = Some (advance (if holds c s then set_reg rd (ucast v) s else s))"
    "a32_exec (EncodeMovt rd v c) s = Some (advance (if holds c s then set_reg rd (push_bit 16 (ucast v) OR (a32_reg s rd AND 0xffff)) s else s))"
proof -
  have rd: "rd < 16" "rd \<noteq> 15" using assms by (auto intro: order.strict_trans)
  note w = wide_fields [where opcode = MOVW and c = c and v = v, folded EncodeMovw_def, OF _ rd(1)]
  note t = wide_fields [where opcode = MOVT and c = c and v = v, folded EncodeMovt_def, OF _ rd(1)]
  show "a32_exec (EncodeMovw rd v c) s = Some (advance (if holds c s then set_reg rd (ucast v) s else s))"
    using w rd by (simp add: a32_exec_def a32_body_def Let_def) (simp add: MOVW_def fld_numeral)
  show "a32_exec (EncodeMovt rd v c) s = Some (advance (if holds c s then set_reg rd (push_bit 16 (ucast v) OR (a32_reg s rd AND 0xffff)) s else s))"
    using t rd by (simp add: a32_exec_def a32_body_def Let_def) (simp add: MOVT_def fld_numeral)
qed

lemma exec_all_append: "exec_all (xs @ ys) s = (case exec_all xs s of None \<Rightarrow> None | Some s' \<Rightarrow> exec_all ys s')"
  by (induction xs arbitrary: s) (simp_all split: option.split)

lemma advance_simps [simp]:
  "a32_reg (advance s) = a32_reg s" "a32_C (advance s) = a32_C s" "a32_N (advance s) = a32_N s"
  "a32_Z (advance s) = a32_Z s" "a32_V (advance s) = a32_V s" "a32_thumb (advance s) = a32_thumb s"
  "set_reg r v (advance s) = advance (set_reg r v s)" "a32_pc (advance s) = a32_pc s + 4"
  "a32_pc (set_reg r v s) = a32_pc s" "a32_reg (set_reg r v s) = (a32_reg s)(r := v)"
  "a32_thumb (set_reg r v s) = a32_thumb s"
  by (simp_all add: advance_def set_reg_def)

lemma holds_advance [simp]: "holds c (advance s) = holds c s" "holds c (set_reg r v s) = holds c s"
  by (cases c; simp add: set_reg_def)+

lemma set_reg_twice [simp]: "set_reg r w (set_reg r v s) = set_reg r w s"
  by (simp add: set_reg_def)

lemma mov_pair_executes:
  assumes "rd < 15"
  shows "executes [EncodeMovw rd (ucast v) c, EncodeMovt rd (ucast (drop_bit 16 v)) c] (\<lambda>s. if holds c s then set_reg rd v s else s)"
proof -
  have "push_bit 16 (ucast (ucast (drop_bit 16 v) :: u16)) OR (ucast (ucast v :: u16) AND 0xffff) = v"
    by (simp add: word32_bitwise bit_simps)
  then show ?thesis using exec_movw [OF assms] by (simp add: executes_def funpow_swap1)
qed

lemma compiled_2:
  assumes "cb_inv tid j" "jand (EmitU32 a) (EmitU32 b) j = Returns (True, j')" "executes [a, b] f"
  shows "compiled j j' f"
  using cb.emit_all_ok [OF assms(1), of "[a, b]"] assms(2,3) by (auto simp: compiled_def jand_emit)

lemma mov_imm_words:
  "CondBits c OR DATA_PROCESSING_IMM OR OPCODE_MOV OR push_bit 12 (rd AND 0xf) OR e = dp_imm c OPCODE_MOV False 0 rd e"
  "CondBits c OR DATA_PROCESSING_IMM OR OPCODE_MVN OR push_bit 12 (rd AND 0xf) OR e = dp_imm c OPCODE_MVN False 0 rd e"
  by (simp_all add: dp_imm_def)

lemma mov_imm32:
  assumes inv: "cb_inv tid j" and rd: "rd < 15" and e: "EmitMovImm32 rd v c j = Returns (True, j')"
  shows "compiled j j' (\<lambda>s. if holds c s then set_reg rd v s else s)"
proof -
  let ?f = "\<lambda>s. if holds c s then set_reg rd v s else s"
  consider (mov) e1 where "EncodeModifiedImmediate v = Some e1" "EmitU32 (dp_imm c OPCODE_MOV False 0 rd e1) j = Returns (True, j')"
    | (mvn) e1 where "EncodeModifiedImmediate (NOT v) = Some e1" "EmitU32 (dp_imm c OPCODE_MVN False 0 rd e1) j = Returns (True, j')"
    | (movw) "drop_bit 16 v = 0" "EmitU32 (EncodeMovw rd (ucast v) c) j = Returns (True, j')"
    | (pair) "jand (EmitU32 (EncodeMovw rd (ucast v) c)) (EmitU32 (EncodeMovt rd (ucast (drop_bit 16 v)) c)) j = Returns (True, j')"
    using e unfolding EmitMovImm32_def EmitMovImm32Patchable_def mov_imm_words
    by (auto split: if_splits option.splits)
  then show ?thesis
  proof cases
    case mov
    obtain sc where "executes [dp_imm c OPCODE_MOV False 0 rd e1] (\<lambda>s. if holds c s then dp_effect 13 False rd 0 v (sc s) s else s)"
      using dp_imm_executes [OF mov(1), of OPCODE_MOV 13 False rd 0] rd by (auto simp: is_test_def)
    from compiled_1 [OF inv mov(2) this, of ?f] show ?thesis by (simp add: logic_effects)
  next
    case mvn
    obtain sc where "executes [dp_imm c OPCODE_MVN False 0 rd e1] (\<lambda>s. if holds c s then dp_effect 15 False rd 0 (NOT v) (sc s) s else s)"
      using dp_imm_executes [OF mvn(1), of OPCODE_MVN 15 False rd 0] rd by (auto simp: is_test_def)
    from compiled_1 [OF inv mvn(2) this, of ?f] show ?thesis by (simp add: logic_effects)
  next
    case movw
    have "v AND 0xffff = v \<and> ucast (ucast v :: u16) = v"
      using movw(1) by (simp add: word32_bitwise bit_simps)
    with exec_movw(1) [OF rd] have "executes [EncodeMovw rd (ucast v) c] ?f" by (simp add: executes_1)
    from compiled_1 [OF inv movw(2) this] show ?thesis by simp
  next
    case pair
    from compiled_2 [OF inv pair mov_pair_executes [OF rd]] show ?thesis .
  qed
qed

lemma mov_imm32_patchable:
  assumes inv: "cb_inv tid j" and rd: "rd < 15" and e: "EmitMovImm32Patchable rd v j = Returns (True, j')"
  shows "compiled j j' (set_reg rd v)"
proof -
  have "jand (EmitU32 (EncodeMovw rd (ucast v) AL)) (EmitU32 (EncodeMovt rd (ucast (drop_bit 16 v)) AL)) j = Returns (True, j')"
    using e by (simp add: EmitMovImm32Patchable_def split: if_splits)
  from compiled_2 [OF inv this mov_pair_executes [OF rd]] show ?thesis by simp
qed

subsection \<open>Comparison\<close>

lemma cmp_words:
  "CondBits c OR DATA_PROCESSING_IMM OR OPCODE_CMP OR SET_FLAGS OR push_bit 16 (rn AND 0xf) OR e = dp_imm c OPCODE_CMP True rn 0 e"
  "CondBits c OR DATA_PROCESSING_IMM OR OPCODE_CMN OR SET_FLAGS OR push_bit 16 (rn AND 0xf) OR e = dp_imm c OPCODE_CMN True rn 0 e"
  "CondBits c OR DATA_PROCESSING_IMM OR OPCODE_TST OR SET_FLAGS OR push_bit 16 (rn AND 0xf) OR e = dp_imm c OPCODE_TST True rn 0 e"
  by (simp_all add: dp_imm_def)

lemma cmp_imm32:
  assumes inv: "cb_inv tid j" and rn: "rn < 15" and e: "EmitCmpImm32 rn v c j = Returns (True, j')"
  shows "compiled j j' (\<lambda>s. if holds c s then dp_effect 10 True 0 rn v False s else s)"
proof (rule compiled_arith)
  have e': "(case EncodeModifiedImmediate v of
      None \<Rightarrow> (case EncodeModifiedImmediate (- v) of None \<Rightarrow> jret False j | Some e \<Rightarrow> EmitU32 (dp_imm c OPCODE_CMN True rn 0 e) j)
    | Some e \<Rightarrow> EmitU32 (dp_imm c OPCODE_CMP True rn 0 e) j) = Returns (True, j')"
    using e unfolding EmitCmpImm32_def cmp_words by (auto split: if_splits option.splits)
  show "\<exists>sc. compiled j j' (\<lambda>s. if holds c s then dp_effect 10 True 0 rn v (sc s) s else s)"
    by (rule select_imm [OF inv _ rn e', where u = "- v" and op' = 11]) (simp_all add: is_test_def add_sub_effect)
qed simp

subsection \<open>What a comparison leaves in the flags\<close>

lemma bit_31_sint: "bit (x :: u32) 31 \<longleftrightarrow> sint x < 0"
  using bit_last_iff [of x] by simp

lemma sint_diff_cases:
  fixes x y :: u32
  shows "bit (x - y) 31 \<noteq> (sint (x - y) \<noteq> sint x - sint y) \<longleftrightarrow> sint x < sint y"
proof -
  define d where "d = sint x - sint y"
  have r: "- (2 ^ 31) \<le> sint x" "sint x < 2 ^ 31" "- (2 ^ 31) \<le> sint y" "sint y < 2 ^ 31"
    using sint_ge [of x] sint_lt [of x] sint_ge [of y] sint_lt [of y] by simp_all
  then have dr: "- (2 ^ 32) < d" "d < 2 ^ 32" by (simp_all add: d_def)
  have s: "sint (x - y) = (d + 2 ^ 31) mod 2 ^ 32 - 2 ^ 31"
    by (simp add: sint_word_ariths d_def signed_take_bit_eq_take_bit_shift take_bit_eq_mod)
  consider "- (2 ^ 31) \<le> d" "d < 2 ^ 31" | "2 ^ 31 \<le> d" | "d < - (2 ^ 31)" by linarith
  then show ?thesis
  proof cases
    case 1
    then have "(d + 2 ^ 31) mod 2 ^ 32 = d + 2 ^ 31" by (intro mod_pos_pos_trivial) simp_all
    with s show ?thesis by (simp add: bit_31_sint) (simp add: d_def)
  next
    case 2
    have "(d + 2 ^ 31) mod 2 ^ 32 = (d + 2 ^ 31 - 2 ^ 32) mod 2 ^ 32" by (simp only: minus_mod_self2)
    also have "\<dots> = d + 2 ^ 31 - 2 ^ 32" using 2 dr by (intro mod_pos_pos_trivial) simp_all
    finally show ?thesis using s 2 dr by (simp add: bit_31_sint) (simp add: d_def)
  next
    case 3
    have "(d + 2 ^ 31) mod 2 ^ 32 = (d + 2 ^ 31 + 2 ^ 32) mod 2 ^ 32" by (simp only: mod_add_self2)
    also have "\<dots> = d + 2 ^ 31 + 2 ^ 32" using 3 dr by (intro mod_pos_pos_trivial) simp_all
    finally show ?thesis using s 3 dr by (simp add: bit_31_sint) (simp add: d_def)
  qed
qed

lemma AddWithCarry_compare:
  fixes x y :: u32
  shows "AddWithCarry x (NOT y) True = (x - y, y \<le> x, sint (x - y) \<noteq> sint x - sint y)"
proof -
  have n: "NOT y = - y - 1" by (simp add: not_eq_complement)
  have "NOT y = - 1 - y" by (simp add: n)
  then have "unat (NOT y) = unat (- 1 :: u32) - unat y" by (simp add: unat_sub)
  moreover have "unat (- 1 :: u32) = 2 ^ 32 - 1" by (simp add: unsigned_minus_1_eq_mask mask_eq_exp_minus_1)
  ultimately have "unat (NOT y) + unat y = 2 ^ 32 - 1" using unat_u32_less [of y] by simp
  then have c: "(2 ^ 32 \<le> unat x + unat (NOT y) + 1) = (y \<le> x)"
    unfolding word_le_nat_alt by (simp; linarith)
  have "- (2 ^ 31) \<le> sint y" "sint y < 2 ^ 31" using sint_ge [of y] sint_lt [of y] by simp_all
  then have "sint (- 1 - y) = - sint y - 1"
    by (subst sint_word_ariths(2)) (simp add: signed_take_bit_int_eq_self)
  then have "sint (NOT y) = - sint y - 1" using \<open>NOT y = - 1 - y\<close> by simp
  then have v: "sint x + sint (NOT y) + 1 = sint x - sint y" by simp
  have res: "x + NOT y + 1 = x - y" by (simp add: n)
  show ?thesis unfolding AddWithCarry_def Let_def of_bool_eq(2) res c v ..
qed

lemma cmp_flags:
  "holds EQ (dp_effect 10 True rd rn v sc s) \<longleftrightarrow> a32_reg s rn = v"
  "holds CS (dp_effect 10 True rd rn v sc s) \<longleftrightarrow> v \<le> a32_reg s rn"
  "holds HI (dp_effect 10 True rd rn v sc s) \<longleftrightarrow> v < a32_reg s rn"
  "holds LT (dp_effect 10 True rd rn v sc s) \<longleftrightarrow> sint (a32_reg s rn) < sint v"
  "holds GE (dp_effect 10 True rd rn v sc s) \<longleftrightarrow> sint v \<le> sint (a32_reg s rn)"
  "holds GT (dp_effect 10 True rd rn v sc s) \<longleftrightarrow> sint v < sint (a32_reg s rn)"
proof -
  let ?x = "a32_reg s rn"
  have d: "dp_effect 10 True rd rn v sc s = s\<lparr> a32_N := bit (?x - v) 31, a32_Z := (?x - v = 0), a32_C := (v \<le> ?x),
      a32_V := (sint (?x - v) \<noteq> sint ?x - sint v) \<rparr>"
    by (simp add: dp_effect_def alu_def is_test_def AddWithCarry_compare)
  note c = sint_diff_cases [of ?x v]
  have "word_of_int (sint v) = v" "word_of_int (sint ?x) = ?x" by simp_all
  then have sint_eq: "sint v = sint ?x \<longleftrightarrow> v = ?x" by metis
  show "holds EQ (dp_effect 10 True rd rn v sc s) \<longleftrightarrow> ?x = v" by (simp add: d)
  show "holds CS (dp_effect 10 True rd rn v sc s) \<longleftrightarrow> v \<le> ?x" by (simp add: d)
  show "holds HI (dp_effect 10 True rd rn v sc s) \<longleftrightarrow> v < ?x" by (auto simp: d)
  show lt: "holds LT (dp_effect 10 True rd rn v sc s) \<longleftrightarrow> sint ?x < sint v" using c by (simp add: d)
  show ge: "holds GE (dp_effect 10 True rd rn v sc s) \<longleftrightarrow> sint v \<le> sint ?x" using c by (auto simp: d)
  show "holds GT (dp_effect 10 True rd rn v sc s) \<longleftrightarrow> sint v < sint ?x"
    using ge sint_eq by (auto simp: d order.order_iff_strict)
qed

subsection \<open>Register operands\<close>

definition reg_emitters :: "(u32 \<times> (u32 \<Rightarrow> u32 \<Rightarrow> u32 \<Rightarrow> bool \<Rightarrow> bool jitm)) list" where
  "reg_emitters = [(4, EmitAddReg), (5, EmitAdcReg), (0, EmitAndReg), (1, EmitEorReg), (12, EmitOrrReg),
     (2, EmitSubReg), (6, EmitSbcReg)]"

lemma self_effects:
  "dp_effect 0 False rd rd (a32_reg s rd) sc s = s" "dp_effect 12 False rd rd (a32_reg s rd) sc s = s"
  by (simp_all add: dp_effect_def alu_def is_test_def set_reg_def Let_def)

lemma reg_forms:
  assumes inv: "cb_inv tid j" and em: "(op, emit) \<in> set reg_emitters" and r: "rd < 15" "rn < 15" "rm < 15"
    and e: "emit rd rn rm S j = Returns (True, j')"
  shows "compiled j j' (\<lambda>s. dp_effect op S rd rn (a32_reg s rm) (a32_C s) s)"
proof -
  have fin: "compiled j j' (\<lambda>s. dp_effect op S rd rn (a32_reg s rm) (a32_C s) s)"
    if "EmitU32 (EncodeDataProcessingRegShiftImm opcode rd rn rm LSL 0 S AL) j = Returns (True, j')"
      "(opcode, op) \<in> set dp_opcodes" "\<not> is_test op" for opcode
    using EmitU32_dp_reg [OF inv that(1,2) _ r] that(3) by simp
  from em consider (ad) "op = 4" "emit = EmitAddReg" | (ac) "op = 5" "emit = EmitAdcReg" | (a) "op = 0" "emit = EmitAndReg"
    | (x) "op = 1" "emit = EmitEorReg" | (o) "op = 12" "emit = EmitOrrReg" | (su) "op = 2" "emit = EmitSubReg" | (sb) "op = 6" "emit = EmitSbcReg"
    by (auto simp: reg_emitters_def)
  then show ?thesis
  proof cases
    case a
    show ?thesis
    proof (cases "\<not> S \<and> rd = rn \<and> rn = rm \<and> IsGeneralRegister rd")
      case True
      with e a show ?thesis by (auto simp: EmitAndReg_def self_effects intro!: compiled_refl split: if_splits)
    next
      case False
      with e a show ?thesis by (intro fin) (auto simp: EmitAndReg_def EncodeReg_shift is_test_def split: if_splits)
    qed
  next
    case o
    show ?thesis
    proof (cases "\<not> S \<and> rd = rn \<and> rn = rm \<and> IsGeneralRegister rd")
      case True
      with e o show ?thesis by (auto simp: EmitOrrReg_def self_effects intro!: compiled_refl split: if_splits)
    next
      case False
      with e o show ?thesis by (intro fin) (auto simp: EmitOrrReg_def EncodeReg_shift is_test_def split: if_splits)
    qed
  next
    case ad
    show ?thesis
      by (rule fin [of OPCODE_ADD]) (use ad e in \<open>auto simp: EmitAddReg_def EncodeReg_shift is_test_def split: if_splits\<close>)
  next
    case ac
    show ?thesis
      by (rule fin [of OPCODE_ADC]) (use ac e in \<open>auto simp: EmitAdcReg_def EncodeReg_shift is_test_def split: if_splits\<close>)
  next
    case x
    show ?thesis
      by (rule fin [of OPCODE_EOR]) (use x e in \<open>auto simp: EmitEorReg_def EncodeReg_shift is_test_def split: if_splits\<close>)
  next
    case su
    show ?thesis
      by (rule fin [of OPCODE_SUB]) (use su e in \<open>auto simp: EmitSubReg_def EncodeReg_shift is_test_def split: if_splits\<close>)
  next
    case sb
    show ?thesis
      by (rule fin [of OPCODE_SBC]) (use sb e in \<open>auto simp: EmitSbcReg_def EncodeReg_shift is_test_def split: if_splits\<close>)
  qed
qed

definition shift_emitters ::
  "(u32 \<times> Condition \<times> (u32 \<Rightarrow> u32 \<Rightarrow> u32 \<Rightarrow> ShiftType \<Rightarrow> u8 \<Rightarrow> bool \<Rightarrow> bool jitm)) list" where
  "shift_emitters = [(4, AL, EmitAddRegShiftImm), (1, AL, EmitEorRegShiftImm), (12, AL, EmitOrrRegShiftImm),
     (2, AL, EmitSubRegShiftImm)] @
     concat (map (\<lambda>c. [(0, c, \<lambda>rd rn rm sh n S. EmitAndRegShiftImm rd rn rm sh n S c),
                       (14, c, \<lambda>rd rn rm sh n S. EmitBicRegShiftImm rd rn rm sh n S c)])
       [EQ, NE, CS, CC, MI, PL, VS, VC, HI, LS, GE, LT, GT, LE, AL])"

lemma shift_forms:
  assumes inv: "cb_inv tid j" and em: "(op, c, emit) \<in> set shift_emitters" and r: "rd < 15" "rn < 15" "rm < 15"
    and e: "emit rd rn rm shift amount S j = Returns (True, j')"
  shows "compiled j j' (\<lambda>s. if holds c s then case ImmShift (ShiftTypeVal shift) (ucast amount) (a32_reg s rm) (a32_C s) of
       (b, sc) \<Rightarrow> dp_effect op S rd rn b sc s else s)"
proof -
  have fin: "compiled j j' (\<lambda>s. if holds c s then case ImmShift (ShiftTypeVal shift) (ucast amount) (a32_reg s rm) (a32_C s) of
       (b, sc) \<Rightarrow> dp_effect op S rd rn b sc s else s)"
    if "EmitU32 (EncodeDataProcessingRegShiftImm opcode rd rn rm shift amount S c) j = Returns (True, j')"
      "(opcode, op) \<in> set dp_opcodes" "\<not> is_test op" "\<not> amount > 31" for opcode
    by (rule EmitU32_dp_reg [OF inv that(1,2) _ r]) (use that(3,4) in \<open>simp_all add: not_less\<close>)
  let ?same = "\<not> S \<and> rd = rn \<and> rn = rm \<and> shift = LSL \<and> amount = 0 \<and> IsGeneralRegister rd"
  from em consider (ad) "op = 4" "c = AL" "emit = EmitAddRegShiftImm" | (x) "op = 1" "c = AL" "emit = EmitEorRegShiftImm"
    | (o) "op = 12" "c = AL" "emit = EmitOrrRegShiftImm" | (su) "op = 2" "c = AL" "emit = EmitSubRegShiftImm"
    | (a) "op = 0" "emit = (\<lambda>rd rn rm sh n S. EmitAndRegShiftImm rd rn rm sh n S c)"
    | (b) "op = 14" "emit = (\<lambda>rd rn rm sh n S. EmitBicRegShiftImm rd rn rm sh n S c)"
    by (auto simp: shift_emitters_def)
  then show ?thesis
  proof cases
    case a
    show ?thesis
    proof (cases ?same)
      case True
      with e a show ?thesis by (auto simp: EmitAndRegShiftImm_def self_effects intro!: compiled_refl split: if_splits)
    next
      case False
      with e a show ?thesis
        by (intro fin) (auto simp: EmitAndRegShiftImm_def EncodeAndRegShiftImm_def is_test_def split: if_splits)
    qed
  next
    case o
    show ?thesis
    proof (cases ?same)
      case True
      with e o show ?thesis by (auto simp: EmitOrrRegShiftImm_def self_effects intro!: compiled_refl split: if_splits)
    next
      case False
      with e o show ?thesis
        by (intro fin) (auto simp: EmitOrrRegShiftImm_def EncodeOrrRegShiftImm_def is_test_def split: if_splits)
    qed
  next
    case ad
    show ?thesis
      by (rule fin [of OPCODE_ADD])
         (use ad e in \<open>auto simp: EmitAddRegShiftImm_def EncodeAddRegShiftImm_def is_test_def split: if_splits\<close>)
  next
    case x
    show ?thesis
      by (rule fin [of OPCODE_EOR])
         (use x e in \<open>auto simp: EmitEorRegShiftImm_def EncodeEorRegShiftImm_def is_test_def split: if_splits\<close>)
  next
    case su
    show ?thesis
      by (rule fin [of OPCODE_SUB])
         (use su e in \<open>auto simp: EmitSubRegShiftImm_def EncodeSubRegShiftImm_def is_test_def split: if_splits\<close>)
  next
    case b
    show ?thesis
      by (rule fin [of OPCODE_BIC])
         (use b e in \<open>auto simp: EmitBicRegShiftImm_def EncodeBicRegShiftImm_def is_test_def split: if_splits\<close>)
  qed
qed

subsection \<open>Long multiplication\<close>

lemma exec_mull_word:
  assumes "rdlo < 15" "rdhi < 15" "rn < 15" "rm < 15" "rdlo \<noteq> rdhi" "base \<in> {(UMULL, False), (SMULL, True)}"
  shows "a32_exec (CondBits AL OR fst base OR (if S then SET_FLAGS else 0) OR push_bit 16 (rdhi AND 0xf) OR
      push_bit 12 (rdlo AND 0xf) OR push_bit 8 (rm AND 0xf) OR (rn AND 0xf)) s =
    (let p = (if snd base then word_of_int (sint (a32_reg s rn) * sint (a32_reg s rm))
              else word_of_int (uint (a32_reg s rn) * uint (a32_reg s rm))) :: u64;
         s1 = set_reg rdlo (ucast p) (set_reg rdhi (ucast (drop_bit 32 p)) s)
     in Some (advance (if S then s1\<lparr> a32_N := bit p 63, a32_Z := (p = 0) \<rparr> else s1)))"
proof -
  let ?w = "CondBits AL OR fst base OR (if S then SET_FLAGS else 0) OR push_bit 16 (rdhi AND 0xf) OR
      push_bit 12 (rdlo AND 0xf) OR push_bit 8 (rm AND 0xf) OR (rn AND 0xf)"
  have f: "fld 28 4 ?w = ConditionVal AL" "fld 25 3 ?w = 0" "fld 4 1 ?w = 1" "fld 7 1 ?w = 1" "fld 4 4 ?w = 9"
    "fld 21 7 ?w = (if snd base then 6 else 4)" "(fld 20 1 ?w = 1) = S" "(fld 22 1 ?w = 1) = snd base"
    "fld 12 4 ?w = rdlo AND 15" "fld 16 4 ?w = rdhi AND 15" "fld 8 4 ?w = rm AND 15" "fld 0 4 ?w = rn AND 15"
    using assms(6) by (elim insertE emptyE; simp add: fld_simps CondBits_def UMULL_def SMULL_def SET_FLAGS_def del: push_bit_and)+
  have r: "rdlo < 16" "rdhi < 16" "rn < 16" "rm < 16" "rdlo \<noteq> 15" "rdhi \<noteq> 15" "rn \<noteq> 15" "rm \<noteq> 15"
    using assms(1-4) by (auto intro: order.strict_trans)
  show ?thesis unfolding a32_exec_def a32_body_def exec_mull_def Let_def f
    using r assms(5) by (simp add: word_and_15_id)
qed

lemma mull_forms:
  assumes inv: "cb_inv tid j" and r: "rdlo < 15" "rdhi < 15" "rn < 15" "rm < 15"
  shows "EmitUmull rdlo rdhi rn rm False j = Returns (True, j') \<Longrightarrow>
      compiled j j' (\<lambda>s. let p = word_of_int (uint (a32_reg s rn) * uint (a32_reg s rm)) :: u64
        in set_reg rdlo (ucast p) (set_reg rdhi (ucast (drop_bit 32 p)) s))"
    "EmitSmull rdlo rdhi rn rm False j = Returns (True, j') \<Longrightarrow>
      compiled j j' (\<lambda>s. let p = word_of_int (sint (a32_reg s rn) * sint (a32_reg s rm)) :: u64
        in set_reg rdlo (ucast p) (set_reg rdhi (ucast (drop_bit 32 p)) s))"
proof -
  show "compiled j j' (\<lambda>s. let p = word_of_int (uint (a32_reg s rn) * uint (a32_reg s rm)) :: u64
        in set_reg rdlo (ucast p) (set_reg rdhi (ucast (drop_bit 32 p)) s))"
    if e: "EmitUmull rdlo rdhi rn rm False j = Returns (True, j')"
  proof -
    from e have ne: "rdlo \<noteq> rdhi" and w: "EmitU32 (EncodeUmull rdlo rdhi rn rm False) j = Returns (True, j')"
      by (auto simp: EmitUmull_def split: if_splits)
    note x = exec_mull_word [OF r ne, of "(UMULL, False)" False, unfolded fst_conv snd_conv, folded EncodeUmull_def]
    have "executes [EncodeUmull rdlo rdhi rn rm False] (\<lambda>s. let p = word_of_int (uint (a32_reg s rn) * uint (a32_reg s rm)) :: u64
        in set_reg rdlo (ucast p) (set_reg rdhi (ucast (drop_bit 32 p)) s))"
      unfolding executes_1 using x by (simp add: Let_def)
    from compiled_1 [OF inv w this] show ?thesis by simp
  qed
  show "compiled j j' (\<lambda>s. let p = word_of_int (sint (a32_reg s rn) * sint (a32_reg s rm)) :: u64
        in set_reg rdlo (ucast p) (set_reg rdhi (ucast (drop_bit 32 p)) s))"
    if e: "EmitSmull rdlo rdhi rn rm False j = Returns (True, j')"
  proof -
    from e have ne: "rdlo \<noteq> rdhi" and w: "EmitU32 (EncodeSmull rdlo rdhi rn rm False) j = Returns (True, j')"
      by (auto simp: EmitSmull_def split: if_splits)
    note x = exec_mull_word [OF r ne, of "(SMULL, True)" False, unfolded fst_conv snd_conv, folded EncodeSmull_def]
    have "executes [EncodeSmull rdlo rdhi rn rm False] (\<lambda>s. let p = word_of_int (sint (a32_reg s rn) * sint (a32_reg s rm)) :: u64
        in set_reg rdlo (ucast p) (set_reg rdhi (ucast (drop_bit 32 p)) s))"
      unfolding executes_1 using x by (simp add: Let_def)
    from compiled_1 [OF inv w this] show ?thesis by simp
  qed
qed

subsection \<open>Bit fields\<close>

lemma u8_unat: "unat (ucast (x :: u8) :: u32) = unat x"
proof -
  have "unat x < 256" using unsigned_less [of x] by simp
  then show ?thesis by (simp add: unsigned_ucast_eq take_bit_nat_eq_self)
qed

lemma bitfield_args:
  fixes lsb width :: u8
  assumes "\<not> lsb \<ge> 32" "width \<noteq> 0" "\<not> (ucast width :: u32) > 32 - ucast lsb"
  shows "unat lsb + unat width \<le> 32" "0 < unat width" "unat (ucast lsb AND 31 :: u32) = unat lsb"
    "unat ((ucast width - 1) AND 31 :: u32) = unat width - 1"
    "unat (((ucast lsb + ucast width) - 1) AND 31 :: u32) = unat lsb + unat width - 1"
proof -
  have l: "unat lsb < 32" using assms(1) by (simp add: word_le_nat_alt not_le)
  show w: "0 < unat width" using assms(2) by (simp add: unat_gt_0)
  have "unat (32 - ucast lsb :: u32) = 32 - unat lsb"
    using l by (simp add: unat_sub word_le_nat_alt u8_unat)
  then show lw: "unat lsb + unat width \<le> 32" using assms(3) l by (simp add: word_less_nat_alt not_less u8_unat)
  have m: "unat (x AND 31 :: u32) = unat x" if "unat x < 32" for x :: u32
    using that word_and_31_id [of x] by (simp add: word_less_nat_alt)
  show "unat (ucast lsb AND 31 :: u32) = unat lsb" using m [of "ucast lsb"] l by (simp add: u8_unat)
  have "(ucast width :: u32) \<noteq> 0" using w u8_unat [of width] by auto
  then have u: "unat (ucast width - 1 :: u32) = unat width - 1" by (simp add: unat_minus_one u8_unat)
  then show "unat ((ucast width - 1) AND 31 :: u32) = unat width - 1" using m lw w by simp
  have s: "unat (ucast lsb + ucast width :: u32) = unat lsb + unat width"
    using lw by (simp add: unat_word_ariths u8_unat)
  then have "(ucast lsb + ucast width :: u32) \<noteq> 0" using w by auto
  then have "unat (ucast lsb + ucast width - 1 :: u32) = unat lsb + unat width - 1" using s by (simp add: unat_minus_one)
  then show "unat (((ucast lsb + ucast width) - 1) AND 31 :: u32) = unat lsb + unat width - 1" using m lw w by simp
qed

lemma fld_21_7: "fld 21 7 w = drop_bit 1 (fld 20 8 w)"
  by (rule bit_word_eqI) (auto simp: fld_def bit_simps)

lemma fld_20_8_ne:
  "fld 21 7 w = 0x3f \<or> fld 21 7 w = 0x3e \<Longrightarrow>
   fld 20 8 w \<noteq> 0x6a \<and> fld 20 8 w \<noteq> 0x6b \<and> fld 20 8 w \<noteq> 0x6f \<and> fld 20 8 w \<noteq> 0x68"
  by (auto simp: fld_21_7)

lemma exec_ubfx:
  assumes r: "rd < 15" "rn < 15" and g: "\<not> lsb \<ge> 32" "width \<noteq> 0" "\<not> (ucast width :: u32) > 32 - ucast lsb"
  shows "a32_exec (EncodeUbfx rd rn lsb width) s =
    Some (advance (set_reg rd (take_bit (unat width) (drop_bit (unat lsb) (a32_reg s rn))) s))"
proof -
  note b = bitfield_args [OF g]
  let ?w = "EncodeUbfx rd rn lsb width"
  have f: "fld 28 4 ?w = 14" "fld 25 3 ?w = 3" "fld 4 1 ?w = 1" "fld 4 3 ?w = 5" "fld 21 7 ?w = 0x3f"
    "fld 16 5 ?w = (ucast width - 1) AND 31" "fld 12 4 ?w = rd AND 15" "fld 7 5 ?w = ucast lsb AND 31" "fld 0 4 ?w = rn AND 15"
    by (simp_all add: fld_simps EncodeUbfx_def CondBits_def UBFX_def del: push_bit_and)
  have "rd < 16" "rn < 16" "rd \<noteq> 15" "rn \<noteq> 15" using r by (auto intro: order.strict_trans)
  moreover have "fld 20 8 ?w \<noteq> 0x6a \<and> fld 20 8 ?w \<noteq> 0x6b \<and> fld 20 8 ?w \<noteq> 0x6f \<and> fld 20 8 ?w \<noteq> 0x68"
    by (rule fld_20_8_ne) (simp add: f)
  ultimately show ?thesis
    unfolding a32_exec_def a32_body_def exec_media_def Let_def f using b by (simp add: word_and_15_id)
qed

lemma exec_bfi:
  assumes r: "rd < 15" "rn < 15" and g: "\<not> lsb \<ge> 32" "width \<noteq> 0" "\<not> (ucast width :: u32) > 32 - ucast lsb"
  shows "a32_exec (EncodeBfi rd rn lsb width) s =
    Some (advance (set_reg rd ((a32_reg s rd AND NOT (push_bit (unat lsb) (mask (unat width)))) OR
      push_bit (unat lsb) (take_bit (unat width) (a32_reg s rn))) s))"
proof -
  note b = bitfield_args [OF g]
  let ?w = "EncodeBfi rd rn lsb width"
  have f: "fld 28 4 ?w = 14" "fld 25 3 ?w = 3" "fld 4 1 ?w = 1" "fld 4 3 ?w = 1" "fld 21 7 ?w = 0x3e"
    "fld 16 5 ?w = ((ucast lsb + ucast width) - 1) AND 31" "fld 12 4 ?w = rd AND 15" "fld 7 5 ?w = ucast lsb AND 31" "fld 0 4 ?w = rn AND 15"
    by (simp_all add: fld_simps EncodeBfi_def CondBits_def BFI_def Let_def del: push_bit_and)
  have "rd < 16" "rn < 16" "rd \<noteq> 15" "rn \<noteq> 15" using r by (auto intro: order.strict_trans)
  moreover have "fld 20 8 ?w \<noteq> 0x6a \<and> fld 20 8 ?w \<noteq> 0x6b \<and> fld 20 8 ?w \<noteq> 0x6f \<and> fld 20 8 ?w \<noteq> 0x68"
    by (rule fld_20_8_ne) (simp add: f)
  moreover have "unat lsb + unat width - 1 - unat lsb + 1 = unat width" "\<not> unat lsb + unat width - 1 < unat lsb"
    using b(2) by simp_all
  ultimately show ?thesis
    unfolding a32_exec_def a32_body_def exec_media_def Let_def f b using b(2) by (simp add: word_and_15_id)
qed

lemma exec_extend:
  assumes "rd < 15" "rm < 15"
  shows "a32_exec (EncodeSxtb rd rm) s = Some (advance (set_reg rd (scast (ucast (a32_reg s rm) :: 8 word)) s))"
    "a32_exec (EncodeSxth rd rm) s = Some (advance (set_reg rd (scast (ucast (a32_reg s rm) :: 16 word)) s))"
    "a32_exec (EncodeUxth rd rm) s = Some (advance (set_reg rd (ucast (ucast (a32_reg s rm) :: 16 word)) s))"
proof -
  have r: "rd < 16" "rm < 16" "rd \<noteq> 15" "rm \<noteq> 15" using assms by (auto intro: order.strict_trans)
  have f: "fld 28 4 w = 14 \<and> fld 25 3 w = 3 \<and> fld 4 1 w = 1 \<and> fld 4 6 w = 7 \<and> fld 16 4 w = 15 \<and> fld 12 4 w = rd AND 15 \<and>
      fld 0 4 w = rm AND 15"
    if "w \<in> {EncodeSxtb rd rm, EncodeSxth rd rm, EncodeUxth rd rm}" for w
    using that by (elim insertE emptyE; simp add: fld_simps EncodeSxtb_def EncodeSxth_def EncodeUxth_def SXTB_def SXTH_def UXTH_def
        CondBits_def del: push_bit_and)
  have o: "fld 20 8 (EncodeSxtb rd rm) = 0x6a" "fld 20 8 (EncodeSxth rd rm) = 0x6b" "fld 20 8 (EncodeUxth rd rm) = 0x6f"
    by (simp_all add: fld_simps EncodeSxtb_def EncodeSxth_def EncodeUxth_def SXTB_def SXTH_def UXTH_def
        CondBits_def del: push_bit_and)
  show "a32_exec (EncodeSxtb rd rm) s = Some (advance (set_reg rd (scast (ucast (a32_reg s rm) :: 8 word)) s))"
    using f [of "EncodeSxtb rd rm"] o(1) r unfolding a32_exec_def a32_body_def exec_media_def Let_def by (simp add: word_and_15_id)
  show "a32_exec (EncodeSxth rd rm) s = Some (advance (set_reg rd (scast (ucast (a32_reg s rm) :: 16 word)) s))"
    using f [of "EncodeSxth rd rm"] o(2) r unfolding a32_exec_def a32_body_def exec_media_def Let_def by (simp add: word_and_15_id)
  show "a32_exec (EncodeUxth rd rm) s = Some (advance (set_reg rd (ucast (ucast (a32_reg s rm) :: 16 word)) s))"
    using f [of "EncodeUxth rd rm"] o(3) r unfolding a32_exec_def a32_body_def exec_media_def Let_def by (simp add: word_and_15_id)
qed

lemma exec_blx:
  assumes "rm < 15"
  shows "a32_exec (EncodeBlx rm) s =
    Some ((set_reg 14 (a32_pc s + 4) s)\<lparr> a32_pc := a32_reg s rm AND NOT 1, a32_thumb := bit (a32_reg s rm) 0 \<rparr>)"
proof -
  let ?w = "EncodeBlx rm"
  have f: "fld 28 4 ?w = 14" "fld 25 3 ?w = 0" "fld 4 1 ?w = 1" "fld 7 1 ?w = 0" "fld 20 8 ?w = 0x12" "fld 4 4 ?w = 3"
    "fld 23 2 ?w = 2" "fld 20 1 ?w = 0" "fld 0 4 ?w = rm AND 15"
    by (simp_all add: fld_simps EncodeBlx_def CondBits_def BLX_def del: push_bit_and)
  have "rm < 16" "rm \<noteq> 15" using assms by (auto intro: order.strict_trans)
  then show ?thesis unfolding a32_exec_def a32_body_def exec_misc_def Let_def f by (simp add: word_and_15_id)
qed

subsection \<open>Calls\<close>

lemma jand_inv:
  assumes "cb_inv tid j" "jand (EmitU32 a) (EmitU32 b) j = Returns (True, j')"
  shows "cb_inv tid j'"
  using cb.emit_all_ok [OF assms(1), of "[a, b]"] assms(2) by (simp add: jand_emit)

lemma mov_imm32_inv:
  assumes inv: "cb_inv tid j" and e: "EmitMovImm32 rd v c j = Returns (True, j')"
  shows "cb_inv tid j'"
  using e EmitU32_spec(1) [OF inv] jand_inv [OF inv] unfolding EmitMovImm32_def EmitMovImm32Patchable_def
  by (auto split: if_splits option.splits)

lemma funpow_advance: "(advance ^^ n) s = s\<lparr> a32_pc := a32_pc s + 4 * of_nat n \<rparr>"
  by (induction n) (simp_all add: advance_def algebra_simps)

lemma call_absolute:
  assumes inv: "cb_inv tid j" and e: "EmitCallAbsolute function r j = Returns (True, j')"
  shows "\<exists>ws. buf_words j' = buf_words j @ ws \<and> (\<forall>s. exec_all ws s =
    Some ((set_reg 14 (a32_pc s + 4 * of_nat (length ws)) (set_reg r function s))
      \<lparr> a32_pc := function AND NOT 1, a32_thumb := bit function 0 \<rparr>))"
proof -
  from e have r: "r < 15" "r \<noteq> 14"
    and "jand (EmitMovImm32 r function AL) (EmitBlx r) j = Returns (True, j')"
    by (auto simp: EmitCallAbsolute_def IsRegister_def word_less_nat_alt word_unat_eq_iff split: if_splits)
  then obtain j1 where m: "EmitMovImm32 r function AL j = Returns (True, j1)" and b: "EmitBlx r j1 = Returns (True, j')"
    by (auto simp: jand_def jbind_Returns split: if_splits)
  from mov_imm32 [OF inv r(1) m] obtain ws where ws: "buf_words j1 = buf_words j @ ws" "executes ws (set_reg r function)"
    by (auto simp: compiled_def)
  from b have "EmitU32 (EncodeBlx r) j1 = Returns (True, j')" by (auto simp: EmitBlx_def split: if_splits)
  from emitted_1 [OF mov_imm32_inv [OF inv m] this] ws(1) have out: "buf_words j' = buf_words j @ (ws @ [EncodeBlx r])" by simp
  have "exec_all (ws @ [EncodeBlx r]) s = Some ((set_reg 14 (a32_pc s + 4 * of_nat (length (ws @ [EncodeBlx r]))) (set_reg r function s))
      \<lparr> a32_pc := function AND NOT 1, a32_thumb := bit function 0 \<rparr>)" for s
    using ws(2) unfolding executes_def exec_all_append
    by (simp add: exec_blx [OF r(1)] funpow_advance) (simp add: set_reg_def algebra_simps)
  with out show ?thesis by blast
qed

subsection \<open>Branches\<close>

text \<open>The target of a branch word at an address: the sign-extended word displacement from the
  address plus eight.\<close>

definition branch_target :: "u32 \<Rightarrow> u32 \<Rightarrow> u32" where
  "branch_target address w = address + 8 + push_bit 2 (scast (ucast w :: 24 word))"

lemma EncodeBranch_Some:
  assumes "EncodeBranch a t c = Some w"
  shows "a \<noteq> 0" "t \<noteq> 0" "branch_target a w = t" "fld 28 4 w = ConditionVal c" "fld 24 4 w = 0xa"
proof -
  define d where "d = t - (a + 8)"
  define k where "k = signed_drop_bit 2 d"
  from assms have g: "a \<noteq> 0" "t \<noteq> 0" "d AND 3 = 0" "- 0x800000 \<le> sint k" "sint k \<le> 0x7fffff"
    and w: "w = CondBits c OR BRANCH OR (k AND 0x00ffffff)"
    by (auto simp: EncodeBranch_def Let_def d_def k_def split: if_splits)
  then show "a \<noteq> 0" "t \<noteq> 0" by simp_all
  have n24: "take_bit 24 k = k AND 0x00ffffff" by (simp add: take_bit_eq_mask mask_eq_exp_minus_1)
  have t24: "take_bit 24 (k AND 0x00ffffff) = k AND 0x00ffffff" by (simp flip: n24)
  have fm: "fld 28 4 (k AND 0x00ffffff) = 0" "fld 24 4 (k AND 0x00ffffff) = 0"
    using fld_push_below [OF t24, of 0 28 4] fld_push_below [OF t24, of 0 24 4] by simp_all
  show "fld 28 4 w = ConditionVal c" "fld 24 4 w = 0xa"
    unfolding w by (simp_all add: fld_or fm fld_push_above fld_masked fld_numeral CondBits_def BRANCH_def)
  have f0: "fld 0 24 w = take_bit 24 k"
    unfolding w by (simp add: fld_or fld_push_above fld_numeral CondBits_def BRANCH_def n24 [symmetric]) (simp add: fld_def)
  have b24: "bit w i = bit k i" if "i < 24" for i
    using that arg_cong [OF f0, of "\<lambda>x. bit x i"] by (simp add: fld_def bit_simps)
  have "(ucast w :: 24 word) = word_of_int (sint k)"
    by (rule bit_word_eqI) (simp add: b24 bit_simps bit_sint_iff)
  moreover have "signed_take_bit 23 (sint k) = sint k"
    using g(4,5) by (intro signed_take_bit_int_eq_self) simp_all
  moreover have "sint (word_of_int x :: 24 word) = signed_take_bit 23 x" for x
    by (simp add: signed_of_int)
  ultimately have "sint (ucast w :: 24 word) = sint k" by metis
  then have "word_of_int (sint (ucast w :: 24 word)) = (word_of_int (sint k) :: u32)" by simp
  then have sc: "scast (ucast w :: 24 word) = k" by simp
  have low: "\<not> bit d 0" "\<not> bit d 1"
    using arg_cong [OF g(3), of "\<lambda>x. bit x 0"] arg_cong [OF g(3), of "\<lambda>x. bit x 1"] by (simp_all add: bit_simps)
  have "push_bit 2 k = d"
  proof (rule bit_word_eqI)
    fix i assume "i < LENGTH(32)"
    moreover have "i < 2 \<or> Suc (Suc (i - 2)) = i" by linarith
    ultimately show "bit (push_bit 2 k) i = bit d i"
      using low by (auto simp: k_def bit_simps bit_signed_drop_bit_iff less_2_cases_iff)
  qed
  with sc show "branch_target a w = t" by (simp add: branch_target_def d_def)
qed

lemma EncodeBranch_complete:
  assumes "a \<noteq> 0" "t \<noteq> 0" "(t - (a + 8)) AND 3 = 0" "- 0x2000000 \<le> sint (t - (a + 8))" "sint (t - (a + 8)) \<le> 0x1fffffc"
  shows "EncodeBranch a t c \<noteq> None"
proof -
  have "sint (signed_drop_bit 2 (t - (a + 8))) = sint (t - (a + 8)) div 4"
    by (simp add: sint_signed_drop_bit_eq drop_bit_eq_div)
  with assms show ?thesis by (simp add: EncodeBranch_def Let_def not_less; linarith)
qed

end
