(* ===== verification/A32_Correct_Props.thy ===== *)
theory A32_Correct_Props
  imports A32_Correct A32_Buffer_Props
begin

text \<open>
  The properties of the emitters over all reachable buffers: what the emitted words do when they
  are executed, and where patched branches land.
\<close>

subsection \<open>Concrete emissions\<close>

lemma demo_emit: "\<exists>j'. EmitU32 w demo_jit1 = Returns (True, j')"
  using EmitU32_open_ok [OF buffer.reach_inv [OF demo_jit1_reach], of w] by (auto simp: demo_jit1_state)

lemma demo_emit_two:
  "\<exists>j1 j'. EmitU32 a demo_jit1 = Returns (True, j1) \<and> EmitU32 b j1 = Returns (True, j')"
proof -
  from EmitU32_open_ok [OF buffer.reach_inv [OF demo_jit1_reach], of a] obtain j1 where
    j1: "EmitU32 a demo_jit1 = Returns (True, j1)" "cb_inv 7 j1" "same_writing demo_jit1 j1" "m_offset (jit_cb j1) = 8"
      "m_dirty_begin (jit_cb j1) < m_dirty_end (jit_cb j1)" by (auto simp: demo_jit1_state)
  from EmitU32_open_ok [OF j1(2), of b] j1 show ?thesis by (auto simp: same_writing_def demo_jit1_state)
qed

lemma demo_encodings:
  "EncodeModifiedImmediate 1 = Some 1" "EncodeModifiedImmediate 0xffffffff = None"
  "EncodeModifiedImmediate 0x81000000 = Some 0x481" "EncodeModifiedImmediate 0xfffffffe = None"
  "EncodeModifiedImmediate (- 0xffffffff) = Some 1"
  by code_simp+

subsection \<open>Limits of the source\<close>

text \<open>In a release build the assertions are empty, and with them the calls of the
  modified-immediate encoder inside them: the word the AND encoder builds has the immediate
  zero whatever the value.\<close>

lemma release_and_imm32_clears:
  "a32_exec (EncodeAndImm32 1 2 0xff False) s = Some (advance (set_reg 1 0 s))"
proof -
  have "EncodeAndImm32 1 2 0xff False = dp_imm AL OPCODE_AND False 2 1 0" by (simp add: EncodeAndImm32_def dp_imm_def)
  with exec_dp_imm [of OPCODE_AND 0 False 0 1 2 AL s] show ?thesis
    by (simp add: is_test_def dp_def dp_effect_def alu_def ARMExpandImm_def set_reg_def Let_def)
qed

text \<open>The classification of memory instructions does not exclude the media instructions, which
  share two opcode bits with the loads and stores: a sign extension counts as a store, a bit-field
  extraction of an odd field as a load.\<close>

lemma media_counted_as_memory:
  "memory_access (EncodeSxtb 0 1) = Some False" "memory_access (EncodeUbfx 0 1 0 32) = Some True"
  by code_simp+

subsection \<open>Properties\<close>

text \<open>C38: the modified-immediate encoder is sound and complete: an encoding it finds fits twelve
  bits and expands to the value, and when it finds none, no twelve-bit encoding expands to it.\<close>

theorem modified_immediate_correct:
  "case EncodeModifiedImmediate v of
     Some e \<Rightarrow> e < 4096 \<and> ARMExpandImm e = v
   | None \<Rightarrow> \<forall>e. ARMExpandImm e \<noteq> v"
  using EncodeModifiedImmediate_sound EncodeModifiedImmediate_complete by (auto split: option.split)

text \<open>when the emission of a 32-bit constant reports success, the emitted words, executed
  under the given condition, load exactly that constant and change nothing else.\<close>

theorem mov_imm32_executes:
  assumes "reach (cb_initial tid) cb_step j" "rd < 15" "EmitMovImm32 rd v c j = Returns (True, j')"
  shows "\<exists>ws. buf_words j' = buf_words j @ ws \<and> executes ws (\<lambda>s. if holds c s then set_reg rd v s else s)"
  using mov_imm32 [OF buffer.reach_inv [OF assms(1)] assms(2,3)] by (simp add: compiled_def)

theorem mov_imm32_executes_witness:
  "\<exists>j' ws. EmitMovImm32 3 0x81000000 NE demo_jit1 = Returns (True, j') \<and> buf_words j' = buf_words demo_jit1 @ ws \<and>
     executes ws (\<lambda>s. if holds NE s then set_reg 3 0x81000000 s else s)"
proof -
  have "\<exists>j'. EmitMovImm32 3 0x81000000 NE demo_jit1 = Returns (True, j')"
    unfolding EmitMovImm32_def by (simp add: IsRegister_def demo_encodings demo_emit)
  then obtain j' where e: "EmitMovImm32 3 0x81000000 NE demo_jit1 = Returns (True, j')" by blast
  from mov_imm32_executes [OF demo_jit1_reach _ e] e show ?thesis by auto
qed

text \<open>C3: the arithmetic emitters with a 32-bit immediate (add, subtract, reverse subtract,
  with and without carry) compute the result and all four flags of the instruction they are
  named after, also when they emit the complementary instruction with the complemented
  immediate or drop an addition of nothing.\<close>

theorem arith_imm32_executes:
  assumes "reach (cb_initial tid) cb_step j" "(op, emit) \<in> set arith_imm_emitters" "rd < 15" "rn < 15"
    "emit rd rn v S j = Returns (True, j')"
  shows "\<exists>ws. buf_words j' = buf_words j @ ws \<and> executes ws (dp_effect op S rd rn v False)"
  using arith_imm32 [OF buffer.reach_inv [OF assms(1)] assms(2-5)] by (simp add: compiled_def)

theorem arith_imm32_executes_witness:
  "\<exists>j' ws. EmitAddImm32 1 2 0xffffffff True demo_jit1 = Returns (True, j') \<and> buf_words j' = buf_words demo_jit1 @ ws \<and>
     executes ws (dp_effect 4 True 1 2 0xffffffff False)"
proof -
  have "\<exists>j'. EmitAddImm32 1 2 0xffffffff True demo_jit1 = Returns (True, j')"
    unfolding EmitAddImm32_def by (simp add: IsRegister_def demo_encodings demo_emit)
  then obtain j' where e: "EmitAddImm32 1 2 0xffffffff True demo_jit1 = Returns (True, j')" by blast
  have "(4, EmitAddImm32) \<in> set arith_imm_emitters" by (simp add: arith_imm_emitters_def)
  from arith_imm32_executes [OF demo_jit1_reach this _ _ e] e show ?thesis by auto
qed

text \<open>the logical emitters with a 32-bit immediate compute the result and the sign and zero
  flags of AND, EOR, BIC and ORR, also when they emit the complementary instruction, an MVN or
  nothing; the carry after a flag-setting form is that of the shifter.\<close>

theorem logic_imm32_executes:
  assumes "reach (cb_initial tid) cb_step j" "(op, c, emit) \<in> set logic_imm_emitters" "rd < 15" "rn < 15"
    "emit rd rn v S j = Returns (True, j')"
  shows "\<exists>ws sc. buf_words j' = buf_words j @ ws \<and>
    executes ws (\<lambda>s. if holds c s then dp_effect op S rd rn v (sc s) s else s)"
  using logic_imm32 [OF buffer.reach_inv [OF assms(1)] assms(2-5)] by (auto simp: compiled_def)

theorem logic_imm32_executes_witness:
  "\<exists>j' ws sc. EmitAndImm32 1 2 0xfffffffe False demo_jit1 = Returns (True, j') \<and> buf_words j' = buf_words demo_jit1 @ ws \<and>
     executes ws (\<lambda>s. if holds AL s then dp_effect 0 False 1 2 0xfffffffe (sc s) s else s)"
proof -
  have "\<exists>j'. EmitAndImm32 1 2 0xfffffffe False demo_jit1 = Returns (True, j')"
    unfolding EmitAndImm32_def by (simp add: IsRegister_def CanElideSameRegisterWrite_def demo_encodings demo_emit)
  then obtain j' where e: "EmitAndImm32 1 2 0xfffffffe False demo_jit1 = Returns (True, j')" by blast
  have "(0, AL, EmitAndImm32) \<in> set logic_imm_emitters" by (simp add: logic_imm_emitters_def)
  from logic_imm32_executes [OF demo_jit1_reach this _ _ e] e show ?thesis by auto
qed

text \<open>after the emitted comparison of a register with a 32-bit constant, the conditions
  equal, unsigned at least, unsigned greater, signed less, signed at least and signed greater
  hold exactly when the register and the constant compare so.\<close>

theorem compare_imm32_decides:
  assumes "reach (cb_initial tid) cb_step j" "rn < 15" "EmitCmpImm32 rn v AL j = Returns (True, j')"
  shows "\<exists>ws. buf_words j' = buf_words j @ ws \<and> (\<forall>s. \<exists>s'. exec_all ws s = Some s' \<and> a32_reg s' = a32_reg s \<and>
    (holds EQ s' \<longleftrightarrow> a32_reg s rn = v) \<and> (holds CS s' \<longleftrightarrow> v \<le> a32_reg s rn) \<and> (holds HI s' \<longleftrightarrow> v < a32_reg s rn) \<and>
    (holds LT s' \<longleftrightarrow> sint (a32_reg s rn) < sint v) \<and> (holds GE s' \<longleftrightarrow> sint v \<le> sint (a32_reg s rn)) \<and>
    (holds GT s' \<longleftrightarrow> sint v < sint (a32_reg s rn)))"
proof -
  let ?f = "dp_effect 10 True 0 rn v False"
  from cmp_imm32 [OF buffer.reach_inv [OF assms(1)] assms(2,3)] obtain ws where
    ws: "buf_words j' = buf_words j @ ws" "executes ws ?f" by (auto simp: compiled_def)
  have h: "holds c ((advance ^^ n) s) = holds c s" for c n s by (induction n) simp_all
  have r: "a32_reg ((advance ^^ n) s) = a32_reg s" for n s by (induction n) simp_all
  have reg: "a32_reg (?f s) = a32_reg s" for s by (simp add: dp_effect_def is_test_def split: prod.split)
  have x: "exec_all ws s = Some ((advance ^^ length ws) (?f s))" for s using ws(2) by (simp add: executes_def)
  show ?thesis
    by (rule exI [of _ ws], rule conjI [OF ws(1)], rule allI, rule exI, rule conjI, rule x)
       (simp only: h r reg cmp_flags simp_thms)
qed

theorem compare_imm32_decides_witness:
  "\<exists>j' ws. EmitCmpImm32 4 0xffffffff AL demo_jit1 = Returns (True, j') \<and> buf_words j' = buf_words demo_jit1 @ ws \<and>
     (\<forall>s. \<exists>s'. exec_all ws s = Some s' \<and> (holds LT s' \<longleftrightarrow> sint (a32_reg s 4) < sint (0xffffffff :: u32)))"
proof -
  have "\<exists>j'. EmitCmpImm32 4 0xffffffff AL demo_jit1 = Returns (True, j')"
    unfolding EmitCmpImm32_def by (simp add: IsRegister_def demo_encodings demo_emit)
  then obtain j' where e: "EmitCmpImm32 4 0xffffffff AL demo_jit1 = Returns (True, j')" by blast
  from compare_imm32_decides [OF demo_jit1_reach _ e] e show ?thesis by fastforce
qed

text \<open>The three-register emitters compute the result and flags of the instruction they are
  named after, also when they drop a conjunction or disjunction of a register with itself.\<close>

theorem register_forms_execute:
  assumes "reach (cb_initial tid) cb_step j" "(op, emit) \<in> set reg_emitters" "rd < 15" "rn < 15" "rm < 15"
    "emit rd rn rm S j = Returns (True, j')"
  shows "\<exists>ws. buf_words j' = buf_words j @ ws \<and>
    executes ws (\<lambda>s. dp_effect op S rd rn (a32_reg s rm) (a32_C s) s)"
  using reg_forms [OF buffer.reach_inv [OF assms(1)] assms(2-6)] by (simp add: compiled_def)

theorem register_forms_execute_witness:
  "\<exists>j' ws. EmitSbcReg 1 2 3 True demo_jit1 = Returns (True, j') \<and> buf_words j' = buf_words demo_jit1 @ ws \<and>
     executes ws (\<lambda>s. dp_effect 6 True 1 2 (a32_reg s 3) (a32_C s) s)"
proof -
  have "\<exists>j'. EmitSbcReg 1 2 3 True demo_jit1 = Returns (True, j')"
    unfolding EmitSbcReg_def by (simp add: IsRegister_def demo_emit)
  then obtain j' where e: "EmitSbcReg 1 2 3 True demo_jit1 = Returns (True, j')" by blast
  have "(6, EmitSbcReg) \<in> set reg_emitters" by (simp add: reg_emitters_def)
  from register_forms_execute [OF demo_jit1_reach this _ _ _ e] e show ?thesis by auto
qed

text \<open>the emitters with a shifted register operand apply the immediate shift the architecture
  gives their shift type and amount (zero standing for 32 or for a rotation through the carry)
  before the operation.\<close>

theorem shifted_forms_execute:
  assumes "reach (cb_initial tid) cb_step j" "(op, c, emit) \<in> set shift_emitters" "rd < 15" "rn < 15" "rm < 15"
    "emit rd rn rm shift amount S j = Returns (True, j')"
  shows "\<exists>ws. buf_words j' = buf_words j @ ws \<and>
    executes ws (\<lambda>s. if holds c s then case ImmShift (ShiftTypeVal shift) (ucast amount) (a32_reg s rm) (a32_C s) of
       (b, sc) \<Rightarrow> dp_effect op S rd rn b sc s else s)"
  using shift_forms [OF buffer.reach_inv [OF assms(1)] assms(2-6)] by (simp add: compiled_def)

theorem shifted_forms_execute_witness:
  "\<exists>j' ws. EmitAddRegShiftImm 1 2 3 ASR 4 False demo_jit1 = Returns (True, j') \<and> buf_words j' = buf_words demo_jit1 @ ws \<and>
     executes ws (\<lambda>s. if holds AL s then case ImmShift (ShiftTypeVal ASR) (ucast (4 :: u8)) (a32_reg s 3) (a32_C s) of
       (b, sc) \<Rightarrow> dp_effect 4 False 1 2 b sc s else s)"
proof -
  have "\<exists>j'. EmitAddRegShiftImm 1 2 3 ASR 4 False demo_jit1 = Returns (True, j')"
    unfolding EmitAddRegShiftImm_def by (simp add: IsRegister_def demo_emit)
  then obtain j' where e: "EmitAddRegShiftImm 1 2 3 ASR 4 False demo_jit1 = Returns (True, j')" by blast
  have "(4, AL, EmitAddRegShiftImm) \<in> set shift_emitters" by (simp add: shift_emitters_def)
  from shifted_forms_execute [OF demo_jit1_reach this _ _ _ e] e show ?thesis by auto
qed

text \<open>The emitted long multiplications leave the low and the high half of the full unsigned,
  respectively signed, 64-bit product in their two destination registers.\<close>

theorem long_multiply_executes:
  assumes "reach (cb_initial tid) cb_step j" "rdlo < 15" "rdhi < 15" "rn < 15" "rm < 15"
    "(if sg then EmitSmull rdlo rdhi rn rm False j else EmitUmull rdlo rdhi rn rm False j) = Returns (True, j')"
  shows "\<exists>ws. buf_words j' = buf_words j @ ws \<and>
    executes ws (\<lambda>s. let p = (if sg then word_of_int (sint (a32_reg s rn) * sint (a32_reg s rm))
                              else word_of_int (uint (a32_reg s rn) * uint (a32_reg s rm))) :: u64
      in set_reg rdlo (ucast p) (set_reg rdhi (ucast (drop_bit 32 p)) s))"
  using mull_forms [OF buffer.reach_inv [OF assms(1)] assms(2-5), of j'] assms(6)
  by (cases sg) (simp_all add: compiled_def)

theorem long_multiply_executes_witness:
  "\<exists>j' ws. EmitSmull 0 1 2 3 False demo_jit1 = Returns (True, j') \<and> buf_words j' = buf_words demo_jit1 @ ws \<and>
     executes ws (\<lambda>s. let p = word_of_int (sint (a32_reg s 2) * sint (a32_reg s 3)) :: u64
      in set_reg 0 (ucast p) (set_reg 1 (ucast (drop_bit 32 p)) s))"
proof -
  have "\<exists>j'. EmitSmull 0 1 2 3 False demo_jit1 = Returns (True, j')"
    unfolding EmitSmull_def by (simp add: IsLowRegister_def demo_emit)
  then obtain j' where e: "EmitSmull 0 1 2 3 False demo_jit1 = Returns (True, j')" by blast
  from long_multiply_executes [OF demo_jit1_reach, of 0 1 2 3 True j'] e show ?thesis by auto
qed

text \<open>The bit-field emitters that accept their operands emit an extraction of exactly the
  field of the given position and width, and an insertion that replaces exactly that field of
  the destination.\<close>

theorem bitfield_executes:
  assumes "reach (cb_initial tid) cb_step j"
    "(if insert_field then EmitBfi rd rn lsb width j else EmitUbfx rd rn lsb width j) = Returns (True, j')"
  shows "\<exists>ws. buf_words j' = buf_words j @ ws \<and> executes ws (\<lambda>s. set_reg rd
    (if insert_field then (a32_reg s rd AND NOT (push_bit (unat lsb) (mask (unat width)))) OR
         push_bit (unat lsb) (take_bit (unat width) (a32_reg s rn))
     else take_bit (unat width) (drop_bit (unat lsb) (a32_reg s rn))) s)"
proof -
  note inv = buffer.reach_inv [OF assms(1)]
  show ?thesis
  proof (cases insert_field)
    case True
    with assms(2) have g: "rd < 15" "rn < 15" "\<not> lsb \<ge> 32" "width \<noteq> 0" "\<not> (ucast width :: u32) > 32 - ucast lsb"
      and w: "EmitU32 (EncodeBfi rd rn lsb width) j = Returns (True, j')"
      by (auto simp: EmitBfi_def IsLowRegister_def split: if_splits)
    with True emitted_1 [OF inv w] exec_bfi [OF g] show ?thesis by (auto simp: executes_1)
  next
    case False
    with assms(2) have g: "rd < 15" "rn < 15" "\<not> lsb \<ge> 32" "width \<noteq> 0" "\<not> (ucast width :: u32) > 32 - ucast lsb"
      and w: "EmitU32 (EncodeUbfx rd rn lsb width) j = Returns (True, j')"
      by (auto simp: EmitUbfx_def IsLowRegister_def split: if_splits)
    with False emitted_1 [OF inv w] exec_ubfx [OF g] show ?thesis by (auto simp: executes_1)
  qed
qed

theorem bitfield_executes_witness:
  "\<exists>j' ws. EmitUbfx 1 2 8 24 demo_jit1 = Returns (True, j') \<and> buf_words j' = buf_words demo_jit1 @ ws \<and>
     executes ws (\<lambda>s. set_reg 1 (take_bit 24 (drop_bit 8 (a32_reg s 2))) s)"
proof -
  have "\<exists>j'. EmitUbfx 1 2 8 24 demo_jit1 = Returns (True, j')"
    unfolding EmitUbfx_def by (simp add: IsLowRegister_def demo_emit)
  then obtain j' where e: "EmitUbfx 1 2 8 24 demo_jit1 = Returns (True, j')" by blast
  from bitfield_executes [OF demo_jit1_reach, of False 1 2 8 24 j'] e show ?thesis by auto
qed

text \<open>an emitted call to an absolute address reaches that address, in the instruction set its
  low bit selects, with the link register at the instruction after the call; only the scratch
  and the link register change.\<close>

theorem call_absolute_executes:
  assumes "reach (cb_initial tid) cb_step j" "EmitCallAbsolute function r j = Returns (True, j')"
  shows "\<exists>ws. buf_words j' = buf_words j @ ws \<and> (\<forall>s. exec_all ws s =
    Some ((set_reg 14 (a32_pc s + 4 * of_nat (length ws)) (set_reg r function s))
      \<lparr> a32_pc := function AND NOT 1, a32_thumb := bit function 0 \<rparr>))"
  by (rule call_absolute [OF buffer.reach_inv [OF assms(1)] assms(2)])

theorem call_absolute_executes_witness:
  "\<exists>j' ws. EmitCallAbsolute 0x81000000 12 demo_jit1 = Returns (True, j') \<and> buf_words j' = buf_words demo_jit1 @ ws \<and>
     (\<forall>s. \<exists>s'. exec_all ws s = Some s' \<and> a32_pc s' = 0x81000000)"
proof -
  have "\<exists>j'. EmitCallAbsolute 0x81000000 12 demo_jit1 = Returns (True, j')"
    using demo_emit_two [of "dp_imm AL OPCODE_MOV False 0 12 0x481" "EncodeBlx 12"]
    unfolding EmitCallAbsolute_def EmitMovImm32_def EmitBlx_def mov_imm_words
    by (auto simp: IsRegister_def demo_encodings jand_def jbind_def)
  then obtain j' where e: "EmitCallAbsolute 0x81000000 12 demo_jit1 = Returns (True, j')" by blast
  from call_absolute_executes [OF demo_jit1_reach e] e show ?thesis by fastforce
qed

text \<open>the branch encoder is correct and complete: a word it builds is a branch under the given
  condition whose target is the requested address, and it refuses only a null address, a
  displacement that is not a multiple of four, or one out of the 24-bit range.\<close>

theorem branch_encoding_correct:
  "case EncodeBranch a t c of
     Some w \<Rightarrow> branch_target a w = t \<and> fld 28 4 w = ConditionVal c \<and> fld 24 4 w = 0xa
   | None \<Rightarrow> a = 0 \<or> t = 0 \<or> (t - (a + 8)) AND 3 \<noteq> 0 \<or> sint (t - (a + 8)) < - 0x2000000 \<or> 0x1fffffc < sint (t - (a + 8))"
proof (cases "EncodeBranch a t c")
  case None
  have "\<not> (a \<noteq> 0 \<and> t \<noteq> 0 \<and> (t - (a + 8)) AND 3 = 0 \<and> - 0x2000000 \<le> sint (t - (a + 8)) \<and> sint (t - (a + 8)) \<le> 0x1fffffc)"
    using EncodeBranch_complete [of a t c] None by blast
  with None show ?thesis by (simp only: option.case not_le [symmetric]) blast
next
  case (Some w)
  with EncodeBranch_Some(3-5) [OF Some] show ?thesis by simp
qed

theorem branch_encoding_correct_witness:
  "EncodeBranch 0x81000000 0x81000004 NE = Some 0x1affffff \<and> branch_target 0x81000000 0x1affffff = 0x81000004"
proof -
  have "EncodeBranch 0x81000000 0x81000004 NE = Some 0x1affffff" by code_simp
  with branch_encoding_correct [of "0x81000000" "0x81000004" NE] show ?thesis by simp
qed

text \<open>a branch patched into a buffer lands on the requested offset of the same buffer: the word
  at the patched offset is a branch with that target, and no other word changed.\<close>

theorem patched_branch_lands:
  assumes "reach (cb_initial tid) cb_step j" "off \<noteq> 0xfffffffc" "PatchBranch off target c j = Returns (True, j')"
  shows "\<exists>w. buf_words j' = (buf_words j)[unat off div 4 := w] \<and> unat off div 4 < length (buf_words j) \<and>
    branch_target (m_base (jit_cb j) + off) w = m_base (jit_cb j) + target \<and> fld 28 4 w = ConditionVal c \<and> fld 24 4 w = 0xa"
proof -
  note inv = buffer.reach_inv [OF assms(1)]
  obtain w where w: "EncodeBranch (m_base (jit_cb j) + off) (m_base (jit_cb j) + target) c = Some w"
    using assms(3) by (auto simp: PatchBranch_def Let_def split: if_splits option.splits)
  have "patches off w j True j'" using Patch_cases(3) [OF assms(3)] w by simp
  from patches_words [OF inv this assms(2)] EncodeBranch_Some(3-5) [OF w] show ?thesis by blast
qed

theorem patched_branch_lands_witness:
  "\<exists>j' w. PatchBranch 0 4 AL demo_jit1 = Returns (True, j') \<and> buf_words j' = [w] \<and> branch_target 0x81000000 w = 0x81000004"
proof -
  have "EncodeBranch 0x81000000 0x81000004 AL = Some 0xeaffffff" by code_simp
  moreover have "\<exists>j'. patch_store 0 0xeaffffff demo_jit1 = Returns (True, j')"
    by (simp add: patch_store_def demo_simps jit_simps)
  ultimately have "\<exists>j'. PatchBranch 0 4 AL demo_jit1 = Returns (True, j')"
    by (simp add: PatchBranch_def patch_guard_def demo_jit1_state)
  then obtain j' where e: "PatchBranch 0 4 AL demo_jit1 = Returns (True, j')" by blast
  have "buf_words demo_jit1 = [0xe3a00001]"
    by (simp add: buf_words_def buf_bytes_def ReadBase_def wptr_load_def demo_simps jit_simps u32_bytes_def bytes_u32_def)
  with patched_branch_lands [OF demo_jit1_reach _ e] e show ?thesis by (auto simp: demo_jit1_state)
qed

text \<open>the guard of the patching operations adds four to the offset before comparing, and the sum
  wraps around for the last aligned offset: in a direct-mapped buffer the store then goes to
  the four bytes below the buffer.\<close>

theorem patch_guard_wraps:
  assumes "m_write_domain_open (jit_cb j)" "m_write_base (jit_cb j) = WAt (m_base (jit_cb j))" "m_base (jit_cb j) \<noteq> 0"
    "m_offset (jit_cb j) \<le> m_write_capacity (jit_cb j)"
  shows "\<exists>j'. PatchInstruction 0xfffffffc w j = Returns (True, j') \<and>
    vm_mem (jit_vm j') = mem_write (vm_mem (jit_vm j)) (m_base (jit_cb j) - 4) (u32_bytes w)"
proof -
  have "(0xfffffffc :: u32) = - 4" by simp
  then have a: "m_base (jit_cb j) + 0xfffffffc = m_base (jit_cb j) - 4" by (metis add_uminus_conv_diff)
  have z: "(4294967296 :: u32) = 0" by (simp add: word_eq_iff_unsigned)
  show ?thesis using assms
    by (simp add: z PatchInstruction_def patch_guard_def patch_store_def EnsureWritable_def jbind_def store_code_def
        wptr_store_def a)
qed

theorem patch_guard_wraps_witness:
  "\<exists>j'. PatchInstruction 0xfffffffc 0xe12fff1e (upd_cb (\<lambda>cb. cb\<lparr> m_write_base := WAt 0x81000000 \<rparr>) demo_jit1) = Returns (True, j') \<and>
     mem_read (vm_mem (jit_vm j')) 0x80fffffc 4 = u32_bytes 0xe12fff1e"
proof -
  let ?j = "upd_cb (\<lambda>cb. cb\<lparr> m_write_base := WAt 0x81000000 \<rparr>) demo_jit1"
  obtain j' where "PatchInstruction 0xfffffffc 0xe12fff1e ?j = Returns (True, j')"
    "vm_mem (jit_vm j') = mem_write (vm_mem (jit_vm ?j)) (m_base (jit_cb ?j) - 4) (u32_bytes 0xe12fff1e)"
    using patch_guard_wraps [of ?j "0xe12fff1e"] by (auto simp: demo_jit1_state)
  moreover have "mem_read (mem_write m 0x80fffffc (u32_bytes 0xe12fff1e)) 0x80fffffc 4 = u32_bytes 0xe12fff1e" for m
    using mem_read_write [of "u32_bytes 0xe12fff1e" m "0x80fffffc"] by simp
  ultimately show ?thesis by (simp add: demo_jit1_state)
qed

end
