(* ===== verification/A32_Encode_Neon.thy ===== *)
theory A32_Encode_Neon
  imports A32_Encode
begin

text \<open>
  The VFP and Advanced SIMD encoders of \<^verbatim>\<open>pcsx2/vita/A32Emitter.cpp\<close>: the opcode
  constants, the register fields of D, Q and S registers, and one definition per
  \<^verbatim>\<open>EncodeV\<close> function.
\<close>

subsection \<open>Opcode constants\<close>

definition VPUSH_D :: u32 where [encoder_defs]: "VPUSH_D = 0xed2d0b00"
definition VPOP_D :: u32 where [encoder_defs]: "VPOP_D = 0xecbd0b00"
definition VLD1_32_Q :: u32 where [encoder_defs]: "VLD1_32_Q = 0xf4200a8f"
definition VLD1_32_Q_ALIGNED :: u32 where [encoder_defs]: "VLD1_32_Q_ALIGNED = 0xf4200aaf"
definition VST1_32_Q :: u32 where [encoder_defs]: "VST1_32_Q = 0xf4000a8f"
definition VST1_32_Q_ALIGNED :: u32 where [encoder_defs]: "VST1_32_Q_ALIGNED = 0xf4000aaf"
definition VST1_32_Q_ALIGNED_WRITEBACK :: u32 where [encoder_defs]: "VST1_32_Q_ALIGNED_WRITEBACK = 0xf4000aad"
definition VST1_32_D :: u32 where [encoder_defs]: "VST1_32_D = 0xf400078f"
definition VST1_32_D_LANE :: u32 where [encoder_defs]: "VST1_32_D_LANE = 0xf480080f"
definition VST1_8_D_LANE0 :: u32 where [encoder_defs]: "VST1_8_D_LANE0 = 0xf480000f"
definition VST1_16_D_LANE0 :: u32 where [encoder_defs]: "VST1_16_D_LANE0 = 0xf480040f"
definition VLDR_S_IMM :: u32 where [encoder_defs]: "VLDR_S_IMM = 0x0d900a00"
definition VSTR_S_IMM :: u32 where [encoder_defs]: "VSTR_S_IMM = 0x0d800a00"
definition VLDR_D_IMM :: u32 where [encoder_defs]: "VLDR_D_IMM = 0x0d900b00"
definition VSTR_D_IMM :: u32 where [encoder_defs]: "VSTR_D_IMM = 0x0d800b00"
definition VDUP_I16_D :: u32 where [encoder_defs]: "VDUP_I16_D = 0xf3b20c00"
definition VDUP_I32_D_CORE :: u32 where [encoder_defs]: "VDUP_I32_D_CORE = 0xee800b10"
definition VDUP_I32_D_LANE :: u32 where [encoder_defs]: "VDUP_I32_D_LANE = 0xf3b40c00"
definition VDUP_I32_Q_CORE :: u32 where [encoder_defs]: "VDUP_I32_Q_CORE = 0xeea00b10"
definition VDUP_I32_Q_LANE :: u32 where [encoder_defs]: "VDUP_I32_Q_LANE = 0xf3b40c40"
definition VMOV_I32_Q_IMM :: u32 where [encoder_defs]: "VMOV_I32_Q_IMM = 0xf2800050"
definition VBIC_I32_Q_IMM :: u32 where [encoder_defs]: "VBIC_I32_Q_IMM = 0xf2800070"
definition VMOV_S :: u32 where [encoder_defs]: "VMOV_S = 0xeeb00a40"
definition VABS_F32 :: u32 where [encoder_defs]: "VABS_F32 = 0xeeb00ac0"
definition VNEG_F32 :: u32 where [encoder_defs]: "VNEG_F32 = 0xeeb10a40"
definition VMOV_CORE_TO_S :: u32 where [encoder_defs]: "VMOV_CORE_TO_S = 0xee000a10"
definition VMOV_S_TO_CORE :: u32 where [encoder_defs]: "VMOV_S_TO_CORE = 0xee100a10"
definition VMRS_FPSCR :: u32 where [encoder_defs]: "VMRS_FPSCR = 0xeef10a10"
definition VMSR_FPSCR :: u32 where [encoder_defs]: "VMSR_FPSCR = 0xeee10a10"
definition VMOV_CORE_TO_D32_LANE :: u32 where [encoder_defs]: "VMOV_CORE_TO_D32_LANE = 0x0e000b10"
definition VMOV_D32_LANE_TO_CORE :: u32 where [encoder_defs]: "VMOV_D32_LANE_TO_CORE = 0x0e100b10"
definition VMOV_CORE_PAIR_TO_D :: u32 where [encoder_defs]: "VMOV_CORE_PAIR_TO_D = 0xec400b10"
definition VCVT_F32_S32 :: u32 where [encoder_defs]: "VCVT_F32_S32 = 0xeeb80ac0"
definition VCVT_S32_F32 :: u32 where [encoder_defs]: "VCVT_S32_F32 = 0xeebd0ac0"
definition VCVT_F64_F32 :: u32 where [encoder_defs]: "VCVT_F64_F32 = 0xeeb70ac0"
definition VCVT_F32_F64 :: u32 where [encoder_defs]: "VCVT_F32_F64 = 0xeeb70bc0"
definition VCVT_F32_S32_D :: u32 where [encoder_defs]: "VCVT_F32_S32_D = 0xf3bb0600"
definition VCVT_S32_F32_D :: u32 where [encoder_defs]: "VCVT_S32_F32_D = 0xf3bb0700"
definition VCVT_F32_S32_Q :: u32 where [encoder_defs]: "VCVT_F32_S32_Q = 0xf3bb0640"
definition VCVT_S32_F32_Q :: u32 where [encoder_defs]: "VCVT_S32_F32_Q = 0xf3bb0740"
definition VCVT_F32_S32_FIXED_D :: u32 where [encoder_defs]: "VCVT_F32_S32_FIXED_D = 0xf2800e10"
definition VCVT_S32_F32_FIXED_D :: u32 where [encoder_defs]: "VCVT_S32_F32_FIXED_D = 0xf2800f10"
definition VCVT_F32_S32_FIXED_Q :: u32 where [encoder_defs]: "VCVT_F32_S32_FIXED_Q = 0xf2800e50"
definition VCVT_S32_F32_FIXED_Q :: u32 where [encoder_defs]: "VCVT_S32_F32_FIXED_Q = 0xf2800f50"
definition VADD_F32 :: u32 where [encoder_defs]: "VADD_F32 = 0xee300a00"
definition VADD_F64 :: u32 where [encoder_defs]: "VADD_F64 = 0xee300b00"
definition VSUB_F32 :: u32 where [encoder_defs]: "VSUB_F32 = 0xee300a40"
definition VMUL_F32 :: u32 where [encoder_defs]: "VMUL_F32 = 0xee200a00"
definition VMLA_F32 :: u32 where [encoder_defs]: "VMLA_F32 = 0xee000a00"
definition VMLS_F32 :: u32 where [encoder_defs]: "VMLS_F32 = 0xee000a40"
definition VMUL_F64 :: u32 where [encoder_defs]: "VMUL_F64 = 0xee200b00"
definition VADD_F32_D :: u32 where [encoder_defs]: "VADD_F32_D = 0xf2000d00"
definition VSUB_F32_D :: u32 where [encoder_defs]: "VSUB_F32_D = 0xf2200d00"
definition VMUL_F32_D :: u32 where [encoder_defs]: "VMUL_F32_D = 0xf3000d10"
definition VMLA_F32_D :: u32 where [encoder_defs]: "VMLA_F32_D = 0xf2000d10"
definition VMLS_F32_D :: u32 where [encoder_defs]: "VMLS_F32_D = 0xf2200d10"
definition VMUL_F32_D_LANE :: u32 where [encoder_defs]: "VMUL_F32_D_LANE = 0xf2a00940"
definition VMLA_F32_D_LANE :: u32 where [encoder_defs]: "VMLA_F32_D_LANE = 0xf2a00140"
definition VMLS_F32_D_LANE :: u32 where [encoder_defs]: "VMLS_F32_D_LANE = 0xf2a00540"
definition VADD_F32_Q :: u32 where [encoder_defs]: "VADD_F32_Q = 0xf2000d40"
definition VSUB_F32_Q :: u32 where [encoder_defs]: "VSUB_F32_Q = 0xf2200d40"
definition VMUL_F32_Q :: u32 where [encoder_defs]: "VMUL_F32_Q = 0xf3000d50"
definition VMLA_F32_Q :: u32 where [encoder_defs]: "VMLA_F32_Q = 0xf2000d50"
definition VMLS_F32_Q :: u32 where [encoder_defs]: "VMLS_F32_Q = 0xf2200d50"
definition VMUL_F32_Q_LANE :: u32 where [encoder_defs]: "VMUL_F32_Q_LANE = 0xf3a00940"
definition VMLA_F32_Q_LANE :: u32 where [encoder_defs]: "VMLA_F32_Q_LANE = 0xf3a00140"
definition VMLS_F32_Q_LANE :: u32 where [encoder_defs]: "VMLS_F32_Q_LANE = 0xf3a00540"
definition VRECPE_F32_D :: u32 where [encoder_defs]: "VRECPE_F32_D = 0xf3bb0500"
definition VRECPS_F32_D :: u32 where [encoder_defs]: "VRECPS_F32_D = 0xf2000f10"
definition VRSQRTE_F32_D :: u32 where [encoder_defs]: "VRSQRTE_F32_D = 0xf3bb0580"
definition VRSQRTS_F32_D :: u32 where [encoder_defs]: "VRSQRTS_F32_D = 0xf2200f10"
definition VDIV_F32 :: u32 where [encoder_defs]: "VDIV_F32 = 0xee800a00"
definition VDIV_F64 :: u32 where [encoder_defs]: "VDIV_F64 = 0xee800b00"
definition VSQRT_F32 :: u32 where [encoder_defs]: "VSQRT_F32 = 0xeeb10ac0"
definition VADD_I8_Q :: u32 where [encoder_defs]: "VADD_I8_Q = 0xf2000840"
definition VADD_I16_Q :: u32 where [encoder_defs]: "VADD_I16_Q = 0xf2100840"
definition VADD_I32_Q :: u32 where [encoder_defs]: "VADD_I32_Q = 0xf2200840"
definition VADD_I64_Q :: u32 where [encoder_defs]: "VADD_I64_Q = 0xf2300840"
definition VPADD_I32_D :: u32 where [encoder_defs]: "VPADD_I32_D = 0xf2200b10"
definition VPMAX_U32_D :: u32 where [encoder_defs]: "VPMAX_U32_D = 0xf3200a00"
definition VSUB_I8_Q :: u32 where [encoder_defs]: "VSUB_I8_Q = 0xf3000840"
definition VSUB_I16_Q :: u32 where [encoder_defs]: "VSUB_I16_Q = 0xf3100840"
definition VSUB_I32_Q :: u32 where [encoder_defs]: "VSUB_I32_Q = 0xf3200840"
definition VSHL_I16_Q :: u32 where [encoder_defs]: "VSHL_I16_Q = 0xf2900550"
definition VSHL_I32_Q :: u32 where [encoder_defs]: "VSHL_I32_Q = 0xf2a00550"
definition VSHR_U_Q :: u32 where [encoder_defs]: "VSHR_U_Q = 0xf3800050"
definition VSHR_S_Q :: u32 where [encoder_defs]: "VSHR_S_Q = 0xf2800050"
definition VSRI_I32_Q :: u32 where [encoder_defs]: "VSRI_I32_Q = 0xf3800450"
definition VSHL_U32_REG_Q :: u32 where [encoder_defs]: "VSHL_U32_REG_Q = 0xf3200440"
definition VSHL_S32_REG_Q :: u32 where [encoder_defs]: "VSHL_S32_REG_Q = 0xf2200440"
definition VMULL_S16_Q :: u32 where [encoder_defs]: "VMULL_S16_Q = 0xf2900c00"
definition VMULL_S32_Q :: u32 where [encoder_defs]: "VMULL_S32_Q = 0xf2a00c00"
definition VMULL_U32_Q :: u32 where [encoder_defs]: "VMULL_U32_Q = 0xf3a00c00"
definition VNEG_S32_Q :: u32 where [encoder_defs]: "VNEG_S32_Q = 0xf3b903c0"
definition VQMOVN_S32_D :: u32 where [encoder_defs]: "VQMOVN_S32_D = 0xf3b60280"
definition VQMOVN_S64_D :: u32 where [encoder_defs]: "VQMOVN_S64_D = 0xf3ba0280"
definition VCGT_S8_Q :: u32 where [encoder_defs]: "VCGT_S8_Q = 0xf2000340"
definition VCGT_S16_Q :: u32 where [encoder_defs]: "VCGT_S16_Q = 0xf2100340"
definition VCGT_S32_Q :: u32 where [encoder_defs]: "VCGT_S32_Q = 0xf2200340"
definition VCEQ_I8_Q :: u32 where [encoder_defs]: "VCEQ_I8_Q = 0xf3000850"
definition VCEQ_I16_Q :: u32 where [encoder_defs]: "VCEQ_I16_Q = 0xf3100850"
definition VCEQ_I32_D :: u32 where [encoder_defs]: "VCEQ_I32_D = 0xf3200810"
definition VCEQ_I32_Q :: u32 where [encoder_defs]: "VCEQ_I32_Q = 0xf3200850"
definition VCEQ_I32_ZERO_D :: u32 where [encoder_defs]: "VCEQ_I32_ZERO_D = 0xf3b90100"
definition VCEQ_I32_ZERO_Q :: u32 where [encoder_defs]: "VCEQ_I32_ZERO_Q = 0xf3b90140"
definition VCLT_S32_ZERO_Q :: u32 where [encoder_defs]: "VCLT_S32_ZERO_Q = 0xf3b90240"
definition VMIN_S16_Q :: u32 where [encoder_defs]: "VMIN_S16_Q = 0xf2100650"
definition VMIN_S32_Q :: u32 where [encoder_defs]: "VMIN_S32_Q = 0xf2200650"
definition VMAX_S16_Q :: u32 where [encoder_defs]: "VMAX_S16_Q = 0xf2100640"
definition VMAX_S32_Q :: u32 where [encoder_defs]: "VMAX_S32_Q = 0xf2200640"
definition VQADD_S8_Q :: u32 where [encoder_defs]: "VQADD_S8_Q = 0xf2000050"
definition VQADD_S16_Q :: u32 where [encoder_defs]: "VQADD_S16_Q = 0xf2100050"
definition VQADD_S32_Q :: u32 where [encoder_defs]: "VQADD_S32_Q = 0xf2200050"
definition VQSUB_S8_Q :: u32 where [encoder_defs]: "VQSUB_S8_Q = 0xf2000250"
definition VQSUB_S16_Q :: u32 where [encoder_defs]: "VQSUB_S16_Q = 0xf2100250"
definition VQSUB_S32_Q :: u32 where [encoder_defs]: "VQSUB_S32_Q = 0xf2200250"
definition VQADD_U8_Q :: u32 where [encoder_defs]: "VQADD_U8_Q = 0xf3000050"
definition VQADD_U16_Q :: u32 where [encoder_defs]: "VQADD_U16_Q = 0xf3100050"
definition VQADD_U32_Q :: u32 where [encoder_defs]: "VQADD_U32_Q = 0xf3200050"
definition VQSUB_U8_Q :: u32 where [encoder_defs]: "VQSUB_U8_Q = 0xf3000250"
definition VQSUB_U16_Q :: u32 where [encoder_defs]: "VQSUB_U16_Q = 0xf3100250"
definition VQSUB_U32_Q :: u32 where [encoder_defs]: "VQSUB_U32_Q = 0xf3200250"
definition VQABS_S16_Q :: u32 where [encoder_defs]: "VQABS_S16_Q = 0xf3b40740"
definition VQABS_S32_Q :: u32 where [encoder_defs]: "VQABS_S32_Q = 0xf3b80740"
definition VCLS_S32_Q :: u32 where [encoder_defs]: "VCLS_S32_Q = 0xf3b80440"
definition VREV64_I32_D :: u32 where [encoder_defs]: "VREV64_I32_D = 0xf3b80000"
definition VREV64_I32_Q :: u32 where [encoder_defs]: "VREV64_I32_Q = 0xf3b80040"
definition VREV64_I16_Q :: u32 where [encoder_defs]: "VREV64_I16_Q = 0xf3b40040"
definition VSWP_D :: u32 where [encoder_defs]: "VSWP_D = 0xf3b20000"
definition VTRN_I16_D :: u32 where [encoder_defs]: "VTRN_I16_D = 0xf3b60080"
definition VTRN_I16_Q :: u32 where [encoder_defs]: "VTRN_I16_Q = 0xf3b600c0"
definition VTRN_I32_D :: u32 where [encoder_defs]: "VTRN_I32_D = 0xf3ba0080"
definition VTRN_I32_Q :: u32 where [encoder_defs]: "VTRN_I32_Q = 0xf3ba00c0"
definition VZIP_I8_Q :: u32 where [encoder_defs]: "VZIP_I8_Q = 0xf3b201c0"
definition VZIP_I16_Q :: u32 where [encoder_defs]: "VZIP_I16_Q = 0xf3b601c0"
definition VZIP_I32_Q :: u32 where [encoder_defs]: "VZIP_I32_Q = 0xf3ba01c0"
definition VUZP_I8_Q :: u32 where [encoder_defs]: "VUZP_I8_Q = 0xf3b20140"
definition VUZP_I16_Q :: u32 where [encoder_defs]: "VUZP_I16_Q = 0xf3b60140"
definition VUZP_I32_Q :: u32 where [encoder_defs]: "VUZP_I32_Q = 0xf3ba0140"
definition VEXT_I8_D :: u32 where [encoder_defs]: "VEXT_I8_D = 0xf2b00000"
definition VEXT_I8_Q :: u32 where [encoder_defs]: "VEXT_I8_Q = 0xf2b00040"
definition VAND_D :: u32 where [encoder_defs]: "VAND_D = 0xf2000110"
definition VAND_Q :: u32 where [encoder_defs]: "VAND_Q = 0xf2000150"
definition VBIT_D :: u32 where [encoder_defs]: "VBIT_D = 0xf3200110"
definition VBIT_Q :: u32 where [encoder_defs]: "VBIT_Q = 0xf3200150"
definition VEOR_Q :: u32 where [encoder_defs]: "VEOR_Q = 0xf3000150"
definition VEOR_D :: u32 where [encoder_defs]: "VEOR_D = 0xf3000110"
definition VORR_Q :: u32 where [encoder_defs]: "VORR_Q = 0xf2200150"
definition VORR_D :: u32 where [encoder_defs]: "VORR_D = 0xf2200110"
definition VMVN_Q :: u32 where [encoder_defs]: "VMVN_Q = 0xf3b005c0"

subsection \<open>Register fields\<close>

definition NeonQd :: "u32 \<Rightarrow> u32" where [encoder_defs]:
  "NeonQd qreg = (let dreg = qreg * 2 in push_bit 12 (dreg AND 0xf) OR
     push_bit 18 (dreg AND 0x10))"

definition NeonDd :: "u32 \<Rightarrow> u32" where [encoder_defs]:
  "NeonDd dreg = push_bit 12 (dreg AND 0xf) OR push_bit 18 (dreg AND 0x10)"

definition NeonDm :: "u32 \<Rightarrow> u32" where [encoder_defs]:
  "NeonDm dreg = (dreg AND 0xf) OR push_bit 1 (dreg AND 0x10)"

definition VfpDd :: "u32 \<Rightarrow> u32" where [encoder_defs]:
  "VfpDd dreg = push_bit 12 (dreg AND 0xf) OR push_bit 18 (dreg AND 0x10)"

definition VfpDn :: "u32 \<Rightarrow> u32" where [encoder_defs]:
  "VfpDn dreg = push_bit 16 (dreg AND 0xf) OR push_bit 3 (dreg AND 0x10)"

definition VfpDm :: "u32 \<Rightarrow> u32" where [encoder_defs]:
  "VfpDm dreg = (dreg AND 0xf) OR push_bit 1 (dreg AND 0x10)"

definition NeonQn :: "u32 \<Rightarrow> u32" where [encoder_defs]:
  "NeonQn qreg = (let dreg = qreg * 2 in push_bit 16 (dreg AND 0xf) OR
     push_bit 3 (dreg AND 0x10))"

definition NeonDn :: "u32 \<Rightarrow> u32" where [encoder_defs]:
  "NeonDn dreg = push_bit 16 (dreg AND 0xf) OR push_bit 3 (dreg AND 0x10)"

definition NeonQm :: "u32 \<Rightarrow> u32" where [encoder_defs]:
  "NeonQm qreg = (let dreg = qreg * 2 in (dreg AND 0xf) OR push_bit 1 (dreg AND 0x10))"

definition VfpSd :: "u32 \<Rightarrow> u32" where [encoder_defs]:
  "VfpSd sreg = push_bit 12 (drop_bit 1 sreg) OR push_bit 22 (sreg AND 1)"

definition VfpSn :: "u32 \<Rightarrow> u32" where [encoder_defs]:
  "VfpSn sreg = push_bit 16 (drop_bit 1 sreg) OR push_bit 7 (sreg AND 1)"

definition VfpSm :: "u32 \<Rightarrow> u32" where [encoder_defs]:
  "VfpSm sreg = drop_bit 1 sreg OR push_bit 5 (sreg AND 1)"

subsection \<open>Instructions\<close>

definition EncodeVldrDImm :: "u32 \<Rightarrow> u32 \<Rightarrow> u16 \<Rightarrow> u32" where [encoder_defs]:
  "EncodeVldrDImm dd rn offset = CondBits AL OR VLDR_D_IMM OR push_bit 16 (rn AND 0xf) OR
     VfpDd dd OR (drop_bit 2 (ucast offset) AND 0xff)"

definition EncodeVldrSImm :: "u32 \<Rightarrow> u32 \<Rightarrow> u16 \<Rightarrow> u32" where [encoder_defs]:
  "EncodeVldrSImm sd rn offset = CondBits AL OR VLDR_S_IMM OR push_bit 16 (rn AND 0xf) OR
     VfpSd sd OR (drop_bit 2 (ucast offset) AND 0xff)"

definition EncodeVstrSImm :: "u32 \<Rightarrow> u32 \<Rightarrow> u16 \<Rightarrow> u32" where [encoder_defs]:
  "EncodeVstrSImm sd rn offset = CondBits AL OR VSTR_S_IMM OR push_bit 16 (rn AND 0xf) OR
     VfpSd sd OR (drop_bit 2 (ucast offset) AND 0xff)"

definition EncodeVstrDImm :: "u32 \<Rightarrow> u32 \<Rightarrow> u16 \<Rightarrow> Condition \<Rightarrow> u32" where [encoder_defs]:
  "EncodeVstrDImm dd rn offset condition = CondBits condition OR VSTR_D_IMM OR
     push_bit 16 (rn AND 0xf) OR VfpDd dd OR (drop_bit 2 (ucast offset) AND 0xff)"

definition EncodeVdupI16D :: "u32 \<Rightarrow> u32 \<Rightarrow> u8 \<Rightarrow> u32" where [encoder_defs]:
  "EncodeVdupI16D dd dm lane = VDUP_I16_D OR NeonDd dd OR NeonDm dm OR
     push_bit 18 (ucast lane AND 0x3)"

definition EncodeVdupI32DFromCore :: "u32 \<Rightarrow> u32 \<Rightarrow> u32" where [encoder_defs]:
  "EncodeVdupI32DFromCore dd rt = VDUP_I32_D_CORE OR NeonDn dd OR push_bit 12 (rt AND 0xf)"

definition EncodeVdupI32DFromQlane :: "u32 \<Rightarrow> u32 \<Rightarrow> u8 \<Rightarrow> u32" where [encoder_defs]:
  "EncodeVdupI32DFromQlane dd qm lane = (let dm = (qm * 2) + drop_bit 1 (ucast lane) in
     VDUP_I32_D_LANE OR NeonDd dd OR NeonDm dm OR push_bit 19 (ucast lane AND 1))"

definition EncodeVdupI32QFromCore :: "u32 \<Rightarrow> u32 \<Rightarrow> u32" where [encoder_defs]:
  "EncodeVdupI32QFromCore qd rt = VDUP_I32_Q_CORE OR NeonQn qd OR push_bit 12 (rt AND 0xf)"

definition EncodeVdupI32QFromQlane :: "u32 \<Rightarrow> u32 \<Rightarrow> u8 \<Rightarrow> u32" where [encoder_defs]:
  "EncodeVdupI32QFromQlane qd qm lane = (let dm = (qm * 2) + drop_bit 1 (ucast lane) in
     VDUP_I32_Q_LANE OR NeonQd qd OR NeonDm dm OR push_bit 19 (ucast lane AND 1))"

definition EncodeVmovI32Q :: "u32 \<Rightarrow> u8 \<Rightarrow> u8 \<Rightarrow> u32" where [encoder_defs]:
  "EncodeVmovI32Q qd imm8 left_shift = VMOV_I32_Q_IMM OR push_bit 17 (ucast imm8 AND 0x80) OR
     push_bit 12 (ucast imm8 AND 0x70) OR push_bit 8 ((ucast left_shift div 8) * 2) OR NeonQd qd
     OR (ucast imm8 AND 0x0f)"

definition EncodeVbicI32Q :: "u32 \<Rightarrow> u8 \<Rightarrow> u8 \<Rightarrow> u32" where [encoder_defs]:
  "EncodeVbicI32Q qd imm8 left_shift = VBIC_I32_Q_IMM OR push_bit 17 (ucast imm8 AND 0x80) OR
     push_bit 12 (ucast imm8 AND 0x70) OR push_bit 8 (((ucast left_shift div 8) * 2) + 1) OR
     NeonQd qd OR (ucast imm8 AND 0x0f)"

definition EncodeVld1Q32 :: "u32 \<Rightarrow> u32 \<Rightarrow> u32" where [encoder_defs]:
  "EncodeVld1Q32 qd rn = VLD1_32_Q OR push_bit 16 (rn AND 0xf) OR NeonQd qd"

definition EncodeVld1Q32Aligned :: "u32 \<Rightarrow> u32 \<Rightarrow> u32" where [encoder_defs]:
  "EncodeVld1Q32Aligned qd rn = VLD1_32_Q_ALIGNED OR push_bit 16 (rn AND 0xf) OR NeonQd qd"

definition EncodeVst1Q32 :: "u32 \<Rightarrow> u32 \<Rightarrow> u32" where [encoder_defs]:
  "EncodeVst1Q32 qd rn = VST1_32_Q OR push_bit 16 (rn AND 0xf) OR NeonQd qd"

definition EncodeVst1Q32Aligned :: "u32 \<Rightarrow> u32 \<Rightarrow> u32" where [encoder_defs]:
  "EncodeVst1Q32Aligned qd rn = VST1_32_Q_ALIGNED OR push_bit 16 (rn AND 0xf) OR NeonQd qd"

definition EncodeVst1Q32AlignedWriteback :: "u32 \<Rightarrow> u32 \<Rightarrow> u32" where [encoder_defs]:
  "EncodeVst1Q32AlignedWriteback qd rn = VST1_32_Q_ALIGNED_WRITEBACK OR push_bit 16 (rn AND 0xf)
     OR NeonQd qd"

definition EncodeVst1D32 :: "u32 \<Rightarrow> u32 \<Rightarrow> u32" where [encoder_defs]:
  "EncodeVst1D32 dd rn = VST1_32_D OR push_bit 16 (rn AND 0xf) OR NeonDd dd"

definition EncodeVst1D32Lane :: "u32 \<Rightarrow> u8 \<Rightarrow> u32 \<Rightarrow> u32" where [encoder_defs]:
  "EncodeVst1D32Lane dd lane rn = VST1_32_D_LANE OR push_bit 16 (rn AND 0xf) OR NeonDd dd OR
     push_bit 7 (ucast lane AND 1)"

definition EncodeVst1D8Lane0 :: "u32 \<Rightarrow> u32 \<Rightarrow> u32" where [encoder_defs]:
  "EncodeVst1D8Lane0 dd rn = VST1_8_D_LANE0 OR push_bit 16 (rn AND 0xf) OR NeonDd dd"

definition EncodeVst1D16Lane0 :: "u32 \<Rightarrow> u32 \<Rightarrow> u32" where [encoder_defs]:
  "EncodeVst1D16Lane0 dd rn = VST1_16_D_LANE0 OR push_bit 16 (rn AND 0xf) OR NeonDd dd"

definition EncodeVmovCoreToS :: "u32 \<Rightarrow> u32 \<Rightarrow> Condition \<Rightarrow> u32" where [encoder_defs]:
  "EncodeVmovCoreToS sd rt condition = (VMOV_CORE_TO_S AND 0x0fffffff) OR CondBits condition OR
     push_bit 12 (rt AND 0xf) OR VfpSn sd"

definition EncodeVmovSToCore :: "u32 \<Rightarrow> u32 \<Rightarrow> Condition \<Rightarrow> u32" where [encoder_defs]:
  "EncodeVmovSToCore rt sd condition = (VMOV_S_TO_CORE AND 0x0fffffff) OR CondBits condition OR
     push_bit 12 (rt AND 0xf) OR VfpSn sd"

definition EncodeVmrsFpscr :: "u32 \<Rightarrow> u32" where [encoder_defs]:
  "EncodeVmrsFpscr rt = VMRS_FPSCR OR push_bit 12 (rt AND 0xf)"

definition EncodeVmsrFpscr :: "u32 \<Rightarrow> u32" where [encoder_defs]:
  "EncodeVmsrFpscr rt = VMSR_FPSCR OR push_bit 12 (rt AND 0xf)"

definition EncodeVmovCoreToD32Lane :: "u32 \<Rightarrow> u8 \<Rightarrow> u32 \<Rightarrow> Condition \<Rightarrow> u32" where [encoder_defs]:
  "EncodeVmovCoreToD32Lane dd lane rt condition = CondBits condition OR VMOV_CORE_TO_D32_LANE OR
     push_bit 21 (ucast lane AND 1) OR push_bit 12 (rt AND 0xf) OR push_bit 16 (dd AND 0xf) OR
     push_bit 3 (dd AND 0x10)"

definition EncodeVmovD32LaneToCore :: "u32 \<Rightarrow> u32 \<Rightarrow> u8 \<Rightarrow> Condition \<Rightarrow> u32" where [encoder_defs]:
  "EncodeVmovD32LaneToCore rt dd lane condition = CondBits condition OR VMOV_D32_LANE_TO_CORE OR
     push_bit 21 (ucast lane AND 1) OR push_bit 12 (rt AND 0xf) OR push_bit 16 (dd AND 0xf) OR
     push_bit 3 (dd AND 0x10)"

definition EncodeVmovCorePairToD :: "u32 \<Rightarrow> u32 \<Rightarrow> u32 \<Rightarrow> u32" where [encoder_defs]:
  "EncodeVmovCorePairToD dd rt rt2 = VMOV_CORE_PAIR_TO_D OR push_bit 16 (rt2 AND 0xf) OR
     push_bit 12 (rt AND 0xf) OR VfpDm dd"

definition EncodeVmovS :: "u32 \<Rightarrow> u32 \<Rightarrow> u32" where [encoder_defs]:
  "EncodeVmovS sd sm = VMOV_S OR VfpSd sd OR VfpSm sm"

definition EncodeVabsF32 :: "u32 \<Rightarrow> u32 \<Rightarrow> u32" where [encoder_defs]:
  "EncodeVabsF32 sd sm = VABS_F32 OR VfpSd sd OR VfpSm sm"

definition EncodeVnegF32 :: "u32 \<Rightarrow> u32 \<Rightarrow> u32" where [encoder_defs]:
  "EncodeVnegF32 sd sm = VNEG_F32 OR VfpSd sd OR VfpSm sm"

definition EncodeVcvtF32S32 :: "u32 \<Rightarrow> u32 \<Rightarrow> u32" where [encoder_defs]:
  "EncodeVcvtF32S32 sd sm = VCVT_F32_S32 OR VfpSd sd OR VfpSm sm"

definition EncodeVcvtS32F32 :: "u32 \<Rightarrow> u32 \<Rightarrow> u32" where [encoder_defs]:
  "EncodeVcvtS32F32 sd sm = VCVT_S32_F32 OR VfpSd sd OR VfpSm sm"

definition EncodeVcvtF64F32 :: "u32 \<Rightarrow> u32 \<Rightarrow> u32" where [encoder_defs]:
  "EncodeVcvtF64F32 dd sm = VCVT_F64_F32 OR VfpDd dd OR VfpSm sm"

definition EncodeVcvtF32F64 :: "u32 \<Rightarrow> u32 \<Rightarrow> u32" where [encoder_defs]:
  "EncodeVcvtF32F64 sd dm = VCVT_F32_F64 OR VfpSd sd OR VfpDm dm"

definition EncodeVcvtF32S32Q :: "u32 \<Rightarrow> u32 \<Rightarrow> u32 \<Rightarrow> u32" where [encoder_defs]:
  "EncodeVcvtF32S32Q qd qm fractional_bits = (let opcode = if fractional_bits = 0
     then VCVT_F32_S32_Q else VCVT_F32_S32_FIXED_Q OR push_bit 16 (64 - fractional_bits) in opcode
     OR NeonQd qd OR NeonQm qm)"

definition EncodeVcvtF32S32D :: "u32 \<Rightarrow> u32 \<Rightarrow> u32 \<Rightarrow> u32" where [encoder_defs]:
  "EncodeVcvtF32S32D dd dm fractional_bits = (let opcode = if fractional_bits = 0
     then VCVT_F32_S32_D else VCVT_F32_S32_FIXED_D OR push_bit 16 (64 - fractional_bits) in opcode
     OR NeonDd dd OR NeonDm dm)"

definition EncodeVcvtS32F32D :: "u32 \<Rightarrow> u32 \<Rightarrow> u32 \<Rightarrow> u32" where [encoder_defs]:
  "EncodeVcvtS32F32D dd dm fractional_bits = (let opcode = if fractional_bits = 0
     then VCVT_S32_F32_D else VCVT_S32_F32_FIXED_D OR push_bit 16 (64 - fractional_bits) in opcode
     OR NeonDd dd OR NeonDm dm)"

definition EncodeVcvtS32F32Q :: "u32 \<Rightarrow> u32 \<Rightarrow> u32 \<Rightarrow> u32" where [encoder_defs]:
  "EncodeVcvtS32F32Q qd qm fractional_bits = (let opcode = if fractional_bits = 0
     then VCVT_S32_F32_Q else VCVT_S32_F32_FIXED_Q OR push_bit 16 (64 - fractional_bits) in opcode
     OR NeonQd qd OR NeonQm qm)"

definition EncodeVaddF32 :: "u32 \<Rightarrow> u32 \<Rightarrow> u32 \<Rightarrow> u32" where [encoder_defs]:
  "EncodeVaddF32 sd sn sm = VADD_F32 OR VfpSd sd OR VfpSn sn OR VfpSm sm"

definition EncodeVaddF64 :: "u32 \<Rightarrow> u32 \<Rightarrow> u32 \<Rightarrow> u32" where [encoder_defs]:
  "EncodeVaddF64 dd dn dm = VADD_F64 OR VfpDd dd OR VfpDn dn OR VfpDm dm"

definition EncodeVsubF32 :: "u32 \<Rightarrow> u32 \<Rightarrow> u32 \<Rightarrow> u32" where [encoder_defs]:
  "EncodeVsubF32 sd sn sm = VSUB_F32 OR VfpSd sd OR VfpSn sn OR VfpSm sm"

definition EncodeVmulF32 :: "u32 \<Rightarrow> u32 \<Rightarrow> u32 \<Rightarrow> u32" where [encoder_defs]:
  "EncodeVmulF32 sd sn sm = VMUL_F32 OR VfpSd sd OR VfpSn sn OR VfpSm sm"

definition EncodeVmlaF32 :: "u32 \<Rightarrow> u32 \<Rightarrow> u32 \<Rightarrow> u32" where [encoder_defs]:
  "EncodeVmlaF32 sd sn sm = VMLA_F32 OR VfpSd sd OR VfpSn sn OR VfpSm sm"

definition EncodeVmlsF32 :: "u32 \<Rightarrow> u32 \<Rightarrow> u32 \<Rightarrow> u32" where [encoder_defs]:
  "EncodeVmlsF32 sd sn sm = VMLS_F32 OR VfpSd sd OR VfpSn sn OR VfpSm sm"

definition EncodeVmulF64 :: "u32 \<Rightarrow> u32 \<Rightarrow> u32 \<Rightarrow> u32" where [encoder_defs]:
  "EncodeVmulF64 dd dn dm = VMUL_F64 OR VfpDd dd OR VfpDn dn OR VfpDm dm"

definition EncodeVaddF32D :: "u32 \<Rightarrow> u32 \<Rightarrow> u32 \<Rightarrow> u32" where [encoder_defs]:
  "EncodeVaddF32D dd dn dm = VADD_F32_D OR NeonDd dd OR NeonDn dn OR NeonDm dm"

definition EncodeVsubF32D :: "u32 \<Rightarrow> u32 \<Rightarrow> u32 \<Rightarrow> u32" where [encoder_defs]:
  "EncodeVsubF32D dd dn dm = VSUB_F32_D OR NeonDd dd OR NeonDn dn OR NeonDm dm"

definition EncodeVmulF32D :: "u32 \<Rightarrow> u32 \<Rightarrow> u32 \<Rightarrow> u32" where [encoder_defs]:
  "EncodeVmulF32D dd dn dm = VMUL_F32_D OR NeonDd dd OR NeonDn dn OR NeonDm dm"

definition EncodeVmlaF32D :: "u32 \<Rightarrow> u32 \<Rightarrow> u32 \<Rightarrow> u32" where [encoder_defs]:
  "EncodeVmlaF32D dd dn dm = VMLA_F32_D OR NeonDd dd OR NeonDn dn OR NeonDm dm"

definition EncodeVmlsF32D :: "u32 \<Rightarrow> u32 \<Rightarrow> u32 \<Rightarrow> u32" where [encoder_defs]:
  "EncodeVmlsF32D dd dn dm = VMLS_F32_D OR NeonDd dd OR NeonDn dn OR NeonDm dm"

definition EncodeVmulF32DByLane :: "u32 \<Rightarrow> u32 \<Rightarrow> u32 \<Rightarrow> u32 \<Rightarrow> u32" where [encoder_defs]:
  "EncodeVmulF32DByLane dd dn dm lane = VMUL_F32_D_LANE OR NeonDd dd OR NeonDn dn OR dm OR
     push_bit 5 lane"

definition EncodeVmlaF32DByLane :: "u32 \<Rightarrow> u32 \<Rightarrow> u32 \<Rightarrow> u32 \<Rightarrow> u32" where [encoder_defs]:
  "EncodeVmlaF32DByLane dd dn dm lane = VMLA_F32_D_LANE OR NeonDd dd OR NeonDn dn OR dm OR
     push_bit 5 lane"

definition EncodeVmlsF32DByLane :: "u32 \<Rightarrow> u32 \<Rightarrow> u32 \<Rightarrow> u32 \<Rightarrow> u32" where [encoder_defs]:
  "EncodeVmlsF32DByLane dd dn dm lane = VMLS_F32_D_LANE OR NeonDd dd OR NeonDn dn OR dm OR
     push_bit 5 lane"

definition EncodeVaddF32Q :: "u32 \<Rightarrow> u32 \<Rightarrow> u32 \<Rightarrow> u32" where [encoder_defs]:
  "EncodeVaddF32Q qd qn qm = VADD_F32_Q OR NeonQd qd OR NeonQn qn OR NeonQm qm"

definition EncodeVsubF32Q :: "u32 \<Rightarrow> u32 \<Rightarrow> u32 \<Rightarrow> u32" where [encoder_defs]:
  "EncodeVsubF32Q qd qn qm = VSUB_F32_Q OR NeonQd qd OR NeonQn qn OR NeonQm qm"

definition EncodeVmulF32Q :: "u32 \<Rightarrow> u32 \<Rightarrow> u32 \<Rightarrow> u32" where [encoder_defs]:
  "EncodeVmulF32Q qd qn qm = VMUL_F32_Q OR NeonQd qd OR NeonQn qn OR NeonQm qm"

definition EncodeVmlaF32Q :: "u32 \<Rightarrow> u32 \<Rightarrow> u32 \<Rightarrow> u32" where [encoder_defs]:
  "EncodeVmlaF32Q qd qn qm = VMLA_F32_Q OR NeonQd qd OR NeonQn qn OR NeonQm qm"

definition EncodeVmlsF32Q :: "u32 \<Rightarrow> u32 \<Rightarrow> u32 \<Rightarrow> u32" where [encoder_defs]:
  "EncodeVmlsF32Q qd qn qm = VMLS_F32_Q OR NeonQd qd OR NeonQn qn OR NeonQm qm"

definition EncodeVmulF32QByLane :: "u32 \<Rightarrow> u32 \<Rightarrow> u32 \<Rightarrow> u32 \<Rightarrow> u32" where [encoder_defs]:
  "EncodeVmulF32QByLane qd qn dm lane = VMUL_F32_Q_LANE OR NeonQd qd OR NeonQn qn OR dm OR
     push_bit 5 lane"

definition EncodeVmlaF32QByLane :: "u32 \<Rightarrow> u32 \<Rightarrow> u32 \<Rightarrow> u32 \<Rightarrow> u32" where [encoder_defs]:
  "EncodeVmlaF32QByLane qd qn dm lane = VMLA_F32_Q_LANE OR NeonQd qd OR NeonQn qn OR dm OR
     push_bit 5 lane"

definition EncodeVmlsF32QByLane :: "u32 \<Rightarrow> u32 \<Rightarrow> u32 \<Rightarrow> u32 \<Rightarrow> u32" where [encoder_defs]:
  "EncodeVmlsF32QByLane qd qn dm lane = VMLS_F32_Q_LANE OR NeonQd qd OR NeonQn qn OR dm OR
     push_bit 5 lane"

definition EncodeVrecpeF32D :: "u32 \<Rightarrow> u32 \<Rightarrow> u32" where [encoder_defs]:
  "EncodeVrecpeF32D dd dm = VRECPE_F32_D OR NeonDd dd OR NeonDm dm"

definition EncodeVrecpsF32D :: "u32 \<Rightarrow> u32 \<Rightarrow> u32 \<Rightarrow> u32" where [encoder_defs]:
  "EncodeVrecpsF32D dd dn dm = VRECPS_F32_D OR NeonDd dd OR NeonDn dn OR NeonDm dm"

definition EncodeVrsqrteF32D :: "u32 \<Rightarrow> u32 \<Rightarrow> u32" where [encoder_defs]:
  "EncodeVrsqrteF32D dd dm = VRSQRTE_F32_D OR NeonDd dd OR NeonDm dm"

definition EncodeVrsqrtsF32D :: "u32 \<Rightarrow> u32 \<Rightarrow> u32 \<Rightarrow> u32" where [encoder_defs]:
  "EncodeVrsqrtsF32D dd dn dm = VRSQRTS_F32_D OR NeonDd dd OR NeonDn dn OR NeonDm dm"

definition EncodeVdivF32 :: "u32 \<Rightarrow> u32 \<Rightarrow> u32 \<Rightarrow> u32" where [encoder_defs]:
  "EncodeVdivF32 sd sn sm = VDIV_F32 OR VfpSd sd OR VfpSn sn OR VfpSm sm"

definition EncodeVdivF64 :: "u32 \<Rightarrow> u32 \<Rightarrow> u32 \<Rightarrow> u32" where [encoder_defs]:
  "EncodeVdivF64 dd dn dm = VDIV_F64 OR VfpDd dd OR VfpDn dn OR VfpDm dm"

definition EncodeVsqrtF32 :: "u32 \<Rightarrow> u32 \<Rightarrow> u32" where [encoder_defs]:
  "EncodeVsqrtF32 sd sm = VSQRT_F32 OR VfpSd sd OR VfpSm sm"

definition EncodeVaddI8Q :: "u32 \<Rightarrow> u32 \<Rightarrow> u32 \<Rightarrow> u32" where [encoder_defs]:
  "EncodeVaddI8Q qd qn qm = VADD_I8_Q OR NeonQd qd OR NeonQn qn OR NeonQm qm"

definition EncodeVaddI16Q :: "u32 \<Rightarrow> u32 \<Rightarrow> u32 \<Rightarrow> u32" where [encoder_defs]:
  "EncodeVaddI16Q qd qn qm = VADD_I16_Q OR NeonQd qd OR NeonQn qn OR NeonQm qm"

definition EncodeVaddI32Q :: "u32 \<Rightarrow> u32 \<Rightarrow> u32 \<Rightarrow> u32" where [encoder_defs]:
  "EncodeVaddI32Q qd qn qm = VADD_I32_Q OR NeonQd qd OR NeonQn qn OR NeonQm qm"

definition EncodeVaddI64Q :: "u32 \<Rightarrow> u32 \<Rightarrow> u32 \<Rightarrow> u32" where [encoder_defs]:
  "EncodeVaddI64Q qd qn qm = VADD_I64_Q OR NeonQd qd OR NeonQn qn OR NeonQm qm"

definition EncodeVpaddI32D :: "u32 \<Rightarrow> u32 \<Rightarrow> u32 \<Rightarrow> u32" where [encoder_defs]:
  "EncodeVpaddI32D dd dn dm = VPADD_I32_D OR NeonDd dd OR NeonDn dn OR NeonDm dm"

definition EncodeVpmaxU32D :: "u32 \<Rightarrow> u32 \<Rightarrow> u32 \<Rightarrow> u32" where [encoder_defs]:
  "EncodeVpmaxU32D dd dn dm = VPMAX_U32_D OR NeonDd dd OR NeonDn dn OR NeonDm dm"

definition EncodeVsubI8Q :: "u32 \<Rightarrow> u32 \<Rightarrow> u32 \<Rightarrow> u32" where [encoder_defs]:
  "EncodeVsubI8Q qd qn qm = VSUB_I8_Q OR NeonQd qd OR NeonQn qn OR NeonQm qm"

definition EncodeVsubI16Q :: "u32 \<Rightarrow> u32 \<Rightarrow> u32 \<Rightarrow> u32" where [encoder_defs]:
  "EncodeVsubI16Q qd qn qm = VSUB_I16_Q OR NeonQd qd OR NeonQn qn OR NeonQm qm"

definition EncodeVsubI32Q :: "u32 \<Rightarrow> u32 \<Rightarrow> u32 \<Rightarrow> u32" where [encoder_defs]:
  "EncodeVsubI32Q qd qn qm = VSUB_I32_Q OR NeonQd qd OR NeonQn qn OR NeonQm qm"

definition EncodeVshlI16Q :: "u32 \<Rightarrow> u32 \<Rightarrow> u8 \<Rightarrow> u32" where [encoder_defs]:
  "EncodeVshlI16Q qd qm amount = VSHL_I16_Q OR push_bit 16 (ucast amount AND 0x3f) OR NeonQd qd
     OR NeonQm qm"

definition EncodeVshlI32Q :: "u32 \<Rightarrow> u32 \<Rightarrow> u8 \<Rightarrow> u32" where [encoder_defs]:
  "EncodeVshlI32Q qd qm amount = VSHL_I32_Q OR push_bit 16 (ucast amount AND 0x3f) OR NeonQd qd
     OR NeonQm qm"

definition EncodeVshrU16Q :: "u32 \<Rightarrow> u32 \<Rightarrow> u8 \<Rightarrow> u32" where [encoder_defs]:
  "EncodeVshrU16Q qd qm amount = (let imm = ucast (32 - ucast amount :: u32) :: u8 in VSHR_U_Q
     OR push_bit 16 (ucast imm AND 0x3f) OR NeonQd qd OR NeonQm qm)"

definition EncodeVshrU32Q :: "u32 \<Rightarrow> u32 \<Rightarrow> u8 \<Rightarrow> u32" where [encoder_defs]:
  "EncodeVshrU32Q qd qm amount = (let imm = ucast (64 - ucast amount :: u32) :: u8 in VSHR_U_Q
     OR push_bit 16 (ucast imm AND 0x3f) OR NeonQd qd OR NeonQm qm)"

definition EncodeVsriI32Q :: "u32 \<Rightarrow> u32 \<Rightarrow> u8 \<Rightarrow> u32" where [encoder_defs]:
  "EncodeVsriI32Q qd qm amount = (let imm = ucast (64 - ucast amount :: u32) :: u8 in VSRI_I32_Q
     OR push_bit 16 (ucast imm AND 0x3f) OR NeonQd qd OR NeonQm qm)"

definition EncodeVshrS16Q :: "u32 \<Rightarrow> u32 \<Rightarrow> u8 \<Rightarrow> u32" where [encoder_defs]:
  "EncodeVshrS16Q qd qm amount = (let imm = ucast (32 - ucast amount :: u32) :: u8 in VSHR_S_Q
     OR push_bit 16 (ucast imm AND 0x3f) OR NeonQd qd OR NeonQm qm)"

definition EncodeVshrS32Q :: "u32 \<Rightarrow> u32 \<Rightarrow> u8 \<Rightarrow> u32" where [encoder_defs]:
  "EncodeVshrS32Q qd qm amount = (let imm = ucast (64 - ucast amount :: u32) :: u8 in VSHR_S_Q
     OR push_bit 16 (ucast imm AND 0x3f) OR NeonQd qd OR NeonQm qm)"

definition EncodeVshlU32Q :: "u32 \<Rightarrow> u32 \<Rightarrow> u32 \<Rightarrow> u32" where [encoder_defs]:
  "EncodeVshlU32Q qd qm qn = VSHL_U32_REG_Q OR NeonQd qd OR NeonQm qm OR NeonQn qn"

definition EncodeVshlS32Q :: "u32 \<Rightarrow> u32 \<Rightarrow> u32 \<Rightarrow> u32" where [encoder_defs]:
  "EncodeVshlS32Q qd qm qn = VSHL_S32_REG_Q OR NeonQd qd OR NeonQm qm OR NeonQn qn"

definition EncodeVmullS16Q :: "u32 \<Rightarrow> u32 \<Rightarrow> u32 \<Rightarrow> u32" where [encoder_defs]:
  "EncodeVmullS16Q qd dn dm = VMULL_S16_Q OR NeonQd qd OR NeonDn dn OR NeonDm dm"

definition EncodeVmullS32Q :: "u32 \<Rightarrow> u32 \<Rightarrow> u32 \<Rightarrow> u32" where [encoder_defs]:
  "EncodeVmullS32Q qd dn dm = VMULL_S32_Q OR NeonQd qd OR NeonDn dn OR NeonDm dm"

definition EncodeVmullU32Q :: "u32 \<Rightarrow> u32 \<Rightarrow> u32 \<Rightarrow> u32" where [encoder_defs]:
  "EncodeVmullU32Q qd dn dm = VMULL_U32_Q OR NeonQd qd OR NeonDn dn OR NeonDm dm"

definition EncodeVnegS32Q :: "u32 \<Rightarrow> u32 \<Rightarrow> u32" where [encoder_defs]:
  "EncodeVnegS32Q qd qm = VNEG_S32_Q OR NeonQd qd OR NeonQm qm"

definition EncodeVqmovnS32D :: "u32 \<Rightarrow> u32 \<Rightarrow> u32" where [encoder_defs]:
  "EncodeVqmovnS32D dd qm = VQMOVN_S32_D OR NeonDd dd OR NeonQm qm"

definition EncodeVqmovnS64D :: "u32 \<Rightarrow> u32 \<Rightarrow> u32" where [encoder_defs]:
  "EncodeVqmovnS64D dd qm = VQMOVN_S64_D OR NeonDd dd OR NeonQm qm"

definition EncodeVcgtS8Q :: "u32 \<Rightarrow> u32 \<Rightarrow> u32 \<Rightarrow> u32" where [encoder_defs]:
  "EncodeVcgtS8Q qd qn qm = VCGT_S8_Q OR NeonQd qd OR NeonQn qn OR NeonQm qm"

definition EncodeVcgtS16Q :: "u32 \<Rightarrow> u32 \<Rightarrow> u32 \<Rightarrow> u32" where [encoder_defs]:
  "EncodeVcgtS16Q qd qn qm = VCGT_S16_Q OR NeonQd qd OR NeonQn qn OR NeonQm qm"

definition EncodeVcgtS32Q :: "u32 \<Rightarrow> u32 \<Rightarrow> u32 \<Rightarrow> u32" where [encoder_defs]:
  "EncodeVcgtS32Q qd qn qm = VCGT_S32_Q OR NeonQd qd OR NeonQn qn OR NeonQm qm"

definition EncodeVceqI8Q :: "u32 \<Rightarrow> u32 \<Rightarrow> u32 \<Rightarrow> u32" where [encoder_defs]:
  "EncodeVceqI8Q qd qn qm = VCEQ_I8_Q OR NeonQd qd OR NeonQn qn OR NeonQm qm"

definition EncodeVceqI16Q :: "u32 \<Rightarrow> u32 \<Rightarrow> u32 \<Rightarrow> u32" where [encoder_defs]:
  "EncodeVceqI16Q qd qn qm = VCEQ_I16_Q OR NeonQd qd OR NeonQn qn OR NeonQm qm"

definition EncodeVceqI32D :: "u32 \<Rightarrow> u32 \<Rightarrow> u32 \<Rightarrow> u32" where [encoder_defs]:
  "EncodeVceqI32D dd dn dm = VCEQ_I32_D OR NeonDd dd OR NeonDn dn OR NeonDm dm"

definition EncodeVceqI32Q :: "u32 \<Rightarrow> u32 \<Rightarrow> u32 \<Rightarrow> u32" where [encoder_defs]:
  "EncodeVceqI32Q qd qn qm = VCEQ_I32_Q OR NeonQd qd OR NeonQn qn OR NeonQm qm"

definition EncodeVceqI32ZeroD :: "u32 \<Rightarrow> u32 \<Rightarrow> u32" where [encoder_defs]:
  "EncodeVceqI32ZeroD dd dm = VCEQ_I32_ZERO_D OR NeonDd dd OR NeonDm dm"

definition EncodeVceqI32ZeroQ :: "u32 \<Rightarrow> u32 \<Rightarrow> u32" where [encoder_defs]:
  "EncodeVceqI32ZeroQ qd qm = VCEQ_I32_ZERO_Q OR NeonQd qd OR NeonQm qm"

definition EncodeVcltS32ZeroQ :: "u32 \<Rightarrow> u32 \<Rightarrow> u32" where [encoder_defs]:
  "EncodeVcltS32ZeroQ qd qm = VCLT_S32_ZERO_Q OR NeonQd qd OR NeonQm qm"

definition EncodeVminS16Q :: "u32 \<Rightarrow> u32 \<Rightarrow> u32 \<Rightarrow> u32" where [encoder_defs]:
  "EncodeVminS16Q qd qn qm = VMIN_S16_Q OR NeonQd qd OR NeonQn qn OR NeonQm qm"

definition EncodeVminS32Q :: "u32 \<Rightarrow> u32 \<Rightarrow> u32 \<Rightarrow> u32" where [encoder_defs]:
  "EncodeVminS32Q qd qn qm = VMIN_S32_Q OR NeonQd qd OR NeonQn qn OR NeonQm qm"

definition EncodeVmaxS16Q :: "u32 \<Rightarrow> u32 \<Rightarrow> u32 \<Rightarrow> u32" where [encoder_defs]:
  "EncodeVmaxS16Q qd qn qm = VMAX_S16_Q OR NeonQd qd OR NeonQn qn OR NeonQm qm"

definition EncodeVmaxS32Q :: "u32 \<Rightarrow> u32 \<Rightarrow> u32 \<Rightarrow> u32" where [encoder_defs]:
  "EncodeVmaxS32Q qd qn qm = VMAX_S32_Q OR NeonQd qd OR NeonQn qn OR NeonQm qm"

definition EncodeVqaddS8Q :: "u32 \<Rightarrow> u32 \<Rightarrow> u32 \<Rightarrow> u32" where [encoder_defs]:
  "EncodeVqaddS8Q qd qn qm = VQADD_S8_Q OR NeonQd qd OR NeonQn qn OR NeonQm qm"

definition EncodeVqaddS16Q :: "u32 \<Rightarrow> u32 \<Rightarrow> u32 \<Rightarrow> u32" where [encoder_defs]:
  "EncodeVqaddS16Q qd qn qm = VQADD_S16_Q OR NeonQd qd OR NeonQn qn OR NeonQm qm"

definition EncodeVqaddS32Q :: "u32 \<Rightarrow> u32 \<Rightarrow> u32 \<Rightarrow> u32" where [encoder_defs]:
  "EncodeVqaddS32Q qd qn qm = VQADD_S32_Q OR NeonQd qd OR NeonQn qn OR NeonQm qm"

definition EncodeVqsubS8Q :: "u32 \<Rightarrow> u32 \<Rightarrow> u32 \<Rightarrow> u32" where [encoder_defs]:
  "EncodeVqsubS8Q qd qn qm = VQSUB_S8_Q OR NeonQd qd OR NeonQn qn OR NeonQm qm"

definition EncodeVqsubS16Q :: "u32 \<Rightarrow> u32 \<Rightarrow> u32 \<Rightarrow> u32" where [encoder_defs]:
  "EncodeVqsubS16Q qd qn qm = VQSUB_S16_Q OR NeonQd qd OR NeonQn qn OR NeonQm qm"

definition EncodeVqsubS32Q :: "u32 \<Rightarrow> u32 \<Rightarrow> u32 \<Rightarrow> u32" where [encoder_defs]:
  "EncodeVqsubS32Q qd qn qm = VQSUB_S32_Q OR NeonQd qd OR NeonQn qn OR NeonQm qm"

definition EncodeVqaddU8Q :: "u32 \<Rightarrow> u32 \<Rightarrow> u32 \<Rightarrow> u32" where [encoder_defs]:
  "EncodeVqaddU8Q qd qn qm = VQADD_U8_Q OR NeonQd qd OR NeonQn qn OR NeonQm qm"

definition EncodeVqaddU16Q :: "u32 \<Rightarrow> u32 \<Rightarrow> u32 \<Rightarrow> u32" where [encoder_defs]:
  "EncodeVqaddU16Q qd qn qm = VQADD_U16_Q OR NeonQd qd OR NeonQn qn OR NeonQm qm"

definition EncodeVqaddU32Q :: "u32 \<Rightarrow> u32 \<Rightarrow> u32 \<Rightarrow> u32" where [encoder_defs]:
  "EncodeVqaddU32Q qd qn qm = VQADD_U32_Q OR NeonQd qd OR NeonQn qn OR NeonQm qm"

definition EncodeVqsubU8Q :: "u32 \<Rightarrow> u32 \<Rightarrow> u32 \<Rightarrow> u32" where [encoder_defs]:
  "EncodeVqsubU8Q qd qn qm = VQSUB_U8_Q OR NeonQd qd OR NeonQn qn OR NeonQm qm"

definition EncodeVqsubU16Q :: "u32 \<Rightarrow> u32 \<Rightarrow> u32 \<Rightarrow> u32" where [encoder_defs]:
  "EncodeVqsubU16Q qd qn qm = VQSUB_U16_Q OR NeonQd qd OR NeonQn qn OR NeonQm qm"

definition EncodeVqsubU32Q :: "u32 \<Rightarrow> u32 \<Rightarrow> u32 \<Rightarrow> u32" where [encoder_defs]:
  "EncodeVqsubU32Q qd qn qm = VQSUB_U32_Q OR NeonQd qd OR NeonQn qn OR NeonQm qm"

definition EncodeVqabsS16Q :: "u32 \<Rightarrow> u32 \<Rightarrow> u32" where [encoder_defs]:
  "EncodeVqabsS16Q qd qm = VQABS_S16_Q OR NeonQd qd OR NeonQm qm"

definition EncodeVqabsS32Q :: "u32 \<Rightarrow> u32 \<Rightarrow> u32" where [encoder_defs]:
  "EncodeVqabsS32Q qd qm = VQABS_S32_Q OR NeonQd qd OR NeonQm qm"

definition EncodeVclsS32Q :: "u32 \<Rightarrow> u32 \<Rightarrow> u32" where [encoder_defs]:
  "EncodeVclsS32Q qd qm = VCLS_S32_Q OR NeonQd qd OR NeonQm qm"

definition EncodeVrev64I32D :: "u32 \<Rightarrow> u32 \<Rightarrow> u32" where [encoder_defs]:
  "EncodeVrev64I32D dd dm = VREV64_I32_D OR NeonDd dd OR NeonDm dm"

definition EncodeVrev64I32Q :: "u32 \<Rightarrow> u32 \<Rightarrow> u32" where [encoder_defs]:
  "EncodeVrev64I32Q qd qm = VREV64_I32_Q OR NeonQd qd OR NeonQm qm"

definition EncodeVrev64I16Q :: "u32 \<Rightarrow> u32 \<Rightarrow> u32" where [encoder_defs]:
  "EncodeVrev64I16Q qd qm = VREV64_I16_Q OR NeonQd qd OR NeonQm qm"

definition EncodeVswpD :: "u32 \<Rightarrow> u32 \<Rightarrow> u32" where [encoder_defs]:
  "EncodeVswpD dd dm = VSWP_D OR NeonDd dd OR NeonDm dm"

definition EncodeVtrnI16D :: "u32 \<Rightarrow> u32 \<Rightarrow> u32" where [encoder_defs]:
  "EncodeVtrnI16D dd dm = VTRN_I16_D OR NeonDd dd OR NeonDm dm"

definition EncodeVtrnI16Q :: "u32 \<Rightarrow> u32 \<Rightarrow> u32" where [encoder_defs]:
  "EncodeVtrnI16Q qd qm = VTRN_I16_Q OR NeonQd qd OR NeonQm qm"

definition EncodeVtrnI32D :: "u32 \<Rightarrow> u32 \<Rightarrow> u32" where [encoder_defs]:
  "EncodeVtrnI32D dd dm = VTRN_I32_D OR NeonDd dd OR NeonDm dm"

definition EncodeVtrnI32Q :: "u32 \<Rightarrow> u32 \<Rightarrow> u32" where [encoder_defs]:
  "EncodeVtrnI32Q qd qm = VTRN_I32_Q OR NeonQd qd OR NeonQm qm"

definition EncodeVzipI8Q :: "u32 \<Rightarrow> u32 \<Rightarrow> u32" where [encoder_defs]:
  "EncodeVzipI8Q qd qm = VZIP_I8_Q OR NeonQd qd OR NeonQm qm"

definition EncodeVzipI16Q :: "u32 \<Rightarrow> u32 \<Rightarrow> u32" where [encoder_defs]:
  "EncodeVzipI16Q qd qm = VZIP_I16_Q OR NeonQd qd OR NeonQm qm"

definition EncodeVzipI32Q :: "u32 \<Rightarrow> u32 \<Rightarrow> u32" where [encoder_defs]:
  "EncodeVzipI32Q qd qm = VZIP_I32_Q OR NeonQd qd OR NeonQm qm"

definition EncodeVuzpI8Q :: "u32 \<Rightarrow> u32 \<Rightarrow> u32" where [encoder_defs]:
  "EncodeVuzpI8Q qd qm = VUZP_I8_Q OR NeonQd qd OR NeonQm qm"

definition EncodeVuzpI16Q :: "u32 \<Rightarrow> u32 \<Rightarrow> u32" where [encoder_defs]:
  "EncodeVuzpI16Q qd qm = VUZP_I16_Q OR NeonQd qd OR NeonQm qm"

definition EncodeVuzpI32Q :: "u32 \<Rightarrow> u32 \<Rightarrow> u32" where [encoder_defs]:
  "EncodeVuzpI32Q qd qm = VUZP_I32_Q OR NeonQd qd OR NeonQm qm"

definition EncodeVextI8D :: "u32 \<Rightarrow> u32 \<Rightarrow> u32 \<Rightarrow> u8 \<Rightarrow> u32" where [encoder_defs]:
  "EncodeVextI8D dd dn dm byte_offset = VEXT_I8_D OR NeonDd dd OR NeonDn dn OR NeonDm dm OR
     push_bit 8 (ucast byte_offset AND 0x07)"

definition EncodeVextI8Q :: "u32 \<Rightarrow> u32 \<Rightarrow> u32 \<Rightarrow> u8 \<Rightarrow> u32" where [encoder_defs]:
  "EncodeVextI8Q qd qn qm byte_offset = VEXT_I8_Q OR NeonQd qd OR NeonQn qn OR NeonQm qm OR
     push_bit 8 (ucast byte_offset AND 0x0f)"

definition EncodeVandD :: "u32 \<Rightarrow> u32 \<Rightarrow> u32 \<Rightarrow> u32" where [encoder_defs]:
  "EncodeVandD dd dn dm = VAND_D OR NeonDd dd OR NeonDn dn OR NeonDm dm"

definition EncodeVandQ :: "u32 \<Rightarrow> u32 \<Rightarrow> u32 \<Rightarrow> u32" where [encoder_defs]:
  "EncodeVandQ qd qn qm = VAND_Q OR NeonQd qd OR NeonQn qn OR NeonQm qm"

definition EncodeVbitD :: "u32 \<Rightarrow> u32 \<Rightarrow> u32 \<Rightarrow> u32" where [encoder_defs]:
  "EncodeVbitD dd dn dm = VBIT_D OR NeonDd dd OR NeonDn dn OR NeonDm dm"

definition EncodeVbitQ :: "u32 \<Rightarrow> u32 \<Rightarrow> u32 \<Rightarrow> u32" where [encoder_defs]:
  "EncodeVbitQ qd qn qm = VBIT_Q OR NeonQd qd OR NeonQn qn OR NeonQm qm"

definition EncodeVeorQ :: "u32 \<Rightarrow> u32 \<Rightarrow> u32 \<Rightarrow> u32" where [encoder_defs]:
  "EncodeVeorQ qd qn qm = VEOR_Q OR NeonQd qd OR NeonQn qn OR NeonQm qm"

definition EncodeVeorD :: "u32 \<Rightarrow> u32 \<Rightarrow> u32 \<Rightarrow> u32" where [encoder_defs]:
  "EncodeVeorD dd dn dm = VEOR_D OR NeonDd dd OR NeonDn dn OR NeonDm dm"

definition EncodeVorrQ :: "u32 \<Rightarrow> u32 \<Rightarrow> u32 \<Rightarrow> u32" where [encoder_defs]:
  "EncodeVorrQ qd qn qm = VORR_Q OR NeonQd qd OR NeonQn qn OR NeonQm qm"

definition EncodeVorrD :: "u32 \<Rightarrow> u32 \<Rightarrow> u32 \<Rightarrow> u32" where [encoder_defs]:
  "EncodeVorrD dd dn dm = VORR_D OR NeonDd dd OR NeonDn dn OR NeonDm dm"

definition EncodeVmvnQ :: "u32 \<Rightarrow> u32 \<Rightarrow> u32" where [encoder_defs]:
  "EncodeVmvnQ qd qm = VMVN_Q OR NeonQd qd OR NeonQm qm"

definition EncodeVpushDRange :: "u32 \<Rightarrow> u32 \<Rightarrow> u32" where [encoder_defs]:
  "EncodeVpushDRange first_d d_count = VPUSH_D OR VfpDd first_d OR (d_count * 2)"

definition EncodeVpopDRange :: "u32 \<Rightarrow> u32 \<Rightarrow> u32" where [encoder_defs]:
  "EncodeVpopDRange first_d d_count = VPOP_D OR VfpDd first_d OR (d_count * 2)"

end
