(* ===== verification/A32_Emit_Neon.thy ===== *)
theory A32_Emit_Neon
  imports A32_Buffer A32_Encode_Neon
begin

text \<open>
  The VFP and Advanced SIMD emitters of \<^verbatim>\<open>CodeBuffer\<close>
  (\<^verbatim>\<open>pcsx2/vita/A32Emitter.cpp\<close>). The Q and D operands go through the register bank mapping
  of the buffer after their range check.
\<close>


definition EmitVld1Q32 :: "u32 \<Rightarrow> u32 \<Rightarrow> bool jitm" where [emitter_defs]:
  "EmitVld1Q32 qd rn j = (if \<not> IsQRegister qd \<or> \<not> IsLowRegister rn
     then jret False j else EmitU32 (EncodeVld1Q32 (MapNeonQRegister (jit_cb j) qd) rn) j)"

definition EmitVld1Q32Aligned :: "u32 \<Rightarrow> u32 \<Rightarrow> bool jitm" where [emitter_defs]:
  "EmitVld1Q32Aligned qd rn j = (if \<not> IsQRegister qd \<or> \<not> IsLowRegister rn
     then jret False j else EmitU32 (EncodeVld1Q32Aligned (MapNeonQRegister (jit_cb j) qd) rn) j)"

definition EmitVst1Q32 :: "u32 \<Rightarrow> u32 \<Rightarrow> bool jitm" where [emitter_defs]:
  "EmitVst1Q32 qd rn j = (if \<not> IsQRegister qd \<or> \<not> IsLowRegister rn
     then jret False j else EmitU32 (EncodeVst1Q32 (MapNeonQRegister (jit_cb j) qd) rn) j)"

definition EmitVst1Q32Aligned :: "u32 \<Rightarrow> u32 \<Rightarrow> bool jitm" where [emitter_defs]:
  "EmitVst1Q32Aligned qd rn j = (if \<not> IsQRegister qd \<or> \<not> IsLowRegister rn
     then jret False j else EmitU32 (EncodeVst1Q32Aligned (MapNeonQRegister (jit_cb j) qd) rn) j)"

definition EmitVst1Q32AlignedWriteback :: "u32 \<Rightarrow> u32 \<Rightarrow> bool jitm" where [emitter_defs]:
  "EmitVst1Q32AlignedWriteback qd rn j = (if \<not> IsQRegister qd \<or> \<not> IsLowRegister rn
     then jret False j
     else EmitU32 (EncodeVst1Q32AlignedWriteback (MapNeonQRegister (jit_cb j) qd) rn) j)"

definition EmitVst1D32 :: "u32 \<Rightarrow> u32 \<Rightarrow> bool jitm" where [emitter_defs]:
  "EmitVst1D32 dd rn j = (if \<not> IsDRegister dd \<or> \<not> IsLowRegister rn
     then jret False j else EmitU32 (EncodeVst1D32 (MapNeonDRegister (jit_cb j) dd) rn) j)"

definition EmitVst1D32Lane :: "u32 \<Rightarrow> u8 \<Rightarrow> u32 \<Rightarrow> bool jitm" where [emitter_defs]:
  "EmitVst1D32Lane dd lane rn j = (if \<not> IsDRegister dd \<or> lane \<ge> 2 \<or>
     \<not> IsLowRegister rn then jret False j
     else EmitU32 (EncodeVst1D32Lane (MapNeonDRegister (jit_cb j) dd) lane rn) j)"

definition EmitVst1D8Lane0 :: "u32 \<Rightarrow> u32 \<Rightarrow> bool jitm" where [emitter_defs]:
  "EmitVst1D8Lane0 dd rn j = (if \<not> IsDRegister dd \<or> \<not> IsLowRegister rn
     then jret False j else EmitU32 (EncodeVst1D8Lane0 (MapNeonDRegister (jit_cb j) dd) rn) j)"

definition EmitVst1D16Lane0 :: "u32 \<Rightarrow> u32 \<Rightarrow> bool jitm" where [emitter_defs]:
  "EmitVst1D16Lane0 dd rn j = (if \<not> IsDRegister dd \<or> \<not> IsLowRegister rn
     then jret False j else EmitU32 (EncodeVst1D16Lane0 (MapNeonDRegister (jit_cb j) dd) rn) j)"

definition EmitVldrDImm :: "u32 \<Rightarrow> u32 \<Rightarrow> u16 \<Rightarrow> bool jitm" where [emitter_defs]:
  "EmitVldrDImm dd rn offset j = (if \<not> IsDRegister dd \<or> \<not> IsLowRegister rn \<or>
     offset > 0x3fc \<or> (ucast offset AND 0x3 :: u32) \<noteq> 0 then jret False j
     else EmitU32 (EncodeVldrDImm (MapNeonDRegister (jit_cb j) dd) rn offset) j)"

definition EmitVldrSImm :: "u32 \<Rightarrow> u32 \<Rightarrow> u16 \<Rightarrow> bool jitm" where [emitter_defs]:
  "EmitVldrSImm sd rn offset j = (if \<not> IsSRegister sd \<or> \<not> IsLowRegister rn \<or>
     offset > 0x3fc \<or> (ucast offset AND 0x3 :: u32) \<noteq> 0 then jret False j
     else EmitU32 (EncodeVldrSImm sd rn offset) j)"

definition EmitVstrSImm :: "u32 \<Rightarrow> u32 \<Rightarrow> u16 \<Rightarrow> bool jitm" where [emitter_defs]:
  "EmitVstrSImm sd rn offset j = (if \<not> IsSRegister sd \<or> \<not> IsLowRegister rn \<or>
     offset > 0x3fc \<or> (ucast offset AND 0x3 :: u32) \<noteq> 0 then jret False j
     else EmitU32 (EncodeVstrSImm sd rn offset) j)"

definition EmitVstrDImm :: "u32 \<Rightarrow> u32 \<Rightarrow> u16 \<Rightarrow> Condition \<Rightarrow> bool jitm" where [emitter_defs]:
  "EmitVstrDImm dd rn offset condition j = (if \<not> IsDRegister dd \<or>
     \<not> IsLowRegister rn \<or> offset > 0x3fc \<or> (ucast offset AND 0x3 :: u32) \<noteq> 0
     then jret False j
     else EmitU32 (EncodeVstrDImm (MapNeonDRegister (jit_cb j) dd) rn offset condition) j)"

definition EmitVdupI16D :: "u32 \<Rightarrow> u32 \<Rightarrow> u8 \<Rightarrow> bool jitm" where [emitter_defs]:
  "EmitVdupI16D dd dm lane j = (if \<not> IsDRegister dd \<or> \<not> IsDRegister dm \<or>
     lane \<ge> 4 then jret False j
     else EmitU32 (EncodeVdupI16D (MapNeonDRegister (jit_cb j) dd) (MapNeonDRegister (jit_cb j) dm) lane) j)"

definition EmitVdupI32DFromCore :: "u32 \<Rightarrow> u32 \<Rightarrow> bool jitm" where [emitter_defs]:
  "EmitVdupI32DFromCore dd rt j = (if \<not> IsDRegister dd \<or> \<not> IsGeneralRegister rt
     then jret False j
     else EmitU32 (EncodeVdupI32DFromCore (MapNeonDRegister (jit_cb j) dd) rt) j)"

definition EmitVdupI32DFromQlane :: "u32 \<Rightarrow> u32 \<Rightarrow> u8 \<Rightarrow> bool jitm" where [emitter_defs]:
  "EmitVdupI32DFromQlane dd qm lane j = (if \<not> IsDRegister dd \<or>
     \<not> IsQRegister qm \<or> lane > 3 then jret False j
     else EmitU32 (EncodeVdupI32DFromQlane (MapNeonDRegister (jit_cb j) dd) (MapNeonQRegister (jit_cb j) qm) lane) j)"

definition EmitVdupI32QFromCore :: "u32 \<Rightarrow> u32 \<Rightarrow> bool jitm" where [emitter_defs]:
  "EmitVdupI32QFromCore qd rt j = (if \<not> IsQRegister qd \<or> \<not> IsGeneralRegister rt
     then jret False j
     else EmitU32 (EncodeVdupI32QFromCore (MapNeonQRegister (jit_cb j) qd) rt) j)"

definition EmitVdupI32QFromQlane :: "u32 \<Rightarrow> u32 \<Rightarrow> u8 \<Rightarrow> bool jitm" where [emitter_defs]:
  "EmitVdupI32QFromQlane qd qm lane j = (if \<not> IsQRegister qd \<or>
     \<not> IsQRegister qm \<or> lane > 3 then jret False j
     else EmitU32 (EncodeVdupI32QFromQlane (MapNeonQRegister (jit_cb j) qd) (MapNeonQRegister (jit_cb j) qm) lane) j)"

definition EmitVmovI32Q :: "u32 \<Rightarrow> u8 \<Rightarrow> u8 \<Rightarrow> bool jitm" where [emitter_defs]:
  "EmitVmovI32Q qd imm8 left_shift j = (if \<not> IsQRegister qd \<or> left_shift > 24 \<or>
     (ucast left_shift AND 7 :: u32) \<noteq> 0 then jret False j
     else EmitU32 (EncodeVmovI32Q (MapNeonQRegister (jit_cb j) qd) imm8 left_shift) j)"

definition EmitVbicI32Q :: "u32 \<Rightarrow> u8 \<Rightarrow> u8 \<Rightarrow> bool jitm" where [emitter_defs]:
  "EmitVbicI32Q qd imm8 left_shift j = (if \<not> IsQRegister qd \<or> left_shift > 24 \<or>
     (ucast left_shift AND 7 :: u32) \<noteq> 0 then jret False j
     else EmitU32 (EncodeVbicI32Q (MapNeonQRegister (jit_cb j) qd) imm8 left_shift) j)"

definition EmitVmovS :: "u32 \<Rightarrow> u32 \<Rightarrow> bool jitm" where [emitter_defs]:
  "EmitVmovS sd sm j = (if \<not> IsSRegister sd \<or> \<not> IsSRegister sm then jret False j
     else EmitU32 (EncodeVmovS sd sm) j)"

definition EmitVabsF32 :: "u32 \<Rightarrow> u32 \<Rightarrow> bool jitm" where [emitter_defs]:
  "EmitVabsF32 sd sm j = (if \<not> IsSRegister sd \<or> \<not> IsSRegister sm then jret False j
     else EmitU32 (EncodeVabsF32 sd sm) j)"

definition EmitVnegF32 :: "u32 \<Rightarrow> u32 \<Rightarrow> bool jitm" where [emitter_defs]:
  "EmitVnegF32 sd sm j = (if \<not> IsSRegister sd \<or> \<not> IsSRegister sm then jret False j
     else EmitU32 (EncodeVnegF32 sd sm) j)"

definition EmitVmovCoreToS :: "u32 \<Rightarrow> u32 \<Rightarrow> Condition \<Rightarrow> bool jitm" where [emitter_defs]:
  "EmitVmovCoreToS sd rt condition j = (if \<not> IsSRegister sd \<or> \<not> IsRegister rt
     then jret False j else EmitU32 (EncodeVmovCoreToS sd rt condition) j)"

definition EmitVmovSToCore :: "u32 \<Rightarrow> u32 \<Rightarrow> Condition \<Rightarrow> bool jitm" where [emitter_defs]:
  "EmitVmovSToCore rt sd condition j = (if \<not> IsRegister rt \<or> \<not> IsSRegister sd
     then jret False j else EmitU32 (EncodeVmovSToCore rt sd condition) j)"

definition EmitVmrsFpscr :: "u32 \<Rightarrow> bool jitm" where [emitter_defs]:
  "EmitVmrsFpscr rt j = (if \<not> IsLowRegister rt then jret False j
     else EmitU32 (EncodeVmrsFpscr rt) j)"

definition EmitVmsrFpscr :: "u32 \<Rightarrow> bool jitm" where [emitter_defs]:
  "EmitVmsrFpscr rt j = (if \<not> IsLowRegister rt then jret False j
     else EmitU32 (EncodeVmsrFpscr rt) j)"

definition EmitVmovCoreToD32Lane :: "u32 \<Rightarrow> u8 \<Rightarrow> u32 \<Rightarrow> Condition \<Rightarrow> bool jitm" where [emitter_defs]:
  "EmitVmovCoreToD32Lane dd lane rt condition j = (if \<not> IsDRegister dd \<or>
     lane \<ge> 2 \<or> \<not> IsRegister rt then jret False j
     else EmitU32 (EncodeVmovCoreToD32Lane (MapNeonDRegister (jit_cb j) dd) lane rt condition) j)"

definition EmitVmovD32LaneToCore :: "u32 \<Rightarrow> u32 \<Rightarrow> u8 \<Rightarrow> Condition \<Rightarrow> bool jitm" where [emitter_defs]:
  "EmitVmovD32LaneToCore rt dd lane condition j = (if \<not> IsRegister rt \<or>
     \<not> IsDRegister dd \<or> lane \<ge> 2 then jret False j
     else EmitU32 (EncodeVmovD32LaneToCore rt (MapNeonDRegister (jit_cb j) dd) lane condition) j)"

definition EmitVmovCorePairToD :: "u32 \<Rightarrow> u32 \<Rightarrow> u32 \<Rightarrow> bool jitm" where [emitter_defs]:
  "EmitVmovCorePairToD dd rt rt2 j = (if \<not> IsDRegister dd \<or> \<not> IsRegister rt \<or>
     \<not> IsRegister rt2 then jret False j
     else EmitU32 (EncodeVmovCorePairToD (MapNeonDRegister (jit_cb j) dd) rt rt2) j)"

definition EmitVcvtF32S32 :: "u32 \<Rightarrow> u32 \<Rightarrow> bool jitm" where [emitter_defs]:
  "EmitVcvtF32S32 sd sm j = (if \<not> IsSRegister sd \<or> \<not> IsSRegister sm
     then jret False j else EmitU32 (EncodeVcvtF32S32 sd sm) j)"

definition EmitVcvtS32F32 :: "u32 \<Rightarrow> u32 \<Rightarrow> bool jitm" where [emitter_defs]:
  "EmitVcvtS32F32 sd sm j = (if \<not> IsSRegister sd \<or> \<not> IsSRegister sm
     then jret False j else EmitU32 (EncodeVcvtS32F32 sd sm) j)"

definition EmitVcvtF64F32 :: "u32 \<Rightarrow> u32 \<Rightarrow> bool jitm" where [emitter_defs]:
  "EmitVcvtF64F32 dd sm j = (if \<not> IsDRegister dd \<or> \<not> IsSRegister sm
     then jret False j else EmitU32 (EncodeVcvtF64F32 (MapNeonDRegister (jit_cb j) dd) sm) j)"

definition EmitVcvtF32F64 :: "u32 \<Rightarrow> u32 \<Rightarrow> bool jitm" where [emitter_defs]:
  "EmitVcvtF32F64 sd dm j = (if \<not> IsSRegister sd \<or> \<not> IsDRegister dm
     then jret False j else EmitU32 (EncodeVcvtF32F64 sd (MapNeonDRegister (jit_cb j) dm)) j)"

definition EmitVcvtF32S32Q :: "u32 \<Rightarrow> u32 \<Rightarrow> u32 \<Rightarrow> bool jitm" where [emitter_defs]:
  "EmitVcvtF32S32Q qd qm fractional_bits j = (if \<not> IsQRegister qd \<or>
     \<not> IsQRegister qm \<or> fractional_bits > 32 then jret False j
     else EmitU32 (EncodeVcvtF32S32Q (MapNeonQRegister (jit_cb j) qd) (MapNeonQRegister (jit_cb j) qm) fractional_bits) j)"

definition EmitVcvtF32S32D :: "u32 \<Rightarrow> u32 \<Rightarrow> u32 \<Rightarrow> bool jitm" where [emitter_defs]:
  "EmitVcvtF32S32D dd dm fractional_bits j = (if \<not> IsDRegister dd \<or>
     \<not> IsDRegister dm \<or> fractional_bits > 32 then jret False j
     else EmitU32 (EncodeVcvtF32S32D (MapNeonDRegister (jit_cb j) dd) (MapNeonDRegister (jit_cb j) dm) fractional_bits) j)"

definition EmitVcvtS32F32D :: "u32 \<Rightarrow> u32 \<Rightarrow> u32 \<Rightarrow> bool jitm" where [emitter_defs]:
  "EmitVcvtS32F32D dd dm fractional_bits j = (if \<not> IsDRegister dd \<or>
     \<not> IsDRegister dm \<or> fractional_bits > 32 then jret False j
     else EmitU32 (EncodeVcvtS32F32D (MapNeonDRegister (jit_cb j) dd) (MapNeonDRegister (jit_cb j) dm) fractional_bits) j)"

definition EmitVcvtS32F32Q :: "u32 \<Rightarrow> u32 \<Rightarrow> u32 \<Rightarrow> bool jitm" where [emitter_defs]:
  "EmitVcvtS32F32Q qd qm fractional_bits j = (if \<not> IsQRegister qd \<or>
     \<not> IsQRegister qm \<or> fractional_bits > 32 then jret False j
     else EmitU32 (EncodeVcvtS32F32Q (MapNeonQRegister (jit_cb j) qd) (MapNeonQRegister (jit_cb j) qm) fractional_bits) j)"

definition EmitVaddF32 :: "u32 \<Rightarrow> u32 \<Rightarrow> u32 \<Rightarrow> bool jitm" where [emitter_defs]:
  "EmitVaddF32 sd sn sm j = (if \<not> IsSRegister sd \<or> \<not> IsSRegister sn \<or>
     \<not> IsSRegister sm then jret False j else EmitU32 (EncodeVaddF32 sd sn sm) j)"

definition EmitVaddF64 :: "u32 \<Rightarrow> u32 \<Rightarrow> u32 \<Rightarrow> bool jitm" where [emitter_defs]:
  "EmitVaddF64 dd dn dm j = (if \<not> IsDRegister dd \<or> \<not> IsDRegister dn \<or>
     \<not> IsDRegister dm then jret False j
     else EmitU32 (EncodeVaddF64 (MapNeonDRegister (jit_cb j) dd) (MapNeonDRegister (jit_cb j) dn) (MapNeonDRegister (jit_cb j) dm)) j)"

definition EmitVsubF32 :: "u32 \<Rightarrow> u32 \<Rightarrow> u32 \<Rightarrow> bool jitm" where [emitter_defs]:
  "EmitVsubF32 sd sn sm j = (if \<not> IsSRegister sd \<or> \<not> IsSRegister sn \<or>
     \<not> IsSRegister sm then jret False j else EmitU32 (EncodeVsubF32 sd sn sm) j)"

definition EmitVmulF32 :: "u32 \<Rightarrow> u32 \<Rightarrow> u32 \<Rightarrow> bool jitm" where [emitter_defs]:
  "EmitVmulF32 sd sn sm j = (if \<not> IsSRegister sd \<or> \<not> IsSRegister sn \<or>
     \<not> IsSRegister sm then jret False j else EmitU32 (EncodeVmulF32 sd sn sm) j)"

definition EmitVmlaF32 :: "u32 \<Rightarrow> u32 \<Rightarrow> u32 \<Rightarrow> bool jitm" where [emitter_defs]:
  "EmitVmlaF32 sd sn sm j = (if \<not> IsSRegister sd \<or> \<not> IsSRegister sn \<or>
     \<not> IsSRegister sm then jret False j else EmitU32 (EncodeVmlaF32 sd sn sm) j)"

definition EmitVmlsF32 :: "u32 \<Rightarrow> u32 \<Rightarrow> u32 \<Rightarrow> bool jitm" where [emitter_defs]:
  "EmitVmlsF32 sd sn sm j = (if \<not> IsSRegister sd \<or> \<not> IsSRegister sn \<or>
     \<not> IsSRegister sm then jret False j else EmitU32 (EncodeVmlsF32 sd sn sm) j)"

definition EmitVmulF64 :: "u32 \<Rightarrow> u32 \<Rightarrow> u32 \<Rightarrow> bool jitm" where [emitter_defs]:
  "EmitVmulF64 dd dn dm j = (if \<not> IsDRegister dd \<or> \<not> IsDRegister dn \<or>
     \<not> IsDRegister dm then jret False j
     else EmitU32 (EncodeVmulF64 (MapNeonDRegister (jit_cb j) dd) (MapNeonDRegister (jit_cb j) dn) (MapNeonDRegister (jit_cb j) dm)) j)"

definition EmitVaddF32D :: "u32 \<Rightarrow> u32 \<Rightarrow> u32 \<Rightarrow> bool jitm" where [emitter_defs]:
  "EmitVaddF32D dd dn dm j = (if \<not> IsDRegister dd \<or> \<not> IsDRegister dn \<or>
     \<not> IsDRegister dm then jret False j
     else EmitU32 (EncodeVaddF32D (MapNeonDRegister (jit_cb j) dd) (MapNeonDRegister (jit_cb j) dn) (MapNeonDRegister (jit_cb j) dm)) j)"

definition EmitVsubF32D :: "u32 \<Rightarrow> u32 \<Rightarrow> u32 \<Rightarrow> bool jitm" where [emitter_defs]:
  "EmitVsubF32D dd dn dm j = (if \<not> IsDRegister dd \<or> \<not> IsDRegister dn \<or>
     \<not> IsDRegister dm then jret False j
     else EmitU32 (EncodeVsubF32D (MapNeonDRegister (jit_cb j) dd) (MapNeonDRegister (jit_cb j) dn) (MapNeonDRegister (jit_cb j) dm)) j)"

definition EmitVmulF32D :: "u32 \<Rightarrow> u32 \<Rightarrow> u32 \<Rightarrow> bool jitm" where [emitter_defs]:
  "EmitVmulF32D dd dn dm j = (if \<not> IsDRegister dd \<or> \<not> IsDRegister dn \<or>
     \<not> IsDRegister dm then jret False j
     else EmitU32 (EncodeVmulF32D (MapNeonDRegister (jit_cb j) dd) (MapNeonDRegister (jit_cb j) dn) (MapNeonDRegister (jit_cb j) dm)) j)"

definition EmitVmlaF32D :: "u32 \<Rightarrow> u32 \<Rightarrow> u32 \<Rightarrow> bool jitm" where [emitter_defs]:
  "EmitVmlaF32D dd dn dm j = (if \<not> IsDRegister dd \<or> \<not> IsDRegister dn \<or>
     \<not> IsDRegister dm then jret False j
     else EmitU32 (EncodeVmlaF32D (MapNeonDRegister (jit_cb j) dd) (MapNeonDRegister (jit_cb j) dn) (MapNeonDRegister (jit_cb j) dm)) j)"

definition EmitVmlsF32D :: "u32 \<Rightarrow> u32 \<Rightarrow> u32 \<Rightarrow> bool jitm" where [emitter_defs]:
  "EmitVmlsF32D dd dn dm j = (if \<not> IsDRegister dd \<or> \<not> IsDRegister dn \<or>
     \<not> IsDRegister dm then jret False j
     else EmitU32 (EncodeVmlsF32D (MapNeonDRegister (jit_cb j) dd) (MapNeonDRegister (jit_cb j) dn) (MapNeonDRegister (jit_cb j) dm)) j)"

definition EmitVmulF32DByLane :: "u32 \<Rightarrow> u32 \<Rightarrow> u32 \<Rightarrow> u32 \<Rightarrow> bool jitm" where [emitter_defs]:
  "EmitVmulF32DByLane dd dn dm lane j = (if \<not> IsDRegister dd \<or>
     \<not> IsDRegister dn \<or> \<not> IsDRegister dm \<or> lane \<ge> 2 then jret False j
     else let mapped_dm = MapNeonDRegister (jit_cb j) dm in if mapped_dm < 16
     then EmitU32 (EncodeVmulF32DByLane (MapNeonDRegister (jit_cb j) dd) (MapNeonDRegister (jit_cb j) dn) mapped_dm lane) j
     else jret False j)"

definition EmitVmlaF32DByLane :: "u32 \<Rightarrow> u32 \<Rightarrow> u32 \<Rightarrow> u32 \<Rightarrow> bool jitm" where [emitter_defs]:
  "EmitVmlaF32DByLane dd dn dm lane j = (if \<not> IsDRegister dd \<or>
     \<not> IsDRegister dn \<or> \<not> IsDRegister dm \<or> lane \<ge> 2 then jret False j
     else let mapped_dm = MapNeonDRegister (jit_cb j) dm in if mapped_dm < 16
     then EmitU32 (EncodeVmlaF32DByLane (MapNeonDRegister (jit_cb j) dd) (MapNeonDRegister (jit_cb j) dn) mapped_dm lane) j
     else jret False j)"

definition EmitVmlsF32DByLane :: "u32 \<Rightarrow> u32 \<Rightarrow> u32 \<Rightarrow> u32 \<Rightarrow> bool jitm" where [emitter_defs]:
  "EmitVmlsF32DByLane dd dn dm lane j = (if \<not> IsDRegister dd \<or>
     \<not> IsDRegister dn \<or> \<not> IsDRegister dm \<or> lane \<ge> 2 then jret False j
     else let mapped_dm = MapNeonDRegister (jit_cb j) dm in if mapped_dm < 16
     then EmitU32 (EncodeVmlsF32DByLane (MapNeonDRegister (jit_cb j) dd) (MapNeonDRegister (jit_cb j) dn) mapped_dm lane) j
     else jret False j)"

definition EmitVaddF32Q :: "u32 \<Rightarrow> u32 \<Rightarrow> u32 \<Rightarrow> bool jitm" where [emitter_defs]:
  "EmitVaddF32Q qd qn qm j = (if \<not> IsQRegister qd \<or> \<not> IsQRegister qn \<or>
     \<not> IsQRegister qm then jret False j
     else EmitU32 (EncodeVaddF32Q (MapNeonQRegister (jit_cb j) qd) (MapNeonQRegister (jit_cb j) qn) (MapNeonQRegister (jit_cb j) qm)) j)"

definition EmitVsubF32Q :: "u32 \<Rightarrow> u32 \<Rightarrow> u32 \<Rightarrow> bool jitm" where [emitter_defs]:
  "EmitVsubF32Q qd qn qm j = (if \<not> IsQRegister qd \<or> \<not> IsQRegister qn \<or>
     \<not> IsQRegister qm then jret False j
     else EmitU32 (EncodeVsubF32Q (MapNeonQRegister (jit_cb j) qd) (MapNeonQRegister (jit_cb j) qn) (MapNeonQRegister (jit_cb j) qm)) j)"

definition EmitVmulF32Q :: "u32 \<Rightarrow> u32 \<Rightarrow> u32 \<Rightarrow> bool jitm" where [emitter_defs]:
  "EmitVmulF32Q qd qn qm j = (if \<not> IsQRegister qd \<or> \<not> IsQRegister qn \<or>
     \<not> IsQRegister qm then jret False j
     else EmitU32 (EncodeVmulF32Q (MapNeonQRegister (jit_cb j) qd) (MapNeonQRegister (jit_cb j) qn) (MapNeonQRegister (jit_cb j) qm)) j)"

definition EmitVmlaF32Q :: "u32 \<Rightarrow> u32 \<Rightarrow> u32 \<Rightarrow> bool jitm" where [emitter_defs]:
  "EmitVmlaF32Q qd qn qm j = (if \<not> IsQRegister qd \<or> \<not> IsQRegister qn \<or>
     \<not> IsQRegister qm then jret False j
     else EmitU32 (EncodeVmlaF32Q (MapNeonQRegister (jit_cb j) qd) (MapNeonQRegister (jit_cb j) qn) (MapNeonQRegister (jit_cb j) qm)) j)"

definition EmitVmlsF32Q :: "u32 \<Rightarrow> u32 \<Rightarrow> u32 \<Rightarrow> bool jitm" where [emitter_defs]:
  "EmitVmlsF32Q qd qn qm j = (if \<not> IsQRegister qd \<or> \<not> IsQRegister qn \<or>
     \<not> IsQRegister qm then jret False j
     else EmitU32 (EncodeVmlsF32Q (MapNeonQRegister (jit_cb j) qd) (MapNeonQRegister (jit_cb j) qn) (MapNeonQRegister (jit_cb j) qm)) j)"

definition EmitVmulF32QByLane :: "u32 \<Rightarrow> u32 \<Rightarrow> u32 \<Rightarrow> u32 \<Rightarrow> bool jitm" where [emitter_defs]:
  "EmitVmulF32QByLane qd qn dm lane j = (if \<not> IsQRegister qd \<or>
     \<not> IsQRegister qn \<or> \<not> IsDRegister dm \<or> lane \<ge> 2 then jret False j
     else let mapped_dm = MapNeonDRegister (jit_cb j) dm in if mapped_dm < 16
     then EmitU32 (EncodeVmulF32QByLane (MapNeonQRegister (jit_cb j) qd) (MapNeonQRegister (jit_cb j) qn) mapped_dm lane) j
     else jret False j)"

definition EmitVmlaF32QByLane :: "u32 \<Rightarrow> u32 \<Rightarrow> u32 \<Rightarrow> u32 \<Rightarrow> bool jitm" where [emitter_defs]:
  "EmitVmlaF32QByLane qd qn dm lane j = (if \<not> IsQRegister qd \<or>
     \<not> IsQRegister qn \<or> \<not> IsDRegister dm \<or> lane \<ge> 2 then jret False j
     else let mapped_dm = MapNeonDRegister (jit_cb j) dm in if mapped_dm < 16
     then EmitU32 (EncodeVmlaF32QByLane (MapNeonQRegister (jit_cb j) qd) (MapNeonQRegister (jit_cb j) qn) mapped_dm lane) j
     else jret False j)"

definition EmitVmlsF32QByLane :: "u32 \<Rightarrow> u32 \<Rightarrow> u32 \<Rightarrow> u32 \<Rightarrow> bool jitm" where [emitter_defs]:
  "EmitVmlsF32QByLane qd qn dm lane j = (if \<not> IsQRegister qd \<or>
     \<not> IsQRegister qn \<or> \<not> IsDRegister dm \<or> lane \<ge> 2 then jret False j
     else let mapped_dm = MapNeonDRegister (jit_cb j) dm in if mapped_dm < 16
     then EmitU32 (EncodeVmlsF32QByLane (MapNeonQRegister (jit_cb j) qd) (MapNeonQRegister (jit_cb j) qn) mapped_dm lane) j
     else jret False j)"

definition EmitVrecpeF32D :: "u32 \<Rightarrow> u32 \<Rightarrow> bool jitm" where [emitter_defs]:
  "EmitVrecpeF32D dd dm j = (if \<not> IsDRegister dd \<or> \<not> IsDRegister dm
     then jret False j
     else EmitU32 (EncodeVrecpeF32D (MapNeonDRegister (jit_cb j) dd) (MapNeonDRegister (jit_cb j) dm)) j)"

definition EmitVrecpsF32D :: "u32 \<Rightarrow> u32 \<Rightarrow> u32 \<Rightarrow> bool jitm" where [emitter_defs]:
  "EmitVrecpsF32D dd dn dm j = (if \<not> IsDRegister dd \<or> \<not> IsDRegister dn \<or>
     \<not> IsDRegister dm then jret False j
     else EmitU32 (EncodeVrecpsF32D (MapNeonDRegister (jit_cb j) dd) (MapNeonDRegister (jit_cb j) dn) (MapNeonDRegister (jit_cb j) dm)) j)"

definition EmitVrsqrteF32D :: "u32 \<Rightarrow> u32 \<Rightarrow> bool jitm" where [emitter_defs]:
  "EmitVrsqrteF32D dd dm j = (if \<not> IsDRegister dd \<or> \<not> IsDRegister dm
     then jret False j
     else EmitU32 (EncodeVrsqrteF32D (MapNeonDRegister (jit_cb j) dd) (MapNeonDRegister (jit_cb j) dm)) j)"

definition EmitVrsqrtsF32D :: "u32 \<Rightarrow> u32 \<Rightarrow> u32 \<Rightarrow> bool jitm" where [emitter_defs]:
  "EmitVrsqrtsF32D dd dn dm j = (if \<not> IsDRegister dd \<or> \<not> IsDRegister dn \<or>
     \<not> IsDRegister dm then jret False j
     else EmitU32 (EncodeVrsqrtsF32D (MapNeonDRegister (jit_cb j) dd) (MapNeonDRegister (jit_cb j) dn) (MapNeonDRegister (jit_cb j) dm)) j)"

definition EmitVdivF32 :: "u32 \<Rightarrow> u32 \<Rightarrow> u32 \<Rightarrow> bool jitm" where [emitter_defs]:
  "EmitVdivF32 sd sn sm j = (if \<not> IsSRegister sd \<or> \<not> IsSRegister sn \<or>
     \<not> IsSRegister sm then jret False j else EmitU32 (EncodeVdivF32 sd sn sm) j)"

definition EmitVdivF64 :: "u32 \<Rightarrow> u32 \<Rightarrow> u32 \<Rightarrow> bool jitm" where [emitter_defs]:
  "EmitVdivF64 dd dn dm j = (if \<not> IsDRegister dd \<or> \<not> IsDRegister dn \<or>
     \<not> IsDRegister dm then jret False j
     else EmitU32 (EncodeVdivF64 (MapNeonDRegister (jit_cb j) dd) (MapNeonDRegister (jit_cb j) dn) (MapNeonDRegister (jit_cb j) dm)) j)"

definition EmitVsqrtF32 :: "u32 \<Rightarrow> u32 \<Rightarrow> bool jitm" where [emitter_defs]:
  "EmitVsqrtF32 sd sm j = (if \<not> IsSRegister sd \<or> \<not> IsSRegister sm
     then jret False j else EmitU32 (EncodeVsqrtF32 sd sm) j)"

definition EmitVaddI8Q :: "u32 \<Rightarrow> u32 \<Rightarrow> u32 \<Rightarrow> bool jitm" where [emitter_defs]:
  "EmitVaddI8Q qd qn qm j = (if \<not> IsQRegister qd \<or> \<not> IsQRegister qn \<or>
     \<not> IsQRegister qm then jret False j
     else EmitU32 (EncodeVaddI8Q (MapNeonQRegister (jit_cb j) qd) (MapNeonQRegister (jit_cb j) qn) (MapNeonQRegister (jit_cb j) qm)) j)"

definition EmitVaddI16Q :: "u32 \<Rightarrow> u32 \<Rightarrow> u32 \<Rightarrow> bool jitm" where [emitter_defs]:
  "EmitVaddI16Q qd qn qm j = (if \<not> IsQRegister qd \<or> \<not> IsQRegister qn \<or>
     \<not> IsQRegister qm then jret False j
     else EmitU32 (EncodeVaddI16Q (MapNeonQRegister (jit_cb j) qd) (MapNeonQRegister (jit_cb j) qn) (MapNeonQRegister (jit_cb j) qm)) j)"

definition EmitVaddI32Q :: "u32 \<Rightarrow> u32 \<Rightarrow> u32 \<Rightarrow> bool jitm" where [emitter_defs]:
  "EmitVaddI32Q qd qn qm j = (if \<not> IsQRegister qd \<or> \<not> IsQRegister qn \<or>
     \<not> IsQRegister qm then jret False j
     else EmitU32 (EncodeVaddI32Q (MapNeonQRegister (jit_cb j) qd) (MapNeonQRegister (jit_cb j) qn) (MapNeonQRegister (jit_cb j) qm)) j)"

definition EmitVaddI64Q :: "u32 \<Rightarrow> u32 \<Rightarrow> u32 \<Rightarrow> bool jitm" where [emitter_defs]:
  "EmitVaddI64Q qd qn qm j = (if \<not> IsQRegister qd \<or> \<not> IsQRegister qn \<or>
     \<not> IsQRegister qm then jret False j
     else EmitU32 (EncodeVaddI64Q (MapNeonQRegister (jit_cb j) qd) (MapNeonQRegister (jit_cb j) qn) (MapNeonQRegister (jit_cb j) qm)) j)"

definition EmitVpaddI32D :: "u32 \<Rightarrow> u32 \<Rightarrow> u32 \<Rightarrow> bool jitm" where [emitter_defs]:
  "EmitVpaddI32D dd dn dm j = (if \<not> IsDRegister dd \<or> \<not> IsDRegister dn \<or>
     \<not> IsDRegister dm then jret False j
     else EmitU32 (EncodeVpaddI32D (MapNeonDRegister (jit_cb j) dd) (MapNeonDRegister (jit_cb j) dn) (MapNeonDRegister (jit_cb j) dm)) j)"

definition EmitVpmaxU32D :: "u32 \<Rightarrow> u32 \<Rightarrow> u32 \<Rightarrow> bool jitm" where [emitter_defs]:
  "EmitVpmaxU32D dd dn dm j = (if \<not> IsDRegister dd \<or> \<not> IsDRegister dn \<or>
     \<not> IsDRegister dm then jret False j
     else EmitU32 (EncodeVpmaxU32D (MapNeonDRegister (jit_cb j) dd) (MapNeonDRegister (jit_cb j) dn) (MapNeonDRegister (jit_cb j) dm)) j)"

definition EmitVsubI8Q :: "u32 \<Rightarrow> u32 \<Rightarrow> u32 \<Rightarrow> bool jitm" where [emitter_defs]:
  "EmitVsubI8Q qd qn qm j = (if \<not> IsQRegister qd \<or> \<not> IsQRegister qn \<or>
     \<not> IsQRegister qm then jret False j
     else EmitU32 (EncodeVsubI8Q (MapNeonQRegister (jit_cb j) qd) (MapNeonQRegister (jit_cb j) qn) (MapNeonQRegister (jit_cb j) qm)) j)"

definition EmitVsubI16Q :: "u32 \<Rightarrow> u32 \<Rightarrow> u32 \<Rightarrow> bool jitm" where [emitter_defs]:
  "EmitVsubI16Q qd qn qm j = (if \<not> IsQRegister qd \<or> \<not> IsQRegister qn \<or>
     \<not> IsQRegister qm then jret False j
     else EmitU32 (EncodeVsubI16Q (MapNeonQRegister (jit_cb j) qd) (MapNeonQRegister (jit_cb j) qn) (MapNeonQRegister (jit_cb j) qm)) j)"

definition EmitVsubI32Q :: "u32 \<Rightarrow> u32 \<Rightarrow> u32 \<Rightarrow> bool jitm" where [emitter_defs]:
  "EmitVsubI32Q qd qn qm j = (if \<not> IsQRegister qd \<or> \<not> IsQRegister qn \<or>
     \<not> IsQRegister qm then jret False j
     else EmitU32 (EncodeVsubI32Q (MapNeonQRegister (jit_cb j) qd) (MapNeonQRegister (jit_cb j) qn) (MapNeonQRegister (jit_cb j) qm)) j)"

definition EmitVshlI16Q :: "u32 \<Rightarrow> u32 \<Rightarrow> u8 \<Rightarrow> bool jitm" where [emitter_defs]:
  "EmitVshlI16Q qd qm amount j = (if \<not> IsQRegister qd \<or> \<not> IsQRegister qm \<or>
     amount = 0 \<or> amount \<ge> 16 then jret False j
     else EmitU32 (EncodeVshlI16Q (MapNeonQRegister (jit_cb j) qd) (MapNeonQRegister (jit_cb j) qm) amount) j)"

definition EmitVshlI32Q :: "u32 \<Rightarrow> u32 \<Rightarrow> u8 \<Rightarrow> bool jitm" where [emitter_defs]:
  "EmitVshlI32Q qd qm amount j = (if \<not> IsQRegister qd \<or> \<not> IsQRegister qm \<or>
     amount = 0 \<or> amount \<ge> 32 then jret False j
     else EmitU32 (EncodeVshlI32Q (MapNeonQRegister (jit_cb j) qd) (MapNeonQRegister (jit_cb j) qm) amount) j)"

definition EmitVshrU16Q :: "u32 \<Rightarrow> u32 \<Rightarrow> u8 \<Rightarrow> bool jitm" where [emitter_defs]:
  "EmitVshrU16Q qd qm amount j = (if \<not> IsQRegister qd \<or> \<not> IsQRegister qm \<or>
     amount = 0 \<or> amount \<ge> 16 then jret False j
     else EmitU32 (EncodeVshrU16Q (MapNeonQRegister (jit_cb j) qd) (MapNeonQRegister (jit_cb j) qm) amount) j)"

definition EmitVshrU32Q :: "u32 \<Rightarrow> u32 \<Rightarrow> u8 \<Rightarrow> bool jitm" where [emitter_defs]:
  "EmitVshrU32Q qd qm amount j = (if \<not> IsQRegister qd \<or> \<not> IsQRegister qm \<or>
     amount = 0 \<or> amount \<ge> 32 then jret False j
     else EmitU32 (EncodeVshrU32Q (MapNeonQRegister (jit_cb j) qd) (MapNeonQRegister (jit_cb j) qm) amount) j)"

definition EmitVsriI32Q :: "u32 \<Rightarrow> u32 \<Rightarrow> u8 \<Rightarrow> bool jitm" where [emitter_defs]:
  "EmitVsriI32Q qd qm amount j = (if \<not> IsQRegister qd \<or> \<not> IsQRegister qm \<or>
     amount = 0 \<or> amount \<ge> 32 then jret False j
     else EmitU32 (EncodeVsriI32Q (MapNeonQRegister (jit_cb j) qd) (MapNeonQRegister (jit_cb j) qm) amount) j)"

definition EmitVshrS16Q :: "u32 \<Rightarrow> u32 \<Rightarrow> u8 \<Rightarrow> bool jitm" where [emitter_defs]:
  "EmitVshrS16Q qd qm amount j = (if \<not> IsQRegister qd \<or> \<not> IsQRegister qm \<or>
     amount = 0 \<or> amount \<ge> 16 then jret False j
     else EmitU32 (EncodeVshrS16Q (MapNeonQRegister (jit_cb j) qd) (MapNeonQRegister (jit_cb j) qm) amount) j)"

definition EmitVshrS32Q :: "u32 \<Rightarrow> u32 \<Rightarrow> u8 \<Rightarrow> bool jitm" where [emitter_defs]:
  "EmitVshrS32Q qd qm amount j = (if \<not> IsQRegister qd \<or> \<not> IsQRegister qm \<or>
     amount = 0 \<or> amount \<ge> 32 then jret False j
     else EmitU32 (EncodeVshrS32Q (MapNeonQRegister (jit_cb j) qd) (MapNeonQRegister (jit_cb j) qm) amount) j)"

definition EmitVshlU32Q :: "u32 \<Rightarrow> u32 \<Rightarrow> u32 \<Rightarrow> bool jitm" where [emitter_defs]:
  "EmitVshlU32Q qd qm qn j = (if \<not> IsQRegister qd \<or> \<not> IsQRegister qm \<or>
     \<not> IsQRegister qn then jret False j
     else EmitU32 (EncodeVshlU32Q (MapNeonQRegister (jit_cb j) qd) (MapNeonQRegister (jit_cb j) qm) (MapNeonQRegister (jit_cb j) qn)) j)"

definition EmitVshlS32Q :: "u32 \<Rightarrow> u32 \<Rightarrow> u32 \<Rightarrow> bool jitm" where [emitter_defs]:
  "EmitVshlS32Q qd qm qn j = (if \<not> IsQRegister qd \<or> \<not> IsQRegister qm \<or>
     \<not> IsQRegister qn then jret False j
     else EmitU32 (EncodeVshlS32Q (MapNeonQRegister (jit_cb j) qd) (MapNeonQRegister (jit_cb j) qm) (MapNeonQRegister (jit_cb j) qn)) j)"

definition EmitVmullS16Q :: "u32 \<Rightarrow> u32 \<Rightarrow> u32 \<Rightarrow> bool jitm" where [emitter_defs]:
  "EmitVmullS16Q qd dn dm j = (if \<not> IsQRegister qd \<or> \<not> IsDRegister dn \<or>
     \<not> IsDRegister dm then jret False j
     else EmitU32 (EncodeVmullS16Q (MapNeonQRegister (jit_cb j) qd) (MapNeonDRegister (jit_cb j) dn) (MapNeonDRegister (jit_cb j) dm)) j)"

definition EmitVmullS32Q :: "u32 \<Rightarrow> u32 \<Rightarrow> u32 \<Rightarrow> bool jitm" where [emitter_defs]:
  "EmitVmullS32Q qd dn dm j = (if \<not> IsQRegister qd \<or> \<not> IsDRegister dn \<or>
     \<not> IsDRegister dm then jret False j
     else EmitU32 (EncodeVmullS32Q (MapNeonQRegister (jit_cb j) qd) (MapNeonDRegister (jit_cb j) dn) (MapNeonDRegister (jit_cb j) dm)) j)"

definition EmitVmullU32Q :: "u32 \<Rightarrow> u32 \<Rightarrow> u32 \<Rightarrow> bool jitm" where [emitter_defs]:
  "EmitVmullU32Q qd dn dm j = (if \<not> IsQRegister qd \<or> \<not> IsDRegister dn \<or>
     \<not> IsDRegister dm then jret False j
     else EmitU32 (EncodeVmullU32Q (MapNeonQRegister (jit_cb j) qd) (MapNeonDRegister (jit_cb j) dn) (MapNeonDRegister (jit_cb j) dm)) j)"

definition EmitVnegS32Q :: "u32 \<Rightarrow> u32 \<Rightarrow> bool jitm" where [emitter_defs]:
  "EmitVnegS32Q qd qm j = (if \<not> IsQRegister qd \<or> \<not> IsQRegister qm
     then jret False j
     else EmitU32 (EncodeVnegS32Q (MapNeonQRegister (jit_cb j) qd) (MapNeonQRegister (jit_cb j) qm)) j)"

definition EmitVqmovnS32D :: "u32 \<Rightarrow> u32 \<Rightarrow> bool jitm" where [emitter_defs]:
  "EmitVqmovnS32D dd qm j = (if \<not> IsDRegister dd \<or> \<not> IsQRegister qm
     then jret False j
     else EmitU32 (EncodeVqmovnS32D (MapNeonDRegister (jit_cb j) dd) (MapNeonQRegister (jit_cb j) qm)) j)"

definition EmitVqmovnS64D :: "u32 \<Rightarrow> u32 \<Rightarrow> bool jitm" where [emitter_defs]:
  "EmitVqmovnS64D dd qm j = (if \<not> IsDRegister dd \<or> \<not> IsQRegister qm
     then jret False j
     else EmitU32 (EncodeVqmovnS64D (MapNeonDRegister (jit_cb j) dd) (MapNeonQRegister (jit_cb j) qm)) j)"

definition EmitVcgtS8Q :: "u32 \<Rightarrow> u32 \<Rightarrow> u32 \<Rightarrow> bool jitm" where [emitter_defs]:
  "EmitVcgtS8Q qd qn qm j = (if \<not> IsQRegister qd \<or> \<not> IsQRegister qn \<or>
     \<not> IsQRegister qm then jret False j
     else EmitU32 (EncodeVcgtS8Q (MapNeonQRegister (jit_cb j) qd) (MapNeonQRegister (jit_cb j) qn) (MapNeonQRegister (jit_cb j) qm)) j)"

definition EmitVcgtS16Q :: "u32 \<Rightarrow> u32 \<Rightarrow> u32 \<Rightarrow> bool jitm" where [emitter_defs]:
  "EmitVcgtS16Q qd qn qm j = (if \<not> IsQRegister qd \<or> \<not> IsQRegister qn \<or>
     \<not> IsQRegister qm then jret False j
     else EmitU32 (EncodeVcgtS16Q (MapNeonQRegister (jit_cb j) qd) (MapNeonQRegister (jit_cb j) qn) (MapNeonQRegister (jit_cb j) qm)) j)"

definition EmitVcgtS32Q :: "u32 \<Rightarrow> u32 \<Rightarrow> u32 \<Rightarrow> bool jitm" where [emitter_defs]:
  "EmitVcgtS32Q qd qn qm j = (if \<not> IsQRegister qd \<or> \<not> IsQRegister qn \<or>
     \<not> IsQRegister qm then jret False j
     else EmitU32 (EncodeVcgtS32Q (MapNeonQRegister (jit_cb j) qd) (MapNeonQRegister (jit_cb j) qn) (MapNeonQRegister (jit_cb j) qm)) j)"

definition EmitVceqI8Q :: "u32 \<Rightarrow> u32 \<Rightarrow> u32 \<Rightarrow> bool jitm" where [emitter_defs]:
  "EmitVceqI8Q qd qn qm j = (if \<not> IsQRegister qd \<or> \<not> IsQRegister qn \<or>
     \<not> IsQRegister qm then jret False j
     else EmitU32 (EncodeVceqI8Q (MapNeonQRegister (jit_cb j) qd) (MapNeonQRegister (jit_cb j) qn) (MapNeonQRegister (jit_cb j) qm)) j)"

definition EmitVceqI16Q :: "u32 \<Rightarrow> u32 \<Rightarrow> u32 \<Rightarrow> bool jitm" where [emitter_defs]:
  "EmitVceqI16Q qd qn qm j = (if \<not> IsQRegister qd \<or> \<not> IsQRegister qn \<or>
     \<not> IsQRegister qm then jret False j
     else EmitU32 (EncodeVceqI16Q (MapNeonQRegister (jit_cb j) qd) (MapNeonQRegister (jit_cb j) qn) (MapNeonQRegister (jit_cb j) qm)) j)"

definition EmitVceqI32D :: "u32 \<Rightarrow> u32 \<Rightarrow> u32 \<Rightarrow> bool jitm" where [emitter_defs]:
  "EmitVceqI32D dd dn dm j = (if \<not> IsDRegister dd \<or> \<not> IsDRegister dn \<or>
     \<not> IsDRegister dm then jret False j
     else EmitU32 (EncodeVceqI32D (MapNeonDRegister (jit_cb j) dd) (MapNeonDRegister (jit_cb j) dn) (MapNeonDRegister (jit_cb j) dm)) j)"

definition EmitVceqI32Q :: "u32 \<Rightarrow> u32 \<Rightarrow> u32 \<Rightarrow> bool jitm" where [emitter_defs]:
  "EmitVceqI32Q qd qn qm j = (if \<not> IsQRegister qd \<or> \<not> IsQRegister qn \<or>
     \<not> IsQRegister qm then jret False j
     else EmitU32 (EncodeVceqI32Q (MapNeonQRegister (jit_cb j) qd) (MapNeonQRegister (jit_cb j) qn) (MapNeonQRegister (jit_cb j) qm)) j)"

definition EmitVceqI32ZeroD :: "u32 \<Rightarrow> u32 \<Rightarrow> bool jitm" where [emitter_defs]:
  "EmitVceqI32ZeroD dd dm j = (if \<not> IsDRegister dd \<or> \<not> IsDRegister dm
     then jret False j
     else EmitU32 (EncodeVceqI32ZeroD (MapNeonDRegister (jit_cb j) dd) (MapNeonDRegister (jit_cb j) dm)) j)"

definition EmitVceqI32ZeroQ :: "u32 \<Rightarrow> u32 \<Rightarrow> bool jitm" where [emitter_defs]:
  "EmitVceqI32ZeroQ qd qm j = (if \<not> IsQRegister qd \<or> \<not> IsQRegister qm
     then jret False j
     else EmitU32 (EncodeVceqI32ZeroQ (MapNeonQRegister (jit_cb j) qd) (MapNeonQRegister (jit_cb j) qm)) j)"

definition EmitVcltS32ZeroQ :: "u32 \<Rightarrow> u32 \<Rightarrow> bool jitm" where [emitter_defs]:
  "EmitVcltS32ZeroQ qd qm j = (if \<not> IsQRegister qd \<or> \<not> IsQRegister qm
     then jret False j
     else EmitU32 (EncodeVcltS32ZeroQ (MapNeonQRegister (jit_cb j) qd) (MapNeonQRegister (jit_cb j) qm)) j)"

definition EmitVminS16Q :: "u32 \<Rightarrow> u32 \<Rightarrow> u32 \<Rightarrow> bool jitm" where [emitter_defs]:
  "EmitVminS16Q qd qn qm j = (if \<not> IsQRegister qd \<or> \<not> IsQRegister qn \<or>
     \<not> IsQRegister qm then jret False j
     else EmitU32 (EncodeVminS16Q (MapNeonQRegister (jit_cb j) qd) (MapNeonQRegister (jit_cb j) qn) (MapNeonQRegister (jit_cb j) qm)) j)"

definition EmitVminS32Q :: "u32 \<Rightarrow> u32 \<Rightarrow> u32 \<Rightarrow> bool jitm" where [emitter_defs]:
  "EmitVminS32Q qd qn qm j = (if \<not> IsQRegister qd \<or> \<not> IsQRegister qn \<or>
     \<not> IsQRegister qm then jret False j
     else EmitU32 (EncodeVminS32Q (MapNeonQRegister (jit_cb j) qd) (MapNeonQRegister (jit_cb j) qn) (MapNeonQRegister (jit_cb j) qm)) j)"

definition EmitVmaxS16Q :: "u32 \<Rightarrow> u32 \<Rightarrow> u32 \<Rightarrow> bool jitm" where [emitter_defs]:
  "EmitVmaxS16Q qd qn qm j = (if \<not> IsQRegister qd \<or> \<not> IsQRegister qn \<or>
     \<not> IsQRegister qm then jret False j
     else EmitU32 (EncodeVmaxS16Q (MapNeonQRegister (jit_cb j) qd) (MapNeonQRegister (jit_cb j) qn) (MapNeonQRegister (jit_cb j) qm)) j)"

definition EmitVmaxS32Q :: "u32 \<Rightarrow> u32 \<Rightarrow> u32 \<Rightarrow> bool jitm" where [emitter_defs]:
  "EmitVmaxS32Q qd qn qm j = (if \<not> IsQRegister qd \<or> \<not> IsQRegister qn \<or>
     \<not> IsQRegister qm then jret False j
     else EmitU32 (EncodeVmaxS32Q (MapNeonQRegister (jit_cb j) qd) (MapNeonQRegister (jit_cb j) qn) (MapNeonQRegister (jit_cb j) qm)) j)"

definition EmitVqaddS8Q :: "u32 \<Rightarrow> u32 \<Rightarrow> u32 \<Rightarrow> bool jitm" where [emitter_defs]:
  "EmitVqaddS8Q qd qn qm j = (if \<not> IsQRegister qd \<or> \<not> IsQRegister qn \<or>
     \<not> IsQRegister qm then jret False j
     else EmitU32 (EncodeVqaddS8Q (MapNeonQRegister (jit_cb j) qd) (MapNeonQRegister (jit_cb j) qn) (MapNeonQRegister (jit_cb j) qm)) j)"

definition EmitVqaddS16Q :: "u32 \<Rightarrow> u32 \<Rightarrow> u32 \<Rightarrow> bool jitm" where [emitter_defs]:
  "EmitVqaddS16Q qd qn qm j = (if \<not> IsQRegister qd \<or> \<not> IsQRegister qn \<or>
     \<not> IsQRegister qm then jret False j
     else EmitU32 (EncodeVqaddS16Q (MapNeonQRegister (jit_cb j) qd) (MapNeonQRegister (jit_cb j) qn) (MapNeonQRegister (jit_cb j) qm)) j)"

definition EmitVqaddS32Q :: "u32 \<Rightarrow> u32 \<Rightarrow> u32 \<Rightarrow> bool jitm" where [emitter_defs]:
  "EmitVqaddS32Q qd qn qm j = (if \<not> IsQRegister qd \<or> \<not> IsQRegister qn \<or>
     \<not> IsQRegister qm then jret False j
     else EmitU32 (EncodeVqaddS32Q (MapNeonQRegister (jit_cb j) qd) (MapNeonQRegister (jit_cb j) qn) (MapNeonQRegister (jit_cb j) qm)) j)"

definition EmitVqsubS8Q :: "u32 \<Rightarrow> u32 \<Rightarrow> u32 \<Rightarrow> bool jitm" where [emitter_defs]:
  "EmitVqsubS8Q qd qn qm j = (if \<not> IsQRegister qd \<or> \<not> IsQRegister qn \<or>
     \<not> IsQRegister qm then jret False j
     else EmitU32 (EncodeVqsubS8Q (MapNeonQRegister (jit_cb j) qd) (MapNeonQRegister (jit_cb j) qn) (MapNeonQRegister (jit_cb j) qm)) j)"

definition EmitVqsubS16Q :: "u32 \<Rightarrow> u32 \<Rightarrow> u32 \<Rightarrow> bool jitm" where [emitter_defs]:
  "EmitVqsubS16Q qd qn qm j = (if \<not> IsQRegister qd \<or> \<not> IsQRegister qn \<or>
     \<not> IsQRegister qm then jret False j
     else EmitU32 (EncodeVqsubS16Q (MapNeonQRegister (jit_cb j) qd) (MapNeonQRegister (jit_cb j) qn) (MapNeonQRegister (jit_cb j) qm)) j)"

definition EmitVqsubS32Q :: "u32 \<Rightarrow> u32 \<Rightarrow> u32 \<Rightarrow> bool jitm" where [emitter_defs]:
  "EmitVqsubS32Q qd qn qm j = (if \<not> IsQRegister qd \<or> \<not> IsQRegister qn \<or>
     \<not> IsQRegister qm then jret False j
     else EmitU32 (EncodeVqsubS32Q (MapNeonQRegister (jit_cb j) qd) (MapNeonQRegister (jit_cb j) qn) (MapNeonQRegister (jit_cb j) qm)) j)"

definition EmitVqaddU8Q :: "u32 \<Rightarrow> u32 \<Rightarrow> u32 \<Rightarrow> bool jitm" where [emitter_defs]:
  "EmitVqaddU8Q qd qn qm j = (if \<not> IsQRegister qd \<or> \<not> IsQRegister qn \<or>
     \<not> IsQRegister qm then jret False j
     else EmitU32 (EncodeVqaddU8Q (MapNeonQRegister (jit_cb j) qd) (MapNeonQRegister (jit_cb j) qn) (MapNeonQRegister (jit_cb j) qm)) j)"

definition EmitVqaddU16Q :: "u32 \<Rightarrow> u32 \<Rightarrow> u32 \<Rightarrow> bool jitm" where [emitter_defs]:
  "EmitVqaddU16Q qd qn qm j = (if \<not> IsQRegister qd \<or> \<not> IsQRegister qn \<or>
     \<not> IsQRegister qm then jret False j
     else EmitU32 (EncodeVqaddU16Q (MapNeonQRegister (jit_cb j) qd) (MapNeonQRegister (jit_cb j) qn) (MapNeonQRegister (jit_cb j) qm)) j)"

definition EmitVqaddU32Q :: "u32 \<Rightarrow> u32 \<Rightarrow> u32 \<Rightarrow> bool jitm" where [emitter_defs]:
  "EmitVqaddU32Q qd qn qm j = (if \<not> IsQRegister qd \<or> \<not> IsQRegister qn \<or>
     \<not> IsQRegister qm then jret False j
     else EmitU32 (EncodeVqaddU32Q (MapNeonQRegister (jit_cb j) qd) (MapNeonQRegister (jit_cb j) qn) (MapNeonQRegister (jit_cb j) qm)) j)"

definition EmitVqsubU8Q :: "u32 \<Rightarrow> u32 \<Rightarrow> u32 \<Rightarrow> bool jitm" where [emitter_defs]:
  "EmitVqsubU8Q qd qn qm j = (if \<not> IsQRegister qd \<or> \<not> IsQRegister qn \<or>
     \<not> IsQRegister qm then jret False j
     else EmitU32 (EncodeVqsubU8Q (MapNeonQRegister (jit_cb j) qd) (MapNeonQRegister (jit_cb j) qn) (MapNeonQRegister (jit_cb j) qm)) j)"

definition EmitVqsubU16Q :: "u32 \<Rightarrow> u32 \<Rightarrow> u32 \<Rightarrow> bool jitm" where [emitter_defs]:
  "EmitVqsubU16Q qd qn qm j = (if \<not> IsQRegister qd \<or> \<not> IsQRegister qn \<or>
     \<not> IsQRegister qm then jret False j
     else EmitU32 (EncodeVqsubU16Q (MapNeonQRegister (jit_cb j) qd) (MapNeonQRegister (jit_cb j) qn) (MapNeonQRegister (jit_cb j) qm)) j)"

definition EmitVqsubU32Q :: "u32 \<Rightarrow> u32 \<Rightarrow> u32 \<Rightarrow> bool jitm" where [emitter_defs]:
  "EmitVqsubU32Q qd qn qm j = (if \<not> IsQRegister qd \<or> \<not> IsQRegister qn \<or>
     \<not> IsQRegister qm then jret False j
     else EmitU32 (EncodeVqsubU32Q (MapNeonQRegister (jit_cb j) qd) (MapNeonQRegister (jit_cb j) qn) (MapNeonQRegister (jit_cb j) qm)) j)"

definition EmitVqabsS16Q :: "u32 \<Rightarrow> u32 \<Rightarrow> bool jitm" where [emitter_defs]:
  "EmitVqabsS16Q qd qm j = (if \<not> IsQRegister qd \<or> \<not> IsQRegister qm
     then jret False j
     else EmitU32 (EncodeVqabsS16Q (MapNeonQRegister (jit_cb j) qd) (MapNeonQRegister (jit_cb j) qm)) j)"

definition EmitVqabsS32Q :: "u32 \<Rightarrow> u32 \<Rightarrow> bool jitm" where [emitter_defs]:
  "EmitVqabsS32Q qd qm j = (if \<not> IsQRegister qd \<or> \<not> IsQRegister qm
     then jret False j
     else EmitU32 (EncodeVqabsS32Q (MapNeonQRegister (jit_cb j) qd) (MapNeonQRegister (jit_cb j) qm)) j)"

definition EmitVclsS32Q :: "u32 \<Rightarrow> u32 \<Rightarrow> bool jitm" where [emitter_defs]:
  "EmitVclsS32Q qd qm j = (if \<not> IsQRegister qd \<or> \<not> IsQRegister qm
     then jret False j
     else EmitU32 (EncodeVclsS32Q (MapNeonQRegister (jit_cb j) qd) (MapNeonQRegister (jit_cb j) qm)) j)"

definition EmitVrev64I32D :: "u32 \<Rightarrow> u32 \<Rightarrow> bool jitm" where [emitter_defs]:
  "EmitVrev64I32D dd dm j = (if \<not> IsDRegister dd \<or> \<not> IsDRegister dm
     then jret False j
     else EmitU32 (EncodeVrev64I32D (MapNeonDRegister (jit_cb j) dd) (MapNeonDRegister (jit_cb j) dm)) j)"

definition EmitVrev64I32Q :: "u32 \<Rightarrow> u32 \<Rightarrow> bool jitm" where [emitter_defs]:
  "EmitVrev64I32Q qd qm j = (if \<not> IsQRegister qd \<or> \<not> IsQRegister qm
     then jret False j
     else EmitU32 (EncodeVrev64I32Q (MapNeonQRegister (jit_cb j) qd) (MapNeonQRegister (jit_cb j) qm)) j)"

definition EmitVrev64I16Q :: "u32 \<Rightarrow> u32 \<Rightarrow> bool jitm" where [emitter_defs]:
  "EmitVrev64I16Q qd qm j = (if \<not> IsQRegister qd \<or> \<not> IsQRegister qm
     then jret False j
     else EmitU32 (EncodeVrev64I16Q (MapNeonQRegister (jit_cb j) qd) (MapNeonQRegister (jit_cb j) qm)) j)"

definition EmitVswpD :: "u32 \<Rightarrow> u32 \<Rightarrow> bool jitm" where [emitter_defs]:
  "EmitVswpD dd dm j = (if \<not> IsDRegister dd \<or> \<not> IsDRegister dm then jret False j
     else if dd = dm then jret True j
     else EmitU32 (EncodeVswpD (MapNeonDRegister (jit_cb j) dd) (MapNeonDRegister (jit_cb j) dm)) j)"

definition EmitVtrnI16D :: "u32 \<Rightarrow> u32 \<Rightarrow> bool jitm" where [emitter_defs]:
  "EmitVtrnI16D dd dm j = (if \<not> IsDRegister dd \<or> \<not> IsDRegister dm
     then jret False j
     else EmitU32 (EncodeVtrnI16D (MapNeonDRegister (jit_cb j) dd) (MapNeonDRegister (jit_cb j) dm)) j)"

definition EmitVtrnI16Q :: "u32 \<Rightarrow> u32 \<Rightarrow> bool jitm" where [emitter_defs]:
  "EmitVtrnI16Q qd qm j = (if \<not> IsQRegister qd \<or> \<not> IsQRegister qm
     then jret False j
     else EmitU32 (EncodeVtrnI16Q (MapNeonQRegister (jit_cb j) qd) (MapNeonQRegister (jit_cb j) qm)) j)"

definition EmitVtrnI32D :: "u32 \<Rightarrow> u32 \<Rightarrow> bool jitm" where [emitter_defs]:
  "EmitVtrnI32D dd dm j = (if \<not> IsDRegister dd \<or> \<not> IsDRegister dm
     then jret False j
     else EmitU32 (EncodeVtrnI32D (MapNeonDRegister (jit_cb j) dd) (MapNeonDRegister (jit_cb j) dm)) j)"

definition EmitVtrnI32Q :: "u32 \<Rightarrow> u32 \<Rightarrow> bool jitm" where [emitter_defs]:
  "EmitVtrnI32Q qd qm j = (if \<not> IsQRegister qd \<or> \<not> IsQRegister qm
     then jret False j
     else EmitU32 (EncodeVtrnI32Q (MapNeonQRegister (jit_cb j) qd) (MapNeonQRegister (jit_cb j) qm)) j)"

definition EmitVzipI8Q :: "u32 \<Rightarrow> u32 \<Rightarrow> bool jitm" where [emitter_defs]:
  "EmitVzipI8Q qd qm j = (if \<not> IsQRegister qd \<or> \<not> IsQRegister qm then jret False j
     else EmitU32 (EncodeVzipI8Q (MapNeonQRegister (jit_cb j) qd) (MapNeonQRegister (jit_cb j) qm)) j)"

definition EmitVzipI16Q :: "u32 \<Rightarrow> u32 \<Rightarrow> bool jitm" where [emitter_defs]:
  "EmitVzipI16Q qd qm j = (if \<not> IsQRegister qd \<or> \<not> IsQRegister qm
     then jret False j
     else EmitU32 (EncodeVzipI16Q (MapNeonQRegister (jit_cb j) qd) (MapNeonQRegister (jit_cb j) qm)) j)"

definition EmitVzipI32Q :: "u32 \<Rightarrow> u32 \<Rightarrow> bool jitm" where [emitter_defs]:
  "EmitVzipI32Q qd qm j = (if \<not> IsQRegister qd \<or> \<not> IsQRegister qm
     then jret False j
     else EmitU32 (EncodeVzipI32Q (MapNeonQRegister (jit_cb j) qd) (MapNeonQRegister (jit_cb j) qm)) j)"

definition EmitVuzpI8Q :: "u32 \<Rightarrow> u32 \<Rightarrow> bool jitm" where [emitter_defs]:
  "EmitVuzpI8Q qd qm j = (if \<not> IsQRegister qd \<or> \<not> IsQRegister qm then jret False j
     else EmitU32 (EncodeVuzpI8Q (MapNeonQRegister (jit_cb j) qd) (MapNeonQRegister (jit_cb j) qm)) j)"

definition EmitVuzpI16Q :: "u32 \<Rightarrow> u32 \<Rightarrow> bool jitm" where [emitter_defs]:
  "EmitVuzpI16Q qd qm j = (if \<not> IsQRegister qd \<or> \<not> IsQRegister qm
     then jret False j
     else EmitU32 (EncodeVuzpI16Q (MapNeonQRegister (jit_cb j) qd) (MapNeonQRegister (jit_cb j) qm)) j)"

definition EmitVuzpI32Q :: "u32 \<Rightarrow> u32 \<Rightarrow> bool jitm" where [emitter_defs]:
  "EmitVuzpI32Q qd qm j = (if \<not> IsQRegister qd \<or> \<not> IsQRegister qm
     then jret False j
     else EmitU32 (EncodeVuzpI32Q (MapNeonQRegister (jit_cb j) qd) (MapNeonQRegister (jit_cb j) qm)) j)"

definition EmitVextI8D :: "u32 \<Rightarrow> u32 \<Rightarrow> u32 \<Rightarrow> u8 \<Rightarrow> bool jitm" where [emitter_defs]:
  "EmitVextI8D dd dn dm byte_offset j = (if \<not> IsDRegister dd \<or>
     \<not> IsDRegister dn \<or> \<not> IsDRegister dm \<or> byte_offset \<ge> 8 then jret False j
     else EmitU32 (EncodeVextI8D (MapNeonDRegister (jit_cb j) dd) (MapNeonDRegister (jit_cb j) dn) (MapNeonDRegister (jit_cb j) dm) byte_offset) j)"

definition EmitVextI8Q :: "u32 \<Rightarrow> u32 \<Rightarrow> u32 \<Rightarrow> u8 \<Rightarrow> bool jitm" where [emitter_defs]:
  "EmitVextI8Q qd qn qm byte_offset j = (if \<not> IsQRegister qd \<or>
     \<not> IsQRegister qn \<or> \<not> IsQRegister qm \<or> byte_offset \<ge> 16
     then jret False j
     else EmitU32 (EncodeVextI8Q (MapNeonQRegister (jit_cb j) qd) (MapNeonQRegister (jit_cb j) qn) (MapNeonQRegister (jit_cb j) qm) byte_offset) j)"

definition EmitVandD :: "u32 \<Rightarrow> u32 \<Rightarrow> u32 \<Rightarrow> bool jitm" where [emitter_defs]:
  "EmitVandD dd dn dm j = (if \<not> IsDRegister dd \<or> \<not> IsDRegister dn \<or>
     \<not> IsDRegister dm then jret False j
     else EmitU32 (EncodeVandD (MapNeonDRegister (jit_cb j) dd) (MapNeonDRegister (jit_cb j) dn) (MapNeonDRegister (jit_cb j) dm)) j)"

definition EmitVandQ :: "u32 \<Rightarrow> u32 \<Rightarrow> u32 \<Rightarrow> bool jitm" where [emitter_defs]:
  "EmitVandQ qd qn qm j = (if \<not> IsQRegister qd \<or> \<not> IsQRegister qn \<or>
     \<not> IsQRegister qm then jret False j
     else EmitU32 (EncodeVandQ (MapNeonQRegister (jit_cb j) qd) (MapNeonQRegister (jit_cb j) qn) (MapNeonQRegister (jit_cb j) qm)) j)"

definition EmitVbitD :: "u32 \<Rightarrow> u32 \<Rightarrow> u32 \<Rightarrow> bool jitm" where [emitter_defs]:
  "EmitVbitD dd dn dm j = (if \<not> IsDRegister dd \<or> \<not> IsDRegister dn \<or>
     \<not> IsDRegister dm then jret False j
     else EmitU32 (EncodeVbitD (MapNeonDRegister (jit_cb j) dd) (MapNeonDRegister (jit_cb j) dn) (MapNeonDRegister (jit_cb j) dm)) j)"

definition EmitVbitQ :: "u32 \<Rightarrow> u32 \<Rightarrow> u32 \<Rightarrow> bool jitm" where [emitter_defs]:
  "EmitVbitQ qd qn qm j = (if \<not> IsQRegister qd \<or> \<not> IsQRegister qn \<or>
     \<not> IsQRegister qm then jret False j
     else EmitU32 (EncodeVbitQ (MapNeonQRegister (jit_cb j) qd) (MapNeonQRegister (jit_cb j) qn) (MapNeonQRegister (jit_cb j) qm)) j)"

definition EmitVeorQ :: "u32 \<Rightarrow> u32 \<Rightarrow> u32 \<Rightarrow> bool jitm" where [emitter_defs]:
  "EmitVeorQ qd qn qm j = (if \<not> IsQRegister qd \<or> \<not> IsQRegister qn \<or>
     \<not> IsQRegister qm then jret False j
     else EmitU32 (EncodeVeorQ (MapNeonQRegister (jit_cb j) qd) (MapNeonQRegister (jit_cb j) qn) (MapNeonQRegister (jit_cb j) qm)) j)"

definition EmitVeorD :: "u32 \<Rightarrow> u32 \<Rightarrow> u32 \<Rightarrow> bool jitm" where [emitter_defs]:
  "EmitVeorD dd dn dm j = (if \<not> IsDRegister dd \<or> \<not> IsDRegister dn \<or>
     \<not> IsDRegister dm then jret False j
     else EmitU32 (EncodeVeorD (MapNeonDRegister (jit_cb j) dd) (MapNeonDRegister (jit_cb j) dn) (MapNeonDRegister (jit_cb j) dm)) j)"

definition EmitVorrQ :: "u32 \<Rightarrow> u32 \<Rightarrow> u32 \<Rightarrow> bool jitm" where [emitter_defs]:
  "EmitVorrQ qd qn qm j = (if \<not> IsQRegister qd \<or> \<not> IsQRegister qn \<or>
     \<not> IsQRegister qm then jret False j
     else EmitU32 (EncodeVorrQ (MapNeonQRegister (jit_cb j) qd) (MapNeonQRegister (jit_cb j) qn) (MapNeonQRegister (jit_cb j) qm)) j)"

definition EmitVorrD :: "u32 \<Rightarrow> u32 \<Rightarrow> u32 \<Rightarrow> bool jitm" where [emitter_defs]:
  "EmitVorrD dd dn dm j = (if \<not> IsDRegister dd \<or> \<not> IsDRegister dn \<or>
     \<not> IsDRegister dm then jret False j
     else EmitU32 (EncodeVorrD (MapNeonDRegister (jit_cb j) dd) (MapNeonDRegister (jit_cb j) dn) (MapNeonDRegister (jit_cb j) dm)) j)"

definition EmitVmvnQ :: "u32 \<Rightarrow> u32 \<Rightarrow> bool jitm" where [emitter_defs]:
  "EmitVmvnQ qd qm j = (if \<not> IsQRegister qd \<or> \<not> IsQRegister qm then jret False j
     else EmitU32 (EncodeVmvnQ (MapNeonQRegister (jit_cb j) qd) (MapNeonQRegister (jit_cb j) qm)) j)"

definition EmitVpushDRange :: "u32 \<Rightarrow> u32 \<Rightarrow> bool jitm" where [emitter_defs]:
  "EmitVpushDRange first_d d_count j = (if \<not> IsDRegister first_d \<or> d_count = 0 \<or>
     d_count > 16 \<or> (first_d + d_count) > 32 then jret False j
     else EmitU32 (EncodeVpushDRange first_d d_count) j)"

definition EmitVpopDRange :: "u32 \<Rightarrow> u32 \<Rightarrow> bool jitm" where [emitter_defs]:
  "EmitVpopDRange first_d d_count j = (if \<not> IsDRegister first_d \<or> d_count = 0 \<or>
     d_count > 16 \<or> (first_d + d_count) > 32 then jret False j
     else EmitU32 (EncodeVpopDRange first_d d_count) j)"

end
