(* ===== verification/VTLB.thy ===== *)
theory VTLB
  imports Prelude
begin

text \<open>
  The page tables of the EE virtual memory system (\<^verbatim>\<open>pcsx2/vtlb.h\<close>,
  \<^verbatim>\<open>pcsx2/vtlb.cpp\<close>) and the memory map set-up of \<^verbatim>\<open>pcsx2/MemoryMap.cpp\<close>, for the
  32-bit target. \<^verbatim>\<open>pmap\<close> translates a physical page to host memory or to a device
  handler, \<^verbatim>\<open>vmap\<close> translates a virtual page; both pack their answer into one machine
  word whose sign bit says which of the two it is. The \<^verbatim>\<open>verify\<close> and
  \<^verbatim>\<open>pxAssert\<close> checks do nothing in a release build, and the 4 GiB fast-memory view
  (\<^verbatim>\<open>CHECK_FASTMEM\<close>, \<^verbatim>\<open>vtlb_RemoveFastmemMappings\<close>) does not exist on this target
  (\<^verbatim>\<open>fastmem_base\<close> is 0). The loops over pages are written as in the source; a loop
  that would not end is \<open>None\<close>.
\<close>

subsection \<open>Packed page entries\<close>

abbreviation "VTLB_PAGE_BITS \<equiv> 12 :: nat"
abbreviation "VTLB_PAGE_MASK \<equiv> 4095 :: u32"
abbreviation "VTLB_PAGE_SIZE \<equiv> 4096 :: u32"
abbreviation "VTLB_PMAP_SZ \<equiv> 0x20000000 :: u32"
abbreviation "POINTER_SIGN_BIT \<equiv> 0x80000000 :: uptr"
abbreviation "MainRam \<equiv> 0x2000000 :: u32"

text \<open>\<^verbatim>\<open>vtlbdata\<close>, the handler numbers of \<^verbatim>\<open>vtlb_Init\<close>, and the page-by-page
  record of the identity-mapped part of main memory.\<close>

record MapData =
  pmap :: "u32 \<Rightarrow> u32"
  vmap :: "u32 \<Rightarrow> u32"
  ppmap :: "(u32 \<Rightarrow> u32) option"
  host_memory_base :: uptr
  vtlbHandlerCount :: u32
  UnmappedVirtHandler :: u32
  UnmappedPhyHandler :: u32
  DefaultPhyHandler :: u32
  identity_pages :: "u32 \<Rightarrow> u32"
  identity_page_count :: u32

definition VTLBPhysical_fromPointer :: "MapData \<Rightarrow> uptr \<Rightarrow> u32" where
  "VTLBPhysical_fromPointer m ptr = ptr - host_memory_base m"

definition VTLBPhysical_fromHandler :: "u32 \<Rightarrow> u32" where
  "VTLBPhysical_fromHandler handler = handler OR POINTER_SIGN_BIT"

definition VTLBPhysical_isHandler :: "u32 \<Rightarrow> bool" where
  "VTLBPhysical_isHandler v = (v <s 0)"

definition VTLBPhysical_assumePtr :: "MapData \<Rightarrow> u32 \<Rightarrow> uptr" where
  "VTLBPhysical_assumePtr m v = host_memory_base m + v"

definition VTLBVirtual :: "u32 \<Rightarrow> u32 \<Rightarrow> u32 \<Rightarrow> u32" where
  "VTLBVirtual phys paddr vaddr =
     (if VTLBPhysical_isHandler phys then phys + paddr - vaddr else phys - vaddr)"

definition VTLBVirtual_fromPointer :: "MapData \<Rightarrow> uptr \<Rightarrow> u32 \<Rightarrow> u32" where
  "VTLBVirtual_fromPointer m ptr vaddr = VTLBVirtual (VTLBPhysical_fromPointer m ptr) 0 vaddr"

definition isHandler :: "u32 \<Rightarrow> u32 \<Rightarrow> bool" where
  "isHandler v vaddr = (v + vaddr <s 0)"

definition assumePtr :: "MapData \<Rightarrow> u32 \<Rightarrow> u32 \<Rightarrow> uptr" where
  "assumePtr m v vaddr = host_memory_base m + v + vaddr"

definition assumeHandlerGetID :: "u32 \<Rightarrow> u8" where
  "assumeHandlerGetID v = ucast v"

definition assumeHandlerGetPAddr :: "u32 \<Rightarrow> u32 \<Rightarrow> u32" where
  "assumeHandlerGetPAddr v vaddr = (v + vaddr - ucast (assumeHandlerGetID v)) AND NOT POINTER_SIGN_BIT"

subsection \<open>The record of identity-mapped pages\<close>

abbreviation "MAIN_RAM_IDENTITY_PAGE_COUNT \<equiv> 8192 :: u32"

definition HasDefaultMainRamIdentityWindow :: "MapData \<Rightarrow> bool" where
  "HasDefaultMainRamIdentityWindow m = (identity_page_count m = MAIN_RAM_IDENTITY_PAGE_COUNT)"

definition SetDefaultMainRamIdentityWindow :: "bool \<Rightarrow> MapData \<Rightarrow> MapData" where
  "SetDefaultMainRamIdentityWindow enabled m =
     m\<lparr>identity_pages := (\<lambda>w. if w < 256 then (if enabled then 0xffffffff else 0) else identity_pages m w),
       identity_page_count := (if enabled then MAIN_RAM_IDENTITY_PAGE_COUNT else 0)\<rparr>"

definition SetDefaultMainRamIdentityPage :: "u32 \<Rightarrow> bool \<Rightarrow> MapData \<Rightarrow> MapData" where
  "SetDefaultMainRamIdentityPage vaddr identity m =
    (if vaddr \<ge> MainRam then m
     else let page = drop_bit VTLB_PAGE_BITS vaddr;
              w = drop_bit 5 page;
              mask1 = push_bit (unat (page AND 31)) 1;
              was_identity = (identity_pages m w AND mask1 \<noteq> 0)
          in if was_identity = identity then m
             else if identity
             then m\<lparr>identity_pages := (identity_pages m)(w := identity_pages m w OR mask1),
                    identity_page_count := identity_page_count m + 1\<rparr>
             else m\<lparr>identity_pages := (identity_pages m)(w := identity_pages m w AND NOT mask1),
                    identity_page_count := identity_page_count m - 1\<rparr>)"

subsection \<open>Physical mappings\<close>

partial_function (option) vtlb_MapHandler_loop :: "u32 \<Rightarrow> u32 \<Rightarrow> u32 \<Rightarrow> MapData \<Rightarrow> MapData option" where
  "vtlb_MapHandler_loop handler start fin m =
    (if start \<le> fin
     then vtlb_MapHandler_loop handler (start + VTLB_PAGE_SIZE) fin
       (m\<lparr>pmap := (pmap m)(drop_bit VTLB_PAGE_BITS start := VTLBPhysical_fromHandler handler)\<rparr>)
     else Some m)"

definition vtlb_MapHandler :: "u32 \<Rightarrow> u32 \<Rightarrow> u32 \<Rightarrow> MapData \<Rightarrow> MapData option" where
  "vtlb_MapHandler handler start sz m =
     vtlb_MapHandler_loop handler start (start + (sz - VTLB_PAGE_SIZE)) m"

text \<open>The inner loop of \<^verbatim>\<open>vtlb_MapBlock\<close> returns the advanced \<^verbatim>\<open>start\<close>.\<close>

partial_function (option) vtlb_MapBlock_inner ::
  "u32 \<Rightarrow> uptr \<Rightarrow> u32 \<Rightarrow> MapData \<Rightarrow> (u32 \<times> MapData) option" where
  "vtlb_MapBlock_inner start ptr loopsz m =
    (if loopsz > 0
     then vtlb_MapBlock_inner (start + VTLB_PAGE_SIZE) (ptr + VTLB_PAGE_SIZE) (loopsz - VTLB_PAGE_SIZE)
       (m\<lparr>pmap := (pmap m)(drop_bit VTLB_PAGE_BITS start := VTLBPhysical_fromPointer m ptr)\<rparr>)
     else Some (start, m))"

partial_function (option) vtlb_MapBlock_loop ::
  "uptr \<Rightarrow> u32 \<Rightarrow> u32 \<Rightarrow> u32 \<Rightarrow> MapData \<Rightarrow> MapData option" where
  "vtlb_MapBlock_loop base blocksize start fin m =
    (if start \<le> fin
     then Option.bind (vtlb_MapBlock_inner start base blocksize m)
       (\<lambda>(start', m'). vtlb_MapBlock_loop base blocksize start' fin m')
     else Some m)"

definition vtlb_MapBlock :: "uptr \<Rightarrow> u32 \<Rightarrow> u32 \<Rightarrow> u32 \<Rightarrow> MapData \<Rightarrow> MapData option" where
  "vtlb_MapBlock base start sz blocksize m =
     vtlb_MapBlock_loop base (if blocksize = 0 then sz else blocksize) start
       (start + (sz - VTLB_PAGE_SIZE)) m"

partial_function (option) vtlb_Mirror_loop :: "u32 \<Rightarrow> u32 \<Rightarrow> u32 \<Rightarrow> MapData \<Rightarrow> MapData option" where
  "vtlb_Mirror_loop new_region start fin m =
    (if start \<le> fin
     then vtlb_Mirror_loop (new_region + VTLB_PAGE_SIZE) (start + VTLB_PAGE_SIZE) fin
       (m\<lparr>pmap := (pmap m)(drop_bit VTLB_PAGE_BITS start := pmap m (drop_bit VTLB_PAGE_BITS new_region))\<rparr>)
     else Some m)"

definition vtlb_Mirror :: "u32 \<Rightarrow> u32 \<Rightarrow> u32 \<Rightarrow> MapData \<Rightarrow> MapData option" where
  "vtlb_Mirror new_region start sz m =
     vtlb_Mirror_loop new_region start (start + (sz - VTLB_PAGE_SIZE)) m"

definition vtlb_GetPhyPtr :: "u32 \<Rightarrow> MapData \<Rightarrow> uptr option" where
  "vtlb_GetPhyPtr paddr m =
    (if paddr \<ge> VTLB_PMAP_SZ \<or> VTLBPhysical_isHandler (pmap m (drop_bit VTLB_PAGE_BITS paddr))
     then None
     else Some (VTLBPhysical_assumePtr m (pmap m (drop_bit VTLB_PAGE_BITS paddr)) +
                (paddr AND VTLB_PAGE_MASK)))"

definition vtlb_V2P :: "u32 \<Rightarrow> MapData \<Rightarrow> u32 option" where
  "vtlb_V2P vaddr m =
    map_option (\<lambda>pp. pp (drop_bit VTLB_PAGE_BITS vaddr) OR (vaddr AND VTLB_PAGE_MASK)) (ppmap m)"

subsection \<open>Virtual mappings\<close>

definition vtlb_VMap_page :: "u32 \<Rightarrow> u32 \<Rightarrow> MapData \<Rightarrow> MapData" where
  "vtlb_VMap_page vaddr paddr m =
    (let vmv = (if paddr \<ge> VTLB_PMAP_SZ
                then VTLBVirtual (VTLBPhysical_fromHandler (UnmappedPhyHandler m)) paddr vaddr
                else VTLBVirtual (pmap m (drop_bit VTLB_PAGE_BITS paddr)) paddr vaddr);
         m1 = m\<lparr>vmap := (vmap m)(drop_bit VTLB_PAGE_BITS vaddr := vmv)\<rparr>;
         m2 = SetDefaultMainRamIdentityPage vaddr (paddr = vaddr) m1
     in case ppmap m2 of
          None \<Rightarrow> m2
        | Some pp \<Rightarrow>
            if vaddr AND 0x80000000 = 0
            then m2\<lparr>ppmap := Some (pp(drop_bit VTLB_PAGE_BITS vaddr := paddr AND NOT VTLB_PAGE_MASK))\<rparr>
            else m2)"

partial_function (option) vtlb_VMap :: "u32 \<Rightarrow> u32 \<Rightarrow> u32 \<Rightarrow> MapData \<Rightarrow> MapData option" where
  "vtlb_VMap vaddr paddr sz m =
    (if sz > 0
     then vtlb_VMap (vaddr + VTLB_PAGE_SIZE) (paddr + VTLB_PAGE_SIZE) (sz - VTLB_PAGE_SIZE)
       (vtlb_VMap_page vaddr paddr m)
     else Some m)"

definition vtlb_VMapBuffer_page :: "u32 \<Rightarrow> uptr \<Rightarrow> MapData \<Rightarrow> MapData" where
  "vtlb_VMapBuffer_page vaddr bu8 m =
     SetDefaultMainRamIdentityPage vaddr (bu8 = host_memory_base m + vaddr)
       (m\<lparr>vmap := (vmap m)(drop_bit VTLB_PAGE_BITS vaddr := VTLBVirtual_fromPointer m bu8 vaddr)\<rparr>)"

partial_function (option) vtlb_VMapBuffer :: "u32 \<Rightarrow> uptr \<Rightarrow> u32 \<Rightarrow> MapData \<Rightarrow> MapData option" where
  "vtlb_VMapBuffer vaddr bu8 sz m =
    (if sz > 0
     then vtlb_VMapBuffer (vaddr + VTLB_PAGE_SIZE) (bu8 + VTLB_PAGE_SIZE) (sz - VTLB_PAGE_SIZE)
       (vtlb_VMapBuffer_page vaddr bu8 m)
     else Some m)"

definition vtlb_VMapUnmap_page :: "u32 \<Rightarrow> MapData \<Rightarrow> MapData" where
  "vtlb_VMapUnmap_page vaddr m =
     SetDefaultMainRamIdentityPage vaddr False
       (m\<lparr>vmap := (vmap m)(drop_bit VTLB_PAGE_BITS vaddr :=
            VTLBVirtual (VTLBPhysical_fromHandler (UnmappedVirtHandler m)) vaddr vaddr)\<rparr>)"

partial_function (option) vtlb_VMapUnmap :: "u32 \<Rightarrow> u32 \<Rightarrow> MapData \<Rightarrow> MapData option" where
  "vtlb_VMapUnmap vaddr sz m =
    (if sz > 0
     then vtlb_VMapUnmap (vaddr + VTLB_PAGE_SIZE) (sz - VTLB_PAGE_SIZE) (vtlb_VMapUnmap_page vaddr m)
     else Some m)"

subsection \<open>Set-up\<close>

definition vtlb_NewHandler :: "MapData \<Rightarrow> u32 \<times> MapData" where
  "vtlb_NewHandler m = (vtlbHandlerCount m, m\<lparr>vtlbHandlerCount := vtlbHandlerCount m + 1\<rparr>)"

text \<open>The three handlers \<^verbatim>\<open>vtlb_Init\<close> registers; what a handler number calls is a
  parameter of the memory accesses.\<close>

definition vtlb_Alloc_Ppmap :: "MapData \<Rightarrow> MapData" where
  "vtlb_Alloc_Ppmap m =
    (case ppmap m of Some _ \<Rightarrow> m | None \<Rightarrow> m\<lparr>ppmap := Some (\<lambda>i. push_bit VTLB_PAGE_BITS i)\<rparr>)"

definition vtlb_Init :: "bool \<Rightarrow> MapData \<Rightarrow> MapData option" where
  "vtlb_Init GoemonTlbHack m0 =
    (let m1 = (SetDefaultMainRamIdentityWindow False m0)\<lparr>vtlbHandlerCount := 0\<rparr>;
         (uv, m2) = vtlb_NewHandler m1;
         (up, m3) = vtlb_NewHandler (m2\<lparr>UnmappedVirtHandler := uv\<rparr>);
         (dp, m4) = vtlb_NewHandler (m3\<lparr>UnmappedPhyHandler := up\<rparr>);
         m5 = m4\<lparr>DefaultPhyHandler := dp\<rparr>
     in Option.bind (vtlb_MapHandler dp 0 VTLB_PMAP_SZ m5)
          (\<lambda>m6. Option.bind (vtlb_VMapUnmap 0 0xfffff000 m6)
            (\<lambda>m7. Option.bind (vtlb_VMapUnmap 0xfffff000 VTLB_PAGE_SIZE m7)
              (\<lambda>m8. Some (if GoemonTlbHack then vtlb_Alloc_Ppmap m8 else m8)))))"

text \<open>\<^verbatim>\<open>Ps2MemoryMap\<close>: \<open>exposed\<close> is \<^verbatim>\<open>Ps2MemSize::ExposedRam\<close> and \<open>rom\<close>,
  \<open>rom1\<close>, \<open>rom2\<close> the host addresses of the ROM images.\<close>

definition MapEERamHighMemoryAndRoms ::
  "u32 \<Rightarrow> uptr \<Rightarrow> uptr \<Rightarrow> uptr \<Rightarrow> u32 \<Rightarrow> MapData \<Rightarrow> MapData option" where
  "MapEERamHighMemoryAndRoms exposed rom rom1 rom2 null_handler m =
    Option.bind (vtlb_MapBlock (host_memory_base m) 0 exposed 0 m) (\<lambda>m1.
    Option.bind (vtlb_MapHandler null_handler exposed (0x10000000 - exposed) m1) (\<lambda>m2.
    Option.bind (vtlb_MapBlock rom 0x1fc00000 0x400000 0 m2) (\<lambda>m3.
    Option.bind (vtlb_MapBlock rom1 0x1e000000 0x400000 0 m3) (\<lambda>m4.
      vtlb_MapBlock rom2 0x1e400000 0x400000 0 m4))))"

definition MapKernelVirtualMirrors :: "MapData \<Rightarrow> MapData option" where
  "MapKernelVirtualMirrors m =
    Option.bind (vtlb_VMap 0x80000000 0 0x20000000 m) (vtlb_VMap 0xa0000000 0 0x20000000)"

definition MapDirectVirtualMemoryWindow :: "u32 \<Rightarrow> MapData \<Rightarrow> MapData option" where
  "MapDirectVirtualMemoryWindow exposed m =
    Option.bind (vtlb_VMap 0 0 0x20000000 m) (\<lambda>m1.
    Option.bind (vtlb_VMapUnmap 0x20000000 0x60000000 m1) (\<lambda>m2.
      Some (SetDefaultMainRamIdentityWindow (exposed = MainRam) m2)))"

end
