(* ===== verification/VTLB_Inv.thy ===== *)
theory VTLB_Inv
  imports VTLB
begin

text \<open>
  What the packed page entries decode to, the page loops as folds over the pages, and the
  invariant behind \<^verbatim>\<open>HasDefaultMainRamIdentityWindow\<close>: compiled code that relies on it
  addresses main memory without consulting the page table.
\<close>

subsection \<open>Sign bit and alignment\<close>

lemma u32_bit_31: "bit (x::u32) 31 \<longleftrightarrow> 0x80000000 \<le> x"
proof -
  have "unat x div 2 ^ 31 < 2" using unat_u32_less [of x] by (simp add: less_mult_imp_div_less)
  moreover have "unat x div 2 ^ 31 = 0 \<longleftrightarrow> unat x < 2 ^ 31" by (simp add: div_eq_0_iff)
  ultimately have "odd (unat x div 2 ^ 31) \<longleftrightarrow> 2 ^ 31 \<le> unat x"
    by (auto simp: less_2_cases_iff not_less)
  moreover have "bit x 31 \<longleftrightarrow> odd (unat x div 2 ^ 31)"
    by (metis bit_iff_odd bit_unsigned_iff possible_bit_nat)
  ultimately show ?thesis by (simp add: word_le_nat_alt)
qed

lemma sless_0_iff: "(x::u32) <s 0 \<longleftrightarrow> 0x80000000 \<le> x"
  using bit_last_iff [of x] by (simp add: word_sless_alt flip: u32_bit_31)

lemma aligned_push_bit:
  assumes "(x::u32) AND 4095 = 0"
  shows "x = push_bit 12 (drop_bit 12 x)"
proof -
  have "take_bit 12 x = 0" using assms by (simp add: take_bit_eq_mask mask_eq_exp_minus_1)
  then show ?thesis using bits_ident [of 12 x] by simp
qed

lemma page_of_aligned_add:
  assumes "(x::u32) AND 4095 = 0" and "k < 4096"
  shows "drop_bit 12 (x + k) = drop_bit 12 x"
proof -
  have "x AND k = 0"
    using assms word_less_exp_bits [of k 12]
    by (subst aligned_push_bit [OF assms(1)]) (auto simp: bit_simps intro!: bit_word_eqI)
  then have "x + k = x OR k" by (simp add: disjunctive_add_eq_or)
  moreover have "drop_bit 12 k = 0"
    using word_less_exp_bits [of k 12] assms(2) by (auto simp: bit_simps intro!: bit_word_eqI)
  ultimately show ?thesis by (simp add: drop_bit_or)
qed

lemma ucast_u8_add: "ucast (a + b :: u32) = (ucast a + ucast b :: u8)"
proof -
  have "(a mod 4294967296 + b mod 4294967296) mod 256 = (a + b) mod 256" for a b :: int
    using mod_add_eq [of "a mod 4294967296" 256 "b mod 4294967296"]
    by (simp add: mod_mod_cancel mod_add_eq)
  then show ?thesis by transfer (simp add: take_bit_eq_mod mod_mod_cancel mod_add_eq)
qed

lemma aligned_diff_low:
  assumes "(x::u32) AND 4095 = 0" "y AND 4095 = 0"
  shows "ucast (x - y) = (0 :: u8)"
proof -
  have "x - y = push_bit 12 (drop_bit 12 x - drop_bit 12 y)"
    using aligned_push_bit [OF assms(1)] aligned_push_bit [OF assms(2)]
    by (metis push_bit_eq_mult left_diff_distrib)
  then show ?thesis by (simp add: word8_bitwise bit_simps)
qed

subsection \<open>Decoding an entry\<close>

lemma pointer_entry:
  assumes "off < 0x7ffff000" and "k < 4096"
  shows "\<not> isHandler (VTLBVirtual off paddr vaddr) (vaddr + k)"
    and "assumePtr m (VTLBVirtual off paddr vaddr) (vaddr + k) = host_memory_base m + off + k"
proof -
  have nh: "\<not> VTLBPhysical_isHandler off"
    using assms by (simp add: VTLBPhysical_isHandler_def sless_0_iff word_le_nat_alt word_less_nat_alt)
  have "unat off < 0x7ffff000" "unat k < 4096" using assms by (simp_all add: word_less_nat_alt)
  then have "unat (off + k) < 0x80000000" by (simp add: unat_word_ariths)
  then have "off + k < 0x80000000" by (simp add: word_less_nat_alt)
  then show "\<not> isHandler (VTLBVirtual off paddr vaddr) (vaddr + k)"
    using nh by (simp add: isHandler_def VTLBVirtual_def sless_0_iff not_le)
  show "assumePtr m (VTLBVirtual off paddr vaddr) (vaddr + k) = host_memory_base m + off + k"
    using nh by (simp add: assumePtr_def VTLBVirtual_def)
qed

text \<open>A handler entry keeps the handler number and the physical address, provided the
  physical address leaves the sign bit free.\<close>

lemma fromHandler_add: "h < 128 \<Longrightarrow> VTLBPhysical_fromHandler h = h + 0x80000000"
proof -
  assume "h < 128"
  then have "h AND 0x80000000 = 0"
    using word_less_exp_bits [of h 7] by (simp add: word32_bitwise bit_simps)
  then show ?thesis unfolding VTLBPhysical_fromHandler_def by (simp add: disjunctive_add_eq_or)
qed

lemma handler_entry:
  assumes "h < 128" "paddr AND 4095 = 0" "vaddr AND 4095 = 0" "k < 4096" "paddr < 0x7fffe000"
  defines "e \<equiv> VTLBVirtual (VTLBPhysical_fromHandler h) paddr vaddr"
  shows "isHandler e (vaddr + k)" and "assumeHandlerGetID e = ucast h"
    and "assumeHandlerGetPAddr e (vaddr + k) = paddr + k"
proof -
  have b: "unat paddr < 0x7fffe000" "unat h < 128" "unat k < 4096"
    using assms(1,4,5) by (simp_all add: word_less_nat_alt)
  have hb: "VTLBPhysical_isHandler (VTLBPhysical_fromHandler h)"
    using b by (simp add: VTLBPhysical_isHandler_def fromHandler_add [OF assms(1)] sless_0_iff
      word_le_nat_alt unat_word_ariths)
  have e: "e = h + 0x80000000 + paddr - vaddr"
    unfolding e_def VTLBVirtual_def using hb by (simp add: fromHandler_add [OF assms(1)])
  show "isHandler e (vaddr + k)"
    using b by (simp add: e isHandler_def sless_0_iff word_le_nat_alt unat_word_ariths)
  have "e = h + (0x80000000 + (paddr - vaddr))" by (simp add: e)
  then show id: "assumeHandlerGetID e = ucast h"
    unfolding assumeHandlerGetID_def
    by (simp only: ucast_u8_add aligned_diff_low [OF assms(2,3)]) simp
  have "ucast (ucast h :: u8) = h"
    using word_less_exp_bits [of h 7] assms(1) by (simp add: word32_bitwise bit_simps)
  then have "assumeHandlerGetPAddr e (vaddr + k) = (0x80000000 + (paddr + k)) AND NOT 0x80000000"
    unfolding assumeHandlerGetPAddr_def id by (simp add: e algebra_simps)
  also have "\<dots> = paddr + k"
  proof -
    have "\<not> bit (paddr + k) 31"
      using b by (simp add: u32_bit_31 word_le_nat_alt unat_word_ariths)
    then have "0x80000000 AND (paddr + k) = 0" by (simp add: word32_bitwise bit_simps)
    then have "0x80000000 + (paddr + k) = 0x80000000 OR (paddr + k)"
      by (simp add: disjunctive_add_eq_or)
    with \<open>\<not> bit (paddr + k) 31\<close> show ?thesis by (simp add: word32_bitwise bit_simps)
  qed
  finally show "assumeHandlerGetPAddr e (vaddr + k) = paddr + k" .
qed

text \<open>With the sign bit taken, the marker is lost: an unmapped page in the upper half of the
  address space decodes as a pointer into host memory.\<close>

lemma high_unmapped_entry:
  assumes "h < 128" "vaddr AND 4095 = 0" "k < 4096" "0x80000000 \<le> vaddr" "vaddr < 0xffffe000"
  defines "e \<equiv> VTLBVirtual (VTLBPhysical_fromHandler h) vaddr vaddr"
  shows "\<not> isHandler e (vaddr + k)"
    and "assumePtr m e (vaddr + k) = host_memory_base m + (vaddr - 0x80000000) + h + k"
proof -
  have b: "unat vaddr < 0xffffe000" "0x80000000 \<le> unat vaddr" "unat h < 128" "unat k < 4096"
    using assms(1,3,4,5) by (simp_all add: word_less_nat_alt word_le_nat_alt)
  have hb: "VTLBPhysical_isHandler (VTLBPhysical_fromHandler h)"
    using b by (simp add: VTLBPhysical_isHandler_def fromHandler_add [OF assms(1)] sless_0_iff
      word_le_nat_alt unat_word_ariths)
  have e: "e + (vaddr + k) = (vaddr - 0x80000000) + h + k"
    unfolding e_def VTLBVirtual_def using hb
    by (simp add: fromHandler_add [OF assms(1)] word_eq_iff_unsigned)
  have "unat (vaddr - 0x80000000) = unat vaddr - 0x80000000"
    using b by (simp add: unat_sub word_le_nat_alt)
  then have "unat ((vaddr - 0x80000000) + h + k) < 0x80000000"
    using b by (simp add: unat_word_ariths)
  then show "\<not> isHandler e (vaddr + k)"
    unfolding isHandler_def sless_0_iff e by (simp add: word_le_nat_alt)
  show "assumePtr m e (vaddr + k) = host_memory_base m + (vaddr - 0x80000000) + h + k"
    unfolding assumePtr_def using e by (simp add: add.assoc)
qed

subsection \<open>The page loops\<close>

text \<open>A loop over \<open>n\<close> pages is a fold; \<open>pg i\<close> is the \<open>i\<close>-th page address from \<open>a\<close>.\<close>

abbreviation pg :: "u32 \<Rightarrow> nat \<Rightarrow> u32" where
  "pg a i \<equiv> a + of_nat i * 4096"

lemma pages_nonzero: "0 < n \<Longrightarrow> n < 2 ^ 20 \<Longrightarrow> (of_nat n * 4096 :: u32) > 0"
  by (simp add: word_less_nat_alt unat_word_ariths unat_of_nat_u32)

lemma fold_pages_Suc:
  "fold (\<lambda>i. f (pg a i)) [0..<Suc n] m = fold (\<lambda>i. f (pg (a + 4096) i)) [0..<n] (f a m)"
proof -
  have "fold (\<lambda>i. f (pg a i)) [0..<Suc n] m = fold (\<lambda>i. f (pg a i)) (0 # map Suc [0..<n]) m"
    by (simp only: map_Suc_upt upt_conv_Cons [OF zero_less_Suc])
  then show ?thesis by (simp add: fold_map comp_def algebra_simps)
qed

lemma fold_pages2_Suc:
  "fold (\<lambda>i. f (pg a i) (pg b i)) [0..<Suc n] m =
   fold (\<lambda>i. f (pg (a + 4096) i) (pg (b + 4096) i)) [0..<n] (f a b m)"
proof -
  have "fold (\<lambda>i. f (pg a i) (pg b i)) [0..<Suc n] m =
      fold (\<lambda>i. f (pg a i) (pg b i)) (0 # map Suc [0..<n]) m"
    by (simp only: map_Suc_upt upt_conv_Cons [OF zero_less_Suc])
  then show ?thesis by (simp add: fold_map comp_def algebra_simps)
qed

lemma vtlb_VMap_pages:
  "n < 2 ^ 20 \<Longrightarrow> vtlb_VMap v p (of_nat n * 4096) m =
     Some (fold (\<lambda>i. vtlb_VMap_page (pg v i) (pg p i)) [0..<n] m)"
proof (induction n arbitrary: v p m)
  case 0
  then show ?case by (subst vtlb_VMap.simps) simp
next
  case (Suc n)
  have "of_nat (Suc n) * 4096 - 4096 = (of_nat n * 4096 :: u32)" by (simp add: algebra_simps)
  with Suc pages_nonzero [of "Suc n"] show ?case
    by (subst vtlb_VMap.simps) (simp only: fold_pages2_Suc if_True Suc_lessD)
qed

lemma vtlb_VMapBuffer_pages:
  "n < 2 ^ 20 \<Longrightarrow> vtlb_VMapBuffer v p (of_nat n * 4096) m =
     Some (fold (\<lambda>i. vtlb_VMapBuffer_page (pg v i) (pg p i)) [0..<n] m)"
proof (induction n arbitrary: v p m)
  case 0
  then show ?case by (subst vtlb_VMapBuffer.simps) simp
next
  case (Suc n)
  have "of_nat (Suc n) * 4096 - 4096 = (of_nat n * 4096 :: u32)" by (simp add: algebra_simps)
  with Suc pages_nonzero [of "Suc n"] show ?case
    by (subst vtlb_VMapBuffer.simps) (simp only: fold_pages2_Suc if_True Suc_lessD)
qed

lemma vtlb_VMapUnmap_pages:
  "n < 2 ^ 20 \<Longrightarrow> vtlb_VMapUnmap v (of_nat n * 4096) m =
     Some (fold (\<lambda>i. vtlb_VMapUnmap_page (pg v i)) [0..<n] m)"
proof (induction n arbitrary: v m)
  case 0
  then show ?case by (subst vtlb_VMapUnmap.simps) simp
next
  case (Suc n)
  have "of_nat (Suc n) * 4096 - 4096 = (of_nat n * 4096 :: u32)" by (simp add: algebra_simps)
  with Suc pages_nonzero [of "Suc n"] show ?case
    by (subst vtlb_VMapUnmap.simps) (simp only: fold_pages_Suc if_True Suc_lessD)
qed

lemma aligned_pages:
  assumes "(sz::u32) AND 4095 = 0"
  obtains n where "n < 2 ^ 20" "sz = of_nat n * 4096"
proof -
  have "unat (drop_bit 12 sz) < 2 ^ 20"
    using unat_u32_less [of sz] by (simp add: drop_bit_eq_div unat_div less_mult_imp_div_less)
  moreover have "sz = of_nat (unat (drop_bit 12 sz)) * 4096"
    using aligned_push_bit [OF assms] by (simp add: push_bit_eq_mult)
  ultimately show thesis by (rule that)
qed

text \<open>The physical loops run upwards to the last page of the region.\<close>

definition pmap_upd :: "u32 \<Rightarrow> u32 \<Rightarrow> MapData \<Rightarrow> MapData" where
  "pmap_upd a v m = m\<lparr>pmap := (pmap m)(drop_bit 12 a := v)\<rparr>"

lemma page_steps:
  assumes "unat (a::u32) + Suc n * 4096 < 2 ^ 32"
  shows "a \<le> a + of_nat n * 4096" and "\<not> a + 4096 + of_nat n * 4096 \<le> a + of_nat n * 4096"
    and "unat (a + 4096) = unat a + 4096"
  using assms by (simp_all add: word_le_nat_alt unat_word_ariths unat_of_nat_u32)

lemma vtlb_MapHandler_unfold:
  "vtlb_MapHandler_loop h a fin m =
    (if a \<le> fin then vtlb_MapHandler_loop h (a + 4096) fin (pmap_upd a (VTLBPhysical_fromHandler h) m)
     else Some m)"
  by (subst vtlb_MapHandler_loop.simps) (simp add: pmap_upd_def)

lemma vtlb_MapHandler_pages:
  "unat a + Suc n * 4096 < 2 ^ 32 \<Longrightarrow> vtlb_MapHandler_loop h a (pg a n) m =
     Some (fold (\<lambda>i. pmap_upd (pg a i) (VTLBPhysical_fromHandler h)) [0..<Suc n] m)"
proof (induction n arbitrary: a m)
  case 0
  from page_steps [OF 0] show ?case
    by (subst vtlb_MapHandler_unfold, subst vtlb_MapHandler_unfold) simp
next
  case (Suc n)
  have "a \<le> pg a (Suc n)" by (rule page_steps(1) [OF Suc.prems])
  moreover have "pg a (Suc n) = pg (a + 4096) n" by (simp add: algebra_simps)
  moreover have "unat (a + 4096) + Suc n * 4096 < 2 ^ 32"
    using Suc.prems page_steps(3) [OF Suc.prems] by simp
  ultimately show ?case
    using Suc.IH [of "a + 4096" "pmap_upd a (VTLBPhysical_fromHandler h) m"]
    by (subst vtlb_MapHandler_unfold) (simp only: fold_pages_Suc [of "\<lambda>x. pmap_upd x _"] if_True)
qed

lemma fromPointer_pmap_upd [simp]:
  "VTLBPhysical_fromPointer (pmap_upd a v m) = VTLBPhysical_fromPointer m"
  by (simp add: VTLBPhysical_fromPointer_def pmap_upd_def fun_eq_iff)

lemma vtlb_MapBlock_inner_unfold:
  "vtlb_MapBlock_inner a ptr sz m =
    (if sz > 0 then vtlb_MapBlock_inner (a + 4096) (ptr + 4096) (sz - 4096)
       (pmap_upd a (VTLBPhysical_fromPointer m ptr) m)
     else Some (a, m))"
  by (subst vtlb_MapBlock_inner.simps) (simp add: pmap_upd_def)

lemma vtlb_MapBlock_inner_pages:
  "n < 2 ^ 20 \<Longrightarrow> vtlb_MapBlock_inner a ptr (of_nat n * 4096) m =
     Some (pg a n, fold (\<lambda>i. pmap_upd (pg a i) (pg (VTLBPhysical_fromPointer m ptr) i)) [0..<n] m)"
proof (induction n arbitrary: a ptr m)
  case 0
  then show ?case by (subst vtlb_MapBlock_inner_unfold) simp
next
  case (Suc n)
  have "of_nat (Suc n) * 4096 - 4096 = (of_nat n * 4096 :: u32)"
    "pg a (Suc n) = pg (a + 4096) n" by (simp_all add: algebra_simps)
  moreover have "VTLBPhysical_fromPointer m (ptr + 4096) = VTLBPhysical_fromPointer m ptr + 4096"
    by (simp add: VTLBPhysical_fromPointer_def)
  ultimately show ?case
    using Suc.IH [of "a + 4096" "ptr + 4096" "pmap_upd a (VTLBPhysical_fromPointer m ptr) m"]
      Suc.prems pages_nonzero [of "Suc n"]
    by (subst vtlb_MapBlock_inner_unfold)
      (simp only: fold_pages2_Suc [of "\<lambda>x y. pmap_upd x y"] if_True Suc_lessD fromPointer_pmap_upd)
qed

text \<open>A block mapped once (block size 0) of \<open>n\<close> pages.\<close>

lemma vtlb_MapBlock_pages:
  assumes "0 < n" "unat a + n * 4096 < 2 ^ 32"
  shows "vtlb_MapBlock base a (of_nat n * 4096) 0 m =
    Some (fold (\<lambda>i. pmap_upd (pg a i) (pg (VTLBPhysical_fromPointer m base) i)) [0..<n] m)"
proof -
  obtain k where k: "n = Suc k" using assms(1) by (cases n) auto
  have n: "n < 2 ^ 20" using assms(2) by simp
  have fin: "a + (of_nat n * 4096 - 4096) = pg a k" by (simp add: k algebra_simps)
  have n1: "pg a n = pg (a + 4096) k" by (simp add: k algebra_simps)
  have "\<not> pg a n \<le> pg a k" "a \<le> pg a k"
    unfolding n1 using page_steps [of a k] assms(2) unfolding k by blast+
  then show ?thesis
    unfolding vtlb_MapBlock_def fin
    by (subst vtlb_MapBlock_loop.simps)
      (simp add: vtlb_MapBlock_inner_pages [OF n] vtlb_MapBlock_loop.simps [of _ _ "pg a n"])
qed

lemma vtlb_MapHandler_eq:
  assumes "0 < n" "unat a + n * 4096 < 2 ^ 32"
  shows "vtlb_MapHandler h a (of_nat n * 4096) m =
    Some (fold (\<lambda>i. pmap_upd (pg a i) (VTLBPhysical_fromHandler h)) [0..<n] m)"
proof -
  obtain k where k: "n = Suc k" using assms(1) by (cases n) auto
  have "a + (of_nat n * 4096 - 4096) = pg a k" by (simp add: k algebra_simps)
  with vtlb_MapHandler_pages [of a k h m] assms(2) show ?thesis
    unfolding vtlb_MapHandler_def k by simp
qed

lemma page_number:
  assumes "unat (a::u32) + n * 4096 < 2 ^ 32" "i < n"
  shows "unat (drop_bit 12 (pg a i)) = (unat a + i * 4096) div 4096"
  using assms by (simp add: drop_bit_eq_div unat_div unat_word_ariths unat_of_nat_u32)

subsection \<open>Main memory in the physical map\<close>

text \<open>Main memory starts the host arena, so its pages translate to their own addresses.\<close>

definition pmap_identity :: "MapData \<Rightarrow> bool" where
  "pmap_identity m = (\<forall>p < MAIN_RAM_IDENTITY_PAGE_COUNT. pmap m p = push_bit 12 p)"

lemma pmap_fold_other:
  "(\<And>i. i < n \<Longrightarrow> drop_bit 12 (pg a i) \<noteq> p) \<Longrightarrow>
   pmap (fold (\<lambda>i. pmap_upd (pg a i) (v i)) [0..<n] m) p = pmap m p"
proof (induction n)
  case (Suc n)
  from Suc.prems [of n] have "p \<noteq> drop_bit 12 (pg a n)" by blast
  with Suc show ?case by (simp add: pmap_upd_def)
qed simp

lemma pmap_fold_identity:
  "n \<le> 8192 \<Longrightarrow> unat p < n \<Longrightarrow>
   pmap (fold (\<lambda>i. pmap_upd (pg 0 i) (pg 0 i)) [0..<n] m) p = push_bit 12 p"
proof (induction n)
  case 0
  then show ?case by simp
next
  case (Suc n)
  have "unat (drop_bit 12 (of_nat n * 4096 :: u32)) = n"
    using Suc.prems(1) page_number [of 0 "Suc n" n] by simp
  then have page: "drop_bit 12 (of_nat n * 4096 :: u32) = of_nat n"
    by (metis of_nat_unat ucast_id)
  show ?case
  proof (cases "unat p = n")
    case True
    then have "p = of_nat n" by auto
    then show ?thesis using page by (simp add: pmap_upd_def push_bit_eq_mult)
  next
    case False
    with Suc.prems have "unat p < n" by simp
    moreover from False have "p \<noteq> of_nat n" using Suc.prems by (auto simp: unat_of_nat_u32)
    ultimately show ?thesis using Suc.IH Suc.prems page by (simp add: pmap_upd_def)
  qed
qed

lemma pmap_identity_MainRam:
  assumes "vtlb_MapBlock (host_memory_base m) 0 MainRam 0 m = Some m'"
  shows "pmap_identity m'"
proof -
  have "m' = fold (\<lambda>i. pmap_upd (pg 0 i) (pg 0 i)) [0..<8192] m"
    using assms vtlb_MapBlock_pages [of 8192 0 "host_memory_base m" m]
    by (simp add: VTLBPhysical_fromPointer_def)
  then show ?thesis
    unfolding pmap_identity_def
    using pmap_fold_identity [of 8192 _ m] by (simp add: word_less_nat_alt)
qed

lemma pmap_identity_fold_high:
  assumes "pmap_identity m" "MainRam \<le> a" "unat a + n * 4096 < 2 ^ 32"
  shows "pmap_identity (fold (\<lambda>i. pmap_upd (pg a i) (v i)) [0..<n] m)"
  unfolding pmap_identity_def
proof (intro allI impI)
  fix p :: u32 assume p: "p < 8192"
  have "drop_bit 12 (pg a i) \<noteq> p" if "i < n" for i
    using page_number [OF assms(3) that] assms(2) p
    by (auto simp: word_le_nat_alt word_less_nat_alt)
  then show "pmap (fold (\<lambda>i. pmap_upd (pg a i) (v i)) [0..<n] m) p = push_bit 12 p"
    using assms(1) p by (simp add: pmap_fold_other pmap_identity_def)
qed

subsection \<open>The identity window\<close>

definition identity_page :: "MapData \<Rightarrow> u32 \<Rightarrow> bool" where
  "identity_page m p = bit (identity_pages m (drop_bit 5 p)) (unat (p AND 31))"

text \<open>The counter counts the marked pages, and a marked page has the entry 0: an address of it
  translates to the same offset in the host arena.\<close>

definition identity_inv :: "MapData \<Rightarrow> bool" where
  "identity_inv m \<longleftrightarrow>
     identity_page_count m = of_nat (card {p. p < MAIN_RAM_IDENTITY_PAGE_COUNT \<and> identity_page m p}) \<and>
     (\<forall>p < MAIN_RAM_IDENTITY_PAGE_COUNT. identity_page m p \<longrightarrow> vmap m p = 0)"

lemma word_and_31_bound: "(p::u32) AND 31 < 32"
  using word_and_le1 [of p 31] by (rule order.strict_trans1) simp

lemma page_split_iff: "(p::u32) = q \<longleftrightarrow> drop_bit 5 p = drop_bit 5 q \<and> unat (p AND 31) = unat (q AND 31)"
proof -
  have "p AND 31 = take_bit 5 p" for p :: u32 by (simp add: take_bit_eq_mask mask_eq_exp_minus_1)
  then show ?thesis by (metis bits_ident unsigned_word_eqI)
qed

lemma and_push_1: "(x::u32) AND push_bit (unat ((p::u32) AND 31)) 1 \<noteq> 0 \<longleftrightarrow> bit x (unat (p AND 31))"
proof -
  have "unat (p AND 31) < 32" using word_and_31_bound [of p] by (simp add: word_less_nat_alt)
  then show ?thesis by (simp add: bit_iff_and_push_bit_not_eq_0)
qed

lemma SetDefaultMainRamIdentityPage_keeps [simp]:
  "vmap (SetDefaultMainRamIdentityPage a b m) = vmap m"
  "pmap (SetDefaultMainRamIdentityPage a b m) = pmap m"
  "ppmap (SetDefaultMainRamIdentityPage a b m) = ppmap m"
  "host_memory_base (SetDefaultMainRamIdentityPage a b m) = host_memory_base m"
  "UnmappedVirtHandler (SetDefaultMainRamIdentityPage a b m) = UnmappedVirtHandler m"
  "UnmappedPhyHandler (SetDefaultMainRamIdentityPage a b m) = UnmappedPhyHandler m"
  by (simp_all add: SetDefaultMainRamIdentityPage_def Let_def)

lemma identity_page_Set:
  assumes "a < MainRam"
  shows "identity_page (SetDefaultMainRamIdentityPage a b m) p =
    (if p = drop_bit 12 a then b else identity_page m p)"
proof -
  let ?q = "drop_bit 12 a"
  have pos: "unat (p AND 31) < 32" "unat (?q AND 31) < 32"
    using word_and_31_bound by (simp_all add: word_less_nat_alt)
  then show ?thesis
    using assms page_split_iff [of p ?q]
    unfolding SetDefaultMainRamIdentityPage_def identity_page_def Let_def and_push_1
    by (auto simp: bit_simps)
qed

lemma count_Set:
  assumes "a < MainRam"
  shows "identity_page_count (SetDefaultMainRamIdentityPage a b m) =
    (if identity_page m (drop_bit 12 a) = b then identity_page_count m
     else if b then identity_page_count m + 1 else identity_page_count m - 1)"
  using assms unfolding SetDefaultMainRamIdentityPage_def identity_page_def Let_def and_push_1
  by (simp add: not_le [symmetric])

lemma identity_inv_Set:
  assumes inv: "identity_inv m0" and upd: "m = m0\<lparr>vmap := (vmap m0)(drop_bit 12 a := e)\<rparr>"
    and e: "a < MainRam \<Longrightarrow> b \<Longrightarrow> e = 0"
    and high: "MainRam \<le> a \<Longrightarrow> 8192 \<le> drop_bit 12 a"
  shows "identity_inv (SetDefaultMainRamIdentityPage a b m)"
proof (cases "a < MainRam")
  case True
  let ?q = "drop_bit 12 a" and ?m = "SetDefaultMainRamIdentityPage a b m"
  let ?S = "{p. p < (8192::u32) \<and> identity_page m0 p}"
  have q: "?q < 8192"
    using True by (simp add: drop_bit_eq_div word_less_nat_alt unat_div less_mult_imp_div_less)
  have same: "identity_page m = identity_page m0" "identity_page_count m = identity_page_count m0"
    using upd by (simp_all add: identity_page_def fun_eq_iff)
  have S': "{p. p < 8192 \<and> identity_page ?m p} = (if b then insert ?q ?S else ?S - {?q})"
    using q by (auto simp: identity_page_Set [OF True] same)
  have fin: "finite ?S" by simp
  have "identity_page_count ?m = of_nat (card {p. p < 8192 \<and> identity_page ?m p})"
  proof -
    have c0: "identity_page_count m0 = of_nat (card ?S)" using inv by (simp add: identity_inv_def)
    have "card (?S - {?q}) = card ?S - 1" "0 < card ?S" if "identity_page m0 ?q"
      using that q by (auto simp: card_gt_0_iff card_Diff_singleton)
    then show ?thesis
      unfolding S' count_Set [OF True] same c0
      using q by (auto simp: card_insert_if insert_absorb of_nat_diff)
  qed
  moreover have "\<forall>p < 8192. identity_page ?m p \<longrightarrow> vmap ?m p = 0"
    using inv e True same(1)
    by (auto simp: identity_page_Set [OF True] upd [THEN arg_cong [of _ _ vmap]] identity_inv_def)
  ultimately show ?thesis by (simp add: identity_inv_def)
next
  case False
  then have "\<not> drop_bit 12 a < (8192 :: u32)" using high [OF leI] by (simp add: not_less)
  then have "vmap m p = vmap m0 p" if "p < 8192" for p using that upd by auto
  with inv leI [OF False] upd show ?thesis
    by (simp add: identity_inv_def SetDefaultMainRamIdentityPage_def identity_page_def)
qed

text \<open>The page operations keep the invariant while the physical map is the identity on main
  memory; \<open>vtlb_ok\<close> is the two together.\<close>

definition vtlb_ok :: "MapData \<Rightarrow> bool" where
  "vtlb_ok m \<longleftrightarrow> identity_inv m \<and> pmap_identity m"

lemma high_page: "MainRam \<le> a \<Longrightarrow> 8192 \<le> drop_bit 12 (a::u32)"
  by (simp add: drop_bit_eq_div word_le_nat_alt unat_div)

lemma pmap_identity_cong: "pmap m = pmap m' \<Longrightarrow> pmap_identity m = pmap_identity m'"
  by (simp add: pmap_identity_def)

lemma vtlb_ok_ppmap: "vtlb_ok (m\<lparr>ppmap := x\<rparr>) = vtlb_ok m"
  by (simp add: vtlb_ok_def identity_inv_def identity_page_def pmap_identity_def)

lemma vtlb_ok_case_ppmap:
  "vtlb_ok m \<Longrightarrow> vtlb_ok (case ppmap m of None \<Rightarrow> m
     | Some pp \<Rightarrow> if c then m\<lparr>ppmap := Some (f pp)\<rparr> else m)"
  by (simp add: vtlb_ok_ppmap split: option.split)

lemma vtlb_ok_VMap_page:
  assumes "vtlb_ok m" "v AND 4095 = 0"
  shows "vtlb_ok (vtlb_VMap_page v p m)"
proof -
  let ?e = "if VTLB_PMAP_SZ \<le> p then VTLBVirtual (VTLBPhysical_fromHandler (UnmappedPhyHandler m)) p v
    else VTLBVirtual (pmap m (drop_bit 12 p)) p v"
  let ?m1 = "SetDefaultMainRamIdentityPage v (p = v) (m\<lparr>vmap := (vmap m)(drop_bit 12 v := ?e)\<rparr>)"
  have zero: "?e = 0" if "v < MainRam" "p = v"
  proof -
    have "drop_bit 12 v < (8192 :: u32)"
      using that by (simp add: drop_bit_eq_div word_less_nat_alt unat_div less_mult_imp_div_less)
    then have "pmap m (drop_bit 12 p) = v"
      using assms that aligned_push_bit [of v] by (simp add: vtlb_ok_def pmap_identity_def)
    moreover have "\<not> VTLBPhysical_isHandler v" "\<not> VTLB_PMAP_SZ \<le> v"
      using that by (auto simp: VTLBPhysical_isHandler_def sless_0_iff word_le_nat_alt word_less_nat_alt)
    ultimately show ?thesis using that by (simp add: VTLBVirtual_def)
  qed
  have "identity_inv ?m1"
    by (rule identity_inv_Set [OF _ refl]) (use assms zero high_page in \<open>auto simp: vtlb_ok_def\<close>)
  moreover have "pmap_identity ?m1"
    using assms by (simp add: vtlb_ok_def pmap_identity_def)
  ultimately have "vtlb_ok ?m1" by (simp add: vtlb_ok_def)
  then show ?thesis
    unfolding vtlb_VMap_page_def Let_def by (rule vtlb_ok_case_ppmap)
qed

lemma vtlb_ok_VMapBuffer_page:
  assumes "vtlb_ok m"
  shows "vtlb_ok (vtlb_VMapBuffer_page v b m)"
proof -
  have "VTLBVirtual_fromPointer m (host_memory_base m + v) v = 0" if "v < MainRam"
    using that by (simp add: VTLBVirtual_fromPointer_def VTLBPhysical_fromPointer_def VTLBVirtual_def
      VTLBPhysical_isHandler_def sless_0_iff word_le_nat_alt word_less_nat_alt)
  then have "identity_inv (vtlb_VMapBuffer_page v b m)"
    unfolding vtlb_VMapBuffer_page_def
    by (intro identity_inv_Set [OF _ refl]) (use assms high_page in \<open>auto simp: vtlb_ok_def\<close>)
  with assms show ?thesis
    by (simp add: vtlb_ok_def vtlb_VMapBuffer_page_def pmap_identity_def)
qed

lemma vtlb_ok_VMapUnmap_page:
  assumes "vtlb_ok m"
  shows "vtlb_ok (vtlb_VMapUnmap_page v m)"
proof -
  have "identity_inv (vtlb_VMapUnmap_page v m)"
    unfolding vtlb_VMapUnmap_page_def
    by (intro identity_inv_Set [OF _ refl]) (use assms high_page in \<open>auto simp: vtlb_ok_def\<close>)
  with assms show ?thesis
    by (simp add: vtlb_ok_def vtlb_VMapUnmap_page_def pmap_identity_def)
qed

lemma fold_keeps: "P m \<Longrightarrow> (\<And>i m. P m \<Longrightarrow> P (f i m)) \<Longrightarrow> P (fold f xs m)"
  by (induction xs arbitrary: m) auto

lemma pg_aligned: "(v::u32) AND 4095 = 0 \<Longrightarrow> pg v i AND 4095 = 0"
proof -
  assume "v AND 4095 = 0"
  then have "pg v i = push_bit 12 (drop_bit 12 v + of_nat i)"
    by (subst aligned_push_bit) (simp_all add: push_bit_eq_mult distrib_right)
  then show ?thesis by (simp add: word32_bitwise bit_simps)
qed

lemma vtlb_ok_VMap:
  assumes "vtlb_ok m" "v AND 4095 = 0" "sz AND 4095 = 0" "vtlb_VMap v p sz m = Some m'"
  shows "vtlb_ok m'"
proof -
  obtain n where "n < 2 ^ 20" "sz = of_nat n * 4096" using assms(3) by (rule aligned_pages)
  with assms(4) have "m' = fold (\<lambda>i. vtlb_VMap_page (pg v i) (pg p i)) [0..<n] m"
    by (simp add: vtlb_VMap_pages)
  with assms(1,2) show ?thesis by (auto intro!: fold_keeps vtlb_ok_VMap_page pg_aligned)
qed

lemma vtlb_ok_VMapBuffer:
  assumes "vtlb_ok m" "sz AND 4095 = 0" "vtlb_VMapBuffer v b sz m = Some m'"
  shows "vtlb_ok m'"
proof -
  obtain n where "n < 2 ^ 20" "sz = of_nat n * 4096" using assms(2) by (rule aligned_pages)
  with assms(3) have "m' = fold (\<lambda>i. vtlb_VMapBuffer_page (pg v i) (pg b i)) [0..<n] m"
    by (simp add: vtlb_VMapBuffer_pages)
  with assms(1) show ?thesis by (auto intro!: fold_keeps vtlb_ok_VMapBuffer_page)
qed

lemma vtlb_ok_VMapUnmap:
  assumes "vtlb_ok m" "sz AND 4095 = 0" "vtlb_VMapUnmap v sz m = Some m'"
  shows "vtlb_ok m'"
proof -
  obtain n where "n < 2 ^ 20" "sz = of_nat n * 4096" using assms(2) by (rule aligned_pages)
  with assms(3) have "m' = fold (\<lambda>i. vtlb_VMapUnmap_page (pg v i)) [0..<n] m"
    by (simp add: vtlb_VMapUnmap_pages)
  with assms(1) show ?thesis by (auto intro!: fold_keeps vtlb_ok_VMapUnmap_page)
qed

subsection \<open>The life of the page tables\<close>

text \<open>The set-up of \<^verbatim>\<open>MemoryMap.cpp\<close> leaves main memory identity-mapped in \<open>pmap\<close>,
  whatever the configuration that \<^verbatim>\<open>vtlb_Init\<close> and the registration of the null handler
  started from.\<close>

definition memory_map_ready :: "MapData \<Rightarrow> bool" where
  "memory_map_ready m \<longleftrightarrow>
    (\<exists>goemon m0 m1 rom rom1 rom2 null_handler.
       vtlb_Init goemon m0 = Some m1 \<and>
       MapEERamHighMemoryAndRoms MainRam rom rom1 rom2 null_handler m1 = Some m)"

text \<open>Afterwards the tables change through the TLB entries of the guest, the scratchpad, the
  direct window and further physical mappings above main memory.\<close>

inductive vtlb_step :: "MapData \<Rightarrow> MapData \<Rightarrow> bool" where
  VMap: "v AND 4095 = 0 \<Longrightarrow> p AND 4095 = 0 \<Longrightarrow> sz AND 4095 = 0 \<Longrightarrow>
    vtlb_VMap v p sz m = Some m' \<Longrightarrow> vtlb_step m m'"
| VMapBuffer: "v AND 4095 = 0 \<Longrightarrow> sz AND 4095 = 0 \<Longrightarrow>
    vtlb_VMapBuffer v b sz m = Some m' \<Longrightarrow> vtlb_step m m'"
| VMapUnmap: "v AND 4095 = 0 \<Longrightarrow> sz AND 4095 = 0 \<Longrightarrow>
    vtlb_VMapUnmap v sz m = Some m' \<Longrightarrow> vtlb_step m m'"
| MapHandler: "MainRam \<le> a \<Longrightarrow> 0 < n \<Longrightarrow> unat a + n * 4096 < 2 ^ 32 \<Longrightarrow>
    vtlb_MapHandler h a (of_nat n * 4096) m = Some m' \<Longrightarrow> vtlb_step m m'"
| MapBlock: "MainRam \<le> a \<Longrightarrow> 0 < n \<Longrightarrow> unat a + n * 4096 < 2 ^ 32 \<Longrightarrow>
    vtlb_MapBlock base a (of_nat n * 4096) 0 m = Some m' \<Longrightarrow> vtlb_step m m'"
| KernelMirrors: "MapKernelVirtualMirrors m = Some m' \<Longrightarrow> vtlb_step m m'"
| DirectWindow: "MapDirectVirtualMemoryWindow exposed m = Some m' \<Longrightarrow> vtlb_step m m'"
| NewHandler: "vtlb_step m (snd (vtlb_NewHandler m))"
| AllocPpmap: "vtlb_step m (vtlb_Alloc_Ppmap m)"

lemma identity_inv_cong:
  "identity_pages m = identity_pages m' \<Longrightarrow> identity_page_count m = identity_page_count m' \<Longrightarrow>
   vmap m = vmap m' \<Longrightarrow> identity_inv m = identity_inv m'"
  by (simp add: identity_inv_def identity_page_def)

lemma fold_pmap_upd_keeps:
  "vmap (fold (\<lambda>i. pmap_upd (a i) (v i)) ns m) = vmap m"
  "identity_pages (fold (\<lambda>i. pmap_upd (a i) (v i)) ns m) = identity_pages m"
  "identity_page_count (fold (\<lambda>i. pmap_upd (a i) (v i)) ns m) = identity_page_count m"
  "host_memory_base (fold (\<lambda>i. pmap_upd (a i) (v i)) ns m) = host_memory_base m"
  by (induction ns arbitrary: m) (simp_all add: pmap_upd_def)

lemma vtlb_ok_fold_high:
  assumes "vtlb_ok m" "MainRam \<le> a" "unat a + n * 4096 < 2 ^ 32"
  shows "vtlb_ok (fold (\<lambda>i. pmap_upd (pg a i) (v i)) [0..<n] m)"
  using assms identity_inv_cong [of "fold (\<lambda>i. pmap_upd (pg a i) (v i)) [0..<n] m" m]
  by (simp add: vtlb_ok_def pmap_identity_fold_high fold_pmap_upd_keeps)

text \<open>The direct window marks every page of main memory.\<close>

lemma fold_marks:
  "i \<in> set xs \<Longrightarrow> (\<And>m. Q (f i m)) \<Longrightarrow> (\<And>j m. Q m \<Longrightarrow> Q (f j m)) \<Longrightarrow> Q (fold f xs m)"
proof (induction xs arbitrary: m)
  case (Cons x xs)
  have keep: "Q m' \<Longrightarrow> Q (fold f xs m')" for m' by (rule fold_keeps) (use Cons.prems in auto)
  show ?case using Cons keep by (cases "i = x") auto
qed simp

lemma identity_page_case_ppmap:
  "identity_page (case ppmap m of None \<Rightarrow> m
     | Some pp \<Rightarrow> if c then m\<lparr>ppmap := Some (f pp)\<rparr> else m) = identity_page m"
  by (auto simp: identity_page_def fun_eq_iff split: option.split)

lemma identity_page_vmap_upd: "identity_page (m\<lparr>vmap := e\<rparr>) = identity_page m"
  by (simp add: identity_page_def fun_eq_iff)

lemma identity_page_VMap_page:
  "identity_page (vtlb_VMap_page v v m) p = (v < MainRam \<and> p = drop_bit 12 v \<or> identity_page m p)"
proof (cases "v < MainRam")
  case True
  then show ?thesis
    unfolding vtlb_VMap_page_def Let_def identity_page_case_ppmap
    by (auto simp: identity_page_Set [OF True] identity_page_vmap_upd)
next
  case False
  then show ?thesis
    unfolding vtlb_VMap_page_def Let_def identity_page_case_ppmap SetDefaultMainRamIdentityPage_def
    using leI [OF False] by (simp add: identity_page_vmap_upd)
qed

lemma direct_window_marks:
  assumes "vtlb_VMap 0 0 0x20000000 m = Some m'" "p < 8192"
  shows "identity_page m' p"
proof -
  have m': "m' = fold (\<lambda>i. vtlb_VMap_page (pg 0 i) (pg 0 i)) [0..<131072] m"
    using assms(1) vtlb_VMap_pages [of 131072 0 0 m] by simp
  have p: "unat p < 8192" using assms(2) by (simp add: word_less_nat_alt)
  have "unat (drop_bit 12 (pg 0 (unat p))) = unat p"
    using page_number [of 0 8192 "unat p"] p by simp
  then have page: "drop_bit 12 (pg 0 (unat p)) = p" by (metis unsigned_word_eqI)
  have low: "pg 0 (unat p) < MainRam" using p by (simp add: word_less_nat_alt unat_word_ariths)
  show ?thesis
    unfolding m' by (rule fold_marks [of "unat p"]) (use p page low in \<open>auto simp: identity_page_VMap_page\<close>)
qed

lemma vmap_VMapUnmap_other:
  "(\<And>i. i < n \<Longrightarrow> drop_bit 12 (pg a i) \<noteq> p) \<Longrightarrow>
   vmap (fold (\<lambda>i. vtlb_VMapUnmap_page (pg a i)) [0..<n] m) p = vmap m p"
proof (induction n)
  case (Suc n)
  from Suc.prems [of n] have "p \<noteq> drop_bit 12 (pg a n)" by blast
  with Suc show ?case by (simp add: vtlb_VMapUnmap_page_def)
qed simp

lemma card_main_pages: "card {p. p < (8192 :: u32)} = 8192"
proof -
  have "{p. p < (8192 :: u32)} = of_nat ` {..<8192}"
    by (force simp: word_less_nat_alt unat_of_nat_u32 image_iff intro!: bexI [of _ "unat _"])
  moreover have "inj_on (of_nat :: nat \<Rightarrow> u32) {..<8192}"
    by (rule inj_on_inverseI [where g = unat]) (simp add: unat_of_nat_u32)
  ultimately show ?thesis by (simp add: card_image)
qed

lemma identity_page_SetWindow:
  "p < 8192 \<Longrightarrow> identity_page (SetDefaultMainRamIdentityWindow b m) p = b"
proof -
  assume "p < 8192"
  then have "drop_bit 5 p < (256 :: u32)"
    by (simp add: drop_bit_eq_div word_less_nat_alt unat_div less_mult_imp_div_less)
  moreover have "bit (0xffffffff :: u32) (unat (p AND 31))"
  proof -
    have "unat (p AND 31) < 32" using word_and_31_bound [of p] by (simp add: word_less_nat_alt)
    moreover have "(0xffffffff :: u32) = mask 32" by (simp add: mask_eq_exp_minus_1)
    ultimately show ?thesis by (simp only: bit_mask_iff) simp
  qed
  ultimately show ?thesis by (simp add: identity_page_def SetDefaultMainRamIdentityWindow_def)
qed

lemma identity_inv_SetWindow:
  assumes "b \<Longrightarrow> \<forall>p < 8192. vmap m p = 0"
  shows "identity_inv (SetDefaultMainRamIdentityWindow b m)"
proof -
  have "{p. p < 8192 \<and> identity_page (SetDefaultMainRamIdentityWindow b m) p} =
      (if b then {p. p < 8192} else {})"
    by (auto simp: identity_page_SetWindow)
  with assms show ?thesis
    by (simp add: identity_inv_def identity_page_SetWindow card_main_pages)
      (simp add: SetDefaultMainRamIdentityWindow_def)
qed

lemma vtlb_ok_DirectWindow:
  assumes "vtlb_ok m" "MapDirectVirtualMemoryWindow exposed m = Some m'"
  shows "vtlb_ok m'"
proof -
  obtain m1 m2 where m1: "vtlb_VMap 0 0 0x20000000 m = Some m1"
    and m2: "vtlb_VMapUnmap 0x20000000 0x60000000 m1 = Some m2"
    and m': "m' = SetDefaultMainRamIdentityWindow (exposed = MainRam) m2"
    using assms(2) unfolding MapDirectVirtualMemoryWindow_def bind_eq_Some_conv by blast
  have ok1: "vtlb_ok m1" by (rule vtlb_ok_VMap [OF assms(1) _ _ m1]) simp_all
  have ok2: "vtlb_ok m2" by (rule vtlb_ok_VMapUnmap [OF ok1 _ m2]) simp
  have m2': "m2 = fold (\<lambda>i. vtlb_VMapUnmap_page (pg 0x20000000 i)) [0..<393216] m1"
    using m2 vtlb_VMapUnmap_pages [of 393216 "0x20000000" m1] by simp
  have "vmap m2 p = 0" if p: "p < 8192" for p
  proof -
    have "drop_bit 12 (pg 0x20000000 i) \<noteq> p" if "i < 393216" for i
      using page_number [of "0x20000000" 393216 i] that p by (auto simp: word_less_nat_alt)
    then have "vmap m2 p = vmap m1 p" unfolding m2' by (rule vmap_VMapUnmap_other)
    with direct_window_marks [OF m1 p] ok1 p show ?thesis by (simp add: vtlb_ok_def identity_inv_def)
  qed
  then have "identity_inv m'" unfolding m' by (intro identity_inv_SetWindow) simp
  with ok2 show ?thesis
    by (simp add: vtlb_ok_def m' pmap_identity_def SetDefaultMainRamIdentityWindow_def)
qed

subsection \<open>Every reachable table\<close>

lemma identity_inv_VMapUnmap:
  assumes "identity_inv m" "sz AND 4095 = 0" "vtlb_VMapUnmap v sz m = Some m'"
  shows "identity_inv m'"
proof -
  obtain n where "n < 2 ^ 20" "sz = of_nat n * 4096" using assms(2) by (rule aligned_pages)
  with assms(3) have m': "m' = fold (\<lambda>i. vtlb_VMapUnmap_page (pg v i)) [0..<n] m"
    by (simp add: vtlb_VMapUnmap_pages)
  have "identity_inv (vtlb_VMapUnmap_page a k)" if "identity_inv k" for a k
    unfolding vtlb_VMapUnmap_page_def
    by (rule identity_inv_Set [OF that refl]) (simp_all add: high_page)
  then show ?thesis unfolding m' by (rule fold_keeps [where P = identity_inv, OF assms(1)])
qed

lemma identity_inv_pmap_fold:
  "identity_inv (fold (\<lambda>i. pmap_upd (a i) (v i)) ns m) = identity_inv m"
  by (rule identity_inv_cong) (simp_all add: fold_pmap_upd_keeps)

lemma vtlb_Alloc_Ppmap_keeps [simp]:
  "pmap (vtlb_Alloc_Ppmap m) = pmap m" "vmap (vtlb_Alloc_Ppmap m) = vmap m"
  "identity_pages (vtlb_Alloc_Ppmap m) = identity_pages m"
  "identity_page_count (vtlb_Alloc_Ppmap m) = identity_page_count m"
  "host_memory_base (vtlb_Alloc_Ppmap m) = host_memory_base m"
  by (simp_all add: vtlb_Alloc_Ppmap_def split: option.split)

lemma identity_inv_Alloc_Ppmap: "identity_inv (vtlb_Alloc_Ppmap m) = identity_inv m"
  by (rule identity_inv_cong) simp_all

lemma identity_inv_Init:
  assumes "vtlb_Init goemon m0 = Some m"
  shows "identity_inv m"
proof -
  define m5 where "m5 = (SetDefaultMainRamIdentityWindow False m0)
    \<lparr>UnmappedVirtHandler := 0, UnmappedPhyHandler := 1, vtlbHandlerCount := 3, DefaultPhyHandler := 2\<rparr>"
  have "identity_inv m5"
    using identity_inv_SetWindow [of False m0]
      identity_inv_cong [of m5 "SetDefaultMainRamIdentityWindow False m0"]
    by (simp add: m5_def)
  moreover obtain m6 m7 m8 where m6: "vtlb_MapHandler 2 0 0x20000000 m5 = Some m6"
    and m7: "vtlb_VMapUnmap 0 0xfffff000 m6 = Some m7"
    and m8: "vtlb_VMapUnmap 0xfffff000 4096 m7 = Some m8" and m: "m = (if goemon then vtlb_Alloc_Ppmap m8 else m8)"
    using assms unfolding vtlb_Init_def vtlb_NewHandler_def Let_def
    by (auto simp: m5_def bind_eq_Some_conv)
  moreover have "m6 = fold (\<lambda>i. pmap_upd (pg 0 i) (VTLBPhysical_fromHandler 2)) [0..<131072] m5"
    using m6 vtlb_MapHandler_eq [of 131072 0 2 m5] by simp
  ultimately have "identity_inv m6" by (simp add: identity_inv_pmap_fold)
  then have "identity_inv m7" by (rule identity_inv_VMapUnmap [OF _ _ m7]) simp
  then have "identity_inv m8" by (rule identity_inv_VMapUnmap [OF _ _ m8]) simp
  then show ?thesis unfolding m by (simp add: identity_inv_Alloc_Ppmap)
qed

lemma vtlb_ok_ready:
  assumes "memory_map_ready m"
  shows "vtlb_ok m"
proof -
  from assms obtain goemon m0 m1 rom rom1 rom2 h where init: "vtlb_Init goemon m0 = Some m1"
    and eer: "MapEERamHighMemoryAndRoms MainRam rom rom1 rom2 h m1 = Some m"
    unfolding memory_map_ready_def by blast
  from eer obtain a b c d where
    a: "vtlb_MapBlock (host_memory_base m1) 0 MainRam 0 m1 = Some a"
    and b: "vtlb_MapHandler h MainRam 0xe000000 a = Some b"
    and c: "vtlb_MapBlock rom 0x1fc00000 0x400000 0 b = Some c"
    and d: "vtlb_MapBlock rom1 0x1e000000 0x400000 0 c = Some d"
    and m: "vtlb_MapBlock rom2 0x1e400000 0x400000 0 d = Some m"
    unfolding MapEERamHighMemoryAndRoms_def by (auto simp: bind_eq_Some_conv)
  have "a = fold (\<lambda>i. pmap_upd (pg 0 i) (pg (VTLBPhysical_fromPointer m1 (host_memory_base m1)) i)) [0..<8192] m1"
    using a vtlb_MapBlock_pages [of 8192 0 "host_memory_base m1" m1] by simp
  then have "identity_inv a" using identity_inv_Init [OF init] by (simp add: identity_inv_pmap_fold)
  then have "vtlb_ok a" using pmap_identity_MainRam [OF a] by (simp add: vtlb_ok_def)
  then have "vtlb_ok b"
    using b vtlb_MapHandler_eq [of 57344 "0x2000000" h a] by (auto intro: vtlb_ok_fold_high)
  then have "vtlb_ok c"
    using c vtlb_MapBlock_pages [of 1024 "0x1fc00000" rom b] by (auto intro: vtlb_ok_fold_high)
  then have "vtlb_ok d"
    using d vtlb_MapBlock_pages [of 1024 "0x1e000000" rom1 c] by (auto intro: vtlb_ok_fold_high)
  then show ?thesis
    using m vtlb_MapBlock_pages [of 1024 "0x1e400000" rom2 d] by (auto intro: vtlb_ok_fold_high)
qed

lemma vtlb_ok_step:
  assumes "vtlb_ok m" "vtlb_step m m'"
  shows "vtlb_ok m'"
  using assms(2,1)
proof (cases rule: vtlb_step.cases)
  case (VMap v p sz)
  then show ?thesis using assms(1) vtlb_ok_VMap by blast
next
  case (VMapBuffer v sz b)
  then show ?thesis using assms(1) vtlb_ok_VMapBuffer by blast
next
  case (VMapUnmap v sz)
  then show ?thesis using assms(1) vtlb_ok_VMapUnmap by blast
next
  case (MapHandler a n h)
  then show ?thesis using assms(1) by (auto simp: vtlb_MapHandler_eq intro: vtlb_ok_fold_high)
next
  case (MapBlock a n base)
  then show ?thesis using assms(1) by (auto simp: vtlb_MapBlock_pages intro: vtlb_ok_fold_high)
next
  case KernelMirrors
  then obtain m1 where "vtlb_VMap 0x80000000 0 0x20000000 m = Some m1"
    "vtlb_VMap 0xa0000000 0 0x20000000 m1 = Some m'"
    unfolding MapKernelVirtualMirrors_def by (auto simp: bind_eq_Some_conv)
  then show ?thesis
    using assms(1) vtlb_ok_VMap [of m "0x80000000" "0x20000000" 0 m1]
      vtlb_ok_VMap [of m1 "0xa0000000" "0x20000000" 0 m'] by simp
next
  case (DirectWindow exposed)
  then show ?thesis using assms(1) vtlb_ok_DirectWindow by blast
next
  case NewHandler
  then show ?thesis
    using assms(1)
    by (simp add: vtlb_ok_def vtlb_NewHandler_def pmap_identity_def identity_inv_def identity_page_def)
next
  case AllocPpmap
  then show ?thesis
    using assms(1) by (simp add: vtlb_ok_def pmap_identity_def identity_inv_Alloc_Ppmap)
qed

interpretation vtlb: invariant_system memory_map_ready vtlb_step vtlb_ok
  by unfold_locales (auto intro: vtlb_ok_ready vtlb_ok_step)

text \<open>A full counter means that every page of main memory is marked.\<close>

lemma identity_window_full:
  assumes "identity_inv m" "HasDefaultMainRamIdentityWindow m" "p < 8192"
  shows "vmap m p = 0"
proof -
  let ?S = "{p. p < 8192 \<and> identity_page m p}" and ?A = "{p. p < (8192::u32)}"
  have sub: "?S \<subseteq> ?A" and fin: "finite ?A" by auto
  have le: "card ?S \<le> 8192" using card_mono [OF fin sub] by (simp add: card_main_pages)
  have "of_nat (card ?S) = (8192 :: u32)"
    using assms(1,2) by (simp add: identity_inv_def HasDefaultMainRamIdentityWindow_def)
  then have "unat (of_nat (card ?S) :: u32) = 8192" by simp
  then have "card ?S = card ?A" using le by (simp add: unat_of_nat_u32 card_main_pages)
  then have "?S = ?A" using card_subset_eq [OF fin sub] by simp
  with assms(1,3) show ?thesis by (auto simp: identity_inv_def)
qed

end
