(* ===== verification/VTLB_Props.thy ===== *)
theory VTLB_Props
  imports VTLB_Inv
begin

text \<open>
  The properties of the page tables: the soundness of the identity window that compiled code relies
  on, the round trip of a packed entry, and the decoding of an unmapped page in the upper half of
  the address space; and the completion of the page loops of the set-up.
\<close>

subsection \<open>Set-up returns\<close>

lemma vtlb_Init_returns: "\<exists>m. vtlb_Init goemon m0 = Some m"
proof -
  have "\<exists>m'. vtlb_MapHandler h 0 0x20000000 m = Some m'" for h m
    using vtlb_MapHandler_eq [of 131072 0 h m] by simp
  moreover have "\<exists>m'. vtlb_VMapUnmap 0 0xfffff000 m = Some m'" for m
    using vtlb_VMapUnmap_pages [of 1048575 0 m] by simp
  moreover have "\<exists>m'. vtlb_VMapUnmap 0xfffff000 4096 m = Some m'" for m
    using vtlb_VMapUnmap_pages [of 1 "0xfffff000" m] by simp
  ultimately show ?thesis
    unfolding vtlb_Init_def vtlb_NewHandler_def Let_def
    by (auto simp: bind_eq_Some_conv) metis
qed

lemma MapEERam_returns: "\<exists>m. MapEERamHighMemoryAndRoms MainRam rom rom1 rom2 h m0 = Some m"
proof -
  have "\<exists>m'. vtlb_MapBlock b 0 0x2000000 0 m = Some m'" for b m
    using vtlb_MapBlock_pages [of 8192 0 b m] by simp
  moreover have "\<exists>m'. vtlb_MapHandler h 0x2000000 0xe000000 m = Some m'" for m
    using vtlb_MapHandler_eq [of 57344 "0x2000000" h m] by simp
  moreover have "\<exists>m'. vtlb_MapBlock b 0x1fc00000 0x400000 0 m = Some m'" for b m
    using vtlb_MapBlock_pages [of 1024 "0x1fc00000" b m] by simp
  moreover have "\<exists>m'. vtlb_MapBlock b 0x1e000000 0x400000 0 m = Some m'" for b m
    using vtlb_MapBlock_pages [of 1024 "0x1e000000" b m] by simp
  moreover have "\<exists>m'. vtlb_MapBlock b 0x1e400000 0x400000 0 m = Some m'" for b m
    using vtlb_MapBlock_pages [of 1024 "0x1e400000" b m] by simp
  ultimately show ?thesis
    unfolding MapEERamHighMemoryAndRoms_def by (simp add: bind_eq_Some_conv) metis
qed

lemma DirectWindow_returns:
  "\<exists>m. MapDirectVirtualMemoryWindow MainRam m0 = Some m \<and> HasDefaultMainRamIdentityWindow m"
proof -
  obtain m1 where m1: "vtlb_VMap 0 0 0x20000000 m0 = Some m1"
    using vtlb_VMap_pages [of 131072 0 0 m0] by simp
  obtain m2 where m2: "vtlb_VMapUnmap 0x20000000 0x60000000 m1 = Some m2"
    using vtlb_VMapUnmap_pages [of 393216 "0x20000000" m1] by simp
  have "MapDirectVirtualMemoryWindow MainRam m0 = Some (SetDefaultMainRamIdentityWindow True m2)"
    by (simp add: MapDirectVirtualMemoryWindow_def m1 m2)
  then show ?thesis
    by (simp add: HasDefaultMainRamIdentityWindow_def SetDefaultMainRamIdentityWindow_def)
qed

subsection \<open>Properties\<close>

text \<open>C7: The identity window is sound. In every state the page tables reach from the set-up
  through TLB mappings, unmappings, scratchpad and device mappings, as long as
  \<^verbatim>\<open>HasDefaultMainRamIdentityWindow\<close> answers true, the page table sends every address
  of main memory to the same offset of the host arena and to no handler: code compiled to use the
  window without a table look-up touches the byte the table would have named.\<close>

theorem identity_window_sound:
  assumes "reach memory_map_ready vtlb_step m" "HasDefaultMainRamIdentityWindow m" "vaddr < MainRam"
  shows "\<not> isHandler (vmap m (drop_bit 12 vaddr)) vaddr \<and>
    assumePtr m (vmap m (drop_bit 12 vaddr)) vaddr = host_memory_base m + vaddr"
proof
  have "identity_inv m" using vtlb.reach_inv [OF assms(1)] by (simp add: vtlb_ok_def)
  moreover have "drop_bit 12 vaddr < (8192 :: u32)"
    using assms(3) by (simp add: drop_bit_eq_div word_less_nat_alt unat_div less_mult_imp_div_less)
  ultimately have zero: "vmap m (drop_bit 12 vaddr) = 0"
    using assms(2) identity_window_full by blast
  show "\<not> isHandler (vmap m (drop_bit 12 vaddr)) vaddr"
    using assms(3) by (simp add: zero isHandler_def sless_0_iff word_le_nat_alt word_less_nat_alt)
  show "assumePtr m (vmap m (drop_bit 12 vaddr)) vaddr = host_memory_base m + vaddr"
    by (simp add: zero assumePtr_def)
qed

theorem identity_window_sound_witness:
  "\<exists>m. HasDefaultMainRamIdentityWindow m \<and>
     assumePtr m (vmap m (drop_bit 12 0x1fffffc)) 0x1fffffc = host_memory_base m + 0x1fffffc"
proof -
  fix m0 :: MapData
  obtain m1 where m1: "vtlb_Init False m0 = Some m1" using vtlb_Init_returns by blast
  obtain m2 where m2: "MapEERamHighMemoryAndRoms MainRam 0 0 0 3 m1 = Some m2"
    using MapEERam_returns by blast
  obtain m3 where m3: "MapDirectVirtualMemoryWindow MainRam m2 = Some m3"
    "HasDefaultMainRamIdentityWindow m3" using DirectWindow_returns by blast
  have "memory_map_ready m2" using m1 m2 unfolding memory_map_ready_def by blast
  then have "reach memory_map_ready vtlb_step m3"
    using m3(1) by (blast intro: reach_init reach_step vtlb_step.DirectWindow)
  from identity_window_sound [OF this m3(2), of "0x1fffffc"] m3(2) show ?thesis by auto
qed

text \<open>The round trip of a packed handler entry. A virtual page mapped to a device handler
  reads back, for every address of the page, as a handler entry with that handler number and with
  the physical address of the access, as long as the physical address leaves the top of the
  address space free.\<close>

theorem handler_entry_roundtrip:
  assumes "h < 128" "paddr AND VTLB_PAGE_MASK = 0" "vaddr AND VTLB_PAGE_MASK = 0"
    "k < VTLB_PAGE_SIZE" "paddr < 0x7fffe000"
  shows "isHandler (VTLBVirtual (VTLBPhysical_fromHandler h) paddr vaddr) (vaddr + k) \<and>
    assumeHandlerGetID (VTLBVirtual (VTLBPhysical_fromHandler h) paddr vaddr) = ucast h \<and>
    assumeHandlerGetPAddr (VTLBVirtual (VTLBPhysical_fromHandler h) paddr vaddr) (vaddr + k) =
      paddr + k"
  using handler_entry [OF assms] by blast

theorem handler_entry_roundtrip_witness:
  "assumeHandlerGetPAddr (VTLBVirtual (VTLBPhysical_fromHandler 5) 0x10000000 0xb0000000)
     (0xb0000000 + 0x234) = 0x10000000 + 0x234"
  by (rule handler_entry_roundtrip [THEN conjunct2, THEN conjunct2]) simp_all

text \<open>Unmapping a page of the upper half of the address space does not unmap it on this
  target. The entry for a page at \<^verbatim>\<open>0x80000000\<close> or above loses its handler mark, because the
  mark and the top address bit share the sign bit: the access is taken for a direct one, to
  the host arena at the address less \<^verbatim>\<open>0x80000000\<close>.\<close>

theorem high_unmapped_page_is_direct:
  assumes "UnmappedVirtHandler m < 128" "vaddr AND VTLB_PAGE_MASK = 0" "k < VTLB_PAGE_SIZE"
    "0x80000000 \<le> vaddr" "vaddr < 0xffffe000" "m' = vtlb_VMapUnmap_page vaddr m"
  shows "\<not> isHandler (vmap m' (drop_bit 12 vaddr)) (vaddr + k) \<and>
    assumePtr m' (vmap m' (drop_bit 12 vaddr)) (vaddr + k) =
      host_memory_base m + (vaddr - 0x80000000) + UnmappedVirtHandler m + k"
proof
  have e: "vmap m' (drop_bit 12 vaddr) =
      VTLBVirtual (VTLBPhysical_fromHandler (UnmappedVirtHandler m)) vaddr vaddr"
    and b: "host_memory_base m' = host_memory_base m"
    by (simp_all add: assms(6) vtlb_VMapUnmap_page_def)
  show "\<not> isHandler (vmap m' (drop_bit 12 vaddr)) (vaddr + k)"
    unfolding e by (rule high_unmapped_entry [OF assms(1-5)])
  show "assumePtr m' (vmap m' (drop_bit 12 vaddr)) (vaddr + k) =
      host_memory_base m + (vaddr - 0x80000000) + UnmappedVirtHandler m + k"
    unfolding e high_unmapped_entry(2) [OF assms(1-5)] b ..
qed

theorem high_unmapped_page_is_direct_witness:
  "\<exists>m m'. UnmappedVirtHandler m = 0 \<and> m' = vtlb_VMapUnmap_page 0xc0000000 m \<and>
     \<not> isHandler (vmap m' (drop_bit 12 0xc0000000)) (0xc0000000 + 8)"
proof -
  define m :: MapData where "m = \<lparr>pmap = \<lambda>_. 0, vmap = \<lambda>_. 0, ppmap = None, host_memory_base = 0,
    vtlbHandlerCount = 0, UnmappedVirtHandler = 0, UnmappedPhyHandler = 1, DefaultPhyHandler = 2,
    identity_pages = \<lambda>_. 0, identity_page_count = 0\<rparr>"
  have "\<not> isHandler (vmap (vtlb_VMapUnmap_page 0xc0000000 m) (drop_bit 12 0xc0000000)) (0xc0000000 + 8)"
    by (rule high_unmapped_page_is_direct [of m "0xc0000000" 8, THEN conjunct1]) (simp_all add: m_def)
  moreover have "UnmappedVirtHandler m = 0" by (simp add: m_def)
  ultimately show ?thesis by blast
qed

end
