(* ===== verification/VTLB_Setup.thy ===== *)
theory VTLB_Setup
  imports VTLB_Props
begin

text \<open>
  The set-up of the page tables by \<^verbatim>\<open>memReset\<close> (\<^verbatim>\<open>pcsx2/Memory.cpp\<close>): the
  registration of the handlers, the physical map, and the virtual windows, in the order of the
  source; and what the tables map afterwards. What a handler does is a parameter of the memory
  accesses, so that registering one is drawing its number.
\<close>

subsection \<open>The handlers\<close>

record mem_handlers =
  null_handler :: u32
  tlb_fallback_0 :: u32
  tlb_fallback_2 :: u32
  tlb_fallback_3 :: u32
  tlb_fallback_4 :: u32
  tlb_fallback_5 :: u32
  tlb_fallback_6 :: u32
  tlb_fallback_7 :: u32
  tlb_fallback_8 :: u32
  iop_memory :: u32
  vu0_micro_mem :: u32
  vu1_micro_mem :: u32
  vu1_data_mem :: u32
  hw_by_page :: "u32 list"
  gs_page_0 :: u32
  gs_page_1 :: u32
  iopHw_by_page_01 :: u32
  iopHw_by_page_03 :: u32
  iopHw_by_page_08 :: u32

text \<open>The sixteen calls for the pages of the hardware registers.\<close>

primrec new_handlers :: "nat \<Rightarrow> MapData \<Rightarrow> u32 list \<times> MapData" where
  "new_handlers 0 m = ([], m)"
| "new_handlers (Suc n) m =
    (let (h, m1) = vtlb_NewHandler m; (hs, m2) = new_handlers n m1 in (h # hs, m2))"

definition memRegisterHandlers :: "MapData \<Rightarrow> mem_handlers \<times> MapData" where
  "memRegisterHandlers m =
    (let (null, m) = vtlb_NewHandler m;
         (f0, m) = vtlb_NewHandler m; (f3, m) = vtlb_NewHandler m; (f4, m) = vtlb_NewHandler m;
         (f5, m) = vtlb_NewHandler m; (f7, m) = vtlb_NewHandler m; (f8, m) = vtlb_NewHandler m;
         (iop, m) = vtlb_NewHandler m;
         (vu0, m) = vtlb_NewHandler m; (vu1, m) = vtlb_NewHandler m; (vu1d, m) = vtlb_NewHandler m;
         (f2, m) = vtlb_NewHandler m; (p1, m) = vtlb_NewHandler m; (p3, m) = vtlb_NewHandler m;
         (p8, m) = vtlb_NewHandler m;
         (hw, m) = new_handlers 16 m;
         (f6, m) = vtlb_NewHandler m; (gs0, m) = vtlb_NewHandler m; (gs1, m) = vtlb_NewHandler m
     in (\<lparr>null_handler = null, tlb_fallback_0 = f0, tlb_fallback_2 = f2, tlb_fallback_3 = f3, tlb_fallback_4 = f4,
          tlb_fallback_5 = f5, tlb_fallback_6 = f6, tlb_fallback_7 = f7, tlb_fallback_8 = f8, iop_memory = iop,
          vu0_micro_mem = vu0, vu1_micro_mem = vu1, vu1_data_mem = vu1d, hw_by_page = hw, gs_page_0 = gs0,
          gs_page_1 = gs1, iopHw_by_page_01 = p1, iopHw_by_page_03 = p3, iopHw_by_page_08 = p8\<rparr>, m))"

subsection \<open>The physical map\<close>

text \<open>A sequence of calls of \<^verbatim>\<open>vtlb_MapHandler\<close> with handler, start and size.\<close>

primrec map_handlers :: "(u32 \<times> u32 \<times> u32) list \<Rightarrow> MapData \<Rightarrow> MapData option" where
  "map_handlers [] m = Some m"
| "map_handlers (x # xs) m = (case x of (h, a, sz) \<Rightarrow> Option.bind (vtlb_MapHandler h a sz m) (map_handlers xs))"

definition memMapPhy :: "mem_handlers \<Rightarrow> u32 \<Rightarrow> uptr \<Rightarrow> uptr \<Rightarrow> uptr \<Rightarrow> MapData \<Rightarrow> MapData option" where
  "memMapPhy h exposed rom rom1 rom2 m =
    Option.bind (MapEERamHighMemoryAndRoms exposed rom rom1 rom2 (null_handler h) m)
     (map_handlers
       ([(iop_memory h, 0x1c000000, 0x00800000),
         (tlb_fallback_7 h, 0x14000000, 0x10000), (tlb_fallback_4 h, 0x18000000, 0x10000),
         (tlb_fallback_5 h, 0x1a000000, 0x10000), (tlb_fallback_6 h, 0x12000000, 0x10000),
         (tlb_fallback_8 h, 0x1f000000, 0x10000), (tlb_fallback_3 h, 0x1f400000, 0x10000),
         (tlb_fallback_2 h, 0x1f800000, 0x10000), (tlb_fallback_8 h, 0x1f900000, 0x10000)] @
        map (\<lambda>i. (hw_by_page h ! i, 0x10000000 + 0x01000 * of_nat i, 0x01000)) [0..<16] @
        [(gs_page_0 h, 0x12000000, 0x01000), (gs_page_1 h, 0x12001000, 0x01000),
         (iopHw_by_page_01 h, 0x1f801000, 0x01000), (iopHw_by_page_03 h, 0x1f803000, 0x01000),
         (iopHw_by_page_08 h, 0x1f808000, 0x01000)]))"

definition memMapVUmicro :: "mem_handlers \<Rightarrow> uptr \<Rightarrow> MapData \<Rightarrow> MapData option" where
  "memMapVUmicro h vu0_mem m =
    Option.bind (map_handlers [(vu0_micro_mem h, 0x11000000, 0x00004000), (vu1_micro_mem h, 0x11008000, 0x00004000)] m)
     (\<lambda>m1. Option.bind (vtlb_MapBlock vu0_mem 0x11004000 0x00004000 0x1000 m1)
       (vtlb_MapHandler (vu1_data_mem h) 0x1100c000 0x00004000))"

subsection \<open>The whole set-up\<close>

text \<open>The part of \<^verbatim>\<open>memReset\<close> that builds the tables; \<^verbatim>\<open>memMapSupervisorMem\<close> and
  \<^verbatim>\<open>memMapUserMem\<close> are empty.\<close>

definition memReset :: "bool \<Rightarrow> u32 \<Rightarrow> uptr \<Rightarrow> uptr \<Rightarrow> uptr \<Rightarrow> uptr \<Rightarrow> MapData \<Rightarrow> MapData option" where
  "memReset GoemonTlbHack exposed rom rom1 rom2 vu0_mem m0 =
    Option.bind (vtlb_Init GoemonTlbHack m0) (\<lambda>m1.
      case memRegisterHandlers m1 of (h, m2) \<Rightarrow>
        Option.bind (memMapPhy h exposed rom rom1 rom2 m2) (\<lambda>m3.
        Option.bind (memMapVUmicro h vu0_mem m3) (\<lambda>m4.
        Option.bind (MapKernelVirtualMirrors m4) (MapDirectVirtualMemoryWindow exposed))))"

subsection \<open>What one call maps\<close>

text \<open>The pages of the region of \<open>sz\<close> bytes at \<open>a\<close> get the entries \<open>f\<close>.\<close>

definition map_range :: "u32 \<Rightarrow> u32 \<Rightarrow> (u32 \<Rightarrow> u32) \<Rightarrow> MapData \<Rightarrow> MapData" where
  "map_range a sz f m = m\<lparr>pmap := \<lambda>p. if unat a div 4096 \<le> unat p \<and> unat p < (unat a + unat sz) div 4096
     then f p else pmap m p\<rparr>"

definition region :: "u32 \<Rightarrow> u32 \<Rightarrow> bool" where
  "region a sz \<longleftrightarrow> a AND 4095 = 0 \<and> sz AND 4095 = 0 \<and> 0 < sz \<and> unat a + unat sz < 2 ^ 32"

lemma region_pages:
  assumes "region a sz"
  obtains n where "0 < n" "sz = of_nat n * 4096" "unat sz = n * 4096" "unat a + n * 4096 < 2 ^ 32"
    "(unat a + unat sz) div 4096 = unat a div 4096 + n"
proof -
  obtain n where n: "n < 2 ^ 20" "sz = of_nat n * 4096" using assms aligned_pages unfolding region_def by blast
  then have u: "unat sz = n * 4096" by (simp add: unat_word_ariths unat_of_nat_u32)
  have "0 < n" using assms n by (cases n) (simp_all add: region_def)
  with n u assms show thesis by (intro that) (simp_all add: region_def)
qed

lemma fold_pmap_upd_range:
  assumes "unat a + n * 4096 < 2 ^ 32"
  shows "fold (\<lambda>i. pmap_upd (pg a i) (v i)) [0..<n] m = m\<lparr>pmap := \<lambda>p.
    if unat a div 4096 \<le> unat p \<and> unat p < unat a div 4096 + n then v (unat p - unat a div 4096) else pmap m p\<rparr>"
  using assms
proof (induction n)
  case 0
  have "(\<lambda>p. if unat a div 4096 \<le> unat p \<and> unat p < unat a div 4096 + 0 then v (unat p - unat a div 4096) else pmap m p) = pmap m"
    by (auto simp: fun_eq_iff)
  then show ?case by simp
next
  case (Suc n)
  have "unat (drop_bit 12 (pg a n)) = unat a div 4096 + n"
    using page_number [OF Suc.prems, of n] by simp
  then have p: "p = drop_bit 12 (pg a n) \<longleftrightarrow> unat p = unat a div 4096 + n" for p
    by (metis unsigned_word_eqI)
  show ?case using Suc by (auto simp: pmap_upd_def fun_eq_iff p fun_upd_def less_Suc_eq)
qed

lemma MapHandler_range:
  assumes "region a sz"
  shows "vtlb_MapHandler h a sz m = Some (map_range a sz (\<lambda>_. VTLBPhysical_fromHandler h) m)"
proof -
  obtain n where n: "0 < n" "sz = of_nat n * 4096" "unat sz = n * 4096" "unat a + n * 4096 < 2 ^ 32"
    "(unat a + unat sz) div 4096 = unat a div 4096 + n" using region_pages [OF assms] by blast
  show ?thesis
    unfolding map_range_def n(5) unfolding n(2) vtlb_MapHandler_eq [OF n(1,4)] fold_pmap_upd_range [OF n(4)] ..
qed

lemma MapBlock_range:
  assumes "region a sz"
  shows "vtlb_MapBlock base a sz 0 m =
    Some (map_range a sz (\<lambda>p. VTLBPhysical_fromPointer m base + (push_bit 12 p - a)) m)"
proof -
  obtain n where n: "0 < n" "sz = of_nat n * 4096" "unat sz = n * 4096" "unat a + n * 4096 < 2 ^ 32"
    "(unat a + unat sz) div 4096 = unat a div 4096 + n" using region_pages [OF assms] by blast
  have "unat (drop_bit 12 a) = unat a div 4096" by (simp add: drop_bit_eq_div unat_div)
  then have d: "of_nat (unat a div 4096) = drop_bit 12 a" by (metis of_nat_unat ucast_id)
  have a: "of_nat (unat a div 4096) * 4096 = a"
    using aligned_push_bit [of a] assms by (simp add: d region_def push_bit_eq_mult)
  have "of_nat (unat p - unat a div 4096) * 4096 = push_bit 12 p - a" if "unat a div 4096 \<le> unat p" for p :: u32
    using that by (simp add: push_bit_eq_mult of_nat_diff left_diff_distrib a)
  then show ?thesis
    unfolding map_range_def n(5) unfolding n(2) vtlb_MapBlock_pages [OF n(1,4)] fold_pmap_upd_range [OF n(4)]
    by (auto simp: fun_eq_iff)
qed

text \<open>A block of one page mapped over and over.\<close>

lemma MapBlock_repeat_loop:
  "unat a + Suc n * 4096 < 2 ^ 32 \<Longrightarrow> vtlb_MapBlock_loop base 4096 a (pg a n) m =
     Some (fold (\<lambda>i. pmap_upd (pg a i) (VTLBPhysical_fromPointer m base)) [0..<Suc n] m)"
proof (induction n arbitrary: a m)
  case 0
  have inner: "vtlb_MapBlock_inner a base 4096 m = Some (a + 4096, pmap_upd a (VTLBPhysical_fromPointer m base) m)"
    using vtlb_MapBlock_inner_pages [of 1 a base m] by simp
  from page_steps [OF 0] show ?case
    by (subst vtlb_MapBlock_loop.simps) (simp add: inner vtlb_MapBlock_loop.simps [of _ _ "a + 4096"])
next
  case (Suc n)
  let ?m = "pmap_upd a (VTLBPhysical_fromPointer m base) m"
  have inner: "vtlb_MapBlock_inner a base 4096 m = Some (a + 4096, ?m)"
    using vtlb_MapBlock_inner_pages [of 1 a base m] by simp
  have fin: "pg a (Suc n) = pg (a + 4096) n" by (simp add: algebra_simps)
  have le: "a \<le> pg (a + 4096) n" using page_steps(1) [OF Suc.prems] unfolding fin .
  have "vtlb_MapBlock_loop base 4096 a (pg a (Suc n)) m = vtlb_MapBlock_loop base 4096 (a + 4096) (pg (a + 4096) n) ?m"
    unfolding fin by (subst vtlb_MapBlock_loop.simps) (simp only: le if_True inner Option.bind.simps prod.case)
  moreover have "unat (a + 4096) + Suc n * 4096 < 2 ^ 32"
    using Suc.prems page_steps(3) [OF Suc.prems] by simp
  ultimately show ?case
    using Suc.IH [of "a + 4096" ?m] fromPointer_pmap_upd
    by (simp only: fold_pages_Suc [of "\<lambda>x. pmap_upd x _"])
qed

lemma MapBlock_repeat:
  assumes "region a sz"
  shows "vtlb_MapBlock base a sz 4096 m = Some (map_range a sz (\<lambda>_. VTLBPhysical_fromPointer m base) m)"
proof -
  obtain n where n: "0 < n" "sz = of_nat n * 4096" "unat sz = n * 4096" "unat a + n * 4096 < 2 ^ 32"
    "(unat a + unat sz) div 4096 = unat a div 4096 + n" using region_pages [OF assms] by blast
  obtain k where k: "n = Suc k" using n(1) by (cases n) auto
  have fin: "a + (of_nat n * 4096 - 4096) = pg a k" by (simp add: k algebra_simps)
  have "vtlb_MapBlock base a (of_nat n * 4096) 4096 m =
      Some (fold (\<lambda>i. pmap_upd (pg a i) (VTLBPhysical_fromPointer m base)) [0..<n] m)"
    unfolding vtlb_MapBlock_def fin using MapBlock_repeat_loop [of a k base m] n(4) by (simp add: k)
  then show ?thesis unfolding map_range_def n(5) unfolding n(2) fold_pmap_upd_range [OF n(4)] .
qed

lemma map_range_keeps [simp]:
  "vmap (map_range a sz f m) = vmap m" "host_memory_base (map_range a sz f m) = host_memory_base m"
  "UnmappedVirtHandler (map_range a sz f m) = UnmappedVirtHandler m"
  "VTLBPhysical_fromPointer (map_range a sz f m) = VTLBPhysical_fromPointer m"
  by (simp_all add: map_range_def VTLBPhysical_fromPointer_def fun_eq_iff)

lemma pmap_map_range:
  "pmap (map_range a sz f m) p =
    (if unat a div 4096 \<le> unat p \<and> unat p < (unat a + unat sz) div 4096 then f p else pmap m p)"
  by (simp add: map_range_def)

lemma map_handlers_range:
  "list_all (\<lambda>(h, a, sz). region a sz) xs \<Longrightarrow>
   map_handlers xs m = Some (fold (\<lambda>(h, a, sz). map_range a sz (\<lambda>_. VTLBPhysical_fromHandler h)) xs m)"
  by (induction xs arbitrary: m) (auto simp: MapHandler_range split: prod.splits)

lemma fold_handlers_keeps:
  "vmap (fold (\<lambda>(h, a, sz). map_range a sz (\<lambda>_. VTLBPhysical_fromHandler h)) xs m) = vmap m"
  "host_memory_base (fold (\<lambda>(h, a, sz). map_range a sz (\<lambda>_. VTLBPhysical_fromHandler h)) xs m) = host_memory_base m"
  "UnmappedVirtHandler (fold (\<lambda>(h, a, sz). map_range a sz (\<lambda>_. VTLBPhysical_fromHandler h)) xs m) = UnmappedVirtHandler m"
  by (induction xs arbitrary: m) (auto split: prod.splits)

subsection \<open>What the whole set-up maps\<close>

lemma new_handlers_numbers:
  "new_handlers n m = (map (\<lambda>i. vtlbHandlerCount m + of_nat i) [0..<n],
     m\<lparr>vtlbHandlerCount := vtlbHandlerCount m + of_nat n\<rparr>)"
proof (induction n arbitrary: m)
  case (Suc n)
  have "map (\<lambda>i. c + of_nat i) [0..<Suc n] = c # map (\<lambda>i. c + 1 + of_nat i) [0..<n]" for c :: u32
    by (simp add: upt_conv_Cons map_Suc_upt [symmetric] comp_def algebra_simps del: upt_Suc)
  from this [of "vtlbHandlerCount m"] show ?case
    by (simp only: new_handlers.simps vtlb_NewHandler_def Let_def prod.case Suc) simp
qed simp

lemma registered:
  assumes "vtlbHandlerCount m = 3"
  shows "\<exists>h. memRegisterHandlers m = (h, m\<lparr>vtlbHandlerCount := 37\<rparr>) \<and> hw_by_page h = map (\<lambda>i. 18 + of_nat i) [0..<16]"
  using assms by (simp add: memRegisterHandlers_def Let_def new_handlers_numbers vtlb_NewHandler_def del: upt_Suc)

lemma Init_keeps:
  assumes "vtlb_Init goemon m0 = Some m"
  shows "vtlbHandlerCount m = 3" "host_memory_base m = host_memory_base m0" "UnmappedVirtHandler m = 0"
proof -
  define m5 where "m5 = (SetDefaultMainRamIdentityWindow False m0)
    \<lparr>UnmappedVirtHandler := 0, UnmappedPhyHandler := 1, vtlbHandlerCount := 3, DefaultPhyHandler := 2\<rparr>"
  let ?P = "\<lambda>m. vtlbHandlerCount m = 3 \<and> host_memory_base m = host_memory_base m0 \<and> UnmappedVirtHandler m = 0"
  obtain m6 m7 m8 where m6: "vtlb_MapHandler 2 0 0x20000000 m5 = Some m6"
    and m7: "vtlb_VMapUnmap 0 0xfffff000 m6 = Some m7"
    and m8: "vtlb_VMapUnmap 0xfffff000 4096 m7 = Some m8" and m: "m = (if goemon then vtlb_Alloc_Ppmap m8 else m8)"
    using assms unfolding vtlb_Init_def vtlb_NewHandler_def Let_def
    by (auto simp: m5_def bind_eq_Some_conv)
  have "?P m5" by (simp add: m5_def SetDefaultMainRamIdentityWindow_def)
  moreover have "m6 = map_range 0 0x20000000 (\<lambda>_. VTLBPhysical_fromHandler 2) m5"
    using m6 MapHandler_range [of 0 "0x20000000" 2 m5] by (simp add: region_def)
  ultimately have p6: "?P m6" by (simp add: map_range_def)
  have page: "?P (vtlb_VMapUnmap_page v m)" if "?P m" for v m
    using that by (simp add: vtlb_VMapUnmap_page_def) (simp add: SetDefaultMainRamIdentityPage_def Let_def)
  have "m7 = fold (\<lambda>i. vtlb_VMapUnmap_page (pg 0 i)) [0..<1048575] m6"
    using m7 vtlb_VMapUnmap_pages [of 1048575 0 m6] by simp
  with p6 page have p7: "?P m7" by (auto intro!: fold_keeps [where P = ?P])
  have "m8 = fold (\<lambda>i. vtlb_VMapUnmap_page (pg 0xfffff000 i)) [0..<1] m7"
    using m8 vtlb_VMapUnmap_pages [of 1 "0xfffff000" m7] by simp
  with p7 page have "?P m8" by (auto intro!: fold_keeps [where P = ?P])
  then show "vtlbHandlerCount m = 3" "host_memory_base m = host_memory_base m0" "UnmappedVirtHandler m = 0"
    by (simp_all add: m vtlb_Alloc_Ppmap_def split: option.split)
qed

lemma MapEERam_result:
  "\<exists>m'. MapEERamHighMemoryAndRoms MainRam rom rom1 rom2 null m = Some m' \<and> vmap m' = vmap m \<and>
     host_memory_base m' = host_memory_base m \<and> UnmappedVirtHandler m' = UnmappedVirtHandler m \<and> (\<forall>p. unat p < 8192 \<longrightarrow> pmap m' p = push_bit 12 p)"
proof -
  have r: "region 0 0x2000000" "region 0x2000000 0xe000000" "region 0x1fc00000 0x400000"
    "region 0x1e000000 0x400000" "region 0x1e400000 0x400000" by (simp_all add: region_def)
  show ?thesis
    unfolding MapEERamHighMemoryAndRoms_def
    by (simp add: MapBlock_range MapHandler_range r pmap_map_range)
      (simp add: VTLBPhysical_fromPointer_def)
qed

lemma upt16: "[0..<16] = [0, 1, 2, 3, 4, 5, 6, 7, 8, 9, 10, 11, 12, 13, 14, 15 :: nat]"
  by (simp add: upt_rec)

lemma less_16_all: "(\<forall>i < (16 :: nat). P i) \<longleftrightarrow> list_all P [0..<16]"
  by (auto simp: list_all_iff)

lemma memMapPhy_result:
  "\<exists>m'. memMapPhy h MainRam rom rom1 rom2 m = Some m' \<and> vmap m' = vmap m \<and>
     host_memory_base m' = host_memory_base m \<and> UnmappedVirtHandler m' = UnmappedVirtHandler m \<and> (\<forall>p. unat p < 8192 \<longrightarrow> pmap m' p = push_bit 12 p) \<and>
     (\<forall>i < 16. pmap m' (0x10000 + of_nat i) = VTLBPhysical_fromHandler (hw_by_page h ! i))"
proof -
  obtain m1 where m1: "MapEERamHighMemoryAndRoms MainRam rom rom1 rom2 (null_handler h) m = Some m1"
    "vmap m1 = vmap m" "host_memory_base m1 = host_memory_base m" "UnmappedVirtHandler m1 = UnmappedVirtHandler m" "\<And>p. unat p < 8192 \<Longrightarrow> pmap m1 p = push_bit 12 p"
    using MapEERam_result by blast
  let ?xs = "[(iop_memory h, 0x1c000000, 0x00800000),
      (tlb_fallback_7 h, 0x14000000, 0x10000), (tlb_fallback_4 h, 0x18000000, 0x10000),
      (tlb_fallback_5 h, 0x1a000000, 0x10000), (tlb_fallback_6 h, 0x12000000, 0x10000),
      (tlb_fallback_8 h, 0x1f000000, 0x10000), (tlb_fallback_3 h, 0x1f400000, 0x10000),
      (tlb_fallback_2 h, 0x1f800000, 0x10000), (tlb_fallback_8 h, 0x1f900000, 0x10000)] :: (u32 \<times> u32 \<times> u32) list"
    and ?hw = "map (\<lambda>i. (hw_by_page h ! i, 0x10000000 + 0x01000 * of_nat i :: u32, 0x01000 :: u32)) [0..<16]"
    and ?ys = "[(gs_page_0 h, 0x12000000, 0x01000), (gs_page_1 h, 0x12001000, 0x01000),
      (iopHw_by_page_01 h, 0x1f801000, 0x01000), (iopHw_by_page_03 h, 0x1f803000, 0x01000),
      (iopHw_by_page_08 h, 0x1f808000, 0x01000)] :: (u32 \<times> u32 \<times> u32) list"
  let ?f = "fold (\<lambda>(h, a, sz). map_range a sz (\<lambda>_. VTLBPhysical_fromHandler h))"
  define m2 where "m2 = ?f ?xs m1"
  define m3 where "m3 = ?f ?hw m2"
  define m4 where "m4 = ?f ?ys m3"
  have "list_all (\<lambda>(h, a, sz). region a sz) ?xs" "list_all (\<lambda>(h, a, sz). region a sz) ?ys"
    "list_all (\<lambda>(h, a, sz). region a sz) ?hw"
    unfolding upt16 by (simp_all add: region_def)
  then have "map_handlers (?xs @ ?hw @ ?ys) m1 = Some m4"
    by (simp only: map_handlers_range list_all_append simp_thms fold_append comp_apply m2_def m3_def m4_def)
  moreover have "vmap m4 = vmap m" "host_memory_base m4 = host_memory_base m" "UnmappedVirtHandler m4 = UnmappedVirtHandler m"
    by (simp_all only: m4_def m3_def m2_def fold_handlers_keeps m1(2-4))
  moreover have "pmap m4 p = push_bit 12 p" if p: "unat p < 8192" for p
  proof -
    have "pmap m2 p = push_bit 12 p" unfolding m2_def using p by (simp add: pmap_map_range m1(5))
    then have "pmap m3 p = push_bit 12 p" unfolding m3_def upt16 using p by (simp add: pmap_map_range)
    then show ?thesis unfolding m4_def using p by (simp add: pmap_map_range)
  qed
  moreover have "\<forall>i < 16. pmap m4 (0x10000 + of_nat i) = VTLBPhysical_fromHandler (hw_by_page h ! i)"
  proof -
    have "pmap m4 p = pmap m3 p" if "unat p < 0x11000" for p
      unfolding m4_def using that by (simp add: pmap_map_range)
    moreover have "\<forall>i < 16. pmap m3 (0x10000 + of_nat i) = VTLBPhysical_fromHandler (hw_by_page h ! i)"
      unfolding less_16_all m3_def upt16 by (simp add: pmap_map_range)
    ultimately show ?thesis by (simp add: unat_word_ariths unat_of_nat_u32)
  qed
  ultimately show ?thesis unfolding memMapPhy_def m1(1) Option.bind.simps by blast
qed

lemma memMapVUmicro_result:
  "\<exists>m'. memMapVUmicro h vu0 m = Some m' \<and> vmap m' = vmap m \<and> host_memory_base m' = host_memory_base m \<and>
     UnmappedVirtHandler m' = UnmappedVirtHandler m \<and> (\<forall>p. unat p < 0x11000 \<longrightarrow> pmap m' p = pmap m p)"
proof -
  have r: "region 0x11000000 0x4000" "region 0x11008000 0x4000" "region 0x11004000 0x4000" "region 0x1100c000 0x4000"
    by (simp_all add: region_def)
  show ?thesis
    unfolding memMapVUmicro_def by (simp add: MapBlock_repeat MapHandler_range r pmap_map_range)
qed

text \<open>The virtual windows.\<close>

lemma VMap_page_simps:
  "vmap (vtlb_VMap_page v p m) q = (if q = drop_bit 12 v then
     (if p \<ge> VTLB_PMAP_SZ then VTLBVirtual (VTLBPhysical_fromHandler (UnmappedPhyHandler m)) p v
      else VTLBVirtual (pmap m (drop_bit 12 p)) p v) else vmap m q)"
  "pmap (vtlb_VMap_page v p m) = pmap m" "host_memory_base (vtlb_VMap_page v p m) = host_memory_base m"
  "UnmappedVirtHandler (vtlb_VMap_page v p m) = UnmappedVirtHandler m"
  by (simp_all add: vtlb_VMap_page_def Let_def split: option.split)

text \<open>A window onto the first 512 MiB of the physical addresses.\<close>

lemma VMap_window:
  assumes "v AND 4095 = 0" "unat v + 0x20000000 < 2 ^ 32" "vtlb_VMap v 0 0x20000000 m = Some m'"
  shows "pmap m' = pmap m" "host_memory_base m' = host_memory_base m" "UnmappedVirtHandler m' = UnmappedVirtHandler m"
    and "vmap m' q = (if unat v div 4096 \<le> unat q \<and> unat q < unat v div 4096 + 0x20000
      then VTLBVirtual (pmap m (q - drop_bit 12 v)) (push_bit 12 q - v) (push_bit 12 q) else vmap m q)"
proof -
  define s where "s n = fold (\<lambda>i. vtlb_VMap_page (pg v i) (pg 0 i)) [0..<n] m" for n
  have m': "m' = s 0x20000" using assms(3) vtlb_VMap_pages [of "0x20000" v 0 m] by (simp add: s_def)
  have k: "pmap (s n) = pmap m" "host_memory_base (s n) = host_memory_base m" "UnmappedVirtHandler (s n) = UnmappedVirtHandler m" for n
    unfolding s_def by (rule fold_keeps; simp add: VMap_page_simps)+
  then show "pmap m' = pmap m" "host_memory_base m' = host_memory_base m" "UnmappedVirtHandler m' = UnmappedVirtHandler m"
    by (simp_all add: m')
  have "vmap (s n) q = (if unat v div 4096 \<le> unat q \<and> unat q < unat v div 4096 + n
      then VTLBVirtual (pmap m (q - drop_bit 12 v)) (push_bit 12 q - v) (push_bit 12 q) else vmap m q)"
    if "n \<le> 0x20000" for n
    using that
  proof (induction n)
    case 0
    then show ?case by (auto simp: s_def)
  next
    case (Suc n)
    have al: "pg v n AND 4095 = 0" by (rule pg_aligned [OF assms(1)])
    have u: "unat (drop_bit 12 (pg v n)) = unat v div 4096 + n"
      using page_number [of v "Suc n" n] Suc.prems assms(2) by simp
    then have q: "q = drop_bit 12 (pg v n) \<longleftrightarrow> unat q = unat v div 4096 + n" by (metis unsigned_word_eqI)
    have low: "\<not> VTLB_PMAP_SZ \<le> (of_nat n * 4096 :: u32)"
      using Suc.prems by (simp add: word_le_nat_alt unat_word_ariths unat_of_nat_u32)
    have e: "vmap (s (Suc n)) q = (if q = drop_bit 12 (pg v n)
        then VTLBVirtual (pmap m (drop_bit 12 (of_nat n * 4096))) (of_nat n * 4096) (pg v n) else vmap (s n) q)"
      using low k(1) [of n] by (simp add: s_def VMap_page_simps)
    have v: "push_bit 12 q = pg v n" "push_bit 12 q - v = of_nat n * 4096" "q - drop_bit 12 v = drop_bit 12 (of_nat n * 4096)"
      if "q = drop_bit 12 (pg v n)"
    proof -
      show p: "push_bit 12 q = pg v n" using aligned_push_bit [OF al] that by simp
      then show "push_bit 12 q - v = of_nat n * 4096" by simp
      have "unat (drop_bit 12 (of_nat n * 4096 :: u32)) = n" "unat (drop_bit 12 v) = unat v div 4096"
        using page_number [of 0 "Suc n" n] Suc.prems by (simp_all add: drop_bit_eq_div unat_div)
      moreover have "unat q = unat v div 4096 + n" using that u by simp
      ultimately show "q - drop_bit 12 v = drop_bit 12 (of_nat n * 4096)"
        by (simp add: word_unat_eq_iff unat_sub word_le_nat_alt)
    qed
    show ?case unfolding e using Suc q v by auto
  qed
  then show "vmap m' q = (if unat v div 4096 \<le> unat q \<and> unat q < unat v div 4096 + 0x20000
      then VTLBVirtual (pmap m (q - drop_bit 12 v)) (push_bit 12 q - v) (push_bit 12 q) else vmap m q)"
    unfolding m' by simp
qed

text \<open>The part of the address space that \<^verbatim>\<open>MapDirectVirtualMemoryWindow\<close> unmaps.\<close>

lemma VMapUnmap_window:
  assumes "v AND 4095 = 0" "unat v + n * 4096 < 2 ^ 32"
    and "m' = fold (\<lambda>i. vtlb_VMapUnmap_page (pg v i)) [0..<n] m"
  shows "pmap m' = pmap m \<and> host_memory_base m' = host_memory_base m \<and> UnmappedVirtHandler m' = UnmappedVirtHandler m \<and>
    (\<forall>q. vmap m' q = (if unat v div 4096 \<le> unat q \<and> unat q < unat v div 4096 + n
      then VTLBVirtual (VTLBPhysical_fromHandler (UnmappedVirtHandler m)) (push_bit 12 q) (push_bit 12 q) else vmap m q))"
  using assms(2,3)
proof (induction n arbitrary: m')
  case 0
  then show ?case by auto
next
  case (Suc n)
  let ?s = "fold (\<lambda>i. vtlb_VMapUnmap_page (pg v i)) [0..<n] m"
  have IH: "pmap ?s = pmap m" "host_memory_base ?s = host_memory_base m" "UnmappedVirtHandler ?s = UnmappedVirtHandler m"
    "vmap ?s q = (if unat v div 4096 \<le> unat q \<and> unat q < unat v div 4096 + n
      then VTLBVirtual (VTLBPhysical_fromHandler (UnmappedVirtHandler m)) (push_bit 12 q) (push_bit 12 q) else vmap m q)" for q
    using Suc.IH [OF _ refl] Suc.prems(1) by auto
  have "unat (drop_bit 12 (pg v n)) = unat v div 4096 + n"
    using page_number [of v "Suc n" n] Suc.prems by simp
  then have q: "q = drop_bit 12 (pg v n) \<longleftrightarrow> unat q = unat v div 4096 + n" for q by (metis unsigned_word_eqI)
  have "push_bit 12 (drop_bit 12 (pg v n)) = pg v n"
    by (rule aligned_push_bit [symmetric, OF pg_aligned [OF assms(1)]])
  then have "unat q = unat v div 4096 + n \<Longrightarrow> push_bit 12 q = pg v n" for q using q by metis
  then show ?case
    unfolding Suc.prems(2) by (auto simp: vtlb_VMapUnmap_page_def IH q less_Suc_eq)
qed

lemma windows_result:
  "\<exists>m'. Option.bind (MapKernelVirtualMirrors m) (MapDirectVirtualMemoryWindow MainRam) = Some m' \<and>
     HasDefaultMainRamIdentityWindow m' \<and> host_memory_base m' = host_memory_base m \<and>
     (\<forall>w \<in> {0, 0x80000000, 0xa0000000}. \<forall>q. unat q < 0x20000 \<longrightarrow>
        vmap m' (drop_bit 12 w + q) = VTLBVirtual (pmap m q) (push_bit 12 q) (w + push_bit 12 q)) \<and>
     (\<forall>q. 0x20000 \<le> unat q \<and> unat q < 0x80000 \<longrightarrow>
        vmap m' q = VTLBVirtual (VTLBPhysical_fromHandler (UnmappedVirtHandler m)) (push_bit 12 q) (push_bit 12 q))"
proof -
  obtain m5 where m5: "vtlb_VMap 0x80000000 0 0x20000000 m = Some m5"
    using vtlb_VMap_pages [of 131072 "0x80000000" 0 m] by simp
  obtain m6 where m6: "vtlb_VMap 0xa0000000 0 0x20000000 m5 = Some m6"
    using vtlb_VMap_pages [of 131072 "0xa0000000" 0 m5] by simp
  obtain m7 where m7: "vtlb_VMap 0 0 0x20000000 m6 = Some m7"
    using vtlb_VMap_pages [of 131072 0 0 m6] by simp
  define m8 where "m8 = fold (\<lambda>i. vtlb_VMapUnmap_page (pg 0x20000000 i)) [0..<393216] m7"
  have m8: "vtlb_VMapUnmap 0x20000000 0x60000000 m7 = Some m8"
    using vtlb_VMapUnmap_pages [of 393216 "0x20000000" m7] by (simp add: m8_def)
  note w5 = VMap_window [OF _ _ m5] and w6 = VMap_window [OF _ _ m6] and w7 = VMap_window [OF _ _ m7]
    and w8 = VMapUnmap_window [of "0x20000000" 393216 m8 m7, OF _ _ m8_def]
  let ?m = "SetDefaultMainRamIdentityWindow True m8"
  have run: "Option.bind (MapKernelVirtualMirrors m) (MapDirectVirtualMemoryWindow MainRam) = Some ?m"
    by (simp add: MapKernelVirtualMirrors_def MapDirectVirtualMemoryWindow_def m5 m6 m7 m8)
  have v: "vmap ?m q = vmap m8 q" "host_memory_base ?m = host_memory_base m8" for q
    by (simp_all add: SetDefaultMainRamIdentityWindow_def)
  have "HasDefaultMainRamIdentityWindow ?m"
    by (simp add: HasDefaultMainRamIdentityWindow_def SetDefaultMainRamIdentityWindow_def)
  moreover have "host_memory_base ?m = host_memory_base m"
    using w5(2) w6(2) w7(2) w8 by (simp add: v)
  moreover have "vmap ?m (drop_bit 12 w + q) = VTLBVirtual (pmap m q) (push_bit 12 q) (w + push_bit 12 q)"
    if w: "w \<in> {0, 0x80000000, 0xa0000000}" and q: "unat q < 0x20000" for w q
  proof -
    have "push_bit 12 (0x80000 + q) = 0x80000000 + push_bit 12 q" "push_bit 12 (0xa0000 + q) = 0xa0000000 + push_bit 12 q"
      by (simp_all add: push_bit_eq_mult distrib_left)
    then show ?thesis
      using w q w5 w6 w7 w8 by (auto simp: v unat_word_ariths)
  qed
  moreover have "vmap ?m q = VTLBVirtual (VTLBPhysical_fromHandler (UnmappedVirtHandler m)) (push_bit 12 q) (push_bit 12 q)"
    if "0x20000 \<le> unat q" "unat q < 0x80000" for q
    using that w5(3) w6(3) w7(3) w8 by (simp add: v)
  ultimately show ?thesis using run by blast
qed

subsection \<open>Properties\<close>

definition maps_to_memory :: "MapData \<Rightarrow> u32 \<Rightarrow> u32 \<Rightarrow> bool" where
  "maps_to_memory m v off \<longleftrightarrow> \<not> isHandler (vmap m (drop_bit 12 v)) v \<and>
     assumePtr m (vmap m (drop_bit 12 v)) v = host_memory_base m + off"

definition maps_to_handler :: "MapData \<Rightarrow> u32 \<Rightarrow> u8 \<Rightarrow> u32 \<Rightarrow> bool" where
  "maps_to_handler m v h paddr \<longleftrightarrow> isHandler (vmap m (drop_bit 12 v)) v \<and>
     assumeHandlerGetID (vmap m (drop_bit 12 v)) = h \<and> assumeHandlerGetPAddr (vmap m (drop_bit 12 v)) v = paddr"

lemma page_split:
  fixes a :: u32
  obtains q k where "a = push_bit 12 q + k" "k < 4096" "unat q = unat a div 4096"
proof -
  have "a = push_bit 12 (drop_bit 12 a) + take_bit 12 a" using bits_ident [of 12 a] by simp
  moreover have "take_bit 12 a < 4096" by (simp add: word_less_nat_alt unsigned_take_bit_eq take_bit_nat_def)
  moreover have "unat (drop_bit 12 a) = unat a div 4096" by (simp add: drop_bit_eq_div unat_div)
  ultimately show thesis by (rule that)
qed

lemma push_page_aligned: "(push_bit 12 (q::u32)) AND 4095 = 0"
  by (simp add: word32_bitwise bit_simps)

lemma unat_push_page: "unat (q::u32) < 2 ^ 20 \<Longrightarrow> unat (push_bit 12 q) = unat q * 4096"
  by (simp add: push_bit_eq_mult unat_word_ariths)

lemma page_of_push:
  assumes "unat (q::u32) < 2 ^ 20" "k < 4096"
  shows "drop_bit 12 (push_bit 12 q + k) = q"
proof -
  have "q < 2 ^ 20" using assms(1) by (simp add: word_less_nat_alt)
  then have "bit q n \<Longrightarrow> n < 20" for n using word_less_exp_bits [of q 20 n] by force
  then have "drop_bit 12 (push_bit 12 q) = q" by (auto intro!: bit_word_eqI simp: bit_simps)
  then show ?thesis using page_of_aligned_add [OF push_page_aligned assms(2), of q] by simp
qed

lemma window_page:
  fixes w q k :: u32
  assumes "w \<in> {0, 0x80000000, 0xa0000000}" "k < 4096" "unat q < 0x20000"
  shows "drop_bit 12 (w + (push_bit 12 q + k)) = drop_bit 12 w + q" "(w + push_bit 12 q) AND 4095 = 0"
proof -
  have w: "w + push_bit 12 q = push_bit 12 (drop_bit 12 w + q)" "unat (drop_bit 12 w + q) < 2 ^ 20"
    using assms(1,3) by (auto simp: push_bit_eq_mult distrib_left unat_word_ariths)
  show "drop_bit 12 (w + (push_bit 12 q + k)) = drop_bit 12 w + q"
    using page_of_push [OF w(2) assms(2)] by (simp add: w(1) [symmetric] add.assoc)
  show "(w + push_bit 12 q) AND 4095 = 0" unfolding w(1) by (rule push_page_aligned)
qed

text \<open>The entries the set-up leaves in the virtual table, by page.\<close>

definition setup_entries :: "MapData \<Rightarrow> bool" where
  "setup_entries m \<longleftrightarrow>
    (\<forall>w \<in> {0, 0x80000000, 0xa0000000}.
      (\<forall>q. unat q < 8192 \<longrightarrow>
         vmap m (drop_bit 12 w + q) = VTLBVirtual (push_bit 12 q) (push_bit 12 q) (w + push_bit 12 q)) \<and>
      (\<forall>i < 16. let q = 0x10000 + of_nat i in
         vmap m (drop_bit 12 w + q) = VTLBVirtual (VTLBPhysical_fromHandler (18 + of_nat i)) (push_bit 12 q) (w + push_bit 12 q))) \<and>
    (\<forall>q. 0x20000 \<le> unat q \<and> unat q < 0x80000 \<longrightarrow>
       vmap m q = VTLBVirtual (VTLBPhysical_fromHandler 0) (push_bit 12 q) (push_bit 12 q))"

lemma memReset_entries:
  "\<exists>m. memReset goemon MainRam rom rom1 rom2 vu0_mem m0 = Some m \<and> HasDefaultMainRamIdentityWindow m \<and>
     host_memory_base m = host_memory_base m0 \<and> setup_entries m"
proof -
  obtain m1 where m1: "vtlb_Init goemon m0 = Some m1" using vtlb_Init_returns by blast
  note k1 = Init_keeps [OF m1]
  obtain h m2 where reg: "memRegisterHandlers m1 = (h, m2)" "m2 = m1\<lparr>vtlbHandlerCount := 37\<rparr>"
    "hw_by_page h = map (\<lambda>i. 18 + of_nat i) [0..<16]" using registered [OF k1(1)] by blast
  obtain m3 where m3: "memMapPhy h MainRam rom rom1 rom2 m2 = Some m3" "host_memory_base m3 = host_memory_base m2"
    "UnmappedVirtHandler m3 = UnmappedVirtHandler m2" "\<And>p. unat p < 8192 \<Longrightarrow> pmap m3 p = push_bit 12 p"
    "\<And>i. i < 16 \<Longrightarrow> pmap m3 (0x10000 + of_nat i) = VTLBPhysical_fromHandler (18 + of_nat i)"
    using memMapPhy_result [of h rom rom1 rom2 m2] by (auto simp: reg(3))
  obtain m4 where m4: "memMapVUmicro h vu0_mem m3 = Some m4" "host_memory_base m4 = host_memory_base m3"
    "UnmappedVirtHandler m4 = UnmappedVirtHandler m3" "\<And>p. unat p < 0x11000 \<Longrightarrow> pmap m4 p = pmap m3 p"
    using memMapVUmicro_result by blast
  obtain m where m: "Option.bind (MapKernelVirtualMirrors m4) (MapDirectVirtualMemoryWindow MainRam) = Some m"
    "HasDefaultMainRamIdentityWindow m" "host_memory_base m = host_memory_base m4"
    "\<And>w q. w \<in> {0, 0x80000000, 0xa0000000} \<Longrightarrow> unat q < 0x20000 \<Longrightarrow>
       vmap m (drop_bit 12 w + q) = VTLBVirtual (pmap m4 q) (push_bit 12 q) (w + push_bit 12 q)"
    "\<And>q. 0x20000 \<le> unat q \<Longrightarrow> unat q < 0x80000 \<Longrightarrow>
       vmap m q = VTLBVirtual (VTLBPhysical_fromHandler (UnmappedVirtHandler m4)) (push_bit 12 q) (push_bit 12 q)"
    using windows_result [of m4] by blast
  have hw: "unat (0x10000 + of_nat i :: u32) = 0x10000 + i" if "i < 16" for i
    using that by (simp add: unat_word_ariths unat_of_nat_u32)
  have "memReset goemon MainRam rom rom1 rom2 vu0_mem m0 = Some m"
    by (simp add: memReset_def m1 reg(1) m3(1) m4(1) m(1))
  moreover have "host_memory_base m = host_memory_base m0" by (simp add: m(3) m4(2) m3(2) reg(2) k1(2))
  moreover have "setup_entries m"
    unfolding setup_entries_def Let_def
    by (intro conjI ballI allI impI) (simp_all add: m(4,5) m4(3,4) m3(3-5) reg(2) k1(3) hw)
  ultimately show ?thesis using m(2) by blast
qed

lemma entries_ram:
  assumes "setup_entries m" "w \<in> {0, 0x80000000, 0xa0000000}" "a < MainRam"
  shows "maps_to_memory m (w + a) a"
proof -
  obtain q k where q: "a = push_bit 12 q + k" "k < 4096" "unat q = unat a div 4096" by (rule page_split)
  have u: "unat q < 8192" unfolding q(3) using assms(3) by (simp add: word_less_nat_alt less_mult_imp_div_less)
  have e: "vmap m (drop_bit 12 (w + a)) = VTLBVirtual (push_bit 12 q) (push_bit 12 q) (w + push_bit 12 q)"
    using assms(1,2) u unfolding q(1) by (simp only: window_page(1) [OF assms(2) q(2)] setup_entries_def)
  have off: "push_bit 12 q < (0x7ffff000 :: u32)" using u by (simp add: word_less_nat_alt unat_push_page)
  show ?thesis
    using pointer_entry(1) [OF off q(2), of "push_bit 12 q" "w + push_bit 12 q"]
      pointer_entry(2) [OF off q(2), of m "push_bit 12 q" "w + push_bit 12 q"]
    unfolding maps_to_memory_def e by (simp add: q(1) add.assoc)
qed

lemma entries_hw:
  assumes "setup_entries m" "w \<in> {0, 0x80000000, 0xa0000000}" "i < 16" "k < 0x1000"
  shows "maps_to_handler m (w + (0x10000000 + of_nat i * 0x1000 + k)) (18 + of_nat i) (0x10000000 + of_nat i * 0x1000 + k)"
proof -
  define q :: u32 where "q = 0x10000 + of_nat i"
  have u: "unat q = 0x10000 + i" using assms(3) by (simp add: q_def unat_word_ariths unat_of_nat_u32)
  have p: "push_bit 12 q = 0x10000000 + of_nat i * 0x1000" by (simp add: q_def push_bit_eq_mult distrib_right)
  have "unat q < 0x20000" using u assms(3) by simp
  then have e: "vmap m (drop_bit 12 (w + (push_bit 12 q + k))) =
      VTLBVirtual (VTLBPhysical_fromHandler (18 + of_nat i)) (push_bit 12 q) (w + push_bit 12 q)"
    using assms(1-3) unfolding q_def by (simp only: window_page(1) [OF assms(2,4)] setup_entries_def Let_def)
  have "18 + of_nat i < (128 :: u32)" "push_bit 12 q < (0x7fffe000 :: u32)"
    using assms(3) u by (simp_all add: word_less_nat_alt unat_word_ariths unat_of_nat_u32 unat_push_page)
  from handler_entry [OF this(1) push_page_aligned window_page(2) [OF assms(2,4), of q] assms(4) this(2)]
  have r: "isHandler (vmap m (drop_bit 12 (w + (push_bit 12 q + k)))) (w + (push_bit 12 q + k)) \<and>
      assumeHandlerGetID (vmap m (drop_bit 12 (w + (push_bit 12 q + k)))) = ucast (18 + of_nat i :: u32) \<and>
      assumeHandlerGetPAddr (vmap m (drop_bit 12 (w + (push_bit 12 q + k)))) (w + (push_bit 12 q + k)) = push_bit 12 q + k"
    using u assms(3) unfolding e by (simp add: add.assoc)
  have "(ucast (of_nat i :: u32) :: u8) = of_nat i" by transfer (simp add: take_bit_take_bit min_def)
  then have "ucast (18 + of_nat i :: u32) = (18 + of_nat i :: u8)" by (simp add: ucast_u8_add)
  then show ?thesis using r unfolding maps_to_handler_def p [symmetric] by simp
qed

lemma entries_unmapped:
  assumes "setup_entries m" "0x20000000 \<le> v" "v < 0x7fffe000"
  shows "maps_to_handler m v 0 v"
proof -
  obtain q k where q: "v = push_bit 12 q + k" "k < 4096" "unat q = unat v div 4096" by (rule page_split)
  have u: "0x20000 \<le> unat q" "unat q < 0x7fffe"
    unfolding q(3) using assms(2,3) by (simp_all add: word_less_nat_alt word_le_nat_alt less_mult_imp_div_less)
  have "vmap m q = VTLBVirtual (VTLBPhysical_fromHandler 0) (push_bit 12 q) (push_bit 12 q)"
    using assms(1) u unfolding setup_entries_def by simp
  then have e: "vmap m (drop_bit 12 v) = VTLBVirtual (VTLBPhysical_fromHandler 0) (push_bit 12 q) (push_bit 12 q)"
    using u unfolding q(1) by (simp add: page_of_push [OF _ q(2)])
  have "push_bit 12 q < (0x7fffe000 :: u32)" using u by (simp add: word_less_nat_alt unat_push_page)
  from handler_entry [OF _ push_page_aligned push_page_aligned q(2) this, of 0 q]
  show ?thesis unfolding maps_to_handler_def e by (simp add: q(1))
qed

text \<open>C29: The set-up of the page tables by \<^verbatim>\<open>memReset\<close> ends, from any state of the tables, and
  builds the memory map of the machine: in the direct window and in both kernel mirrors every address
  of the 32 MiB of main memory is a direct access at the same offset of the host arena, and every
  address of the sixteen pages of hardware registers goes to the handler of its page with its
  physical address; the user addresses above the direct window go to the handler of unmapped
  addresses; and the identity window is up.\<close>

theorem memory_map_setup:
  "\<exists>m. memReset goemon MainRam rom rom1 rom2 vu0_mem m0 = Some m \<and> HasDefaultMainRamIdentityWindow m \<and>
     host_memory_base m = host_memory_base m0 \<and>
     (\<forall>w \<in> {0, 0x80000000, 0xa0000000}.
        (\<forall>a < MainRam. maps_to_memory m (w + a) a) \<and>
        (\<forall>i < 16. \<forall>k < 0x1000. maps_to_handler m (w + (0x10000000 + of_nat i * 0x1000 + k)) (18 + of_nat i)
           (0x10000000 + of_nat i * 0x1000 + k))) \<and>
     (\<forall>v. 0x20000000 \<le> v \<and> v < 0x7fffe000 \<longrightarrow> maps_to_handler m v 0 v)"
proof -
  obtain m where "memReset goemon MainRam rom rom1 rom2 vu0_mem m0 = Some m" "HasDefaultMainRamIdentityWindow m"
    "host_memory_base m = host_memory_base m0" "setup_entries m" using memReset_entries by blast
  then show ?thesis
    by (intro exI [of _ m] conjI ballI allI impI) (simp_all add: entries_ram entries_hw entries_unmapped)
qed

theorem memory_map_setup_witness:
  "\<exists>m0 m. memReset False MainRam 0 0x400000 0x800000 0xc00000 m0 = Some m \<and> maps_to_memory m 0x80001234 0x1234 \<and>
     maps_to_handler m 0xb000f010 33 0x1000f010 \<and> maps_to_handler m 0x30000000 0 0x30000000"
proof -
  fix m0 :: MapData
  obtain m where m: "memReset False MainRam 0 0x400000 0x800000 0xc00000 m0 = Some m"
    "\<And>w a. w \<in> {0, 0x80000000, 0xa0000000} \<Longrightarrow> a < MainRam \<Longrightarrow> maps_to_memory m (w + a) a"
    "\<And>w i k. w \<in> {0, 0x80000000, 0xa0000000} \<Longrightarrow> i < 16 \<Longrightarrow> k < 0x1000 \<Longrightarrow>
       maps_to_handler m (w + (0x10000000 + of_nat i * 0x1000 + k)) (18 + of_nat i) (0x10000000 + of_nat i * 0x1000 + k)"
    "\<And>v. 0x20000000 \<le> v \<Longrightarrow> v < 0x7fffe000 \<Longrightarrow> maps_to_handler m v 0 v"
    using memory_map_setup [of False 0 "0x400000" "0x800000" "0xc00000" m0] by blast
  show ?thesis
    using m(1) m(2) [of "0x80000000" "0x1234"] m(3) [of "0xa0000000" 15 "0x10"] m(4) [of "0x30000000"] by auto
qed

end
