(* ===== verification/EE_Regs.thy ===== *)
theory EE_Regs
  imports Prelude "HOL-Library.Signed_Division"
begin

text \<open>
  The register state of the Emotion Engine core (\<^verbatim>\<open>pcsx2/R5900.h\<close>): the 128-bit
  \<^verbatim>\<open>GPR_reg\<close> union with its doubleword, word, halfword and byte views, the
  \<^verbatim>\<open>cpuRegisters\<close> structure, the macros that read the fields of the current
  instruction, and \<^verbatim>\<open>cpuException\<close> of \<^verbatim>\<open>pcsx2/R5900.cpp\<close>.
  A signed C value of \<open>w\<close> bits is the \<open>w\<close>-bit word with the same bits; signed
  comparisons are \<open><s\<close>, signed right shifts \<open>signed_drop_bit\<close>, and a conversion to
  a wider signed type is \<open>scast\<close>.
\<close>

subsection \<open>The views of a 128-bit register\<close>

definition lane :: "nat \<Rightarrow> u128 \<Rightarrow> 'l::len word" where
  "lane n v = ucast (drop_bit (n * LENGTH('l)) v)"

definition set_lane :: "nat \<Rightarrow> 'l::len word \<Rightarrow> u128 \<Rightarrow> u128" where
  "set_lane n x v = (v AND NOT (push_bit (n * LENGTH('l)) (mask LENGTH('l))))
     OR push_bit (n * LENGTH('l)) (ucast x)"

abbreviation UD :: "u128 \<Rightarrow> nat \<Rightarrow> u64" where "UD v n \<equiv> lane n v"
abbreviation UL :: "u128 \<Rightarrow> nat \<Rightarrow> u32" where "UL v n \<equiv> lane n v"
abbreviation US :: "u128 \<Rightarrow> nat \<Rightarrow> u16" where "US v n \<equiv> lane n v"
abbreviation UC :: "u128 \<Rightarrow> nat \<Rightarrow> u8" where "UC v n \<equiv> lane n v"

abbreviation set_UD :: "nat \<Rightarrow> u64 \<Rightarrow> u128 \<Rightarrow> u128" where "set_UD \<equiv> set_lane"
abbreviation set_UL :: "nat \<Rightarrow> u32 \<Rightarrow> u128 \<Rightarrow> u128" where "set_UL \<equiv> set_lane"
abbreviation set_US :: "nat \<Rightarrow> u16 \<Rightarrow> u128 \<Rightarrow> u128" where "set_US \<equiv> set_lane"
abbreviation set_UC :: "nat \<Rightarrow> u8 \<Rightarrow> u128 \<Rightarrow> u128" where "set_UC \<equiv> set_lane"

lemma bit_lane [bit_simps]:
  "bit (lane n v :: 'l::len word) i \<longleftrightarrow> i < LENGTH('l) \<and> bit v (n * LENGTH('l) + i)"
  by (auto simp: lane_def bit_simps ac_simps)

lemma bit_set_lane [bit_simps]:
  "bit (set_lane n (x :: 'l::len word) v) i \<longleftrightarrow> i < 128 \<and>
     (if n * LENGTH('l) \<le> i \<and> i < Suc n * LENGTH('l) then bit x (i - n * LENGTH('l)) else bit v i)"
  by (auto simp: set_lane_def bit_simps not_less dest: bit_imp_le_length)

text \<open>What the union promises of the lanes of one width: a written lane reads back, the
  others are kept, and a register is determined by its lanes.\<close>

locale lanes =
  fixes get :: "nat \<Rightarrow> 'v \<Rightarrow> 'l" and set_l :: "nat \<Rightarrow> 'l \<Rightarrow> 'v \<Rightarrow> 'v" and count :: nat
  assumes get_set_same: "n < count \<Longrightarrow> get n (set_l n x v) = x"
    and get_set_other: "n < count \<Longrightarrow> m < count \<Longrightarrow> m \<noteq> n \<Longrightarrow> get m (set_l n x v) = get m v"
    and lanes_ext: "(\<And>n. n < count \<Longrightarrow> get n v = get n w) \<Longrightarrow> v = w"
begin

text \<open>The lane operations of the interpreter write the lanes of the destination register one
  after another and read the sources at every step; \<open>R\<close> is the register file.\<close>

definition lane_step :: "('l \<Rightarrow> 'l \<Rightarrow> 'l) \<Rightarrow> 'r \<Rightarrow> 'r \<Rightarrow> 'r \<Rightarrow> nat \<Rightarrow> ('r \<Rightarrow> 'v) \<Rightarrow> ('r \<Rightarrow> 'v)" where
  "lane_step f rd rs rt n R = R(rd := set_l n (f (get n (R rs)) (get n (R rt))) (R rd))"

lemma get_set: "n < count \<Longrightarrow> m < count \<Longrightarrow> get m (set_l n x v) = (if m = n then x else get m v)"
  by (simp add: get_set_same get_set_other)

lemma set_get [simp]: "n < count \<Longrightarrow> set_l n (get n v) v = v"
  by (rule lanes_ext) (simp add: get_set)

lemma set_set [simp]: "n < count \<Longrightarrow> set_l n x (set_l n y v) = set_l n x v"
  by (rule lanes_ext) (simp add: get_set)

lemma fold_lane_step_other:
  "r \<noteq> rd \<Longrightarrow> fold (lane_step f rd rs rt) ns R r = R r"
  by (induction ns arbitrary: R) (simp_all add: lane_step_def)

text \<open>Whichever of the three registers coincide, the sequential writes give every lane the
  function of the lanes the sources had at the start.\<close>

lemma fold_lane_step:
  assumes "distinct ns" and "set ns \<subseteq> {..<count}" and "m < count"
  shows "get m (fold (lane_step f rd rs rt) ns R rd) =
    (if m \<in> set ns then f (get m (R rs)) (get m (R rt)) else get m (R rd))"
  using assms
proof (induction ns arbitrary: R)
  case Nil
  then show ?case by simp
next
  case (Cons n ns)
  have keep: "get k (lane_step f rd rs rt n R r) = get k (R r)" if "k < count" "k \<noteq> n" for k r
    using that Cons.prems by (simp add: lane_step_def get_set)
  have new: "get n (lane_step f rd rs rt n R rd) = f (get n (R rs)) (get n (R rt))"
    using Cons.prems by (simp add: lane_step_def get_set)
  show ?case
    using Cons.prems Cons.IH [of "lane_step f rd rs rt n R"] keep [of m] new
    by (cases "m = n") auto
qed

lemma fold_lane_step_all:
  "m < count \<Longrightarrow>
   get m (fold (lane_step f rd rs rt) [0..<count] R rd) = f (get m (R rs)) (get m (R rt))"
  by (subst fold_lane_step) auto

end

lemma lanes_word:
  assumes "128 = c * LENGTH('l::len)"
  shows "lanes (lane :: nat \<Rightarrow> u128 \<Rightarrow> 'l word) set_lane c"
proof
  fix n :: nat and x :: "'l word" and v :: u128
  assume "n < c"
  then have "Suc n * LENGTH('l) \<le> 128" unfolding assms by (intro mult_right_mono) simp_all
  then show "lane n (set_lane n x v) = x"
    by (auto simp: bit_simps intro!: bit_word_eqI)
next
  fix n m :: nat and x :: "'l word" and v :: u128
  assume "n < c" "m < c" "m \<noteq> n"
  have bound: "Suc m * LENGTH('l) \<le> 128"
    unfolding assms using \<open>m < c\<close> by (intro mult_right_mono) simp_all
  from \<open>m \<noteq> n\<close> consider "Suc m \<le> n" | "Suc n \<le> m" by linarith
  then have "Suc m * LENGTH('l) \<le> n * LENGTH('l) \<or> Suc n * LENGTH('l) \<le> m * LENGTH('l)"
    by cases (auto simp del: mult_Suc intro: mult_right_mono)
  with bound show "lane m (set_lane n x v) = (lane m v :: 'l word)"
    by (auto simp: bit_simps intro!: bit_word_eqI)
next
  fix v w :: u128
  assume eq: "\<And>n. n < c \<Longrightarrow> lane n v = (lane n w :: 'l word)"
  show "v = w"
  proof (rule bit_word_eqI)
    fix i assume "i < LENGTH(128)"
    then have i: "i < c * LENGTH('l)" using assms by simp
    let ?n = "i div LENGTH('l)" and ?k = "i mod LENGTH('l)"
    have "?n < c" using i by (simp add: less_mult_imp_div_less)
    from eq [OF this] have "bit (lane ?n v :: 'l word) ?k = bit (lane ?n w :: 'l word) ?k" by simp
    then show "bit v i = bit w i" by (simp add: bit_simps)
  qed
qed

interpretation ud: lanes "lane :: nat \<Rightarrow> u128 \<Rightarrow> u64" set_lane 2
  by (rule lanes_word) simp

interpretation ul: lanes "lane :: nat \<Rightarrow> u128 \<Rightarrow> u32" set_lane 4
  by (rule lanes_word) simp

interpretation us: lanes "lane :: nat \<Rightarrow> u128 \<Rightarrow> u16" set_lane 8
  by (rule lanes_word) simp

interpretation uc: lanes "lane :: nat \<Rightarrow> u128 \<Rightarrow> u8" set_lane 16
  by (rule lanes_word) simp

lemmas lane_get_set [simp] = ud.get_set ul.get_set us.get_set uc.get_set

subsection \<open>The register file and the current instruction\<close>

text \<open>
  \<^verbatim>\<open>cpuRegisters\<close>, less the fields the modelled operations never touch. The
  register indices are 5-bit fields, so the elements of \<open>GPR\<close> and \<open>CP0\<close> beyond 31 are
  never accessed. \<open>branch\<close> is not zero while the instruction in a delay slot executes.
\<close>

record cpuRegisters =
  GPR :: "u32 \<Rightarrow> u128"
  HI :: u128
  LO :: u128
  CP0 :: "u32 \<Rightarrow> u32"
  sa :: u32
  pc :: u32
  code :: u32
  branch :: u32
  cycle :: u64
  nextEventCycle :: u64

text \<open>The assignment \<^verbatim>\<open>cpuRegs.GPR.r[r].<lane> = x\<close> is \<open>wGPR r (set_<lane> n x)\<close>, and
  likewise for \<open>HI\<close> and \<open>LO\<close>.\<close>

definition wGPR :: "u32 \<Rightarrow> (u128 \<Rightarrow> u128) \<Rightarrow> cpuRegisters \<Rightarrow> cpuRegisters" where
  "wGPR r f s = s\<lparr>GPR := (GPR s)(r := f (GPR s r))\<rparr>"

definition wCP0 :: "u32 \<Rightarrow> u32 \<Rightarrow> cpuRegisters \<Rightarrow> cpuRegisters" where
  "wCP0 r x s = s\<lparr>CP0 := (CP0 s)(r := x)\<rparr>"

definition iRd :: "cpuRegisters \<Rightarrow> u32" where
  "iRd s = drop_bit 11 (code s) AND 0x1F"

definition iRt :: "cpuRegisters \<Rightarrow> u32" where
  "iRt s = drop_bit 16 (code s) AND 0x1F"

definition iRs :: "cpuRegisters \<Rightarrow> u32" where
  "iRs s = drop_bit 21 (code s) AND 0x1F"

definition iSa :: "cpuRegisters \<Rightarrow> u32" where
  "iSa s = drop_bit 6 (code s) AND 0x1F"

definition iImm :: "cpuRegisters \<Rightarrow> u16" where
  "iImm s = ucast (code s)"

definition iImmU :: "cpuRegisters \<Rightarrow> u32" where
  "iImmU s = code s AND 0xffff"

definition iInstrucTarget :: "cpuRegisters \<Rightarrow> u32" where
  "iInstrucTarget s = code s AND 0x03ffffff"

definition iJumpTarget :: "cpuRegisters \<Rightarrow> u32" where
  "iJumpTarget s = push_bit 2 (iInstrucTarget s) + (pc s AND 0xf0000000)"

definition iBranchTarget :: "cpuRegisters \<Rightarrow> u32" where
  "iBranchTarget s = scast (iImm s) * 4 + pc s"

definition SetLink :: "u32 \<Rightarrow> cpuRegisters \<Rightarrow> cpuRegisters" where
  "SetLink x s = wGPR x (set_UD 0 (ucast (pc s + 4))) s"

lemma word_and_31_less: "(x::u32) AND 0x1F < 32"
  using word_and_le1 [of x "0x1F"] by (rule order.strict_trans1) simp

lemma iRd_less: "iRd s < 32" and iRt_less: "iRt s < 32" and iRs_less: "iRs s < 32"
  and iSa_less: "iSa s < 32"
  by (simp_all only: iRd_def iRt_def iRs_def iSa_def word_and_31_less)

lemma wGPR_simps [simp]:
  "GPR (wGPR r f s) = (GPR s)(r := f (GPR s r))"
  "HI (wGPR r f s) = HI s" "LO (wGPR r f s) = LO s" "CP0 (wGPR r f s) = CP0 s"
  "sa (wGPR r f s) = sa s" "pc (wGPR r f s) = pc s" "code (wGPR r f s) = code s"
  "branch (wGPR r f s) = branch s" "cycle (wGPR r f s) = cycle s"
  "nextEventCycle (wGPR r f s) = nextEventCycle s"
  by (simp_all add: wGPR_def)

lemma wCP0_simps [simp]:
  "CP0 (wCP0 r x s) = (CP0 s)(r := x)"
  "GPR (wCP0 r x s) = GPR s" "HI (wCP0 r x s) = HI s" "LO (wCP0 r x s) = LO s"
  "sa (wCP0 r x s) = sa s" "pc (wCP0 r x s) = pc s" "code (wCP0 r x s) = code s"
  "branch (wCP0 r x s) = branch s" "cycle (wCP0 r x s) = cycle s"
  "nextEventCycle (wCP0 r x s) = nextEventCycle s"
  by (simp_all add: wCP0_def)

text \<open>The fields depend on the instruction word only.\<close>

lemma fields_cong:
  "code s' = code s \<Longrightarrow> iRd s' = iRd s \<and> iRt s' = iRt s \<and> iRs s' = iRs s \<and> iSa s' = iSa s \<and>
     iImm s' = iImm s \<and> iImmU s' = iImmU s"
  by (simp add: iRd_def iRt_def iRs_def iSa_def iImm_def iImmU_def)

lemma fields_wGPR [simp]:
  "iRd (wGPR r f s) = iRd s" "iRt (wGPR r f s) = iRt s" "iRs (wGPR r f s) = iRs s"
  "iSa (wGPR r f s) = iSa s" "iImm (wGPR r f s) = iImm s" "iImmU (wGPR r f s) = iImmU s"
  using fields_cong [of "wGPR r f s" s] by simp_all

lemma fields_upd [simp]:
  "iRd (s\<lparr>HI := h\<rparr>) = iRd s" "iRt (s\<lparr>HI := h\<rparr>) = iRt s" "iRs (s\<lparr>HI := h\<rparr>) = iRs s"
  "iRd (s\<lparr>LO := h\<rparr>) = iRd s" "iRt (s\<lparr>LO := h\<rparr>) = iRt s" "iRs (s\<lparr>LO := h\<rparr>) = iRs s"
  by (simp_all add: iRd_def iRt_def iRs_def)

subsection \<open>Exceptions\<close>

text \<open>Coprocessor 0 register numbers, and the bits of \<^verbatim>\<open>Status\<close> that
  \<^verbatim>\<open>cpuException\<close> reads.\<close>

abbreviation "CP0_BadVAddr \<equiv> 8 :: u32"
abbreviation "CP0_Context \<equiv> 4 :: u32"
abbreviation "CP0_EntryHi \<equiv> 10 :: u32"
abbreviation "CP0_Status \<equiv> 12 :: u32"
abbreviation "CP0_Cause \<equiv> 13 :: u32"
abbreviation "CP0_EPC \<equiv> 14 :: u32"
abbreviation "CP0_Config \<equiv> 16 :: u32"

definition Status_EXL :: "cpuRegisters \<Rightarrow> bool" where
  "Status_EXL s = bit (CP0 s CP0_Status) 1"

definition Status_ERL :: "cpuRegisters \<Rightarrow> bool" where
  "Status_ERL s = bit (CP0 s CP0_Status) 2"

definition Status_BEV :: "cpuRegisters \<Rightarrow> bool" where
  "Status_BEV s = bit (CP0 s CP0_Status) 22"

definition Status_DEV :: "cpuRegisters \<Rightarrow> bool" where
  "Status_DEV s = bit (CP0 s CP0_Status) 23"

definition cpuException :: "u32 \<Rightarrow> u32 \<Rightarrow> cpuRegisters \<Rightarrow> cpuRegisters" where
  "cpuException c bd s0 =
    (let s = wCP0 CP0_Cause (c AND 0xffff) (s0\<lparr>branch := 0\<rparr>);
         errLevel2 = Status_ERL s;
         checkStatus = (if \<not> errLevel2 then \<not> Status_BEV s else \<not> Status_DEV s);
         offset = (if \<not> errLevel2
                   then (if 0x8 \<le> c AND 0x7C \<and> c AND 0x7C \<le> 0xC then 0x0
                         else if c AND 0x7C = 0x0 then 0x200 else 0x180)
                   else (if c AND 0x38000 = 0x10000 then 0x80
                         else if c AND 0x38000 = 0x18000 then 0x100 else 0 :: u32))
     in if errLevel2 \<and> c AND 0x38000 \<le> 0x8000 then s\<lparr>pc := 0xBFC00000\<rparr>
        else let (s', offset') =
               (if \<not> Status_EXL s
                then let t = wCP0 CP0_Status (CP0 s CP0_Status OR 2) s
                     in (if bd \<noteq> 0
                         then wCP0 CP0_Cause (CP0 t CP0_Cause OR 0x80000000)
                                (wCP0 CP0_EPC (pc t - 4) t)
                         else wCP0 CP0_Cause (CP0 t CP0_Cause AND NOT 0x80000000)
                                (wCP0 CP0_EPC (pc t) t), offset)
                else (s, 0x180))
             in s'\<lparr>pc := (if checkStatus then 0x80000000 else 0xBFC00200) + offset'\<rparr>)"

definition cpuTlbMiss :: "u32 \<Rightarrow> u32 \<Rightarrow> u32 \<Rightarrow> cpuRegisters \<Rightarrow> cpuRegisters" where
  "cpuTlbMiss addr bd excode s0 =
    (let s1 = wCP0 CP0_BadVAddr addr s0;
         s2 = wCP0 CP0_Context (CP0 s1 CP0_Context AND 0xFF80000F) s1;
         s3 = wCP0 CP0_Context (CP0 s2 CP0_Context OR (drop_bit 9 addr AND 0x007FFFF0)) s2;
         s4 = wCP0 CP0_EntryHi ((addr AND 0xFFFFE000) OR (CP0 s3 CP0_EntryHi AND 0x1FFF)) s3
     in cpuException excode bd (s4\<lparr>pc := pc s4 - 4\<rparr>))"

lemma cpuException_keeps [simp]:
  "GPR (cpuException c bd s) = GPR s" "HI (cpuException c bd s) = HI s"
  "LO (cpuException c bd s) = LO s" "sa (cpuException c bd s) = sa s"
  "code (cpuException c bd s) = code s" "cycle (cpuException c bd s) = cycle s"
  "nextEventCycle (cpuException c bd s) = nextEventCycle s"
  by (simp_all add: cpuException_def Let_def)

lemma cpuException_branch [simp]: "branch (cpuException c bd s) = 0"
  by (simp add: cpuException_def Let_def)

lemma cpuTlbMiss_keeps [simp]:
  "GPR (cpuTlbMiss a bd c s) = GPR s" "HI (cpuTlbMiss a bd c s) = HI s"
  "LO (cpuTlbMiss a bd c s) = LO s" "sa (cpuTlbMiss a bd c s) = sa s"
  "code (cpuTlbMiss a bd c s) = code s" "branch (cpuTlbMiss a bd c s) = 0"
  by (simp_all add: cpuTlbMiss_def Let_def)

text \<open>A general exception outside the error and exception levels: the cause and the address of
  the faulting instruction (of the branch, in a delay slot) are recorded and control passes to the
  common vector.\<close>

lemma cpuException_general:
  assumes "\<not> Status_ERL s" "\<not> Status_EXL s" "0xC < c AND 0x7C"
  shows "pc (cpuException c bd s) = (if Status_BEV s then 0xBFC00380 else 0x80000180)"
    and "CP0 (cpuException c bd s) CP0_EPC = (if bd = 0 then pc s else pc s - 4)"
    and "bit (CP0 (cpuException c bd s) CP0_Cause) 31 \<longleftrightarrow> bd \<noteq> 0"
    and "Status_EXL (cpuException c bd s)"
proof -
  have *: "\<not> (c AND 0x7C \<le> 0xC)" "c AND 0x7C \<noteq> 0" using assms(3) by auto
  have inv: "Status_ERL (wCP0 CP0_Cause x (s\<lparr>branch := 0\<rparr>)) = Status_ERL s"
    "Status_EXL (wCP0 CP0_Cause x (s\<lparr>branch := 0\<rparr>)) = Status_EXL s"
    "Status_BEV (wCP0 CP0_Cause x (s\<lparr>branch := 0\<rparr>)) = Status_BEV s" for x
    by (simp_all add: Status_ERL_def Status_EXL_def Status_BEV_def)
  show "pc (cpuException c bd s) = (if Status_BEV s then 0xBFC00380 else 0x80000180)"
    "CP0 (cpuException c bd s) CP0_EPC = (if bd = 0 then pc s else pc s - 4)"
    using * assms by (simp_all add: cpuException_def Let_def inv)
  show "bit (CP0 (cpuException c bd s) CP0_Cause) 31 \<longleftrightarrow> bd \<noteq> 0"
    "Status_EXL (cpuException c bd s)"
    using * assms unfolding cpuException_def Let_def inv
    by (simp_all add: Status_EXL_def bit_simps)
qed

end
