(* ===== verification/EE_Int.thy ===== *)
theory EE_Int
  imports EE_Regs
begin

text \<open>
  The integer instructions of the Emotion Engine interpreter,
  \<^verbatim>\<open>pcsx2/R5900OpcodeImpl.cpp\<close>, that work on the registers alone: one definition per
  handler, in the order of the file. Each handler reads its operands through the fields of
  \<^verbatim>\<open>cpuRegs.code\<close> and returns the new registers; the overflow and trap handlers enter
  \<^verbatim>\<open>cpuException\<close>.
\<close>

subsection \<open>Additions that detect overflow\<close>

text \<open>Both helpers raise the overflow exception themselves; \<open>None\<close> is the return value
  \<^verbatim>\<open>true\<close>, \<open>Some ret\<close> is \<^verbatim>\<open>false\<close> with the sum in \<^verbatim>\<open>ret\<close>.\<close>

definition add64_Overflow :: "u64 \<Rightarrow> u64 \<Rightarrow> cpuRegisters \<Rightarrow> u64 option \<times> cpuRegisters" where [ee_defs]:
  "add64_Overflow x y s =
    (let result = x + y
     in if (NOT (x XOR y) AND (x XOR result)) <s 0 then (None, cpuException 0x30 (branch s) s)
        else (Some result, s))"

definition add32_Overflow :: "u32 \<Rightarrow> u32 \<Rightarrow> cpuRegisters \<Rightarrow> u64 option \<times> cpuRegisters" where [ee_defs]:
  "add32_Overflow x y s =
    (let result = scast x + scast y :: u64
     in if drop_bit 31 (ucast result :: u32) \<noteq> (ucast (drop_bit 32 result) :: u32) AND 1
        then (None, cpuException 0x30 (branch s) s)
        else (Some result, s))"

subsection \<open>Arithmetic with an immediate operand\<close>

definition ADDI :: "cpuRegisters \<Rightarrow> cpuRegisters" where [ee_defs]:
  "ADDI s =
    (case add32_Overflow (ucast (UD (GPR s (iRs s)) 0)) (scast (iImm s)) s of
       (None, s') \<Rightarrow> s'
     | (Some result, s') \<Rightarrow> if iRt s = 0 then s' else wGPR (iRt s) (set_UD 0 result) s')"

definition ADDIU :: "cpuRegisters \<Rightarrow> cpuRegisters" where [ee_defs]:
  "ADDIU s = (if iRt s = 0 then s else wGPR (iRt s) (set_UD 0 (scast (UL (GPR s (iRs s)) 0 + scast (iImm s)))) s)"

definition DADDI :: "cpuRegisters \<Rightarrow> cpuRegisters" where [ee_defs]:
  "DADDI s =
    (case add64_Overflow (UD (GPR s (iRs s)) 0) (scast (iImm s)) s of
       (None, s') \<Rightarrow> s'
     | (Some result, s') \<Rightarrow> if iRt s = 0 then s' else wGPR (iRt s) (set_UD 0 result) s')"

definition DADDIU :: "cpuRegisters \<Rightarrow> cpuRegisters" where [ee_defs]:
  "DADDIU s = (if iRt s = 0 then s else wGPR (iRt s) (set_UD 0 (UD (GPR s (iRs s)) 0 + scast (iImm s))) s)"

definition ANDI :: "cpuRegisters \<Rightarrow> cpuRegisters" where [ee_defs]:
  "ANDI s = (if iRt s = 0 then s else wGPR (iRt s) (set_UD 0 (UD (GPR s (iRs s)) 0 AND ucast (iImmU s))) s)"

definition ORI :: "cpuRegisters \<Rightarrow> cpuRegisters" where [ee_defs]:
  "ORI s = (if iRt s = 0 then s else wGPR (iRt s) (set_UD 0 (UD (GPR s (iRs s)) 0 OR ucast (iImmU s))) s)"

definition XORI :: "cpuRegisters \<Rightarrow> cpuRegisters" where [ee_defs]:
  "XORI s = (if iRt s = 0 then s else wGPR (iRt s) (set_UD 0 (UD (GPR s (iRs s)) 0 XOR ucast (iImmU s))) s)"

definition SLTI :: "cpuRegisters \<Rightarrow> cpuRegisters" where [ee_defs]:
  "SLTI s = (if iRt s = 0 then s else wGPR (iRt s) (set_UD 0 (if UD (GPR s (iRs s)) 0 <s scast (iImm s) then 1 else 0)) s)"

definition SLTIU :: "cpuRegisters \<Rightarrow> cpuRegisters" where [ee_defs]:
  "SLTIU s = (if iRt s = 0 then s else wGPR (iRt s) (set_UD 0 (if UD (GPR s (iRs s)) 0 < scast (iImm s) then 1 else 0)) s)"

subsection \<open>Register arithmetic\<close>

definition ADD :: "cpuRegisters \<Rightarrow> cpuRegisters" where [ee_defs]:
  "ADD s =
    (case add32_Overflow (ucast (UD (GPR s (iRs s)) 0)) (ucast (UD (GPR s (iRt s)) 0)) s of
       (None, s') \<Rightarrow> s'
     | (Some result, s') \<Rightarrow> if iRd s = 0 then s' else wGPR (iRd s) (set_UD 0 result) s')"

definition DADD :: "cpuRegisters \<Rightarrow> cpuRegisters" where [ee_defs]:
  "DADD s =
    (case add64_Overflow (UD (GPR s (iRs s)) 0) (UD (GPR s (iRt s)) 0) s of
       (None, s') \<Rightarrow> s'
     | (Some result, s') \<Rightarrow> if iRd s = 0 then s' else wGPR (iRd s) (set_UD 0 result) s')"

definition SUB :: "cpuRegisters \<Rightarrow> cpuRegisters" where [ee_defs]:
  "SUB s =
    (case add32_Overflow (ucast (UD (GPR s (iRs s)) 0)) (ucast (- UD (GPR s (iRt s)) 0)) s of
       (None, s') \<Rightarrow> s'
     | (Some result, s') \<Rightarrow> if iRd s = 0 then s' else wGPR (iRd s) (set_UD 0 result) s')"

definition DSUB :: "cpuRegisters \<Rightarrow> cpuRegisters" where [ee_defs]:
  "DSUB s =
    (case add64_Overflow (UD (GPR s (iRs s)) 0) (- UD (GPR s (iRt s)) 0) s of
       (None, s') \<Rightarrow> s'
     | (Some result, s') \<Rightarrow> if iRd s = 0 then s' else wGPR (iRd s) (set_UD 0 result) s')"

definition ADDU :: "cpuRegisters \<Rightarrow> cpuRegisters" where [ee_defs]:
  "ADDU s = (if iRd s = 0 then s else wGPR (iRd s) (set_UD 0 (scast (UL (GPR s (iRs s)) 0 + UL (GPR s (iRt s)) 0))) s)"

definition DADDU :: "cpuRegisters \<Rightarrow> cpuRegisters" where [ee_defs]:
  "DADDU s = (if iRd s = 0 then s else wGPR (iRd s) (set_UD 0 (UD (GPR s (iRs s)) 0 + UD (GPR s (iRt s)) 0)) s)"

definition SUBU :: "cpuRegisters \<Rightarrow> cpuRegisters" where [ee_defs]:
  "SUBU s = (if iRd s = 0 then s else wGPR (iRd s) (set_UD 0 (scast (UL (GPR s (iRs s)) 0 - UL (GPR s (iRt s)) 0))) s)"

definition DSUBU :: "cpuRegisters \<Rightarrow> cpuRegisters" where [ee_defs]:
  "DSUBU s = (if iRd s = 0 then s else wGPR (iRd s) (set_UD 0 (UD (GPR s (iRs s)) 0 - UD (GPR s (iRt s)) 0)) s)"

definition AND_op :: "cpuRegisters \<Rightarrow> cpuRegisters" where [ee_defs]:
  "AND_op s = (if iRd s = 0 then s else wGPR (iRd s) (set_UD 0 (UD (GPR s (iRs s)) 0 AND UD (GPR s (iRt s)) 0)) s)"

definition OR_op :: "cpuRegisters \<Rightarrow> cpuRegisters" where [ee_defs]:
  "OR_op s = (if iRd s = 0 then s else wGPR (iRd s) (set_UD 0 (UD (GPR s (iRs s)) 0 OR UD (GPR s (iRt s)) 0)) s)"

definition XOR_op :: "cpuRegisters \<Rightarrow> cpuRegisters" where [ee_defs]:
  "XOR_op s = (if iRd s = 0 then s else wGPR (iRd s) (set_UD 0 (UD (GPR s (iRs s)) 0 XOR UD (GPR s (iRt s)) 0)) s)"

definition NOR :: "cpuRegisters \<Rightarrow> cpuRegisters" where [ee_defs]:
  "NOR s = (if iRd s = 0 then s else wGPR (iRd s) (set_UD 0 (NOT (UD (GPR s (iRs s)) 0 OR UD (GPR s (iRt s)) 0))) s)"

definition SLT :: "cpuRegisters \<Rightarrow> cpuRegisters" where [ee_defs]:
  "SLT s = (if iRd s = 0 then s else wGPR (iRd s) (set_UD 0 (if UD (GPR s (iRs s)) 0 <s UD (GPR s (iRt s)) 0 then 1 else 0)) s)"

definition SLTU :: "cpuRegisters \<Rightarrow> cpuRegisters" where [ee_defs]:
  "SLTU s = (if iRd s = 0 then s else wGPR (iRd s) (set_UD 0 (if UD (GPR s (iRs s)) 0 < UD (GPR s (iRt s)) 0 then 1 else 0)) s)"

subsection \<open>Multiplication and division\<close>

text \<open>C division truncates towards zero: \<open>sdiv\<close> and \<open>smod\<close> on the signed values.\<close>

definition DIV :: "cpuRegisters \<Rightarrow> cpuRegisters" where [ee_defs]:
  "DIV s =
    (let rs = UL (GPR s (iRs s)) 0; rt = UL (GPR s (iRt s)) 0
     in if rs = 0x80000000 \<and> rt = 0xffffffff
        then s\<lparr>LO := set_UD 0 (scast (0x80000000 :: u32)) (LO s), HI := set_UD 0 0 (HI s)\<rparr>
        else if rt \<noteq> 0
        then s\<lparr>LO := set_UD 0 (scast (word_of_int (sint rs sdiv sint rt) :: u32)) (LO s),
               HI := set_UD 0 (scast (word_of_int (sint rs smod sint rt) :: u32)) (HI s)\<rparr>
        else s\<lparr>LO := set_UD 0 (if rs <s 0 then 1 else - 1) (LO s),
               HI := set_UD 0 (scast rs) (HI s)\<rparr>)"

definition DIVU :: "cpuRegisters \<Rightarrow> cpuRegisters" where [ee_defs]:
  "DIVU s =
    (let rs = UL (GPR s (iRs s)) 0; rt = UL (GPR s (iRt s)) 0
     in if rt \<noteq> 0
        then s\<lparr>LO := set_UD 0 (scast (rs div rt)) (LO s), HI := set_UD 0 (scast (rs mod rt)) (HI s)\<rparr>
        else s\<lparr>LO := set_UD 0 (- 1) (LO s), HI := set_UD 0 (scast rs) (HI s)\<rparr>)"

definition MULT :: "cpuRegisters \<Rightarrow> cpuRegisters" where [ee_defs]:
  "MULT s =
    (let res = scast (UL (GPR s (iRs s)) 0) * scast (UL (GPR s (iRt s)) 0) :: u64;
         s' = s\<lparr>LO := set_UD 0 (scast (ucast (res AND 0xffffffff) :: u32)) (LO s),
                HI := set_UD 0 (scast (ucast (signed_drop_bit 32 res) :: u32)) (HI s)\<rparr>
     in if iRd s \<noteq> 0 then wGPR (iRd s) (set_UD 0 (UD (LO s') 0)) s' else s')"

definition MULTU :: "cpuRegisters \<Rightarrow> cpuRegisters" where [ee_defs]:
  "MULTU s =
    (let res = ucast (UL (GPR s (iRs s)) 0) * ucast (UL (GPR s (iRt s)) 0) :: u64;
         s' = s\<lparr>LO := set_UD 0 (scast (ucast (res AND 0xffffffff) :: u32)) (LO s),
                HI := set_UD 0 (scast (ucast (drop_bit 32 res) :: u32)) (HI s)\<rparr>
     in if iRd s \<noteq> 0 then wGPR (iRd s) (set_UD 0 (UD (LO s') 0)) s' else s')"

subsection \<open>Moves\<close>

definition LUI :: "cpuRegisters \<Rightarrow> cpuRegisters" where [ee_defs]:
  "LUI s = (if iRt s = 0 then s else wGPR (iRt s) (set_UD 0 (scast (push_bit 16 (code s)))) s)"

definition MFHI :: "cpuRegisters \<Rightarrow> cpuRegisters" where [ee_defs]:
  "MFHI s = (if iRd s = 0 then s else wGPR (iRd s) (set_UD 0 (UD (HI s) 0)) s)"

definition MFLO :: "cpuRegisters \<Rightarrow> cpuRegisters" where [ee_defs]:
  "MFLO s = (if iRd s = 0 then s else wGPR (iRd s) (set_UD 0 (UD (LO s) 0)) s)"

definition MTHI :: "cpuRegisters \<Rightarrow> cpuRegisters" where [ee_defs]:
  "MTHI s = s\<lparr>HI := set_UD 0 (UD (GPR s (iRs s)) 0) (HI s)\<rparr>"

definition MTLO :: "cpuRegisters \<Rightarrow> cpuRegisters" where [ee_defs]:
  "MTLO s = s\<lparr>LO := set_UD 0 (UD (GPR s (iRs s)) 0) (LO s)\<rparr>"

subsection \<open>Shifts\<close>

definition SRA :: "cpuRegisters \<Rightarrow> cpuRegisters" where [ee_defs]:
  "SRA s = (if iRd s = 0 then s else wGPR (iRd s) (set_UD 0 (scast (signed_drop_bit (unat (iSa s)) (UL (GPR s (iRt s)) 0)))) s)"

definition SRL :: "cpuRegisters \<Rightarrow> cpuRegisters" where [ee_defs]:
  "SRL s = (if iRd s = 0 then s else wGPR (iRd s) (set_UD 0 (scast (drop_bit (unat (iSa s)) (UL (GPR s (iRt s)) 0)))) s)"

definition SLL :: "cpuRegisters \<Rightarrow> cpuRegisters" where [ee_defs]:
  "SLL s = (if iRd s = 0 then s else wGPR (iRd s) (set_UD 0 (scast (push_bit (unat (iSa s)) (UL (GPR s (iRt s)) 0)))) s)"

definition DSLL :: "cpuRegisters \<Rightarrow> cpuRegisters" where [ee_defs]:
  "DSLL s = (if iRd s = 0 then s else wGPR (iRd s) (set_UD 0 (push_bit (unat (iSa s)) (UD (GPR s (iRt s)) 0))) s)"

definition DSLL32 :: "cpuRegisters \<Rightarrow> cpuRegisters" where [ee_defs]:
  "DSLL32 s = (if iRd s = 0 then s else wGPR (iRd s) (set_UD 0 (push_bit (unat (iSa s + 32)) (UD (GPR s (iRt s)) 0))) s)"

definition DSRA :: "cpuRegisters \<Rightarrow> cpuRegisters" where [ee_defs]:
  "DSRA s = (if iRd s = 0 then s else wGPR (iRd s) (set_UD 0 (signed_drop_bit (unat (iSa s)) (UD (GPR s (iRt s)) 0))) s)"

definition DSRA32 :: "cpuRegisters \<Rightarrow> cpuRegisters" where [ee_defs]:
  "DSRA32 s = (if iRd s = 0 then s else wGPR (iRd s) (set_UD 0 (signed_drop_bit (unat (iSa s + 32)) (UD (GPR s (iRt s)) 0))) s)"

definition DSRL :: "cpuRegisters \<Rightarrow> cpuRegisters" where [ee_defs]:
  "DSRL s = (if iRd s = 0 then s else wGPR (iRd s) (set_UD 0 (drop_bit (unat (iSa s)) (UD (GPR s (iRt s)) 0))) s)"

definition DSRL32 :: "cpuRegisters \<Rightarrow> cpuRegisters" where [ee_defs]:
  "DSRL32 s = (if iRd s = 0 then s else wGPR (iRd s) (set_UD 0 (drop_bit (unat (iSa s + 32)) (UD (GPR s (iRt s)) 0))) s)"

definition SLLV :: "cpuRegisters \<Rightarrow> cpuRegisters" where [ee_defs]:
  "SLLV s = (if iRd s = 0 then s else wGPR (iRd s) (set_UD 0 (scast (push_bit (unat (UL (GPR s (iRs s)) 0 AND 0x1f)) (UL (GPR s (iRt s)) 0)))) s)"

definition SRAV :: "cpuRegisters \<Rightarrow> cpuRegisters" where [ee_defs]:
  "SRAV s = (if iRd s = 0 then s else wGPR (iRd s) (set_UD 0 (scast (signed_drop_bit (unat (UL (GPR s (iRs s)) 0 AND 0x1f)) (UL (GPR s (iRt s)) 0)))) s)"

definition SRLV :: "cpuRegisters \<Rightarrow> cpuRegisters" where [ee_defs]:
  "SRLV s = (if iRd s = 0 then s else wGPR (iRd s) (set_UD 0 (scast (drop_bit (unat (UL (GPR s (iRs s)) 0 AND 0x1f)) (UL (GPR s (iRt s)) 0)))) s)"

definition DSLLV :: "cpuRegisters \<Rightarrow> cpuRegisters" where [ee_defs]:
  "DSLLV s = (if iRd s = 0 then s else wGPR (iRd s) (set_UD 0 (push_bit (unat (UL (GPR s (iRs s)) 0 AND 0x3f)) (UD (GPR s (iRt s)) 0))) s)"

definition DSRAV :: "cpuRegisters \<Rightarrow> cpuRegisters" where [ee_defs]:
  "DSRAV s = (if iRd s = 0 then s else wGPR (iRd s) (set_UD 0 (signed_drop_bit (unat (UL (GPR s (iRs s)) 0 AND 0x3f)) (UD (GPR s (iRt s)) 0))) s)"

definition DSRLV :: "cpuRegisters \<Rightarrow> cpuRegisters" where [ee_defs]:
  "DSRLV s = (if iRd s = 0 then s else wGPR (iRd s) (set_UD 0 (drop_bit (unat (UL (GPR s (iRs s)) 0 AND 0x3f)) (UD (GPR s (iRt s)) 0))) s)"

subsection \<open>Conditional moves, the shift amount register, traps\<close>

definition MOVZ :: "cpuRegisters \<Rightarrow> cpuRegisters" where [ee_defs]:
  "MOVZ s =
    (if iRd s = 0 then s
     else if UD (GPR s (iRt s)) 0 = 0 then wGPR (iRd s) (set_UD 0 (UD (GPR s (iRs s)) 0)) s else s)"

definition MOVN :: "cpuRegisters \<Rightarrow> cpuRegisters" where [ee_defs]:
  "MOVN s =
    (if iRd s = 0 then s
     else if UD (GPR s (iRt s)) 0 \<noteq> 0 then wGPR (iRd s) (set_UD 0 (UD (GPR s (iRs s)) 0)) s else s)"

definition BREAK :: "cpuRegisters \<Rightarrow> cpuRegisters" where [ee_defs]:
  "BREAK s =
    (let s' = s\<lparr>pc := pc s - 4\<rparr> in cpuException 0x24 (branch s') s')"

definition MFSA :: "cpuRegisters \<Rightarrow> cpuRegisters" where [ee_defs]:
  "MFSA s = (if iRd s = 0 then s else wGPR (iRd s) (set_UD 0 (ucast (sa s))) s)"

definition MTSA :: "cpuRegisters \<Rightarrow> cpuRegisters" where [ee_defs]:
  "MTSA s = s\<lparr>sa := ucast (UD (GPR s (iRs s)) 0)\<rparr>"

definition SYNC :: "cpuRegisters \<Rightarrow> cpuRegisters" where [ee_defs]:
  "SYNC s = s"

definition PREF :: "cpuRegisters \<Rightarrow> cpuRegisters" where [ee_defs]:
  "PREF s = s"

definition trap :: "cpuRegisters \<Rightarrow> cpuRegisters" where [ee_defs]:
  "trap s =
    (let s' = s\<lparr>pc := pc s - 4\<rparr> in cpuException 0x34 (branch s') s')"

definition TGE :: "cpuRegisters \<Rightarrow> cpuRegisters" where [ee_defs]:
  "TGE s = (if \<not> (UD (GPR s (iRs s)) 0 <s UD (GPR s (iRt s)) 0) then trap s else s)"

definition TGEU :: "cpuRegisters \<Rightarrow> cpuRegisters" where [ee_defs]:
  "TGEU s = (if UD (GPR s (iRs s)) 0 \<ge> UD (GPR s (iRt s)) 0 then trap s else s)"

definition TLT :: "cpuRegisters \<Rightarrow> cpuRegisters" where [ee_defs]:
  "TLT s = (if UD (GPR s (iRs s)) 0 <s UD (GPR s (iRt s)) 0 then trap s else s)"

definition TLTU :: "cpuRegisters \<Rightarrow> cpuRegisters" where [ee_defs]:
  "TLTU s = (if UD (GPR s (iRs s)) 0 < UD (GPR s (iRt s)) 0 then trap s else s)"

definition TEQ :: "cpuRegisters \<Rightarrow> cpuRegisters" where [ee_defs]:
  "TEQ s = (if UD (GPR s (iRs s)) 0 = UD (GPR s (iRt s)) 0 then trap s else s)"

definition TNE :: "cpuRegisters \<Rightarrow> cpuRegisters" where [ee_defs]:
  "TNE s = (if UD (GPR s (iRs s)) 0 \<noteq> UD (GPR s (iRt s)) 0 then trap s else s)"

definition TGEI :: "cpuRegisters \<Rightarrow> cpuRegisters" where [ee_defs]:
  "TGEI s = (if \<not> (UD (GPR s (iRs s)) 0 <s (scast (iImm s) :: u64)) then trap s else s)"

definition TLTI :: "cpuRegisters \<Rightarrow> cpuRegisters" where [ee_defs]:
  "TLTI s = (if UD (GPR s (iRs s)) 0 <s (scast (iImm s) :: u64) then trap s else s)"

definition TEQI :: "cpuRegisters \<Rightarrow> cpuRegisters" where [ee_defs]:
  "TEQI s = (if UD (GPR s (iRs s)) 0 = (scast (iImm s) :: u64) then trap s else s)"

definition TNEI :: "cpuRegisters \<Rightarrow> cpuRegisters" where [ee_defs]:
  "TNEI s = (if UD (GPR s (iRs s)) 0 \<noteq> (scast (iImm s) :: u64) then trap s else s)"

definition TGEIU :: "cpuRegisters \<Rightarrow> cpuRegisters" where [ee_defs]:
  "TGEIU s = (if UD (GPR s (iRs s)) 0 \<ge> (scast (iImm s) :: u64) then trap s else s)"

definition TLTIU :: "cpuRegisters \<Rightarrow> cpuRegisters" where [ee_defs]:
  "TLTIU s = (if UD (GPR s (iRs s)) 0 < (scast (iImm s) :: u64) then trap s else s)"

definition MTSAB :: "cpuRegisters \<Rightarrow> cpuRegisters" where [ee_defs]:
  "MTSAB s =
    s\<lparr>sa := (UL (GPR s (iRs s)) 0 AND 0xF) XOR (scast (iImm s) AND 0xF)\<rparr>"

definition MTSAH :: "cpuRegisters \<Rightarrow> cpuRegisters" where [ee_defs]:
  "MTSAH s =
    s\<lparr>sa := push_bit 1 ((UL (GPR s (iRs s)) 0 AND 0x7) XOR (scast (iImm s) AND 0x7))\<rparr>"

end
