(* ===== verification/EE_MMI.thy ===== *)
theory EE_MMI
  imports EE_Int
begin

text \<open>
  The multimedia instructions of the Emotion Engine interpreter, \<^verbatim>\<open>pcsx2/MMI.cpp\<close>, in
  the order of the file. \<open><op>_n\<close> is the helper \<^verbatim>\<open>_<OP>(n)\<close> that computes one lane; the
  handler applies it to the lanes one after another, so that a destination register which is also
  a source is read after some of its lanes have been written, as in the code.
\<close>

subsection \<open>Multiply and divide on the two pipelines\<close>

definition MADD :: "cpuRegisters \<Rightarrow> cpuRegisters" where [ee_defs]:
  "MADD s =
    (let temp = (ucast (UL (LO s) 0) OR push_bit 32 (ucast (UL (HI s) 0))) +
           scast (UL (GPR s (iRs s)) 0) * scast (UL (GPR s (iRt s)) 0) :: u64;
         s' = s\<lparr>LO := set_UD 0 (scast (ucast (temp AND 0xffffffff) :: u32)) (LO s),
                HI := set_UD 0 (scast (ucast (signed_drop_bit 32 temp) :: u32)) (HI s)\<rparr>
     in if iRd s \<noteq> 0 then wGPR (iRd s) (set_UD 0 (UD (LO s') 0)) s' else s')"

definition MADDU :: "cpuRegisters \<Rightarrow> cpuRegisters" where [ee_defs]:
  "MADDU s =
    (let temp = (ucast (UL (LO s) 0) OR push_bit 32 (ucast (UL (HI s) 0))) +
           ucast (UL (GPR s (iRs s)) 0) * ucast (UL (GPR s (iRt s)) 0) :: u64;
         s' = s\<lparr>LO := set_UD 0 (scast (ucast (temp AND 0xffffffff) :: u32)) (LO s),
                HI := set_UD 0 (scast (ucast (drop_bit 32 temp) :: u32)) (HI s)\<rparr>
     in if iRd s \<noteq> 0 then wGPR (iRd s) (set_UD 0 (UD (LO s') 0)) s' else s')"

definition MADD1 :: "cpuRegisters \<Rightarrow> cpuRegisters" where [ee_defs]:
  "MADD1 s =
    (let temp = (ucast (UL (LO s) 2) OR push_bit 32 (ucast (UL (HI s) 2))) +
           scast (UL (GPR s (iRs s)) 0) * scast (UL (GPR s (iRt s)) 0) :: u64;
         s' = s\<lparr>LO := set_UD 1 (scast (ucast (temp AND 0xffffffff) :: u32)) (LO s),
                HI := set_UD 1 (scast (ucast (signed_drop_bit 32 temp) :: u32)) (HI s)\<rparr>
     in if iRd s \<noteq> 0 then wGPR (iRd s) (set_UD 0 (UD (LO s') 1)) s' else s')"

definition MADDU1 :: "cpuRegisters \<Rightarrow> cpuRegisters" where [ee_defs]:
  "MADDU1 s =
    (let temp = (ucast (UL (LO s) 2) OR push_bit 32 (ucast (UL (HI s) 2))) +
           ucast (UL (GPR s (iRs s)) 0) * ucast (UL (GPR s (iRt s)) 0) :: u64;
         s' = s\<lparr>LO := set_UD 1 (scast (ucast (temp AND 0xffffffff) :: u32)) (LO s),
                HI := set_UD 1 (scast (ucast (drop_bit 32 temp) :: u32)) (HI s)\<rparr>
     in if iRd s \<noteq> 0 then wGPR (iRd s) (set_UD 0 (UD (LO s') 1)) s' else s')"

definition MFHI1 :: "cpuRegisters \<Rightarrow> cpuRegisters" where [ee_defs]:
  "MFHI1 s = (if iRd s = 0 then s else wGPR (iRd s) (set_UD 0 (UD (HI s) 1)) s)"

definition MFLO1 :: "cpuRegisters \<Rightarrow> cpuRegisters" where [ee_defs]:
  "MFLO1 s = (if iRd s = 0 then s else wGPR (iRd s) (set_UD 0 (UD (LO s) 1)) s)"

definition MTHI1 :: "cpuRegisters \<Rightarrow> cpuRegisters" where [ee_defs]:
  "MTHI1 s = s\<lparr>HI := set_UD 1 (UD (GPR s (iRs s)) 0) (HI s)\<rparr>"

definition MTLO1 :: "cpuRegisters \<Rightarrow> cpuRegisters" where [ee_defs]:
  "MTLO1 s = s\<lparr>LO := set_UD 1 (UD (GPR s (iRs s)) 0) (LO s)\<rparr>"

definition MULT1 :: "cpuRegisters \<Rightarrow> cpuRegisters" where [ee_defs]:
  "MULT1 s =
    (let temp = scast (UL (GPR s (iRs s)) 0) * scast (UL (GPR s (iRt s)) 0) :: u64;
         s' = s\<lparr>LO := set_UD 1 (scast (ucast (temp AND 0xffffffff) :: u32)) (LO s),
                HI := set_UD 1 (scast (ucast (signed_drop_bit 32 temp) :: u32)) (HI s)\<rparr>
     in if iRd s \<noteq> 0 then wGPR (iRd s) (set_UD 0 (UD (LO s') 1)) s' else s')"

definition MULTU1 :: "cpuRegisters \<Rightarrow> cpuRegisters" where [ee_defs]:
  "MULTU1 s =
    (let temp = ucast (UL (GPR s (iRs s)) 0) * ucast (UL (GPR s (iRt s)) 0) :: u64;
         s' = s\<lparr>LO := set_UD 1 (scast (ucast (temp AND 0xffffffff) :: u32)) (LO s),
                HI := set_UD 1 (scast (ucast (drop_bit 32 temp) :: u32)) (HI s)\<rparr>
     in if iRd s \<noteq> 0 then wGPR (iRd s) (set_UD 0 (UD (LO s') 1)) s' else s')"

definition DIV1 :: "cpuRegisters \<Rightarrow> cpuRegisters" where [ee_defs]:
  "DIV1 s =
    (let rs = UL (GPR s (iRs s)) 0; rt = UL (GPR s (iRt s)) 0
     in if rs = 0x80000000 \<and> rt = 0xffffffff
        then s\<lparr>LO := set_UD 1 (scast (0x80000000 :: u32)) (LO s), HI := set_UD 1 0 (HI s)\<rparr>
        else if rt \<noteq> 0
        then s\<lparr>LO := set_UD 1 (scast (word_of_int (sint rs sdiv sint rt) :: u32)) (LO s),
               HI := set_UD 1 (scast (word_of_int (sint rs smod sint rt) :: u32)) (HI s)\<rparr>
        else s\<lparr>LO := set_UD 1 (if rs <s 0 then 1 else - 1) (LO s),
               HI := set_UD 1 (scast rs) (HI s)\<rparr>)"

definition DIVU1 :: "cpuRegisters \<Rightarrow> cpuRegisters" where [ee_defs]:
  "DIVU1 s =
    (let rs = UL (GPR s (iRs s)) 0; rt = UL (GPR s (iRt s)) 0
     in if rt \<noteq> 0
        then s\<lparr>LO := set_UD 1 (scast (rs div rt)) (LO s), HI := set_UD 1 (scast (rs mod rt)) (HI s)\<rparr>
        else s\<lparr>LO := set_UD 1 (- 1) (LO s), HI := set_UD 1 (scast rs) (HI s)\<rparr>)"

subsection \<open>Leading sign bits, HI and LO transfers, immediate shifts\<close>

definition countl_zero :: "u32 \<Rightarrow> nat" where
  "countl_zero n = length (takeWhile Not (map (bit n) (rev [0..<32])))"

definition CountLeadingSignBits :: "u32 \<Rightarrow> u32" where [ee_defs]:
  "CountLeadingSignBits n0 =
    (let n = (if n0 <s 0 then NOT n0 else n0)
     in if n = 0 then 32 else of_nat (countl_zero n))"

definition PLZCW :: "cpuRegisters \<Rightarrow> cpuRegisters" where [ee_defs]:
  "PLZCW s =
    (if iRd s = 0 then s
     else let s' = wGPR (iRd s) (set_UL 0 (CountLeadingSignBits (UL (GPR s (iRs s)) 0) - 1)) s
          in wGPR (iRd s) (set_UL 1 (CountLeadingSignBits (UL (GPR s' (iRs s)) 1) - 1)) s')"

definition PMFHL_CLAMP :: "u32 \<Rightarrow> u16" where [ee_defs]:
  "PMFHL_CLAMP src =
    (if 0x7fff <s src then 0x7fff else if src <s - 0x8000 then 0x8000 else ucast src)"

definition PMFHL_SLW :: "u32 \<Rightarrow> u32 \<Rightarrow> u64" where [ee_defs]:
  "PMFHL_SLW hi lo =
    (let temp = push_bit 32 (ucast hi) OR ucast lo :: u64
     in if \<not> (temp <s 0x7fffffff) then 0x7fffffff
        else if temp \<le>s - 0x80000000 then 0xffffffff80000000
        else scast lo)"

definition PMFHL :: "cpuRegisters \<Rightarrow> cpuRegisters" where [ee_defs]:
  "PMFHL s =
    (if iRd s = 0 then s
     else if iSa s = 0 then wGPR (iRd s) (fold (\<lambda>(i, x). set_UL i x)
       [(0, UL (LO s) 0), (1, UL (HI s) 0), (2, UL (LO s) 2), (3, UL (HI s) 2)]) s
     else if iSa s = 1 then wGPR (iRd s) (fold (\<lambda>(i, x). set_UL i x)
       [(0, UL (LO s) 1), (1, UL (HI s) 1), (2, UL (LO s) 3), (3, UL (HI s) 3)]) s
     else if iSa s = 2 then wGPR (iRd s) (fold (\<lambda>(i, x). set_UD i x)
       [(0, PMFHL_SLW (UL (HI s) 0) (UL (LO s) 0)), (1, PMFHL_SLW (UL (HI s) 2) (UL (LO s) 2))]) s
     else if iSa s = 3 then wGPR (iRd s) (fold (\<lambda>(i, x). set_US i x)
       [(0, US (LO s) 0), (1, US (LO s) 2), (2, US (HI s) 0), (3, US (HI s) 2),
        (4, US (LO s) 4), (5, US (LO s) 6), (6, US (HI s) 4), (7, US (HI s) 6)]) s
     else if iSa s = 4 then wGPR (iRd s) (fold (\<lambda>(i, x). set_US i (PMFHL_CLAMP x))
       [(0, UL (LO s) 0), (1, UL (LO s) 1), (2, UL (HI s) 0), (3, UL (HI s) 1),
        (4, UL (LO s) 2), (5, UL (LO s) 3), (6, UL (HI s) 2), (7, UL (HI s) 3)]) s
     else s)"

definition PMTHL :: "cpuRegisters \<Rightarrow> cpuRegisters" where [ee_defs]:
  "PMTHL s =
    (if iSa s \<noteq> 0 then s
     else let rs = GPR s (iRs s)
          in s\<lparr>LO := set_UL 2 (UL rs 2) (set_UL 0 (UL rs 0) (LO s)),
               HI := set_UL 2 (UL rs 3) (set_UL 0 (UL rs 1) (HI s))\<rparr>)"

definition PSLLH_n :: "nat \<Rightarrow> cpuRegisters \<Rightarrow> cpuRegisters" where [ee_defs]:
  "PSLLH_n n s = wGPR (iRd s) (set_US n (push_bit (unat (iSa s AND 0xf)) (US (GPR s (iRt s)) n))) s"

definition PSLLH :: "cpuRegisters \<Rightarrow> cpuRegisters" where [ee_defs]:
  "PSLLH s = (if iRd s = 0 then s else fold PSLLH_n [0..<8] s)"

definition PSRLH_n :: "nat \<Rightarrow> cpuRegisters \<Rightarrow> cpuRegisters" where [ee_defs]:
  "PSRLH_n n s = wGPR (iRd s) (set_US n (drop_bit (unat (iSa s AND 0xf)) (US (GPR s (iRt s)) n))) s"

definition PSRLH :: "cpuRegisters \<Rightarrow> cpuRegisters" where [ee_defs]:
  "PSRLH s = (if iRd s = 0 then s else fold PSRLH_n [0..<8] s)"

definition PSRAH_n :: "nat \<Rightarrow> cpuRegisters \<Rightarrow> cpuRegisters" where [ee_defs]:
  "PSRAH_n n s = wGPR (iRd s) (set_US n (signed_drop_bit (unat (iSa s AND 0xf)) (US (GPR s (iRt s)) n))) s"

definition PSRAH :: "cpuRegisters \<Rightarrow> cpuRegisters" where [ee_defs]:
  "PSRAH s = (if iRd s = 0 then s else fold PSRAH_n [0..<8] s)"

definition PSLLW_n :: "nat \<Rightarrow> cpuRegisters \<Rightarrow> cpuRegisters" where [ee_defs]:
  "PSLLW_n n s = wGPR (iRd s) (set_UL n (push_bit (unat (iSa s)) (UL (GPR s (iRt s)) n))) s"

definition PSLLW :: "cpuRegisters \<Rightarrow> cpuRegisters" where [ee_defs]:
  "PSLLW s = (if iRd s = 0 then s else fold PSLLW_n [0..<4] s)"

definition PSRLW_n :: "nat \<Rightarrow> cpuRegisters \<Rightarrow> cpuRegisters" where [ee_defs]:
  "PSRLW_n n s = wGPR (iRd s) (set_UL n (drop_bit (unat (iSa s)) (UL (GPR s (iRt s)) n))) s"

definition PSRLW :: "cpuRegisters \<Rightarrow> cpuRegisters" where [ee_defs]:
  "PSRLW s = (if iRd s = 0 then s else fold PSRLW_n [0..<4] s)"

definition PSRAW_n :: "nat \<Rightarrow> cpuRegisters \<Rightarrow> cpuRegisters" where [ee_defs]:
  "PSRAW_n n s = wGPR (iRd s) (set_UL n (signed_drop_bit (unat (iSa s)) (UL (GPR s (iRt s)) n))) s"

definition PSRAW :: "cpuRegisters \<Rightarrow> cpuRegisters" where [ee_defs]:
  "PSRAW s = (if iRd s = 0 then s else fold PSRAW_n [0..<4] s)"

subsection \<open>MMI0\<close>

definition PADDW_n :: "nat \<Rightarrow> cpuRegisters \<Rightarrow> cpuRegisters" where [ee_defs]:
  "PADDW_n n s = wGPR (iRd s) (set_UL n (UL (GPR s (iRs s)) n + UL (GPR s (iRt s)) n)) s"

definition PADDW :: "cpuRegisters \<Rightarrow> cpuRegisters" where [ee_defs]:
  "PADDW s = (if iRd s = 0 then s else fold PADDW_n [0..<4] s)"

definition PSUBW_n :: "nat \<Rightarrow> cpuRegisters \<Rightarrow> cpuRegisters" where [ee_defs]:
  "PSUBW_n n s = wGPR (iRd s) (set_UL n (UL (GPR s (iRs s)) n - UL (GPR s (iRt s)) n)) s"

definition PSUBW :: "cpuRegisters \<Rightarrow> cpuRegisters" where [ee_defs]:
  "PSUBW s = (if iRd s = 0 then s else fold PSUBW_n [0..<4] s)"

definition PCGTW_n :: "nat \<Rightarrow> cpuRegisters \<Rightarrow> cpuRegisters" where [ee_defs]:
  "PCGTW_n n s = wGPR (iRd s) (set_UL n (if UL (GPR s (iRt s)) n <s UL (GPR s (iRs s)) n then 0xFFFFFFFF else 0)) s"

definition PCGTW :: "cpuRegisters \<Rightarrow> cpuRegisters" where [ee_defs]:
  "PCGTW s = (if iRd s = 0 then s else fold PCGTW_n [0..<4] s)"

definition PMAXW_n :: "nat \<Rightarrow> cpuRegisters \<Rightarrow> cpuRegisters" where [ee_defs]:
  "PMAXW_n n s = wGPR (iRd s) (set_UL n (if UL (GPR s (iRt s)) n <s UL (GPR s (iRs s)) n then UL (GPR s (iRs s)) n else UL (GPR s (iRt s)) n)) s"

definition PMAXW :: "cpuRegisters \<Rightarrow> cpuRegisters" where [ee_defs]:
  "PMAXW s = (if iRd s = 0 then s else fold PMAXW_n [0..<4] s)"

definition PADDH_n :: "nat \<Rightarrow> cpuRegisters \<Rightarrow> cpuRegisters" where [ee_defs]:
  "PADDH_n n s = wGPR (iRd s) (set_US n (US (GPR s (iRs s)) n + US (GPR s (iRt s)) n)) s"

definition PADDH :: "cpuRegisters \<Rightarrow> cpuRegisters" where [ee_defs]:
  "PADDH s = (if iRd s = 0 then s else fold PADDH_n [0..<8] s)"

definition PSUBH_n :: "nat \<Rightarrow> cpuRegisters \<Rightarrow> cpuRegisters" where [ee_defs]:
  "PSUBH_n n s = wGPR (iRd s) (set_US n (US (GPR s (iRs s)) n - US (GPR s (iRt s)) n)) s"

definition PSUBH :: "cpuRegisters \<Rightarrow> cpuRegisters" where [ee_defs]:
  "PSUBH s = (if iRd s = 0 then s else fold PSUBH_n [0..<8] s)"

definition PCGTH_n :: "nat \<Rightarrow> cpuRegisters \<Rightarrow> cpuRegisters" where [ee_defs]:
  "PCGTH_n n s = wGPR (iRd s) (set_US n (if US (GPR s (iRt s)) n <s US (GPR s (iRs s)) n then 0xFFFF else 0)) s"

definition PCGTH :: "cpuRegisters \<Rightarrow> cpuRegisters" where [ee_defs]:
  "PCGTH s = (if iRd s = 0 then s else fold PCGTH_n [0..<8] s)"

definition PMAXH_n :: "nat \<Rightarrow> cpuRegisters \<Rightarrow> cpuRegisters" where [ee_defs]:
  "PMAXH_n n s = wGPR (iRd s) (set_US n (if US (GPR s (iRt s)) n <s US (GPR s (iRs s)) n then US (GPR s (iRs s)) n else US (GPR s (iRt s)) n)) s"

definition PMAXH :: "cpuRegisters \<Rightarrow> cpuRegisters" where [ee_defs]:
  "PMAXH s = (if iRd s = 0 then s else fold PMAXH_n [0..<8] s)"

definition PADDB_n :: "nat \<Rightarrow> cpuRegisters \<Rightarrow> cpuRegisters" where [ee_defs]:
  "PADDB_n n s = wGPR (iRd s) (set_UC n (UC (GPR s (iRs s)) n + UC (GPR s (iRt s)) n)) s"

definition PADDB :: "cpuRegisters \<Rightarrow> cpuRegisters" where [ee_defs]:
  "PADDB s = (if iRd s = 0 then s else fold PADDB_n [0..<16] s)"

definition PSUBB_n :: "nat \<Rightarrow> cpuRegisters \<Rightarrow> cpuRegisters" where [ee_defs]:
  "PSUBB_n n s = wGPR (iRd s) (set_UC n (UC (GPR s (iRs s)) n - UC (GPR s (iRt s)) n)) s"

definition PSUBB :: "cpuRegisters \<Rightarrow> cpuRegisters" where [ee_defs]:
  "PSUBB s = (if iRd s = 0 then s else fold PSUBB_n [0..<16] s)"

definition PCGTB_n :: "nat \<Rightarrow> cpuRegisters \<Rightarrow> cpuRegisters" where [ee_defs]:
  "PCGTB_n n s = wGPR (iRd s) (set_UC n (if UC (GPR s (iRt s)) n <s UC (GPR s (iRs s)) n then 0xFF else 0)) s"

definition PCGTB :: "cpuRegisters \<Rightarrow> cpuRegisters" where [ee_defs]:
  "PCGTB s = (if iRd s = 0 then s else fold PCGTB_n [0..<16] s)"

definition PADDSW_n :: "nat \<Rightarrow> cpuRegisters \<Rightarrow> cpuRegisters" where [ee_defs]:
  "PADDSW_n n s =
    wGPR (iRd s) (set_UL n (let temp = scast (UL (GPR s (iRs s)) n) + scast (UL (GPR s (iRt s)) n) :: u64
       in if 0x7FFFFFFF <s temp then 0x7FFFFFFF else if temp <s scast (0x80000000 :: u32) then 0x80000000 else ucast temp)) s"

definition PADDSW :: "cpuRegisters \<Rightarrow> cpuRegisters" where [ee_defs]:
  "PADDSW s = (if iRd s = 0 then s else fold PADDSW_n [0..<4] s)"

definition PSUBSW_n :: "nat \<Rightarrow> cpuRegisters \<Rightarrow> cpuRegisters" where [ee_defs]:
  "PSUBSW_n n s =
    wGPR (iRd s) (set_UL n (let temp = scast (UL (GPR s (iRs s)) n) - scast (UL (GPR s (iRt s)) n) :: u64
       in if \<not> (temp <s 0x7FFFFFFF) then 0x7FFFFFFF else if temp <s scast (0x80000000 :: u32) then 0x80000000 else ucast temp)) s"

definition PSUBSW :: "cpuRegisters \<Rightarrow> cpuRegisters" where [ee_defs]:
  "PSUBSW s = (if iRd s = 0 then s else fold PSUBSW_n [0..<4] s)"

definition PEXTLW :: "cpuRegisters \<Rightarrow> cpuRegisters" where [ee_defs]:
  "PEXTLW s =
    (let rs = GPR s (iRs s); rt = GPR s (iRt s)
     in if iRd s = 0 then s else wGPR (iRd s) (fold (\<lambda>(i, x). set_UL i x)
      [(0, UL rt 0), (1, UL rs 0), (2, UL rt 1), (3, UL rs 1)]) s)"

definition PPACW :: "cpuRegisters \<Rightarrow> cpuRegisters" where [ee_defs]:
  "PPACW s =
    (let rs = GPR s (iRs s); rt = GPR s (iRt s)
     in if iRd s = 0 then s else wGPR (iRd s) (fold (\<lambda>(i, x). set_UL i x)
      [(0, UL rt 0), (1, UL rt 2), (2, UL rs 0), (3, UL rs 2)]) s)"

definition PADDSH_n :: "nat \<Rightarrow> cpuRegisters \<Rightarrow> cpuRegisters" where [ee_defs]:
  "PADDSH_n n s =
    wGPR (iRd s) (set_US n (let temp = scast (US (GPR s (iRs s)) n) + scast (US (GPR s (iRt s)) n) :: u32
       in if 0x7FFF <s temp then 0x7FFF else if temp <s 0xffff8000 then 0x8000 else ucast temp)) s"

definition PADDSH :: "cpuRegisters \<Rightarrow> cpuRegisters" where [ee_defs]:
  "PADDSH s = (if iRd s = 0 then s else fold PADDSH_n [0..<8] s)"

definition PSUBSH_n :: "nat \<Rightarrow> cpuRegisters \<Rightarrow> cpuRegisters" where [ee_defs]:
  "PSUBSH_n n s =
    wGPR (iRd s) (set_US n (let temp = scast (US (GPR s (iRs s)) n) - scast (US (GPR s (iRt s)) n) :: u32
       in if \<not> (temp <s 0x7FFF) then 0x7FFF else if temp <s 0xffff8000 then 0x8000 else ucast temp)) s"

definition PSUBSH :: "cpuRegisters \<Rightarrow> cpuRegisters" where [ee_defs]:
  "PSUBSH s = (if iRd s = 0 then s else fold PSUBSH_n [0..<8] s)"

definition PEXTLH :: "cpuRegisters \<Rightarrow> cpuRegisters" where [ee_defs]:
  "PEXTLH s =
    (let rs = GPR s (iRs s); rt = GPR s (iRt s)
     in if iRd s = 0 then s else wGPR (iRd s) (fold (\<lambda>(i, x). set_US i x)
      [(0, US rt 0), (1, US rs 0), (2, US rt 1), (3, US rs 1), (4, US rt 2), (5, US rs 2),
       (6, US rt 3), (7, US rs 3)]) s)"

definition PPACH :: "cpuRegisters \<Rightarrow> cpuRegisters" where [ee_defs]:
  "PPACH s =
    (let rs = GPR s (iRs s); rt = GPR s (iRt s)
     in if iRd s = 0 then s else wGPR (iRd s) (fold (\<lambda>(i, x). set_US i x)
      [(0, US rt 0), (1, US rt 2), (2, US rt 4), (3, US rt 6), (4, US rs 0), (5, US rs 2),
       (6, US rs 4), (7, US rs 6)]) s)"

definition PADDSB_n :: "nat \<Rightarrow> cpuRegisters \<Rightarrow> cpuRegisters" where [ee_defs]:
  "PADDSB_n n s =
    wGPR (iRd s) (set_UC n (let temp = scast (UC (GPR s (iRs s)) n) + scast (UC (GPR s (iRt s)) n) :: u16
       in if 0x7F <s temp then 0x7F else if temp <s - 128 then 0x80 else ucast temp)) s"

definition PADDSB :: "cpuRegisters \<Rightarrow> cpuRegisters" where [ee_defs]:
  "PADDSB s = (if iRd s = 0 then s else fold PADDSB_n [0..<16] s)"

definition PSUBSB_n :: "nat \<Rightarrow> cpuRegisters \<Rightarrow> cpuRegisters" where [ee_defs]:
  "PSUBSB_n n s =
    wGPR (iRd s) (set_UC n (let temp = scast (UC (GPR s (iRs s)) n) - scast (UC (GPR s (iRt s)) n) :: u16
       in if \<not> (temp <s 0x7F) then 0x7F else if temp <s - 128 then 0x80 else ucast temp)) s"

definition PSUBSB :: "cpuRegisters \<Rightarrow> cpuRegisters" where [ee_defs]:
  "PSUBSB s = (if iRd s = 0 then s else fold PSUBSB_n [0..<16] s)"

definition PEXTLB :: "cpuRegisters \<Rightarrow> cpuRegisters" where [ee_defs]:
  "PEXTLB s =
    (let rs = GPR s (iRs s); rt = GPR s (iRt s)
     in if iRd s = 0 then s else wGPR (iRd s) (fold (\<lambda>(i, x). set_UC i x)
      [(0, UC rt 0), (1, UC rs 0), (2, UC rt 1), (3, UC rs 1), (4, UC rt 2), (5, UC rs 2),
       (6, UC rt 3), (7, UC rs 3), (8, UC rt 4), (9, UC rs 4), (10, UC rt 5), (11, UC rs 5),
       (12, UC rt 6), (13, UC rs 6), (14, UC rt 7), (15, UC rs 7)]) s)"

definition PPACB :: "cpuRegisters \<Rightarrow> cpuRegisters" where [ee_defs]:
  "PPACB s =
    (let rs = GPR s (iRs s); rt = GPR s (iRt s)
     in if iRd s = 0 then s else wGPR (iRd s) (fold (\<lambda>(i, x). set_UC i x)
      [(0, UC rt 0), (1, UC rt 2), (2, UC rt 4), (3, UC rt 6), (4, UC rt 8), (5, UC rt 10),
       (6, UC rt 12), (7, UC rt 14), (8, UC rs 0), (9, UC rs 2), (10, UC rs 4),
       (11, UC rs 6), (12, UC rs 8), (13, UC rs 10), (14, UC rs 12), (15, UC rs 14)]) s)"

definition PEXT5_n :: "nat \<Rightarrow> cpuRegisters \<Rightarrow> cpuRegisters" where [ee_defs]:
  "PEXT5_n n s =
    wGPR (iRd s) (set_UL n (push_bit 3 ((UL (GPR s (iRt s)) n) AND 0x1F) OR push_bit 6 ((UL (GPR s (iRt s)) n) AND 0x3E0) OR
       push_bit 9 ((UL (GPR s (iRt s)) n) AND 0x7C00) OR push_bit 16 ((UL (GPR s (iRt s)) n) AND 0x8000))) s"

definition PEXT5 :: "cpuRegisters \<Rightarrow> cpuRegisters" where [ee_defs]:
  "PEXT5 s = (if iRd s = 0 then s else fold PEXT5_n [0..<4] s)"

definition PPAC5_n :: "nat \<Rightarrow> cpuRegisters \<Rightarrow> cpuRegisters" where [ee_defs]:
  "PPAC5_n n s =
    wGPR (iRd s) (set_UL n ((drop_bit 3 (UL (GPR s (iRt s)) n) AND 0x1F) OR (drop_bit 6 (UL (GPR s (iRt s)) n) AND 0x3E0) OR
       (drop_bit 9 (UL (GPR s (iRt s)) n) AND 0x7C00) OR (drop_bit 16 (UL (GPR s (iRt s)) n) AND 0x8000))) s"

definition PPAC5 :: "cpuRegisters \<Rightarrow> cpuRegisters" where [ee_defs]:
  "PPAC5 s = (if iRd s = 0 then s else fold PPAC5_n [0..<4] s)"

subsection \<open>MMI1\<close>

definition PABSW_n :: "nat \<Rightarrow> cpuRegisters \<Rightarrow> cpuRegisters" where [ee_defs]:
  "PABSW_n n s =
    wGPR (iRd s) (set_UL n (if (UL (GPR s (iRt s)) n) = 0x80000000 then 0x7fffffff else if (UL (GPR s (iRt s)) n) <s 0 then - (UL (GPR s (iRt s)) n) else (UL (GPR s (iRt s)) n))) s"

definition PABSW :: "cpuRegisters \<Rightarrow> cpuRegisters" where [ee_defs]:
  "PABSW s = (if iRd s = 0 then s else fold PABSW_n [0..<4] s)"

definition PCEQW_n :: "nat \<Rightarrow> cpuRegisters \<Rightarrow> cpuRegisters" where [ee_defs]:
  "PCEQW_n n s = wGPR (iRd s) (set_UL n (if UL (GPR s (iRs s)) n = UL (GPR s (iRt s)) n then 0xFFFFFFFF else 0)) s"

definition PCEQW :: "cpuRegisters \<Rightarrow> cpuRegisters" where [ee_defs]:
  "PCEQW s = (if iRd s = 0 then s else fold PCEQW_n [0..<4] s)"

definition PMINW_n :: "nat \<Rightarrow> cpuRegisters \<Rightarrow> cpuRegisters" where [ee_defs]:
  "PMINW_n n s = wGPR (iRd s) (set_UL n (if UL (GPR s (iRs s)) n <s UL (GPR s (iRt s)) n then UL (GPR s (iRs s)) n else UL (GPR s (iRt s)) n)) s"

definition PMINW :: "cpuRegisters \<Rightarrow> cpuRegisters" where [ee_defs]:
  "PMINW s = (if iRd s = 0 then s else fold PMINW_n [0..<4] s)"

definition PADSBH :: "cpuRegisters \<Rightarrow> cpuRegisters" where [ee_defs]:
  "PADSBH s = (if iRd s = 0 then s else fold PADDH_n [4..<8] (fold PSUBH_n [0..<4] s))"

definition PABSH_n :: "nat \<Rightarrow> cpuRegisters \<Rightarrow> cpuRegisters" where [ee_defs]:
  "PABSH_n n s =
    wGPR (iRd s) (set_US n (if (US (GPR s (iRt s)) n) = 0x8000 then 0x7fff else if (US (GPR s (iRt s)) n) <s 0 then - (US (GPR s (iRt s)) n) else (US (GPR s (iRt s)) n))) s"

definition PABSH :: "cpuRegisters \<Rightarrow> cpuRegisters" where [ee_defs]:
  "PABSH s = (if iRd s = 0 then s else fold PABSH_n [0..<8] s)"

definition PCEQH_n :: "nat \<Rightarrow> cpuRegisters \<Rightarrow> cpuRegisters" where [ee_defs]:
  "PCEQH_n n s = wGPR (iRd s) (set_US n (if US (GPR s (iRs s)) n = US (GPR s (iRt s)) n then 0xFFFF else 0)) s"

definition PCEQH :: "cpuRegisters \<Rightarrow> cpuRegisters" where [ee_defs]:
  "PCEQH s = (if iRd s = 0 then s else fold PCEQH_n [0..<8] s)"

definition PMINH_n :: "nat \<Rightarrow> cpuRegisters \<Rightarrow> cpuRegisters" where [ee_defs]:
  "PMINH_n n s = wGPR (iRd s) (set_US n (if US (GPR s (iRs s)) n <s US (GPR s (iRt s)) n then US (GPR s (iRs s)) n else US (GPR s (iRt s)) n)) s"

definition PMINH :: "cpuRegisters \<Rightarrow> cpuRegisters" where [ee_defs]:
  "PMINH s = (if iRd s = 0 then s else fold PMINH_n [0..<8] s)"

definition PCEQB_n :: "nat \<Rightarrow> cpuRegisters \<Rightarrow> cpuRegisters" where [ee_defs]:
  "PCEQB_n n s = wGPR (iRd s) (set_UC n (if UC (GPR s (iRs s)) n = UC (GPR s (iRt s)) n then 0xFF else 0)) s"

definition PCEQB :: "cpuRegisters \<Rightarrow> cpuRegisters" where [ee_defs]:
  "PCEQB s = (if iRd s = 0 then s else fold PCEQB_n [0..<16] s)"

definition PADDUW_n :: "nat \<Rightarrow> cpuRegisters \<Rightarrow> cpuRegisters" where [ee_defs]:
  "PADDUW_n n s =
    wGPR (iRd s) (set_UL n (let temp = ucast (UL (GPR s (iRs s)) n) + ucast (UL (GPR s (iRt s)) n) :: u64 in if 0xffffffff <s temp then 0xffffffff else ucast temp)) s"

definition PADDUW :: "cpuRegisters \<Rightarrow> cpuRegisters" where [ee_defs]:
  "PADDUW s = (if iRd s = 0 then s else fold PADDUW_n [0..<4] s)"

definition PSUBUW_n :: "nat \<Rightarrow> cpuRegisters \<Rightarrow> cpuRegisters" where [ee_defs]:
  "PSUBUW_n n s =
    wGPR (iRd s) (set_UL n (let temp = ucast (UL (GPR s (iRs s)) n) - ucast (UL (GPR s (iRt s)) n) :: u64 in if temp \<le>s 0 then 0 else ucast temp)) s"

definition PSUBUW :: "cpuRegisters \<Rightarrow> cpuRegisters" where [ee_defs]:
  "PSUBUW s = (if iRd s = 0 then s else fold PSUBUW_n [0..<4] s)"

definition PEXTUW :: "cpuRegisters \<Rightarrow> cpuRegisters" where [ee_defs]:
  "PEXTUW s =
    (let rs = GPR s (iRs s); rt = GPR s (iRt s)
     in if iRd s = 0 then s else wGPR (iRd s) (fold (\<lambda>(i, x). set_UL i x)
      [(0, UL rt 2), (1, UL rs 2), (2, UL rt 3), (3, UL rs 3)]) s)"

definition PADDUH_n :: "nat \<Rightarrow> cpuRegisters \<Rightarrow> cpuRegisters" where [ee_defs]:
  "PADDUH_n n s =
    wGPR (iRd s) (set_US n (let temp = ucast (US (GPR s (iRs s)) n) + ucast (US (GPR s (iRt s)) n) :: u32 in if 0xFFFF <s temp then 0xFFFF else ucast temp)) s"

definition PADDUH :: "cpuRegisters \<Rightarrow> cpuRegisters" where [ee_defs]:
  "PADDUH s = (if iRd s = 0 then s else fold PADDUH_n [0..<8] s)"

definition PSUBUH_n :: "nat \<Rightarrow> cpuRegisters \<Rightarrow> cpuRegisters" where [ee_defs]:
  "PSUBUH_n n s =
    wGPR (iRd s) (set_US n (let temp = ucast (US (GPR s (iRs s)) n) - ucast (US (GPR s (iRt s)) n) :: u32 in if temp \<le>s 0 then 0 else ucast temp)) s"

definition PSUBUH :: "cpuRegisters \<Rightarrow> cpuRegisters" where [ee_defs]:
  "PSUBUH s = (if iRd s = 0 then s else fold PSUBUH_n [0..<8] s)"

definition PEXTUH :: "cpuRegisters \<Rightarrow> cpuRegisters" where [ee_defs]:
  "PEXTUH s =
    (let rs = GPR s (iRs s); rt = GPR s (iRt s)
     in if iRd s = 0 then s else wGPR (iRd s) (fold (\<lambda>(i, x). set_US i x)
      [(0, US rt 4), (1, US rs 4), (2, US rt 5), (3, US rs 5), (4, US rt 6), (5, US rs 6),
       (6, US rt 7), (7, US rs 7)]) s)"

definition PADDUB_n :: "nat \<Rightarrow> cpuRegisters \<Rightarrow> cpuRegisters" where [ee_defs]:
  "PADDUB_n n s =
    wGPR (iRd s) (set_UC n (let temp = ucast (UC (GPR s (iRs s)) n) + ucast (UC (GPR s (iRt s)) n) :: u16 in if 0xFF < temp then 0xFF else ucast temp)) s"

definition PADDUB :: "cpuRegisters \<Rightarrow> cpuRegisters" where [ee_defs]:
  "PADDUB s = (if iRd s = 0 then s else fold PADDUB_n [0..<16] s)"

definition PSUBUB_n :: "nat \<Rightarrow> cpuRegisters \<Rightarrow> cpuRegisters" where [ee_defs]:
  "PSUBUB_n n s =
    wGPR (iRd s) (set_UC n (let temp = ucast (UC (GPR s (iRs s)) n) - ucast (UC (GPR s (iRt s)) n) :: u16 in if temp \<le>s 0 then 0 else ucast temp)) s"

definition PSUBUB :: "cpuRegisters \<Rightarrow> cpuRegisters" where [ee_defs]:
  "PSUBUB s = (if iRd s = 0 then s else fold PSUBUB_n [0..<16] s)"

definition PEXTUB :: "cpuRegisters \<Rightarrow> cpuRegisters" where [ee_defs]:
  "PEXTUB s =
    (let rs = GPR s (iRs s); rt = GPR s (iRt s)
     in if iRd s = 0 then s else wGPR (iRd s) (fold (\<lambda>(i, x). set_UC i x)
      [(0, UC rt 8), (1, UC rs 8), (2, UC rt 9), (3, UC rs 9), (4, UC rt 10), (5, UC rs 10),
       (6, UC rt 11), (7, UC rs 11), (8, UC rt 12), (9, UC rs 12), (10, UC rt 13),
       (11, UC rs 13), (12, UC rt 14), (13, UC rs 14), (14, UC rt 15), (15, UC rs 15)]) s)"

text \<open>The shift amount is below 128 bits when \<^verbatim>\<open>sa\<close> was written by \<^verbatim>\<open>MTSAB\<close> or
  \<^verbatim>\<open>MTSAH\<close>; beyond, the C++ shifts are undefined and the model's shifts give 0.\<close>

definition QFSRV :: "cpuRegisters \<Rightarrow> cpuRegisters" where [ee_defs]:
  "QFSRV s =
    (let rs = GPR s (iRs s); rt = GPR s (iRt s); sa_amt = push_bit 3 (sa s)
     in if iRd s = 0 then s
        else if sa_amt = 0
        then wGPR (iRd s) (fold (\<lambda>(i, x). set_UD i x) [(0, UD rt 0), (1, UD rt 1)]) s
        else if sa_amt < 64
        then wGPR (iRd s) (fold (\<lambda>(i, x). set_UD i x)
          [(0, drop_bit (unat sa_amt) (UD rt 0) OR push_bit (unat (64 - sa_amt)) (UD rt 1)),
           (1, drop_bit (unat sa_amt) (UD rt 1) OR push_bit (unat (64 - sa_amt)) (UD rs 0))]) s
        else wGPR (iRd s) (fold (\<lambda>(i, x). set_UD i x)
          [(0, drop_bit (unat (sa_amt - 64)) (UD rt 1) OR
                (if sa_amt \<noteq> 64 then push_bit (unat (128 - sa_amt)) (UD rs 0) else 0)),
           (1, drop_bit (unat (sa_amt - 64)) (UD rs 0) OR
                (if sa_amt \<noteq> 64 then push_bit (unat (128 - sa_amt)) (UD rs 1) else 0))]) s)"

subsection \<open>MMI2\<close>

definition PMADDW_n :: "nat \<Rightarrow> nat \<Rightarrow> cpuRegisters \<Rightarrow> cpuRegisters" where [ee_defs]:
  "PMADDW_n dd ss s =
    (let rs = UL (GPR s (iRs s)) ss; rt = UL (GPR s (iRt s)) ss;
         temp = scast rs * scast rt :: u64;
         temp2 = temp + push_bit 32 (scast (UL (HI s) ss));
         temp2 = (if ss = 0 \<and> (rt AND 0x7FFFFFFF = 0 \<or> rt AND 0x7FFFFFFF = 0x7FFFFFFF) \<and> rs \<noteq> rt
                  then temp2 + 0x70000000 else temp2);
         temp2 = scast (word_of_int (sint temp2 sdiv 4294967295) :: u32) :: u64;
         s' = s\<lparr>LO := set_UD dd (scast (ucast (temp AND 0xffffffff) + UL (LO s) ss)) (LO s),
                HI := set_UD dd (scast (ucast temp2 :: u32)) (HI s)\<rparr>
     in if iRd s \<noteq> 0 then wGPR (iRd s) (\<lambda>v. set_UL (dd * 2 + 1) (UL (HI s') (dd * 2))
                 (set_UL (dd * 2) (UL (LO s') (dd * 2)) v)) s' else s')"

definition PMADDW :: "cpuRegisters \<Rightarrow> cpuRegisters" where [ee_defs]:
  "PMADDW s = PMADDW_n 1 2 (PMADDW_n 0 0 s)"

definition PSLLVW :: "cpuRegisters \<Rightarrow> cpuRegisters" where [ee_defs]:
  "PSLLVW s =
    (if iRd s = 0 then s
     else let s' = wGPR (iRd s) (set_UD 0 (scast (push_bit (unat (UL (GPR s (iRs s)) 0 AND 0x1F))
                                               (UL (GPR s (iRt s)) 0)))) s
          in wGPR (iRd s) (set_UD 1 (scast (push_bit (unat (UL (GPR s' (iRs s)) 2 AND 0x1F))
                                               (UL (GPR s' (iRt s)) 2)))) s')"

definition PSRLVW :: "cpuRegisters \<Rightarrow> cpuRegisters" where [ee_defs]:
  "PSRLVW s =
    (if iRd s = 0 then s
     else let s' = wGPR (iRd s) (set_UD 0 (scast (drop_bit (unat (UL (GPR s (iRs s)) 0 AND 0x1F))
                                               (UL (GPR s (iRt s)) 0)))) s
          in wGPR (iRd s) (set_UD 1 (scast (drop_bit (unat (UL (GPR s' (iRs s)) 2 AND 0x1F))
                                               (UL (GPR s' (iRt s)) 2)))) s')"

definition PMSUBW_n :: "nat \<Rightarrow> nat \<Rightarrow> cpuRegisters \<Rightarrow> cpuRegisters" where [ee_defs]:
  "PMSUBW_n dd ss s =
    (let rs = UL (GPR s (iRs s)) ss; rt = UL (GPR s (iRt s)) ss;
         temp = scast rs * scast rt :: u64;
         temp2 = push_bit 32 (scast (UL (HI s) ss)) - temp;
         temp2 = scast (word_of_int (sint temp2 sdiv 4294967295) :: u32) :: u64;
         s' = s\<lparr>LO := set_UD dd (scast (UL (LO s) ss - ucast (temp AND 0xffffffff))) (LO s),
                HI := set_UD dd (scast (ucast temp2 :: u32)) (HI s)\<rparr>
     in if iRd s \<noteq> 0 then wGPR (iRd s) (\<lambda>v. set_UL (dd * 2 + 1) (UL (HI s') (dd * 2))
                 (set_UL (dd * 2) (UL (LO s') (dd * 2)) v)) s' else s')"

definition PMSUBW :: "cpuRegisters \<Rightarrow> cpuRegisters" where [ee_defs]:
  "PMSUBW s = PMSUBW_n 1 2 (PMSUBW_n 0 0 s)"

definition PMFHI :: "cpuRegisters \<Rightarrow> cpuRegisters" where [ee_defs]:
  "PMFHI s =
    (if iRd s = 0 then s
     else wGPR (iRd s) (fold (\<lambda>(i, x). set_UD i x) [(0, UD (HI s) 0), (1, UD (HI s) 1)]) s)"

definition PMFLO :: "cpuRegisters \<Rightarrow> cpuRegisters" where [ee_defs]:
  "PMFLO s =
    (if iRd s = 0 then s
     else wGPR (iRd s) (fold (\<lambda>(i, x). set_UD i x) [(0, UD (LO s) 0), (1, UD (LO s) 1)]) s)"

definition PINTH :: "cpuRegisters \<Rightarrow> cpuRegisters" where [ee_defs]:
  "PINTH s =
    (let rs = GPR s (iRs s); rt = GPR s (iRt s)
     in if iRd s = 0 then s else wGPR (iRd s) (fold (\<lambda>(i, x). set_US i x)
      [(0, US rt 0), (1, US rs 4), (2, US rt 1), (3, US rs 5), (4, US rt 2), (5, US rs 6),
       (6, US rt 3), (7, US rs 7)]) s)"

definition PMULTW_n :: "nat \<Rightarrow> nat \<Rightarrow> cpuRegisters \<Rightarrow> cpuRegisters" where [ee_defs]:
  "PMULTW_n dd ss s =
    (let temp = scast (UL (GPR s (iRs s)) ss) * scast (UL (GPR s (iRt s)) ss) :: u64;
         s' = s\<lparr>LO := set_UD dd (scast (ucast (temp AND 0xffffffff) :: u32)) (LO s),
                HI := set_UD dd (scast (ucast (signed_drop_bit 32 temp) :: u32)) (HI s)\<rparr>
     in if iRd s \<noteq> 0 then wGPR (iRd s) (set_UD dd temp) s' else s')"

definition PMULTW :: "cpuRegisters \<Rightarrow> cpuRegisters" where [ee_defs]:
  "PMULTW s = PMULTW_n 1 2 (PMULTW_n 0 0 s)"

definition PDIVW_n :: "nat \<Rightarrow> nat \<Rightarrow> cpuRegisters \<Rightarrow> cpuRegisters" where [ee_defs]:
  "PDIVW_n dd ss s =
    (let rs = UL (GPR s (iRs s)) ss; rt = UL (GPR s (iRt s)) ss
     in if rs = 0x80000000 \<and> rt = 0xffffffff
        then s\<lparr>LO := set_UD dd (scast (0x80000000 :: u32)) (LO s), HI := set_UD dd 0 (HI s)\<rparr>
        else if rt \<noteq> 0
        then s\<lparr>LO := set_UD dd (scast (word_of_int (sint rs sdiv sint rt) :: u32)) (LO s),
               HI := set_UD dd (scast (word_of_int (sint rs smod sint rt) :: u32)) (HI s)\<rparr>
        else s\<lparr>LO := set_UD dd (if rs <s 0 then 1 else - 1) (LO s),
               HI := set_UD dd (scast rs) (HI s)\<rparr>)"

definition PDIVW :: "cpuRegisters \<Rightarrow> cpuRegisters" where [ee_defs]:
  "PDIVW s = PDIVW_n 1 2 (PDIVW_n 0 0 s)"

definition PCPYLD :: "cpuRegisters \<Rightarrow> cpuRegisters" where [ee_defs]:
  "PCPYLD s =
    (if iRd s = 0 then s
     else let s' = wGPR (iRd s) (set_UD 1 (UD (GPR s (iRs s)) 0)) s
          in wGPR (iRd s) (set_UD 0 (UD (GPR s' (iRt s)) 0)) s')"

text \<open>The word products of the halfword multiplications, and the transfer of \<^verbatim>\<open>LO\<close> and
  \<^verbatim>\<open>HI\<close> to the destination that ends each of them.\<close>

definition hprod :: "cpuRegisters \<Rightarrow> nat \<Rightarrow> u32" where [ee_defs]:
  "hprod s n = scast (US (GPR s (iRs s)) n) * scast (US (GPR s (iRt s)) n)"

definition to_rd :: "cpuRegisters \<Rightarrow> cpuRegisters" where [ee_defs]:
  "to_rd s = (if iRd s \<noteq> 0
     then wGPR (iRd s) (fold (\<lambda>(i, x). set_UL i x)
       [(0, UL (LO s) 0), (1, UL (HI s) 0), (2, UL (LO s) 2), (3, UL (HI s) 2)]) s
     else s)"

definition PMADDH :: "cpuRegisters \<Rightarrow> cpuRegisters" where [ee_defs]:
  "PMADDH s =
    to_rd (s\<lparr>LO := fold (\<lambda>(i, x). set_UL i x)
               [(0, UL (LO s) 0 + hprod s 0), (1, UL (LO s) 1 + hprod s 1),
                (2, UL (LO s) 2 + hprod s 4), (3, UL (LO s) 3 + hprod s 5)] (LO s),
            HI := fold (\<lambda>(i, x). set_UL i x)
               [(0, UL (HI s) 0 + hprod s 2), (1, UL (HI s) 1 + hprod s 3),
                (2, UL (HI s) 2 + hprod s 6), (3, UL (HI s) 3 + hprod s 7)] (HI s)\<rparr>)"

definition PHMADH_LO :: "nat \<Rightarrow> nat \<Rightarrow> cpuRegisters \<Rightarrow> cpuRegisters" where [ee_defs]:
  "PHMADH_LO dd n s =
    (let firsttemp = hprod s (n + 1); temp = firsttemp + hprod s n
     in s\<lparr>LO := set_UL (dd + 1) (firsttemp) (set_UL dd temp (LO s))\<rparr>)"

definition PHMADH_HI :: "nat \<Rightarrow> nat \<Rightarrow> cpuRegisters \<Rightarrow> cpuRegisters" where [ee_defs]:
  "PHMADH_HI dd n s =
    (let firsttemp = hprod s (n + 1); temp = firsttemp + hprod s n
     in s\<lparr>HI := set_UL (dd + 1) (firsttemp) (set_UL dd temp (HI s))\<rparr>)"

definition PHMADH :: "cpuRegisters \<Rightarrow> cpuRegisters" where [ee_defs]:
  "PHMADH s =
    to_rd (PHMADH_HI 2 6 (PHMADH_LO 2 4 (PHMADH_HI 0 2 (PHMADH_LO 0 0 s))))"

definition PAND :: "cpuRegisters \<Rightarrow> cpuRegisters" where [ee_defs]:
  "PAND s =
    (if iRd s = 0 then s
     else let s' = wGPR (iRd s) (set_UD 0 (UD (GPR s (iRs s)) 0 AND UD (GPR s (iRt s)) 0)) s
          in wGPR (iRd s) (set_UD 1 (UD (GPR s' (iRs s)) 1 AND UD (GPR s' (iRt s)) 1)) s')"

definition PXOR :: "cpuRegisters \<Rightarrow> cpuRegisters" where [ee_defs]:
  "PXOR s =
    (if iRd s = 0 then s
     else let s' = wGPR (iRd s) (set_UD 0 (UD (GPR s (iRs s)) 0 XOR UD (GPR s (iRt s)) 0)) s
          in wGPR (iRd s) (set_UD 1 (UD (GPR s' (iRs s)) 1 XOR UD (GPR s' (iRt s)) 1)) s')"

definition PMSUBH :: "cpuRegisters \<Rightarrow> cpuRegisters" where [ee_defs]:
  "PMSUBH s =
    to_rd (s\<lparr>LO := fold (\<lambda>(i, x). set_UL i x)
               [(0, UL (LO s) 0 - hprod s 0), (1, UL (LO s) 1 - hprod s 1),
                (2, UL (LO s) 2 - hprod s 4), (3, UL (LO s) 3 - hprod s 5)] (LO s),
            HI := fold (\<lambda>(i, x). set_UL i x)
               [(0, UL (HI s) 0 - hprod s 2), (1, UL (HI s) 1 - hprod s 3),
                (2, UL (HI s) 2 - hprod s 6), (3, UL (HI s) 3 - hprod s 7)] (HI s)\<rparr>)"

definition PHMSBH_LO :: "nat \<Rightarrow> nat \<Rightarrow> cpuRegisters \<Rightarrow> cpuRegisters" where [ee_defs]:
  "PHMSBH_LO dd n s =
    (let firsttemp = hprod s (n + 1); temp = firsttemp - hprod s n
     in s\<lparr>LO := set_UL (dd + 1) (NOT firsttemp) (set_UL dd temp (LO s))\<rparr>)"

definition PHMSBH_HI :: "nat \<Rightarrow> nat \<Rightarrow> cpuRegisters \<Rightarrow> cpuRegisters" where [ee_defs]:
  "PHMSBH_HI dd n s =
    (let firsttemp = hprod s (n + 1); temp = firsttemp - hprod s n
     in s\<lparr>HI := set_UL (dd + 1) (NOT firsttemp) (set_UL dd temp (HI s))\<rparr>)"

definition PHMSBH :: "cpuRegisters \<Rightarrow> cpuRegisters" where [ee_defs]:
  "PHMSBH s =
    to_rd (PHMSBH_HI 2 6 (PHMSBH_LO 2 4 (PHMSBH_HI 0 2 (PHMSBH_LO 0 0 s))))"

definition PEXEH :: "cpuRegisters \<Rightarrow> cpuRegisters" where [ee_defs]:
  "PEXEH s =
    (let rt = GPR s (iRt s)
     in if iRd s = 0 then s else wGPR (iRd s) (fold (\<lambda>(i, x). set_US i x)
      [(0, US rt 2), (1, US rt 1), (2, US rt 0), (3, US rt 3), (4, US rt 6), (5, US rt 5),
       (6, US rt 4), (7, US rt 7)]) s)"

definition PREVH :: "cpuRegisters \<Rightarrow> cpuRegisters" where [ee_defs]:
  "PREVH s =
    (let rt = GPR s (iRt s)
     in if iRd s = 0 then s else wGPR (iRd s) (fold (\<lambda>(i, x). set_US i x)
      [(0, US rt 3), (1, US rt 2), (2, US rt 1), (3, US rt 0), (4, US rt 7), (5, US rt 6),
       (6, US rt 5), (7, US rt 4)]) s)"

definition PMULTH :: "cpuRegisters \<Rightarrow> cpuRegisters" where [ee_defs]:
  "PMULTH s =
    to_rd (s\<lparr>LO := fold (\<lambda>(i, x). set_UL i x)
               [(0, hprod s 0), (1, hprod s 1),
                (2, hprod s 4), (3, hprod s 5)] (LO s),
            HI := fold (\<lambda>(i, x). set_UL i x)
               [(0, hprod s 2), (1, hprod s 3),
                (2, hprod s 6), (3, hprod s 7)] (HI s)\<rparr>)"

definition PDIVBW_n :: "nat \<Rightarrow> cpuRegisters \<Rightarrow> cpuRegisters" where [ee_defs]:
  "PDIVBW_n n s =
    (let rs = UL (GPR s (iRs s)) n; rt = US (GPR s (iRt s)) 0
     in if rs = 0x80000000 \<and> rt = 0xffff
        then s\<lparr>LO := set_UL n 0x80000000 (LO s), HI := set_UL n 0 (HI s)\<rparr>
        else if rt \<noteq> 0
        then s\<lparr>LO := set_UL n (word_of_int (sint rs sdiv sint rt)) (LO s),
               HI := set_UL n (word_of_int (sint rs smod sint rt)) (HI s)\<rparr>
        else s\<lparr>LO := set_UL n (if rs <s 0 then 1 else - 1) (LO s), HI := set_UL n rs (HI s)\<rparr>)"

definition PDIVBW :: "cpuRegisters \<Rightarrow> cpuRegisters" where [ee_defs]:
  "PDIVBW s = fold PDIVBW_n [0..<4] s"

definition PEXEW :: "cpuRegisters \<Rightarrow> cpuRegisters" where [ee_defs]:
  "PEXEW s =
    (let rt = GPR s (iRt s)
     in if iRd s = 0 then s else wGPR (iRd s) (fold (\<lambda>(i, x). set_UL i x)
      [(0, UL rt 2), (1, UL rt 1), (2, UL rt 0), (3, UL rt 3)]) s)"

definition PROT3W :: "cpuRegisters \<Rightarrow> cpuRegisters" where [ee_defs]:
  "PROT3W s =
    (let rt = GPR s (iRt s)
     in if iRd s = 0 then s else wGPR (iRd s) (fold (\<lambda>(i, x). set_UL i x)
      [(0, UL rt 1), (1, UL rt 2), (2, UL rt 0), (3, UL rt 3)]) s)"

subsection \<open>MMI3\<close>

definition PMADDUW_n :: "nat \<Rightarrow> nat \<Rightarrow> cpuRegisters \<Rightarrow> cpuRegisters" where [ee_defs]:
  "PMADDUW_n dd ss s =
    (let tempu = (ucast (UL (LO s) ss) OR push_bit 32 (ucast (UL (HI s) ss))) +
           ucast (UL (GPR s (iRs s)) ss) * ucast (UL (GPR s (iRt s)) ss) :: u64;
         s' = s\<lparr>LO := set_UD dd (scast (ucast (tempu AND 0xffffffff) :: u32)) (LO s),
                HI := set_UD dd (scast (ucast (drop_bit 32 tempu) :: u32)) (HI s)\<rparr>
     in if iRd s \<noteq> 0 then wGPR (iRd s) (set_UD dd tempu) s' else s')"

definition PMADDUW :: "cpuRegisters \<Rightarrow> cpuRegisters" where [ee_defs]:
  "PMADDUW s = PMADDUW_n 1 2 (PMADDUW_n 0 0 s)"

definition PSRAVW :: "cpuRegisters \<Rightarrow> cpuRegisters" where [ee_defs]:
  "PSRAVW s =
    (if iRd s = 0 then s
     else let s' = wGPR (iRd s) (set_UD 0 (scast (signed_drop_bit (unat (UL (GPR s (iRs s)) 0 AND 0x1F))
                                               (UL (GPR s (iRt s)) 0)))) s
          in wGPR (iRd s) (set_UD 1 (scast (signed_drop_bit (unat (UL (GPR s' (iRs s)) 2 AND 0x1F))
                                               (UL (GPR s' (iRt s)) 2)))) s')"

definition PMTHI :: "cpuRegisters \<Rightarrow> cpuRegisters" where [ee_defs]:
  "PMTHI s = s\<lparr>HI := fold (\<lambda>(i, x). set_UD i x) [(0, UD (GPR s (iRs s)) 0), (1, UD (GPR s (iRs s)) 1)] (HI s)\<rparr>"

definition PMTLO :: "cpuRegisters \<Rightarrow> cpuRegisters" where [ee_defs]:
  "PMTLO s = s\<lparr>LO := fold (\<lambda>(i, x). set_UD i x) [(0, UD (GPR s (iRs s)) 0), (1, UD (GPR s (iRs s)) 1)] (LO s)\<rparr>"

definition PINTEH :: "cpuRegisters \<Rightarrow> cpuRegisters" where [ee_defs]:
  "PINTEH s =
    (let rs = GPR s (iRs s); rt = GPR s (iRt s)
     in if iRd s = 0 then s else wGPR (iRd s) (fold (\<lambda>(i, x). set_US i x)
      [(0, US rt 0), (1, US rs 0), (2, US rt 2), (3, US rs 2), (4, US rt 4), (5, US rs 4),
       (6, US rt 6), (7, US rs 6)]) s)"

definition PMULTUW_n :: "nat \<Rightarrow> nat \<Rightarrow> cpuRegisters \<Rightarrow> cpuRegisters" where [ee_defs]:
  "PMULTUW_n dd ss s =
    (let temp = ucast (UL (GPR s (iRs s)) ss) * ucast (UL (GPR s (iRt s)) ss) :: u64;
         s' = s\<lparr>LO := set_UD dd (scast (ucast (temp AND 0xffffffff) :: u32)) (LO s),
                HI := set_UD dd (scast (ucast (drop_bit 32 temp) :: u32)) (HI s)\<rparr>
     in if iRd s \<noteq> 0 then wGPR (iRd s) (set_UD dd temp) s' else s')"

definition PMULTUW :: "cpuRegisters \<Rightarrow> cpuRegisters" where [ee_defs]:
  "PMULTUW s = PMULTUW_n 1 2 (PMULTUW_n 0 0 s)"

definition PDIVUW_n :: "nat \<Rightarrow> nat \<Rightarrow> cpuRegisters \<Rightarrow> cpuRegisters" where [ee_defs]:
  "PDIVUW_n dd ss s =
    (let rs = UL (GPR s (iRs s)) ss; rt = UL (GPR s (iRt s)) ss
     in if rt \<noteq> 0
        then s\<lparr>LO := set_UD dd (scast (rs div rt)) (LO s), HI := set_UD dd (scast (rs mod rt)) (HI s)\<rparr>
        else s\<lparr>LO := set_UD dd (- 1) (LO s), HI := set_UD dd (scast rs) (HI s)\<rparr>)"

definition PDIVUW :: "cpuRegisters \<Rightarrow> cpuRegisters" where [ee_defs]:
  "PDIVUW s = PDIVUW_n 1 2 (PDIVUW_n 0 0 s)"

definition PCPYUD :: "cpuRegisters \<Rightarrow> cpuRegisters" where [ee_defs]:
  "PCPYUD s =
    (if iRd s = 0 then s
     else let s' = wGPR (iRd s) (set_UD 0 (UD (GPR s (iRs s)) 1)) s
          in wGPR (iRd s) (set_UD 1 (UD (GPR s' (iRt s)) 1)) s')"

definition POR :: "cpuRegisters \<Rightarrow> cpuRegisters" where [ee_defs]:
  "POR s =
    (if iRd s = 0 then s
     else let s' = wGPR (iRd s) (set_UD 0 (UD (GPR s (iRs s)) 0 OR UD (GPR s (iRt s)) 0)) s
          in wGPR (iRd s) (set_UD 1 (UD (GPR s' (iRs s)) 1 OR UD (GPR s' (iRt s)) 1)) s')"

definition PNOR :: "cpuRegisters \<Rightarrow> cpuRegisters" where [ee_defs]:
  "PNOR s =
    (if iRd s = 0 then s
     else let s' = wGPR (iRd s) (set_UD 0 (NOT (UD (GPR s (iRs s)) 0 OR UD (GPR s (iRt s)) 0))) s
          in wGPR (iRd s) (set_UD 1 (NOT (UD (GPR s' (iRs s)) 1 OR UD (GPR s' (iRt s)) 1))) s')"

definition PEXCH :: "cpuRegisters \<Rightarrow> cpuRegisters" where [ee_defs]:
  "PEXCH s =
    (let rt = GPR s (iRt s)
     in if iRd s = 0 then s else wGPR (iRd s) (fold (\<lambda>(i, x). set_US i x)
      [(0, US rt 0), (1, US rt 2), (2, US rt 1), (3, US rt 3), (4, US rt 4), (5, US rt 6),
       (6, US rt 5), (7, US rt 7)]) s)"

definition PCPYH :: "cpuRegisters \<Rightarrow> cpuRegisters" where [ee_defs]:
  "PCPYH s =
    (let rt = GPR s (iRt s)
     in if iRd s = 0 then s else wGPR (iRd s) (fold (\<lambda>(i, x). set_US i x)
      [(0, US rt 0), (1, US rt 0), (2, US rt 0), (3, US rt 0), (4, US rt 4), (5, US rt 4),
       (6, US rt 4), (7, US rt 4)]) s)"

definition PEXCW :: "cpuRegisters \<Rightarrow> cpuRegisters" where [ee_defs]:
  "PEXCW s =
    (let rt = GPR s (iRt s)
     in if iRd s = 0 then s else wGPR (iRd s) (fold (\<lambda>(i, x). set_UL i x)
      [(0, UL rt 0), (1, UL rt 2), (2, UL rt 1), (3, UL rt 3)]) s)"

end
