(* ===== verification/EE_Arith.thy ===== *)
theory EE_Arith
  imports EE_MMI
begin

text \<open>
  Arithmetic facts behind the integer and multimedia handlers: overflow checks against the exact
  sum, products and accumulators across \<^verbatim>\<open>HI\<close> and \<^verbatim>\<open>LO\<close>, truncating division.
\<close>

subsection \<open>Exact values of signed expressions\<close>

definition s32_range :: "int \<Rightarrow> bool" where
  "s32_range z \<longleftrightarrow> - (2 ^ 31) \<le> z \<and> z < 2 ^ 31"

definition s64_range :: "int \<Rightarrow> bool" where
  "s64_range z \<longleftrightarrow> - (2 ^ 63) \<le> z \<and> z < 2 ^ 63"

lemma sint_s32_range: "s32_range (sint (x::u32))"
  using sint_ge [of x] sint_lt [of x] by (simp add: s32_range_def)

lemma sint_s64_range: "s64_range (sint (x::u64))"
  using sint_ge [of x] sint_lt [of x] by (simp add: s64_range_def)

lemma sint_word_of_int64: "s64_range z \<Longrightarrow> sint (word_of_int z :: u64) = z"
  by (simp add: sint_sbintrunc' signed_take_bit_int_eq_self s64_range_def)

lemma sint_word_of_int32: "s32_range z \<Longrightarrow> sint (word_of_int z :: u32) = z"
  by (simp add: sint_sbintrunc' signed_take_bit_int_eq_self s32_range_def)

lemma sint_scast64: "sint (scast (x::u32) :: u64) = sint x"
  by (rule sint_up_scast) (simp add: is_up)

lemma scast64_eq: "(scast (x::u32) :: u64) = word_of_int (sint x)"
  by (metis of_int_sint sint_scast64 scast_id)

lemma add_scast64: "sint (scast (x::u32) + scast (y::u32) :: u64) = sint x + sint y"
  using sint_s32_range [of x] sint_s32_range [of y]
  by (simp add: sint_word_ariths sint_scast64 signed_take_bit_int_eq_self s32_range_def)

lemma mult_scast64: "sint (scast (x::u32) * scast (y::u32) :: u64) = sint x * sint y"
proof -
  have "\<bar>sint x\<bar> \<le> 2 ^ 31" "\<bar>sint y\<bar> \<le> 2 ^ 31"
    using sint_s32_range [of x] sint_s32_range [of y] by (auto simp: s32_range_def)
  then have "\<bar>sint x\<bar> * \<bar>sint y\<bar> \<le> 2 ^ 31 * 2 ^ 31" by (intro mult_mono) simp_all
  then have "\<bar>sint x * sint y\<bar> \<le> 2 ^ 62" by (simp add: abs_mult)
  then show ?thesis
    by (simp add: sint_word_ariths sint_scast64 signed_take_bit_int_eq_self)
qed

subsection \<open>The overflow checks\<close>

text \<open>The 64-bit check looks at the signs, the 32-bit check at bits 31 and 32 of the wide sum.\<close>

lemma sign_bit64: "bit (x::u64) 63 \<longleftrightarrow> sint x < 0"
  using bit_last_iff [of x] by simp

lemma sign_bit32: "bit (x::u32) 31 \<longleftrightarrow> sint x < 0"
  using bit_last_iff [of x] by simp

lemma sless0_64: "(x::u64) <s 0 \<longleftrightarrow> bit x 63"
  by (simp add: word_sless_alt sign_bit64)

lemma sint_add_cases64:
  "sint (x + y :: u64) = (if sint x + sint y < - (2 ^ 63) then sint x + sint y + 2 ^ 64
     else if 2 ^ 63 \<le> sint x + sint y then sint x + sint y - 2 ^ 64 else sint x + sint y)"
proof -
  let ?z = "sint x + sint y"
  have r: "- (2 ^ 64) \<le> ?z" "?z < 2 ^ 64"
    using sint_s64_range [of x] sint_s64_range [of y] by (auto simp: s64_range_def)
  have wrap: "(word_of_int (2 ^ 64) :: u64) = 0" by (simp add: word_eq_iff_unsigned)
  have sum: "word_of_int ?z = x + y" by simp
  then have eq: "x + y = word_of_int (?z + 2 ^ 64)" "x + y = word_of_int (?z - 2 ^ 64)"
    "x + y = word_of_int ?z"
    by (simp_all only: of_int_add [of ?z] of_int_diff [of ?z] wrap add_0_right diff_zero)
  consider "?z < - (2 ^ 63)" | "2 ^ 63 \<le> ?z" | "s64_range ?z" by (force simp: s64_range_def)
  then show ?thesis
  proof cases
    case 1
    with r have "s64_range (?z + 2 ^ 64)" by (simp add: s64_range_def)
    from sint_word_of_int64 [OF this] 1 show ?thesis unfolding eq(1) [symmetric] by simp
  next
    case 2
    with r have "s64_range (?z - 2 ^ 64)" by (simp add: s64_range_def)
    from sint_word_of_int64 [OF this] 2 show ?thesis unfolding eq(2) [symmetric] by simp
  next
    case 3
    from sint_word_of_int64 [OF this] 3 show ?thesis unfolding eq(3) [symmetric] by (simp add: s64_range_def)
  qed
qed

lemma add64_overflow_iff:
  "(NOT (x XOR y) AND (x XOR (x + y))) <s (0 :: u64) \<longleftrightarrow> \<not> s64_range (sint x + sint y)"
proof -
  have "(NOT (x XOR y) AND (x XOR (x + y))) <s 0 \<longleftrightarrow>
      (bit x 63 = bit y 63) \<and> (bit x 63 \<noteq> bit (x + y) 63)"
    unfolding sless0_64 by (simp add: bit_simps)
  then show ?thesis
    using sint_s64_range [of x] sint_s64_range [of y] sint_add_cases64 [of x y]
    unfolding sign_bit64 s64_range_def by (auto split: if_splits)
qed

lemma add32_overflow_iff:
  "drop_bit 31 (ucast (r::u64) :: u32) \<noteq> (ucast (drop_bit 32 r) :: u32) AND 1 \<longleftrightarrow> bit r 31 \<noteq> bit r 32"
  by (auto simp: word32_bitwise bit_simps)

lemma bit_sint64: "n < 64 \<Longrightarrow> bit (r::u64) n \<longleftrightarrow> odd (sint r div 2 ^ n)"
proof -
  assume "n < 64"
  then have "bit (sint r) n = bit r n" by (auto simp: bit_sint_iff not_le)
  then show ?thesis by (simp add: bit_iff_odd)
qed

lemma add32_wide_check:
  fixes x y :: u32
  defines "r \<equiv> scast x + scast y :: u64"
  shows "bit r 31 \<noteq> bit r 32 \<longleftrightarrow> \<not> s32_range (sint x + sint y)"
proof -
  let ?z = "sint x + sint y" and ?q = "(sint x + sint y) div 2 ^ 31"
  have z: "sint r = ?z" unfolding r_def by (rule add_scast64)
  have "- (2 ^ 32) \<le> ?z" "?z < 2 ^ 32"
    using sint_s32_range [of x] sint_s32_range [of y] by (auto simp: s32_range_def)
  then have q: "- 2 \<le> ?q" "?q < 2" by simp_all
  have half: "?z div 2 ^ 32 = ?q div 2" by (simp add: zdiv_zmult2_eq [symmetric])
  have "s32_range ?z \<longleftrightarrow> ?q = - 1 \<or> ?q = 0"
    unfolding s32_range_def using q by auto
  moreover have "?q = - 2 \<or> ?q = - 1 \<or> ?q = 0 \<or> ?q = 1" using q by linarith
  ultimately show ?thesis
    using bit_sint64 [of 31 r] bit_sint64 [of 32 r] unfolding z half by auto
qed

lemma add64_Overflow_exact:
  "add64_Overflow x y s =
    (if s64_range (sint x + sint y) then (Some (word_of_int (sint x + sint y)), s)
     else (None, cpuException 0x30 (branch s) s))"
  by (simp add: add64_Overflow_def Let_def add64_overflow_iff)

lemma add32_Overflow_exact:
  "add32_Overflow x y s =
    (if s32_range (sint x + sint y) then (Some (word_of_int (sint x + sint y)), s)
     else (None, cpuException 0x30 (branch s) s))"
proof -
  have "scast x + scast y = (word_of_int (sint x + sint y) :: u64)"
    by (simp only: scast64_eq of_int_add)
  then show ?thesis
    unfolding add32_Overflow_def Let_def add32_overflow_iff add32_wide_check by simp
qed

subsection \<open>HI and LO\<close>

text \<open>The 64-bit value in the low words of \<^verbatim>\<open>HI\<close> and \<^verbatim>\<open>LO\<close>, for either pipeline.\<close>

definition hilo :: "nat \<Rightarrow> cpuRegisters \<Rightarrow> u64" where
  "hilo d s = ucast (UL (LO s) (2 * d)) OR push_bit 32 (ucast (UL (HI s) (2 * d)))"

definition canonical :: "u64 \<Rightarrow> bool" where
  "canonical x \<longleftrightarrow> x = scast (ucast x :: u32)"

lemma canonical_scast [simp]: "canonical (scast (x::u32))"
  by (simp add: canonical_def word64_bitwise bit_simps)

lemma ucast_scast32: "ucast (scast (x::u32) :: u64) = x"
  by (simp add: word32_bitwise bit_simps)

lemma UL_set_UD:
  "UL (set_UD 0 x v) 0 = ucast x" "UL (set_UD (Suc 0) x v) 2 = ucast x"
  "UL (set_UD 0 x v) 2 = UL v 2" "UL (set_UD (Suc 0) x v) 0 = UL v 0"
  "UL (set_UD 0 x v) 1 = ucast (drop_bit 32 x)" "UL (set_UD (Suc 0) x v) 3 = ucast (drop_bit 32 x)"
  "UL (set_UD 0 x v) 3 = UL v 3" "UL (set_UD (Suc 0) x v) (Suc 0) = UL v (Suc 0)"
  by (auto simp: bit_simps intro!: bit_word_eqI)

lemma hilo_parts:
  "ucast (ucast (r AND 0xffffffff) :: u32) OR push_bit 32 (ucast (ucast (signed_drop_bit 32 r) :: u32)) = (r :: u64)"
  "ucast (ucast (r AND 0xffffffff) :: u32) OR push_bit 32 (ucast (ucast (drop_bit 32 r) :: u32)) = (r :: u64)"
  by (simp_all add: word64_bitwise bit_simps)

text \<open>Both pipelines write a double word as its two sign-extended halves.\<close>

lemma hilo_write:
  "hilo 0 (s\<lparr>LO := set_UD 0 (scast (ucast (r AND 0xffffffff) :: u32)) l,
            HI := set_UD 0 (scast (ucast (signed_drop_bit 32 r) :: u32)) h\<rparr>) = r"
  "hilo 0 (s\<lparr>LO := set_UD 0 (scast (ucast (r AND 0xffffffff) :: u32)) l,
            HI := set_UD 0 (scast (ucast (drop_bit 32 r) :: u32)) h\<rparr>) = r"
  "hilo (Suc 0) (s\<lparr>LO := set_UD (Suc 0) (scast (ucast (r AND 0xffffffff) :: u32)) l,
            HI := set_UD (Suc 0) (scast (ucast (signed_drop_bit 32 r) :: u32)) h\<rparr>) = r"
  "hilo (Suc 0) (s\<lparr>LO := set_UD (Suc 0) (scast (ucast (r AND 0xffffffff) :: u32)) l,
            HI := set_UD (Suc 0) (scast (ucast (drop_bit 32 r) :: u32)) h\<rparr>) = r"
  unfolding hilo_def by (simp_all add: UL_set_UD ucast_scast32 hilo_parts)

lemma hilo_wGPR [simp]: "hilo d (wGPR r f s) = hilo d s"
  by (simp add: hilo_def)

subsection \<open>Truncating division\<close>

lemma int_min_words:
  "(word_of_int (- (2 ^ 31)) :: u32) = 0x80000000" "(word_of_int (- 1) :: u32) = 0xffffffff"
  by (simp_all add: word_eq_iff_unsigned)

lemma sdiv_s32_range:
  assumes "rt \<noteq> 0" "\<not> (rs = 0x80000000 \<and> rt = 0xffffffff)"
  shows "s32_range (sint (rs::u32) sdiv sint (rt::u32))" "s32_range (sint rs smod sint rt)"
proof -
  let ?a = "sint rs" and ?b = "sint rt"
  have a: "- (2 ^ 31) \<le> ?a" "?a < 2 ^ 31" and br: "- (2 ^ 31) \<le> ?b" "?b < 2 ^ 31"
    using sint_s32_range [of rs] sint_s32_range [of rt] by (auto simp: s32_range_def)
  have b: "?b \<noteq> 0" using assms(1) by (metis of_int_0 of_int_sint scast_id)
  have vals: "rs = word_of_int ?a" "rt = word_of_int ?b" by simp_all
  have min: "?a \<noteq> - (2 ^ 31) \<or> ?b \<noteq> - 1"
    using assms(2) vals by (metis (no_types, opaque_lifting) int_min_words)
  consider "2 \<le> \<bar>?b\<bar>" | "?b = 1" | "?b = - 1" using b by linarith
  then show "s32_range (?a sdiv ?b)"
  proof cases
    case 1
    have "\<bar>?a\<bar> div \<bar>?b\<bar> \<le> \<bar>?a\<bar> div 2" using 1 by (intro zdiv_mono2) simp_all
    also have "\<dots> \<le> 2 ^ 31 div 2" using a by (intro zdiv_mono1) auto
    finally have "\<bar>?a\<bar> div \<bar>?b\<bar> \<le> 2 ^ 30" by simp
    moreover have "\<bar>?a sdiv ?b\<bar> \<le> \<bar>\<bar>?a\<bar> div \<bar>?b\<bar>\<bar>"
      by (simp add: signed_divide_int_def abs_mult abs_sgn_eq)
    moreover have "0 \<le> \<bar>?a\<bar> div \<bar>?b\<bar>" using b by (simp add: pos_imp_zdiv_nonneg_iff)
    ultimately have "\<bar>?a sdiv ?b\<bar> \<le> 2 ^ 30" by linarith
    then show ?thesis by (simp add: s32_range_def abs_le_iff)
  next
    case 2
    then show ?thesis using a by (simp add: s32_range_def)
  next
    case 3
    with min a show ?thesis by (simp add: s32_range_def)
  qed
  have "\<bar>?a\<bar> mod \<bar>?b\<bar> < \<bar>?b\<bar>" "0 \<le> \<bar>?a\<bar> mod \<bar>?b\<bar>" using b by auto
  then show "s32_range (?a smod ?b)"
    using br by (auto simp: s32_range_def signed_modulo_int_def sgn_if)
qed

subsection \<open>The multiplication handlers\<close>

text \<open>What a multiplication of pipeline \<open>d\<close> leaves: the 64-bit value in \<^verbatim>\<open>HI\<close> and
  \<^verbatim>\<open>LO\<close> as two sign-extended words, the other pipeline's pair untouched, and the low
  word in the destination unless that is register 0.\<close>

definition multiply_written :: "nat \<Rightarrow> (cpuRegisters \<Rightarrow> cpuRegisters) \<Rightarrow> u64 \<Rightarrow> cpuRegisters \<Rightarrow> bool" where
  "multiply_written d h z s \<longleftrightarrow>
     hilo d (h s) = z \<and> hilo (1 - d) (h s) = hilo (1 - d) s \<and>
     canonical (UD (LO (h s)) d) \<and> canonical (UD (HI (h s)) d) \<and>
     (\<forall>r. UD (GPR (h s) r) 0 = (if r = iRd s \<and> r \<noteq> 0 then UD (LO (h s)) d else UD (GPR s r) 0))"

lemma multiply_writtenI:
  assumes "h s = (let s' = s\<lparr>LO := set_UD d (scast (ucast (z AND 0xffffffff) :: u32)) (LO s),
      HI := set_UD d (scast (ucast z' :: u32)) (HI s)\<rparr>
    in if iRd s \<noteq> 0 then wGPR (iRd s) (set_UD 0 (UD (LO s') d)) s' else s')"
    and "z' = signed_drop_bit 32 z \<or> z' = drop_bit 32 z" and "d = 0 \<or> d = Suc 0"
  shows "multiply_written d h z s"
proof -
  have "hilo d (h s) = z" using assms(2,3) unfolding assms(1) Let_def by (auto simp: hilo_write)
  moreover have "hilo (1 - d) (h s) = hilo (1 - d) s"
    using assms(3) unfolding assms(1) Let_def by (auto simp: hilo_def UL_set_UD)
  ultimately show ?thesis
    using assms(3) unfolding multiply_written_def by (auto simp: assms(1) Let_def)
qed

lemma multiply_handlers:
  fixes s :: cpuRegisters
  defines "x \<equiv> UL (GPR s (iRs s)) 0" and "y \<equiv> UL (GPR s (iRt s)) 0"
  shows "multiply_written 0 MULT (scast x * scast y) s" "multiply_written 0 MULTU (ucast x * ucast y) s"
    "multiply_written (Suc 0) MULT1 (scast x * scast y) s" "multiply_written (Suc 0) MULTU1 (ucast x * ucast y) s"
    "multiply_written 0 MADD (hilo 0 s + scast x * scast y) s"
    "multiply_written 0 MADDU (hilo 0 s + ucast x * ucast y) s"
    "multiply_written (Suc 0) MADD1 (hilo (Suc 0) s + scast x * scast y) s"
    "multiply_written (Suc 0) MADDU1 (hilo (Suc 0) s + ucast x * ucast y) s"
proof -
  show "multiply_written 0 MULT (scast x * scast y) s"
    by (rule multiply_writtenI [where z' = "signed_drop_bit 32 (scast x * scast y)"]) (simp_all add: MULT_def x_def y_def hilo_def Let_def)
  show "multiply_written 0 MULTU (ucast x * ucast y) s"
    by (rule multiply_writtenI [where z' = "drop_bit 32 (ucast x * ucast y)"]) (simp_all add: MULTU_def x_def y_def hilo_def Let_def)
  show "multiply_written (Suc 0) MULT1 (scast x * scast y) s"
    by (rule multiply_writtenI [where z' = "signed_drop_bit 32 (scast x * scast y)"]) (simp_all add: MULT1_def x_def y_def hilo_def Let_def)
  show "multiply_written (Suc 0) MULTU1 (ucast x * ucast y) s"
    by (rule multiply_writtenI [where z' = "drop_bit 32 (ucast x * ucast y)"]) (simp_all add: MULTU1_def x_def y_def hilo_def Let_def)
  show "multiply_written 0 MADD (hilo 0 s + scast x * scast y) s"
    by (rule multiply_writtenI [where z' = "signed_drop_bit 32 (hilo 0 s + scast x * scast y)"]) (simp_all add: MADD_def x_def y_def hilo_def Let_def)
  show "multiply_written 0 MADDU (hilo 0 s + ucast x * ucast y) s"
    by (rule multiply_writtenI [where z' = "drop_bit 32 (hilo 0 s + ucast x * ucast y)"]) (simp_all add: MADDU_def x_def y_def hilo_def Let_def)
  show "multiply_written (Suc 0) MADD1 (hilo (Suc 0) s + scast x * scast y) s"
    by (rule multiply_writtenI [where z' = "signed_drop_bit 32 (hilo (Suc 0) s + scast x * scast y)"]) (simp_all add: MADD1_def x_def y_def hilo_def Let_def)
  show "multiply_written (Suc 0) MADDU1 (hilo (Suc 0) s + ucast x * ucast y) s"
    by (rule multiply_writtenI [where z' = "drop_bit 32 (hilo (Suc 0) s + ucast x * ucast y)"]) (simp_all add: MADDU1_def x_def y_def hilo_def Let_def)
qed

lemma products_exact:
  "scast x * scast y = (word_of_int (sint (x::u32) * sint (y::u32)) :: u64)"
  "ucast x * ucast y = (word_of_int (uint (x::u32) * uint (y::u32)) :: u64)"
  by (simp_all only: scast64_eq ucast_eq of_int_mult)

subsection \<open>The division handlers\<close>

text \<open>Truncating division: the remainder has the sign of the dividend. For a zero divisor and
  for the quotient that overflows the handlers have values of their own.\<close>

definition divides :: "int \<Rightarrow> int \<Rightarrow> int \<Rightarrow> int \<Rightarrow> bool" where
  "divides x y q r \<longleftrightarrow> x = q * y + r \<and> \<bar>r\<bar> < \<bar>y\<bar> \<and> 0 \<le> r * x"

definition divided :: "int \<Rightarrow> int \<Rightarrow> int \<Rightarrow> int \<Rightarrow> bool" where
  "divided x y q r \<longleftrightarrow>
    (if y = 0 then q = (if x < 0 then 1 else - 1) \<and> r = x
     else if x = - (2 ^ 31) \<and> y = - 1 then q = - (2 ^ 31) \<and> r = 0
     else divides x y q r)"

lemma smod_divides: "b \<noteq> 0 \<Longrightarrow> divides a b (a sdiv b) (a smod b)" for a b :: int
proof -
  assume b: "b \<noteq> 0"
  have "a = a sdiv b * b + a smod b" by (simp only: sdiv_mult_smod_eq)
  moreover have m: "0 \<le> \<bar>a\<bar> mod \<bar>b\<bar>" "\<bar>a\<bar> mod \<bar>b\<bar> < \<bar>b\<bar>" using b by auto
  moreover have "\<bar>a smod b\<bar> = \<bar>\<bar>a\<bar> mod \<bar>b\<bar>\<bar> \<or> a smod b = 0" 
    by (auto simp: signed_modulo_int_def abs_mult abs_sgn_eq)
  moreover have "0 \<le> a smod b * a"
    using m(1) by (auto simp: signed_modulo_int_def sgn_if mult_nonneg_nonneg mult_nonpos_nonpos zero_le_mult_iff)
  ultimately show ?thesis using b by (auto simp: divides_def)
qed

lemma sint_eq_iff32: "sint (x::u32) = - (2 ^ 31) \<longleftrightarrow> x = 0x80000000" "sint x = - 1 \<longleftrightarrow> x = 0xffffffff"
  "sint x = 0 \<longleftrightarrow> x = 0"
proof -
  have x: "x = word_of_int (sint x)" by simp
  have v: "sint (0x80000000 :: u32) = - (2 ^ 31)" "sint (0xffffffff :: u32) = - 1" by simp_all
  show "sint x = - (2 ^ 31) \<longleftrightarrow> x = 0x80000000" using x v(1) int_min_words(1) by metis
  show "sint x = - 1 \<longleftrightarrow> x = 0xffffffff" using x v(2) int_min_words(2) by metis
  show "sint x = 0 \<longleftrightarrow> x = 0" using x by (metis of_int_0 sint_0)
qed

lemma signed_quotient:
  fixes rs rt :: u32
  defines "p \<equiv> (if rs = 0x80000000 \<and> rt = 0xffffffff then (scast (0x80000000 :: u32), 0)
     else if rt \<noteq> 0 then (scast (word_of_int (sint rs sdiv sint rt) :: u32),
        scast (word_of_int (sint rs smod sint rt) :: u32))
     else (if rs <s 0 then 1 else - 1, scast rs) :: u64 \<times> u64)"
  shows "divided (sint rs) (sint rt) (sint (fst p)) (sint (snd p))"
proof (cases "rt = 0 \<or> rs = 0x80000000 \<and> rt = 0xffffffff")
  case True
  then show ?thesis by (auto simp: p_def divided_def sint_eq_iff32 word_sless_alt sint_scast64)
next
  case False
  then have f: "rt \<noteq> 0" "\<not> (rs = 0x80000000 \<and> rt = 0xffffffff)" by auto
  then have p: "p = (scast (word_of_int (sint rs sdiv sint rt) :: u32), scast (word_of_int (sint rs smod sint rt) :: u32))"
    by (auto simp: p_def)
  have "sint (fst p) = sint rs sdiv sint rt" "sint (snd p) = sint rs smod sint rt"
    unfolding p using sdiv_s32_range [OF f] by (simp_all add: sint_scast64 sint_word_of_int32)
  moreover have "sint rt \<noteq> 0" "\<not> (sint rs = - (2 ^ 31) \<and> sint rt = - 1)" using f unfolding sint_eq_iff32 by auto
  ultimately show ?thesis using smod_divides [of "sint rt" "sint rs"] by (simp only: divided_def if_False simp_thms)
qed

definition quotient_written :: "nat \<Rightarrow> (cpuRegisters \<Rightarrow> cpuRegisters) \<Rightarrow> (int \<Rightarrow> int \<Rightarrow> bool) \<Rightarrow> cpuRegisters \<Rightarrow> bool" where
  "quotient_written d h P s \<longleftrightarrow>
     P (sint (UD (LO (h s)) d)) (sint (UD (HI (h s)) d)) \<and>
     UD (LO (h s)) (1 - d) = UD (LO s) (1 - d) \<and> UD (HI (h s)) (1 - d) = UD (HI s) (1 - d) \<and>
     GPR (h s) = GPR s"

lemma quotient_writtenI:
  assumes "h s = s\<lparr>LO := set_UD d q (LO s), HI := set_UD d r (HI s)\<rparr>" "P (sint q) (sint r)" "d < 2"
  shows "quotient_written d h P s"
  using assms(2,3) by (auto simp: quotient_written_def assms(1) less_2_cases_iff)

lemma signed_division:
  fixes s :: cpuRegisters
  defines "x \<equiv> UL (GPR s (iRs s)) 0" and "y \<equiv> UL (GPR s (iRt s)) 0"
  shows "quotient_written 0 DIV (divided (sint x) (sint y)) s"
    "quotient_written 1 DIV1 (divided (sint x) (sint y)) s"
  by (rule quotient_writtenI [where P = "divided (sint x) (sint y)", OF _ signed_quotient [of x y]]; simp add: DIV_def DIV1_def Let_def x_def y_def)+

definition udivided :: "int \<Rightarrow> int \<Rightarrow> int \<Rightarrow> int \<Rightarrow> bool" where
  "udivided x y q r \<longleftrightarrow>
    (if y = 0 then q = - 1 \<and> r mod 2 ^ 32 = x else divides x y (q mod 2 ^ 32) (r mod 2 ^ 32))"

lemma uint_sint_mod: "sint (x::u32) mod 4294967296 = uint x"
  by (simp add: uint_sint take_bit_eq_mod)

lemma unsigned_quotient:
  fixes rs rt :: u32
  defines "p \<equiv> (if rt \<noteq> 0 then (scast (rs div rt), scast (rs mod rt)) else (- 1, scast rs)) :: u64 \<times> u64"
  shows "udivided (uint rs) (uint rt) (sint (fst p)) (sint (snd p))"
proof (cases "rt = 0")
  case True
  then show ?thesis by (simp add: p_def udivided_def sint_scast64 uint_sint_mod)
next
  case False
  then have "uint rt \<noteq> 0" by (simp add: uint_0_iff)
  moreover have "uint rs mod uint rt < uint rt" "0 \<le> uint rs mod uint rt"
    using \<open>uint rt \<noteq> 0\<close> uint_ge_0 [of rt] by (simp_all add: order.not_eq_order_implies_strict)
  ultimately show ?thesis
    using False by (simp add: p_def udivided_def sint_scast64 uint_sint_mod divides_def uint_div uint_mod)
qed

lemma unsigned_division:
  fixes s :: cpuRegisters
  defines "x \<equiv> UL (GPR s (iRs s)) 0" and "y \<equiv> UL (GPR s (iRt s)) 0"
  shows "quotient_written 0 DIVU (udivided (uint x) (uint y)) s"
    "quotient_written 1 DIVU1 (udivided (uint x) (uint y)) s"
  by (rule quotient_writtenI [where P = "udivided (uint x) (uint y)", OF _ unsigned_quotient [of x y]]; simp add: DIVU_def DIVU1_def Let_def x_def y_def)+

end
