(* ===== verification/EE_Lanes.thy ===== *)
theory EE_Lanes
  imports EE_Arith
begin

text \<open>
  The multimedia handlers as parallel operations on lanes: the sequential lane loops of the
  interpreter through the interpretations of the \<open>lanes\<close> interface, and the saturating lane
  functions against clamping of the exact result.
\<close>

subsection \<open>Lane loops over the register file\<close>

lemma fold_lane_handler:
  assumes "\<And>n s. h n s = wGPR (iRd s) (set_l n (f (code s) (get n (GPR s (iRs s))) (get n (GPR s (iRt s))))) s"
  shows "fold h ns s = s\<lparr>GPR :=
    fold (\<lambda>n R. R(iRd s := set_l n (f (code s) (get n (R (iRs s))) (get n (R (iRt s)))) (R (iRd s)))) ns (GPR s)\<rparr>"
proof (induction ns arbitrary: s)
  case (Cons n ns)
  have "h n s = s\<lparr>GPR := (GPR s)(iRd s := set_l n (f (code s) (get n (GPR s (iRs s)))
      (get n (GPR s (iRt s)))) (GPR s (iRd s)))\<rparr>"
    unfolding assms wGPR_def ..
  then have *: "code (h n s) = code s" "GPR (h n s) = (GPR s)(iRd s := set_l n (f (code s)
      (get n (GPR s (iRs s))) (get n (GPR s (iRt s)))) (GPR s (iRd s)))"
    "(h n s)\<lparr>GPR := R\<rparr> = s\<lparr>GPR := R\<rparr>" for R by simp_all
  with Cons.IH [of "h n s"] fields_cong [of "h n s" s] show ?case by simp
qed simp

text \<open>What a lane handler promises when its destination is not register 0: every lane of the
  destination is the function of the source lanes before the instruction, and no other register
  changes.\<close>

definition lanes_computed ::
  "(nat \<Rightarrow> u128 \<Rightarrow> 'l) \<Rightarrow> nat \<Rightarrow> ('l \<Rightarrow> 'l \<Rightarrow> 'l) \<Rightarrow> (cpuRegisters \<Rightarrow> cpuRegisters) \<Rightarrow> cpuRegisters \<Rightarrow> bool" where
  "lanes_computed get c f h s \<longleftrightarrow>
     (\<forall>m < c. get m (GPR (h s) (iRd s)) = f (get m (GPR s (iRs s))) (get m (GPR s (iRt s)))) \<and>
     (\<forall>r. r \<noteq> iRd s \<longrightarrow> GPR (h s) r = GPR s r)"

lemma lanes_computedI:
  assumes "lanes get set_l c"
    and "\<And>n s. hn n s = wGPR (iRd s) (set_l n (f (code s) (get n (GPR s (iRs s))) (get n (GPR s (iRt s))))) s"
    and "h s = fold hn [0..<c] s"
  shows "lanes_computed get c (f (code s)) h s"
  using lanes.fold_lane_step_all [OF assms(1), of _ "f (code s)" "iRd s" "iRs s" "iRt s" "GPR s"]
    lanes.fold_lane_step_other [OF assms(1), of _ "iRd s" "f (code s)" "iRs s" "iRt s" "[0..<c]" "GPR s"]
  unfolding lanes_computed_def assms(3) fold_lane_handler [of hn set_l f get, OF assms(2)]
    lanes.lane_step_def [OF assms(1)]
  by simp

subsection \<open>Saturation\<close>

definition clamp :: "int \<Rightarrow> int \<Rightarrow> int \<Rightarrow> int" where
  "clamp lo hi z = max lo (min hi z)"

definition ssat :: "int \<Rightarrow> 'l::len word" where
  "ssat z = word_of_int (clamp (- (2 ^ (LENGTH('l) - 1))) (2 ^ (LENGTH('l) - 1) - 1) z)"

definition usat :: "int \<Rightarrow> 'l::len word" where
  "usat z = word_of_int (clamp 0 (2 ^ LENGTH('l) - 1) z)"

lemma ucast_sint: "ucast (t::'w::len word) = (word_of_int (sint t) :: 'l::len word)"
  if "LENGTH('l) < LENGTH('w)"
  using that by (intro bit_word_eqI) (auto simp: bit_simps bit_sint_iff min_def)

lemma sint_scast_up: "LENGTH('l::len) \<le> LENGTH('w::len) \<Longrightarrow> sint (scast (x::'l word) :: 'w word) = sint x"
  by (rule sint_up_scast) (simp add: is_up)

lemma sint_ucast_up: "LENGTH('l::len) < LENGTH('w::len) \<Longrightarrow> sint (ucast (x::'l word) :: 'w word) = uint x"
proof -
  assume w: "LENGTH('l) < LENGTH('w)"
  have "uint x < 2 ^ LENGTH('l)" by (rule uint_lt2p)
  also have "(2::int) ^ LENGTH('l) \<le> 2 ^ (LENGTH('w) - 1)" using w by (intro power_increasing) simp_all
  finally have "uint x < 2 ^ (LENGTH('w) - 1)" .
  moreover have "- (2 ^ (LENGTH('w) - 1)) \<le> uint x" by (rule order.trans [OF _ uint_ge_0]) simp
  ultimately show ?thesis
    by (simp only: ucast_eq sint_sbintrunc' signed_take_bit_int_eq_self)
qed

text \<open>A wide temporary holding \<open>z\<close> exactly, clamped to the signed or unsigned range of the lane.\<close>

lemma clamp_signed:
  assumes "sint (t::'w::len word) = z" "LENGTH('l::len) < LENGTH('w)"
    "sint hi = 2 ^ (LENGTH('l) - 1) - 1" "sint lo = - (2 ^ (LENGTH('l) - 1))"
    "(h :: 'l word) = word_of_int (2 ^ (LENGTH('l) - 1) - 1)" "l = word_of_int (- (2 ^ (LENGTH('l) - 1)))"
  shows "(if hi <s t then h else if t <s lo then l else ucast t) = ssat z"
    and "(if \<not> t <s hi then h else if t <s lo then l else ucast t) = ssat z"
proof -
  have u: "(ucast t :: 'l word) = word_of_int z" using ucast_sint [OF assms(2), of t] assms(1) by simp
  show "(if hi <s t then h else if t <s lo then l else ucast t) = ssat z"
    "(if \<not> t <s hi then h else if t <s lo then l else ucast t) = ssat z"
    unfolding word_sless_alt assms(1,3-6) u ssat_def clamp_def by (auto simp: max_def min_def)
qed

lemma clamp_0: "z < P \<Longrightarrow> 1 < P \<Longrightarrow> clamp 0 (P - 1) z = (if z \<le> 0 then 0 else z)"
  by (auto simp: clamp_def)

lemma clamp_unsigned:
  assumes "sint (t::'w::len word) = z" "LENGTH('l::len) < LENGTH('w)" "sint hi = 2 ^ LENGTH('l) - 1"
    "(h :: 'l word) = word_of_int (2 ^ LENGTH('l) - 1)"
  shows "0 \<le> z \<Longrightarrow> (if hi <s t then h else ucast t) = usat z"
    and "z < 2 ^ LENGTH('l) \<Longrightarrow> (if t \<le>s 0 then 0 else ucast t) = (usat z :: 'l word)"
proof -
  have u: "(ucast t :: 'l word) = word_of_int z" using ucast_sint [OF assms(2), of t] assms(1) by simp
  have two: "(1::int) < 2 ^ LENGTH('l)" by (rule one_less_power) simp_all
  show "0 \<le> z \<Longrightarrow> (if hi <s t then h else ucast t) = usat z"
    unfolding word_sless_alt assms(1,3,4) u usat_def clamp_def using two by (auto simp: max_def min_def)
  assume "z < 2 ^ LENGTH('l)"
  then have "clamp 0 (2 ^ LENGTH('l) - 1) z = (if z \<le> 0 then 0 else z)"
    by (rule clamp_0 [OF _ two])
  then show "(if t \<le>s 0 then 0 else ucast t) = (usat z :: 'l word)"
    unfolding word_sle_eq assms(1) u usat_def by simp
qed

lemma sum_sint:
  fixes x y :: "'l::len word"
  assumes "LENGTH('l) < LENGTH('w::len)"
  shows "sint (scast x + scast y :: 'w word) = sint x + sint y"
    and "sint (scast x - scast y :: 'w word) = sint x - sint y"
    and "LENGTH('l) + 1 < LENGTH('w) \<Longrightarrow> sint (ucast x + ucast y :: 'w word) = uint x + uint y"
    and "sint (ucast x - ucast y :: 'w word) = uint x - uint y"
proof -
  have sc: "sint (scast x :: 'w word) = sint x" "sint (scast y :: 'w word) = sint y"
    "sint (ucast x :: 'w word) = uint x" "sint (ucast y :: 'w word) = uint y"
    using assms by (simp_all add: sint_scast_up sint_ucast_up)
  have le: "(2::int) ^ LENGTH('l) \<le> 2 ^ (LENGTH('w) - 1)" using assms by (intro power_increasing) simp_all
  have half: "(2::int) * 2 ^ (LENGTH('l) - 1) = 2 ^ LENGTH('l)"
    by (simp add: power_minus_mult flip: power_Suc)
  have rng: "- (2 ^ (LENGTH('l) - 1)) \<le> sint x" "sint x < 2 ^ (LENGTH('l) - 1)"
    "- (2 ^ (LENGTH('l) - 1)) \<le> sint y" "sint y < 2 ^ (LENGTH('l) - 1)"
    "0 \<le> uint x" "uint x < 2 ^ LENGTH('l)" "0 \<le> uint y" "uint y < 2 ^ LENGTH('l)"
    by (rule sint_ge sint_lt uint_ge_0 uint_lt2p)+
  show "sint (scast x + scast y :: 'w word) = sint x + sint y"
    "sint (scast x - scast y :: 'w word) = sint x - sint y"
    "sint (ucast x - ucast y :: 'w word) = uint x - uint y"
    unfolding sint_word_ariths sc by (rule signed_take_bit_int_eq_self; use rng half le in linarith)+
  assume "LENGTH('l) + 1 < LENGTH('w)"
  then have "(2::int) ^ (LENGTH('l) + 1) \<le> 2 ^ (LENGTH('w) - 1)" by (intro power_increasing) simp_all
  then have "(2::int) * 2 ^ LENGTH('l) \<le> 2 ^ (LENGTH('w) - 1)" by (simp only: Suc_eq_plus1 [symmetric] power_Suc)
  note dbl = this
  show "sint (ucast x + ucast y :: 'w word) = uint x + uint y"
    unfolding sint_word_ariths sc by (rule signed_take_bit_int_eq_self; use rng dbl in linarith)
qed

text \<open>The three widths of the interpreter.\<close>

lemma clamp_s32:
  assumes "sint (t::u64) = z"
  shows "(if 0x7FFFFFFF <s t then 0x7FFFFFFF else if t <s scast (0x80000000 :: u32) then 0x80000000
      else ucast t) = (ssat z :: u32)"
    and "(if \<not> t <s 0x7FFFFFFF then 0x7FFFFFFF else if t <s scast (0x80000000 :: u32) then 0x80000000
      else ucast t) = (ssat z :: u32)"
  using clamp_signed [OF assms, where 'l = 32, of "0x7FFFFFFF" "scast (0x80000000 :: u32)"]
  by simp_all

lemma clamp_s16:
  assumes "sint (t::u32) = z"
  shows "(if 0x7FFF <s t then 0x7FFF else if t <s 0xffff8000 then 0x8000 else ucast t) = (ssat z :: u16)"
    and "(if \<not> t <s 0x7FFF then 0x7FFF else if t <s 0xffff8000 then 0x8000 else ucast t) = (ssat z :: u16)"
  using clamp_signed [OF assms, where 'l = 16, of "0x7FFF" "0xffff8000"] by simp_all

lemma clamp_s8:
  assumes "sint (t::u16) = z"
  shows "(if 0x7F <s t then 0x7F else if t <s - 128 then 0x80 else ucast t) = (ssat z :: u8)"
    and "(if \<not> t <s 0x7F then 0x7F else if t <s - 128 then 0x80 else ucast t) = (ssat z :: u8)"
  using clamp_signed [OF assms, where 'l = 8, of "0x7F" "- 128"] by simp_all

lemma byte_sum_less:
  "((0xFF :: u16) < ucast (x::u8) + ucast (y::u8)) \<longleftrightarrow> (0xFF :: u16) <s ucast x + ucast y"
proof -
  have "uint x < 256" "uint y < 256" using uint_lt2p [of x] uint_lt2p [of y] by simp_all
  then have "uint (ucast x + ucast y :: u16) = uint x + uint y"
    by (simp add: uint_word_ariths uint_up_ucast is_up)
  then show ?thesis
    using sum_sint(3) [of x y, where 'w = 16] by (simp add: word_less_alt word_sless_alt)
qed

lemma uint_diff_less: "uint a - uint b < 2 ^ LENGTH('l)" for a b :: "'l::len word"
  using uint_lt2p [of a] uint_ge_0 [of b] by linarith

lemma unsigned_saturation:
  fixes x y :: u32 and x' y' :: u16 and x'' y'' :: u8
  shows "(if 0xffffffff <s (ucast x + ucast y :: u64) then 0xffffffff else ucast (ucast x + ucast y :: u64)) =
      (usat (uint x + uint y) :: u32)"
    and "(if 0xFFFF <s (ucast x' + ucast y' :: u32) then 0xFFFF else ucast (ucast x' + ucast y' :: u32)) =
      (usat (uint x' + uint y') :: u16)"
    and "(if 0xFF < (ucast x'' + ucast y'' :: u16) then 0xFF else ucast (ucast x'' + ucast y'' :: u16)) =
      (usat (uint x'' + uint y'') :: u8)"
    and "(if (ucast x - ucast y :: u64) \<le>s 0 then 0 else ucast (ucast x - ucast y :: u64)) =
      (usat (uint x - uint y) :: u32)"
    and "(if (ucast x' - ucast y' :: u32) \<le>s 0 then 0 else ucast (ucast x' - ucast y' :: u32)) =
      (usat (uint x' - uint y') :: u16)"
    and "(if (ucast x'' - ucast y'' :: u16) \<le>s 0 then 0 else ucast (ucast x'' - ucast y'' :: u16)) =
      (usat (uint x'' - uint y'') :: u8)"
  using clamp_unsigned(1) [OF sum_sint(3) [of x y, where 'w = 64], where 'l = 32, of "0xffffffff" "0xffffffff"]
    clamp_unsigned(1) [OF sum_sint(3) [of x' y', where 'w = 32], where 'l = 16, of "0xFFFF" "0xFFFF"]
    clamp_unsigned(1) [OF sum_sint(3) [of x'' y'', where 'w = 16], where 'l = 8, of "0xFF" "0xFF"]
    clamp_unsigned(2) [OF sum_sint(4) [of x y, where 'w = 64], where 'l = 32, of "0xffffffff"] uint_diff_less [of x y]
    clamp_unsigned(2) [OF sum_sint(4) [of x' y', where 'w = 32], where 'l = 16, of "0xFFFF"] uint_diff_less [of x' y']
    clamp_unsigned(2) [OF sum_sint(4) [of x'' y'', where 'w = 16], where 'l = 8, of "0xFF"] uint_diff_less [of x'' y'']
  unfolding byte_sum_less by simp_all

subsection \<open>The lane handlers\<close>

lemmas ul_handler = lanes_computedI [OF ul.lanes_axioms]
lemmas us_handler = lanes_computedI [OF us.lanes_axioms]
lemmas uc_handler = lanes_computedI [OF uc.lanes_axioms]

lemma word_lanes:
  assumes "iRd s \<noteq> 0"
  shows "lanes_computed lane 4 (\<lambda>x y :: u32. x + y) PADDW s"
    and "lanes_computed lane 4 (\<lambda>x y :: u32. x - y) PSUBW s"
    and "lanes_computed lane 4 (\<lambda>x y :: u32. if y <s x then 0xFFFFFFFF else 0) PCGTW s"
    and "lanes_computed lane 4 (\<lambda>x y :: u32. if y <s x then x else y) PMAXW s"
    and "lanes_computed lane 4 (\<lambda>x y :: u32. if x <s y then x else y) PMINW s"
    and "lanes_computed lane 4 (\<lambda>x y :: u32. if x = y then 0xFFFFFFFF else 0) PCEQW s"
proof -
  show "lanes_computed lane 4 (\<lambda>x y :: u32. x + y) PADDW s"
    by (rule ul_handler [of PADDW_n "\<lambda>_ x y. x + y"]) (use assms in \<open>simp_all add: PADDW_n_def PADDW_def\<close>)
  show "lanes_computed lane 4 (\<lambda>x y :: u32. x - y) PSUBW s"
    by (rule ul_handler [of PSUBW_n "\<lambda>_ x y. x - y"]) (use assms in \<open>simp_all add: PSUBW_n_def PSUBW_def\<close>)
  show "lanes_computed lane 4 (\<lambda>x y :: u32. if y <s x then 0xFFFFFFFF else 0) PCGTW s"
    by (rule ul_handler [of PCGTW_n "\<lambda>_ x y. if y <s x then 0xFFFFFFFF else 0"]) (use assms in \<open>simp_all add: PCGTW_n_def PCGTW_def\<close>)
  show "lanes_computed lane 4 (\<lambda>x y :: u32. if y <s x then x else y) PMAXW s"
    by (rule ul_handler [of PMAXW_n "\<lambda>_ x y. if y <s x then x else y"]) (use assms in \<open>simp_all add: PMAXW_n_def PMAXW_def\<close>)
  show "lanes_computed lane 4 (\<lambda>x y :: u32. if x <s y then x else y) PMINW s"
    by (rule ul_handler [of PMINW_n "\<lambda>_ x y. if x <s y then x else y"]) (use assms in \<open>simp_all add: PMINW_n_def PMINW_def\<close>)
  show "lanes_computed lane 4 (\<lambda>x y :: u32. if x = y then 0xFFFFFFFF else 0) PCEQW s"
    by (rule ul_handler [of PCEQW_n "\<lambda>_ x y. if x = y then 0xFFFFFFFF else 0"]) (use assms in \<open>simp_all add: PCEQW_n_def PCEQW_def\<close>)
qed

lemma halfword_lanes:
  assumes "iRd s \<noteq> 0"
  shows "lanes_computed lane 8 (\<lambda>x y :: u16. x + y) PADDH s"
    and "lanes_computed lane 8 (\<lambda>x y :: u16. x - y) PSUBH s"
    and "lanes_computed lane 8 (\<lambda>x y :: u16. if y <s x then 0xFFFF else 0) PCGTH s"
    and "lanes_computed lane 8 (\<lambda>x y :: u16. if y <s x then x else y) PMAXH s"
    and "lanes_computed lane 8 (\<lambda>x y :: u16. if x <s y then x else y) PMINH s"
    and "lanes_computed lane 8 (\<lambda>x y :: u16. if x = y then 0xFFFF else 0) PCEQH s"
proof -
  show "lanes_computed lane 8 (\<lambda>x y :: u16. x + y) PADDH s"
    by (rule us_handler [of PADDH_n "\<lambda>_ x y. x + y"]) (use assms in \<open>simp_all add: PADDH_n_def PADDH_def\<close>)
  show "lanes_computed lane 8 (\<lambda>x y :: u16. x - y) PSUBH s"
    by (rule us_handler [of PSUBH_n "\<lambda>_ x y. x - y"]) (use assms in \<open>simp_all add: PSUBH_n_def PSUBH_def\<close>)
  show "lanes_computed lane 8 (\<lambda>x y :: u16. if y <s x then 0xFFFF else 0) PCGTH s"
    by (rule us_handler [of PCGTH_n "\<lambda>_ x y. if y <s x then 0xFFFF else 0"]) (use assms in \<open>simp_all add: PCGTH_n_def PCGTH_def\<close>)
  show "lanes_computed lane 8 (\<lambda>x y :: u16. if y <s x then x else y) PMAXH s"
    by (rule us_handler [of PMAXH_n "\<lambda>_ x y. if y <s x then x else y"]) (use assms in \<open>simp_all add: PMAXH_n_def PMAXH_def\<close>)
  show "lanes_computed lane 8 (\<lambda>x y :: u16. if x <s y then x else y) PMINH s"
    by (rule us_handler [of PMINH_n "\<lambda>_ x y. if x <s y then x else y"]) (use assms in \<open>simp_all add: PMINH_n_def PMINH_def\<close>)
  show "lanes_computed lane 8 (\<lambda>x y :: u16. if x = y then 0xFFFF else 0) PCEQH s"
    by (rule us_handler [of PCEQH_n "\<lambda>_ x y. if x = y then 0xFFFF else 0"]) (use assms in \<open>simp_all add: PCEQH_n_def PCEQH_def\<close>)
qed

lemma byte_lanes:
  assumes "iRd s \<noteq> 0"
  shows "lanes_computed lane 16 (\<lambda>x y :: u8. x + y) PADDB s"
    and "lanes_computed lane 16 (\<lambda>x y :: u8. x - y) PSUBB s"
    and "lanes_computed lane 16 (\<lambda>x y :: u8. if y <s x then 0xFF else 0) PCGTB s"
    and "lanes_computed lane 16 (\<lambda>x y :: u8. if x = y then 0xFF else 0) PCEQB s"
proof -
  show "lanes_computed lane 16 (\<lambda>x y :: u8. x + y) PADDB s"
    by (rule uc_handler [of PADDB_n "\<lambda>_ x y. x + y"]) (use assms in \<open>simp_all add: PADDB_n_def PADDB_def\<close>)
  show "lanes_computed lane 16 (\<lambda>x y :: u8. x - y) PSUBB s"
    by (rule uc_handler [of PSUBB_n "\<lambda>_ x y. x - y"]) (use assms in \<open>simp_all add: PSUBB_n_def PSUBB_def\<close>)
  show "lanes_computed lane 16 (\<lambda>x y :: u8. if y <s x then 0xFF else 0) PCGTB s"
    by (rule uc_handler [of PCGTB_n "\<lambda>_ x y. if y <s x then 0xFF else 0"]) (use assms in \<open>simp_all add: PCGTB_n_def PCGTB_def\<close>)
  show "lanes_computed lane 16 (\<lambda>x y :: u8. if x = y then 0xFF else 0) PCEQB s"
    by (rule uc_handler [of PCEQB_n "\<lambda>_ x y. if x = y then 0xFF else 0"]) (use assms in \<open>simp_all add: PCEQB_n_def PCEQB_def\<close>)
qed

lemma word_saturation:
  assumes "iRd s \<noteq> 0"
  shows "lanes_computed lane 4 (\<lambda>x y :: u32. ssat (sint x + sint y)) PADDSW s"
    and "lanes_computed lane 4 (\<lambda>x y :: u32. ssat (sint x - sint y)) PSUBSW s"
    and "lanes_computed lane 4 (\<lambda>x y :: u32. usat (uint x + uint y)) PADDUW s"
    and "lanes_computed lane 4 (\<lambda>x y :: u32. usat (uint x - uint y)) PSUBUW s"
proof -
  show "lanes_computed lane 4 (\<lambda>x y :: u32. ssat (sint x + sint y)) PADDSW s"
    by (rule ul_handler [of PADDSW_n "\<lambda>_ x y. ssat (sint x + sint y)"]) (use assms in \<open>simp_all add: PADDSW_n_def PADDSW_def Let_def clamp_s32 add_scast64 sum_sint\<close>)
  show "lanes_computed lane 4 (\<lambda>x y :: u32. ssat (sint x - sint y)) PSUBSW s"
    by (rule ul_handler [of PSUBSW_n "\<lambda>_ x y. ssat (sint x - sint y)"]) (use assms in \<open>simp_all add: PSUBSW_n_def PSUBSW_def Let_def clamp_s32 add_scast64 sum_sint\<close>)
  show "lanes_computed lane 4 (\<lambda>x y :: u32. usat (uint x + uint y)) PADDUW s"
    by (rule ul_handler [of PADDUW_n "\<lambda>_ x y. usat (uint x + uint y)"]) (use assms in \<open>simp_all add: PADDUW_n_def PADDUW_def Let_def unsigned_saturation\<close>)
  show "lanes_computed lane 4 (\<lambda>x y :: u32. usat (uint x - uint y)) PSUBUW s"
    by (rule ul_handler [of PSUBUW_n "\<lambda>_ x y. usat (uint x - uint y)"]) (use assms in \<open>simp_all add: PSUBUW_n_def PSUBUW_def Let_def unsigned_saturation\<close>)
qed

lemma halfword_saturation:
  assumes "iRd s \<noteq> 0"
  shows "lanes_computed lane 8 (\<lambda>x y :: u16. ssat (sint x + sint y)) PADDSH s"
    and "lanes_computed lane 8 (\<lambda>x y :: u16. ssat (sint x - sint y)) PSUBSH s"
    and "lanes_computed lane 8 (\<lambda>x y :: u16. usat (uint x + uint y)) PADDUH s"
    and "lanes_computed lane 8 (\<lambda>x y :: u16. usat (uint x - uint y)) PSUBUH s"
proof -
  show "lanes_computed lane 8 (\<lambda>x y :: u16. ssat (sint x + sint y)) PADDSH s"
    by (rule us_handler [of PADDSH_n "\<lambda>_ x y. ssat (sint x + sint y)"]) (use assms in \<open>simp_all add: PADDSH_n_def PADDSH_def Let_def clamp_s16 sum_sint\<close>)
  show "lanes_computed lane 8 (\<lambda>x y :: u16. ssat (sint x - sint y)) PSUBSH s"
    by (rule us_handler [of PSUBSH_n "\<lambda>_ x y. ssat (sint x - sint y)"]) (use assms in \<open>simp_all add: PSUBSH_n_def PSUBSH_def Let_def clamp_s16 sum_sint\<close>)
  show "lanes_computed lane 8 (\<lambda>x y :: u16. usat (uint x + uint y)) PADDUH s"
    by (rule us_handler [of PADDUH_n "\<lambda>_ x y. usat (uint x + uint y)"]) (use assms in \<open>simp_all add: PADDUH_n_def PADDUH_def Let_def unsigned_saturation\<close>)
  show "lanes_computed lane 8 (\<lambda>x y :: u16. usat (uint x - uint y)) PSUBUH s"
    by (rule us_handler [of PSUBUH_n "\<lambda>_ x y. usat (uint x - uint y)"]) (use assms in \<open>simp_all add: PSUBUH_n_def PSUBUH_def Let_def unsigned_saturation\<close>)
qed

lemma byte_saturation:
  assumes "iRd s \<noteq> 0"
  shows "lanes_computed lane 16 (\<lambda>x y :: u8. ssat (sint x + sint y)) PADDSB s"
    and "lanes_computed lane 16 (\<lambda>x y :: u8. ssat (sint x - sint y)) PSUBSB s"
    and "lanes_computed lane 16 (\<lambda>x y :: u8. usat (uint x + uint y)) PADDUB s"
    and "lanes_computed lane 16 (\<lambda>x y :: u8. usat (uint x - uint y)) PSUBUB s"
proof -
  show "lanes_computed lane 16 (\<lambda>x y :: u8. ssat (sint x + sint y)) PADDSB s"
    by (rule uc_handler [of PADDSB_n "\<lambda>_ x y. ssat (sint x + sint y)"]) (use assms in \<open>simp_all add: PADDSB_n_def PADDSB_def Let_def clamp_s8 sum_sint\<close>)
  show "lanes_computed lane 16 (\<lambda>x y :: u8. ssat (sint x - sint y)) PSUBSB s"
    by (rule uc_handler [of PSUBSB_n "\<lambda>_ x y. ssat (sint x - sint y)"]) (use assms in \<open>simp_all add: PSUBSB_n_def PSUBSB_def Let_def clamp_s8 sum_sint\<close>)
  show "lanes_computed lane 16 (\<lambda>x y :: u8. usat (uint x + uint y)) PADDUB s"
    by (rule uc_handler [of PADDUB_n "\<lambda>_ x y. usat (uint x + uint y)"]) (use assms in \<open>simp_all add: PADDUB_n_def PADDUB_def Let_def unsigned_saturation\<close>)
  show "lanes_computed lane 16 (\<lambda>x y :: u8. usat (uint x - uint y)) PSUBUB s"
    by (rule uc_handler [of PSUBUB_n "\<lambda>_ x y. usat (uint x - uint y)"]) (use assms in \<open>simp_all add: PSUBUB_n_def PSUBUB_def Let_def unsigned_saturation\<close>)
qed

subsection \<open>The funnel shift\<close>

text \<open>Bit \<open>i\<close> of the 256-bit value \<open>hi:lo\<close> shifted right by \<open>n\<close>.\<close>

lemma bit_two_doublewords:
  "i < 128 \<Longrightarrow> bit (set_UD (Suc 0) b (set_UD 0 a v)) i = (if i < 64 then bit a i else bit b (i - 64))"
  by (auto simp: bit_simps)

definition funnel :: "u128 \<Rightarrow> u128 \<Rightarrow> nat \<Rightarrow> nat \<Rightarrow> bool" where
  "funnel hi lo n i = (if i + n < 128 then bit lo (i + n) else bit hi (i + n - 128))"

lemma bit_funnel64:
  fixes x y :: u64
  assumes "i < 64" "n < 64"
  shows "bit (drop_bit n x OR (if n \<noteq> 0 then push_bit (64 - n) y else 0)) i =
    (if i + n < 64 then bit x (i + n) else bit y (i + n - 64))"
proof -
  have "bit (push_bit (64 - n) y) i = (64 - n \<le> i \<and> bit y (i - (64 - n)))"
    using assms by (simp add: bit_simps)
  moreover have "i - (64 - n) = i + n - 64" if "64 - n \<le> i" using that assms by simp
  moreover have "\<not> bit x (i + n)" if "\<not> i + n < 64" using that bit_imp_le_length [of x] by fastforce
  ultimately show ?thesis using assms by (auto simp: bit_simps ac_simps)
qed

lemma sa_amount:
  assumes "sa s < 16"
  shows "unat (push_bit 3 (sa s)) = 8 * unat (sa s)" "unat (sa s) < 16"
proof -
  show lt: "unat (sa s) < 16" using assms by (simp add: word_less_nat_alt)
  show "unat (push_bit 3 (sa s)) = 8 * unat (sa s)"
    using lt by (simp add: push_bit_eq_mult unat_word_ariths)
qed

lemma bit_UD: "i < 64 \<Longrightarrow> bit (UD v 0) i = bit v i" "i < 64 \<Longrightarrow> bit (UD v (Suc 0)) i = bit v (64 + i)"
  by (simp_all add: bit_simps)

abbreviation shifted :: "nat \<Rightarrow> u64 \<Rightarrow> u64 \<Rightarrow> u64" where
  "shifted n x y \<equiv> drop_bit n x OR (if n \<noteq> 0 then push_bit (64 - n) y else 0)"

lemma funnel_doublewords:
  assumes "j < 64"
  shows "n < 64 \<Longrightarrow> bit (shifted n (UD lo 0) (UD lo 1)) j = funnel hi lo n j"
    and "n < 64 \<Longrightarrow> bit (shifted n (UD lo 1) (UD hi 0)) j = funnel hi lo n (64 + j)"
    and "\<not> n < 64 \<Longrightarrow> n < 128 \<Longrightarrow> bit (shifted (n - 64) (UD lo 1) (UD hi 0)) j = funnel hi lo n j"
    and "\<not> n < 64 \<Longrightarrow> n < 128 \<Longrightarrow> bit (shifted (n - 64) (UD hi 0) (UD hi 1)) j = funnel hi lo n (64 + j)"
proof -
  assume n: "n < 64"
  show "bit (shifted n (UD lo 0) (UD lo 1)) j = funnel hi lo n j"
    using assms n unfolding bit_funnel64 [OF assms n] funnel_def
    by (simp add: bit_UD not_less)
  show "bit (shifted n (UD lo 1) (UD hi 0)) j = funnel hi lo n (64 + j)"
    using assms n unfolding bit_funnel64 [OF assms n] funnel_def
    by (simp add: bit_UD not_less add.assoc)
next
  assume n: "\<not> n < 64" "n < 128"
  then have m: "n - 64 < 64" by simp
  have e: "64 + (j + (n - 64)) = j + n" "j + (n - 64) - 64 = j + n - 128" "64 + j + n - 128 = j + (n - 64)"
    "64 + (j + (n - 64) - 64) = 64 + j + n - 128" if "64 \<le> j + (n - 64)" using that n by simp_all
  show "bit (shifted (n - 64) (UD lo 1) (UD hi 0)) j = funnel hi lo n j"
    using assms n e(1,2) unfolding bit_funnel64 [OF assms m] funnel_def
    by (auto simp: bit_UD not_less)
  show "bit (shifted (n - 64) (UD hi 0) (UD hi 1)) j = funnel hi lo n (64 + j)"
    using assms n e unfolding bit_funnel64 [OF assms m] funnel_def
    by (auto simp: bit_UD not_less)
qed

lemma QFSRV_doublewords:
  assumes "sa s < 16" "iRd s \<noteq> 0"
  defines "n \<equiv> 8 * unat (sa s)" and "rs \<equiv> GPR s (iRs s)" and "rt \<equiv> GPR s (iRt s)"
  shows "GPR (QFSRV s) (iRd s) =
    (if n < 64 then set_UD 1 (shifted n (UD rt 1) (UD rs 0)) (set_UD 0 (shifted n (UD rt 0) (UD rt 1)) (GPR s (iRd s)))
     else set_UD 1 (shifted (n - 64) (UD rs 0) (UD rs 1)) (set_UD 0 (shifted (n - 64) (UD rt 1) (UD rs 0)) (GPR s (iRd s))))"
proof -
  let ?k = "push_bit 3 (sa s)"
  have k: "unat ?k = n" "n < 128" "(?k = 0) = (n = 0)" "(?k < 64) = (n < 64)"
    using sa_amount [OF assms(1)]
    by (auto simp: n_def word_less_nat_alt unat_eq_zero [symmetric] word_unat_eq_iff)
  have sub: "unat (64 - ?k) = 64 - n" if "n < 64" using that k by (simp add: unat_sub word_le_nat_alt)
  have sub': "unat (?k - 64) = n - 64" "unat (128 - ?k) = 64 - (n - 64)" "(?k \<noteq> 64) = (n - 64 \<noteq> 0)" if "\<not> n < 64"
    using that k by (simp_all add: unat_sub word_le_nat_alt word_unat_eq_iff) 
  show ?thesis
  proof (cases "n < 64")
    case True
    then show ?thesis
      using assms(2) unfolding QFSRV_def Let_def k(1,3,4) sub [OF True] rs_def [symmetric] rt_def [symmetric]
      by simp
  next
    case False
    then have "n \<noteq> 0" by simp
    with False show ?thesis
      using assms(2) unfolding QFSRV_def Let_def k(1,3,4) sub' [OF False] rs_def [symmetric] rt_def [symmetric]
      by simp
  qed
qed

lemma QFSRV_bits:
  assumes "sa s < 16" "iRd s \<noteq> 0" "i < 128"
  shows "bit (GPR (QFSRV s) (iRd s)) i = funnel (GPR s (iRs s)) (GPR s (iRt s)) (8 * unat (sa s)) i"
proof -
  have n: "8 * unat (sa s) < 128" using sa_amount [OF assms(1)] by simp
  have "64 + (i - 64) = i" if "\<not> i < 64" using that by simp
  with assms(3) n show ?thesis
    unfolding QFSRV_doublewords [OF assms(1,2)]
    using funnel_doublewords [of i "8 * unat (sa s)"] funnel_doublewords [of "i - 64" "8 * unat (sa s)"]
    by (simp only: if_split [where P = "\<lambda>w. bit w i = _"] bit_two_doublewords One_nat_def) (auto split: if_splits)
qed

end
