(* ===== verification/EE_Props.thy ===== *)
theory EE_Props
  imports EE_Lanes
begin

text \<open>
  The properties of the register instructions of the Emotion Engine interpreter: register 0,
  overflow traps, multiplication and division, the lanes of the multimedia instructions, the
  funnel shift.
\<close>

subsection \<open>Register 0\<close>

text \<open>Every handler of \<^verbatim>\<open>R5900OpcodeImpl.cpp\<close> and \<^verbatim>\<open>MMI.cpp\<close> that works on the
  registers alone.\<close>

definition integer_handlers :: "(cpuRegisters \<Rightarrow> cpuRegisters) list" where
  "integer_handlers =
    [ADDI, ADDIU, DADDI, DADDIU, ANDI, ORI, XORI, SLTI, SLTIU, ADD, DADD, SUB, DSUB, ADDU,
     DADDU, SUBU, DSUBU, AND_op, OR_op, XOR_op, NOR, SLT, SLTU, DIV, DIVU, MULT, MULTU, LUI,
     MFHI, MFLO, MTHI, MTLO, SRA, SRL, SLL, DSLL, DSLL32, DSRA, DSRA32, DSRL, DSRL32, SLLV,
     SRAV, SRLV, DSLLV, DSRAV, DSRLV, MOVZ, MOVN, BREAK, MFSA, MTSA, SYNC, PREF, TGE, TGEU,
     TLT, TLTU, TEQ, TNE, TGEI, TLTI, TEQI, TNEI, TGEIU, TLTIU, MTSAB, MTSAH]"

definition mmi_handlers :: "(cpuRegisters \<Rightarrow> cpuRegisters) list" where
  "mmi_handlers =
    [MADD, MADDU, MADD1, MADDU1, MFHI1, MFLO1, MTHI1, MTLO1, MULT1, MULTU1, DIV1, DIVU1,
     PLZCW, PMFHL, PMTHL, PSLLH, PSRLH, PSRAH, PSLLW, PSRLW, PSRAW, PADDW, PSUBW, PCGTW,
     PMAXW, PADDH, PSUBH, PCGTH, PMAXH, PADDB, PSUBB, PCGTB, PADDSW, PSUBSW, PEXTLW, PPACW,
     PADDSH, PSUBSH, PEXTLH, PPACH, PADDSB, PSUBSB, PEXTLB, PPACB, PEXT5, PPAC5, PABSW,
     PCEQW, PMINW, PADSBH, PABSH, PCEQH, PMINH, PCEQB, PADDUW, PSUBUW, PEXTUW, PADDUH,
     PSUBUH, PEXTUH, PADDUB, PSUBUB, PEXTUB, QFSRV, PMADDW, PSLLVW, PSRLVW, PMSUBW, PMFHI,
     PMFLO, PINTH, PMULTW, PDIVW, PCPYLD, PMADDH, PHMADH, PAND, PXOR, PMSUBH, PHMSBH, PEXEH,
     PREVH, PMULTH, PDIVBW, PEXEW, PROT3W, PMADDUW, PSRAVW, PMTHI, PMTLO, PINTEH, PMULTUW,
     PDIVUW, PCPYUD, POR, PNOR, PEXCH, PCPYH, PEXCW]"

definition keeps_zero :: "(cpuRegisters \<Rightarrow> cpuRegisters) \<Rightarrow> bool" where
  "keeps_zero h \<longleftrightarrow> (\<forall>s. GPR (h s) 0 = GPR s 0)"

lemma fold_keeps_zero:
  assumes "\<forall>n s. iRd (h n s) = iRd s" "\<forall>n s. iRd s \<noteq> 0 \<longrightarrow> GPR (h n s) 0 = GPR s 0" "iRd s \<noteq> 0"
  shows "GPR (fold h ns s) 0 = GPR s 0"
  using assms(3) by (induction ns arbitrary: s) (simp_all add: assms(1,2))

lemma fold_field:
  assumes "\<forall>n s. f (h n s) = f s"
  shows "f (fold h ns s) = f s"
  by (induction ns arbitrary: s) (simp_all add: assms)

lemma integer_handlers_keep_zero: "list_all keeps_zero integer_handlers"
  by (simp add: integer_handlers_def keeps_zero_def ee_defs Let_def split: option.split prod.split)

lemma two_step_keep_zero:
  shows "GPR (PMADDW_n d n s) 0 = GPR s 0"
    and "GPR (PMSUBW_n d n s) 0 = GPR s 0"
    and "GPR (PMULTW_n d n s) 0 = GPR s 0"
    and "GPR (PDIVW_n d n s) 0 = GPR s 0"
    and "GPR (PMADDUW_n d n s) 0 = GPR s 0"
    and "GPR (PMULTUW_n d n s) 0 = GPR s 0"
    and "GPR (PDIVUW_n d n s) 0 = GPR s 0"
    and "GPR (PHMADH_LO d n s) 0 = GPR s 0"
    and "GPR (PHMADH_HI d n s) 0 = GPR s 0"
    and "GPR (PHMSBH_LO d n s) 0 = GPR s 0"
    and "GPR (PHMSBH_HI d n s) 0 = GPR s 0"
  by (simp_all add: PMADDW_n_def PMSUBW_n_def PMULTW_n_def PDIVW_n_def PMADDUW_n_def PMULTUW_n_def PDIVUW_n_def PHMADH_LO_def PHMADH_HI_def PHMSBH_LO_def PHMSBH_HI_def Let_def)

lemma mmi_handlers_keep_zero: "list_all keeps_zero mmi_handlers"
  by (simp add: mmi_handlers_def keeps_zero_def ee_defs Let_def fold_keeps_zero
      fold_field [where f = iRd] fold_field [where f = GPR] two_step_keep_zero
      del: upt_rec_numeral PMADDW_n_def PMSUBW_n_def PMULTW_n_def PDIVW_n_def PMADDUW_n_def PMULTUW_n_def PDIVUW_n_def PHMADH_LO_def PHMADH_HI_def PHMSBH_LO_def PHMSBH_HI_def)

subsection \<open>Properties\<close>

text \<open>C28: Register 0 stays 0. No integer or multimedia instruction that works on the
  registers alone (167 handlers) changes general-purpose register 0, whatever the instruction
  word and whether or not it raises an exception.\<close>

theorem zero_register_kept:
  "list_all keeps_zero (integer_handlers @ mmi_handlers)"
  using integer_handlers_keep_zero mmi_handlers_keep_zero by simp

lemma ucast_UD: "ucast (UD v 0) = UL v 0"
  by (auto simp: bit_simps intro!: bit_word_eqI)

definition trapping_sum :: "(int \<Rightarrow> bool) \<Rightarrow> int \<Rightarrow> u32 \<Rightarrow> cpuRegisters \<Rightarrow> cpuRegisters" where
  "trapping_sum fits z rd s =
    (if \<not> fits z then cpuException 0x30 (branch s) s
     else if rd = 0 then s else wGPR rd (set_UD 0 (word_of_int z)) s)"

text \<open>C26: The overflow traps are exact. \<^verbatim>\<open>ADD\<close> and \<^verbatim>\<open>ADDI\<close> on 32 bits and
  \<^verbatim>\<open>DADD\<close> and \<^verbatim>\<open>DADDI\<close> on 64 bits raise the overflow exception exactly when the
  mathematical sum of the signed operands does not fit, also when the destination is register 0,
  and write the (sign-extended) sum otherwise; the sign-bit tricks of
  \<^verbatim>\<open>_add64_Overflow\<close> and \<^verbatim>\<open>_add32_Overflow\<close> miss nothing.\<close>

theorem overflow_traps_exact:
  "ADD s = trapping_sum s32_range (sint (UL (GPR s (iRs s)) 0) + sint (UL (GPR s (iRt s)) 0)) (iRd s) s \<and>
   ADDI s = trapping_sum s32_range (sint (UL (GPR s (iRs s)) 0) + sint (iImm s)) (iRt s) s \<and>
   DADD s = trapping_sum s64_range (sint (UD (GPR s (iRs s)) 0) + sint (UD (GPR s (iRt s)) 0)) (iRd s) s \<and>
   DADDI s = trapping_sum s64_range (sint (UD (GPR s (iRs s)) 0) + sint (iImm s)) (iRt s) s"
proof -
  have imm: "sint (scast (iImm s) :: u32) = sint (iImm s)" "sint (scast (iImm s) :: u64) = sint (iImm s)"
    by (simp_all add: sint_scast_up)
  show ?thesis
    unfolding ADD_def ADDI_def DADD_def DADDI_def add32_Overflow_exact add64_Overflow_exact
      trapping_sum_def ucast_UD imm by simp
qed

lemma sint_minus32: "(x::u32) \<noteq> 0x80000000 \<Longrightarrow> sint (- x) = - sint x"
proof -
  assume x: "x \<noteq> 0x80000000"
  have "x = word_of_int (sint x)" by simp
  then have "sint x \<noteq> - (2 ^ 31)" using x by (metis int_min_words(1))
  then show ?thesis
    using sint_s32_range [of x]
    by (simp add: sint_word_ariths s32_range_def signed_take_bit_int_eq_self)
qed

lemma sint_minus64: "(x::u64) \<noteq> 0x8000000000000000 \<Longrightarrow> sint (- x) = - sint x"
proof -
  assume x: "x \<noteq> 0x8000000000000000"
  have "x = word_of_int (sint x)" by simp
  moreover have "(word_of_int (- (2 ^ 63)) :: u64) = 0x8000000000000000" by (simp add: word_eq_iff_unsigned)
  ultimately have "sint x \<noteq> - (2 ^ 63)" using x by metis
  then show ?thesis
    using sint_s64_range [of x]
    by (simp add: sint_word_ariths s64_range_def signed_take_bit_int_eq_self)
qed

lemma ucast_minus_UD: "ucast (- UD v 0) = - UL v 0"
proof -
  have "- (x mod 18446744073709551616) mod 4294967296 = - x mod 4294967296" for x :: int
    using mod_minus_eq [of "x mod 18446744073709551616" 4294967296] mod_minus_eq [of x 4294967296]
    by (simp add: mod_mod_cancel)
  then have "ucast (- x :: u64) = (- ucast x :: u32)" for x
    by transfer (simp add: take_bit_eq_mod mod_minus_eq mod_mod_cancel)
  then show ?thesis by (simp add: ucast_UD)
qed

text \<open>Subtraction traps. \<^verbatim>\<open>SUB\<close> and \<^verbatim>\<open>DSUB\<close> trap exactly when the signed
  difference does not fit, provided the subtrahend is not the smallest integer.\<close>

theorem subtract_traps_exact:
  assumes "UL (GPR s (iRt s)) 0 \<noteq> 0x80000000" "UD (GPR s (iRt s)) 0 \<noteq> 0x8000000000000000"
  shows "SUB s = trapping_sum s32_range (sint (UL (GPR s (iRs s)) 0) - sint (UL (GPR s (iRt s)) 0)) (iRd s) s \<and>
    DSUB s = trapping_sum s64_range (sint (UD (GPR s (iRs s)) 0) - sint (UD (GPR s (iRt s)) 0)) (iRd s) s"
  unfolding SUB_def DSUB_def add32_Overflow_exact add64_Overflow_exact trapping_sum_def ucast_UD
    ucast_minus_UD sint_minus32 [OF assms(1)] sint_minus64 [OF assms(2)] by simp


theorem subtract_traps_exact_witness:
  "\<exists>s. UL (GPR s (iRt s)) 0 = 1 \<and> iRd s = 3 \<and> UL (GPR s (iRs s)) 0 = 0x80000000 \<and>
     SUB s = cpuException 0x30 (branch s) s"
proof -
  define s where "s = \<lparr>GPR = (\<lambda>_. 0)(1 := 0x80000000, 2 := 1), HI = 0, LO = 0, CP0 = \<lambda>_. 0, sa = 0,
    pc = 0, code = 0x00221822, branch = 0, cycle = 0, nextEventCycle = 0\<rparr>"
  have f: "iRs s = 1" "iRt s = 2" "iRd s = 3" by (simp_all add: s_def iRs_def iRt_def iRd_def)
  have v: "UL (GPR s 1) 0 = 0x80000000" "UL (GPR s 2) 0 = 1" "UD (GPR s 2) 0 = 1"
    by (simp_all add: s_def lane_def)
  have "SUB s = trapping_sum s32_range (sint (UL (GPR s (iRs s)) 0) - sint (UL (GPR s (iRt s)) 0)) (iRd s) s"
    by (rule subtract_traps_exact [THEN conjunct1]) (simp_all add: f v)
  then have "SUB s = cpuException 0x30 (branch s) s"
    by (simp add: f v trapping_sum_def s32_range_def)
  with f v show ?thesis by (intro exI [of _ s]) simp
qed

definition inverted_trap :: "(int \<Rightarrow> bool) \<Rightarrow> int \<Rightarrow> int \<Rightarrow> u32 \<Rightarrow> cpuRegisters \<Rightarrow> cpuRegisters" where
  "inverted_trap fits z wrap rd s =
    (if fits z then cpuException 0x30 (branch s) s
     else if rd = 0 then s else wGPR rd (set_UD 0 (word_of_int (z - wrap))) s)"

lemma minimum_sum:
  "s32_range (sint (x::u32) - 2 ^ 31) \<longleftrightarrow> \<not> s32_range (sint x + 2 ^ 31)"
  "s64_range (sint (y::u64) - 2 ^ 63) \<longleftrightarrow> \<not> s64_range (sint y + 2 ^ 63)"
  using sint_s32_range [of x] sint_s64_range [of y] by (auto simp: s32_range_def s64_range_def)

text \<open>The subtraction trap is inverted for the smallest subtrahend. The handlers add the
  negated subtrahend, and negation leaves \<^verbatim>\<open>0x80000000\<close> unchanged: \<^verbatim>\<open>SUB\<close> then
  traps exactly when the true difference fits and stores a wrong difference exactly when it does
  not, and \<^verbatim>\<open>DSUB\<close> likewise for the 64-bit minimum.\<close>

theorem subtract_minimum_inverted:
  assumes "UL (GPR s (iRt s)) 0 = 0x80000000" "UD (GPR t (iRt t)) 0 = 0x8000000000000000"
  shows "SUB s = inverted_trap s32_range (sint (UL (GPR s (iRs s)) 0) - sint (UL (GPR s (iRt s)) 0))
      (2 ^ 32) (iRd s) s \<and>
    DSUB t = inverted_trap s64_range (sint (UD (GPR t (iRs t)) 0) - sint (UD (GPR t (iRt t)) 0))
      (2 ^ 64) (iRd t) t"
proof
  have m: "sint (0x80000000 :: u32) = - (2 ^ 31)" "sint (- 0x80000000 :: u32) = - (2 ^ 31)"
    "sint (0x8000000000000000 :: u64) = - (2 ^ 63)" "sint (- 0x8000000000000000 :: u64) = - (2 ^ 63)"
    by simp_all
  show "SUB s = inverted_trap s32_range (sint (UL (GPR s (iRs s)) 0) - sint (UL (GPR s (iRt s)) 0))
      (2 ^ 32) (iRd s) s"
    unfolding SUB_def add32_Overflow_exact inverted_trap_def ucast_UD ucast_minus_UD assms(1) m
    using minimum_sum(1) [of "UL (GPR s (iRs s)) 0"] by simp
  show "DSUB t = inverted_trap s64_range (sint (UD (GPR t (iRs t)) 0) - sint (UD (GPR t (iRt t)) 0))
      (2 ^ 64) (iRd t) t"
    unfolding DSUB_def add64_Overflow_exact inverted_trap_def assms(2) m
    using minimum_sum(2) [of "UD (GPR t (iRs t)) 0"] by simp
qed

theorem subtract_minimum_inverted_witness:
  "\<exists>s. iRd s = 3 \<and> sint (UL (GPR s (iRs s)) 0) = - 1 \<and> sint (UL (GPR s (iRt s)) 0) = - (2 ^ 31) \<and>
     SUB s = cpuException 0x30 (branch s) s"
proof -
  define s where "s = \<lparr>GPR = (\<lambda>_. 0)(1 := 0xffffffff, 2 := 0x80000000, 4 := 0x8000000000000000), HI = 0,
    LO = 0, CP0 = \<lambda>_. 0, sa = 0, pc = 0, code = 0x00221822, branch = 0, cycle = 0, nextEventCycle = 0\<rparr>"
  define t where "t = s\<lparr>code := 0x0024182e\<rparr>"
  have f: "iRs s = 1" "iRt s = 2" "iRd s = 3" "iRt t = 4"
    by (simp_all add: t_def s_def iRs_def iRt_def iRd_def)
  have v: "UL (GPR s 1) 0 = 0xffffffff" "UL (GPR s 2) 0 = 0x80000000" "UD (GPR t 4) 0 = 0x8000000000000000"
    by (simp_all add: t_def s_def lane_def)
  have "SUB s = inverted_trap s32_range (sint (UL (GPR s (iRs s)) 0) - sint (UL (GPR s (iRt s)) 0)) (2 ^ 32) (iRd s) s"
    by (rule subtract_minimum_inverted [of s t, THEN conjunct1]) (simp_all add: f v)
  then have "SUB s = cpuException 0x30 (branch s) s"
    by (simp add: f v inverted_trap_def s32_range_def)
  with f v show ?thesis by (intro exI [of _ s]) simp
qed

text \<open>Multiplication is exact. \<^verbatim>\<open>MULT\<close> and \<^verbatim>\<open>MULTU\<close> leave the full signed or
  unsigned 64-bit product in \<^verbatim>\<open>HI:LO\<close>, \<^verbatim>\<open>MADD\<close> and \<^verbatim>\<open>MADDU\<close> add it to the
  accumulator modulo 2^64, the \<^verbatim>\<open>1\<close> forms do so in the second pipeline; each half is sign
  extended, the other pipeline keeps its value and the destination receives the low word unless
  it is register 0.\<close>

theorem multiply_accumulate_exact:
  fixes s :: cpuRegisters
  defines "x \<equiv> UL (GPR s (iRs s)) 0" and "y \<equiv> UL (GPR s (iRt s)) 0"
  shows "multiply_written 0 MULT (word_of_int (sint x * sint y)) s \<and>
    multiply_written 0 MULTU (word_of_int (uint x * uint y)) s \<and>
    multiply_written 1 MULT1 (word_of_int (sint x * sint y)) s \<and>
    multiply_written 1 MULTU1 (word_of_int (uint x * uint y)) s \<and>
    multiply_written 0 MADD (hilo 0 s + word_of_int (sint x * sint y)) s \<and>
    multiply_written 0 MADDU (hilo 0 s + word_of_int (uint x * uint y)) s \<and>
    multiply_written 1 MADD1 (hilo 1 s + word_of_int (sint x * sint y)) s \<and>
    multiply_written 1 MADDU1 (hilo 1 s + word_of_int (uint x * uint y)) s"
  using multiply_handlers [of s] unfolding products_exact x_def y_def by simp

text \<open>Division is exact and total. \<^verbatim>\<open>DIV\<close> and \<^verbatim>\<open>DIV1\<close> leave the truncated
  quotient and a remainder with the sign of the dividend, \<^verbatim>\<open>DIVU\<close> and \<^verbatim>\<open>DIVU1\<close> the
  unsigned ones; a zero divisor and the overflowing quotient give the fixed results of the
  hardware instead of a host trap, and neither the registers nor the other pipeline change.\<close>

theorem division_exact:
  fixes s :: cpuRegisters
  defines "x \<equiv> UL (GPR s (iRs s)) 0" and "y \<equiv> UL (GPR s (iRt s)) 0"
  shows "quotient_written 0 DIV (divided (sint x) (sint y)) s \<and>
    quotient_written 1 DIV1 (divided (sint x) (sint y)) s \<and>
    quotient_written 0 DIVU (udivided (uint x) (uint y)) s \<and>
    quotient_written 1 DIVU1 (udivided (uint x) (uint y)) s"
  using signed_division [of s] unsigned_division [of s] unfolding x_def y_def by blast

text \<open>C27: The parallel instructions act lane by lane. Whichever of the three registers
  coincide, the sequential lane loops give every lane of the destination the wrapped or
  saturated sum or difference, the comparison mask, the maximum or the minimum of the lanes the
  sources had before the instruction, and change no other register; saturation clamps the exact
  integer result to the signed or unsigned range of the lane.\<close>

theorem parallel_lanes_exact:
  assumes "iRd s \<noteq> 0"
  shows "lanes_computed lane 4 (\<lambda>x y :: u32. x + y) PADDW s \<and>
    lanes_computed lane 4 (\<lambda>x y :: u32. x - y) PSUBW s \<and>
    lanes_computed lane 4 (\<lambda>x y :: u32. if y <s x then 0xFFFFFFFF else 0) PCGTW s \<and>
    lanes_computed lane 4 (\<lambda>x y :: u32. if y <s x then x else y) PMAXW s \<and>
    lanes_computed lane 4 (\<lambda>x y :: u32. if x <s y then x else y) PMINW s \<and>
    lanes_computed lane 4 (\<lambda>x y :: u32. if x = y then 0xFFFFFFFF else 0) PCEQW s \<and>
    lanes_computed lane 8 (\<lambda>x y :: u16. x + y) PADDH s \<and>
    lanes_computed lane 8 (\<lambda>x y :: u16. x - y) PSUBH s \<and>
    lanes_computed lane 8 (\<lambda>x y :: u16. if y <s x then 0xFFFF else 0) PCGTH s \<and>
    lanes_computed lane 8 (\<lambda>x y :: u16. if y <s x then x else y) PMAXH s \<and>
    lanes_computed lane 8 (\<lambda>x y :: u16. if x <s y then x else y) PMINH s \<and>
    lanes_computed lane 8 (\<lambda>x y :: u16. if x = y then 0xFFFF else 0) PCEQH s \<and>
    lanes_computed lane 16 (\<lambda>x y :: u8. x + y) PADDB s \<and>
    lanes_computed lane 16 (\<lambda>x y :: u8. x - y) PSUBB s \<and>
    lanes_computed lane 16 (\<lambda>x y :: u8. if y <s x then 0xFF else 0) PCGTB s \<and>
    lanes_computed lane 16 (\<lambda>x y :: u8. if x = y then 0xFF else 0) PCEQB s \<and>
    lanes_computed lane 4 (\<lambda>x y :: u32. ssat (sint x + sint y)) PADDSW s \<and>
    lanes_computed lane 4 (\<lambda>x y :: u32. ssat (sint x - sint y)) PSUBSW s \<and>
    lanes_computed lane 4 (\<lambda>x y :: u32. usat (uint x + uint y)) PADDUW s \<and>
    lanes_computed lane 4 (\<lambda>x y :: u32. usat (uint x - uint y)) PSUBUW s \<and>
    lanes_computed lane 8 (\<lambda>x y :: u16. ssat (sint x + sint y)) PADDSH s \<and>
    lanes_computed lane 8 (\<lambda>x y :: u16. ssat (sint x - sint y)) PSUBSH s \<and>
    lanes_computed lane 8 (\<lambda>x y :: u16. usat (uint x + uint y)) PADDUH s \<and>
    lanes_computed lane 8 (\<lambda>x y :: u16. usat (uint x - uint y)) PSUBUH s \<and>
    lanes_computed lane 16 (\<lambda>x y :: u8. ssat (sint x + sint y)) PADDSB s \<and>
    lanes_computed lane 16 (\<lambda>x y :: u8. ssat (sint x - sint y)) PSUBSB s \<and>
    lanes_computed lane 16 (\<lambda>x y :: u8. usat (uint x + uint y)) PADDUB s \<and>
    lanes_computed lane 16 (\<lambda>x y :: u8. usat (uint x - uint y)) PSUBUB s"
  by (intro conjI word_lanes halfword_lanes byte_lanes word_saturation halfword_saturation
      byte_saturation assms)

theorem parallel_lanes_exact_witness:
  "\<exists>s. iRd s = 3 \<and> lanes_computed lane 4 (\<lambda>x y :: u32. x + y) PADDW s"
proof -
  define s where "s = \<lparr>GPR = \<lambda>_. 0, HI = 0, LO = 0, CP0 = \<lambda>_. 0, sa = 0, pc = 0, code = 0x70221808,
    branch = 0, cycle = 0, nextEventCycle = 0\<rparr>"
  have "iRd s = 3" by (simp add: s_def iRd_def)
  moreover from this have "lanes_computed lane 4 (\<lambda>x y :: u32. x + y) PADDW s"
    by (intro parallel_lanes_exact [THEN conjunct1]) simp
  ultimately show ?thesis by blast
qed

text \<open>The funnel shift. After \<^verbatim>\<open>MTSAB\<close> or \<^verbatim>\<open>MTSAH\<close> the shift amount is below 16
  bytes, whatever the register and the immediate, and \<^verbatim>\<open>QFSRV\<close> then moves the 256-bit
  value \<^verbatim>\<open>rs:rt\<close> right by that many bytes bit for bit: none of the C++ shifts has an
  amount of the operand's width or more.\<close>

theorem funnel_shift_bounded:
  assumes "t = MTSAB s \<or> t = MTSAH s" "u = t\<lparr>code := c\<rparr>" "iRd u \<noteq> 0" "i < 128"
  shows "sa u < 16 \<and>
    bit (GPR (QFSRV u) (iRd u)) i = funnel (GPR u (iRs u)) (GPR u (iRt u)) (8 * unat (sa u)) i"
proof -
  have "(x AND 0xF) XOR (y AND 0xF) < (16 :: u32)" for x y :: u32
    using word_and_le1 [of "x XOR y" "0xF"]
    by (simp add: bit.conj_xor_distrib2 word_le_nat_alt word_less_nat_alt)
  moreover have "push_bit (Suc 0) ((x AND 7) XOR (y AND 7)) < (16 :: u32)" for x y :: u32
    using word_and_le1 [of "push_bit 1 (x XOR y)" "0xE"]
    by (simp add: bit.conj_xor_distrib2 word_le_nat_alt word_less_nat_alt)
  ultimately have "sa u < 16" using assms(1,2) by (auto simp: MTSAB_def MTSAH_def)
  with assms(3,4) show ?thesis using QFSRV_bits by blast
qed

theorem funnel_shift_bounded_witness:
  "\<exists>u. sa u = 8 \<and> bit (GPR (QFSRV u) (iRd u)) 127 = bit (GPR u (iRs u)) 63"
proof -
  define s where "s = \<lparr>GPR = \<lambda>_. 0, HI = 0, LO = 0, CP0 = \<lambda>_. 0, sa = 0, pc = 0, code = 0x04180008,
    branch = 0, cycle = 0, nextEventCycle = 0\<rparr>"
  define u where "u = (MTSAB s)\<lparr>code := 0x70220ee8\<rparr>"
  have "iRd u = 1" by (simp add: u_def iRd_def)
  then have "sa u < 16 \<and> bit (GPR (QFSRV u) (iRd u)) 127 =
      funnel (GPR u (iRs u)) (GPR u (iRt u)) (8 * unat (sa u)) 127"
    by (intro funnel_shift_bounded [of "MTSAB s" s u "0x70220ee8"]) (simp_all add: u_def)
  moreover have "sa u = 8" by (simp add: u_def s_def MTSAB_def iImm_def lane_def)
  ultimately show ?thesis by (intro exI [of _ u]) (simp add: funnel_def)
qed

end
