(* ===== verification/EE_Mem.thy ===== *)
theory EE_Mem
  imports EE_Int VTLB
begin

text \<open>
  Memory accesses of the Emotion Engine: \<^verbatim>\<open>vtlb_memRead\<close> and \<^verbatim>\<open>vtlb_memWrite\<close> of
  \<^verbatim>\<open>pcsx2/vtlb.cpp\<close> and the load and store handlers of
  \<^verbatim>\<open>pcsx2/R5900OpcodeImpl.cpp\<close>. The C++ templates over the data type are definitions
  polymorphic in the word length. An access either goes straight to host memory or calls the
  handler of the page; the handlers, the emulated data cache, the event test and the compiled-code
  invalidation are other components and enter as the parameter \<open>bus\<close>.
\<close>

subsection \<open>Words in memory\<close>

definition bytes_word :: "u8 list \<Rightarrow> 'w::len word" where
  "bytes_word bs = foldr (\<lambda>x w. push_bit 8 w OR ucast x) bs 0"

definition word_bytes :: "'w::len word \<Rightarrow> u8 list" where
  "word_bytes w = map (\<lambda>i. ucast (drop_bit (8 * i) w)) [0..<LENGTH('w) div 8]"

subsection \<open>The machine\<close>

text \<open>The state of the machine: the registers, the page tables, host memory, the interpreter's
  own counters, the exit flag of the compiling back end, and the state \<open>'d\<close> of everything
  else. What jumps out of the instruction (\<^verbatim>\<open>fastjmp_jmp\<close>) ends in \<open>Cancel\<close>.\<close>

record 'd ee =
  cpu :: cpuRegisters
  vt :: MapData
  hmem :: memory
  cpuBlockCycles :: u32
  intLastBranchTo :: u32
  s_ee_a32_exit_execution :: bool
  dev :: 'd

datatype ('a, 's) res = Ok 'a 's | Cancel 's

definition res_bind :: "('a, 's) res \<Rightarrow> ('a \<Rightarrow> 's \<Rightarrow> ('b, 's) res) \<Rightarrow> ('b, 's) res" where
  "res_bind r f = (case r of Ok a s \<Rightarrow> f a s | Cancel s \<Rightarrow> Cancel s)"

definition wcpu :: "(cpuRegisters \<Rightarrow> cpuRegisters) \<Rightarrow> 'd ee \<Rightarrow> 'd ee" where
  "wcpu f s = s\<lparr>cpu := f (cpu s)\<rparr>"

text \<open>
  What the accesses call: \<open>RWFT_R\<close> and \<open>RWFT_W\<close> are the handler table, indexed by the number
  of bytes and the handler number; \<open>CheckCache\<close>, \<open>readCache\<close> and \<open>writeCache\<close> the data
  cache of the interpreter; \<open>NotifyVitaEeRamWrite\<close> the invalidation of compiled code, which
  answers how many blocks it dropped; \<open>intEventTest\<close> the event test; \<open>scale13\<close> the
  conversion \<^verbatim>\<open>(u32)(x / 1.3f)\<close>; \<open>Cpu\<close> the back end that runs the main processor, the
  interpreter \<^verbatim>\<open>intCpu\<close> or the block compiler \<^verbatim>\<open>recCpu\<close>; the rest is configuration.
\<close>

datatype R5900cpu = intCpu | recCpu

record 'd bus =
  RWFT_R :: "nat \<Rightarrow> u8 \<Rightarrow> u32 \<Rightarrow> 'd ee \<Rightarrow> (u128, 'd ee) res"
  RWFT_W :: "nat \<Rightarrow> u8 \<Rightarrow> u32 \<Rightarrow> u128 \<Rightarrow> 'd ee \<Rightarrow> (unit, 'd ee) res"
  CheckCache :: "u32 \<Rightarrow> 'd ee \<Rightarrow> bool"
  readCache :: "nat \<Rightarrow> u32 \<Rightarrow> 'd ee \<Rightarrow> (u128, 'd ee) res"
  writeCache :: "nat \<Rightarrow> u32 \<Rightarrow> u128 \<Rightarrow> 'd ee \<Rightarrow> (unit, 'd ee) res"
  NotifyVitaEeRamWrite :: "uptr \<Rightarrow> u32 \<Rightarrow> 'd \<Rightarrow> u32 \<times> 'd"
  intEventTest :: "'d ee \<Rightarrow> (unit, 'd ee) res"
  scale13 :: "u32 \<Rightarrow> u32"
  CHECK_EEREC :: bool
  CHECK_CACHE :: bool
  EECycleRate :: int
  Cpu :: R5900cpu

text \<open>Cancelling an instruction leaves it at once under the interpreter, by a jump to the
  dispatcher. Under the block compiler it only asks the dispatcher to stop: it returns, and the
  instruction that called it goes on.\<close>

definition intCancelInstruction :: "'d ee \<Rightarrow> (unit, 'd ee) res" where [ee_defs]:
  "intCancelInstruction s = Cancel s"

definition recCancelInstruction :: "'d ee \<Rightarrow> (unit, 'd ee) res" where [ee_defs]:
  "recCancelInstruction s = Ok () (s\<lparr>s_ee_a32_exit_execution := True\<rparr>)"

definition CancelInstruction :: "'d bus \<Rightarrow> 'd ee \<Rightarrow> (unit, 'd ee) res" where [ee_defs]:
  "CancelInstruction b s = (case Cpu b of intCpu \<Rightarrow> intCancelInstruction s | recCpu \<Rightarrow> recCancelInstruction s)"

text \<open>An address error is logged and cancels the instruction.\<close>

definition RaiseAddressError :: "'d bus \<Rightarrow> 'd ee \<Rightarrow> (unit, 'd ee) res" where [ee_defs]:
  "RaiseAddressError b s = CancelInstruction b s"

definition notify :: "'d bus \<Rightarrow> uptr \<Rightarrow> u32 \<Rightarrow> 'd ee \<Rightarrow> u32 \<times> 'd ee" where
  "notify b host sz s = (case NotifyVitaEeRamWrite b host sz (dev s) of (n, d) \<Rightarrow> (n, s\<lparr>dev := d\<rparr>))"

definition vtlb_memRead :: "'d bus \<Rightarrow> u32 \<Rightarrow> 'd ee \<Rightarrow> ('w::len word, 'd ee) res" where
  "vtlb_memRead b addr s =
    (let vmv = vmap (vt s) (drop_bit VTLB_PAGE_BITS addr); size_b = LENGTH('w) div 8
     in if \<not> isHandler vmv addr
        then if \<not> CHECK_EEREC b \<and> CHECK_CACHE b \<and> CheckCache b addr s
             then res_bind (readCache b size_b addr s) (\<lambda>v s1. Ok (ucast v) s1)
             else Ok (bytes_word (mem_read (hmem s) (assumePtr (vt s) vmv addr) size_b)) s
        else res_bind (RWFT_R b size_b (assumeHandlerGetID vmv) (assumeHandlerGetPAddr vmv addr) s)
               (\<lambda>v s1. Ok (ucast v) s1))"

definition vtlb_memWrite :: "'d bus \<Rightarrow> u32 \<Rightarrow> 'w::len word \<Rightarrow> 'd ee \<Rightarrow> (unit, 'd ee) res" where
  "vtlb_memWrite b addr data s =
    (let vmv = vmap (vt s) (drop_bit VTLB_PAGE_BITS addr); size_b = LENGTH('w) div 8
     in if \<not> isHandler vmv addr
        then if \<not> CHECK_EEREC b \<and> CHECK_CACHE b \<and> CheckCache b addr s
             then writeCache b size_b addr (ucast data) s
             else let host = assumePtr (vt s) vmv addr
                  in Ok () (snd (notify b host (of_nat size_b)
                       (s\<lparr>hmem := mem_write (hmem s) host (word_bytes data)\<rparr>)))
        else RWFT_W b size_b (assumeHandlerGetID vmv) (assumeHandlerGetPAddr vmv addr) (ucast data) s)"

definition intUpdateCPUCycles :: "'d bus \<Rightarrow> 'd ee \<Rightarrow> 'd ee" where
  "intUpdateCPUCycles b s =
    (let c = cpuBlockCycles s; lowcycles = (c \<le> 40); cyclerate = EECycleRate b;
         scale_cycles =
           (if cyclerate = 0 \<or> lowcycles \<or> cyclerate < - 99 \<or> cyclerate > 3 then drop_bit 3 c
            else if cyclerate > 1 then drop_bit (2 + nat cyclerate) c
            else if cyclerate = 1 then scale13 b (drop_bit 3 c)
            else if cyclerate = - 1 then (if c \<le> 80 \<or> c > 168 then 5 else 7) * c div 32
            else drop_bit 5 (of_int (5 + (- 2 * (cyclerate + 1))) * c))
     in s\<lparr>cpu := (cpu s)\<lparr>cycle := cycle (cpu s) + (if scale_cycles < 1 then 1 else ucast scale_cycles)\<rparr>,
          cpuBlockCycles := c AND (if cyclerate > 1 then push_bit (nat cyclerate + 2) 1 - 1 else 0x7)\<rparr>)"

text \<open>The effective address, and the event test that ends a load from the counter registers.\<close>

definition ls_addr :: "'d ee \<Rightarrow> u32" where
  "ls_addr s = UL (GPR (cpu s) (iRs (cpu s))) 0 + scast (iImm (cpu s))"

definition counter_sync :: "'d bus \<Rightarrow> u32 \<Rightarrow> 'd ee \<Rightarrow> (unit, 'd ee) res" where
  "counter_sync b addr s =
    (if addr AND 0xFFFFE000 = 0x10000000 then intEventTest b (intUpdateCPUCycles b s) else Ok () s)"

subsection \<open>Loads\<close>

definition LB :: "'d bus \<Rightarrow> 'd ee \<Rightarrow> (unit, 'd ee) res" where [ee_defs]:
  "LB b s =
    (let addr = ls_addr s
     in res_bind (vtlb_memRead b addr s) (\<lambda>(temp :: u8) s1.
          if iRt (cpu s1) = 0 then Ok () s1
          else let s2 = wcpu (wGPR (iRt (cpu s1)) (set_UD 0 (scast temp))) s1
               in counter_sync b addr s2))"

definition LBU :: "'d bus \<Rightarrow> 'd ee \<Rightarrow> (unit, 'd ee) res" where [ee_defs]:
  "LBU b s =
    (let addr = ls_addr s
     in res_bind (vtlb_memRead b addr s) (\<lambda>(temp :: u8) s1.
          if iRt (cpu s1) = 0 then Ok () s1
          else let s2 = wcpu (wGPR (iRt (cpu s1)) (set_UD 0 (ucast temp))) s1
               in counter_sync b addr s2))"

definition LH :: "'d bus \<Rightarrow> 'd ee \<Rightarrow> (unit, 'd ee) res" where [ee_defs]:
  "LH b s =
    (let addr = ls_addr s
     in res_bind (if addr AND 1 \<noteq> 0 then RaiseAddressError b s else Ok () s) (\<lambda>_ s0.
        res_bind (vtlb_memRead b addr s0) (\<lambda>(temp :: u16) s1.
          if iRt (cpu s1) = 0 then Ok () s1
          else let s2 = wcpu (wGPR (iRt (cpu s1)) (set_UD 0 (scast temp))) s1
               in counter_sync b addr s2)))"

definition LHU :: "'d bus \<Rightarrow> 'd ee \<Rightarrow> (unit, 'd ee) res" where [ee_defs]:
  "LHU b s =
    (let addr = ls_addr s
     in res_bind (if addr AND 1 \<noteq> 0 then RaiseAddressError b s else Ok () s) (\<lambda>_ s0.
        res_bind (vtlb_memRead b addr s0) (\<lambda>(temp :: u16) s1.
          if iRt (cpu s1) = 0 then Ok () s1
          else let s2 = wcpu (wGPR (iRt (cpu s1)) (set_UD 0 (ucast temp))) s1
               in counter_sync b addr s2)))"

definition LW :: "'d bus \<Rightarrow> 'd ee \<Rightarrow> (unit, 'd ee) res" where [ee_defs]:
  "LW b s =
    (let addr = ls_addr s
     in res_bind (if addr AND 3 \<noteq> 0 then RaiseAddressError b s else Ok () s) (\<lambda>_ s0.
        res_bind (vtlb_memRead b addr s0) (\<lambda>(temp :: u32) s1.
          if iRt (cpu s1) = 0 then Ok () s1
          else let s2 = wcpu (wGPR (iRt (cpu s1)) (set_UD 0 (scast temp))) s1
               in counter_sync b addr s2)))"

definition LWU :: "'d bus \<Rightarrow> 'd ee \<Rightarrow> (unit, 'd ee) res" where [ee_defs]:
  "LWU b s =
    (let addr = ls_addr s
     in res_bind (if addr AND 3 \<noteq> 0 then RaiseAddressError b s else Ok () s) (\<lambda>_ s0.
        res_bind (vtlb_memRead b addr s0) (\<lambda>(temp :: u32) s1.
          if iRt (cpu s1) = 0 then Ok () s1
          else let s2 = wcpu (wGPR (iRt (cpu s1)) (set_UD 0 (ucast temp))) s1
               in Ok () s2)))"

definition LWL_MASK :: "u32 list" where [ee_defs]:
  "LWL_MASK = [0xffffff, 0x0000ffff, 0x000000ff, 0x00000000]"

definition LWR_MASK :: "u32 list" where [ee_defs]:
  "LWR_MASK = [0x000000, 0xff000000, 0xffff0000, 0xffffff00]"

definition LWL_SHIFT :: "nat list" where [ee_defs]:
  "LWL_SHIFT = [24, 16, 8, 0]"

definition LWR_SHIFT :: "nat list" where [ee_defs]:
  "LWR_SHIFT = [0, 8, 16, 24]"

definition LWL :: "'d bus \<Rightarrow> 'd ee \<Rightarrow> (unit, 'd ee) res" where [ee_defs]:
  "LWL b s =
    (let addr = ls_addr s; shift = unat (addr AND 3)
     in res_bind (vtlb_memRead b (addr AND NOT 3) s) (\<lambda>(mem :: u32) s1.
          if iRt (cpu s1) = 0 then Ok () s1
          else let rt = iRt (cpu s1)
               in Ok () (wcpu (wGPR rt (set_UD 0 (scast
                    ((UL (GPR (cpu s1) rt) 0 AND LWL_MASK ! shift) OR push_bit (LWL_SHIFT ! shift) mem)))) s1)))"

definition LWR :: "'d bus \<Rightarrow> 'd ee \<Rightarrow> (unit, 'd ee) res" where [ee_defs]:
  "LWR b s =
    (let addr = ls_addr s; shift = unat (addr AND 3)
     in res_bind (vtlb_memRead b (addr AND NOT 3) s) (\<lambda>(mem :: u32) s1.
          if iRt (cpu s1) = 0 then Ok () s1
          else let rt = iRt (cpu s1);
                   mem' = (UL (GPR (cpu s1) rt) 0 AND LWR_MASK ! shift) OR drop_bit (LWR_SHIFT ! shift) mem
               in if shift = 0 then Ok () (wcpu (wGPR rt (set_UD 0 (scast mem'))) s1)
                  else Ok () (wcpu (wGPR rt (set_UL 0 mem')) s1)))"

definition LD :: "'d bus \<Rightarrow> 'd ee \<Rightarrow> (unit, 'd ee) res" where [ee_defs]:
  "LD b s =
    (let addr = ls_addr s
     in res_bind (if addr AND 7 \<noteq> 0 then RaiseAddressError b s else Ok () s) (\<lambda>_ s0.
        res_bind (vtlb_memRead b addr s0) (\<lambda>(temp :: u64) s1.
          Ok () (wcpu (wGPR (iRt (cpu s1)) (set_UD 0 temp)) s1))))"

definition LDL_MASK :: "u64 list" where [ee_defs]:
  "LDL_MASK = [0x00ffffffffffffff, 0x0000ffffffffffff, 0x000000ffffffffff, 0x00000000ffffffff, 0x0000000000ffffff, 0x000000000000ffff, 0x00000000000000ff, 0x0000000000000000]"

definition LDR_MASK :: "u64 list" where [ee_defs]:
  "LDR_MASK = [0x0000000000000000, 0xff00000000000000, 0xffff000000000000, 0xffffff0000000000, 0xffffffff00000000, 0xffffffffff000000, 0xffffffffffff0000, 0xffffffffffffff00]"

definition LDR_SHIFT :: "nat list" where [ee_defs]:
  "LDR_SHIFT = [0, 8, 16, 24, 32, 40, 48, 56]"

definition LDL_SHIFT :: "nat list" where [ee_defs]:
  "LDL_SHIFT = [56, 48, 40, 32, 24, 16, 8, 0]"

definition LDL :: "'d bus \<Rightarrow> 'd ee \<Rightarrow> (unit, 'd ee) res" where [ee_defs]:
  "LDL b s =
    (let addr = ls_addr s; shift = unat (addr AND 7)
     in res_bind (vtlb_memRead b (addr AND NOT 7) s) (\<lambda>(mem :: u64) s1.
          if iRt (cpu s1) = 0 then Ok () s1
          else let rt = iRt (cpu s1)
               in Ok () (wcpu (wGPR rt (set_UD 0
                    ((UD (GPR (cpu s1) rt) 0 AND LDL_MASK ! shift) OR push_bit (LDL_SHIFT ! shift) mem))) s1)))"

definition LDR :: "'d bus \<Rightarrow> 'd ee \<Rightarrow> (unit, 'd ee) res" where [ee_defs]:
  "LDR b s =
    (let addr = ls_addr s; shift = unat (addr AND 7)
     in res_bind (vtlb_memRead b (addr AND NOT 7) s) (\<lambda>(mem :: u64) s1.
          if iRt (cpu s1) = 0 then Ok () s1
          else let rt = iRt (cpu s1)
               in Ok () (wcpu (wGPR rt (set_UD 0
                    ((UD (GPR (cpu s1) rt) 0 AND LDR_MASK ! shift) OR drop_bit (LDR_SHIFT ! shift) mem))) s1)))"

text \<open>\<^verbatim>\<open>gpr_GetWritePtr\<close> directs a quadword loaded into register 0 to a dummy that is
  never read.\<close>

definition LQ :: "'d bus \<Rightarrow> 'd ee \<Rightarrow> (unit, 'd ee) res" where [ee_defs]:
  "LQ b s =
    (let addr = ls_addr s; rt = iRt (cpu s)
     in res_bind (vtlb_memRead b (addr AND NOT 0xf) s) (\<lambda>(v :: u128) s1.
          Ok () (if rt = 0 then s1 else wcpu (wGPR rt (\<lambda>_. v)) s1)))"

subsection \<open>Stores\<close>

definition SB :: "'d bus \<Rightarrow> 'd ee \<Rightarrow> (unit, 'd ee) res" where [ee_defs]:
  "SB b s =
    (let addr = ls_addr s
     in vtlb_memWrite b addr (UC (GPR (cpu s) (iRt (cpu s))) 0) s)"

definition SH :: "'d bus \<Rightarrow> 'd ee \<Rightarrow> (unit, 'd ee) res" where [ee_defs]:
  "SH b s =
    (let addr = ls_addr s
     in res_bind (if addr AND 1 \<noteq> 0 then RaiseAddressError b s else Ok () s) (\<lambda>_ s0.
        vtlb_memWrite b addr (US (GPR (cpu s0) (iRt (cpu s0))) 0) s0))"

definition SW :: "'d bus \<Rightarrow> 'd ee \<Rightarrow> (unit, 'd ee) res" where [ee_defs]:
  "SW b s =
    (let addr = ls_addr s
     in res_bind (if addr AND 3 \<noteq> 0 then RaiseAddressError b s else Ok () s) (\<lambda>_ s0.
        vtlb_memWrite b addr (UL (GPR (cpu s0) (iRt (cpu s0))) 0) s0))"

definition SWL_MASK :: "u32 list" where [ee_defs]:
  "SWL_MASK = [0xffffff00, 0xffff0000, 0xff000000, 0x00000000]"

definition SWR_MASK :: "u32 list" where [ee_defs]:
  "SWR_MASK = [0x00000000, 0x000000ff, 0x0000ffff, 0x00ffffff]"

definition SWR_SHIFT :: "nat list" where [ee_defs]:
  "SWR_SHIFT = [0, 8, 16, 24]"

definition SWL_SHIFT :: "nat list" where [ee_defs]:
  "SWL_SHIFT = [24, 16, 8, 0]"

definition SWL :: "'d bus \<Rightarrow> 'd ee \<Rightarrow> (unit, 'd ee) res" where [ee_defs]:
  "SWL b s =
    (let addr = ls_addr s; shift = unat (addr AND 3)
     in res_bind (vtlb_memRead b (addr AND NOT 3) s) (\<lambda>(mem :: u32) s1.
          vtlb_memWrite b (addr AND NOT 3)
            (drop_bit (SWL_SHIFT ! shift) (UL (GPR (cpu s1) (iRt (cpu s1))) 0) OR (mem AND SWL_MASK ! shift)) s1))"

definition SWR :: "'d bus \<Rightarrow> 'd ee \<Rightarrow> (unit, 'd ee) res" where [ee_defs]:
  "SWR b s =
    (let addr = ls_addr s; shift = unat (addr AND 3)
     in res_bind (vtlb_memRead b (addr AND NOT 3) s) (\<lambda>(mem :: u32) s1.
          vtlb_memWrite b (addr AND NOT 3)
            (push_bit (SWR_SHIFT ! shift) (UL (GPR (cpu s1) (iRt (cpu s1))) 0) OR (mem AND SWR_MASK ! shift)) s1))"

definition SD :: "'d bus \<Rightarrow> 'd ee \<Rightarrow> (unit, 'd ee) res" where [ee_defs]:
  "SD b s =
    (let addr = ls_addr s
     in res_bind (if addr AND 7 \<noteq> 0 then RaiseAddressError b s else Ok () s) (\<lambda>_ s0.
        vtlb_memWrite b addr (UD (GPR (cpu s0) (iRt (cpu s0))) 0) s0))"

definition SDL_MASK :: "u64 list" where [ee_defs]:
  "SDL_MASK = [0xffffffffffffff00, 0xffffffffffff0000, 0xffffffffff000000, 0xffffffff00000000, 0xffffff0000000000, 0xffff000000000000, 0xff00000000000000, 0x0000000000000000]"

definition SDR_MASK :: "u64 list" where [ee_defs]:
  "SDR_MASK = [0x0000000000000000, 0x00000000000000ff, 0x000000000000ffff, 0x0000000000ffffff, 0x00000000ffffffff, 0x000000ffffffffff, 0x0000ffffffffffff, 0x00ffffffffffffff]"

definition SDL_SHIFT :: "nat list" where [ee_defs]:
  "SDL_SHIFT = [56, 48, 40, 32, 24, 16, 8, 0]"

definition SDR_SHIFT :: "nat list" where [ee_defs]:
  "SDR_SHIFT = [0, 8, 16, 24, 32, 40, 48, 56]"

definition SDL :: "'d bus \<Rightarrow> 'd ee \<Rightarrow> (unit, 'd ee) res" where [ee_defs]:
  "SDL b s =
    (let addr = ls_addr s; shift = unat (addr AND 7)
     in res_bind (vtlb_memRead b (addr AND NOT 7) s) (\<lambda>(mem :: u64) s1.
          vtlb_memWrite b (addr AND NOT 7)
            (drop_bit (SDL_SHIFT ! shift) (UD (GPR (cpu s1) (iRt (cpu s1))) 0) OR (mem AND SDL_MASK ! shift)) s1))"

definition SDR :: "'d bus \<Rightarrow> 'd ee \<Rightarrow> (unit, 'd ee) res" where [ee_defs]:
  "SDR b s =
    (let addr = ls_addr s; shift = unat (addr AND 7)
     in res_bind (vtlb_memRead b (addr AND NOT 7) s) (\<lambda>(mem :: u64) s1.
          vtlb_memWrite b (addr AND NOT 7)
            (push_bit (SDR_SHIFT ! shift) (UD (GPR (cpu s1) (iRt (cpu s1))) 0) OR (mem AND SDR_MASK ! shift)) s1))"

definition SQ :: "'d bus \<Rightarrow> 'd ee \<Rightarrow> (unit, 'd ee) res" where [ee_defs]:
  "SQ b s =
    (let addr = ls_addr s
     in vtlb_memWrite b (addr AND NOT 0xf) (GPR (cpu s) (iRt (cpu s))) s)"

end
