(* ===== verification/EE_Access.thy ===== *)
theory EE_Access
  imports EE_Mem EE_Arith VTLB_Inv
begin

text \<open>
  Memory accesses of the Emotion Engine in main memory, as operations on one flat byte memory:
  words as bytes, reads and writes through the identity window of the page tables, and the
  word merges of the unaligned loads and stores.
\<close>

subsection \<open>Words as bytes\<close>

lemma bit_bytes_word [bit_simps]:
  "bit (bytes_word bs :: 'w::len word) i \<longleftrightarrow> i < LENGTH('w) \<and> i < 8 * length bs \<and> bit (bs ! (i div 8)) (i mod 8)"
proof (induction bs arbitrary: i)
  case Nil
  then show ?case by (simp add: bytes_word_def)
next
  case (Cons x bs)
  have step: "(bytes_word (x # bs) :: 'w word) = push_bit 8 (bytes_word bs) OR ucast x"
    by (simp add: bytes_word_def)
  show ?case
  proof (cases "i < 8")
    case True
    then show ?thesis by (auto simp: step bit_simps)
  next
    case False
    then have "i div 8 = Suc ((i - 8) div 8)" "i mod 8 = (i - 8) mod 8" "\<not> bit x i"
      by (auto simp: le_div_geq le_mod_geq dest: bit_imp_le_length)
    with False show ?thesis by (auto simp: step bit_simps Cons.IH)
  qed
qed

lemma length_word_bytes [simp]: "length (word_bytes (w::'w::len word)) = LENGTH('w) div 8"
  by (simp add: word_bytes_def)

lemma bit_word_bytes [bit_simps]:
  "j < LENGTH('w) div 8 \<Longrightarrow> bit (word_bytes (w::'w::len word) ! j) k \<longleftrightarrow> k < 8 \<and> bit w (8 * j + k)"
  by (auto simp: word_bytes_def bit_simps ac_simps dest: bit_imp_le_length)

lemma bytes_word_word_bytes: "8 dvd LENGTH('w) \<Longrightarrow> bytes_word (word_bytes w) = (w :: 'w::len word)"
  by (rule bit_word_eqI) (auto simp: bit_simps less_mult_imp_div_less)

subsection \<open>Accesses through the identity window\<close>

definition gmem :: "'d ee \<Rightarrow> u32 \<Rightarrow> u8" where
  "gmem s a = hmem s (host_memory_base (vt s) + a)"

definition ram_window :: "'d bus \<Rightarrow> 'd ee \<Rightarrow> bool" where
  "ram_window b s \<longleftrightarrow> (CHECK_EEREC b \<or> \<not> CHECK_CACHE b) \<and> reach memory_map_ready vtlb_step (vt s) \<and>
     HasDefaultMainRamIdentityWindow (vt s)"

lemma window_entry:
  assumes "reach memory_map_ready vtlb_step m" "HasDefaultMainRamIdentityWindow m" "vaddr < MainRam"
  shows "vmap m (drop_bit 12 vaddr) = 0"
    and "\<not> isHandler 0 vaddr" "assumePtr m 0 vaddr = host_memory_base m + vaddr"
proof -
  have "identity_inv m" using vtlb.reach_inv [OF assms(1)] by (simp add: vtlb_ok_def)
  moreover have "drop_bit 12 vaddr < (8192 :: u32)"
    using assms(3) by (simp add: drop_bit_eq_div word_less_nat_alt unat_div less_mult_imp_div_less)
  ultimately show "vmap m (drop_bit 12 vaddr) = 0"
    using assms(2) identity_window_full by blast
  show "\<not> isHandler 0 vaddr"
    using assms(3) by (simp add: isHandler_def sless_0_iff word_le_nat_alt word_less_nat_alt)
  show "assumePtr m 0 vaddr = host_memory_base m + vaddr"
    by (simp add: assumePtr_def)
qed

definition load :: "(u32 \<Rightarrow> u8) \<Rightarrow> u32 \<Rightarrow> 'w::len word" where
  "load m a = bytes_word (mem_read m a (LENGTH('w) div 8))"

definition store :: "(u32 \<Rightarrow> u8) \<Rightarrow> u32 \<Rightarrow> 'w::len word \<Rightarrow> (u32 \<Rightarrow> u8)" where
  "store m a w = mem_write m a (word_bytes w)"

lemma window_read:
  assumes "ram_window b s" "a < MainRam"
  shows "vtlb_memRead b a s = Ok (load (gmem s) a :: 'w::len word) s"
  using assms window_entry [of "vt s" a]
  by (auto simp: vtlb_memRead_def ram_window_def Let_def load_def gmem_def mem_read_def ac_simps)

definition stored :: "'d bus \<Rightarrow> u32 \<Rightarrow> 'w::len word \<Rightarrow> 'd ee \<Rightarrow> 'd ee" where
  "stored b a w s = (let host = host_memory_base (vt s) + a
     in snd (notify b host (of_nat (LENGTH('w) div 8)) (s\<lparr>hmem := mem_write (hmem s) host (word_bytes w)\<rparr>)))"

lemma window_write:
  assumes "ram_window b s" "a < MainRam"
  shows "vtlb_memWrite b a w s = Ok () (stored b a w s)"
  using assms window_entry [of "vt s" a]
  by (auto simp: vtlb_memWrite_def ram_window_def Let_def stored_def)

lemma stored_simps [simp]:
  "s_ee_a32_exit_execution (stored b a w s) = s_ee_a32_exit_execution s"
  "cpu (stored b a w s) = cpu s" "vt (stored b a w s) = vt s"
  "gmem (stored b a w s) = store (gmem s) a w"
  by (auto simp: stored_def notify_def gmem_def store_def mem_write_def Let_def fun_eq_iff split: prod.split)

lemma ram_window_cong [simp]:
  "ram_window b (wcpu f s) = ram_window b s" "gmem (wcpu f s) = gmem s"
  "ram_window b (stored b a w s) = ram_window b s"
  by (simp_all add: ram_window_def gmem_def wcpu_def fun_eq_iff)


subsection \<open>Unaligned merges\<close>

definition merge_left :: "nat \<Rightarrow> 'w::len word \<Rightarrow> 'w word \<Rightarrow> 'w word" where
  "merge_left k x m = (x AND mask (LENGTH('w) - 8 - 8 * k)) OR push_bit (LENGTH('w) - 8 - 8 * k) m"

definition merge_right :: "nat \<Rightarrow> 'w::len word \<Rightarrow> 'w word \<Rightarrow> 'w word" where
  "merge_right k x m = (x AND NOT (mask (LENGTH('w) - 8 * k))) OR drop_bit (8 * k) m"

lemma bit_merge_left:
  "i < LENGTH('w) \<Longrightarrow> bit (merge_left k (x::'w::len word) m) i =
    (if LENGTH('w) - 8 - 8 * k \<le> i then bit m (i - (LENGTH('w) - 8 - 8 * k)) else bit x i)"
  by (auto simp: merge_left_def bit_simps)

lemma bit_merge_right:
  "i < LENGTH('w) \<Longrightarrow> bit (merge_right k (x::'w::len word) m) i =
    (if LENGTH('w) - 8 * k \<le> i then bit x i else bit m (i + 8 * k))"
  by (auto simp: merge_right_def bit_simps ac_simps dest: bit_imp_le_length)

lemma bit_load:
  "8 dvd LENGTH('w) \<Longrightarrow> bit (load m a :: 'w::len word) i \<longleftrightarrow> i < LENGTH('w) \<and> bit (m (a + of_nat (i div 8))) (i mod 8)"
  by (auto simp: load_def bit_simps less_mult_imp_div_less)

lemma unat_low_bits: "p \<le> 32 \<Longrightarrow> unat ((x::u32) AND mask p) = unat x mod 2 ^ p"
proof -
  have "unat (take_bit p x) = take_bit p (unat x)" by (rule unsigned_take_bit_eq)
  then show ?thesis by (simp only: take_bit_eq_mask [of p x] take_bit_nat_def)
qed

lemma low_high_bits: "(x AND NOT (mask p)) + (x AND mask p) = (x::u32)"
  by (subst disjunctive_add_eq_or) (auto intro!: bit_word_eqI simp: bit_simps)


text \<open>For an access at \<open>a\<close> with \<open>k\<close> low bits: where the aligned words lie.\<close>

lemma unaligned_addresses:
  fixes a :: u32
  assumes "p \<le> 32" "k = unat (a AND mask p)"
  shows "(a AND NOT (mask p)) + of_nat k = a"
    and "unat ((a + mask p) AND mask p) = (if k = 0 then 2 ^ p - 1 else k - 1)"
    and "((a + mask p) AND NOT (mask p)) = (if k = 0 then a else a + of_nat (2 ^ p - k))"
proof -
  show *: "(a AND NOT (mask p)) + of_nat k = a" using low_high_bits [of a p] assms(2) by simp
  have k: "k < 2 ^ p" using unat_low_bits [OF assms(1), of a] assms(2) by simp
  have dv: "(2::nat) ^ p dvd 2 ^ 32" using assms(1) by (rule le_imp_power_dvd)
  have "unat (mask p :: u32) = mask p" using assms(1) by (intro bit_eqI) (auto simp: bit_simps)
  then have um: "unat (mask p :: u32) = 2 ^ p - 1" by (simp only: mask_eq_exp_minus_1)
  have "unat (a + mask p) mod 2 ^ p = (unat a + (2 ^ p - 1)) mod 2 ^ p"
    using mod_mod_cancel [OF dv, of "unat a + (2 ^ p - 1)"] by (simp add: unat_word_ariths um)
  also have "\<dots> = (k + (2 ^ p - 1)) mod 2 ^ p"
    using unat_low_bits [OF assms(1), of a] assms(2) by (metis mod_add_left_eq)
  also have "\<dots> = (if k = 0 then 2 ^ p - 1 else k - 1)"
    using k by (auto simp: mod_if)
  finally show l: "unat ((a + mask p) AND mask p) = (if k = 0 then 2 ^ p - 1 else k - 1)"
    by (simp add: unat_low_bits [OF assms(1)])
  have "((a + mask p) AND NOT (mask p)) + of_nat (unat ((a + mask p) AND mask p)) = a + mask p"
    using low_high_bits [of "a + mask p" p] by simp
  moreover have "(mask p :: u32) = of_nat (2 ^ p - 1)" unfolding um [symmetric] by simp
  ultimately have hi: "((a + mask p) AND NOT (mask p)) + of_nat (if k = 0 then 2 ^ p - 1 else k - 1) = a + of_nat (2 ^ p - 1)"
    unfolding l by simp
  show "((a + mask p) AND NOT (mask p)) = (if k = 0 then a else a + of_nat (2 ^ p - k))"
  proof (cases "k = 0")
    case True
    then show ?thesis using hi by simp
  next
    case False
    then have "(of_nat (2 ^ p - 1) :: u32) = of_nat (2 ^ p - k) + of_nat (k - 1)"
      using k by (subst of_nat_add [symmetric]) simp
    then show ?thesis using hi False by (simp add: add.assoc [symmetric])
  qed
qed

lemma merge_pair:
  fixes x :: "'w::len word" and a :: u32
  assumes w: "LENGTH('w) = 8 * 2 ^ p" "p \<le> 32" and k: "k = unat (a AND mask p)"
  shows "merge_right k (merge_left (unat ((a + mask p) AND mask p)) x (load m ((a + mask p) AND NOT (mask p))))
    (load m (a AND NOT (mask p))) = load m a"
proof (rule bit_word_eqI)
  fix i assume i: "i < LENGTH('w)"
  note ad = unaligned_addresses [OF w(2) k]
  have dv: "8 dvd LENGTH('w)" using w(1) by simp
  have kp: "k < 2 ^ p" using unat_low_bits [OF w(2), of a] k by simp
  show "bit (merge_right k (merge_left (unat ((a + mask p) AND mask p)) x (load m ((a + mask p) AND NOT (mask p))))
    (load m (a AND NOT (mask p)))) i = bit (load m a :: 'w word) i"
  proof (cases "LENGTH('w) - 8 * k \<le> i")
    case True
    then have k0: "k \<noteq> 0" using i by auto
    obtain r where r: "i = LENGTH('w) - 8 * k + r" using True by (metis le_Suc_ex)
    have e: "LENGTH('w) - 8 * k = 8 * (2 ^ p - k)" using w(1) by (simp add: diff_mult_distrib2)
    have d: "i div 8 = 2 ^ p - k + r div 8" "i mod 8 = r mod 8" unfolding r e by simp_all
    have "LENGTH('w) - 8 - 8 * (k - 1) = LENGTH('w) - 8 * k" using k0 by (cases k) simp_all
    then show ?thesis
      using True i k0 dv ad d r
      by (simp add: bit_merge_right bit_merge_left bit_load add.assoc of_nat_add [symmetric] del: of_nat_add)
  next
    case False
    have "(i + 8 * k) div 8 = k + i div 8" by simp
    then have "(a AND NOT (mask p)) + of_nat ((i + 8 * k) div 8) = a + of_nat (i div 8)"
      using ad(1) by (simp only: of_nat_add add.assoc [symmetric])
    moreover have "i + 8 * k < LENGTH('w)" using False by simp
    ultimately show ?thesis
      using False i by (simp only: bit_merge_right bit_load [OF dv] if_False mod_mult_self2 simp_thms)
  qed
qed


lemma less_4_cases: "k < 4 \<Longrightarrow> k = 0 \<or> k = 1 \<or> k = 2 \<or> k = (3::nat)"
  and less_8_cases: "k < 8 \<Longrightarrow> k = 0 \<or> k = 1 \<or> k = 2 \<or> k = 3 \<or> k = 4 \<or> k = 5 \<or> k = 6 \<or> k = (7::nat)"
  by auto

lemma word_masks:
  assumes "k < 4"
  shows "LWL_MASK ! k = mask (24 - 8 * k)" "LWR_MASK ! k = NOT (mask (32 - 8 * k))"
    "SWL_MASK ! k = NOT (mask (8 * k + 8))" "SWR_MASK ! k = mask (8 * k)"
    "LWL_SHIFT ! k = 24 - 8 * k" "LWR_SHIFT ! k = 8 * k" "SWL_SHIFT ! k = 24 - 8 * k" "SWR_SHIFT ! k = 8 * k"
  using less_4_cases [OF assms]
  by (auto simp: ee_defs mask_eq_exp_minus_1 word_eq_iff_unsigned)

lemma doubleword_masks:
  assumes "k < 8"
  shows "LDL_MASK ! k = mask (56 - 8 * k)" "LDR_MASK ! k = NOT (mask (64 - 8 * k))"
    "SDL_MASK ! k = NOT (mask (8 * k + 8))" "SDR_MASK ! k = mask (8 * k)"
    "LDL_SHIFT ! k = 56 - 8 * k" "LDR_SHIFT ! k = 8 * k" "SDL_SHIFT ! k = 56 - 8 * k" "SDR_SHIFT ! k = 8 * k"
  using less_8_cases [OF assms]
  by (auto simp: ee_defs mask_eq_exp_minus_1 word_eq_iff_unsigned)

subsection \<open>The handlers in the window\<close>

text \<open>The window lies below the counter registers, so no load from it tests for events.\<close>

lemma counter_sync_window: "a < MainRam \<Longrightarrow> counter_sync b a s = Ok () s"
proof -
  assume "a < MainRam"
  then have "\<not> bit a 28" using word_less_exp_bits [of a 25 28] by simp
  moreover have "bit (0x10000000 :: u32) 28" by simp
  ultimately have "a AND 0xFFFFE000 \<noteq> 0x10000000" by (metis bit_and_iff)
  then show ?thesis by (simp add: counter_sync_def)
qed

lemma aligned_window: "a < MainRam \<Longrightarrow> a AND q < MainRam"
  by (rule order.strict_trans1 [OF word_and_le2])

definition loaded :: "(u128 \<Rightarrow> u128) \<Rightarrow> 'd ee \<Rightarrow> 'd ee" where
  "loaded f s = (if iRt (cpu s) = 0 then s else wcpu (wGPR (iRt (cpu s)) f) s)"

text \<open>What an access of \<open>n\<close> bytes with the effect \<open>f\<close> promises: at an aligned address the
  effect; at a misaligned one no effect at all under the interpreter, and under the block compiler
  the effect with the exit flag raised.\<close>

definition checked :: "'d bus \<Rightarrow> u32 \<Rightarrow> ('d ee \<Rightarrow> 'd ee) \<Rightarrow> 'd ee \<Rightarrow> (unit, 'd ee) res" where
  "checked b n f s = (if ls_addr s AND (n - 1) = 0 then Ok () (f s)
     else case Cpu b of intCpu \<Rightarrow> Cancel s | recCpu \<Rightarrow> Ok () (f (s\<lparr>s_ee_a32_exit_execution := True\<rparr>)))"

lemma exit_flag_simps [simp]:
  "ram_window b (s\<lparr>s_ee_a32_exit_execution := x\<rparr>) = ram_window b s"
  "gmem (s\<lparr>s_ee_a32_exit_execution := x\<rparr>) = gmem s"
  by (simp_all add: ram_window_def gmem_def fun_eq_iff)

lemma raise_checked:
  assumes "\<And>x. g (s\<lparr>s_ee_a32_exit_execution := x\<rparr>) = Ok () (f (s\<lparr>s_ee_a32_exit_execution := x\<rparr>))"
  shows "res_bind (if ls_addr s AND k \<noteq> 0 then RaiseAddressError b s else Ok () s) (\<lambda>_. g) = checked b (k + 1) f s"
proof -
  have "s\<lparr>s_ee_a32_exit_execution := s_ee_a32_exit_execution s\<rparr> = s" by simp
  then have "g s = Ok () (f s)" using assms [of "s_ee_a32_exit_execution s"] by metis
  then show ?thesis
    using assms [of True]
    by (simp add: checked_def res_bind_def RaiseAddressError_def CancelInstruction_def
        intCancelInstruction_def recCancelInstruction_def split: R5900cpu.split)
qed

lemma aligned_loads:
  assumes "ram_window b s" "ls_addr s < MainRam"
  shows "LB b s = checked b 1 (loaded (set_UD 0 (scast (load (gmem s) (ls_addr s) :: u8)))) s"
    "LBU b s = checked b 1 (loaded (set_UD 0 (ucast (load (gmem s) (ls_addr s) :: u8)))) s"
    "LH b s = checked b 2 (loaded (set_UD 0 (scast (load (gmem s) (ls_addr s) :: u16)))) s"
    "LHU b s = checked b 2 (loaded (set_UD 0 (ucast (load (gmem s) (ls_addr s) :: u16)))) s"
    "LW b s = checked b 4 (loaded (set_UD 0 (scast (load (gmem s) (ls_addr s) :: u32)))) s"
    "LWU b s = checked b 4 (loaded (set_UD 0 (ucast (load (gmem s) (ls_addr s) :: u32)))) s"
    "LD b s = checked b 8 (wcpu (wGPR (iRt (cpu s)) (set_UD 0 (load (gmem s) (ls_addr s))))) s"
    "LQ b s = Ok () (loaded (\<lambda>_. load (gmem s) (ls_addr s AND NOT 0xf)) s)"
proof -
  note w = window_read aligned_window counter_sync_window loaded_def res_bind_def
  show "LB b s = checked b 1 (loaded (set_UD 0 (scast (load (gmem s) (ls_addr s) :: u8)))) s"
    "LBU b s = checked b 1 (loaded (set_UD 0 (ucast (load (gmem s) (ls_addr s) :: u8)))) s"
    "LQ b s = Ok () (loaded (\<lambda>_. load (gmem s) (ls_addr s AND NOT 0xf)) s)"
    using assms by (simp_all add: LB_def LBU_def LQ_def Let_def w checked_def)
  show "LH b s = checked b 2 (loaded (set_UD 0 (scast (load (gmem s) (ls_addr s) :: u16)))) s"
    "LHU b s = checked b 2 (loaded (set_UD 0 (ucast (load (gmem s) (ls_addr s) :: u16)))) s"
    using raise_checked [of _ s _ 1 b] assms by (simp_all add: LH_def LHU_def Let_def w)
  show "LW b s = checked b 4 (loaded (set_UD 0 (scast (load (gmem s) (ls_addr s) :: u32)))) s"
    "LWU b s = checked b 4 (loaded (set_UD 0 (ucast (load (gmem s) (ls_addr s) :: u32)))) s"
    using raise_checked [of _ s _ 3 b] assms by (simp_all add: LW_def LWU_def Let_def w)
  show "LD b s = checked b 8 (wcpu (wGPR (iRt (cpu s)) (set_UD 0 (load (gmem s) (ls_addr s))))) s"
    using raise_checked [of _ s _ 7 b] assms by (simp add: LD_def Let_def w)
qed

lemma aligned_stores:
  assumes "ram_window b s" "ls_addr s < MainRam"
  defines "v \<equiv> GPR (cpu s) (iRt (cpu s))"
  shows "SB b s = checked b 1 (stored b (ls_addr s) (UC v 0)) s"
    "SH b s = checked b 2 (stored b (ls_addr s) (US v 0)) s"
    "SW b s = checked b 4 (stored b (ls_addr s) (UL v 0)) s"
    "SD b s = checked b 8 (stored b (ls_addr s) (UD v 0)) s"
    "SQ b s = Ok () (stored b (ls_addr s AND NOT 0xf) v s)"
proof -
  show "SB b s = checked b 1 (stored b (ls_addr s) (UC v 0)) s"
    "SQ b s = Ok () (stored b (ls_addr s AND NOT 0xf) v s)"
    using assms(1,2) by (simp_all add: SB_def SQ_def Let_def window_write aligned_window checked_def v_def)
  show "SH b s = checked b 2 (stored b (ls_addr s) (US v 0)) s"
    "SW b s = checked b 4 (stored b (ls_addr s) (UL v 0)) s"
    "SD b s = checked b 8 (stored b (ls_addr s) (UD v 0)) s"
    using raise_checked [of _ s _ 1 b] raise_checked [of _ s _ 3 b] raise_checked [of _ s _ 7 b] assms(1,2)
    by (simp_all add: SH_def SW_def SD_def Let_def window_write v_def)
qed

lemma unaligned_loads:
  assumes "ram_window b s" "ls_addr s < MainRam" "iRt (cpu s) \<noteq> 0"
  defines "v \<equiv> GPR (cpu s) (iRt (cpu s))" and "k \<equiv> unat (ls_addr s AND 3)" and "k' \<equiv> unat (ls_addr s AND 7)"
  shows "LWL b s = Ok () (wcpu (wGPR (iRt (cpu s)) (set_UD 0 (scast
        (merge_left k (UL v 0) (load (gmem s) (ls_addr s AND NOT 3)))))) s)"
    and "LWR b s = (let w = merge_right k (UL v 0) (load (gmem s) (ls_addr s AND NOT 3))
        in Ok () (wcpu (wGPR (iRt (cpu s)) (if k = 0 then set_UD 0 (scast w) else set_UL 0 w)) s))"
    and "LDL b s = Ok () (wcpu (wGPR (iRt (cpu s)) (set_UD 0
        (merge_left k' (UD v 0) (load (gmem s) (ls_addr s AND NOT 7))))) s)"
    and "LDR b s = Ok () (wcpu (wGPR (iRt (cpu s)) (set_UD 0
        (merge_right k' (UD v 0) (load (gmem s) (ls_addr s AND NOT 7))))) s)"
proof -
  have k: "k < 4" "k' < 8"
    using unat_low_bits [of 2 "ls_addr s"] unat_low_bits [of 3 "ls_addr s"]
    by (simp_all add: k_def k'_def mask_eq_exp_minus_1)
  note t = word_masks [OF k(1)] doubleword_masks [OF k(2)]
  show "LWL b s = Ok () (wcpu (wGPR (iRt (cpu s)) (set_UD 0 (scast
        (merge_left k (UL v 0) (load (gmem s) (ls_addr s AND NOT 3)))))) s)"
    "LWR b s = (let w = merge_right k (UL v 0) (load (gmem s) (ls_addr s AND NOT 3))
        in Ok () (wcpu (wGPR (iRt (cpu s)) (if k = 0 then set_UD 0 (scast w) else set_UL 0 w)) s))"
    "LDL b s = Ok () (wcpu (wGPR (iRt (cpu s)) (set_UD 0
        (merge_left k' (UD v 0) (load (gmem s) (ls_addr s AND NOT 7))))) s)"
    "LDR b s = Ok () (wcpu (wGPR (iRt (cpu s)) (set_UD 0
        (merge_right k' (UD v 0) (load (gmem s) (ls_addr s AND NOT 7))))) s)"
    unfolding LWL_def LWR_def LDL_def LDR_def Let_def res_bind_def
      window_read [OF assms(1) aligned_window [OF assms(2)]] k_def [symmetric] k'_def [symmetric] t merge_left_def merge_right_def v_def
    using assms(3) by simp_all
qed


subsection \<open>Pairs of unaligned accesses\<close>

definition fetch :: "u32 \<Rightarrow> 'd ee \<Rightarrow> 'd ee" where
  "fetch c s = wcpu (\<lambda>r. r\<lparr>code := c\<rparr>) s"

definition pair_fields :: "u32 \<Rightarrow> u32 \<Rightarrow> u32 \<Rightarrow> u32 \<Rightarrow> u32 \<Rightarrow> u32 \<Rightarrow> 'd ee \<Rightarrow> bool" where
  "pair_fields rs rt a n c1 c2 s \<longleftrightarrow> rt \<noteq> 0 \<and> rs \<noteq> rt \<and>
     iRs (cpu (fetch c1 s)) = rs \<and> iRt (cpu (fetch c1 s)) = rt \<and> ls_addr (fetch c1 s) = a + (n - 1) \<and>
     iRs (cpu (fetch c2 s)) = rs \<and> iRt (cpu (fetch c2 s)) = rt \<and> ls_addr (fetch c2 s) = a"

lemma fetch_simps [simp]:
  "cpu (wcpu f s) = f (cpu s)" "cpu (fetch c s) = (cpu s)\<lparr>code := c\<rparr>" "gmem (fetch c s) = gmem s"
  "ram_window b (fetch c s) = ram_window b s" "wcpu f (wcpu g s) = wcpu (f \<circ> g) s"
  by (simp_all add: wcpu_def fetch_def gmem_def ram_window_def fun_eq_iff)

lemma set_UL_set_UD:
  "bit w 31 = bit x 31 \<Longrightarrow> set_UL 0 w (set_UD 0 (scast (x::u32)) v) = set_UD 0 (scast w) v"
  using Suc_lessI [of 31] by (intro bit_word_eqI) (force simp: bit_simps not_less min_def le_less)


lemma pair_facts:
  assumes "pair_fields rs rt a n c1 c2 s"
  shows "iRs (cpu (fetch c1 s)) = rs" "iRt (cpu (fetch c1 s)) = rt" "ls_addr (fetch c1 s) = a + (n - 1)"
    "iRs (cpu (fetch c2 (wcpu (wGPR rt f) (fetch c1 s)))) = rs" "iRt (cpu (fetch c2 (wcpu (wGPR rt f) (fetch c1 s)))) = rt"
    "ls_addr (fetch c2 (wcpu (wGPR rt f) (fetch c1 s))) = a" "rt \<noteq> 0"
  using assms by (auto simp: pair_fields_def ls_addr_def iRs_def iRt_def iImm_def)

lemma code_wGPR: "(wGPR r f s)\<lparr>code := c\<rparr> = wGPR r f (s\<lparr>code := c\<rparr>)" "s\<lparr>code := c, code := c'\<rparr> = s\<lparr>code := c'\<rparr>"
  by (simp_all add: wGPR_def)

lemma wGPR_wGPR: "wGPR r f (wGPR r g s) = wGPR r (f \<circ> g) s"
  by (simp add: wGPR_def)

lemma word_pair_load:
  assumes w: "ram_window b s" and f: "pair_fields rs rt a 4 c1 c2 s" and a: "a < MainRam - 3"
  shows "res_bind (LWL b (fetch c1 s)) (\<lambda>_ s1. LWR b (fetch c2 s1)) =
    Ok () (wcpu (wGPR rt (set_UD 0 (scast (load (gmem s) a :: u32)))) (fetch c2 s))"
proof -
  have ab: "a < MainRam" "a + 3 < MainRam"
    using a by (simp_all add: word_less_nat_alt unat_word_ariths)
  define x where "x = merge_left (unat ((a + 3) AND 3)) (UL (GPR (cpu s) rt) 0) (load (gmem s) ((a + 3) AND NOT 3))"
  define s1 where "s1 = wcpu (wGPR rt (set_UD 0 (scast x))) (fetch c1 s)"
  note p = pair_facts [OF f]
  have l: "LWL b (fetch c1 s) = Ok () s1"
    using unaligned_loads(1) [of b "fetch c1 s"] w p ab by (simp add: s1_def x_def)
  have p2: "iRt (cpu (fetch c2 s1)) = rt" "ls_addr (fetch c2 s1) = a" unfolding s1_def by (rule p(5,6))+
  have v: "UL (GPR (cpu (fetch c2 s1)) rt) 0 = x" by (simp add: s1_def UL_set_UD ucast_scast32)
  have g: "gmem (fetch c2 s1) = gmem s" "ram_window b (fetch c2 s1)" using w by (simp_all add: s1_def)
  define k where "k = unat (a AND 3)"
  define y where "y = merge_right k x (load (gmem s) (a AND NOT 3))"
  have r: "LWR b (fetch c2 s1) = Ok () (wcpu (wGPR rt (if k = 0 then set_UD 0 (scast y) else set_UL 0 y)) (fetch c2 s1))"
    using unaligned_loads(2) [of b "fetch c2 s1", unfolded p2 v g(1) Let_def] g(2) ab(1) p(7)
    unfolding k_def y_def by blast
  have y: "y = load (gmem s) a"
    using merge_pair [of 2 k a "UL (GPR (cpu s) rt) 0" "gmem s"]
    by (simp add: y_def x_def k_def mask_eq_exp_minus_1)
  have "k \<noteq> 0 \<Longrightarrow> bit y 31 = bit x 31" unfolding y_def by (subst bit_merge_right) auto
  then have "wGPR rt (if k = 0 then set_UD 0 (scast y) else set_UL 0 y) \<circ> wGPR rt (set_UD 0 (scast x)) =
      wGPR rt (set_UD 0 (scast y))"
    by (auto simp: fun_eq_iff wGPR_wGPR o_def set_UL_set_UD)
  then have "wcpu (wGPR rt (if k = 0 then set_UD 0 (scast y) else set_UL 0 y)) (fetch c2 s1) =
      wcpu (wGPR rt (set_UD 0 (scast y))) (fetch c2 s)"
    by (simp add: s1_def fetch_def wcpu_def code_wGPR fun_eq_iff)
  then show ?thesis unfolding l res_bind_def by (simp add: r y)
qed


lemma doubleword_pair_load:
  assumes w: "ram_window b s" and f: "pair_fields rs rt a 8 c1 c2 s" and a: "a < MainRam - 7"
  shows "res_bind (LDL b (fetch c1 s)) (\<lambda>_ s1. LDR b (fetch c2 s1)) =
    Ok () (wcpu (wGPR rt (set_UD 0 (load (gmem s) a))) (fetch c2 s))"
proof -
  have ab: "a < MainRam" "a + 7 < MainRam"
    using a by (simp_all add: word_less_nat_alt unat_word_ariths)
  define x where "x = merge_left (unat ((a + 7) AND 7)) (UD (GPR (cpu s) rt) 0) (load (gmem s) ((a + 7) AND NOT 7))"
  define s1 where "s1 = wcpu (wGPR rt (set_UD 0 x)) (fetch c1 s)"
  note p = pair_facts [OF f]
  have l: "LDL b (fetch c1 s) = Ok () s1"
    using unaligned_loads(3) [of b "fetch c1 s"] w p ab by (simp add: s1_def x_def)
  have p2: "iRt (cpu (fetch c2 s1)) = rt" "ls_addr (fetch c2 s1) = a" unfolding s1_def by (rule p(5,6))+
  have v: "UD (GPR (cpu (fetch c2 s1)) rt) 0 = x" by (simp add: s1_def)
  have g: "gmem (fetch c2 s1) = gmem s" "ram_window b (fetch c2 s1)" using w by (simp_all add: s1_def)
  have y: "merge_right (unat (a AND 7)) x (load (gmem s) (a AND NOT 7)) = load (gmem s) a"
    using merge_pair [of 3 "unat (a AND 7)" a "UD (GPR (cpu s) rt) 0" "gmem s"]
    by (simp add: x_def mask_eq_exp_minus_1)
  have r: "LDR b (fetch c2 s1) = Ok () (wcpu (wGPR rt (set_UD 0 (load (gmem s) a))) (fetch c2 s1))"
    using unaligned_loads(4) [of b "fetch c2 s1", unfolded p2 v g(1) y] g(2) ab(1) p(7) by blast
  have "wGPR rt (set_UD 0 z) \<circ> wGPR rt (set_UD 0 x) = wGPR rt (set_UD 0 z)" for z
    by (auto simp: fun_eq_iff wGPR_wGPR o_def)
  then have "wcpu (wGPR rt (set_UD 0 z)) (fetch c2 s1) = wcpu (wGPR rt (set_UD 0 z)) (fetch c2 s)" for z
    by (simp add: s1_def fetch_def wcpu_def code_wGPR fun_eq_iff)
  then show ?thesis unfolding l res_bind_def by (simp add: r)
qed

definition split_left :: "nat \<Rightarrow> 'w::len word \<Rightarrow> 'w word \<Rightarrow> 'w word" where
  "split_left k x m = drop_bit (LENGTH('w) - 8 - 8 * k) x OR (m AND NOT (mask (8 * k + 8)))"

definition split_right :: "nat \<Rightarrow> 'w::len word \<Rightarrow> 'w word \<Rightarrow> 'w word" where
  "split_right k x m = push_bit (8 * k) x OR (m AND mask (8 * k))"

lemma word_bytes_eqI:
  "j < LENGTH('w) div 8 \<Longrightarrow> (\<And>i. i < 8 \<Longrightarrow> bit (w::'w::len word) (8 * j + i) = bit y i) \<Longrightarrow> word_bytes w ! j = (y :: u8)"
  by (rule bit_word_eqI) (simp add: bit_simps)

lemma store_split_left:
  fixes x :: "'w::len word"
  assumes "LENGTH('w) = 8 * n" "k < n"
  shows "store m E (split_left k x (load m E)) p =
    (if unat (p - E) \<le> k then word_bytes x ! (unat (p - E) + (n - 1 - k)) else m p)"
proof -
  have d: "LENGTH('w) div 8 = n" and dv: "8 dvd LENGTH('w)" using assms(1) by simp_all
  let ?j = "unat (p - E)"
  have pj: "E + of_nat ?j = p" by simp
  have sh: "LENGTH('w) - 8 - 8 * k = 8 * (n - 1 - k)" using assms by (simp add: diff_mult_distrib2)
  have "word_bytes (split_left k x (load m E)) ! ?j = (if ?j \<le> k then word_bytes x ! (?j + (n - 1 - k)) else m p)"
    if "?j < n"
  proof (rule word_bytes_eqI)
    show "?j < LENGTH('w) div 8" using that d by simp
    fix i :: nat assume i: "i < 8"
    have e: "(8 * ?j + i) div 8 = ?j" "(8 * ?j + i) mod 8 = i" using i by simp_all
    have le: "8 * ?j + i < 8 * n" using that i by simp
    show "bit (split_left k x (load m E)) (8 * ?j + i) =
        bit (if ?j \<le> k then word_bytes x ! (?j + (n - 1 - k)) else m p) i"
    proof (cases "?j \<le> k")
      case True
      then have "8 * ?j + i < 8 * k + 8" "?j + (n - 1 - k) < n" using i assms(2) by simp_all
      then show ?thesis using True i d by (simp add: split_left_def sh bit_simps assms(1) algebra_simps)
    next
      case False
      then have "\<not> 8 * ?j + i < 8 * k + 8" "n \<le> (n - 1 - k) + ?j" using assms(2) by simp_all
      then have "\<not> bit x (8 * n + (8 * ?j + i) - (8 + 8 * k))"
        using assms(1) by (auto dest!: bit_imp_le_length)
      then show ?thesis
        using False \<open>\<not> 8 * ?j + i < 8 * k + 8\<close> le assms(1) i
        by (simp add: split_left_def sh bit_simps bit_load [OF dv] e pj)
    qed
  qed
  then show ?thesis using d assms(2) by (simp add: store_def mem_write_def)
qed

lemma store_split_right:
  fixes x :: "'w::len word"
  assumes "LENGTH('w) = 8 * n" "k < n"
  shows "store m A (split_right k x (load m A)) p =
    (if k \<le> unat (p - A) \<and> unat (p - A) < n then word_bytes x ! (unat (p - A) - k) else m p)"
proof -
  have d: "LENGTH('w) div 8 = n" and dv: "8 dvd LENGTH('w)" using assms(1) by simp_all
  let ?j = "unat (p - A)"
  have pj: "A + of_nat ?j = p" by simp
  have "word_bytes (split_right k x (load m A)) ! ?j = (if k \<le> ?j then word_bytes x ! (?j - k) else m p)"
    if "?j < n"
  proof (rule word_bytes_eqI)
    show "?j < LENGTH('w) div 8" using that d by simp
    fix i :: nat assume i: "i < 8"
    have e: "(8 * ?j + i) div 8 = ?j" "(8 * ?j + i) mod 8 = i" using i by simp_all
    have le: "8 * ?j + i < 8 * n" using that i by simp
    show "bit (split_right k x (load m A)) (8 * ?j + i) =
        bit (if k \<le> ?j then word_bytes x ! (?j - k) else m p) i"
    proof (cases "k \<le> ?j")
      case True
      then have "8 * k \<le> 8 * ?j + i" "8 * ?j + i - 8 * k = 8 * (?j - k) + i" by simp_all
      then show ?thesis using True i d that le assms(1) by (simp add: split_right_def bit_simps)
    next
      case False
      then have "8 * ?j + i < 8 * k" using i by simp
      then show ?thesis
        using False le assms(1) i by (simp add: split_right_def bit_simps bit_load [OF dv] e pj)
    qed
  qed
  then show ?thesis using d by (auto simp: store_def mem_write_def)
qed


lemma split_pair:
  fixes x :: "'w::len word" and a :: u32 and m :: "u32 \<Rightarrow> u8"
  assumes w: "LENGTH('w) = 8 * 2 ^ p" "p \<le> 8" and k: "k = unat (a AND mask p)"
  defines "e \<equiv> a + mask p"
  defines "m1 \<equiv> store m (e AND NOT (mask p)) (split_left (unat (e AND mask p)) x (load m (e AND NOT (mask p))))"
  shows "store m1 (a AND NOT (mask p)) (split_right k x (load m1 (a AND NOT (mask p)))) = store m a x"
proof
  fix q
  let ?n = "(2::nat) ^ p" and ?d = "unat (q - a)"
  have p: "p \<le> 32" using w(2) by simp
  note ad = unaligned_addresses [OF p k, folded e_def]
  have kn: "k < ?n" using unat_low_bits [OF p, of a] k by simp
  have n: "?n \<le> 256" using power_increasing [OF w(2), of "2::nat"] by simp
  have k': "unat (e AND mask p) < ?n" unfolding ad(2) using kn by auto
  have d32: "?d < 2 ^ 32" by (rule unat_u32_less)
  have A: "q - (a AND NOT (mask p)) = (q - a) + of_nat k" using ad(1) by (simp add: algebra_simps)
  have r: "k \<le> unat (q - (a AND NOT (mask p))) \<and> unat (q - (a AND NOT (mask p))) < ?n \<longleftrightarrow> ?d < ?n - k"
    "?d < ?n - k \<Longrightarrow> unat (q - (a AND NOT (mask p))) - k = ?d"
    unfolding A using kn n d32 unat_plus_small [of k "q - a"] by auto
  have E: "q - a = (q - (e AND NOT (mask p))) + of_nat (if k = 0 then 0 else ?n - k)"
    unfolding ad(3) by simp
  have l: "unat (q - (e AND NOT (mask p))) \<le> unat (e AND mask p) \<longleftrightarrow> (if k = 0 then 0 else ?n - k) \<le> ?d \<and> ?d < ?n"
    "unat (q - (e AND NOT (mask p))) \<le> unat (e AND mask p) \<Longrightarrow>
      unat (q - (e AND NOT (mask p))) + (?n - 1 - unat (e AND mask p)) = ?d"
    unfolding ad(2) E using kn n unat_plus_small [of "if k = 0 then 0 else ?n - k" "q - (e AND NOT (mask p))"]
      unat_u32_less [of "q - (e AND NOT (mask p))"] by (auto split: if_splits elim: le_less_trans)
  have "store m a x q = (if ?d < ?n then word_bytes x ! ?d else m q)"
    using w(1) by (simp add: store_def mem_write_def)
  moreover have "m1 q = (if (if k = 0 then 0 else ?n - k) \<le> ?d \<and> ?d < ?n then word_bytes x ! ?d else m q)"
    unfolding m1_def store_split_left [OF w(1) k'] using l by (simp only: if_True if_False cong: if_cong)
  ultimately show "store m1 (a AND NOT (mask p)) (split_right k x (load m1 (a AND NOT (mask p)))) q = store m a x q"
    unfolding store_split_right [OF w(1) kn] r(1) using r(2) kn by auto
qed

lemma unaligned_stores:
  assumes "ram_window b s" "ls_addr s < MainRam"
  defines "v \<equiv> GPR (cpu s) (iRt (cpu s))" and "k \<equiv> unat (ls_addr s AND 3)" and "k' \<equiv> unat (ls_addr s AND 7)"
  shows "SWL b s = Ok () (stored b (ls_addr s AND NOT 3) (split_left k (UL v 0) (load (gmem s) (ls_addr s AND NOT 3))) s)"
    and "SWR b s = Ok () (stored b (ls_addr s AND NOT 3) (split_right k (UL v 0) (load (gmem s) (ls_addr s AND NOT 3))) s)"
    and "SDL b s = Ok () (stored b (ls_addr s AND NOT 7) (split_left k' (UD v 0) (load (gmem s) (ls_addr s AND NOT 7))) s)"
    and "SDR b s = Ok () (stored b (ls_addr s AND NOT 7) (split_right k' (UD v 0) (load (gmem s) (ls_addr s AND NOT 7))) s)"
proof -
  have k: "k < 4" "k' < 8"
    using unat_low_bits [of 2 "ls_addr s"] unat_low_bits [of 3 "ls_addr s"]
    by (simp_all add: k_def k'_def mask_eq_exp_minus_1)
  note t = word_masks [OF k(1)] doubleword_masks [OF k(2)]
  show "SWL b s = Ok () (stored b (ls_addr s AND NOT 3) (split_left k (UL v 0) (load (gmem s) (ls_addr s AND NOT 3))) s)"
    "SWR b s = Ok () (stored b (ls_addr s AND NOT 3) (split_right k (UL v 0) (load (gmem s) (ls_addr s AND NOT 3))) s)"
    "SDL b s = Ok () (stored b (ls_addr s AND NOT 7) (split_left k' (UD v 0) (load (gmem s) (ls_addr s AND NOT 7))) s)"
    "SDR b s = Ok () (stored b (ls_addr s AND NOT 7) (split_right k' (UD v 0) (load (gmem s) (ls_addr s AND NOT 7))) s)"
    unfolding SWL_def SWR_def SDL_def SDR_def Let_def res_bind_def
      window_read [OF assms(1) aligned_window [OF assms(2)]]
      k_def [symmetric] k'_def [symmetric] t split_left_def split_right_def v_def
    by (simp_all add: window_write assms(1,2) aligned_window)
qed

text \<open>A pair of stores leaves the processor with the second instruction word, the page tables
  as they were and the memory \<open>m\<close>.\<close>

definition pair_stored :: "u32 \<Rightarrow> (u32 \<Rightarrow> u8) \<Rightarrow> 'd ee \<Rightarrow> (unit, 'd ee) res \<Rightarrow> bool" where
  "pair_stored c m s r \<longleftrightarrow> (\<exists>s'. r = Ok () s' \<and> cpu s' = cpu (fetch c s) \<and> vt s' = vt s \<and> gmem s' = m)"

lemma vt_fetch [simp]: "vt (fetch c s) = vt s"
  by (simp add: fetch_def wcpu_def)

lemma ls_addr_cong: "cpu s = cpu s' \<Longrightarrow> ls_addr s = ls_addr s'"
  by (simp add: ls_addr_def)

lemma word_pair_store:
  assumes w: "ram_window b s" and f: "pair_fields rs rt a 4 c1 c2 s" and a: "a < MainRam - 3"
  shows "pair_stored c2 (store (gmem s) a (UL (GPR (cpu s) rt) 0)) s
    (res_bind (SWL b (fetch c1 s)) (\<lambda>_ s1. SWR b (fetch c2 s1)))"
proof -
  let ?x = "UL (GPR (cpu s) rt) 0" and ?e = "a + 3"
  have ab: "a < MainRam" "?e < MainRam"
    using a by (simp_all add: word_less_nat_alt unat_word_ariths)
  note p = f [unfolded pair_fields_def]
  have c1: "iRt (cpu (fetch c1 s)) = rt" "ls_addr (fetch c1 s) = ?e" "GPR (cpu (fetch c1 s)) rt = GPR (cpu s) rt"
    using p by simp_all
  define z where "z = split_left (unat (?e AND 3)) ?x (load (gmem s) (?e AND NOT 3))"
  define s1 where "s1 = stored b (?e AND NOT 3) z (fetch c1 s)"
  have l: "SWL b (fetch c1 s) = Ok () s1"
    using unaligned_stores(1) [of b "fetch c1 s", unfolded c1] w ab(2) by (simp add: s1_def z_def)
  have eq: "cpu (fetch c2 s1) = cpu (fetch c2 s)" "vt (fetch c2 s1) = vt s" "ram_window b (fetch c2 s1)"
    "gmem (fetch c2 s1) = store (gmem s) (?e AND NOT 3) z"
    using w by (simp_all add: s1_def)
  have c2: "iRt (cpu (fetch c2 s)) = rt" "ls_addr (fetch c2 s1) = a" "GPR (cpu (fetch c2 s)) rt = GPR (cpu s) rt"
    using p ls_addr_cong [OF eq(1)] by simp_all
  have r: "SWR b (fetch c2 s1) = Ok () (stored b (a AND NOT 3) (split_right (unat (a AND 3)) ?x
      (load (store (gmem s) (?e AND NOT 3) z) (a AND NOT 3))) (fetch c2 s1))"
    using unaligned_stores(2) [of b "fetch c2 s1", unfolded eq(1) c2 eq(4)] eq(3) ab(1) by blast
  have "store (store (gmem s) (?e AND NOT 3) z) (a AND NOT 3) (split_right (unat (a AND 3)) ?x
      (load (store (gmem s) (?e AND NOT 3) z) (a AND NOT 3))) = store (gmem s) a ?x"
    using split_pair [where p = 2 and k = "unat (a AND 3)" and a = a and x = ?x and m = "gmem s"] by (simp add: z_def mask_eq_exp_minus_1)
  then show ?thesis unfolding pair_stored_def l res_bind_def by (simp add: r eq del: fetch_simps vt_fetch)
qed

lemma doubleword_pair_store:
  assumes w: "ram_window b s" and f: "pair_fields rs rt a 8 c1 c2 s" and a: "a < MainRam - 7"
  shows "pair_stored c2 (store (gmem s) a (UD (GPR (cpu s) rt) 0)) s
    (res_bind (SDL b (fetch c1 s)) (\<lambda>_ s1. SDR b (fetch c2 s1)))"
proof -
  let ?x = "UD (GPR (cpu s) rt) 0" and ?e = "a + 7"
  have ab: "a < MainRam" "?e < MainRam"
    using a by (simp_all add: word_less_nat_alt unat_word_ariths)
  note p = f [unfolded pair_fields_def]
  have c1: "iRt (cpu (fetch c1 s)) = rt" "ls_addr (fetch c1 s) = ?e" "GPR (cpu (fetch c1 s)) rt = GPR (cpu s) rt"
    using p by simp_all
  define z where "z = split_left (unat (?e AND 7)) ?x (load (gmem s) (?e AND NOT 7))"
  define s1 where "s1 = stored b (?e AND NOT 7) z (fetch c1 s)"
  have l: "SDL b (fetch c1 s) = Ok () s1"
    using unaligned_stores(3) [of b "fetch c1 s", unfolded c1] w ab(2) by (simp add: s1_def z_def)
  have eq: "cpu (fetch c2 s1) = cpu (fetch c2 s)" "vt (fetch c2 s1) = vt s" "ram_window b (fetch c2 s1)"
    "gmem (fetch c2 s1) = store (gmem s) (?e AND NOT 7) z"
    using w by (simp_all add: s1_def)
  have c2: "iRt (cpu (fetch c2 s)) = rt" "ls_addr (fetch c2 s1) = a" "GPR (cpu (fetch c2 s)) rt = GPR (cpu s) rt"
    using p ls_addr_cong [OF eq(1)] by simp_all
  have r: "SDR b (fetch c2 s1) = Ok () (stored b (a AND NOT 7) (split_right (unat (a AND 7)) ?x
      (load (store (gmem s) (?e AND NOT 7) z) (a AND NOT 7))) (fetch c2 s1))"
    using unaligned_stores(4) [of b "fetch c2 s1", unfolded eq(1) c2 eq(4)] eq(3) ab(1) by blast
  have "store (store (gmem s) (?e AND NOT 7) z) (a AND NOT 7) (split_right (unat (a AND 7)) ?x
      (load (store (gmem s) (?e AND NOT 7) z) (a AND NOT 7))) = store (gmem s) a ?x"
    using split_pair [where p = 3 and k = "unat (a AND 7)" and a = a and x = ?x and m = "gmem s"] by (simp add: z_def mask_eq_exp_minus_1)
  then show ?thesis unfolding pair_stored_def l res_bind_def by (simp add: r eq del: fetch_simps vt_fetch)
qed

end
