(* ===== verification/EE_Access_Props.thy ===== *)
theory EE_Access_Props
  imports EE_Access VTLB_Props
begin

text \<open>
  The properties of the load and store instructions in main memory: the handlers, the page
  tables and host memory together implement a flat byte memory.
\<close>

subsection \<open>A machine to test with\<close>

text \<open>A concrete bus with no devices, and a machine whose page tables were set up by
  \<^verbatim>\<open>MemoryMap.cpp\<close>.\<close>

definition quiet_bus :: "unit bus" where
  "quiet_bus = \<lparr>RWFT_R = \<lambda>_ _ _ s. Ok 0 s, RWFT_W = \<lambda>_ _ _ _ s. Ok () s, CheckCache = \<lambda>_ _. False,
     readCache = \<lambda>_ _ s. Ok 0 s, writeCache = \<lambda>_ _ _ s. Ok () s,
     NotifyVitaEeRamWrite = \<lambda>_ _ d. (0, d), intEventTest = \<lambda>s. Ok () s, scale13 = \<lambda>x. x,
     CHECK_EEREC = True, CHECK_CACHE = False, EECycleRate = 0, Cpu = recCpu\<rparr>"

definition test_cpu :: "u32 \<Rightarrow> cpuRegisters" where
  "test_cpu c = \<lparr>GPR = (\<lambda>_. 0)(1 := 0x1000, 2 := 0x1122334455667788), HI = 0, LO = 0, CP0 = \<lambda>_. 0, sa = 0,
     pc = 0, code = c, branch = 0, cycle = 0, nextEventCycle = 0\<rparr>"

definition test_machine :: "u32 \<Rightarrow> MapData \<Rightarrow> unit ee" where
  "test_machine c m = \<lparr>cpu = test_cpu c, vt = m, hmem = \<lambda>_. 0x5a, cpuBlockCycles = 0, intLastBranchTo = 0,
     s_ee_a32_exit_execution = False, dev = ()\<rparr>"

lemma window_exists: "\<exists>m. reach memory_map_ready vtlb_step m \<and> HasDefaultMainRamIdentityWindow m"
proof -
  fix m0 :: MapData
  obtain m1 where m1: "vtlb_Init False m0 = Some m1" using vtlb_Init_returns by blast
  obtain m2 where m2: "MapEERamHighMemoryAndRoms MainRam 0 0 0 3 m1 = Some m2"
    using MapEERam_returns by blast
  obtain m3 where m3: "MapDirectVirtualMemoryWindow MainRam m2 = Some m3"
    "HasDefaultMainRamIdentityWindow m3" using DirectWindow_returns by blast
  have "memory_map_ready m2" using m1 m2 unfolding memory_map_ready_def by blast
  then show ?thesis using m3 by (blast intro: reach_init reach_step vtlb_step.DirectWindow)
qed

lemma test_machine_window: "\<exists>m. \<forall>c. ram_window quiet_bus (test_machine c m)"
  using window_exists by (auto simp: ram_window_def quiet_bus_def test_machine_def)

lemma test_fields:
  "iRs (cpu (test_machine c m)) = drop_bit 21 c AND 0x1F" "iRt (cpu (test_machine c m)) = drop_bit 16 c AND 0x1F"
  "ls_addr (test_machine c m) = UL (GPR (test_cpu c) (drop_bit 21 c AND 0x1F)) 0 + scast (ucast c :: u16)"
  by (simp_all add: test_machine_def test_cpu_def iRs_def iRt_def iImm_def ls_addr_def)

subsection \<open>Properties\<close>

text \<open>C8: The load instructions refine a flat memory. While the identity window holds, a load
  from main memory reads the bytes at its address from the flat byte memory, sign- or
  zero-extends them into the low doubleword (or fills the quadword) of the destination, changes
  nothing else, and leaves register 0 alone except for \<^verbatim>\<open>LD\<close>. At a misaligned address
  the interpreter back end cancels the instruction with no effect; under the block compiler, whose
  \<^verbatim>\<open>CancelInstruction\<close> returns, the exit flag is raised and the misaligned load is
  carried out all the same.\<close>

theorem loads_refine_memory:
  assumes "ram_window b s" "ls_addr s < MainRam"
  shows "LB b s = checked b 1 (loaded (set_UD 0 (scast (load (gmem s) (ls_addr s) :: u8)))) s \<and>
    LBU b s = checked b 1 (loaded (set_UD 0 (ucast (load (gmem s) (ls_addr s) :: u8)))) s \<and>
    LH b s = checked b 2 (loaded (set_UD 0 (scast (load (gmem s) (ls_addr s) :: u16)))) s \<and>
    LHU b s = checked b 2 (loaded (set_UD 0 (ucast (load (gmem s) (ls_addr s) :: u16)))) s \<and>
    LW b s = checked b 4 (loaded (set_UD 0 (scast (load (gmem s) (ls_addr s) :: u32)))) s \<and>
    LWU b s = checked b 4 (loaded (set_UD 0 (ucast (load (gmem s) (ls_addr s) :: u32)))) s \<and>
    LD b s = checked b 8 (wcpu (wGPR (iRt (cpu s)) (set_UD 0 (load (gmem s) (ls_addr s))))) s \<and>
    LQ b s = Ok () (loaded (\<lambda>_. load (gmem s) (ls_addr s AND NOT 0xf)) s)"
  by (intro conjI aligned_loads assms)

text \<open>The witness loads a word from the misaligned address \<open>0x1001\<close> under the block compiler.\<close>

theorem loads_refine_memory_witness:
  "\<exists>m s'. LW quiet_bus (test_machine 0x8c230001 m) = Ok () s' \<and> s_ee_a32_exit_execution s' \<and>
     UD (GPR (cpu s') 3) 0 = 0x5a5a5a5a"
proof -
  obtain m where m: "ram_window quiet_bus (test_machine 0x8c230001 m)" using test_machine_window by blast
  let ?s = "test_machine 0x8c230001 m"
  have a: "ls_addr ?s = 0x1001" "iRt (cpu ?s) = 3"
    by (simp_all add: test_fields test_cpu_def lane_def)
  have l: "(load (gmem ?s) 0x1001 :: u32) = 0x5a5a5a5a"
    by (simp add: load_def mem_read_def gmem_def test_machine_def bytes_word_def upt_rec)
  have "LW quiet_bus ?s = checked quiet_bus 4 (loaded (set_UD 0 (scast (load (gmem ?s) (ls_addr ?s) :: u32)))) ?s"
    using loads_refine_memory [OF m] a by simp
  then have "LW quiet_bus ?s = Ok () (loaded (set_UD 0 0x5a5a5a5a) (?s\<lparr>s_ee_a32_exit_execution := True\<rparr>))"
    unfolding a l by (simp add: checked_def a quiet_bus_def)
  then show ?thesis
    by (intro exI [of _ m]) (simp add: loaded_def a wcpu_def)
qed

text \<open>What a store instruction promises: at a misaligned address the interpreter cancels it with
  no effect; otherwise only the memory changes, to \<open>m\<close>, and a misaligned address also raises
  the exit flag.\<close>

definition stores_to :: "'d bus \<Rightarrow> u32 \<Rightarrow> (u32 \<Rightarrow> u8) \<Rightarrow> 'd ee \<Rightarrow> (unit, 'd ee) res \<Rightarrow> bool" where
  "stores_to b n m s r \<longleftrightarrow>
    (if ls_addr s AND (n - 1) \<noteq> 0 \<and> Cpu b = intCpu then r = Cancel s
     else \<exists>s'. r = Ok () s' \<and> cpu s' = cpu s \<and> vt s' = vt s \<and> gmem s' = m \<and>
       (s_ee_a32_exit_execution s' \<longleftrightarrow> s_ee_a32_exit_execution s \<or> ls_addr s AND (n - 1) \<noteq> 0))"

lemma stores_to_stored:
  "stores_to b n (store (gmem s) a w) s (checked b n (stored b a w) s)"
  by (auto simp: stores_to_def checked_def split: R5900cpu.split)

text \<open>C9: The store instructions refine a flat memory. While the identity window holds, a
  store to main memory writes exactly the little-endian bytes of the low part of its register at
  its address, in all of host memory, and leaves the registers and the page tables as they were.
  At a misaligned address the interpreter back end cancels the instruction with no effect; under
  the block compiler the exit flag is raised and the misaligned store is carried out.\<close>

theorem stores_refine_memory:
  assumes "ram_window b s" "ls_addr s < MainRam"
  defines "v \<equiv> GPR (cpu s) (iRt (cpu s))"
  shows "stores_to b 1 (store (gmem s) (ls_addr s) (UC v 0)) s (SB b s) \<and>
    stores_to b 2 (store (gmem s) (ls_addr s) (US v 0)) s (SH b s) \<and>
    stores_to b 4 (store (gmem s) (ls_addr s) (UL v 0)) s (SW b s) \<and>
    stores_to b 8 (store (gmem s) (ls_addr s) (UD v 0)) s (SD b s) \<and>
    stores_to b 1 (store (gmem s) (ls_addr s AND NOT 0xf) v) s (SQ b s)"
proof -
  have "SQ b s = checked b 1 (stored b (ls_addr s AND NOT 0xf) v) s"
    using aligned_stores(5) [OF assms(1,2)] by (simp add: checked_def v_def)
  then show ?thesis
    using aligned_stores [OF assms(1,2)] stores_to_stored unfolding v_def by metis
qed

text \<open>The witness stores a word at the misaligned address \<open>0x1003\<close> under the block compiler.\<close>

theorem stores_refine_memory_witness:
  "\<exists>m s'. SW quiet_bus (test_machine 0xac220003 m) = Ok () s' \<and> s_ee_a32_exit_execution s' \<and>
     gmem s' = store (gmem (test_machine 0xac220003 m)) 0x1003 (0x55667788 :: u32)"
proof -
  obtain m where m: "ram_window quiet_bus (test_machine 0xac220003 m)" using test_machine_window by blast
  let ?s = "test_machine 0xac220003 m"
  have f: "ls_addr ?s = 0x1003" "iRt (cpu ?s) = 2"
    by (simp_all add: test_fields test_cpu_def lane_def)
  have v: "UL (GPR (cpu ?s) 2) 0 = 0x55667788"
    by (simp add: test_machine_def test_cpu_def lane_def)
  have "stores_to quiet_bus 4 (store (gmem ?s) (ls_addr ?s) (UL (GPR (cpu ?s) (iRt (cpu ?s))) 0)) ?s (SW quiet_bus ?s)"
    using stores_refine_memory [OF m] f by simp
  then show ?thesis unfolding stores_to_def f v by (auto simp: quiet_bus_def)
qed

text \<open>C10: Pairs of unaligned accesses refine an access at any address. \<^verbatim>\<open>LWL\<close> at
  \<^verbatim>\<open>a + 3\<close> followed by \<^verbatim>\<open>LWR\<close> at \<^verbatim>\<open>a\<close> (with the same base and destination, in either
  phase of \<^verbatim>\<open>a\<close>) loads the sign-extended word at \<^verbatim>\<open>a\<close> and has no other effect;
  \<^verbatim>\<open>LDL\<close> and \<^verbatim>\<open>LDR\<close> load the doubleword; \<^verbatim>\<open>SWL\<close> and \<^verbatim>\<open>SWR\<close>, \<^verbatim>\<open>SDL\<close> and
  \<^verbatim>\<open>SDR\<close> replace exactly the four or eight bytes at \<^verbatim>\<open>a\<close>, although each of them
  rewrites a whole aligned word.\<close>

theorem unaligned_pairs_refine_memory:
  assumes "ram_window b s" "pair_fields rs rt a 4 c1 c2 s" "a < MainRam - 3"
    and "pair_fields rs' rt' a' 8 d1 d2 s" "a' < MainRam - 7"
  shows "res_bind (LWL b (fetch c1 s)) (\<lambda>_ s1. LWR b (fetch c2 s1)) =
      Ok () (wcpu (wGPR rt (set_UD 0 (scast (load (gmem s) a :: u32)))) (fetch c2 s)) \<and>
    res_bind (LDL b (fetch d1 s)) (\<lambda>_ s1. LDR b (fetch d2 s1)) =
      Ok () (wcpu (wGPR rt' (set_UD 0 (load (gmem s) a'))) (fetch d2 s)) \<and>
    pair_stored c2 (store (gmem s) a (UL (GPR (cpu s) rt) 0)) s
      (res_bind (SWL b (fetch c1 s)) (\<lambda>_ s1. SWR b (fetch c2 s1))) \<and>
    pair_stored d2 (store (gmem s) a' (UD (GPR (cpu s) rt') 0)) s
      (res_bind (SDL b (fetch d1 s)) (\<lambda>_ s1. SDR b (fetch d2 s1)))"
  using word_pair_load [OF assms(1-3)] doubleword_pair_load [OF assms(1,4,5)]
    word_pair_store [OF assms(1-3)] doubleword_pair_store [OF assms(1,4,5)] by blast

theorem unaligned_pairs_refine_memory_witness:
  "\<exists>s. ram_window quiet_bus s \<and> pair_stored 0xb8220001 (store (gmem s) 0x1001 (0x55667788 :: u32)) s
     (res_bind (SWL quiet_bus (fetch 0xa8220004 s)) (\<lambda>_ s1. SWR quiet_bus (fetch 0xb8220001 s1)))"
proof -
  obtain m where m: "ram_window quiet_bus (test_machine 0 m)" using test_machine_window by blast
  have f: "fetch c (test_machine 0 m) = test_machine c m" for c
    by (simp add: fetch_def wcpu_def test_machine_def test_cpu_def)
  have w: "pair_fields 1 2 0x1001 4 0xa8220004 0xb8220001 (test_machine 0 m)"
    and d: "pair_fields 1 2 0x1001 8 0xb0220008 0xb4220001 (test_machine 0 m)"
    unfolding pair_fields_def f test_fields by (simp_all add: test_cpu_def lane_def)
  have v: "UL (GPR (cpu (test_machine 0 m)) 2) 0 = 0x55667788"
    by (simp add: test_machine_def test_cpu_def lane_def)
  show ?thesis
    using unaligned_pairs_refine_memory [OF m w _ d, unfolded v] m by (intro exI [of _ "test_machine 0 m"]) simp
qed

text \<open>\<^verbatim>\<open>LD\<close> writes register 0. Unlike every other load, \<^verbatim>\<open>LD\<close> does not test its
  destination: a doubleword loaded into register 0 replaces its low half by the memory contents
  (the companion code directs quadword loads to a dummy so that the zero register stays zero).\<close>

theorem ld_writes_zero:
  assumes "ram_window b s" "ls_addr s < MainRam" "ls_addr s AND 7 = 0" "iRt (cpu s) = 0"
  shows "\<exists>s'. LD b s = Ok () s' \<and> UD (GPR (cpu s') 0) 0 = load (gmem s) (ls_addr s)"
  using aligned_loads(7) [OF assms(1,2)] assms(3,4) by (simp add: checked_def)

theorem ld_writes_zero_witness:
  "\<exists>s s'. GPR (cpu s) 0 = 0 \<and> LD quiet_bus s = Ok () s' \<and> UD (GPR (cpu s') 0) 0 = 0x5a5a5a5a5a5a5a5a"
proof -
  obtain m where m: "ram_window quiet_bus (test_machine 0xdc200000 m)" using test_machine_window by blast
  have f: "ls_addr (test_machine 0xdc200000 m) = 0x1000" "iRt (cpu (test_machine 0xdc200000 m)) = 0"
    "GPR (cpu (test_machine 0xdc200000 m)) 0 = 0"
    by (simp_all add: test_fields) (simp_all add: test_machine_def test_cpu_def lane_def)
  have l: "(load (gmem (test_machine 0xdc200000 m)) 0x1000 :: u64) = 0x5a5a5a5a5a5a5a5a"
    by (simp add: load_def mem_read_def gmem_def test_machine_def bytes_word_def upt_rec)
  have "\<exists>s'. LD quiet_bus (test_machine 0xdc200000 m) = Ok () s' \<and>
      UD (GPR (cpu s') 0) 0 = load (gmem (test_machine 0xdc200000 m)) (ls_addr (test_machine 0xdc200000 m))"
    by (rule ld_writes_zero [OF m]) (simp_all add: f)
  then show ?thesis unfolding f(1) l using f(3) by blast
qed

end
