(* ===== verification/EE_Fill.thy ===== *)
theory EE_Fill
  imports EE_Mem
begin

text \<open>
  The batched memory loops of \<^verbatim>\<open>pcsx2/vtlb.cpp\<close>. The block compiler recognises three
  guest loops (a byte clear, a four-word fill and a word fill) and calls a helper that executes as
  many iterations as fit in the page, before the next event and before the end of the loop. The
  performance counters and the blocks of the QEMU validation build are left out.
\<close>

subsection \<open>What the helpers call\<close>

datatype vtlb_ProtectionMode = ProtMode_None | ProtMode_Write | ProtMode_Manual | ProtMode_NotRequired

text \<open>\<open>mmap_GetRamPageInfo\<close> is the protection of a page of main memory against writes to compiled
  code, \<open>Clear\<close> the \<^verbatim>\<open>Clear\<close> entry of the current processor back end, \<open>None\<close> when
  there is none.\<close>

record 'd code_env =
  mmap_GetRamPageInfo :: "u32 \<Rightarrow> 'd ee \<Rightarrow> vtlb_ProtectionMode"
  Clear :: "(u32 \<Rightarrow> u32 \<Rightarrow> 'd ee \<Rightarrow> 'd ee) option"
  ExposedRam :: u32

definition cpu_clear :: "'d code_env \<Rightarrow> u32 \<Rightarrow> u32 \<Rightarrow> 'd ee \<Rightarrow> 'd ee" where
  "cpu_clear e a n s = (case Clear e of Some f \<Rightarrow> f a n s | None \<Rightarrow> s)"

text \<open>The physical address of a direct mapping in main memory and whether its page is protected.\<close>

definition VitaEeGetDirectRamProtection :: "'d code_env \<Rightarrow> u32 \<Rightarrow> u32 \<Rightarrow> 'd ee \<Rightarrow> bool \<times> u32" where
  "VitaEeGetDirectRamProtection e mapping address s =
    (let host = assumePtr (vt s) mapping address; ram = host_memory_base (vt s)
     in if host < ram \<or> ram + ExposedRam e \<le> host then (False, 0)
        else let protection = mmap_GetRamPageInfo e (host - ram) s
             in (protection = ProtMode_Write \<or> protection = ProtMode_Manual, host - ram))"

datatype fill_result = Fill_COMPLETE | Fill_SELF | Fill_EVENT | Fill_REDISPATCH

definition sext32 :: "u32 \<Rightarrow> u64" where
  "sext32 x = scast x"

definition event_due :: "cpuRegisters \<Rightarrow> bool" where
  "event_due r = (0 \<le>s (ucast (cycle r) - ucast (nextEventCycle r) :: u32))"

text \<open>The number of iterations of \<open>block_cycles\<close> until the next event.\<close>

definition iterations_to_event :: "u32 \<Rightarrow> cpuRegisters \<Rightarrow> u32" where
  "iterations_to_event block_cycles r =
    (let cycle_delta = ucast (cycle r) - ucast (nextEventCycle r) :: u32
     in if 0 \<le>s cycle_delta then 1
        else word_of_int ((- sint cycle_delta + uint block_cycles - 1) div uint block_cycles))"

text \<open>The end of every helper: the cycles, the next address, and the reason to return.\<close>

definition fill_finish :: "u32 \<Rightarrow> u32 \<Rightarrow> u32 \<Rightarrow> u32 \<Rightarrow> bool \<Rightarrow> bool \<Rightarrow> 'd ee \<Rightarrow> fill_result \<times> 'd ee" where
  "fill_finish start_pc fallthrough_pc block_cycles iterations repeat force_redispatch s =
    (let s1 = wcpu (\<lambda>r. r\<lparr>cycle := cycle r + ucast iterations * ucast block_cycles,
                          pc := (if repeat then start_pc else fallthrough_pc)\<rparr>) s
     in (if event_due (cpu s1) then Fill_EVENT else if force_redispatch then Fill_REDISPATCH
         else if \<not> repeat then Fill_COMPLETE else Fill_SELF, s1))"

definition set_pointer :: "u32 \<Rightarrow> u32 \<Rightarrow> 'd ee \<Rightarrow> 'd ee" where
  "set_pointer g a s = wcpu (wGPR g (set_UD 0 (sext32 a))) s"

definition host_store :: "'d bus \<Rightarrow> uptr \<Rightarrow> u8 list \<Rightarrow> 'd ee \<Rightarrow> bool \<times> 'd ee" where
  "host_store b host bs s =
    (case notify b host (of_nat (length bs)) (s\<lparr>hmem := mem_write (hmem s) host bs\<rparr>)
     of (n, s1) \<Rightarrow> (n \<noteq> 0, s1))"

subsection \<open>The byte clear\<close>

definition VitaEeExecutePreincrementByteZeroFill ::
  "'d bus \<Rightarrow> 'd code_env \<Rightarrow> u32 \<Rightarrow> u32 \<Rightarrow> u32 \<Rightarrow> u32 \<Rightarrow> 'd ee \<Rightarrow> (fill_result, 'd ee) res" where
  "VitaEeExecutePreincrementByteZeroFill b e start_pc fallthrough_pc block_cycles packed_guests s =
    (let pointer_guest = packed_guests AND 0x1f; end_guest = drop_bit 8 packed_guests AND 0x1f;
         address = UL (GPR (cpu s) pointer_guest) 0; end_v = UD (GPR (cpu s) end_guest) 0;
         mapping = vmap (vt s) (drop_bit VTLB_PAGE_BITS address);
         finish = (\<lambda>iterations force s1.
           let repeat = (UD (GPR (cpu s1) pointer_guest) 0 \<noteq> end_v);
               (c, s2) = fill_finish start_pc fallthrough_pc block_cycles iterations repeat force s1
           in Ok c s2)
     in if \<not> isHandler mapping address
        then case VitaEeGetDirectRamProtection e mapping address s of (protected_page, physical_address) \<Rightarrow>
          if protected_page
          then res_bind (vtlb_memWrite b address (0 :: u8) (set_pointer pointer_guest (address + 1) s))
                 (\<lambda>_ s1. finish 1 True (cpu_clear e (physical_address AND NOT 3) 1 s1))
          else let i1 = VTLB_PAGE_SIZE - (address AND VTLB_PAGE_MASK); end_low = ucast end_v :: u32;
                   to_end = end_low - address;
                   i2 = (if end_v = sext32 end_low \<and> to_end \<noteq> 0 \<and> to_end < i1 then to_end else i1);
                   to_event = iterations_to_event block_cycles (cpu s);
                   iterations = (if to_event < i2 then to_event else i2);
                   (force, s1) = host_store b (assumePtr (vt s) mapping address)
                     (replicate (unat iterations) 0) s
               in finish iterations force (set_pointer pointer_guest (address + iterations) s1)
        else res_bind (vtlb_memWrite b address (0 :: u8) (set_pointer pointer_guest (address + 1) s))
               (\<lambda>_ s1. finish 1 False s1))"

subsection \<open>The four-word fill\<close>

text \<open>One store of the unbatched iteration; the pointer is published before the second store.\<close>

definition four_word_store ::
  "'d bus \<Rightarrow> 'd code_env \<Rightarrow> u32 \<Rightarrow> u32 \<Rightarrow> u32 \<Rightarrow> nat \<Rightarrow> bool \<Rightarrow> 'd ee \<Rightarrow> (bool, 'd ee) res" where
  "four_word_store b e pointer_guest address v word force s0 =
    (let store_address = address + of_nat word * 4;
         s = (if word = 1 then set_pointer pointer_guest (address + 16) s0 else s0);
         store_mapping = vmap (vt s) (drop_bit VTLB_PAGE_BITS store_address);
         (store_protected, store_physical) =
           (if \<not> isHandler store_mapping store_address
            then VitaEeGetDirectRamProtection e store_mapping store_address s else (False, 0))
     in res_bind (vtlb_memWrite b store_address v s) (\<lambda>_ s1.
          if store_protected then Ok True (cpu_clear e (store_physical AND NOT 3) 1 s1) else Ok force s1))"

definition VitaEeExecuteFourWordFill ::
  "'d bus \<Rightarrow> 'd code_env \<Rightarrow> u32 \<Rightarrow> u32 \<Rightarrow> u32 \<Rightarrow> u32 \<Rightarrow> 'd ee \<Rightarrow> (fill_result, 'd ee) res" where
  "VitaEeExecuteFourWordFill b e start_pc fallthrough_pc block_cycles packed_guests s =
    (let pointer_guest = packed_guests AND 0x1f; end_guest = drop_bit 8 packed_guests AND 0x1f;
         value_guest = drop_bit 16 packed_guests AND 0x1f;
         address = UL (GPR (cpu s) pointer_guest) 0;
         end_v = (if end_guest = 0 then 0 else UD (GPR (cpu s) end_guest) 0);
         v = (if value_guest = 0 then 0 else UL (GPR (cpu s) value_guest) 0);
         mapping = vmap (vt s) (drop_bit VTLB_PAGE_BITS address);
         protected_page = (\<not> isHandler mapping address \<and> fst (VitaEeGetDirectRamProtection e mapping address s));
         bytes_to_page = VTLB_PAGE_SIZE - (address AND VTLB_PAGE_MASK);
         batchable = (\<not> isHandler mapping address \<and> \<not> protected_page \<and> address AND 3 = 0 \<and>
           16 \<le> bytes_to_page \<and> block_cycles \<noteq> 0);
         finish = (\<lambda>iterations force s1.
           let repeat = (UD (GPR (cpu s1) pointer_guest) 0 \<noteq> end_v);
               (c, s2) = fill_finish start_pc fallthrough_pc block_cycles iterations repeat force s1
           in Ok c s2)
     in if batchable
        then let i1 = bytes_to_page div 16; end_low = ucast end_v :: u32; bytes_to_end = end_low - address;
                 i2 = (if end_v = sext32 end_low \<and> bytes_to_end \<noteq> 0 \<and> bytes_to_end AND 15 = 0
                       then min i1 (bytes_to_end div 16) else i1);
                 iterations = min i2 (iterations_to_event block_cycles (cpu s));
                 (force, s1) = host_store b (assumePtr (vt s) mapping address)
                   (concat (replicate (4 * unat iterations) (word_bytes v))) s
             in finish iterations force (set_pointer pointer_guest (address + iterations * 16) s1)
        else res_bind (four_word_store b e pointer_guest address v 0 False s) (\<lambda>f1 s1.
             res_bind (four_word_store b e pointer_guest address v 1 f1 s1) (\<lambda>f2 s2.
             res_bind (four_word_store b e pointer_guest address v 2 f2 s2) (\<lambda>f3 s3.
             res_bind (four_word_store b e pointer_guest address v 3 f3 s3) (\<lambda>f4 s4.
               finish 1 f4 s4)))))"

subsection \<open>The word fill\<close>

text \<open>The helpers run with a processor back end installed: the test of the source for a null
  \<^verbatim>\<open>Cpu\<close> never fails in them and is left out.\<close>

text \<open>The deadline search: the first three iterations are probed by addition.\<close>

definition word_fill_to_event :: "u32 \<Rightarrow> u32 \<Rightarrow> cpuRegisters \<Rightarrow> u32" where
  "word_fill_to_event block_cycles iterations r =
    (let cycle_delta = ucast (cycle r) - ucast (nextEventCycle r) :: u32;
         p1 = cycle_delta + block_cycles; p2 = p1 + block_cycles; p3 = p2 + block_cycles
     in if 0 \<le>s cycle_delta then 1
        else if 0 \<le>s p1 then 1
        else if 2 \<le> iterations \<and> 0 \<le>s p2 then 2
        else if 3 \<le> iterations \<and> 0 \<le>s p3 then 3
        else if 3 < iterations
        then word_of_int ((- sint cycle_delta + uint block_cycles - 1) div uint block_cycles)
        else iterations)"

definition VitaEeExecutePreincrementWordFill ::
  "'d bus \<Rightarrow> 'd code_env \<Rightarrow> u32 \<Rightarrow> u32 \<Rightarrow> u32 \<Rightarrow> u32 \<Rightarrow> 'd ee \<Rightarrow> (fill_result, 'd ee) res" where
  "VitaEeExecutePreincrementWordFill b e start_pc fallthrough_pc packed_cycles packed_guests s0 =
    (let pointer_guest = packed_guests AND 0x1f; end_guest = drop_bit 5 packed_guests AND 0x1f;
         value_guest = drop_bit 10 packed_guests AND 0x1f; result_guest = drop_bit 15 packed_guests AND 0x1f;
         block_cycles = packed_cycles AND 0xffff; store_cycles = drop_bit 16 packed_cycles;
         address = UL (GPR (cpu s0) pointer_guest) 0; end_low = UL (GPR (cpu s0) end_guest) 0;
         v = (if value_guest = 0 then 0 else UL (GPR (cpu s0) value_guest) 0);
         s = set_pointer pointer_guest (address + 4) s0
     in if address AND 3 \<noteq> 0
        then res_bind (CancelInstruction b
               (wcpu (\<lambda>r. r\<lparr>pc := start_pc + 2 * 4, cycle := cycle r + ucast store_cycles\<rparr>) s))
               (\<lambda>_ s1. Ok Fill_EVENT s1)
        else let mapping = vmap (vt s) (drop_bit VTLB_PAGE_BITS address);
                 (protected_page, physical_address) =
                   (if \<not> isHandler mapping address then VitaEeGetDirectRamProtection e mapping address s
                    else (False, 0));
                 bytes_to_page = VTLB_PAGE_SIZE - (address AND VTLB_PAGE_MASK);
                 batchable = (\<not> isHandler mapping address \<and> \<not> protected_page \<and> block_cycles \<noteq> 0);
                 finish = (\<lambda>iterations force s1.
                   let updated_low = address + iterations * 4;
                       predicate = (if sext32 (end_low - updated_low) < 4 then 1 else 0 :: u64);
                       s2 = wcpu (wGPR result_guest (set_UD 0 predicate)) (set_pointer pointer_guest updated_low s1);
                       (c, s3) = fill_finish start_pc fallthrough_pc block_cycles iterations (predicate = 0) force s2
                   in Ok c s3)
             in if batchable
                then let i1 = bytes_to_page div 4; initial_delta = end_low - address;
                         bytes_to_completion = initial_delta - (initial_delta AND 3);
                         i2 = (if bytes_to_completion \<noteq> 0 then min i1 (bytes_to_completion div 4) else i1);
                         iterations = min i2 (word_fill_to_event block_cycles i2 (cpu s));
                         (force, s1) = host_store b (assumePtr (vt s) mapping address)
                           (concat (replicate (unat iterations) (word_bytes v))) s
                     in finish iterations force s1
                else res_bind (vtlb_memWrite b address v s) (\<lambda>_ s1.
                       if protected_page
                       then finish 1 True (cpu_clear e (physical_address AND NOT 3) 1 s1)
                       else finish 1 False s1))"

end
