(* ===== verification/EE_Batch.thy ===== *)
theory EE_Batch
  imports EE_Fill EE_Access_Props
begin

text \<open>
  The batched byte clear against the guest loop it replaces: the loop body executed by the
  interpreter's own handlers, the number of iterations the helper may take at once, and the end of
  the chain of calls.
\<close>

subsection \<open>Deadlines\<close>

lemma ucast_down_arith:
  "(ucast (x + y :: u64) :: u32) = ucast x + ucast y" "(ucast (x * y :: u64) :: u32) = ucast x * ucast y"
proof -
  have t: "take_bit 32 (take_bit 64 z) = take_bit 32 z" for z :: int by (simp add: take_bit_take_bit min_def)
  have a: "take_bit 32 (take_bit 64 u + take_bit 64 v) = take_bit 32 (u + v)" for u v :: int
    using take_bit_add [of 32 "take_bit 64 u" "take_bit 64 v"] take_bit_add [of 32 u v] by (simp add: t)
  have m: "take_bit 32 (take_bit 64 u * take_bit 64 v) = take_bit 32 (u * v)" for u v :: int
    using take_bit_mult [of 32 "take_bit 64 u" "take_bit 64 v"] take_bit_mult [of 32 u v] by (simp add: t)
  show "(ucast (x + y :: u64) :: u32) = ucast x + ucast y"
    by transfer (simp add: a)
  show "(ucast (x * y :: u64) :: u32) = ucast x * ucast y"
    by transfer (simp add: m)
qed

lemma ucast_cycle_sum: "(ucast (c + of_nat k * ucast (n::u32)) :: u32) = ucast (c::u64) + of_nat k * n"
proof -
  have "(ucast (of_nat k :: u64) :: u32) = of_nat k"
    by transfer (simp add: take_bit_take_bit min_def)
  moreover have "(ucast (ucast n :: u64) :: u32) = n" by (rule bit_word_eqI) (simp add: bit_simps)
  ultimately show ?thesis by (simp add: ucast_down_arith)
qed

text \<open>Before the computed number of iterations no event is due.\<close>

lemma iterations_to_event_first:
  assumes n: "bc \<noteq> 0" and k: "0 < k" "k < unat (iterations_to_event bc r)"
  shows "\<not> event_due (r\<lparr>cycle := cycle r + of_nat k * ucast bc\<rparr>)"
proof -
  define d where "d = (ucast (cycle r) - ucast (nextEventCycle r) :: u32)"
  define q where "q = (- sint d + uint bc - 1) div uint bc"
  have bc: "0 < uint bc" using n uint_ge_0 [of bc] by (simp add: order.not_eq_order_implies_strict uint_0_iff)
  have neg: "sint d < 0"
    using k unfolding iterations_to_event_def Let_def d_def [symmetric] by (auto simp: word_sle_eq split: if_splits)
  have r: "- (2 ^ 31) \<le> sint d" using sint_ge [of d] by simp
  have q: "iterations_to_event bc r = word_of_int q"
    using neg unfolding iterations_to_event_def Let_def d_def [symmetric] q_def by (simp add: word_sle_eq)
  have le: "q * uint bc \<le> - sint d + uint bc - 1"
    unfolding q_def using bc by (metis div_mult_mod_eq add_le_same_cancel1 le_add_same_cancel1 pos_mod_sign)
  have q0: "0 \<le> q" unfolding q_def using neg bc by (intro pos_imp_zdiv_nonneg_iff [THEN iffD2]) simp_all
  have "int k < q"
  proof -
    have "int (unat (word_of_int q :: u32)) = q mod 2 ^ 32" by (simp add: take_bit_eq_mod uint_word_of_int)
    also have "\<dots> \<le> q" using q0 by (rule zmod_le_nonneg_dividend)
    finally show ?thesis using k(2) unfolding q by linarith
  qed
  then have "int k * uint bc \<le> (q - 1) * uint bc" using bc by (intro mult_right_mono) simp_all
  then have lt: "sint d + int k * uint bc < 0" using le by (simp add: left_diff_distrib)
  have "d + of_nat k * bc = word_of_int (sint d + int k * uint bc)" by simp
  moreover have "s32_range (sint d + int k * uint bc)"
    using lt r bc by (simp add: s32_range_def add_increasing2)
  ultimately have "sint (d + of_nat k * bc) = sint d + int k * uint bc"
    by (simp only: sint_word_of_int32)
  moreover have "event_due (r\<lparr>cycle := cycle r + of_nat k * ucast bc\<rparr>) = (0 \<le>s d + of_nat k * bc)"
    unfolding event_due_def d_def by (simp add: ucast_cycle_sum algebra_simps)
  ultimately show ?thesis using lt by (simp add: word_sle_eq)
qed


lemma iterations_to_event_pos:
  assumes "bc \<noteq> 0"
  shows "0 < iterations_to_event bc r"
proof -
  define d where "d = (ucast (cycle r) - ucast (nextEventCycle r) :: u32)"
  define q where "q = (- sint d + uint bc - 1) div uint bc"
  show ?thesis
  proof (cases "sint d < 0")
    case True
    have bc: "1 \<le> uint bc" using assms uint_ge_0 [of bc] uint_0_iff [of bc] by linarith
    have r: "- (2 ^ 31) \<le> sint d" using sint_ge [of d] by simp
    have "uint bc div uint bc \<le> q" unfolding q_def using True bc by (intro zdiv_mono1) simp_all
    then have q1: "1 \<le> q" using bc by simp
    have "q \<le> (- sint d + uint bc - 1) div 1" if "uint bc = 1" using that by (simp add: q_def)
    moreover have "q \<le> - sint d"
    proof -
      have "q * uint bc \<le> - sint d + uint bc - 1"
        unfolding q_def using bc by (metis div_mult_mod_eq add_le_same_cancel1 le_add_same_cancel1 pos_mod_sign zero_less_one order_less_le_trans)
      moreover have "(- sint d - 1) * 1 \<le> (- sint d - 1) * uint bc"
        using True bc by (intro mult_left_mono) simp_all
      ultimately have "(q - 1) * uint bc \<le> (- sint d - 1) * uint bc" by (simp add: algebra_simps)
      then show ?thesis using bc by simp
    qed
    ultimately have "uint (word_of_int q :: u32) = q"
      using q1 r by (simp add: uint_word_of_int take_bit_eq_mod)
    then have "0 < (word_of_int q :: u32)" using q1 by (simp add: word_less_def)
    then show ?thesis
      using True unfolding iterations_to_event_def Let_def d_def [symmetric] q_def by (simp add: word_sle_eq)
  next
    case False
    then show ?thesis unfolding iterations_to_event_def Let_def d_def [symmetric] by (simp add: word_sle_eq)
  qed
qed


subsection \<open>The guest loop\<close>

fun iterate :: "('s \<Rightarrow> (unit, 's) res) \<Rightarrow> nat \<Rightarrow> 's \<Rightarrow> (unit, 's) res" where
  "iterate f 0 s = Ok () s"
| "iterate f (Suc n) s = res_bind (iterate f n s) (\<lambda>_. f)"

text \<open>The instructions of the byte clear, \<^verbatim>\<open>ADDIU p, p, 1\<close> and \<^verbatim>\<open>SB zero, -1(p)\<close>, executed
  by their interpreter handlers; the cycles of the block are added at its end.\<close>

definition addiu_code :: "u32 \<Rightarrow> u16 \<Rightarrow> u32" where
  "addiu_code p i = 0x24000000 OR push_bit 21 p OR push_bit 16 p OR ucast i"

definition add_cycles :: "u32 \<Rightarrow> 'd ee \<Rightarrow> 'd ee" where
  "add_cycles n s = wcpu (\<lambda>r. r\<lparr>cycle := cycle r + ucast n\<rparr>) s"

definition byte_clear_iteration :: "'d bus \<Rightarrow> u32 \<Rightarrow> u32 \<Rightarrow> 'd ee \<Rightarrow> (unit, 'd ee) res" where
  "byte_clear_iteration b p block_cycles s =
    res_bind (SB b (fetch (0xa000ffff OR push_bit 21 p) (wcpu ADDIU (fetch (addiu_code p 1) s))))
      (\<lambda>_ s1. Ok () (add_cycles block_cycles s1))"

text \<open>The loop goes on while the pointer differs from its end and no event is due.\<close>

definition loop_continues :: "u32 \<Rightarrow> u64 \<Rightarrow> 'd ee \<Rightarrow> bool" where
  "loop_continues p end_v s \<longleftrightarrow> UD (GPR (cpu s) p) 0 \<noteq> end_v \<and> \<not> event_due (cpu s)"

lemma low_field: "(p::u32) < 32 \<Longrightarrow> p AND 0x1F = p"
  using less_mask_eq [of p 5] by (simp add: mask_eq_exp_minus_1)

lemma fields_of_codes:
  assumes "p < 32"
  shows "iRs (r\<lparr>code := addiu_code p i\<rparr>) = p" "iRt (r\<lparr>code := addiu_code p i\<rparr>) = p"
    "iImm (r\<lparr>code := addiu_code p i\<rparr>) = i"
    "iRs (r\<lparr>code := 0xa000ffff OR push_bit 21 p\<rparr>) = p" "iRt (r\<lparr>code := 0xa000ffff OR push_bit 21 p\<rparr>) = 0"
    "iImm (r\<lparr>code := 0xa000ffff OR push_bit 21 p\<rparr>) = 0xffff"
proof -
  have p: "5 \<le> i \<Longrightarrow> \<not> bit p i" for i using word_less_exp_bits [of p 5] assms by simp
  show "iRs (r\<lparr>code := addiu_code p i\<rparr>) = p" "iRt (r\<lparr>code := addiu_code p i\<rparr>) = p"
    "iRs (r\<lparr>code := 0xa000ffff OR push_bit 21 p\<rparr>) = p" "iRt (r\<lparr>code := 0xa000ffff OR push_bit 21 p\<rparr>) = 0"
    by (simp_all add: iRs_def iRt_def addiu_code_def word32_bitwise bit_simps p)
  show "iImm (r\<lparr>code := addiu_code p i\<rparr>) = i"
    "iImm (r\<lparr>code := 0xa000ffff OR push_bit 21 p\<rparr>) = 0xffff"
    by (simp_all add: iImm_def addiu_code_def word16_bitwise bit_simps p)
qed


definition byte_clear_step :: "'d bus \<Rightarrow> u32 \<Rightarrow> u32 \<Rightarrow> 'd ee \<Rightarrow> 'd ee" where
  "byte_clear_step b p bc s = (let a = UL (GPR (cpu s) p) 0 in
     add_cycles bc (stored b a (0 :: u8) (fetch (0xa000ffff OR push_bit 21 p) (set_pointer p (a + 1) (fetch (addiu_code p 1) s)))))"

lemma byte_clear_iteration_step:
  assumes w: "ram_window b s" and p: "p < 32" "p \<noteq> 0" and z: "GPR (cpu s) 0 = 0"
    and a: "UL (GPR (cpu s) p) 0 < MainRam"
  shows "byte_clear_iteration b p bc s = Ok () (byte_clear_step b p bc s)"
proof -
  let ?a = "UL (GPR (cpu s) p) 0"
  let ?c = "0xa000ffff OR push_bit 21 p"
  let ?s1 = "fetch ?c (set_pointer p (?a + 1) (fetch (addiu_code p 1) s))"
  have ad: "wcpu ADDIU (fetch (addiu_code p 1) s) = set_pointer p (?a + 1) (fetch (addiu_code p 1) s)"
    using p by (simp add: ADDIU_def set_pointer_def sext32_def fetch_def wcpu_def fields_of_codes)
  have c: "cpu ?s1 = (wGPR p (set_UD 0 (sext32 (?a + 1))) (cpu s))\<lparr>code := ?c\<rparr>"
    by (simp add: set_pointer_def wGPR_def)
  have la: "ls_addr ?s1 = ?a"
    unfolding ls_addr_def c fields_of_codes [OF p(1)] using UL_set_UD(1) by (simp add: sext32_def ucast_scast32)
  have w1: "ram_window b ?s1" using w by (simp add: set_pointer_def)
  have "SB b ?s1 = Ok () (stored b ?a (UC (GPR (cpu ?s1) 0) 0) ?s1)"
    using aligned_stores(1) [OF w1] a unfolding la by (simp add: checked_def la c fields_of_codes [OF p(1)])
  moreover have "UC (GPR (cpu ?s1) 0) 0 = 0" using p z unfolding c by (simp add: lane_def)
  ultimately show ?thesis
    unfolding byte_clear_iteration_def byte_clear_step_def ad Let_def by (simp add: res_bind_def)
qed


lemma state_simps [simp]:
  "cpu (add_cycles n s) = (cpu s)\<lparr>cycle := cycle (cpu s) + ucast n\<rparr>" "vt (add_cycles n s) = vt s"
  "gmem (add_cycles n s) = gmem s" "ram_window b (add_cycles n s) = ram_window b s"
  "cpu (set_pointer p a s) = wGPR p (set_UD 0 (sext32 a)) (cpu s)" "vt (set_pointer p a s) = vt s"
  "gmem (set_pointer p a s) = gmem s" "ram_window b (set_pointer p a s) = ram_window b s"
  by (simp_all add: add_cycles_def set_pointer_def) (simp_all add: wcpu_def)

lemma byte_clear_iterate:
  assumes w: "ram_window b s" and p: "p < 32" "p \<noteq> 0" and z: "GPR (cpu s) 0 = 0"
    and a: "unat (UL (GPR (cpu s) p) 0) + n \<le> unat MainRam" and n: "0 < n"
  shows "\<exists>t. iterate (byte_clear_iteration b p bc) n s = Ok () t \<and> ram_window b t \<and> vt t = vt s \<and>
    cpu t = (wGPR p (set_UD 0 (sext32 (UL (GPR (cpu s) p) 0 + of_nat n))) (cpu s))\<lparr>
      code := 0xa000ffff OR push_bit 21 p, cycle := cycle (cpu s) + of_nat n * ucast bc\<rparr> \<and>
    gmem t = mem_write (gmem s) (UL (GPR (cpu s) p) 0) (replicate n 0)"
  using n a
proof (induction n rule: nat_induct_non_zero)
  case 1
  then have "UL (GPR (cpu s) p) 0 < MainRam" by (simp add: word_less_nat_alt)
  note st = byte_clear_iteration_step [OF w p z this]
  have "word_bytes (0 :: u8) = [0]" by (simp add: word_bytes_def)
  then show ?case
    using w by (simp add: res_bind_def st byte_clear_step_def Let_def store_def code_wGPR)
next
  case (Suc n)
  let ?a = "UL (GPR (cpu s) p) 0"
  from Suc obtain t where t: "iterate (byte_clear_iteration b p bc) n s = Ok () t" "ram_window b t" "vt t = vt s"
    "cpu t = (wGPR p (set_UD 0 (sext32 (?a + of_nat n))) (cpu s))\<lparr>
      code := 0xa000ffff OR push_bit 21 p, cycle := cycle (cpu s) + of_nat n * ucast bc\<rparr>"
    "gmem t = mem_write (gmem s) ?a (replicate n 0)" by auto
  have u: "UL (GPR (cpu t) p) 0 = ?a + of_nat n" unfolding t(4) by (simp add: UL_set_UD sext32_def ucast_scast32)
  have "unat (?a + of_nat n) = unat ?a + n"
    using Suc.prems by (simp add: unat_word_ariths unat_of_nat_u32)
  then have lt: "UL (GPR (cpu t) p) 0 < MainRam" using Suc.prems unfolding u by (simp add: word_less_nat_alt)
  have "GPR (cpu t) 0 = 0" using p z t(4) by simp
  note st = byte_clear_iteration_step [OF t(2) p this lt]
  have m: "word_bytes (0 :: u8) = [0]" by (simp add: word_bytes_def)
  have "mem_write (mem_write (gmem s) ?a (replicate n 0)) (?a + of_nat n) [0] = mem_write (gmem s) ?a (replicate (Suc n) 0)"
    using mem_write_extend [of "replicate n 0" "[0]" "gmem s" ?a] Suc.prems
    by (simp add: replicate_append_same flip: replicate_Suc)
  then show ?case
    using t w u by (simp add: res_bind_def st byte_clear_step_def Let_def wGPR_def store_def m algebra_simps)
qed


subsection \<open>The batched helpers\<close>

lemma host_store_result:
  "\<exists>force d. host_store b (host_memory_base (vt s) + a) bs s =
     (force, s\<lparr>hmem := mem_write (hmem s) (host_memory_base (vt s) + a) bs, dev := d\<rparr>)"
  by (auto simp: host_store_def notify_def split: prod.split)

lemma gmem_host_store:
  "gmem (s\<lparr>hmem := mem_write (hmem s) (host_memory_base (vt s) + a) bs, dev := d\<rparr>) = mem_write (gmem s) a bs"
  by (auto simp: gmem_def mem_write_def fun_eq_iff)

lemma page_room:
  assumes "a < MainRam" "n \<le> unat (VTLB_PAGE_SIZE - (a AND VTLB_PAGE_MASK))"
  shows "unat a + n \<le> unat MainRam"
proof -
  have m: "unat (a AND 4095) = unat a mod 4096" using unat_low_bits [of 12 a] by (simp add: mask_eq_exp_minus_1)
  have "unat (4096 - (a AND 4095)) = 4096 - unat a mod 4096"
    using m by (simp add: unat_sub word_le_nat_alt)
  moreover have "unat a < 8192 * 4096" using assms(1) by (simp add: word_less_nat_alt)
  then have "unat a div 4096 < 8192" by (rule less_mult_imp_div_less)
  moreover have "unat a = 4096 * (unat a div 4096) + unat a mod 4096" "unat a mod 4096 < 4096" by simp_all
  moreover have "unat (MainRam) = 8192 * 4096" by simp
  ultimately show ?thesis using assms(2) by linarith
qed

lemma page_room_pos: "0 < unat (VTLB_PAGE_SIZE - (a AND VTLB_PAGE_MASK))"
proof -
  have m: "unat (a AND 4095) = unat a mod 4096" using unat_low_bits [of 12 a] by (simp add: mask_eq_exp_minus_1)
  then show ?thesis by (simp add: unat_sub word_le_nat_alt)
qed

definition batch_agrees ::
  "u32 \<Rightarrow> u64 \<Rightarrow> u32 \<Rightarrow> u32 \<Rightarrow> ('d ee \<Rightarrow> (unit, 'd ee) res) \<Rightarrow> 'd ee \<Rightarrow> (fill_result, 'd ee) res \<Rightarrow> bool" where
  "batch_agrees p end_v start_pc fallthrough_pc body s r \<longleftrightarrow>
    (\<exists>n c s' t. 0 < n \<and> r = Ok c s' \<and> iterate body n s = Ok () t \<and> vt s' = vt t \<and> gmem s' = gmem t \<and>
       cpu s' = (cpu t)\<lparr>code := code (cpu s), pc := (if UD (GPR (cpu t) p) 0 \<noteq> end_v then start_pc else fallthrough_pc)\<rparr> \<and>
       (\<forall>k. 0 < k \<and> k < n \<longrightarrow> (\<exists>u. iterate body k s = Ok () u \<and> loop_continues p end_v u)) \<and>
       (c = Fill_EVENT \<longleftrightarrow> event_due (cpu t)) \<and> (c = Fill_SELF \<longrightarrow> loop_continues p end_v t) \<and>
       (c = Fill_COMPLETE \<longrightarrow> UD (GPR (cpu t) p) 0 = end_v))"

lemma byte_clear_batch_size:
  fixes a bc :: u32 and end_v :: u64 and r :: cpuRegisters
  defines "i1 \<equiv> VTLB_PAGE_SIZE - (a AND VTLB_PAGE_MASK)" and "to_end \<equiv> ucast end_v - a"
  defines "i2 \<equiv> (if end_v = sext32 (ucast end_v) \<and> to_end \<noteq> 0 \<and> to_end < i1 then to_end else i1)"
  defines "i \<equiv> (if iterations_to_event bc r < i2 then iterations_to_event bc r else i2)"
  assumes bc: "bc \<noteq> 0"
  shows "0 < unat i" "unat i \<le> unat i1"
    and "0 < k \<Longrightarrow> k < unat i \<Longrightarrow> sext32 (a + of_nat k) \<noteq> end_v"
    and "0 < k \<Longrightarrow> k < unat i \<Longrightarrow> \<not> event_due (r\<lparr>cycle := cycle r + of_nat k * ucast bc\<rparr>)"
    and "end_v = sext32 (ucast end_v) \<Longrightarrow> to_end \<noteq> 0 \<Longrightarrow> unat i \<le> unat to_end"
proof -
  show "end_v = sext32 (ucast end_v) \<Longrightarrow> to_end \<noteq> 0 \<Longrightarrow> unat i \<le> unat to_end"
    by (auto simp: i_def i2_def word_less_nat_alt split: if_splits)
  have i2: "0 < unat i2" "unat i2 \<le> unat i1"
    using page_room_pos [of a] by (auto simp: i2_def i1_def word_less_nat_alt unat_gt_0)
  show "0 < unat i" "unat i \<le> unat i1"
    using i2 iterations_to_event_pos [OF bc, of r] by (auto simp: i_def word_less_nat_alt)
  assume k: "0 < k" "k < unat i"
  then have "k < unat (iterations_to_event bc r)" by (auto simp: i_def word_less_nat_alt split: if_splits)
  then show "\<not> event_due (r\<lparr>cycle := cycle r + of_nat k * ucast bc\<rparr>)"
    by (rule iterations_to_event_first [OF bc k(1)])
  have k2: "k < unat i2" using k by (auto simp: i_def word_less_nat_alt split: if_splits)
  show "sext32 (a + of_nat k) \<noteq> end_v"
  proof
    assume e: "sext32 (a + of_nat k) = end_v"
    then have l: "ucast end_v = a + of_nat k" by (auto simp: sext32_def ucast_scast32)
    have "k < 2 ^ 32" using k(2) unat_u32_less [of i] by linarith
    then have "unat to_end = k" unfolding to_end_def l by (simp add: unat_of_nat_u32)
    moreover from this have "to_end \<noteq> 0" using k(1) by auto
    ultimately show False
      using k2 e l by (auto simp: i2_def word_less_nat_alt split: if_splits)
  qed
qed


lemma byte_clear_call:
  assumes w: "ram_window b s" and p: "p < 32" "p \<noteq> 0" and q: "q < 32" "q \<noteq> p"
    and a: "UL (GPR (cpu s) p) 0 < MainRam" and bc: "bc \<noteq> 0"
    and np: "\<not> fst (VitaEeGetDirectRamProtection e (vmap (vt s) (drop_bit 12 (UL (GPR (cpu s) p) 0))) (UL (GPR (cpu s) p) 0) s)"
  defines "addr \<equiv> UL (GPR (cpu s) p) 0" and "ev \<equiv> UD (GPR (cpu s) q) 0"
  obtains n c s' force where
    "VitaEeExecutePreincrementByteZeroFill b e start_pc fallthrough_pc bc (p OR push_bit 8 q) s = Ok c s'"
    "0 < n" "unat addr + n \<le> unat MainRam"
    "ev = sext32 (ucast ev) \<Longrightarrow> ucast ev \<noteq> addr \<Longrightarrow> n \<le> unat (ucast ev - addr)"
    "\<And>k. 0 < k \<Longrightarrow> k < n \<Longrightarrow> sext32 (addr + of_nat k) \<noteq> ev \<and> \<not> event_due ((cpu s)\<lparr>cycle := cycle (cpu s) + of_nat k * ucast bc\<rparr>)"
    "vt s' = vt s" "gmem s' = mem_write (gmem s) addr (replicate n 0)"
    "cpu s' = (wGPR p (set_UD 0 (sext32 (addr + of_nat n))) (cpu s))\<lparr>
       pc := (if sext32 (addr + of_nat n) \<noteq> ev then start_pc else fallthrough_pc),
       cycle := cycle (cpu s) + of_nat n * ucast bc\<rparr>"
    "c = (if event_due (cpu s') then Fill_EVENT else if force then Fill_REDISPATCH
       else if sext32 (addr + of_nat n) = ev then Fill_COMPLETE else Fill_SELF)"
proof -
  define i1 where "i1 = VTLB_PAGE_SIZE - (addr AND VTLB_PAGE_MASK)"
  define i2 where "i2 = (if ev = sext32 (ucast ev) \<and> ucast ev - addr \<noteq> 0 \<and> ucast ev - addr < i1 then ucast ev - addr else i1)"
  define i where "i = (if iterations_to_event bc (cpu s) < i2 then iterations_to_event bc (cpu s) else i2)"
  note size = byte_clear_batch_size [where a = addr and end_v = ev and r = "cpu s", OF bc, folded i1_def, folded i2_def, folded i_def]
  have win: "vmap (vt s) (drop_bit 12 addr) = 0" "\<not> isHandler 0 addr" "assumePtr (vt s) 0 addr = host_memory_base (vt s) + addr"
    using window_entry [of "vt s" addr] w a by (auto simp: ram_window_def addr_def)
  have g: "(p OR push_bit 8 q) AND 0x1f = p" "drop_bit 8 (p OR push_bit 8 q) AND 0x1f = q"
    using word_less_exp_bits [of p 5] word_less_exp_bits [of q 5] p q by (simp_all add: word32_bitwise bit_simps)
  obtain pa where prot: "VitaEeGetDirectRamProtection e 0 addr s = (False, pa)"
    using np win(1) unfolding addr_def by (metis prod.collapse)
  obtain force d where hs: "host_store b (host_memory_base (vt s) + addr) (replicate (unat i) 0) s =
     (force, s\<lparr>hmem := mem_write (hmem s) (host_memory_base (vt s) + addr) (replicate (unat i) 0), dev := d\<rparr>)"
    using host_store_result by metis
  let ?s1 = "s\<lparr>hmem := mem_write (hmem s) (host_memory_base (vt s) + addr) (replicate (unat i) 0), dev := d\<rparr>"
  define res where "res = fill_finish start_pc fallthrough_pc bc i (sext32 (addr + i) \<noteq> ev) force (set_pointer p (addr + i) ?s1)"
  have helper: "VitaEeExecutePreincrementByteZeroFill b e start_pc fallthrough_pc bc (p OR push_bit 8 q) s =
      Ok (fst res) (snd res)"
    unfolding VitaEeExecutePreincrementByteZeroFill_def Let_def g addr_def [symmetric] ev_def [symmetric] win prot
      i1_def [symmetric] i2_def [symmetric] i_def [symmetric]
    using win(2) by (simp add: prot hs res_def case_prod_unfold)
  show ?thesis
  proof (rule that [OF helper size(1)])
    show "unat addr + unat i \<le> unat MainRam"
      using page_room [OF a [folded addr_def], of "unat i"] size(2) by (simp add: i1_def)
    show "unat i \<le> unat (ucast ev - addr)" if "ev = sext32 (ucast ev)" "ucast ev \<noteq> addr"
      using size(5) that by simp
    show "sext32 (addr + of_nat k) \<noteq> ev \<and> \<not> event_due ((cpu s)\<lparr>cycle := cycle (cpu s) + of_nat k * ucast bc\<rparr>)"
      if "0 < k" "k < unat i" for k using size(3,4) that by blast
    show "vt (snd res) = vt s" "gmem (snd res) = mem_write (gmem s) addr (replicate (unat i) 0)"
      unfolding res_def fill_finish_def Let_def by (simp_all add: gmem_host_store) (simp add: wcpu_def)
    show "cpu (snd res) = (wGPR p (set_UD 0 (sext32 (addr + of_nat (unat i)))) (cpu s))\<lparr>
       pc := (if sext32 (addr + of_nat (unat i)) \<noteq> ev then start_pc else fallthrough_pc),
       cycle := cycle (cpu s) + of_nat (unat i) * ucast bc\<rparr>"
      unfolding res_def fill_finish_def Let_def by simp
    show "fst res = (if event_due (cpu (snd res)) then Fill_EVENT else if force then Fill_REDISPATCH
       else if sext32 (addr + of_nat (unat i)) = ev then Fill_COMPLETE else Fill_SELF)"
      unfolding res_def fill_finish_def Let_def fst_conv snd_conv by simp
  qed
qed

lemma byte_clear_batched:
  assumes w: "ram_window b s" and p: "p < 32" "p \<noteq> 0" and q: "q < 32" "q \<noteq> p" and z: "GPR (cpu s) 0 = 0"
    and a: "UL (GPR (cpu s) p) 0 < MainRam" and bc: "bc \<noteq> 0"
    and np: "\<not> fst (VitaEeGetDirectRamProtection e (vmap (vt s) (drop_bit 12 (UL (GPR (cpu s) p) 0))) (UL (GPR (cpu s) p) 0) s)"
  shows "batch_agrees p (UD (GPR (cpu s) q) 0) start_pc fallthrough_pc (byte_clear_iteration b p bc) s
    (VitaEeExecutePreincrementByteZeroFill b e start_pc fallthrough_pc bc (p OR push_bit 8 q) s)"
proof -
  define addr where "addr = UL (GPR (cpu s) p) 0"
  define ev where "ev = UD (GPR (cpu s) q) 0"
  obtain n c s' force where call:
    "VitaEeExecutePreincrementByteZeroFill b e start_pc fallthrough_pc bc (p OR push_bit 8 q) s = Ok c s'"
    "0 < n" "unat addr + n \<le> unat MainRam"
    "ev = sext32 (ucast ev) \<Longrightarrow> ucast ev \<noteq> addr \<Longrightarrow> n \<le> unat (ucast ev - addr)"
    "\<And>k. 0 < k \<Longrightarrow> k < n \<Longrightarrow> sext32 (addr + of_nat k) \<noteq> ev \<and> \<not> event_due ((cpu s)\<lparr>cycle := cycle (cpu s) + of_nat k * ucast bc\<rparr>)"
    "vt s' = vt s" "gmem s' = mem_write (gmem s) addr (replicate n 0)"
    "cpu s' = (wGPR p (set_UD 0 (sext32 (addr + of_nat n))) (cpu s))\<lparr>
       pc := (if sext32 (addr + of_nat n) \<noteq> ev then start_pc else fallthrough_pc),
       cycle := cycle (cpu s) + of_nat n * ucast bc\<rparr>"
    "c = (if event_due (cpu s') then Fill_EVENT else if force then Fill_REDISPATCH
       else if sext32 (addr + of_nat n) = ev then Fill_COMPLETE else Fill_SELF)"
    by (rule byte_clear_call [OF w p q a bc np, folded addr_def ev_def, of start_pc fallthrough_pc]) (rule that; blast)
  have it: "\<exists>u. iterate (byte_clear_iteration b p bc) k s = Ok () u \<and> vt u = vt s \<and>
      cpu u = (wGPR p (set_UD 0 (sext32 (addr + of_nat k))) (cpu s))\<lparr>
        code := 0xa000ffff OR push_bit 21 p, cycle := cycle (cpu s) + of_nat k * ucast bc\<rparr> \<and>
      gmem u = mem_write (gmem s) addr (replicate k 0)" if "0 < k" "k \<le> n" for k
    using byte_clear_iterate [OF w p z, of k bc] call(3) that unfolding addr_def by auto
  obtain t where t: "iterate (byte_clear_iteration b p bc) n s = Ok () t" "vt t = vt s"
    "cpu t = (wGPR p (set_UD 0 (sext32 (addr + of_nat n))) (cpu s))\<lparr>
        code := 0xa000ffff OR push_bit 21 p, cycle := cycle (cpu s) + of_nat n * ucast bc\<rparr>"
    "gmem t = mem_write (gmem s) addr (replicate n 0)" using it [OF call(2)] by auto
  have before: "\<exists>u. iterate (byte_clear_iteration b p bc) k s = Ok () u \<and> loop_continues p ev u"
    if k: "0 < k" "k < n" for k
    using it [OF k(1)] k call(5) [OF k] by (auto simp: loop_continues_def event_due_def)
  have ptr: "UD (GPR (cpu t) p) 0 = sext32 (addr + of_nat n)" and ev: "event_due (cpu s') = event_due (cpu t)"
    and cpu: "cpu s' = (cpu t)\<lparr>code := code (cpu s), pc := (if UD (GPR (cpu t) p) 0 \<noteq> ev then start_pc else fallthrough_pc)\<rparr>"
    unfolding call(8) t(3) by (simp_all add: event_due_def wGPR_def)
  have "(c = Fill_EVENT \<longleftrightarrow> event_due (cpu t)) \<and> (c = Fill_SELF \<longrightarrow> loop_continues p ev t) \<and>
      (c = Fill_COMPLETE \<longrightarrow> UD (GPR (cpu t) p) 0 = ev)"
    unfolding call(9) ev ptr loop_continues_def by simp
  then show ?thesis
    unfolding batch_agrees_def ev_def [symmetric]
    using call(1,2,6,7) t before cpu by (metis (no_types, lifting))
qed


text \<open>The loop as the dispatcher runs it: compiled code calls the helper again while it answers
  \<^verbatim>\<open>SELF\<close> and falls through when it answers \<^verbatim>\<open>COMPLETE\<close>; for an event, and to look the
  block up again, it goes through the dispatcher, whose service \<open>svc\<close> comes back at some program
  counter. \<open>f\<close> bounds the number of calls.\<close>

fun fill_run :: "nat \<Rightarrow> ('d ee \<Rightarrow> (fill_result, 'd ee) res) \<Rightarrow> ('d ee \<Rightarrow> 'd ee) \<Rightarrow> u32 \<Rightarrow> 'd ee \<Rightarrow> 'd ee option" where
  "fill_run 0 h svc start_pc s = None"
| "fill_run (Suc f) h svc start_pc s =
    (case h s of Cancel _ \<Rightarrow> None
     | Ok c s' \<Rightarrow> if c = Fill_SELF then fill_run f h svc start_pc s' else if c = Fill_COMPLETE then Some s'
         else if pc (cpu (svc s')) = start_pc then fill_run f h svc start_pc (svc s') else Some (svc s'))"

lemma fill_run_mono: "fill_run f h svc u s = Some r \<Longrightarrow> f \<le> g \<Longrightarrow> fill_run g h svc u s = Some r"
proof (induction f arbitrary: g s)
  case (Suc f)
  then obtain g' where "g = Suc g'" "f \<le> g'" by (cases g) auto
  with Suc show ?case by (auto split: res.splits if_splits)
qed simp

text \<open>A service that resumes the loop: it comes back where the helper left, with the registers
  \<open>p\<close> and \<open>q\<close> and the window as they were; it may write any memory outside \<open>K\<close>.\<close>

definition resumes :: "'d bus \<Rightarrow> u32 \<Rightarrow> u32 \<Rightarrow> u32 set \<Rightarrow> ('d ee \<Rightarrow> 'd ee) \<Rightarrow> bool" where
  "resumes b p q K svc \<longleftrightarrow> (\<forall>s. ram_window b s \<longrightarrow> ram_window b (svc s) \<and> pc (cpu (svc s)) = pc (cpu s) \<and>
     GPR (cpu (svc s)) p = GPR (cpu s) p \<and> GPR (cpu (svc s)) q = GPR (cpu s) q \<and>
     (\<forall>a\<in>K. gmem (svc s) a = gmem s a))"

lemma mem_write_same:
  "m a = m' a \<Longrightarrow> mem_write m x bs a = mem_write m' x bs a"
  by (simp add: mem_write_def)

lemma mem_write_zeros:
  assumes "n + k < 2 ^ 32"
  shows "mem_write (mem_write m a (replicate n 0)) (a + of_nat n) (replicate k 0) = mem_write m (a::u32) (replicate (n + k) 0)"
  using mem_write_extend [of "replicate n 0" "replicate k 0" m a] assms by (simp add: replicate_add)

lemma byte_clear_run:
  assumes "ram_window b s" and p: "p < 32" "p \<noteq> 0" and q: "q < 32" "q \<noteq> p" and bc: "bc \<noteq> 0"
    and ev: "UD (GPR (cpu s) q) 0 = sext32 x" and x: "x \<le> MainRam" "UL (GPR (cpu s) p) 0 < x"
    and np: "\<And>a m u. \<not> fst (VitaEeGetDirectRamProtection e m a u)"
    and svc: "resumes b p q K svc" and pcs: "start_pc \<noteq> fallthrough_pc"
    and d: "d = unat x - unat (UL (GPR (cpu s) p) 0)"
  shows "\<exists>s'. fill_run d (VitaEeExecutePreincrementByteZeroFill b e start_pc fallthrough_pc bc (p OR push_bit 8 q))
        svc start_pc s = Some s' \<and> pc (cpu s') = fallthrough_pc \<and> UD (GPR (cpu s') p) 0 = sext32 x \<and>
      (\<forall>a\<in>K. gmem s' a = mem_write (gmem s) (UL (GPR (cpu s) p) 0) (replicate d 0) a)"
  using assms(1) ev x d
proof (induction d arbitrary: s rule: less_induct)
  case (less d)
  let ?h = "VitaEeExecutePreincrementByteZeroFill b e start_pc fallthrough_pc bc (p OR push_bit 8 q)"
  define addr where "addr = UL (GPR (cpu s) p) 0"
  have a: "UL (GPR (cpu s) p) 0 < MainRam" using less.prems(3,4) by simp
  obtain n c s' force where call: "?h s = Ok c s'" "0 < n" "unat addr + n \<le> unat MainRam"
    "sext32 x = sext32 (ucast (sext32 x)) \<Longrightarrow> ucast (sext32 x) \<noteq> addr \<Longrightarrow> n \<le> unat (ucast (sext32 x) - addr)"
    "vt s' = vt s" "gmem s' = mem_write (gmem s) addr (replicate n 0)"
    "cpu s' = (wGPR p (set_UD 0 (sext32 (addr + of_nat n))) (cpu s))\<lparr>
       pc := (if sext32 (addr + of_nat n) \<noteq> sext32 x then start_pc else fallthrough_pc),
       cycle := cycle (cpu s) + of_nat n * ucast bc\<rparr>"
    "c = (if event_due (cpu s') then Fill_EVENT else if force then Fill_REDISPATCH
       else if sext32 (addr + of_nat n) = sext32 x then Fill_COMPLETE else Fill_SELF)"
    by (rule byte_clear_call [OF less.prems(1) p q a bc np, folded addr_def, unfolded less.prems(2), of start_pc fallthrough_pc])
      (rule that; blast)
  have ux: "ucast (sext32 x) = x" by (simp add: sext32_def ucast_scast32)
  have ax: "addr < x" using less.prems(4) by (simp add: addr_def)
  then have xa: "unat (x - addr) = d" "d = unat x - unat addr" "unat addr < unat x"
    using less.prems(5) by (simp_all add: addr_def unat_sub word_less_nat_alt word_le_nat_alt)
  have nd: "n \<le> d" using call(4) ax xa unfolding ux by auto
  have un: "unat (addr + of_nat n) = unat addr + n"
    using call(3) by (simp add: unat_word_ariths unat_of_nat_u32)
  have "sext32 (addr + of_nat n) = sext32 x \<longleftrightarrow> addr + of_nat n = x"
    by (metis sext32_def ucast_scast32)
  moreover have "addr + of_nat n = x \<longleftrightarrow> unat addr + n = unat x" by (simp only: word_unat_eq_iff un)
  ultimately have inj: "sext32 (addr + of_nat n) = sext32 x \<longleftrightarrow> n = d" using xa by auto
  have d0: "0 < d" using xa by simp
  then obtain d' where d': "d = Suc d'" by (cases d) auto
  have w': "ram_window b s'" using less.prems(1) call(5) by (simp add: ram_window_def)
  define s2 where "s2 = (if c = Fill_EVENT \<or> c = Fill_REDISPATCH then svc s' else s')"
  have s2: "ram_window b s2" "pc (cpu s2) = pc (cpu s')" "GPR (cpu s2) p = GPR (cpu s') p"
    "GPR (cpu s2) q = GPR (cpu s') q" "\<And>a. a \<in> K \<Longrightarrow> gmem s2 a = gmem s' a"
    using svc w' by (auto simp: s2_def resumes_def)
  have ends: "pc (cpu s') = (if n = d then fallthrough_pc else start_pc)" "pc (cpu (svc s')) = pc (cpu s')"
    "c = Fill_COMPLETE \<Longrightarrow> n = d" "c = Fill_SELF \<Longrightarrow> n \<noteq> d"
    using svc w' call(7,8) inj by (auto simp: resumes_def split: if_splits)
  have run: "fill_run d ?h svc start_pc s = (if n = d then Some s2 else fill_run d' ?h svc start_pc s2)"
    using call(1) ends pcs d' by (cases c) (auto simp: s2_def)
  show ?case
  proof (cases "n = d")
    case True
    have "UD (GPR (cpu s2) p) 0 = sext32 x" using inj True unfolding s2(3) call(7) by simp
    then show ?thesis
      using run True inj s2(2,5) call(6,7) by (auto simp: addr_def)
  next
    case False
    then have ne: "n < d" using nd by simp
    have p': "UL (GPR (cpu s2) p) 0 = addr + of_nat n"
      unfolding s2(3) call(7) by (simp add: UL_set_UD sext32_def ucast_scast32)
    have q': "UD (GPR (cpu s2) q) 0 = sext32 x" using q less.prems(2) unfolding s2(4) call(7) by simp
    have lt': "UL (GPR (cpu s2) p) 0 < x" unfolding p' using un ne xa by (simp add: word_less_nat_alt)
    have d'': "d - n = unat x - unat (UL (GPR (cpu s2) p) 0)" unfolding p' un using xa by simp
    have "d - n < d" using ne call(2) by simp
    from less.IH [OF this s2(1) q' less.prems(3) lt' d''] obtain t where
      t: "fill_run (d - n) ?h svc start_pc s2 = Some t" "pc (cpu t) = fallthrough_pc"
        "UD (GPR (cpu t) p) 0 = sext32 x"
        "\<And>a. a \<in> K \<Longrightarrow> gmem t a = mem_write (gmem s2) (addr + of_nat n) (replicate (d - n) 0) a"
      unfolding p' by blast
    have "fill_run d ?h svc start_pc s = Some t"
      using run False fill_run_mono [OF t(1), of d'] call(2) d' by simp
    moreover have "gmem t a = mem_write (gmem s) addr (replicate d 0) a" if "a \<in> K" for a
      using t(4) [OF that] mem_write_same [where m = "gmem s2" and m' = "gmem s'" and a = a, OF s2(5) [OF that]]
        mem_write_zeros [of n "d - n" "gmem s" addr] ne xa unat_u32_less [of x]
      unfolding call(6) by simp
    ultimately show ?thesis using t(2,3) by (auto simp: addr_def)
  qed
qed


subsection \<open>Properties\<close>

text \<open>C32: The batched byte clear is the guest loop. When the helper batches iterations in main
  memory, its result (registers, cycle count, memory, page tables) is the result of some positive
  number of iterations of \<^verbatim>\<open>ADDIU p,p,1; SB zero,-1(p)\<close> executed by the interpreter's
  handlers; before the last of them neither had the pointer reached the end nor was an event due, so
  no exit of the loop is skipped; it answers \<^verbatim>\<open>EVENT\<close> exactly when an event is due,
  \<^verbatim>\<open>SELF\<close> only when the loop goes on and \<^verbatim>\<open>COMPLETE\<close> only at its end.\<close>

theorem byte_clear_batch_exact:
  assumes "ram_window b s" "p < 32" "p \<noteq> 0" "q < 32" "q \<noteq> p" "GPR (cpu s) 0 = 0"
    and "UL (GPR (cpu s) p) 0 < MainRam" "block_cycles \<noteq> 0"
    and "\<not> fst (VitaEeGetDirectRamProtection e (vmap (vt s) (drop_bit 12 (UL (GPR (cpu s) p) 0)))
           (UL (GPR (cpu s) p) 0) s)"
  shows "batch_agrees p (UD (GPR (cpu s) q) 0) start_pc fallthrough_pc (byte_clear_iteration b p block_cycles) s
    (VitaEeExecutePreincrementByteZeroFill b e start_pc fallthrough_pc block_cycles (p OR push_bit 8 q) s)"
  by (rule byte_clear_batched [OF assms])

definition fill_machine :: "MapData \<Rightarrow> unit ee" where
  "fill_machine m = wcpu (wGPR 3 (set_UD 0 0x1010)) (test_machine 0 m)"

definition open_env :: "unit code_env" where
  "open_env = \<lparr>mmap_GetRamPageInfo = \<lambda>_ _. ProtMode_None, Clear = None, ExposedRam = MainRam\<rparr>"

lemma open_env_unprotected: "\<not> fst (VitaEeGetDirectRamProtection open_env m a u)"
  by (simp add: VitaEeGetDirectRamProtection_def open_env_def Let_def)

lemma fill_machine_facts:
  "GPR (cpu (fill_machine m)) 0 = 0" "UL (GPR (cpu (fill_machine m)) 1) 0 = 0x1000"
  "UD (GPR (cpu (fill_machine m)) 3) 0 = sext32 0x1010"
  by (simp_all add: fill_machine_def test_machine_def test_cpu_def wcpu_def lane_def sext32_def)
    (simp add: set_lane_def)

lemma fill_machine_window: "\<exists>m. ram_window quiet_bus (fill_machine m)"
  using test_machine_window by (auto simp: fill_machine_def)

theorem byte_clear_batch_exact_witness:
  "\<exists>m. batch_agrees 1 (sext32 0x1010) 0x2000 0x2010 (byte_clear_iteration quiet_bus 1 9) (fill_machine m)
     (VitaEeExecutePreincrementByteZeroFill quiet_bus open_env 0x2000 0x2010 9 (1 OR push_bit 8 3) (fill_machine m))"
proof -
  obtain m where m: "ram_window quiet_bus (fill_machine m)" using fill_machine_window by blast
  have "batch_agrees 1 (UD (GPR (cpu (fill_machine m)) 3) 0) 0x2000 0x2010 (byte_clear_iteration quiet_bus 1 9) (fill_machine m)
     (VitaEeExecutePreincrementByteZeroFill quiet_bus open_env 0x2000 0x2010 9 (1 OR push_bit 8 3) (fill_machine m))"
    by (rule byte_clear_batch_exact [OF m]) (simp_all add: fill_machine_facts open_env_unprotected)
  then show ?thesis unfolding fill_machine_facts by blast
qed

text \<open>C33: The byte clear ends with the range cleared. When the end pointer lies ahead of the
  pointer in main memory and no page of it is protected, at most as many calls as there are bytes
  leave the loop, however often an event or a new block look-up interrupts it in between: the
  program counter is behind the loop, the pointer is at its end, and the memory that the service of
  those interruptions leaves alone holds exactly what it held before with the range from the
  pointer to the end cleared.\<close>

theorem byte_clear_leaves_loop:
  assumes "ram_window b s" "p < 32" "p \<noteq> 0" "q < 32" "q \<noteq> p" "block_cycles \<noteq> 0"
    and "UD (GPR (cpu s) q) 0 = sext32 x" "x \<le> MainRam" "UL (GPR (cpu s) p) 0 < x"
    and "\<And>a m u. \<not> fst (VitaEeGetDirectRamProtection e m a u)"
    and "resumes b p q K svc" "start_pc \<noteq> fallthrough_pc"
    and "d = unat x - unat (UL (GPR (cpu s) p) 0)"
  shows "\<exists>s'. fill_run d
        (VitaEeExecutePreincrementByteZeroFill b e start_pc fallthrough_pc block_cycles (p OR push_bit 8 q))
        svc start_pc s = Some s' \<and>
      pc (cpu s') = fallthrough_pc \<and> UD (GPR (cpu s') p) 0 = sext32 x \<and>
      (\<forall>a\<in>K. gmem s' a = mem_write (gmem s) (UL (GPR (cpu s) p) 0) (replicate d 0) a)"
  by (rule byte_clear_run [OF assms])

text \<open>A service that advances the cycle count by 100 and counts its calls in a register.\<close>

definition count_service :: "'d ee \<Rightarrow> 'd ee" where
  "count_service s = wcpu (\<lambda>r. wGPR 7 (\<lambda>v. v + 1) (r\<lparr>cycle := cycle r + 100\<rparr>)) s"

lemma count_service_resumes: "resumes b 1 3 UNIV count_service"
  by (simp add: resumes_def count_service_def wGPR_def)

theorem byte_clear_leaves_loop_witness:
  "\<exists>m s'. fill_run 16 (VitaEeExecutePreincrementByteZeroFill quiet_bus open_env 0x2000 0x2010 9 (1 OR push_bit 8 3))
     count_service 0x2000 (fill_machine m) = Some s' \<and> pc (cpu s') = 0x2010 \<and>
     gmem s' = mem_write (gmem (fill_machine m)) 0x1000 (replicate 16 0)"
proof -
  obtain m where m: "ram_window quiet_bus (fill_machine m)" using fill_machine_window by blast
  have "\<exists>s'. fill_run 16
      (VitaEeExecutePreincrementByteZeroFill quiet_bus open_env 0x2000 0x2010 9 (1 OR push_bit 8 3))
      count_service 0x2000 (fill_machine m) = Some s' \<and> pc (cpu s') = 0x2010 \<and>
    UD (GPR (cpu s') 1) 0 = sext32 0x1010 \<and>
    (\<forall>a\<in>UNIV. gmem s' a = mem_write (gmem (fill_machine m)) (UL (GPR (cpu (fill_machine m)) 1) 0) (replicate 16 0) a)"
    by (rule byte_clear_leaves_loop [OF m])
      (simp_all add: fill_machine_facts open_env_unprotected count_service_resumes)
  then show ?thesis unfolding fill_machine_facts by (auto simp: fun_eq_iff)
qed

end
