(* ===== verification/IOP_Regs.thy ===== *)
theory IOP_Regs
  imports EE_Access
begin

text \<open>
  The state of the I/O processor (\<^verbatim>\<open>pcsx2/R3000A.h\<close>): the register structure
  \<^verbatim>\<open>psxRegisters\<close>, the macros that read the fields of the current instruction, the
  interpreter's flags, and the exception entry \<^verbatim>\<open>psxException\<close> of
  \<^verbatim>\<open>pcsx2/R3000A.cpp\<close>. Signed 32-bit values are words with the same bits.
\<close>

subsection \<open>The registers\<close>

text \<open>\<open>psxGPR\<close> has 34 entries: \<open>HI\<close> is entry 32 and \<open>LO\<close> entry 33. The register fields of an
  instruction are 5 bits wide. \<^verbatim>\<open>pcWriteback\<close> belongs to the recompiler and is left out.\<close>

record psxRegisters =
  psxGPR :: "u32 \<Rightarrow> u32"
  psxCP0 :: "u32 \<Rightarrow> u32"
  psxCP2D :: "u32 \<Rightarrow> u32"
  psxCP2C :: "u32 \<Rightarrow> u32"
  psx_pc :: u32
  psx_code :: u32
  psx_cycle :: u64
  psx_interrupt :: u32
  iopNextEventCycle :: u64
  iopBreak :: u32
  iopCycleEE :: u32
  iopCycleEECarry :: u32
  sCycle :: "nat \<Rightarrow> u64"
  eCycle :: "nat \<Rightarrow> u32"

definition psxRegs_zero :: psxRegisters where
  "psxRegs_zero = \<lparr>psxGPR = \<lambda>_. 0, psxCP0 = \<lambda>_. 0, psxCP2D = \<lambda>_. 0, psxCP2C = \<lambda>_. 0, psx_pc = 0,
     psx_code = 0, psx_cycle = 0, psx_interrupt = 0, iopNextEventCycle = 0, iopBreak = 0,
     iopCycleEE = 0, iopCycleEECarry = 0, sCycle = \<lambda>_. 0, eCycle = \<lambda>_. 0\<rparr>"

abbreviation "psx_hi \<equiv> 32 :: u32"
abbreviation "psx_lo \<equiv> 33 :: u32"

definition wR :: "u32 \<Rightarrow> u32 \<Rightarrow> psxRegisters \<Rightarrow> psxRegisters" where
  "wR r x p = p\<lparr>psxGPR := (psxGPR p)(r := x)\<rparr>"

definition wC0 :: "u32 \<Rightarrow> u32 \<Rightarrow> psxRegisters \<Rightarrow> psxRegisters" where
  "wC0 r x p = p\<lparr>psxCP0 := (psxCP0 p)(r := x)\<rparr>"

definition wC2 :: "u32 \<Rightarrow> u32 \<Rightarrow> psxRegisters \<Rightarrow> psxRegisters" where
  "wC2 r x p = p\<lparr>psxCP2D := (psxCP2D p)(r := x)\<rparr>"

definition pFunct :: "psxRegisters \<Rightarrow> u32" where
  "pFunct p = psx_code p AND 0x3F"

definition pRd :: "psxRegisters \<Rightarrow> u32" where
  "pRd p = drop_bit 11 (psx_code p) AND 0x1F"

definition pRt :: "psxRegisters \<Rightarrow> u32" where
  "pRt p = drop_bit 16 (psx_code p) AND 0x1F"

definition pRs :: "psxRegisters \<Rightarrow> u32" where
  "pRs p = drop_bit 21 (psx_code p) AND 0x1F"

definition pSa :: "psxRegisters \<Rightarrow> u32" where
  "pSa p = drop_bit 6 (psx_code p) AND 0x1F"

definition pInstrucTarget :: "psxRegisters \<Rightarrow> u32" where
  "pInstrucTarget p = psx_code p AND 0x03ffffff"

definition pImm :: "psxRegisters \<Rightarrow> u32" where
  "pImm p = scast (ucast (psx_code p) :: u16)"

definition pImmU :: "psxRegisters \<Rightarrow> u32" where
  "pImmU p = psx_code p AND 0xffff"

definition rRs :: "psxRegisters \<Rightarrow> u32" where
  "rRs p = psxGPR p (pRs p)"

definition rRt :: "psxRegisters \<Rightarrow> u32" where
  "rRt p = psxGPR p (pRt p)"

definition rFs :: "psxRegisters \<Rightarrow> u32" where
  "rFs p = psxCP0 p (pRd p)"

definition pJumpTarget :: "psxRegisters \<Rightarrow> u32" where
  "pJumpTarget p = push_bit 2 (pInstrucTarget p) + (psx_pc p AND 0xf0000000)"

definition pBranchTarget :: "psxRegisters \<Rightarrow> u32" where
  "pBranchTarget p = pImm p * 4 + psx_pc p"

definition pSetLink :: "u32 \<Rightarrow> psxRegisters \<Rightarrow> psxRegisters" where
  "pSetLink x p = wR x (psx_pc p + 4) p"

lemma wR_simps [simp]:
  "psxGPR (wR r x p) = (psxGPR p)(r := x)" "psxCP0 (wR r x p) = psxCP0 p"
  "psxCP2D (wR r x p) = psxCP2D p" "psxCP2C (wR r x p) = psxCP2C p"
  "psx_pc (wR r x p) = psx_pc p" "psx_code (wR r x p) = psx_code p"
  "psx_cycle (wR r x p) = psx_cycle p" "psx_interrupt (wR r x p) = psx_interrupt p"
  "iopNextEventCycle (wR r x p) = iopNextEventCycle p" "iopBreak (wR r x p) = iopBreak p"
  "iopCycleEE (wR r x p) = iopCycleEE p" "iopCycleEECarry (wR r x p) = iopCycleEECarry p"
  "sCycle (wR r x p) = sCycle p" "eCycle (wR r x p) = eCycle p"
  by (simp_all add: wR_def)

lemma wC0_simps [simp]:
  "psxCP0 (wC0 r x p) = (psxCP0 p)(r := x)" "psxGPR (wC0 r x p) = psxGPR p"
  "psxCP2D (wC0 r x p) = psxCP2D p" "psxCP2C (wC0 r x p) = psxCP2C p"
  "psx_pc (wC0 r x p) = psx_pc p" "psx_code (wC0 r x p) = psx_code p"
  "psx_cycle (wC0 r x p) = psx_cycle p" "psx_interrupt (wC0 r x p) = psx_interrupt p"
  "iopNextEventCycle (wC0 r x p) = iopNextEventCycle p"
  "sCycle (wC0 r x p) = sCycle p" "eCycle (wC0 r x p) = eCycle p"
  by (simp_all add: wC0_def)

lemma wC2_simps [simp]:
  "psxGPR (wC2 r x p) = psxGPR p" "psxCP0 (wC2 r x p) = psxCP0 p" "psx_pc (wC2 r x p) = psx_pc p"
  "psx_code (wC2 r x p) = psx_code p" "psx_cycle (wC2 r x p) = psx_cycle p"
  by (simp_all add: wC2_def)

lemma psx_fields_cong:
  "psx_code p = psx_code q \<Longrightarrow> pRd p = pRd q \<and> pRt p = pRt q \<and> pRs p = pRs q \<and> pSa p = pSa q \<and>
     pImm p = pImm q \<and> pImmU p = pImmU q \<and> pFunct p = pFunct q"
  by (simp add: pRd_def pRt_def pRs_def pSa_def pImm_def pImmU_def pFunct_def)

lemma psx_fields_wR [simp]:
  "pRd (wR r x p) = pRd p" "pRt (wR r x p) = pRt p" "pRs (wR r x p) = pRs p"
  "pSa (wR r x p) = pSa p" "pImm (wR r x p) = pImm p" "pImmU (wR r x p) = pImmU p"
  "pFunct (wR r x p) = pFunct p"
  using psx_fields_cong [of "wR r x p" p] by simp_all

lemma psx_fields_less: "pRd p < 32" "pRt p < 32" "pRs p < 32" "pSa p < 32"
  by (simp_all only: pRd_def pRt_def pRs_def pSa_def word_and_31_less)

subsection \<open>The machine\<close>

text \<open>The state the interpreter, the event test and the memory accesses share: the registers, the
  flags other files see, the two lookup tables of \<^verbatim>\<open>pcsx2/IopMem.cpp\<close> (one block of
  \<open>0x4000\<close> pointers, the write table followed by the read table), host memory, the counter
  deadline of \<^verbatim>\<open>pcsx2/IopCounters.cpp\<close>, and the state \<open>'d\<close> of everything else.\<close>

record 'd iop =
  psx :: psxRegisters
  iopIsDelaySlot :: bool
  iopEventAction :: bool
  iopEventTestIsActive :: bool
  psxNextStartCounter :: u64
  psxNextDeltaCounter :: u32
  PSXCLK :: u32
  psxMemWLUT :: "u32 \<Rightarrow> uptr"
  iopHost :: memory
  iopDev :: 'd

definition wpsx :: "(psxRegisters \<Rightarrow> psxRegisters) \<Rightarrow> 'd iop \<Rightarrow> 'd iop" where
  "wpsx f s = s\<lparr>psx := f (psx s)\<rparr>"

lemma wpsx_simps [simp]:
  "psx (wpsx f s) = f (psx s)" "iopIsDelaySlot (wpsx f s) = iopIsDelaySlot s"
  "iopEventAction (wpsx f s) = iopEventAction s"
  "iopEventTestIsActive (wpsx f s) = iopEventTestIsActive s"
  "psxNextStartCounter (wpsx f s) = psxNextStartCounter s"
  "psxNextDeltaCounter (wpsx f s) = psxNextDeltaCounter s"
  "PSXCLK (wpsx f s) = PSXCLK s" "psxMemWLUT (wpsx f s) = psxMemWLUT s" "iopHost (wpsx f s) = iopHost s"
  "iopDev (wpsx f s) = iopDev s"
  by (simp_all add: wpsx_def)

subsection \<open>Exceptions\<close>

text \<open>The register part of \<^verbatim>\<open>psxException\<close>. The call of
  \<^verbatim>\<open>VitaNotifyIopPcDiscontinuity\<close> tells the block executor that the program counter
  jumped and touches only that component's state.\<close>

definition psxException_regs :: "u32 \<Rightarrow> u32 \<Rightarrow> psxRegisters \<Rightarrow> psxRegisters" where
  "psxException_regs c bd p =
    (let p1 = wC0 CP0_Cause (psxCP0 p CP0_Cause AND NOT 0x7f) p;
         p2 = wC0 CP0_Cause (psxCP0 p1 CP0_Cause OR c) p1;
         p3 = (if bd \<noteq> 0
               then wC0 CP0_EPC (psx_pc p2 - 4)
                      (wC0 CP0_Cause (psxCP0 p2 CP0_Cause OR 0x80000000) p2)
               else wC0 CP0_EPC (psx_pc p2) p2);
         p4 = p3\<lparr>psx_pc := (if psxCP0 p3 CP0_Status AND 0x400000 \<noteq> 0 then 0xbfc00180 else 0x80000080)\<rparr>
     in wC0 CP0_Status ((psxCP0 p4 CP0_Status AND NOT 0x3f) OR
          push_bit 2 (psxCP0 p4 CP0_Status AND 0xf)) p4)"

definition psxException :: "('d \<Rightarrow> 'd) \<Rightarrow> u32 \<Rightarrow> bool \<Rightarrow> 'd iop \<Rightarrow> 'd iop" where
  "psxException NotifyIopPcDiscontinuity c bd s =
    (let s1 = wpsx (psxException_regs c (if bd then 1 else 0)) s
     in s1\<lparr>iopDev := NotifyIopPcDiscontinuity (iopDev s1)\<rparr>)"

definition psxRFE :: "psxRegisters \<Rightarrow> psxRegisters" where
  "psxRFE p = wC0 CP0_Status ((psxCP0 p CP0_Status AND 0xfffffff0) OR
     drop_bit 2 (psxCP0 p CP0_Status AND 0x3c)) p"

lemma psxException_regs_keeps [simp]:
  "psxGPR (psxException_regs c bd p) = psxGPR p" "psx_code (psxException_regs c bd p) = psx_code p"
  "psx_cycle (psxException_regs c bd p) = psx_cycle p"
  "psx_interrupt (psxException_regs c bd p) = psx_interrupt p"
  "iopNextEventCycle (psxException_regs c bd p) = iopNextEventCycle p"
  "sCycle (psxException_regs c bd p) = sCycle p" "eCycle (psxException_regs c bd p) = eCycle p"
  by (simp_all add: psxException_regs_def Let_def)

lemma psxException_keeps [simp]:
  "psxGPR (psx (psxException f c bd s)) = psxGPR (psx s)"
  "psx_code (psx (psxException f c bd s)) = psx_code (psx s)"
  "psx_cycle (psx (psxException f c bd s)) = psx_cycle (psx s)"
  by (simp_all add: psxException_def Let_def)

text \<open>The mode bits are a stack of three pairs: the entry pushes a pair, the return pops one. After
  an exception and its return the current and the previous pair are what they were.\<close>

lemma exception_status:
  "psxCP0 (psxException_regs c bd p) CP0_Status =
     (psxCP0 p CP0_Status AND NOT 0x3f) OR push_bit 2 (psxCP0 p CP0_Status AND 0xf)"
  by (simp add: psxException_regs_def Let_def)

lemma rfe_after_exception:
  "psxCP0 (psxRFE (psxException_regs c bd p)) CP0_Status =
     (psxCP0 p CP0_Status AND NOT 0x30) OR push_bit 2 (psxCP0 p CP0_Status AND 0xc)"
  by (simp add: psxRFE_def exception_status word32_bitwise bit_simps)

lemma exception_enters:
  "psx_pc (psxException_regs c bd p) =
     (if psxCP0 p CP0_Status AND 0x400000 \<noteq> 0 then 0xbfc00180 else 0x80000080)"
  "psxCP0 (psxException_regs c bd p) CP0_EPC = (if bd \<noteq> 0 then psx_pc p - 4 else psx_pc p)"
  "psxCP0 (psxException_regs c bd p) CP0_Cause =
     (psxCP0 p CP0_Cause AND NOT 0x7f) OR c OR (if bd \<noteq> 0 then 0x80000000 else 0)"
  by (simp_all add: psxException_regs_def Let_def or.assoc)

end
