(* ===== verification/IOP_Mem.thy ===== *)
theory IOP_Mem
  imports IOP_Regs
begin

text \<open>
  The memory of the I/O processor (\<^verbatim>\<open>pcsx2/IopMem.cpp\<close>): the lookup tables set up by
  \<^verbatim>\<open>Ps2MemoryMap::ResetIopMemoryLookupTables\<close>, the byte, halfword and word accesses with
  their hardware pages, and the block accesses. The bodies of the hardware pages, the expansion bay,
  the sound processor and the drive controller are other components and enter as \<open>iop_env\<close>.
  \<^verbatim>\<open>PSX_EXTRALOGS\<close> and the counters of the validation build are left out.
\<close>

subsection \<open>The layout and the devices\<close>

text \<open>The host addresses of the arrays, the size of the exposed memory, and the devices. \<open>HwRead\<close>
  and \<open>HwWrite\<close> stand for the functions \<^verbatim>\<open>iopHwRead<bits>_Page<n>\<close> and
  \<^verbatim>\<open>iopHwWrite<bits>_Page<n>\<close>, with the number of bytes and the page as arguments;
  \<open>psxDma\<close> starts a channel with its three registers; \<open>psxCpu_Clear\<close> is
  \<^verbatim>\<open>psxCpu->Clear\<close>, \<open>None\<close> when there is no processor back end. The others belong to the
  interpreter and the event test: \<open>GteCommand\<close> the geometry commands by function code,
  \<open>HwResetDevices\<close> the reset of the devices and \<open>BiosReset\<close> of the module and BIOS emulation, \<open>IopCallback\<close> the device
  interrupt of an event, \<open>cpuSetNextEventDelta\<close> the event of the other processor,
  \<open>float_to_s32_overflow\<close> the value of a conversion from \<^verbatim>\<open>float\<close> that does not fit,
  \<open>irxImportExec\<close> the module emulation, \<open>RecordIopPreInstruction\<close> the trace hook, and
  \<open>InjectIRX\<close> whether a module is to be injected.\<close>

record 'd iop_env =
  Main_base :: uptr
  P_base :: uptr
  Sif_base :: uptr
  iopHw_base :: uptr
  eeHw_base :: uptr
  ROM_base :: uptr
  ROM1_base :: uptr
  ROM2_base :: uptr
  ExposedIopRam :: u32
  HwRead :: "nat \<Rightarrow> nat \<Rightarrow> u32 \<Rightarrow> 'd iop \<Rightarrow> u32 \<times> 'd iop"
  HwWrite :: "nat \<Rightarrow> nat \<Rightarrow> u32 \<Rightarrow> u32 \<Rightarrow> 'd iop \<Rightarrow> 'd iop"
  cdvdRead :: "u32 \<Rightarrow> 'd iop \<Rightarrow> u8 \<times> 'd iop"
  cdvdWrite :: "u32 \<Rightarrow> u8 \<Rightarrow> 'd iop \<Rightarrow> 'd iop"
  DEV9read :: "nat \<Rightarrow> u32 \<Rightarrow> 'd iop \<Rightarrow> u32 \<times> 'd iop"
  DEV9write :: "nat \<Rightarrow> u32 \<Rightarrow> u32 \<Rightarrow> 'd iop \<Rightarrow> 'd iop"
  SPU2read :: "u32 \<Rightarrow> 'd iop \<Rightarrow> u16 \<times> 'd iop"
  SPU2write :: "u32 \<Rightarrow> u16 \<Rightarrow> 'd iop \<Rightarrow> 'd iop"
  psxDma :: "nat \<Rightarrow> u32 \<Rightarrow> u32 \<Rightarrow> u32 \<Rightarrow> 'd iop \<Rightarrow> 'd iop"
  psxCpu_Clear :: "(u32 \<Rightarrow> u32 \<Rightarrow> 'd \<Rightarrow> 'd) option"
  GteCommand :: "u32 \<Rightarrow> psxRegisters \<Rightarrow> psxRegisters"
  NotifyIopPcDiscontinuity :: "'d \<Rightarrow> 'd"
  HwResetDevices :: "'d iop \<Rightarrow> 'd iop"
  BiosReset :: "'d iop \<Rightarrow> 'd iop"
  psxRcntUpdate :: "'d iop \<Rightarrow> 'd iop"
  IopCallback :: "nat \<Rightarrow> 'd iop \<Rightarrow> 'd iop"
  IopRetainedWaitCoalescingActive :: "'d \<Rightarrow> bool"
  cpuSetNextEventDelta :: "u32 \<Rightarrow> 'd \<Rightarrow> 'd"
  eeEventTestIsActive :: "'d \<Rightarrow> bool"
  float_to_s32_overflow :: u32
  irxImportExec :: "u32 \<Rightarrow> u32 \<Rightarrow> 'd iop \<Rightarrow> u32 \<times> 'd iop"
  psxBiosCall :: "'d iop \<Rightarrow> 'd iop"
  RecordIopPreInstruction :: "u32 \<Rightarrow> u32 \<Rightarrow> 'd \<Rightarrow> bool \<times> 'd"
  InjectIRX :: bool
  ClearIrxModules :: "'d \<Rightarrow> 'd"
  Cpu_ExitExecution :: "'d \<Rightarrow> 'd"

definition hget :: "uptr \<Rightarrow> 'd iop \<Rightarrow> 'w::len word" where
  "hget a s = bytes_word (mem_read (iopHost s) a (LENGTH('w) div 8))"

definition hput :: "uptr \<Rightarrow> 'w::len word \<Rightarrow> 'd iop \<Rightarrow> 'd iop" where
  "hput a v s = s\<lparr>iopHost := mem_write (iopHost s) a (word_bytes v)\<rparr>"

text \<open>\<^verbatim>\<open>psxHu8/16/32\<close>, \<^verbatim>\<open>psHu16/32\<close> and \<^verbatim>\<open>psxSu8/16/32\<close>: the hardware
  pages of the two processors and the page of the shared bus.\<close>

definition psxHu :: "'d iop_env \<Rightarrow> u32 \<Rightarrow> uptr" where
  "psxHu e mem = iopHw_base e + (mem AND 0xffff)"

definition psHu :: "'d iop_env \<Rightarrow> u32 \<Rightarrow> uptr" where
  "psHu e mem = eeHw_base e + (mem AND 0xffff)"

definition psxSu :: "'d iop_env \<Rightarrow> u32 \<Rightarrow> uptr" where
  "psxSu e mem = Sif_base e + (mem AND 0x00ff)"

abbreviation "SBUS_F200 \<equiv> 0x1000F200 :: u32"
abbreviation "SBUS_F210 \<equiv> 0x1000F210 :: u32"
abbreviation "SBUS_F220 \<equiv> 0x1000F220 :: u32"
abbreviation "SBUS_F230 \<equiv> 0x1000F230 :: u32"
abbreviation "SBUS_F240 \<equiv> 0x1000F240 :: u32"
abbreviation "SBUS_F260 \<equiv> 0x1000F260 :: u32"

definition cpu_invalidate :: "'d iop_env \<Rightarrow> u32 \<Rightarrow> u32 \<Rightarrow> 'd iop \<Rightarrow> 'd iop" where
  "cpu_invalidate e a n s =
    (case psxCpu_Clear e of Some f \<Rightarrow> s\<lparr>iopDev := f a n (iopDev s)\<rparr> | None \<Rightarrow> s)"

subsection \<open>The lookup tables\<close>

text \<open>The loops of the set-up: entry \<open>i + start\<close> gets \<open>f i\<close> for \<open>i < n\<close>.\<close>

definition lut_fill :: "u32 \<Rightarrow> nat \<Rightarrow> (u32 \<Rightarrow> uptr) \<Rightarrow> (u32 \<Rightarrow> uptr) \<Rightarrow> (u32 \<Rightarrow> uptr)" where
  "lut_fill start n f = fold (\<lambda>i t. t(of_nat i + start := f (of_nat i))) [0..<n]"

definition ResetIopMemoryLookupTables :: "'d iop_env \<Rightarrow> (u32 \<Rightarrow> uptr) \<Rightarrow> (u32 \<Rightarrow> uptr)" where
  "ResetIopMemoryLookupTables e t0 =
    (let msk = ExposedIopRam e div 0x10000 - 1;
         ram = (\<lambda>i. Main_base e + push_bit 16 (i AND msk));
         t1 = (\<lambda>i. if i < 0x4000 then 0 else t0 i);
         t2 = fold (\<lambda>i t. t(of_nat i := ram (of_nat i), of_nat i + 0x2000 := ram (of_nat i))) [0..<0x80] t1;
         t3 = t2(0x2000 + 0x1f00 := P_base e, 0x2000 + 0x1f80 := iopHw_base e,
                 0x1f00 := P_base e, 0x1f80 := iopHw_base e);
         t4 = lut_fill (0x2000 + 0x1fc0) 0x40 (\<lambda>i. ROM_base e + push_bit 16 i) t3;
         t5 = lut_fill (0x2000 + 0x1e00) 0x40 (\<lambda>i. ROM1_base e + push_bit 16 i) t4;
         t6 = lut_fill (0x2000 + 0x1e40) 0x40 (\<lambda>i. ROM2_base e + push_bit 16 i) t5
     in t6(0x2000 + 0x1d00 := Sif_base e))"

definition psxMemRLUT :: "'d iop \<Rightarrow> u32 \<Rightarrow> uptr" where
  "psxMemRLUT s i = psxMemWLUT s (0x2000 + i)"

text \<open>The translations of \<^verbatim>\<open>pcsx2/IopMem.h\<close>. The read translation masks the address; the
  write translation does not, so its index can leave the table of \<open>0x4000\<close> entries: \<open>None\<close> is
  that access.\<close>

definition iopVirtMemR :: "'d iop \<Rightarrow> u32 \<Rightarrow> uptr option" where
  "iopVirtMemR s mem0 =
    (let mem = mem0 AND 0x1fffffff; p = psxMemRLUT s (drop_bit 16 mem)
     in if p = 0 then None else Some (p + (mem AND 0xffff)))"

definition iopVirtMemW :: "'d iop \<Rightarrow> u32 \<Rightarrow> uptr option option" where
  "iopVirtMemW s mem =
    (if 0x4000 \<le> drop_bit 16 mem then None
     else let p = psxMemWLUT s (drop_bit 16 mem)
          in Some (if p = 0 then None else Some (p + (mem AND 0xffff))))"

subsection \<open>Reads\<close>

definition hw_page_read :: "'d iop_env \<Rightarrow> nat \<Rightarrow> u32 \<Rightarrow> u32 \<Rightarrow> 'd iop \<Rightarrow> u32 \<times> 'd iop" where
  "hw_page_read e n mem plain s =
    (if mem AND 0xf000 = 0x1000 then HwRead e n 1 mem s
     else if mem AND 0xf000 = 0x3000 then HwRead e n 3 mem s
     else if mem AND 0xf000 = 0x8000 then HwRead e n 8 mem s
     else (plain, s))"

definition iopMemRead8 :: "'d iop_env \<Rightarrow> u32 \<Rightarrow> 'd iop \<Rightarrow> u8 \<times> 'd iop" where
  "iopMemRead8 e mem0 s =
    (let mem = mem0 AND 0x1fffffff; t = drop_bit 16 mem; p = psxMemRLUT s t
     in if t = 0x1f80
        then case hw_page_read e 1 mem (ucast (hget (psxHu e mem) s :: u8)) s of (v, s1) \<Rightarrow> (ucast v, s1)
        else if t = 0x1f40 then cdvdRead e (mem AND 0xFF) s
        else if p \<noteq> 0 then (hget (p + (mem AND 0xffff)) s, s)
        else if t = 0x1000 then case DEV9read e 1 mem s of (v, s1) \<Rightarrow> (ucast v, s1)
        else (0, s))"

definition iopMemRead16 :: "'d iop_env \<Rightarrow> u32 \<Rightarrow> 'd iop \<Rightarrow> u16 \<times> 'd iop" where
  "iopMemRead16 e mem0 s =
    (let mem = mem0 AND 0x1fffffff; t = drop_bit 16 mem; p = psxMemRLUT s t
     in if t = 0x1f80
        then case hw_page_read e 2 mem (ucast (hget (psxHu e mem) s :: u16)) s of (v, s1) \<Rightarrow> (ucast v, s1)
        else if p \<noteq> 0
        then (if t = 0x1d00
              then if mem AND 0xF0 = 0x00 then hget (psHu e SBUS_F200) s
                   else if mem AND 0xF0 = 0x10 then hget (psHu e SBUS_F210) s
                   else if mem AND 0xF0 = 0x40 then hget (psHu e SBUS_F240) s OR 0x0002
                   else if mem AND 0xF0 = 0x60 then 0
                   else hget (psxHu e mem) s
              else hget (p + (mem AND 0xffff)) s, s)
        else if t = 0x1F90 then SPU2read e mem s
        else if t = 0x1000 then case DEV9read e 2 mem s of (v, s1) \<Rightarrow> (ucast v, s1)
        else (0, s))"

definition iopMemRead32 :: "'d iop_env \<Rightarrow> u32 \<Rightarrow> 'd iop \<Rightarrow> u32 \<times> 'd iop" where
  "iopMemRead32 e mem0 s =
    (let mem = mem0 AND 0x1fffffff; t = drop_bit 16 mem; p = psxMemRLUT s t
     in if t = 0x1f80 then hw_page_read e 4 mem (hget (psxHu e mem) s) s
        else if p \<noteq> 0
        then (if t = 0x1d00
              then if mem AND 0x8F0 = 0x00 then hget (psHu e SBUS_F200) s
                   else if mem AND 0x8F0 = 0x10 then hget (psHu e SBUS_F210) s
                   else if mem AND 0x8F0 = 0x20 then hget (psHu e SBUS_F220) s
                   else if mem AND 0x8F0 = 0x30 then hget (psHu e SBUS_F230) s
                   else if mem AND 0x8F0 = 0x40 then hget (psHu e SBUS_F240) s OR 0xF0000002
                   else if mem AND 0x8F0 = 0x60 then 0
                   else hget (psxHu e mem) s
              else hget (p + (mem AND 0xffff)) s, s)
        else if t = 0x1000 then DEV9read e 4 mem s
        else (0, s))"

subsection \<open>Writes\<close>

text \<open>Memory is written when the write table has the page and the cache is not isolated.\<close>

definition writable_page :: "u32 \<Rightarrow> 'd iop \<Rightarrow> bool" where
  "writable_page t s = (psxMemWLUT s t \<noteq> 0 \<and> psxCP0 (psx s) CP0_Status AND 0x10000 = 0)"

definition hw_page_write :: "'d iop_env \<Rightarrow> u32 \<Rightarrow> 'w::len word \<Rightarrow> 'd iop \<Rightarrow> 'd iop" where
  "hw_page_write e mem v s =
    (let n = LENGTH('w) div 8
     in if mem AND 0xf000 = 0x1000 then HwWrite e n 1 mem (ucast v) s
        else if mem AND 0xf000 = 0x3000 then HwWrite e n 3 mem (ucast v) s
        else if mem AND 0xf000 = 0x8000 then HwWrite e n 8 mem (ucast v) s
        else hput (psxHu e mem) v s)"

definition ram_write :: "'d iop_env \<Rightarrow> u32 \<Rightarrow> 'w::len word \<Rightarrow> 'd iop \<Rightarrow> 'd iop" where
  "ram_write e mem v s =
    cpu_invalidate e (mem AND NOT 3) 1 (hput (psxMemWLUT s (drop_bit 16 mem) + (mem AND 0xffff)) v s)"

definition iopMemWrite8 :: "'d iop_env \<Rightarrow> u32 \<Rightarrow> u8 \<Rightarrow> 'd iop \<Rightarrow> 'd iop" where
  "iopMemWrite8 e mem0 v s =
    (let mem = mem0 AND 0x1fffffff; t = drop_bit 16 mem
     in if t = 0x1f80 then hw_page_write e mem v s
        else if t = 0x1f40 then cdvdWrite e (mem AND 0xFF) v s
        else if writable_page t s then ram_write e mem v s
        else if t = 0x1d00 then hput (psxSu e mem) v s
        else if t = 0x1000 then DEV9write e 1 mem (ucast v) s
        else s)"

text \<open>The control register of the shared bus: a request bit clears the state field, and the bits of
  \<open>temp\<close> are cleared when any of them is set and set otherwise.\<close>

definition sbus_control :: "'w::len word \<Rightarrow> 'w word \<Rightarrow> 'w word" where
  "sbus_control v r =
    (let temp = v AND 0xF0;
         r1 = (if v AND 0x20 \<noteq> 0 \<or> v AND 0x80 \<noteq> 0 then (r AND NOT 0xF000) OR 0x2000 else r)
     in if r1 AND temp \<noteq> 0 then r1 AND NOT temp else r1 OR temp)"

definition iopMemWrite16 :: "'d iop_env \<Rightarrow> u32 \<Rightarrow> u16 \<Rightarrow> 'd iop \<Rightarrow> 'd iop" where
  "iopMemWrite16 e mem0 v s =
    (let mem = mem0 AND 0x1fffffff; t = drop_bit 16 mem
     in if t = 0x1f80 then hw_page_write e mem v s
        else if writable_page t s then ram_write e mem v s
        else if t = 0x1d00
        then if mem AND 0x8f0 = 0x10 then hput (psHu e SBUS_F210) v s
             else if mem AND 0x8f0 = 0x40
             then hput (psHu e SBUS_F240) (sbus_control v (hget (psHu e SBUS_F240) s)) s
             else if mem AND 0x8f0 = 0x60 then hput (psHu e SBUS_F260) (0 :: u32) s
             else hput (psxSu e mem) v s
        else if t = 0x1F90 then SPU2write e mem v s
        else if t = 0x1000 then DEV9write e 2 mem (ucast v) s
        else s)"

text \<open>\<^verbatim>\<open>DmaExec2\<close> of \<^verbatim>\<open>pcsx2/IopHw.h\<close> for the channels of the serial controller, whose
  registers are at \<open>0x1f801540\<close> and \<open>0x1f801550\<close>, and the direct route of a word store to their
  control registers.\<close>

abbreviation "HW_DMA_PCR2 \<equiv> 0x1f801570 :: u32"

definition DmaExec2 :: "'d iop_env \<Rightarrow> nat \<Rightarrow> 'd iop \<Rightarrow> 'd iop" where
  "DmaExec2 e n s =
    (let base = 0x1f801500 + 0x10 * of_nat (n - 7) :: u32;
         chcr = hget (psxHu e (base + 8)) s :: u32; pcr2 = hget (psxHu e HW_DMA_PCR2) s :: u32
     in if chcr AND 0x01000000 \<noteq> 0 \<and> pcr2 AND push_bit ((n - 7) * 4) 8 \<noteq> 0
        then psxDma e n (hget (psxHu e base) s) (hget (psxHu e (base + 4)) s) chcr s else s)"

definition iopHwWrite32_Sio2DmaChcr :: "'d iop_env \<Rightarrow> u32 \<Rightarrow> u32 \<Rightarrow> 'd iop \<Rightarrow> 'd iop" where
  "iopHwWrite32_Sio2DmaChcr e addr v s =
    (let s1 = hput (psxHu e addr) v s in DmaExec2 e (if addr = 0x1f801548 then 11 else 12) s1)"

definition iopMemWrite32 :: "'d iop_env \<Rightarrow> u32 \<Rightarrow> u32 \<Rightarrow> 'd iop \<Rightarrow> 'd iop" where
  "iopMemWrite32 e mem0 v s =
    (let mem = mem0 AND 0x1fffffff; t = drop_bit 16 mem
     in if t = 0x1f80
        then if (mem AND 0x0fff) AND NOT 0x10 = 0x548 then iopHwWrite32_Sio2DmaChcr e mem v s
             else hw_page_write e mem v s
        else if writable_page t s then ram_write e mem v s
        else if t = 0x1d00
        then if mem AND 0x8f0 = 0x00 then s
             else if mem AND 0x8f0 = 0x10 then hput (psHu e SBUS_F210) v s
             else if mem AND 0x8f0 = 0x20
             then hput (psHu e SBUS_F220) (hget (psHu e SBUS_F220) s AND NOT v) s
             else if mem AND 0x8f0 = 0x30
             then hput (psHu e SBUS_F230) (hget (psHu e SBUS_F230) s OR v) s
             else if mem AND 0x8f0 = 0x40
             then hput (psHu e SBUS_F240) (sbus_control v (hget (psHu e SBUS_F240) s)) s
             else if mem AND 0x8f0 = 0x60 then hput (psHu e SBUS_F260) (0 :: u32) s
             else hput (psxSu e mem) v s
        else if t = 0x1000 then DEV9write e 4 mem v s
        else s)"

subsection \<open>Block accesses\<close>

text \<open>A range is handled page by page, 4096 bytes at most at a time. \<open>None\<close> is an access outside
  the lookup table.\<close>

definition page_chunk :: "u32 \<Rightarrow> u32 \<Rightarrow> u32" where
  "page_chunk mem remaining = min (0x1000 - (mem AND 0xfff)) remaining"

lemma page_chunk_pos: "remaining \<noteq> 0 \<Longrightarrow> 0 < page_chunk mem remaining"
proof -
  assume "remaining \<noteq> 0"
  have "mem AND 0xfff \<le> 0xfff" by (rule word_and_le1)
  then have "mem AND 0xfff < 0x1000" by (rule order.strict_trans1) simp
  then have "0x1000 - (mem AND 0xfff) \<noteq> 0" by auto
  with \<open>remaining \<noteq> 0\<close> show ?thesis by (simp add: page_chunk_def word_gt_0 min_def)
qed

lemma page_chunk_le: "page_chunk mem remaining \<le> remaining"
  by (simp add: page_chunk_def)

definition iopMemNotifyWrite :: "'d iop_env \<Rightarrow> u32 \<Rightarrow> u32 \<Rightarrow> 'd iop \<Rightarrow> 'd iop" where
  "iopMemNotifyWrite e mem0 sz s =
    (if sz = 0 then s
     else let mem = mem0 AND 0x1fffffff; byte_span = ucast (mem AND 3) + ucast sz :: u64;
              word_count = ucast ((byte_span + 3) div 4) :: u32
          in cpu_invalidate e (mem AND NOT 3) word_count s)"

function iopMemSafeReadBytes :: "u32 \<Rightarrow> u32 \<Rightarrow> 'd iop \<Rightarrow> bool \<times> u8 list" where
  "iopMemSafeReadBytes mem sz s =
    (if sz = 0 then (True, [])
     else case iopVirtMemR s mem of
       None \<Rightarrow> (False, [])
     | Some src \<Rightarrow>
         let n = page_chunk mem sz; (ok, bs) = iopMemSafeReadBytes (mem + n) (sz - n) s
         in (ok, mem_read (iopHost s) src (unat n) @ bs))"
  by pat_completeness auto
termination
proof (relation "measure (\<lambda>(mem, sz, s). unat sz)", goal_cases)
  case (2 mem sz s src n)
  then have "unat (sz - n) = unat sz - unat n" and "0 < unat n" and "unat n \<le> unat sz"
    using page_chunk_le [of mem sz] page_chunk_pos [of sz mem]
    by (simp_all add: unat_sub word_le_nat_alt unat_gt_0 word_gt_0)
  with 2 show ?case by simp
qed simp

declare iopMemSafeReadBytes.simps [simp del]

function iopMemSafeWriteBytes :: "'d iop_env \<Rightarrow> u32 \<Rightarrow> u8 list \<Rightarrow> 'd iop \<Rightarrow> (bool \<times> 'd iop) option" where
  "iopMemSafeWriteBytes e mem src s =
    (if src = [] then Some (True, s)
     else case iopVirtMemW s mem of
       None \<Rightarrow> None
     | Some None \<Rightarrow> Some (False, s)
     | Some (Some dst) \<Rightarrow>
         let n = min (0x1000 - unat (mem AND 0xfff)) (length src);
             s1 = s\<lparr>iopHost := mem_write (iopHost s) dst (take n src)\<rparr>
         in iopMemSafeWriteBytes e (mem + of_nat n) (drop n src) (iopMemNotifyWrite e mem (of_nat n) s1))"
  by pat_completeness auto
termination
proof (relation "measure (\<lambda>(e, mem, src, s). length src)", goal_cases)
  case (2 e mem src s dst' dst n s1)
  have "unat (mem AND 0xfff) \<le> 0xfff"
    using word_and_le1 [of mem "0xfff"] by (simp add: word_le_nat_alt)
  with 2 show ?case by simp
qed simp

declare iopMemSafeWriteBytes.simps [simp del]

text \<open>The sign of \<^verbatim>\<open>std::memcmp\<close>, and the comparison that answers \<open>-1\<close> for a page that is
  not mapped.\<close>

fun memcmp :: "u8 list \<Rightarrow> u8 list \<Rightarrow> int" where
  "memcmp (x # xs) (y # ys) = (if x = y then memcmp xs ys else if x < y then -1 else 1)"
| "memcmp _ _ = 0"

function iopMemSafeCmpBytes :: "u32 \<Rightarrow> u8 list \<Rightarrow> 'd iop \<Rightarrow> int option" where
  "iopMemSafeCmpBytes mem src s =
    (if src = [] then Some 0
     else case iopVirtMemW s mem of
       None \<Rightarrow> None
     | Some None \<Rightarrow> Some (-1)
     | Some (Some dst) \<Rightarrow>
         let n = min (0x1000 - unat (mem AND 0xfff)) (length src);
             r = memcmp (take n src) (mem_read (iopHost s) dst n)
         in if r \<noteq> 0 then Some r else iopMemSafeCmpBytes (mem + of_nat n) (drop n src) s)"
  by pat_completeness auto
termination
proof (relation "measure (\<lambda>(mem, src, s). length src)", goal_cases)
  case (2 mem src s dst' dst n r)
  have "unat (mem AND 0xfff) \<le> 0xfff"
    using word_and_le1 [of mem "0xfff"] by (simp add: word_le_nat_alt)
  with 2 show ?case by simp
qed simp

declare iopMemSafeCmpBytes.simps [simp del]

text \<open>A string is read up to its terminator or \<open>maxlen\<close> characters; the character after the last
  one is read as well.\<close>

fun iopMemReadString :: "'d iop_env \<Rightarrow> u32 \<Rightarrow> nat \<Rightarrow> 'd iop \<Rightarrow> u8 list \<times> 'd iop" where
  "iopMemReadString e mem maxlen s =
    (case iopMemRead8 e mem s of (c, s1) \<Rightarrow>
       if c = 0 then ([], s1)
       else (case maxlen of
               0 \<Rightarrow> ([], s1)
             | Suc k \<Rightarrow> (case iopMemReadString e (mem + 1) k s1 of (cs, s2) \<Rightarrow> (c # cs, s2))))"

declare iopMemReadString.simps [simp del]

end
