(* ===== verification/IOP_Int.thy ===== *)
theory IOP_Int
  imports IOP_Mem EE_MMI
begin

text \<open>
  The instructions of the I/O processor that do not branch (\<^verbatim>\<open>pcsx2/R3000AOpcodeTables.cpp\<close>
  and the moves of \<^verbatim>\<open>pcsx2/IopGte.cpp\<close>): register instructions are functions on the registers,
  loads and stores are functions on the machine.
\<close>

subsection \<open>Arithmetic with an immediate operand\<close>

definition psxADDI :: "psxRegisters \<Rightarrow> psxRegisters" where [iop_defs]:
  "psxADDI p = (if pRt p = 0 then p else wR (pRt p) (rRs p + pImm p) p)"

definition psxADDIU :: "psxRegisters \<Rightarrow> psxRegisters" where [iop_defs]:
  "psxADDIU p = (if pRt p = 0 then p else wR (pRt p) (rRs p + pImm p) p)"

definition psxANDI :: "psxRegisters \<Rightarrow> psxRegisters" where [iop_defs]:
  "psxANDI p = (if pRt p = 0 then p else wR (pRt p) (rRs p AND pImmU p) p)"

definition psxORI :: "psxRegisters \<Rightarrow> psxRegisters" where [iop_defs]:
  "psxORI p = (if pRt p = 0 then p else wR (pRt p) (rRs p OR pImmU p) p)"

definition psxXORI :: "psxRegisters \<Rightarrow> psxRegisters" where [iop_defs]:
  "psxXORI p = (if pRt p = 0 then p else wR (pRt p) (rRs p XOR pImmU p) p)"

definition psxSLTI :: "psxRegisters \<Rightarrow> psxRegisters" where [iop_defs]:
  "psxSLTI p = (if pRt p = 0 then p else wR (pRt p) (if rRs p <s pImm p then 1 else 0) p)"

definition psxSLTIU :: "psxRegisters \<Rightarrow> psxRegisters" where [iop_defs]:
  "psxSLTIU p = (if pRt p = 0 then p else wR (pRt p) (if rRs p < pImm p then 1 else 0) p)"

subsection \<open>Register arithmetic\<close>

definition psxADD :: "psxRegisters \<Rightarrow> psxRegisters" where [iop_defs]:
  "psxADD p = (if pRd p = 0 then p else wR (pRd p) (rRs p + rRt p) p)"

definition psxADDU :: "psxRegisters \<Rightarrow> psxRegisters" where [iop_defs]:
  "psxADDU p = (if pRd p = 0 then p else wR (pRd p) (rRs p + rRt p) p)"

definition psxSUB :: "psxRegisters \<Rightarrow> psxRegisters" where [iop_defs]:
  "psxSUB p = (if pRd p = 0 then p else wR (pRd p) (rRs p - rRt p) p)"

definition psxSUBU :: "psxRegisters \<Rightarrow> psxRegisters" where [iop_defs]:
  "psxSUBU p = (if pRd p = 0 then p else wR (pRd p) (rRs p - rRt p) p)"

definition psxAND :: "psxRegisters \<Rightarrow> psxRegisters" where [iop_defs]:
  "psxAND p = (if pRd p = 0 then p else wR (pRd p) (rRs p AND rRt p) p)"

definition psxOR :: "psxRegisters \<Rightarrow> psxRegisters" where [iop_defs]:
  "psxOR p = (if pRd p = 0 then p else wR (pRd p) (rRs p OR rRt p) p)"

definition psxXOR :: "psxRegisters \<Rightarrow> psxRegisters" where [iop_defs]:
  "psxXOR p = (if pRd p = 0 then p else wR (pRd p) (rRs p XOR rRt p) p)"

definition psxNOR :: "psxRegisters \<Rightarrow> psxRegisters" where [iop_defs]:
  "psxNOR p = (if pRd p = 0 then p else wR (pRd p) (NOT (rRs p OR rRt p)) p)"

definition psxSLT :: "psxRegisters \<Rightarrow> psxRegisters" where [iop_defs]:
  "psxSLT p = (if pRd p = 0 then p else wR (pRd p) (if rRs p <s rRt p then 1 else 0) p)"

definition psxSLTU :: "psxRegisters \<Rightarrow> psxRegisters" where [iop_defs]:
  "psxSLTU p = (if pRd p = 0 then p else wR (pRd p) (if rRs p < rRt p then 1 else 0) p)"

subsection \<open>Multiplication and division\<close>

definition psxDIV :: "psxRegisters \<Rightarrow> psxRegisters" where [iop_defs]:
  "psxDIV p =
    (if rRt p = 0
     then wR psx_hi (rRs p) (wR psx_lo (if rRs p <s 0 then 1 else 0xFFFFFFFF) p)
     else if rRs p = 0x80000000 \<and> rRt p = 0xFFFFFFFF
     then wR psx_hi 0 (wR psx_lo 0x80000000 p)
     else wR psx_hi (word_of_int (sint (rRs p) smod sint (rRt p)))
            (wR psx_lo (word_of_int (sint (rRs p) sdiv sint (rRt p))) p))"

definition psxDIVU :: "psxRegisters \<Rightarrow> psxRegisters" where [iop_defs]:
  "psxDIVU p =
    (if rRt p = 0 then wR psx_hi (rRs p) (wR psx_lo 0xFFFFFFFF p)
     else wR psx_hi (rRs p mod rRt p) (wR psx_lo (rRs p div rRt p) p))"

definition psxMULT :: "psxRegisters \<Rightarrow> psxRegisters" where [iop_defs]:
  "psxMULT p =
    (let res = scast (rRs p) * scast (rRt p) :: u64
     in wR psx_hi (ucast (drop_bit 32 res AND 0xffffffff)) (wR psx_lo (ucast (res AND 0xffffffff)) p))"

definition psxMULTU :: "psxRegisters \<Rightarrow> psxRegisters" where [iop_defs]:
  "psxMULTU p =
    (let res = ucast (rRs p) * ucast (rRt p) :: u64
     in wR psx_hi (ucast (drop_bit 32 res AND 0xffffffff)) (wR psx_lo (ucast (res AND 0xffffffff)) p))"

subsection \<open>Shifts and moves\<close>

definition psxSLL :: "psxRegisters \<Rightarrow> psxRegisters" where [iop_defs]:
  "psxSLL p = (if pRd p = 0 then p else wR (pRd p) (push_bit (unat (pSa p)) (rRt p)) p)"

definition psxSRA :: "psxRegisters \<Rightarrow> psxRegisters" where [iop_defs]:
  "psxSRA p = (if pRd p = 0 then p else wR (pRd p) (signed_drop_bit (unat (pSa p)) (rRt p)) p)"

definition psxSRL :: "psxRegisters \<Rightarrow> psxRegisters" where [iop_defs]:
  "psxSRL p = (if pRd p = 0 then p else wR (pRd p) (drop_bit (unat (pSa p)) (rRt p)) p)"

definition psxSLLV :: "psxRegisters \<Rightarrow> psxRegisters" where [iop_defs]:
  "psxSLLV p = (if pRd p = 0 then p else wR (pRd p) (push_bit (unat (rRs p AND 0x1f)) (rRt p)) p)"

definition psxSRAV :: "psxRegisters \<Rightarrow> psxRegisters" where [iop_defs]:
  "psxSRAV p = (if pRd p = 0 then p else wR (pRd p) (signed_drop_bit (unat (rRs p AND 0x1f)) (rRt p)) p)"

definition psxSRLV :: "psxRegisters \<Rightarrow> psxRegisters" where [iop_defs]:
  "psxSRLV p = (if pRd p = 0 then p else wR (pRd p) (drop_bit (unat (rRs p AND 0x1f)) (rRt p)) p)"

definition psxLUI :: "psxRegisters \<Rightarrow> psxRegisters" where [iop_defs]:
  "psxLUI p = (if pRt p = 0 then p else wR (pRt p) (push_bit 16 (psx_code p)) p)"

definition psxMFHI :: "psxRegisters \<Rightarrow> psxRegisters" where [iop_defs]:
  "psxMFHI p = (if pRd p = 0 then p else wR (pRd p) (psxGPR p psx_hi) p)"

definition psxMFLO :: "psxRegisters \<Rightarrow> psxRegisters" where [iop_defs]:
  "psxMFLO p = (if pRd p = 0 then p else wR (pRd p) (psxGPR p psx_lo) p)"

definition psxMTHI :: "psxRegisters \<Rightarrow> psxRegisters" where [iop_defs]:
  "psxMTHI p = wR psx_hi (rRs p) p"

definition psxMTLO :: "psxRegisters \<Rightarrow> psxRegisters" where [iop_defs]:
  "psxMTLO p = wR psx_lo (rRs p) p"

definition psxMFC0 :: "psxRegisters \<Rightarrow> psxRegisters" where [iop_defs]:
  "psxMFC0 p = (if pRt p = 0 then p else wR (pRt p) (rFs p) p)"

definition psxCFC0 :: "psxRegisters \<Rightarrow> psxRegisters" where [iop_defs]:
  "psxCFC0 p = (if pRt p = 0 then p else wR (pRt p) (rFs p) p)"

definition psxMTC0 :: "psxRegisters \<Rightarrow> psxRegisters" where [iop_defs]:
  "psxMTC0 p = wC0 (pRd p) (rRt p) p"

definition psxCTC0 :: "psxRegisters \<Rightarrow> psxRegisters" where [iop_defs]:
  "psxCTC0 p = wC0 (pRd p) (rRt p) p"

definition psxCTC2 :: "psxRegisters \<Rightarrow> psxRegisters" where [iop_defs]:
  "psxCTC2 p = wC2 (pRd p) (rRt p) p"

subsection \<open>Breakpoints and system calls\<close>

definition psxBREAK :: "'d iop_env \<Rightarrow> 'd iop \<Rightarrow> 'd iop" where [iop_defs]:
  "psxBREAK e s = psxException (NotifyIopPcDiscontinuity e) 0x24 (iopIsDelaySlot s)
     (wpsx (\<lambda>p. p\<lparr>psx_pc := psx_pc p - 4\<rparr>) s)"

definition psxSYSCALL :: "'d iop_env \<Rightarrow> 'd iop \<Rightarrow> 'd iop" where [iop_defs]:
  "psxSYSCALL e s = psxException (NotifyIopPcDiscontinuity e) 0x20 (iopIsDelaySlot s)
     (wpsx (\<lambda>p. p\<lparr>psx_pc := psx_pc p - 4\<rparr>) s)"

subsection \<open>Loads\<close>

text \<open>The effective address \<^verbatim>\<open>_oB_\<close>, and a load of which register 0 keeps only the access.\<close>

definition oB :: "psxRegisters \<Rightarrow> u32" where
  "oB p = rRs p + pImm p"

definition load_Rt :: "(u32 \<Rightarrow> 'd iop \<Rightarrow> 'w::len word \<times> 'd iop) \<Rightarrow> ('w word \<Rightarrow> u32) \<Rightarrow> 'd iop \<Rightarrow> 'd iop" where
  "load_Rt rd f s =
    (case rd (oB (psx s)) s of (v, s1) \<Rightarrow>
       if pRt (psx s) \<noteq> 0 then wpsx (wR (pRt (psx s)) (f v)) s1 else s1)"

definition psxLB :: "'d iop_env \<Rightarrow> 'd iop \<Rightarrow> 'd iop" where [iop_defs]:
  "psxLB e s = load_Rt (iopMemRead8 e) scast s"

definition psxLBU :: "'d iop_env \<Rightarrow> 'd iop \<Rightarrow> 'd iop" where [iop_defs]:
  "psxLBU e s = load_Rt (iopMemRead8 e) ucast s"

definition psxLH :: "'d iop_env \<Rightarrow> 'd iop \<Rightarrow> 'd iop" where [iop_defs]:
  "psxLH e s = load_Rt (iopMemRead16 e) scast s"

definition psxLHU :: "'d iop_env \<Rightarrow> 'd iop \<Rightarrow> 'd iop" where [iop_defs]:
  "psxLHU e s = load_Rt (iopMemRead16 e) ucast s"

definition psxLW :: "'d iop_env \<Rightarrow> 'd iop \<Rightarrow> 'd iop" where [iop_defs]:
  "psxLW e s = load_Rt (iopMemRead32 e) id s"

definition psxLWL :: "'d iop_env \<Rightarrow> 'd iop \<Rightarrow> 'd iop" where [iop_defs]:
  "psxLWL e s =
    (let shift = unat (push_bit 3 (oB (psx s) AND 3)); rt = pRt (psx s);
         (mem, s1) = iopMemRead32 e (oB (psx s) AND 0xfffffffc) s
     in if rt = 0 then s1
        else wpsx (\<lambda>p. wR rt ((psxGPR p rt AND drop_bit shift 0x00ffffff) OR push_bit (24 - shift) mem) p) s1)"

definition psxLWR :: "'d iop_env \<Rightarrow> 'd iop \<Rightarrow> 'd iop" where [iop_defs]:
  "psxLWR e s =
    (let shift = unat (push_bit 3 (oB (psx s) AND 3)); rt = pRt (psx s);
         (mem, s1) = iopMemRead32 e (oB (psx s) AND 0xfffffffc) s
     in if rt = 0 then s1
        else wpsx (\<lambda>p. wR rt ((psxGPR p rt AND push_bit (24 - shift) 0xffffff00) OR drop_bit shift mem) p) s1)"

subsection \<open>Stores\<close>

definition psxSB :: "'d iop_env \<Rightarrow> 'd iop \<Rightarrow> 'd iop" where [iop_defs]:
  "psxSB e s = iopMemWrite8 e (oB (psx s)) (ucast (rRt (psx s))) s"

definition psxSH :: "'d iop_env \<Rightarrow> 'd iop \<Rightarrow> 'd iop" where [iop_defs]:
  "psxSH e s = iopMemWrite16 e (oB (psx s)) (ucast (rRt (psx s))) s"

definition psxSW :: "'d iop_env \<Rightarrow> 'd iop \<Rightarrow> 'd iop" where [iop_defs]:
  "psxSW e s = iopMemWrite32 e (oB (psx s)) (rRt (psx s)) s"

text \<open>The operands are read again after the access, since a device may change them.\<close>

definition psxSWL :: "'d iop_env \<Rightarrow> 'd iop \<Rightarrow> 'd iop" where [iop_defs]:
  "psxSWL e s =
    (let shift = unat (push_bit 3 (oB (psx s) AND 3));
         (mem, s1) = iopMemRead32 e (oB (psx s) AND 0xfffffffc) s
     in iopMemWrite32 e (oB (psx s1) AND 0xfffffffc)
          (drop_bit (24 - shift) (rRt (psx s1)) OR (mem AND push_bit shift 0xffffff00)) s1)"

definition psxSWR :: "'d iop_env \<Rightarrow> 'd iop \<Rightarrow> 'd iop" where [iop_defs]:
  "psxSWR e s =
    (let shift = unat (push_bit 3 (oB (psx s) AND 3));
         (mem, s1) = iopMemRead32 e (oB (psx s) AND 0xfffffffc) s
     in iopMemWrite32 e (oB (psx s1) AND 0xfffffffc)
          (push_bit shift (rRt (psx s1)) OR (mem AND drop_bit (24 - shift) 0x00ffffff)) s1)"

subsection \<open>Moves to and from the geometry coprocessor\<close>

text \<open>The colour register reads as a packing of the three intermediate results; several writes set
  other registers as well.\<close>

definition MFC2 :: "u32 \<Rightarrow> psxRegisters \<Rightarrow> u32 \<times> psxRegisters" where
  "MFC2 r p =
    (if r = 29
     then let v = (signed_drop_bit 7 (psxCP2D p 9) AND 0x1f) OR
                  push_bit 5 (signed_drop_bit 7 (psxCP2D p 10) AND 0x1f) OR
                  push_bit 10 (signed_drop_bit 7 (psxCP2D p 11) AND 0x1f)
          in (v, wC2 29 v p)
     else (psxCP2D p r, p))"

definition MTC2 :: "u32 \<Rightarrow> u32 \<Rightarrow> psxRegisters \<Rightarrow> psxRegisters" where
  "MTC2 v r p =
    (if r \<in> {8, 9, 10, 11} then wC2 r (scast (ucast v :: u16)) p
     else if r = 15
     then let p1 = wC2 12 (psxCP2D p 13) p; p2 = wC2 13 (psxCP2D p1 14) p1
          in wC2 15 v (wC2 14 v p2)
     else if r \<in> {16, 17, 18, 19} then wC2 r (v AND 0xffff) p
     else if r = 28
     then wC2 11 (push_bit 7 (drop_bit 10 v AND 0x1f)) (wC2 10 (push_bit 7 (drop_bit 5 v AND 0x1f))
            (wC2 9 (push_bit 7 (v AND 0x1f)) (wC2 28 v p)))
     else if r = 30 then wC2 31 (CountLeadingSignBits v) (wC2 30 v p)
     else wC2 r v p)"

definition gteMFC2 :: "psxRegisters \<Rightarrow> psxRegisters" where [iop_defs]:
  "gteMFC2 p = (if pRt p = 0 then p else case MFC2 (pRd p) p of (v, p1) \<Rightarrow> wR (pRt p) v p1)"

definition gteCFC2 :: "psxRegisters \<Rightarrow> psxRegisters" where [iop_defs]:
  "gteCFC2 p = (if pRt p = 0 then p else wR (pRt p) (psxCP2C p (pRd p)) p)"

definition gteMTC2 :: "psxRegisters \<Rightarrow> psxRegisters" where [iop_defs]:
  "gteMTC2 p = MTC2 (psxGPR p (pRt p)) (pRd p) p"

definition gteCTC2 :: "psxRegisters \<Rightarrow> psxRegisters" where [iop_defs]:
  "gteCTC2 p = p\<lparr>psxCP2C := (psxCP2C p)(pRd p := psxGPR p (pRt p))\<rparr>"

definition gteLWC2 :: "'d iop_env \<Rightarrow> 'd iop \<Rightarrow> 'd iop" where [iop_defs]:
  "gteLWC2 e s = (case iopMemRead32 e (oB (psx s)) s of (v, s1) \<Rightarrow> wpsx (MTC2 v (pRt (psx s1))) s1)"

definition gteSWC2 :: "'d iop_env \<Rightarrow> 'd iop \<Rightarrow> 'd iop" where [iop_defs]:
  "gteSWC2 e s = (case MFC2 (pRt (psx s)) (psx s) of (v, p1) \<Rightarrow>
     iopMemWrite32 e (oB (psx s)) v (wpsx (\<lambda>_. p1) s))"

end
