(* ===== verification/IOP_Event.thy ===== *)
theory IOP_Event
  imports IOP_Int
begin

text \<open>
  Reset and event scheduling of the I/O processor (\<^verbatim>\<open>pcsx2/R3000A.cpp\<close>): deadlines are a start
  cycle and a signed delta, compared through the low 32 bits of a difference. The trace and profiler
  blocks are left out.
\<close>

subsection \<open>Reset\<close>

definition psxHwReset :: "'d iop_env \<Rightarrow> 'd iop \<Rightarrow> 'd iop" where
  "psxHwReset e s = HwResetDevices e
     (s\<lparr>iopHost := mem_write (iopHost s) (iopHw_base e) (replicate 0x10000 0)\<rparr>)"

definition psxReset :: "'d iop_env \<Rightarrow> 'd iop \<Rightarrow> 'd iop" where
  "psxReset e s =
    (let s1 = s\<lparr>psx := psxRegs_zero\<lparr>psx_pc := 0xbfc00000\<rparr>\<rparr>;
         s2 = s1\<lparr>iopDev := NotifyIopPcDiscontinuity e (iopDev s1)\<rparr>;
         s3 = wpsx (\<lambda>p. (wC0 15 0x0000001f (wC0 CP0_Status 0x00400000 p))
                \<lparr>iopBreak := 0, iopCycleEE := - 1, iopCycleEECarry := 0,
                 iopNextEventCycle := psx_cycle p + 4\<rparr>) s2
     in BiosReset e ((psxHwReset e s3)\<lparr>PSXCLK := 36864000\<rparr>))"

subsection \<open>Deadlines\<close>

definition psxSetNextBranch :: "u64 \<Rightarrow> u32 \<Rightarrow> psxRegisters \<Rightarrow> psxRegisters" where
  "psxSetNextBranch startCycle delta p =
    (if delta <s ucast (iopNextEventCycle p - startCycle)
     then p\<lparr>iopNextEventCycle := startCycle + scast delta\<rparr> else p)"

definition psxSetNextBranchDelta :: "u32 \<Rightarrow> psxRegisters \<Rightarrow> psxRegisters" where
  "psxSetNextBranchDelta delta p = psxSetNextBranch (psx_cycle p) delta p"

definition psxTestCycle :: "u64 \<Rightarrow> u32 \<Rightarrow> psxRegisters \<Rightarrow> bool" where
  "psxTestCycle startCycle delta p = (delta \<le>s ucast (psx_cycle p - startCycle))"

definition psxRemainingCycles :: "nat \<Rightarrow> psxRegisters \<Rightarrow> u32" where
  "psxRemainingCycles n p =
    (if bit (psx_interrupt p) n then ucast (psx_cycle p - sCycle p n + scast (eCycle p n)) else 0)"

text \<open>Single-precision arithmetic on numbers that are not negative: \<open>f32_nat\<close> rounds to 24
  significant bits, ties to even. \<open>clock_multiplier\<close> is the quotient of the two clocks in units of
  \<open>2 ^ -41\<close>, with a sticky bit for the part cut off before the rounding.\<close>

fun bit_length :: "nat \<Rightarrow> nat" where
  "bit_length n = (if n = 0 then 0 else Suc (bit_length (n div 2)))"

declare bit_length.simps [simp del]

definition f32_nat :: "nat \<Rightarrow> nat" where
  "f32_nat x =
    (let k = bit_length x - 24; q = x div 2 ^ k; r = 2 * (x mod 2 ^ k)
     in (if r > 2 ^ k \<or> r = 2 ^ k \<and> odd q then Suc q else q) * 2 ^ k)"

abbreviation "PS2CLK \<equiv> 294912000 :: u32"

definition clock_multiplier :: "u32 \<Rightarrow> nat" where
  "clock_multiplier clk =
    (let a = f32_nat (unat PS2CLK) * 2 ^ 40; b = f32_nat (unat clk)
     in f32_nat (2 * (a div b) + (if b dvd a then 0 else 1)))"

definition scale_to_ee :: "'d iop_env \<Rightarrow> u32 \<Rightarrow> u64 \<Rightarrow> u32" where
  "scale_to_ee e clk cycles =
    (let v = f32_nat (f32_nat (unat cycles) * clock_multiplier clk) div 2 ^ 41
     in if v < 2 ^ 31 then of_nat v else float_to_s32_overflow e)"

definition PSX_INT :: "'d iop_env \<Rightarrow> nat \<Rightarrow> u32 \<Rightarrow> 'd iop \<Rightarrow> 'd iop" where
  "PSX_INT e n ecycle s =
    (let s1 = wpsx (\<lambda>p. p\<lparr>psx_interrupt := psx_interrupt p OR push_bit n 1,
                         sCycle := (sCycle p)(n := psx_cycle p), eCycle := (eCycle p)(n := ecycle)\<rparr>) s;
         s2 = wpsx (psxSetNextBranchDelta ecycle) s1;
         iopDelta = scale_to_ee e (PSXCLK s2) (iopNextEventCycle (psx s2) - psx_cycle (psx s2))
     in if iopCycleEE (psx s2) <s iopDelta
        then s2\<lparr>iopDev := cpuSetNextEventDelta e (iopDelta - iopCycleEE (psx s2)) (iopDev s2)\<rparr> else s2)"

subsection \<open>The event test\<close>

abbreviation "IopEvt_SIF2 \<equiv> 0 :: nat"
abbreviation "IopEvt_Cdvd \<equiv> 1 :: nat"
abbreviation "IopEvt_SIF0 \<equiv> 2 :: nat"
abbreviation "IopEvt_SIF1 \<equiv> 3 :: nat"
abbreviation "IopEvt_Dma11 \<equiv> 4 :: nat"
abbreviation "IopEvt_Dma12 \<equiv> 5 :: nat"
abbreviation "IopEvt_SIO \<equiv> 6 :: nat"
abbreviation "IopEvt_Cdrom \<equiv> 7 :: nat"
abbreviation "IopEvt_CdromRead \<equiv> 8 :: nat"
abbreviation "IopEvt_CdvdRead \<equiv> 9 :: nat"
abbreviation "IopEvt_CdvdSectorReady \<equiv> 10 :: nat"
abbreviation "IopEvt_DEV9 \<equiv> 11 :: nat"
abbreviation "IopEvt_USB \<equiv> 12 :: nat"

definition IopTestEvent :: "'d iop_env \<Rightarrow> nat \<Rightarrow> 'd iop \<Rightarrow> 'd iop" where
  "IopTestEvent e n s =
    (if \<not> bit (psx_interrupt (psx s)) n then s
     else if psxTestCycle (sCycle (psx s) n) (eCycle (psx s) n) (psx s)
     then IopCallback e n (wpsx (\<lambda>p. p\<lparr>psx_interrupt := psx_interrupt p AND NOT (push_bit n 1)\<rparr>) s)
     else wpsx (\<lambda>p. psxSetNextBranch (sCycle p n) (eCycle p n) p) s)"

definition psxTestInterrupts :: "'d iop_env \<Rightarrow> 'd iop \<Rightarrow> 'd iop" where
  "psxTestInterrupts e s =
    (let s1 = fold (IopTestEvent e) [IopEvt_SIF0, IopEvt_SIF1, IopEvt_SIF2, IopEvt_SIO,
                IopEvt_CdvdSectorReady, IopEvt_CdvdRead] s;
         rare = [IopEvt_Cdvd, IopEvt_Dma11, IopEvt_Dma12, IopEvt_Cdrom, IopEvt_CdromRead,
                 IopEvt_DEV9, IopEvt_USB]
     in if \<exists>n \<in> set rare. bit (psx_interrupt (psx s1)) n then fold (IopTestEvent e) rare s1 else s1)"

abbreviation "iopWaitCycles \<equiv> 384 :: u64"
abbreviation "iopRetainedWaitCycles \<equiv> 768 :: u64"
abbreviation "HW_ISTAT \<equiv> 0x1f801070 :: u32"
abbreviation "HW_IMASK \<equiv> 0x1f801074 :: u32"
abbreviation "HW_ICTRL \<equiv> 0x1f801078 :: u32"
abbreviation "HW_ICFG \<equiv> 0x1f801450 :: u32"

definition intc_visible :: "'d iop_env \<Rightarrow> 'd iop \<Rightarrow> bool" where
  "intc_visible e s = ((hget (psxHu e HW_ICTRL) s :: u32) \<noteq> 0 \<and>
     (hget (psxHu e HW_ISTAT) s :: u32) AND hget (psxHu e HW_IMASK) s \<noteq> 0)"

text \<open>The three parts of the test: the polling deadline and the counters, the pending events and the
  interrupt exception, and the clamp of an extended deadline.\<close>

definition event_seed :: "'d iop_env \<Rightarrow> 'd iop \<Rightarrow> 'd iop" where
  "event_seed e s =
    (let s1 = wpsx (\<lambda>p. p\<lparr>iopNextEventCycle := psx_cycle p +
                (if IopRetainedWaitCoalescingActive e (iopDev s) then iopRetainedWaitCycles else iopWaitCycles)\<rparr>) s
     in if psxTestCycle (psxNextStartCounter s1) (psxNextDeltaCounter s1) (psx s1)
        then (psxRcntUpdate e s1)\<lparr>iopEventAction := True\<rparr>
        else if psxNextDeltaCounter s1 <s ucast (iopNextEventCycle (psx s1) - psxNextStartCounter s1)
        then wpsx (\<lambda>p. p\<lparr>iopNextEventCycle := psxNextStartCounter s1 + scast (psxNextDeltaCounter s1)\<rparr>) s1
        else s1)"

definition event_interrupts :: "'d iop_env \<Rightarrow> 'd iop \<Rightarrow> 'd iop" where
  "event_interrupts e s =
    (let s1 = (if psx_interrupt (psx s) \<noteq> 0
               then (psxTestInterrupts e (s\<lparr>iopEventTestIsActive := True\<rparr>))\<lparr>iopEventTestIsActive := False\<rparr>
               else s)
     in if intc_visible e s1 \<and> 0x401 \<le> psxCP0 (psx s1) CP0_Status AND 0xFE01
        then (psxException (NotifyIopPcDiscontinuity e) 0 False s1)\<lparr>iopEventAction := True\<rparr> else s1)"

definition event_clamp :: "'d iop_env \<Rightarrow> 'd iop \<Rightarrow> 'd iop" where
  "event_clamp e s =
    (let ordinary_wait_deadline = psx_cycle (psx s) + iopWaitCycles
     in if \<not> IopRetainedWaitCoalescingActive e (iopDev s) \<and> ordinary_wait_deadline < iopNextEventCycle (psx s)
        then wpsx (\<lambda>p. p\<lparr>iopNextEventCycle := ordinary_wait_deadline\<rparr>) s else s)"

definition iopEventTest :: "'d iop_env \<Rightarrow> 'd iop \<Rightarrow> 'd iop" where
  "iopEventTest e s = event_clamp e (event_interrupts e (event_seed e s))"

subsection \<open>The external deadline\<close>

definition countr_zero :: "u32 \<Rightarrow> nat" where
  "countr_zero n = length (takeWhile Not (map (bit n) [0..<32]))"

lemma clear_lowest_less: "pending \<noteq> 0 \<Longrightarrow> unat (pending AND (pending - 1)) < unat (pending :: u32)"
proof -
  assume "pending \<noteq> 0"
  have "pending AND (pending - 1) \<le> pending - 1" by (rule word_and_le1)
  also have "pending - 1 < pending" using \<open>pending \<noteq> 0\<close> by (simp add: word_less_nat_alt unat_gt_0 unat_minus_one)
  finally show ?thesis by (simp add: word_less_nat_alt)
qed

definition event_deadline :: "nat \<Rightarrow> psxRegisters \<Rightarrow> u64" where
  "event_deadline n p =
    (let event_delta = sCycle p n + scast (eCycle p n) - psx_cycle p
     in if event_delta \<le>s 0 then psx_cycle p else psx_cycle p + event_delta)"

function external_loop :: "u32 \<Rightarrow> u64 \<Rightarrow> psxRegisters \<Rightarrow> u64" where
  "external_loop pending deadline p =
    (if pending = 0 then deadline
     else let d = event_deadline (countr_zero pending) p
          in external_loop (pending AND (pending - 1)) (if d < deadline then d else deadline) p)"
  by pat_completeness auto
termination
  by (relation "measure (\<lambda>(pending, deadline, p). unat pending)") (simp_all add: clear_lowest_less)

declare external_loop.simps [simp del]

definition VitaGetIopExternalEventCycle :: "'d iop_env \<Rightarrow> 'd iop \<Rightarrow> u64" where
  "VitaGetIopExternalEventCycle e s =
    (let p = psx s;
         d0 = (if psxNextDeltaCounter s \<le>s 0 then psx_cycle p
               else psxNextStartCounter s + ucast (psxNextDeltaCounter s));
         d1 = external_loop (psx_interrupt p AND (push_bit 13 1 - 1)) d0 p
     in if intc_visible e s then psx_cycle p else d1)"

definition iopTestIntc :: "'d iop_env \<Rightarrow> 'd iop \<Rightarrow> 'd iop" where
  "iopTestIntc e s =
    (if \<not> intc_visible e s then s
     else if \<not> eeEventTestIsActive e (iopDev s)
     then s\<lparr>iopDev := cpuSetNextEventDelta e 16 (iopDev s), iopEventAction := True\<rparr>
     else if \<not> iopEventTestIsActive s then wpsx (psxSetNextBranchDelta 2) s
     else s)"

end
