(* ===== verification/IOP_Exec.thy ===== *)
theory IOP_Exec
  imports IOP_Event
begin

text \<open>
  The interpreter of the I/O processor (\<^verbatim>\<open>pcsx2/R3000AInterpreter.cpp\<close>): branches with their
  delay slots, instruction dispatch, the block loop, and the fallback that executes one window of
  instructions for the block compiler. A branch executes its delay slot by calling the interpreter
  again, so a chain of branches in delay slots nests; \<open>exec_fuel n\<close> allows \<open>n\<close> nested
  instructions. The breakpoint checks, which only development builds contain, and the log output are
  left out.
\<close>

subsection \<open>The state of the interpreter\<close>

text \<open>The static variables of the file. The opcodes of the window are an array of the length of the
  list.\<close>

record 'd interp =
  mach :: "'d iop"
  branch2 :: bool
  branchPC :: u32
  FallbackActive :: bool
  FallbackIrxHandled :: bool
  FallbackExceptionHandled :: bool
  FallbackUnalignedTarget :: bool
  FallbackBreakpoint :: bool
  FallbackInstructions :: u32
  FallbackInstructionCount :: u32
  FallbackOpcodes :: "u32 list"
  RegisterJumpTargetValid :: bool
  RegisterJumpTarget :: u32
  ConstGprs :: u32
  CompileBranch :: bool
  DelayPending :: bool
  DelayInstruction :: u32
  DelayBranch :: bool

text \<open>An execution is done, has used up its fuel, or has read the array of opcodes outside its
  bounds.\<close>

datatype 'a outcome = Done 'a | NoFuel | BadIndex

definition obind :: "'a outcome \<Rightarrow> ('a \<Rightarrow> 'b outcome) \<Rightarrow> 'b outcome" where
  "obind r f = (case r of Done a \<Rightarrow> f a | NoFuel \<Rightarrow> NoFuel | BadIndex \<Rightarrow> BadIndex)"

lemma obind_simps [simp]:
  "obind (Done a) f = f a" "obind NoFuel f = NoFuel" "obind BadIndex f = BadIndex"
  by (simp_all add: obind_def)

definition opcode_at :: "u32 \<Rightarrow> 'd interp \<Rightarrow> u32 outcome" where
  "opcode_at i st = (if unat i < length (FallbackOpcodes st) then Done (FallbackOpcodes st ! unat i) else BadIndex)"

definition wmach :: "('d iop \<Rightarrow> 'd iop) \<Rightarrow> 'd interp \<Rightarrow> 'd interp" where
  "wmach f st = st\<lparr>mach := f (mach st)\<rparr>"

abbreviation regs :: "'d interp \<Rightarrow> psxRegisters" where
  "regs st \<equiv> psx (mach st)"

definition set_delay :: "bool \<Rightarrow> 'd interp \<Rightarrow> 'd interp" where
  "set_delay b = wmach (\<lambda>s. s\<lparr>iopIsDelaySlot := b\<rparr>)"

definition set_pc :: "u32 \<Rightarrow> 'd interp \<Rightarrow> 'd interp" where
  "set_pc a = wmach (wpsx (\<lambda>p. p\<lparr>psx_pc := a\<rparr>))"

definition set_code :: "u32 \<Rightarrow> 'd interp \<Rightarrow> 'd interp" where
  "set_code c = wmach (wpsx (\<lambda>p. p\<lparr>psx_code := c\<rparr>))"

lemma wmach_simps [simp]:
  "mach (wmach f st) = f (mach st)" "branch2 (wmach f st) = branch2 st"
  "branchPC (wmach f st) = branchPC st" "FallbackActive (wmach f st) = FallbackActive st"
  "FallbackIrxHandled (wmach f st) = FallbackIrxHandled st"
  "FallbackExceptionHandled (wmach f st) = FallbackExceptionHandled st"
  "FallbackUnalignedTarget (wmach f st) = FallbackUnalignedTarget st"
  "FallbackBreakpoint (wmach f st) = FallbackBreakpoint st"
  "FallbackInstructions (wmach f st) = FallbackInstructions st"
  "FallbackInstructionCount (wmach f st) = FallbackInstructionCount st"
  "FallbackOpcodes (wmach f st) = FallbackOpcodes st"
  "RegisterJumpTargetValid (wmach f st) = RegisterJumpTargetValid st"
  "RegisterJumpTarget (wmach f st) = RegisterJumpTarget st" "ConstGprs (wmach f st) = ConstGprs st"
  "CompileBranch (wmach f st) = CompileBranch st" "DelayPending (wmach f st) = DelayPending st"
  "DelayInstruction (wmach f st) = DelayInstruction st" "DelayBranch (wmach f st) = DelayBranch st"
  by (simp_all add: wmach_def)

subsection \<open>Classification of instructions\<close>

definition VitaIopRecompilerOpcodeIsBranch :: "u32 \<Rightarrow> bool" where
  "VitaIopRecompilerOpcodeIsBranch op =
    (let primary = drop_bit 26 op; rt = drop_bit 16 op AND 0x1f
     in if primary = 0 then op AND 0x3f = 8 \<or> op AND 0x3f = 9
        else if primary = 1 then rt = 0 \<or> rt = 1 \<or> rt = 16 \<or> rt = 17
        else 2 \<le> primary \<and> primary \<le> 7)"

definition VitaIopRecompilerOpcodeIsException :: "u32 \<Rightarrow> bool" where
  "VitaIopRecompilerOpcodeIsException op =
    (drop_bit 26 op = 0 \<and> (op AND 0x3f = 0x0c \<or> op AND 0x3f = 0x0d))"

definition VitaIopRecompilerInstructionRedirected :: "u32 \<Rightarrow> u32 \<Rightarrow> 'd interp \<Rightarrow> bool" where
  "VitaIopRecompilerInstructionRedirected op instruction_pc st =
    (psx_pc (regs st) \<noteq> (if VitaIopRecompilerOpcodeIsException op then instruction_pc else instruction_pc + 4))"

subsection \<open>The constant registers of the window\<close>

definition VitaIopRecompilerGprIsConst :: "u32 \<Rightarrow> 'd interp \<Rightarrow> bool" where
  "VitaIopRecompilerGprIsConst reg st = bit (ConstGprs st) (unat reg)"

definition VitaIopRecompilerSetGprConst :: "u32 \<Rightarrow> bool \<Rightarrow> 'd interp \<Rightarrow> 'd interp" where
  "VitaIopRecompilerSetGprConst reg is_const st =
    (if reg = 0 then st
     else if is_const then st\<lparr>ConstGprs := ConstGprs st OR push_bit (unat reg) 1\<rparr>
     else st\<lparr>ConstGprs := ConstGprs st AND NOT (push_bit (unat reg) 1)\<rparr>)"

definition VitaIopRecompilerDeleteGprConst :: "u32 \<Rightarrow> 'd interp \<Rightarrow> 'd interp" where
  "VitaIopRecompilerDeleteGprConst reg st =
    (if reg < 32 then st\<lparr>ConstGprs := ConstGprs st AND NOT (push_bit (unat reg) 1)\<rparr> else st)"

definition GTE_FUNCTIONS :: "nat list" where
  "GTE_FUNCTIONS = [1, 6, 12, 16, 17, 18, 19, 20, 22, 27, 28, 30, 32, 40, 41, 42, 45, 46, 48, 61, 62, 63]"

definition VitaIopRecompilerUpdateConstState :: "u32 \<Rightarrow> 'd interp \<Rightarrow> 'd interp" where
  "VitaIopRecompilerUpdateConstState op st =
    (let primary = drop_bit 26 op; rs = drop_bit 21 op AND 0x1f; rt = drop_bit 16 op AND 0x1f;
         rd = drop_bit 11 op AND 0x1f; funct = op AND 0x3f;
         const = (\<lambda>r. VitaIopRecompilerGprIsConst r st)
     in if primary = 0
        then if funct \<in> {0x00, 0x02, 0x03} then VitaIopRecompilerSetGprConst rd (const rt) st
             else if funct \<in> {0x04, 0x06, 0x07, 0x20, 0x21, 0x22, 0x23, 0x24, 0x25, 0x26, 0x27, 0x2a, 0x2b}
             then VitaIopRecompilerSetGprConst rd (const rs \<and> const rt) st
             else if funct \<in> {0x10, 0x12} then VitaIopRecompilerSetGprConst rd False st
             else st
        else if 0x08 \<le> primary \<and> primary \<le> 0x0e then VitaIopRecompilerSetGprConst rt (const rs) st
        else if primary = 0x0f then VitaIopRecompilerSetGprConst rt True st
        else if primary = 0x10 \<and> (rs = 0 \<or> rs = 2) then VitaIopRecompilerSetGprConst rt False st
        else if primary = 0x12
        then if funct = 0 \<and> (rs = 0 \<or> rs = 2 \<or> rs = 4 \<or> rs = 6) \<or> unat funct \<in> set GTE_FUNCTIONS
             then VitaIopRecompilerDeleteGprConst rt st else st
        else if 0x20 \<le> primary \<and> primary \<le> 0x26
        then if primary = 0x22 \<or> primary = 0x26 then VitaIopRecompilerDeleteGprConst rt st
             else VitaIopRecompilerSetGprConst rt False st
        else if primary = 0x2a \<or> primary = 0x2e \<or> primary = 0x32 \<or> primary = 0x3a
        then VitaIopRecompilerDeleteGprConst rt st
        else st)"

text \<open>The branch that a conditional instruction takes, whether only one of its two delay copies is
  compiled, and the delay slot this leaves pending.\<close>

definition conditional_taken :: "u32 \<Rightarrow> u32 \<Rightarrow> u32 \<Rightarrow> u32 \<Rightarrow> bool" where
  "conditional_taken primary rt rs_value rt_value =
    (if primary = 1 then (if rt = 0 \<or> rt = 16 then rs_value <s 0 else 0 \<le>s rs_value)
     else if primary = 4 then rs_value = rt_value
     else if primary = 5 then rs_value \<noteq> rt_value
     else if primary = 6 then rs_value \<le>s 0
     else if primary = 7 then 0 <s rs_value
     else False)"

definition VitaIopRecompilerPrepareBranch :: "u32 \<Rightarrow> 'd interp \<Rightarrow> 'd interp" where
  "VitaIopRecompilerPrepareBranch op st =
    (let primary = drop_bit 26 op; rs = drop_bit 21 op AND 0x1f; rt = drop_bit 16 op AND 0x1f;
         st1 = (if primary = 3 then VitaIopRecompilerSetGprConst 31 True st
                else if primary = 0 \<and> op AND 0x3f = 9
                then VitaIopRecompilerSetGprConst (drop_bit 11 op AND 0x1f) True st
                else st);
         linking = (primary = 1 \<and> (rt = 16 \<or> rt = 17));
         conditional = (if primary = 1 then rt = 0 \<or> rt = 1 \<or> rt = 16 \<or> rt = 17
                        else 4 \<le> primary \<and> primary \<le> 7);
         st2 = (if linking then VitaIopRecompilerSetGprConst 31 True st1 else st1);
         rs_value = (if linking \<and> rs = 31 then psx_pc (regs st2) + 4 else psxGPR (regs st2) rs);
         taken = conditional_taken primary rt rs_value (psxGPR (regs st2) rt);
         const = (\<lambda>r. VitaIopRecompilerGprIsConst r st2);
         single_path = (if primary = 4 \<or> primary = 5 then rs = rt \<or> const rs \<and> const rt else const rs);
         second_path = (if primary = 4 then \<not> taken else taken)
     in st2\<lparr>DelayPending := True, DelayInstruction := FallbackInstructions st2,
            DelayBranch := (if conditional \<and> \<not> single_path \<and> second_path then True else CompileBranch st),
            CompileBranch := True\<rparr>)"

text \<open>A load from ordinary memory, read directly instead of through the lookup table.\<close>

definition VitaExecuteIopRecompilerDirectLoad :: "'d iop_env \<Rightarrow> u32 \<Rightarrow> 'd iop \<Rightarrow> 'd iop option" where
  "VitaExecuteIopRecompilerDirectLoad e op s =
    (let primary = drop_bit 26 op; rs = drop_bit 21 op AND 0x1f; rt = drop_bit 16 op AND 0x1f;
         address = psxGPR (psx s) rs + scast (ucast op :: u16);
         source = Main_base e + (address AND (ExposedIopRam e - 1))
     in if primary \<notin> {0x20, 0x21, 0x23, 0x24, 0x25} then None
        else if address AND 0x10000000 \<noteq> 0 then None
        else if rt = 0 then Some s
        else let v = (if primary = 0x20 then scast (hget source s :: u8)
                      else if primary = 0x24 then ucast (hget source s :: u8)
                      else if primary = 0x21 then scast (hget source s :: u16)
                      else if primary = 0x25 then ucast (hget source s :: u16)
                      else hget source s :: u32)
             in Some (wpsx (wR rt v) s))"

subsection \<open>Branches\<close>

text \<open>\<open>rec\<close> executes one instruction, \<open>n\<close> bounds the loop over nested branches. In the fallback a
  delay slot is one of the opcodes of the window, and an instruction that redirected the program
  counter ends it; otherwise the delay slot executes from memory and the event test follows.\<close>

fun nested_branches :: "nat \<Rightarrow> ('d interp \<Rightarrow> 'd interp outcome) \<Rightarrow> 'd interp \<Rightarrow> 'd interp outcome" where
  "nested_branches 0 rec st = NoFuel"
| "nested_branches (Suc n) rec st =
    (if FallbackInstructions st < FallbackInstructionCount st
     then let index = FallbackInstructions st; delay_pc = psx_pc (regs st)
          in obind (opcode_at index st) (\<lambda>delay_op. obind (rec st) (\<lambda>st1.
               if FallbackIrxHandled st1 \<or> FallbackExceptionHandled st1 \<or> FallbackUnalignedTarget st1 \<or>
                  FallbackBreakpoint st1 then Done st1
               else if \<not> VitaIopRecompilerOpcodeIsBranch delay_op
               then Done (if VitaIopRecompilerInstructionRedirected delay_op delay_pc st1
                          then st1\<lparr>FallbackExceptionHandled := True\<rparr>
                          else if VitaIopRecompilerOpcodeIsException delay_op then set_pc (delay_pc + 4) st1
                          else st1)
               else if index + 1 < FallbackInstructions st1 then Done st1
               else nested_branches n rec st1))
     else Done st)"

definition fallback_branch ::
  "nat \<Rightarrow> ('d interp \<Rightarrow> 'd interp outcome) \<Rightarrow> u32 \<Rightarrow> 'd interp \<Rightarrow> 'd interp outcome" where
  "fallback_branch n rec tar st0 =
    (let st = set_delay False (st0\<lparr>branch2 := True\<rparr>)
     in if FallbackInstructionCount st \<le> FallbackInstructions st
        then Done (st\<lparr>FallbackExceptionHandled := True\<rparr>)
        else obind (opcode_at (FallbackInstructions st) st) (\<lambda>first_delay_op.
          if VitaIopRecompilerOpcodeIsBranch first_delay_op then nested_branches n rec st
          else let delay_pc = psx_pc (regs st)
               in obind (rec st) (\<lambda>st1.
                 let st2 = set_delay False st1
                 in Done (if FallbackIrxHandled st2 \<or> FallbackBreakpoint st2 then st2
                          else if VitaIopRecompilerInstructionRedirected first_delay_op delay_pc st2
                          then st2\<lparr>FallbackExceptionHandled := True\<rparr>
                          else let st3 = set_pc tar st2
                               in if tar AND 3 \<noteq> 0 then st3\<lparr>FallbackUnalignedTarget := True\<rparr> else st3))))"

definition psxDoBranch ::
  "'d iop_env \<Rightarrow> nat \<Rightarrow> ('d interp \<Rightarrow> 'd interp outcome) \<Rightarrow> u32 \<Rightarrow> 'd interp \<Rightarrow> 'd interp outcome" where
  "psxDoBranch e n rec tar0 st0 =
    (let retained = (FallbackActive st0 \<and> RegisterJumpTargetValid st0);
         tar = (if retained then RegisterJumpTarget st0 else tar0);
         st1 = (if retained then st0\<lparr>RegisterJumpTargetValid := False\<rparr> else st0);
         st2 = (if \<not> FallbackActive st1 \<and> tar = 0x890
                then wmach (\<lambda>s. s\<lparr>iopDev := ClearIrxModules e (iopDev s)\<rparr>) st1 else st1);
         st3 = (if \<not> FallbackActive st2 \<and> tar = 0xbfc4a000
                then wmach (wpsx (wR 4 (drop_bit 20 (ExposedIopRam e)))) st2 else st2)
     in if FallbackActive st3 then fallback_branch n rec tar st3
        else obind (rec (set_delay True (st3\<lparr>branch2 := True, branchPC := tar\<rparr>))) (\<lambda>st4.
               let st5 = set_pc (branchPC st4) (set_delay False st4)
               in Done (if \<not> FallbackActive st5 then wmach (iopEventTest e) st5 else st5)))"

text \<open>The search for the import table before a module call, at most \<open>0x2000\<close> bytes back.\<close>

function irx_scan :: "'d iop_env \<Rightarrow> u32 \<Rightarrow> nat \<Rightarrow> 'd iop \<Rightarrow> u32 \<times> 'd iop" where
  "irx_scan e entrypc off s =
    (if off < 0x2000
     then case iopMemRead32 e (entrypc - of_nat off) s of (v, s1) \<Rightarrow>
            if v = 0x41e00000 then (entrypc - of_nat off, s1) else irx_scan e entrypc (off + 4) s1
     else (0, s))"
  by pat_completeness auto
termination by (relation "measure (\<lambda>(e, entrypc, off, s). 0x2000 - off)") simp_all

declare irx_scan.simps [simp del]

definition irxImportTableAddr :: "'d iop_env \<Rightarrow> u32 \<Rightarrow> 'd iop \<Rightarrow> u32 \<times> 'd iop" where
  "irxImportTableAddr e entrypc s = irx_scan e entrypc 0x18 s"

text \<open>The delay slot of a jump; a jump to a module import executes the module's emulation instead,
  when there is one. In the fallback the emulation sees the state after the delay slot.\<close>

definition jump_delayslot :: "'d iop_env \<Rightarrow> 'd interp \<Rightarrow> (u32 \<times> 'd interp) outcome" where
  "jump_delayslot e st =
    (if FallbackActive st \<and> FallbackInstructions st < FallbackInstructionCount st
     then obind (opcode_at (FallbackInstructions st) st) (\<lambda>d. Done (d, st))
     else case iopMemRead32 e (psx_pc (regs st)) (mach st) of (d, s1) \<Rightarrow> Done (d, st\<lparr>mach := s1\<rparr>))"

definition irx_import :: "'d iop_env \<Rightarrow> u32 \<Rightarrow> 'd interp \<Rightarrow> bool \<times> 'd interp" where
  "irx_import e delayslot st1 =
    (if FallbackActive st1
     then let marker_pc = psx_pc (regs st1); jump_code = psx_code (regs st1);
              (import_table, s2) = irxImportTableAddr e marker_pc (mach st1);
              st2 = set_pc (marker_pc + 4) (set_code delayslot (st1\<lparr>mach := s2\<rparr>));
              (handled, s3) = irxImportExec e import_table (delayslot AND 0xffff) (mach st2);
              st3 = st2\<lparr>mach := s3\<rparr>
          in if handled \<noteq> 0 then (True, st3\<lparr>FallbackIrxHandled := True\<rparr>)
             else (False, set_pc marker_pc (set_code jump_code st3))
     else let (import_table, s2) = irxImportTableAddr e (psx_pc (regs st1)) (mach st1);
              (handled, s3) = irxImportExec e import_table (delayslot AND 0xffff) s2
          in (handled \<noteq> 0, st1\<lparr>mach := s3\<rparr>))"

definition psxDoJump ::
  "'d iop_env \<Rightarrow> nat \<Rightarrow> ('d interp \<Rightarrow> 'd interp outcome) \<Rightarrow> u32 \<Rightarrow> 'd interp \<Rightarrow> 'd interp outcome" where
  "psxDoJump e n rec tar st =
    obind (jump_delayslot e st) (\<lambda>(delayslot, st1).
      if drop_bit 16 delayslot = 0x2400
      then case irx_import e delayslot st1 of (handled, st2) \<Rightarrow>
             if handled then Done st2 else psxDoBranch e n rec tar st2
      else psxDoBranch e n rec tar st1)"

subsection \<open>Branch instructions\<close>

definition branch_if ::
  "('d interp \<Rightarrow> bool) \<Rightarrow> (u32 \<Rightarrow> 'd interp \<Rightarrow> 'd interp outcome) \<Rightarrow> 'd interp \<Rightarrow> 'd interp outcome" where
  "branch_if c br st = (if c st then br (pBranchTarget (regs st)) st else Done st)"

definition link :: "u32 \<Rightarrow> 'd interp \<Rightarrow> 'd interp" where
  "link r = wmach (wpsx (pSetLink r))"

definition psxBGEZ :: "(u32 \<Rightarrow> 'd interp \<Rightarrow> 'd interp outcome) \<Rightarrow> 'd interp \<Rightarrow> 'd interp outcome" where [iop_defs]:
  "psxBGEZ br st = branch_if (\<lambda>st. 0 \<le>s rRs (regs st)) br st"

definition psxBGEZAL :: "(u32 \<Rightarrow> 'd interp \<Rightarrow> 'd interp outcome) \<Rightarrow> 'd interp \<Rightarrow> 'd interp outcome" where [iop_defs]:
  "psxBGEZAL br st = branch_if (\<lambda>st. 0 \<le>s rRs (regs st)) br (link 31 st)"

definition psxBGTZ :: "(u32 \<Rightarrow> 'd interp \<Rightarrow> 'd interp outcome) \<Rightarrow> 'd interp \<Rightarrow> 'd interp outcome" where [iop_defs]:
  "psxBGTZ br st = branch_if (\<lambda>st. 0 <s rRs (regs st)) br st"

definition psxBLEZ :: "(u32 \<Rightarrow> 'd interp \<Rightarrow> 'd interp outcome) \<Rightarrow> 'd interp \<Rightarrow> 'd interp outcome" where [iop_defs]:
  "psxBLEZ br st = branch_if (\<lambda>st. rRs (regs st) \<le>s 0) br st"

definition psxBLTZ :: "(u32 \<Rightarrow> 'd interp \<Rightarrow> 'd interp outcome) \<Rightarrow> 'd interp \<Rightarrow> 'd interp outcome" where [iop_defs]:
  "psxBLTZ br st = branch_if (\<lambda>st. rRs (regs st) <s 0) br st"

definition psxBLTZAL :: "(u32 \<Rightarrow> 'd interp \<Rightarrow> 'd interp outcome) \<Rightarrow> 'd interp \<Rightarrow> 'd interp outcome" where [iop_defs]:
  "psxBLTZAL br st = branch_if (\<lambda>st. rRs (regs st) <s 0) br (link 31 st)"

definition psxBEQ :: "(u32 \<Rightarrow> 'd interp \<Rightarrow> 'd interp outcome) \<Rightarrow> 'd interp \<Rightarrow> 'd interp outcome" where [iop_defs]:
  "psxBEQ br st = branch_if (\<lambda>st. rRs (regs st) = rRt (regs st)) br st"

definition psxBNE :: "(u32 \<Rightarrow> 'd interp \<Rightarrow> 'd interp outcome) \<Rightarrow> 'd interp \<Rightarrow> 'd interp outcome" where [iop_defs]:
  "psxBNE br st = branch_if (\<lambda>st. rRs (regs st) \<noteq> rRt (regs st)) br st"

definition psxJ :: "(u32 \<Rightarrow> 'd interp \<Rightarrow> 'd interp outcome) \<Rightarrow> 'd interp \<Rightarrow> 'd interp outcome" where [iop_defs]:
  "psxJ jump st = jump (pJumpTarget (regs st)) st"

definition psxJAL :: "(u32 \<Rightarrow> 'd interp \<Rightarrow> 'd interp outcome) \<Rightarrow> 'd interp \<Rightarrow> 'd interp outcome" where [iop_defs]:
  "psxJAL br st = (let st1 = link 31 st in br (pJumpTarget (regs st1)) st1)"

definition psxJR :: "(u32 \<Rightarrow> 'd interp \<Rightarrow> 'd interp outcome) \<Rightarrow> 'd interp \<Rightarrow> 'd interp outcome" where [iop_defs]:
  "psxJR br st = br (rRs (regs st)) st"

definition psxJALR :: "(u32 \<Rightarrow> 'd interp \<Rightarrow> 'd interp outcome) \<Rightarrow> 'd interp \<Rightarrow> 'd interp outcome" where [iop_defs]:
  "psxJALR br st =
    (let st1 = (if pRd (regs st) \<noteq> 0 then link (pRd (regs st)) st else st) in br (rRs (regs st1)) st1)"

subsection \<open>Dispatch\<close>

text \<open>The tables; \<open>psxNULL\<close> only reports the opcode. A register instruction is lifted by \<open>onR\<close> and
  an instruction on the machine by \<open>onM\<close>.\<close>

definition onM :: "('d iop \<Rightarrow> 'd iop) \<Rightarrow> 'd interp \<Rightarrow> 'd interp outcome" where
  "onM f st = Done (wmach f st)"

definition onR :: "(psxRegisters \<Rightarrow> psxRegisters) \<Rightarrow> 'd interp \<Rightarrow> 'd interp outcome" where
  "onR f = onM (wpsx f)"

definition psxNULL :: "'d interp \<Rightarrow> 'd interp outcome" where
  "psxNULL st = Done st"

definition psxSPC :: "'d iop_env \<Rightarrow> (u32 \<Rightarrow> 'd interp \<Rightarrow> 'd interp outcome) \<Rightarrow> ('d interp \<Rightarrow> 'd interp outcome) list" where
  "psxSPC e br = [
     onR psxSLL, psxNULL, onR psxSRL, onR psxSRA, onR psxSLLV, psxNULL, onR psxSRLV, onR psxSRAV,
     psxJR br, psxJALR br, psxNULL, psxNULL, onM (psxSYSCALL e), onM (psxBREAK e), psxNULL, psxNULL,
     onR psxMFHI, onR psxMTHI, onR psxMFLO, onR psxMTLO, psxNULL, psxNULL, psxNULL, psxNULL,
     onR psxMULT, onR psxMULTU, onR psxDIV, onR psxDIVU, psxNULL, psxNULL, psxNULL, psxNULL,
     onR psxADD, onR psxADDU, onR psxSUB, onR psxSUBU, onR psxAND, onR psxOR, onR psxXOR, onR psxNOR,
     psxNULL, psxNULL, onR psxSLT, onR psxSLTU, psxNULL, psxNULL, psxNULL, psxNULL,
     psxNULL, psxNULL, psxNULL, psxNULL, psxNULL, psxNULL, psxNULL, psxNULL,
     psxNULL, psxNULL, psxNULL, psxNULL, psxNULL, psxNULL, psxNULL, psxNULL]"

definition psxREG :: "(u32 \<Rightarrow> 'd interp \<Rightarrow> 'd interp outcome) \<Rightarrow> ('d interp \<Rightarrow> 'd interp outcome) list" where
  "psxREG br = [psxBLTZ br, psxBGEZ br] @ replicate 14 psxNULL @ [psxBLTZAL br, psxBGEZAL br] @
     replicate 14 psxNULL"

definition psxCP0_table :: "('d interp \<Rightarrow> 'd interp outcome) list" where
  "psxCP0_table = [onR psxMFC0, psxNULL, onR psxCFC0, psxNULL, onR psxMTC0, psxNULL, onR psxCTC0, psxNULL] @
     replicate 8 psxNULL @ [onR psxRFE] @ replicate 15 psxNULL"

definition psxCP2BSC :: "('d interp \<Rightarrow> 'd interp outcome) list" where
  "psxCP2BSC = [onR gteMFC2, psxNULL, onR gteCFC2, psxNULL, onR gteMTC2, psxNULL, onR gteCTC2, psxNULL] @
     replicate 24 psxNULL"

text \<open>The geometry commands are those with an entry in the table, which are the function codes of
  \<open>GTE_FUNCTIONS\<close>; function code 0 is a move.\<close>

definition psxCP2 :: "'d iop_env \<Rightarrow> ('d interp \<Rightarrow> 'd interp outcome) list" where
  "psxCP2 e = map (\<lambda>f. if f = 0 then (\<lambda>st. (psxCP2BSC ! unat (pRs (regs st))) st)
     else if f \<in> set GTE_FUNCTIONS then onR (GteCommand e (of_nat f)) else psxNULL) [0..<64]"

definition psxBSC ::
  "'d iop_env \<Rightarrow> nat \<Rightarrow> ('d interp \<Rightarrow> 'd interp outcome) \<Rightarrow> ('d interp \<Rightarrow> 'd interp outcome) list" where
  "psxBSC e n rec =
    (let br = psxDoBranch e n rec; jump = psxDoJump e n rec;
         psxSPECIAL = (\<lambda>st. (psxSPC e br ! unat (pFunct (regs st))) st);
         psxREGIMM = (\<lambda>st. (psxREG br ! unat (pRt (regs st))) st);
         psxCOP0 = (\<lambda>st. (psxCP0_table ! unat (pRs (regs st))) st);
         psxCOP2 = (\<lambda>st. (psxCP2 e ! unat (pFunct (regs st))) st)
     in [psxSPECIAL, psxREGIMM, psxJ jump, psxJAL br, psxBEQ br, psxBNE br, psxBLEZ br, psxBGTZ br,
         onR psxADDI, onR psxADDIU, onR psxSLTI, onR psxSLTIU, onR psxANDI, onR psxORI, onR psxXORI, onR psxLUI,
         psxCOP0, psxNULL, psxCOP2, psxNULL, psxNULL, psxNULL, psxNULL, psxNULL,
         psxNULL, psxNULL, psxNULL, psxNULL, psxNULL, psxNULL, psxNULL, psxNULL,
         onM (psxLB e), onM (psxLH e), onM (psxLWL e), onM (psxLW e), onM (psxLBU e), onM (psxLHU e),
         onM (psxLWR e), psxNULL,
         onM (psxSB e), onM (psxSH e), onM (psxSWL e), onM (psxSW e), psxNULL, psxNULL, onM (psxSWR e), psxNULL,
         psxNULL, psxNULL, onM (gteLWC2 e), psxNULL, psxNULL, psxNULL, psxNULL, psxNULL,
         psxNULL, psxNULL, onM (gteSWC2 e), psxNULL, psxNULL, psxNULL, psxNULL, psxNULL])"

subsection \<open>One instruction\<close>

text \<open>The stages of \<^verbatim>\<open>execI\<close>: the pending delay slot of the fallback, the module
  injection, the fetch with the retained jump target, the trace hook, the dispatch, and the
  bookkeeping after the instruction.\<close>

definition delay_instruction :: "'d interp \<Rightarrow> bool" where
  "delay_instruction st = (FallbackActive st \<and> DelayPending st \<and> DelayInstruction st = FallbackInstructions st)"

definition exec_enter :: "'d interp \<Rightarrow> 'd interp" where
  "exec_enter st =
    (if delay_instruction st
     then set_delay (DelayBranch st) (st\<lparr>DelayPending := False, CompileBranch := DelayBranch st\<rparr>)
     else st)"

definition exec_inject :: "'d iop_env \<Rightarrow> 'd interp \<Rightarrow> 'd interp" where
  "exec_inject e st =
    (if \<not> FallbackActive st \<and> psx_pc (regs st) = 0x1630 \<and> InjectIRX e
     then wmach (\<lambda>s. case iopMemRead32 e 0x20018 s of (v, s1) \<Rightarrow>
            if v = 0x1F then iopMemWrite32 e 0x20094 0xbffc0000 s1 else s1) st
     else st)"

definition exec_fetch :: "'d iop_env \<Rightarrow> 'd interp \<Rightarrow> 'd interp outcome" where
  "exec_fetch e st =
    obind (if FallbackActive st then obind (opcode_at (FallbackInstructions st) st) (\<lambda>c. Done (c, st))
           else case iopMemRead32 e (psx_pc (regs st)) (mach st) of (c, s1) \<Rightarrow> Done (c, st\<lparr>mach := s1\<rparr>))
      (\<lambda>(c, st1).
        let st2 = set_code c st1
        in Done (if FallbackActive st2 \<and> drop_bit 26 c = 0 \<and> (c AND 0x3f = 8 \<or> c AND 0x3f = 9)
                 then st2\<lparr>RegisterJumpTarget := psxGPR (regs st2) (drop_bit 21 c AND 0x1f),
                          RegisterJumpTargetValid := True\<rparr>
                 else st2))"

definition exec_advance :: "'d interp \<Rightarrow> 'd interp" where
  "exec_advance st =
    (let st1 = set_pc (psx_pc (regs st) + 4) st; op = psx_code (regs st);
         st2 = (if FallbackActive st1 then st1\<lparr>FallbackInstructions := FallbackInstructions st1 + 1\<rparr>
                else wmach (wpsx (\<lambda>p. p\<lparr>psx_cycle := psx_cycle p + 1\<rparr>)) st1)
     in if FallbackActive st2 \<and> VitaIopRecompilerOpcodeIsBranch op
        then VitaIopRecompilerPrepareBranch op st2 else st2)"

definition exec_dispatch ::
  "'d iop_env \<Rightarrow> nat \<Rightarrow> ('d interp \<Rightarrow> 'd interp outcome) \<Rightarrow> 'd interp \<Rightarrow> 'd interp outcome" where
  "exec_dispatch e n rec st =
    (let c = psx_code (regs st);
         direct = (if FallbackActive st then VitaExecuteIopRecompilerDirectLoad e c (mach st) else None)
     in case direct of
          Some s1 \<Rightarrow> Done (st\<lparr>mach := s1\<rparr>)
        | None \<Rightarrow> (psxBSC e n rec ! unat (drop_bit 26 c)) st)"

definition exec_leave :: "'d iop_env \<Rightarrow> u32 \<Rightarrow> bool \<Rightarrow> 'd interp \<Rightarrow> 'd interp" where
  "exec_leave e op delayed st =
    (let rfe = (FallbackActive st \<and> drop_bit 26 op = 0x10 \<and> drop_bit 21 op AND 0x1f = 0x10);
         st1 = (if rfe then wmach (iopTestIntc e) st else st)
     in if FallbackActive st1
        then let st2 = (if \<not> VitaIopRecompilerOpcodeIsBranch op then VitaIopRecompilerUpdateConstState op st1
                        else st1)
             in if delayed then set_delay False (st2\<lparr>CompileBranch := True\<rparr>) else st2
        else st1)"

definition execI ::
  "'d iop_env \<Rightarrow> nat \<Rightarrow> ('d interp \<Rightarrow> 'd interp outcome) \<Rightarrow> 'd interp \<Rightarrow> 'd interp outcome" where
  "execI e n rec st0 =
    (let delayed = delay_instruction st0
     in obind (exec_fetch e (exec_inject e (exec_enter st0))) (\<lambda>st1.
          let op = psx_code (regs st1);
              (stop, d) = RecordIopPreInstruction e (psx_pc (regs st1)) op (iopDev (mach st1));
              st2 = wmach (\<lambda>s. s\<lparr>iopDev := d\<rparr>) st1
          in if stop
             then Done (wmach (\<lambda>s. s\<lparr>iopDev := Cpu_ExitExecution e (iopDev s)\<rparr>)
                    ((wmach (wpsx (\<lambda>p. p\<lparr>iopCycleEE := 0\<rparr>)) st2)\<lparr>branch2 := True\<rparr>))
             else obind (exec_dispatch e n rec (exec_advance st2)) (\<lambda>st3. Done (exec_leave e op delayed st3))))"

fun exec_fuel :: "'d iop_env \<Rightarrow> nat \<Rightarrow> 'd interp \<Rightarrow> 'd interp outcome" where
  "exec_fuel e 0 st = NoFuel"
| "exec_fuel e (Suc n) st = execI e (Suc n) (exec_fuel e n) st"

subsection \<open>The block loops\<close>

fun until_branch :: "'d iop_env \<Rightarrow> nat \<Rightarrow> nat \<Rightarrow> 'd interp \<Rightarrow> 'd interp outcome" where
  "until_branch e n 0 st = NoFuel"
| "until_branch e n (Suc k) st =
    (if branch2 st then Done st else obind (exec_fuel e n st) (until_branch e n k))"

text \<open>The cycles of the I/O processor in cycles of the main processor: eight each, or the exact
  ratio with a carry in the compatibility mode.\<close>

definition charge_cycles :: "'d iop_env \<Rightarrow> u64 \<Rightarrow> 'd iop \<Rightarrow> 'd iop" where
  "charge_cycles e lastIOPCycle s =
    (if (hget (psxHu e HW_ICFG) s :: u32) AND 8 \<noteq> 0
     then let t = ucast (1280 * (psx_cycle (psx s) - lastIOPCycle) + ucast (iopCycleEECarry (psx s))) :: u32
          in wpsx (\<lambda>p. p\<lparr>iopCycleEE := iopCycleEE p - t div 147, iopCycleEECarry := t mod 147\<rparr>) s
     else wpsx (\<lambda>p. p\<lparr>iopCycleEE := iopCycleEE p - ucast ((psx_cycle p - lastIOPCycle) * 8)\<rparr>) s)"

fun execute_loop :: "'d iop_env \<Rightarrow> nat \<Rightarrow> nat \<Rightarrow> 'd interp \<Rightarrow> 'd interp outcome" where
  "execute_loop e n 0 st = NoFuel"
| "execute_loop e n (Suc k) st =
    (if 0 <s iopCycleEE (regs st)
     then let lastIOPCycle = psx_cycle (regs st); a = psx_pc (regs st) AND 0x1fffffff;
              st1 = (if (hget (psxHu e HW_ICFG) (mach st) :: u32) AND 8 \<noteq> 0 \<and> (a = 0xa0 \<or> a = 0xb0 \<or> a = 0xc0)
                     then wmach (psxBiosCall e) st else st)
          in obind (until_branch e n k (st1\<lparr>branch2 := False\<rparr>)) (\<lambda>st2.
               execute_loop e n k (wmach (charge_cycles e lastIOPCycle) st2))
     else Done st)"

definition intExecuteBlock :: "'d iop_env \<Rightarrow> nat \<Rightarrow> u32 \<Rightarrow> 'd interp \<Rightarrow> (u32 \<times> 'd interp) outcome" where
  "intExecuteBlock e n eeCycles st =
    obind (execute_loop e n n (wmach (wpsx (\<lambda>p. p\<lparr>iopBreak := 0, iopCycleEE := eeCycles\<rparr>)) st))
      (\<lambda>st1. Done (iopBreak (regs st1) + iopCycleEE (regs st1), st1))"

subsection \<open>The fallback of the block compiler\<close>

datatype VitaIopInterpreterRecompilerExit =
  Exit_Failed | Exit_Completed | Exit_IrxHandled | Exit_ExceptionHandled | Exit_UnalignedTarget | Exit_Breakpoint

definition fallback_ended :: "'d interp \<Rightarrow> bool" where
  "fallback_ended st = (FallbackIrxHandled st \<or> FallbackExceptionHandled st \<or> FallbackUnalignedTarget st \<or>
     FallbackBreakpoint st)"

definition fallback_after :: "u32 \<Rightarrow> u32 \<Rightarrow> 'd interp \<Rightarrow> 'd interp" where
  "fallback_after op before_pc st =
    (if \<not> FallbackIrxHandled st \<and> \<not> FallbackExceptionHandled st \<and> \<not> FallbackUnalignedTarget st \<and>
        \<not> VitaIopRecompilerOpcodeIsBranch op
     then if VitaIopRecompilerInstructionRedirected op before_pc st then st\<lparr>FallbackExceptionHandled := True\<rparr>
          else if VitaIopRecompilerOpcodeIsException op then set_pc (before_pc + 4) st
          else st
     else st)"

text \<open>The loop answers whether it failed.\<close>

fun fallback_loop :: "'d iop_env \<Rightarrow> nat \<Rightarrow> nat \<Rightarrow> u32 \<Rightarrow> 'd interp \<Rightarrow> (bool \<times> 'd interp) outcome" where
  "fallback_loop e n 0 instruction_count st = NoFuel"
| "fallback_loop e n (Suc k) instruction_count st =
    (if FallbackInstructions st < instruction_count \<and> \<not> fallback_ended st
     then let before = FallbackInstructions st; before_pc = psx_pc (regs st)
          in obind (opcode_at before st) (\<lambda>op. obind (exec_fuel e n st) (\<lambda>st1.
               if \<not> FallbackBreakpoint st1 \<and> FallbackInstructions st1 \<le> before \<or>
                  instruction_count < FallbackInstructions st1
               then Done (True, st1)
               else fallback_loop e n k instruction_count (fallback_after op before_pc st1)))
     else Done (False, st))"

definition fallback_start :: "u32 list \<Rightarrow> u32 \<Rightarrow> 'd interp \<Rightarrow> 'd interp" where
  "fallback_start opcodes instruction_count st =
    (set_delay False st)\<lparr>branch2 := False, FallbackIrxHandled := False, FallbackExceptionHandled := False,
      FallbackUnalignedTarget := False, FallbackBreakpoint := False, FallbackInstructions := 0,
      FallbackInstructionCount := instruction_count, FallbackOpcodes := opcodes,
      RegisterJumpTargetValid := False, ConstGprs := 1, CompileBranch := False, DelayPending := False,
      FallbackActive := True\<rparr>"

definition fallback_exit :: "bool \<Rightarrow> u32 \<Rightarrow> 'd interp \<Rightarrow> VitaIopInterpreterRecompilerExit" where
  "fallback_exit failed instruction_count st =
    (if failed then Exit_Failed
     else if FallbackIrxHandled st then Exit_IrxHandled
     else if FallbackUnalignedTarget st then Exit_UnalignedTarget
     else if FallbackBreakpoint st then Exit_Breakpoint
     else if FallbackExceptionHandled st then Exit_ExceptionHandled
     else if FallbackInstructions st = instruction_count then Exit_Completed else Exit_Failed)"

text \<open>The executed instructions are stored only when there is a place for them; the call fails
  without a window, without instructions or without that place, and while a window executes.\<close>

definition VitaExecuteIopInterpreterRecompilerBlock ::
  "'d iop_env \<Rightarrow> nat \<Rightarrow> u32 list option \<Rightarrow> u32 \<Rightarrow> bool \<Rightarrow> 'd interp \<Rightarrow>
   (VitaIopInterpreterRecompilerExit \<times> u32 \<times> 'd interp) outcome" where
  "VitaExecuteIopInterpreterRecompilerBlock e n opcodes instruction_count has_count st =
    (case opcodes of
       None \<Rightarrow> Done (Exit_Failed, 0, st)
     | Some ops \<Rightarrow>
         if instruction_count = 0 \<or> \<not> has_count \<or> FallbackActive st then Done (Exit_Failed, 0, st)
         else obind (fallback_loop e n n instruction_count (fallback_start ops instruction_count st))
           (\<lambda>(failed, st1).
             let st2 = set_delay False (st1\<lparr>FallbackActive := False, FallbackInstructionCount := 0,
                         FallbackOpcodes := [], RegisterJumpTargetValid := False, ConstGprs := 1,
                         CompileBranch := False, DelayPending := False\<rparr>)
             in Done (fallback_exit failed instruction_count st2, FallbackInstructions st1, st2)))"

end
