(* ===== verification/IOP_Access.thy ===== *)
theory IOP_Access
  imports IOP_Exec
begin

text \<open>
  The memory of the I/O processor as a flat byte array: what the lookup tables hold after their
  set-up, and what the accesses of \<^verbatim>\<open>pcsx2/IopMem.cpp\<close> do in main memory and its mirrors.
\<close>

subsection \<open>The lookup tables after the set-up\<close>

lemma of_nat_eq_u32: "n < 2 ^ 32 \<Longrightarrow> (of_nat n = (j::u32)) \<longleftrightarrow> n = unat j"
  by (auto simp: unat_of_nat_u32)

lemma lut_fill_apply:
  "n \<le> 2 ^ 32 \<Longrightarrow> lut_fill start n f t j = (if unat (j - start) < n then f (j - start) else t j)"
proof (induction n)
  case 0
  then show ?case by (simp add: lut_fill_def)
next
  case (Suc n)
  have "j = of_nat n + start \<longleftrightarrow> unat (j - start) = n"
    using of_nat_eq_u32 [of n "j - start"] Suc.prems by (auto simp: algebra_simps)
  then show ?case using Suc by (auto simp: lut_fill_def less_Suc_eq)
qed

lemma ram_fill_apply:
  "n \<le> 0x80 \<Longrightarrow>
   fold (\<lambda>i t. t(of_nat i := f (of_nat i), of_nat i + 0x2000 := f (of_nat i))) [0..<n] t (j :: u32) =
   (if unat j < n then f j else if unat (j - 0x2000) < n then f (j - 0x2000) else t j)"
proof (induction n)
  case 0
  then show ?case by simp
next
  case (Suc n)
  have n: "j = of_nat n \<longleftrightarrow> unat j = n" "j = of_nat n + 0x2000 \<longleftrightarrow> unat (j - 0x2000) = n"
    using of_nat_eq_u32 [of n j] of_nat_eq_u32 [of n "j - 0x2000"] Suc.prems by (auto simp: algebra_simps)
  have "\<not> (unat j < 0x80 \<and> unat (j - 0x2000) < 0x80)"
    by (auto simp: unat_sub_if_size word_size)
  then show ?case using Suc n by (auto simp: less_Suc_eq)
qed

text \<open>The memory is exposed with 2 or 8 megabytes, in an array at a host address that is not null.\<close>

definition iop_layout :: "'d iop_env \<Rightarrow> bool" where
  "iop_layout e \<longleftrightarrow> (ExposedIopRam e = 0x200000 \<or> ExposedIopRam e = 0x800000) \<and> Main_base e \<noteq> 0 \<and>
     unat (Main_base e) + 0x800000 \<le> 2 ^ 32"

definition iop_ready :: "'d iop_env \<Rightarrow> 'd iop \<Rightarrow> bool" where
  "iop_ready e s \<longleftrightarrow> iop_layout e \<and> (\<exists>t. psxMemWLUT s = ResetIopMemoryLookupTables e t)"

definition ram_offset :: "'d iop_env \<Rightarrow> u32 \<Rightarrow> u32" where
  "ram_offset e mem = mem AND (ExposedIopRam e - 1)"

definition in_ram :: "u32 \<Rightarrow> bool" where
  "in_ram mem \<longleftrightarrow> mem AND 0x1fffffff < 0x800000"

lemma lut_ram:
  assumes "i < 0x80"
  shows "ResetIopMemoryLookupTables e t i = Main_base e + push_bit 16 (i AND (ExposedIopRam e div 0x10000 - 1))"
    "ResetIopMemoryLookupTables e t (0x2000 + i) = Main_base e + push_bit 16 (i AND (ExposedIopRam e div 0x10000 - 1))"
proof -
  have i: "unat i < 0x80" using assms by (simp add: word_less_nat_alt)
  have ne: "i \<noteq> c" if "0x80 \<le> c" for c using assms that by auto
  have far: "\<not> unat (i - c) < 0x40" if "0x1e00 \<le> unat c" "unat c \<le> 0x4000" for c :: u32
    using i that by (auto simp: unat_sub_if_size word_size)
  have far2: "\<not> unat (0x2000 + i - c) < 0x40" if "0x3e00 \<le> unat c" "unat c \<le> 0x4000" for c :: u32
    using i that by (auto simp: unat_sub_if_size word_size unat_word_ariths)
  have u2: "unat (0x2000 + i) = 0x2000 + unat i" using i by (simp add: unat_word_ariths)
  have ne2: "0x2000 + i \<noteq> c" if "0x2080 \<le> unat c" for c using u2 i that by auto
  have "unat (0x100 + i) = 0x100 + unat i" "unat (0x80 + i) = 0x80 + unat i"
    using i by (simp_all add: unat_word_ariths)
  then have nz: "0x100 + i \<noteq> 0" "0x80 + i \<noteq> 0" by (metis add_is_0 unat_0 zero_neq_numeral)+
  note fill = ram_fill_apply [of "0x80" "\<lambda>i. Main_base e + push_bit 16 (i AND (ExposedIopRam e div 0x10000 - 1))", simplified]
  show "ResetIopMemoryLookupTables e t i = Main_base e + push_bit 16 (i AND (ExposedIopRam e div 0x10000 - 1))"
    using i by (simp add: ResetIopMemoryLookupTables_def Let_def lut_fill_apply fill far ne)
  show "ResetIopMemoryLookupTables e t (0x2000 + i) = Main_base e + push_bit 16 (i AND (ExposedIopRam e div 0x10000 - 1))"
    using i u2 by (simp add: ResetIopMemoryLookupTables_def Let_def lut_fill_apply fill far far2 ne2 nz)
qed

lemma ram_page_less: "in_ram mem \<Longrightarrow> drop_bit 16 (mem AND 0x1fffffff) < 0x80"
  unfolding in_ram_def by (simp add: drop_bit_eq_div word_less_nat_alt unat_div)

lemma ram_address:
  assumes "ExposedIopRam e = 0x200000 \<or> ExposedIopRam e = 0x800000" "in_ram mem"
  shows "push_bit 16 (drop_bit 16 (mem AND 0x1fffffff) AND (ExposedIopRam e div 0x10000 - 1)) + (mem AND 0xffff) =
    ram_offset e mem"
proof -
  let ?x = "push_bit 16 (drop_bit 16 (mem AND 0x1fffffff) AND (ExposedIopRam e div 0x10000 - 1))"
  have masks: "push_bit 16 (drop_bit 16 (mem AND 0x1fffffff) AND (v div 0x10000 - 1)) OR (mem AND 0xffff) = mem AND (v - 1)"
    if "v = 0x200000 \<or> v = 0x800000" for v :: u32
    using that by (elim disjE; hypsubst) (simp_all add: word32_bitwise bit_simps)
  have "?x AND (mem AND 0xffff) = 0" by (simp add: word32_bitwise bit_simps)
  then have "?x + (mem AND 0xffff) = ?x OR (mem AND 0xffff)" by (rule disjunctive_add_eq_or)
  also have "\<dots> = ram_offset e mem"
    unfolding ram_offset_def by (rule masks [OF assms(1)])
  finally show ?thesis .
qed

subsection \<open>Accesses in main memory\<close>

definition imem :: "'d iop_env \<Rightarrow> 'd iop \<Rightarrow> u32 \<Rightarrow> u8" where
  "imem e s a = iopHost s (Main_base e + a)"

lemma hget_ram: "hget (Main_base e + a) s = load (imem e s) a"
  by (simp add: hget_def load_def imem_def mem_read_def add.assoc)

lemma ram_offset_less: "iop_layout e \<Longrightarrow> ram_offset e mem < 0x800000"
proof -
  assume l: "iop_layout e"
  have "ram_offset e mem \<le> ExposedIopRam e - 1" unfolding ram_offset_def by (rule word_and_le1)
  also have "\<dots> < 0x800000" using l by (auto simp: iop_layout_def)
  finally show ?thesis .
qed

lemma ram_pointer:
  assumes "iop_ready e s" "in_ram mem"
  shows "psxMemWLUT s (drop_bit 16 (mem AND 0x1fffffff)) + (mem AND 0xffff) = Main_base e + ram_offset e mem"
    "psxMemRLUT s (drop_bit 16 (mem AND 0x1fffffff)) = psxMemWLUT s (drop_bit 16 (mem AND 0x1fffffff))"
    "psxMemWLUT s (drop_bit 16 (mem AND 0x1fffffff)) \<noteq> 0"
proof -
  let ?i = "drop_bit 16 (mem AND 0x1fffffff)" and ?m = "ExposedIopRam e div 0x10000 - 1"
  have l: "iop_layout e" and r: "ExposedIopRam e = 0x200000 \<or> ExposedIopRam e = 0x800000"
    using assms(1) by (auto simp: iop_ready_def iop_layout_def)
  note lut = lut_ram [OF ram_page_less [OF assms(2)], of e]
  have w: "psxMemWLUT s ?i = Main_base e + push_bit 16 (?i AND ?m)"
    "psxMemRLUT s ?i = Main_base e + push_bit 16 (?i AND ?m)"
    using assms(1) lut by (auto simp: iop_ready_def psxMemRLUT_def)
  show "psxMemWLUT s ?i + (mem AND 0xffff) = Main_base e + ram_offset e mem"
    using ram_address [OF r assms(2)] w by (simp add: add.assoc)
  show "psxMemRLUT s ?i = psxMemWLUT s ?i" using w by simp
  have "?i AND ?m < 0x80" by (rule order.strict_trans1 [OF word_and_le2 ram_page_less [OF assms(2)]])
  then have small: "unat (push_bit 16 (?i AND ?m)) < 0x800000"
    by (simp add: word_less_nat_alt push_bit_eq_mult unat_word_ariths)
  have "unat (Main_base e + push_bit 16 (?i AND ?m)) = unat (Main_base e) + unat (push_bit 16 (?i AND ?m))"
    using l small unfolding iop_layout_def unat_word_ariths by (intro mod_less) simp
  moreover have "unat (Main_base e) \<noteq> 0" using l by (simp add: iop_layout_def unat_eq_0)
  ultimately show "psxMemWLUT s ?i \<noteq> 0" unfolding w(1) by (metis add_is_0 unat_0)
qed

lemma ram_pages:
  assumes "in_ram mem"
  shows "drop_bit 16 (mem AND 0x1fffffff) \<noteq> 0x1f80" "drop_bit 16 (mem AND 0x1fffffff) \<noteq> 0x1f40"
    "drop_bit 16 (mem AND 0x1fffffff) \<noteq> 0x1d00"
  using ram_page_less [OF assms] by auto

lemma in_page_offset: "(mem AND 0x1fffffff) AND 0xffff = mem AND (0xffff :: u32)"
  by (simp add: word32_bitwise bit_simps)

lemma ram_reads:
  assumes "iop_ready e s" "in_ram mem"
  shows "iopMemRead8 e mem s = (load (imem e s) (ram_offset e mem), s)"
    "iopMemRead16 e mem s = (load (imem e s) (ram_offset e mem), s)"
    "iopMemRead32 e mem s = (load (imem e s) (ram_offset e mem), s)"
  using ram_pages [OF assms(2)] ram_pointer [OF assms] hget_ram [of e "ram_offset e mem" s]
  unfolding iopMemRead8_def iopMemRead16_def iopMemRead32_def Let_def in_page_offset
  by (simp_all only: if_False if_True not_True_eq_False not_False_eq_True ram_pointer(2) [OF assms] hget_ram)

text \<open>A store with the cache isolated does nothing.\<close>

definition isolated :: "'d iop \<Rightarrow> bool" where
  "isolated s \<longleftrightarrow> psxCP0 (psx s) CP0_Status AND 0x10000 \<noteq> 0"

definition ram_stored :: "'d iop_env \<Rightarrow> u32 \<Rightarrow> 'w::len word \<Rightarrow> 'd iop \<Rightarrow> 'd iop" where
  "ram_stored e mem v s = (if isolated s then s
     else cpu_invalidate e ((mem AND 0x1fffffff) AND NOT 3) 1 (hput (Main_base e + ram_offset e mem) v s))"

lemma ram_writes:
  assumes "iop_ready e s" "in_ram mem"
  shows "iopMemWrite8 e mem v s = ram_stored e mem v s" "iopMemWrite16 e mem w s = ram_stored e mem w s"
    "iopMemWrite32 e mem x s = ram_stored e mem x s"
proof -
  note p = ram_pages [OF assms(2)] ram_pointer [OF assms]
  have q: "drop_bit 16 (mem AND 0x1fffffff) \<noteq> 0x1000" "drop_bit 16 (mem AND 0x1fffffff) \<noteq> 0x1F90"
    using ram_page_less [OF assms(2)] by auto
  have wp: "writable_page (drop_bit 16 (mem AND 0x1fffffff)) s \<longleftrightarrow> \<not> isolated s"
    using p by (simp add: writable_page_def isolated_def)
  have rw: "ram_write e (mem AND 0x1fffffff) y s =
      cpu_invalidate e ((mem AND 0x1fffffff) AND NOT 3) 1 (hput (Main_base e + ram_offset e mem) y s)" for y :: "'w::len word"
    unfolding ram_write_def in_page_offset p by simp
  show "iopMemWrite8 e mem v s = ram_stored e mem v s"
    unfolding iopMemWrite8_def Let_def ram_stored_def wp using p q by (simp only: rw if_False not_False_eq_True split: if_split) simp
  show "iopMemWrite16 e mem w s = ram_stored e mem w s"
    unfolding iopMemWrite16_def Let_def ram_stored_def wp using p q by (simp only: ram_write_def in_page_offset if_False split: if_split) simp
  show "iopMemWrite32 e mem x s = ram_stored e mem x s"
    unfolding iopMemWrite32_def Let_def ram_stored_def wp using p q by (simp only: ram_write_def in_page_offset if_False split: if_split) simp
qed

lemma ram_stored_simps:
  "psx (ram_stored e mem v s) = psx s" "psxMemWLUT (ram_stored e mem v s) = psxMemWLUT s"
  "imem e (ram_stored e mem v s) = (if isolated s then imem e s else store (imem e s) (ram_offset e mem) v)"
proof -
  have "imem e (cpu_invalidate e a n s') = imem e s'" "psx (cpu_invalidate e a n s') = psx s'"
    "psxMemWLUT (cpu_invalidate e a n s') = psxMemWLUT s'" for a n and s' :: "'a iop"
    by (auto simp: cpu_invalidate_def imem_def fun_eq_iff split: option.split)
  moreover have "imem e (hput (Main_base e + a) v s) = store (imem e s) a v" for a
    by (auto simp: imem_def hput_def store_def mem_write_def fun_eq_iff)
  ultimately show "psx (ram_stored e mem v s) = psx s" "psxMemWLUT (ram_stored e mem v s) = psxMemWLUT s"
    "imem e (ram_stored e mem v s) = (if isolated s then imem e s else store (imem e s) (ram_offset e mem) v)"
    by (simp_all add: ram_stored_def hput_def)
qed

end
