(* ===== verification/IOP_Unaligned.thy ===== *)
theory IOP_Unaligned
  imports IOP_Access
begin

text \<open>The loads and stores of the I/O processor on the flat memory, and the left and right
  instructions in pairs.\<close>

definition iloaded :: "u32 \<Rightarrow> 'd iop \<Rightarrow> 'd iop" where
  "iloaded v s = (if pRt (psx s) = 0 then s else wpsx (wR (pRt (psx s)) v) s)"

definition istored :: "'d iop_env \<Rightarrow> 'w::len word \<Rightarrow> 'd iop \<Rightarrow> 'd iop \<Rightarrow> bool" where
  "istored e v s s' \<longleftrightarrow> psx s' = psx s \<and> psxMemWLUT s' = psxMemWLUT s \<and>
     imem e s' = (if isolated s then imem e s else store (imem e s) (ram_offset e (oB (psx s))) v)"

lemma iop_aligned_loads:
  assumes "iop_ready e s" "in_ram (oB (psx s))"
  defines "a \<equiv> ram_offset e (oB (psx s))"
  shows "psxLB e s = iloaded (scast (load (imem e s) a :: u8)) s"
    "psxLBU e s = iloaded (ucast (load (imem e s) a :: u8)) s"
    "psxLH e s = iloaded (scast (load (imem e s) a :: u16)) s"
    "psxLHU e s = iloaded (ucast (load (imem e s) a :: u16)) s"
    "psxLW e s = iloaded (load (imem e s) a) s"
  unfolding a_def by (simp_all add: iop_defs load_Rt_def ram_reads [OF assms(1,2)] iloaded_def)

lemma iop_aligned_stores:
  assumes "iop_ready e s" "in_ram (oB (psx s))"
  shows "istored e (ucast (rRt (psx s)) :: u8) s (psxSB e s)" "istored e (ucast (rRt (psx s)) :: u16) s (psxSH e s)"
    "istored e (rRt (psx s)) s (psxSW e s)"
  by (simp_all add: iop_defs ram_writes [OF assms] istored_def ram_stored_simps)

subsection \<open>Left and right accesses\<close>

lemma in_ram_align: "in_ram mem \<Longrightarrow> in_ram (mem AND 0xfffffffc)"
proof -
  assume "in_ram mem"
  have "(mem AND 0xfffffffc) AND 0x1fffffff = (mem AND 0x1fffffff) AND 0xfffffffc" by (simp add: ac_simps)
  also have "\<dots> \<le> mem AND 0x1fffffff" by (rule word_and_le2)
  also have "\<dots> < 0x800000" using \<open>in_ram mem\<close> by (simp only: in_ram_def)
  finally show ?thesis by (simp only: in_ram_def)
qed

lemma ram_offset_align: "ram_offset e (mem AND 0xfffffffc) = ram_offset e mem AND NOT 3"
  by (simp add: ram_offset_def word32_bitwise bit_simps)

lemma ram_offset_low: "iop_layout e \<Longrightarrow> ram_offset e mem AND 3 = mem AND 3"
proof -
  have "(mem AND (v - 1)) AND 3 = mem AND 3" if "v = 0x200000 \<or> v = 0x800000" for v :: u32
    using that by (elim disjE; hypsubst) (simp_all add: word32_bitwise bit_simps)
  then show "iop_layout e \<Longrightarrow> ?thesis" by (auto simp: iop_layout_def ram_offset_def)
qed

lemma low_bits_cases: "(x::u32) AND 3 = 0 \<or> x AND 3 = 1 \<or> x AND 3 = 2 \<or> x AND 3 = 3"
proof -
  have "x AND 3 \<le> 3" by (rule word_and_le1)
  then have "unat (x AND 3) \<le> 3" by (simp add: word_le_nat_alt)
  then have "unat (x AND 3) \<in> {0, 1, 2, 3}" by auto
  moreover have "x AND 3 = of_nat (unat (x AND 3))" by simp
  ultimately show ?thesis by (elim insertE) (simp_all only: empty_iff of_nat_0 of_nat_1 of_nat_numeral, simp_all)
qed

text \<open>The shift counts and masks of the source are the byte merges of the flat memory.\<close>

lemma iop_merges:
  fixes x m a :: u32
  defines "shift \<equiv> unat (push_bit 3 (a AND 3))" and "k \<equiv> unat (a AND 3)"
  shows "(x AND drop_bit shift 0x00ffffff) OR push_bit (24 - shift) m = merge_left k x m"
    "(x AND push_bit (24 - shift) 0xffffff00) OR drop_bit shift m = merge_right k x m"
    "drop_bit (24 - shift) x OR (m AND push_bit shift 0xffffff00) = split_left k x m"
    "push_bit shift x OR (m AND drop_bit (24 - shift) 0x00ffffff) = split_right k x m"
  using low_bits_cases [of a]
  by (auto simp: shift_def k_def merge_left_def merge_right_def split_left_def split_right_def
      mask_eq_exp_minus_1 push_bit_eq_mult) (simp_all add: word32_bitwise bit_simps)

definition ifetch :: "u32 \<Rightarrow> 'd iop \<Rightarrow> 'd iop" where
  "ifetch c s = wpsx (\<lambda>p. p\<lparr>psx_code := c\<rparr>) s"

lemma iop_lw_lr:
  assumes "iop_ready e s" "in_ram (oB (psx s))" "pRt (psx s) \<noteq> 0"
  defines "a \<equiv> oB (psx s)" and "m \<equiv> imem e s"
  shows "psxLWL e s = wpsx (wR (pRt (psx s)) (merge_left (unat (a AND 3)) (rRt (psx s)) (load m (ram_offset e a AND NOT 3)))) s"
    "psxLWR e s = wpsx (wR (pRt (psx s)) (merge_right (unat (a AND 3)) (rRt (psx s)) (load m (ram_offset e a AND NOT 3)))) s"
    "psxSWL e s = ram_stored e (a AND 0xfffffffc) (split_left (unat (a AND 3)) (rRt (psx s)) (load m (ram_offset e a AND NOT 3))) s"
    "psxSWR e s = ram_stored e (a AND 0xfffffffc) (split_right (unat (a AND 3)) (rRt (psx s)) (load m (ram_offset e a AND NOT 3))) s"
  using assms(3) iop_merges
  by (simp_all add: psxLWL_def psxLWR_def psxSWL_def psxSWR_def Let_def a_def m_def rRt_def wpsx_def
      ram_reads(3) [OF assms(1) in_ram_align [OF assms(2)]] ram_writes(3) [OF assms(1) in_ram_align [OF assms(2)]]
      ram_offset_align)

subsection \<open>Pairs\<close>

text \<open>Two instruction words with the same registers, the first addressing the last byte and the
  second the first byte of an unaligned word that does not run over the end of the memory.\<close>

definition ipair :: "'d iop_env \<Rightarrow> u32 \<Rightarrow> u32 \<Rightarrow> u32 \<Rightarrow> u32 \<Rightarrow> u32 \<Rightarrow> 'd iop \<Rightarrow> bool" where
  "ipair e rs rt a c1 c2 s \<longleftrightarrow> rt \<noteq> 0 \<and> rs \<noteq> rt \<and>
     pRs (psx (ifetch c1 s)) = rs \<and> pRt (psx (ifetch c1 s)) = rt \<and> oB (psx (ifetch c1 s)) = a + 3 \<and>
     pRs (psx (ifetch c2 s)) = rs \<and> pRt (psx (ifetch c2 s)) = rt \<and> oB (psx (ifetch c2 s)) = a \<and>
     in_ram a \<and> in_ram (a + 3) \<and> ram_offset e (a + 3) = ram_offset e a + 3"

lemma ifetch_simps [simp]:
  "psxGPR (psx (ifetch c s)) = psxGPR (psx s)" "psxMemWLUT (ifetch c s) = psxMemWLUT s"
  "imem e (ifetch c s) = imem e s" "iop_ready e (ifetch c s) = iop_ready e s"
  "isolated (ifetch c s) = isolated s" "psx_code (psx (ifetch c s)) = c"
  "ifetch c (ifetch d s) = ifetch c s"
  by (simp_all add: ifetch_def iop_ready_def imem_def fun_eq_iff isolated_def wpsx_def)

lemma ifetch_wR [simp]: "psx (ifetch c (wpsx (wR r x) s)) = wR r x (psx (ifetch c s))"
  by (simp add: ifetch_def wR_def)

lemma pair_offsets:
  assumes "iop_ready e s" "ipair e rs rt a c1 c2 s"
  shows "(ram_offset e a + 3) AND 3 = (a + 3) AND 3" "ram_offset e a AND 3 = a AND 3"
  using assms ram_offset_low [of e "a + 3"] ram_offset_low [of e a] by (auto simp: ipair_def iop_ready_def)

lemma iop_pair_load:
  assumes r: "iop_ready e s" and p: "ipair e rs rt a c1 c2 s"
  shows "psxLWR e (ifetch c2 (psxLWL e (ifetch c1 s))) =
    wpsx (wR rt (load (imem e s) (ram_offset e a))) (ifetch c2 s)"
proof -
  note f = p [unfolded ipair_def]
  let ?m = "imem e s" and ?o = "ram_offset e a"
  define x where "x = merge_left (unat ((a + 3) AND 3)) (psxGPR (psx s) rt) (load ?m ((?o + 3) AND NOT 3))"
  define s1 where "s1 = wpsx (wR rt x) (ifetch c1 s)"
  have l: "psxLWL e (ifetch c1 s) = s1"
    using iop_lw_lr(1) [of e "ifetch c1 s"] r f by (simp add: s1_def x_def rRt_def)
  have s1: "imem e s1 = ?m" "iop_ready e s1" "psx (ifetch c2 s1) = wR rt x (psx (ifetch c2 s))"
    using r by (simp_all add: s1_def iop_ready_def imem_def fun_eq_iff ifetch_def)
  have ob: "oB (psx (ifetch c2 s1)) = a"
    using f by (auto simp: s1(3) oB_def rRs_def)
  have "psxLWR e (ifetch c2 s1) = wpsx (wR rt (merge_right (unat (a AND 3)) x (load ?m (?o AND NOT 3)))) (ifetch c2 s1)"
    using iop_lw_lr(2) [of e "ifetch c2 s1"] s1 ob f by (simp add: rRt_def)
  also have "merge_right (unat (a AND 3)) x (load ?m (?o AND NOT 3)) = load ?m ?o"
    using merge_pair [of 2 "unat (a AND 3)" ?o "psxGPR (psx s) rt" ?m] pair_offsets [OF assms]
    by (simp add: x_def mask_eq_exp_minus_1)
  finally show ?thesis unfolding l by (simp add: s1_def wpsx_def ifetch_def wR_def)
qed

lemma iop_pair_store:
  assumes r: "iop_ready e s" and p: "ipair e rs rt a c1 c2 s" and i: "\<not> isolated s"
  shows "psx (psxSWR e (ifetch c2 (psxSWL e (ifetch c1 s)))) = psx (ifetch c2 s)"
    "imem e (psxSWR e (ifetch c2 (psxSWL e (ifetch c1 s)))) = store (imem e s) (ram_offset e a) (psxGPR (psx s) rt)"
proof -
  note f = p [unfolded ipair_def]
  let ?m = "imem e s" and ?o = "ram_offset e a" and ?x = "psxGPR (psx s) rt"
  define s1 where "s1 = psxSWL e (ifetch c1 s)"
  have l: "s1 = ram_stored e ((a + 3) AND 0xfffffffc)
      (split_left (unat ((a + 3) AND 3)) ?x (load ?m ((?o + 3) AND NOT 3))) (ifetch c1 s)"
    using iop_lw_lr(3) [of e "ifetch c1 s"] r f by (simp add: s1_def rRt_def)
  have s1: "psx s1 = psx (ifetch c1 s)" "psxMemWLUT s1 = psxMemWLUT s"
    "imem e s1 = store ?m ((?o + 3) AND NOT 3) (split_left (unat ((a + 3) AND 3)) ?x (load ?m ((?o + 3) AND NOT 3)))"
    using i f by (simp_all add: l ram_stored_simps ram_offset_align)
  have p2: "psx (ifetch c2 s1) = psx (ifetch c2 s)" "isolated s1 = isolated s" "iop_ready e s1"
    using r s1 by (simp_all add: ifetch_def isolated_def iop_ready_def)
  have w: "psxSWR e (ifetch c2 s1) = ram_stored e (a AND 0xfffffffc)
      (split_right (unat (a AND 3)) ?x (load (imem e s1) (?o AND NOT 3))) (ifetch c2 s1)"
    using iop_lw_lr(4) [of e "ifetch c2 s1"] p2 f by (simp add: rRt_def)
  show "psx (psxSWR e (ifetch c2 (psxSWL e (ifetch c1 s)))) = psx (ifetch c2 s)"
    unfolding s1_def [symmetric] w by (simp add: ram_stored_simps p2)
  have "imem e (psxSWR e (ifetch c2 s1)) =
      store (imem e s1) (?o AND NOT 3) (split_right (unat (a AND 3)) ?x (load (imem e s1) (?o AND NOT 3)))"
    unfolding w using i p2 by (simp add: ram_stored_simps ram_offset_align)
  also have "\<dots> = store ?m ?o ?x"
    using split_pair [of 2 "unat (a AND 3)" ?o ?m ?x] pair_offsets [OF r p] s1(3) by (simp add: mask_eq_exp_minus_1)
  finally show "imem e (psxSWR e (ifetch c2 (psxSWL e (ifetch c1 s)))) = store ?m ?o ?x" by (simp add: s1_def)
qed

end
