(* ===== verification/IOP_Blocks.thy ===== *)
theory IOP_Blocks
  imports IOP_Unaligned
begin

text \<open>The block accesses of \<^verbatim>\<open>pcsx2/IopMem.cpp\<close> on the flat memory.\<close>

subsection \<open>Translations in main memory\<close>

lemma ram_below:
  assumes "iop_layout e" "mem < ExposedIopRam e"
  shows "mem AND 0x1fffffff = mem" "in_ram mem" "ram_offset e mem = mem" "drop_bit 16 mem < 0x4000"
proof -
  have lt: "mem < 0x800000" using assms by (auto simp: iop_layout_def word_less_nat_alt)
  then have "mem < 2 ^ 29" by (rule order.strict_trans) simp
  from less_mask_eq [OF this] show a: "mem AND 0x1fffffff = mem" by (simp add: mask_eq_exp_minus_1)
  show "in_ram mem" using lt by (simp add: in_ram_def a)
  have "mem AND (v - 1) = mem" if "v = 2 ^ 21 \<or> v = 2 ^ 23" "mem < v" for v :: u32
    using that less_mask_eq [of mem 21] less_mask_eq [of mem 23] by (auto simp: mask_eq_exp_minus_1)
  then show "ram_offset e mem = mem" using assms by (simp add: ram_offset_def iop_layout_def)
  show "drop_bit 16 mem < 0x4000"
    using lt by (simp add: drop_bit_eq_div word_less_nat_alt unat_div)
qed

lemma virt_ram:
  assumes "iop_ready e s" "mem < ExposedIopRam e"
  shows "iopVirtMemR s mem = Some (Main_base e + mem)" "iopVirtMemW s mem = Some (Some (Main_base e + mem))"
proof -
  have l: "iop_layout e" using assms(1) by (simp add: iop_ready_def)
  note b = ram_below [OF l assms(2)]
  note p = ram_pointer [OF assms(1) b(2), unfolded b(1,3)]
  show "iopVirtMemR s mem = Some (Main_base e + mem)"
    using p by (simp add: iopVirtMemR_def Let_def b(1))
  show "iopVirtMemW s mem = Some (Some (Main_base e + mem))"
    using p b(4) by (simp add: iopVirtMemW_def Let_def not_le)
qed

lemma notify_keeps: "imem e (iopMemNotifyWrite e a n s) = imem e s"
  "psxMemWLUT (iopMemNotifyWrite e a n s) = psxMemWLUT s" "psx (iopMemNotifyWrite e a n s) = psx s"
  by (auto simp: iopMemNotifyWrite_def Let_def cpu_invalidate_def imem_def fun_eq_iff split: option.split)

lemma block_page_room: "0 < 0x1000 - unat ((mem::u32) AND 0xfff)"
proof -
  have "mem AND 0xfff \<le> 0xfff" by (rule word_and_le1)
  then show ?thesis by (simp add: word_le_nat_alt)
qed

lemma safe_write_ram:
  assumes "iop_ready e s" "unat mem + length bs \<le> unat (ExposedIopRam e)"
  shows "\<exists>s'. iopMemSafeWriteBytes e mem bs s = Some (True, s') \<and> iop_ready e s' \<and> psx s' = psx s \<and>
    imem e s' = mem_write (imem e s) mem bs"
  using assms
proof (induction e mem bs s rule: iopMemSafeWriteBytes.induct)
  case (1 e mem src s)
  show ?case
  proof (cases "src = []")
    case True
    then show ?thesis using 1(2) by (subst iopMemSafeWriteBytes.simps) simp
  next
    case False
    have ex: "unat (ExposedIopRam e) \<le> 0x800000" using 1(2) by (auto simp: iop_ready_def iop_layout_def)
    have lt: "mem < ExposedIopRam e" using 1(3) False by (cases src) (auto simp: word_less_nat_alt)
    note v = virt_ram(2) [OF 1(2) lt]
    define n where "n = min (0x1000 - unat (mem AND 0xfff)) (length src)"
    define s1 where "s1 = s\<lparr>iopHost := mem_write (iopHost s) (Main_base e + mem) (take n src)\<rparr>"
    define s2 where "s2 = iopMemNotifyWrite e mem (of_nat n) s1"
    have n: "0 < n" "n \<le> length src" using False block_page_room [of mem] by (auto simp: n_def)
    have im: "imem e s1 = mem_write (imem e s) mem (take n src)"
      by (auto simp: s1_def imem_def mem_write_def fun_eq_iff)
    have r2: "iop_ready e s2" "imem e s2 = mem_write (imem e s) mem (take n src)" "psx s2 = psx s"
      using 1(2) by (simp_all add: s2_def notify_keeps im iop_ready_def) (simp_all add: s1_def)
    have off: "unat (mem + of_nat n) = unat mem + n"
      using 1(3) n ex by (simp add: unat_word_ariths unat_of_nat_u32)
    obtain s' where "iopMemSafeWriteBytes e (mem + of_nat n) (drop n src) s2 = Some (True, s')"
      "iop_ready e s'" "psx s' = psx s2" "imem e s' = mem_write (imem e s2) (mem + of_nat n) (drop n src)"
      using 1(1) [OF False v refl n_def s1_def, folded s2_def] r2(1) off n 1(3) by auto
    moreover have "mem_write (imem e s2) (mem + of_nat n) (drop n src) = mem_write (imem e s) mem src"
      using mem_write_extend [of "take n src" "drop n src" "imem e s" mem] n 1(3) ex r2(2) by simp
    ultimately show ?thesis using False v r2(3)
      by (subst iopMemSafeWriteBytes.simps) (simp add: Let_def n_def [symmetric] s1_def [symmetric] s2_def [symmetric])
  qed
qed

lemma safe_read_ram:
  "iop_ready e s \<Longrightarrow> unat mem + unat sz \<le> unat (ExposedIopRam e) \<Longrightarrow>
   iopMemSafeReadBytes mem sz s = (True, mem_read (imem e s) mem (unat sz))"
proof (induction mem sz s rule: iopMemSafeReadBytes.induct)
  case (1 mem sz s)
  show ?case
  proof (cases "sz = 0")
    case True
    then show ?thesis by (subst iopMemSafeReadBytes.simps) simp
  next
    case False
    have ex: "unat (ExposedIopRam e) \<le> 0x800000" using 1(2) by (auto simp: iop_ready_def iop_layout_def)
    have "0 < unat sz" using False by (simp add: unat_gt_0)
    then have lt: "mem < ExposedIopRam e" using 1(3) by (simp add: word_less_nat_alt)
    note v = virt_ram(1) [OF 1(2) lt]
    define n where "n = page_chunk mem sz"
    have n: "unat n \<le> unat sz" using page_chunk_le [of mem sz] by (simp add: n_def word_le_nat_alt)
    have off: "unat (mem + n) = unat mem + unat n" "unat (sz - n) = unat sz - unat n"
      using 1(3) n ex by (simp_all add: unat_word_ariths unat_sub word_le_nat_alt)
    have h: "mem_read (iopHost s) (Main_base e + mem) k = mem_read (imem e s) mem k" for k
      by (simp add: mem_read_def imem_def add.assoc)
    have "iopMemSafeReadBytes (mem + n) (sz - n) s = (True, mem_read (imem e s) (mem + n) (unat sz - unat n))"
      using 1(1) [OF False v n_def 1(2)] off n 1(3) by simp
    then show ?thesis using False v h mem_read_append [of "imem e s" mem "unat n" "unat sz - unat n"] n
      by (subst iopMemSafeReadBytes.simps) (simp add: Let_def n_def [symmetric])
  qed
qed

lemma memcmp_refl [simp]: "memcmp xs xs = 0"
  by (induction xs) simp_all

lemma safe_cmp_ram:
  "iop_ready e s \<Longrightarrow> unat mem + length bs \<le> unat (ExposedIopRam e) \<Longrightarrow>
   mem_read (imem e s) mem (length bs) = bs \<Longrightarrow> iopMemSafeCmpBytes mem bs s = Some 0"
proof (induction mem bs s rule: iopMemSafeCmpBytes.induct)
  case (1 mem src s)
  show ?case
  proof (cases "src = []")
    case True
    then show ?thesis by (subst iopMemSafeCmpBytes.simps) simp
  next
    case False
    have ex: "unat (ExposedIopRam e) \<le> 0x800000" using 1(2) by (auto simp: iop_ready_def iop_layout_def)
    have lt: "mem < ExposedIopRam e" using 1(3) False by (cases src) (auto simp: word_less_nat_alt)
    note v = virt_ram(2) [OF 1(2) lt]
    define n where "n = min (0x1000 - unat (mem AND 0xfff)) (length src)"
    have n: "n \<le> length src" by (simp add: n_def)
    have h: "mem_read (iopHost s) (Main_base e + mem) n = mem_read (imem e s) mem n"
      by (simp add: mem_read_def imem_def add.assoc)
    have sp: "mem_read (imem e s) mem n @ mem_read (imem e s) (mem + of_nat n) (length src - n) = src"
      using 1(4) mem_read_append [of "imem e s" mem n "length src - n"] n by simp
    then have sp2: "mem_read (imem e s) mem n = take n src" "mem_read (imem e s) (mem + of_nat n) (length src - n) = drop n src"
      by (metis append_eq_conv_conj length_mem_read)+
    have off: "unat (mem + of_nat n) = unat mem + n"
      using 1(3) n ex by (simp add: unat_word_ariths unat_of_nat_u32)
    have "iopMemSafeCmpBytes (mem + of_nat n) (drop n src) s = Some 0"
      using 1(1) [OF False v refl n_def refl] h sp2 off n 1(2,3) by simp
    then show ?thesis using False v h sp2(1)
      by (subst iopMemSafeCmpBytes.simps) (simp add: Let_def n_def [symmetric])
  qed
qed

subsection \<open>Addresses outside the masked range\<close>

text \<open>The write translation indexes the table with the unmasked address: from \<open>0x40000000\<close> on it
  leaves the table, and from \<open>0x20000000\<close> it uses the entries of the read table, which map the
  read-only memory.\<close>

lemma lut_rom:
  assumes "i < 0x40"
  shows "ResetIopMemoryLookupTables e t (0x3fc0 + i) = ROM_base e + push_bit 16 i"
proof -
  have i: "unat i < 0x40" using assms by (simp add: word_less_nat_alt)
  have u: "unat (0x3fc0 + i) = 0x3fc0 + unat i" using i by (simp add: unat_word_ariths)
  have ne: "0x3fc0 + i \<noteq> c" if "unat c < 0x3fc0" for c using u that by auto
  have s: "unat (0x3fc0 + i - c) = 0x3fc0 + unat i - unat c" if "unat c \<le> 0x3fc0" for c
    using u that by (simp add: unat_sub word_le_nat_alt)
  have far: "\<not> unat (0x3fc0 + i - 0x3e00) < 0x40" "\<not> unat (0x3fc0 + i - 0x3e40) < 0x40"
    using s [of "0x3e00"] s [of "0x3e40"] i by simp_all
  then show ?thesis
    using i ne [of "0x3d00"] ne [of "0x3e00"]
    by (simp add: ResetIopMemoryLookupTables_def Let_def lut_fill_apply)
qed

lemma safe_write_outside:
  assumes "0x40000000 \<le> mem" "src \<noteq> []"
  shows "iopMemSafeWriteBytes e mem src s = None"
proof -
  have "0x40000000 \<le> unat mem" using assms(1) by (simp add: word_le_nat_alt)
  then have "0x4000 \<le> drop_bit 16 mem" by (simp add: word_le_nat_alt drop_bit_eq_div unat_div)
  then show ?thesis using assms(2) by (subst iopMemSafeWriteBytes.simps) (simp add: iopVirtMemW_def)
qed

end
