(* ===== verification/IOP_Mem_Props.thy ===== *)
theory IOP_Mem_Props
  imports IOP_Blocks
begin

text \<open>The properties of the memory of the I/O processor.\<close>

subsection \<open>A machine to test with\<close>

text \<open>An environment without devices, and a machine whose lookup tables were set up in it.\<close>

definition quiet_iop :: "unit iop_env" where
  "quiet_iop = \<lparr>Main_base = 0x10000000, P_base = 0x11000000, Sif_base = 0x11010000, iopHw_base = 0x11020000,
     eeHw_base = 0x11030000, ROM_base = 0x12000000, ROM1_base = 0x12400000, ROM2_base = 0x12800000,
     ExposedIopRam = 0x200000, HwRead = \<lambda>_ _ _ s. (0, s), HwWrite = \<lambda>_ _ _ _ s. s, cdvdRead = \<lambda>_ s. (0, s),
     cdvdWrite = \<lambda>_ _ s. s, DEV9read = \<lambda>_ _ s. (0, s), DEV9write = \<lambda>_ _ _ s. s, SPU2read = \<lambda>_ s. (0, s),
     SPU2write = \<lambda>_ _ s. s, psxDma = \<lambda>_ _ _ _ s. s, psxCpu_Clear = None, GteCommand = \<lambda>_ p. p,
     NotifyIopPcDiscontinuity = id, HwResetDevices = id, BiosReset = id, psxRcntUpdate = id,
     IopCallback = \<lambda>_ s. s, IopRetainedWaitCoalescingActive = \<lambda>_. False, cpuSetNextEventDelta = \<lambda>_ d. d,
     eeEventTestIsActive = \<lambda>_. False, float_to_s32_overflow = 0, irxImportExec = \<lambda>_ _ s. (0, s), psxBiosCall = id,
     RecordIopPreInstruction = \<lambda>_ _ d. (False, d), InjectIRX = False, ClearIrxModules = id,
     Cpu_ExitExecution = id\<rparr>"

definition test_iop :: "u32 \<Rightarrow> unit iop" where
  "test_iop c = \<lparr>psx = psxRegs_zero\<lparr>psxGPR := (\<lambda>_. 0)(1 := 0x80001000, 2 := 0x11223344), psx_code := c\<rparr>,
     iopIsDelaySlot = False, iopEventAction = False, iopEventTestIsActive = False, psxNextStartCounter = 0,
     psxNextDeltaCounter = 1000, PSXCLK = 36864000,
     psxMemWLUT = ResetIopMemoryLookupTables quiet_iop (\<lambda>_. 0), iopHost = \<lambda>_. 0x5a, iopDev = ()\<rparr>"

lemma quiet_layout: "iop_layout quiet_iop"
  by (simp add: iop_layout_def quiet_iop_def)

lemma test_ready: "iop_ready quiet_iop (test_iop c)"
  using quiet_layout by (auto simp: iop_ready_def test_iop_def)

lemma test_psx: "psx (test_iop c) = psxRegs_zero\<lparr>psxGPR := (\<lambda>_. 0)(1 := 0x80001000, 2 := 0x11223344), psx_code := c\<rparr>"
  by (simp add: test_iop_def)

lemmas iop_test_fields = oB_def rRs_def pRs_def pRt_def pImm_def test_psx in_ram_def

subsection \<open>Properties\<close>

text \<open>C22: The loads and stores of the I/O processor refine a flat memory. After the set-up of the
  lookup tables a byte, halfword or word access to an address whose segment bits are any and whose
  physical part is in main memory or one of its mirrors reads or writes the flat byte memory at the
  address modulo the exposed size, extends the value as the instruction says, leaves register 0
  alone, and a store with the isolated cache changes nothing.\<close>

theorem iop_ram_refines_memory:
  assumes "iop_ready e s" "in_ram (oB (psx s))"
  shows "psxLB e s = iloaded (scast (load (imem e s) (ram_offset e (oB (psx s))) :: u8)) s \<and>
    psxLBU e s = iloaded (ucast (load (imem e s) (ram_offset e (oB (psx s))) :: u8)) s \<and>
    psxLH e s = iloaded (scast (load (imem e s) (ram_offset e (oB (psx s))) :: u16)) s \<and>
    psxLHU e s = iloaded (ucast (load (imem e s) (ram_offset e (oB (psx s))) :: u16)) s \<and>
    psxLW e s = iloaded (load (imem e s) (ram_offset e (oB (psx s)))) s \<and>
    istored e (ucast (rRt (psx s)) :: u8) s (psxSB e s) \<and> istored e (ucast (rRt (psx s)) :: u16) s (psxSH e s) \<and>
    istored e (rRt (psx s)) s (psxSW e s)"
  using iop_aligned_loads [OF assms] iop_aligned_stores [OF assms] by simp

theorem iop_ram_refines_memory_witness:
  "psxLW quiet_iop (test_iop 0x8c230010) =
    iloaded (load (imem quiet_iop (test_iop 0x8c230010)) 0x1010) (test_iop 0x8c230010)"
proof -
  have "oB (psx (test_iop 0x8c230010)) = 0x80001010" "in_ram (oB (psx (test_iop 0x8c230010)))"
    by (simp_all add: iop_test_fields)
  with iop_ram_refines_memory [OF test_ready this(2)] show ?thesis
    by (simp add: ram_offset_def quiet_iop_def)
qed

text \<open>Unaligned pairs of the I/O processor refine a flat memory. \<^verbatim>\<open>LWL\<close> of the last byte
  followed by \<^verbatim>\<open>LWR\<close> of the first byte of a word at any address in main memory loads exactly that
  word and changes nothing else; \<^verbatim>\<open>SWL\<close> followed by \<^verbatim>\<open>SWR\<close> stores exactly the register
  there.\<close>

theorem iop_unaligned_pairs:
  assumes "iop_ready e s" "ipair e rs rt a c1 c2 s"
  shows "psxLWR e (ifetch c2 (psxLWL e (ifetch c1 s))) =
      wpsx (wR rt (load (imem e s) (ram_offset e a))) (ifetch c2 s) \<and>
    (\<not> isolated s \<longrightarrow>
      psx (psxSWR e (ifetch c2 (psxSWL e (ifetch c1 s)))) = psx (ifetch c2 s) \<and>
      imem e (psxSWR e (ifetch c2 (psxSWL e (ifetch c1 s)))) =
        store (imem e s) (ram_offset e a) (psxGPR (psx s) rt))"
  using iop_pair_load [OF assms] iop_pair_store [OF assms] by simp

theorem iop_unaligned_pairs_witness:
  "psxLWR quiet_iop (ifetch 0x98220001 (psxLWL quiet_iop (ifetch 0x88220004 (test_iop 0)))) =
    wpsx (wR 2 (load (imem quiet_iop (test_iop 0)) 0x1001)) (ifetch 0x98220001 (test_iop 0))"
proof -
  have "ipair quiet_iop 1 2 0x80001001 0x88220004 0x98220001 (test_iop 0)"
    by (simp add: ipair_def ifetch_def iop_test_fields quiet_iop_def ram_offset_def)
  from iop_unaligned_pairs [OF test_ready this] show ?thesis by (simp add: ram_offset_def quiet_iop_def)
qed

text \<open>Block copies round-trip. A block written inside the exposed memory succeeds, changes
  exactly its bytes, is read back by the block read and compares equal.\<close>

theorem iop_block_roundtrip:
  assumes "iop_ready e s" "unat mem + length bs \<le> unat (ExposedIopRam e)"
  shows "\<exists>s'. iopMemSafeWriteBytes e mem bs s = Some (True, s') \<and>
    imem e s' = mem_write (imem e s) mem bs \<and> psx s' = psx s \<and>
    iopMemSafeReadBytes mem (of_nat (length bs)) s' = (True, bs) \<and> iopMemSafeCmpBytes mem bs s' = Some 0"
proof -
  obtain s' where s': "iopMemSafeWriteBytes e mem bs s = Some (True, s')" "iop_ready e s'" "psx s' = psx s"
    "imem e s' = mem_write (imem e s) mem bs" using safe_write_ram [OF assms] by blast
  have "unat (ExposedIopRam e) \<le> 0x800000" using assms(1) by (auto simp: iop_ready_def iop_layout_def)
  then have len: "length bs < 2 ^ 32" using assms(2) by simp
  then have r: "mem_read (imem e s') mem (length bs) = bs" by (simp add: s'(4) mem_read_write)
  show ?thesis
    using s' r len safe_read_ram [OF s'(2), of mem "of_nat (length bs)"] safe_cmp_ram [OF s'(2) assms(2) r] assms(2)
    by (auto simp: unat_of_nat_u32)
qed

theorem iop_block_roundtrip_witness:
  "\<exists>s'. iopMemSafeWriteBytes quiet_iop 0xffe [1, 2, 3, 4] (test_iop 0) = Some (True, s') \<and>
    iopMemSafeReadBytes 0xffe 4 s' = (True, [1, 2, 3, 4])"
proof -
  have "unat (0xffe :: u32) + length [1, 2, 3, 4 :: u8] \<le> unat (ExposedIopRam quiet_iop)"
    by (simp add: quiet_iop_def)
  from iop_block_roundtrip [OF test_ready this] show ?thesis by auto
qed

lemma lut_rom_unwritable:
  assumes "i < 0x40"
  shows "ResetIopMemoryLookupTables e t (0x1fc0 + i) = 0"
proof -
  have i: "unat i < 0x40" using assms by (simp add: word_less_nat_alt)
  have u: "unat (0x1fc0 + i) = 0x1fc0 + unat i" using i by (simp add: unat_word_ariths)
  have ne: "0x1fc0 + i \<noteq> c" if "unat c < 0x1fc0 \<or> 0x2000 \<le> unat c" for c using u i that by auto
  have far: "\<not> unat (0x1fc0 + i - c) < 0x40" if "0x3e00 \<le> unat c" "unat c \<le> 0x4000" for c
    using u i that by (auto simp: unat_sub_if_size word_size)
  have small: "0x1fc0 + i < 0x4000" using u i by (simp add: word_less_nat_alt)
  have ram: "\<not> unat (0x1fc0 + i) < 0x80" "\<not> unat (0x1fc0 + i - 0x2000) < 0x80"
    using u i by (auto simp: unat_sub_if_size word_size)
  note fill = ram_fill_apply [of "0x80" "\<lambda>i. Main_base e + push_bit 16 (i AND (ExposedIopRam e div 0x10000 - 1))", simplified]
  show ?thesis
    using far [of "0x3fc0"] far [of "0x3e00"] far [of "0x3e40"] ne [of "0x3d00"] ne [of "0x3f00"] ne [of "0x3f80"]
      ne [of "0x1f00"] ne [of "0x1f80"] ram small
    by (simp add: ResetIopMemoryLookupTables_def Let_def lut_fill_apply fill)
qed

lemma unat_and_low: "unat ((a::u32) AND 0xffff) = unat a mod 0x10000" "unat (a AND 0xfff) = unat a mod 0x1000"
  "unat (a AND 0x1fffffff) = unat a mod 0x20000000"
proof -
  have "a AND 0xffff = take_bit 16 a" "a AND 0xfff = take_bit 12 a" "a AND 0x1fffffff = take_bit 29 a"
    by (simp_all add: take_bit_eq_mask mask_eq_exp_minus_1)
  then show "unat (a AND 0xffff) = unat a mod 0x10000" "unat (a AND 0xfff) = unat a mod 0x1000"
    "unat (a AND 0x1fffffff) = unat a mod 0x20000000"
    by (simp_all add: take_bit_eq_mod unat_mod)
qed

lemma safe_write_Nil [simp]: "iopMemSafeWriteBytes e mem [] s = Some (True, s)"
  by (subst iopMemSafeWriteBytes.simps) simp

lemma rom_store_ignored:
  assumes "iop_ready e s" "i < 0x40"
  shows "iopMemWrite8 e (0x3fc00000 + push_bit 16 i) v s = s"
proof -
  have i: "unat i < 0x40" using assms(2) by (simp add: word_less_nat_alt)
  let ?a = "0x3fc00000 + push_bit 16 i"
  have "unat ?a = 0x3fc00000 + 0x10000 * unat i"
    using i by (simp add: push_bit_eq_mult unat_word_ariths)
  then have "unat (?a AND 0x1fffffff) = 0x1fc00000 + 0x10000 * unat i"
    using i by (simp add: unat_and_low le_mod_geq)
  then have "unat (drop_bit 16 (?a AND 0x1fffffff)) = 0x1fc0 + unat i"
    by (simp add: drop_bit_eq_div unat_div)
  moreover have "unat (0x1fc0 + i) = 0x1fc0 + unat i" using i by (simp add: unat_word_ariths)
  ultimately have t: "drop_bit 16 (?a AND 0x1fffffff) = 0x1fc0 + i" by (metis word_unat_eq_iff)
  have ne: "0x1fc0 + i \<noteq> c" if "unat c < 0x1fc0" for c using \<open>unat (0x1fc0 + i) = _\<close> that by auto
  have "\<not> writable_page (0x1fc0 + i) s"
    using assms lut_rom_unwritable [OF assms(2), of e] by (auto simp: writable_page_def iop_ready_def)
  then show ?thesis
    unfolding iopMemWrite8_def Let_def t
    using ne [of "0x1f80"] ne [of "0x1f40"] ne [of "0x1d00"] ne [of "0x1000"] by simp
qed

text \<open>Block writes do not mask the address. For an address of a kernel segment the block read
  translates to main memory while the block write indexes the lookup table beyond its end; and for
  an address whose index falls into the read half of the table the block write stores into the
  read-only memory, although a guest store to the same address is ignored.\<close>

theorem block_write_unmasked:
  assumes "iop_ready e s" "in_ram mem" "0x80000000 \<le> mem" "i < 0x40" "ROM_base e + push_bit 16 i \<noteq> 0"
  shows "iopVirtMemR s mem = Some (Main_base e + ram_offset e mem) \<and>
    iopMemSafeWriteBytes e mem [v] s = None \<and>
    iopMemWrite8 e (0x3fc00000 + push_bit 16 i) v s = s \<and>
    (\<exists>s'. iopMemSafeWriteBytes e (0x3fc00000 + push_bit 16 i) [v] s = Some (True, s') \<and>
       iopHost s' (ROM_base e + push_bit 16 i) = v)"
proof (intro conjI)
  show "iopVirtMemR s mem = Some (Main_base e + ram_offset e mem)"
    using ram_pointer [OF assms(1,2)] by (simp add: iopVirtMemR_def Let_def in_page_offset)
  have "0x40000000 \<le> mem" using assms(3) by (simp add: word_le_nat_alt)
  then show "iopMemSafeWriteBytes e mem [v] s = None" by (rule safe_write_outside) simp
  show "iopMemWrite8 e (0x3fc00000 + push_bit 16 i) v s = s" by (rule rom_store_ignored [OF assms(1,4)])
  let ?a = "0x3fc00000 + push_bit 16 i"
  have i: "unat i < 0x40" using assms(4) by (simp add: word_less_nat_alt)
  have ua: "unat ?a = 0x3fc00000 + 0x10000 * unat i"
    using i by (simp add: push_bit_eq_mult unat_word_ariths)
  then have "unat (drop_bit 16 ?a) = 0x3fc0 + unat i" by (simp add: drop_bit_eq_div unat_div)
  moreover have "unat (0x3fc0 + i) = 0x3fc0 + unat i" using i by (simp add: unat_word_ariths)
  ultimately have t: "drop_bit 16 ?a = 0x3fc0 + i" by (metis word_unat_eq_iff)
  have low: "?a AND 0xffff = 0" "?a AND 0xfff = 0"
    using unat_and_low(1,2) [of ?a] unfolding ua by (simp_all add: unat_eq_0)
  have "\<not> 0x4000 \<le> 0x3fc0 + i" using \<open>unat (0x3fc0 + i) = _\<close> i by (simp add: word_le_nat_alt)
  moreover have "psxMemWLUT s (0x3fc0 + i) = ROM_base e + push_bit 16 i"
    using assms(1) lut_rom [OF assms(4), of e] by (auto simp: iop_ready_def)
  ultimately have vw: "iopVirtMemW s ?a = Some (Some (ROM_base e + push_bit 16 i))"
    using assms(5) by (simp add: iopVirtMemW_def t low Let_def)
  show "\<exists>s'. iopMemSafeWriteBytes e ?a [v] s = Some (True, s') \<and> iopHost s' (ROM_base e + push_bit 16 i) = v"
    by (subst iopMemSafeWriteBytes.simps)
      (simp add: vw Let_def low mem_write_def iopMemNotifyWrite_def cpu_invalidate_def split: option.split)
qed

theorem block_write_unmasked_witness:
  "iopMemSafeWriteBytes quiet_iop 0x80001000 [7] (test_iop 0) = None"
proof -
  have "in_ram 0x80001000" "ROM_base quiet_iop + push_bit 16 0 \<noteq> 0"
    by (simp_all add: in_ram_def quiet_iop_def)
  with block_write_unmasked [OF test_ready [of 0], of "0x80001000" 0 7] show ?thesis by simp
qed

text \<open>The direct route of the serial controller takes too many addresses. A word store to
  offset \<open>0x548\<close> of a hardware page other than the first does not stay a store to the register
  array of that page: it starts channel 12 whenever that channel is armed, while a halfword store to
  the same address only stores.\<close>

theorem sio2_route_misroutes:
  assumes "drop_bit 16 (a AND 0x1fffffff) = 0x1f80" "a AND 0xfff = 0x548"
    and "(a AND 0x1fffffff) AND 0xf000 \<notin> {0x1000, 0x3000, 0x8000}"
  shows "iopMemWrite32 e a v s = DmaExec2 e 12 (hput (psxHu e (a AND 0x1fffffff)) v s) \<and>
    iopMemWrite16 e a w s = hput (psxHu e (a AND 0x1fffffff)) w s"
proof
  have low: "(a AND 0x1fffffff) AND 0xfff = 0x548" using assms(2) by (simp add: and.assoc)
  have "a AND 0x1fffffff \<noteq> 0x1f801548" using assms(3) by auto
  then show "iopMemWrite32 e a v s = DmaExec2 e 12 (hput (psxHu e (a AND 0x1fffffff)) v s)"
    unfolding iopMemWrite32_def Let_def assms(1) low by (simp add: iopHwWrite32_Sio2DmaChcr_def)
  show "iopMemWrite16 e a w s = hput (psxHu e (a AND 0x1fffffff)) w s"
    unfolding iopMemWrite16_def Let_def assms(1) using assms(3) by (simp add: hw_page_write_def Let_def)
qed

theorem sio2_route_misroutes_witness:
  "iopMemWrite32 quiet_iop 0xbf800548 1 (test_iop 0) =
    DmaExec2 quiet_iop 12 (hput (psxHu quiet_iop 0x1f800548) (1 :: u32) (test_iop 0))"
  using sio2_route_misroutes [of "0xbf800548" quiet_iop 1 "test_iop 0" 0] by simp

end
