(* ===== verification/IOP_Exec_Inv.thy ===== *)
theory IOP_Exec_Inv
  imports IOP_Exec
begin

text \<open>
  Reasoning about the interpreter of the I/O processor: a contract of an instruction handler, its
  propagation through the dispatch tables, the branches and \<open>execI\<close>, and the two instances of it
  that the properties use: the progress of the fallback window and the zero register.
\<close>

subsection \<open>Contracts of handlers\<close>

text \<open>From a state with \<open>P\<close> the handler is done in a state related by \<open>Q\<close>; when \<open>T\<close> is false it
  may also run out of fuel or of its window.\<close>

definition handles :: "bool \<Rightarrow> ('s \<Rightarrow> bool) \<Rightarrow> ('s \<Rightarrow> 't \<Rightarrow> bool) \<Rightarrow> ('s \<Rightarrow> 't outcome) \<Rightarrow> bool" where
  "handles T P Q h \<longleftrightarrow> (\<forall>st. P st \<longrightarrow> (case h st of Done st' \<Rightarrow> Q st st' | _ \<Rightarrow> \<not> T))"

lemma handles_Done: "(\<And>st. P st \<Longrightarrow> Q st (f st)) \<Longrightarrow> handles T P Q (\<lambda>st. Done (f st))"
  by (simp add: handles_def)

lemma handlesD: "handles T P Q h \<Longrightarrow> P st \<Longrightarrow> h st = Done st' \<Longrightarrow> Q st st'"
  by (force simp: handles_def)

lemma handles_total: "handles True P Q h \<Longrightarrow> P st \<Longrightarrow> \<exists>st'. h st = Done st' \<and> Q st st'"
  by (cases "h st") (force simp: handles_def)+

lemma handles_nth: "list_all (handles T P Q) hs \<Longrightarrow> i < length hs \<Longrightarrow> handles T P Q (hs ! i)"
  by (simp add: list_all_length)

lemma handles_cases:
  "(\<And>st. P st \<Longrightarrow> handles T P Q (h st)) \<Longrightarrow> handles T P Q (\<lambda>st. h st st)"
  by (auto simp: handles_def)

lemma handles_obind:
  assumes "case r of Done a \<Rightarrow> (case f a of Done b \<Rightarrow> R b | _ \<Rightarrow> \<not> T) | _ \<Rightarrow> \<not> T"
  shows "case obind r f of Done b \<Rightarrow> R b | _ \<Rightarrow> \<not> T"
  using assms by (simp split: outcome.splits)

subsection \<open>The tables\<close>

definition register_instructions :: "(psxRegisters \<Rightarrow> psxRegisters) list" where
  "register_instructions = [psxSLL, psxSRL, psxSRA, psxSLLV, psxSRLV, psxSRAV, psxMFHI, psxMTHI, psxMFLO,
     psxMTLO, psxMULT, psxMULTU, psxDIV, psxDIVU, psxADD, psxADDU, psxSUB, psxSUBU, psxAND, psxOR, psxXOR,
     psxNOR, psxSLT, psxSLTU, psxMFC0, psxCFC0, psxMTC0, psxCTC0, psxRFE, gteMFC2, gteCFC2, gteMTC2,
     gteCTC2, psxADDI, psxADDIU, psxSLTI, psxSLTIU, psxANDI, psxORI, psxXORI, psxLUI]"

definition machine_instructions :: "'d iop_env \<Rightarrow> ('d iop \<Rightarrow> 'd iop) list" where
  "machine_instructions e = [psxSYSCALL e, psxBREAK e, psxLB e, psxLH e, psxLWL e, psxLW e, psxLBU e,
     psxLHU e, psxLWR e, psxSB e, psxSH e, psxSWL e, psxSW e, psxSWR e, gteLWC2 e, gteSWC2 e]"

lemma table_index: "unat (drop_bit 26 (c::u32)) < 64" "unat (c AND 0x3F) < 64" "unat (c AND 0x1F) < 32"
proof -
  have "unat c < 2 ^ 32" using unsigned_less [where 'a = nat, of c] by simp
  then show "unat (drop_bit 26 c) < 64" by (simp add: drop_bit_eq_div unat_div)
  have "c AND 0x3F < 64" using word_and_le1 [of c "0x3F"] by (rule order.strict_trans1) simp
  then show "unat (c AND 0x3F) < 64" by (simp add: word_less_nat_alt)
  show "unat (c AND 0x1F) < 32" using word_and_31_less [of c] by (simp add: word_less_nat_alt)
qed

lemma table_length [simp]:
  "length (psxSPC e br) = 64" "length (psxREG br) = 32" "length psxCP0_table = 32"
  "length psxCP2BSC = 32" "length (psxCP2 e) = 64" "length (psxBSC e n rec) = 64"
  by (simp_all add: psxSPC_def psxREG_def psxCP0_table_def psxCP2BSC_def psxCP2_def psxBSC_def Let_def)

lemma dispatch_handles:
  assumes R: "\<And>f st. f \<in> set register_instructions \<Longrightarrow> P st \<Longrightarrow> Q st (wmach (wpsx f) st)"
    and M: "\<And>f st. f \<in> set (machine_instructions e) \<Longrightarrow> P st \<Longrightarrow> Q st (wmach f st)"
    and G: "\<And>c st. P st \<Longrightarrow> Q st (wmach (wpsx (GteCommand e c)) st)"
    and N: "\<And>st. P st \<Longrightarrow> Q st st"
    and L: "\<And>r st. P st \<Longrightarrow> r \<noteq> 0 \<Longrightarrow> P (link r st)"
    and LQ: "\<And>r st st'. P st \<Longrightarrow> r \<noteq> 0 \<Longrightarrow> Q (link r st) st' \<Longrightarrow> Q st st'"
    and B: "\<And>tar. handles T P Q (psxDoBranch e n rec tar)"
    and J: "\<And>tar. handles T P Q (psxDoJump e n rec tar)"
  shows "handles T P Q (psxBSC e n rec ! unat (drop_bit 26 (c::u32)))"
proof -
  let ?br = "psxDoBranch e n rec"
  have r: "handles T P Q (onR f)" if "f \<in> set register_instructions" for f
    using R [OF that] by (simp add: handles_def onR_def onM_def)
  have m: "handles T P Q (onM f)" if "f \<in> set (machine_instructions e)" for f
    using M [OF that] by (simp add: handles_def onM_def)
  have null: "handles T P Q psxNULL" using N by (simp add: handles_def psxNULL_def)
  have bif: "handles T P Q (branch_if k ?br)" for k
    using B N by (auto simp: handles_def branch_if_def)
  have linked: "handles T P Q (\<lambda>st. h (link r st))" if "handles T P Q h" "r \<noteq> 0" for h and r :: u32
    using that L LQ [where r = r] by (auto simp: handles_def split: outcome.splits)
  have target: "handles T P Q (\<lambda>st. ?br (t st) st)" for t
    by (rule handles_cases [of P T Q "\<lambda>st. ?br (t st)"]) (rule B)
  have jalr: "handles T P Q (psxJALR ?br)"
    using target [of "\<lambda>st. rRs (regs st)"] linked [OF target [of "\<lambda>st. rRs (regs st)"]]
    by (auto simp: handles_def psxJALR_def Let_def)
  have spc: "list_all (handles T P Q) (psxSPC e ?br)"
    unfolding psxSPC_def using target jalr
    by (simp add: null r m register_instructions_def machine_instructions_def psxJR_def [abs_def])
  have reg: "list_all (handles T P Q) (psxREG ?br)"
    unfolding psxREG_def
    by (simp add: null bif linked [of _ 31] psxBLTZ_def [abs_def] psxBGEZ_def [abs_def] psxBLTZAL_def [abs_def]
        psxBGEZAL_def [abs_def] list_all_iff)
  have cp0: "list_all (handles T P Q) psxCP0_table"
    unfolding psxCP0_table_def by (simp add: null r register_instructions_def list_all_iff)
  have bsc2: "list_all (handles T P Q) psxCP2BSC"
    unfolding psxCP2BSC_def by (simp add: null r register_instructions_def list_all_iff)
  have basic: "handles T P Q (\<lambda>st. (psxCP2BSC ! unat (pRs (regs st))) st)"
    by (rule handles_cases, rule handles_nth [OF bsc2]) (simp add: pRs_def table_index)
  have cp2: "list_all (handles T P Q) (psxCP2 e)"
    unfolding psxCP2_def
    using basic G null by (auto simp: list_all_iff onR_def onM_def handles_def)
  have special: "handles T P Q (\<lambda>st. (psxSPC e ?br ! unat (pFunct (regs st))) st)"
    by (rule handles_cases, rule handles_nth [OF spc]) (simp add: pFunct_def table_index)
  have regimm: "handles T P Q (\<lambda>st. (psxREG ?br ! unat (pRt (regs st))) st)"
    by (rule handles_cases, rule handles_nth [OF reg]) (simp add: pRt_def table_index)
  have cop0: "handles T P Q (\<lambda>st. (psxCP0_table ! unat (pRs (regs st))) st)"
    by (rule handles_cases, rule handles_nth [OF cp0]) (simp add: pRs_def table_index)
  have cop2: "handles T P Q (\<lambda>st. (psxCP2 e ! unat (pFunct (regs st))) st)"
    by (rule handles_cases, rule handles_nth [OF cp2]) (simp add: pFunct_def table_index)
  have jump: "handles T P Q (psxJ (psxDoJump e n rec))"
    unfolding psxJ_def [abs_def] by (rule handles_cases) (rule J)
  have jal: "handles T P Q (psxJAL ?br)"
    using linked [OF target [of "\<lambda>st. pJumpTarget (regs st)"], of 31] by (simp add: psxJAL_def [abs_def] Let_def)
  have "list_all (handles T P Q) (psxBSC e n rec)"
    unfolding psxBSC_def Let_def using special regimm cop0 cop2 jump jal
    by (simp add: null r m bif register_instructions_def machine_instructions_def psxBEQ_def [abs_def]
        psxBNE_def [abs_def] psxBLEZ_def [abs_def] psxBGTZ_def [abs_def])
  then show ?thesis by (rule handles_nth) (simp add: table_index)
qed

subsection \<open>The window of the fallback\<close>

definition frame :: "'d interp \<Rightarrow> bool \<times> u32 \<times> u32 list \<times> u32" where
  "frame st = (FallbackActive st, FallbackInstructionCount st, FallbackOpcodes st, FallbackInstructions st)"

lemma frame_wmach [simp]: "frame (wmach f st) = frame st"
  by (simp add: frame_def)

lemma frame_set [simp]:
  "frame (set_delay b st) = frame st" "frame (set_pc a st) = frame st" "frame (set_code c st) = frame st"
  "frame (link r st) = frame st"
  by (simp_all add: set_delay_def set_pc_def set_code_def link_def)

lemma frame_upd [simp]:
  "frame (st\<lparr>mach := s\<rparr>) = frame st" "frame (st\<lparr>branch2 := b\<rparr>) = frame st"
  "frame (st\<lparr>FallbackIrxHandled := b\<rparr>) = frame st" "frame (st\<lparr>FallbackExceptionHandled := b\<rparr>) = frame st"
  "frame (st\<lparr>FallbackUnalignedTarget := b\<rparr>) = frame st" "frame (st\<lparr>ConstGprs := g\<rparr>) = frame st"
  "frame (st\<lparr>RegisterJumpTargetValid := b\<rparr>) = frame st" "frame (st\<lparr>RegisterJumpTarget := a\<rparr>) = frame st"
  "frame (st\<lparr>CompileBranch := b\<rparr>) = frame st" "frame (st\<lparr>DelayPending := b\<rparr>) = frame st"
  "frame (st\<lparr>DelayInstruction := a\<rparr>) = frame st" "frame (st\<lparr>DelayBranch := b\<rparr>) = frame st"
  by (simp_all add: frame_def)

lemma frame_const [simp]:
  "frame (VitaIopRecompilerSetGprConst r b st) = frame st"
  "frame (VitaIopRecompilerDeleteGprConst r st) = frame st"
  by (simp_all add: VitaIopRecompilerSetGprConst_def VitaIopRecompilerDeleteGprConst_def)

lemma frame_update [simp]: "frame (VitaIopRecompilerUpdateConstState op st) = frame st"
  by (simp only: VitaIopRecompilerUpdateConstState_def Let_def if_distrib [of frame] frame_const if_cancel)

lemma frame_prepare [simp]: "frame (VitaIopRecompilerPrepareBranch op st) = frame st"
  by (simp add: VitaIopRecompilerPrepareBranch_def Let_def if_distrib [of frame] del: if_split)

lemma frame_stages [simp]:
  "frame (exec_enter st) = frame st" "frame (exec_inject e st) = frame st" "frame (exec_leave e op d st) = frame st"
  by (simp_all add: exec_enter_def exec_inject_def exec_leave_def Let_def)

lemma frameD:
  "frame st = frame st' \<Longrightarrow> FallbackActive st = FallbackActive st' \<and>
     FallbackInstructionCount st = FallbackInstructionCount st' \<and>
     FallbackOpcodes st = FallbackOpcodes st' \<and> FallbackInstructions st = FallbackInstructions st'"
  by (simp add: frame_def)

text \<open>A window of which every opcode can be read, with at most \<open>m\<close> instructions to go, and an
  execution inside it.\<close>

definition window :: "nat \<Rightarrow> 'd interp \<Rightarrow> bool" where
  "window m st \<longleftrightarrow> FallbackActive st \<and> unat (FallbackInstructionCount st) = length (FallbackOpcodes st) \<and>
     FallbackInstructions st \<le> FallbackInstructionCount st \<and>
     unat (FallbackInstructionCount st) - unat (FallbackInstructions st) \<le> m"

definition progress :: "'d interp \<Rightarrow> 'd interp \<Rightarrow> bool" where
  "progress st st' \<longleftrightarrow> FallbackActive st' \<and> FallbackInstructionCount st' = FallbackInstructionCount st \<and>
     FallbackOpcodes st' = FallbackOpcodes st \<and> FallbackInstructions st \<le> FallbackInstructions st' \<and>
     FallbackInstructions st' \<le> FallbackInstructionCount st"

definition unfinished :: "nat \<Rightarrow> 'd interp \<Rightarrow> bool" where
  "unfinished m st \<longleftrightarrow> window m st \<and> FallbackInstructions st < FallbackInstructionCount st"

definition advances :: "'d interp \<Rightarrow> 'd interp \<Rightarrow> bool" where
  "advances st st' \<longleftrightarrow> progress st st' \<and> FallbackInstructions st < FallbackInstructions st'"

lemma window_frame: "frame st = frame st' \<Longrightarrow> window m st = window m st'"
  and progress_frame: "frame st = frame st' \<Longrightarrow> progress st st'' = progress st' st''"
  and progress_frame2: "frame st = frame st' \<Longrightarrow> progress st'' st = progress st'' st'"
  and unfinished_frame: "frame st = frame st' \<Longrightarrow> unfinished m st = unfinished m st'"
  by (auto dest!: frameD simp: window_def progress_def unfinished_def)

lemma progress_refl: "window m st \<Longrightarrow> frame st' = frame st \<Longrightarrow> progress st st'"
  by (auto dest!: frameD simp: window_def progress_def)

lemma progress_trans: "progress a b \<Longrightarrow> progress b c \<Longrightarrow> progress a c"
  by (auto simp: progress_def)

lemma window_progress: "window m st \<Longrightarrow> progress st st' \<Longrightarrow> window m st'"
  by (auto simp: window_def progress_def word_le_nat_alt)

lemma window_advances: "window (Suc m) st \<Longrightarrow> advances st st' \<Longrightarrow> window m st'"
  by (auto simp: window_def progress_def advances_def word_le_nat_alt word_less_nat_alt)

lemma unfinished_opcode: "unfinished m st \<Longrightarrow> \<exists>op. opcode_at (FallbackInstructions st) st = Done op"
  by (simp add: unfinished_def window_def opcode_at_def word_less_nat_alt)

lemma advances_progress: "advances st st' \<Longrightarrow> progress st st'"
  by (simp add: advances_def)

lemma nested_branches_total:
  assumes rec: "handles True (unfinished m) advances rec" and "window k st" "k \<le> m" "k < n"
  shows "\<exists>st'. nested_branches n rec st = Done st' \<and> progress st st'"
  using assms(2-4)
proof (induction n arbitrary: k st)
  case 0
  then show ?case by simp
next
  case (Suc n)
  show ?case
  proof (cases "FallbackInstructions st < FallbackInstructionCount st")
    case False
    then show ?thesis using progress_refl [OF Suc.prems(1) refl] by simp
  next
    case True
    then have u: "unfinished m st" using Suc.prems by (auto simp: unfinished_def window_def)
    obtain op where op: "opcode_at (FallbackInstructions st) st = Done op" using unfinished_opcode [OF u] by blast
    obtain st1 where st1: "rec st = Done st1" and adv: "advances st st1" using handles_total [OF rec u] by blast
    from Suc.prems True obtain k' where k: "k = Suc k'" by (cases k) (auto simp: window_def word_less_nat_alt)
    have w1: "window k' st1" using Suc.prems(1) adv by (auto simp: k intro: window_advances)
    obtain st2 where st2: "nested_branches n rec st1 = Done st2" "progress st1 st2"
      using Suc.IH [OF w1] Suc.prems k by auto
    have fr: "progress st (set_pc a st1)" "progress st (st1\<lparr>FallbackExceptionHandled := b\<rparr>)" for a b
      using adv by (simp_all add: advances_def progress_frame2 [of "set_pc a st1" st1]
          progress_frame2 [of "st1\<lparr>FallbackExceptionHandled := b\<rparr>" st1])
    show ?thesis using True op st1 st2 fr advances_progress [OF adv] progress_trans [of st st1 st2]
      by (simp add: Let_def)
  qed
qed

lemma fallback_branch_total:
  assumes rec: "handles True (unfinished m) advances rec" and "m < n"
  shows "handles True (window m) progress (fallback_branch n rec tar)"
  unfolding handles_def
proof (intro allI impI)
  fix st0 :: "'a interp"
  assume w: "window m st0"
  define st where "st = set_delay False (st0\<lparr>branch2 := True\<rparr>)"
  have fr: "frame st = frame st0" by (simp add: st_def)
  then have w': "window m st" using w window_frame by blast
  have pr: "progress st0 st' = progress st st'" for st' using fr progress_frame by blast
  show "case fallback_branch n rec tar st0 of Done st' \<Rightarrow> progress st0 st' | _ \<Rightarrow> \<not> True"
  proof (cases "FallbackInstructionCount st \<le> FallbackInstructions st")
    case True
    then show ?thesis using w' progress_refl [OF w', of "st\<lparr>FallbackExceptionHandled := True\<rparr>"]
      by (simp add: fallback_branch_def st_def [symmetric] pr)
  next
    case False
    then have u: "unfinished m st" using w' by (simp add: unfinished_def)
    obtain op where op: "opcode_at (FallbackInstructions st) st = Done op" using unfinished_opcode [OF u] by blast
    obtain st1 where st1: "rec st = Done st1" and adv: "advances st st1" using handles_total [OF rec u] by blast
    obtain st2 where st2: "nested_branches n rec st = Done st2" "progress st st2"
      using nested_branches_total [OF rec w'] \<open>m < n\<close> by auto
    have "progress st st'" if "frame st' = frame st1" for st'
      using adv that by (simp add: advances_def progress_frame2 [OF that])
    then show ?thesis using False op st1 st2
      by (simp add: fallback_branch_def st_def [symmetric] pr Let_def)
  qed
qed

lemma psxDoBranch_total:
  assumes rec: "handles True (unfinished m) advances rec" and "m < n"
  shows "handles True (window m) progress (psxDoBranch e n rec tar)"
  unfolding handles_def
proof (intro allI impI)
  fix st0 :: "'a interp"
  assume w: "window m st0"
  then have "FallbackActive st0" by (simp add: window_def)
  define st where "st = (if RegisterJumpTargetValid st0 then st0\<lparr>RegisterJumpTargetValid := False\<rparr> else st0)"
  have fr: "frame st = frame st0" by (simp add: st_def)
  then have "window m st" using w window_frame by blast
  from handles_total [OF fallback_branch_total [OF assms] this]
  obtain st' where "fallback_branch n rec (if RegisterJumpTargetValid st0 then RegisterJumpTarget st0 else tar) st = Done st'"
    and "progress st st'" by blast
  then show "case psxDoBranch e n rec tar st0 of Done st' \<Rightarrow> progress st0 st' | _ \<Rightarrow> \<not> True"
    using \<open>FallbackActive st0\<close> progress_frame [OF fr]
    by (simp add: psxDoBranch_def st_def Let_def split: if_splits)
qed

lemma jump_delayslot_window:
  assumes "window m st"
  shows "\<exists>d st1. jump_delayslot e st = Done (d, st1) \<and> frame st1 = frame st"
proof (cases "FallbackInstructions st < FallbackInstructionCount st")
  case True
  then have "unfinished m st" using assms by (simp add: unfinished_def)
  then obtain op where "opcode_at (FallbackInstructions st) st = Done op" using unfinished_opcode by blast
  with True assms show ?thesis by (simp add: jump_delayslot_def window_def)
next
  case False
  then show ?thesis by (simp add: jump_delayslot_def case_prod_beta)
qed

lemma frame_irx_import [simp]: "frame (snd (irx_import e d st)) = frame st"
  by (simp add: irx_import_def Let_def case_prod_beta)

lemma psxDoJump_total:
  assumes rec: "handles True (unfinished m) advances rec" and "m < n"
  shows "handles True (window m) progress (psxDoJump e n rec tar)"
  unfolding handles_def
proof (intro allI impI)
  fix st0 :: "'a interp"
  assume w: "window m st0"
  have go: "case psxDoBranch e n rec tar st of Done st' \<Rightarrow> progress st0 st' | _ \<Rightarrow> \<not> True"
    if "frame st = frame st0" for st
    using handles_total [OF psxDoBranch_total [OF assms, of e tar], of st] w window_frame [OF that]
      progress_frame [OF that] by auto
  have stay: "progress st0 st" if "frame st = frame st0" for st using progress_refl [OF w that] .
  obtain d st1 where "jump_delayslot e st0 = Done (d, st1)" and "frame st1 = frame st0"
    using jump_delayslot_window [OF w] by blast
  then show "case psxDoJump e n rec tar st0 of Done st' \<Rightarrow> progress st0 st' | _ \<Rightarrow> \<not> True"
    by (auto simp: psxDoJump_def case_prod_beta intro!: go stay)
qed

subsection \<open>The fallback always ends\<close>

text \<open>The trace hook lets every instruction run.\<close>

definition no_stop :: "'d iop_env \<Rightarrow> bool" where
  "no_stop e \<longleftrightarrow> (\<forall>a c d. \<not> fst (RecordIopPreInstruction e a c d))"

lemma dispatch_total:
  assumes rec: "handles True (unfinished m) advances rec" and "m < n"
  shows "handles True (window m) progress (exec_dispatch e n rec)"
proof -
  have bsc: "handles True (window m) progress (psxBSC e n rec ! unat (drop_bit 26 c))" for c :: u32
  proof (rule dispatch_handles)
    show "handles True (window m) progress (psxDoBranch e n rec tar)" for tar
      by (rule psxDoBranch_total [OF assms])
    show "handles True (window m) progress (psxDoJump e n rec tar)" for tar
      by (rule psxDoJump_total [OF assms])
    show "window m (link r st)" if "window m st" for r and st :: "'a interp"
      using that window_frame [of "link r st" st m] by simp
    show "progress st st'" if "progress (link r st) st'" for r and st st' :: "'a interp"
      using that progress_frame [of "link r st" st] by simp
  qed (auto intro: progress_refl)
  have keep: "progress st (st\<lparr>mach := s\<rparr>)" if "window m st" for st :: "'a interp" and s
    using progress_refl [OF that, of "st\<lparr>mach := s\<rparr>"] by simp
  show ?thesis
    unfolding exec_dispatch_def [abs_def] Let_def
    using bsc keep by (auto simp: handles_def split: option.splits)
qed

lemma exec_fetch_window:
  assumes "unfinished m st"
  shows "\<exists>st'. exec_fetch e st = Done st' \<and> frame st' = frame st"
proof -
  obtain op where "opcode_at (FallbackInstructions st) st = Done op" using unfinished_opcode [OF assms] by blast
  moreover have "FallbackActive st" using assms by (simp add: unfinished_def window_def)
  ultimately show ?thesis by (simp add: exec_fetch_def Let_def)
qed

lemma exec_advance_window:
  assumes "unfinished (Suc m) st"
  shows "window m (exec_advance st) \<and> advances st (exec_advance st)"
proof -
  define st1 where "st1 = (set_pc (psx_pc (regs st) + 4) st)\<lparr>FallbackInstructions := FallbackInstructions st + 1\<rparr>"
  have a: "FallbackActive st" using assms by (simp add: unfinished_def window_def)
  have fr: "frame (exec_advance st) = frame st1"
    using a by (simp add: exec_advance_def st1_def Let_def set_pc_def)
  have lt: "FallbackInstructions st < FallbackInstructionCount st" using assms by (simp add: unfinished_def)
  then have "unat (FallbackInstructions st + 1) = unat (FallbackInstructions st) + 1"
    using unsigned_less [where 'a = nat, of "FallbackInstructionCount st"]
    by (simp add: word_less_nat_alt unat_word_ariths)
  then have "advances st st1"
    using a lt by (simp add: advances_def progress_def st1_def set_pc_def word_less_nat_alt word_le_nat_alt)
  then have "advances st (exec_advance st)" using fr by (auto dest: frameD simp: advances_def progress_def)
  then show ?thesis using assms by (auto simp: unfinished_def intro: window_advances)
qed

lemma execI_total:
  assumes hook: "no_stop e" and rec: "handles True (unfinished m) advances rec" and "m < n"
  shows "handles True (unfinished (Suc m)) advances (execI e n rec)"
  unfolding handles_def
proof (intro allI impI)
  fix st0 :: "'a interp"
  assume u: "unfinished (Suc m) st0"
  let ?i = "exec_inject e (exec_enter st0)"
  have "unfinished (Suc m) ?i" using u unfinished_frame [of ?i st0] by simp
  then obtain st1 where st1: "exec_fetch e ?i = Done st1" and f1: "frame st1 = frame st0"
    using exec_fetch_window [of "Suc m" ?i e] by auto
  define st2 where "st2 = wmach (\<lambda>s. s\<lparr>iopDev := snd (RecordIopPreInstruction e (psx_pc (regs st1))
    (psx_code (regs st1)) (iopDev (mach st1)))\<rparr>) st1"
  have f2: "frame st2 = frame st0" using f1 by (simp add: st2_def)
  then have "unfinished (Suc m) st2" using u unfinished_frame by blast
  then have w: "window m (exec_advance st2)" and adv: "advances st2 (exec_advance st2)"
    using exec_advance_window by auto
  obtain st3 where st3: "exec_dispatch e n rec (exec_advance st2) = Done st3" and pr: "progress (exec_advance st2) st3"
    using handles_total [OF dispatch_total [OF rec \<open>m < n\<close>] w] by blast
  have "advances st0 (exec_leave e op d st3)" for op d
    using adv pr frameD [OF f2] frameD [of "exec_leave e op d st3" st3]
    by (auto simp: advances_def progress_def)
  moreover have "execI e n rec st0 = Done (exec_leave e (psx_code (regs st1)) (delay_instruction st0) st3)"
    using hook st1 st3
    by (auto simp: execI_def st2_def Let_def no_stop_def split: prod.splits) (metis fst_conv snd_conv)+
  ultimately show "case execI e n rec st0 of Done st' \<Rightarrow> advances st0 st' | _ \<Rightarrow> \<not> True" by simp
qed

lemma exec_fuel_total:
  "no_stop e \<Longrightarrow> handles True (unfinished n) advances (exec_fuel e n)"
proof (induction n)
  case 0
  then show ?case by (auto simp: handles_def unfinished_def window_def word_less_nat_alt)
next
  case (Suc n)
  then have "handles True (unfinished n) advances (exec_fuel e n)" by simp
  from execI_total [OF Suc.prems this, of "Suc n"] show ?case by (simp add: handles_def)
qed

lemma frame_after [simp]: "frame (fallback_after op a st) = frame st"
  by (simp add: fallback_after_def)

lemma fallback_loop_total:
  assumes hook: "no_stop e" and "window k st" "k < j" "k \<le> n" "FallbackInstructionCount st = count"
  shows "\<exists>st'. fallback_loop e n j count st = Done (False, st') \<and> progress st st' \<and>
    (fallback_ended st' \<or> FallbackInstructions st' = count) \<and>
    (FallbackInstructions st < count \<longrightarrow> \<not> fallback_ended st \<longrightarrow> FallbackInstructions st < FallbackInstructions st')"
  using assms(2-5)
proof (induction j arbitrary: k st)
  case 0
  then show ?case by simp
next
  case (Suc j)
  show ?case
  proof (cases "FallbackInstructions st < count \<and> \<not> fallback_ended st")
    case False
    then show ?thesis using progress_refl [OF Suc.prems(1) refl] Suc.prems
      by (auto simp: window_def)
  next
    case True
    then have u: "unfinished n st" using Suc.prems by (auto simp: unfinished_def window_def)
    obtain op where op: "opcode_at (FallbackInstructions st) st = Done op" using unfinished_opcode [OF u] by blast
    obtain st1 where st1: "exec_fuel e n st = Done st1" and adv: "advances st st1"
      using handles_total [OF exec_fuel_total [OF hook] u] by blast
    from Suc.prems True obtain k' where k: "k = Suc k'" by (cases k) (auto simp: window_def word_less_nat_alt)
    define st2 where "st2 = fallback_after op (psx_pc (regs st)) st1"
    have fr: "frame st2 = frame st1" by (simp add: st2_def)
    have "window k' st1" using Suc.prems(1) adv by (auto simp: k intro: window_advances)
    then have w2: "window k' st2" using window_frame [OF fr] by simp
    have c2: "FallbackInstructionCount st2 = count"
      using Suc.prems(4) adv frameD [OF fr] by (simp add: advances_def progress_def)
    obtain st3 where st3: "fallback_loop e n j count st2 = Done (False, st3)" "progress st2 st3"
      "fallback_ended st3 \<or> FallbackInstructions st3 = count"
      using Suc.IH [OF w2 _ _ c2] Suc.prems(2,3) k by auto
    have "advances st st3"
      using adv st3(2) frameD [OF fr] by (auto simp: advances_def progress_def)
    moreover have "fallback_loop e n (Suc j) count st = Done (False, st3)"
      using True op st1 st3(1) adv Suc.prems(4)
      by (auto simp: st2_def [symmetric] Let_def advances_def progress_def)
    ultimately show ?thesis using st3(3) by (auto simp: advances_def)
  qed
qed

lemma fallback_block_total:
  assumes "no_stop e" "length ops = unat count" "count \<noteq> 0" "\<not> FallbackActive st" "unat count < n"
  obtains x k st' where
    "VitaExecuteIopInterpreterRecompilerBlock e n (Some ops) count True st = Done (x, k, st')"
    "x \<noteq> Exit_Failed" "0 < k" "k \<le> count" "x = Exit_Completed \<Longrightarrow> k = count" "\<not> FallbackActive st'"
proof -
  let ?s0 = "fallback_start ops count st"
  have w: "window (unat count) ?s0" using assms(2) by (simp add: window_def fallback_start_def)
  have c: "FallbackInstructionCount ?s0 = count" and z: "FallbackInstructions ?s0 = 0" "\<not> fallback_ended ?s0"
    by (simp_all add: fallback_start_def fallback_ended_def)
  obtain st1 where st1: "fallback_loop e n n count ?s0 = Done (False, st1)" "progress ?s0 st1"
    "fallback_ended st1 \<or> FallbackInstructions st1 = count" "0 < FallbackInstructions st1"
    using fallback_loop_total [OF assms(1) w assms(5) less_imp_le [OF assms(5)] c] assms(3) z
    by (auto simp: word_gt_0)
  define st2 where "st2 = set_delay False (st1\<lparr>FallbackActive := False, FallbackInstructionCount := 0,
    FallbackOpcodes := [], RegisterJumpTargetValid := False, ConstGprs := 1, CompileBranch := False,
    DelayPending := False\<rparr>)"
  have ended: "fallback_ended st2 = fallback_ended st1" "FallbackInstructions st2 = FallbackInstructions st1"
    "\<not> FallbackActive st2"
    by (simp_all add: st2_def set_delay_def fallback_ended_def)
  show thesis
  proof (rule that)
    show "VitaExecuteIopInterpreterRecompilerBlock e n (Some ops) count True st =
        Done (fallback_exit False count st2, FallbackInstructions st1, st2)"
      using assms(3,4) st1(1)
      by (simp add: VitaExecuteIopInterpreterRecompilerBlock_def st2_def Let_def)
    show "fallback_exit False count st2 \<noteq> Exit_Failed"
      "fallback_exit False count st2 = Exit_Completed \<Longrightarrow> FallbackInstructions st1 = count"
      using st1(3) ended by (auto simp: fallback_exit_def fallback_ended_def split: if_splits)
    show "0 < FallbackInstructions st1" "FallbackInstructions st1 \<le> count"
      using st1 c by (simp_all add: progress_def)
  qed (rule ended)
qed

end
