(* ===== verification/IOP_Zero.thy ===== *)
theory IOP_Zero
  imports IOP_Exec_Inv
begin

text \<open>Register 0 of the I/O processor through memory accesses, the event test, branches and whole
  executions. The devices may do anything to the machine but change register 0.\<close>

definition zero_kept :: "'d iop \<Rightarrow> bool" where
  "zero_kept s \<longleftrightarrow> psxGPR (psx s) 0 = 0"

definition devices_keep_zero :: "'d iop_env \<Rightarrow> bool" where
  "devices_keep_zero e \<longleftrightarrow>
    (\<forall>s. zero_kept s \<longrightarrow>
      (\<forall>n p a. zero_kept (snd (HwRead e n p a s))) \<and> (\<forall>n p a v. zero_kept (HwWrite e n p a v s)) \<and>
      (\<forall>a. zero_kept (snd (cdvdRead e a s))) \<and> (\<forall>a v. zero_kept (cdvdWrite e a v s)) \<and>
      (\<forall>n a. zero_kept (snd (DEV9read e n a s))) \<and> (\<forall>n a v. zero_kept (DEV9write e n a v s)) \<and>
      (\<forall>a. zero_kept (snd (SPU2read e a s))) \<and> (\<forall>a v. zero_kept (SPU2write e a v s)) \<and>
      (\<forall>n a b c. zero_kept (psxDma e n a b c s)) \<and> zero_kept (psxRcntUpdate e s) \<and>
      (\<forall>n. zero_kept (IopCallback e n s)) \<and> (\<forall>t i. zero_kept (snd (irxImportExec e t i s)))) \<and>
    (\<forall>c p. psxGPR p 0 = 0 \<longrightarrow> psxGPR (GteCommand e c p) 0 = 0)"

lemmas devices_keep = devices_keep_zero_def [THEN iffD1, THEN conjunct1, rule_format]

lemma zero_upd [simp]:
  "zero_kept (s\<lparr>iopHost := m\<rparr>) = zero_kept s" "zero_kept (s\<lparr>iopDev := d\<rparr>) = zero_kept s"
  "zero_kept (s\<lparr>iopIsDelaySlot := b\<rparr>) = zero_kept s" "zero_kept (s\<lparr>iopEventAction := b\<rparr>) = zero_kept s"
  "zero_kept (s\<lparr>iopEventTestIsActive := b\<rparr>) = zero_kept s"
  by (simp_all add: zero_kept_def)

lemma zero_hput [simp]: "zero_kept (hput a v s) = zero_kept s"
  by (simp add: hput_def)

lemma zero_invalidate [simp]: "zero_kept (cpu_invalidate e a n s) = zero_kept s"
  by (simp add: cpu_invalidate_def split: option.split)

lemma zero_exception [simp]: "zero_kept (psxException f c bd s) = zero_kept s"
  by (simp add: zero_kept_def)

lemma zero_wpsx: "psxGPR (f (psx s)) 0 = psxGPR (psx s) 0 \<Longrightarrow> zero_kept (wpsx f s) = zero_kept s"
  by (simp add: zero_kept_def)

lemma zero_reads:
  assumes "devices_keep_zero e" "zero_kept s"
  shows "zero_kept (snd (iopMemRead8 e a s))" "zero_kept (snd (iopMemRead16 e a s))"
    "zero_kept (snd (iopMemRead32 e a s))"
  using devices_keep [OF assms] assms(2)
  by (simp_all add: iopMemRead8_def iopMemRead16_def iopMemRead32_def hw_page_read_def Let_def case_prod_beta)

lemma zero_write_parts:
  assumes "devices_keep_zero e" "zero_kept s"
  shows "zero_kept (hw_page_write e a v s)" "zero_kept (ram_write e a v s)"
    "zero_kept (iopHwWrite32_Sio2DmaChcr e a x s)"
  using devices_keep [OF assms] devices_keep [OF assms(1), of "hput b y s" for b and y :: u32] assms(2)
  by (simp_all add: hw_page_write_def ram_write_def iopHwWrite32_Sio2DmaChcr_def DmaExec2_def Let_def)

lemma zero_writes:
  assumes "devices_keep_zero e" "zero_kept s"
  shows "zero_kept (iopMemWrite8 e a v s)" "zero_kept (iopMemWrite16 e a w s)" "zero_kept (iopMemWrite32 e a x s)"
proof -
  note parts = zero_write_parts [OF assms] zero_hput assms(2) if_distrib [of zero_kept] if_cancel Let_def
  note dev = devices_keep [OF assms]
  have d: "zero_kept (cdvdWrite e a v s)" "zero_kept (DEV9write e n a x s)" "zero_kept (SPU2write e a w s)" for a n v x w
    using dev by auto
  show "zero_kept (iopMemWrite8 e a v s)" by (simp only: iopMemWrite8_def parts d)
  show "zero_kept (iopMemWrite16 e a w s)" by (simp only: iopMemWrite16_def parts d)
  show "zero_kept (iopMemWrite32 e a x s)" by (simp only: iopMemWrite32_def parts d)
qed

lemma zero_pc [simp]: "zero_kept (wpsx (\<lambda>p. p\<lparr>psx_pc := h p\<rparr>) s) = zero_kept s"
  by (simp add: zero_kept_def)

lemma gte_zero: "psxGPR (MTC2 v r p) = psxGPR p" "psxGPR (snd (MFC2 r p)) = psxGPR p"
  by (simp_all add: MTC2_def MFC2_def Let_def)

lemma register_zero:
  "f \<in> set register_instructions \<Longrightarrow> psxGPR p 0 = 0 \<Longrightarrow> psxGPR (f p) 0 = 0"
  by (auto simp: register_instructions_def iop_defs Let_def psxRFE_def gte_zero split: prod.splits)
    (metis gte_zero(2) snd_conv)+

lemma zero_load_Rt: "(\<And>a. zero_kept (snd (rd a s))) \<Longrightarrow> zero_kept (load_Rt rd g s)"
  by (auto simp: load_Rt_def zero_kept_def case_prod_beta)

lemma machine_zero:
  assumes "devices_keep_zero e" "f \<in> set (machine_instructions e)" "zero_kept s"
  shows "zero_kept (f s)"
proof -
  note r = zero_reads [OF assms(1,3)]
  have wr: "zero_kept (iopMemWrite32 e a v s1)" if "iopMemRead32 e b s = (x, s1)" for a b v x s1
    using zero_writes(3) [OF assms(1)] r(3) [of b] that by simp
  have lwl: "zero_kept (psxLWL e s)" "zero_kept (psxLWR e s)"
    using r(3) [of "oB (psx s) AND 0xfffffffc"]
    by (auto simp: psxLWL_def psxLWR_def Let_def zero_kept_def split: prod.splits)
  have swl: "zero_kept (psxSWL e s)" "zero_kept (psxSWR e s)"
    using wr by (simp_all add: psxSWL_def psxSWR_def Let_def split: prod.splits)
  have gte: "zero_kept (gteLWC2 e s)" "zero_kept (gteSWC2 e s)"
    using r(3) [of "oB (psx s)"] assms(3) gte_zero(2) [of "pRt (psx s)" "psx s"]
    by (auto simp: gteLWC2_def gteSWC2_def gte_zero zero_kept_def case_prod_beta
        intro!: zero_writes(3) [OF assms(1), unfolded zero_kept_def])
  show ?thesis
    using assms(2,3) lwl swl gte zero_writes [OF assms(1,3)] r
    by (auto simp: machine_instructions_def psxSYSCALL_def psxBREAK_def psxLB_def psxLBU_def
        psxLH_def psxLHU_def psxLW_def psxSB_def psxSH_def psxSW_def
        intro!: zero_load_Rt)
qed

subsection \<open>The event test and the branches\<close>

lemma psxSetNextBranch_GPR [simp]: "psxGPR (psxSetNextBranch a d p) = psxGPR p"
  by (simp add: psxSetNextBranch_def)

lemma zero_test_event:
  assumes "devices_keep_zero e" "zero_kept s"
  shows "zero_kept (IopTestEvent e n s)"
proof -
  have "zero_kept (wpsx (\<lambda>p. p\<lparr>psx_interrupt := g p\<rparr>) s)" for g using assms(2) by (simp add: zero_kept_def)
  from devices_keep [OF assms(1) this] show ?thesis
    using assms(2) by (simp add: IopTestEvent_def) (simp add: zero_kept_def)
qed

lemma zero_event_test:
  assumes "devices_keep_zero e" "zero_kept s"
  shows "zero_kept (iopEventTest e s)"
proof -
  have upd: "zero_kept (wpsx (\<lambda>p. p\<lparr>iopNextEventCycle := g p\<rparr>) s') = zero_kept s'" for g and s' :: "'a iop"
    by (simp add: zero_kept_def)
  have seed: "zero_kept (event_seed e s)"
    using assms(2) devices_keep [OF assms(1), of "wpsx (\<lambda>p. p\<lparr>iopNextEventCycle := g p\<rparr>) s" for g]
    by (simp add: event_seed_def Let_def upd)
  have tests: "zero_kept (psxTestInterrupts e s')" if "zero_kept s'" for s'
    by (simp add: psxTestInterrupts_def Let_def zero_test_event [OF assms(1)] that)
  have "zero_kept (event_interrupts e s')" if "zero_kept s'" for s'
    using tests [of "s'\<lparr>iopEventTestIsActive := True\<rparr>"] that by (simp add: event_interrupts_def Let_def)
  then show ?thesis using seed by (simp add: iopEventTest_def event_clamp_def Let_def upd)
qed

definition zero_st :: "'d interp \<Rightarrow> bool" where
  "zero_st st \<longleftrightarrow> zero_kept (mach st)"

lemma zero_st_upd [simp]:
  "zero_st (set_delay b st) = zero_st st" "zero_st (set_pc a st) = zero_st st" "zero_st (set_code c st) = zero_st st"
  "r \<noteq> 0 \<Longrightarrow> zero_st (link r st) = zero_st st"
  by (simp_all add: zero_st_def set_delay_def set_pc_def set_code_def link_def) (simp_all add: zero_kept_def pSetLink_def)

lemma zero_st_fields:
  "mach st' = mach st \<Longrightarrow> zero_st st' = zero_st st"
  by (simp add: zero_st_def)

lemma zero_nested:
  assumes "handles False zero_st (\<lambda>_. zero_st) rec"
  shows "handles False zero_st (\<lambda>_. zero_st) (nested_branches n rec)"
proof (induction n)
  case 0
  then show ?case by (simp add: handles_def)
next
  case (Suc n)
  have exc: "zero_st (st1\<lparr>FallbackExceptionHandled := b\<rparr>) = zero_st st1" for st1 :: "'a interp" and b
    by (rule zero_st_fields) simp
  have step: "case nested_branches (Suc n) rec st of Done st' \<Rightarrow> zero_st st' | _ \<Rightarrow> \<not> False"
    if st: "zero_st st" for st
  proof (cases "opcode_at (FallbackInstructions st) st")
    case (Done op)
    show ?thesis
    proof (cases "rec st")
      case (Done st1)
      then have "zero_st st1" using assms st by (force simp: handles_def)
      moreover from this have "case nested_branches n rec st1 of Done st' \<Rightarrow> zero_st st' | _ \<Rightarrow> \<not> False"
        using Suc by (simp add: handles_def)
      ultimately show ?thesis using \<open>opcode_at _ _ = _\<close> Done st by (simp add: Let_def exc)
    qed (use \<open>opcode_at _ _ = _\<close> st in \<open>simp_all add: Let_def\<close>)
  qed (use st in \<open>simp_all add: Let_def\<close>)
  then show ?case by (simp add: handles_def)
qed

lemma zero_branch:
  assumes "devices_keep_zero e" and rec: "handles False zero_st (\<lambda>_. zero_st) rec"
  shows "handles False zero_st (\<lambda>_. zero_st) (psxDoBranch e n rec tar)"
proof -
  have rec': "zero_st st1" if "zero_st st" "rec st = Done st1" for st st1
    using rec that by (force simp: handles_def)
  have fields: "zero_st (st\<lparr>FallbackExceptionHandled := b\<rparr>) = zero_st st" "zero_st (st\<lparr>branch2 := b\<rparr>) = zero_st st"
    "zero_st (st\<lparr>FallbackUnalignedTarget := b\<rparr>) = zero_st st" "zero_st (st\<lparr>RegisterJumpTargetValid := b\<rparr>) = zero_st st"
    "zero_st (st\<lparr>branchPC := a\<rparr>) = zero_st st" for st :: "'a interp" and a b
    by (simp_all add: zero_st_def)
  have fb: "case fallback_branch n rec t st of Done st' \<Rightarrow> zero_st st' | _ \<Rightarrow> \<not> False" if st: "zero_st st" for t st
  proof -
    let ?st = "set_delay False (st\<lparr>branch2 := True\<rparr>)"
    have "zero_st ?st" using st by (simp add: fields)
    moreover have "case nested_branches n rec ?st of Done st' \<Rightarrow> zero_st st' | _ \<Rightarrow> \<not> False"
      using zero_nested [OF rec] calculation by (simp add: handles_def)
    ultimately show ?thesis using rec' [of ?st]
      by (cases "opcode_at (FallbackInstructions ?st) ?st"; cases "rec ?st") (simp_all add: fallback_branch_def Let_def fields)
  qed
  have ev: "zero_st (wmach (iopEventTest e) st) \<longleftrightarrow> True" if "zero_st st" for st
    using zero_event_test [OF assms(1)] that by (simp add: zero_st_def)
  have pre: "zero_st (wmach (\<lambda>s. s\<lparr>iopDev := f s\<rparr>) st) = zero_st st" "zero_st (wmach (wpsx (wR 4 v)) st) = zero_st st"
    for f v and st :: "'a interp" by (simp_all add: zero_st_def) (simp_all add: zero_kept_def)
  have "case psxDoBranch e n rec tar st of Done st' \<Rightarrow> zero_st st' | _ \<Rightarrow> \<not> False" if st: "zero_st st" for st
  proof (cases "FallbackActive st")
    case True
    then show ?thesis using st fb
      by (simp add: psxDoBranch_def Let_def fields)
  next
    case False
    define st3 where "st3 = set_delay True (((if tar = 0xbfc4a000 then wmach (wpsx (wR 4 (drop_bit 20 (ExposedIopRam e))))
      else id) ((if tar = 0x890 then wmach (\<lambda>s. s\<lparr>iopDev := ClearIrxModules e (iopDev s)\<rparr>) else id) st))
        \<lparr>branch2 := True, branchPC := tar\<rparr>)"
    have z: "zero_st st3" using st by (simp add: st3_def fields pre)
    have eq: "psxDoBranch e n rec tar st = obind (rec st3) (\<lambda>st4.
         let st5 = set_pc (branchPC st4) (set_delay False st4)
         in Done (if \<not> FallbackActive st5 then wmach (iopEventTest e) st5 else st5))"
      using False by (simp add: psxDoBranch_def Let_def st3_def)
    show ?thesis unfolding eq using rec' [OF z] by (cases "rec st3") (simp_all add: Let_def ev)
  qed
  then show ?thesis by (simp add: handles_def)
qed

lemma zero_irx_scan:
  "devices_keep_zero e \<Longrightarrow> zero_kept s \<Longrightarrow> zero_kept (snd (irx_scan e a off s))"
proof (induction e a off s rule: irx_scan.induct)
  case (1 e a off s)
  show ?case
  proof (cases "iopMemRead32 e (a - of_nat off) s")
    case (Pair v s1)
    then have "zero_kept s1" using zero_reads(3) [OF 1(2,3), of "a - of_nat off"] by simp
    then show ?thesis using 1 Pair by (subst irx_scan.simps) simp
  qed
qed

lemma zero_jump:
  assumes dev: "devices_keep_zero e" and rec: "handles False zero_st (\<lambda>_. zero_st) rec"
  shows "handles False zero_st (\<lambda>_. zero_st) (psxDoJump e n rec tar)"
proof -
  have br: "case psxDoBranch e n rec tar st of Done st' \<Rightarrow> zero_st st' | _ \<Rightarrow> \<not> False" if "zero_st st" for st
    using zero_branch [OF assms, of n tar] that by (simp add: handles_def)
  have m: "zero_st (st\<lparr>mach := s\<rparr>) = zero_kept s" "zero_st (st\<lparr>FallbackIrxHandled := b\<rparr>) = zero_st st"
    for st :: "'a interp" and s b by (simp_all add: zero_st_def)
  have mset: "zero_kept (mach (set_pc a st)) = zero_st st" "zero_kept (mach (set_code c st)) = zero_st st"
    for st :: "'a interp" and a c using zero_st_upd [of _ st] zero_st_def by blast+
  have imp: "zero_kept (snd (irxImportTableAddr e a s))" "zero_kept (snd (irxImportExec e t i s))"
    if "zero_kept s" for s a t i
    using devices_keep [OF dev that] zero_irx_scan [OF dev that] by (simp_all add: irxImportTableAddr_def)
  have imp2: "zero_kept (snd (irxImportExec e t i (mach (set_pc a (set_code c (st\<lparr>mach := s\<rparr>))))))"
    if "zero_kept s" for s t i a c and st :: "'a interp"
    by (rule imp) (simp add: mset m that)
  have irx: "zero_st (snd (irx_import e d st))" if "zero_st st" for d st
  proof -
    have "zero_kept (snd (irxImportTableAddr e (psx_pc (regs st)) (mach st)))"
      using imp(1) that by (simp add: zero_st_def)
    from imp(2) [OF this] imp2 [OF this] show ?thesis
      by (simp add: irx_import_def Let_def case_prod_beta m mset)
  qed
  have slot: "zero_st st1" if "jump_delayslot e st = Done (d, st1)" "zero_st st" for d st st1
    using that zero_reads(3) [OF dev]
    by (auto simp: jump_delayslot_def obind_def zero_st_def case_prod_beta split: if_splits outcome.splits)
  have "case psxDoJump e n rec tar st of Done st' \<Rightarrow> zero_st st' | _ \<Rightarrow> \<not> False" if st: "zero_st st" for st
  proof (cases "jump_delayslot e st")
    case (Done x)
    obtain d st1 where x: "x = (d, st1)" by fastforce
    then have z: "zero_st st1" using slot Done st by simp
    show ?thesis using Done x br [OF z] irx [OF z, of d] br [OF irx [OF z, of d]]
      by (simp add: psxDoJump_def case_prod_beta)
  qed (simp_all add: psxDoJump_def)
  then show ?thesis by (simp add: handles_def)
qed

lemma zero_dispatch:
  assumes dev: "devices_keep_zero e" and rec: "handles False zero_st (\<lambda>_. zero_st) rec"
  shows "handles False zero_st (\<lambda>_. zero_st) (exec_dispatch e n rec)"
proof -
  have bsc: "handles False zero_st (\<lambda>_. zero_st) (psxBSC e n rec ! unat (drop_bit 26 c))" for c :: u32
  proof (rule dispatch_handles)
    show "handles False zero_st (\<lambda>_. zero_st) (psxDoBranch e n rec tar)" for tar by (rule zero_branch [OF assms])
    show "handles False zero_st (\<lambda>_. zero_st) (psxDoJump e n rec tar)" for tar by (rule zero_jump [OF assms])
    show "zero_st (link r st)" if "zero_st st" "r \<noteq> 0" for r and st :: "'a interp" using that by simp
  qed (use dev register_zero machine_zero [OF dev] in
      \<open>auto simp: zero_st_def zero_kept_def devices_keep_zero_def\<close>)
  have direct: "zero_kept s1" if "VitaExecuteIopRecompilerDirectLoad e c s = Some s1" "zero_kept s" for c s s1
    using that by (auto simp: VitaExecuteIopRecompilerDirectLoad_def Let_def zero_kept_def split: if_splits)
  show ?thesis
    unfolding exec_dispatch_def [abs_def] Let_def
    using bsc direct by (force simp: handles_def zero_st_def split: option.splits)
qed

lemma zero_prepare: "mach (VitaIopRecompilerPrepareBranch op st) = mach st"
  "mach (VitaIopRecompilerUpdateConstState op st) = mach st"
proof -
  have c: "mach (VitaIopRecompilerSetGprConst r b st) = mach st" "mach (VitaIopRecompilerDeleteGprConst r st) = mach st"
    for r b and st :: "'a interp"
    by (simp_all add: VitaIopRecompilerSetGprConst_def VitaIopRecompilerDeleteGprConst_def)
  show "mach (VitaIopRecompilerPrepareBranch op st) = mach st"
    by (simp add: VitaIopRecompilerPrepareBranch_def Let_def c if_distrib [of mach] del: if_split)
  show "mach (VitaIopRecompilerUpdateConstState op st) = mach st"
    by (simp only: VitaIopRecompilerUpdateConstState_def Let_def if_distrib [of mach] c if_cancel)
qed

lemma zero_stages:
  assumes "devices_keep_zero e" "zero_st st"
  shows "zero_st (exec_enter st)" "zero_st (exec_inject e st)" "zero_st (exec_advance st)"
    "zero_st (exec_leave e op d st)" "exec_fetch e st = Done st' \<Longrightarrow> zero_st st'"
proof -
  note r = zero_reads(3) [OF assms(1)] and w = zero_writes(3) [OF assms(1)]
  show "zero_st (exec_enter st)" using assms(2) by (simp add: exec_enter_def) (simp add: zero_st_def)
  show "zero_st (exec_inject e st)" using assms(2) r w
    by (simp add: exec_inject_def zero_st_def case_prod_beta)
  have "zero_st (wmach (wpsx (\<lambda>p. p\<lparr>psx_cycle := psx_cycle p + 1\<rparr>)) (set_pc a st))" for a
    using assms(2) by (simp add: zero_st_def set_pc_def zero_kept_def)
  then show "zero_st (exec_advance st)" using assms(2) zero_st_upd(2) [of _ st]
    by (simp add: exec_advance_def Let_def) (simp add: zero_st_def zero_prepare set_pc_def)
  have intc: "zero_kept (iopTestIntc e s) = zero_kept s" for s
    by (simp add: iopTestIntc_def) (simp add: zero_kept_def psxSetNextBranchDelta_def)
  show "zero_st (exec_leave e op d st)" using assms(2)
    by (simp add: exec_leave_def Let_def) (simp add: zero_st_def zero_prepare intc)
  have c: "zero_kept (mach (set_code c st)) = zero_kept (mach st)" for c and st :: "'a interp"
    using zero_st_upd(3) [of c st] by (simp add: zero_st_def)
  show "zero_st st'" if "exec_fetch e st = Done st'"
    using that assms(2) r [where s = "mach st"]
    by (auto simp: exec_fetch_def Let_def obind_def case_prod_beta zero_st_def c split: if_splits outcome.splits)
qed

lemma zero_execI:
  assumes dev: "devices_keep_zero e" and rec: "handles False zero_st (\<lambda>_. zero_st) rec"
  shows "handles False zero_st (\<lambda>_. zero_st) (execI e n rec)"
proof -
  have "case execI e n rec st of Done st' \<Rightarrow> zero_st st' | _ \<Rightarrow> \<not> False" if st: "zero_st st" for st
  proof (cases "exec_fetch e (exec_inject e (exec_enter st))")
    case (Done st1)
    let ?d = "snd (RecordIopPreInstruction e (psx_pc (regs st1)) (psx_code (regs st1)) (iopDev (mach st1)))"
    define st2 where "st2 = wmach (\<lambda>s. s\<lparr>iopDev := ?d\<rparr>) st1"
    have "zero_st st1"
      using Done zero_stages(5) [OF dev zero_stages(2) [OF dev zero_stages(1) [OF dev st]]] by simp
    then have z2: "zero_st st2" by (simp add: st2_def zero_st_def)
    have stop: "zero_st (wmach (\<lambda>s. s\<lparr>iopDev := Cpu_ExitExecution e (iopDev s)\<rparr>)
        ((wmach (wpsx (\<lambda>p. p\<lparr>iopCycleEE := 0\<rparr>)) st2)\<lparr>branch2 := True\<rparr>))"
      using z2 by (simp add: zero_st_def) (simp add: zero_kept_def)
    have "case exec_dispatch e n rec (exec_advance st2) of Done st3 \<Rightarrow> zero_st st3 | _ \<Rightarrow> \<not> False"
      using zero_dispatch [OF assms, of n] zero_stages(3) [OF dev z2] by (simp add: handles_def)
    then have run: "case obind (exec_dispatch e n rec (exec_advance st2)) (\<lambda>st3. Done (exec_leave e op d st3)) of
        Done st' \<Rightarrow> zero_st st' | _ \<Rightarrow> \<not> False" for op d
      using zero_stages(4) [OF dev] by (cases "exec_dispatch e n rec (exec_advance st2)") simp_all
    show ?thesis using stop run by (simp add: execI_def Done st2_def Let_def case_prod_beta)
  qed (simp_all add: execI_def Let_def)
  then show ?thesis by (simp add: handles_def)
qed

lemma zero_exec_fuel: "devices_keep_zero e \<Longrightarrow> handles False zero_st (\<lambda>_. zero_st) (exec_fuel e n)"
proof (induction n)
  case 0
  then show ?case by (simp add: handles_def)
next
  case (Suc n)
  then have "handles False zero_st (\<lambda>_. zero_st) (exec_fuel e n)" by simp
  from zero_execI [OF Suc.prems this, of "Suc n"] show ?case by (simp add: handles_def)
qed

end
