(* ===== verification/IOP_Branch.thy ===== *)
theory IOP_Branch
  imports IOP_Exec_Inv IOP_Access
begin

text \<open>Single instructions of the interpreter outside the fallback: the fetch, the decision of the
  conditional branches, and a taken branch with its delay slot.\<close>

subsection \<open>Plain execution\<close>

text \<open>The trace hook does nothing, no module is injected, and no window executes.\<close>

definition plain :: "'d iop_env \<Rightarrow> 'd interp \<Rightarrow> bool" where
  "plain e st \<longleftrightarrow> (\<forall>a c d. RecordIopPreInstruction e a c d = (False, d)) \<and> \<not> InjectIRX e \<and>
     \<not> FallbackActive st \<and> iop_ready e (mach st)"

definition fetched :: "'d iop_env \<Rightarrow> 'd interp \<Rightarrow> u32" where
  "fetched e st = load (imem e (mach st)) (ram_offset e (psx_pc (regs st)))"

definition issued :: "u32 \<Rightarrow> 'd interp \<Rightarrow> 'd interp" where
  "issued c = wmach (wpsx (\<lambda>p. p\<lparr>psx_code := c, psx_pc := psx_pc p + 4, psx_cycle := psx_cycle p + 1\<rparr>))"

lemma set_state_simps [simp]:
  "FallbackActive (set_pc a st) = FallbackActive st" "FallbackActive (set_delay b st) = FallbackActive st"
  "branchPC (set_pc a st) = branchPC st" "branchPC (set_delay b st) = branchPC st"
  by (simp_all add: set_pc_def set_delay_def)

lemma wmach_same_dev: "wmach (\<lambda>s. s\<lparr>iopDev := iopDev (mach st)\<rparr>) st = st"
  by (simp add: wmach_def)

lemma exec_plain:
  assumes "plain e st" "in_ram (psx_pc (regs st))"
  defines "c \<equiv> fetched e st"
  shows "exec_fuel e (Suc n) st =
    obind ((psxBSC e (Suc n) (exec_fuel e n) ! unat (drop_bit 26 c)) (issued c st))
      (\<lambda>st3. Done (exec_leave e c False st3))"
proof -
  note p = assms(1) [unfolded plain_def]
  have f: "iopMemRead32 e (psx_pc (regs st)) (mach st) = (c, mach st)"
    using ram_reads(3) [OF conjunct2 [OF conjunct2 [OF conjunct2 [OF p]]] assms(2)] by (simp add: c_def fetched_def)
  have "exec_fetch e (exec_inject e (exec_enter st)) = Done (set_code c st)"
    using p f by (simp add: exec_fetch_def exec_inject_def exec_enter_def delay_instruction_def Let_def set_code_def)
  moreover have "exec_advance (set_code c st) = issued c st"
    using p by (simp add: exec_advance_def set_code_def set_pc_def Let_def issued_def wmach_def wpsx_def)
  moreover have "psx_code (regs (set_code c st)) = c" "psx_code (regs (issued c st)) = c"
    "\<not> FallbackActive (issued c st)"
    using p by (simp_all add: set_code_def issued_def)
  ultimately show ?thesis
    using p by (simp add: execI_def exec_dispatch_def delay_instruction_def Let_def wmach_same_dev)
qed

lemma exec_leave_plain: "\<not> FallbackActive st \<Longrightarrow> exec_leave e op d st = st"
  by (simp add: exec_leave_def)

text \<open>\<open>runs c g\<close>: the instruction word \<open>c\<close> is executed by the handler \<open>g\<close> of the machine.\<close>

definition runs :: "'d iop_env \<Rightarrow> u32 \<Rightarrow> ('d iop \<Rightarrow> 'd iop) \<Rightarrow> bool" where
  "runs e c g \<longleftrightarrow> (\<forall>n rec st. psx_code (regs st) = c \<longrightarrow>
     (psxBSC e n rec ! unat (drop_bit 26 c)) st = Done (wmach g st))"

lemma exec_runs:
  assumes "plain e st" "in_ram (psx_pc (regs st))" "runs e (fetched e st) g"
  shows "exec_fuel e (Suc n) st = Done (wmach g (issued (fetched e st) st))"
proof -
  have "psx_code (regs (issued (fetched e st) st)) = fetched e st" by (simp add: issued_def)
  moreover have "\<not> FallbackActive (issued (fetched e st) st)" using assms(1) by (simp add: issued_def plain_def)
  ultimately show ?thesis
    using assms(3) by (simp only: exec_plain [OF assms(1,2)] runs_def obind_simps) (simp add: exec_leave_plain)
qed

lemma runs_exceptions:
  "drop_bit 26 c = 0 \<Longrightarrow> c AND 0x3F = 0x0c \<Longrightarrow> runs e c (psxSYSCALL e)"
  "drop_bit 26 c = 0 \<Longrightarrow> c AND 0x3F = 0x0d \<Longrightarrow> runs e c (psxBREAK e)"
  by (simp_all add: runs_def psxBSC_def psxSPC_def pFunct_def onM_def Let_def)

subsection \<open>Conditional branches\<close>

definition cond_branch :: "u32 \<Rightarrow> bool" where
  "cond_branch c \<longleftrightarrow> drop_bit 26 c \<in> {4, 5, 6, 7} \<or> drop_bit 26 c = 1 \<and> drop_bit 16 c AND 0x1f \<in> {0, 1}"

lemma cond_branch_decides:
  assumes "cond_branch (psx_code (regs st))"
  defines "c \<equiv> psx_code (regs st)"
  shows "(psxBSC e n rec ! unat (drop_bit 26 c)) st =
    (if conditional_taken (drop_bit 26 c) (drop_bit 16 c AND 0x1f) (rRs (regs st)) (rRt (regs st))
     then psxDoBranch e n rec (pBranchTarget (regs st)) st else Done st)"
  using assms(1) unfolding cond_branch_def c_def
  by (elim disjE conjE insertE; simp add: psxBSC_def psxREG_def pRt_def conditional_taken_def iop_defs branch_if_def Let_def)

subsection \<open>A taken branch\<close>

text \<open>The state in which the delay slot of a taken branch to \<open>tar\<close> executes, and the state before the
  event test.\<close>

definition slot_state :: "u32 \<Rightarrow> u32 \<Rightarrow> 'd interp \<Rightarrow> 'd interp" where
  "slot_state c tar st = set_delay True ((issued c st)\<lparr>branch2 := True, branchPC := tar\<rparr>)"

lemma taken_branch:
  assumes p: "plain e st" "in_ram (psx_pc (regs st))" "in_ram (psx_pc (regs st) + 4)"
    and c: "cond_branch (fetched e st)"
    and t: "conditional_taken (drop_bit 26 (fetched e st)) (drop_bit 16 (fetched e st) AND 0x1f)
      (rRs (regs (issued (fetched e st) st))) (rRt (regs (issued (fetched e st) st)))"
    and tar: "tar = pBranchTarget (regs (issued (fetched e st) st))" "tar \<noteq> 0x890" "tar \<noteq> 0xbfc4a000"
    and g: "runs e (fetched e (slot_state (fetched e st) tar st)) g"
  shows "exec_fuel e (Suc (Suc n)) st =
    Done (wmach (iopEventTest e) (set_pc tar (set_delay False (wmach g
      (issued (fetched e (slot_state (fetched e st) tar st)) (slot_state (fetched e st) tar st))))))"
proof -
  let ?c = "fetched e st" and ?s1 = "issued (fetched e st) st" and ?sl = "slot_state (fetched e st) tar st"
  have s1: "psx_code (regs ?s1) = ?c" "\<not> FallbackActive ?s1" "psx_pc (regs ?s1) = psx_pc (regs st) + 4"
    using p(1) by (simp_all add: issued_def plain_def)
  have ready: "iop_ready e (mach ?s1)" using p(1) by (simp add: plain_def issued_def iop_ready_def)
  have sl: "plain e ?sl" "in_ram (psx_pc (regs ?sl))"
    using p(1,3) ready s1(2,3) by (simp_all add: slot_state_def set_delay_def plain_def iop_ready_def)
  have run: "exec_fuel e (Suc n) ?sl = Done (wmach g (issued (fetched e ?sl) ?sl))"
    by (rule exec_runs [OF sl g])
  have act: "\<not> FallbackActive (wmach g (issued (fetched e ?sl) ?sl))" "branchPC (wmach g (issued (fetched e ?sl) ?sl)) = tar"
    using sl(1) by (simp_all add: plain_def issued_def) (simp add: slot_state_def set_delay_def)
  have "psxDoBranch e (Suc (Suc n)) (exec_fuel e (Suc n)) tar ?s1 =
      Done (wmach (iopEventTest e) (set_pc tar (set_delay False (wmach g (issued (fetched e ?sl) ?sl)))))"
    using s1(2) tar(2,3) run act
    by (simp add: psxDoBranch_def Let_def slot_state_def [symmetric] del: exec_fuel.simps)
  moreover have "(psxBSC e (Suc (Suc n)) (exec_fuel e (Suc n)) ! unat (drop_bit 26 ?c)) ?s1 =
      psxDoBranch e (Suc (Suc n)) (exec_fuel e (Suc n)) tar ?s1"
    using cond_branch_decides [of ?s1] c t s1(1) tar(1) by (simp del: exec_fuel.simps)
  ultimately show ?thesis
    using exec_plain [OF p(1,2), of "Suc n"] act
    by (simp add: exec_leave_plain del: exec_fuel.simps)
qed

text \<open>A branch that is not taken.\<close>

lemma untaken_branch:
  assumes "plain e st" "in_ram (psx_pc (regs st))" "cond_branch (fetched e st)"
    and "\<not> conditional_taken (drop_bit 26 (fetched e st)) (drop_bit 16 (fetched e st) AND 0x1f)
      (rRs (regs (issued (fetched e st) st))) (rRt (regs (issued (fetched e st) st)))"
  shows "exec_fuel e (Suc n) st = Done (issued (fetched e st) st)"
proof -
  let ?s1 = "issued (fetched e st) st"
  have s1: "psx_code (regs ?s1) = fetched e st" "\<not> FallbackActive ?s1"
    using assms(1) by (simp_all add: issued_def plain_def)
  show ?thesis
    using exec_plain [OF assms(1,2), of n] cond_branch_decides [of ?s1] assms(3,4) s1
    by (simp add: exec_leave_plain del: exec_fuel.simps)
qed

text \<open>The two exception instructions as one handler.\<close>

lemma exception_handler:
  assumes "drop_bit 26 c = 0" "c AND 0x3f \<in> {0x0c, 0x0d}"
  obtains g where "runs e c g" "\<And>s. psx (g s) = psxException_regs (if c AND 0x3f = 0x0c then 0x20 else 0x24)
    (if iopIsDelaySlot s then 1 else 0) ((psx s)\<lparr>psx_pc := psx_pc (psx s) - 4\<rparr>)"
proof (cases "c AND 0x3f = 0x0c")
  case True
  show thesis
    by (rule that [OF runs_exceptions(1) [OF assms(1) True, of e]])
      (simp add: True psxSYSCALL_def psxException_def Let_def)
next
  case False
  then have d: "c AND 0x3f = 0x0d" using assms(2) by simp
  show thesis
    by (rule that [OF runs_exceptions(2) [OF assms(1) d, of e]])
      (simp add: d psxBREAK_def psxException_def Let_def)
qed

end
