(* ===== verification/IOP_Sched.thy ===== *)
theory IOP_Sched
  imports IOP_Event
begin

text \<open>
  The event calendar of the I/O processor: deadlines as integers, what a device callback may do to
  it, and the effect of the event test. The cycle counters are 64 bits wide and do not wrap in the
  time of a session.
\<close>

subsection \<open>Times as integers\<close>

definition pending :: "nat \<Rightarrow> psxRegisters \<Rightarrow> bool" where
  "pending n p \<longleftrightarrow> bit (psx_interrupt p) n"

definition due_at :: "nat \<Rightarrow> psxRegisters \<Rightarrow> int" where
  "due_at n p = uint (sCycle p n) + sint (eCycle p n)"

definition next_at :: "psxRegisters \<Rightarrow> int" where
  "next_at p = uint (iopNextEventCycle p)"

definition now :: "psxRegisters \<Rightarrow> int" where
  "now p = uint (psx_cycle p)"

text \<open>A start is not in the future, a delta not negative, and both are in reach of the 32-bit
  comparisons; the next test is near.\<close>

definition armed :: "u64 \<Rightarrow> u32 \<Rightarrow> psxRegisters \<Rightarrow> bool" where
  "armed start delta p \<longleftrightarrow> uint start \<le> now p \<and> now p < uint start + 2 ^ 30 \<and>
     0 \<le> sint delta \<and> sint delta < 2 ^ 30"

definition near :: "psxRegisters \<Rightarrow> bool" where
  "near p \<longleftrightarrow> now p < 2 ^ 62 \<and> now p < next_at p + 2 ^ 30 \<and> next_at p < now p + 2 ^ 30"

definition calendar :: "psxRegisters \<Rightarrow> bool" where
  "calendar p \<longleftrightarrow> near p \<and> (\<forall>n. pending n p \<longrightarrow> armed (sCycle p n) (eCycle p n) p)"

lemma uint_add_delta:
  assumes "armed start delta p" "near p"
  shows "uint (start + scast delta :: u64) = uint start + sint delta"
proof -
  have "uint (start + scast delta :: u64) = uint (word_of_int (uint start + sint delta) :: u64)"
    by (simp only: scast64_eq of_int_add of_int_uint word_of_int_uint ucast_id)
  also have "\<dots> = (uint start + sint delta) mod 2 ^ 64"
    by (simp only: unsigned_of_int take_bit_eq_mod) simp
  also have "\<dots> = uint start + sint delta"
    using assms by (intro mod_pos_pos_trivial) (auto simp: armed_def near_def)
  finally show ?thesis .
qed

lemma sint_low_difference:
  assumes "\<bar>uint x - uint y\<bar> < 2 ^ 31"
  shows "sint (ucast (x - y :: u64) :: u32) = uint x - uint y"
proof -
  have "(ucast (x - y) :: u32) = word_of_int (uint (x - y))" by (rule ucast_eq)
  also have "\<dots> = word_of_int ((uint x - uint y) mod 2 ^ 64)" by (simp only: uint_word_ariths) simp
  also have "\<dots> = word_of_int (uint x - uint y)"
    by (rule word_eq_iff_unsigned [THEN iffD2])
      (simp only: unsigned_of_int take_bit_eq_mod, simp add: mod_mod_cancel)
  finally have *: "(ucast (x - y) :: u32) = word_of_int (uint x - uint y)" .
  show ?thesis unfolding * using assms by (intro sint_word_of_int32) (auto simp: s32_range_def)
qed
lemma sint_difference:
  assumes "\<bar>uint x - uint y\<bar> < 2 ^ 63"
  shows "sint (x - y :: u64) = uint x - uint y"
proof -
  have "x - y = word_of_int (uint x - uint y)" by (simp only: of_int_diff word_of_int_uint)
  then have "sint (x - y) = sint (word_of_int (uint x - uint y) :: u64)" by (rule arg_cong)
  also have "\<dots> = uint x - uint y" using assms by (intro sint_word_of_int64) (auto simp: s64_range_def)
  finally show ?thesis .
qed

lemma uint_nonneg: "0 \<le> sint (x :: u32) \<Longrightarrow> uint x = sint x"
  using sint_s32_range [of x] by (simp add: uint_sint take_bit_int_eq_self s32_range_def)

subsection \<open>Setting and testing a deadline\<close>

lemma set_next_branch:
  assumes "armed start delta p" "near p"
  shows "next_at (psxSetNextBranch start delta p) = min (next_at p) (uint start + sint delta)"
    "near (psxSetNextBranch start delta p)"
proof -
  have "sint (ucast (iopNextEventCycle p - start) :: u32) = next_at p - uint start"
    using assms unfolding next_at_def armed_def near_def by (intro sint_low_difference) auto
  then show *: "next_at (psxSetNextBranch start delta p) = min (next_at p) (uint start + sint delta)"
    using uint_add_delta [OF assms] by (auto simp: psxSetNextBranch_def word_sless_alt next_at_def)
  have "now (psxSetNextBranch start delta p) = now p" by (simp add: now_def psxSetNextBranch_def)
  then show "near (psxSetNextBranch start delta p)"
    using assms * by (auto simp: near_def armed_def)
qed

lemma test_cycle:
  assumes "armed start delta p" "near p"
  shows "psxTestCycle start delta p \<longleftrightarrow> uint start + sint delta \<le> now p"
proof -
  have "sint (ucast (psx_cycle p - start) :: u32) = now p - uint start"
    using assms unfolding now_def armed_def near_def by (intro sint_low_difference) auto
  then show ?thesis by (auto simp: psxTestCycle_def word_sle_eq)
qed

lemma set_next_branch_keeps [simp]:
  "psx_cycle (psxSetNextBranch start delta p) = psx_cycle p"
  "psx_interrupt (psxSetNextBranch start delta p) = psx_interrupt p"
  "sCycle (psxSetNextBranch start delta p) = sCycle p" "eCycle (psxSetNextBranch start delta p) = eCycle p"
  by (simp_all add: psxSetNextBranch_def)

subsection \<open>Steps of the calendar\<close>

text \<open>What the code between two instructions may do to the calendar: time stands still, the next test
  does not move back, and a new deadline is covered by the next test.\<close>

definition covered :: "nat \<Rightarrow> psxRegisters \<Rightarrow> bool" where
  "covered n p \<longleftrightarrow> (pending n p \<longrightarrow> next_at p \<le> due_at n p)"

definition reschedules :: "psxRegisters \<Rightarrow> psxRegisters \<Rightarrow> bool" where
  "reschedules p q \<longleftrightarrow> psx_cycle q = psx_cycle p \<and> calendar q \<and> next_at q \<le> next_at p \<and>
     (\<forall>n. covered n q \<or> pending n p \<and> due_at n q = due_at n p)"

lemma reschedules_refl: "calendar p \<Longrightarrow> reschedules p p"
  by (auto simp: reschedules_def covered_def)

lemma reschedulesI:
  assumes "psx_cycle q = psx_cycle p" "calendar q" "next_at q \<le> next_at p" "covered n q"
    "\<And>k. k \<noteq> n \<Longrightarrow> pending k q \<longleftrightarrow> pending k p" "\<And>k. k \<noteq> n \<Longrightarrow> due_at k q = due_at k p"
  shows "reschedules p q"
  using assms unfolding reschedules_def covered_def by metis

lemma covered_kept: "covered n p \<Longrightarrow> reschedules p q \<Longrightarrow> covered n q"
  unfolding reschedules_def covered_def by fastforce

lemma reschedules_trans:
  assumes pq: "reschedules p q" and qr: "reschedules q r"
  shows "reschedules p r"
proof -
  have "covered n r \<or> pending n p \<and> due_at n r = due_at n p" for n
    using pq qr covered_kept [OF _ qr, of n] unfolding reschedules_def by metis
  then show ?thesis using pq qr by (simp add: reschedules_def)
qed

lemma covers_then:
  "reschedules p q \<and> (\<forall>n < m. covered n q) \<Longrightarrow> reschedules q r \<Longrightarrow>
    reschedules p r \<and> (\<forall>n < m. covered n r)"
  using covered_kept [of _ q r] reschedules_trans [of p q r] by simp

lemma reschedules_calendar: "reschedules p q \<Longrightarrow> calendar q"
  by (simp add: reschedules_def)

lemma set_branch_reschedules:
  assumes "armed start delta p" "calendar p"
  shows "reschedules p (psxSetNextBranch start delta p)"
proof -
  have "near p" using assms by (simp add: calendar_def)
  from set_next_branch [OF assms(1) this] assms(2) show ?thesis
    by (auto simp: reschedules_def calendar_def covered_def pending_def due_at_def armed_def now_def)
qed

lemma calendar_drop:
  "calendar p \<Longrightarrow> calendar (p\<lparr>psx_interrupt := psx_interrupt p AND NOT (push_bit n 1)\<rparr>)"
  by (simp add: calendar_def near_def now_def next_at_def pending_def armed_def bit_simps)

lemma drop_reschedules:
  assumes "calendar p"
  shows "reschedules p (p\<lparr>psx_interrupt := psx_interrupt p AND NOT (push_bit n 1)\<rparr>)"
  using assms calendar_drop [OF assms, of n]
  by (auto simp: reschedules_def covered_def pending_def due_at_def next_at_def bit_simps)

text \<open>Raising an event through \<^verbatim>\<open>PSX_INT\<close> is such a step, so the callbacks that only raise
  and cancel events keep the calendar.\<close>

lemma raise_reschedules:
  assumes "calendar (psx s)" "0 \<le> sint ecycle" "sint ecycle < 2 ^ 30"
  shows "reschedules (psx s) (psx (PSX_INT e n ecycle s))" "covered n (psx (PSX_INT e n ecycle s))"
proof -
  let ?p = "(psx s)\<lparr>psx_interrupt := psx_interrupt (psx s) OR push_bit n 1,
    sCycle := (sCycle (psx s))(n := psx_cycle (psx s)), eCycle := (eCycle (psx s))(n := ecycle)\<rparr>"
  let ?q = "psxSetNextBranchDelta ecycle ?p"
  have q: "psx (PSX_INT e n ecycle s) = ?q" by (simp add: PSX_INT_def Let_def)
  have armed: "armed (psx_cycle ?p) ecycle ?p" using assms by (simp add: armed_def now_def)
  have near: "near ?p" using assms(1) by (simp add: calendar_def near_def now_def next_at_def)
  note set = set_next_branch [OF armed near]
  have keep: "pending k ?q \<longleftrightarrow> pending k (psx s)" "due_at k ?q = due_at k (psx s)" if "k \<noteq> n" for k
    using that by (auto simp: psxSetNextBranchDelta_def pending_def due_at_def bit_simps)
  have "next_at ?p = next_at (psx s)" by (simp add: next_at_def)
  then have le: "next_at ?q \<le> next_at (psx s)" "next_at ?q \<le> due_at n ?q"
    using set(1) by (simp_all add: psxSetNextBranchDelta_def due_at_def)
  have "armed (sCycle ?q k) (eCycle ?q k) ?q" if "pending k ?q" for k
  proof (cases "k = n")
    case True
    then show ?thesis using armed by (simp add: psxSetNextBranchDelta_def armed_def now_def)
  next
    case False
    then show ?thesis using assms(1) that keep(1) [OF False]
      by (simp add: calendar_def psxSetNextBranchDelta_def armed_def now_def)
  qed
  then have "calendar ?q"
    using set(2) by (simp add: calendar_def psxSetNextBranchDelta_def)
  have cov: "covered n ?q" using le(2) unfolding covered_def by blast
  then show "covered n (psx (PSX_INT e n ecycle s))" by (simp only: q)
  have "psx_cycle ?q = psx_cycle (psx s)" by (simp add: psxSetNextBranchDelta_def)
  from reschedulesI [OF this \<open>calendar ?q\<close> le(1) cov keep]
  show "reschedules (psx s) (psx (PSX_INT e n ecycle s))" unfolding q .
qed

subsection \<open>The event test\<close>

text \<open>The contract of the device code: the callback of an event and the update of the counters are
  steps of the calendar.\<close>

definition calendar_devices :: "'d iop_env \<Rightarrow> bool" where
  "calendar_devices e \<longleftrightarrow> (\<forall>s n. calendar (psx s) \<longrightarrow> reschedules (psx s) (psx (IopCallback e n s))) \<and>
     (\<forall>s. calendar (psx s) \<longrightarrow> reschedules (psx s) (psx (psxRcntUpdate e s)))"

lemma test_event_step:
  assumes "calendar_devices e" "calendar (psx s)"
  shows "reschedules (psx s) (psx (IopTestEvent e n s)) \<and> covered n (psx (IopTestEvent e n s))"
proof (cases "pending n (psx s)")
  case False
  then show ?thesis using assms by (simp add: IopTestEvent_def pending_def covered_def reschedules_refl)
next
  case p: True
  then have armed: "armed (sCycle (psx s) n) (eCycle (psx s) n) (psx s)" and near: "near (psx s)"
    using assms(2) by (auto simp: calendar_def)
  show ?thesis
  proof (cases "psxTestCycle (sCycle (psx s) n) (eCycle (psx s) n) (psx s)")
    case False
    then show ?thesis
      using set_branch_reschedules [OF armed assms(2)] set_next_branch [OF armed near] p
      by (simp add: IopTestEvent_def pending_def covered_def due_at_def)
  next
    case True
    let ?d = "wpsx (\<lambda>p. p\<lparr>psx_interrupt := psx_interrupt p AND NOT (push_bit n 1)\<rparr>) s"
    have eq: "IopTestEvent e n s = IopCallback e n ?d"
      using p True by (simp add: IopTestEvent_def pending_def)
    have drop: "reschedules (psx s) (psx ?d)" using drop_reschedules [OF assms(2)] by simp
    have call: "reschedules (psx ?d) (psx (IopCallback e n ?d))"
      using assms(1) drop by (simp only: calendar_devices_def reschedules_calendar)
    have "covered n (psx ?d)" by (simp add: covered_def pending_def bit_simps)
    from covered_kept [OF this call] reschedules_trans [OF drop call] show ?thesis by (simp add: eq)
  qed
qed

lemma test_events_step:
  assumes "calendar_devices e" "calendar (psx s)"
  shows "reschedules (psx s) (psx (fold (IopTestEvent e) ns s)) \<and>
    (\<forall>n \<in> set ns. covered n (psx (fold (IopTestEvent e) ns s)))"
  using assms(2)
proof (induction ns arbitrary: s)
  case Nil
  then show ?case by (simp add: reschedules_refl)
next
  case (Cons n ns)
  note step = test_event_step [OF assms(1) Cons.prems, of n]
  note rest = Cons.IH [OF reschedules_calendar, OF step [THEN conjunct1]]
  show ?case using step rest by (auto intro: reschedules_trans covered_kept)
qed

lemma test_interrupts_step:
  assumes "calendar_devices e" "calendar (psx s)"
  shows "reschedules (psx s) (psx (psxTestInterrupts e s)) \<and>
    (\<forall>n < 13. covered n (psx (psxTestInterrupts e s)))"
proof -
  let ?common = "[IopEvt_SIF0, IopEvt_SIF1, IopEvt_SIF2, IopEvt_SIO, IopEvt_CdvdSectorReady, IopEvt_CdvdRead]"
  let ?rare = "[IopEvt_Cdvd, IopEvt_Dma11, IopEvt_Dma12, IopEvt_Cdrom, IopEvt_CdromRead, IopEvt_DEV9, IopEvt_USB]"
  let ?s1 = "fold (IopTestEvent e) ?common s"
  have all: "n \<in> set ?common \<or> n \<in> set ?rare" if "n < 13" for n :: nat
    using that unfolding set_simps insert_iff empty_iff by arith
  note common = test_events_step [OF assms, of ?common]
  note rare = test_events_step [OF assms(1) reschedules_calendar [OF conjunct1 [OF common]], of ?rare]
  show ?thesis
  proof (cases "\<exists>n \<in> set ?rare. bit (psx_interrupt (psx ?s1)) n")
    case True
    then have eq: "psxTestInterrupts e s = fold (IopTestEvent e) ?rare ?s1"
      unfolding psxTestInterrupts_def Let_def by (rule if_P)
    show ?thesis unfolding eq
      using all common rare by (meson covered_kept reschedules_trans)
  next
    case False
    then have eq: "psxTestInterrupts e s = ?s1" unfolding psxTestInterrupts_def Let_def by (rule if_not_P)
    show ?thesis unfolding eq
      using all common False by (meson covered_def pending_def)
  qed
qed

text \<open>The three parts of the event test.\<close>

lemma near_next:
  assumes "calendar p" "now p \<le> uint c" "uint c < now p + 2 ^ 30"
  shows "calendar (p\<lparr>iopNextEventCycle := c\<rparr>)"
  using assms by (simp add: calendar_def near_def now_def next_at_def pending_def armed_def)

lemma uint_wait:
  assumes "near p" "c < 1024"
  shows "uint (psx_cycle p + c) = now p + uint c"
proof -
  have "uint c < 1024" using assms(2) by (simp add: word_less_def)
  then show ?thesis using assms(1) by (simp add: near_def now_def uint_word_ariths)
qed

text \<open>The counters' deadline, like the others, has a start in the past and is in reach.\<close>

definition counters_armed :: "'d iop \<Rightarrow> bool" where
  "counters_armed s \<longleftrightarrow> armed (psxNextStartCounter s) (psxNextDeltaCounter s) (psx s)"

lemma event_seed_step:
  assumes "calendar_devices e" "calendar (psx s)" "counters_armed s"
  shows "calendar (psx (event_seed e s)) \<and> psx_cycle (psx (event_seed e s)) = psx_cycle (psx s) \<and>
    next_at (psx (event_seed e s)) \<le> now (psx s) + 768"
proof -
  let ?w = "if IopRetainedWaitCoalescingActive e (iopDev s) then iopRetainedWaitCycles else iopWaitCycles"
  let ?s1 = "wpsx (\<lambda>p. p\<lparr>iopNextEventCycle := psx_cycle p + ?w\<rparr>) s"
  have near: "near (psx s)" using assms(2) by (simp add: calendar_def)
  have "uint (psx_cycle (psx s) + ?w) = now (psx s) + uint ?w" using near by (intro uint_wait) simp_all
  then have cal: "calendar (psx ?s1)" and next1: "next_at (psx ?s1) \<le> now (psx s) + 768"
    using near_next [OF assms(2), of "psx_cycle (psx s) + ?w"] by (simp_all add: next_at_def split: if_splits)
  have cnt: "armed (psxNextStartCounter s) (psxNextDeltaCounter s) (psx ?s1)"
    using assms(3) by (simp add: counters_armed_def armed_def now_def)
  have set: "event_seed e s = (if psxTestCycle (psxNextStartCounter s) (psxNextDeltaCounter s) (psx ?s1)
    then (psxRcntUpdate e ?s1)\<lparr>iopEventAction := True\<rparr>
    else wpsx (psxSetNextBranch (psxNextStartCounter s) (psxNextDeltaCounter s)) ?s1)"
    by (simp add: event_seed_def psxSetNextBranch_def wpsx_def Let_def)
  have rcnt: "reschedules (psx ?s1) (psx (psxRcntUpdate e ?s1))"
    using assms(1) cal unfolding calendar_devices_def by blast
  have "reschedules (psx ?s1) (psx (event_seed e s))"
  proof (cases "psxTestCycle (psxNextStartCounter s) (psxNextDeltaCounter s) (psx ?s1)")
    case True
    then have "psx (event_seed e s) = psx (psxRcntUpdate e ?s1)" unfolding set by (simp only: if_True, simp)
    then show ?thesis using rcnt by (simp only:)
  next
    case False
    then have "psx (event_seed e s) = psxSetNextBranch (psxNextStartCounter s) (psxNextDeltaCounter s) (psx ?s1)"
      unfolding set by (simp only: if_False wpsx_simps)
    then show ?thesis using set_branch_reschedules [OF cnt cal] by (simp only:)
  qed
  then show ?thesis using next1 by (auto simp: reschedules_def)
qed

lemma event_interrupts_step:
  assumes "calendar_devices e" "calendar (psx s)"
  shows "reschedules (psx s) (psx (event_interrupts e s)) \<and> (\<forall>n < 13. covered n (psx (event_interrupts e s)))"
proof -
  let ?t = "if psx_interrupt (psx s) \<noteq> 0
    then (psxTestInterrupts e (s\<lparr>iopEventTestIsActive := True\<rparr>))\<lparr>iopEventTestIsActive := False\<rparr> else s"
  have "calendar (psx (s\<lparr>iopEventTestIsActive := True\<rparr>))" using assms(2) by simp
  note ints = test_interrupts_step [OF assms(1) this]
  have t: "reschedules (psx s) (psx ?t) \<and> (\<forall>n < 13. covered n (psx ?t))"
  proof (cases "psx_interrupt (psx s) = 0")
    case True
    then show ?thesis using assms(2) by (simp add: reschedules_refl covered_def pending_def)
  next
    case False
    then show ?thesis using ints by simp
  qed
  have exc: "reschedules p (psxException_regs c bd p)" if "calendar p" for c bd p
    using that by (intro reschedulesI [of _ _ 32])
      (simp_all add: calendar_def near_def now_def next_at_def pending_def armed_def covered_def due_at_def)
  have "psx (event_interrupts e s) = psx ?t \<or> psx (event_interrupts e s) = psxException_regs 0 0 (psx ?t)"
    by (simp add: event_interrupts_def Let_def psxException_def)
  then show ?thesis
    using t covers_then [OF t exc [OF reschedules_calendar [OF conjunct1 [OF t]], of 0 0]]
    by (elim disjE ssubst)
qed

lemma event_clamp_step:
  assumes "calendar (psx s)"
  shows "reschedules (psx s) (psx (event_clamp e s))"
    "\<not> IopRetainedWaitCoalescingActive e (iopDev s) \<Longrightarrow> next_at (psx (event_clamp e s)) \<le> now (psx s) + 384"
proof -
  have near: "near (psx s)" using assms by (simp add: calendar_def)
  have wait: "uint (psx_cycle (psx s) + iopWaitCycles) = now (psx s) + 384" using uint_wait [OF near] by simp
  then have "calendar ((psx s)\<lparr>iopNextEventCycle := psx_cycle (psx s) + iopWaitCycles\<rparr>)"
    by (intro near_next [OF assms]) simp_all
  then show "reschedules (psx s) (psx (event_clamp e s))"
    using reschedules_refl [OF assms]
    by (auto simp: event_clamp_def Let_def reschedules_def covered_def pending_def due_at_def next_at_def word_less_def)
  show "next_at (psx (event_clamp e s)) \<le> now (psx s) + 384"
    if "\<not> IopRetainedWaitCoalescingActive e (iopDev s)"
    using that wait by (simp add: event_clamp_def Let_def next_at_def word_less_def)
qed

lemma event_test_step:
  assumes "calendar_devices e" "calendar (psx s)" "counters_armed s"
  shows "calendar (psx (iopEventTest e s))" "psx_cycle (psx (iopEventTest e s)) = psx_cycle (psx s)"
    "next_at (psx (iopEventTest e s)) \<le> now (psx s) + 768" "n < 13 \<Longrightarrow> covered n (psx (iopEventTest e s))"
proof -
  note seed = event_seed_step [OF assms]
  note ints = event_interrupts_step [OF assms(1) conjunct1 [OF seed]]
  note clamp = event_clamp_step(1) [OF reschedules_calendar [OF conjunct1 [OF ints]], of e]
  note all = covers_then [OF ints clamp, folded iopEventTest_def]
  show "calendar (psx (iopEventTest e s))" "psx_cycle (psx (iopEventTest e s)) = psx_cycle (psx s)"
    "next_at (psx (iopEventTest e s)) \<le> now (psx s) + 768" "n < 13 \<Longrightarrow> covered n (psx (iopEventTest e s))"
    using all seed by (auto simp: reschedules_def)
qed

subsection \<open>The external deadline\<close>

text \<open>The loop over the pending bits takes the lowest bit first; the result is the minimum over all.\<close>

lemma countr_zero_least:
  assumes "x \<noteq> 0"
  shows "bit x (countr_zero x)" "m < countr_zero x \<Longrightarrow> \<not> bit x m"
proof -
  obtain k where k: "bit x k" using assms by (metis bit_eqI bit_0_eq bot_apply bot_bool_def)
  then have "k < 32" by (meson bit_u32_beyond not_less)
  have "countr_zero x < 32"
  proof (rule ccontr)
    assume "\<not> countr_zero x < 32"
    then have "takeWhile Not (map (bit x) [0..<32]) = map (bit x) [0..<32]"
      unfolding countr_zero_def by (metis length_map length_upt minus_nat.diff_0 not_less takeWhile_eq_take take_all_iff)
    then have "\<forall>b \<in> set (map (bit x) [0..<32]). \<not> b" by (metis set_takeWhileD)
    then show False using k \<open>k < 32\<close> by auto
  qed
  then have len: "length (takeWhile Not (map (bit x) [0..<32])) < length (map (bit x) [0..<32])"
    by (simp add: countr_zero_def)
  show "bit x (countr_zero x)"
    using nth_length_takeWhile [OF len] \<open>countr_zero x < 32\<close> by (simp add: countr_zero_def)
  show "\<not> bit x m" if "m < countr_zero x"
    using that \<open>countr_zero x < 32\<close> set_takeWhileD [of "bit x m" Not "map (bit x) [0..<32]"] nth_mem [of m "takeWhile Not (map (bit x) [0..<32])"]
      takeWhile_nth [of m Not "map (bit x) [0..<32]"] by (auto simp: countr_zero_def)
qed

lemma bit_clear_lowest:
  assumes "x \<noteq> 0"
  shows "bit (x AND (x - 1)) m \<longleftrightarrow> bit x m \<and> m \<noteq> countr_zero x"
proof -
  let ?k = "countr_zero x"
  let ?y = "x AND NOT (push_bit ?k 1)"
  note least = countr_zero_least [OF assms]
  have "?k < 32" using least(1) by (meson bit_u32_beyond not_less)
  have "?y AND push_bit ?k 1 = 0" "?y AND mask ?k = 0"
    using least by (auto intro!: bit_word_eqI simp: bit_simps)
  then have add: "?y OR push_bit ?k 1 = ?y + push_bit ?k 1" "?y OR mask ?k = ?y + mask ?k"
    by (simp_all only: disjunctive_add_eq_or)
  have "x = ?y OR push_bit ?k 1" using least(1) by (auto intro!: bit_word_eqI simp: bit_simps)
  then have "x - 1 = ?y + (push_bit ?k 1 - 1)" unfolding add by simp
  also have "\<dots> = ?y OR mask ?k" unfolding add by (simp add: mask_eq_exp_minus_1 push_bit_eq_mult)
  finally have "bit (x - 1) m \<longleftrightarrow> bit (?y OR mask ?k) m" by (simp only:)
  then show ?thesis using least \<open>?k < 32\<close> by (auto simp: bit_simps)
qed

lemma min_insert: "finite S \<Longrightarrow> Min (insert (min a d) S) = Min (insert d (insert (a :: u64) S))"
  by (cases "S = {}") (simp_all add: min.assoc min.commute min.left_commute)

lemma external_loop_min:
  "external_loop x d p = Min (insert d ((\<lambda>n. event_deadline n p) ` {n. bit x n}))"
proof (induction x d p rule: external_loop.induct)
  case (1 x d p)
  show ?case
  proof (cases "x = 0")
    case True
    then show ?thesis by (simp add: external_loop.simps)
  next
    case False
    let ?k = "countr_zero x"
    let ?y = "x AND (x - 1)"
    let ?f = "\<lambda>n. event_deadline n p"
    have bits: "{n. bit x n} = insert ?k {n. bit ?y n}"
      using bit_clear_lowest [OF False] countr_zero_least(1) [OF False] by auto
    have less_min: "(if a < b then a else b) = min a b" for a b :: u64 by (auto simp: min_def)
    have fin: "finite (?f ` {n. bit ?y n})"
      by (rule finite_imageI, rule finite_subset [of _ "{..<32}"]) (auto simp: not_le [symmetric])
    have "external_loop x d p = Min (insert (min (?f ?k) d) (?f ` {n. bit ?y n}))"
      using 1 [OF False refl] False unfolding less_min by (simp add: external_loop.simps [of x] less_min)
    then show ?thesis unfolding bits image_insert using min_insert [OF fin] by simp
  qed
qed

lemma uint_event_deadline:
  assumes "calendar p" "pending n p"
  shows "uint (event_deadline n p) = max (now p) (due_at n p)"
proof -
  have armed: "armed (sCycle p n) (eCycle p n) p" and near: "near p" using assms by (auto simp: calendar_def)
  have due: "uint (sCycle p n + scast (eCycle p n)) = due_at n p"
    using uint_add_delta [OF armed near] by (simp add: due_at_def)
  have range: "\<bar>due_at n p - now p\<bar> < 2 ^ 30" "now p < 2 ^ 62"
    using armed near by (auto simp: armed_def near_def due_at_def)
  have "sint (sCycle p n + scast (eCycle p n) - psx_cycle p) = due_at n p - now p"
    using sint_difference [of "sCycle p n + scast (eCycle p n)" "psx_cycle p"] range due by (simp add: now_def)
  moreover have "psx_cycle p + (sCycle p n + scast (eCycle p n) - psx_cycle p) = sCycle p n + scast (eCycle p n)"
    by simp
  ultimately show ?thesis using due by (auto simp: event_deadline_def Let_def word_sle_eq now_def)
qed

lemma external_cycle:
  assumes "calendar (psx s)" "counters_armed s" "\<not> intc_visible e s"
  shows "uint (VitaGetIopExternalEventCycle e s) =
    Min (insert (if sint (psxNextDeltaCounter s) = 0 then now (psx s)
                 else uint (psxNextStartCounter s) + sint (psxNextDeltaCounter s))
           ((\<lambda>n. max (now (psx s)) (due_at n (psx s))) ` {n. n < 13 \<and> pending n (psx s)}))"
proof -
  let ?p = "psx s"
  let ?d0 = "if psxNextDeltaCounter s \<le>s 0 then psx_cycle ?p else psxNextStartCounter s + ucast (psxNextDeltaCounter s)"
  let ?P = "{n. n < 13 \<and> pending n ?p}"
  have armed: "armed (psxNextStartCounter s) (psxNextDeltaCounter s) ?p" and near: "near ?p"
    using assms by (simp_all add: counters_armed_def calendar_def)
  have "(push_bit 13 1 - 1 :: u32) = mask 13" by (simp add: mask_eq_exp_minus_1)
  then have bits: "{n. bit (psx_interrupt ?p AND (push_bit 13 1 - 1)) n} = ?P"
    by (auto simp only: pending_def bit_and_iff bit_mask_iff) (simp_all add: less_numeral_extra)
  have "(ucast (psxNextDeltaCounter s) :: u64) = scast (psxNextDeltaCounter s)" if "0 \<le> sint (psxNextDeltaCounter s)"
    using that uint_nonneg by (simp only: scast64_eq ucast_eq)
  then have d0: "uint ?d0 = (if sint (psxNextDeltaCounter s) = 0 then now ?p
      else uint (psxNextStartCounter s) + sint (psxNextDeltaCounter s))"
    using armed uint_add_delta [OF armed near] by (auto simp: word_sle_eq now_def armed_def)
  have "VitaGetIopExternalEventCycle e s = Min (insert ?d0 ((\<lambda>n. event_deadline n ?p) ` ?P))"
    using assms(3) by (simp only: VitaGetIopExternalEventCycle_def Let_def external_loop_min bits if_False)
  also have "uint \<dots> = Min (uint ` insert ?d0 ((\<lambda>n. event_deadline n ?p) ` ?P))"
    by (rule mono_Min_commute) (simp_all add: mono_def word_le_def)
  also have "\<dots> = Min (insert (uint ?d0) ((\<lambda>n. uint (event_deadline n ?p)) ` ?P))"
    by (simp only: image_insert image_image)
  also have "(\<lambda>n. uint (event_deadline n ?p)) ` ?P = (\<lambda>n. max (now ?p) (due_at n ?p)) ` ?P"
    using uint_event_deadline [OF assms(1)] by (intro image_cong) auto
  finally show ?thesis by (simp only: d0)
qed

end
