(* ===== verification/IOP_Props.thy ===== *)
theory IOP_Props
  imports IOP_Mem_Props IOP_Zero IOP_Branch IOP_Sched
begin

text \<open>The properties of the I/O processor beside those of its memory: arithmetic, branches,
  exceptions, the block executor and the event calendar.\<close>

subsection \<open>A concrete machine\<close>

text \<open>\<open>BEQ r0, r0, +3\<close> and \<open>SYSCALL\<close> at \<open>0x1000\<close> of main memory, the program counter before them.\<close>

definition test_interp :: "unit interp" where
  "test_interp = \<lparr>mach = (test_iop 0)\<lparr>psx := (psx (test_iop 0))\<lparr>psx_pc := 0x80001000, psx_cycle := 100,
       iopNextEventCycle := 200\<rparr>, iopHost := (\<lambda>_. 0)(0x10001000 := 3, 0x10001003 := 0x10, 0x10001004 := 0xc)\<rparr>,
     branch2 = False, branchPC = 0, FallbackActive = False, FallbackIrxHandled = False,
     FallbackExceptionHandled = False, FallbackUnalignedTarget = False, FallbackBreakpoint = False,
     FallbackInstructions = 0, FallbackInstructionCount = 0, FallbackOpcodes = [],
     RegisterJumpTargetValid = False, RegisterJumpTarget = 0, ConstGprs = 1, CompileBranch = False,
     DelayPending = False, DelayInstruction = 0, DelayBranch = False\<rparr>"

lemma test_interp_plain: "plain quiet_iop test_interp"
  using test_ready [of 0] by (simp add: plain_def test_interp_def iop_ready_def quiet_iop_def)

lemma upt_4: "[0..<4] = [0, 1, 2, 3 :: nat]"
  by (simp add: upt_rec)

lemma test_fetch:
  "fetched quiet_iop test_interp = 0x10000003" "fetched quiet_iop (slot_state c tar test_interp) = 0xc"
  by (simp_all add: fetched_def load_def imem_def ram_offset_def quiet_iop_def test_interp_def slot_state_def
    set_delay_def issued_def mem_read_def bytes_word_def upt_4)

lemma test_interp_branch:
  "in_ram (psx_pc (regs test_interp))" "in_ram (psx_pc (regs test_interp) + 4)"
  "cond_branch (fetched quiet_iop test_interp)"
  "pBranchTarget (regs (issued (fetched quiet_iop test_interp) test_interp)) = 0x80001010"
  "conditional_taken 4 0 (rRs (regs (issued (fetched quiet_iop test_interp) test_interp)))
     (rRt (regs (issued (fetched quiet_iop test_interp) test_interp)))"
  unfolding test_fetch
  by (simp_all add: test_interp_def in_ram_def cond_branch_def pBranchTarget_def pImm_def issued_def
    conditional_taken_def rRs_def rRt_def pRs_def pRt_def)

lemmas test_taken = test_interp_branch(3-5) [unfolded test_fetch]

lemma test_pc: "psx_pc (regs test_interp) = 0x80001000" "psxGPR (regs test_interp) 0 = 0"
  by (simp_all add: test_interp_def test_iop_def psxRegs_zero_def)

lemma test_runs: "\<exists>st'. exec_fuel quiet_iop (Suc (Suc 0)) test_interp = Done st'"
proof -
  have "runs quiet_iop (fetched quiet_iop (slot_state c tar test_interp)) (psxSYSCALL quiet_iop)" for c tar
    unfolding test_fetch by (rule runs_exceptions(1)) simp_all
  from taken_branch [OF test_interp_plain test_interp_branch(1-3) _ test_interp_branch(4) [symmetric] _ _ this, of 0]
  show ?thesis unfolding test_fetch using test_taken(3) by (simp del: exec_fuel.simps)
qed

lemma quiet_no_stop: "no_stop quiet_iop"
  by (simp add: no_stop_def quiet_iop_def)

lemma quiet_keeps_zero: "devices_keep_zero quiet_iop"
  by (simp add: devices_keep_zero_def quiet_iop_def)

lemma quiet_calendar: "calendar_devices quiet_iop"
  by (simp add: calendar_devices_def quiet_iop_def reschedules_refl)

subsection \<open>Arithmetic\<close>

definition hi_lo :: "psxRegisters \<Rightarrow> u64" where
  "hi_lo p = push_bit 32 (ucast (psxGPR p psx_hi)) OR ucast (psxGPR p psx_lo)"

lemma hi_lo_halves:
  "push_bit 32 (ucast (ucast (drop_bit 32 z AND 0xffffffff) :: u32)) OR ucast (ucast (z AND 0xffffffff) :: u32) = (z :: u64)"
  by (simp add: word64_bitwise bit_simps)

lemma mult_ucast64: "uint (ucast (x::u32) * ucast (y::u32) :: u64) = uint x * uint y"
proof -
  have "uint x * uint y \<le> (2 ^ 32 - 1) * (2 ^ 32 - 1)"
    using unsigned_less [of x, where 'a = int] unsigned_less [of y, where 'a = int] by (intro mult_mono) simp_all
  then show ?thesis by (simp add: uint_word_ariths uint_up_ucast is_up)
qed

text \<open>The multiplications and divisions of the I/O processor are exact. The pair of \<open>HI\<close> and
  \<open>LO\<close> is the full 64-bit product, signed or unsigned; \<open>LO\<close> is the truncated quotient and \<open>HI\<close>
  the remainder, with the values of the hardware for a zero divisor and for the quotient that
  overflows.\<close>

theorem iop_products_quotients:
  "sint (hi_lo (psxMULT p)) = sint (rRs p) * sint (rRt p) \<and>
   uint (hi_lo (psxMULTU p)) = uint (rRs p) * uint (rRt p) \<and>
   divided (sint (rRs p)) (sint (rRt p)) (sint (psxGPR (psxDIV p) psx_lo)) (sint (psxGPR (psxDIV p) psx_hi)) \<and>
   udivided (uint (rRs p)) (uint (rRt p)) (sint (psxGPR (psxDIVU p) psx_lo)) (sint (psxGPR (psxDIVU p) psx_hi))"
proof -
  have "hi_lo (psxMULT p) = scast (rRs p) * scast (rRt p)" "hi_lo (psxMULTU p) = ucast (rRs p) * ucast (rRt p)"
    by (simp_all add: hi_lo_def psxMULT_def psxMULTU_def wR_def Let_def hi_lo_halves)
  then show ?thesis
    using signed_quotient [of "rRs p" "rRt p"] unsigned_quotient [of "rRs p" "rRt p"]
    by (auto simp: psxDIV_def psxDIVU_def wR_def sint_scast64 mult_scast64 mult_ucast64 split: if_splits)
qed

subsection \<open>Exceptions\<close>

lemma exception_modes:
  "psxCP0 (psxException_regs c bd p) CP0_Status AND 3 = 0"
  "psxCP0 (psxRFE (psxException_regs c bd p)) CP0_Status AND 0xf = psxCP0 p CP0_Status AND 0xf"
  "psxCP0 (psxRFE (psxException_regs c bd p)) CP0_Status AND NOT 0x3f = psxCP0 p CP0_Status AND NOT 0x3f"
  unfolding rfe_after_exception exception_status by (simp_all add: word32_bitwise bit_simps)

lemma psxRFE_keeps:
  "psxGPR (psxRFE q) = psxGPR q" "psx_pc (psxRFE q) = psx_pc q" "psxCP0 (psxRFE q) CP0_Cause = psxCP0 q CP0_Cause"
  by (simp_all add: psxRFE_def)

text \<open>An exception and \<^verbatim>\<open>RFE\<close> form a round trip. The exception saves the address to
  return to, names its cause, pushes the mode bits so that the handler runs in kernel mode with
  interrupts off, and enters the vector that the status selects; \<^verbatim>\<open>RFE\<close> restores the current
  and the previous mode pair and every status bit above the stack, and leaves the program counter
  and the registers alone.\<close>

theorem exception_rfe_roundtrip:
  "psxCP0 (psxException_regs c bd p) CP0_EPC = (if bd \<noteq> 0 then psx_pc p - 4 else psx_pc p) \<and>
   psx_pc (psxException_regs c bd p) =
     (if psxCP0 p CP0_Status AND 0x400000 \<noteq> 0 then 0xbfc00180 else 0x80000080) \<and>
   psxCP0 (psxException_regs c bd p) CP0_Status AND 3 = 0 \<and>
   (let q = psxRFE (psxException_regs c bd p)
    in psxCP0 q CP0_Status AND 0xf = psxCP0 p CP0_Status AND 0xf \<and>
       psxCP0 q CP0_Status AND NOT 0x3f = psxCP0 p CP0_Status AND NOT 0x3f \<and>
       psxGPR q = psxGPR p \<and> psx_pc q = psx_pc (psxException_regs c bd p))"
  using exception_modes [of c bd p] exception_enters [of c bd p] by (simp add: psxRFE_keeps Let_def)

text \<open>The delay-slot bit of the cause is sticky. After an exception in a delay slot has set bit
  31, an exception outside a delay slot still shows it, although the saved address is that of the
  instruction itself: no exception entry clears the bit.\<close>

theorem cause_delay_bit_sticky:
  "bit (psxCP0 (psxException_regs c 0 (psxRFE (psxException_regs c' 1 p))) CP0_Cause) 31 \<and>
   psxCP0 (psxException_regs c 0 (psxRFE (psxException_regs c' 1 p))) CP0_EPC =
     psx_pc (psxRFE (psxException_regs c' 1 p))"
  by (simp add: psxRFE_keeps exception_enters bit_simps)

subsection \<open>Branches\<close>

text \<open>A conditional branch executes its delay slot exactly once and then jumps. With plain memory
  and no active block window, a branch whose condition fails only advances; one whose condition
  holds runs the instruction after it in delay-slot mode, leaves that mode, continues at the target
  and performs the event test.\<close>

theorem conditional_branch_executes:
  assumes "plain e st" "in_ram (psx_pc (regs st))" "in_ram (psx_pc (regs st) + 4)" "cond_branch (fetched e st)"
    and "runs e (fetched e (slot_state (fetched e st) tar st)) g"
    and "tar = pBranchTarget (regs (issued (fetched e st) st))" "tar \<noteq> 0x890" "tar \<noteq> 0xbfc4a000"
  shows "exec_fuel e (Suc (Suc n)) st =
    (let c = fetched e st; st1 = issued c st
     in if conditional_taken (drop_bit 26 c) (drop_bit 16 c AND 0x1f) (rRs (regs st1)) (rRt (regs st1))
        then let st2 = slot_state c tar st
             in Done (wmach (iopEventTest e) (set_pc tar (set_delay False (wmach g (issued (fetched e st2) st2)))))
        else Done st1)"
  using taken_branch [OF assms(1-4) _ assms(6-8,5), of n] untaken_branch [OF assms(1,2,4), of "Suc n"]
  by (auto simp: Let_def simp del: exec_fuel.simps)

theorem conditional_branch_executes_witness:
  "\<exists>st1. exec_fuel quiet_iop (Suc (Suc 0)) test_interp = Done (wmach (iopEventTest quiet_iop) st1) \<and>
     psx_pc (regs st1) = 0x80001010"
proof -
  have "runs quiet_iop (fetched quiet_iop (slot_state c tar test_interp)) (psxSYSCALL quiet_iop)" for c tar
    unfolding test_fetch by (rule runs_exceptions(1)) simp_all
  from conditional_branch_executes [OF test_interp_plain test_interp_branch(1-3) this test_interp_branch(4) [symmetric], of 0]
  have "exec_fuel quiet_iop (Suc (Suc 0)) test_interp = Done (wmach (iopEventTest quiet_iop) (set_pc 0x80001010
      (set_delay False (wmach (psxSYSCALL quiet_iop) (issued 0xc (slot_state 0x10000003 0x80001010 test_interp))))))"
    unfolding test_fetch Let_def using test_taken by simp
  then show ?thesis by (intro exI conjI, assumption) (simp add: set_pc_def)
qed

text \<open>C39: An exception raised in the delay slot of a taken branch is lost. The interpreter saves the
  address of the branch, the cause with the delay-slot bit and the pushed mode bits, but the branch
  then overwrites the program counter with its target, so the exception vector is not entered.\<close>

theorem delay_slot_exception_lost:
  fixes e :: "'d iop_env" and st :: "'d interp"
  defines "c \<equiv> fetched e st" and "tar \<equiv> pBranchTarget (regs (issued (fetched e st) st))"
  defines "slot \<equiv> fetched e (slot_state c tar st)"
  assumes "plain e st" "in_ram (psx_pc (regs st))" "in_ram (psx_pc (regs st) + 4)" "cond_branch c"
    and "conditional_taken (drop_bit 26 c) (drop_bit 16 c AND 0x1f) (rRs (regs (issued c st))) (rRt (regs (issued c st)))"
    and "tar \<noteq> 0x890" "tar \<noteq> 0xbfc4a000" "drop_bit 26 slot = 0" "slot AND 0x3f \<in> {0x0c, 0x0d}"
  shows "\<exists>st1. exec_fuel e (Suc (Suc n)) st = Done (wmach (iopEventTest e) st1) \<and>
    psx_pc (regs st1) = tar \<and> psxCP0 (regs st1) CP0_EPC = psx_pc (regs st) \<and>
    bit (psxCP0 (regs st1) CP0_Cause) 31 \<and>
    psxCP0 (regs st1) CP0_Status = (psxCP0 (regs st) CP0_Status AND NOT 0x3f) OR
      push_bit 2 (psxCP0 (regs st) CP0_Status AND 0xf)"
proof -
  obtain g where g: "runs e slot g" and r: "\<And>s. psx (g s) = psxException_regs
      (if slot AND 0x3f = 0x0c then 0x20 else 0x24) (if iopIsDelaySlot s then 1 else 0) ((psx s)\<lparr>psx_pc := psx_pc (psx s) - 4\<rparr>)"
    using exception_handler [OF assms(11,12)] by blast
  let ?sl = "slot_state c tar st"
  have "exec_fuel e (Suc (Suc n)) st = Done (wmach (iopEventTest e) (set_pc tar (set_delay False (wmach g (issued slot ?sl)))))"
    using taken_branch [OF assms(4-6) _ _ _ assms(9,10), of g n] assms(7,8) g by (simp add: c_def tar_def slot_def)
  then show ?thesis
    by (intro exI conjI, assumption)
      (simp_all add: r set_pc_def set_delay_def issued_def slot_state_def exception_enters exception_status bit_simps)
qed

theorem delay_slot_exception_lost_witness:
  "\<exists>st1. exec_fuel quiet_iop (Suc (Suc 0)) test_interp = Done (wmach (iopEventTest quiet_iop) st1) \<and>
     psx_pc (regs st1) = 0x80001010 \<and> psxCP0 (regs st1) CP0_EPC = 0x80001000"
  using delay_slot_exception_lost [OF test_interp_plain test_interp_branch(1-3), of 0]
  by (auto simp: test_fetch test_taken test_pc simp del: exec_fuel.simps)

subsection \<open>The block executor\<close>

text \<open>C11: The executor of a block of the I/O processor ends and reports truthfully. With a trace
  hook that lets every instruction run, a block of any positive number of opcodes returns within as
  many nested executions as it has opcodes: it does not fail, has executed at least one and at most
  all of them, a completed block has executed all, and no window stays active.\<close>

theorem fallback_block_ends:
  assumes "no_stop e" "length ops = unat count" "count \<noteq> 0" "\<not> FallbackActive st" "unat count < n"
  shows "\<exists>x k st'. VitaExecuteIopInterpreterRecompilerBlock e n (Some ops) count True st = Done (x, k, st') \<and>
    x \<noteq> Exit_Failed \<and> 0 < k \<and> k \<le> count \<and> (x = Exit_Completed \<longrightarrow> k = count) \<and> \<not> FallbackActive st'"
  by (rule fallback_block_total [OF assms]) blast

theorem fallback_block_ends_witness:
  "\<exists>x k st'. VitaExecuteIopInterpreterRecompilerBlock quiet_iop 3 (Some [0x10000003, 0]) 2 True test_interp =
     Done (x, k, st') \<and> 0 < k \<and> k \<le> 2"
proof -
  have "length [0x10000003, 0 :: u32] = unat (2 :: u32)" "(2 :: u32) \<noteq> 0" "\<not> FallbackActive test_interp"
    "unat (2 :: u32) < 3" by (simp_all add: test_interp_def)
  from fallback_block_ends [OF quiet_no_stop this] show ?thesis by blast
qed

text \<open>Register 0 stays zero. With device code that leaves it alone, no instruction of the
  interpreter, whatever the opcode, the delay slots and the nested branches, changes it.\<close>

theorem iop_zero_register_kept:
  assumes "devices_keep_zero e" "psxGPR (regs st) 0 = 0" "exec_fuel e n st = Done st'"
  shows "psxGPR (regs st') 0 = 0"
proof -
  have "zero_st st" using assms(2) by (simp add: zero_st_def zero_kept_def)
  with zero_exec_fuel [OF assms(1), of n] assms(3) show ?thesis
    by (force simp: handles_def zero_st_def zero_kept_def)
qed

theorem iop_zero_register_kept_witness:
  "\<exists>st'. exec_fuel quiet_iop (Suc (Suc 0)) test_interp = Done st' \<and> psxGPR (regs st') 0 = 0"
  using test_runs iop_zero_register_kept [OF quiet_keeps_zero test_pc(2)] by blast

subsection \<open>The calendar\<close>

text \<open>C21: No event of the I/O processor is missed. With callbacks that only move time forward as the
  calendar allows, after the event test every pending event has a deadline at or after the next
  test, the next test is at most 768 cycles away, and time has not moved.\<close>

theorem iop_event_test_covers:
  assumes "calendar_devices e" "calendar (psx s)" "counters_armed s"
  shows "calendar (psx (iopEventTest e s)) \<and> psx_cycle (psx (iopEventTest e s)) = psx_cycle (psx s) \<and>
    next_at (psx (iopEventTest e s)) \<le> now (psx s) + 768 \<and>
    (\<forall>n < 13. pending n (psx (iopEventTest e s)) \<longrightarrow>
       next_at (psx (iopEventTest e s)) \<le> due_at n (psx (iopEventTest e s)))"
  using event_test_step [OF assms] by (simp add: covered_def)

text \<open>An event of 50 cycles raised at cycle 100.\<close>

definition test_events :: "unit iop" where
  "test_events = PSX_INT quiet_iop IopEvt_SIF0 50 (mach test_interp)"

lemma test_calendar:
  "calendar (psx (mach test_interp))" "counters_armed (mach test_interp)" "\<not> intc_visible quiet_iop (mach test_interp)"
  "{n. n < 13 \<and> pending n (psx (mach test_interp))} = {}"
  by (simp_all add: calendar_def near_def counters_armed_def armed_def now_def next_at_def pending_def test_interp_def
    test_iop_def psxRegs_zero_def intc_visible_def hget_def psxHu_def quiet_iop_def mem_read_def upt_4 bytes_word_def)

lemma test_counters: "psxNextStartCounter (mach test_interp) = 0" "psxNextDeltaCounter (mach test_interp) = 1000"
  by (simp_all add: test_interp_def test_iop_def)

lemma test_events_calendar: "calendar (psx test_events)" "counters_armed test_events" "pending 2 (psx test_events)"
proof -
  from raise_reschedules(1) [OF test_calendar(1), of 50 quiet_iop 2] show "calendar (psx test_events)"
    by (simp add: test_events_def reschedules_calendar)
  show "counters_armed test_events" "pending 2 (psx test_events)"
    by (simp_all add: test_events_def counters_armed_def armed_def now_def pending_def PSX_INT_def
      psxSetNextBranchDelta_def psxSetNextBranch_def test_interp_def test_iop_def psxRegs_zero_def Let_def
      quiet_iop_def bit_simps)
qed

theorem iop_event_test_covers_witness:
  "next_at (psx (iopEventTest quiet_iop test_events)) \<le> now (psx test_events) + 768"
  using iop_event_test_covers [OF quiet_calendar test_events_calendar(1,2)] by simp

text \<open>C24: The deadline that a joint wait of both processors may sleep to is exact. It is the
  current cycle when an interrupt is visible, and otherwise the earliest of the counters' deadline
  and the deadlines of the pending events, an overdue event counting as now.\<close>

theorem external_event_cycle_exact:
  assumes "calendar (psx s)" "counters_armed s"
  shows "uint (VitaGetIopExternalEventCycle e s) =
    (if intc_visible e s then now (psx s)
     else Min (insert (if sint (psxNextDeltaCounter s) = 0 then now (psx s)
                       else uint (psxNextStartCounter s) + sint (psxNextDeltaCounter s))
                ((\<lambda>n. max (now (psx s)) (due_at n (psx s))) ` {n. n < 13 \<and> pending n (psx s)})))"
  using external_cycle [OF assms] by (simp add: VitaGetIopExternalEventCycle_def now_def Let_def)

theorem external_event_cycle_exact_witness:
  "uint (VitaGetIopExternalEventCycle quiet_iop (mach test_interp)) = 1000"
  using external_event_cycle_exact [OF test_calendar(1,2), of quiet_iop] test_calendar(3)
  unfolding test_calendar(4) by (simp add: test_counters)

text \<open>The remaining time of an event is wrong. For a pending event the function returns the
  elapsed cycles plus the delta instead of the delta minus the elapsed cycles: the answer exceeds
  the remaining time by twice the elapsed time, and is twice the delta when nothing remains.\<close>

theorem remaining_cycles_grow:
  assumes "calendar p" "pending n p"
  shows "sint (psxRemainingCycles n p) = (due_at n p - now p) + 2 * (now p - uint (sCycle p n))"
proof -
  have armed: "armed (sCycle p n) (eCycle p n) p" and near: "near p" using assms by (simp_all add: calendar_def)
  then have "armed (psx_cycle p) (eCycle p n) p" by (simp add: armed_def now_def)
  from uint_add_delta [OF this near] have x: "uint (psx_cycle p + scast (eCycle p n)) = now p + sint (eCycle p n)"
    by (simp add: now_def)
  have "psxRemainingCycles n p = ucast (psx_cycle p + scast (eCycle p n) - sCycle p n)"
    using assms(2) by (simp add: psxRemainingCycles_def pending_def algebra_simps)
  also have "sint \<dots> = now p + sint (eCycle p n) - uint (sCycle p n)"
    using armed by (subst sint_low_difference) (auto simp: x armed_def)
  finally show ?thesis by (simp add: due_at_def)
qed

theorem remaining_cycles_grow_witness:
  "sint (psxRemainingCycles 2 (psx test_events)) =
    (due_at 2 (psx test_events) - now (psx test_events)) + 2 * (now (psx test_events) - uint (sCycle (psx test_events) 2))"
  by (rule remaining_cycles_grow [OF test_events_calendar(1,3)])

end
