(* ===== verification/EE_IOP.thy ===== *)
theory EE_IOP
  imports IOP_Sched EE_Arith
begin

text \<open>
  The two processors side by side: the register instructions of the main processor simulate those of
  the I/O processor on sign-extended registers.
\<close>

definition carries :: "psxRegisters \<Rightarrow> cpuRegisters \<Rightarrow> bool" where
  "carries p s \<longleftrightarrow> code s = psx_code p \<and> (\<forall>r < 32. UD (GPR s r) 0 = scast (psxGPR p r)) \<and>
     UD (HI s) 0 = scast (psxGPR p psx_hi) \<and> UD (LO s) 0 = scast (psxGPR p psx_lo)"

lemma carries_fields:
  assumes "carries p s"
  shows "iRd s = pRd p" "iRt s = pRt p" "iRs s = pRs p" "iSa s = pSa p" "scast (iImm s) = pImm p" "iImmU s = pImmU p"
  using assms by (simp_all add: carries_def iRd_def iRt_def iRs_def iSa_def iImm_def iImmU_def pRd_def pRt_def pRs_def
    pSa_def pImm_def pImmU_def)

lemma low_word: "UL v 0 = ucast (UD v 0)"
  by (simp add: word32_bitwise bit_simps)

lemma ucast_scast64: "ucast (scast (x :: u32) :: u64) = x"
  by (simp add: word32_bitwise bit_simps)

lemma carries_operands:
  assumes "carries p s"
  shows "UD (GPR s (pRs p)) 0 = scast (rRs p)" "UD (GPR s (pRt p)) 0 = scast (rRt p)"
    "UL (GPR s (pRs p)) 0 = rRs p" "UL (GPR s (pRt p)) 0 = rRt p"
  using assms psx_fields_less [of p] unfolding low_word
  by (simp_all add: carries_def rRs_def rRt_def ucast_scast64)

lemma carries_write:
  "carries p s \<Longrightarrow> y = scast x \<Longrightarrow> carries (wR (pRd p) x p) (wGPR (pRd p) (set_UD 0 y) s)"
  "carries p s \<Longrightarrow> y = scast x \<Longrightarrow> carries (wR (pRt p) x p) (wGPR (pRt p) (set_UD 0 y) s)"
  using psx_fields_less [of p] by (auto simp: carries_def wGPR_def)

lemma uint_negative: "sint (x :: u32) < 0 \<Longrightarrow> uint x = sint x + 2 ^ 32"
proof -
  assume "sint x < 0"
  then have "uint x = (sint x + 2 ^ 32) mod 2 ^ 32" using uint_sint_mod [of x] by simp
  then show ?thesis
    using \<open>sint x < 0\<close> sint_s32_range [of x] by (subst (asm) mod_pos_pos_trivial) (auto simp: s32_range_def)
qed

lemma uint_scast64: "uint (scast (x :: u32) :: u64) = (if 0 \<le> sint x then uint x else uint x + (2 ^ 64 - 2 ^ 32))"
proof -
  have r: "s32_range (sint x)" by (rule sint_s32_range)
  have "uint (scast x :: u64) = sint x mod 2 ^ 64" by (simp only: scast64_eq unsigned_of_int take_bit_eq_mod) simp
  also have "\<dots> = (if 0 \<le> sint x then sint x else sint x + 2 ^ 64)"
    using r mod_add_self2 [of "sint x" "2 ^ 64"] mod_pos_pos_trivial [of "sint x + 2 ^ 64" "2 ^ 64"]
    by (auto simp: s32_range_def)
  finally show ?thesis using uint_nonneg [of x] uint_negative [of x] by auto
qed

lemma scast_less:
  "(scast (x :: u32) :: u64) <s scast y \<longleftrightarrow> x <s y" "(scast (x :: u32) :: u64) < scast y \<longleftrightarrow> x < y"
proof -
  show "(scast (x :: u32) :: u64) <s scast y \<longleftrightarrow> x <s y" by (simp add: word_sless_alt sint_scast64)
  show "(scast (x :: u32) :: u64) < scast y \<longleftrightarrow> x < y"
    using uint_nonneg [of x] uint_negative [of x] uint_nonneg [of y] uint_negative [of y]
      sint_s32_range [of x] sint_s32_range [of y]
    by (auto simp: word_less_def uint_scast64 s32_range_def)
qed

lemma scast_bits:
  "(scast (x :: u32) :: u64) AND scast y = scast (x AND y)" "(scast (x :: u32) :: u64) OR scast y = scast (x OR y)"
  "(scast (x :: u32) :: u64) XOR scast y = scast (x XOR y)" "NOT (scast (x :: u32) :: u64) = scast (NOT x)"
  by (simp_all add: word64_bitwise bit_simps)

lemma ucast_immediate: "(ucast (pImmU p) :: u64) = scast (pImmU p)"
  by (simp add: pImmU_def word64_bitwise bit_simps)

lemma carries_imm64: "carries p s \<Longrightarrow> (scast (iImm s) :: u64) = scast (pImm p)"
  using carries_fields(5) [of p s, symmetric] by (simp add: word64_bitwise bit_simps)

definition simulated :: "(psxRegisters \<Rightarrow> psxRegisters) \<Rightarrow> (cpuRegisters \<Rightarrow> cpuRegisters) \<Rightarrow> bool" where
  "simulated f g \<longleftrightarrow> (\<forall>p s. carries p s \<longrightarrow> carries (f p) (g s))"

lemma simulated_rt:
  assumes "\<And>p. f p = (if pRt p = 0 then p else wR (pRt p) (x p) p)"
    and "\<And>s. g s = (if iRt s = 0 then s else wGPR (iRt s) (set_UD 0 (y s)) s)"
    and "\<And>p s. carries p s \<Longrightarrow> y s = scast (x p)"
  shows "simulated f g"
  using carries_write(2) assms(3) by (auto simp: simulated_def assms(1,2) carries_fields)

lemma simulated_rd:
  assumes "\<And>p. f p = (if pRd p = 0 then p else wR (pRd p) (x p) p)"
    and "\<And>s. g s = (if iRd s = 0 then s else wGPR (iRd s) (set_UD 0 (y s)) s)"
    and "\<And>p s. carries p s \<Longrightarrow> y s = scast (x p)"
  shows "simulated f g"
  using carries_write(1) assms(3) by (auto simp: simulated_def assms(1,2) carries_fields)

lemma carries_values:
  assumes "carries p s"
  shows "iRd s = pRd p" "iRt s = pRt p" "iRs s = pRs p" "iSa s = pSa p" "code s = psx_code p"
    "UD (GPR s (pRs p)) 0 = scast (rRs p)" "UD (GPR s (pRt p)) 0 = scast (rRt p)"
    "UL (GPR s (pRs p)) 0 = rRs p" "UL (GPR s (pRt p)) 0 = rRt p" "scast (iImm s) = pImm p"
    "(ucast (iImmU s) :: u64) = scast (pImmU p)" "(scast (iImm s) :: u64) = scast (pImm p)"
    "UD (HI s) 0 = scast (psxGPR p psx_hi)" "UD (LO s) 0 = scast (psxGPR p psx_lo)"
  using assms
  by (simp_all only: carries_imm64 carries_operands carries_fields ucast_immediate scast_bits scast_less) (simp_all add: carries_def)

lemma immediates_simulated:
  "simulated psxADDIU ADDIU"
  "simulated psxANDI ANDI"
  "simulated psxORI ORI"
  "simulated psxXORI XORI"
  "simulated psxSLTI SLTI"
  "simulated psxSLTIU SLTIU"
  "simulated psxLUI LUI"
proof -
  show "simulated psxADDIU ADDIU"
    by (rule simulated_rt [OF psxADDIU_def ADDIU_def]) (simp add: carries_values scast_bits scast_less)
  show "simulated psxANDI ANDI"
    by (rule simulated_rt [OF psxANDI_def ANDI_def]) (simp add: carries_values scast_bits scast_less)
  show "simulated psxORI ORI"
    by (rule simulated_rt [OF psxORI_def ORI_def]) (simp add: carries_values scast_bits scast_less)
  show "simulated psxXORI XORI"
    by (rule simulated_rt [OF psxXORI_def XORI_def]) (simp add: carries_values scast_bits scast_less)
  show "simulated psxSLTI SLTI"
    by (rule simulated_rt [OF psxSLTI_def SLTI_def]) (simp add: carries_values scast_bits scast_less)
  show "simulated psxSLTIU SLTIU"
    by (rule simulated_rt [OF psxSLTIU_def SLTIU_def]) (simp add: carries_values scast_bits scast_less)
  show "simulated psxLUI LUI"
    by (rule simulated_rt [OF psxLUI_def LUI_def]) (simp add: carries_values scast_bits scast_less)
qed

lemma arithmetic_simulated:
  "simulated psxADDU ADDU"
  "simulated psxSUBU SUBU"
  "simulated psxAND AND_op"
  "simulated psxOR OR_op"
  "simulated psxXOR XOR_op"
  "simulated psxNOR NOR"
  "simulated psxSLT SLT"
  "simulated psxSLTU SLTU"
proof -
  show "simulated psxADDU ADDU"
    by (rule simulated_rd [OF psxADDU_def ADDU_def]) (simp add: carries_values scast_bits scast_less)
  show "simulated psxSUBU SUBU"
    by (rule simulated_rd [OF psxSUBU_def SUBU_def]) (simp add: carries_values scast_bits scast_less)
  show "simulated psxAND AND_op"
    by (rule simulated_rd [OF psxAND_def AND_op_def]) (simp add: carries_values scast_bits scast_less)
  show "simulated psxOR OR_op"
    by (rule simulated_rd [OF psxOR_def OR_op_def]) (simp add: carries_values scast_bits scast_less)
  show "simulated psxXOR XOR_op"
    by (rule simulated_rd [OF psxXOR_def XOR_op_def]) (simp add: carries_values scast_bits scast_less)
  show "simulated psxNOR NOR"
    by (rule simulated_rd [OF psxNOR_def NOR_def]) (simp add: carries_values scast_bits scast_less)
  show "simulated psxSLT SLT"
    by (rule simulated_rd [OF psxSLT_def SLT_def]) (simp add: carries_values scast_bits scast_less)
  show "simulated psxSLTU SLTU"
    by (rule simulated_rd [OF psxSLTU_def SLTU_def]) (simp add: carries_values scast_bits scast_less)
qed

lemma shifts_simulated:
  "simulated psxSLL SLL"
  "simulated psxSRA SRA"
  "simulated psxSRL SRL"
  "simulated psxSLLV SLLV"
  "simulated psxSRAV SRAV"
  "simulated psxSRLV SRLV"
  "simulated psxMFHI MFHI"
  "simulated psxMFLO MFLO"
proof -
  show "simulated psxSLL SLL"
    by (rule simulated_rd [OF psxSLL_def SLL_def]) (simp add: carries_values scast_bits scast_less)
  show "simulated psxSRA SRA"
    by (rule simulated_rd [OF psxSRA_def SRA_def]) (simp add: carries_values scast_bits scast_less)
  show "simulated psxSRL SRL"
    by (rule simulated_rd [OF psxSRL_def SRL_def]) (simp add: carries_values scast_bits scast_less)
  show "simulated psxSLLV SLLV"
    by (rule simulated_rd [OF psxSLLV_def SLLV_def]) (simp add: carries_values scast_bits scast_less)
  show "simulated psxSRAV SRAV"
    by (rule simulated_rd [OF psxSRAV_def SRAV_def]) (simp add: carries_values scast_bits scast_less)
  show "simulated psxSRLV SRLV"
    by (rule simulated_rd [OF psxSRLV_def SRLV_def]) (simp add: carries_values scast_bits scast_less)
  show "simulated psxMFHI MFHI"
    by (rule simulated_rd [OF psxMFHI_def MFHI_def]) (simp add: carries_values scast_bits scast_less)
  show "simulated psxMFLO MFLO"
    by (rule simulated_rd [OF psxMFLO_def MFLO_def]) (simp add: carries_values scast_bits scast_less)
qed

lemma moves_simulated:
  "simulated psxMTHI MTHI" "simulated psxMTLO MTLO" "simulated psxDIV DIV" "simulated psxDIVU DIVU"
proof -
  have less: "r < 32 \<Longrightarrow> r \<noteq> psx_hi \<and> r \<noteq> psx_lo" for r :: u32 by auto
  note w = carries_def wR_def
  show "simulated psxMTHI MTHI" "simulated psxMTLO MTLO"
    using less by (auto simp: simulated_def psxMTHI_def MTHI_def psxMTLO_def MTLO_def carries_values) (auto simp: w)
  show "simulated psxDIV DIV" "simulated psxDIVU DIVU"
    using less by (auto simp: simulated_def psxDIV_def DIV_def psxDIVU_def DIVU_def carries_values Let_def) (auto simp: w)
qed

lemma products_simulated:
  assumes "carries p s" "pRd p = 0"
  shows "carries (psxMULT p) (MULT s)" "carries (psxMULTU p) (MULTU s)"
proof -
  have high: "(ucast (signed_drop_bit 32 z) :: u32) = ucast (drop_bit 32 z AND 0xffffffff)"
    "(ucast (drop_bit 32 z) :: u32) = ucast (drop_bit 32 z AND 0xffffffff)" for z :: u64
    by (simp_all add: word32_bitwise bit_simps)
  have less: "r < 32 \<Longrightarrow> r \<noteq> psx_hi \<and> r \<noteq> psx_lo" for r :: u32 by auto
  show "carries (psxMULT p) (MULT s)" "carries (psxMULTU p) (MULTU s)"
    using assms less unfolding psxMULT_def MULT_def psxMULTU_def MULTU_def Let_def high
    by (simp_all add: carries_values) (auto simp: carries_def wR_def)
qed

text \<open>The trapping instructions: while no overflow is signalled they write what the I/O processor
  writes.\<close>

lemma ucast_minus_scast: "(ucast (- (scast x :: u64)) :: u32) = - (x :: u32)"
proof -
  have "- (z mod 2 ^ 64) mod 2 ^ 32 = - z mod (2 ^ 32 :: int)" for z
    using mod_minus_eq [of "z mod 2 ^ 64" "2 ^ 32"] mod_minus_eq [of z "2 ^ 32"] by (simp add: mod_mod_cancel)
  then have "ucast (- z :: u64) = (- ucast z :: u32)" for z
    by transfer (simp add: take_bit_eq_mod mod_minus_eq mod_mod_cancel)
  from this [of "scast x"] show ?thesis by (simp only: ucast_scast64)
qed

lemma trapping_sum_fits:
  assumes "s32_range (sint x + sint y)"
  shows "add32_Overflow x y s = (Some (scast (x + y)), s)"
proof -
  have e: "x + y = word_of_int (sint x + sint y)" by simp
  have "sint (x + y) = sint x + sint y" unfolding e by (rule sint_word_of_int32 [OF assms])
  then show ?thesis unfolding add32_Overflow_exact scast64_eq by (simp only: assms if_True)
qed

lemma traps_simulated:
  assumes "carries p s"
  shows "s32_range (sint (rRs p) + sint (pImm p)) \<Longrightarrow> carries (psxADDI p) (ADDI s)"
    and "s32_range (sint (rRs p) + sint (rRt p)) \<Longrightarrow> carries (psxADD p) (ADD s)"
    and "s32_range (sint (rRs p) + sint (- rRt p)) \<Longrightarrow> carries (psxSUB p) (SUB s)"
proof -
  note v = carries_values [OF assms] ucast_scast64 ucast_minus_scast
  show "carries (psxADDI p) (ADDI s)" if "s32_range (sint (rRs p) + sint (pImm p))"
    using carries_write(2) [OF assms refl] assms by (simp add: ADDI_def psxADDI_def v trapping_sum_fits [OF that])
  show "carries (psxADD p) (ADD s)" if "s32_range (sint (rRs p) + sint (rRt p))"
    using carries_write(1) [OF assms refl] assms by (simp add: ADD_def psxADD_def v trapping_sum_fits [OF that])
  show "carries (psxSUB p) (SUB s)" if "s32_range (sint (rRs p) + sint (- rRt p))"
    using carries_write(1) [OF assms refl] assms by (simp add: SUB_def psxSUB_def v trapping_sum_fits [OF that])
qed

text \<open>C23: The main processor executes the integer instructions of the I/O processor. When its 64-bit
  registers hold the sign extensions of the I/O processor's registers and both decode the same
  instruction word, every integer register instruction without a trap keeps that relation:
  comparisons, logical operations, shifts and divisions agree although one works on 64 and the other
  on 32 bits. \<^verbatim>\<open>ADDI\<close>, \<^verbatim>\<open>ADD\<close> and \<^verbatim>\<open>SUB\<close> agree as long as the main
  processor signals no overflow, where the I/O processor wraps; for \<^verbatim>\<open>SUB\<close> it adds the
  negated operand, so that the smallest number counts as its own negative. \<^verbatim>\<open>MULT\<close> and
  \<^verbatim>\<open>MULTU\<close> agree when the main processor's additional destination is register 0.\<close>

theorem ee_simulates_iop:
  assumes "carries p s"
  shows "list_all (\<lambda>(f, g). carries (f p) (g s))
     [(psxADDIU, ADDIU), (psxANDI, ANDI), (psxORI, ORI), (psxXORI, XORI), (psxSLTI, SLTI), (psxSLTIU,
      SLTIU), (psxLUI, LUI), (psxADDU, ADDU), (psxSUBU, SUBU), (psxAND, AND_op), (psxOR, OR_op), (psxXOR,
      XOR_op), (psxNOR, NOR), (psxSLT, SLT), (psxSLTU, SLTU), (psxSLL, SLL), (psxSRA, SRA), (psxSRL,
      SRL), (psxSLLV, SLLV), (psxSRAV, SRAV), (psxSRLV, SRLV), (psxMFHI, MFHI), (psxMFLO, MFLO),
      (psxMTHI, MTHI), (psxMTLO, MTLO), (psxDIV, DIV), (psxDIVU, DIVU)] \<and>
    (s32_range (sint (rRs p) + sint (pImm p)) \<longrightarrow> carries (psxADDI p) (ADDI s)) \<and>
    (s32_range (sint (rRs p) + sint (rRt p)) \<longrightarrow> carries (psxADD p) (ADD s)) \<and>
    (s32_range (sint (rRs p) + sint (- rRt p)) \<longrightarrow> carries (psxSUB p) (SUB s)) \<and>
    (pRd p = 0 \<longrightarrow> carries (psxMULT p) (MULT s) \<and> carries (psxMULTU p) (MULTU s))"
  using assms immediates_simulated arithmetic_simulated shifts_simulated moves_simulated
    products_simulated [OF assms] traps_simulated [OF assms]
  by (simp add: simulated_def)

theorem ee_simulates_iop_witness:
  "\<exists>p s. carries p s \<and> rRs p = 0xfffffffe \<and> carries (psxSLTU p) (SLTU s) \<and> carries (psxSUB p) (SUB s)"
proof -
  define p where "p = psxRegs_zero\<lparr>psxGPR := (\<lambda>_. 0)(1 := 0xfffffffe, 2 := 5), psx_code := 0x0022182b\<rparr>"
  define s where "s = \<lparr>GPR = (\<lambda>_. 0)(1 := 0xfffffffffffffffe, 2 := 5), HI = 0, LO = 0, CP0 = \<lambda>_. 0, sa = 0,
    pc = 0, code = 0x0022182b, branch = 0, cycle = 0, nextEventCycle = 0\<rparr>"
  have "carries p s" by (simp add: carries_def p_def s_def psxRegs_zero_def lane_def)
  moreover have "rRs p = 0xfffffffe" "rRt p = 5" by (simp_all add: p_def rRs_def pRs_def rRt_def pRt_def)
  moreover have "s32_range (sint (0xfffffffe :: u32) + sint (- 5 :: u32))" by (simp add: s32_range_def)
  ultimately show ?thesis using ee_simulates_iop [of p s] by (intro exI [of _ p] exI [of _ s]) simp
qed

end
