(* ===== verification/EE_Sched.thy ===== *)
theory EE_Sched
  imports IOP_Sched
begin

text \<open>
  The event scheduler of the main processor (\<^verbatim>\<open>pcsx2/R5900.cpp\<close>, with the interrupt tests of
  \<^verbatim>\<open>pcsx2/Hw.cpp\<close>), in the configuration of the Vita build: one calendar of asynchronous
  events, a private copy of the earliest deadline of the EE owners, and the narrow path that runs
  only the I/O processor at a boundary the EE owners do not need. Traces, profiler blocks and the
  validation switches are left out.
\<close>

subsection \<open>State\<close>

text \<open>The part of \<^verbatim>\<open>cpuRegs\<close> the scheduler uses, its static variables, the deadline of the
  counters and the registers of the two interrupt controllers. Signed 32-bit values are words.
  The scheduler state is the device state of the I/O processor's machine, whose registers both
  processors' schedulers share.\<close>

datatype EE_intProcessStatus = INT_NOT_RUNNING | INT_RUNNING | INT_REQ_LOOP

record ee_sched =
  ee_cycle :: u64
  nextEventCycle :: u64
  lastEventCycle :: u64
  cpu_pc :: u32
  ee_interrupt :: u32
  dmastall :: u32
  ee_sCycle :: "nat \<Rightarrow> u64"
  ee_eCycle :: "nat \<Rightarrow> u32"
  ee_Status :: u32
  eeRunInterruptScan :: EE_intProcessStatus
  ee_test_active :: bool
  EEsCycle :: u32
  EEoCycle :: u64
  nextStartCounter :: u64
  nextDeltaCounter :: u32
  owner_cycle :: u64
  non_counter_cycle :: u64
  counter_cycle :: u64
  next_event_iop_only :: bool
  INTC_STAT :: u32
  INTC_MASK :: u32
  DMAC_CTRL :: u32
  DMAC_STAT :: u32
  DMAC_ENABLER :: u32

type_synonym 'z machine = "'z ee_sched_scheme iop"

abbreviation ee :: "'z machine \<Rightarrow> 'z ee_sched_scheme" where
  "ee \<equiv> iopDev"

definition wee :: "('z ee_sched_scheme \<Rightarrow> 'z ee_sched_scheme) \<Rightarrow> 'z machine \<Rightarrow> 'z machine" where
  "wee f s = s\<lparr>iopDev := f (iopDev s)\<rparr>"

lemma wee_simps [simp]:
  "iopDev (wee f s) = f (iopDev s)" "psx (wee f s) = psx s" "iopHost (wee f s) = iopHost s"
  "iopEventAction (wee f s) = iopEventAction s" "PSXCLK (wee f s) = PSXCLK s"
  "psxNextStartCounter (wee f s) = psxNextStartCounter s" "psxNextDeltaCounter (wee f s) = psxNextDeltaCounter s"
  by (simp_all add: wee_def)

text \<open>The wait certificate of a generated block (\<^verbatim>\<open>vita/VitaCore.h\<close>).\<close>

datatype VitaA32EeWaitSchedulerOrigin = NoOrigin | GenericRamLoop | PollCallRamLoop | TwoPredicateRamLoop |
  RetainedUnconditionalLoop | GsCsrVsintLoop | DmacChcrStrPollLoop | IntcVblankStartAndRamLoop

record VitaA32EeWaitSchedulerCertificate =
  origin :: VitaA32EeWaitSchedulerOrigin
  ram_range_count :: u8
  ram_write_observed :: u8

text \<open>The components the scheduler calls: the callback of each event, the counters, the vector
  units, the exception entry, and the slice of the I/O processor. \<open>VuActive\<close> is the test whether a
  vector unit has work.\<close>

record 'z ee_env =
  iop_part :: "'z ee_sched_scheme iop_env"
  CHECK_INSTANTDMAHACK :: bool
  CHECK_EETIMINGHACK :: bool
  ee_callback :: "nat \<Rightarrow> 'z ee_sched_scheme iop \<Rightarrow> 'z ee_sched_scheme iop"
  hold_counters :: "'z ee_sched_scheme iop \<Rightarrow> 'z ee_sched_scheme iop"
  cpuException :: "u32 \<Rightarrow> 'z ee_sched_scheme iop \<Rightarrow> 'z ee_sched_scheme iop"
  ExecuteIopTimeslice :: "u32 \<Rightarrow> 'z ee_sched_scheme iop \<Rightarrow> u32 \<times> 'z ee_sched_scheme iop"
  rcntUpdate :: "'z ee_sched_scheme iop \<Rightarrow> 'z ee_sched_scheme iop"
  cpuTestPERF :: "'z ee_sched_scheme iop \<Rightarrow> 'z ee_sched_scheme iop"
  cpuTestTIMR :: "'z ee_sched_scheme iop \<Rightarrow> 'z ee_sched_scheme iop"
  VuActive :: "'z ee_sched_scheme \<Rightarrow> bool"
  VuSync :: "'z ee_sched_scheme iop \<Rightarrow> 'z ee_sched_scheme iop"
  GetNextNonHsyncCounterCycle :: "'z ee_sched_scheme \<Rightarrow> u64"
  FoldSilentHsyncBefore :: "u64 \<Rightarrow> 'z ee_sched_scheme iop \<Rightarrow> 'z ee_sched_scheme iop"
  ConsumeCertificate :: "'z ee_sched_scheme iop \<Rightarrow> VitaA32EeWaitSchedulerCertificate \<times> 'z ee_sched_scheme iop"
  FinishCertificate :: "'z ee_sched_scheme iop \<Rightarrow> 'z ee_sched_scheme iop"

abbreviation "DMAC_VIF0 \<equiv> 0 :: nat"
abbreviation "DMAC_VIF1 \<equiv> 1 :: nat"
abbreviation "DMAC_GIF \<equiv> 2 :: nat"
abbreviation "DMAC_FROM_IPU \<equiv> 3 :: nat"
abbreviation "DMAC_TO_IPU \<equiv> 4 :: nat"
abbreviation "DMAC_SIF0 \<equiv> 5 :: nat"
abbreviation "DMAC_SIF1 \<equiv> 6 :: nat"
abbreviation "DMAC_SIF2 \<equiv> 7 :: nat"
abbreviation "DMAC_FROM_SPR \<equiv> 8 :: nat"
abbreviation "DMAC_TO_SPR \<equiv> 9 :: nat"
abbreviation "DMAC_MFIFO_VIF \<equiv> 10 :: nat"
abbreviation "DMAC_MFIFO_GIF \<equiv> 11 :: nat"
abbreviation "DMAC_STALL_SIS \<equiv> 13 :: nat"
abbreviation "VIF_VU0_FINISH \<equiv> 17 :: nat"
abbreviation "VIF_VU1_FINISH \<equiv> 18 :: nat"
abbreviation "IPU_PROCESS \<equiv> 19 :: nat"
abbreviation "VU_MTVU_BUSY \<equiv> 20 :: nat"

subsection \<open>Deadlines\<close>

text \<open>The low 32 bits of a difference of two times.\<close>

definition since :: "u64 \<Rightarrow> u64 \<Rightarrow> u32" where
  "since a b = ucast (a - b)"

definition VitaResetEeDeadlineState :: "u64 \<Rightarrow> 'z ee_sched_scheme \<Rightarrow> 'z ee_sched_scheme" where
  "VitaResetEeDeadlineState deadline e =
    e\<lparr>owner_cycle := deadline, non_counter_cycle := deadline, counter_cycle := deadline, next_event_iop_only := False\<rparr>"

text \<open>The registers of the calendar after \<^verbatim>\<open>cpuReset\<close>, up to the reset of the I/O
  processor.\<close>

definition cpuReset :: "'z ee_sched_scheme \<Rightarrow> 'z ee_sched_scheme" where
  "cpuReset e0 =
    (let e = e0\<lparr>ee_cycle := 0, lastEventCycle := 0, ee_interrupt := 0, dmastall := 0, ee_sCycle := \<lambda>_. 0,
                 ee_eCycle := \<lambda>_. 0, cpu_pc := 0xbfc00000, ee_Status := 0x70400004\<rparr>;
         e1 = e\<lparr>nextEventCycle := ee_cycle e + 4\<rparr>;
         e2 = VitaResetEeDeadlineState (nextEventCycle e1) e1
     in e2\<lparr>EEsCycle := 0, EEoCycle := ee_cycle e2\<rparr>)"

definition VitaRestoreEeDeadlineCacheAfterStateLoad :: "'z ee_sched_scheme \<Rightarrow> 'z ee_sched_scheme" where
  "VitaRestoreEeDeadlineCacheAfterStateLoad e = VitaResetEeDeadlineState (nextEventCycle e) e"

definition VitaRefreshCombinedEeOwner :: "'z ee_sched_scheme \<Rightarrow> 'z ee_sched_scheme" where
  "VitaRefreshCombinedEeOwner e =
    (let e1 = e\<lparr>owner_cycle := min (non_counter_cycle e) (counter_cycle e)\<rparr>
     in if since (owner_cycle e1) (nextEventCycle e1) \<le>s 0 then e1\<lparr>next_event_iop_only := False\<rparr> else e1)"

definition cpuSetNextEvent :: "u64 \<Rightarrow> u32 \<Rightarrow> 'z ee_sched_scheme \<Rightarrow> 'z ee_sched_scheme" where
  "cpuSetNextEvent startCycle delta e =
    (let e1 = (if delta <s since (nextEventCycle e) startCycle
               then e\<lparr>nextEventCycle := startCycle + scast delta\<rparr> else e)
     in if delta <s since (non_counter_cycle e1) startCycle
        then VitaRefreshCombinedEeOwner (e1\<lparr>non_counter_cycle := startCycle + scast delta\<rparr>) else e1)"

definition cpuSetNextCounterEvent :: "u64 \<Rightarrow> u32 \<Rightarrow> 'z ee_sched_scheme \<Rightarrow> 'z ee_sched_scheme" where
  "cpuSetNextCounterEvent startCycle delta e =
    (let e1 = (if delta <s since (nextEventCycle e) startCycle
               then e\<lparr>nextEventCycle := startCycle + scast delta\<rparr> else e)
     in VitaRefreshCombinedEeOwner (e1\<lparr>counter_cycle := startCycle + scast delta\<rparr>))"

definition ee_cpuSetNextEventDelta :: "u32 \<Rightarrow> 'z ee_sched_scheme \<Rightarrow> 'z ee_sched_scheme" where
  "ee_cpuSetNextEventDelta delta e = cpuSetNextEvent (ee_cycle e) delta e"

definition cpuGetCycles :: "nat \<Rightarrow> 'z ee_sched_scheme \<Rightarrow> int" where
  "cpuGetCycles n e = max 1 (sint (since (ee_sCycle e n + scast (ee_eCycle e n)) (ee_cycle e)))"

definition cpuTestCycle :: "u64 \<Rightarrow> u32 \<Rightarrow> 'z ee_sched_scheme \<Rightarrow> bool" where
  "cpuTestCycle startCycle delta e = (delta \<le>s since (ee_cycle e) startCycle)"

definition cpuSetEvent :: "'z ee_sched_scheme \<Rightarrow> 'z ee_sched_scheme" where
  "cpuSetEvent e = VitaResetEeDeadlineState (ee_cycle e) (e\<lparr>nextEventCycle := ee_cycle e\<rparr>)"

definition cpuClearInt :: "nat \<Rightarrow> 'z ee_sched_scheme \<Rightarrow> 'z ee_sched_scheme" where
  "cpuClearInt i e = e\<lparr>ee_interrupt := ee_interrupt e AND NOT (push_bit i 1), dmastall := dmastall e AND NOT (push_bit i 1)\<rparr>"

definition CPU_SET_DMASTALL :: "nat \<Rightarrow> bool \<Rightarrow> 'z ee_sched_scheme \<Rightarrow> 'z ee_sched_scheme" where
  "CPU_SET_DMASTALL n v e =
    (if v then e\<lparr>dmastall := dmastall e OR push_bit n 1\<rparr> else e\<lparr>dmastall := dmastall e AND NOT (push_bit n 1)\<rparr>)"

subsection \<open>Raising an event\<close>

text \<open>The time the I/O processor does not run any more.\<close>

definition break_iop :: "'z machine \<Rightarrow> 'z machine" where
  "break_iop = wpsx (\<lambda>p. p\<lparr>iopBreak := iopBreak p + iopCycleEE p, iopCycleEE := 0\<rparr>)"

definition CPU_INT :: "'z ee_env \<Rightarrow> nat \<Rightarrow> u32 \<Rightarrow> 'z machine \<Rightarrow> 'z machine" where
  "CPU_INT v n ecycle0 s =
    (if ecycle0 <s 4 \<and> \<not> bit (dmastall (ee s)) n \<and> eeRunInterruptScan (ee s) \<noteq> INT_NOT_RUNNING
     then wee (\<lambda>e. e\<lparr>eeRunInterruptScan := INT_REQ_LOOP, ee_interrupt := ee_interrupt e OR push_bit n 1,
                     ee_sCycle := (ee_sCycle e)(n := ee_cycle e), ee_eCycle := (ee_eCycle e)(n := 0)\<rparr>) s
     else let ecycle = (if CHECK_EETIMINGHACK v \<and> n < VIF_VU0_FINISH then 8 else ecycle0);
              s1 = wee (\<lambda>e. e\<lparr>ee_interrupt := ee_interrupt e OR push_bit n 1,
                              ee_sCycle := (ee_sCycle e)(n := ee_cycle e), ee_eCycle := (ee_eCycle e)(n := ecycle)\<rparr>) s;
              s2 = (if ecycle \<le>s 28 \<and> 0 <s iopCycleEE (psx s1) then break_iop s1 else s1)
          in wee (\<lambda>e. ee_cpuSetNextEventDelta (ee_eCycle e n) e) s2)"

subsection \<open>Interrupts of the processor\<close>

definition cpuIntsEnabled :: "u32 \<Rightarrow> 'z ee_sched_scheme \<Rightarrow> bool" where
  "cpuIntsEnabled Interrupt e =
    (let st = ee_Status e
     in st AND Interrupt \<noteq> 0 \<and> bit st 16 \<and> bit st 0 \<and> \<not> bit st 1 \<and> \<not> bit st 2)"

definition intcInterrupt :: "'z ee_env \<Rightarrow> 'z machine \<Rightarrow> u32 \<times> 'z machine" where
  "intcInterrupt v s =
    (if INTC_STAT (ee s) = 0 then (0, s)
     else if INTC_STAT (ee s) AND INTC_MASK (ee s) = 0 then (0, s)
     else (0x400, if INTC_STAT (ee s) AND 0x2 \<noteq> 0 then hold_counters v s else s))"

abbreviation stat_low :: "u32 \<Rightarrow> u16" where
  "stat_low st \<equiv> ucast st"

abbreviation stat_high :: "u32 \<Rightarrow> u16" where
  "stat_high st \<equiv> ucast (drop_bit 16 st)"

abbreviation enabler_byte :: "u32 \<Rightarrow> u8" where
  "enabler_byte r \<equiv> ucast (drop_bit 16 r)"

definition dmacInterrupt :: "'z ee_sched_scheme \<Rightarrow> u32" where
  "dmacInterrupt e =
    (if stat_high (DMAC_STAT e) AND stat_low (DMAC_STAT e) = 0 \<and> stat_low (DMAC_STAT e) AND 0x8000 = 0 then 0
     else if \<not> bit (DMAC_CTRL e) 0 \<or> enabler_byte (DMAC_ENABLER e) = 1 then 0
     else 0x800)"

text \<open>What a newly visible interrupt does: the next test comes after four cycles, and a running slice
  of the I/O processor ends.\<close>

definition raise_exception_test :: "'z machine \<Rightarrow> 'z machine" where
  "raise_exception_test s =
    (let s1 = wee (ee_cpuSetNextEventDelta 4) s
     in if ee_test_active (ee s1) \<and> 0 <s iopCycleEE (psx s1) then break_iop s1 else s1)"

definition cpuTestINTCInts :: "'z machine \<Rightarrow> 'z machine" where
  "cpuTestINTCInts s =
    (if \<not> cpuIntsEnabled 0x400 (ee s) then s
     else if INTC_STAT (ee s) AND INTC_MASK (ee s) = 0 then s
     else raise_exception_test s)"

definition cpuTestDMACInts :: "'z machine \<Rightarrow> 'z machine" where
  "cpuTestDMACInts s =
    (if \<not> cpuIntsEnabled 0x800 (ee s) then s
     else if stat_high (DMAC_STAT (ee s)) AND stat_low (DMAC_STAT (ee s)) = 0 \<and>
             stat_low (DMAC_STAT (ee s)) AND 0x8000 = 0 then s
     else raise_exception_test s)"

definition hwIntcIrq :: "nat \<Rightarrow> 'z machine \<Rightarrow> 'z machine" where
  "hwIntcIrq n s =
    (let s1 = wee (\<lambda>e. e\<lparr>INTC_STAT := INTC_STAT e OR push_bit n 1\<rparr>) s
     in if bit (INTC_MASK (ee s1)) n then cpuTestINTCInts s1 else s1)"

definition hwDmacIrq :: "nat \<Rightarrow> 'z machine \<Rightarrow> 'z machine" where
  "hwDmacIrq n s =
    (let s1 = wee (\<lambda>e. e\<lparr>DMAC_STAT := DMAC_STAT e OR push_bit n 1\<rparr>) s
     in if bit (stat_high (DMAC_STAT (ee s1))) n then cpuTestDMACInts s1 else s1)"

subsection \<open>Dispatching the events\<close>

definition TESTINT :: "'z ee_env \<Rightarrow> nat \<Rightarrow> 'z machine \<Rightarrow> 'z machine" where
  "TESTINT v n s =
    (if \<not> bit (ee_interrupt (ee s)) n then s
     else if CHECK_INSTANTDMAHACK v \<or> cpuTestCycle (ee_sCycle (ee s) n) (ee_eCycle (ee s) n) (ee s)
     then ee_callback v n (wee (cpuClearInt n) s)
     else wee (\<lambda>e. cpuSetNextEvent (ee_sCycle e n) (ee_eCycle e n) e) s)"

definition rare_events :: "nat list" where
  "rare_events = [DMAC_VIF0, DMAC_FROM_IPU, DMAC_TO_IPU, IPU_PROCESS, DMAC_FROM_SPR, DMAC_TO_SPR,
     DMAC_MFIFO_VIF, DMAC_MFIFO_GIF, VIF_VU0_FINISH, VIF_VU1_FINISH]"

definition interrupt_scan :: "'z ee_env \<Rightarrow> 'z machine \<Rightarrow> 'z machine" where
  "interrupt_scan v s =
    (let s1 = fold (TESTINT v) [VU_MTVU_BUSY, DMAC_VIF1, DMAC_GIF, DMAC_SIF0, DMAC_SIF1] s
     in if \<exists>n \<in> set rare_events. bit (ee_interrupt (ee s1)) n then fold (TESTINT v) rare_events s1 else s1)"

text \<open>The scan is repeated while a callback asks for it. The loops take fuel; \<open>None\<close> is running out
  of it.\<close>

fun scan_loop :: "'z ee_env \<Rightarrow> nat \<Rightarrow> 'z machine \<Rightarrow> 'z machine option" where
  "scan_loop v 0 s = None"
| "scan_loop v (Suc k) s =
    (let s1 = interrupt_scan v s
     in if eeRunInterruptScan (ee s1) = INT_REQ_LOOP
        then scan_loop v k (wee (\<lambda>e. e\<lparr>eeRunInterruptScan := INT_RUNNING\<rparr>) s1)
        else Some s1)"

definition dmac_suspended :: "'z ee_sched_scheme \<Rightarrow> bool" where
  "dmac_suspended e \<longleftrightarrow> \<not> bit (DMAC_CTRL e) 0 \<or> enabler_byte (DMAC_ENABLER e) AND 1 \<noteq> 0"

definition cpuTestInterrupts :: "'z ee_env \<Rightarrow> nat \<Rightarrow> 'z machine \<Rightarrow> (bool \<times> 'z machine) option" where
  "cpuTestInterrupts v k s =
    (if dmac_suspended (ee s) then Some (False, s)
     else case scan_loop v k (wee (\<lambda>e. e\<lparr>eeRunInterruptScan := INT_RUNNING\<rparr>) s) of
       None \<Rightarrow> None
     | Some s1 \<Rightarrow> let s2 = wee (\<lambda>e. e\<lparr>eeRunInterruptScan := INT_NOT_RUNNING\<rparr>) s1
                  in Some ((ee_interrupt (ee s2) AND 0x1FFFF) AND NOT (dmastall (ee s2)) \<noteq> 0, s2))"

fun instant_dma_loop :: "'z ee_env \<Rightarrow> nat \<Rightarrow> nat \<Rightarrow> 'z machine \<Rightarrow> 'z machine option" where
  "instant_dma_loop v k 0 s = None"
| "instant_dma_loop v k (Suc m) s =
    (if ee_interrupt (ee s) AND 0x1FFFF = 0 then Some s
     else case cpuTestInterrupts v k s of None \<Rightarrow> None
          | Some (again, s1) \<Rightarrow> if again then instant_dma_loop v k m s1 else Some s1)"

subsection \<open>The horizon of the next test\<close>

definition VitaEeInterleaveCycles :: "'z ee_env \<Rightarrow> 'z machine \<Rightarrow> u32" where
  "VitaEeInterleaveCycles v s =
    (if IopRetainedWaitCoalescingActive (iop_part v) (ee s) \<and> ee_Status (ee s) AND 0x8000 = 0 then 6144 else 3072)"

definition VitaBeginFullEeDeadlineCollection :: "'z ee_env \<Rightarrow> 'z machine \<Rightarrow> 'z machine" where
  "VitaBeginFullEeDeadlineCollection v s =
    (let no_owner = ee_cycle (ee s) + 0x7fffffff; window = VitaEeInterleaveCycles v s
     in wee (\<lambda>e. e\<lparr>non_counter_cycle := no_owner, counter_cycle := no_owner, owner_cycle := no_owner,
                   next_event_iop_only := False, nextEventCycle := ee_cycle e + ucast window\<rparr>) s)"

definition VitaRefreshEeCounterOwner :: "'z ee_sched_scheme \<Rightarrow> 'z ee_sched_scheme" where
  "VitaRefreshEeCounterOwner e =
    VitaRefreshCombinedEeOwner (e\<lparr>counter_cycle := nextStartCounter e + scast (nextDeltaCounter e)\<rparr>)"

definition VitaScheduleEeAndIopDeadlineDelta :: "u64 \<Rightarrow> 'z ee_sched_scheme \<Rightarrow> 'z ee_sched_scheme" where
  "VitaScheduleEeAndIopDeadlineDelta iop_owner_delta e =
    (let iop_delta = (if iop_owner_delta \<le>s 0 then 0 else if 0x7fffffff \<le>s iop_owner_delta then 0x7fffffff
                      else ucast iop_owner_delta :: u32)
     in if iop_delta <s since (owner_cycle e) (ee_cycle e)
        then e\<lparr>nextEventCycle := ee_cycle e + scast iop_delta, next_event_iop_only := (ee_Status e AND 0x8000 = 0)\<rparr>
        else e\<lparr>nextEventCycle := owner_cycle e, next_event_iop_only := False\<rparr>)"

definition VitaScheduleEeAndIopDeadlines :: "'z ee_env \<Rightarrow> u32 \<Rightarrow> 'z machine \<Rightarrow> 'z machine" where
  "VitaScheduleEeAndIopDeadlines v iop_owner_delta s =
    (let window = VitaEeInterleaveCycles v s
     in wee (VitaScheduleEeAndIopDeadlineDelta (scast (if iop_owner_delta \<le>s window then iop_owner_delta else window))) s)"

definition VitaCanSkipEeOwnersAtInterleave :: "'z ee_env \<Rightarrow> 'z machine \<Rightarrow> bool \<times> 'z machine" where
  "VitaCanSkipEeOwnersAtInterleave v s =
    (let e = ee s
     in if cpuTestCycle (nextStartCounter e) (nextDeltaCounter e) e \<or> ee_Status e AND 0x8000 \<noteq> 0 \<or>
           since (owner_cycle e) (ee_cycle e) \<le>s 0 \<or> VuActive v e then (False, s)
        else case intcInterrupt v s of (m, s1) \<Rightarrow>
          let exception_mask = m OR dmacInterrupt (ee s1)
          in (\<not> (cpuIntsEnabled exception_mask (ee s1) \<or>
                 CHECK_INSTANTDMAHACK v \<and> ee_interrupt (ee s1) AND 0x1ffff \<noteq> 0), s1))"

definition VitaCanRunIopOnlyEeInterleave :: "'z ee_env \<Rightarrow> 'z machine \<Rightarrow> bool \<times> 'z machine" where
  "VitaCanRunIopOnlyEeInterleave v s =
    (if next_event_iop_only (ee s) \<and> 0 \<le>s since (ee_cycle (ee s)) (nextEventCycle (ee s))
     then VitaCanSkipEeOwnersAtInterleave v s else (False, s))"

definition VitaScaleIopEventDeltaToEe :: "'z ee_env \<Rightarrow> u64 \<Rightarrow> 'z machine \<Rightarrow> u32" where
  "VitaScaleIopEventDeltaToEe v iop_cycles s =
    (if PSXCLK s = PS2CLK div 8 then ucast (iop_cycles * 8) else scale_to_ee (iop_part v) (PSXCLK s) iop_cycles)"

definition VitaNextIopOwnerDelta :: "'z ee_env \<Rightarrow> 'z machine \<Rightarrow> u32" where
  "VitaNextIopOwnerDelta v s =
    (let next_iop_event_delta = VitaScaleIopEventDeltaToEe v (iopNextEventCycle (psx s) - psx_cycle (psx s)) s
     in if next_iop_event_delta \<le>s EEsCycle (ee s) then 48 else next_iop_event_delta - EEsCycle (ee s))"

definition VitaNextIopExternalOwnerDelta :: "u64 \<Rightarrow> 'z machine \<Rightarrow> u64" where
  "VitaNextIopExternalOwnerDelta external_cycle s =
    (let iop_cycles = (if external_cycle > psx_cycle (psx s) then external_cycle - psx_cycle (psx s) else 0)
     in iop_cycles * 8 - scast (EEsCycle (ee s)))"

definition VitaEeWaitCertificateHasExactWakeContract :: "VitaA32EeWaitSchedulerCertificate \<Rightarrow> bool" where
  "VitaEeWaitCertificateHasExactWakeContract c =
    (if ram_write_observed c \<noteq> 0 then False
     else case origin c of PollCallRamLoop \<Rightarrow> ram_range_count c = 1
       | TwoPredicateRamLoop \<Rightarrow> ram_range_count c = 2
       | IntcVblankStartAndRamLoop \<Rightarrow> ram_range_count c = 1
       | RetainedUnconditionalLoop \<Rightarrow> ram_range_count c = 0
       | GsCsrVsintLoop \<Rightarrow> ram_range_count c = 0
       | DmacChcrStrPollLoop \<Rightarrow> ram_range_count c = 0
       | _ \<Rightarrow> False)"

definition VitaTryScheduleJointWaitHorizon ::
  "'z ee_env \<Rightarrow> VitaA32EeWaitSchedulerCertificate \<Rightarrow> u32 \<Rightarrow> 'z machine \<Rightarrow> bool \<times> 'z machine" where
  "VitaTryScheduleJointWaitHorizon v c wait_pc s =
    (if PSXCLK s \<noteq> PS2CLK div 8 \<or> \<not> IopRetainedWaitCoalescingActive (iop_part v) (ee s) \<or>
        \<not> VitaEeWaitCertificateHasExactWakeContract c \<or> cpu_pc (ee s) \<noteq> wait_pc \<or> iopEventAction s then (False, s)
     else case VitaCanSkipEeOwnersAtInterleave v s of (skip, s1) \<Rightarrow>
       if \<not> skip then (False, s1)
       else let external_cycle = VitaGetIopExternalEventCycle (iop_part v) s1
       in if external_cycle \<le> psx_cycle (psx s1) then (False, s1)
       else let iop_owner_delta = VitaNextIopExternalOwnerDelta external_cycle s1
       in if iop_owner_delta \<le>s 0 then (False, s1)
       else let iop_owner_cycle = ee_cycle (ee s1) + iop_owner_delta;
                silent_hsync_limit = min iop_owner_cycle (min (non_counter_cycle (ee s1)) (GetNextNonHsyncCounterCycle v (ee s1)));
                s2 = FoldSilentHsyncBefore v silent_hsync_limit s1;
                s3 = wpsx (\<lambda>p. p\<lparr>iopNextEventCycle := external_cycle\<rparr>) s2
            in (True, wee (VitaScheduleEeAndIopDeadlineDelta iop_owner_delta) s3))"

subsection \<open>The event test\<close>

definition VitaIopEventTestFromEe :: "'z ee_env \<Rightarrow> 'z machine \<Rightarrow> 'z machine" where
  "VitaIopEventTestFromEe v s =
    (let p = psx s;
         deadline_due = (0 \<le>s psx_cycle p - iopNextEventCycle p);
         counter_due = (psxNextDeltaCounter s \<le>s since (psx_cycle p) (psxNextStartCounter s));
         counter_precedes_published = (psxNextDeltaCounter s <s since (iopNextEventCycle p) (psxNextStartCounter s))
     in if deadline_due \<or> counter_due \<or> counter_precedes_published \<or> intc_visible (iop_part v) s
        then iopEventTest (iop_part v) s else s)"

definition ee_exceptions :: "'z ee_env \<Rightarrow> 'z machine \<Rightarrow> 'z machine" where
  "ee_exceptions v s = (case intcInterrupt v s of (m, s1) \<Rightarrow>
     let mask1 = m OR dmacInterrupt (ee s1) in if cpuIntsEnabled mask1 (ee s1) then cpuException v mask1 s1 else s1)"

definition run_iop :: "'z ee_env \<Rightarrow> 'z machine \<Rightarrow> 'z machine" where
  "run_iop v s =
    (let s1 = wee (\<lambda>e. e\<lparr>EEsCycle := EEsCycle e + since (ee_cycle e) (EEoCycle e), EEoCycle := ee_cycle e\<rparr>) s;
         s2 = (if 0 <s EEsCycle (ee s1) then s1\<lparr>iopEventAction := True\<rparr> else s1)
     in if iopEventAction s2
        then case ExecuteIopTimeslice v (EEsCycle (ee s2)) s2 of (left, s3) \<Rightarrow>
          (wee (\<lambda>e. e\<lparr>EEsCycle := left\<rparr>) s3)\<lparr>iopEventAction := False\<rparr>
        else s2)"

definition leave_test :: "'z ee_env \<Rightarrow> 'z machine \<Rightarrow> 'z machine" where
  "leave_test v s = FinishCertificate v (wee (\<lambda>e. e\<lparr>ee_test_active := False\<rparr>) s)"

definition iop_only_tail :: "'z ee_env \<Rightarrow> VitaA32EeWaitSchedulerCertificate \<Rightarrow> u32 \<Rightarrow> 'z machine \<Rightarrow> 'z machine" where
  "iop_only_tail v c wait_pc s =
    (case VitaCanSkipEeOwnersAtInterleave v s of (skip, s1) \<Rightarrow>
       if skip then (case VitaTryScheduleJointWaitHorizon v c wait_pc s1 of (joint, s2) \<Rightarrow>
            if joint then s2 else VitaScheduleEeAndIopDeadlines v (VitaNextIopOwnerDelta v s2) s2)
       else wee cpuSetEvent s1)"

definition ee_events :: "'z ee_env \<Rightarrow> nat \<Rightarrow> 'z machine \<Rightarrow> 'z machine option" where
  "ee_events v k s =
    (let s1 = (if cpuTestCycle (nextStartCounter (ee s)) (nextDeltaCounter (ee s)) (ee s)
               then cpuTestPERF v (rcntUpdate v s) else s);
         s2 = cpuTestTIMR v s1
     in map_option (VuSync v)
          (if ee_interrupt (ee s2) = 0 then Some s2
           else if CHECK_INSTANTDMAHACK v \<and> \<not> dmac_suspended (ee s2) \<and> ee_interrupt (ee s2) AND 0x1FFFF \<noteq> 0
           then instant_dma_loop v k k s2
           else map_option snd (cpuTestInterrupts v k s2)))"

definition ee_schedule :: "'z ee_env \<Rightarrow> VitaA32EeWaitSchedulerCertificate \<Rightarrow> u32 \<Rightarrow> 'z machine \<Rightarrow> 'z machine" where
  "ee_schedule v c wait_pc s =
    (let iop_owner_delta = VitaNextIopOwnerDelta v s;
         s1 = wee (\<lambda>e. cpuSetNextCounterEvent (nextStartCounter e) (nextDeltaCounter e) e) s
     in case VitaTryScheduleJointWaitHorizon v c wait_pc s1 of (joint, s2) \<Rightarrow>
          if joint then s2 else VitaScheduleEeAndIopDeadlines v iop_owner_delta s2)"

definition cpuEventTest_Shared :: "'z ee_env \<Rightarrow> nat \<Rightarrow> 'z machine \<Rightarrow> 'z machine option" where
  "cpuEventTest_Shared v k s0 =
    (case ConsumeCertificate v s0 of (c, s1) \<Rightarrow>
     let wait_pc = cpu_pc (ee s1);
         s2 = wee (\<lambda>e. VitaRefreshEeCounterOwner (e\<lparr>ee_test_active := True\<rparr>)) s1
     in case VitaCanRunIopOnlyEeInterleave v s2 of (iop_only, s3) \<Rightarrow>
     let s4 = (if iop_only then s3 else VitaBeginFullEeDeadlineCollection v s3);
         s5 = wee (\<lambda>e. e\<lparr>lastEventCycle := ee_cycle e\<rparr>) s4;
         s6 = (if iop_only then s5 else ee_exceptions v s5);
         s7 = VitaIopEventTestFromEe v (run_iop v s6)
     in if iop_only then Some (leave_test v (iop_only_tail v c wait_pc s7))
        else map_option (\<lambda>s8. leave_test v (ee_schedule v c wait_pc s8)) (ee_events v k s7))"

end
