(* ===== verification/DMAC.thy ===== *)
theory DMAC
  imports EE_Sched
begin

text \<open>
  The DMA controller of the main processor (\<^verbatim>\<open>pcsx2/Dmac.h\<close>, \<^verbatim>\<open>pcsx2/Dmac.cpp\<close> and the
  chain functions of \<^verbatim>\<open>pcsx2/Hw.cpp\<close>): the channel registers and their bit fields, the
  translation of addresses, the source chain with and without the address stack, starting, stopping
  and queueing a channel, and the register writes. The busy-write game fix is off.
\<close>

subsection \<open>State\<close>

text \<open>The registers of a channel, and the part of the hardware page this controller owns. The other
  channel registers have no write-back handler and are stored by the caller of \<open>dmacWrite32\<close>.\<close>

record DMACh =
  chcr :: u32
  madr :: u32
  qwc :: u32
  tadr :: u32
  asr0 :: u32
  asr1 :: u32
  sadr :: u32

record dmac = ee_sched +
  channel :: "nat \<Rightarrow> DMACh"
  DMAC_STADR :: u32
  DMAC_ENABLEW :: u32
  QueuedDMA :: u16

text \<open>The host arrays of the main processor's memory, the function that starts each channel, and
  the notice of a write to main memory.\<close>

record 'y dma_env =
  cpu :: "'y dmac_ext ee_env"
  ee_Main :: uptr
  ee_Scratch :: uptr
  ee_ZeroRead :: uptr
  ee_ZeroWrite :: uptr
  ExposedRam :: u32
  start_dma :: "nat \<Rightarrow> 'y dmac_scheme iop \<Rightarrow> 'y dmac_scheme iop"
  NotifyA32EeRamWrite :: "uptr \<Rightarrow> u32 \<Rightarrow> 'y dmac_scheme iop \<Rightarrow> 'y dmac_scheme iop"

subsection \<open>Bit fields\<close>

definition field :: "nat \<Rightarrow> nat \<Rightarrow> u32 \<Rightarrow> u32" where
  "field lo width w = take_bit width (drop_bit lo w)"

definition set_field :: "nat \<Rightarrow> nat \<Rightarrow> u32 \<Rightarrow> u32 \<Rightarrow> u32" where
  "set_field lo width x w = (w AND NOT (push_bit lo (mask width))) OR push_bit lo (take_bit width x)"

abbreviation "tag_QWC \<equiv> field 0 16"
abbreviation "tag_ID \<equiv> field 28 3"
abbreviation "tag_IRQ w \<equiv> bit (w :: u32) 31"
abbreviation "tag_SPR w \<equiv> bit (w :: u32) 31"
abbreviation "chcr_MOD \<equiv> field 2 2"
abbreviation "chcr_ASP \<equiv> field 4 2"
abbreviation "chcr_TTE w \<equiv> bit (w :: u32) 6"
abbreviation "chcr_TIE w \<equiv> bit (w :: u32) 7"
abbreviation "chcr_STR w \<equiv> bit (w :: u32) 8"
abbreviation "chcr_TAG \<equiv> field 16 16"

abbreviation "NORMAL_MODE \<equiv> 0 :: u32"
abbreviation "CHAIN_MODE \<equiv> 1 :: u32"
abbreviation "TAG_CNTS \<equiv> 0 :: u32"
abbreviation "TAG_REFE \<equiv> 0 :: u32"
abbreviation "TAG_CNT \<equiv> 1 :: u32"
abbreviation "TAG_NEXT \<equiv> 2 :: u32"
abbreviation "TAG_REF \<equiv> 3 :: u32"
abbreviation "TAG_REFS \<equiv> 4 :: u32"
abbreviation "TAG_CALL \<equiv> 5 :: u32"
abbreviation "TAG_RET \<equiv> 6 :: u32"
abbreviation "TAG_END \<equiv> 7 :: u32"

definition set_STR :: "bool \<Rightarrow> DMACh \<Rightarrow> DMACh" where
  "set_STR b c = c\<lparr>chcr := set_field 8 1 (if b then 1 else 0) (chcr c)\<rparr>"

definition chcrTransfer :: "u32 \<Rightarrow> DMACh \<Rightarrow> DMACh" where
  "chcrTransfer tag c = c\<lparr>chcr := set_field 16 16 (drop_bit 16 tag) (chcr c)\<rparr>"

definition qwcTransfer :: "u32 \<Rightarrow> DMACh \<Rightarrow> DMACh" where
  "qwcTransfer tag c = c\<lparr>qwc := tag_QWC tag\<rparr>"

definition unsafeTransfer :: "u32 \<Rightarrow> DMACh \<Rightarrow> DMACh" where
  "unsafeTransfer tag c = qwcTransfer tag (chcrTransfer tag c)"

subsection \<open>The source chain\<close>

definition hwDmacSrcTadrInc :: "DMACh \<Rightarrow> DMACh" where
  "hwDmacSrcTadrInc dma =
    (if \<not> chcr_STR (chcr dma) then dma
     else if chcr_MOD (chcr dma) \<noteq> 1 then dma
     else if drop_bit 12 (chcr_TAG (chcr dma)) AND 0x7 = TAG_CNT then dma\<lparr>tadr := madr dma\<rparr>
     else dma)"

definition hwDmacSrcChain :: "u32 \<Rightarrow> DMACh \<Rightarrow> bool \<times> DMACh" where
  "hwDmacSrcChain tagid dma =
    (if tagid = TAG_REFE then (True, dma\<lparr>tadr := tadr dma + 16\<rparr>)
     else if tagid = TAG_CNT then (False, dma\<lparr>madr := tadr dma + 16, tadr := tadr dma + 16\<rparr>)
     else if tagid = TAG_NEXT then (False, dma\<lparr>madr := tadr dma + 16, tadr := madr dma\<rparr>)
     else if tagid = TAG_REF \<or> tagid = TAG_REFS then (False, dma\<lparr>tadr := tadr dma + 16\<rparr>)
     else if tagid = TAG_END then (True, dma\<lparr>madr := tadr dma + 16\<rparr>)
     else (True, dma))"

definition set_ASP :: "u32 \<Rightarrow> DMACh \<Rightarrow> DMACh" where
  "set_ASP x c = c\<lparr>chcr := set_field 4 2 x (chcr c)\<rparr>"

definition hwDmacSrcChainWithStack :: "u32 \<Rightarrow> DMACh \<Rightarrow> bool \<times> DMACh" where
  "hwDmacSrcChainWithStack tagid dma =
    (if tagid = TAG_REFE then (True, dma\<lparr>tadr := tadr dma + 16\<rparr>)
     else if tagid = TAG_CNT then (False, dma\<lparr>tadr := tadr dma + 16, madr := tadr dma + 16\<rparr>)
     else if tagid = TAG_NEXT then (False, dma\<lparr>madr := tadr dma + 16, tadr := madr dma\<rparr>)
     else if tagid = TAG_REF \<or> tagid = TAG_REFS then (False, dma\<lparr>tadr := tadr dma + 16\<rparr>)
     else if tagid = TAG_CALL
     then let temp = madr dma; d1 = dma\<lparr>madr := tadr dma + 16\<rparr>; asp = chcr_ASP (chcr d1)
          in if asp = 0 then (False, (set_ASP (asp + 1) (d1\<lparr>asr0 := madr d1 + push_bit 4 (qwc d1)\<rparr>))\<lparr>tadr := temp\<rparr>)
             else if asp = 1 then (False, (set_ASP (asp + 1) (d1\<lparr>asr1 := madr d1 + push_bit 4 (qwc d1)\<rparr>))\<lparr>tadr := temp\<rparr>)
             else (True, d1)
     else if tagid = TAG_RET
     then let d1 = dma\<lparr>madr := tadr dma + 16\<rparr>; asp = chcr_ASP (chcr d1)
          in if asp = 2 then (False, set_ASP (asp - 1) (d1\<lparr>tadr := asr1 d1, asr1 := 0\<rparr>))
             else if asp = 1 then (False, set_ASP (asp - 1) (d1\<lparr>tadr := asr0 d1, asr0 := 0\<rparr>))
             else (True, d1)
     else if tagid = TAG_END then (True, dma\<lparr>madr := tadr dma + 16\<rparr>)
     else (False, dma))"

subsection \<open>Addresses\<close>

definition dmaGetAddr :: "'y dma_env \<Rightarrow> u32 \<Rightarrow> bool \<Rightarrow> uptr option" where
  "dmaGetAddr v addr0 write =
    (if tag_SPR addr0 then Some (ee_Scratch v + (addr0 AND 0x3ff0))
     else let addr = addr0 AND 0x1ffffff0
          in if addr < ExposedRam v then Some (ee_Main v + addr)
             else if addr < 0x10000000 then Some (if write then ee_ZeroWrite v else ee_ZeroRead v)
             else if addr < 0x10004000 then Some (ee_Scratch v + (addr AND 0x3ff0))
             else None)"

definition wch :: "nat \<Rightarrow> (DMACh \<Rightarrow> DMACh) \<Rightarrow> 'y dmac_scheme iop \<Rightarrow> 'y dmac_scheme iop" where
  "wch n f = wee (\<lambda>e. e\<lparr>channel := (channel e)(n := f (channel e n))\<rparr>)"

definition throwBusError :: "'y dmac_scheme iop \<Rightarrow> 'y dmac_scheme iop" where
  "throwBusError = wee (\<lambda>e. e\<lparr>DMAC_STAT := DMAC_STAT e OR 0x8000\<rparr>)"

definition setDmacStat :: "nat \<Rightarrow> 'y dmac_scheme iop \<Rightarrow> 'y dmac_scheme iop" where
  "setDmacStat num = wee (\<lambda>e. e\<lparr>DMAC_STAT := DMAC_STAT e OR push_bit num 1\<rparr>)"

definition getAddr :: "'y dma_env \<Rightarrow> nat \<Rightarrow> u32 \<Rightarrow> bool \<Rightarrow> 'y dmac_scheme iop \<Rightarrow> uptr option \<times> 'y dmac_scheme iop" where
  "getAddr v num addr write s =
    (case dmaGetAddr v addr write of
       None \<Rightarrow> (None, wch num (set_STR False) (setDmacStat num (throwBusError s)))
     | Some p \<Rightarrow> (Some p, s))"

definition DMAtransfer :: "'y dma_env \<Rightarrow> nat \<Rightarrow> u32 \<Rightarrow> 'y dmac_scheme iop \<Rightarrow> uptr option \<times> 'y dmac_scheme iop" where
  "DMAtransfer v num addr s =
    (case getAddr v num addr False s of
       (None, s1) \<Rightarrow> (None, s1)
     | (Some p, s1) \<Rightarrow> let tag = hget p s1 in (Some p, wch num (qwcTransfer tag) (wch num (chcrTransfer tag) s1)))"

subsection \<open>Reading a tag of the chain\<close>

text \<open>What the graphics channel does with a tag and the address word that follows it, and how it
  advances after moving \<open>count\<close> quadwords. \<open>ReadTag\<close> also reports the address of the tag.\<close>

definition chain_tag :: "u32 \<Rightarrow> u32 \<Rightarrow> DMACh \<Rightarrow> bool \<times> DMACh" where
  "chain_tag tag addr c = hwDmacSrcChainWithStack (tag_ID tag) ((unsafeTransfer tag c)\<lparr>madr := addr\<rparr>)"

definition ReadTag :: "'y dma_env \<Rightarrow> 'y dmac_scheme iop \<Rightarrow> (uptr \<times> bool) option \<times> 'y dmac_scheme iop" where
  "ReadTag v s =
    (case dmaGetAddr v (tadr (channel (ee s) 2)) False of
       None \<Rightarrow> (None, throwBusError s)
     | Some ptag \<Rightarrow> let r = chain_tag (hget ptag s) (hget (ptag + 4) s) (channel (ee s) 2)
         in (Some (ptag, fst r), wch 2 (\<lambda>_. snd r) s))"

definition incGifChAddr :: "u32 \<Rightarrow> DMACh \<Rightarrow> DMACh" where
  "incGifChAddr count c =
    (if chcr_STR (chcr c) then hwDmacSrcTadrInc (c\<lparr>madr := madr c + count * 16, qwc := qwc c - count\<rparr>) else c)"

subsection \<open>Starting and stopping\<close>

definition dma_enabled :: "'y dmac_scheme \<Rightarrow> bool" where
  "dma_enabled e \<longleftrightarrow> bit (DMAC_CTRL e) 0 \<and> enabler_byte (DMAC_ENABLER e) = 0"

definition QuickDmaExec :: "'y dma_env \<Rightarrow> nat \<Rightarrow> 'y dmac_scheme iop \<Rightarrow> bool \<times> 'y dmac_scheme iop" where
  "QuickDmaExec v n s =
    (if chcr_STR (chcr (channel (ee s) n)) \<and> dma_enabled (ee s) then (True, start_dma v n s) else (False, s))"

definition set_queued :: "nat \<Rightarrow> bool \<Rightarrow> 'y dmac_scheme iop \<Rightarrow> 'y dmac_scheme iop" where
  "set_queued n b = wee (\<lambda>e. e\<lparr>QueuedDMA := (if b then QueuedDMA e OR push_bit n 1 else QueuedDMA e AND NOT (push_bit n 1))\<rparr>)"

definition resume_queued :: "'y dma_env \<Rightarrow> nat \<Rightarrow> 'y dmac_scheme iop \<Rightarrow> 'y dmac_scheme iop" where
  "resume_queued v n s =
    (if bit (QueuedDMA (ee s)) n then (case QuickDmaExec v n s of (started, s1) \<Rightarrow> set_queued n (\<not> started) s1) else s)"

definition StartQueuedDMA :: "'y dma_env \<Rightarrow> 'y dmac_scheme iop \<Rightarrow> 'y dmac_scheme iop" where
  "StartQueuedDMA v = fold (resume_queued v) [0..<10]"

definition DmaExec :: "'y dma_env \<Rightarrow> nat \<Rightarrow> u32 \<Rightarrow> 'y dmac_scheme iop \<Rightarrow> 'y dmac_scheme iop" where
  "DmaExec v n value s =
    (if chcr_STR (chcr (channel (ee s) n))
     then if \<not> chcr_STR value
          then let s1 = wch n (set_STR False) s;
                   s2 = (if n = 1 then set_queued 10 False (wee (cpuClearInt 10) s1)
                         else if n = 2 then set_queued 11 False (wee (cpuClearInt 11) s1) else s1)
               in set_queued n False (wee (cpuClearInt n) s2)
          else s
     else let s1 = wch n (\<lambda>c. c\<lparr>chcr := value\<rparr>) s;
              s2 = wch n (\<lambda>c. if chcr_MOD (chcr c) = 3 then c\<lparr>chcr := set_field 2 2 1 (chcr c)\<rparr> else c) s1;
              s3 = wch n (\<lambda>c. if chcr_STR (chcr c) \<and> chcr_MOD (chcr c) = 0 \<and> qwc c = 0 then c\<lparr>qwc := 0x10000\<rparr> else c) s2
          in if chcr_STR (chcr (channel (ee s3) n)) \<and> dma_enabled (ee s3) then start_dma v n s3
             else if chcr_STR (chcr (channel (ee s3) n)) then set_queued n True s3
             else s3)"

subsection \<open>Register writes\<close>

definition CHCR_addresses :: "u32 list" where
  "CHCR_addresses = [0x10008000, 0x10009000, 0x1000A000, 0x1000B000, 0x1000B400, 0x1000C000, 0x1000C400, 0x1000C800,
     0x1000D000, 0x1000D400]"

definition channel_of :: "u32 \<Rightarrow> u32 \<Rightarrow> nat option" where
  "channel_of off mem = find (\<lambda>n. CHCR_addresses ! n + off = mem) [0..<10]"

abbreviation "A_DMAC_CTRL \<equiv> 0x1000E000 :: u32"
abbreviation "A_DMAC_STAT \<equiv> 0x1000E010 :: u32"
abbreviation "A_DMAC_FAKESTAT \<equiv> 0x1000E100 :: u32"
abbreviation "A_DMAC_ENABLEW \<equiv> 0x1000F590 :: u32"

definition write_ctrl :: "'y dma_env \<Rightarrow> u32 \<Rightarrow> 'y dmac_scheme iop \<Rightarrow> 'y dmac_scheme iop" where
  "write_ctrl v value s =
    (let s1 = wee (\<lambda>e. e\<lparr>DMAC_CTRL := value\<rparr>) s
     in if \<not> bit (DMAC_CTRL (ee s)) 0 \<and> bit value 0 \<and> QueuedDMA (ee s1) \<noteq> 0 then StartQueuedDMA v s1 else s1)"

definition write_stat :: "u32 \<Rightarrow> 'y dmac_scheme iop \<Rightarrow> 'y dmac_scheme iop" where
  "write_stat value s =
    cpuTestDMACInts (wee (\<lambda>e. e\<lparr>DMAC_STAT := (DMAC_STAT e AND NOT (value AND 0xffff)) XOR (value AND 0xffff0000)\<rparr>) s)"

definition write_enable :: "'y dma_env \<Rightarrow> u32 \<Rightarrow> 'y dmac_scheme iop \<Rightarrow> 'y dmac_scheme iop" where
  "write_enable v value s =
    (let oldvalue = enabler_byte (DMAC_ENABLEW (ee s));
         s1 = wee (\<lambda>e. e\<lparr>DMAC_ENABLEW := value, DMAC_ENABLER := value\<rparr>) s
     in if bit oldvalue 0 \<and> \<not> bit value 16 \<and> QueuedDMA (ee s1) \<noteq> 0 then StartQueuedDMA v s1 else s1)"

text \<open>The result tells whether the caller stores the value.\<close>

definition dmacWrite32 :: "'y dma_env \<Rightarrow> u32 \<Rightarrow> u32 \<Rightarrow> 'y dmac_scheme iop \<Rightarrow> bool \<times> 'y dmac_scheme iop" where
  "dmacWrite32 v mem value s =
    (case channel_of 0x20 mem of
       Some n \<Rightarrow> (False, wch n (\<lambda>c. c\<lparr>qwc := value AND 0xffff\<rparr>) s)
     | None \<Rightarrow> (case channel_of 0 mem of
         Some n \<Rightarrow> (False, DmaExec v n value s)
       | None \<Rightarrow>
         if mem = 0x1000D010 then (False, wch 8 (\<lambda>c. c\<lparr>madr := value AND 0x7FFFFFFF\<rparr>) s)
         else if mem = 0x1000D410 then (False, wch 9 (\<lambda>c. c\<lparr>madr := value AND 0x7FFFFFFF\<rparr>) s)
         else if mem = 0x1000D080 then (False, wch 8 (\<lambda>c. c\<lparr>sadr := value AND 0x3FF0\<rparr>) s)
         else if mem = 0x1000D480 then (False, wch 9 (\<lambda>c. c\<lparr>sadr := value AND 0x3FF0\<rparr>) s)
         else if mem = A_DMAC_CTRL then (False, write_ctrl v value s)
         else if mem = A_DMAC_FAKESTAT \<or> mem = A_DMAC_STAT then (False, write_stat value s)
         else if mem = A_DMAC_ENABLEW then (False, write_enable v value s)
         else (True, s)))"

end
