(* ===== verification/SIF_Fifo.thy ===== *)
theory SIF_Fifo
  imports Prelude
begin

text \<open>
  The word FIFO between the two processors (\<^verbatim>\<open>pcsx2/Sif.h\<close>, \<^verbatim>\<open>pcsx2/Sif.cpp\<close>): the vectorised
  copy, the ring buffer with its three operations, and the queue they implement. The 32-bit signed
  positions and sizes are integers; they stay far below the limits. The counters of the validation
  build and the prefetches are left out.
\<close>

subsection \<open>The vectorised copy\<close>

text \<open>An array is the list of its words; a pointer into it is an offset. A 128-bit load and store
  move four words.\<close>

definition vld1q :: "nat \<Rightarrow> u32 list \<Rightarrow> u32 list" where
  "vld1q off src = take 4 (drop off src)"

definition vst1q :: "nat \<Rightarrow> u32 list \<Rightarrow> u32 list \<Rightarrow> u32 list" where
  "vst1q off q dst = take off dst @ q @ drop (off + 4) dst"

definition SifFifoCopy4Words :: "nat \<Rightarrow> u32 list \<Rightarrow> u32 list \<Rightarrow> u32 list" where
  "SifFifoCopy4Words off src dst = (let qword = vld1q off src in vst1q off qword dst)"

definition SifFifoCopy8Words :: "nat \<Rightarrow> u32 list \<Rightarrow> u32 list \<Rightarrow> u32 list" where
  "SifFifoCopy8Words off src dst =
    (let qword0 = vld1q off src; qword1 = vld1q (off + 4) src
     in vst1q (off + 4) qword1 (vst1q off qword0 dst))"

definition SifFifoCopy12Words :: "nat \<Rightarrow> u32 list \<Rightarrow> u32 list \<Rightarrow> u32 list" where
  "SifFifoCopy12Words off src dst =
    (let qword0 = vld1q off src; qword1 = vld1q (off + 4) src; qword2 = vld1q (off + 8) src
     in vst1q (off + 8) qword2 (vst1q (off + 4) qword1 (vst1q off qword0 dst)))"

definition SifFifoCopy16Words :: "nat \<Rightarrow> u32 list \<Rightarrow> u32 list \<Rightarrow> u32 list" where
  "SifFifoCopy16Words off src dst =
    (let qword0 = vld1q off src; qword1 = vld1q (off + 4) src; qword2 = vld1q (off + 8) src;
         qword3 = vld1q (off + 12) src
     in vst1q (off + 12) qword3 (vst1q (off + 8) qword2 (vst1q (off + 4) qword1 (vst1q off qword0 dst))))"

definition SifFifoCopy32Words :: "nat \<Rightarrow> u32 list \<Rightarrow> u32 list \<Rightarrow> u32 list" where
  "SifFifoCopy32Words off src dst = SifFifoCopy16Words (off + 16) src (SifFifoCopy16Words off src dst)"

definition SifFifoCopy64Words :: "nat \<Rightarrow> u32 list \<Rightarrow> u32 list \<Rightarrow> u32 list" where
  "SifFifoCopy64Words off src dst =
    SifFifoCopy16Words (off + 48) src (SifFifoCopy16Words (off + 32) src
      (SifFifoCopy16Words (off + 16) src (SifFifoCopy16Words off src dst)))"

definition SifFifoCopy96Words :: "nat \<Rightarrow> u32 list \<Rightarrow> u32 list \<Rightarrow> u32 list" where
  "SifFifoCopy96Words off src dst = SifFifoCopy32Words (off + 64) src (SifFifoCopy64Words off src dst)"

definition SifFifoCopy128Words :: "nat \<Rightarrow> u32 list \<Rightarrow> u32 list \<Rightarrow> u32 list" where
  "SifFifoCopy128Words off src dst = SifFifoCopy64Words (off + 64) src (SifFifoCopy64Words off src dst)"

text \<open>The loops copy \<open>n\<close> groups of \<open>k\<close> words and advance both pointers.\<close>

fun copy_groups ::
  "(nat \<Rightarrow> u32 list \<Rightarrow> u32 list \<Rightarrow> u32 list) \<Rightarrow> nat \<Rightarrow> nat \<Rightarrow> nat \<Rightarrow> u32 list \<Rightarrow> u32 list \<Rightarrow> nat \<times> u32 list" where
  "copy_groups f k 0 off src dst = (off, dst)"
| "copy_groups f k (Suc n) off src dst = copy_groups f k n (off + k) src (f off src dst)"

definition copy_tail :: "nat \<Rightarrow> nat \<Rightarrow> u32 list \<Rightarrow> u32 list \<Rightarrow> u32 list" where
  "copy_tail n off src dst =
    (let dst1 = (if n = 3 then dst[off + 2 := src ! (off + 2)] else dst);
         dst2 = (if n = 3 \<or> n = 2 then dst1[off + 1 := src ! (off + 1)] else dst1)
     in if n = 3 \<or> n = 2 \<or> n = 1 then dst2[off := src ! off] else dst2)"

definition SifFifoCopyWords :: "u32 list \<Rightarrow> u32 list \<Rightarrow> nat \<Rightarrow> u32 list" where
  "SifFifoCopyWords dst src words =
    (if words = 128 then SifFifoCopy128Words 0 src dst
     else if words = 96 then SifFifoCopy96Words 0 src dst
     else if words = 64 then SifFifoCopy64Words 0 src dst
     else if words = 32 then SifFifoCopy32Words 0 src dst
     else if words = 16 then SifFifoCopy16Words 0 src dst
     else if words = 12 then SifFifoCopy12Words 0 src dst
     else if words = 8 then SifFifoCopy8Words 0 src dst
     else if words = 4 then SifFifoCopy4Words 0 src dst
     else let (off1, dst1) = copy_groups SifFifoCopy128Words 128 (words div 128) 0 src dst;
              remaining_after_512 = words mod 128;
              (off2, dst2) = copy_groups SifFifoCopy64Words 64 (remaining_after_512 div 64) off1 src dst1;
              remaining_after_256 = remaining_after_512 mod 64;
              (off3, dst3) = copy_groups SifFifoCopy32Words 32 (remaining_after_256 div 32) off2 src dst2;
              remaining_after_128 = remaining_after_256 mod 32;
              (off4, dst4) = copy_groups SifFifoCopy16Words 16 (remaining_after_128 div 16) off3 src dst3;
              tail_words = remaining_after_128 mod 16;
              (off5, dst5) = copy_groups SifFifoCopy4Words 4 (tail_words div 4) off4 src dst4
          in copy_tail (tail_words mod 4) off5 src dst5)"

text \<open>\<open>copied n src dst\<close>: the first \<open>n\<close> words are copied and the others left.\<close>

definition copied :: "nat \<Rightarrow> u32 list \<Rightarrow> u32 list \<Rightarrow> u32 list" where
  "copied n src dst = take n src @ drop n dst"

definition copies :: "nat \<Rightarrow> (nat \<Rightarrow> u32 list \<Rightarrow> u32 list \<Rightarrow> u32 list) \<Rightarrow> bool" where
  "copies k f \<longleftrightarrow> (\<forall>off src dst. off + k \<le> length src \<longrightarrow> off + k \<le> length dst \<longrightarrow>
     f off src (copied off src dst) = copied (off + k) src dst)"

lemma length_copied [simp]: "n \<le> length src \<Longrightarrow> n \<le> length dst \<Longrightarrow> length (copied n src dst) = length dst"
  by (simp add: copied_def)

lemma copied_0 [simp]: "copied 0 src dst = dst"
  by (simp add: copied_def)

lemma vst1q_copied:
  assumes "off + 4 \<le> length src" "off + 4 \<le> length dst"
  shows "vst1q off (vld1q off src) (copied off src dst) = copied (off + 4) src dst"
  using assms by (simp add: vst1q_def vld1q_def copied_def take_add add.commute)

lemma copies_small:
  "copies 4 SifFifoCopy4Words" "copies 8 SifFifoCopy8Words" "copies 12 SifFifoCopy12Words"
  "copies 16 SifFifoCopy16Words"
proof -
  have step: "vst1q b (vld1q b src) (copied b src dst) = copied c src dst"
    if "c = b + 4" "c \<le> length src" "c \<le> length dst" for b c src dst
    using vst1q_copied [of b src dst] that by simp
  show "copies 4 SifFifoCopy4Words" "copies 8 SifFifoCopy8Words" "copies 12 SifFifoCopy12Words"
    "copies 16 SifFifoCopy16Words"
    by (simp_all add: add.commute copies_def SifFifoCopy4Words_def SifFifoCopy8Words_def SifFifoCopy12Words_def
      SifFifoCopy16Words_def Let_def step)
qed

lemma copies_apply:
  "copies k f \<Longrightarrow> c = off + k \<Longrightarrow> c \<le> length src \<Longrightarrow> c \<le> length dst \<Longrightarrow>
    f off src (copied off src dst) = copied c src dst"
  by (simp add: copies_def)

lemma copies_large:
  "copies 32 SifFifoCopy32Words" "copies 64 SifFifoCopy64Words" "copies 96 SifFifoCopy96Words"
  "copies 128 SifFifoCopy128Words"
proof -
  note c16 = copies_apply [OF copies_small(4)]
  show c32: "copies 32 SifFifoCopy32Words" by (simp add: copies_def SifFifoCopy32Words_def c16 add.commute)
  show c64: "copies 64 SifFifoCopy64Words" by (simp add: copies_def SifFifoCopy64Words_def c16 add.commute)
  show "copies 96 SifFifoCopy96Words" "copies 128 SifFifoCopy128Words"
    by (simp_all add: add.commute copies_def SifFifoCopy96Words_def SifFifoCopy128Words_def copies_apply [OF c32] copies_apply [OF c64])
qed

lemma copy_groups_copied:
  "copies k f \<Longrightarrow> off + n * k \<le> length src \<Longrightarrow> off + n * k \<le> length dst \<Longrightarrow>
    copy_groups f k n off src (copied off src dst) = (off + n * k, copied (off + n * k) src dst)"
proof (induction n arbitrary: off)
  case (Suc n)
  from copies_apply [OF Suc.prems(1) refl] Suc.prems
  have "f off src (copied off src dst) = copied (off + k) src dst" by simp
  with Suc.IH [of "off + k"] Suc.prems show ?case by (simp add: algebra_simps)
qed simp

lemma copied_Suc:
  "n < length src \<Longrightarrow> n < length dst \<Longrightarrow> (copied n src dst)[n := src ! n] = copied (Suc n) src dst"
  by (simp add: copied_def list_update_append take_Suc_conv_app_nth Cons_nth_drop_Suc [symmetric])

lemma copy_tail_copied:
  assumes "n < 4" "off + n \<le> length src" "off + n \<le> length dst"
  shows "copy_tail n off src (copied off src dst) = copied (off + n) src dst"
proof -
  have n: "n = 0 \<or> n = 1 \<or> n = 2 \<or> n = 3" using assms(1) by auto
  have swap: "xs[i := a, j := b] = xs[j := b, i := a]" if "i \<noteq> j" for xs :: "u32 list" and i j a b
    using that by (rule list_update_swap)
  from n show ?thesis
    using assms copied_Suc [of off src dst] copied_Suc [of "Suc off" src dst] copied_Suc [of "Suc (Suc off)" src dst]
    by (elim disjE) (auto simp: copy_tail_def swap [of "Suc (Suc off)"] swap [of "Suc off" off] numeral_3_eq_3)
qed

lemma copy_words_memcpy:
  assumes "words \<le> length src" "words \<le> length dst"
  shows "SifFifoCopyWords dst src words = copied words src dst"
proof -
  define r1 r2 r3 r4 r5 where r: "r1 = words mod 128" "r2 = r1 mod 64" "r3 = r2 mod 32" "r4 = r3 mod 16" "r5 = r4 mod 4"
  define off1 off2 off3 off4 off5 where o: "off1 = words div 128 * 128" "off2 = off1 + r1 div 64 * 64"
    "off3 = off2 + r2 div 32 * 32" "off4 = off3 + r3 div 16 * 16" "off5 = off4 + r4 div 4 * 4"
  have "words = off1 + r1" "r1 = r1 div 64 * 64 + r2" "r2 = r2 div 32 * 32 + r3" "r3 = r3 div 16 * 16 + r4"
    "r4 = r4 div 4 * 4 + r5"
    unfolding o r by (simp_all only: div_mult_mod_eq)
  then have w: "words = off5 + r5" unfolding o(2-5) by linarith
  have le: "off4 \<le> off5" "off3 \<le> off4" "off2 \<le> off3" "off1 \<le> off2" by (simp_all add: o)
  have "r5 < 4" by (simp add: r)
  have bound: "off5 + r5 \<le> length src" "off5 + r5 \<le> length dst" using assms w by simp_all
  have groups: "copy_groups SifFifoCopy128Words 128 (words div 128) 0 src dst = (off1, copied off1 src dst)"
    "copy_groups SifFifoCopy64Words 64 (r1 div 64) off1 src (copied off1 src dst) = (off2, copied off2 src dst)"
    "copy_groups SifFifoCopy32Words 32 (r2 div 32) off2 src (copied off2 src dst) = (off3, copied off3 src dst)"
    "copy_groups SifFifoCopy16Words 16 (r3 div 16) off3 src (copied off3 src dst) = (off4, copied off4 src dst)"
    "copy_groups SifFifoCopy4Words 4 (r4 div 4) off4 src (copied off4 src dst) = (off5, copied off5 src dst)"
    using bound le
      copy_groups_copied [OF copies_large(4), of 0 "words div 128" src dst]
      copy_groups_copied [OF copies_large(2), of off1 "r1 div 64" src dst]
      copy_groups_copied [OF copies_large(1), of off2 "r2 div 32" src dst]
      copy_groups_copied [OF copies_small(4), of off3 "r3 div 16" src dst]
      copy_groups_copied [OF copies_small(1), of off4 "r4 div 4" src dst]
    by (simp_all add: o [symmetric])
  have tail: "copy_tail r5 off5 src (copied off5 src dst) = copied words src dst"
    using copy_tail_copied [OF \<open>r5 < 4\<close> bound] w by simp
  note exact = copies_large [THEN copies_apply, of _ 0 src dst] copies_small [THEN copies_apply, of _ 0 src dst]
  have default: "(let (off1, dst1) = copy_groups SifFifoCopy128Words 128 (words div 128) 0 src dst;
      (off2, dst2) = copy_groups SifFifoCopy64Words 64 (r1 div 64) off1 src dst1;
      (off3, dst3) = copy_groups SifFifoCopy32Words 32 (r2 div 32) off2 src dst2;
      (off4, dst4) = copy_groups SifFifoCopy16Words 16 (r3 div 16) off3 src dst3;
      (off5, dst5) = copy_groups SifFifoCopy4Words 4 (r4 div 4) off4 src dst4
    in copy_tail r5 off5 src dst5) = copied words src dst"
    by (simp add: groups tail)
  show ?thesis
    unfolding SifFifoCopyWords_def Let_def r [symmetric] default [unfolded Let_def]
    using assms exact by (simp split: if_split)
qed

subsection \<open>The ring\<close>

abbreviation "FIFO_SIF_W \<equiv> 128 :: int"

record sifFifo =
  fifo_data :: "u32 list"
  fifo_junk :: "u32 list"
  readPos :: int
  writePos :: int
  fifo_size :: int

definition sif_free :: "sifFifo \<Rightarrow> int" where
  "sif_free f = FIFO_SIF_W - fifo_size f"

text \<open>A copy into the array at a position. The operations answer \<open>None\<close> when they would leave the
  arrays; a transfer of no words, or of a negative number, does nothing. A write that finds too
  little space reports it and goes on.\<close>

definition copy_into :: "int \<Rightarrow> u32 list \<Rightarrow> int \<Rightarrow> u32 list \<Rightarrow> u32 list" where
  "copy_into pos src words dst = take (nat pos) dst @ SifFifoCopyWords (drop (nat pos) dst) src (nat words)"

definition in_ring :: "int \<Rightarrow> bool" where
  "in_ring pos \<longleftrightarrow> 0 \<le> pos \<and> pos < FIFO_SIF_W"

definition sif_write :: "u32 list \<Rightarrow> int \<Rightarrow> sifFifo \<Rightarrow> sifFifo option" where
  "sif_write src words f =
    (if words > 0
     then let contiguous = FIFO_SIF_W - writePos f; wP1 = words - contiguous
          in if \<not> in_ring (writePos f) \<or> wP1 > FIFO_SIF_W then None
             else let data1 = (if words \<le> contiguous then copy_into (writePos f) src words (fifo_data f)
                               else copy_into 0 (drop (nat contiguous) src) wP1
                                      (copy_into (writePos f) src contiguous (fifo_data f)))
                  in Some (f\<lparr>fifo_data := data1, writePos := (writePos f + words) AND (FIFO_SIF_W - 1),
                             fifo_size := fifo_size f + words\<rparr>)
     else Some f)"

text \<open>\<open>dst\<close> is the buffer of \<open>words\<close> words that the read fills.\<close>

definition sif_read :: "u32 list \<Rightarrow> int \<Rightarrow> sifFifo \<Rightarrow> (u32 list \<times> sifFifo) option" where
  "sif_read dst words f =
    (if words > 0
     then let contiguous = FIFO_SIF_W - readPos f; wP1 = words - contiguous
          in if \<not> in_ring (readPos f) \<or> wP1 > FIFO_SIF_W then None
             else let dst1 = (if words \<le> contiguous then SifFifoCopyWords dst (drop (nat (readPos f)) (fifo_data f)) (nat words)
                              else copy_into contiguous (fifo_data f) wP1
                                     (SifFifoCopyWords dst (drop (nat (readPos f)) (fifo_data f)) (nat contiguous)))
                  in Some (dst1, f\<lparr>readPos := (readPos f + words) AND (FIFO_SIF_W - 1),
                                   fifo_size := fifo_size f - words\<rparr>)
     else Some (dst, f))"

definition sif_writeJunk :: "int \<Rightarrow> sifFifo \<Rightarrow> sifFifo option" where
  "sif_writeJunk words f =
    (if words > 0
     then if \<not> in_ring (writePos f) \<or> words > 4 then None
          else let transferredWords = 4 - words;
                   prevQWPos = (writePos f - (4 + transferredWords)) AND (FIFO_SIF_W - 1);
                   junk = map (\<lambda>i. fifo_data f ! nat ((prevQWPos + int i) AND (FIFO_SIF_W - 1))) [0..<4];
                   wP0 = min (FIFO_SIF_W - writePos f) words; wP1 = words - wP0;
                   data1 = fold (\<lambda>i d. d[nat (writePos f) + i := junk ! (4 - nat wP0 + i)]) [0..<nat wP0] (fifo_data f);
                   data2 = fold (\<lambda>i d. d[i := junk ! (nat wP0 + i)]) [0..<nat wP1] data1
               in Some (f\<lparr>fifo_data := data2, fifo_junk := junk, writePos := (writePos f + words) AND (FIFO_SIF_W - 1),
                          fifo_size := fifo_size f + words\<rparr>)
     else Some f)"

definition sif_clear :: "sifFifo \<Rightarrow> sifFifo" where
  "sif_clear f = f\<lparr>fifo_data := replicate 128 0, readPos := 0, writePos := 0, fifo_size := 0\<rparr>"

definition IsValidPortableSifFifo :: "sifFifo \<Rightarrow> bool" where
  "IsValidPortableSifFifo f =
    (if readPos f < 0 \<or> readPos f \<ge> FIFO_SIF_W \<or> writePos f < 0 \<or> writePos f \<ge> FIFO_SIF_W \<or>
        fifo_size f < 0 \<or> fifo_size f > FIFO_SIF_W
     then False else writePos f = (readPos f + fifo_size f) AND (FIFO_SIF_W - 1))"

subsection \<open>The queue\<close>

text \<open>A schedule of operations: words to put, or a number of words to get. It is feasible when the
  abstract queue never overflows or runs dry.\<close>

fun feasible :: "nat \<Rightarrow> (u32 list + nat) list \<Rightarrow> nat \<Rightarrow> bool" where
  "feasible capacity [] n = True"
| "feasible capacity (Inl ws # ops) n = (n + length ws \<le> capacity \<and> feasible capacity ops (n + length ws))"
| "feasible capacity (Inr k # ops) n = (k \<le> n \<and> feasible capacity ops (n - k))"

fun run_queue :: "(u32 list \<Rightarrow> 'q \<Rightarrow> 'q option) \<Rightarrow> (nat \<Rightarrow> 'q \<Rightarrow> (u32 list \<times> 'q) option) \<Rightarrow>
    (u32 list + nat) list \<Rightarrow> 'q \<Rightarrow> (u32 list \<times> 'q) option" where
  "run_queue put get [] q = Some ([], q)"
| "run_queue put get (Inl ws # ops) q = (case put ws q of None \<Rightarrow> None | Some q' \<Rightarrow> run_queue put get ops q')"
| "run_queue put get (Inr k # ops) q = (case get k q of None \<Rightarrow> None
     | Some (out, q') \<Rightarrow> (case run_queue put get ops q' of None \<Rightarrow> None | Some (outs, q'') \<Rightarrow> Some (out @ outs, q'')))"

text \<open>A bounded word queue: what its two operations promise of the contents.\<close>

locale word_queue =
  fixes put :: "u32 list \<Rightarrow> 'q \<Rightarrow> 'q option"
    and get :: "nat \<Rightarrow> 'q \<Rightarrow> (u32 list \<times> 'q) option"
    and contents :: "'q \<Rightarrow> u32 list"
    and valid :: "'q \<Rightarrow> bool"
    and capacity :: nat
  assumes put: "valid q \<Longrightarrow> length (contents q) + length ws \<le> capacity \<Longrightarrow>
      \<exists>q'. put ws q = Some q' \<and> valid q' \<and> contents q' = contents q @ ws"
    and get: "valid q \<Longrightarrow> n \<le> length (contents q) \<Longrightarrow>
      \<exists>q'. get n q = Some (take n (contents q), q') \<and> valid q' \<and> contents q' = drop n (contents q)"
    and bounded: "valid q \<Longrightarrow> length (contents q) \<le> capacity"
begin

lemma run_in_order:
  assumes "valid q" "feasible capacity ops (length (contents q))"
  shows "\<exists>out q'. run_queue put get ops q = Some (out, q') \<and> valid q' \<and>
    contents q @ concat (map (case_sum id (\<lambda>_. [])) ops) = out @ contents q'"
  using assms
proof (induction ops arbitrary: q)
  case (Cons op ops)
  show ?case
  proof (cases op)
    case (Inl ws)
    from put [OF Cons.prems(1), of ws] Cons.prems(2) Inl
    obtain q1 where "put ws q = Some q1" "valid q1" "contents q1 = contents q @ ws" by auto
    with Cons.IH [of q1] Cons.prems(2) Inl show ?thesis by auto
  next
    case (Inr k)
    from get [OF Cons.prems(1), of k] Cons.prems(2) Inr
    obtain q1 where "get k q = Some (take k (contents q), q1)" "valid q1" "contents q1 = drop k (contents q)" by auto
    moreover from this Cons.IH [of q1] Cons.prems(2) Inr
    obtain out q2 where "run_queue put get ops q1 = Some (out, q2)" "valid q2"
      "drop k (contents q) @ concat (map (case_sum id (\<lambda>_. [])) ops) = out @ contents q2" by auto
    ultimately show ?thesis using Inr by (auto) (metis append.assoc append_take_drop_id)
  qed
qed simp

end

subsection \<open>The ring is a queue\<close>

definition ring :: "u32 list \<Rightarrow> nat \<Rightarrow> nat \<Rightarrow> u32 list" where
  "ring d r n = map (\<lambda>i. d ! ((r + i) mod 128)) [0..<n]"

definition fifo_contents :: "sifFifo \<Rightarrow> u32 list" where
  "fifo_contents f = ring (fifo_data f) (nat (readPos f)) (nat (fifo_size f))"

definition fifo_valid :: "sifFifo \<Rightarrow> bool" where
  "fifo_valid f \<longleftrightarrow> IsValidPortableSifFifo f \<and> length (fifo_data f) = 128"

definition fifo_put :: "u32 list \<Rightarrow> sifFifo \<Rightarrow> sifFifo option" where
  "fifo_put ws = sif_write ws (int (length ws))"

definition fifo_get :: "nat \<Rightarrow> sifFifo \<Rightarrow> (u32 list \<times> sifFifo) option" where
  "fifo_get n = sif_read (replicate n 0) (int n)"

lemma length_ring [simp]: "length (ring d r n) = n"
  by (simp add: ring_def)

lemma mod_128: "a < 256 \<Longrightarrow> a mod 128 = (if a < 128 then a else a - 128)" for a :: nat
  by (simp add: mod_if)

lemma and_127: "a AND 127 = a mod 128" for a :: int
  using take_bit_eq_mask [of 7 a] by (simp add: mask_eq_exp_minus_1 take_bit_eq_mod)

lemma length_copy_into [simp]:
  "0 \<le> pos \<Longrightarrow> 0 \<le> words \<Longrightarrow> nat pos + nat words \<le> length dst \<Longrightarrow> nat words \<le> length src \<Longrightarrow>
    length (copy_into pos src words dst) = length dst"
  by (simp add: copy_into_def copy_words_memcpy copied_def)

lemma nth_copy_into:
  "0 \<le> pos \<Longrightarrow> 0 \<le> words \<Longrightarrow> nat pos + nat words \<le> length dst \<Longrightarrow> nat words \<le> length src \<Longrightarrow> i < length dst \<Longrightarrow>
    copy_into pos src words dst ! i = (if nat pos \<le> i \<and> i < nat pos + nat words then src ! (i - nat pos) else dst ! i)"
  by (auto simp: copy_into_def copy_words_memcpy copied_def nth_append)

lemma fifo_valid_range:
  assumes "fifo_valid f"
  shows "0 \<le> readPos f" "readPos f < 128" "0 \<le> writePos f" "writePos f < 128" "0 \<le> fifo_size f" "fifo_size f \<le> 128"
    "nat (writePos f) = (nat (readPos f) + nat (fifo_size f)) mod 128" "length (fifo_data f) = 128"
  using assms by (auto simp: fifo_valid_def IsValidPortableSifFifo_def and_127 nat_mod_distrib nat_add_distrib split: if_splits)

lemma fifo_validI:
  assumes "length (fifo_data f) = 128" "0 \<le> readPos f" "readPos f < 128" "0 \<le> fifo_size f" "fifo_size f \<le> 128"
    "writePos f = (readPos f + fifo_size f) mod 128"
  shows "fifo_valid f"
proof -
  have "0 \<le> writePos f" "writePos f < 128" unfolding assms(6) by simp_all
  then have "IsValidPortableSifFifo f" unfolding IsValidPortableSifFifo_def
    using assms(2-5) and_127 [of "readPos f + fifo_size f"] assms(6) by auto
  with assms(1) show ?thesis by (simp add: fifo_valid_def)
qed

lemma fifo_valid_pos: "fifo_valid f \<Longrightarrow> writePos f = (readPos f + fifo_size f) mod 128"
  by (simp add: fifo_valid_def IsValidPortableSifFifo_def and_127 split: if_splits)

text \<open>A write puts word \<open>k\<close> at distance \<open>k\<close> behind the write position and leaves the rest.\<close>

definition behind :: "nat \<Rightarrow> nat \<Rightarrow> nat" where
  "behind w i = (if w \<le> i then i - w else i + 128 - w)"

lemma sif_write_data:
  assumes v: "length d = 128" "0 \<le> w" "w < 128" and n: "0 < words" "words \<le> 128" "nat words \<le> length ws"
  defines "d' \<equiv> (if words \<le> 128 - w then copy_into w ws words d
      else copy_into 0 (drop (nat (128 - w)) ws) (words - (128 - w)) (copy_into w ws (128 - w) d))"
  shows "length d' = 128" "i < 128 \<Longrightarrow> d' ! i = (if behind (nat w) i < nat words then ws ! behind (nat w) i else d ! i)"
proof -
  have len: "length (copy_into w ws (128 - w) d) = 128" if "128 - w < words"
    using v n that by (subst length_copy_into) auto
  show "length d' = 128"
    using v n len by (auto simp: d'_def)
  show "d' ! i = (if behind (nat w) i < nat words then ws ! behind (nat w) i else d ! i)" if "i < 128"
  proof (cases "words \<le> 128 - w")
    case True
    then show ?thesis using v n that by (auto simp: d'_def nth_copy_into behind_def)
  next
    case False
    have "copy_into w ws (128 - w) d ! i = (if nat w \<le> i then ws ! (i - nat w) else d ! i)"
      using v n that False by (subst nth_copy_into) auto
    moreover have "d' ! i = (if i < nat (words - (128 - w)) then drop (nat (128 - w)) ws ! i
        else copy_into w ws (128 - w) d ! i)"
      using v n that False len nth_copy_into [of 0 "words - (128 - w)" "copy_into w ws (128 - w) d" "drop (nat (128 - w)) ws" i]
      by (simp add: d'_def)
    moreover have "i < nat (words - (128 - w)) \<longleftrightarrow> i + 128 - nat w < nat words" "\<not> nat w \<le> i" if "i < nat (words - (128 - w))"
      using v n that by auto
    moreover have "drop (nat (128 - w)) ws ! i = ws ! (i + 128 - nat w)"
      if "i < nat (words - (128 - w))"
    proof -
      have "nat (128 - w) + i = i + 128 - nat w" using v by auto
      with n(3) that v show ?thesis by (subst nth_drop) auto
    qed
    ultimately show ?thesis using v n that False by (cases "i < nat (words - (128 - w))") (auto simp: behind_def)
  qed
qed

lemma ring_append:
  assumes "r < 128" "n + length ws \<le> 128" "w = (r + n) mod 128"
    and d': "\<And>i. i < 128 \<Longrightarrow> d' ! i = (if behind w i < length ws then ws ! behind w i else d ! i)"
  shows "ring d' r (n + length ws) = ring d r n @ ws"
proof (rule nth_equalityI)
  show "ring d' r (n + length ws) ! k = (ring d r n @ ws) ! k" if "k < length (ring d' r (n + length ws))" for k
  proof -
    have k: "k < n + length ws" using that by simp
    have i: "(r + k) mod 128 = (if r + k < 128 then r + k else r + k - 128)" using assms(1,2) k by (intro mod_128) simp
    have w: "w = (if r + n < 128 then r + n else r + n - 128)" using assms(1-3) by (simp add: mod_128)
    have "behind w ((r + k) mod 128) = (if k < n then 128 + k - n else k - n)"
      unfolding i w behind_def using assms(1,2) k by auto
    then show ?thesis using k d' [of "(r + k) mod 128"] assms(2) by (auto simp: ring_def nth_append)
  qed
qed simp

lemma ring_drop: "k \<le> n \<Longrightarrow> ring d ((r + k) mod 128) (n - k) = drop k (ring d r n)"
  by (rule nth_equalityI) (auto simp: ring_def add.assoc mod_add_left_eq)

lemma ring_take: "k \<le> n \<Longrightarrow> ring d r k = take k (ring d r n)"
  by (rule nth_equalityI) (simp_all add: ring_def)

lemma copied_all: "length dst = n \<Longrightarrow> n \<le> length src \<Longrightarrow> SifFifoCopyWords dst src n = take n src"
  by (simp add: copy_words_memcpy copied_def)

lemma sif_read_data:
  assumes "length d = 128" "0 \<le> r" "r < 128" "0 < words" "words \<le> 128" "length dst = nat words"
  shows "(if words \<le> 128 - r then SifFifoCopyWords dst (drop (nat r) d) (nat words)
      else copy_into (128 - r) d (words - (128 - r)) (SifFifoCopyWords dst (drop (nat r) d) (nat (128 - r))))
    = ring d (nat r) (nat words)"
proof (cases "words \<le> 128 - r")
  case True
  then have "take (nat words) (drop (nat r) d) = ring d (nat r) (nat words)"
    using assms by (intro nth_equalityI) (auto simp: ring_def)
  with True show ?thesis using assms by (simp add: copied_all)
next
  case False
  have first: "SifFifoCopyWords dst (drop (nat r) d) (nat (128 - r)) = drop (nat r) d @ drop (nat (128 - r)) dst"
    using assms False by (simp add: copy_words_memcpy copied_def)
  have "copy_into (128 - r) d (words - (128 - r)) (drop (nat r) d @ drop (nat (128 - r)) dst) ! i =
      ring d (nat r) (nat words) ! i" if "i < nat words" for i
    using assms False that by (subst nth_copy_into) (auto simp: ring_def nth_append mod_128 nat_diff_distrib' add.commute)
  then show ?thesis using assms False first
    by (intro nth_equalityI) (simp_all add: first)
qed

lemma fifo_put_queue:
  assumes v: "fifo_valid f" and room: "length (fifo_contents f) + length ws \<le> 128"
  shows "\<exists>f'. fifo_put ws f = Some f' \<and> fifo_valid f' \<and> fifo_contents f' = fifo_contents f @ ws"
proof (cases "ws = []")
  case False
  note r = fifo_valid_range [OF v]
  have room': "nat (fifo_size f) + length ws \<le> 128" using room by (simp add: fifo_contents_def)
  then have "fifo_size f + int (length ws) \<le> 128" using r by linarith
  define d' where "d' = (if int (length ws) \<le> 128 - writePos f then copy_into (writePos f) ws (int (length ws)) (fifo_data f)
      else copy_into 0 (drop (nat (128 - writePos f)) ws) (int (length ws) - (128 - writePos f))
        (copy_into (writePos f) ws (128 - writePos f) (fifo_data f)))"
  define f' where "f' = f\<lparr>fifo_data := d', writePos := (writePos f + int (length ws)) AND 127,
      fifo_size := fifo_size f + int (length ws)\<rparr>"
  note data = sif_write_data [of "fifo_data f" "writePos f" "int (length ws)" ws, folded d'_def]
  have put: "fifo_put ws f = Some f'"
    using False r room' unfolding fifo_put_def sif_write_def f'_def d'_def by (simp add: in_ring_def Let_def)
  have "(writePos f + int (length ws)) mod 128 = (readPos f + (fifo_size f + int (length ws))) mod 128"
    unfolding fifo_valid_pos [OF v] by (simp add: mod_add_left_eq add.assoc)
  then have "fifo_valid f'"
    using r \<open>fifo_size f + int (length ws) \<le> 128\<close> data(1) False by (intro fifo_validI) (simp_all add: f'_def and_127)
  moreover have "ring d' (nat (readPos f)) (nat (fifo_size f) + length ws) = ring (fifo_data f) (nat (readPos f)) (nat (fifo_size f)) @ ws"
    using r room' False data(2) by (intro ring_append [where w = "nat (writePos f)"]) auto
  ultimately show ?thesis using put r by (simp add: fifo_contents_def f'_def nat_add_distrib)
qed (use v in \<open>simp add: fifo_put_def sif_write_def\<close>)

lemma fifo_get_queue:
  assumes v: "fifo_valid f" and n: "n \<le> length (fifo_contents f)"
  shows "\<exists>f'. fifo_get n f = Some (take n (fifo_contents f), f') \<and> fifo_valid f' \<and> fifo_contents f' = drop n (fifo_contents f)"
proof (cases "n = 0")
  case False
  note r = fifo_valid_range [OF v]
  have n': "n \<le> nat (fifo_size f)" using n by (simp add: fifo_contents_def)
  then have "int n \<le> 128" using r by linarith
  define f' where "f' = f\<lparr>readPos := (readPos f + int n) AND 127, fifo_size := fifo_size f - int n\<rparr>"
  have get: "fifo_get n f = Some (take n (fifo_contents f), f')"
    using False r \<open>int n \<le> 128\<close> sif_read_data [of "fifo_data f" "readPos f" "int n" "replicate n 0"]
    by (simp add: Let_def fifo_get_def sif_read_def in_ring_def f'_def fifo_contents_def ring_take [OF n', symmetric])
  have "writePos f = ((readPos f + int n) mod 128 + (fifo_size f - int n)) mod 128"
    using fifo_valid_pos [OF v] by (simp add: mod_add_left_eq)
  moreover have "0 \<le> fifo_size f - int n" "fifo_size f - int n \<le> 128" using r n' by linarith+
  ultimately have "fifo_valid f'"
    using r(8) by (intro fifo_validI) (simp_all add: f'_def and_127)
  moreover have "fifo_contents f' = drop n (fifo_contents f)"
  proof -
    have "nat ((readPos f + int n) mod 128) = (nat (readPos f) + n) mod 128" "nat (fifo_size f - int n) = nat (fifo_size f) - n"
      using r n' by (simp_all add: nat_mod_distrib nat_add_distrib nat_diff_distrib')
    then show ?thesis
      by (simp add: fifo_contents_def f'_def and_127 ring_drop [OF n'])
  qed
  ultimately show ?thesis using get by simp
qed (use v in \<open>simp add: fifo_get_def sif_read_def\<close>)

text \<open>The two transfers as the transfer engines use them, with the positions.\<close>

lemma sif_write_ok:
  assumes v: "fifo_valid f" and n: "0 \<le> n" "n \<le> sif_free f" and len: "length ws = nat n"
  shows "\<exists>f'. sif_write ws n f = Some f' \<and> fifo_valid f' \<and> fifo_size f' = fifo_size f + n \<and> readPos f' = readPos f \<and>
    fifo_contents f' = fifo_contents f @ ws"
proof -
  note r = fifo_valid_range [OF v]
  have "int (length ws) = n" using len n by simp
  moreover have "length (fifo_contents f) + length ws \<le> 128"
    using n len r by (simp add: fifo_contents_def sif_free_def nat_add_distrib [symmetric])
  ultimately obtain f' where f': "sif_write ws n f = Some f'" "fifo_valid f'" "fifo_contents f' = fifo_contents f @ ws"
    using fifo_put_queue [OF v, of ws] by (auto simp: fifo_put_def)
  have "fifo_size f' = fifo_size f + n" "readPos f' = readPos f"
    using f'(1) n by (auto simp: sif_write_def Let_def split: if_splits)
  with f' show ?thesis by blast
qed

lemma sif_read_ok:
  assumes v: "fifo_valid f" and n: "0 \<le> n" "n \<le> fifo_size f" and len: "length dst = nat n"
  shows "\<exists>f'. sif_read dst n f = Some (take (nat n) (fifo_contents f), f') \<and> fifo_valid f' \<and>
    fifo_size f' = fifo_size f - n \<and> readPos f' = (readPos f + n) mod 128 \<and> fifo_contents f' = drop (nat n) (fifo_contents f)"
proof (cases "n = 0")
  case False
  note r = fifo_valid_range [OF v]
  from n have "nat n \<le> length (fifo_contents f)" by (simp add: fifo_contents_def)
  from fifo_get_queue [OF v this] n obtain f' where
    f': "sif_read (replicate (nat n) 0) n f = Some (take (nat n) (fifo_contents f), f')" "fifo_valid f'"
      "fifo_contents f' = drop (nat n) (fifo_contents f)" by (auto simp: fifo_get_def)
  have "sif_read dst n f = sif_read (replicate (nat n) 0) n f"
  proof -
    have n': "0 < n" "n \<le> 128" using n False r by simp_all
    note data = sif_read_data [OF r(8,1,2) n']
    show ?thesis unfolding sif_read_def Let_def data [OF len] data [OF length_replicate] using n'(1) by (simp only: if_True)
  qed
  moreover have "fifo_size f' = fifo_size f - n" "readPos f' = (readPos f + n) mod 128"
    using f'(1) n False by (auto simp: sif_read_def Let_def and_127 split: if_splits)
  ultimately show ?thesis using f' by auto
qed (use v fifo_valid_range [OF v] len in \<open>simp add: sif_read_def\<close>)
text \<open>The junk words at the end of a packet: on an aligned ring each repeats the word four places
  before it.\<close>

definition junk_words :: "sifFifo \<Rightarrow> nat \<Rightarrow> u32 list" where
  "junk_words f n = map (\<lambda>i. fifo_data f ! nat ((writePos f + int i - 4) mod 128)) [0..<n]"

lemma fold_updates:
  "p + n \<le> length d \<Longrightarrow> fold (\<lambda>i d. d[p + i := h i]) [0..<n] d = take p d @ map h [0..<n] @ drop (p + n) d"
proof (induction n)
  case (Suc n)
  then have "drop (p + n) d = d ! (p + n) # drop (Suc (p + n)) d" by (simp add: Cons_nth_drop_Suc)
  with Suc show ?case by (simp add: list_update_append)
qed simp

lemma sif_writeJunk_ok:
  assumes v: "fifo_valid f" and n: "0 < n" "n \<le> 3" "n \<le> sif_free f" and al: "(writePos f + n) mod 4 = 0"
  shows "\<exists>f'. sif_writeJunk n f = Some f' \<and> fifo_valid f' \<and> fifo_size f' = fifo_size f + n \<and> readPos f' = readPos f \<and>
    fifo_contents f' = fifo_contents f @ junk_words f (nat n)"
proof -
  note r = fifo_valid_range [OF v]
  have fit: "writePos f + n \<le> 128" using al r(3,4) n by presburger
  define d' where "d' = take (nat (writePos f)) (fifo_data f) @ junk_words f (nat n) @ drop (nat (writePos f) + nat n) (fifo_data f)"
  define junk where "junk = map (\<lambda>i. fifo_data f ! nat ((((writePos f - (4 + (4 - n))) AND 127) + int i) AND 127)) [0..<4]"
  have junk: "junk ! (4 - nat n + i) = fifo_data f ! nat ((writePos f + int i - 4) mod 128)" if "i < nat n" for i
  proof -
    define j where "j = 4 - nat n + i"
    have j: "j < 4" "int j = 4 - n + int i" using n that by (auto simp: j_def)
    have "junk ! j = fifo_data f ! nat (((writePos f - (4 + (4 - n))) mod 128 + int j) mod 128)"
      using j(1) by (simp add: junk_def and_127)
    also have "((writePos f - (4 + (4 - n))) mod 128 + int j) mod 128 = (writePos f + int i - 4) mod 128"
      unfolding j(2) by (simp add: mod_add_left_eq)
    finally show ?thesis by (simp only: j_def)
  qed
  have "fold (\<lambda>i d. d[nat (writePos f) + i := junk ! (4 - nat n + i)]) [0..<nat n] (fifo_data f) = d'"
    using fit r junk by (subst fold_updates) (auto simp: d'_def junk_words_def)
  moreover define f' where "f' = f\<lparr>fifo_data := d', fifo_junk := junk, writePos := (writePos f + n) AND 127, fifo_size := fifo_size f + n\<rparr>"
  ultimately have put: "sif_writeJunk n f = Some f'"
    using n fit r unfolding sif_writeJunk_def junk_def f'_def by (simp add: in_ring_def Let_def min_absorb2)
  have len: "length d' = 128" using r fit n by (simp add: d'_def junk_words_def)
  have "(writePos f + n) mod 128 = (readPos f + (fifo_size f + n)) mod 128"
    unfolding fifo_valid_pos [OF v] by (simp add: mod_add_left_eq add.assoc)
  then have "fifo_valid f'"
    using r n len by (intro fifo_validI) (simp_all add: f'_def and_127 sif_free_def)
  moreover have "ring d' (nat (readPos f)) (nat (fifo_size f) + length (junk_words f (nat n))) =
      ring (fifo_data f) (nat (readPos f)) (nat (fifo_size f)) @ junk_words f (nat n)"
  proof (rule ring_append [where w = "nat (writePos f)"])
    show "nat (readPos f) < 128" "nat (writePos f) = (nat (readPos f) + nat (fifo_size f)) mod 128" using r by simp_all
    show "nat (fifo_size f) + length (junk_words f (nat n)) \<le> 128" using n r by (simp add: junk_words_def sif_free_def)
    show "d' ! i = (if behind (nat (writePos f)) i < length (junk_words f (nat n))
        then junk_words f (nat n) ! behind (nat (writePos f)) i else fifo_data f ! i)" if "i < 128" for i
    proof -
      define w where "w = nat (writePos f)"
      have w: "w + nat n \<le> 128" "length (junk_words f (nat n)) = nat n" using fit n r(3) by (simp_all add: w_def junk_words_def)
      have "d' ! i = (if i < w then fifo_data f ! i else if i < w + nat n then junk_words f (nat n) ! (i - w) else fifo_data f ! i)"
        using that w r(8) unfolding d'_def w_def [symmetric] by (auto simp: nth_append)
      then show ?thesis using that w unfolding w_def [symmetric] behind_def by auto
    qed
  qed
  moreover have "length (junk_words f (nat n)) = nat n" by (simp add: junk_words_def)
  ultimately show ?thesis using put r(5) n by (simp add: fifo_contents_def f'_def nat_add_distrib)
qed

interpretation sif: word_queue fifo_put fifo_get fifo_contents fifo_valid 128
proof
  show "length (fifo_contents q) \<le> 128" if "fifo_valid q" for q
    using fifo_valid_range [OF that] by (simp add: fifo_contents_def)
qed (fact fifo_put_queue fifo_get_queue)+

text \<open>C15: However puts and gets are interleaved, as long as the queue never holds more than 128 words
  and no more words are taken than it holds, every operation succeeds, the ring stays consistent,
  and the words come out in the order they went in, across every wrap of either position.\<close>

theorem sif_fifo_keeps_order:
  "fifo_valid f \<Longrightarrow> feasible 128 ops (length (fifo_contents f)) \<Longrightarrow>
    \<exists>out f'. run_queue fifo_put fifo_get ops f = Some (out, f') \<and> fifo_valid f' \<and>
      fifo_contents f @ concat (map (case_sum id (\<lambda>_. [])) ops) = out @ fifo_contents f'"
  by (rule sif.run_in_order)

abbreviation "sample_fifo \<equiv> \<lparr>fifo_data = replicate 128 7, fifo_junk = [0, 0, 0, 0], readPos = 126, writePos = 1, fifo_size = 3\<rparr>"

lemma sif_fifo_keeps_order_witness:
  "\<exists>out f'. run_queue fifo_put fifo_get [Inl [1, 2], Inr 4, Inl [9]] sample_fifo = Some (out, f') \<and> fifo_valid f' \<and>
      fifo_contents sample_fifo @ [1, 2, 9] = out @ fifo_contents f'"
  using sif_fifo_keeps_order [of sample_fifo "[Inl [1, 2], Inr 4, Inl [9]]"]
  by (simp add: fifo_valid_def IsValidPortableSifFifo_def fifo_contents_def and_127)

text \<open>C30: The vectorised copy, with its exact sizes, its five loops of shrinking width and its scalar
  tail, is the plain copy of that many words, for every number of words.\<close>

theorem sif_copy_is_memcpy:
  "words \<le> length src \<Longrightarrow> words \<le> length dst \<Longrightarrow> SifFifoCopyWords dst src words = take words src @ drop words dst"
  by (simp add: copy_words_memcpy copied_def)

lemma sif_copy_is_memcpy_witness:
  "SifFifoCopyWords (replicate 9 0) (map word_of_nat [0..<8]) 7 = map word_of_nat [0..<7] @ [0, 0]"
  using sif_copy_is_memcpy [of 7 "map word_of_nat [0..<8]" "replicate 9 0"] by (simp add: upt_rec numeral_2_eq_2)

end
