(* ===== verification/SIF_Dma.thy ===== *)
theory SIF_Dma
  imports DMAC SIF_Fifo
begin

text \<open>
  The two directions of the serial interface (\<^verbatim>\<open>pcsx2/Sif0.cpp\<close>, \<^verbatim>\<open>pcsx2/Sif1.cpp\<close>, and
  their entries in \<^verbatim>\<open>pcsx2/IopDma.cpp\<close>): each couples a DMA channel of the main processor, the
  word FIFO, and a DMA channel of the I/O processor, and moves words until neither side can. Traces,
  log messages and the write-only flags \<^verbatim>\<open>done\<close> are left out.
\<close>

subsection \<open>State\<close>

record sif =
  fifo :: sifFifo
  ee_end :: bool
  ee_busy :: bool
  ee_cycles :: int
  iop_end :: bool
  iop_busy :: bool
  iop_cycles :: int
  writeJunk :: int
  counter :: int
  sif_data :: u32
  sif_words :: u32

record sif_part = dmac +
  sif0 :: sif
  sif1 :: sif
  sif1_dma_stall :: bool

type_synonym 'w sif_state = "'w sif_part_scheme iop"
type_synonym 'w sif_env = "('w sif_part_ext) dma_env"

definition w0 :: "(sif \<Rightarrow> sif) \<Rightarrow> 'w sif_state \<Rightarrow> 'w sif_state" where
  "w0 f = wee (\<lambda>e. e\<lparr>sif0 := f (sif0 e)\<rparr>)"

definition w1 :: "(sif \<Rightarrow> sif) \<Rightarrow> 'w sif_state \<Rightarrow> 'w sif_state" where
  "w1 f = wee (\<lambda>e. e\<lparr>sif1 := f (sif1 e)\<rparr>)"

abbreviation S0 :: "'w sif_state \<Rightarrow> sif" where "S0 s \<equiv> sif0 (ee s)"
abbreviation S1 :: "'w sif_state \<Rightarrow> sif" where "S1 s \<equiv> sif1 (ee s)"
abbreviation sif0ch :: "'w sif_state \<Rightarrow> DMACh" where "sif0ch s \<equiv> channel (ee s) 5"
abbreviation sif1ch :: "'w sif_state \<Rightarrow> DMACh" where "sif1ch s \<equiv> channel (ee s) 6"
abbreviation vif1ch :: "'w sif_state \<Rightarrow> DMACh" where "vif1ch s \<equiv> channel (ee s) 1"

definition sif_zero :: sif where
  "sif_zero = \<lparr>fifo = \<lparr>fifo_data = replicate 128 0, fifo_junk = replicate 4 0, readPos = 0, writePos = 0, fifo_size = 0\<rparr>,
     ee_end = False, ee_busy = False, ee_cycles = 0, iop_end = False, iop_busy = False, iop_cycles = 0, writeJunk = 0,
     counter = 0, sif_data = 0, sif_words = 0\<rparr>"

definition sifReset :: "'w sif_state \<Rightarrow> 'w sif_state" where
  "sifReset s = w1 (\<lambda>_. sif_zero) (w0 (\<lambda>_. sif_zero) s)"

definition IsValidPortableSif :: "sif \<Rightarrow> bool" where
  "IsValidPortableSif x \<longleftrightarrow> IsValidPortableSifFifo (fifo x) \<and> writeJunk x \<ge> 0 \<and> writeJunk x \<le> 3"

subsection \<open>Memory and registers\<close>

definition iopPhysMem :: "'w sif_env \<Rightarrow> u32 \<Rightarrow> uptr" where
  "iopPhysMem v addr = Main_base (iop_part (cpu v)) + (addr AND (ExposedIopRam (iop_part (cpu v)) - 1))"

definition words_at :: "uptr \<Rightarrow> nat \<Rightarrow> 'w sif_state \<Rightarrow> u32 list" where
  "words_at p n s = map (\<lambda>i. hget (p + 4 * of_nat i) s) [0..<n]"

definition put_words :: "uptr \<Rightarrow> u32 list \<Rightarrow> 'w sif_state \<Rightarrow> 'w sif_state" where
  "put_words p ws s = s\<lparr>iopHost := mem_write (iopHost s) p (concat (map word_bytes ws))\<rparr>"

definition dma_reg :: "'w sif_env \<Rightarrow> u32 \<Rightarrow> uptr" where
  "dma_reg v off = iopHw_base (iop_part (cpu v)) + off"

abbreviation "DMA9_MADR \<equiv> 0x1520 :: u32"
abbreviation "DMA9_CHCR \<equiv> 0x1528 :: u32"
abbreviation "DMA9_TADR \<equiv> 0x152c :: u32"
abbreviation "DMA10_MADR \<equiv> 0x1530 :: u32"
abbreviation "DMA10_CHCR \<equiv> 0x1538 :: u32"
abbreviation "HW_DMA_ICR2 \<equiv> 0x1574 :: u32"

definition rd :: "'w sif_env \<Rightarrow> u32 \<Rightarrow> 'w sif_state \<Rightarrow> u32" where
  "rd v off s = hget (dma_reg v off) s"

definition wr :: "'w sif_env \<Rightarrow> u32 \<Rightarrow> u32 \<Rightarrow> 'w sif_state \<Rightarrow> 'w sif_state" where
  "wr v off x s = hput (dma_reg v off) x s"

definition sbus_f240 :: "'w sif_env \<Rightarrow> (u32 \<Rightarrow> u32) \<Rightarrow> 'w sif_state \<Rightarrow> 'w sif_state" where
  "sbus_f240 v f s = hput (psHu (iop_part (cpu v)) SBUS_F240) (f (hget (psHu (iop_part (cpu v)) SBUS_F240) s)) s"

definition iop_int :: "'w sif_env \<Rightarrow> nat \<Rightarrow> int \<Rightarrow> 'w sif_state \<Rightarrow> 'w sif_state" where
  "iop_int v n cycles s = PSX_INT (iop_part (cpu v)) n (word_of_int cycles) s"

abbreviation "BIAS \<equiv> 2 :: int"

definition ctrl_STS :: "'w sif_part_scheme \<Rightarrow> u32" where
  "ctrl_STS e = field 4 2 (DMAC_CTRL e)"

definition ctrl_STD :: "'w sif_part_scheme \<Rightarrow> u32" where
  "ctrl_STD e = field 6 2 (DMAC_CTRL e)"

abbreviation "STS_SIF0 \<equiv> 1 :: u32"
abbreviation "STD_SIF1 \<equiv> 3 :: u32"

definition set_stadr :: "u32 \<Rightarrow> 'w sif_state \<Rightarrow> 'w sif_state" where
  "set_stadr a = wee (\<lambda>e. e\<lparr>DMAC_STADR := set_field 0 31 a (DMAC_STADR e)\<rparr>)"

text \<open>A transfer out of the ring fills a buffer in host memory; \<open>None\<close> is leaving the ring's arrays.\<close>

definition fifo_to :: "uptr \<Rightarrow> int \<Rightarrow> sif \<Rightarrow> 'w sif_state \<Rightarrow> (sifFifo \<times> 'w sif_state) option" where
  "fifo_to p words x s =
    (case sif_read (words_at p (nat words) s) words (fifo x) of
       None \<Rightarrow> None
     | Some (ws, f) \<Rightarrow> Some (f, put_words p ws s))"

subsection \<open>SIF0: from the I/O processor to the main processor\<close>

definition Sif0Init :: "'w sif_state \<Rightarrow> 'w sif_state" where
  "Sif0Init = w0 (\<lambda>x. x\<lparr>ee_cycles := 0, iop_cycles := 0\<rparr>)"

definition sif0_stall_source :: "'w sif_state \<Rightarrow> bool" where
  "sif0_stall_source s \<longleftrightarrow> qwc (sif0ch s) = 0 \<and> ctrl_STS (ee s) = STS_SIF0 \<and>
     (chcr_MOD (chcr (sif0ch s)) = NORMAL_MODE \<or> drop_bit 28 (chcr_TAG (chcr (sif0ch s))) AND 0x7 = TAG_CNTS)"

definition WriteFifoToEE :: "'w sif_env \<Rightarrow> 'w sif_state \<Rightarrow> (bool \<times> 'w sif_state) option" where
  "WriteFifoToEE v s =
    (let readSize = min (sint (qwc (sif0ch s))) (fifo_size (fifo (S0 s)) div 4)
     in case getAddr v 5 (madr (sif0ch s)) True s of
       (None, s1) \<Rightarrow> Some (False, s1)
     | (Some ptag, s1) \<Rightarrow> (case fifo_to ptag (readSize * 4) (S0 s1) s1 of
         None \<Rightarrow> None
       | Some (f, s2) \<Rightarrow>
         let s3 = NotifyA32EeRamWrite v ptag (word_of_int readSize * 16) (w0 (\<lambda>x. x\<lparr>fifo := f\<rparr>) s2);
             s4 = wch 5 (\<lambda>c. c\<lparr>madr := madr c + word_of_int readSize * 16\<rparr>) s3;
             s5 = w0 (\<lambda>x. x\<lparr>ee_cycles := ee_cycles x + readSize\<rparr>) s4;
             s6 = wch 5 (\<lambda>c. c\<lparr>qwc := qwc c - word_of_int readSize\<rparr>) s5
         in Some (True, if sif0_stall_source s6 then set_stadr (madr (sif0ch s6)) s6 else s6)))"

definition WriteIOPtoFifo :: "'w sif_env \<Rightarrow> 'w sif_state \<Rightarrow> 'w sif_state option" where
  "WriteIOPtoFifo v s =
    (let writeSize = min (counter (S0 s)) (sif_free (fifo (S0 s)));
         iop_madr = rd v DMA9_MADR s
     in case sif_write (words_at (iopPhysMem v iop_madr) (nat writeSize) s) writeSize (fifo (S0 s)) of
       None \<Rightarrow> None
     | Some f \<Rightarrow>
       let s1 = w0 (\<lambda>x. x\<lparr>fifo := f\<rparr>) s;
           s2 = wr v DMA9_MADR (rd v DMA9_MADR s1 + word_of_int writeSize * 4) s1
       in Some (w0 (\<lambda>x. x\<lparr>iop_cycles := iop_cycles x + writeSize, counter := counter x - writeSize\<rparr>) s2))"

definition ProcessEETag0 :: "'w sif_env \<Rightarrow> 'w sif_state \<Rightarrow> 'w sif_state option" where
  "ProcessEETag0 v s =
    (case sif_read [0, 0, 0, 0] 4 (fifo (S0 s)) of
       None \<Rightarrow> None
     | Some (tag, f) \<Rightarrow>
       let s1 = w0 (\<lambda>x. x\<lparr>fifo := f\<rparr>) s;
           s2 = wch 5 (\<lambda>c. (unsafeTransfer (tag ! 0) c)\<lparr>madr := tag ! 1\<rparr>) s1;
           s3 = (if chcr_TIE (chcr (sif0ch s2)) \<and> tag_IRQ (tag ! 0) then w0 (\<lambda>x. x\<lparr>ee_end := True\<rparr>) s2 else s2)
       in Some (if tag_ID (tag ! 0) = TAG_CNT then s3
                else if tag_ID (tag ! 0) = TAG_CNTS
                then (if ctrl_STS (ee s3) = STS_SIF0 then set_stadr (madr (sif0ch s3)) s3 else s3)
                else if tag_ID (tag ! 0) = TAG_END then w0 (\<lambda>x. x\<lparr>ee_end := True\<rparr>) s3
                else s3))"

definition ProcessIOPTag :: "'w sif_env \<Rightarrow> 'w sif_state \<Rightarrow> 'w sif_state option" where
  "ProcessIOPTag v s =
    (let tag = words_at (iopPhysMem v (rd v DMA9_TADR s)) 2 s;
         s1 = w0 (\<lambda>x. x\<lparr>sif_data := tag ! 0, sif_words := tag ! 1\<rparr>) s
     in case sif_write (words_at (iopPhysMem v (rd v DMA9_TADR s1 + 8)) 4 s1) 4 (fifo (S0 s1)) of
       None \<Rightarrow> None
     | Some f \<Rightarrow>
       let s2 = w0 (\<lambda>x. x\<lparr>fifo := f\<rparr>) s1;
           s3 = wr v DMA9_TADR (rd v DMA9_TADR s2 + 16) s2;
           s4 = wr v DMA9_MADR (sif_data (S0 s3) AND 0xFFFFFF) s3;
           s5 = w0 (\<lambda>x. x\<lparr>counter := uint (sif_words x AND 0xFFFFF)\<rparr>) s4;
           s6 = w0 (\<lambda>x. x\<lparr>writeJunk := if counter x AND 3 \<noteq> 0 then (4 - counter x) AND 3 else 0\<rparr>) s5
       in Some (if tag_IRQ (sif_data (S0 s6)) \<or> tag_ID (sif_data (S0 s6)) AND 4 \<noteq> 0
                then w0 (\<lambda>x. x\<lparr>iop_end := True\<rparr>) s6 else s6))"

definition EndEE0 :: "'w sif_env \<Rightarrow> 'w sif_state \<Rightarrow> 'w sif_state" where
  "EndEE0 v s =
    (let s1 = w0 (\<lambda>x. x\<lparr>ee_end := False, ee_busy := False, ee_cycles := if ee_cycles x = 0 then 1 else ee_cycles x\<rparr>) s;
         s2 = wee (CPU_SET_DMASTALL DMAC_SIF0 False) s1
     in CPU_INT (cpu v) DMAC_SIF0 (word_of_int (ee_cycles (S0 s2) * BIAS)) s2)"

definition EndIOP0 :: "'w sif_env \<Rightarrow> 'w sif_state \<Rightarrow> 'w sif_state" where
  "EndIOP0 v s =
    (let s1 = w0 (\<lambda>x. x\<lparr>sif_data := 0, iop_end := False, iop_busy := False,
                iop_cycles := if iop_cycles x = 0 then 1 else iop_cycles x\<rparr>) s;
         s2 = w0 (\<lambda>x. x\<lparr>iop_cycles := if iop_cycles x > 1000 then iop_cycles x div 2 else iop_cycles x\<rparr>) s1
     in iop_int v IopEvt_SIF0 (iop_cycles (S0 s2)) s2)"

definition HandleEETransfer0 :: "'w sif_env \<Rightarrow> 'w sif_state \<Rightarrow> 'w sif_state option" where
  "HandleEETransfer0 v s =
    (if \<not> chcr_STR (chcr (sif0ch s)) then Some (w0 (\<lambda>x. x\<lparr>ee_end := False, ee_busy := False\<rparr>) s)
     else case (if qwc (sif0ch s) = 0
                then if chcr_MOD (chcr (sif0ch s)) = NORMAL_MODE \<or> ee_end (S0 s) then Some (EndEE0 v s)
                     else if fifo_size (fifo (S0 s)) \<ge> 4 then ProcessEETag0 v s
                     else Some s
                else Some s) of
       None \<Rightarrow> None
     | Some s1 \<Rightarrow> if qwc (sif0ch s1) > 0 \<and> fifo_size (fifo (S0 s1)) \<ge> 4 then map_option snd (WriteFifoToEE v s1) else Some s1)"

definition HandleIOPTransfer0 :: "'w sif_env \<Rightarrow> 'w sif_state \<Rightarrow> 'w sif_state option" where
  "HandleIOPTransfer0 v s =
    (if counter (S0 s) \<le> 0
     then if iop_end (S0 s) then Some (EndIOP0 v s) else ProcessIOPTag v s
     else if sif_free (fifo (S0 s)) > 0 then WriteIOPtoFifo v s else Some s)"

definition Sif0End :: "'w sif_env \<Rightarrow> 'w sif_state \<Rightarrow> 'w sif_state" where
  "Sif0End v s = sbus_f240 v (\<lambda>r. r AND NOT 0x2000) (sbus_f240 v (\<lambda>r. r AND NOT 0x20) s)"

text \<open>One turn of the loop, in its three parts; the flag tells whether a side was busy.\<close>

definition sif0_junk :: "'w sif_state \<Rightarrow> 'w sif_state option" where
  "sif0_junk s =
    (if counter (S0 s) = 0 \<and> writeJunk (S0 s) \<noteq> 0 \<and> sif_free (fifo (S0 s)) \<ge> writeJunk (S0 s)
     then (case sif_writeJunk (writeJunk (S0 s)) (fifo (S0 s)) of None \<Rightarrow> None
           | Some f \<Rightarrow> Some (w0 (\<lambda>x. x\<lparr>fifo := f, writeJunk := 0\<rparr>) s))
     else Some s)"

definition sif0_iop_side :: "'w sif_env \<Rightarrow> 'w sif_state \<Rightarrow> (bool \<times> 'w sif_state) option" where
  "sif0_iop_side v s =
    (if iop_busy (S0 s) \<and> (sif_free (fifo (S0 s)) > 0 \<or> iop_end (S0 s) \<and> counter (S0 s) = 0)
     then map_option (Pair True) (HandleIOPTransfer0 v s) else Some (False, s))"

definition sif0_ee_side :: "'w sif_env \<Rightarrow> 'w sif_state \<Rightarrow> (bool \<times> 'w sif_state) option" where
  "sif0_ee_side v s =
    (if ee_busy (S0 s) \<and> (fifo_size (fifo (S0 s)) \<ge> 4 \<or> ee_end (S0 s) \<and> qwc (sif0ch s) = 0)
     then map_option (Pair True) (HandleEETransfer0 v s) else Some (False, s))"

definition sif0_turn :: "'w sif_env \<Rightarrow> 'w sif_state \<Rightarrow> (bool \<times> 'w sif_state) option" where
  "sif0_turn v s =
    (case sif0_junk s of None \<Rightarrow> None
     | Some s1 \<Rightarrow> (case sif0_iop_side v s1 of None \<Rightarrow> None
     | Some (b1, s2) \<Rightarrow> (case sif0_ee_side v s2 of None \<Rightarrow> None
     | Some (b2, s3) \<Rightarrow> Some (b1 \<or> b2, s3))))"

text \<open>The loop takes fuel: the result is \<open>None\<close> outside when the fuel runs out, \<open>None\<close> inside when
  a turn leaves the ring.\<close>

fun sif_loop :: "('s \<Rightarrow> (bool \<times> 's) option) \<Rightarrow> nat \<Rightarrow> 's \<Rightarrow> 's option option" where
  "sif_loop turn 0 s = None"
| "sif_loop turn (Suc k) s = (case turn s of None \<Rightarrow> Some None
     | Some (busy, s1) \<Rightarrow> if busy then sif_loop turn k s1 else Some (Some s1))"

definition SIF0Dma :: "'w sif_env \<Rightarrow> nat \<Rightarrow> 'w sif_state \<Rightarrow> 'w sif_state option option" where
  "SIF0Dma v k s = map_option (map_option (Sif0End v)) (sif_loop (sif0_turn v) k (Sif0Init s))"

definition iopIntcIrq :: "'w sif_env \<Rightarrow> nat \<Rightarrow> 'w sif_state \<Rightarrow> 'w sif_state" where
  "iopIntcIrq v n s = iopTestIntc (iop_part (cpu v)) (wr v 0x1070 (rd v 0x1070 s OR push_bit n 1) s)"

definition dma_irq2_fires :: "nat \<Rightarrow> u32 \<Rightarrow> bool" where
  "dma_irq2_fires n icr \<longleftrightarrow> n = 2 \<or> n = 3 \<or>
     (if n = 33 then \<exists>i \<in> set [0..<6]. bit icr (24 + i) \<and> (bit icr (16 + i) \<or> i = 2 \<or> i = 3) else bit icr (16 + n))"

definition psxDmaInterrupt2 :: "'w sif_env \<Rightarrow> nat \<Rightarrow> 'w sif_state \<Rightarrow> 'w sif_state" where
  "psxDmaInterrupt2 v n s =
    (if dma_irq2_fires n (rd v HW_DMA_ICR2 s)
     then let s1 = (if n \<noteq> 33 then wr v HW_DMA_ICR2 (rd v HW_DMA_ICR2 s OR push_bit (24 + n) 1) s else s);
              s2 = (if bit (rd v HW_DMA_ICR2 s1) 23 then wr v HW_DMA_ICR2 (rd v HW_DMA_ICR2 s1 OR 0x80000000) s1 else s1)
          in iopIntcIrq v 3 s2
     else s)"

definition sif0Interrupt :: "'w sif_env \<Rightarrow> 'w sif_state \<Rightarrow> 'w sif_state" where
  "sif0Interrupt v s = psxDmaInterrupt2 v 2 (wr v DMA9_CHCR (rd v DMA9_CHCR s AND NOT 0x01000000) s)"

definition EEsif0Interrupt :: "'w sif_state \<Rightarrow> 'w sif_state" where
  "EEsif0Interrupt s = wch 5 (set_STR False) (hwDmacIrq DMAC_SIF0 s)"

definition dmaSIF0 :: "'w sif_env \<Rightarrow> nat \<Rightarrow> 'w sif_state \<Rightarrow> 'w sif_state option option" where
  "dmaSIF0 v k s =
    (let s1 = w0 (\<lambda>x. x\<lparr>ee_busy := True\<rparr>) (sbus_f240 v (\<lambda>r. r OR 0x2000) s);
         s2 = wee (CPU_SET_DMASTALL DMAC_SIF0 False) (w0 (\<lambda>x. x\<lparr>ee_end := False\<rparr>) s1)
     in SIF0Dma v k s2)"

definition psxDma9 :: "'w sif_env \<Rightarrow> nat \<Rightarrow> 'w sif_state \<Rightarrow> 'w sif_state option option" where
  "psxDma9 v k s = SIF0Dma v k (w0 (\<lambda>x. x\<lparr>iop_busy := True, iop_end := False\<rparr>) s)"


subsection \<open>SIF1: from the main processor to the I/O processor\<close>

definition Sif1Init :: "'w sif_state \<Rightarrow> 'w sif_state" where
  "Sif1Init = w1 (\<lambda>x. x\<lparr>ee_cycles := 0, iop_cycles := 0\<rparr>)"

definition sif1_write_size :: "'w sif_state \<Rightarrow> int" where
  "sif1_write_size s = min (sint (qwc (sif1ch s))) (sif_free (fifo (S1 s)) div 4)"

definition WriteEEtoFifo :: "'w sif_env \<Rightarrow> 'w sif_state \<Rightarrow> (bool \<times> 'w sif_state) option" where
  "WriteEEtoFifo v s =
    (let writeSize = sif1_write_size s
     in case getAddr v 6 (madr (sif1ch s)) False s of
       (None, s1) \<Rightarrow> Some (False, s1)
     | (Some ptag, s1) \<Rightarrow> (case sif_write (words_at ptag (nat (writeSize * 4)) s1) (writeSize * 4) (fifo (S1 s1)) of
         None \<Rightarrow> None
       | Some f \<Rightarrow>
         let s2 = w1 (\<lambda>x. x\<lparr>fifo := f\<rparr>) s1;
             s3 = wch 6 (\<lambda>c. hwDmacSrcTadrInc (c\<lparr>madr := madr c + word_of_int writeSize * 16\<rparr>)) s2;
             s4 = w1 (\<lambda>x. x\<lparr>ee_cycles := ee_cycles x + writeSize\<rparr>) s3
         in Some (True, wch 6 (\<lambda>c. c\<lparr>qwc := qwc c - word_of_int writeSize\<rparr>) s4)))"

definition WriteFifoToIOP :: "'w sif_env \<Rightarrow> 'w sif_state \<Rightarrow> 'w sif_state option" where
  "WriteFifoToIOP v s =
    (let readSize = min (counter (S1 s)) (fifo_size (fifo (S1 s)));
         iop_madr = rd v DMA10_MADR s
     in case fifo_to (iopPhysMem v iop_madr) readSize (S1 s) s of
       None \<Rightarrow> None
     | Some (f, s1) \<Rightarrow>
       let s2 = w1 (\<lambda>x. x\<lparr>fifo := f\<rparr>) s1;
           s3 = iopMemNotifyWrite (iop_part (cpu v)) (rd v DMA10_MADR s2) (word_of_int readSize * 4) s2;
           s4 = wr v DMA10_MADR (rd v DMA10_MADR s3 + word_of_int readSize * 4) s3
       in Some (w1 (\<lambda>x. x\<lparr>iop_cycles := iop_cycles x + readSize div 4, counter := counter x - readSize\<rparr>) s4))"

definition ProcessEETag1 :: "'w sif_env \<Rightarrow> 'w sif_state \<Rightarrow> (bool \<times> 'w sif_state) option" where
  "ProcessEETag1 v s =
    (case DMAtransfer v 6 (tadr (sif1ch s)) s of
       (None, s1) \<Rightarrow> Some (False, s1)
     | (Some ptag, s1) \<Rightarrow>
       (case (if chcr_TTE (chcr (sif1ch s1))
              then map_option (\<lambda>f. w1 (\<lambda>x. x\<lparr>fifo := f\<rparr>) s1) (sif_write (words_at (ptag + 8) 2 s1) 2 (fifo (S1 s1)))
              else Some s1) of
          None \<Rightarrow> None
        | Some s2 \<Rightarrow>
          let tag = hget ptag s2 :: u32;
              s3 = wch 6 (\<lambda>c. c\<lparr>madr := hget (ptag + 4) s2\<rparr>) s2;
              chain = hwDmacSrcChain (tag_ID tag) (sif1ch s3);
              s4 = w1 (\<lambda>x. x\<lparr>ee_end := fst chain\<rparr>) (wch 6 (\<lambda>_. snd chain) s3)
          in Some (True, if chcr_TIE (chcr (sif1ch s4)) \<and> tag_IRQ tag then w1 (\<lambda>x. x\<lparr>ee_end := True\<rparr>) s4 else s4)))"

definition SIFIOPReadTag :: "'w sif_env \<Rightarrow> 'w sif_state \<Rightarrow> 'w sif_state option" where
  "SIFIOPReadTag v s =
    (case sif_read [0, 0, 0, 0] 4 (fifo (S1 s)) of
       None \<Rightarrow> None
     | Some (tag, f) \<Rightarrow>
       let s1 = w1 (\<lambda>x. x\<lparr>fifo := f, sif_data := tag ! 0, sif_words := tag ! 1\<rparr>) s;
           s2 = wr v DMA10_MADR (sif_data (S1 s1) AND 0xffffff) s1;
           s3 = w1 (\<lambda>x. x\<lparr>counter := uint (sif_words x AND 0xFFFFC)\<rparr>) s2
       in Some (if tag_IRQ (sif_data (S1 s3)) \<or> tag_ID (sif_data (S1 s3)) AND 4 \<noteq> 0
                then w1 (\<lambda>x. x\<lparr>iop_end := True\<rparr>) s3 else s3))"

definition EndEE1 :: "'w sif_env \<Rightarrow> 'w sif_state \<Rightarrow> 'w sif_state" where
  "EndEE1 v s =
    (let s1 = w1 (\<lambda>x. x\<lparr>ee_end := False, ee_busy := False, ee_cycles := if ee_cycles x = 0 then 1 else ee_cycles x\<rparr>) s;
         s2 = wee (CPU_SET_DMASTALL DMAC_SIF1 False) s1
     in CPU_INT (cpu v) DMAC_SIF1 (word_of_int (ee_cycles (S1 s2) * BIAS)) s2)"

definition EndIOP1 :: "'w sif_env \<Rightarrow> 'w sif_state \<Rightarrow> 'w sif_state" where
  "EndIOP1 v s =
    (let s1 = w1 (\<lambda>x. x\<lparr>sif_data := 0, iop_end := False, iop_busy := False,
                iop_cycles := if iop_cycles x = 0 then 1 else iop_cycles x\<rparr>) s
     in iop_int v IopEvt_SIF1 (iop_cycles (S1 s1)) s1)"

text \<open>The stall control of the drain channel compares addresses as unsigned words.\<close>

definition sif1_past_stadr :: "'w sif_state \<Rightarrow> bool" where
  "sif1_past_stadr s \<longleftrightarrow> madr (sif1ch s) + word_of_int (sif1_write_size s * 16) > field 0 31 (DMAC_STADR (ee s))"

definition sif1_stall_drain :: "'w sif_state \<Rightarrow> bool" where
  "sif1_stall_drain s \<longleftrightarrow> ctrl_STD (ee s) = STD_SIF1 \<and>
     (chcr_MOD (chcr (sif1ch s)) = NORMAL_MODE \<or> drop_bit 28 (chcr_TAG (chcr (sif1ch s))) AND 0x7 = TAG_REFS)"

definition HandleEETransfer1 :: "'w sif_env \<Rightarrow> 'w sif_state \<Rightarrow> 'w sif_state option" where
  "HandleEETransfer1 v s =
    (if \<not> chcr_STR (chcr (sif1ch s)) then Some (w1 (\<lambda>x. x\<lparr>ee_end := False, ee_busy := False\<rparr>) s)
     else if qwc (sif1ch s) = 0
     then if chcr_MOD (chcr (sif1ch s)) = NORMAL_MODE \<or> ee_end (S1 s) then Some (EndEE1 v s)
          else map_option snd (ProcessEETag1 v s)
     else if sif1_stall_drain s \<and> sif1_past_stadr s
     then Some (wee (CPU_SET_DMASTALL DMAC_SIF1 True) (wee (\<lambda>e. e\<lparr>sif1_dma_stall := True\<rparr>) (hwDmacIrq DMAC_STALL_SIS s)))
     else if sif_free (fifo (S1 s)) > 0 then map_option snd (WriteEEtoFifo v s) else Some s)"

definition HandleIOPTransfer1 :: "'w sif_env \<Rightarrow> 'w sif_state \<Rightarrow> 'w sif_state option" where
  "HandleIOPTransfer1 v s =
    (case (if counter (S1 s) > 0 \<and> fifo_size (fifo (S1 s)) > 0 then WriteFifoToIOP v s else Some s) of
       None \<Rightarrow> None
     | Some s1 \<Rightarrow>
       if counter (S1 s1) \<le> 0
       then if iop_end (S1 s1) then Some (EndIOP1 v s1)
            else if fifo_size (fifo (S1 s1)) \<ge> 4 then SIFIOPReadTag v s1 else Some s1
       else Some s1)"

definition Sif1End :: "'w sif_env \<Rightarrow> 'w sif_state \<Rightarrow> 'w sif_state" where
  "Sif1End v s = sbus_f240 v (\<lambda>r. r AND NOT 0x4000) (sbus_f240 v (\<lambda>r. r AND NOT 0x40) s)"

definition sif1_ee_side :: "'w sif_env \<Rightarrow> 'w sif_state \<Rightarrow> (bool \<times> 'w sif_state) option" where
  "sif1_ee_side v s =
    (if ee_busy (S1 s) \<and> \<not> sif1_dma_stall (ee s) \<and> (sif_free (fifo (S1 s)) > 0 \<or> ee_end (S1 s) \<and> qwc (sif1ch s) = 0)
     then map_option (Pair True) (HandleEETransfer1 v s) else Some (False, s))"

definition sif1_iop_side :: "'w sif_env \<Rightarrow> 'w sif_state \<Rightarrow> (bool \<times> 'w sif_state) option" where
  "sif1_iop_side v s =
    (if iop_busy (S1 s) \<and> (fifo_size (fifo (S1 s)) \<ge> 4 \<or> iop_end (S1 s) \<and> counter (S1 s) = 0)
     then map_option (Pair True) (HandleIOPTransfer1 v s) else Some (False, s))"

definition sif1_turn :: "'w sif_env \<Rightarrow> 'w sif_state \<Rightarrow> (bool \<times> 'w sif_state) option" where
  "sif1_turn v s =
    (case sif1_ee_side v s of None \<Rightarrow> None
     | Some (b1, s1) \<Rightarrow> (case sif1_iop_side v s1 of None \<Rightarrow> None
     | Some (b2, s2) \<Rightarrow> Some (b1 \<or> b2, s2)))"

definition SIF1Dma :: "'w sif_env \<Rightarrow> nat \<Rightarrow> 'w sif_state \<Rightarrow> 'w sif_state option option" where
  "SIF1Dma v k s =
    (if sif1_dma_stall (ee s) \<and> sif1_past_stadr s then Some (Some s)
     else let s1 = Sif1Init (wee (\<lambda>e. e\<lparr>sif1_dma_stall := False\<rparr>) s)
          in map_option (map_option (Sif1End v)) (sif_loop (sif1_turn v) k s1))"

definition sif1Interrupt :: "'w sif_env \<Rightarrow> 'w sif_state \<Rightarrow> 'w sif_state" where
  "sif1Interrupt v s = psxDmaInterrupt2 v 3 (wr v DMA10_CHCR (rd v DMA10_CHCR s AND NOT 0x01000000) s)"

definition EEsif1Interrupt :: "'w sif_state \<Rightarrow> 'w sif_state" where
  "EEsif1Interrupt s = wch 6 (set_STR False) (hwDmacIrq DMAC_SIF1 s)"

definition dmaSIF1 :: "'w sif_env \<Rightarrow> nat \<Rightarrow> 'w sif_state \<Rightarrow> 'w sif_state option option" where
  "dmaSIF1 v k s =
    (let s1 = w1 (\<lambda>x. x\<lparr>ee_busy := True\<rparr>) (sbus_f240 v (\<lambda>r. r OR 0x4000) s);
         s2 = w1 (\<lambda>x. x\<lparr>ee_end := False\<rparr>) (wee (CPU_SET_DMASTALL DMAC_SIF1 False) s1);
         tag = chcr (sif1ch s2);
         s3 = (if chcr_MOD tag = CHAIN_MODE \<and> qwc (sif1ch s2) > 0 \<and>
                  (tag_ID tag = TAG_REFE \<or> tag_ID tag = TAG_END \<or> tag_IRQ tag \<and> chcr_TIE (chcr (vif1ch s2)))
               then w1 (\<lambda>x. x\<lparr>ee_end := True\<rparr>) s2 else s2)
     in SIF1Dma v k s3)"

definition psxDma10 :: "'w sif_env \<Rightarrow> nat \<Rightarrow> 'w sif_state \<Rightarrow> 'w sif_state option option" where
  "psxDma10 v k s = SIF1Dma v k (w1 (\<lambda>x. x\<lparr>iop_busy := True, iop_end := False\<rparr>) s)"

end
