(* ===== verification/EE_Sched_Props.thy ===== *)
theory EE_Sched_Props
  imports EE_Sched
begin

text \<open>
  The calendar of the main processor's scheduler: deadlines as integers, what raising an event
  promises, why the narrow path may skip the EE owners, and the deadline the full test forgets.
\<close>

subsection \<open>Times as integers\<close>

definition ee_now :: "'z ee_sched_scheme \<Rightarrow> int" where
  "ee_now e = uint (ee_cycle e)"

definition ee_deadline :: "nat \<Rightarrow> 'z ee_sched_scheme \<Rightarrow> int" where
  "ee_deadline n e = uint (ee_sCycle e n) + sint (ee_eCycle e n)"

text \<open>The published deadlines are in reach of the 32-bit comparisons.\<close>

definition in_reach :: "u64 \<Rightarrow> 'z ee_sched_scheme \<Rightarrow> bool" where
  "in_reach t e \<longleftrightarrow> ee_now e - 2 ^ 30 < uint t \<and> uint t < ee_now e + 2 ^ 31"

definition ee_window :: "'z ee_sched_scheme \<Rightarrow> bool" where
  "ee_window e \<longleftrightarrow> ee_now e < 2 ^ 62 \<and> in_reach (nextEventCycle e) e \<and>
     in_reach (non_counter_cycle e) e \<and> in_reach (counter_cycle e) e \<and>
     owner_cycle e = min (non_counter_cycle e) (counter_cycle e)"

text \<open>The retained owner comes no later than any pending event and than the counters.\<close>

definition owner_covers :: "'z ee_sched_scheme \<Rightarrow> bool" where
  "owner_covers e \<longleftrightarrow> ee_window e \<and> (\<forall>n. bit (ee_interrupt e) n \<longrightarrow> uint (non_counter_cycle e) \<le> ee_deadline n e)"

lemma sint_since: "\<bar>uint a - uint b\<bar> < 2 ^ 31 \<Longrightarrow> sint (since a b) = uint a - uint b"
  unfolding since_def by (rule sint_low_difference)

lemma since_reach: "in_reach t e \<Longrightarrow> sint (since t (ee_cycle e)) = uint t - ee_now e"
  unfolding in_reach_def ee_now_def by (rule sint_since) auto

lemma since_word: "since a b = word_of_int (uint a - uint b)"
proof -
  have "since a b = word_of_int (uint (a - b))" unfolding since_def by (rule ucast_eq)
  also have "\<dots> = word_of_int ((uint a - uint b) mod 2 ^ 64)" by (simp only: uint_word_ariths) simp
  also have "\<dots> = word_of_int (uint a - uint b)"
    by (rule word_eq_iff_unsigned [THEN iffD2])
      (simp only: unsigned_of_int take_bit_eq_mod, simp add: mod_mod_cancel)
  finally show ?thesis .
qed

text \<open>A difference of \<open>2 ^ 31\<close> or more reads as a negative number.\<close>

lemma sint_since_wraps:
  assumes "2 ^ 31 \<le> uint a - uint b" "uint a - uint b < 2 ^ 32"
  shows "sint (since a b) = uint a - uint b - 2 ^ 32"
proof -
  have "since a b = word_of_int (uint a - uint b)" by (rule since_word)
  also have "\<dots> = word_of_int (uint a - uint b - 2 ^ 32)"
    by (simp only: word_of_int_eq_iff take_bit_eq_mod) (simp add: mod_diff_right_eq [symmetric, of _ "2 ^ 32"])
  finally have *: "since a b = word_of_int (uint a - uint b - 2 ^ 32)" .
  show ?thesis unfolding * using assms by (intro sint_word_of_int32) (auto simp: s32_range_def)
qed

lemma uint_add_scast:
  assumes "uint start < 2 ^ 62" "0 \<le> sint (delta :: u32)"
  shows "uint (start + scast delta :: u64) = uint start + sint delta"
proof -
  have "uint (start + scast delta :: u64) = uint (word_of_int (uint start + sint delta) :: u64)"
    by (simp only: scast64_eq of_int_add of_int_uint word_of_int_uint ucast_id)
  also have "\<dots> = (uint start + sint delta) mod 2 ^ 64"
    by (simp only: unsigned_of_int take_bit_eq_mod) simp
  also have "\<dots> = uint start + sint delta"
    using assms sint_s32_range [of delta] by (intro mod_pos_pos_trivial) (auto simp: s32_range_def)
  finally show ?thesis .
qed

subsection \<open>Publishing a deadline\<close>

lemma refresh_simps [simp]:
  "nextEventCycle (VitaRefreshCombinedEeOwner e) = nextEventCycle e"
  "non_counter_cycle (VitaRefreshCombinedEeOwner e) = non_counter_cycle e"
  "counter_cycle (VitaRefreshCombinedEeOwner e) = counter_cycle e"
  "owner_cycle (VitaRefreshCombinedEeOwner e) = min (non_counter_cycle e) (counter_cycle e)"
  "ee_cycle (VitaRefreshCombinedEeOwner e) = ee_cycle e"
  "ee_interrupt (VitaRefreshCombinedEeOwner e) = ee_interrupt e"
  "ee_sCycle (VitaRefreshCombinedEeOwner e) = ee_sCycle e" "ee_eCycle (VitaRefreshCombinedEeOwner e) = ee_eCycle e"
  "nextStartCounter (VitaRefreshCombinedEeOwner e) = nextStartCounter e"
  "nextDeltaCounter (VitaRefreshCombinedEeOwner e) = nextDeltaCounter e"
  "ee_Status (VitaRefreshCombinedEeOwner e) = ee_Status e"
  by (simp_all add: VitaRefreshCombinedEeOwner_def Let_def)

lemma set_next_event_keeps [simp]:
  "ee_cycle (cpuSetNextEvent st d e) = ee_cycle e" "counter_cycle (cpuSetNextEvent st d e) = counter_cycle e"
  "ee_interrupt (cpuSetNextEvent st d e) = ee_interrupt e" "ee_sCycle (cpuSetNextEvent st d e) = ee_sCycle e"
  "ee_eCycle (cpuSetNextEvent st d e) = ee_eCycle e" "nextStartCounter (cpuSetNextEvent st d e) = nextStartCounter e"
  "nextDeltaCounter (cpuSetNextEvent st d e) = nextDeltaCounter e" "ee_Status (cpuSetNextEvent st d e) = ee_Status e"
  by (simp_all add: cpuSetNextEvent_def Let_def)

text \<open>From the current cycle the comparisons are exact: both deadlines become the earlier ones.\<close>

lemma set_next_event_now:
  assumes w: "ee_window e" and d: "0 \<le> sint delta" "sint delta < 2 ^ 30"
  shows "ee_window (ee_cpuSetNextEventDelta delta e)"
    "uint (non_counter_cycle (ee_cpuSetNextEventDelta delta e)) = min (uint (non_counter_cycle e)) (ee_now e + sint delta)"
    "uint (nextEventCycle (ee_cpuSetNextEventDelta delta e)) = min (uint (nextEventCycle e)) (ee_now e + sint delta)"
proof -
  have r: "in_reach (nextEventCycle e) e" "in_reach (non_counter_cycle e) e" "in_reach (counter_cycle e) e"
    "ee_now e < 2 ^ 62" using w by (simp_all add: ee_window_def)
  have sum: "uint (ee_cycle e + scast delta) = ee_now e + sint delta"
    using r(4) d(1) unfolding ee_now_def by (rule uint_add_scast)
  have nxt: "nextEventCycle (ee_cpuSetNextEventDelta delta e) =
      (if sint delta < uint (nextEventCycle e) - ee_now e then ee_cycle e + scast delta else nextEventCycle e)"
    using since_reach [OF r(1)]
    by (simp add: ee_cpuSetNextEventDelta_def cpuSetNextEvent_def Let_def word_sless_alt)
  have non: "non_counter_cycle (ee_cpuSetNextEventDelta delta e) =
      (if sint delta < uint (non_counter_cycle e) - ee_now e then ee_cycle e + scast delta else non_counter_cycle e)"
    using since_reach [OF r(2)]
    by (simp add: ee_cpuSetNextEventDelta_def cpuSetNextEvent_def Let_def word_sless_alt)
  show *: "uint (non_counter_cycle (ee_cpuSetNextEventDelta delta e)) = min (uint (non_counter_cycle e)) (ee_now e + sint delta)"
    "uint (nextEventCycle (ee_cpuSetNextEventDelta delta e)) = min (uint (nextEventCycle e)) (ee_now e + sint delta)"
    unfolding non nxt by (simp_all add: sum min_def)
  have now: "ee_now (ee_cpuSetNextEventDelta delta e) = ee_now e"
    and counter: "counter_cycle (ee_cpuSetNextEventDelta delta e) = counter_cycle e"
    by (simp_all add: ee_now_def ee_cpuSetNextEventDelta_def)
  have "owner_cycle (ee_cpuSetNextEventDelta delta e) =
      min (non_counter_cycle (ee_cpuSetNextEventDelta delta e)) (counter_cycle e)"
    using w by (simp add: ee_cpuSetNextEventDelta_def cpuSetNextEvent_def Let_def ee_window_def)
  then show "ee_window (ee_cpuSetNextEventDelta delta e)"
    using r d unfolding ee_window_def in_reach_def now * counter by (auto simp: min_def)
qed

lemma min_word_uint: "uint (min a b :: u64) = min (uint a) (uint b)"
  by (simp add: min_def word_le_def)

text \<open>C12: Raising an event far enough ahead registers it: it is pending with its deadline counted from
  now, the other events are untouched, and the next test and the retained owner of the EE come no
  later than the deadline; so the owner still covers every pending event.\<close>

theorem cpu_int_publishes:
  assumes "owner_covers (ee s)" "4 \<le> sint ecycle" "sint ecycle < 2 ^ 30" "\<not> CHECK_EETIMINGHACK v" "n < 32"
  defines "s' \<equiv> CPU_INT v n ecycle s"
  shows "owner_covers (ee s') \<and> bit (ee_interrupt (ee s')) n \<and> ee_deadline n (ee s') = ee_now (ee s) + sint ecycle \<and>
    uint (nextEventCycle (ee s')) = min (uint (nextEventCycle (ee s))) (ee_now (ee s) + sint ecycle) \<and>
    uint (owner_cycle (ee s')) \<le> ee_now (ee s) + sint ecycle \<and>
    (\<forall>k. k \<noteq> n \<longrightarrow> bit (ee_interrupt (ee s')) k = bit (ee_interrupt (ee s)) k \<and> ee_deadline k (ee s') = ee_deadline k (ee s))"
proof -
  define e1 where "e1 = (ee s)\<lparr>ee_interrupt := ee_interrupt (ee s) OR push_bit n 1,
     ee_sCycle := (ee_sCycle (ee s))(n := ee_cycle (ee s)), ee_eCycle := (ee_eCycle (ee s))(n := ecycle)\<rparr>"
  have far: "\<not> ecycle <s 4" using assms(2) by (simp add: word_sless_alt)
  have brk: "ee (break_iop s) = ee s" for s :: "'z machine" by (simp add: break_iop_def wpsx_def)
  have s': "ee s' = ee_cpuSetNextEventDelta ecycle e1"
    using far assms(4) by (simp add: s'_def CPU_INT_def Let_def brk e1_def)
  have w: "ee_window e1" and now: "ee_now e1 = ee_now (ee s)"
    using assms(1) by (simp_all add: owner_covers_def ee_window_def in_reach_def ee_now_def e1_def)
  note set = set_next_event_now [OF w, of ecycle, unfolded now]
  have keep: "ee_interrupt (ee s') = ee_interrupt (ee s) OR push_bit n 1"
    "ee_sCycle (ee s') = (ee_sCycle (ee s))(n := ee_cycle (ee s))" "ee_eCycle (ee s') = (ee_eCycle (ee s))(n := ecycle)"
    by (simp_all add: s' ee_cpuSetNextEventDelta_def e1_def)
  have dead: "ee_deadline n (ee s') = ee_now (ee s) + sint ecycle" "k \<noteq> n \<Longrightarrow> ee_deadline k (ee s') = ee_deadline k (ee s)" for k
    by (simp_all add: ee_deadline_def keep ee_now_def)
  have bits: "bit (ee_interrupt (ee s')) k \<longleftrightarrow> k = n \<or> bit (ee_interrupt (ee s)) k" for k
    using assms(5) by (auto simp: keep bit_simps)
  have non: "uint (non_counter_cycle (ee s')) = min (uint (non_counter_cycle (ee s))) (ee_now (ee s) + sint ecycle)"
    and nxt: "uint (nextEventCycle (ee s')) = min (uint (nextEventCycle (ee s))) (ee_now (ee s) + sint ecycle)"
    and win: "ee_window (ee s')"
    using set assms(2,3) by (simp_all add: s' e1_def)
  have "uint (non_counter_cycle (ee s')) \<le> ee_deadline k (ee s')" if "bit (ee_interrupt (ee s')) k" for k
    using that bits [of k] dead(1) dead(2) [of k] non assms(1) by (cases "k = n") (auto simp: owner_covers_def min_le_iff_disj)
  then have "owner_covers (ee s')" using win by (simp add: owner_covers_def)
  moreover have "uint (owner_cycle (ee s')) \<le> ee_now (ee s) + sint ecycle"
    using win non by (simp add: ee_window_def min_word_uint min_le_iff_disj)
  ultimately show ?thesis using bits dead nxt by auto
qed


subsection \<open>The next boundary\<close>

definition clamped :: "u64 \<Rightarrow> int" where
  "clamped d = max 0 (min (2 ^ 31 - 1) (sint d))"

lemma uint_sint64: "0 \<le> sint (d :: u64) \<Longrightarrow> uint d = sint d"
  using sint_s64_range [of d] by (simp add: uint_sint take_bit_int_eq_self s64_range_def)

lemma sint_ucast_small:
  assumes "0 \<le> sint (d :: u64)" "sint d < 2 ^ 31"
  shows "sint (ucast d :: u32) = sint d"
  using assms uint_sint64 [OF assms(1)] sint_since [of d 0] by (simp add: since_def)

lemma clamped_delta:
  "sint (if d \<le>s 0 then 0 else if 0x7fffffff \<le>s d then 0x7fffffff else ucast d :: u32) = clamped d"
  using sint_ucast_small [of d] by (auto simp: clamped_def word_sle_eq)

text \<open>The next test comes at the earlier of the retained owner and the deadline of the I/O processor,
  and only a boundary strictly before the owner is left to the narrow path.\<close>

lemma schedule_earliest:
  fixes d :: u64 and e :: "'z ee_sched_scheme"
  assumes "ee_now e < 2 ^ 62" "in_reach (owner_cycle e) e"
  defines "e' \<equiv> VitaScheduleEeAndIopDeadlineDelta d e"
  shows "uint (nextEventCycle e') = min (uint (owner_cycle e)) (ee_now e + clamped d)"
    "next_event_iop_only e' \<longleftrightarrow> ee_now e + clamped d < uint (owner_cycle e) \<and> ee_Status e AND 0x8000 = 0"
    "owner_cycle e' = owner_cycle e" "ee_cycle e' = ee_cycle e" "ee_interrupt e' = ee_interrupt e"
    "ee_sCycle e' = ee_sCycle e" "ee_eCycle e' = ee_eCycle e" "ee_Status e' = ee_Status e"
proof -
  define delta :: u32 where "delta = (if d \<le>s 0 then 0 else if 0x7fffffff \<le>s d then 0x7fffffff else ucast d)"
  have delta: "sint delta = clamped d" unfolding delta_def by (rule clamped_delta)
  have e': "e' = (if delta <s since (owner_cycle e) (ee_cycle e)
      then e\<lparr>nextEventCycle := ee_cycle e + scast delta, next_event_iop_only := (ee_Status e AND 0x8000 = 0)\<rparr>
      else e\<lparr>nextEventCycle := owner_cycle e, next_event_iop_only := False\<rparr>)"
    unfolding e'_def VitaScheduleEeAndIopDeadlineDelta_def Let_def delta_def ..
  have less: "delta <s since (owner_cycle e) (ee_cycle e) \<longleftrightarrow> ee_now e + clamped d < uint (owner_cycle e)"
    using since_reach [OF assms(2)] by (auto simp: word_sless_alt delta)
  have sum: "uint (ee_cycle e + scast delta) = ee_now e + clamped d"
    using uint_add_scast [of "ee_cycle e" delta] assms(1) by (simp add: delta ee_now_def clamped_def)
  show "uint (nextEventCycle e') = min (uint (owner_cycle e)) (ee_now e + clamped d)"
    "next_event_iop_only e' \<longleftrightarrow> ee_now e + clamped d < uint (owner_cycle e) \<and> ee_Status e AND 0x8000 = 0"
    using sum unfolding e' less by (simp_all add: min_def)
  show "owner_cycle e' = owner_cycle e" "ee_cycle e' = ee_cycle e" "ee_interrupt e' = ee_interrupt e"
    "ee_sCycle e' = ee_sCycle e" "ee_eCycle e' = ee_eCycle e" "ee_Status e' = ee_Status e"
    by (simp_all add: e')
qed

subsection \<open>The narrow path\<close>












lemma far_owner: "ee_now e < 2 ^ 62 \<Longrightarrow> uint (ee_cycle e + 0x7fffffff) = ee_now e + (2 ^ 31 - 1)"
  using uint_add_scast [of "ee_cycle e" "0x7fffffff"] by (simp add: ee_now_def)








subsection \<open>The full test\<close>

text \<open>The full test starts from an owner as far ahead as the comparison reaches. Republishing an event
  that was raised before now overflows that comparison, so the owner is not lowered.\<close>

lemma begin_simps:
  "non_counter_cycle (ee (VitaBeginFullEeDeadlineCollection v s)) = ee_cycle (ee s) + 0x7fffffff"
  "ee_cycle (ee (VitaBeginFullEeDeadlineCollection v s)) = ee_cycle (ee s)"
  "ee_interrupt (ee (VitaBeginFullEeDeadlineCollection v s)) = ee_interrupt (ee s)"
  "ee_sCycle (ee (VitaBeginFullEeDeadlineCollection v s)) = ee_sCycle (ee s)"
  "ee_eCycle (ee (VitaBeginFullEeDeadlineCollection v s)) = ee_eCycle (ee s)"
  "nextStartCounter (ee (VitaBeginFullEeDeadlineCollection v s)) = nextStartCounter (ee s)"
  "nextDeltaCounter (ee (VitaBeginFullEeDeadlineCollection v s)) = nextDeltaCounter (ee s)"
  "ee_Status (ee (VitaBeginFullEeDeadlineCollection v s)) = ee_Status (ee s)"
  "psx (VitaBeginFullEeDeadlineCollection v s) = psx s"
  by (simp_all add: VitaBeginFullEeDeadlineCollection_def Let_def)

definition waiting :: "nat \<Rightarrow> 'z ee_sched_scheme \<Rightarrow> bool" where
  "waiting n e \<longleftrightarrow> bit (ee_interrupt e) n \<and> ee_now e < 2 ^ 62 \<and> uint (ee_sCycle e n) < ee_now e \<and>
     ee_now e < uint (ee_sCycle e n) + 2 ^ 30 \<and> 0 \<le> sint (ee_eCycle e n) \<and> sint (ee_eCycle e n) < 2 ^ 30 \<and>
     ee_now e < ee_deadline n e"

lemma not_due:
  assumes "waiting n e"
  shows "\<not> cpuTestCycle (ee_sCycle e n) (ee_eCycle e n) e"
proof -
  have "sint (since (ee_cycle e) (ee_sCycle e n)) = ee_now e - uint (ee_sCycle e n)"
    using assms unfolding waiting_def ee_now_def by (intro sint_since) auto
  then show ?thesis using assms by (auto simp: cpuTestCycle_def word_sle_eq waiting_def ee_deadline_def)
qed

lemma owner_not_lowered:
  assumes "waiting n (ee s)" "\<not> CHECK_INSTANTDMAHACK v"
  defines "s1 \<equiv> VitaBeginFullEeDeadlineCollection v s"
  shows "non_counter_cycle (ee (TESTINT v n s1)) = ee_cycle (ee s) + 0x7fffffff"
proof -
  note w = assms(1) [unfolded waiting_def]
  have "waiting n (ee s1)"
    using assms(1) by (simp add: waiting_def s1_def begin_simps ee_now_def ee_deadline_def)
  then have "TESTINT v n s1 = wee (cpuSetNextEvent (ee_sCycle (ee s) n) (ee_eCycle (ee s) n)) s1"
    using assms(2) not_due [of n "ee s1"] w
    by (simp add: TESTINT_def s1_def begin_simps wee_def)
  moreover have "sint (since (ee_cycle (ee s) + 0x7fffffff) (ee_sCycle (ee s) n)) < 0"
    using w far_owner [of "ee s"] sint_since_wraps [of "ee_cycle (ee s) + 0x7fffffff" "ee_sCycle (ee s) n"] by simp
  ultimately show ?thesis
    using w by (simp add: cpuSetNextEvent_def Let_def s1_def begin_simps word_sless_alt)
qed


lemma scheduled_owner:
  assumes w: "waiting n (ee s)" and hack: "\<not> CHECK_INSTANTDMAHACK v"
    and c: "uint (nextStartCounter (ee s)) \<le> ee_now (ee s)" "0 \<le> sint (nextDeltaCounter (ee s))"
      "sint (nextDeltaCounter (ee s)) < 2 ^ 30" "ee_now (ee s) < uint (nextStartCounter (ee s)) + sint (nextDeltaCounter (ee s))"
  defines "s1 \<equiv> wee (\<lambda>e. cpuSetNextCounterEvent (nextStartCounter e) (nextDeltaCounter e) e)
      (TESTINT v n (VitaBeginFullEeDeadlineCollection v s))"
  shows "uint (owner_cycle (ee s1)) = uint (nextStartCounter (ee s)) + sint (nextDeltaCounter (ee s))"
    "ee_cycle (ee s1) = ee_cycle (ee s)" "ee_interrupt (ee s1) = ee_interrupt (ee s)"
    "ee_sCycle (ee s1) = ee_sCycle (ee s)" "ee_eCycle (ee s1) = ee_eCycle (ee s)"
    "nextStartCounter (ee s1) = nextStartCounter (ee s)" "nextDeltaCounter (ee s1) = nextDeltaCounter (ee s)"
    "ee_Status (ee s1) = ee_Status (ee s)"
proof -
  define s0 where "s0 = VitaBeginFullEeDeadlineCollection v s"
  have "waiting n (ee s0)"
    using w by (simp add: waiting_def s0_def begin_simps ee_now_def ee_deadline_def)
  then have test: "TESTINT v n s0 = wee (cpuSetNextEvent (ee_sCycle (ee s) n) (ee_eCycle (ee s) n)) s0"
    using hack not_due [of n "ee s0"] w
    by (simp add: TESTINT_def s0_def begin_simps wee_def waiting_def)
  have sum: "uint (nextStartCounter (ee s) + scast (nextDeltaCounter (ee s)) :: u64) =
      uint (nextStartCounter (ee s)) + sint (nextDeltaCounter (ee s))"
    using c w by (intro uint_add_scast) (auto simp: waiting_def)
  have now: "ee_now (ee s) < 2 ^ 62" using w by (simp add: waiting_def)
  have "owner_cycle (ee s1) = min (ee_cycle (ee s) + 0x7fffffff) (nextStartCounter (ee s) + scast (nextDeltaCounter (ee s)))"
    using owner_not_lowered [OF w hack, folded s0_def]
    by (simp add: s1_def s0_def [symmetric] cpuSetNextCounterEvent_def Let_def test) (simp add: s0_def begin_simps)
  then show "uint (owner_cycle (ee s1)) = uint (nextStartCounter (ee s)) + sint (nextDeltaCounter (ee s))"
    using far_owner [OF now] sum c by (simp add: min_word_uint)
  show "ee_cycle (ee s1) = ee_cycle (ee s)" "ee_interrupt (ee s1) = ee_interrupt (ee s)"
    "ee_sCycle (ee s1) = ee_sCycle (ee s)" "ee_eCycle (ee s1) = ee_eCycle (ee s)"
    "nextStartCounter (ee s1) = nextStartCounter (ee s)" "nextDeltaCounter (ee s1) = nextDeltaCounter (ee s)"
    "ee_Status (ee s1) = ee_Status (ee s)"
    by (simp_all add: s1_def s0_def [symmetric] test cpuSetNextCounterEvent_def Let_def) (simp_all add: s0_def begin_simps)
qed

lemma narrow_path_allowed:
  fixes r :: "'z machine" and t :: u64
  assumes only: "next_event_iop_only (ee r)" "ee_Status (ee r) AND 0x8000 = 0" "\<not> CHECK_INSTANTDMAHACK v"
    and slice: "uint (nextEventCycle (ee r)) \<le> uint t" "uint t < uint (nextEventCycle (ee r)) + 2 ^ 31"
    and owner: "uint t < uint (owner_cycle (ee r))" "uint (owner_cycle (ee r)) < uint t + 2 ^ 31"
    and counter: "uint (nextStartCounter (ee r)) \<le> uint t" "sint (nextDeltaCounter (ee r)) < 2 ^ 30"
      "uint t < uint (nextStartCounter (ee r)) + sint (nextDeltaCounter (ee r))"
    and quiet: "\<not> VuActive v ((ee r)\<lparr>ee_cycle := t\<rparr>)" "INTC_STAT (ee r) AND INTC_MASK (ee r) = 0" "dmacInterrupt (ee r) = 0"
  shows "fst (VitaCanRunIopOnlyEeInterleave v (wee (\<lambda>e. e\<lparr>ee_cycle := t\<rparr>) r))"
proof -
  have 1: "sint (since t (nextEventCycle (ee r))) = uint t - uint (nextEventCycle (ee r))"
    using slice by (intro sint_since) simp
  have 2: "sint (since (owner_cycle (ee r)) t) = uint (owner_cycle (ee r)) - uint t"
    using owner by (intro sint_since) simp
  have 3: "sint (since t (nextStartCounter (ee r))) = uint t - uint (nextStartCounter (ee r))"
    using counter by (intro sint_since) simp
  have ctr: "\<not> cpuTestCycle (nextStartCounter (ee r)) (nextDeltaCounter (ee r)) ((ee r)\<lparr>ee_cycle := t\<rparr>)"
    using 3 counter(3) by (simp add: cpuTestCycle_def word_sle_eq)
  have "dmacInterrupt ((ee r)\<lparr>ee_cycle := t\<rparr>) = dmacInterrupt (ee r)" by (simp add: dmacInterrupt_def)
  with quiet(3) have dm: "dmacInterrupt ((ee r)\<lparr>ee_cycle := t\<rparr>) = 0" by simp
  show ?thesis
    using only 1 2 dm ctr quiet(1,2) slice owner
    by (simp add: VitaCanRunIopOnlyEeInterleave_def VitaCanSkipEeOwnersAtInterleave_def Let_def word_sle_eq
        intcInterrupt_def cpuIntsEnabled_def split: prod.split)
qed

text \<open>C35: The full test forgets the deadline of an event that was raised in an earlier slice and is not
  due yet: it stays pending, but the retained owner becomes the deadline of the counters, which is
  later. Once the event is due, the boundary that ends the slice of the I/O processor still takes the
  narrow path, which does not look at the events.\<close>

theorem full_test_forgets_event:
  fixes v :: "'z ee_env" and s :: "'z machine" and d :: u32 and t :: u64
  assumes "waiting n (ee s)" "\<not> CHECK_INSTANTDMAHACK v"
    "uint (nextStartCounter (ee s)) \<le> ee_now (ee s)" "0 \<le> sint (nextDeltaCounter (ee s))"
    "sint (nextDeltaCounter (ee s)) < 2 ^ 30"
    "ee_deadline n (ee s) < uint (nextStartCounter (ee s)) + sint (nextDeltaCounter (ee s))"
  defines "r \<equiv> VitaScheduleEeAndIopDeadlines v d (wee (\<lambda>e. cpuSetNextCounterEvent (nextStartCounter e) (nextDeltaCounter e) e)
      (TESTINT v n (VitaBeginFullEeDeadlineCollection v s)))"
  shows "bit (ee_interrupt (ee r)) n \<and> ee_deadline n (ee r) = ee_deadline n (ee s) \<and>
    uint (owner_cycle (ee r)) = uint (nextStartCounter (ee s)) + sint (nextDeltaCounter (ee s)) \<and>
    (next_event_iop_only (ee r) \<and> ee_deadline n (ee s) \<le> uint t \<and> nextEventCycle (ee r) \<le> t \<and>
       uint t < uint (nextStartCounter (ee s)) + sint (nextDeltaCounter (ee s)) \<and>
       \<not> VuActive v ((ee r)\<lparr>ee_cycle := t\<rparr>) \<and> INTC_STAT (ee r) AND INTC_MASK (ee r) = 0 \<and> dmacInterrupt (ee r) = 0 \<longrightarrow>
     fst (VitaCanRunIopOnlyEeInterleave v (wee (\<lambda>e. e\<lparr>ee_cycle := t\<rparr>) r)))"
proof -
  define s1 where "s1 = wee (\<lambda>e. cpuSetNextCounterEvent (nextStartCounter e) (nextDeltaCounter e) e)
      (TESTINT v n (VitaBeginFullEeDeadlineCollection v s))"
  define dd where "dd = (scast (if d \<le>s VitaEeInterleaveCycles v s1 then d else VitaEeInterleaveCycles v s1) :: u64)"
  have r: "ee r = VitaScheduleEeAndIopDeadlineDelta dd (ee s1)"
    by (simp add: r_def s1_def [symmetric] VitaScheduleEeAndIopDeadlines_def Let_def dd_def)
  define C where "C = uint (nextStartCounter (ee s)) + sint (nextDeltaCounter (ee s))"
  have w: "bit (ee_interrupt (ee s)) n" "ee_now (ee s) < 2 ^ 62" "ee_now (ee s) < ee_deadline n (ee s)"
    using assms(1) by (simp_all add: waiting_def)
  have "ee_now (ee s) < C" using w(3) assms(6) by (simp add: C_def)
  note own = scheduled_owner [OF assms(1-5) this [unfolded C_def], folded s1_def, folded C_def]
  have now: "ee_now (ee s1) = ee_now (ee s)" by (simp add: ee_now_def own(2))
  have "in_reach (owner_cycle (ee s1)) (ee s1)"
    using own(1) assms(3,5) w \<open>ee_now (ee s) < C\<close> by (auto simp: in_reach_def now C_def)
  note sch = schedule_earliest [OF _ this, of dd, unfolded now, OF w(2), folded r]
  have dead: "ee_deadline n (ee r) = ee_deadline n (ee s)" by (simp add: ee_deadline_def sch own)
  have more: "nextStartCounter (ee r) = nextStartCounter (ee s)" "nextDeltaCounter (ee r) = nextDeltaCounter (ee s)"
    by (simp_all add: r VitaScheduleEeAndIopDeadlineDelta_def Let_def own)
  have "fst (VitaCanRunIopOnlyEeInterleave v (wee (\<lambda>e. e\<lparr>ee_cycle := t\<rparr>) r))"
    if only: "next_event_iop_only (ee r)" and t: "ee_deadline n (ee s) \<le> uint t" "nextEventCycle (ee r) \<le> t" "uint t < C"
      and quiet: "\<not> VuActive v ((ee r)\<lparr>ee_cycle := t\<rparr>)" "INTC_STAT (ee r) AND INTC_MASK (ee r) = 0" "dmacInterrupt (ee r) = 0"
  proof -
    have ne: "uint (nextEventCycle (ee r)) \<le> uint t" "ee_now (ee s) \<le> uint (nextEventCycle (ee r))"
      using t(2) sch(1) own(1) \<open>ee_now (ee s) < C\<close> by (simp_all add: word_le_def clamped_def)
    have st: "ee_Status (ee r) AND 0x8000 = 0" using only sch(2,8) by simp
    show ?thesis
      using only st assms(2) ne t(3) quiet assms(3,5) unfolding C_def
      by (intro narrow_path_allowed) (simp_all add: more sch(3) own(1) C_def)
  qed
  then show ?thesis using w(1) dead sch own(1) by (simp add: own C_def [symmetric])
qed


subsection \<open>A concrete machine\<close>

text \<open>Devices that do nothing, with the two schedulers linked; a machine at cycle 3000 with the event
  of SIF0 raised at cycle 1000 for cycle 6000, and the counters due at cycle 100000.\<close>

definition linked_iop :: "'z ee_sched_scheme iop_env" where
  "linked_iop = \<lparr>Main_base = 0x10000000, P_base = 0x11000000, Sif_base = 0x11010000, iopHw_base = 0x11020000,
     eeHw_base = 0x11030000, ROM_base = 0x12000000, ROM1_base = 0x12400000, ROM2_base = 0x12800000,
     ExposedIopRam = 0x200000, HwRead = \<lambda>_ _ _ s. (0, s), HwWrite = \<lambda>_ _ _ _ s. s, cdvdRead = \<lambda>_ s. (0, s),
     cdvdWrite = \<lambda>_ _ s. s, DEV9read = \<lambda>_ _ s. (0, s), DEV9write = \<lambda>_ _ _ s. s, SPU2read = \<lambda>_ s. (0, s),
     SPU2write = \<lambda>_ _ s. s, psxDma = \<lambda>_ _ _ _ s. s, psxCpu_Clear = None, GteCommand = \<lambda>_ p. p,
     NotifyIopPcDiscontinuity = id, HwResetDevices = id, BiosReset = id, psxRcntUpdate = id,
     IopCallback = \<lambda>_ s. s, IopRetainedWaitCoalescingActive = \<lambda>_. False,
     cpuSetNextEventDelta = ee_cpuSetNextEventDelta, eeEventTestIsActive = ee_test_active,
     float_to_s32_overflow = 0, irxImportExec = \<lambda>_ _ s. (0, s), psxBiosCall = id,
     RecordIopPreInstruction = \<lambda>_ _ d. (False, d), InjectIRX = False, ClearIrxModules = id, Cpu_ExitExecution = id\<rparr>"

definition calm :: "'z ee_env" where
  "calm = \<lparr>iop_part = linked_iop, CHECK_INSTANTDMAHACK = False, CHECK_EETIMINGHACK = False, ee_callback = \<lambda>_ s. s,
     hold_counters = id, cpuException = \<lambda>_ s. s, ExecuteIopTimeslice = \<lambda>_ s. (0, s), rcntUpdate = id, cpuTestPERF = id,
     cpuTestTIMR = id, VuActive = \<lambda>_. False, VuSync = id, GetNextNonHsyncCounterCycle = \<lambda>e. ee_cycle e + 100000,
     FoldSilentHsyncBefore = \<lambda>_ s. s,
     ConsumeCertificate = \<lambda>s. (\<lparr>origin = NoOrigin, ram_range_count = 0, ram_write_observed = 0\<rparr>, s),
     FinishCertificate = id\<rparr>"

definition start_ee :: ee_sched where
  "start_ee = \<lparr>ee_cycle = 3000, nextEventCycle = 6000, lastEventCycle = 0, cpu_pc = 0x100000, ee_interrupt = push_bit 5 1,
     dmastall = 0, ee_sCycle = (\<lambda>_. 0)(5 := 1000), ee_eCycle = (\<lambda>_. 0)(5 := 5000), ee_Status = 0,
     eeRunInterruptScan = INT_NOT_RUNNING, ee_test_active = False, EEsCycle = 0, EEoCycle = 3000,
     nextStartCounter = 0, nextDeltaCounter = 100000, owner_cycle = 6000, non_counter_cycle = 6000,
     counter_cycle = 100000, next_event_iop_only = False, INTC_STAT = 0, INTC_MASK = 0, DMAC_CTRL = 1,
     DMAC_STAT = 0, DMAC_ENABLER = 0\<rparr>"

definition start_machine :: "ee_sched \<Rightarrow> unit machine" where
  "start_machine e = \<lparr>psx = psxRegs_zero\<lparr>iopNextEventCycle := 384\<rparr>, iopIsDelaySlot = False, iopEventAction = False,
     iopEventTestIsActive = False, psxNextStartCounter = 0, psxNextDeltaCounter = 1000, PSXCLK = 36864000,
     psxMemWLUT = \<lambda>_. 0, iopHost = \<lambda>_. 0, iopDev = e\<rparr>"

lemma start_pending: "bit (ee_interrupt start_ee) n \<longleftrightarrow> n = 5"
proof -
  have "ee_interrupt start_ee = push_bit 5 1" by (simp only: start_ee_def ee_sched.simps)
  then show ?thesis by (simp only: bit_push_bit_iff) (auto simp: bit_1_iff)
qed

lemma start_covers: "owner_covers start_ee"
  unfolding owner_covers_def start_pending
  by (simp add: ee_window_def in_reach_def ee_now_def ee_deadline_def start_ee_def)

lemma cpu_int_publishes_witness:
  "uint (nextEventCycle (ee (CPU_INT calm 6 100 (start_machine start_ee)))) = 3100"
  using cpu_int_publishes [of "start_machine start_ee" 100 calm 6] start_covers
  by (simp add: start_machine_def calm_def start_ee_def ee_now_def)





lemma full_test_forgets_event_witness:
  "uint (owner_cycle (ee (VitaScheduleEeAndIopDeadlines calm 3072
      (wee (\<lambda>e. cpuSetNextCounterEvent (nextStartCounter e) (nextDeltaCounter e) e)
        (TESTINT calm 5 (VitaBeginFullEeDeadlineCollection calm (start_machine start_ee))))))) = 100000 \<and>
   ee_deadline 5 start_ee = 6000"
  using full_test_forgets_event [of 5 "start_machine start_ee" calm 3072 6072] start_pending [of 5]
  by (simp add: waiting_def start_machine_def start_ee_def ee_now_def ee_deadline_def calm_def)

end
