(* ===== verification/DMAC_Props.thy ===== *)
theory DMAC_Props
  imports DMAC EE_Sched_Props
begin

text \<open>
  The DMA controller: the addresses it may use, the address stack of a chain as a call stack, and
  the starts it queues.
\<close>

subsection \<open>Bit fields\<close>

lemma set_field_bits: "bit (set_field lo width x w) i \<longleftrightarrow>
    (if lo \<le> i \<and> i < lo + width \<and> i < 32 then bit x (i - lo) else bit w i)"
  by (auto simp: set_field_def bit_simps dest: bit_imp_le_length)

lemma str_fields [simp]:
  "chcr_STR (chcr (set_STR b c)) = b" "chcr_STR (chcr (chcrTransfer tag c)) = chcr_STR (chcr c)"
  "chcr_STR (chcr (qwcTransfer tag c)) = chcr_STR (chcr c)" "qwc (set_STR b c) = qwc c"
  "qwc (qwcTransfer tag c) = tag_QWC tag" "chcr (qwcTransfer tag c) = chcr c"
  by (simp_all add: set_STR_def chcrTransfer_def qwcTransfer_def set_field_bits)

lemma field_set_field:
  assumes "lo + width \<le> 32"
  shows "field lo width (set_field lo width x w) = take_bit width x"
  using assms by (intro bit_eqI) (auto simp: field_def set_field_bits bit_simps)

lemma field_other:
  assumes "lo + width \<le> lo' \<or> lo' + width' \<le> lo"
  shows "field lo width (set_field lo' width' x w) = field lo width w"
  using assms by (intro bit_eqI) (auto simp: field_def set_field_bits bit_simps)

subsection \<open>Calls nest\<close>

text \<open>A walk over tags with all the data of each moved before the next; calls balanced by returns,
  nested at most \<open>n\<close> deep.\<close>

fun chain_walk :: "(u32 \<times> u32) list \<Rightarrow> DMACh \<Rightarrow> bool \<times> DMACh" where
  "chain_walk [] c = (False, c)"
| "chain_walk ((tag, addr) # rest) c =
    (case chain_tag tag addr c of (stop, c1) \<Rightarrow> if stop then (True, c1) else chain_walk rest (incGifChAddr (qwc c1) c1))"

inductive balanced :: "nat \<Rightarrow> (u32 \<times> u32) list \<Rightarrow> bool" where
  balanced_Nil: "balanced n []"
| balanced_plain: "tag_ID tag \<in> {TAG_CNT, TAG_NEXT, TAG_REF, TAG_REFS} \<Longrightarrow> balanced n rest \<Longrightarrow> balanced n ((tag, addr) # rest)"
| balanced_call: "tag_ID call = TAG_CALL \<Longrightarrow> tag_ID ret = TAG_RET \<Longrightarrow> balanced n body \<Longrightarrow> balanced (Suc n) rest \<Longrightarrow>
    balanced (Suc n) ((call, addr) # body @ (ret, addr') # rest)"

text \<open>How many addresses the stack holds, and those addresses.\<close>

definition depth :: "DMACh \<Rightarrow> nat" where
  "depth c = unat (chcr_ASP (chcr c))"

definition same_stack :: "DMACh \<Rightarrow> DMACh \<Rightarrow> bool" where
  "same_stack c c' \<longleftrightarrow> depth c' = depth c \<and> (1 \<le> depth c \<longrightarrow> asr0 c' = asr0 c) \<and> (2 \<le> depth c \<longrightarrow> asr1 c' = asr1 c)"

lemma same_stack_trans: "same_stack a b \<Longrightarrow> same_stack b c \<Longrightarrow> same_stack a c"
  by (auto simp: same_stack_def)

lemma chain_walk_append:
  "chain_walk (xs @ ys) c = (case chain_walk xs c of (stop, c1) \<Rightarrow> if stop then (True, c1) else chain_walk ys c1)"
  by (induction xs arbitrary: c) (auto split: prod.splits)

lemma transfer_keeps:
  "chcr_ASP (chcr (unsafeTransfer tag c)) = chcr_ASP (chcr c)" "asr0 (unsafeTransfer tag c) = asr0 c"
  "asr1 (unsafeTransfer tag c) = asr1 c" "tadr (unsafeTransfer tag c) = tadr c" "qwc (unsafeTransfer tag c) = tag_QWC tag"
  "field 28 3 (chcr (unsafeTransfer tag c)) = tag_ID tag"
proof -
  show "field 28 3 (chcr (unsafeTransfer tag c)) = tag_ID tag"
    by (rule bit_eqI) (auto simp: unsafeTransfer_def chcrTransfer_def qwcTransfer_def field_def set_field_bits bit_simps)
qed (simp_all add: unsafeTransfer_def chcrTransfer_def qwcTransfer_def field_other)

lemma advance_keeps:
  "chcr (incGifChAddr k c) = chcr c" "asr0 (incGifChAddr k c) = asr0 c" "asr1 (incGifChAddr k c) = asr1 c"
  by (simp_all add: incGifChAddr_def hwDmacSrcTadrInc_def)

text \<open>Only a CNT tag moves the tag address when the data has been moved.\<close>

lemma advance_tadr:
  assumes "field 28 3 (chcr c) \<noteq> TAG_CNT"
  shows "tadr (incGifChAddr k c) = tadr c"
proof -
  have "drop_bit 12 (chcr_TAG (chcr c)) AND 0x7 = field 28 3 (chcr c)"
    by (rule bit_eqI) (auto simp: field_def bit_simps numeral_eq_Suc less_Suc_eq)
  then show ?thesis using assms by (simp add: incGifChAddr_def hwDmacSrcTadrInc_def)
qed

text \<open>A plain tag, a call with room on the stack and a return from a call do not stop the chain.\<close>

lemma plain_tag:
  assumes "tag_ID tag \<in> {TAG_CNT, TAG_NEXT, TAG_REF, TAG_REFS}" "chain_tag tag addr c = (stop, c1)"
  shows "\<not> stop" "same_stack c (incGifChAddr k c1)"
  using assms by (auto simp: chain_tag_def hwDmacSrcChainWithStack_def same_stack_def depth_def advance_keeps transfer_keeps)

lemma asp_of_depth: "chcr_ASP (chcr c) = word_of_nat (depth c)"
  by (simp add: depth_def)

lemma call_tag:
  assumes "tag_ID tag = TAG_CALL" "depth c < 2" "chain_tag tag addr c = (stop, c1)"
  shows "\<not> stop" "depth (incGifChAddr k c1) = Suc (depth c)"
    "depth c = 0 \<Longrightarrow> asr0 (incGifChAddr k c1) = tadr c + 16 + push_bit 4 (tag_QWC tag)"
    "depth c = 1 \<Longrightarrow> asr1 (incGifChAddr k c1) = tadr c + 16 + push_bit 4 (tag_QWC tag)"
    "1 \<le> depth c \<Longrightarrow> asr0 (incGifChAddr k c1) = asr0 c"
proof -
  have "depth c = 0 \<or> depth c = 1" using assms(2) by auto
  then consider "chcr_ASP (chcr c) = 0" | "chcr_ASP (chcr c) = 1" using asp_of_depth [of c] by auto
  note cases = this
  have run: "chain_tag tag addr c = (False, (set_ASP (chcr_ASP (chcr c) + 1)
      ((if chcr_ASP (chcr c) = 0 then asr0_update else asr1_update) (\<lambda>_. tadr c + 16 + push_bit 4 (tag_QWC tag))
        ((unsafeTransfer tag c)\<lparr>madr := tadr c + 16\<rparr>)))\<lparr>tadr := addr\<rparr>)"
    using cases assms(1) by cases (simp_all add: chain_tag_def hwDmacSrcChainWithStack_def transfer_keeps Let_def)
  show "\<not> stop" using run assms(3) by simp
  have asp: "chcr_ASP (chcr (incGifChAddr k c1)) = take_bit 2 (chcr_ASP (chcr c) + 1)"
    using run assms(3) by (auto simp: advance_keeps set_ASP_def field_set_field)
  show "depth (incGifChAddr k c1) = Suc (depth c)"
    unfolding depth_def asp using cases by cases (simp_all add: take_bit_eq_mod)
  show "asr0 (incGifChAddr k c1) = tadr c + 16 + push_bit 4 (tag_QWC tag)" if "depth c = 0"
    using that run assms(3) by (auto simp: advance_keeps set_ASP_def depth_def unat_eq_0 transfer_keeps)
  show "asr1 (incGifChAddr k c1) = tadr c + 16 + push_bit 4 (tag_QWC tag)" if "depth c = 1"
    using that run assms(3) by (auto simp: advance_keeps set_ASP_def depth_def transfer_keeps)
  show "asr0 (incGifChAddr k c1) = asr0 c" if "1 \<le> depth c"
    using that run assms(3) by (auto simp: advance_keeps set_ASP_def depth_def transfer_keeps)
qed

lemma return_tag:
  assumes "tag_ID tag = TAG_RET" "1 \<le> depth c" "depth c \<le> 2" "chain_tag tag addr c = (stop, c1)"
  shows "\<not> stop" "Suc (depth (incGifChAddr k c1)) = depth c"
    "tadr (incGifChAddr k c1) = (if depth c = 1 then asr0 c else asr1 c)"
    "depth c = 2 \<Longrightarrow> asr0 (incGifChAddr k c1) = asr0 c"
proof -
  have "depth c = 1 \<or> depth c = 2" using assms(2,3) by auto
  then consider "chcr_ASP (chcr c) = 1" | "chcr_ASP (chcr c) = 2" using asp_of_depth [of c] by auto
  note cases = this
  have run: "chain_tag tag addr c = (False, set_ASP (chcr_ASP (chcr c) - 1)
      (if chcr_ASP (chcr c) = 1 then (unsafeTransfer tag c)\<lparr>madr := tadr c + 16, tadr := asr0 c, asr0 := 0\<rparr>
       else (unsafeTransfer tag c)\<lparr>madr := tadr c + 16, tadr := asr1 c, asr1 := 0\<rparr>))"
    using cases assms(1) by cases (simp_all add: chain_tag_def hwDmacSrcChainWithStack_def transfer_keeps Let_def)
  show "\<not> stop" using run assms(4) by simp
  have asp: "chcr_ASP (chcr (incGifChAddr k c1)) = take_bit 2 (chcr_ASP (chcr c) - 1)"
    using run assms(4) by (auto simp: advance_keeps set_ASP_def field_set_field)
  show "Suc (depth (incGifChAddr k c1)) = depth c"
    unfolding depth_def asp using cases by cases (simp_all add: take_bit_eq_mod)
  have id: "field 28 3 (chcr c1) \<noteq> TAG_CNT"
    using run assms(1,4) by (auto simp: set_ASP_def field_other transfer_keeps)
  show "tadr (incGifChAddr k c1) = (if depth c = 1 then asr0 c else asr1 c)"
    unfolding advance_tadr [OF id] using cases run assms(4) by cases (auto simp: set_ASP_def depth_def transfer_keeps)
  show "asr0 (incGifChAddr k c1) = asr0 c" if "depth c = 2"
    using that run assms(4) by (auto simp: advance_keeps set_ASP_def depth_def transfer_keeps)
qed

lemma call_block:
  assumes "tag_ID call = TAG_CALL" "tag_ID ret = TAG_RET" "depth c < 2"
    and body: "\<And>c. depth c + n \<le> 2 \<Longrightarrow> \<exists>c'. chain_walk body c = (False, c') \<and> same_stack c c'"
    and room: "depth c + Suc n \<le> 2"
  shows "\<exists>c'. chain_walk ((call, addr) # body @ [(ret, addr')]) c = (False, c') \<and> same_stack c c' \<and>
    tadr c' = tadr c + 16 + push_bit 4 (tag_QWC call)"
proof -
  obtain s1 c1 where t1: "chain_tag call addr c = (s1, c1)" by fastforce
  define d where "d = incGifChAddr (qwc c1) c1"
  note call = call_tag [OF assms(1,3) t1]
  have up: "depth d = Suc (depth c)" by (simp add: d_def call(2))
  with body [of d] room obtain e where e: "chain_walk body d = (False, e)" "same_stack d e" by auto
  then have deep: "depth e = Suc (depth c)" "asr0 e = asr0 d" "depth c = 1 \<Longrightarrow> asr1 e = asr1 d"
    using up by (auto simp: same_stack_def)
  obtain s2 c2 where t2: "chain_tag ret addr' e = (s2, c2)" by fastforce
  have "1 \<le> depth e" "depth e \<le> 2" using deep assms(3) by auto
  note ret = return_tag [OF assms(2) this t2]
  have "chain_walk ((call, addr) # body @ [(ret, addr')]) c = (False, incGifChAddr (qwc c2) c2)"
    using t1 call(1) e(1) t2 ret(1) by (simp add: chain_walk_append d_def)
  moreover have "same_stack c (incGifChAddr (qwc c2) c2)"
    using ret(2) [of "qwc c2"] ret(4) [of "qwc c2"] deep(1,2) call(5) assms(3) by (auto simp: same_stack_def d_def)
  moreover have "tadr (incGifChAddr (qwc c2) c2) = tadr c + 16 + push_bit 4 (tag_QWC call)"
    using ret(3) deep call(3,4) assms(3) by (cases "depth c = 0") (auto simp: d_def)
  ultimately show ?thesis by blast
qed

lemma balanced_walk:
  assumes "balanced n tags" "depth c + n \<le> 2"
  shows "\<exists>c'. chain_walk tags c = (False, c') \<and> same_stack c c'"
  using assms
proof (induction arbitrary: c)
  case (balanced_Nil n)
  then show ?case by (simp add: same_stack_def)
next
  case (balanced_plain tag n rest addr)
  obtain stop c1 where t: "chain_tag tag addr c = (stop, c1)" by fastforce
  note plain = plain_tag [OF balanced_plain.hyps(1) t]
  have "depth (incGifChAddr (qwc c1) c1) + n \<le> 2"
    using plain(2) [of "qwc c1"] balanced_plain.prems by (simp add: same_stack_def)
  from balanced_plain.IH [OF this] plain show ?case
    by (auto simp: t intro: same_stack_trans)
next
  case (balanced_call call ret n body rest addr addr')
  have "\<exists>c'. chain_walk ((call, addr) # body @ [(ret, addr')]) c = (False, c') \<and> same_stack c c' \<and>
      tadr c' = tadr c + 16 + push_bit 4 (tag_QWC call)"
    using balanced_call.prems by (intro call_block [where n = n] balanced_call) auto
  then obtain c1 where c1: "chain_walk ((call, addr) # body @ [(ret, addr')]) c = (False, c1)" "same_stack c c1" by blast
  then have "depth c1 + Suc n \<le> 2" using balanced_call.prems by (simp add: same_stack_def)
  from balanced_call.IH(2) [OF this] obtain c2 where "chain_walk rest c1 = (False, c2)" "same_stack c1 c2" by blast
  then have "chain_walk (((call, addr) # body @ [(ret, addr')]) @ rest) c = (False, c2)"
    using c1(1) by (simp only: chain_walk_append) simp
  with c1(2) \<open>same_stack c1 c2\<close> show ?case by (auto intro: same_stack_trans)
qed

text \<open>C19: The address stack of a chain works as a call stack. A CALL tag with room for its body, then
  any tags whose calls and returns are balanced, then a RET tag: the chain is never stopped, the next
  tag is read right behind the data of the CALL tag, and the stack is as it was before the call.\<close>

theorem chain_call_returns:
  assumes "tag_ID call = TAG_CALL" "tag_ID ret = TAG_RET" "depth c + Suc n \<le> 2" "balanced n body"
  shows "\<exists>c'. chain_walk ((call, addr) # body @ [(ret, addr')]) c = (False, c') \<and> same_stack c c' \<and>
    tadr c' = tadr c + 16 + push_bit 4 (tag_QWC call)"
  using assms balanced_walk by (intro call_block [where n = n]) auto

definition chain_channel :: DMACh where
  "chain_channel = \<lparr>chcr = 0x104, madr = 0, qwc = 0, tadr = 0x1000, asr0 = 0, asr1 = 0, sadr = 0\<rparr>"

definition chain_body :: "(u32 \<times> u32) list" where
  "chain_body = [(0x10000001, 0), (0x50000002, 0x3000), (0x60000000, 0), (0x20000004, 0x2500)]"

lemma chain_call_returns_witness:
  "\<exists>c'. chain_walk ((0x50000003, 0x2000) # chain_body @ [(0x60000000, 0)]) chain_channel = (False, c') \<and>
     same_stack chain_channel c' \<and> tadr c' = 0x1040"
proof -
  have "balanced 1 ((0x50000002, 0x3000) # [] @ (0x60000000, 0) # [(0x20000004, 0x2500)])"
    unfolding One_nat_def by (intro balanced.intros) (simp_all add: field_def)
  then have "balanced 1 [(0x50000002, 0x3000), (0x60000000, 0), (0x20000004, 0x2500)]" by simp
  then have "balanced 1 chain_body"
    unfolding chain_body_def by (rule balanced_plain [rotated]) (simp add: field_def)
  moreover have "tadr chain_channel + 16 + push_bit 4 (tag_QWC 0x50000003) = 0x1040"
    by (simp add: chain_channel_def field_def)
  ultimately show ?thesis
    using chain_call_returns [of "0x50000003" "0x60000000" chain_channel 1 chain_body "0x2000" 0]
    by (simp add: field_def depth_def chain_channel_def del: chain_walk.simps)
qed

subsection \<open>A concrete environment\<close>

definition dma_calm :: "'y dma_env" where
  "dma_calm = \<lparr>cpu = calm, ee_Main = 0x20000000, ee_Scratch = 0x22000000, ee_ZeroRead = 0x23000000,
     ee_ZeroWrite = 0x23100000, ExposedRam = 0x2000000, start_dma = \<lambda>_ s. s, NotifyA32EeRamWrite = \<lambda>_ _ s. s\<rparr>"

subsection \<open>Addresses\<close>

lemma aligned_room:
  fixes a m :: u32
  assumes "a AND 0xf = 0" "m AND 0xf = 0" "a < m"
  shows "unat a + 16 \<le> unat m"
proof -
  have mod: "unat (w AND 0xf) = unat w mod 16" for w :: u32
  proof -
    have "w AND 0xf = take_bit 4 w" by (simp add: take_bit_eq_mask mask_eq_exp_minus_1)
    then have "unat (w AND 0xf) = take_bit 4 (unat w)" by (simp only: unsigned_take_bit_eq)
    then show ?thesis by (simp add: take_bit_eq_mod)
  qed
  have "unat a mod 16 = 0" "unat m mod 16 = 0" using assms(1,2) mod by (metis unat_0)+
  then have "16 dvd unat m - unat a" by (simp add: dvd_diff_nat mod_0_imp_dvd)
  moreover have "0 < unat m - unat a" using assms(3) by (simp add: word_less_nat_alt)
  ultimately show ?thesis using assms(3) by (auto simp: word_less_nat_alt dest: dvd_imp_le)
qed

text \<open>C31: Every address a DMA channel gets has room for a quadword, on a quadword boundary, in the array
  it points into: main memory, the scratchpad or the array behind unmapped memory, and a write is
  never sent to the array that reads as zero. Only addresses behind the scratchpad are refused.\<close>

theorem dma_address_in_arrays:
  assumes "ExposedRam v AND 0xf = 0"
  shows "case dmaGetAddr v addr wr of
      None \<Rightarrow> \<not> tag_SPR addr \<and> 0x10004000 \<le> addr AND 0x1ffffff0
    | Some p \<Rightarrow> p = (if wr then ee_ZeroWrite v else ee_ZeroRead v) \<or>
        (\<exists>off. off AND 0xf = 0 \<and> (p = ee_Main v + off \<and> unat off + 16 \<le> unat (ExposedRam v) \<or>
                                    p = ee_Scratch v + off \<and> unat off + 16 \<le> 0x4000))"
proof -
  have al: "(a AND 0x1ffffff0) AND 0xf = 0" "(a AND 0x3ff0) AND 0xf = 0" for a :: u32
    by (simp_all add: and.assoc)
  have "a AND 0x3ff0 < 0x4000" for a :: u32
    using word_and_le1 [of a "0x3ff0"] by (simp add: and.commute le_less_trans)
  then have small: "unat (a AND 0x3ff0) + 16 \<le> 0x4000" for a :: u32
    using aligned_room [OF al(2), of "0x4000"] by simp
  let ?inside = "\<lambda>p. \<exists>off. off AND 0xf = 0 \<and> (p = ee_Main v + off \<and> unat off + 16 \<le> unat (ExposedRam v) \<or>
    p = ee_Scratch v + off \<and> unat off + 16 \<le> 0x4000)"
  have main: "?inside (ee_Main v + (addr AND 0x1ffffff0))" if "addr AND 0x1ffffff0 < ExposedRam v"
    using al(1) aligned_room [OF al(1) assms that] by blast
  have scratch: "?inside (ee_Scratch v + (addr AND 0x3ff0))"
    using al(2) small by blast
  show ?thesis
  proof (cases "dmaGetAddr v addr wr")
    case None
    then show ?thesis by (auto simp: dmaGetAddr_def Let_def not_less split: if_splits)
  next
    case (Some p)
    then have "p = ee_Main v + (addr AND 0x1ffffff0) \<and> addr AND 0x1ffffff0 < ExposedRam v \<or>
      p = (if wr then ee_ZeroWrite v else ee_ZeroRead v) \<or> p = ee_Scratch v + (addr AND 0x3ff0)"
      by (auto simp: dmaGetAddr_def Let_def and.assoc split: if_splits)
    then show ?thesis using main scratch unfolding Some option.case by blast
  qed
qed

lemma dma_address_in_arrays_witness:
  "dmaGetAddr dma_calm 0x81fffff4 True = Some 0x22003ff0 \<and>
   (case dmaGetAddr dma_calm 0x10004000 True of
      None \<Rightarrow> \<not> tag_SPR 0x10004000 \<and> (0x10004000 :: u32) \<le> 0x10004000 AND 0x1ffffff0
    | Some p \<Rightarrow> p = (if True then ee_ZeroWrite dma_calm else ee_ZeroRead dma_calm) \<or>
        (\<exists>off. off AND 0xf = 0 \<and> (p = ee_Main dma_calm + off \<and> unat off + 16 \<le> unat (ExposedRam dma_calm) \<or>
                                    p = ee_Scratch dma_calm + off \<and> unat off + 16 \<le> 0x4000)))"
  using dma_address_in_arrays [of dma_calm "0x10004000" True] by (simp add: dma_calm_def dmaGetAddr_def)

subsection \<open>Queued starts\<close>

lemma wee_ee [simp]: "ee (wee f s) = f (ee s)"
  by (simp add: wee_def)

lemma resume_others:
  assumes "\<forall>i \<in> set ns. \<not> bit (QueuedDMA (ee s)) i"
  shows "fold (resume_queued v) ns s = s"
  using assms by (induction ns) (auto simp: resume_queued_def)

lemma bit_single [simp]: "bit (2 ^ n :: u16) i \<longleftrightarrow> i = n \<and> n < 16"
  by (auto simp: bit_simps)

lemma resume_single:
  assumes "QueuedDMA (ee s) = 2 ^ n" "n < 10" "chcr_STR (chcr (channel (ee s) n))" "dma_enabled (ee s)"
    and "QueuedDMA (ee (start_dma v n s)) = QueuedDMA (ee s)"
  shows "StartQueuedDMA v s = set_queued n False (start_dma v n s)"
proof -
  have ns: "[0..<10] = [0..<n] @ n # [Suc n..<10]"
    using assms(2) by (metis less_imp_le_nat upt_add_eq_append upt_conv_Cons le0 le_add_diff_inverse)
  have "fold (resume_queued v) [0..<n] s = s"
    using assms(1) by (intro resume_others) auto
  moreover have "resume_queued v n s = set_queued n False (start_dma v n s)"
    using assms by (simp add: resume_queued_def QuickDmaExec_def)
  moreover have "fold (resume_queued v) [Suc n..<10] (set_queued n False (start_dma v n s)) = set_queued n False (start_dma v n s)"
    by (intro resume_others) (simp add: set_queued_def assms(1,5))
  ultimately show ?thesis unfolding StartQueuedDMA_def ns by simp
qed

text \<open>C20: A channel started while the controller is off is not lost. The start is only queued: the
  channel's registers are loaded and its device is left alone. When the controller is switched on
  the device is started, exactly once and with those registers, and the queue is empty again.\<close>

theorem queued_start_runs:
  fixes s :: "'y dmac_scheme iop"
  assumes "n < 10" "\<not> chcr_STR (chcr (channel (ee s) n))" "chcr_STR value"
    and off: "\<not> bit (DMAC_CTRL (ee s)) 0" and on: "bit ctrl 0" and running: "enabler_byte (DMAC_ENABLER (ee s)) = 0"
    and "QueuedDMA (ee s) = 0" and devices: "\<forall>t. QueuedDMA (ee (start_dma v n t)) = QueuedDMA (ee t)"
  shows "\<exists>c. chcr_STR (chcr c) \<and> chcr_MOD (chcr c) \<noteq> 3 \<and> madr c = madr (channel (ee s) n) \<and> tadr c = tadr (channel (ee s) n) \<and>
      (chcr_MOD (chcr c) = 0 \<longrightarrow> qwc c \<noteq> 0) \<and>
      DmaExec v n value s = wch n (\<lambda>_. c) (set_queued n True s) \<and>
      write_ctrl v ctrl (DmaExec v n value s) =
        set_queued n False (start_dma v n (wee (\<lambda>e. e\<lparr>DMAC_CTRL := ctrl\<rparr>) (wch n (\<lambda>_. c) (set_queued n True s))))"
proof -
  define f2 :: "DMACh \<Rightarrow> DMACh" where "f2 = (\<lambda>c. if chcr_MOD (chcr c) = 3 then c\<lparr>chcr := set_field 2 2 1 (chcr c)\<rparr> else c)"
  define f3 :: "DMACh \<Rightarrow> DMACh" where "f3 = (\<lambda>c. if chcr_STR (chcr c) \<and> chcr_MOD (chcr c) = 0 \<and> qwc c = 0 then c\<lparr>qwc := 0x10000\<rparr> else c)"
  define c where "c = f3 (f2 ((channel (ee s) n)\<lparr>chcr := value\<rparr>))"
  have c: "chcr_STR (chcr c)" "chcr_MOD (chcr c) \<noteq> 3" "madr c = madr (channel (ee s) n)" "tadr c = tadr (channel (ee s) n)"
    "chcr_MOD (chcr c) = 0 \<longrightarrow> qwc c \<noteq> 0"
    using assms(3) by (auto simp: c_def f2_def f3_def set_field_bits field_set_field)
  have load: "wch n f3 (wch n f2 (wch n (\<lambda>c. c\<lparr>chcr := value\<rparr>) s)) = wch n (\<lambda>_. c) s"
    by (simp add: wch_def wee_def c_def)
  have q: "DmaExec v n value s = wch n (\<lambda>_. c) (set_queued n True s)" (is "_ = ?t")
    using assms(2) off c(1)
    by (simp add: DmaExec_def Let_def load [unfolded f2_def f3_def] dma_enabled_def) (simp add: wch_def wee_def set_queued_def)
  let ?u = "wee (\<lambda>e. e\<lparr>DMAC_CTRL := ctrl\<rparr>) ?t"
  have "QueuedDMA (ee ?u) = 2 ^ n" using assms(7) by (simp add: wch_def set_queued_def)
  then have "StartQueuedDMA v ?u = set_queued n False (start_dma v n ?u)"
    using assms(1) c(1) on running devices
    by (intro resume_single) (simp_all add: wch_def set_queued_def dma_enabled_def)
  moreover have "bit (QueuedDMA (ee ?u)) n" using \<open>QueuedDMA (ee ?u) = 2 ^ n\<close> assms(1) by simp
  then have "QueuedDMA (ee ?u) \<noteq> 0" by auto
  ultimately have "write_ctrl v ctrl ?t = set_queued n False (start_dma v n ?u)"
    using off on by (simp add: write_ctrl_def Let_def wch_def set_queued_def)
  then show ?thesis using c q by (intro exI [of _ c]) simp
qed

text \<open>A machine with the controller off; the device of the witness clears the start bit.\<close>

definition dma_off :: "unit dmac_scheme iop" where
  "dma_off = \<lparr>psx = psxRegs_zero, iopIsDelaySlot = False, iopEventAction = False, iopEventTestIsActive = False,
     psxNextStartCounter = 0, psxNextDeltaCounter = 1000, PSXCLK = 36864000, psxMemWLUT = \<lambda>_. 0, iopHost = \<lambda>_. 0,
     iopDev = ee_sched.extend (start_ee\<lparr>DMAC_CTRL := 0\<rparr>) (dmac.fields (\<lambda>_. chain_channel\<lparr>chcr := 0x4\<rparr>) 0 0 0)\<rparr>"

definition dma_stops :: "unit dma_env" where
  "dma_stops = dma_calm\<lparr>start_dma := \<lambda>n. wch n (set_STR False)\<rparr>"

lemma queued_start_runs_witness:
  "\<exists>c. write_ctrl dma_stops 1 (DmaExec dma_stops 2 0x10c dma_off) =
     set_queued 2 False (wch 2 (set_STR False) (wee (\<lambda>e. e\<lparr>DMAC_CTRL := 1\<rparr>) (wch 2 (\<lambda>_. c) (set_queued 2 True dma_off))))"
proof -
  have "\<forall>t. QueuedDMA (ee (start_dma dma_stops 2 t)) = QueuedDMA (ee t)" "start_dma dma_stops = (\<lambda>n. wch n (set_STR False))"
    by (simp_all add: dma_stops_def wch_def)
  moreover have "\<not> chcr_STR (chcr (channel (ee dma_off) 2))" "QueuedDMA (ee dma_off) = 0" "\<not> bit (DMAC_CTRL (ee dma_off)) 0"
    "enabler_byte (DMAC_ENABLER (ee dma_off)) = 0" "chcr_STR 0x10c"
    by (simp_all add: dma_off_def ee_sched.defs dmac.defs start_ee_def chain_channel_def)
  ultimately show ?thesis using queued_start_runs [of 2 dma_off "0x10c" 1 dma_stops] by auto
qed

end
