(* ===== verification/SIF_Props.thy ===== *)
theory SIF_Props
  imports SIF_Dma DMAC_Props
begin

text \<open>
  The serial interface: what its steps keep, the invariant under which the ring never overflows and
  never runs dry, the end of the loop, and the loop that does not end.
\<close>

subsection \<open>What the other components keep\<close>

text \<open>The part of the state the engines own.\<close>

definition own :: "'w sif_part_scheme \<Rightarrow> sif \<times> sif \<times> (nat \<Rightarrow> DMACh) \<times> bool" where
  "own e = (sif0 e, sif1 e, channel e, sif1_dma_stall e)"

abbreviation owned :: "'w sif_state \<Rightarrow> sif \<times> sif \<times> (nat \<Rightarrow> DMACh) \<times> bool" where
  "owned s \<equiv> own (ee s)"

text \<open>The contract of the code outside the engines: the notices of writes and the event of the other
  scheduler leave that part alone.\<close>

definition sif_devices :: "'w sif_env \<Rightarrow> bool" where
  "sif_devices v \<longleftrightarrow>
     (\<forall>p n s. owned (NotifyA32EeRamWrite v p n s) = owned s) \<and>
     (\<forall>d e. own (cpuSetNextEventDelta (iop_part (cpu v)) d e) = own e) \<and>
     (\<forall>a n s. owned (iopMemNotifyWrite (iop_part (cpu v)) a n s) = owned s)"

lemma ee_keeps [simp]:
  "iopDev (wpsx f s) = iopDev s" "iopDev (hput a x s) = iopDev s" "iopDev (wr v off y t) = iopDev t"
  "iopDev (put_words p ws t) = iopDev t" "iopDev (sbus_f240 v g t) = iopDev t" "iopDev (break_iop u) = iopDev u"
  by (simp_all add: wpsx_def hput_def wr_def put_words_def sbus_f240_def break_iop_def)

lemma own_updates [simp]:
  "own (ee_cpuSetNextEventDelta d e) = own e" "own (CPU_SET_DMASTALL n b e) = own e"
  "own (e\<lparr>DMAC_STAT := x\<rparr>) = own e" "own (e\<lparr>DMAC_STADR := x\<rparr>) = own e" "own (e\<lparr>ee_interrupt := y\<rparr>) = own e"
  "own (e\<lparr>ee_sCycle := t\<rparr>) = own e" "own (e\<lparr>ee_eCycle := u\<rparr>) = own e" "own (e\<lparr>eeRunInterruptScan := r\<rparr>) = own e"
  by (simp_all add: own_def ee_cpuSetNextEventDelta_def cpuSetNextEvent_def VitaRefreshCombinedEeOwner_def Let_def
    CPU_SET_DMASTALL_def)

lemma owned_stadr [simp]: "owned (set_stadr a s) = owned s"
  by (simp add: set_stadr_def)

lemma owned_raise [simp]: "owned (raise_exception_test s) = owned s"
  by (simp add: raise_exception_test_def Let_def)

lemma owned_dmac_ints [simp]: "owned (cpuTestDMACInts s) = owned s"
  by (simp add: cpuTestDMACInts_def)

lemma owned_dmac_irq [simp]: "owned (hwDmacIrq n s) = owned s"
  by (simp add: hwDmacIrq_def Let_def)

lemma owned_cpu_int [simp]: "owned (CPU_INT c n ecycle s) = owned s"
  unfolding CPU_INT_def Let_def by simp

lemma owned_bus_error [simp]: "owned (setDmacStat n s) = owned s" "owned (throwBusError s) = owned s"
  by (simp_all add: setDmacStat_def throwBusError_def)

lemma owned_psx_int: "sif_devices v \<Longrightarrow> owned (iop_int v n c s) = owned s"
  by (simp add: iop_int_def PSX_INT_def Let_def sif_devices_def)

lemma owned_notify: "sif_devices v \<Longrightarrow> owned (NotifyA32EeRamWrite v p n s) = owned s"
  "sif_devices v \<Longrightarrow> owned (iopMemNotifyWrite (iop_part (cpu v)) a m s) = owned s"
  by (simp_all add: sif_devices_def)

lemma owned_iop_irq: "sif_devices v \<Longrightarrow> owned (psxDmaInterrupt2 v n s) = owned s"
  by (simp add: psxDmaInterrupt2_def iopIntcIrq_def iopTestIntc_def Let_def sif_devices_def)

text \<open>What the two record updates do.\<close>

lemma w0_simps [simp]:
  "S0 (w0 f s) = f (S0 s)" "S1 (w0 f s) = S1 s" "channel (ee (w0 f s)) = channel (ee s)"
  "sif1_dma_stall (ee (w0 f s)) = sif1_dma_stall (ee s)"
  by (simp_all add: w0_def)

lemma w1_simps [simp]:
  "S1 (w1 f s) = f (S1 s)" "S0 (w1 f s) = S0 s" "channel (ee (w1 f s)) = channel (ee s)"
  "sif1_dma_stall (ee (w1 f s)) = sif1_dma_stall (ee s)"
  by (simp_all add: w1_def)

lemma wch_simps [simp]:
  "S0 (wch n f s) = S0 s" "S1 (wch n f s) = S1 s" "channel (ee (wch n f s)) = (channel (ee s))(n := f (channel (ee s) n))"
  "sif1_dma_stall (ee (wch n f s)) = sif1_dma_stall (ee s)"
  by (simp_all add: wch_def)

lemma owned_fields:
  assumes "owned s' = owned s"
  shows "S0 s' = S0 s" "S1 s' = S1 s" "channel (ee s') = channel (ee s)" "sif1_dma_stall (ee s') = sif1_dma_stall (ee s)"
  using assms by (simp_all add: own_def)

lemma own_fields:
  assumes "own e' = own e"
  shows "sif0 e' = sif0 e" "sif1 e' = sif1 e" "channel e' = channel e" "sif1_dma_stall e' = sif1_dma_stall e"
  using assms by (simp_all add: own_def)

lemmas keeps = owned_fields [OF owned_stadr] owned_fields [OF owned_dmac_irq] own_fields [OF own_updates(2)]
  owned_fields [OF owned_cpu_int] owned_fields [OF owned_bus_error(1)] owned_fields [OF owned_bus_error(2)]

declare keeps [simp]


subsection \<open>The invariant of SIF0\<close>

text \<open>The words of a packet still to come and the junk that pads it complete the ring's contents to
  whole quadwords.\<close>

definition sif0_inv :: "sif \<Rightarrow> bool" where
  "sif0_inv x \<longleftrightarrow> fifo_valid (fifo x) \<and> readPos (fifo x) mod 4 = 0 \<and> 0 \<le> counter x \<and> counter x < 2 ^ 20 \<and>
     0 \<le> writeJunk x \<and> writeJunk x \<le> 3 \<and> (fifo_size (fifo x) + counter x + writeJunk x) mod 4 = 0"

definition settled :: "sif \<Rightarrow> bool" where
  "settled x \<longleftrightarrow> sif0_inv x \<and> (counter x = 0 \<and> sif_free (fifo x) > 0 \<longrightarrow> writeJunk x = 0)"

text \<open>The work left once the last tag of the I/O processor has been read.\<close>

definition sif0_work :: "'w sif_state \<Rightarrow> int" where
  "sif0_work s = 2 * (counter (S0 s) + writeJunk (S0 s)) + fifo_size (fifo (S0 s)) + of_bool (iop_busy (S0 s)) +
     of_bool (ee_busy (S0 s)) + of_bool (chcr_STR (chcr (sif0ch s)))"

definition sif0_ending :: "'w sif_state \<Rightarrow> bool" where
  "sif0_ending s \<longleftrightarrow> (iop_busy (S0 s) \<longrightarrow> iop_end (S0 s)) \<and> 0 \<le> sint (qwc (sif0ch s))"

definition progress :: "bool \<Rightarrow> 'w sif_state \<Rightarrow> 'w sif_state \<Rightarrow> bool" where
  "progress b s s' \<longleftrightarrow> (sif0_ending s \<longrightarrow> sif0_ending s' \<and> sif0_work s' + of_bool b \<le> sif0_work s)"

lemma turn_progress_refl: "progress False s s"
  by (simp add: progress_def)

lemma turn_progress_trans: "progress b s s' \<Longrightarrow> progress b' s' s'' \<Longrightarrow> progress (b \<or> b') s s''"
  by (auto simp: progress_def of_bool_def split: if_splits)

lemma and_3: "a AND 3 = a mod 4" for a :: int
  using take_bit_eq_mask [of 2 a] by (simp add: mask_eq_exp_minus_1 take_bit_eq_mod)

lemma tag_words: "0 \<le> uint (w AND 0xFFFFF :: u32)" "uint (w AND 0xFFFFF :: u32) < 2 ^ 20"
proof -
  have *: "w AND 0xFFFFF = take_bit 20 w" by (simp add: take_bit_eq_mask mask_eq_exp_minus_1)
  show "uint (w AND 0xFFFFF) < 2 ^ 20" unfolding * unsigned_take_bit_eq by (rule take_bit_int_less_exp)
qed simp

lemma length_words_at [simp]: "length (words_at p n s) = n"
  by (simp add: words_at_def)

lemma writePos_mod_4: "fifo_valid f \<Longrightarrow> writePos f mod 4 = (readPos f + fifo_size f) mod 4"
  by (simp add: fifo_valid_pos mod_mod_cancel)

lemma sif0_junk_ok:
  assumes "sif0_inv (S0 s)"
  shows "\<exists>s'. sif0_junk s = Some s' \<and> settled (S0 s') \<and> progress False s s'"
proof -
  let ?x = "S0 s"
  have v: "fifo_valid (fifo ?x)" using assms by (simp add: sif0_inv_def)
  note r = fifo_valid_range [OF v]
  show ?thesis
  proof (cases "counter ?x = 0 \<and> writeJunk ?x \<noteq> 0 \<and> sif_free (fifo ?x) \<ge> writeJunk ?x")
    case True
    have "(writePos (fifo ?x) + writeJunk ?x) mod 4 = 0"
    proof -
      have "readPos (fifo ?x) mod 4 = 0" "(fifo_size (fifo ?x) + writeJunk ?x) mod 4 = 0"
        using assms True by (simp_all add: sif0_inv_def)
      with writePos_mod_4 [OF v] show ?thesis by presburger
    qed
    with True assms obtain f where f: "sif_writeJunk (writeJunk ?x) (fifo ?x) = Some f" "fifo_valid f"
        "fifo_size f = fifo_size (fifo ?x) + writeJunk ?x" "readPos f = readPos (fifo ?x)"
      using sif_writeJunk_ok [OF v, of "writeJunk ?x"] by (auto simp: sif0_inv_def)
    then show ?thesis using True assms
      by (auto simp: sif0_junk_def settled_def sif0_inv_def progress_def sif0_ending_def sif0_work_def)
  next
    case False
    have "writeJunk ?x = 0" if "counter ?x = 0" "sif_free (fifo ?x) > 0"
    proof -
      have "(fifo_size (fifo ?x) + writeJunk ?x) mod 4 = 0" "0 \<le> writeJunk ?x" "writeJunk ?x \<le> 3"
        using assms that(1) by (simp_all add: sif0_inv_def)
      then show ?thesis using False that unfolding sif_free_def by presburger
    qed
    with False assms show ?thesis by (auto simp: sif0_junk_def settled_def turn_progress_refl)
  qed
qed

lemma ProcessIOPTag_ok:
  assumes x: "settled (S0 s)" and go: "counter (S0 s) = 0" "sif_free (fifo (S0 s)) > 0"
  shows "\<exists>s'. ProcessIOPTag v s = Some s' \<and> sif0_inv (S0 s')"
proof -
  let ?x = "S0 s"
  have v: "fifo_valid (fifo ?x)" and junk: "writeJunk ?x = 0" using x go by (simp_all add: settled_def sif0_inv_def)
  have al: "fifo_size (fifo ?x) mod 4 = 0" using x go junk by (simp add: settled_def sif0_inv_def)
  define s1 where "s1 = w0 (\<lambda>x. x\<lparr>sif_data := words_at (iopPhysMem v (rd v DMA9_TADR s)) 2 s ! 0,
      sif_words := words_at (iopPhysMem v (rd v DMA9_TADR s)) 2 s ! 1\<rparr>) s"
  define ws where "ws = words_at (iopPhysMem v (rd v DMA9_TADR s1 + 8)) 4 s1"
  define a t where "a = words_at (iopPhysMem v (rd v DMA9_TADR s)) 2 s ! 0" "t = words_at (iopPhysMem v (rd v DMA9_TADR s)) 2 s ! 1"
  have s1: "S0 s1 = ?x\<lparr>sif_data := a, sif_words := t\<rparr>" unfolding s1_def a_t_def by (simp only: w0_simps)
  have "4 \<le> sif_free (fifo ?x)" using go(2) al unfolding sif_free_def by presburger
  then obtain f where f: "sif_write ws 4 (fifo ?x) = Some f" "fifo_valid f" "fifo_size f = fifo_size (fifo ?x) + 4"
      "readPos f = readPos (fifo ?x)"
    using sif_write_ok [OF v, of 4 ws] by (auto simp: ws_def)
  define c where "c = uint (t AND 0xFFFFF)"
  have c: "0 \<le> c" "c < 2 ^ 20" unfolding c_def by (rule tag_words)+
  have "(fifo_size (fifo ?x) + 4 + c + (if c AND 3 \<noteq> 0 then (4 - c) AND 3 else 0)) mod 4 = 0"
    "0 \<le> (if c AND 3 \<noteq> 0 then (4 - c) AND 3 else 0)" "(if c AND 3 \<noteq> 0 then (4 - c) AND 3 else 0) \<le> 3"
    using al unfolding and_3 by presburger+
  then show ?thesis
    using f x c unfolding ProcessIOPTag_def Let_def s1_def [symmetric] ws_def [symmetric]
    by (auto simp: s1 settled_def sif0_inv_def c_def [symmetric])
qed


lemma WriteIOPtoFifo_ok:
  assumes x: "settled (S0 s)" and go: "counter (S0 s) > 0" "sif_free (fifo (S0 s)) > 0"
  shows "\<exists>s'. WriteIOPtoFifo v s = Some s' \<and> sif0_inv (S0 s') \<and> progress True s s'"
proof -
  let ?x = "S0 s"
  define w where "w = min (counter ?x) (sif_free (fifo ?x))"
  have w: "1 \<le> w" "w \<le> counter ?x" "w \<le> sif_free (fifo ?x)" using go by (simp_all add: w_def)
  have v: "fifo_valid (fifo ?x)" using x by (simp add: settled_def sif0_inv_def)
  define ws where "ws = words_at (iopPhysMem v (rd v DMA9_MADR s)) (nat w) s"
  obtain f where f: "sif_write ws w (fifo ?x) = Some f" "fifo_valid f" "fifo_size f = fifo_size (fifo ?x) + w"
      "readPos f = readPos (fifo ?x)"
    using sif_write_ok [OF v, of w ws] w by (auto simp: ws_def)
  have eq: "fifo_size (fifo ?x) + w + (counter ?x - w) + writeJunk ?x = fifo_size (fifo ?x) + counter ?x + writeJunk ?x"
    by simp
  show ?thesis
    using f x w unfolding WriteIOPtoFifo_def Let_def w_def [symmetric] ws_def [symmetric]
    by (auto simp: settled_def sif0_inv_def progress_def sif0_ending_def sif0_work_def eq)
qed

lemma EndIOP0_S0:
  assumes "sif_devices v"
  shows "fifo (S0 (EndIOP0 v s)) = fifo (S0 s)" "counter (S0 (EndIOP0 v s)) = counter (S0 s)"
    "writeJunk (S0 (EndIOP0 v s)) = writeJunk (S0 s)" "\<not> iop_busy (S0 (EndIOP0 v s))"
    "ee_busy (S0 (EndIOP0 v s)) = ee_busy (S0 s)" "channel (ee (EndIOP0 v s)) = channel (ee s)"
  using owned_fields [OF owned_psx_int [OF assms]] by (simp_all add: EndIOP0_def Let_def)

lemma sif0_iop_side_ok:
  assumes dev: "sif_devices v" and x: "settled (S0 s)"
  shows "\<exists>b s'. sif0_iop_side v s = Some (b, s') \<and> sif0_inv (S0 s') \<and> progress b s s'"
proof (cases "iop_busy (S0 s) \<and> (sif_free (fifo (S0 s)) > 0 \<or> iop_end (S0 s) \<and> counter (S0 s) = 0)")
  case False
  then have "sif0_iop_side v s = Some (False, s)" by (simp only: sif0_iop_side_def if_False)
  with x turn_progress_refl [of s] show ?thesis unfolding settled_def by blast
next
  case go: True
  have c: "0 \<le> counter (S0 s)" using x by (simp add: settled_def sif0_inv_def)
  consider (over) "counter (S0 s) = 0" "iop_end (S0 s)" | (tag) "counter (S0 s) = 0" "\<not> iop_end (S0 s)" | (data) "counter (S0 s) > 0"
    using c by linarith
  then show ?thesis
  proof cases
    case over
    then have "HandleIOPTransfer0 v s = Some (EndIOP0 v s)" by (simp add: HandleIOPTransfer0_def)
    then show ?thesis
      using go x EndIOP0_S0 [OF dev, of s]
      by (intro exI [of _ True] exI [of _ "EndIOP0 v s"])
        (simp add: sif0_iop_side_def settled_def sif0_inv_def progress_def sif0_ending_def sif0_work_def)
  next
    case tag
    with go ProcessIOPTag_ok [OF x, of v] obtain s' where "ProcessIOPTag v s = Some s'" "sif0_inv (S0 s')" by blast
    with go tag show ?thesis
      by (intro exI [of _ True] exI [of _ s']) (simp add: sif0_iop_side_def HandleIOPTransfer0_def progress_def sif0_ending_def)
  next
    case data
    with go have free: "sif_free (fifo (S0 s)) > 0" by auto
    with WriteIOPtoFifo_ok [OF x data free, of v] go data show ?thesis
      by (auto simp: sif0_iop_side_def HandleIOPTransfer0_def)
  qed
qed

lemma sint_of_uint: "uint (x :: u32) < 2 ^ 31 \<Longrightarrow> sint x = uint x"
  using sint_word_of_int32 [of "uint x"] uint_ge_0 [of x] by (auto simp: s32_range_def)

lemma tag_qwc_small: "0 \<le> sint (tag_QWC tag)"
proof -
  have "uint (tag_QWC tag) < 2 ^ 16" unfolding field_def unsigned_take_bit_eq by (rule take_bit_int_less_exp)
  then show ?thesis by (subst sint_of_uint) simp_all
qed

lemma sint_diff_small:
  assumes "0 \<le> r" "r \<le> sint (x :: u32)"
  shows "sint (x - word_of_int r) = sint x - r"
proof -
  have eq: "x - word_of_int r = word_of_int (sint x - r)" by (simp add: of_int_diff)
  show ?thesis unfolding eq using assms sint_s32_range [of x] by (intro sint_word_of_int32) (auto simp: s32_range_def)
qed

lemma fifo_to_ok:
  assumes v: "fifo_valid (fifo x)" and n: "n \<le> fifo_size (fifo x)"
  shows "\<exists>f ws. fifo_to p n x s = Some (f, put_words p ws s) \<and> fifo_valid f \<and> fifo_size f = fifo_size (fifo x) - max 0 n \<and>
    readPos f = (readPos (fifo x) + max 0 n) mod 128 \<and> ws = take (nat n) (fifo_contents (fifo x))"
proof (cases "0 \<le> n")
  case True
  from sif_read_ok [OF v True n, of "words_at p (nat n) s"] True show ?thesis by (auto simp: fifo_to_def)
next
  case False
  then have "sif_read (words_at p (nat n) s) n (fifo x) = Some ([], fifo x)"
    by (simp add: sif_read_def words_at_def)
  with False v fifo_valid_range [OF v] show ?thesis by (auto simp: fifo_to_def)
qed

lemma WriteFifoToEE_ok:
  assumes dev: "sif_devices v" and x: "sif0_inv (S0 s)" and go: "qwc (sif0ch s) \<noteq> 0" "fifo_size (fifo (S0 s)) \<ge> 4"
    and str: "chcr_STR (chcr (sif0ch s))"
  shows "\<exists>b s'. WriteFifoToEE v s = Some (b, s') \<and> sif0_inv (S0 s') \<and> progress True s s'"
proof (cases "dmaGetAddr v (madr (sif0ch s)) True")
  case None
  then show ?thesis using x str
    by (auto simp: WriteFifoToEE_def Let_def getAddr_def progress_def sif0_ending_def sif0_work_def)
next
  case (Some p)
  define r where "r = min (sint (qwc (sif0ch s))) (fifo_size (fifo (S0 s)) div 4)"
  have v: "fifo_valid (fifo (S0 s))" using x by (simp add: sif0_inv_def)
  have "r * 4 \<le> fifo_size (fifo (S0 s))" by (simp add: r_def min_def) linarith
  from fifo_to_ok [OF v this, of p s] obtain f ws where f: "fifo_to p (r * 4) (S0 s) s = Some (f, put_words p ws s)"
      "fifo_valid f" "fifo_size f = fifo_size (fifo (S0 s)) - max 0 (r * 4)"
      "readPos f = (readPos (fifo (S0 s)) + max 0 (r * 4)) mod 128" by auto
  have al: "readPos f mod 4 = 0" "max 0 (r * 4) mod 4 = 0"
  proof -
    have "max 0 (r * 4) = 4 * max 0 r" by simp
    then show "max 0 (r * 4) mod 4 = 0" by simp
    moreover have "readPos f mod 4 = (readPos (fifo (S0 s)) + max 0 (r * 4)) mod 4"
      unfolding f(4) by (simp add: mod_mod_cancel)
    moreover have "readPos (fifo (S0 s)) mod 4 = 0" using x by (simp add: sif0_inv_def)
    ultimately show "readPos f mod 4 = 0" by presburger
  qed
  have new: "0 \<le> r" "1 \<le> r" "sint (qwc (sif0ch s) - word_of_int r) = sint (qwc (sif0ch s)) - r" "r \<le> sint (qwc (sif0ch s))"
    if "0 \<le> sint (qwc (sif0ch s))"
  proof -
    have "sint (qwc (sif0ch s)) \<noteq> 0" using go(1) by (simp add: signed_eq_0_iff)
    then show "1 \<le> r" using that go(2) by (simp add: r_def)
    then show "0 \<le> r" "sint (qwc (sif0ch s) - word_of_int r) = sint (qwc (sif0ch s)) - r" "r \<le> sint (qwc (sif0ch s))"
      using sint_diff_small [of r "qwc (sif0ch s)"] by (simp_all add: r_def)
  qed
  have mod: "(fifo_size (fifo (S0 s)) - max 0 (r * 4) + counter (S0 s) + writeJunk (S0 s)) mod 4 = 0"
  proof -
    have "(fifo_size (fifo (S0 s)) + counter (S0 s) + writeJunk (S0 s)) mod 4 = 0" using x by (simp add: sif0_inv_def)
    with al(2) show ?thesis by presburger
  qed
  show ?thesis
    using x f(1,2,3) al mod new str Some owned_fields [OF owned_notify(1) [OF dev]]
    unfolding WriteFifoToEE_def Let_def r_def [symmetric]
    by (auto simp: getAddr_def sif0_inv_def progress_def sif0_ending_def sif0_work_def)
qed


lemma ProcessEETag0_ok:
  assumes x: "sif0_inv (S0 s)" and go: "fifo_size (fifo (S0 s)) \<ge> 4"
  shows "\<exists>s'. ProcessEETag0 v s = Some s' \<and> sif0_inv (S0 s') \<and> progress True s s' \<and>
    chcr_STR (chcr (sif0ch s')) = chcr_STR (chcr (sif0ch s))"
proof -
  have v: "fifo_valid (fifo (S0 s))" using x by (simp add: sif0_inv_def)
  from sif_read_ok [OF v _ go, of "[0, 0, 0, 0]"] obtain f tag where
    f: "sif_read [0, 0, 0, 0] 4 (fifo (S0 s)) = Some (tag, f)" "fifo_valid f" "fifo_size f = fifo_size (fifo (S0 s)) - 4"
      "readPos f = (readPos (fifo (S0 s)) + 4) mod 128" by auto
  have inv: "sif0_inv ((S0 s)\<lparr>fifo := f\<rparr>)"
  proof -
    have "readPos f mod 4 = (readPos (fifo (S0 s)) + 4) mod 4" unfolding f(4) by (simp add: mod_mod_cancel)
    moreover have "readPos (fifo (S0 s)) mod 4 = 0"
      "(fifo_size (fifo (S0 s)) + counter (S0 s) + writeJunk (S0 s)) mod 4 = 0" using x by (simp_all add: sif0_inv_def)
    ultimately have "readPos f mod 4 = 0" "(fifo_size f + counter (S0 s) + writeJunk (S0 s)) mod 4 = 0"
      unfolding f(3) by presburger+
    then show ?thesis using x f(2) by (simp add: sif0_inv_def)
  qed
  define s1 where "s1 = wch 5 (\<lambda>c. (unsafeTransfer (tag ! 0) c)\<lparr>madr := tag ! 1\<rparr>) (w0 (\<lambda>x. x\<lparr>fifo := f\<rparr>) s)"
  have s1: "S0 s1 = (S0 s)\<lparr>fifo := f\<rparr>" "chcr_STR (chcr (sif0ch s1)) = chcr_STR (chcr (sif0ch s))"
    "0 \<le> sint (qwc (sif0ch s1))"
    by (simp_all add: s1_def unsafeTransfer_def tag_qwc_small)
  have "\<exists>s'. ProcessEETag0 v s = Some s' \<and> fifo (S0 s') = f \<and> counter (S0 s') = counter (S0 s1) \<and>
      writeJunk (S0 s') = writeJunk (S0 s1) \<and> iop_busy (S0 s') = iop_busy (S0 s1) \<and> iop_end (S0 s') = iop_end (S0 s1) \<and>
      ee_busy (S0 s') = ee_busy (S0 s1) \<and> channel (ee s') = channel (ee s1)"
    using f(1) s1(1) unfolding ProcessEETag0_def by (auto simp: Let_def s1_def)
  then obtain s' where s': "ProcessEETag0 v s = Some s'" "fifo (S0 s') = f" "counter (S0 s') = counter (S0 s)"
      "writeJunk (S0 s') = writeJunk (S0 s)" "iop_busy (S0 s') = iop_busy (S0 s)" "iop_end (S0 s') = iop_end (S0 s)"
      "ee_busy (S0 s') = ee_busy (S0 s)" "channel (ee s') = channel (ee s1)"
    by (auto simp: s1)
  have "sif0_inv (S0 s')" using inv s' by (simp add: sif0_inv_def)
  moreover have "progress True s s'" using s' s1(2,3) f(3) by (simp add: progress_def sif0_ending_def sif0_work_def)
  ultimately show ?thesis using s'(1,8) s1(2) by auto
qed

lemma EndEE0_S0:
  "fifo (S0 (EndEE0 v s)) = fifo (S0 s)" "counter (S0 (EndEE0 v s)) = counter (S0 s)"
  "writeJunk (S0 (EndEE0 v s)) = writeJunk (S0 s)" "iop_busy (S0 (EndEE0 v s)) = iop_busy (S0 s)"
  "iop_end (S0 (EndEE0 v s)) = iop_end (S0 s)"
  "\<not> ee_busy (S0 (EndEE0 v s))" "channel (ee (EndEE0 v s)) = channel (ee s)"
  by (simp_all add: EndEE0_def Let_def)

lemma progress_weaken: "progress True s s' \<Longrightarrow> progress False s s'"
  by (auto simp: progress_def)

lemma progress_more: "progress True s s' \<Longrightarrow> progress b s' s'' \<Longrightarrow> progress True s s''"
  by (auto simp: progress_def of_bool_def split: if_splits)

lemma word_nonzero: "(x :: u32) > 0 \<longleftrightarrow> x \<noteq> 0"
  by (simp add: word_neq_0_conv)

lemma HandleEETransfer0_ok:
  assumes dev: "sif_devices v" and x: "sif0_inv (S0 s)" and busy: "ee_busy (S0 s)"
    and go: "fifo_size (fifo (S0 s)) \<ge> 4 \<or> ee_end (S0 s) \<and> qwc (sif0ch s) = 0"
  shows "\<exists>s'. HandleEETransfer0 v s = Some s' \<and> sif0_inv (S0 s') \<and> progress True s s'"
proof -
  consider (stopped) "\<not> chcr_STR (chcr (sif0ch s))"
    | (over) "chcr_STR (chcr (sif0ch s))" "qwc (sif0ch s) = 0" "chcr_MOD (chcr (sif0ch s)) = NORMAL_MODE \<or> ee_end (S0 s)"
    | (tag) "chcr_STR (chcr (sif0ch s))" "qwc (sif0ch s) = 0" "\<not> (chcr_MOD (chcr (sif0ch s)) = NORMAL_MODE \<or> ee_end (S0 s))"
        "fifo_size (fifo (S0 s)) \<ge> 4"
    | (data) "chcr_STR (chcr (sif0ch s))" "qwc (sif0ch s) \<noteq> 0" "fifo_size (fifo (S0 s)) \<ge> 4"
    using go by blast
  then show ?thesis
  proof cases
    case stopped
    then show ?thesis using x busy
      by (simp add: HandleEETransfer0_def sif0_inv_def progress_def sif0_ending_def sif0_work_def)
  next
    case over
    then have "HandleEETransfer0 v s = Some (EndEE0 v s)"
      by (simp add: HandleEETransfer0_def EndEE0_S0(7) word_nonzero)
    then show ?thesis using x busy
      by (simp add: EndEE0_S0 sif0_inv_def progress_def sif0_ending_def sif0_work_def)
  next
    case tag
    from ProcessEETag0_ok [OF x tag(4), of v] obtain s1 where
      s1: "ProcessEETag0 v s = Some s1" "sif0_inv (S0 s1)" "progress True s s1" "chcr_STR (chcr (sif0ch s1))"
      using tag(1) by auto
    show ?thesis
    proof (cases "qwc (sif0ch s1) > 0 \<and> fifo_size (fifo (S0 s1)) \<ge> 4")
      case True
      then have "qwc (sif0ch s1) \<noteq> 0" "fifo_size (fifo (S0 s1)) \<ge> 4" by (simp_all add: word_nonzero)
      from WriteFifoToEE_ok [OF dev s1(2) this s1(4)] obtain b s2 where
        s2: "WriteFifoToEE v s1 = Some (b, s2)" "sif0_inv (S0 s2)" "progress True s1 s2" by blast
      have "HandleEETransfer0 v s = Some s2" using tag s1(1) s2(1) True by (simp add: HandleEETransfer0_def)
      then show ?thesis using s2(2) progress_more [OF s1(3) s2(3)] by blast
    next
      case False
      then have "HandleEETransfer0 v s = Some s1" using tag s1(1) by (auto simp: HandleEETransfer0_def)
      then show ?thesis using s1 by blast
    qed
  next
    case data
    from WriteFifoToEE_ok [OF dev x data(2,3,1)] obtain b s2 where
      "WriteFifoToEE v s = Some (b, s2)" "sif0_inv (S0 s2)" "progress True s s2" by blast
    then show ?thesis using data by (simp add: HandleEETransfer0_def word_nonzero)
  qed
qed

lemma sif0_ee_side_ok:
  assumes dev: "sif_devices v" and x: "sif0_inv (S0 s)"
  shows "\<exists>b s'. sif0_ee_side v s = Some (b, s') \<and> sif0_inv (S0 s') \<and> progress b s s'"
proof (cases "ee_busy (S0 s) \<and> (fifo_size (fifo (S0 s)) \<ge> 4 \<or> ee_end (S0 s) \<and> qwc (sif0ch s) = 0)")
  case False
  then have "sif0_ee_side v s = Some (False, s)" by (simp only: sif0_ee_side_def if_False)
  with x turn_progress_refl [of s] show ?thesis by blast
next
  case True
  then have b: "ee_busy (S0 s)" and go: "fifo_size (fifo (S0 s)) \<ge> 4 \<or> ee_end (S0 s) \<and> qwc (sif0ch s) = 0" by simp_all
  from HandleEETransfer0_ok [OF dev x b go] obtain s' where
    s': "HandleEETransfer0 v s = Some s'" "sif0_inv (S0 s')" "progress True s s'" by blast
  have "sif0_ee_side v s = Some (True, s')" using True by (simp only: sif0_ee_side_def if_True s'(1)) simp
  with s' show ?thesis by blast
qed

lemma sif0_turn_ok:
  assumes dev: "sif_devices v" and x: "sif0_inv (S0 s)"
  shows "\<exists>b s'. sif0_turn v s = Some (b, s') \<and> sif0_inv (S0 s') \<and> progress b s s'"
proof -
  from sif0_junk_ok [OF x] obtain s1 where s1: "sif0_junk s = Some s1" "settled (S0 s1)" "progress False s s1" by blast
  from sif0_iop_side_ok [OF dev s1(2)] obtain b1 s2 where
    s2: "sif0_iop_side v s1 = Some (b1, s2)" "sif0_inv (S0 s2)" "progress b1 s1 s2" by blast
  from sif0_ee_side_ok [OF dev s2(2)] obtain b2 s3 where
    s3: "sif0_ee_side v s2 = Some (b2, s3)" "sif0_inv (S0 s3)" "progress b2 s2 s3" by blast
  have "progress (b1 \<or> b2) s s3"
    using turn_progress_trans [OF turn_progress_trans [OF s1(3) s2(3)] s3(3)] by simp
  then show ?thesis using s1(1) s2(1) s3(1,2) by (simp add: sif0_turn_def)
qed


subsection \<open>The loop\<close>

lemma sif0_loop_inv:
  assumes "sif_devices v" "sif0_inv (S0 s)"
  shows "sif_loop (sif0_turn v) k s \<noteq> Some None \<and> (\<forall>s'. sif_loop (sif0_turn v) k s = Some (Some s') \<longrightarrow> sif0_inv (S0 s'))"
  using assms(2)
proof (induction k arbitrary: s)
  case (Suc k)
  from sif0_turn_ok [OF assms(1) Suc.prems] obtain b s1 where "sif0_turn v s = Some (b, s1)" "sif0_inv (S0 s1)" by blast
  with Suc.IH [of s1] show ?case by simp
qed simp

lemma sif0_work_nonneg: "sif0_inv (S0 s) \<Longrightarrow> 0 \<le> sif0_work s"
  using fifo_valid_range(5) [of "fifo (S0 s)"] by (simp add: sif0_inv_def sif0_work_def)

lemma sif0_loop_ends:
  assumes "sif_devices v" "sif0_inv (S0 s)" "sif0_ending s" "sif0_work s < int k"
  shows "\<exists>s'. sif_loop (sif0_turn v) k s = Some (Some s') \<and> sif0_inv (S0 s')"
  using assms(2-4)
proof (induction k arbitrary: s)
  case 0
  then show ?case using sif0_work_nonneg [of s] by simp
next
  case (Suc k)
  from sif0_turn_ok [OF assms(1) Suc.prems(1)] obtain b s1 where
    s1: "sif0_turn v s = Some (b, s1)" "sif0_inv (S0 s1)" "progress b s s1" by blast
  show ?case
  proof (cases b)
    case True
    with s1(3) Suc.prems have "sif0_ending s1" "sif0_work s1 < int k" by (simp_all add: progress_def)
    from Suc.IH [OF s1(2) this] s1(1) True show ?thesis by simp
  qed (use s1 in simp)
qed

lemma Sif0Init_simps [simp]:
  "fifo (S0 (Sif0Init s)) = fifo (S0 s)" "counter (S0 (Sif0Init s)) = counter (S0 s)"
  "writeJunk (S0 (Sif0Init s)) = writeJunk (S0 s)" "iop_busy (S0 (Sif0Init s)) = iop_busy (S0 s)"
  "iop_end (S0 (Sif0Init s)) = iop_end (S0 s)" "ee_busy (S0 (Sif0Init s)) = ee_busy (S0 s)"
  "channel (ee (Sif0Init s)) = channel (ee s)"
  by (simp_all add: Sif0Init_def)

lemma SIF0Dma_inv:
  assumes "sif_devices v" "sif0_inv (S0 s)"
  shows "SIF0Dma v k s \<noteq> Some None" "SIF0Dma v k s = Some (Some s') \<Longrightarrow> sif0_inv (S0 s')"
proof -
  have "sif0_inv (S0 (Sif0Init s))" using assms(2) by (simp add: sif0_inv_def)
  note l = sif0_loop_inv [OF assms(1) this, of k]
  then show "SIF0Dma v k s \<noteq> Some None" by (auto simp: SIF0Dma_def)
  show "sif0_inv (S0 s')" if "SIF0Dma v k s = Some (Some s')"
    using that l by (auto simp: SIF0Dma_def Sif0End_def)
qed

subsection \<open>A concrete machine\<close>

abbreviation sif_calm :: "unit sif_env" where
  "sif_calm \<equiv> dma_calm"

lemma sif_calm_devices: "sif_devices sif_calm"
  by (simp add: sif_devices_def dma_calm_def calm_def linked_iop_def iopMemNotifyWrite_def Let_def cpu_invalidate_def)

definition sif_ee :: "DMACh \<Rightarrow> sif \<Rightarrow> sif \<Rightarrow> unit sif_part_scheme" where
  "sif_ee c x0 x1 = \<lparr>ee_cycle = 3000, nextEventCycle = 6000, lastEventCycle = 0, cpu_pc = 0x100000, ee_interrupt = 0,
     dmastall = 0, ee_sCycle = \<lambda>_. 0, ee_eCycle = \<lambda>_. 0, ee_Status = 0,
     eeRunInterruptScan = INT_NOT_RUNNING, ee_test_active = False, EEsCycle = 0, EEoCycle = 3000,
     nextStartCounter = 0, nextDeltaCounter = 100000, owner_cycle = 6000, non_counter_cycle = 6000,
     counter_cycle = 100000, next_event_iop_only = False, INTC_STAT = 0, INTC_MASK = 0, DMAC_CTRL = 1,
     DMAC_STAT = 0, DMAC_ENABLER = 0, channel = \<lambda>_. c, DMAC_STADR = 0, DMAC_ENABLEW = 0, QueuedDMA = 0,
     sif0 = x0, sif1 = x1, sif1_dma_stall = False\<rparr>"

definition sif_machine :: "DMACh \<Rightarrow> sif \<Rightarrow> sif \<Rightarrow> unit sif_state" where
  "sif_machine c x0 x1 = \<lparr>psx = psxRegs_zero, iopIsDelaySlot = False, iopEventAction = False, iopEventTestIsActive = False,
     psxNextStartCounter = 0, psxNextDeltaCounter = 1000, PSXCLK = 36864000, psxMemWLUT = \<lambda>_. 0, iopHost = \<lambda>_. 0,
     iopDev = sif_ee c x0 x1\<rparr>"

lemma sif_machine_simps [simp]:
  "S0 (sif_machine c x0 x1) = x0" "S1 (sif_machine c x0 x1) = x1" "channel (ee (sif_machine c x0 x1)) n = c"
  "sif1_dma_stall (ee (sif_machine c x0 x1)) = False" "DMAC_CTRL (ee (sif_machine c x0 x1)) = 1"
  by (simp_all add: sif_machine_def sif_ee_def)

definition idle_channel :: DMACh where
  "idle_channel = \<lparr>chcr = 0x104, madr = 0x1000, qwc = 2, tadr = 0, asr0 = 0, asr1 = 0, sadr = 0\<rparr>"

lemma sif_zero_inv: "sif0_inv sif_zero"
  by (simp add: sif0_inv_def sif_zero_def fifo_valid_def IsValidPortableSifFifo_def)

text \<open>C17: The SIF0 engine never leaves its ring. Whatever the tags and the transfer sizes, and however
  the two sides are started, the FIFO holds between 0 and 128 words at consistent positions, is read
  only in whole quadwords, and together with the rest of the packet and its padding always comes to
  whole quadwords; so neither a tag nor the padding ever overflows it.\<close>

theorem sif0_stays_in_ring:
  assumes "sif_devices v" "sif0_inv (S0 s)"
  shows "dmaSIF0 v k s \<noteq> Some None \<and> psxDma9 v k s \<noteq> Some None \<and>
    (\<forall>s'. dmaSIF0 v k s = Some (Some s') \<or> psxDma9 v k s = Some (Some s') \<or> s' = sif0Interrupt v s \<or>
       s' = EEsif0Interrupt s \<or> s' = sifReset s \<longrightarrow> sif0_inv (S0 s'))"
proof -
  note irq = owned_fields [OF owned_iop_irq [OF assms(1)]]
  have plain: "sif0_inv (S0 (sif0Interrupt v s))" "sif0_inv (S0 (EEsif0Interrupt s))" "sif0_inv (S0 (sifReset s))"
    using assms(2) irq sif_zero_inv by (simp_all add: sif0Interrupt_def EEsif0Interrupt_def sifReset_def)
  define t where "t = wee (CPU_SET_DMASTALL DMAC_SIF0 False) (w0 (\<lambda>x. x\<lparr>ee_end := False\<rparr>)
      (w0 (\<lambda>x. x\<lparr>ee_busy := True\<rparr>) (sbus_f240 v (\<lambda>r. r OR 0x2000) s)))"
  have t: "dmaSIF0 v k s = SIF0Dma v k t" "sif0_inv (S0 t)"
    using assms(2) by (simp_all add: dmaSIF0_def t_def Let_def sif0_inv_def)
  define u where "u = w0 (\<lambda>x. x\<lparr>iop_busy := True, iop_end := False\<rparr>) s"
  have u: "psxDma9 v k s = SIF0Dma v k u" "sif0_inv (S0 u)"
    using assms(2) by (simp_all add: psxDma9_def u_def sif0_inv_def)
  show ?thesis
    using plain SIF0Dma_inv [OF assms(1) t(2), of k] SIF0Dma_inv [OF assms(1) u(2), of k] unfolding t(1) u(1) by blast
qed

lemma sif0_stays_in_ring_witness:
  "dmaSIF0 sif_calm 9 (sif_machine idle_channel sif_zero sif_zero) \<noteq> Some None"
  using sif0_stays_in_ring [OF sif_calm_devices, of "sif_machine idle_channel sif_zero sif_zero" 9] sif_zero_inv by simp

text \<open>C18: Once the last tag of the I/O processor has been read, the SIF0 loop ends: the number of turns is
  at most twice the words still to be sent plus the words in the ring plus three.\<close>

theorem sif0_loop_terminates:
  assumes "sif_devices v" "sif0_inv (S0 s)" "iop_busy (S0 s) \<longrightarrow> iop_end (S0 s)" "0 \<le> sint (qwc (sif0ch s))"
    "2 * (counter (S0 s) + writeJunk (S0 s)) + fifo_size (fifo (S0 s)) + 3 < int k"
  shows "\<exists>s'. SIF0Dma v k s = Some (Some s')"
proof -
  let ?i = "Sif0Init s"
  have i: "sif0_inv (S0 ?i)" "sif0_ending ?i" using assms by (simp_all add: sif0_inv_def sif0_ending_def)
  have "sif0_work ?i < int k" using assms(5) by (simp add: sif0_work_def of_bool_def)
  from sif0_loop_ends [OF assms(1) i this] show ?thesis by (auto simp: SIF0Dma_def)
qed

lemma sif0_loop_terminates_witness:
  "\<exists>s'. SIF0Dma sif_calm 20 (sif_machine idle_channel (sif_zero\<lparr>counter := 6, writeJunk := 2, iop_busy := True,
     iop_end := True, ee_busy := True\<rparr>) sif_zero) = Some (Some s')"
  by (rule sif0_loop_terminates [OF sif_calm_devices])
    (simp_all add: sif0_inv_def sif_zero_def fifo_valid_def IsValidPortableSifFifo_def idle_channel_def)

text \<open>The stall control of both directions tests the wrong bits: the tag field holds the upper half of
  the tag, so shifting it by 28 leaves 0. In chain mode the stall address therefore follows every
  SIF0 packet, whatever its tag, and a SIF1 packet is never held back, not even one with a REFS tag.\<close>

theorem stall_tag_never_seen:
  "(sif0_stall_source s \<longleftrightarrow> qwc (sif0ch s) = 0 \<and> ctrl_STS (ee s) = STS_SIF0) \<and>
   (sif1_stall_drain s \<longleftrightarrow> ctrl_STD (ee s) = STD_SIF1 \<and> chcr_MOD (chcr (sif1ch s)) = NORMAL_MODE)"
proof -
  have "drop_bit 28 (chcr_TAG x) AND 0x7 = 0" for x :: u32
    by (rule bit_eqI) (simp add: field_def bit_simps)
  then show ?thesis
    by (simp_all add: sif0_stall_source_def sif1_stall_drain_def)
qed

end
