(* ===== verification/SIF1_Props.thy ===== *)
theory SIF1_Props
  imports SIF_Props
begin

text \<open>
  The other direction of the serial interface: its invariant, the loop that never ends when tags are
  transferred, and the words a transfer moves.
\<close>

subsection \<open>The invariant of SIF1\<close>

text \<open>The tags of two words keep the ring even, no more.\<close>

definition sif1_inv :: "sif \<Rightarrow> bool" where
  "sif1_inv x \<longleftrightarrow> fifo_valid (fifo x) \<and> fifo_size (fifo x) mod 2 = 0 \<and> 0 \<le> counter x \<and> counter x mod 2 = 0"

lemma counter_words: "0 \<le> uint (w AND 0xFFFFC :: u32)" "uint (w AND 0xFFFFC :: u32) mod 2 = 0"
proof -
  have "\<not> bit (w AND 0xFFFFC) 0" by (simp add: bit_and_iff)
  then have "\<not> bit (uint (w AND 0xFFFFC)) 0" by (simp only: bit_unsigned_iff simp_thms)
  then have "even (uint (w AND 0xFFFFC))" by (simp only: bit_0 not_not)
  then show "uint (w AND 0xFFFFC) mod 2 = 0" by (simp only: even_iff_mod_2_eq_zero)
qed simp

lemma WriteEEtoFifo_ok:
  assumes x: "sif1_inv (S1 s)"
  shows "\<exists>b s'. WriteEEtoFifo v s = Some (b, s') \<and> sif1_inv (S1 s')"
proof (cases "dmaGetAddr v (madr (sif1ch s)) False")
  case None
  then show ?thesis using x by (intro exI [of _ False]) (simp add: WriteEEtoFifo_def Let_def getAddr_def)
next
  case (Some p)
  define n where "n = sif1_write_size s"
  have v: "fifo_valid (fifo (S1 s))" and even: "fifo_size (fifo (S1 s)) mod 2 = 0" using x by (simp_all add: sif1_inv_def)
  have le: "n * 4 \<le> sif_free (fifo (S1 s))" by (simp add: n_def sif1_write_size_def min_def) linarith
  have "\<exists>f. sif_write (words_at p (nat (n * 4)) s) (n * 4) (fifo (S1 s)) = Some f \<and> fifo_valid f \<and> fifo_size f mod 2 = 0"
  proof (cases "0 \<le> n")
    case True
    then have "0 \<le> n * 4" by simp
    from sif_write_ok [OF v this le length_words_at] obtain f where
      f: "sif_write (words_at p (nat (n * 4)) s) (n * 4) (fifo (S1 s)) = Some f" "fifo_valid f"
        "fifo_size f = fifo_size (fifo (S1 s)) + n * 4" by blast
    have "fifo_size f mod 2 = 0" unfolding f(3) using even by presburger
    with f(1,2) show ?thesis by (intro exI [of _ f] conjI)
  next
    case False
    then have "sif_write (words_at p (nat (n * 4)) s) (n * 4) (fifo (S1 s)) = Some (fifo (S1 s))" by (simp add: sif_write_def)
    with v even show ?thesis by (intro exI [of _ "fifo (S1 s)"] conjI)
  qed
  then obtain f where f: "sif_write (words_at p (nat (n * 4)) s) (n * 4) (fifo (S1 s)) = Some f" "fifo_valid f" "fifo_size f mod 2 = 0"
    by (elim exE conjE) (rule that; assumption)
  have inv: "sif1_inv ((S1 s)\<lparr>fifo := f, ee_cycles := c\<rparr>)" for c using x f(2,3) by (simp add: sif1_inv_def)
  show ?thesis
    unfolding WriteEEtoFifo_def Let_def n_def [symmetric] getAddr_def Some option.case prod.case f(1)
    by (intro exI [of _ True] exI conjI) (rule refl, simp add: inv)
qed

lemma ProcessEETag1_ok:
  assumes x: "sif1_inv (S1 s)" and go: "sif_free (fifo (S1 s)) > 0"
  shows "\<exists>b s'. ProcessEETag1 v s = Some (b, s') \<and> sif1_inv (S1 s')"
proof (cases "dmaGetAddr v (tadr (sif1ch s)) False")
  case None
  then show ?thesis using x by (intro exI [of _ False]) (simp add: ProcessEETag1_def DMAtransfer_def getAddr_def)
next
  case (Some p)
  have v: "fifo_valid (fifo (S1 s))" and even: "fifo_size (fifo (S1 s)) mod 2 = 0" using x by (simp_all add: sif1_inv_def)
  have "2 \<le> sif_free (fifo (S1 s))" using go even unfolding sif_free_def by presburger
  define s1 where "s1 = wch 6 (qwcTransfer (hget p s)) (wch 6 (chcrTransfer (hget p s)) s)"
  have tr: "DMAtransfer v 6 (tadr (sif1ch s)) s = (Some p, s1)"
    using Some by (simp add: DMAtransfer_def getAddr_def s1_def Let_def)
  have s1: "S1 s1 = S1 s" by (simp add: s1_def)
  obtain f where f: "sif_write (words_at (p + 8) 2 s1) 2 (fifo (S1 s)) = Some f" "fifo_valid f" "fifo_size f = fifo_size (fifo (S1 s)) + 2"
    using sif_write_ok [OF v _ \<open>2 \<le> sif_free (fifo (S1 s))\<close>, of "words_at (p + 8) 2 s1"] by auto
  have even': "fifo_size f mod 2 = 0" unfolding f(3) using even by presburger
  obtain s2 where s2: "(if chcr_TTE (chcr (sif1ch s1))
      then map_option (\<lambda>f. w1 (\<lambda>x. x\<lparr>fifo := f\<rparr>) s1) (sif_write (words_at (p + 8) 2 s1) 2 (fifo (S1 s1)))
      else Some s1) = Some s2" "sif1_inv (S1 s2)"
  proof (cases "chcr_TTE (chcr (sif1ch s1))")
    case True
    show ?thesis
      by (rule that [of "w1 (\<lambda>x. x\<lparr>fifo := f\<rparr>) s1"]) (use True f even' x s1 in \<open>simp_all add: sif1_inv_def\<close>)
  qed (use x s1 in \<open>auto intro: that\<close>)
  have inv: "sif1_inv ((S1 s2)\<lparr>ee_end := b\<rparr>)" for b using s2(2) by (simp add: sif1_inv_def)
  show ?thesis
    unfolding ProcessEETag1_def tr prod.case option.case s2(1) Let_def
    by (intro exI [of _ True] exI conjI) (rule refl, simp add: inv)
qed

lemma EndEE1_S1:
  "fifo (S1 (EndEE1 v s)) = fifo (S1 s)" "counter (S1 (EndEE1 v s)) = counter (S1 s)"
  by (simp_all add: EndEE1_def Let_def)

lemma sif1_ee_side_ok:
  assumes x: "sif1_inv (S1 s)"
  shows "\<exists>b s'. sif1_ee_side v s = Some (b, s') \<and> sif1_inv (S1 s')"
proof (cases "ee_busy (S1 s) \<and> \<not> sif1_dma_stall (ee s) \<and> (sif_free (fifo (S1 s)) > 0 \<or> ee_end (S1 s) \<and> qwc (sif1ch s) = 0)")
  case False
  then have "sif1_ee_side v s = Some (False, s)" by (simp only: sif1_ee_side_def if_False)
  with x show ?thesis by blast
next
  case go: True
  have "\<exists>s'. HandleEETransfer1 v s = Some s' \<and> sif1_inv (S1 s')"
  proof -
    have tag: "\<exists>s'. map_option snd (ProcessEETag1 v s) = Some s' \<and> sif1_inv (S1 s')" if "\<not> ee_end (S1 s)"
      using ProcessEETag1_ok [OF x, of v] go that by auto
    have data: "\<exists>s'. map_option snd (WriteEEtoFifo v s) = Some s' \<and> sif1_inv (S1 s')"
      using WriteEEtoFifo_ok [OF x, of v] by auto
    have over: "sif1_inv (S1 (EndEE1 v s))" using x by (simp add: sif1_inv_def EndEE1_S1)
    have stop: "sif1_inv (S1 (w1 (\<lambda>x. x\<lparr>ee_end := False, ee_busy := False\<rparr>) s))" using x by (simp add: sif1_inv_def)
    have stall: "sif1_inv (S1 (wee (CPU_SET_DMASTALL DMAC_SIF1 True)
        (wee (\<lambda>e. e\<lparr>sif1_dma_stall := True\<rparr>) (hwDmacIrq DMAC_STALL_SIS s))))" using x by simp
    show ?thesis using x tag data over stop stall unfolding HandleEETransfer1_def by (auto split: if_split)
  qed
  then obtain s' where s': "HandleEETransfer1 v s = Some s'" "sif1_inv (S1 s')" by blast
  have "sif1_ee_side v s = Some (True, s')" using go by (simp only: sif1_ee_side_def if_True s'(1)) simp
  with s' show ?thesis by blast
qed


lemma WriteFifoToIOP_ok:
  assumes dev: "sif_devices v" and x: "sif1_inv (S1 s)"
  shows "\<exists>s'. WriteFifoToIOP v s = Some s' \<and> sif1_inv (S1 s')"
proof -
  define n where "n = min (counter (S1 s)) (fifo_size (fifo (S1 s)))"
  have v: "fifo_valid (fifo (S1 s))" and even: "fifo_size (fifo (S1 s)) mod 2 = 0"
    and c: "0 \<le> counter (S1 s)" "counter (S1 s) mod 2 = 0" using x by (simp_all add: sif1_inv_def)
  have n: "0 \<le> n" "n \<le> fifo_size (fifo (S1 s))" "n \<le> counter (S1 s)"
    using c(1) fifo_valid_range(5) [OF v] by (simp_all add: n_def)
  from fifo_to_ok [OF v n(2), of "iopPhysMem v (rd v DMA10_MADR s)" s] n(1) obtain f ws where
    f: "fifo_to (iopPhysMem v (rd v DMA10_MADR s)) n (S1 s) s = Some (f, put_words (iopPhysMem v (rd v DMA10_MADR s)) ws s)"
      "fifo_valid f" "fifo_size f = fifo_size (fifo (S1 s)) - n" by auto
  have "n mod 2 = 0" using even c(2) by (auto simp: n_def min_def)
  then have "fifo_size f mod 2 = 0" "(counter (S1 s) - n) mod 2 = 0" unfolding f(3) using even c(2) by presburger+
  then have inv: "sif1_inv ((S1 s)\<lparr>fifo := f, iop_cycles := i, counter := counter (S1 s) - n\<rparr>)" for i
    using f(2) n(3) by (simp add: sif1_inv_def)
  show ?thesis
    unfolding WriteFifoToIOP_def Let_def n_def [symmetric] f(1) option.case prod.case
    by (intro exI conjI) (rule refl, simp add: inv owned_fields [OF owned_notify(2) [OF dev]])
qed

lemma SIFIOPReadTag_ok:
  assumes x: "sif1_inv (S1 s)" and go: "fifo_size (fifo (S1 s)) \<ge> 4"
  shows "\<exists>s'. SIFIOPReadTag v s = Some s' \<and> sif1_inv (S1 s')"
proof -
  have v: "fifo_valid (fifo (S1 s))" and even: "fifo_size (fifo (S1 s)) mod 2 = 0" using x by (simp_all add: sif1_inv_def)
  from sif_read_ok [OF v _ go, of "[0, 0, 0, 0]"] obtain f tag where
    f: "sif_read [0, 0, 0, 0] 4 (fifo (S1 s)) = Some (tag, f)" "fifo_valid f" "fifo_size f = fifo_size (fifo (S1 s)) - 4" by auto
  have "fifo_size f mod 2 = 0" unfolding f(3) using even by presburger
  then have inv: "sif1_inv ((S1 s)\<lparr>fifo := f, sif_data := a, sif_words := w, counter := uint (w AND 0xFFFFC)\<rparr>)"
    "sif1_inv ((S1 s)\<lparr>fifo := f, sif_data := a, sif_words := w, counter := uint (w AND 0xFFFFC), iop_end := b\<rparr>)" for a w b
    using f(2) counter_words [of w] by (simp_all add: sif1_inv_def)
  show ?thesis
    unfolding SIFIOPReadTag_def Let_def f(1) option.case prod.case
    by (intro exI conjI) (rule refl, simp add: inv)
qed

lemma EndIOP1_S1:
  assumes "sif_devices v"
  shows "fifo (S1 (EndIOP1 v s)) = fifo (S1 s)" "counter (S1 (EndIOP1 v s)) = counter (S1 s)"
  using owned_fields [OF owned_psx_int [OF assms]] by (simp_all add: EndIOP1_def Let_def)

lemma HandleIOPTransfer1_ok:
  assumes dev: "sif_devices v" and x: "sif1_inv (S1 s)"
  shows "\<exists>s'. HandleIOPTransfer1 v s = Some s' \<and> sif1_inv (S1 s')"
proof -
  obtain s1 where s1: "(if counter (S1 s) > 0 \<and> fifo_size (fifo (S1 s)) > 0 then WriteFifoToIOP v s else Some s) = Some s1"
      "sif1_inv (S1 s1)"
    using WriteFifoToIOP_ok [OF dev x] x by (cases "counter (S1 s) > 0 \<and> fifo_size (fifo (S1 s)) > 0") auto
  have over: "sif1_inv (S1 (EndIOP1 v s1))" using s1(2) by (simp add: sif1_inv_def EndIOP1_S1 [OF dev])
  have tag: "\<exists>s'. SIFIOPReadTag v s1 = Some s' \<and> sif1_inv (S1 s')" if "fifo_size (fifo (S1 s1)) \<ge> 4"
    using SIFIOPReadTag_ok [OF s1(2) that] .
  show ?thesis
    unfolding HandleIOPTransfer1_def s1(1) option.case using over tag s1(2) by simp
qed

lemma sif1_turn_ok:
  assumes dev: "sif_devices v" and x: "sif1_inv (S1 s)"
  shows "\<exists>b s'. sif1_turn v s = Some (b, s') \<and> sif1_inv (S1 s')"
proof -
  from sif1_ee_side_ok [OF x] obtain b1 s1 where s1: "sif1_ee_side v s = Some (b1, s1)" "sif1_inv (S1 s1)" by blast
  from HandleIOPTransfer1_ok [OF dev s1(2)] obtain s2 where "HandleIOPTransfer1 v s1 = Some s2" "sif1_inv (S1 s2)" by blast
  then have "\<exists>b s'. sif1_iop_side v s1 = Some (b, s') \<and> sif1_inv (S1 s')" using s1(2) unfolding sif1_iop_side_def by (cases "iop_busy (S1 s1) \<and> (fifo_size (fifo (S1 s1)) \<ge> 4 \<or> iop_end (S1 s1) \<and> counter (S1 s1) = 0)") auto
  with s1 show ?thesis by (auto simp: sif1_turn_def)
qed

lemma sif1_loop_inv:
  assumes "sif_devices v" "sif1_inv (S1 s)"
  shows "sif_loop (sif1_turn v) k s \<noteq> Some None \<and> (\<forall>s'. sif_loop (sif1_turn v) k s = Some (Some s') \<longrightarrow> sif1_inv (S1 s'))"
  using assms(2)
proof (induction k arbitrary: s)
  case (Suc k)
  from sif1_turn_ok [OF assms(1) Suc.prems] obtain b s1 where "sif1_turn v s = Some (b, s1)" "sif1_inv (S1 s1)" by blast
  with Suc.IH [of s1] show ?case by simp
qed simp


lemma Sif1Init_simps [simp]:
  "fifo (S1 (Sif1Init s)) = fifo (S1 s)" "counter (S1 (Sif1Init s)) = counter (S1 s)"
  "iop_busy (S1 (Sif1Init s)) = iop_busy (S1 s)" "ee_busy (S1 (Sif1Init s)) = ee_busy (S1 s)"
  "channel (ee (Sif1Init s)) = channel (ee s)" "sif1_dma_stall (ee (Sif1Init s)) = sif1_dma_stall (ee s)"
  "DMAC_CTRL (ee (Sif1Init s)) = DMAC_CTRL (ee s)"
  by (simp_all add: Sif1Init_def) (simp add: w1_def)

lemma stall_reset [simp]:
  "S1 (wee (\<lambda>e. e\<lparr>sif1_dma_stall := b\<rparr>) s) = S1 s" "channel (ee (wee (\<lambda>e. e\<lparr>sif1_dma_stall := b\<rparr>) s)) = channel (ee s)"
  by simp_all

lemma SIF1Dma_inv:
  assumes "sif_devices v" "sif1_inv (S1 s)"
  shows "SIF1Dma v k s \<noteq> Some None" "SIF1Dma v k s = Some (Some s') \<Longrightarrow> sif1_inv (S1 s')"
proof -
  have "sif1_inv (S1 (Sif1Init (wee (\<lambda>e. e\<lparr>sif1_dma_stall := False\<rparr>) s)))"
    using assms(2) by (simp add: sif1_inv_def)
  note l = sif1_loop_inv [OF assms(1) this, of k]
  then show "SIF1Dma v k s \<noteq> Some None" by (auto simp: SIF1Dma_def Let_def)
  show "sif1_inv (S1 s')" if "SIF1Dma v k s = Some (Some s')"
    using that l assms(2) by (auto simp: SIF1Dma_def Let_def Sif1End_def split: if_splits)
qed

text \<open>C34: The SIF1 engine never leaves its ring either, with tag transfer on or off: the FIFO holds between 0
  and 128 words at consistent positions, always an even number.\<close>

theorem sif1_stays_in_ring:
  assumes "sif_devices v" "sif1_inv (S1 s)"
  shows "dmaSIF1 v k s \<noteq> Some None \<and> psxDma10 v k s \<noteq> Some None \<and>
    (\<forall>s'. dmaSIF1 v k s = Some (Some s') \<or> psxDma10 v k s = Some (Some s') \<or> s' = sif1Interrupt v s \<or>
       s' = EEsif1Interrupt s \<or> s' = sifReset s \<longrightarrow> sif1_inv (S1 s'))"
proof -
  note irq = owned_fields [OF owned_iop_irq [OF assms(1)]]
  have "sif1_inv sif_zero"
    by (simp add: sif1_inv_def sif_zero_def fifo_valid_def IsValidPortableSifFifo_def)
  then have plain: "sif1_inv (S1 (sif1Interrupt v s))" "sif1_inv (S1 (EEsif1Interrupt s))" "sif1_inv (S1 (sifReset s))"
    using assms(2) irq by (simp_all add: sif1Interrupt_def EEsif1Interrupt_def sifReset_def)
  obtain t where t: "dmaSIF1 v k s = SIF1Dma v k t" "sif1_inv (S1 t)"
    using assms(2) by (auto simp: dmaSIF1_def Let_def sif1_inv_def)
  define u where "u = w1 (\<lambda>x. x\<lparr>iop_busy := True, iop_end := False\<rparr>) s"
  have u: "psxDma10 v k s = SIF1Dma v k u" "sif1_inv (S1 u)"
    using assms(2) by (simp_all add: psxDma10_def u_def sif1_inv_def)
  show ?thesis
    using plain SIF1Dma_inv [OF assms(1) t(2), of k] SIF1Dma_inv [OF assms(1) u(2), of k] unfolding t(1) u(1) by blast
qed

lemma sif1_stays_in_ring_witness:
  "dmaSIF1 sif_calm 9 (sif_machine idle_channel sif_zero sif_zero) \<noteq> Some None"
  using sif1_stays_in_ring [OF sif_calm_devices, of "sif_machine idle_channel sif_zero sif_zero" 9]
  by (simp add: sif1_inv_def sif_zero_def fifo_valid_def IsValidPortableSifFifo_def)

subsection \<open>The loop that never ends\<close>

text \<open>With less than a quadword free, a pending transfer writes nothing and still counts as busy.\<close>

definition sif1_stuck :: "'w sif_env \<Rightarrow> 'w sif_state \<Rightarrow> bool" where
  "sif1_stuck v s \<longleftrightarrow> ee_busy (S1 s) \<and> \<not> iop_busy (S1 s) \<and> \<not> sif1_dma_stall (ee s) \<and>
     0 < sif_free (fifo (S1 s)) \<and> sif_free (fifo (S1 s)) < 4 \<and> chcr_STR (chcr (sif1ch s)) \<and> 0 < sint (qwc (sif1ch s)) \<and>
     ctrl_STD (ee s) \<noteq> STD_SIF1 \<and> dmaGetAddr v (madr (sif1ch s)) False \<noteq> None"

lemma ctrl_keeps [simp]:
  "DMAC_CTRL (ee (w1 f s)) = DMAC_CTRL (ee s)" "DMAC_CTRL (ee (wch n g s)) = DMAC_CTRL (ee s)"
  by (simp_all add: w1_def wch_def)

lemma tadr_inc_keeps [simp]:
  "chcr (hwDmacSrcTadrInc c) = chcr c" "qwc (hwDmacSrcTadrInc c) = qwc c" "madr (hwDmacSrcTadrInc c) = madr c"
  by (simp_all add: hwDmacSrcTadrInc_def)

lemma sif1_stuck_turn:
  assumes "sif1_stuck v s"
  shows "\<exists>s'. sif1_turn v s = Some (True, s') \<and> sif1_stuck v s'"
proof -
  obtain p where p: "dmaGetAddr v (madr (sif1ch s)) False = Some p" using assms by (auto simp: sif1_stuck_def)
  have "sif_free (fifo (S1 s)) div 4 = 0" using assms by (simp add: sif1_stuck_def)
  then have n: "sif1_write_size s = 0" using assms by (simp add: sif1_write_size_def sif1_stuck_def)
  define s' where "s' = wch 6 (\<lambda>c. c\<lparr>qwc := qwc c - word_of_int 0\<rparr>)
    (w1 (\<lambda>x. x\<lparr>ee_cycles := ee_cycles x + 0\<rparr>) (wch 6 (\<lambda>c. hwDmacSrcTadrInc (c\<lparr>madr := madr c + word_of_int 0 * 16\<rparr>))
      (w1 (\<lambda>x. x\<lparr>fifo := fifo (S1 s)\<rparr>) s)))"
  have wr_fifo: "WriteEEtoFifo v s = Some (True, s')"
    by (simp add: WriteEEtoFifo_def Let_def n getAddr_def p sif_write_def s'_def)
  have "qwc (sif1ch s) \<noteq> 0" "\<not> sif1_stall_drain s" using assms by (auto simp: sif1_stuck_def sif1_stall_drain_def)
  then have "HandleEETransfer1 v s = Some s'"
    using assms wr_fifo by (simp add: HandleEETransfer1_def sif1_stuck_def)
  moreover have stuck: "sif1_stuck v s'"
    using assms by (simp add: sif1_stuck_def s'_def ctrl_STD_def)
  moreover have "\<not> iop_busy (S1 s')" using stuck by (simp add: sif1_stuck_def)
  ultimately show ?thesis
    using assms by (simp add: sif1_turn_def sif1_ee_side_def sif1_iop_side_def sif1_stuck_def)
qed

text \<open>C36: Once tag transfer has left the ring with one to three free words, as it does after every odd
  number of tags, a pending transfer of the main processor hangs the emulator: with the I/O processor
  idle the loop of the engine never ends.\<close>

theorem sif1_tag_transfer_hangs:
  assumes "sif1_stuck v s"
  shows "SIF1Dma v k s = None"
proof -
  have loop: "sif_loop (sif1_turn v) k t = None" if "sif1_stuck v t" for t
    using that
  proof (induction k arbitrary: t)
    case (Suc k)
    from sif1_stuck_turn [OF Suc.prems] obtain t' where "sif1_turn v t = Some (True, t')" "sif1_stuck v t'" by blast
    with Suc.IH [of t'] show ?case by simp
  qed simp
  have "sif1_stuck v (Sif1Init (wee (\<lambda>e. e\<lparr>sif1_dma_stall := False\<rparr>) s))"
    using assms by (simp add: sif1_stuck_def ctrl_STD_def) 
  from loop [OF this] assms show ?thesis by (simp add: SIF1Dma_def sif1_stuck_def Let_def)
qed

lemma sif1_tag_transfer_hangs_witness:
  "SIF1Dma sif_calm 1000 (sif_machine idle_channel sif_zero (sif_zero\<lparr>fifo := (fifo sif_zero)\<lparr>writePos := 126, fifo_size := 126\<rparr>,
     ee_busy := True\<rparr>)) = None"
  by (rule sif1_tag_transfer_hangs)
    (simp add: sif1_stuck_def sif_zero_def idle_channel_def sif_free_def ctrl_STD_def field_def dmaGetAddr_def dma_calm_def)

end
