(* ===== verification/SIF_Move.thy ===== *)
theory SIF_Move
  imports SIF1_Props
begin

text \<open>
  What a transfer over the serial interface delivers: the words of the I/O processor's memory, in
  order, in the main processor's memory.
\<close>

subsection \<open>The words a transfer moves\<close>

lemma take_drop_words:
  "i < length ws \<Longrightarrow> take 4 (drop (4 * i) (concat (map word_bytes ws))) = word_bytes (ws ! i :: u32)"
proof (induction ws arbitrary: i)
  case (Cons w ws)
  then show ?case by (cases i) simp_all
qed simp

lemma words_at_put:
  assumes "length ws \<le> 128"
  shows "words_at p (length ws) (put_words p ws s) = ws"
proof (rule nth_equalityI)
  fix i assume "i < length (words_at p (length ws) (put_words p ws s))"
  then have i: "i < length ws" by simp
  define bs where "bs = concat (map word_bytes ws)"
  have len: "length bs = 4 * length ws" by (simp add: bs_def length_concat comp_def sum_list_triv)
  have "mem_read (mem_write (iopHost s) p bs) (p + 4 * of_nat i) 4 = take 4 (drop (4 * i) bs)"
  proof (rule nth_equalityI)
    fix j assume "j < length (mem_read (mem_write (iopHost s) p bs) (p + 4 * of_nat i) 4)"
    then have j: "j < 4" by simp
    have "p + 4 * of_nat i + of_nat j = p + of_nat (4 * i + j)" by simp
    moreover have "mem_write (iopHost s) p bs (p + of_nat (4 * i + j)) = bs ! (4 * i + j)"
      using i j assms len by (intro mem_write_inside) simp_all
    ultimately show "mem_read (mem_write (iopHost s) p bs) (p + 4 * of_nat i) 4 ! j = take 4 (drop (4 * i) bs) ! j"
      using i j len by (simp add: add.assoc)
  qed (use i len in simp)
  then show "words_at p (length ws) (put_words p ws s) ! i = ws ! i"
    using i take_drop_words [OF i] by (simp add: words_at_def put_words_def hget_def bs_def bytes_word_word_bytes)
qed simp

lemma host_keeps [simp]:
  "iopHost (wee f s) = iopHost s" "iopHost (w0 g s) = iopHost s" "iopHost (wch n h s) = iopHost s" "iopHost (set_stadr a s) = iopHost s"
  by (simp_all add: wee_def w0_def wch_def set_stadr_def)

lemma words_at_cong: "iopHost s = iopHost t \<Longrightarrow> words_at p n s = words_at p n t"
  by (simp add: words_at_def hget_def)

lemma rd_wr: "rd v a (wr v a x s) = x"
  using mem_read_write [of "word_bytes x" "iopHost s" "dma_reg v a"]
  by (simp add: rd_def wr_def hget_def hput_def bytes_word_word_bytes)

lemma rd_host: "rd v a (w0 f s) = rd v a s"
  by (simp add: rd_def hget_def)

text \<open>C16: The words that SIF0 moves arrive unchanged and in order. When the ring is empty and a packet of
  up to 32 quadwords is pending, one step of the I/O side and one of the main processor's side copy
  it from the address in the I/O channel to the address in the main channel, advance both addresses
  and the count by its size, and leave the ring empty with nothing pending.\<close>

theorem sif0_moves_words:
  assumes dev: "sif_devices v" and host: "\<forall>p n s. iopHost (NotifyA32EeRamWrite v p n s) = iopHost s"
    and ring: "fifo_valid (fifo (S0 s))" "fifo_size (fifo (S0 s)) = 0"
    and q: "counter (S0 s) = 4 * int q" "1 \<le> q" "q \<le> 32" "int q \<le> sint (qwc (sif0ch s))"
    and p: "dmaGetAddr v (madr (sif0ch s)) True = Some p"
  shows "\<exists>s1 s2. WriteIOPtoFifo v s = Some s1 \<and> WriteFifoToEE v s1 = Some (True, s2) \<and>
    words_at p (4 * q) s2 = words_at (iopPhysMem v (rd v DMA9_MADR s)) (4 * q) s \<and>
    rd v DMA9_MADR s1 = rd v DMA9_MADR s + word_of_nat (16 * q) \<and>
    madr (sif0ch s2) = madr (sif0ch s) + word_of_nat (16 * q) \<and> qwc (sif0ch s2) = qwc (sif0ch s) - word_of_nat q \<and>
    fifo_size (fifo (S0 s2)) = 0 \<and> counter (S0 s2) = 0"
proof -
  define ws where "ws = words_at (iopPhysMem v (rd v DMA9_MADR s)) (4 * q) s"
  have len: "length ws = 4 * q" by (simp add: ws_def words_at_def)
  have size: "min (counter (S0 s)) (sif_free (fifo (S0 s))) = 4 * int q" "nat (4 * int q) = 4 * q"
    using q ring by (simp_all add: sif_free_def)
  have empty: "fifo_contents (fifo (S0 s)) = []" using ring(2) by (simp add: fifo_contents_def ring_def)
  from sif_write_ok [OF ring(1), of "4 * int q" ws] ring(2) q(3) len empty size(2) obtain f where
    f: "sif_write ws (4 * int q) (fifo (S0 s)) = Some f" "fifo_valid f" "fifo_size f = 4 * int q" "fifo_contents f = ws"
    by (auto simp: sif_free_def)
  define s1 where "s1 = w0 (\<lambda>x. x\<lparr>iop_cycles := iop_cycles x + 4 * int q, counter := counter x - 4 * int q\<rparr>)
    (wr v DMA9_MADR (rd v DMA9_MADR (w0 (\<lambda>x. x\<lparr>fifo := f\<rparr>) s) + word_of_int (4 * int q) * 4) (w0 (\<lambda>x. x\<lparr>fifo := f\<rparr>) s))"
  have r1: "WriteIOPtoFifo v s = Some s1"
    using f(1) by (simp add: WriteIOPtoFifo_def Let_def size ws_def s1_def)
  have s1: "fifo (S0 s1) = f" "counter (S0 s1) = 0" "channel (ee s1) = channel (ee s)"
    using q(1) by (simp_all add: s1_def)
  have read: "min (sint (qwc (sif0ch s1))) (fifo_size (fifo (S0 s1)) div 4) = int q"
    using q(4) f(3) by (simp add: s1)
  from sif_read_ok [OF f(2), of "int q * 4" "words_at p (4 * q) s1"] f(3,4) len size(2) obtain g where
    g: "sif_read (words_at p (4 * q) s1) (int q * 4) f = Some (ws, g)" "fifo_size g = 0"
    by (auto simp: mult.commute [of "int q"] length_words_at)
  have to: "fifo_to p (int q * 4) (S0 s1) s1 = Some (g, put_words p ws s1)"
    using g by (simp add: fifo_to_def s1 nat_mult_distrib mult.commute)
  obtain s2 where r2: "WriteFifoToEE v s1 = Some (True, s2)"
    "iopHost s2 = iopHost (put_words p ws s1)" "S0 s2 = (S0 s1)\<lparr>fifo := g, ee_cycles := ee_cycles (S0 s1) + int q\<rparr>"
    "sif0ch s2 = (sif0ch s1)\<lparr>madr := madr (sif0ch s1) + word_of_nat q * 16, qwc := qwc (sif0ch s1) - word_of_nat q\<rparr>"
    using p host owned_fields [OF owned_notify(1) [OF dev]] unfolding WriteFifoToEE_def Let_def read
    by (simp add: s1 getAddr_def to)
  have "words_at p (4 * q) s2 = words_at p (length ws) (put_words p ws s1)"
    unfolding len by (rule words_at_cong) (rule r2(2))
  then have "words_at p (4 * q) s2 = ws" using words_at_put [of ws] q(3) len by simp
  moreover have "rd v DMA9_MADR s1 = rd v DMA9_MADR s + word_of_nat (16 * q)"
    by (simp add: s1_def rd_host rd_wr)
  ultimately show ?thesis
    using r1 r2 s1 g(2) by (intro exI [of _ s1] exI [of _ s2]) (simp add: ws_def)
qed

lemma sif0_moves_words_witness:
  "\<exists>s1 s2. WriteIOPtoFifo sif_calm (sif_machine idle_channel (sif_zero\<lparr>counter := 8\<rparr>) sif_zero) = Some s1 \<and>
     WriteFifoToEE sif_calm s1 = Some (True, s2) \<and> qwc (sif0ch s2) = 0 \<and>
     words_at 0x20001000 8 s2 = words_at (iopPhysMem sif_calm (rd sif_calm DMA9_MADR (sif_machine idle_channel (sif_zero\<lparr>counter := 8\<rparr>) sif_zero)))
       8 (sif_machine idle_channel (sif_zero\<lparr>counter := 8\<rparr>) sif_zero)"
proof -
  let ?s = "sif_machine idle_channel (sif_zero\<lparr>counter := 8\<rparr>) sif_zero"
  have ch: "channel (ee ?s) = (\<lambda>_. idle_channel)" by (rule ext) simp
  have "dmaGetAddr sif_calm (madr (sif0ch ?s)) True = Some 0x20001000"
    by (simp add: ch idle_channel_def dma_calm_def dmaGetAddr_def)
  from sif0_moves_words [OF sif_calm_devices _ _ _ _ _ _ _ this, of 2] show ?thesis
    using sif_zero_inv by (simp add: ch idle_channel_def dma_calm_def sif0_inv_def sif_zero_def) blast
qed

end
