(* ===== verification/IOP_Counters.thy ===== *)
theory IOP_Counters
  imports EE_Sched
begin

text \<open>
  The counters of the I/O processor (\<^verbatim>\<open>pcsx2/IopCounters.cpp\<close>): counting, targets, overflows,
  gates, interrupts, the cached deadlines of the Vita scheduler, the periodic update and the register
  writes. The sound, network, serial-bus and disc devices are parameters.
\<close>

subsection \<open>State\<close>

text \<open>\<open>p_mode\<close> is the mode word with its bit fields, \<open>p_deltaCycles\<close> a signed word. Counters 6 and 7 are
  the owners of the sound and serial-bus deadlines.\<close>

record psxCounter =
  p_count :: u64
  p_target :: u64
  p_rate :: u32
  p_interrupt :: u32
  p_startCycle :: u64
  p_deltaCycles :: u32
  p_mode :: u32
  repeatInterrupt :: bool
  toggleInterrupt :: bool

record psx_rcnt = ee_sched +
  psxCounters :: "nat \<Rightarrow> psxCounter"
  hBlanking :: bool
  vBlanking :: bool
  deadline_rebuilding :: bool
  deadline_valid :: bool
  spu2_is_strict_next_owner :: bool
  guest_counter_deadlines :: "nat \<Rightarrow> u64"
  guest_counter_deadline :: u64
  previous_counter_deadline :: u64
  spu2_deadline :: u64
  usb_deadline :: u64

type_synonym 'w rcnt_state = "'w psx_rcnt_scheme iop"

record 'w rcnt_env =
  core :: "'w psx_rcnt_ext ee_env"
  SPU2async :: "'w rcnt_state \<Rightarrow> 'w rcnt_state"
  GetNextPeriodicUpdateDelta :: "'w rcnt_state \<Rightarrow> u32"
  DEV9async :: "'w rcnt_state \<Rightarrow> 'w rcnt_state"
  USBasync :: "u32 \<Rightarrow> 'w rcnt_state \<Rightarrow> 'w rcnt_state"
  cdvdVsync :: "'w rcnt_state \<Rightarrow> 'w rcnt_state"

abbreviation pctr :: "nat \<Rightarrow> 'w rcnt_state \<Rightarrow> psxCounter" where
  "pctr i s \<equiv> psxCounters (ee s) i"

definition wctr :: "nat \<Rightarrow> (psxCounter \<Rightarrow> psxCounter) \<Rightarrow> 'w rcnt_state \<Rightarrow> 'w rcnt_state" where
  "wctr i f = wee (\<lambda>e. e\<lparr>psxCounters := (psxCounters e)(i := f (psxCounters e i))\<rparr>)"

definition put_bit :: "nat \<Rightarrow> bool \<Rightarrow> u32 \<Rightarrow> u32" where
  "put_bit n b w = (if b then set_bit n w else unset_bit n w)"

abbreviation "gateEnable c \<equiv> bit (p_mode c) 0"
abbreviation "gateMode c \<equiv> take_bit 2 (drop_bit 1 (p_mode c))"
abbreviation "zeroReturn c \<equiv> bit (p_mode c) 3"
abbreviation "targetIntr c \<equiv> bit (p_mode c) 4"
abbreviation "overflIntr c \<equiv> bit (p_mode c) 5"
abbreviation "repeatIntr c \<equiv> bit (p_mode c) 6"
abbreviation "toggleIntr c \<equiv> bit (p_mode c) 7"
abbreviation "extSignal c \<equiv> bit (p_mode c) 8"
abbreviation "t2Prescale c \<equiv> bit (p_mode c) 9"
abbreviation "intrEnable c \<equiv> bit (p_mode c) 10"
abbreviation "targetFlag c \<equiv> bit (p_mode c) 11"
abbreviation "overflowFlag c \<equiv> bit (p_mode c) 12"
abbreviation "t4_5Prescale c \<equiv> take_bit 2 (drop_bit 13 (p_mode c))"
abbreviation "stopped c \<equiv> bit (p_mode c) 15"

definition set_intrEnable :: "bool \<Rightarrow> psxCounter \<Rightarrow> psxCounter" where
  "set_intrEnable b c = c\<lparr>p_mode := put_bit 10 b (p_mode c)\<rparr>"

definition set_targetFlag :: "bool \<Rightarrow> psxCounter \<Rightarrow> psxCounter" where
  "set_targetFlag b c = c\<lparr>p_mode := put_bit 11 b (p_mode c)\<rparr>"

definition set_overflowFlag :: "bool \<Rightarrow> psxCounter \<Rightarrow> psxCounter" where
  "set_overflowFlag b c = c\<lparr>p_mode := put_bit 12 b (p_mode c)\<rparr>"

definition set_stopped :: "bool \<Rightarrow> psxCounter \<Rightarrow> psxCounter" where
  "set_stopped b c = c\<lparr>p_mode := put_bit 15 b (p_mode c)\<rparr>"

abbreviation "PSXPIXEL \<equiv> 3 :: u32"
abbreviation "PSXHBLANK \<equiv> 0x2001 :: u32"
abbreviation "IOPCNT_FUTURE_TARGET \<equiv> 0x1000000000 :: u64"
abbreviation "IOPCNT_MODE_WRITE_MSK \<equiv> 0x63FF :: u32"
abbreviation "IOPCNT_MODE_FLAG_MSK \<equiv> 0x1C00 :: u32"
abbreviation "IOPCNT_GATE_CNT_LOW \<equiv> 0 :: u32"
abbreviation "IOPCNT_GATE_CLR_END \<equiv> 1 :: u32"
abbreviation "IOPCNT_GATE_CNT_HIGH_ZERO_OFF \<equiv> 2 :: u32"
abbreviation "IOPCNT_GATE_START_AT_END \<equiv> 3 :: u32"
abbreviation "NO_DEADLINE \<equiv> 0xffffffffffffffff :: u64"

subsection \<open>The cached deadlines\<close>

definition VitaInvalidateIopGuestCounterDeadline :: "'w psx_rcnt_scheme \<Rightarrow> 'w psx_rcnt_scheme" where
  "VitaInvalidateIopGuestCounterDeadline e =
    e\<lparr>deadline_rebuilding := False, deadline_valid := False, spu2_is_strict_next_owner := False,
      spu2_deadline := NO_DEADLINE, usb_deadline := NO_DEADLINE\<rparr>"

definition VitaBeginIopGuestCounterDeadlineCollection :: "'w psx_rcnt_scheme \<Rightarrow> 'w psx_rcnt_scheme" where
  "VitaBeginIopGuestCounterDeadlineCollection e =
    e\<lparr>deadline_rebuilding := True, deadline_valid := False, guest_counter_deadlines := \<lambda>_. NO_DEADLINE,
      guest_counter_deadline := NO_DEADLINE\<rparr>"

definition VitaBeginIopGuestCounterDeadlineSlot :: "nat \<Rightarrow> 'w psx_rcnt_scheme \<Rightarrow> 'w psx_rcnt_scheme" where
  "VitaBeginIopGuestCounterDeadlineSlot i e =
    e\<lparr>previous_counter_deadline := guest_counter_deadlines e i,
      guest_counter_deadlines := (guest_counter_deadlines e)(i := NO_DEADLINE)\<rparr>"

definition VitaPublishIopGuestCounterDelta :: "nat \<Rightarrow> u64 \<Rightarrow> 'w rcnt_state \<Rightarrow> 'w rcnt_state" where
  "VitaPublishIopGuestCounterDelta i delta s =
    (let deadline = psxNextStartCounter s + delta
     in wee (\<lambda>e. if deadline < guest_counter_deadlines e i
                 then e\<lparr>guest_counter_deadlines := (guest_counter_deadlines e)(i := deadline)\<rparr> else e) s)"

definition VitaRecomputeIopGuestCounterDeadline :: "'w psx_rcnt_scheme \<Rightarrow> 'w psx_rcnt_scheme" where
  "VitaRecomputeIopGuestCounterDeadline e =
    e\<lparr>guest_counter_deadline := fold (\<lambda>i m. if guest_counter_deadlines e i < m then guest_counter_deadlines e i else m)
                                  [0..<6] NO_DEADLINE\<rparr>"

text \<open>The sound owner is strictly next only when the published aggregate is exactly its deadline.\<close>

definition VitaRefreshIopSpu2Ownership :: "'w rcnt_state \<Rightarrow> 'w rcnt_state" where
  "VitaRefreshIopSpu2Ownership s0 =
    (let s = wee (\<lambda>e. e\<lparr>spu2_is_strict_next_owner := False\<rparr>) s0;
         own = wee (\<lambda>e. e\<lparr>spu2_is_strict_next_owner :=
                 (spu2_deadline e < usb_deadline e \<and> spu2_deadline e < guest_counter_deadline e)\<rparr>)
     in if \<not> deadline_valid (ee s) \<or> psxNextDeltaCounter s <s 0 then s
        else let aggregate_deadline = psxNextStartCounter s + ucast (psxNextDeltaCounter s)
        in if aggregate_deadline \<noteq> spu2_deadline (ee s)
           then if p_deltaCycles (pctr 6 s) <s 0 then s
                else let shortened = p_startCycle (pctr 6 s) + ucast (p_deltaCycles (pctr 6 s))
                in if aggregate_deadline \<noteq> shortened then s
                   else own (wee (\<lambda>e. e\<lparr>spu2_deadline := shortened\<rparr>) s)
           else own s)"

definition VitaFinishIopGuestCounterDeadlineSlot :: "nat \<Rightarrow> 'w rcnt_state \<Rightarrow> 'w rcnt_state" where
  "VitaFinishIopGuestCounterDeadlineSlot i s =
    (if deadline_rebuilding (ee s) \<or> \<not> deadline_valid (ee s) then s
     else let replacement = guest_counter_deadlines (ee s) i;
              s1 = (if previous_counter_deadline (ee s) = guest_counter_deadline (ee s) \<or>
                       replacement < guest_counter_deadline (ee s)
                    then wee VitaRecomputeIopGuestCounterDeadline s else s)
          in VitaRefreshIopSpu2Ownership s1)"

definition VitaFinishIopGuestCounterDeadlineCollection :: "'w psx_rcnt_scheme \<Rightarrow> 'w psx_rcnt_scheme" where
  "VitaFinishIopGuestCounterDeadlineCollection e =
    (VitaRecomputeIopGuestCounterDeadline (e\<lparr>deadline_rebuilding := False\<rparr>))\<lparr>deadline_valid := True\<rparr>"

subsection \<open>Counting\<close>

definition psxRcntCanCount :: "nat \<Rightarrow> 'w psx_rcnt_scheme \<Rightarrow> bool" where
  "psxRcntCanCount i e =
    (let c = psxCounters e i
     in if stopped c then False
        else if \<not> gateEnable c then True
        else if i = 2 \<or> i = 4 \<or> i = 5 then gateMode c AND 1 \<noteq> 0
        else let blanking = (if i = 0 then hBlanking e else vBlanking e)
             in \<not> (gateMode c = IOPCNT_GATE_CNT_LOW \<and> blanking \<or> gateMode c = IOPCNT_GATE_CNT_HIGH_ZERO_OFF \<and> \<not> blanking))"

definition VitaIopHsyncCountersAreSilent :: "'w psx_rcnt_scheme \<Rightarrow> bool" where
  "VitaIopHsyncCountersAreSilent e \<longleftrightarrow>
     \<not> gateEnable (psxCounters e 0) \<and>
     \<not> (p_rate (psxCounters e 1) = PSXHBLANK \<and> psxRcntCanCount 1 e) \<and>
     \<not> (p_rate (psxCounters e 3) = PSXHBLANK \<and> psxRcntCanCount 3 e)"

definition rate_mask :: "u32 \<Rightarrow> u64" where
  "rate_mask rate = NOT (ucast rate - 1)"

definition psxRcntSync :: "nat \<Rightarrow> 'w rcnt_state \<Rightarrow> 'w rcnt_state" where
  "psxRcntSync i s =
    (let s1 = wctr i (\<lambda>c. if repeatInterrupt c \<and> \<not> toggleInterrupt c then set_intrEnable True c else c) s;
         t0 = psx_cycle (psx s1)
     in if psxRcntCanCount i (ee s1) \<and> p_rate (pctr i s1) \<noteq> PSXHBLANK
        then let c = pctr i s1; change = ucast ((t0 - p_startCycle c) div ucast (p_rate c)) :: u32
             in if change > 0
                then wctr i (\<lambda>c. c\<lparr>p_count := p_count c + ucast change,
                                   p_startCycle := (p_startCycle c + ucast (change * p_rate c)) AND rate_mask (p_rate c)\<rparr>) s1
                else s1
        else wctr i (\<lambda>c. (if gateEnable c \<and> gateMode c = IOPCNT_GATE_CNT_HIGH_ZERO_OFF then c\<lparr>p_count := 0\<rparr> else c)
                         \<lparr>p_startCycle := t0\<rparr>) s1)"

subsection \<open>Deadlines of a counter\<close>

text \<open>A deadline relative to the last update is published; the unsigned comparison reads a negative
  delta as a large number.\<close>

definition publish_delta :: "nat \<Rightarrow> u64 \<Rightarrow> 'w rcnt_state \<Rightarrow> 'w rcnt_state" where
  "publish_delta i c s =
    (let s1 = VitaPublishIopGuestCounterDelta i c s
     in if c < scast (psxNextDeltaCounter s1)
        then let s2 = s1\<lparr>psxNextDeltaCounter := ucast c\<rparr>
             in wpsx (psxSetNextBranch (psxNextStartCounter s2) (psxNextDeltaCounter s2)) s2
        else s1)"

definition delta_to :: "u64 \<Rightarrow> psxCounter \<Rightarrow> 'w rcnt_state \<Rightarrow> u64" where
  "delta_to limit c s =
    (limit - p_count c) * ucast (p_rate c) - ucast (ucast (psx_cycle (psx s)) - ucast (p_startCycle c) :: u32)
     + (psx_cycle (psx s) - psxNextStartCounter s)"

definition psx_rcntSet :: "nat \<Rightarrow> 'w rcnt_state \<Rightarrow> 'w rcnt_state" where
  "psx_rcntSet i s0 =
    (let s = wee (VitaBeginIopGuestCounterDeadlineSlot i) s0;
         overflowCap = (if i \<ge> 3 then 0x100000000 else 0x10000 :: u64);
         c = pctr i s
     in VitaFinishIopGuestCounterDeadlineSlot i
       (if p_rate c = PSXHBLANK \<or> \<not> psxRcntCanCount i (ee s) then s
        else if p_count c > overflowCap \<or> p_count c > p_target c
        then VitaPublishIopGuestCounterDelta i 4 (s\<lparr>psxNextDeltaCounter := 4\<rparr>)
        else let s1 = publish_delta i (delta_to overflowCap c s) s
             in if p_target c AND IOPCNT_FUTURE_TARGET \<noteq> 0 then s1
                else publish_delta i (delta_to (p_target c) c s1) s1))"

subsection \<open>Interrupts\<close>

definition iop_irq :: "'w rcnt_env \<Rightarrow> u32 \<Rightarrow> 'w rcnt_state \<Rightarrow> 'w rcnt_state" where
  "iop_irq v bits s =
    (let istat = psxHu (iop_part (core v)) HW_ISTAT
     in iopTestIntc (iop_part (core v)) (hput istat (hget istat s OR bits) s))"

definition rcntFireInterrupt :: "'w rcnt_env \<Rightarrow> nat \<Rightarrow> bool \<Rightarrow> 'w rcnt_state \<Rightarrow> 'w rcnt_state" where
  "rcntFireInterrupt v i isOverflow s =
    (let c = pctr i s;
         already_set = (if isOverflow then overflowFlag c else targetFlag c);
         s1 = (if intrEnable c \<and> (repeatInterrupt c \<or> \<not> already_set) then iop_irq v (p_interrupt c) s else s);
         updateIntr = (repeatInterrupt c \<or> intrEnable c \<and> toggleInterrupt c)
     in if updateIntr
        then if toggleInterrupt (pctr i s1) then wctr i (\<lambda>c. set_intrEnable (\<not> intrEnable c) c) s1
             else wctr i (set_intrEnable False) s1
        else s1)"

definition rcntTestTarget :: "'w rcnt_env \<Rightarrow> nat \<Rightarrow> 'w rcnt_state \<Rightarrow> 'w rcnt_state" where
  "rcntTestTarget v i s =
    (if p_count (pctr i s) < p_target (pctr i s) then s
     else let s1 = (if targetIntr (pctr i s) then rcntFireInterrupt v i False s else s);
              s2 = wctr i (set_targetFlag True) s1
          in wctr i (\<lambda>c. if zeroReturn c then c\<lparr>p_count := p_count c - p_target c\<rparr>
                         else c\<lparr>p_target := p_target c OR IOPCNT_FUTURE_TARGET\<rparr>) s2)"

definition maxTarget :: "nat \<Rightarrow> u64" where
  "maxTarget i = (if i < 3 then 0xffff else 0xffffffff)"

definition rcntTestOverflow :: "'w rcnt_env \<Rightarrow> nat \<Rightarrow> 'w rcnt_state \<Rightarrow> 'w rcnt_state" where
  "rcntTestOverflow v i s =
    (if p_count (pctr i s) \<le> maxTarget i then s
     else let s1 = (if overflIntr (pctr i s) then rcntFireInterrupt v i True s else s);
              s2 = wctr i (set_overflowFlag True) s1
          in wctr i (\<lambda>c. c\<lparr>p_count := p_count c - (maxTarget i + 1), p_target := p_target c AND maxTarget i\<rparr>) s2)"

subsection \<open>Reading\<close>

definition psxRcntRcount16 :: "nat \<Rightarrow> 'w rcnt_state \<Rightarrow> u16 \<times> 'w rcnt_state" where
  "psxRcntRcount16 i s = (let s1 = psxRcntSync i s in (ucast (p_count (pctr i s1)), s1))"

definition psxRcntRcount32 :: "nat \<Rightarrow> 'w rcnt_state \<Rightarrow> u32 \<times> 'w rcnt_state" where
  "psxRcntRcount32 i s = (let s1 = psxRcntSync i s in (ucast (p_count (pctr i s1)), s1))"

subsection \<open>Gates\<close>

definition start_at :: "u64 \<Rightarrow> psxCounter \<Rightarrow> psxCounter" where
  "start_at t0 c = c\<lparr>p_startCycle := t0 AND rate_mask (p_rate c)\<rparr>"

definition clear_count :: "psxCounter \<Rightarrow> psxCounter" where
  "clear_count c = c\<lparr>p_count := 0, p_target := p_target c AND NOT IOPCNT_FUTURE_TARGET\<rparr>"

definition psxCheckStartGate :: "nat \<Rightarrow> 'w rcnt_state \<Rightarrow> 'w rcnt_state" where
  "psxCheckStartGate i s =
    (if \<not> gateEnable (pctr i s) then s
     else if gateMode (pctr i s) = IOPCNT_GATE_CNT_LOW
     then let (count, s1) = (if i < 3 then (case psxRcntRcount16 i s of (x, t) \<Rightarrow> (ucast x :: u64, t))
                             else (case psxRcntRcount32 i s of (x, t) \<Rightarrow> (ucast x, t)))
          in wctr i (\<lambda>c. start_at (psx_cycle (psx s1)) (c\<lparr>p_count := count\<rparr>)) s1
     else if gateMode (pctr i s) = IOPCNT_GATE_CNT_HIGH_ZERO_OFF
     then wctr i (\<lambda>c. clear_count (set_stopped False c)) (psxRcntSync i s)
     else s)"

definition psxCheckEndGate :: "nat \<Rightarrow> 'w rcnt_state \<Rightarrow> 'w rcnt_state" where
  "psxCheckEndGate i s =
    (if \<not> gateEnable (pctr i s) then s
     else if gateMode (pctr i s) = IOPCNT_GATE_CNT_LOW then wctr i (start_at (psx_cycle (psx s))) s
     else if gateMode (pctr i s) = IOPCNT_GATE_CLR_END \<or> gateMode (pctr i s) = IOPCNT_GATE_CNT_HIGH_ZERO_OFF
     then wctr i clear_count (psxRcntSync i s)
     else if stopped (pctr i s) then wctr i (\<lambda>c. set_stopped False (start_at (psx_cycle (psx s)) c)) s
     else s)"

definition set_hBlanking :: "bool \<Rightarrow> 'w rcnt_state \<Rightarrow> 'w rcnt_state" where
  "set_hBlanking b = wee (\<lambda>e. e\<lparr>hBlanking := b\<rparr>)"

definition set_vBlanking :: "bool \<Rightarrow> 'w rcnt_state \<Rightarrow> 'w rcnt_state" where
  "set_vBlanking b = wee (\<lambda>e. e\<lparr>vBlanking := b\<rparr>)"

definition hblank_clock :: "'w rcnt_env \<Rightarrow> nat \<Rightarrow> 'w rcnt_state \<Rightarrow> 'w rcnt_state" where
  "hblank_clock v i s =
    (if p_rate (pctr i s) = PSXHBLANK \<and> psxRcntCanCount i (ee s)
     then rcntTestTarget v i (rcntTestOverflow v i (wctr i (\<lambda>c. c\<lparr>p_count := p_count c + 1\<rparr>) s)) else s)"

definition psxHBlankStart :: "'w rcnt_env \<Rightarrow> 'w rcnt_state \<Rightarrow> 'w rcnt_state" where
  "psxHBlankStart v s =
    psx_rcntSet 0 (set_hBlanking True (psxCheckStartGate 0 (hblank_clock v 3 (hblank_clock v 1 s))))"

definition psxHBlankEnd :: "'w rcnt_state \<Rightarrow> 'w rcnt_state" where
  "psxHBlankEnd s = psx_rcntSet 0 (set_hBlanking False (psxCheckEndGate 0 s))"

definition psxVBlankStart :: "'w rcnt_env \<Rightarrow> 'w rcnt_state \<Rightarrow> 'w rcnt_state" where
  "psxVBlankStart v s =
    (let s1 = iop_irq v (push_bit 0 1) (cdvdVsync v s);
         s2 = set_vBlanking True (psxCheckStartGate 3 (psxCheckStartGate 1 s1))
     in psx_rcntSet 3 (psx_rcntSet 1 s2))"

definition psxVBlankEnd :: "'w rcnt_env \<Rightarrow> 'w rcnt_state \<Rightarrow> 'w rcnt_state" where
  "psxVBlankEnd v s =
    (let s1 = iop_irq v (push_bit 11 1) s;
         s2 = set_vBlanking False (psxCheckEndGate 3 (psxCheckEndGate 1 s1))
     in psx_rcntSet 3 (psx_rcntSet 1 s2))"

subsection \<open>The periodic update\<close>

definition AdvanceAndScheduleSpu2 :: "'w rcnt_env \<Rightarrow> 'w rcnt_state \<Rightarrow> 'w rcnt_state" where
  "AdvanceAndScheduleSpu2 v s =
    (let s1 = SPU2async v s
     in wctr 6 (\<lambda>c. c\<lparr>p_startCycle := psx_cycle (psx s1), p_deltaCycles := GetNextPeriodicUpdateDelta v s1\<rparr>) s1)"

definition elapsed_usb :: "'w rcnt_state \<Rightarrow> u32" where
  "elapsed_usb s = ucast (psx_cycle (psx s) - p_startCycle (pctr 7 s))"

definition start_update :: "'w rcnt_state \<Rightarrow> 'w rcnt_state" where
  "start_update s = s\<lparr>psxNextDeltaCounter := 0x7fffffff, psxNextStartCounter := psx_cycle (psx s)\<rparr>"

definition owner_deadline :: "u32 \<Rightarrow> 'w rcnt_state \<Rightarrow> u64" where
  "owner_deadline delta s = (if 0 \<le>s delta then psx_cycle (psx s) + ucast delta else NO_DEADLINE)"

text \<open>When the sound owner alone is due, the counters and the serial bus keep their published deadlines.\<close>

definition VitaTrySpu2OnlyCounterUpdate :: "'w rcnt_env \<Rightarrow> 'w rcnt_state \<Rightarrow> bool \<times> 'w rcnt_state" where
  "VitaTrySpu2OnlyCounterUpdate v s0 =
    (let s = VitaRefreshIopSpu2Ownership s0; t0 = psx_cycle (psx s)
     in if \<not> deadline_valid (ee s) \<or> \<not> spu2_is_strict_next_owner (ee s) then (False, s)
        else if ucast (t0 - psxNextStartCounter s) <s psxNextDeltaCounter s then (False, s)
        else if t0 \<ge> guest_counter_deadline (ee s) then (False, s)
        else if p_deltaCycles (pctr 7 s) \<le>s elapsed_usb s then (False, s)
        else
          let usb_remaining = p_deltaCycles (pctr 7 s) - elapsed_usb s;
              s1 = AdvanceAndScheduleSpu2 v (start_update s);
              s2 = s1\<lparr>psxNextDeltaCounter := p_deltaCycles (pctr 6 s1)\<rparr>;
              s3 = (if usb_remaining <s psxNextDeltaCounter s2 then s2\<lparr>psxNextDeltaCounter := usb_remaining\<rparr> else s2);
              counter_remaining = guest_counter_deadline (ee s3) - psx_cycle (psx s3);
              s4 = (if guest_counter_deadline (ee s3) \<noteq> NO_DEADLINE \<and> counter_remaining < scast (psxNextDeltaCounter s3)
                    then let t = s3\<lparr>psxNextDeltaCounter := ucast counter_remaining\<rparr>
                         in wpsx (psxSetNextBranch (psxNextStartCounter t) (psxNextDeltaCounter t)) t
                    else s3);
              s5 = wee (\<lambda>e. e\<lparr>spu2_deadline := owner_deadline (p_deltaCycles (psxCounters e 6)) s4,
                              usb_deadline := psx_cycle (psx s4) + ucast usb_remaining\<rparr>) s4
          in (True, VitaRefreshIopSpu2Ownership s5))"

definition update_counter :: "'w rcnt_env \<Rightarrow> nat \<Rightarrow> 'w rcnt_state \<Rightarrow> 'w rcnt_state" where
  "update_counter v i s =
    (let s1 = psxRcntSync i s
     in if p_rate (pctr i s1) = PSXHBLANK \<or> \<not> psxRcntCanCount i (ee s1) then s1
        else rcntTestTarget v i (rcntTestOverflow v i s1))"

definition update_usb :: "'w rcnt_env \<Rightarrow> 'w rcnt_state \<Rightarrow> u32 \<times> 'w rcnt_state" where
  "update_usb v s =
    (let diffusb = elapsed_usb s; cusb = p_deltaCycles (pctr 7 s)
     in if p_deltaCycles (pctr 7 s) \<le>s diffusb
        then let s1 = USBasync v diffusb s
             in (cusb, wctr 7 (\<lambda>c. c\<lparr>p_startCycle := p_startCycle c + ucast (p_rate c * (diffusb div p_rate c)),
                                    p_deltaCycles := p_rate c\<rparr>) s1)
        else (cusb - diffusb, s))"

definition full_update :: "'w rcnt_env \<Rightarrow> 'w rcnt_state \<Rightarrow> 'w rcnt_state" where
  "full_update v s =
    (let s1 = fold (update_counter v) [0..<6] (start_update s);
         s2 = AdvanceAndScheduleSpu2 v s1;
         s3 = DEV9async v (s2\<lparr>psxNextDeltaCounter := p_deltaCycles (pctr 6 s2)\<rparr>);
         (cusb, s4) = update_usb v s3;
         s5 = (if cusb <s psxNextDeltaCounter s4 then s4\<lparr>psxNextDeltaCounter := cusb\<rparr> else s4);
         s6 = fold psx_rcntSet [0..<6] (wee VitaBeginIopGuestCounterDeadlineCollection s5);
         s7 = wee VitaFinishIopGuestCounterDeadlineCollection s6;
         s8 = wee (\<lambda>e. e\<lparr>spu2_deadline := owner_deadline (p_deltaCycles (psxCounters e 6)) s7,
                         usb_deadline := owner_deadline cusb s7\<rparr>) s7
     in VitaRefreshIopSpu2Ownership s8)"

definition iop_rcntUpdate :: "'w rcnt_env \<Rightarrow> 'w rcnt_state \<Rightarrow> 'w rcnt_state" where
  "iop_rcntUpdate v s = (case VitaTrySpu2OnlyCounterUpdate v s of (taken, s1) \<Rightarrow> if taken then s1 else full_update v s1)"

subsection \<open>Register writes\<close>

definition psxRcntSetNewIntrMode :: "psxCounter \<Rightarrow> psxCounter" where
  "psxRcntSetNewIntrMode c =
    (set_intrEnable True (set_overflowFlag False (set_targetFlag False c)))
      \<lparr>repeatInterrupt := repeatIntr c, toggleInterrupt := toggleIntr c\<rparr>"

definition future_if :: "bool \<Rightarrow> psxCounter \<Rightarrow> psxCounter" where
  "future_if b c = (if b then c\<lparr>p_target := p_target c OR IOPCNT_FUTURE_TARGET\<rparr> else c)"

definition write_count :: "nat \<Rightarrow> u64 \<Rightarrow> 'w rcnt_state \<Rightarrow> 'w rcnt_state" where
  "write_count i value s =
    psx_rcntSet i (wctr i (\<lambda>c. let c1 = c\<lparr>p_count := value, p_target := p_target c AND maxTarget i\<rparr>
                                in future_if (p_count c1 > p_target c1) c1) (psxRcntSync i s))"

definition psxRcntWcount16 :: "nat \<Rightarrow> u16 \<Rightarrow> 'w rcnt_state \<Rightarrow> 'w rcnt_state" where
  "psxRcntWcount16 i value = write_count i (ucast value AND 0xffff)"

definition psxRcntWcount32 :: "nat \<Rightarrow> u32 \<Rightarrow> 'w rcnt_state \<Rightarrow> 'w rcnt_state" where
  "psxRcntWcount32 i value = write_count i (ucast value)"

definition write_target :: "nat \<Rightarrow> u64 \<Rightarrow> 'w rcnt_state \<Rightarrow> 'w rcnt_state" where
  "write_target i value s =
    psx_rcntSet i (wctr i (\<lambda>c. future_if (p_target c \<le> p_count c) c)
      (psxRcntSync i (wctr i (\<lambda>c. c\<lparr>p_target := value\<rparr>) s)))"

definition psxRcntWtarget16 :: "nat \<Rightarrow> u32 \<Rightarrow> 'w rcnt_state \<Rightarrow> 'w rcnt_state" where
  "psxRcntWtarget16 i value = write_target i (ucast (value AND 0xffff))"

definition psxRcntWtarget32 :: "nat \<Rightarrow> u32 \<Rightarrow> 'w rcnt_state \<Rightarrow> 'w rcnt_state" where
  "psxRcntWtarget32 i value = write_target i (ucast value)"

text \<open>A mode write resets the count; the flags are kept while an interrupt that raised them is enabled.\<close>

definition write_mode :: "u32 \<Rightarrow> psxCounter \<Rightarrow> psxCounter" where
  "write_mode value c =
    (let c1 = c\<lparr>p_mode := (value AND IOPCNT_MODE_WRITE_MSK) OR (p_mode c AND IOPCNT_MODE_FLAG_MSK)\<rparr>
     in if (targetFlag c \<or> overflowFlag c) \<and> (targetIntr c \<or> overflIntr c) then c1 else psxRcntSetNewIntrMode c1)"

definition stop_if_gated :: "psxCounter \<Rightarrow> psxCounter" where
  "stop_if_gated c = (if gateEnable c \<and> gateMode c \<ge> IOPCNT_GATE_CNT_HIGH_ZERO_OFF then set_stopped True c else c)"

definition mode_rate16 :: "nat \<Rightarrow> psxCounter \<Rightarrow> psxCounter" where
  "mode_rate16 i c =
    (if i = 2 then c\<lparr>p_rate := (if t2Prescale c then 8 else 1)\<rparr>
     else stop_if_gated (c\<lparr>p_rate := (if extSignal c then if i = 0 then PSXPIXEL else PSXHBLANK else 1)\<rparr>))"

definition mode_rate32 :: "nat \<Rightarrow> psxCounter \<Rightarrow> psxCounter" where
  "mode_rate32 i c =
    (if i = 3 then stop_if_gated (c\<lparr>p_rate := (if extSignal c then PSXHBLANK else 1)\<rparr>)
     else c\<lparr>p_rate := (if t4_5Prescale c = 1 then 8 else if t4_5Prescale c = 2 then 16
                       else if t4_5Prescale c = 3 then 256 else 1)\<rparr>)"

definition restart :: "nat \<Rightarrow> u64 \<Rightarrow> psxCounter \<Rightarrow> psxCounter" where
  "restart i t0 c = start_at t0 (c\<lparr>p_count := 0, p_target := p_target c AND maxTarget i\<rparr>)"

definition psxRcntWmode16 :: "nat \<Rightarrow> u32 \<Rightarrow> 'w rcnt_state \<Rightarrow> 'w rcnt_state" where
  "psxRcntWmode16 i value s =
    psx_rcntSet i (wctr i (\<lambda>c. restart i (psx_cycle (psx s)) (mode_rate16 i (write_mode value c))) s)"

definition psxRcntWmode32 :: "nat \<Rightarrow> u32 \<Rightarrow> 'w rcnt_state \<Rightarrow> 'w rcnt_state" where
  "psxRcntWmode32 i value s =
    psx_rcntSet i (wctr i (\<lambda>c. restart i (psx_cycle (psx s)) (mode_rate32 i (write_mode value c))) s)"

subsection \<open>Reset\<close>

definition reset_counter :: "u64 \<Rightarrow> u32 \<Rightarrow> nat \<Rightarrow> psxCounter" where
  "reset_counter t0 clk i =
    (let c = \<lparr>p_count = 0, p_target = 0, p_rate = 0, p_interrupt = 0, p_startCycle = t0, p_deltaCycles = 0, p_mode = 0,
              repeatInterrupt = False, toggleInterrupt = False\<rparr>
     in if i < 6
        then set_intrEnable True (c\<lparr>p_rate := 1, p_target := IOPCNT_FUTURE_TARGET,
               p_interrupt := [0x10, 0x20, 0x40, 0x4000, 0x8000, 0x10000] ! i\<rparr>)
        else if i = 6 then c\<lparr>p_rate := 768, p_deltaCycles := 768, p_mode := 0x8\<rparr>
        else c\<lparr>p_rate := clk div 1000, p_deltaCycles := clk div 1000, p_mode := 0x8\<rparr>)"

definition psxRcntInit :: "'w rcnt_state \<Rightarrow> 'w rcnt_state" where
  "psxRcntInit s =
    wee (\<lambda>e. VitaInvalidateIopGuestCounterDeadline (e\<lparr>psxCounters := \<lambda>i. reset_counter (psx_cycle (psx s)) (PSXCLK s) i\<rparr>))
      (s\<lparr>psxNextDeltaCounter := 1, psxNextStartCounter := psx_cycle (psx s)\<rparr>)"

end
