(* ===== verification/EE_Counters.thy ===== *)
theory EE_Counters
  imports IOP_Counters
begin

text \<open>
  The counters of the main processor and the video timing (\<^verbatim>\<open>pcsx2/Counters.cpp\<close>): counting,
  targets and overflows, gates, the horizontal and vertical edges, the deadline of the next update,
  the folding of silent edges of the Vita scheduler, and the register accesses. The front-end work of
  a frame and the calculation of the timing from the video mode, which is floating point, are
  parameters.
\<close>

subsection \<open>State\<close>

record Counter =
  e_count :: u32
  e_modeval :: u32
  e_target :: u32
  e_hold :: u32
  e_rate :: u32
  e_interrupt :: u32
  e_startCycle :: u64

record SyncCounter =
  sc_Mode :: u32
  sc_startCycle :: u64
  sc_deltaCycles :: u32

record vSyncTimingInfo =
  vs_Render :: u32
  vs_Blank :: u32
  vs_GSBlank :: u32
  vs_hSyncError :: u32
  vs_hRender :: u32
  vs_hBlank :: u32

text \<open>The registers of the graphics synthesizer are its status, interrupt mask, mode and synchronisation
  registers.\<close>

record ee_rcnt = psx_rcnt +
  counters :: "nat \<Rightarrow> Counter"
  hsyncCounter :: SyncCounter
  vsyncCounter :: SyncCounter
  vSyncInfo :: vSyncTimingInfo
  GS_CSR :: u32
  GS_IMR :: u32
  GS_SMODE1 :: u32
  GS_SYNCV :: u32
  g_FrameCount :: u32

type_synonym 'u video_state = "'u ee_rcnt_scheme iop"

record 'u video_env =
  psx_side :: "'u ee_rcnt_ext rcnt_env"
  VSyncFrontEnd :: "'u video_state \<Rightarrow> 'u video_state"
  VSyncLeave :: "'u video_state \<Rightarrow> 'u video_state"

abbreviation "ClockSource c \<equiv> take_bit 2 (e_modeval c)"
abbreviation "EnableGate c \<equiv> bit (e_modeval c) 2"
abbreviation "GateSource c \<equiv> bit (e_modeval c) 3"
abbreviation "GateMode c \<equiv> take_bit 2 (drop_bit 4 (e_modeval c))"
abbreviation "ZeroReturn c \<equiv> bit (e_modeval c) 6"
abbreviation "IsCounting c \<equiv> bit (e_modeval c) 7"
abbreviation "TargetInterrupt c \<equiv> bit (e_modeval c) 8"
abbreviation "OverflowInterrupt c \<equiv> bit (e_modeval c) 9"
abbreviation "TargetReached c \<equiv> bit (e_modeval c) 10"
abbreviation "OverflowReached c \<equiv> bit (e_modeval c) 11"

abbreviation "EECNT_FUTURE_TARGET \<equiv> 0x10000000 :: u32"
abbreviation "MODE_VRENDER \<equiv> 0 :: u32"
abbreviation "MODE_VBLANK \<equiv> 1 :: u32"
abbreviation "MODE_GSBLANK \<equiv> 2 :: u32"
abbreviation "MODE_HRENDER \<equiv> 0 :: u32"
abbreviation "MODE_HBLANK \<equiv> 1 :: u32"
abbreviation "INTC_GS \<equiv> 0 :: nat"
abbreviation "INTC_VBLANK_S \<equiv> 2 :: nat"
abbreviation "INTC_VBLANK_E \<equiv> 3 :: nat"

abbreviation "SINT e \<equiv> bit (GS_SMODE1 e) 17"
abbreviation "HSINT e \<equiv> bit (GS_CSR e) 2"
abbreviation "VSINT e \<equiv> bit (GS_CSR e) 3"
abbreviation "HSMSK e \<equiv> bit (GS_IMR e) 10"
abbreviation "VSMSK e \<equiv> bit (GS_IMR e) 11"

definition IsProgressiveVideoMode :: "'u ee_rcnt_scheme \<Rightarrow> bool" where
  "IsProgressiveVideoMode e \<longleftrightarrow> GS_SYNCV e AND 1 = 0 \<or> GS_SMODE1 e AND 0x6000 = 0"

abbreviation ectr :: "nat \<Rightarrow> 'u video_state \<Rightarrow> Counter" where
  "ectr i s \<equiv> counters (ee s) i"

definition wcnt :: "nat \<Rightarrow> (Counter \<Rightarrow> Counter) \<Rightarrow> 'u ee_rcnt_scheme \<Rightarrow> 'u ee_rcnt_scheme" where
  "wcnt i f e = e\<lparr>counters := (counters e)(i := f (counters e i))\<rparr>"

definition rcntReset :: "nat \<Rightarrow> 'u ee_rcnt_scheme \<Rightarrow> 'u ee_rcnt_scheme" where
  "rcntReset i e = wcnt i (\<lambda>c. c\<lparr>e_count := 0, e_startCycle := ee_cycle e\<rparr>) e"

subsection \<open>Counting\<close>

definition rcntCanCount :: "nat \<Rightarrow> 'u ee_rcnt_scheme \<Rightarrow> bool" where
  "rcntCanCount i e =
    (let c = counters e i
     in if \<not> IsCounting c then False
        else if \<not> EnableGate c then True
        else \<not> GateSource c \<and> ClockSource c \<noteq> 3 \<and> (sc_Mode (hsyncCounter e) = MODE_HRENDER \<or> GateMode c \<noteq> 0) \<or>
             GateSource c \<and> (sc_Mode (vsyncCounter e) = MODE_VRENDER \<or> GateMode c \<noteq> 0))"

definition rcntSyncCounter :: "nat \<Rightarrow> 'u ee_rcnt_scheme \<Rightarrow> 'u ee_rcnt_scheme" where
  "rcntSyncCounter i e =
    (if ClockSource (counters e i) \<noteq> 3
     then let c = counters e i; change = ucast ((ee_cycle e - e_startCycle c) div ucast (e_rate c)) :: u32;
              e1 = wcnt i (\<lambda>c. c\<lparr>e_startCycle := (e_startCycle c + ucast (change * e_rate c)) AND rate_mask (e_rate c)\<rparr>) e
          in if rcntCanCount i e1 then wcnt i (\<lambda>c. c\<lparr>e_count := e_count c + change\<rparr>) e1 else e1
     else wcnt i (\<lambda>c. c\<lparr>e_startCycle := ee_cycle e\<rparr>) e)"

text \<open>The deadline of a limit relative to the last update, as a signed word.\<close>

definition ee_delta_to :: "u32 \<Rightarrow> Counter \<Rightarrow> 'u ee_rcnt_scheme \<Rightarrow> u32" where
  "ee_delta_to limit c e =
    (limit - e_count c) * e_rate c - since (ee_cycle e) (e_startCycle c) + since (ee_cycle e) (nextStartCounter e)"

definition publish_counter :: "u32 \<Rightarrow> 'u ee_rcnt_scheme \<Rightarrow> 'u ee_rcnt_scheme" where
  "publish_counter c e =
    (if c <s nextDeltaCounter e
     then let e1 = e\<lparr>nextDeltaCounter := c\<rparr> in cpuSetNextCounterEvent (nextStartCounter e1) (nextDeltaCounter e1) e1
     else e)"

definition ee_rcntSet :: "nat \<Rightarrow> 'u ee_rcnt_scheme \<Rightarrow> 'u ee_rcnt_scheme" where
  "ee_rcntSet i e =
    (let c = counters e i
     in if \<not> rcntCanCount i e \<or> ClockSource c = 3 then e
        else if \<not> TargetInterrupt c \<and> \<not> OverflowInterrupt c \<and> \<not> ZeroReturn c then e
        else if e_count c > 0x10000 \<or> e_count c > e_target c then e\<lparr>nextDeltaCounter := 4\<rparr>
        else let e1 = publish_counter (ee_delta_to 0x10000 c e) e
             in if e_target c AND EECNT_FUTURE_TARGET \<noteq> 0 then e1
                else publish_counter (ee_delta_to (e_target c) c e1) e1)"

definition sync_remaining :: "SyncCounter \<Rightarrow> 'u ee_rcnt_scheme \<Rightarrow> u32" where
  "sync_remaining c e = sc_deltaCycles c - since (ee_cycle e) (sc_startCycle c)"

definition cpuRcntSet :: "'u ee_rcnt_scheme \<Rightarrow> 'u ee_rcnt_scheme" where
  "cpuRcntSet e =
    (let e1 = e\<lparr>nextStartCounter := ee_cycle e, nextDeltaCounter := sync_remaining (vsyncCounter e) e\<rparr>;
         nextHsync = sync_remaining (hsyncCounter e1) e1;
         e2 = (if nextHsync <s nextDeltaCounter e1 then e1\<lparr>nextDeltaCounter := nextHsync\<rparr> else e1);
         e3 = fold ee_rcntSet [0..<4] e2;
         e4 = (if nextDeltaCounter e3 <s 0 then e3\<lparr>nextDeltaCounter := 0\<rparr> else e3)
     in cpuSetNextCounterEvent (nextStartCounter e4) (nextDeltaCounter e4) e4)"

subsection \<open>Targets and overflows\<close>

definition flag_once :: "nat \<Rightarrow> nat \<Rightarrow> 'u video_state \<Rightarrow> 'u video_state" where
  "flag_once flag i s =
    (if bit (e_modeval (ectr i s)) flag then s
     else hwIntcIrq (unat (e_interrupt (ectr i s))) (wee (wcnt i (\<lambda>c. c\<lparr>e_modeval := set_bit flag (e_modeval c)\<rparr>)) s))"

definition cpuTestTarget :: "nat \<Rightarrow> 'u video_state \<Rightarrow> 'u video_state" where
  "cpuTestTarget i s =
    (if e_count (ectr i s) < e_target (ectr i s) then s
     else let s1 = (if TargetInterrupt (ectr i s) then flag_once 10 i s else s)
          in wee (wcnt i (\<lambda>c. if ZeroReturn c then c\<lparr>e_count := e_count c - e_target c\<rparr>
                              else c\<lparr>e_target := e_target c OR EECNT_FUTURE_TARGET\<rparr>)) s1)"

definition cpuTestOverflow :: "nat \<Rightarrow> 'u video_state \<Rightarrow> 'u video_state" where
  "cpuTestOverflow i s =
    (if e_count (ectr i s) \<le> 0xffff then s
     else let s1 = (if OverflowInterrupt (ectr i s) then flag_once 11 i s else s)
          in wee (wcnt i (\<lambda>c. c\<lparr>e_count := e_count c - 0x10000, e_target := e_target c AND 0xffff\<rparr>)) s1)"

subsection \<open>Gates\<close>

definition gate_start :: "u64 \<Rightarrow> Counter \<Rightarrow> Counter" where
  "gate_start cycle0 c = c\<lparr>e_startCycle := cycle0 AND rate_mask (e_rate c)\<rparr>"

definition gate_clear :: "Counter \<Rightarrow> Counter" where
  "gate_clear c = c\<lparr>e_count := 0, e_target := e_target c AND 0xffff\<rparr>"

definition external_clock :: "nat \<Rightarrow> 'u video_state \<Rightarrow> 'u video_state" where
  "external_clock i s = cpuTestTarget i (cpuTestOverflow i (wee (wcnt i (\<lambda>c. c\<lparr>e_count := e_count c + 1\<rparr>)) s))"

definition start_gate :: "bool \<Rightarrow> u64 \<Rightarrow> nat \<Rightarrow> 'u video_state \<Rightarrow> 'u video_state" where
  "start_gate isVblank cycle0 i s0 =
    (let s = (if \<not> isVblank \<and> ClockSource (ectr i s0) = 3 \<and> rcntCanCount i (ee s0) then external_clock i s0 else s0)
     in if \<not> EnableGate (ectr i s) \<or> GateSource (ectr i s) \<noteq> isVblank then s
        else if GateMode (ectr i s) = 0 then wee (\<lambda>e. wcnt i (gate_start cycle0) (rcntSyncCounter i e)) s
        else if GateMode (ectr i s) = 2 then s
        else wee (\<lambda>e. wcnt i (\<lambda>c. gate_start cycle0 (gate_clear c)) (rcntSyncCounter i e)) s)"

definition rcntStartGate :: "bool \<Rightarrow> u64 \<Rightarrow> 'u video_state \<Rightarrow> 'u video_state" where
  "rcntStartGate isVblank cycle0 = fold (start_gate isVblank cycle0) [0..<4]"

definition end_gate :: "bool \<Rightarrow> u64 \<Rightarrow> nat \<Rightarrow> 'u ee_rcnt_scheme \<Rightarrow> 'u ee_rcnt_scheme" where
  "end_gate isVblank cycle0 i e =
    (if \<not> EnableGate (counters e i) \<or> GateSource (counters e i) \<noteq> isVblank then e
     else if GateMode (counters e i) = 0 then wcnt i (gate_start cycle0) e
     else if GateMode (counters e i) = 1 then e
     else wcnt i (\<lambda>c. gate_start cycle0 (gate_clear c)) (rcntSyncCounter i e))"

definition rcntEndGate :: "bool \<Rightarrow> u64 \<Rightarrow> 'u ee_rcnt_scheme \<Rightarrow> 'u ee_rcnt_scheme" where
  "rcntEndGate isVblank cycle0 = fold (end_gate isVblank cycle0) [0..<4]"

subsection \<open>Vertical edges\<close>

definition gsIrq :: "'u video_state \<Rightarrow> 'u video_state" where
  "gsIrq = hwIntcIrq INTC_GS"

definition VSyncStart :: "'u video_env \<Rightarrow> u64 \<Rightarrow> 'u video_state \<Rightarrow> 'u video_state" where
  "VSyncStart v cycle0 s0 =
    (let s = VSyncFrontEnd v s0
     in VSyncLeave v (if SINT (ee s) then s
          else psxVBlankStart (psx_side v) (rcntStartGate True cycle0 (hwIntcIrq INTC_VBLANK_S s))))"

definition GSVSync :: "'u video_state \<Rightarrow> 'u video_state" where
  "GSVSync s =
    (if SINT (ee s) then s
     else let s1 = wee (\<lambda>e. e\<lparr>GS_CSR := (if IsProgressiveVideoMode e then GS_CSR e OR 0x2000 else GS_CSR e XOR 0x2000)\<rparr>) s
          in if VSINT (ee s1) then s1
             else let s2 = wee (\<lambda>e. e\<lparr>GS_CSR := set_bit 3 (GS_CSR e)\<rparr>) s1
                  in if VSMSK (ee s2) then s2 else gsIrq s2)"

definition VSyncEnd :: "'u video_env \<Rightarrow> u64 \<Rightarrow> 'u video_state \<Rightarrow> 'u video_state" where
  "VSyncEnd v cycle0 s0 =
    (let s = wee (\<lambda>e. e\<lparr>g_FrameCount := g_FrameCount e + 1\<rparr>) s0
     in if SINT (ee s) then s
        else wee (rcntEndGate True cycle0) (psxVBlankEnd (psx_side v) (hwIntcIrq INTC_VBLANK_E s)))"

definition set_vsync :: "(SyncCounter \<Rightarrow> SyncCounter) \<Rightarrow> 'u video_state \<Rightarrow> 'u video_state" where
  "set_vsync f = wee (\<lambda>e. e\<lparr>vsyncCounter := f (vsyncCounter e)\<rparr>)"

definition set_hsync :: "(SyncCounter \<Rightarrow> SyncCounter) \<Rightarrow> 'u video_state \<Rightarrow> 'u video_state" where
  "set_hsync f = wee (\<lambda>e. e\<lparr>hsyncCounter := f (hsyncCounter e)\<rparr>)"

definition sync_step :: "u32 \<Rightarrow> u32 \<Rightarrow> SyncCounter \<Rightarrow> SyncCounter" where
  "sync_step step delta c = c\<lparr>sc_startCycle := sc_startCycle c + ucast step, sc_deltaCycles := delta\<rparr>"

abbreviation sync_due :: "SyncCounter \<Rightarrow> 'u ee_rcnt_scheme \<Rightarrow> bool" where
  "sync_due c e \<equiv> cpuTestCycle (sc_startCycle c) (sc_deltaCycles c) e"

definition rcntUpdate_vSync :: "'u video_env \<Rightarrow> 'u video_state \<Rightarrow> 'u video_state" where
  "rcntUpdate_vSync v s =
    (let t = vSyncInfo (ee s); c = vsyncCounter (ee s)
     in if \<not> sync_due c (ee s) then s
        else if sc_Mode c = MODE_VBLANK
        then let s1 = set_vsync (sync_step (vs_Blank t) (vs_Render t)) s;
                 s2 = VSyncEnd v (sc_startCycle (vsyncCounter (ee s1))) s1
             in set_vsync (\<lambda>c. c\<lparr>sc_Mode := MODE_VRENDER\<rparr>) s2
        else if sc_Mode c = MODE_GSBLANK
        then set_vsync (\<lambda>c. c\<lparr>sc_Mode := MODE_VBLANK, sc_deltaCycles := vs_Blank t\<rparr>) (GSVSync s)
        else let s1 = set_vsync (sync_step (vs_Render t) (vs_GSBlank t)) s;
                 s2 = VSyncStart v (sc_startCycle (vsyncCounter (ee s1))) s1
             in set_hsync (\<lambda>c. c\<lparr>sc_deltaCycles := sc_deltaCycles c + vs_hSyncError (vSyncInfo (ee s2))\<rparr>)
                  (set_vsync (\<lambda>c. c\<lparr>sc_Mode := MODE_GSBLANK\<rparr>) s2))"

subsection \<open>Horizontal edges\<close>

definition raise_hsint :: "'u video_state \<Rightarrow> 'u video_state" where
  "raise_hsint s =
    (if HSINT (ee s) then s
     else let s1 = wee (\<lambda>e. e\<lparr>GS_CSR := set_bit 2 (GS_CSR e)\<rparr>) s in if HSMSK (ee s1) then s1 else gsIrq s1)"

definition hblank_ends :: "'u video_state \<Rightarrow> 'u video_state" where
  "hblank_ends s =
    (let t = vSyncInfo (ee s);
         s1 = set_hsync (sync_step (vs_hBlank t) (vs_hRender t)) s;
         s2 = (if SINT (ee s1) then s1
               else psxHBlankEnd (wee (\<lambda>e. rcntEndGate False (sc_startCycle (hsyncCounter e)) e) s1))
     in set_hsync (\<lambda>c. c\<lparr>sc_Mode := MODE_HRENDER\<rparr>) s2)"

definition hblank_starts :: "'u video_env \<Rightarrow> 'u video_state \<Rightarrow> 'u video_state" where
  "hblank_starts v s =
    (let t = vSyncInfo (ee s);
         s1 = set_hsync (sync_step (vs_hRender t) (vs_hBlank t)) s;
         s2 = (if SINT (ee s1) then s1
               else let s3 = raise_hsint s1
                    in psxHBlankStart (psx_side v) (rcntStartGate False (sc_startCycle (hsyncCounter (ee s3))) s3))
     in set_hsync (\<lambda>c. c\<lparr>sc_Mode := MODE_HBLANK\<rparr>) s2)"

definition rcntUpdate_hScanline :: "'u video_env \<Rightarrow> 'u video_state \<Rightarrow> 'u video_state" where
  "rcntUpdate_hScanline v s =
    (if \<not> sync_due (hsyncCounter (ee s)) (ee s) then s
     else if sc_Mode (hsyncCounter (ee s)) = MODE_HBLANK then hblank_ends s else hblank_starts v s)"

subsection \<open>The update\<close>

definition ee_update_counter :: "nat \<Rightarrow> 'u video_state \<Rightarrow> 'u video_state" where
  "ee_update_counter i s =
    (let s1 = wee (rcntSyncCounter i) s
     in if ClockSource (ectr i s1) = 3 \<or> \<not> rcntCanCount i (ee s1) then s1
        else cpuTestTarget i (cpuTestOverflow i s1))"

definition ee_rcntUpdate :: "'u video_env \<Rightarrow> 'u video_state \<Rightarrow> 'u video_state" where
  "ee_rcntUpdate v s =
    wee cpuRcntSet (fold ee_update_counter [0..<4] (rcntUpdate_hScanline v (rcntUpdate_vSync v s)))"

subsection \<open>Folding silent edges\<close>

text \<open>The counters that use the horizontal blank as their clock, or \<open>None\<close> when an edge would be visible.\<close>

definition visible_counter :: "nat \<Rightarrow> 'u ee_rcnt_scheme \<Rightarrow> bool" where
  "visible_counter i e \<longleftrightarrow>
     EnableGate (counters e i) \<and> \<not> GateSource (counters e i) \<or>
     ClockSource (counters e i) = 3 \<and> rcntCanCount i e \<and> (TargetInterrupt (counters e i) \<or> OverflowInterrupt (counters e i))"

definition stop_detail :: "nat \<Rightarrow> 'u ee_rcnt_scheme \<Rightarrow> u32" where
  "stop_detail i e = of_nat i OR push_bit 8 (e_modeval (counters e i) AND 0x0fff)"

definition VitaPrepareEeHsyncFold :: "'u ee_rcnt_scheme \<Rightarrow> u32 + nat list" where
  "VitaPrepareEeHsyncFold e =
    (case find (\<lambda>i. visible_counter i e) [0..<4] of
       Some i \<Rightarrow> Inl (stop_detail i e)
     | None \<Rightarrow> Inr (filter (\<lambda>i. ClockSource (counters e i) = 3 \<and> rcntCanCount i e) [0..<4]))"

definition counter_deadline :: "nat \<Rightarrow> 'u ee_rcnt_scheme \<Rightarrow> u64 \<Rightarrow> u64" where
  "counter_deadline i e deadline =
    (let c = counters e i
     in if \<not> rcntCanCount i e \<or> ClockSource c = 3 \<or>
           \<not> TargetInterrupt c \<and> \<not> OverflowInterrupt c \<and> \<not> ZeroReturn c then deadline
        else if e_count c > 0x10000 \<or> e_count c > e_target c then min deadline (ee_cycle e + 4)
        else let elapsed = ee_cycle e - e_startCycle c;
                 after = (\<lambda>limit. ucast (limit - e_count c) * ucast (e_rate c) - elapsed :: u64);
                 clip = (\<lambda>d. ee_cycle e + (if d <s 0 then 0 else d));
                 d1 = min deadline (clip (after 0x10000))
             in if e_target c AND EECNT_FUTURE_TARGET = 0 then min d1 (clip (after (e_target c))) else d1)"

definition VitaGetNextNonHsyncCounterCycle :: "'u ee_rcnt_scheme \<Rightarrow> u64" where
  "VitaGetNextNonHsyncCounterCycle e =
    fold (\<lambda>i d. counter_deadline i e d) [0..<4] (sc_startCycle (vsyncCounter e) + ucast (sc_deltaCycles (vsyncCounter e)))"

datatype VitaSilentHsyncFoldStop = HorizonDue | EeCounterOrGate u32 | IopCounterOrGate | HsyncDue | ExclusiveLimit | UnmaskedHsint

definition fold_hblank_ends :: "bool \<Rightarrow> 'u video_state \<Rightarrow> 'u video_state" where
  "fold_hblank_ends sync_suppressed s =
    (let t = vSyncInfo (ee s);
         s1 = set_hsync (sync_step (vs_hBlank t) (vs_hRender t)) s;
         s2 = (if sync_suppressed then s1 else set_hBlanking False s1)
     in set_hsync (\<lambda>c. c\<lparr>sc_Mode := MODE_HRENDER\<rparr>) s2)"

definition fold_hblank_starts :: "bool \<Rightarrow> nat list \<Rightarrow> 'u video_state \<Rightarrow> 'u video_state" where
  "fold_hblank_starts sync_suppressed externals s =
    (let t = vSyncInfo (ee s);
         s1 = set_hsync (sync_step (vs_hRender t) (vs_hBlank t)) s;
         s2 = (if sync_suppressed then s1
               else set_hBlanking True (fold external_clock externals (wee (\<lambda>e. e\<lparr>GS_CSR := set_bit 2 (GS_CSR e)\<rparr>) s1)))
     in set_hsync (\<lambda>c. c\<lparr>sc_Mode := MODE_HBLANK\<rparr>) s2)"

abbreviation edge_cycle :: "'u ee_rcnt_scheme \<Rightarrow> u64" where
  "edge_cycle e \<equiv> sc_startCycle (hsyncCounter e) + ucast (sc_deltaCycles (hsyncCounter e))"

text \<open>The loop takes fuel; \<open>None\<close> is running out of it.\<close>

fun fold_loop :: "bool \<Rightarrow> nat list \<Rightarrow> u64 \<Rightarrow> nat \<Rightarrow> nat \<Rightarrow> 'u video_state \<Rightarrow> (nat \<times> VitaSilentHsyncFoldStop \<times> 'u video_state) option" where
  "fold_loop sync_suppressed externals exclusive_cycle 0 folded s = None"
| "fold_loop sync_suppressed externals exclusive_cycle (Suc k) folded s =
    (if edge_cycle (ee s) \<le> ee_cycle (ee s) then Some (folded, HsyncDue, s)
     else if exclusive_cycle \<le> edge_cycle (ee s) then Some (folded, ExclusiveLimit, s)
     else if sc_Mode (hsyncCounter (ee s)) = MODE_HBLANK
     then fold_loop sync_suppressed externals exclusive_cycle k (folded + 1) (fold_hblank_ends sync_suppressed s)
     else if \<not> sync_suppressed \<and> \<not> HSINT (ee s) \<and> \<not> HSMSK (ee s) then Some (folded, UnmaskedHsint, s)
     else fold_loop sync_suppressed externals exclusive_cycle k (folded + 1) (fold_hblank_starts sync_suppressed externals s))"

definition VitaFoldSilentHsyncBefore :: "nat \<Rightarrow> u64 \<Rightarrow> 'u video_state \<Rightarrow> (nat \<times> VitaSilentHsyncFoldStop \<times> 'u video_state) option" where
  "VitaFoldSilentHsyncBefore k exclusive_cycle s =
    (if exclusive_cycle \<le> ee_cycle (ee s) then Some (0, HorizonDue, s)
     else let sync_suppressed = SINT (ee s);
              prepared = (if sync_suppressed then Inr [] else VitaPrepareEeHsyncFold (ee s))
     in case prepared of
          Inl detail \<Rightarrow> Some (0, EeCounterOrGate detail, s)
        | Inr externals \<Rightarrow>
            if \<not> sync_suppressed \<and> \<not> VitaIopHsyncCountersAreSilent (ee s) then Some (0, IopCounterOrGate, s)
            else case fold_loop sync_suppressed externals exclusive_cycle k 0 s of
                   None \<Rightarrow> None
                 | Some (folded, stop, s1) \<Rightarrow> Some (folded, stop, if folded \<noteq> 0 then wee cpuRcntSet s1 else s1))"

subsection \<open>Register accesses\<close>

definition rcntWmode :: "nat \<Rightarrow> u32 \<Rightarrow> 'u ee_rcnt_scheme \<Rightarrow> 'u ee_rcnt_scheme" where
  "rcntWmode i value e0 =
    (let e = rcntSyncCounter i e0; t = vSyncInfo e;
         e1 = wcnt i (\<lambda>c. let m = e_modeval c AND NOT (value AND 0xc00) in c\<lparr>e_modeval := (m AND 0xc00) OR (value AND 0x3ff)\<rparr>) e;
         src = ClockSource (counters e1 i);
         rate = (if src = 0 then 2 else if src = 1 then 32 else if src = 2 then 512 else vs_hBlank t + vs_hRender t);
         e2 = wcnt i (\<lambda>c. gate_start (ee_cycle e1) (c\<lparr>e_rate := rate\<rparr>)) e1
     in ee_rcntSet i e2)"

definition rcntWcount :: "nat \<Rightarrow> u32 \<Rightarrow> 'u ee_rcnt_scheme \<Rightarrow> 'u ee_rcnt_scheme" where
  "rcntWcount i value e =
    ee_rcntSet i (wcnt i (\<lambda>c. let c1 = c\<lparr>e_count := value AND 0xffff, e_target := e_target c AND 0xffff\<rparr>
                               in if e_count c1 \<ge> e_target c1 then c1\<lparr>e_target := e_target c1 OR EECNT_FUTURE_TARGET\<rparr> else c1)
      (rcntSyncCounter i e))"

definition rcntWtarget :: "nat \<Rightarrow> u32 \<Rightarrow> 'u ee_rcnt_scheme \<Rightarrow> 'u ee_rcnt_scheme" where
  "rcntWtarget i value e =
    ee_rcntSet i (wcnt i (\<lambda>c. if e_target c \<le> e_count c then c\<lparr>e_target := e_target c OR EECNT_FUTURE_TARGET\<rparr> else c)
      (rcntSyncCounter i (wcnt i (\<lambda>c. c\<lparr>e_target := value AND 0xffff\<rparr>) e)))"

definition rcntWhold :: "nat \<Rightarrow> u32 \<Rightarrow> 'u ee_rcnt_scheme \<Rightarrow> 'u ee_rcnt_scheme" where
  "rcntWhold i value = wcnt i (\<lambda>c. c\<lparr>e_hold := value\<rparr>)"

definition rcntRcount :: "nat \<Rightarrow> 'u ee_rcnt_scheme \<Rightarrow> u32 \<times> 'u ee_rcnt_scheme" where
  "rcntRcount i e = (let e1 = rcntSyncCounter i e in (ucast (ucast (e_count (counters e1 i)) :: u16), e1))"

text \<open>The registers of counter \<open>i\<close> start at \<open>0x10000000 + 0x800 * i\<close>: count, mode, target and, for the
  first two counters, hold. \<open>None\<close> is no counter register.\<close>

datatype rcnt_register = RCNT_COUNT | RCNT_MODE | RCNT_TARGET | RCNT_HOLD

definition rcnt_decode :: "u32 \<Rightarrow> (nat \<times> rcnt_register) option" where
  "rcnt_decode mem =
    map_of (concat (map (\<lambda>i. let base = 0x10000000 + 0x800 * of_nat i
                              in [(base, i, RCNT_COUNT), (base + 0x10, i, RCNT_MODE), (base + 0x20, i, RCNT_TARGET)]
                                 @ (if i < 2 then [(base + 0x30, i, RCNT_HOLD)] else [])) [0..<4])) mem"

text \<open>\<open>None\<close> is a read of the hardware page; the flag of a write tells whether the caller stores the value.\<close>

definition rcntRead32 :: "u32 \<Rightarrow> 'u ee_rcnt_scheme \<Rightarrow> u16 option \<times> 'u ee_rcnt_scheme" where
  "rcntRead32 mem e =
    (case rcnt_decode mem of
       None \<Rightarrow> (None, e)
     | Some (i, RCNT_COUNT) \<Rightarrow> (case rcntRcount i e of (x, e1) \<Rightarrow> (Some (ucast x), e1))
     | Some (i, RCNT_MODE) \<Rightarrow> (Some (ucast (e_modeval (counters e i))), e)
     | Some (i, RCNT_TARGET) \<Rightarrow> (Some (ucast (e_target (counters e i))), e)
     | Some (i, RCNT_HOLD) \<Rightarrow> (Some (ucast (e_hold (counters e i))), e))"

definition rcntWrite32 :: "u32 \<Rightarrow> u32 \<Rightarrow> 'u ee_rcnt_scheme \<Rightarrow> bool \<times> 'u ee_rcnt_scheme" where
  "rcntWrite32 mem value e =
    (case rcnt_decode mem of
       None \<Rightarrow> (True, e)
     | Some (i, RCNT_COUNT) \<Rightarrow> (False, rcntWcount i value e)
     | Some (i, RCNT_MODE) \<Rightarrow> (False, rcntWmode i value e)
     | Some (i, RCNT_TARGET) \<Rightarrow> (False, rcntWtarget i value e)
     | Some (i, RCNT_HOLD) \<Rightarrow> (False, rcntWhold i value e))"

subsection \<open>Reset and timing\<close>

definition rcntInit :: "'u ee_rcnt_scheme \<Rightarrow> 'u ee_rcnt_scheme" where
  "rcntInit e =
    (let c = (\<lambda>i. \<lparr>e_count = 0, e_modeval = 0, e_target = 0xffff, e_hold = 0, e_rate = 2, e_interrupt = 9 + of_nat i, e_startCycle = 0\<rparr>);
         t = \<lparr>vs_Render = 0, vs_Blank = 0, vs_GSBlank = 0, vs_hSyncError = 0, vs_hRender = 0, vs_hBlank = 0\<rparr>;
         e1 = e\<lparr>g_FrameCount := 0, counters := c, vSyncInfo := t,
                hsyncCounter := \<lparr>sc_Mode = MODE_HRENDER, sc_startCycle = ee_cycle e, sc_deltaCycles = vs_hRender t\<rparr>,
                vsyncCounter := \<lparr>sc_Mode = MODE_VRENDER, sc_startCycle = ee_cycle e, sc_deltaCycles = vs_Render t\<rparr>\<rparr>
     in cpuRcntSet (fold rcntReset [0..<4] e1))"

text \<open>The end of \<^verbatim>\<open>UpdateVSyncRate\<close>: new timing moves the running phases so that their ends stay in place.\<close>

definition retime :: "u32 \<Rightarrow> SyncCounter \<Rightarrow> SyncCounter" where
  "retime delta c =
    c\<lparr>sc_deltaCycles := delta, sc_startCycle := sc_startCycle c + scast (sc_deltaCycles c - delta)\<rparr>"

definition install_timing :: "vSyncTimingInfo \<Rightarrow> 'u ee_rcnt_scheme \<Rightarrow> 'u ee_rcnt_scheme" where
  "install_timing t e =
    (let h = hsyncCounter e; v = vsyncCounter e;
         hdelta = (if sc_Mode h = MODE_HBLANK then vs_hBlank t else vs_hRender t);
         vdelta = (if sc_Mode v = MODE_GSBLANK then vs_GSBlank t else if sc_Mode v = MODE_VBLANK then vs_Blank t else vs_Render t)
     in cpuRcntSet (e\<lparr>vSyncInfo := t, hsyncCounter := retime hdelta h, vsyncCounter := retime vdelta v\<rparr>))"

end
