(* ===== verification/EE_Counters_Props.thy ===== *)
theory EE_Counters_Props
  imports EE_Counters EE_Sched_Props
begin

text \<open>
  Why silent horizontal edges may be folded: the fold leaves the counters, the video timing, the
  interrupt state and the counters of the I/O processor as the edge-by-edge update does.
\<close>

subsection \<open>What the game can see of an edge\<close>

definition view :: "'u ee_rcnt_scheme \<Rightarrow>
    ((nat \<Rightarrow> Counter) \<times> SyncCounter \<times> SyncCounter \<times> vSyncTimingInfo) \<times> (u32 \<times> u32 \<times> u32 \<times> u32 \<times> u32) \<times>
    ((nat \<Rightarrow> psxCounter) \<times> bool \<times> bool)" where
  "view e = ((counters e, hsyncCounter e, vsyncCounter e, vSyncInfo e),
     (GS_CSR e, GS_IMR e, GS_SMODE1 e, INTC_STAT e, INTC_MASK e), (psxCounters e, hBlanking e, vBlanking e))"

lemma view_eqD:
  assumes "view e = view e'"
  shows "counters e = counters e'" "hsyncCounter e = hsyncCounter e'" "vsyncCounter e = vsyncCounter e'"
    "vSyncInfo e = vSyncInfo e'" "GS_CSR e = GS_CSR e'" "GS_IMR e = GS_IMR e'" "GS_SMODE1 e = GS_SMODE1 e'"
    "INTC_STAT e = INTC_STAT e'" "psxCounters e = psxCounters e'" "hBlanking e = hBlanking e'" "vBlanking e = vBlanking e'"
  using assms by (simp_all add: view_def)

lemma wcnt_simps [simp]:
  "counters (wcnt i f e) = (counters e)(i := f (counters e i))" "hsyncCounter (wcnt i f e) = hsyncCounter e"
  "vsyncCounter (wcnt i f e) = vsyncCounter e" "psxCounters (wcnt i f e) = psxCounters e" "ee_cycle (wcnt i f e) = ee_cycle e"
  by (simp_all add: wcnt_def)

lemma view_wcnt: "view e = view e' \<Longrightarrow> view (wcnt i f e) = view (wcnt i f e')"
  by (simp add: view_def wcnt_def)

text \<open>Publishing deadlines and the caches of the I/O processor are not part of the view.\<close>

lemma view_publish [simp]:
  "view (e\<lparr>nextDeltaCounter := d\<rparr>) = view e" "view (cpuSetNextCounterEvent t0 d e) = view e"
  "view (e\<lparr>nextStartCounter := t0\<rparr>) = view e" "view (publish_counter d e) = view e" "view (e\<lparr>ee_cycle := t0\<rparr>) = view e"
  by (simp_all add: view_def publish_counter_def cpuSetNextCounterEvent_def VitaRefreshCombinedEeOwner_def Let_def)

lemma view_rcntSet [simp]: "view (ee_rcntSet i e) = view e"
  by (simp add: ee_rcntSet_def Let_def)

lemma view_fold_rcntSet: "view (fold ee_rcntSet is e) = view e"
  by (induction "is" arbitrary: e) simp_all

lemma view_cpuRcntSet [simp]: "view (cpuRcntSet e) = view e"
  by (simp add: cpuRcntSet_def Let_def view_fold_rcntSet)

lemma cycle_publish [simp]:
  "ee_cycle (cpuSetNextCounterEvent t0 d e) = ee_cycle e" "ee_cycle (publish_counter d e) = ee_cycle e"
  by (simp_all add: publish_counter_def cpuSetNextCounterEvent_def VitaRefreshCombinedEeOwner_def Let_def)

lemma cycle_rcntSet [simp]: "ee_cycle (ee_rcntSet i e) = ee_cycle e"
  by (simp add: ee_rcntSet_def Let_def)

lemma cycle_fold: "ee_cycle (fold ee_rcntSet is e) = ee_cycle e"
  by (induction "is" arbitrary: e) simp_all

lemma cycle_cpuRcntSet [simp]: "ee_cycle (cpuRcntSet e) = ee_cycle e"
  by (simp add: cpuRcntSet_def Let_def cycle_fold)

lemma view_slot [simp]:
  "view (VitaBeginIopGuestCounterDeadlineSlot i e) = view e" "view (VitaRecomputeIopGuestCounterDeadline e) = view e"
  "view (e\<lparr>spu2_is_strict_next_owner := b\<rparr>) = view e" "view (e\<lparr>spu2_deadline := d\<rparr>) = view e"
  "view (e\<lparr>guest_counter_deadlines := g\<rparr>) = view e"
  by (simp_all add: view_def VitaBeginIopGuestCounterDeadlineSlot_def VitaRecomputeIopGuestCounterDeadline_def)

lemma view_refresh [simp]: "view (ee (VitaRefreshIopSpu2Ownership s)) = view (ee s)"
  by (simp add: VitaRefreshIopSpu2Ownership_def Let_def wee_def)

lemma view_finish_slot [simp]: "view (ee (VitaFinishIopGuestCounterDeadlineSlot i s)) = view (ee s)"
  by (simp add: VitaFinishIopGuestCounterDeadlineSlot_def Let_def wee_def)

lemma view_publish_delta [simp]:
  "view (ee (VitaPublishIopGuestCounterDelta i d s)) = view (ee s)" "view (ee (publish_delta i d s)) = view (ee s)"
  by (simp_all add: VitaPublishIopGuestCounterDelta_def publish_delta_def Let_def wee_def wpsx_def)

lemma view_psx_rcntSet [simp]: "view (ee (psx_rcntSet i s)) = view (ee s)"
  by (simp add: psx_rcntSet_def Let_def wee_def)

subsection \<open>Counters that count the edges\<close>

definition wrap :: "Counter \<Rightarrow> Counter" where
  "wrap c = (if e_count c \<le> 0xffff then c else c\<lparr>e_count := e_count c - 0x10000, e_target := e_target c AND 0xffff\<rparr>)"

definition hit :: "Counter \<Rightarrow> Counter" where
  "hit c = (if e_count c < e_target c then c
     else if ZeroReturn c then c\<lparr>e_count := e_count c - e_target c\<rparr> else c\<lparr>e_target := e_target c OR EECNT_FUTURE_TARGET\<rparr>)"

definition tick :: "Counter \<Rightarrow> Counter" where
  "tick c = hit (wrap (c\<lparr>e_count := e_count c + 1\<rparr>))"

definition tick_all :: "nat list \<Rightarrow> 'u ee_rcnt_scheme \<Rightarrow> 'u ee_rcnt_scheme" where
  "tick_all is e = e\<lparr>counters := \<lambda>i. if i \<in> set is then tick (counters e i) else counters e i\<rparr>"

definition external :: "'u ee_rcnt_scheme \<Rightarrow> nat \<Rightarrow> bool" where
  "external e i \<longleftrightarrow> ClockSource (counters e i) = 3 \<and> rcntCanCount i e"

text \<open>An edge is silent when no counter shows it.\<close>

definition silent :: "'u ee_rcnt_scheme \<Rightarrow> bool" where
  "silent e \<longleftrightarrow> (\<forall>i < 4. \<not> visible_counter i e) \<and> VitaIopHsyncCountersAreSilent e"

lemma tick_modeval [simp]: "e_modeval (wrap c) = e_modeval c" "e_modeval (hit c) = e_modeval c" "e_modeval (tick c) = e_modeval c"
  by (simp_all add: tick_def wrap_def hit_def)

lemma wcnt_wcnt: "wcnt i f (wcnt i g e) = wcnt i (\<lambda>c. f (g c)) e"
  by (simp add: wcnt_def)

lemma wee_wee: "wee f (wee g s) = wee (\<lambda>e. f (g e)) s"
  by (simp add: wee_def)

lemma wcnt_id: "f (counters e i) = counters e i \<Longrightarrow> wcnt i f e = e"
  by (simp add: wcnt_def)

lemma wcnt_cong: "f (counters e i) = g (counters e i) \<Longrightarrow> wcnt i f e = wcnt i g e"
  by (simp add: wcnt_def)

lemma overflow_wrap:
  assumes "\<not> OverflowInterrupt (ectr i s)"
  shows "cpuTestOverflow i s = wee (wcnt i wrap) s"
proof (cases "e_count (ectr i s) \<le> 0xffff")
  case True
  then have "wcnt i wrap (ee s) = ee s" by (intro wcnt_id) (simp add: wrap_def)
  with True show ?thesis by (simp add: cpuTestOverflow_def wee_def)
next
  case False
  then have "wcnt i wrap (ee s) = wcnt i (\<lambda>c. c\<lparr>e_count := e_count c - 0x10000, e_target := e_target c AND 0xffff\<rparr>) (ee s)"
    by (intro wcnt_cong) (simp add: wrap_def)
  with False assms show ?thesis by (simp add: cpuTestOverflow_def wee_def)
qed

lemma target_hit:
  assumes "\<not> TargetInterrupt (ectr i s)"
  shows "cpuTestTarget i s = wee (wcnt i hit) s"
proof (cases "e_count (ectr i s) < e_target (ectr i s)")
  case True
  then have "wcnt i hit (ee s) = ee s" by (intro wcnt_id) (simp add: hit_def)
  with True show ?thesis by (simp add: cpuTestTarget_def wee_def)
next
  case False
  then have "wcnt i hit (ee s) = wcnt i (\<lambda>c. if ZeroReturn c then c\<lparr>e_count := e_count c - e_target c\<rparr>
      else c\<lparr>e_target := e_target c OR EECNT_FUTURE_TARGET\<rparr>) (ee s)"
    by (intro wcnt_cong) (simp add: hit_def)
  with False assms show ?thesis by (simp add: cpuTestTarget_def wee_def)
qed

lemma tick_all_simps [simp]:
  "hsyncCounter (tick_all is e) = hsyncCounter e" "vsyncCounter (tick_all is e) = vsyncCounter e"
  "e_modeval (counters (tick_all is e) i) = e_modeval (counters e i)" "psxCounters (tick_all is e) = psxCounters e"
  by (simp_all add: tick_all_def)

lemma external_clock_tick:
  assumes "\<not> TargetInterrupt (ectr i s)" "\<not> OverflowInterrupt (ectr i s)"
  shows "external_clock i s = wee (wcnt i tick) s"
  using assms by (simp add: external_clock_def overflow_wrap target_hit wee_wee wcnt_wcnt tick_def [abs_def])

lemma tick_all_wcnt: "i \<notin> set is \<Longrightarrow> tick_all is (wcnt i tick e) = tick_all (i # is) e"
  by (simp add: tick_all_def wcnt_def cong: if_cong)
    (rule arg_cong [of _ _ "\<lambda>f. e\<lparr>counters := f\<rparr>"], auto)

lemma fold_external:
  assumes "distinct is" "\<And>i. i \<in> set is \<Longrightarrow> \<not> TargetInterrupt (ectr i s) \<and> \<not> OverflowInterrupt (ectr i s)"
  shows "fold external_clock is s = wee (tick_all is) s"
  using assms
proof (induction "is" arbitrary: s)
  case (Cons i "is")
  have "fold external_clock is (wee (wcnt i tick) s) = wee (tick_all is) (wee (wcnt i tick) s)"
    using Cons.prems by (intro Cons.IH) auto
  then show ?case using Cons.prems by (simp add: external_clock_tick wee_wee tick_all_wcnt)
qed (simp add: tick_all_def wee_def)

lemma can_count_cong:
  assumes "e_modeval (counters e' i) = e_modeval (counters e i)" "vsyncCounter e' = vsyncCounter e"
    and "hsyncCounter e' = hsyncCounter e \<or> \<not> EnableGate (counters e i) \<or> GateSource (counters e i)"
  shows "rcntCanCount i e' = rcntCanCount i e"
  using assms by (auto simp: rcntCanCount_def Let_def)

lemma visible_cong:
  assumes "e_modeval (counters e' i) = e_modeval (counters e i)" "vsyncCounter e' = vsyncCounter e"
  shows "visible_counter i e' = visible_counter i e"
  using can_count_cong [OF assms] assms(1) by (auto simp: visible_counter_def)

lemma silent_psx_cong:
  assumes "psxCounters e' = psxCounters e" "vBlanking e' = vBlanking e"
  shows "VitaIopHsyncCountersAreSilent e' = VitaIopHsyncCountersAreSilent e"
  using assms by (simp add: VitaIopHsyncCountersAreSilent_def psxRcntCanCount_def Let_def)

lemma start_gate_silent:
  assumes "\<not> visible_counter i (ee s)"
  shows "start_gate False t0 i s = (if external (ee s) i then wee (wcnt i tick) s else s)"
  using assms by (auto simp: start_gate_def external_def visible_counter_def external_clock_tick Let_def)

lemma fold_start_gate:
  assumes "distinct is" "\<forall>i \<in> set is. \<not> visible_counter i (ee s)"
  shows "fold (start_gate False t0) is s = wee (tick_all (filter (external (ee s)) is)) s"
  using assms
proof (induction "is" arbitrary: s)
  case (Cons i "is")
  define s1 where "s1 = (if external (ee s) i then wee (wcnt i tick) s else s)"
  have same: "e_modeval (ectr j s1) = e_modeval (ectr j s)" "vsyncCounter (ee s1) = vsyncCounter (ee s)"
    "hsyncCounter (ee s1) = hsyncCounter (ee s)" for j by (simp_all add: s1_def)
  have "external (ee s1) j = external (ee s) j" for j
    using can_count_cong [of "ee s1" j "ee s"] same by (simp add: external_def)
  then have ext: "filter (external (ee s1)) is = filter (external (ee s)) is" by (intro filter_cong) auto
  have "fold (start_gate False t0) is s1 = wee (tick_all (filter (external (ee s1)) is)) s1"
    using Cons.prems visible_cong [of "ee s1" _ "ee s"] same by (intro Cons.IH) auto
  then show ?case
    using Cons.prems start_gate_silent [of i s t0] unfolding ext by (auto simp: s1_def wee_wee tick_all_wcnt)
qed (simp add: tick_all_def wee_def)

lemma start_gates_silent:
  assumes "silent (ee s)"
  shows "rcntStartGate False t0 s = wee (tick_all (filter (external (ee s)) [0..<4])) s"
  unfolding rcntStartGate_def using assms by (intro fold_start_gate) (auto simp: silent_def)

lemma end_gates_silent:
  assumes "silent e"
  shows "rcntEndGate False t0 e = e"
proof -
  have "fold (end_gate False t0) is e = e" if "\<forall>i \<in> set is. \<not> visible_counter i e" for "is"
    using that by (induction "is") (auto simp: end_gate_def visible_counter_def)
  then show ?thesis using assms by (simp add: rcntEndGate_def silent_def)
qed

subsection \<open>One edge\<close>

lemma hblank_clock_silent:
  assumes "VitaIopHsyncCountersAreSilent (ee s)" "i = 1 \<or> i = 3"
  shows "hblank_clock v i s = s"
  using assms by (auto simp: hblank_clock_def VitaIopHsyncCountersAreSilent_def)

lemma hblank_start_silent:
  assumes "VitaIopHsyncCountersAreSilent (ee s)"
  shows "psxHBlankStart v s = psx_rcntSet 0 (set_hBlanking True s)"
proof -
  have "\<not> gateEnable (pctr 0 s)" using assms by (simp add: VitaIopHsyncCountersAreSilent_def)
  then show ?thesis using assms by (simp add: psxHBlankStart_def hblank_clock_silent psxCheckStartGate_def)
qed

lemma hblank_end_silent:
  assumes "VitaIopHsyncCountersAreSilent (ee s)"
  shows "psxHBlankEnd s = psx_rcntSet 0 (set_hBlanking False s)"
proof -
  have "\<not> gateEnable (pctr 0 s)" using assms by (simp add: VitaIopHsyncCountersAreSilent_def)
  then show ?thesis by (simp add: psxHBlankEnd_def psxCheckEndGate_def)
qed

lemma view_updates:
  assumes "view (ee s) = view (ee r)"
  shows "view (ee (set_hsync f s)) = view (ee (set_hsync f r))" "view (ee (set_hBlanking b s)) = view (ee (set_hBlanking b r))"
    "view (tick_all is (ee s)) = view (tick_all is (ee r))"
    "view ((ee s)\<lparr>GS_CSR := c\<rparr>) = view ((ee r)\<lparr>GS_CSR := c\<rparr>)"
  using assms by (simp_all add: view_def set_hsync_def set_hBlanking_def tick_all_def wee_def cong: if_cong)

lemma silent_view: "view e = view e' \<Longrightarrow> silent e = silent e'"
  using silent_psx_cong [of e e'] by (simp add: silent_def view_def visible_counter_def rcntCanCount_def Let_def)

lemma external_view: "view e = view e' \<Longrightarrow> external e = external e'"
  by (rule ext) (simp add: external_def view_def rcntCanCount_def Let_def)

lemma silent_cong:
  assumes "\<And>i. e_modeval (counters e' i) = e_modeval (counters e i)" "vsyncCounter e' = vsyncCounter e"
    "psxCounters e' = psxCounters e" "vBlanking e' = vBlanking e"
  shows "silent e' = silent e"
  using assms visible_cong [of e' _ e] silent_psx_cong [of e' e] by (simp add: silent_def)

lemma external_cong:
  assumes "silent e" "i < 4" "\<And>i. e_modeval (counters e' i) = e_modeval (counters e i)" "vsyncCounter e' = vsyncCounter e"
  shows "external e' i = external e i"
  using can_count_cong [OF assms(3,4), of i] assms by (auto simp: external_def silent_def visible_counter_def)

lemma set_hsync_simps [simp]:
  "counters (ee (set_hsync f s)) = counters (ee s)" "hsyncCounter (ee (set_hsync f s)) = f (hsyncCounter (ee s))"
  "vsyncCounter (ee (set_hsync f s)) = vsyncCounter (ee s)" "psxCounters (ee (set_hsync f s)) = psxCounters (ee s)"
  "vBlanking (ee (set_hsync f s)) = vBlanking (ee s)" "vSyncInfo (ee (set_hsync f s)) = vSyncInfo (ee s)"
  "GS_CSR (ee (set_hsync f s)) = GS_CSR (ee s)" "GS_IMR (ee (set_hsync f s)) = GS_IMR (ee s)"
  "GS_SMODE1 (ee (set_hsync f s)) = GS_SMODE1 (ee s)" "ee_cycle (ee (set_hsync f s)) = ee_cycle (ee s)"
  by (simp_all add: set_hsync_def)

lemma silent_hsync [simp]: "silent (ee (set_hsync f s)) = silent (ee s)"
  by (rule silent_cong) simp_all

text \<open>The two folded steps agree with the two edges.\<close>

lemma edge_ends:
  fixes s r :: "'u video_state"
  assumes "view (ee s) = view (ee r)" "SINT (ee s) \<or> silent (ee s)"
  shows "view (ee (hblank_ends r)) = view (ee (fold_hblank_ends (SINT (ee s)) s))"
proof -
  note v = view_eqD [OF assms(1)]
  define f where "f = sync_step (vs_hBlank (vSyncInfo (ee r))) (vs_hRender (vSyncInfo (ee r)))"
  have hv: "view (ee (set_hsync f s)) = view (ee (set_hsync f r))" by (rule view_updates(1) [OF assms(1)])
  show ?thesis
  proof (cases "SINT (ee s)")
    case True
    then show ?thesis using v hv by (simp add: hblank_ends_def fold_hblank_ends_def Let_def f_def [symmetric] view_updates(1) [OF hv])
  next
    case False
    then have "silent (ee r)" using assms silent_view [OF assms(1)] by simp
    then have si: "silent (ee (set_hsync f r))" by simp
    then have "wee (\<lambda>e. rcntEndGate False (sc_startCycle (hsyncCounter e)) e) (set_hsync f r) = set_hsync f r"
      by (simp add: wee_def end_gates_silent)
    moreover have "VitaIopHsyncCountersAreSilent (ee (set_hsync f r))" using si by (simp add: silent_def)
    ultimately have ends: "hblank_ends r = set_hsync (\<lambda>c. c\<lparr>sc_Mode := MODE_HRENDER\<rparr>) (psx_rcntSet 0 (set_hBlanking False (set_hsync f r)))"
      using False v by (simp add: hblank_ends_def Let_def f_def [symmetric] hblank_end_silent)
    have folded: "fold_hblank_ends (SINT (ee s)) s = set_hsync (\<lambda>c. c\<lparr>sc_Mode := MODE_HRENDER\<rparr>) (set_hBlanking False (set_hsync f s))"
      using v False by (simp add: fold_hblank_ends_def Let_def f_def)
    have "view (ee (psx_rcntSet 0 (set_hBlanking False (set_hsync f r)))) = view (ee (set_hBlanking False (set_hsync f s)))"
      using view_updates(2) [OF hv] by simp
    then show ?thesis unfolding ends folded by (rule view_updates(1))
  qed
qed

lemma edge_starts:
  fixes s r :: "'u video_state"
  assumes "view (ee s) = view (ee r)" "SINT (ee s) \<or> silent (ee s)" "SINT (ee s) \<or> HSINT (ee s) \<or> HSMSK (ee s)"
  shows "view (ee (hblank_starts v r)) =
    view (ee (fold_hblank_starts (SINT (ee s)) (filter (external (ee s)) [0..<4]) s))"
proof -
  note w = view_eqD [OF assms(1)]
  define f where "f = sync_step (vs_hRender (vSyncInfo (ee r))) (vs_hBlank (vSyncInfo (ee r)))"
  define js where "js = filter (external (ee s)) [0..<4]"
  let ?mode = "set_hsync (\<lambda>c. c\<lparr>sc_Mode := MODE_HBLANK\<rparr>)"
  have hv: "view (ee (set_hsync f s)) = view (ee (set_hsync f r))" by (rule view_updates(1) [OF assms(1)])
  show ?thesis
  proof (cases "SINT (ee s)")
    case True
    then show ?thesis using w hv
      by (simp add: hblank_starts_def fold_hblank_starts_def Let_def f_def [symmetric] view_updates(1) [OF hv])
  next
    case False
    then have si: "silent (ee s)" using assms(2) by simp
    define hs where "hs = (\<lambda>x :: 'u video_state. wee (\<lambda>e. e\<lparr>GS_CSR := set_bit 2 (GS_CSR e)\<rparr>) (set_hsync f x))"
    have "set_bit 2 (GS_CSR (ee r)) = GS_CSR (ee r)" if "HSINT (ee r)"
      using that by (intro bit_eqI) (auto simp: bit_set_bit_iff)
    then have raised: "raise_hsint (set_hsync f r) = hs r"
      using assms(3) False w by (auto simp: raise_hsint_def hs_def Let_def wee_def)
    have hsv: "view (ee (hs s)) = view (ee (hs r))"
      using view_updates(4) [OF hv, of "set_bit 2 (GS_CSR (ee r))"] w by (simp add: hs_def)
    have "silent (ee (hs s))" using si silent_cong [of "ee (hs s)" "ee (set_hsync f s)"] by (simp add: hs_def)
    then have sir: "silent (ee (hs r))" using silent_view [OF hsv] by simp
    have "external (ee (hs r)) i = external (ee s) i" if "i < 4" for i
      using external_cong [OF si that, of "ee (hs s)"] external_view [OF hsv] by (simp add: hs_def)
    then have "filter (external (ee (hs r))) [0..<4] = js" unfolding js_def by (intro filter_cong) auto
    then have gates: "rcntStartGate False t0 (hs r) = wee (tick_all js) (hs r)" for t0
      using start_gates_silent [OF sir] by simp
    have "VitaIopHsyncCountersAreSilent (ee (wee (tick_all js) (hs r)))"
      using sir silent_psx_cong [of "ee (wee (tick_all js) (hs r))" "ee (hs r)"] by (simp add: silent_def tick_all_def)
    then have starts: "hblank_starts v r = ?mode (psx_rcntSet 0 (set_hBlanking True (wee (tick_all js) (hs r))))"
      using False w by (simp add: hblank_starts_def Let_def f_def [symmetric] raised gates hblank_start_silent)
    have "\<not> TargetInterrupt (ectr i (hs s)) \<and> \<not> OverflowInterrupt (ectr i (hs s))" if "i \<in> set js" for i
      using si that by (auto simp: js_def silent_def visible_counter_def external_def hs_def)
    then have "fold external_clock js (hs s) = wee (tick_all js) (hs s)"
      by (intro fold_external) (simp_all add: js_def)
    then have folded: "fold_hblank_starts (SINT (ee s)) js s = ?mode (set_hBlanking True (wee (tick_all js) (hs s)))"
      using False w by (simp add: fold_hblank_starts_def Let_def f_def hs_def)
    have "view (ee (wee (tick_all js) (hs r))) = view (ee (wee (tick_all js) (hs s)))"
      using view_updates(3) [OF hsv] by simp
    then have "view (ee (psx_rcntSet 0 (set_hBlanking True (wee (tick_all js) (hs r))))) =
        view (ee (set_hBlanking True (wee (tick_all js) (hs s))))"
      unfolding view_psx_rcntSet by (rule view_updates(2))
    then show ?thesis unfolding starts folded [unfolded js_def] js_def by (rule view_updates(1))
  qed
qed

subsection \<open>Folding\<close>

text \<open>The edge-by-edge update runs the horizontal edge at the cycle at which it is due.\<close>

definition edge_update :: "'u video_env \<Rightarrow> 'u video_state \<Rightarrow> 'u video_state" where
  "edge_update v s = rcntUpdate_hScanline v (wee (\<lambda>e. e\<lparr>ee_cycle := edge_cycle e\<rparr>) s)"

primrec run_edges :: "'u video_env \<Rightarrow> nat \<Rightarrow> 'u video_state \<Rightarrow> 'u video_state" where
  "run_edges v 0 s = s"
| "run_edges v (Suc n) s = run_edges v n (edge_update v s)"

lemma down_cast_ident: "ucast (ucast (b :: u32) :: u64) = b"
  by (intro bit_eqI) (simp add: bit_ucast_iff)

lemma edge_due: "sync_due (hsyncCounter e) (e\<lparr>ee_cycle := edge_cycle e\<rparr>)"
  by (simp add: cpuTestCycle_def since_def down_cast_ident)

lemma edge_update_cases:
  "edge_update v s = (let s1 = wee (\<lambda>e. e\<lparr>ee_cycle := edge_cycle e\<rparr>) s
     in if sc_Mode (hsyncCounter (ee s)) = MODE_HBLANK then hblank_ends s1 else hblank_starts v s1)"
  using edge_due [of "ee s"] by (simp add: edge_update_def rcntUpdate_hScanline_def wee_def Let_def)

lemma view_edge_cycle: "view e = view e' \<Longrightarrow> edge_cycle e = edge_cycle e'"
  by (simp add: view_def)

text \<open>What a folded edge keeps.\<close>

definition same_fold :: "'u video_state \<Rightarrow> 'u video_state \<Rightarrow> bool" where
  "same_fold s s' \<longleftrightarrow> ee_cycle (ee s') = ee_cycle (ee s) \<and> SINT (ee s') = SINT (ee s) \<and>
     (SINT (ee s) \<or> silent (ee s') = silent (ee s) \<and> filter (external (ee s')) [0..<4] = filter (external (ee s)) [0..<4])"

text \<open>A folded edge that starts the blank, as one update.\<close>

abbreviation edge_signal :: "'u video_state \<Rightarrow> 'u video_state" where
  "edge_signal s \<equiv> wee (\<lambda>e. e\<lparr>GS_CSR := set_bit 2 (GS_CSR e)\<rparr>)
     (set_hsync (sync_step (vs_hRender (vSyncInfo (ee s))) (vs_hBlank (vSyncInfo (ee s)))) s)"

lemma fold_starts_silent:
  assumes "silent (ee s)" "js = filter (external (ee s)) [0..<4]"
  shows "fold_hblank_starts False js s =
    set_hsync (\<lambda>c. c\<lparr>sc_Mode := MODE_HBLANK\<rparr>) (set_hBlanking True (wee (tick_all js) (edge_signal s)))"
proof -
  have "\<not> TargetInterrupt (ectr i (edge_signal s)) \<and> \<not> OverflowInterrupt (ectr i (edge_signal s))" if "i \<in> set js" for i
    using assms that by (auto simp: silent_def visible_counter_def external_def)
  then have "fold external_clock js (edge_signal s) = wee (tick_all js) (edge_signal s)"
    using assms(2) by (intro fold_external) simp_all
  then show ?thesis by (simp add: fold_hblank_starts_def Let_def)
qed

lemma ends_keep:
  assumes "SINT (ee s) \<or> silent (ee s)"
  shows "same_fold s (fold_hblank_ends (SINT (ee s)) s)"
proof -
  let ?s = "fold_hblank_ends (SINT (ee s)) s"
  have k: "counters (ee ?s) = counters (ee s)" "vsyncCounter (ee ?s) = vsyncCounter (ee s)"
    "psxCounters (ee ?s) = psxCounters (ee s)" "vBlanking (ee ?s) = vBlanking (ee s)"
    "ee_cycle (ee ?s) = ee_cycle (ee s)" "GS_SMODE1 (ee ?s) = GS_SMODE1 (ee s)"
    by (simp_all add: fold_hblank_ends_def Let_def set_hsync_def set_hBlanking_def wee_def)
  have "external (ee ?s) i = external (ee s) i" if "\<not> SINT (ee s)" "i < 4" for i
    using that assms k external_cong [of "ee s" i "ee ?s"] by simp
  then have "filter (external (ee ?s)) [0..<4] = filter (external (ee s)) [0..<4]" if "\<not> SINT (ee s)"
    using that by (intro filter_cong) auto
  moreover have "silent (ee ?s) = silent (ee s)" using k by (intro silent_cong) simp_all
  ultimately show ?thesis using k(5,6) by (cases "SINT (ee s)") (simp_all add: same_fold_def)
qed

lemma starts_keep:
  assumes "SINT (ee s) \<or> silent (ee s)"
  shows "same_fold s (fold_hblank_starts (SINT (ee s)) (filter (external (ee s)) [0..<4]) s)"
proof (cases "SINT (ee s)")
  case True
  then show ?thesis by (simp add: same_fold_def fold_hblank_starts_def Let_def)
next
  case False
  let ?js = "filter (external (ee s)) [0..<4]"
  let ?s = "fold_hblank_starts (SINT (ee s)) ?js s"
  have si: "silent (ee s)" using False assms by simp
  have s: "?s = set_hsync (\<lambda>c. c\<lparr>sc_Mode := MODE_HBLANK\<rparr>) (set_hBlanking True (wee (tick_all ?js) (edge_signal s)))"
    using False fold_starts_silent [OF si] by simp
  have k: "e_modeval (ectr i ?s) = e_modeval (ectr i s)" "vsyncCounter (ee ?s) = vsyncCounter (ee s)"
    "psxCounters (ee ?s) = psxCounters (ee s)" "vBlanking (ee ?s) = vBlanking (ee s)"
    "ee_cycle (ee ?s) = ee_cycle (ee s)" "GS_SMODE1 (ee ?s) = GS_SMODE1 (ee s)" for i
    unfolding s by (simp_all add: set_hBlanking_def wee_def tick_all_def)
  have "external (ee ?s) i = external (ee s) i" if "i < 4" for i
    using si that k by (intro external_cong) simp_all
  then have "filter (external (ee ?s)) [0..<4] = ?js" by (intro filter_cong) auto
  moreover have "silent (ee ?s) = silent (ee s)" using k by (intro silent_cong) simp_all
  ultimately show ?thesis using k by (simp add: same_fold_def)
qed

lemma edge_view:
  fixes s r :: "'u video_state"
  assumes "view (ee s) = view (ee r)" "SINT (ee s) \<or> silent (ee s)"
    and "SINT (ee s) \<or> sc_Mode (hsyncCounter (ee s)) = MODE_HBLANK \<or> HSINT (ee s) \<or> HSMSK (ee s)"
  shows "view (ee (edge_update v r)) = view (ee (if sc_Mode (hsyncCounter (ee s)) = MODE_HBLANK
    then fold_hblank_ends (SINT (ee s)) s else fold_hblank_starts (SINT (ee s)) (filter (external (ee s)) [0..<4]) s))"
proof -
  let ?r = "wee (\<lambda>e. e\<lparr>ee_cycle := edge_cycle e\<rparr>) r"
  have v: "view (ee s) = view (ee ?r)" using assms(1) by (simp add: wee_def)
  show ?thesis
    using edge_ends [OF v assms(2)] edge_starts [OF v assms(2)] assms(3) view_eqD(2) [OF assms(1)]
    by (auto simp: edge_update_cases Let_def)
qed

text \<open>The folded edges lie strictly between the current cycle and the bound.\<close>

abbreviation edges_between :: "u64 \<Rightarrow> u64 \<Rightarrow> 'u video_env \<Rightarrow> nat \<Rightarrow> 'u video_state \<Rightarrow> bool" where
  "edges_between t0 x v n s \<equiv> \<forall>j < n. t0 < edge_cycle (ee (run_edges v j s)) \<and> edge_cycle (ee (run_edges v j s)) < x"

lemma all_less_Suc_shift: "(\<forall>j < Suc n. P j) \<longleftrightarrow> P 0 \<and> (\<forall>j < n. P (Suc j))"
  using less_Suc_eq_0_disj by auto

lemma suppressed_starts: "fold_hblank_starts True js s = fold_hblank_starts True ks s"
  by (simp add: fold_hblank_starts_def)

lemma fold_loop_runs:
  fixes s r :: "'u video_state"
  assumes "fold_loop (SINT (ee s)) js x k f s = Some (n, stop, s')" "view (ee s) = view (ee r)"
    and "SINT (ee s) \<or> silent (ee s) \<and> js = filter (external (ee s)) [0..<4]"
  shows "f \<le> n \<and> view (ee s') = view (ee (run_edges v (n - f) r)) \<and> ee_cycle (ee s') = ee_cycle (ee s) \<and>
    edges_between (ee_cycle (ee s)) x v (n - f) r \<and> (stop = ExclusiveLimit \<longrightarrow> x \<le> edge_cycle (ee s'))"
  using assms
proof (induction k arbitrary: f s r)
  case (Suc k)
  let ?fs = "if sc_Mode (hsyncCounter (ee s)) = MODE_HBLANK
    then fold_hblank_ends (SINT (ee s)) s else fold_hblank_starts (SINT (ee s)) (filter (external (ee s)) [0..<4]) s"
  let ?stops = "edge_cycle (ee s) \<le> ee_cycle (ee s) \<or> x \<le> edge_cycle (ee s) \<or>
    sc_Mode (hsyncCounter (ee s)) \<noteq> MODE_HBLANK \<and> \<not> SINT (ee s) \<and> \<not> HSINT (ee s) \<and> \<not> HSMSK (ee s)"
  show ?case
  proof (cases ?stops)
    case True
    then have "n = f \<and> s' = s \<and> (stop = ExclusiveLimit \<longrightarrow> x \<le> edge_cycle (ee s))"
      using Suc.prems(1) by (auto split: if_splits)
    then show ?thesis using Suc.prems(2) by simp
  next
    case False
    have js: "fold_hblank_starts (SINT (ee s)) js s = fold_hblank_starts (SINT (ee s)) (filter (external (ee s)) [0..<4]) s"
      using Suc.prems(3) suppressed_starts by (cases "SINT (ee s)") auto
    have same: "same_fold s ?fs" using Suc.prems(3) ends_keep starts_keep by auto
    then have sint: "SINT (ee ?fs) = SINT (ee s)" and cyc: "ee_cycle (ee ?fs) = ee_cycle (ee s)"
      by (auto simp: same_fold_def)
    have "fold_loop (SINT (ee ?fs)) js x k (Suc f) ?fs = Some (n, stop, s')"
      unfolding sint using Suc.prems(1) False js by (simp split: if_splits)
    moreover have "view (ee ?fs) = view (ee (edge_update v r))"
      using edge_view [OF Suc.prems(2), of v] Suc.prems(3) False by auto
    moreover have "SINT (ee ?fs) \<or> silent (ee ?fs) \<and> js = filter (external (ee ?fs)) [0..<4]"
      using same Suc.prems(3) by (auto simp: same_fold_def)
    ultimately have IH: "Suc f \<le> n \<and> view (ee s') = view (ee (run_edges v (n - Suc f) (edge_update v r))) \<and>
        ee_cycle (ee s') = ee_cycle (ee ?fs) \<and> edges_between (ee_cycle (ee ?fs)) x v (n - Suc f) (edge_update v r) \<and>
        (stop = ExclusiveLimit \<longrightarrow> x \<le> edge_cycle (ee s'))"
      by (rule Suc.IH)
    then have "n - f = Suc (n - Suc f)" by linarith
    then show ?thesis
      using IH cyc False view_edge_cycle [OF Suc.prems(2)] by (simp add: all_less_Suc_shift not_le)
  qed
qed simp

text \<open>The loop ends: every edge moves the start of the phase on by at least a cycle.\<close>

lemma sync_fields:
  assumes "SINT (ee s) \<or> silent (ee s)"
  shows "vSyncInfo (ee (fold_hblank_ends (SINT (ee s)) s)) = vSyncInfo (ee s)"
    "vSyncInfo (ee (fold_hblank_starts (SINT (ee s)) (filter (external (ee s)) [0..<4]) s)) = vSyncInfo (ee s)"
    "sc_startCycle (hsyncCounter (ee (fold_hblank_ends (SINT (ee s)) s))) =
      sc_startCycle (hsyncCounter (ee s)) + ucast (vs_hBlank (vSyncInfo (ee s)))"
    "sc_startCycle (hsyncCounter (ee (fold_hblank_starts (SINT (ee s)) (filter (external (ee s)) [0..<4]) s))) =
      sc_startCycle (hsyncCounter (ee s)) + ucast (vs_hRender (vSyncInfo (ee s)))"
proof -
  let ?js = "filter (external (ee s)) [0..<4]"
  show "vSyncInfo (ee (fold_hblank_ends (SINT (ee s)) s)) = vSyncInfo (ee s)"
    "sc_startCycle (hsyncCounter (ee (fold_hblank_ends (SINT (ee s)) s))) =
      sc_startCycle (hsyncCounter (ee s)) + ucast (vs_hBlank (vSyncInfo (ee s)))"
    by (simp_all add: fold_hblank_ends_def Let_def set_hBlanking_def wee_def sync_step_def)
  have "vSyncInfo (ee (fold_hblank_starts b ?js s)) = vSyncInfo (ee s) \<and>
      sc_startCycle (hsyncCounter (ee (fold_hblank_starts b ?js s))) =
        sc_startCycle (hsyncCounter (ee s)) + ucast (vs_hRender (vSyncInfo (ee s)))" if "b \<or> silent (ee s)" for b
  proof (cases b)
    case True
    then show ?thesis by (simp add: fold_hblank_starts_def Let_def sync_step_def)
  next
    case False
    then show ?thesis
      using that fold_starts_silent [of s ?js] by (simp add: set_hBlanking_def wee_def tick_all_def sync_step_def)
  qed
  then show "vSyncInfo (ee (fold_hblank_starts (SINT (ee s)) ?js s)) = vSyncInfo (ee s)"
    "sc_startCycle (hsyncCounter (ee (fold_hblank_starts (SINT (ee s)) ?js s))) =
      sc_startCycle (hsyncCounter (ee s)) + ucast (vs_hRender (vSyncInfo (ee s)))"
    using assms by blast+
qed

lemma unat_add_u32:
  assumes "unat (a :: u64) + 2 ^ 32 \<le> 2 ^ 64"
  shows "unat (a + ucast (b :: u32)) = unat a + unat b"
proof -
  have "unat b < 2 ^ 32" by (rule unat_u32_less)
  moreover from this have "unat (ucast b :: u64) = unat b" by (simp add: unsigned_ucast_eq take_bit_nat_eq_self_iff)
  ultimately show ?thesis using assms by (simp add: unat_word_ariths)
qed

lemma fold_loop_ends:
  fixes s :: "'u video_state"
  assumes "0 < vs_hRender (vSyncInfo (ee s))" "0 < vs_hBlank (vSyncInfo (ee s))"
    and "unat x + 2 ^ 33 \<le> 2 ^ 64" "unat (sc_startCycle (hsyncCounter (ee s))) < unat x + 2 ^ 32"
    and "unat x < k + unat (sc_startCycle (hsyncCounter (ee s)))" "0 < k"
    and "SINT (ee s) \<or> silent (ee s) \<and> js = filter (external (ee s)) [0..<4]"
  shows "fold_loop (SINT (ee s)) js x k f s \<noteq> None"
  using assms
proof (induction k arbitrary: f s)
  case (Suc k)
  let ?starts = "fold_hblank_starts (SINT (ee s)) (filter (external (ee s)) [0..<4]) s"
  let ?fs = "if sc_Mode (hsyncCounter (ee s)) = MODE_HBLANK then fold_hblank_ends (SINT (ee s)) s else ?starts"
  let ?start = "\<lambda>s. unat (sc_startCycle (hsyncCounter (ee s)))"
  show ?case
  proof (cases "edge_cycle (ee s) < x")
    case True
    have js: "fold_hblank_starts (SINT (ee s)) js s = ?starts"
      using Suc.prems(7) suppressed_starts by (cases "SINT (ee s)") auto
    have same: "same_fold s ?fs" using Suc.prems(7) ends_keep starts_keep by auto
    then have sint: "SINT (ee ?fs) = SINT (ee s)" by (auto simp: same_fold_def)
    have room: "?start s + 2 ^ 32 \<le> 2 ^ 64" using Suc.prems(3,4) by simp
    have lt: "?start s < unat x"
      using True unat_add_u32 [OF room, of "sc_deltaCycles (hsyncCounter (ee s))"] by (simp add: word_less_nat_alt)
    have "SINT (ee s) \<or> silent (ee s)" using Suc.prems(7) by auto
    note fields = sync_fields [OF this]
    obtain d :: u32 where d: "0 < d" "sc_startCycle (hsyncCounter (ee ?fs)) = sc_startCycle (hsyncCounter (ee s)) + ucast d"
      using fields(3,4) Suc.prems(1,2) by (cases "sc_Mode (hsyncCounter (ee s)) = MODE_HBLANK") auto
    have pos: "0 < unat d" "unat d < 2 ^ 32" using d(1) unat_u32_less by (simp_all add: word_less_nat_alt)
    have moved: "?start ?fs = ?start s + unat d" unfolding d(2) by (rule unat_add_u32 [OF room])
    have "vSyncInfo (ee ?fs) = vSyncInfo (ee s)" using fields by simp
    then have "fold_loop (SINT (ee ?fs)) js x k (Suc f) ?fs \<noteq> None"
      using Suc.prems same lt pos moved by (intro Suc.IH) (auto simp: same_fold_def)
    then show ?thesis unfolding sint using True js by (auto simp: not_less)
  qed auto
qed simp

text \<open>Every refusal leaves the machine alone; otherwise the loop runs with the silent counters.\<close>

lemma fold_prepared:
  "VitaFoldSilentHsyncBefore k x s \<in> {Some (0, HorizonDue, s), Some (0, IopCounterOrGate, s)} \<union>
      range (\<lambda>d. Some (0, EeCounterOrGate d, s)) \<or>
   ee_cycle (ee s) < x \<and> (SINT (ee s) \<or> silent (ee s)) \<and>
   VitaFoldSilentHsyncBefore k x s =
     (case fold_loop (SINT (ee s)) (if SINT (ee s) then [] else filter (external (ee s)) [0..<4]) x k 0 s of None \<Rightarrow> None
      | Some (n, stop, s') \<Rightarrow> Some (n, stop, if n \<noteq> 0 then wee cpuRcntSet s' else s'))"
proof (cases "find (\<lambda>i. visible_counter i (ee s)) [0..<4]")
  case None
  then have "\<forall>i < 4. \<not> visible_counter i (ee s)" by (simp add: find_None_iff)
  then show ?thesis
    using None by (simp add: VitaFoldSilentHsyncBefore_def VitaPrepareEeHsyncFold_def silent_def external_def [abs_def] not_le)
next
  case (Some i)
  then show ?thesis by (simp add: VitaFoldSilentHsyncBefore_def VitaPrepareEeHsyncFold_def not_le)
qed

subsection \<open>An edge clock with one counter on it\<close>

definition fold_ee :: ee_rcnt where
  "fold_ee = \<lparr>ee_cycle = 1000, nextEventCycle = 2000, lastEventCycle = 0, cpu_pc = 0x100000, ee_interrupt = 0,
     dmastall = 0, ee_sCycle = \<lambda>_. 0, ee_eCycle = \<lambda>_. 0, ee_Status = 0,
     eeRunInterruptScan = INT_NOT_RUNNING, ee_test_active = False, EEsCycle = 0, EEoCycle = 1000,
     nextStartCounter = 0, nextDeltaCounter = 2000, owner_cycle = 2000, non_counter_cycle = 2000,
     counter_cycle = 2000, next_event_iop_only = False, INTC_STAT = 0, INTC_MASK = 0, DMAC_CTRL = 1,
     DMAC_STAT = 0, DMAC_ENABLER = 0,
     psxCounters = \<lambda>_. \<lparr>p_count = 0, p_target = 0xffff, p_rate = 1, p_interrupt = 0, p_startCycle = 0, p_deltaCycles = 0,
       p_mode = 0, repeatInterrupt = False, toggleInterrupt = False\<rparr>,
     hBlanking = False, vBlanking = False, deadline_rebuilding = False, deadline_valid = False,
     spu2_is_strict_next_owner = False, guest_counter_deadlines = \<lambda>_. NO_DEADLINE, guest_counter_deadline = NO_DEADLINE,
     previous_counter_deadline = NO_DEADLINE, spu2_deadline = NO_DEADLINE, usb_deadline = NO_DEADLINE,
     counters = \<lambda>i. \<lparr>e_count = 0, e_modeval = (if i = 2 then 0x83 else 0), e_target = 0xffff, e_hold = 0, e_rate = 2,
       e_interrupt = 9, e_startCycle = 0\<rparr>,
     hsyncCounter = \<lparr>sc_Mode = MODE_HRENDER, sc_startCycle = 998, sc_deltaCycles = 8\<rparr>,
     vsyncCounter = \<lparr>sc_Mode = MODE_VRENDER, sc_startCycle = 0, sc_deltaCycles = 5000\<rparr>,
     vSyncInfo = \<lparr>vs_Render = 5000, vs_Blank = 500, vs_GSBlank = 100, vs_hSyncError = 0, vs_hRender = 8, vs_hBlank = 4\<rparr>,
     GS_CSR = 0, GS_IMR = 0x7f00, GS_SMODE1 = 0, GS_SYNCV = 0, g_FrameCount = 0\<rparr>"

definition fold_machine :: "unit video_state" where
  "fold_machine = \<lparr>psx = psxRegs_zero, iopIsDelaySlot = False, iopEventAction = False,
     iopEventTestIsActive = False, psxNextStartCounter = 0, psxNextDeltaCounter = 1000, PSXCLK = 36864000,
     psxMemWLUT = \<lambda>_. 0, iopHost = \<lambda>_. 0, iopDev = fold_ee\<rparr>"

definition fold_env :: "unit video_env" where
  "fold_env = \<lparr>psx_side = \<lparr>core = calm, SPU2async = id, GetNextPeriodicUpdateDelta = \<lambda>_. 768, DEV9async = id,
     USBasync = \<lambda>_. id, cdvdVsync = id\<rparr>, VSyncFrontEnd = id, VSyncLeave = id\<rparr>"

lemma fold_machine_simps:
  "ee_cycle (ee fold_machine) = 1000" "vSyncInfo (ee fold_machine) = vSyncInfo fold_ee"
  "vs_hRender (vSyncInfo fold_ee) = 8" "vs_hBlank (vSyncInfo fold_ee) = 4"
  "sc_startCycle (hsyncCounter (ee fold_machine)) = 998"
  by (simp_all add: fold_machine_def fold_ee_def)

text \<open>C14: The scheduler may run ahead over silent horizontal edges. If the timing has positive phases
  and the bound does not wrap, the fold ends; every folded edge lies strictly between the current cycle
  and the bound; and the fold leaves the counters of both processors, the video timing, the interrupt
  requests and the graphics status exactly as running those edges one by one, each at its own cycle,
  without moving the clock of the processor.\<close>

theorem silent_fold_exact:
  fixes s :: "'u video_state"
  assumes "0 < vs_hRender (vSyncInfo (ee s))" "0 < vs_hBlank (vSyncInfo (ee s))" "unat x + 2 ^ 33 \<le> 2 ^ 64"
    and "sc_startCycle (hsyncCounter (ee s)) \<le> ee_cycle (ee s)"
    and "unat x < k + unat (sc_startCycle (hsyncCounter (ee s)))"
  shows "\<exists>n stop s'. VitaFoldSilentHsyncBefore k x s = Some (n, stop, s') \<and>
    view (ee s') = view (ee (run_edges v n s)) \<and> ee_cycle (ee s') = ee_cycle (ee s) \<and>
    edges_between (ee_cycle (ee s)) x v n s \<and> (stop = ExclusiveLimit \<longrightarrow> x \<le> edge_cycle (ee s'))"
proof -
  define js where "js = (if SINT (ee s) then [] else filter (external (ee s)) [0..<4])"
  consider "VitaFoldSilentHsyncBefore k x s \<in> {Some (0, HorizonDue, s), Some (0, IopCounterOrGate, s)} \<union>
      range (\<lambda>d. Some (0, EeCounterOrGate d, s))"
    | "ee_cycle (ee s) < x" "SINT (ee s) \<or> silent (ee s) \<and> js = filter (external (ee s)) [0..<4]"
      "VitaFoldSilentHsyncBefore k x s = (case fold_loop (SINT (ee s)) js x k 0 s of None \<Rightarrow> None
         | Some (n, stop, s') \<Rightarrow> Some (n, stop, if n \<noteq> 0 then wee cpuRcntSet s' else s'))"
    using fold_prepared [of k x s] unfolding js_def by auto
  then show ?thesis
  proof cases
    case 1
    then show ?thesis by (auto intro: exI [of _ s])
  next
    case 2
    have start: "sc_startCycle (hsyncCounter (ee s)) < x" using assms(4) 2(1) by simp
    then obtain n stop s' where loop: "fold_loop (SINT (ee s)) js x k 0 s = Some (n, stop, s')"
      using fold_loop_ends [OF assms(1-3) _ assms(5) _ 2(2), of 0] assms(5) by (auto simp: word_less_nat_alt)
    show ?thesis
      using fold_loop_runs [OF loop refl 2(2), of v] 2(3) loop view_edge_cycle [OF view_cpuRcntSet, of "ee s'"] by (auto simp: wee_def)
  qed
qed

lemma fold_machine_fields:
  "counters (ee fold_machine) i = \<lparr>e_count = 0, e_modeval = (if i = 2 then 0x83 else 0), e_target = 0xffff, e_hold = 0, e_rate = 2,
       e_interrupt = 9, e_startCycle = 0\<rparr>"
  "hsyncCounter (ee fold_machine) = \<lparr>sc_Mode = MODE_HRENDER, sc_startCycle = 998, sc_deltaCycles = 8\<rparr>"
  "p_mode (psxCounters (ee fold_machine) j) = 0" "p_rate (psxCounters (ee fold_machine) j) = 1"
  "GS_SMODE1 (ee fold_machine) = 0" "GS_IMR (ee fold_machine) = 0x7f00"
  by (simp_all add: fold_machine_def fold_ee_def)

lemma fold_machine_clock:
  "visible_counter i (ee fold_machine) \<longleftrightarrow> False" "external (ee fold_machine) i \<longleftrightarrow> i = 2"
  by (simp_all add: visible_counter_def external_def rcntCanCount_def Let_def fold_machine_fields)

lemma fold_machine_silent:
  "silent (ee fold_machine)" "filter (external (ee fold_machine)) [0..<4] = [2]"
  by (simp_all add: silent_def VitaIopHsyncCountersAreSilent_def fold_machine_clock fold_machine_fields upt_rec)

lemma fold_machine_prepared: "VitaPrepareEeHsyncFold (ee fold_machine) = Inr [2]"
proof -
  have "find (\<lambda>i. visible_counter i (ee fold_machine)) [0..<4] = None" by (simp add: find_None_iff fold_machine_clock)
  then show ?thesis using fold_machine_silent(2) by (simp add: VitaPrepareEeHsyncFold_def external_def [abs_def])
qed

lemma fold_steps:
  defines "s1 \<equiv> fold_hblank_starts False [2] fold_machine"
  shows "hsyncCounter (ee s1) = \<lparr>sc_Mode = MODE_HBLANK, sc_startCycle = 1006, sc_deltaCycles = 4\<rparr>"
    "vSyncInfo (ee s1) = vSyncInfo fold_ee" "ee_cycle (ee s1) = 1000" "e_count (ectr 2 s1) = 1"
proof -
  have s1: "s1 = set_hsync (\<lambda>c. c\<lparr>sc_Mode := MODE_HBLANK\<rparr>) (set_hBlanking True (wee (tick_all [2]) (edge_signal fold_machine)))"
    unfolding s1_def fold_machine_silent(2) [symmetric] by (rule fold_starts_silent [OF fold_machine_silent(1) refl])
  show "hsyncCounter (ee s1) = \<lparr>sc_Mode = MODE_HBLANK, sc_startCycle = 1006, sc_deltaCycles = 4\<rparr>"
    "vSyncInfo (ee s1) = vSyncInfo fold_ee" "ee_cycle (ee s1) = 1000" "e_count (ectr 2 s1) = 1"
    unfolding s1 by (simp_all add: set_hBlanking_def wee_def tick_all_def sync_step_def fold_machine_simps fold_machine_fields
      tick_def hit_def wrap_def)
qed

lemma fold_stops:
  assumes "hsyncCounter (ee s) = \<lparr>sc_Mode = MODE_HBLANK, sc_startCycle = 1006, sc_deltaCycles = 4\<rparr>"
    "vSyncInfo (ee s) = vSyncInfo fold_ee" "ee_cycle (ee s) = 1000"
  shows "fold_loop False js 1015 (Suc (Suc k)) n s = Some (n + 1, ExclusiveLimit, fold_hblank_ends False s)"
proof -
  let ?s = "fold_hblank_ends False s"
  have "hsyncCounter (ee ?s) = \<lparr>sc_Mode = MODE_HRENDER, sc_startCycle = 1010, sc_deltaCycles = 8\<rparr>" "ee_cycle (ee ?s) = 1000"
    using assms by (simp_all add: fold_hblank_ends_def Let_def set_hBlanking_def wee_def sync_step_def fold_machine_simps)
  then show ?thesis using assms by simp
qed

lemma fold_evaluates:
  "\<exists>s'. VitaFoldSilentHsyncBefore 18 1015 fold_machine = Some (2, ExclusiveLimit, s') \<and> e_count (ectr 2 s') = 1"
proof -
  let ?s1 = "fold_hblank_starts False [2] fold_machine"
  let ?s2 = "fold_hblank_ends False ?s1"
  have "fold_loop False [2] 1015 (Suc (Suc (Suc 15))) 0 fold_machine = fold_loop False [2] 1015 (Suc (Suc 15)) (0 + 1) ?s1"
    by (subst fold_loop.simps) (simp add: fold_machine_simps fold_machine_fields del: fold_loop.simps)
  also have "\<dots> = Some (0 + 1 + 1, ExclusiveLimit, ?s2)" by (rule fold_stops [OF fold_steps(1-3)])
  finally have "fold_loop False [2] 1015 18 0 fold_machine = Some (2, ExclusiveLimit, ?s2)"
    by (simp add: numeral_eq_Suc del: fold_loop.simps)
  then have "VitaFoldSilentHsyncBefore 18 1015 fold_machine = Some (2, ExclusiveLimit, wee cpuRcntSet ?s2)"
    using fold_machine_silent(1)
    by (simp add: VitaFoldSilentHsyncBefore_def fold_machine_prepared silent_def
      fold_machine_simps fold_machine_fields del: fold_loop.simps)
  moreover have "ectr 2 ?s2 = ectr 2 ?s1" by (simp add: fold_hblank_ends_def Let_def set_hBlanking_def wee_def)
  moreover have "counters (cpuRcntSet (ee ?s2)) = counters (ee ?s2)" by (rule view_eqD(1) [OF view_cpuRcntSet])
  ultimately show ?thesis using fold_steps(4) by (simp add: wee_def)
qed

lemma silent_fold_exact_witness:
  "\<exists>s'. VitaFoldSilentHsyncBefore 18 1015 fold_machine = Some (2, ExclusiveLimit, s') \<and> e_count (ectr 2 s') = 1 \<and>
     view (ee s') = view (ee (run_edges fold_env 2 fold_machine))"
  using silent_fold_exact [of fold_machine 1015 18 fold_env] fold_evaluates
  by (fastforce simp: fold_machine_simps)

end
