(* ===== verification/IOP_Counters_Props.thy ===== *)
theory IOP_Counters_Props
  imports EE_Counters_Props
begin

text \<open>
  Sampling the counters of the I/O processor: with a rate that is a power of two the samples do not
  change what is counted; the pixel clock, whose rate is three, counts faster the more often it is read.
\<close>

subsection \<open>One sample\<close>

definition sync_ctr :: "u64 \<Rightarrow> psxCounter \<Rightarrow> psxCounter" where
  "sync_ctr t0 c =
    (let change = ucast ((t0 - p_startCycle c) div ucast (p_rate c)) :: u32
     in if change > 0
        then c\<lparr>p_count := p_count c + ucast change,
               p_startCycle := (p_startCycle c + ucast (change * p_rate c)) AND rate_mask (p_rate c)\<rparr>
        else c)"

text \<open>A sample at a cycle.\<close>

definition sample :: "nat \<Rightarrow> u64 \<Rightarrow> 'w rcnt_state \<Rightarrow> 'w rcnt_state" where
  "sample i t0 s = psxRcntSync i (wpsx (\<lambda>r. r\<lparr>psx_cycle := t0\<rparr>) s)"

definition running :: "nat \<Rightarrow> 'w rcnt_state \<Rightarrow> bool" where
  "running i s \<longleftrightarrow> psxRcntCanCount i (ee s) \<and> p_rate (pctr i s) \<noteq> PSXHBLANK \<and>
     (repeatInterrupt (pctr i s) \<longrightarrow> toggleInterrupt (pctr i s))"

lemma sync_ctr_keeps [simp]:
  "p_rate (sync_ctr t0 c) = p_rate c" "p_mode (sync_ctr t0 c) = p_mode c"
  "repeatInterrupt (sync_ctr t0 c) = repeatInterrupt c" "toggleInterrupt (sync_ctr t0 c) = toggleInterrupt c"
  by (simp_all add: sync_ctr_def Let_def)

lemma wctr_cong: "f (pctr i s) = g (pctr i s) \<Longrightarrow> wctr i f s = wctr i g s"
  by (simp add: wctr_def wee_def)

lemma wctr_id: "f (pctr i s) = pctr i s \<Longrightarrow> wctr i f s = s"
  by (simp add: wctr_def wee_def)

lemma sample_running:
  assumes "running i s"
  shows "sample i t0 s = wctr i (sync_ctr t0) (wpsx (\<lambda>r. r\<lparr>psx_cycle := t0\<rparr>) s)"
proof -
  let ?s = "wpsx (\<lambda>r. r\<lparr>psx_cycle := t0\<rparr>) s"
  have p: "pctr i ?s = pctr i s" "ee ?s = ee s" "psx_cycle (psx ?s) = t0" by (simp_all add: wpsx_def)
  have "wctr i (\<lambda>c. if repeatInterrupt c \<and> \<not> toggleInterrupt c then set_intrEnable True c else c) ?s = ?s"
    using assms p by (intro wctr_id) (auto simp: running_def)
  moreover have "wctr i (sync_ctr t0) ?s = (let c = pctr i s; change = ucast ((t0 - p_startCycle c) div ucast (p_rate c)) :: u32
      in if change > 0 then wctr i (\<lambda>c. c\<lparr>p_count := p_count c + ucast change,
          p_startCycle := (p_startCycle c + ucast (change * p_rate c)) AND rate_mask (p_rate c)\<rparr>) ?s else ?s)"
    using p by (auto simp: Let_def sync_ctr_def intro!: wctr_cong wctr_id)
  ultimately show ?thesis using assms p by (simp add: sample_def psxRcntSync_def running_def Let_def)
qed

lemma iop_can_count_cong:
  assumes "p_mode (psxCounters e' i) = p_mode (psxCounters e i)" "hBlanking e' = hBlanking e" "vBlanking e' = vBlanking e"
  shows "psxRcntCanCount i e' = psxRcntCanCount i e"
  using assms by (simp add: psxRcntCanCount_def Let_def)

lemma sample_fields:
  assumes "running i s"
  shows "pctr i (sample i t0 s) = sync_ctr t0 (pctr i s)" "running i (sample i t0 s)"
proof -
  let ?s = "wctr i (sync_ctr t0) (wpsx (\<lambda>r. r\<lparr>psx_cycle := t0\<rparr>) s)"
  have c: "psxCounters (ee ?s) = (psxCounters (ee s))(i := sync_ctr t0 (pctr i s))"
    "hBlanking (ee ?s) = hBlanking (ee s)" "vBlanking (ee ?s) = vBlanking (ee s)"
    by (simp_all add: wctr_def wee_def wpsx_def)
  then have "psxRcntCanCount i (ee ?s) = psxRcntCanCount i (ee s)" by (intro iop_can_count_cong) simp_all
  then show "pctr i (sample i t0 s) = sync_ctr t0 (pctr i s)" "running i (sample i t0 s)"
    using assms c(1) unfolding sample_running [OF assms] by (simp_all add: running_def)
qed

lemma samples_fields:
  assumes "running i s"
  shows "pctr i (fold (sample i) ts s) = fold sync_ctr ts (pctr i s)"
  using assms by (induction ts arbitrary: s) (simp_all add: sample_fields)

subsection \<open>Rates that are powers of two\<close>

lemma multiple_unmasked:
  fixes w :: u64
  assumes "2 ^ k dvd unat w"
  shows "w AND NOT (2 ^ k - 1) = w"
proof -
  have "unat (take_bit k w) = 0" using assms by (simp only: unsigned_take_bit_eq take_bit_eq_0_iff)
  then have "take_bit k w = 0" by (simp only: unat_eq_0)
  then have "\<not> bit w n" if "n < k" for n using that by (metis bit_0_eq bit_take_bit_iff bot_apply bot_bool_def)
  then show ?thesis by (intro bit_eqI) (auto simp: bit_and_iff bit_not_iff bit_mask_iff mask_eq_exp_minus_1 [symmetric])
qed

lemma of_nat_u64: "(of_nat (unat w) :: u64) = ucast w"
  by (rule of_nat_unat)

lemma of_nat_u32: "(of_nat (unat w) :: u32) = ucast w"
  by (rule of_nat_unat)

lemma unat_u64_less: "unat (w :: u64) < 2 ^ 64"
  using unsigned_less [of w, where 'a = nat] by simp

lemma unat_of_nat_u64: "n < 2 ^ 64 \<Longrightarrow> unat (of_nat n :: u64) = n"
  by (simp add: unsigned_of_nat take_bit_nat_eq_self_iff)

text \<open>A sample in closed form: the count moves by the number of periods begun.\<close>

lemma sync_ctr_closed:
  assumes "unat (p_rate c) = 2 ^ k" "unat (p_startCycle c) = 2 ^ k * q" "2 ^ k * q \<le> unat t0" "unat t0 - 2 ^ k * q < 2 ^ 32"
  shows "sync_ctr t0 c = c\<lparr>p_count := p_count c + of_nat (unat t0 div 2 ^ k - q),
    p_startCycle := of_nat (2 ^ k * (unat t0 div 2 ^ k))\<rparr>"
proof -
  define d where "d = unat t0 - 2 ^ k * q"
  define n where "n = d div 2 ^ k"
  have t0: "unat t0 = 2 ^ k * q + d" using assms(3) by (simp add: d_def)
  have n: "unat t0 div 2 ^ k = q + n" unfolding t0 n_def by simp
  have small: "2 ^ k * n \<le> d" "d < 2 ^ 32" using assms(4) by (simp_all add: n_def d_def)
  have n32: "n < 2 ^ 32" using div_le_dividend [of d "2 ^ k"] small(2) unfolding n_def by (rule le_less_trans)
  have kn: "2 ^ k * n < (2 ^ 32 :: nat)" using small by (rule le_less_trans)
  have rate: "p_rate c = of_nat (2 ^ k)" "ucast (p_rate c) = (of_nat (2 ^ k) :: u64)"
    using of_nat_u64 [of "p_rate c"] of_nat_u32 [of "p_rate c"] assms(1) by simp_all
  have "(2 :: nat) ^ k < 2 ^ 32" using unat_u32_less [of "p_rate c"] assms(1) by simp
  then have "k < 32" by (rule power_less_imp_less_exp [rotated]) simp
  then have r64: "unat (ucast (p_rate c) :: u64) = 2 ^ k"
    using unat_u32_less [of "p_rate c"] assms(1) by (simp add: unsigned_ucast_eq take_bit_nat_eq_self_iff)
  have "p_startCycle c \<le> t0" using assms(2,3) by (simp add: word_le_nat_alt)
  then have "unat (t0 - p_startCycle c) = d" using assms(2) by (simp add: unat_sub d_def)
  then have "unat ((t0 - p_startCycle c) div ucast (p_rate c)) = n" using r64 by (simp add: unat_div_distrib n_def)
  then have change: "ucast ((t0 - p_startCycle c) div ucast (p_rate c)) = (of_nat n :: u32)"
    using of_nat_u32 [of "(t0 - p_startCycle c) div ucast (p_rate c)"] by simp
  have "unat (of_nat n * p_rate c) = 2 ^ k * n"
    using kn n32 assms(1) by (simp add: unat_word_ariths unat_of_nat_u32 mult.commute)
  then have step: "ucast (of_nat n * p_rate c) = (of_nat (2 ^ k * n) :: u64)"
    using of_nat_u64 [of "of_nat n * p_rate c"] by simp
  have start: "p_startCycle c = of_nat (2 ^ k * q)" using of_nat_u64 [of "p_startCycle c"] assms(2) by simp
  have sum: "p_startCycle c + of_nat (2 ^ k * n) = of_nat (2 ^ k * (q + n))" unfolding start by (simp add: algebra_simps)
  have "2 ^ k * (q + n) < 2 ^ 64"
    using t0 small(1) unat_u64_less [of t0] by (simp add: algebra_simps)
  then have "unat (of_nat (2 ^ k * (q + n)) :: u64) = 2 ^ k * (q + n)" by (rule unat_of_nat_u64)
  then have masked: "of_nat (2 ^ k * (q + n)) AND rate_mask (p_rate c) = (of_nat (2 ^ k * (q + n)) :: u64)"
    using multiple_unmasked [of k "of_nat (2 ^ k * (q + n))"] rate(2) by (simp add: rate_mask_def)
  have count: "ucast (of_nat n :: u32) = (of_nat n :: u64)"
    using of_nat_u64 [of "of_nat n :: u32", symmetric] n32 by (simp only: unat_of_nat_u32)
  have pos: "0 < (of_nat n :: u32) \<longleftrightarrow> n \<noteq> 0" using n32 by (simp add: word_less_nat_alt unat_of_nat_u32)
  show ?thesis
    unfolding sync_ctr_def change Let_def step sum masked count pos n using start by simp
qed

lemma sync_ctr_step:
  assumes "unat (p_rate c) = 2 ^ k" "unat (p_startCycle c) = 2 ^ k * q" "2 ^ k * q \<le> unat t1" "unat t1 \<le> unat t2"
    and "unat t2 - 2 ^ k * q < 2 ^ 32"
  shows "sync_ctr t2 (sync_ctr t1 c) = sync_ctr t2 c"
    "unat (p_startCycle (sync_ctr t1 c)) = 2 ^ k * (unat t1 div 2 ^ k)"
proof -
  let ?q1 = "unat t1 div 2 ^ k" and ?q2 = "unat t2 div 2 ^ k"
  have one: "sync_ctr t1 c = c\<lparr>p_count := p_count c + of_nat (?q1 - q), p_startCycle := of_nat (2 ^ k * ?q1)\<rparr>"
    using assms by (intro sync_ctr_closed) simp_all
  have "2 ^ k * ?q1 < 2 ^ 64" using unat_u64_less [of t1] by (rule le_less_trans [rotated]) simp
  then have start: "unat (of_nat (2 ^ k * ?q1) :: u64) = 2 ^ k * ?q1" by (rule unat_of_nat_u64)
  then show "unat (p_startCycle (sync_ctr t1 c)) = 2 ^ k * ?q1" unfolding one by simp
  have order: "q \<le> ?q1" "?q1 \<le> ?q2"
    using assms(3) div_le_mono [OF assms(4)] by (simp_all add: less_eq_div_iff_mult_less_eq mult.commute)
  have "2 ^ k * q \<le> 2 ^ k * ?q1" using order by simp
  then have "unat t2 - 2 ^ k * ?q1 < 2 ^ 32" using assms(5) by linarith
  moreover have "2 ^ k * ?q1 \<le> unat t2" 
    by (rule le_trans [OF times_div_less_eq_dividend assms(4)])
  ultimately have "sync_ctr t2 (sync_ctr t1 c) = sync_ctr t1 c\<lparr>p_count := p_count (sync_ctr t1 c) + of_nat (?q2 - ?q1),
      p_startCycle := of_nat (2 ^ k * ?q2)\<rparr>"
    using assms(1) start one by (intro sync_ctr_closed) simp_all
  also have "\<dots> = c\<lparr>p_count := p_count c + of_nat (?q2 - q), p_startCycle := of_nat (2 ^ k * ?q2)\<rparr>"
    unfolding one using order by (simp add: of_nat_diff)
  also have "\<dots> = sync_ctr t2 c" using assms by (intro sync_ctr_closed [symmetric]) simp_all
  finally show "sync_ctr t2 (sync_ctr t1 c) = sync_ctr t2 c" .
qed

lemma sync_ctr_samples:
  assumes "unat (p_rate c) = 2 ^ k" "unat (p_startCycle c) = 2 ^ k * q" "\<forall>t \<in> set ts. unat (p_startCycle c) \<le> unat t"
    and "sorted (map unat ts @ [unat t2])" "unat t2 - unat (p_startCycle c) < 2 ^ 32" "unat (p_startCycle c) \<le> unat t2"
  shows "sync_ctr t2 (fold sync_ctr ts c) = sync_ctr t2 c"
  using assms
proof (induction ts arbitrary: c q)
  case (Cons t ts)
  have t: "2 ^ k * q \<le> unat t" "unat t \<le> unat t2" using Cons.prems by simp_all
  note step = sync_ctr_step [OF Cons.prems(1,2) t]
  have below: "2 ^ k * q \<le> 2 ^ k * (unat t div 2 ^ k)" "2 ^ k * (unat t div 2 ^ k) \<le> unat t"
    using t by (simp_all add: less_eq_div_iff_mult_less_eq mult.commute)
  have start: "unat (p_startCycle (sync_ctr t c)) = 2 ^ k * (unat t div 2 ^ k)" using step(2) Cons.prems(2,5) by simp
  have "sync_ctr t2 (fold sync_ctr ts (sync_ctr t c)) = sync_ctr t2 (sync_ctr t c)"
  proof (rule Cons.IH)
    show "unat (p_rate (sync_ctr t c)) = 2 ^ k" using Cons.prems(1) by simp
    show "unat (p_startCycle (sync_ctr t c)) = 2 ^ k * (unat t div 2 ^ k)" by (rule start)
    show "\<forall>t' \<in> set ts. unat (p_startCycle (sync_ctr t c)) \<le> unat t'"
    proof
      fix t' assume "t' \<in> set ts"
      then have "unat t \<le> unat t'" using Cons.prems(4) by simp
      with below(2) show "unat (p_startCycle (sync_ctr t c)) \<le> unat t'" unfolding start by (rule le_trans)
    qed
    show "sorted (map unat ts @ [unat t2])" using Cons.prems(4) by simp
    show "unat t2 - unat (p_startCycle (sync_ctr t c)) < 2 ^ 32"
      using start below(1) Cons.prems(2,5) by linarith
    show "unat (p_startCycle (sync_ctr t c)) \<le> unat t2" using start below(2) t(2) by linarith
  qed
  then show ?case using step(1) Cons.prems(2,5) by simp
qed simp

text \<open>C25: Reading a counter of the I/O processor does not disturb it. With a rate that is a power of two
  and a phase that starts at a multiple of it, sampling the running counter at any ascending cycles and
  then at a last one leaves exactly the counter that one sample at the last cycle leaves.\<close>

theorem samples_do_not_disturb:
  assumes "running i s" "unat (p_rate (pctr i s)) = 2 ^ k" "2 ^ k dvd unat (p_startCycle (pctr i s))"
    and "sorted (map unat (ts @ [t2]))" "\<forall>t \<in> set (ts @ [t2]). p_startCycle (pctr i s) \<le> t"
    and "unat t2 - unat (p_startCycle (pctr i s)) < 2 ^ 32"
  shows "pctr i (fold (sample i) (ts @ [t2]) s) = pctr i (sample i t2 s) \<and>
    p_count (pctr i (sample i t2 s)) =
      p_count (pctr i s) + of_nat ((unat t2 - unat (p_startCycle (pctr i s))) div 2 ^ k)"
proof -
  obtain q where q: "unat (p_startCycle (pctr i s)) = 2 ^ k * q" using assms(3) by (elim dvdE)
  have ts: "\<forall>t \<in> set ts. unat (p_startCycle (pctr i s)) \<le> unat t" "unat (p_startCycle (pctr i s)) \<le> unat t2"
    using assms(5) by (simp_all add: word_le_nat_alt)
  then have "(unat t2 - 2 ^ k * q) div 2 ^ k = unat t2 div 2 ^ k - q" using q
    by (metis add_diff_cancel_left' div_mult_self2 le_add_diff_inverse2 add.commute power_not_zero zero_neq_numeral)
  then show ?thesis
    using sync_ctr_samples [OF assms(2) q ts(1) _ assms(6) ts(2)] sync_ctr_closed [OF assms(2) q, of t2] assms(4,6) ts(2) q
    by (simp only: samples_fields [OF assms(1)] sample_fields [OF assms(1)]) simp
qed

subsection \<open>The pixel clock\<close>

lemma aligned_bits:
  fixes a :: u64
  assumes "a AND 3 = 0"
  shows "(a + 3) AND NOT 2 = a + 1" "(a + 4) AND NOT 2 = a + 4" "(a + 4) AND 3 = 0"
proof -
  have low: "\<not> bit a 0" "\<not> bit a 1" using arg_cong [OF assms, of "\<lambda>w. bit w 0"] arg_cong [OF assms, of "\<lambda>w. bit w 1"]
    by (simp_all add: bit_and_iff)
  have "take_bit 2 a = 0" using assms by (simp add: take_bit_eq_mask mask_eq_exp_minus_1)
  then have "take_bit 2 (a + 4) = 0" by (simp add: take_bit_eq_0_iff)
  then show a4: "(a + 4) AND 3 = 0" by (simp add: take_bit_eq_mask mask_eq_exp_minus_1)
  have clear: "b AND NOT 2 = b" if "b AND 3 = 0" for b :: u64
  proof -
    have "b AND 2 = 0" using arg_cong [OF that, of "\<lambda>w. w AND 2"] by (simp add: and.assoc)
    then show ?thesis by (metis (no_types) bit.conj_cancel_right bit.conj_disj_distrib bit.disj_cancel_right bit.conj_one_right or.left_neutral)
  qed
  show "(a + 4) AND NOT 2 = a + 4" by (rule clear [OF a4])
  have a1: "a AND 1 = 0" using arg_cong [OF assms, of "\<lambda>w. w AND 1"] by (simp add: and.assoc)
  have "(a + 3) AND NOT 2 = (a OR 3) AND NOT 2" using assms by (simp add: disjunctive_add_eq_or)
  also have "\<dots> = a OR 1" using clear [OF assms] by (simp add: bit.conj_disj_distrib2)
  also have "\<dots> = a + 1" using a1 by (simp add: disjunctive_add_eq_or)
  finally show "(a + 3) AND NOT 2 = a + 1" .
qed

lemma pixel_early: "p_rate c = PSXPIXEL \<Longrightarrow> t0 - p_startCycle c = d \<Longrightarrow> d < 3 \<Longrightarrow> sync_ctr t0 c = c"
  by (simp add: sync_ctr_def word_less_nat_alt word_arith_nat_div Let_def)

lemma pixel_due:
  assumes "p_rate c = PSXPIXEL" "t0 - p_startCycle c = 3"
  shows "sync_ctr t0 c = c\<lparr>p_count := p_count c + 1, p_startCycle := (p_startCycle c + 3) AND NOT 2\<rparr>"
  using assms by (simp add: sync_ctr_def rate_mask_def Let_def)

lemma pixel_block:
  assumes "p_rate c = PSXPIXEL" "p_startCycle c = a" "a AND 3 = 0"
  shows "fold sync_ctr [a + 1, a + 2, a + 3, a + 4] c = c\<lparr>p_count := p_count c + 2, p_startCycle := a + 4\<rparr>"
proof -
  let ?c = "c\<lparr>p_count := p_count c + 1, p_startCycle := a + 1\<rparr>"
  have "sync_ctr (a + 1) c = c" "sync_ctr (a + 2) c = c" using assms by (auto intro!: pixel_early)
  moreover have "sync_ctr (a + 3) c = ?c" using assms aligned_bits(1) [OF assms(3)] by (simp add: pixel_due)
  moreover have "sync_ctr (a + 4) ?c = ?c\<lparr>p_count := p_count ?c + 1, p_startCycle := (a + 1 + 3) AND NOT 2\<rparr>"
    using assms(1) by (subst pixel_due) simp_all
  ultimately show ?thesis using aligned_bits(2) [OF assms(3)] by (simp add: add.assoc)
qed

abbreviation every_cycle :: "u64 \<Rightarrow> nat \<Rightarrow> u64 list" where
  "every_cycle a n \<equiv> map (\<lambda>j. a + of_nat j) [1..<4 * n + 1]"

lemma every_cycle_Suc: "every_cycle a (Suc n) = every_cycle a n @ map ((+) (a + of_nat (4 * n))) [1, 2, 3, 4]"
proof -
  have "[1..<4 * Suc n + 1] = [1..<4 * n + 1] @ [4 * n + 1, 4 * n + 2, 4 * n + 3, 4 * n + 4]"
    by (simp add: numeral_eq_Suc)
  then show ?thesis by (simp add: algebra_simps)
qed

lemma pixel_polled:
  assumes "p_rate c = PSXPIXEL" "p_startCycle c AND 3 = 0"
  shows "fold sync_ctr (every_cycle (p_startCycle c) n) c =
    c\<lparr>p_count := p_count c + of_nat (2 * n), p_startCycle := p_startCycle c + of_nat (4 * n)\<rparr> \<and>
    (p_startCycle c + of_nat (4 * n)) AND 3 = 0"
proof (induction n)
  case (Suc n)
  let ?a = "p_startCycle c + of_nat (4 * n)" and ?c = "fold sync_ctr (every_cycle (p_startCycle c) n) c"
  have "fold sync_ctr (every_cycle (p_startCycle c) (Suc n)) c = fold sync_ctr [?a + 1, ?a + 2, ?a + 3, ?a + 4] ?c"
    unfolding every_cycle_Suc by simp
  also have "\<dots> = ?c\<lparr>p_count := p_count ?c + 2, p_startCycle := ?a + 4\<rparr>"
    using Suc assms(1) by (intro pixel_block) simp_all
  finally show ?case using Suc aligned_bits(3) [of ?a] by (simp add: algebra_simps)
qed (use assms in simp)

subsection \<open>Two counters to sample\<close>

definition sampled_machine :: "u32 \<Rightarrow> unit video_state" where
  "sampled_machine rate = wctr 0 (\<lambda>c. c\<lparr>p_rate := rate, p_startCycle := 64\<rparr>) fold_machine"

lemma sampled_machine_fields:
  "pctr 0 (sampled_machine rate) = \<lparr>p_count = 0, p_target = 0xffff, p_rate = rate, p_interrupt = 0, p_startCycle = 64,
     p_deltaCycles = 0, p_mode = 0, repeatInterrupt = False, toggleInterrupt = False\<rparr>"
  "rate \<noteq> PSXHBLANK \<Longrightarrow> running 0 (sampled_machine rate)"
  by (simp_all add: sampled_machine_def wctr_def wee_def fold_machine_def fold_ee_def running_def psxRcntCanCount_def)

text \<open>C40: The pixel clock of the I/O processor has the rate three, and a sample rounds the start of the
  phase down with a mask that is right only for powers of two. A counter on it that is read in every cycle counts two
  steps in four cycles; left alone until the end it counts one step in three cycles.\<close>

theorem pixel_clock_gains:
  assumes "running i s" "p_rate (pctr i s) = PSXPIXEL" "p_startCycle (pctr i s) AND 3 = 0" "4 * n < 2 ^ 32"
  shows "p_count (pctr i (fold (sample i) (every_cycle (p_startCycle (pctr i s)) n) s)) = p_count (pctr i s) + of_nat (2 * n) \<and>
    p_count (pctr i (sample i (p_startCycle (pctr i s) + of_nat (4 * n)) s)) = p_count (pctr i s) + of_nat (4 * n div 3)"
proof -
  let ?c = "pctr i s"
  have "unat ((of_nat (4 * n) :: u64) div 3) = 4 * n div 3"
    using assms(4) unat_of_nat_u64 [of "4 * n"] by (simp only: unat_div_distrib) simp
  then have "ucast ((of_nat (4 * n) :: u64) div 3) = (of_nat (4 * n div 3) :: u32)" by (metis of_nat_u32)
  moreover have "unat (of_nat (4 * n div 3) :: u32) = 4 * n div 3" using assms(4) by (intro unat_of_nat_u32) simp
  moreover from this have "ucast (of_nat (4 * n div 3) :: u32) = (of_nat (4 * n div 3) :: u64)" by (metis of_nat_u64)
  ultimately have "p_count (sync_ctr (p_startCycle ?c + of_nat (4 * n)) ?c) = p_count ?c + of_nat (4 * n div 3)"
    using assms(2) by (auto simp: sync_ctr_def Let_def word_less_nat_alt simp del: of_nat_mult)
  then show ?thesis
    using pixel_polled [OF assms(2,3), of n]
    by (simp only: samples_fields [OF assms(1)] sample_fields [OF assms(1)]) simp
qed

lemma pixel_clock_gains_witness:
  "p_count (pctr 0 (fold (sample 0) (every_cycle 64 3) (sampled_machine 3))) = 6 \<and>
   p_count (pctr 0 (sample 0 76 (sampled_machine 3))) = 4"
  using pixel_clock_gains [of 0 "sampled_machine 3" 3] by (simp add: sampled_machine_fields)

lemma samples_do_not_disturb_witness:
  "pctr 0 (fold (sample 0) [67, 71, 72, 90, 100] (sampled_machine 8)) = pctr 0 (sample 0 100 (sampled_machine 8)) \<and>
   p_count (pctr 0 (sample 0 100 (sampled_machine 8))) = 4"
  using samples_do_not_disturb [of 0 "sampled_machine 8" 3 "[67, 71, 72, 90]" 100] by (simp add: sampled_machine_fields)

end
