(* ===== verification/Spec2Isabelle.thy ===== *)
theory Spec2Isabelle
  imports VitaVM_Inv A32_Buffer_Props A32_Correct_Props A32_Emit_Neon VTLB_Setup EE_Props EE_Access_Props EE_Batch
    IOP_Props EE_IOP SIF_Move IOP_Counters_Props
begin

text \<open>
  \<^bold>\<open>The program.\<close> VitaSX2 runs PlayStation 2 programs on the PlayStation Vita. The main processor
  (EE, R5900) and the I/O processor (IOP, R3000A) of the emulated console each have an interpreter
  and a block compiler that emits ARM code. Five groups of parts are modelled here: the management
  of executable memory, the ARM code emitter on top of it, the main processor with its virtual
  memory, the I/O processor with its memory, and what connects the two: the event scheduler, the
  counters, the DMA controller and the serial interface. The compilers call the emitter, the emitter writes through
  the memory manager, the interpreters access memory through the page tables, the scheduler runs the
  two processors and their events in turn, and the serial interface moves packets between them.

  \<^bold>\<open>Executable memory\<close> (\<^verbatim>\<open>common/Vita/VitaHostSys.cpp\<close>, namespace \<^verbatim>\<open>VitaVM\<close>).
  \<^verbatim>\<open>VitaVM\<close> models the arena, the slot allocator, the table of allocations, the write domain with
  its staging array and the publication of written code; the kernel calls are parameters of the
  record \<open>sce\<close>. \<^verbatim>\<open>VitaVM_Arena\<close> and \<^verbatim>\<open>VitaVM_Inv\<close> prove the invariant of the reachable
  states: allocations are disjoint and inside the arena, one writer at a time, and a successful
  publication makes the executable range equal to what was written.

  \<^bold>\<open>The emitter\<close> (\<^verbatim>\<open>pcsx2/vita/A32Emitter.cpp\<close>). \<^verbatim>\<open>A32_Buffer\<close> is the code buffer: life
  cycle, appending, patching, flushing, statistics. \<^verbatim>\<open>A32_Encode\<close>, \<^verbatim>\<open>A32_Emit\<close>,
  \<^verbatim>\<open>A32_Encode_Neon\<close> and \<^verbatim>\<open>A32_Emit_Neon\<close> are the encoders and emitters.
  \<^verbatim>\<open>A32_Buffer_Ops\<close>, \<^verbatim>\<open>A32_Buffer_Inv\<close> and \<^verbatim>\<open>A32_Buffer_Props\<close> prove that every reachable
  buffer is consistent and that a flush publishes exactly its words. \<^verbatim>\<open>A32_Machine\<close> executes the
  integer instructions of the architecture; \<^verbatim>\<open>A32_Sink\<close>, \<^verbatim>\<open>A32_Correct\<close> and
  \<^verbatim>\<open>A32_Correct_Props\<close> prove on it that emitted sequences compute what their names say.

  \<^bold>\<open>The main processor\<close> (\<^verbatim>\<open>pcsx2/R5900OpcodeImpl.cpp\<close>, \<^verbatim>\<open>pcsx2/MMI.cpp\<close>,
  \<^verbatim>\<open>pcsx2/R5900.cpp\<close>). \<^verbatim>\<open>EE_Regs\<close> has the 128-bit registers with their lanes and the exception
  entry, \<^verbatim>\<open>EE_Int\<close> and \<^verbatim>\<open>EE_MMI\<close> one definition per register instruction, \<^verbatim>\<open>EE_Mem\<close> the
  loads and stores. \<^verbatim>\<open>EE_Arith\<close>, \<^verbatim>\<open>EE_Lanes\<close> and \<^verbatim>\<open>EE_Props\<close> show the arithmetic, the
  traps and the lane operations exact; \<^verbatim>\<open>EE_Access\<close> and \<^verbatim>\<open>EE_Access_Props\<close> that loads and
  stores in main memory refine a flat byte memory, on either provider of the processor: on a
  misaligned address the interpreter abandons the instruction, while the block compiler's
  \<^verbatim>\<open>CancelInstruction\<close> only raises its exit flag and the access is done. \<^verbatim>\<open>EE_Fill\<close> models the batched fill loops of
  the block compiler and \<^verbatim>\<open>EE_Batch\<close> proves the byte loop equal to the guest loop, one
  instruction at a time, and that the loop is left, with the whole range cleared, however often the
  helper hands control back in between.

  \<^bold>\<open>Virtual memory\<close> (\<^verbatim>\<open>pcsx2/vtlb.cpp\<close>, \<^verbatim>\<open>pcsx2/vtlb.h\<close>, \<^verbatim>\<open>pcsx2/MemoryMap.cpp\<close>,
  \<^verbatim>\<open>pcsx2/Memory.cpp\<close>). \<^verbatim>\<open>VTLB\<close> has the packed page entries, the mapping operations and the
  windows of the memory map; \<^verbatim>\<open>VTLB_Inv\<close> and \<^verbatim>\<open>VTLB_Props\<close> prove that the identity window that
  the compiler relies on is sound. \<^verbatim>\<open>VTLB_Setup\<close> has the whole set-up by \<open>memReset\<close> and proves
  what the tables map afterwards. Handlers of pages are parameters.

  \<^bold>\<open>The I/O processor\<close> (\<^verbatim>\<open>pcsx2/R3000A.cpp\<close>, \<^verbatim>\<open>pcsx2/R3000AInterpreter.cpp\<close>,
  \<^verbatim>\<open>pcsx2/R3000AOpcodeTables.cpp\<close>, \<^verbatim>\<open>pcsx2/IopMem.cpp\<close>). \<^verbatim>\<open>IOP_Regs\<close>, \<^verbatim>\<open>IOP_Mem\<close>,
  \<^verbatim>\<open>IOP_Int\<close>, \<^verbatim>\<open>IOP_Event\<close> and \<^verbatim>\<open>IOP_Exec\<close> follow the files: registers and exceptions,
  lookup tables and accesses, instructions, the event test, the interpreter with its delay slots and
  the executor of a block of opcodes. \<^verbatim>\<open>IOP_Exec_Inv\<close> proves that a block ends, \<^verbatim>\<open>IOP_Zero\<close>
  that register 0 is kept, \<^verbatim>\<open>IOP_Branch\<close> what branches do, \<^verbatim>\<open>IOP_Sched\<close> that no event is
  missed, \<^verbatim>\<open>IOP_Access\<close>, \<^verbatim>\<open>IOP_Unaligned\<close> and \<^verbatim>\<open>IOP_Blocks\<close> that memory accesses refine a
  flat memory; \<^verbatim>\<open>IOP_Mem_Props\<close> and \<^verbatim>\<open>IOP_Props\<close> state the properties. \<^verbatim>\<open>EE_IOP\<close> relates
  the two processors: the main processor simulates the integer instructions of the other.

  \<^bold>\<open>The event scheduler\<close> (\<^verbatim>\<open>pcsx2/R5900.cpp\<close>, the interrupt functions of
  \<^verbatim>\<open>pcsx2/Hw.cpp\<close>). \<^verbatim>\<open>EE_Sched\<close> has the calendar of the main processor: the deadlines of
  the pending events, the cached owner deadlines of the Vita scheduler, raising and dispatching
  events, the interrupt tests, and \<open>cpuEventTest_Shared\<close>, which takes either the full path or the
  narrow path that runs only the I/O processor. \<^verbatim>\<open>EE_Sched_Props\<close> shows what raising an event
  promises and, for every calendar reached from the reset by the scheduler's own steps with no event
  pending but due ones when a full test begins, that the narrow path skips nothing that is due; and
  a deadline that the full test forgets when an event is pending but not due. The state extends the one of the I/O processor through its device field.

  \<^bold>\<open>Counters and video timing\<close> (\<^verbatim>\<open>pcsx2/IopCounters.cpp\<close>, \<^verbatim>\<open>pcsx2/Counters.cpp\<close>).
  \<^verbatim>\<open>IOP_Counters\<close> and \<^verbatim>\<open>EE_Counters\<close> have the counters of the two processors, their
  gates, targets, interrupts and deadlines, the horizontal and vertical edges, and the fold that lets the
  scheduler run ahead over edges nothing can see; the state extends the one of the scheduler.
  \<^verbatim>\<open>EE_Counters_Props\<close> proves the fold exact against the edge-by-edge update and
  \<^verbatim>\<open>IOP_Counters_Props\<close> that reading a counter does not disturb it, except on the pixel clock.

  \<^bold>\<open>DMA and the serial interface\<close> (\<^verbatim>\<open>pcsx2/Dmac.h\<close>, \<^verbatim>\<open>pcsx2/Dmac.cpp\<close>,
  \<^verbatim>\<open>pcsx2/Hw.cpp\<close>, \<^verbatim>\<open>pcsx2/Sif.h\<close>, \<^verbatim>\<open>pcsx2/Sif0.cpp\<close>, \<^verbatim>\<open>pcsx2/Sif1.cpp\<close>).
  \<^verbatim>\<open>DMAC\<close> has the channels, the chains, address translation and the register writes;
  \<^verbatim>\<open>DMAC_Props\<close> shows addresses inside their arrays, the address stack to be a call stack and
  queued starts not lost. \<^verbatim>\<open>SIF_Fifo\<close> has the word copies and the ring and proves the ring to be
  a bounded queue; \<^verbatim>\<open>SIF_Dma\<close> has the two engines, \<^verbatim>\<open>SIF_Props\<close>, \<^verbatim>\<open>SIF1_Props\<close> and
  \<^verbatim>\<open>SIF_Move\<close> show that they stay inside the ring, when they end and what they deliver.

  \<^bold>\<open>Conventions.\<close> Machine integers are words of their width; signed values are words with the same
  bits, compared by the signed orders. Pointers are 32 bits wide, as on the target. Host memory is a
  function from addresses to bytes. An assertion of the program (\<^verbatim>\<open>pxAssert\<close>) is empty, as in
  a release build. Code outside the modelled parts is a field of an environment record, and what a
  property needs of it is a named hypothesis.

  \<^bold>\<open>Fuel.\<close> The interpreter of the I/O processor recurses through delay slots: \<open>exec_fuel\<close> bounds the
  nesting, and a block of \<open>n\<close> opcodes needs at most \<open>n + 1\<close>, which \<open>fallback_block_ends\<close> proves.
  The loops of the event test and of the serial interface take fuel because callbacks or tags may keep
  them going: \<open>None\<close> is running out of it. \<open>sif0_loop_terminates\<close> gives the fuel that is enough,
  \<open>sif1_tag_transfer_hangs\<close> a state for which none is, \<open>silent_fold_exact\<close> the fuel that is enough
  for the fold of edges. In the serial interface an inner \<open>None\<close> is an
  access outside the ring, which \<open>sif0_stays_in_ring\<close> and \<open>sif1_stays_in_ring\<close> exclude. Other loops
  are functions with a termination proof.

  \<^bold>\<open>Not modelled.\<close> The block and region compilers, the graphics back end and the vector units: they
  are clients of the modelled parts, over 200,000 lines, and much of them is generated or is device
  code over system libraries. Floating point: the approximate arithmetic of the vector units and of
  the first coprocessor has no exact specification in the sources. The devices behind the
  DMA channels other than the serial interface, the timing of the video modes, the memory rings of
  the DMA controller and the busy-write game fix; peripherals, save states, the front end and vendored
  code.
\<close>

end
